(* ===== verification/Prelude.thy ===== *)
theory Prelude
  imports Main "HOL-Library.Char_ord" "HOL-Library.List_Lexorder"
begin

text \<open>
  Shared vocabulary of the development: Rust's \<open>Result\<close> as a sum type with early
  return, the checked and saturating operations of the unsigned machine integers, byte
  strings (\<^typ>\<open>string\<close> is the UTF-8 byte sequence of a Rust \<open>String\<close>, so
  \<open>length\<close> is \<open>str::len\<close> and the order is Rust's byte order), loops that stop at
  the first error, and the generic reachability of a step relation.
\<close>

named_theorems result_simps \<open>inversion of results: what an Ok result says about its parts\<close>
named_theorems u64_simps \<open>characterisations of the checked and saturating operations\<close>

section \<open>Results\<close>

abbreviation Ok :: "'a \<Rightarrow> 'e + 'a" where "Ok \<equiv> Inr"
abbreviation Err :: "'e \<Rightarrow> 'e + 'a" where "Err \<equiv> Inl"

text \<open>The \<open>?\<close> operator: go on with the value, return the error unchanged.\<close>

definition ebind :: "'e + 'a \<Rightarrow> ('a \<Rightarrow> 'e + 'b) \<Rightarrow> 'e + 'b" where
  "ebind m k = (case m of Inl e \<Rightarrow> Inl e | Inr x \<Rightarrow> k x)"

definition ok_or :: "'a option \<Rightarrow> 'e \<Rightarrow> 'e + 'a" where
  "ok_or v e = (case v of None \<Rightarrow> Err e | Some x \<Rightarrow> Ok x)"

definition map_err :: "('e \<Rightarrow> 'f) \<Rightarrow> 'e + 'a \<Rightarrow> 'f + 'a" where
  "map_err f m = (case m of Inl e \<Rightarrow> Inl (f e) | Inr x \<Rightarrow> Inr x)"

text \<open>A \<open>for\<close> loop whose body may return an error: the first error ends the loop.\<close>

fun efor :: "'a list \<Rightarrow> ('a \<Rightarrow> 'e + unit) \<Rightarrow> 'e + unit" where
  "efor [] body = Ok ()"
| "efor (x # xs) body = ebind (body x) (\<lambda>_. efor xs body)"

text \<open>The same with an accumulator that the body updates.\<close>

fun efold :: "('a \<Rightarrow> 's \<Rightarrow> 'e + 's) \<Rightarrow> 'a list \<Rightarrow> 's \<Rightarrow> 'e + 's" where
  "efold body [] s = Ok s"
| "efold body (x # xs) s = ebind (body x s) (efold body xs)"

text \<open>
  What becomes of a file that is replaced through a temporary file: it is replaced; or an error comes
  before the renaming, and the file is as it was; or the directory cannot be synchronised after it, and
  an error is returned although the file is replaced.
\<close>

datatype file_write = Replaced | NotReplaced string | NotSynced string

fun replace_file :: "file_write \<Rightarrow> 'a \<Rightarrow> 'a option \<Rightarrow> (string + unit) \<times> 'a option" where
  "replace_file Replaced new old = (Ok (), Some new)"
| "replace_file (NotReplaced e) new old = (Err e, old)"
| "replace_file (NotSynced e) new old = (Err e, Some new)"

lemma ebind_simps [simp]: "ebind (Inl e) k = Inl e" "ebind (Inr x) k = k x"
  by (simp_all add: ebind_def)

lemma ebind_eq_Ok [result_simps]: "ebind m k = Inr y \<longleftrightarrow> (\<exists>x. m = Inr x \<and> k x = Inr y)"
  by (cases m) simp_all

lemma ebind_OkE: "ebind m k = Inr y \<Longrightarrow> (\<And>z. m = Inr z \<Longrightarrow> k z = Inr y \<Longrightarrow> P) \<Longrightarrow> P"
  by (auto simp: ebind_eq_Ok)

lemma ebind_eq_Err: "ebind m k = Inl e \<longleftrightarrow> m = Inl e \<or> (\<exists>x. m = Inr x \<and> k x = Inl e)"
  by (cases m) simp_all

lemma ebind_assoc: "ebind (ebind m f) g = ebind m (\<lambda>x. ebind (f x) g)"
  by (cases m) simp_all

lemma ebind_cong [fundef_cong]:
  "m = m' \<Longrightarrow> (\<And>x. m' = Inr x \<Longrightarrow> k x = k' x) \<Longrightarrow> ebind m k = ebind m' k'"
  by (cases m') simp_all

lemma ok_or_simps [simp]: "ok_or None e = Inl e" "ok_or (Some x) e = Inr x"
  by (simp_all add: ok_or_def)

lemma ok_or_eq_Ok [result_simps]: "ok_or v e = Inr x \<longleftrightarrow> v = Some x"
  by (cases v) simp_all

lemma ok_or_eq_Err: "ok_or v e = Inl e' \<longleftrightarrow> v = None \<and> e' = e"
  by (cases v) auto

lemma map_err_simps [simp]: "map_err f (Inl e) = Inl (f e)" "map_err f (Inr x) = Inr x"
  by (simp_all add: map_err_def)

lemma map_err_eq_Ok [result_simps]: "map_err f m = Inr x \<longleftrightarrow> m = Inr x"
  by (cases m) simp_all

lemma efor_eq_Ok [result_simps]: "efor xs body = Inr u \<longleftrightarrow> (\<forall>x\<in>set xs. body x = Inr ())"
  by (induction xs) (auto simp: ebind_eq_Ok)

lemma efor_eq_Err: "efor xs body = Inl e \<Longrightarrow> \<exists>x\<in>set xs. body x = Inl e"
  by (induction xs) (auto simp: ebind_eq_Err)

lemma efor_cong [fundef_cong]:
  "xs = ys \<Longrightarrow> (\<And>x. x \<in> set ys \<Longrightarrow> f x = g x) \<Longrightarrow> efor xs f = efor ys g"
proof (induction ys arbitrary: xs)
  case (Cons y ys)
  then show ?case by (cases "g y") auto
qed simp

lemma efold_append: "efold f (xs @ ys) s = ebind (efold f xs s) (efold f ys)"
proof (induction xs arbitrary: s)
  case (Cons x xs)
  then show ?case by (cases "f x s") simp_all
qed simp

text \<open>An invariant of the accumulator holds for the result of a loop that finishes.\<close>

lemma efold_invariant:
  assumes "efold f xs s = Inr s'" and "I s"
    and "\<And>x s s'. x \<in> set xs \<Longrightarrow> I s \<Longrightarrow> f x s = Inr s' \<Longrightarrow> I s'"
  shows "I s'"
  using assms by (induction xs arbitrary: s) (auto simp: ebind_eq_Ok)

text \<open>
  A loop whose body either applies \<open>u\<close> or fails because a bound would be broken: where a
  broken bound stays broken, the loop computes the fold of \<open>u\<close> or fails.
\<close>

lemma efold_guarded:
  assumes "\<And>x s. x \<in> set xs \<Longrightarrow> P s \<Longrightarrow> f x s = (if P (u x s) then Inr (u x s) else Inl e)"
    and "\<And>x s. P (u x s) \<Longrightarrow> P s" and "P s"
  shows "efold f xs s = (if P (fold u xs s) then Inr (fold u xs s) else Inl e)"
  using assms(1,3)
proof (induction xs arbitrary: s)
  case (Cons x xs)
  have "P (fold u ys t) \<Longrightarrow> P t" for ys t
    by (induction ys arbitrary: t) (auto dest: assms(2))
  with Cons show ?case by (cases "P (u x s)") auto
qed simp

lemma efold_Ok_body: "efold f xs s = Inr s' \<Longrightarrow> x \<in> set xs \<Longrightarrow> \<exists>t t'. f x t = Inr t'"
  by (induction xs arbitrary: s) (auto simp: ebind_eq_Ok)

text \<open>Fail with an error unless a condition holds.\<close>

definition ensure :: "bool \<Rightarrow> 'e \<Rightarrow> 'e + unit" where
  "ensure b e = (if b then Ok () else Err e)"

lemma ensure_eq_Ok [result_simps]: "ensure b e = Inr u \<longleftrightarrow> b"
  by (simp add: ensure_def)

lemma ensure_simps [simp]: "ensure True e = Inr ()" "ensure False e = Inl e"
  by (simp_all add: ensure_def)

section \<open>Unsigned machine integers\<close>

text \<open>
  Unsigned integers of width \<open>w\<close> are the naturals below \<open>2 ^ w\<close>; the operations
  below write out what Rust does at the upper bound. \<open>saturating_sub\<close> is subtraction
  on \<^typ>\<open>nat\<close>, which stops at zero.
\<close>

definition u64_max :: nat where "u64_max = 2 ^ 64 - 1"
definition u32_max :: nat where "u32_max = 2 ^ 32 - 1"
definition u16_max :: nat where "u16_max = 2 ^ 16 - 1"
definition u8_max :: nat where "u8_max = 2 ^ 8 - 1"

definition checked_add :: "nat \<Rightarrow> nat \<Rightarrow> nat \<Rightarrow> nat option" where
  "checked_add bound a b = (if a + b \<le> bound then Some (a + b) else None)"

definition saturating_add :: "nat \<Rightarrow> nat \<Rightarrow> nat \<Rightarrow> nat" where
  "saturating_add bound a b = min bound (a + b)"

abbreviation saturating_sub :: "nat \<Rightarrow> nat \<Rightarrow> nat" where
  "saturating_sub a b \<equiv> a - b"

abbreviation clamp :: "nat \<Rightarrow> nat \<Rightarrow> nat \<Rightarrow> nat" where
  "clamp lo hi x \<equiv> max lo (min hi x)"

lemma checked_add_eq_Some [u64_simps]:
  "checked_add m a b = Some c \<longleftrightarrow> a + b \<le> m \<and> c = a + b"
  by (auto simp: checked_add_def)

lemma checked_add_eq_None [u64_simps]: "checked_add m a b = None \<longleftrightarrow> m < a + b"
  by (auto simp: checked_add_def)

lemma saturating_add_exact: "a + b \<le> m \<Longrightarrow> saturating_add m a b = a + b"
  by (simp add: saturating_add_def)

lemma saturating_add_le [u64_simps]: "saturating_add m a b \<le> c \<longleftrightarrow> m \<le> c \<or> a + b \<le> c"
  by (auto simp: saturating_add_def)

section \<open>Byte strings\<close>

fun strip_prefix :: "string \<Rightarrow> string \<Rightarrow> string option" where
  "strip_prefix [] s = Some s"
| "strip_prefix (p # ps) [] = None"
| "strip_prefix (p # ps) (c # cs) = (if p = c then strip_prefix ps cs else None)"

definition starts_with :: "string \<Rightarrow> string \<Rightarrow> bool" where
  "starts_with p s \<longleftrightarrow> strip_prefix p s \<noteq> None"

lemma strip_prefix_eq_Some: "strip_prefix p s = Some r \<longleftrightarrow> s = p @ r"
  by (induction p s rule: strip_prefix.induct) auto

lemma strip_prefix_append [simp]: "strip_prefix p (p @ r) = Some r"
  by (simp add: strip_prefix_eq_Some)

lemma starts_with_iff: "starts_with p s \<longleftrightarrow> (\<exists>r. s = p @ r)"
  by (auto simp: starts_with_def strip_prefix_eq_Some)

text \<open>\<open>str::split\<close> on a set of separator bytes: always at least one part.\<close>

fun split_on :: "(char \<Rightarrow> bool) \<Rightarrow> string \<Rightarrow> string list" where
  "split_on sep [] = [[]]"
| "split_on sep (c # cs) =
     (if sep c then [] # split_on sep cs
      else (case split_on sep cs of [] \<Rightarrow> [[c]] | p # ps \<Rightarrow> (c # p) # ps))"

lemma split_on_nonempty [simp]: "split_on sep s \<noteq> []"
  by (induction s) (auto split: list.splits)

lemma split_on_no_sep: "p \<in> set (split_on sep s) \<Longrightarrow> c \<in> set p \<Longrightarrow> \<not> sep c"
proof (induction s arbitrary: p)
  case (Cons a s)
  obtain q qs where q: "split_on sep s = q # qs"
    by (cases "split_on sep s") simp_all
  have "c \<in> set q \<Longrightarrow> \<not> sep c" "p \<in> set qs \<Longrightarrow> \<not> sep c"
    using Cons.IH Cons.prems(2) q by auto
  then show ?case using Cons.prems q by (auto split: if_splits)
qed simp

text \<open>
  \<open>char::is_control\<close> over the decoded characters: U+0000 to U+001F and U+007F are one
  byte; U+0080 to U+009F are the byte C2 followed by 80 to 9F, and C2 occurs in UTF-8 only
  as the first byte of such a pair.
\<close>

definition byte :: "char \<Rightarrow> nat" where "byte c = of_char c"

lemma of_char_lt_256: "byte c < 256"
  by (simp add: byte_def)

lemma byte_inject: "byte c = byte d \<Longrightarrow> c = d"
  by (simp add: byte_def)

fun has_control :: "string \<Rightarrow> bool" where
  "has_control [] = False"
| "has_control [c] = (byte c < 32 \<or> byte c = 127)"
| "has_control (c # d # cs) =
     (byte c < 32 \<or> byte c = 127 \<or> (byte c = 194 \<and> 128 \<le> byte d \<and> byte d \<le> 159)
      \<or> has_control (d # cs))"

lemma has_control_byte: "has_control s \<Longrightarrow> s \<noteq> []"
  by auto

lemma no_control_bytes: "\<not> has_control s \<Longrightarrow> c \<in> set s \<Longrightarrow> 32 \<le> byte c"
  by (induction s rule: has_control.induct) auto

text \<open>\<open>str::trim\<close> leaves nothing: every character has the Unicode property White_Space.\<close>

fun is_blank :: "string \<Rightarrow> bool" where
  "is_blank [] = True"
| "is_blank (a # s) =
     (if (9 \<le> byte a \<and> byte a \<le> 13) \<or> byte a = 32 then is_blank s
      else case s of
        [] \<Rightarrow> False
      | b # s2 \<Rightarrow>
          if byte a = 0xC2 \<and> (byte b = 0x85 \<or> byte b = 0xA0) then is_blank s2
          else case s2 of
            [] \<Rightarrow> False
          | c # s3 \<Rightarrow>
              (byte a = 0xE1 \<and> byte b = 0x9A \<and> byte c = 0x80
               \<or> byte a = 0xE2 \<and> byte b = 0x80
                  \<and> (0x80 \<le> byte c \<and> byte c \<le> 0x8A \<or> byte c = 0xA8 \<or> byte c = 0xA9 \<or> byte c = 0xAF)
               \<or> byte a = 0xE2 \<and> byte b = 0x81 \<and> byte c = 0x9F
               \<or> byte a = 0xE3 \<and> byte b = 0x80 \<and> byte c = 0x80) \<and> is_blank s3)"

definition is_ascii_digit :: "char \<Rightarrow> bool" where
  "is_ascii_digit c \<longleftrightarrow> 48 \<le> byte c \<and> byte c \<le> 57"

definition is_lower_hex :: "char \<Rightarrow> bool" where
  "is_lower_hex c \<longleftrightarrow> is_ascii_digit c \<or> (97 \<le> byte c \<and> byte c \<le> 102)"

definition is_ascii_alphanumeric :: "char \<Rightarrow> bool" where
  "is_ascii_alphanumeric c \<longleftrightarrow> is_ascii_digit c
     \<or> (65 \<le> byte c \<and> byte c \<le> 90) \<or> (97 \<le> byte c \<and> byte c \<le> 122)"

definition is_ascii_graphic :: "char \<Rightarrow> bool" where
  "is_ascii_graphic c \<longleftrightarrow> 33 \<le> byte c \<and> byte c \<le> 126"

definition scheme_char :: "char \<Rightarrow> bool" where
  "scheme_char c \<longleftrightarrow> (97 \<le> byte c \<and> byte c \<le> 122) \<or> is_ascii_digit c \<or> c = CHR ''-''"

definition split_once :: "char \<Rightarrow> string \<Rightarrow> (string \<times> string) option" where
  "split_once sep s =
     (case dropWhile (\<lambda>c. c \<noteq> sep) s of
        [] \<Rightarrow> None
      | _ # rest \<Rightarrow> Some (takeWhile (\<lambda>c. c \<noteq> sep) s, rest))"

text \<open>Decimal printing of an unsigned integer (\<open>Display\<close>).\<close>

fun show_nat :: "nat \<Rightarrow> string" where
  "show_nat n = (if n < 10 then [char_of (48 + n)]
                 else show_nat (n div 10) @ [char_of (48 + n mod 10)])"

declare show_nat.simps [simp del]

section \<open>Reachable states of a step relation\<close>

inductive reaches :: "('s \<Rightarrow> bool) \<Rightarrow> ('s \<Rightarrow> 's \<Rightarrow> bool) \<Rightarrow> 's \<Rightarrow> bool"
  for init :: "'s \<Rightarrow> bool" and step :: "'s \<Rightarrow> 's \<Rightarrow> bool" where
  reaches_init: "init s \<Longrightarrow> reaches init step s"
| reaches_step: "reaches init step s \<Longrightarrow> step s t \<Longrightarrow> reaches init step t"

text \<open>
  The contract of a component that keeps an invariant: its initial states satisfy it and
  every step keeps it. What a client may conclude is that it holds in every state the
  component can reach, however its operations are interleaved.
\<close>

locale invariant_machine =
  fixes init :: "'s \<Rightarrow> bool" and step :: "'s \<Rightarrow> 's \<Rightarrow> bool" and inv :: "'s \<Rightarrow> bool"
  assumes init_inv: "init s \<Longrightarrow> inv s"
    and step_inv: "inv s \<Longrightarrow> step s t \<Longrightarrow> inv t"
begin

lemma reachable_inv: "reaches init step s \<Longrightarrow> inv s"
  by (induction rule: reaches.induct) (auto intro: init_inv step_inv)

lemma reachable_steps_inv: "inv s \<Longrightarrow> step\<^sup>*\<^sup>* s t \<Longrightarrow> inv t"
  by (rotate_tac, induction rule: rtranclp_induct) (auto intro: step_inv)

end

section \<open>Mutually exclusive claims\<close>

text \<open>
  The contract of a conflict relation between claimed things: it is reflexive and
  symmetric. Holders whose claims never conflict with those of another holder are
  exclusive; that is what a lock table or a scheduler has to keep.
\<close>

locale overlap_relation =
  fixes overlap :: "'a \<Rightarrow> 'a \<Rightarrow> bool"
  assumes overlap_refl: "overlap a a"
    and overlap_sym: "overlap a b \<Longrightarrow> overlap b a"
begin

definition exclusive :: "('h \<Rightarrow> 'a set) \<Rightarrow> 'h set \<Rightarrow> bool" where
  "exclusive claims H \<longleftrightarrow>
     (\<forall>h\<in>H. \<forall>k\<in>H. h \<noteq> k \<longrightarrow> (\<forall>a\<in>claims h. \<forall>b\<in>claims k. \<not> overlap a b))"

lemma exclusive_empty: "exclusive claims {}"
  by (simp add: exclusive_def)

lemma exclusive_subset: "exclusive claims H \<Longrightarrow> K \<subseteq> H \<Longrightarrow> exclusive claims K"
  unfolding exclusive_def by blast

lemma exclusive_shrink:
  "exclusive claims H \<Longrightarrow> K \<subseteq> H \<Longrightarrow> (\<And>h. h \<in> K \<Longrightarrow> claims' h \<subseteq> claims h) \<Longrightarrow> exclusive claims' K"
  unfolding exclusive_def by blast

lemma exclusive_insert:
  assumes "exclusive claims H"
    and "\<And>k a b. k \<in> H \<Longrightarrow> k \<noteq> h \<Longrightarrow> a \<in> claims k \<Longrightarrow> b \<in> claims h \<Longrightarrow> \<not> overlap a b"
  shows "exclusive claims (insert h H)"
  unfolding exclusive_def
proof (intro ballI impI notI)
  fix k k' a b
  assume *: "k \<in> insert h H" "k' \<in> insert h H" "k \<noteq> k'" "a \<in> claims k" "b \<in> claims k'" "overlap a b"
  consider "k = h" "k' \<in> H" | "k' = h" "k \<in> H" | "k \<in> H" "k' \<in> H" using * by auto
  then show False
  proof cases
    case 1
    with * have "overlap b a" "k' \<noteq> h" "b \<in> claims k'" "a \<in> claims h"
      by (auto intro: overlap_sym)
    with 1 assms(2) show ?thesis by blast
  next
    case 2
    with * have "overlap a b" "k \<noteq> h" "a \<in> claims k" "b \<in> claims h" by auto
    with 2 assms(2) show ?thesis by blast
  next
    case 3
    with assms(1) *(3) have "\<forall>a\<in>claims k. \<forall>b\<in>claims k'. \<not> overlap a b"
      unfolding exclusive_def by blast
    with *(4-6) show ?thesis by blast
  qed
qed

lemma exclusive_same_holder:
  "exclusive claims H \<Longrightarrow> h \<in> H \<Longrightarrow> k \<in> H \<Longrightarrow> a \<in> claims h \<Longrightarrow> b \<in> claims k \<Longrightarrow> overlap a b \<Longrightarrow> h = k"
  unfolding exclusive_def by blast

lemma exclusive_shared_claim:
  "exclusive claims H \<Longrightarrow> h \<in> H \<Longrightarrow> k \<in> H \<Longrightarrow> a \<in> claims h \<Longrightarrow> a \<in> claims k \<Longrightarrow> h = k"
  by (rule exclusive_same_holder [OF _ _ _ _ _ overlap_refl])

end

end
