(* ===== verification/Btree_Map.thy ===== *)
theory Btree_Map
  imports Prelude
begin

text \<open>
  The part of Rust's \<open>BTreeMap\<close> the program uses: a finite map kept as its entries in
  strictly ascending key order, which is the order every iteration of the program sees.
  The representation invariant is part of the type, so the components need not carry it.
  The interface the components rely on is the locale \<open>ordered_map\<close>; the accounting
  lemmas on sums over a map are proved there once and used through its interpretation.
\<close>

section \<open>Strictly ascending association lists\<close>

fun al_insert :: "'k::linorder \<Rightarrow> 'v \<Rightarrow> ('k \<times> 'v) list \<Rightarrow> ('k \<times> 'v) list" where
  "al_insert k v [] = [(k, v)]"
| "al_insert k v ((a, b) # ps) =
     (if k < a then (k, v) # (a, b) # ps
      else if k = a then (k, v) # ps
      else (a, b) # al_insert k v ps)"

definition ascending :: "('k::linorder \<times> 'v) list \<Rightarrow> bool" where
  "ascending ps \<longleftrightarrow> sorted_wrt (<) (map fst ps)"

lemma ascending_simps [simp]:
  "ascending []"
  "ascending ((k, v) # ps) \<longleftrightarrow> (\<forall>q\<in>set ps. k < fst q) \<and> ascending ps"
  by (auto simp: ascending_def)

lemma set_al_insert_sub: "set (al_insert k v ps) \<subseteq> insert (k, v) (set ps)"
  by (induction k v ps rule: al_insert.induct) auto

lemma ascending_al_insert: "ascending ps \<Longrightarrow> ascending (al_insert k v ps)"
proof (induction k v ps rule: al_insert.induct)
  case (2 k v a b ps)
  then show ?case using set_al_insert_sub [of k v ps] by fastforce
qed simp

lemma map_of_al_insert: "map_of (al_insert k v ps) = (map_of ps)(k \<mapsto> v)"
  by (induction k v ps rule: al_insert.induct) auto

lemma ascending_filter: "ascending ps \<Longrightarrow> ascending (filter P ps)"
  by (simp add: ascending_def sorted_wrt_map sorted_wrt_filter)

lemma ascending_distinct: "ascending ps \<Longrightarrow> distinct (map fst ps)"
  by (induction ps) (auto simp: ascending_def)

lemma ascending_map_val: "ascending ps \<Longrightarrow> ascending (map (\<lambda>(k, v). (k, f k v)) ps)"
  by (simp add: ascending_def sorted_wrt_map case_prod_unfold)

lemma ascending_ext:
  assumes "ascending ps" "ascending qs" "map_of ps = map_of qs"
  shows "ps = qs"
proof -
  have "set ps = set qs"
    using assms map_of_inject_set [of ps qs] by (simp add: ascending_distinct)
  moreover have "inj_on fst (set qs)"
    using assms(2) ascending_distinct distinct_map by blast
  ultimately show ?thesis
    using assms(1,2) map_sorted_distinct_set_unique [of fst ps qs]
    by (auto simp: ascending_def strict_sorted_iff)
qed

section \<open>The map type\<close>

typedef (overloaded) ('k::linorder, 'v) btree_map = "{ps :: ('k \<times> 'v) list. ascending ps}"
  morphisms entries Btree_map
  by (rule exI [of _ "[]"]) simp

setup_lifting type_definition_btree_map

lift_definition bempty :: "('k::linorder, 'v) btree_map" is "[]" by simp

lift_definition bget :: "('k::linorder, 'v) btree_map \<Rightarrow> 'k \<Rightarrow> 'v option" is map_of .

lift_definition binsert :: "'k::linorder \<Rightarrow> 'v \<Rightarrow> ('k, 'v) btree_map \<Rightarrow> ('k, 'v) btree_map"
  is al_insert by (rule ascending_al_insert)

lift_definition bremove :: "'k::linorder \<Rightarrow> ('k, 'v) btree_map \<Rightarrow> ('k, 'v) btree_map"
  is "\<lambda>k. filter (\<lambda>p. fst p \<noteq> k)" by (rule ascending_filter)

lift_definition bretain ::
  "('k::linorder \<Rightarrow> 'v \<Rightarrow> bool) \<Rightarrow> ('k, 'v) btree_map \<Rightarrow> ('k, 'v) btree_map"
  is "\<lambda>P. filter (\<lambda>p. P (fst p) (snd p))" by (rule ascending_filter)

text \<open>A write through every reference of \<open>values_mut\<close>.\<close>

lift_definition bmap ::
  "('k \<Rightarrow> 'v \<Rightarrow> 'w) \<Rightarrow> ('k::linorder, 'v) btree_map \<Rightarrow> ('k, 'w) btree_map"
  is "\<lambda>f. map (\<lambda>(k, v). (k, f k v))" by (rule ascending_map_val)

definition bkeys :: "('k::linorder, 'v) btree_map \<Rightarrow> 'k list" where
  "bkeys m = map fst (entries m)"

definition bvalues :: "('k::linorder, 'v) btree_map \<Rightarrow> 'v list" where
  "bvalues m = map snd (entries m)"

definition blen :: "('k::linorder, 'v) btree_map \<Rightarrow> nat" where
  "blen m = length (entries m)"

definition bcontains :: "('k::linorder, 'v) btree_map \<Rightarrow> 'k \<Rightarrow> bool" where
  "bcontains m k \<longleftrightarrow> bget m k \<noteq> None"

text \<open>\<open>get_mut\<close> followed by a write through the reference; nothing where the key is absent.\<close>

definition bupdate ::
  "'k::linorder \<Rightarrow> ('v \<Rightarrow> 'v) \<Rightarrow> ('k, 'v) btree_map \<Rightarrow> ('k, 'v) btree_map" where
  "bupdate k f m = (case bget m k of None \<Rightarrow> m | Some v \<Rightarrow> binsert k (f v) m)"

abbreviation bdom :: "('k::linorder, 'v) btree_map \<Rightarrow> 'k set" where
  "bdom m \<equiv> dom (bget m)"

lemma entries_bempty [simp]: "entries bempty = []"
  by transfer simp

lemma entries_binsert [simp]: "entries (binsert k v m) = al_insert k v (entries m)"
  by transfer simp

lemma entries_bremove [simp]: "entries (bremove k m) = filter (\<lambda>p. fst p \<noteq> k) (entries m)"
  by transfer simp

lemma entries_bretain [simp]:
  "entries (bretain P m) = filter (\<lambda>p. P (fst p) (snd p)) (entries m)"
  by transfer simp

lemma entries_bmap [simp]: "entries (bmap f m) = map (\<lambda>(k, v). (k, f k v)) (entries m)"
  by transfer simp

lemma bget_entries: "bget m k = map_of (entries m) k"
  by transfer simp

lemma ascending_entries [simp]: "ascending (entries m)"
  using entries [of m] by simp

lemma distinct_keys [simp]: "distinct (map fst (entries m))"
  by (simp add: ascending_distinct)

lemma bmap_ext: "(\<And>k. bget m k = bget m' k) \<Longrightarrow> m = m'"
  by (transfer, rule ascending_ext) auto

lemma bget_bempty [simp]: "bget bempty k = None"
  by transfer simp

lemma bget_binsert [simp]: "bget (binsert k v m) k' = (if k' = k then Some v else bget m k')"
  by transfer (simp add: map_of_al_insert)

lemma bget_bremove [simp]: "bget (bremove k m) k' = (if k' = k then None else bget m k')"
proof (transfer, goal_cases)
  case (1 k m k')
  show ?case by (induction m) auto
qed

lemma bget_bretain:
  "bget (bretain P m) k =
     (case bget m k of None \<Rightarrow> None | Some v \<Rightarrow> if P k v then Some v else None)"
proof (transfer, goal_cases)
  case (1 P m k)
  then show ?case
  proof (induction m)
    case (Cons p m)
    have "map_of (filter (\<lambda>p. P (fst p) (snd p)) m) (fst p) = None"
      using Cons.prems by (cases p) (auto simp: map_of_eq_None_iff)
    then show ?case using Cons by (cases p) auto
  qed simp
qed

lemma bget_bretain_Some [simp]: "bget (bretain P m) k = Some v \<longleftrightarrow> bget m k = Some v \<and> P k v"
  by (auto simp: bget_bretain split: option.splits)

lemma bget_bupdate [simp]:
  "bget (bupdate k f m) k' = (if k' = k then map_option f (bget m k) else bget m k')"
  by (cases "bget m k") (auto simp: bupdate_def)

lemma in_entries_iff [simp]: "(k, v) \<in> set (entries m) \<longleftrightarrow> bget m k = Some v"
  by (simp add: bget_entries)

lemma in_bkeys_iff [simp]: "k \<in> set (bkeys m) \<longleftrightarrow> k \<in> bdom m"
  by (force simp: bkeys_def dom_def simp flip: in_entries_iff)

lemma set_bkeys: "set (bkeys m) = bdom m"
  by auto

lemma in_bvalues_iff: "v \<in> set (bvalues m) \<longleftrightarrow> (\<exists>k. bget m k = Some v)"
  by (force simp: bvalues_def simp flip: in_entries_iff)

lemma finite_bdom [simp]: "finite (bdom m)"
  by (metis List.finite_set set_bkeys)

lemma bcontains_iff [simp]: "bcontains m k \<longleftrightarrow> k \<in> bdom m"
  by (auto simp: bcontains_def)

lemma blen_card: "blen m = card (bdom m)"
  by (metis blen_def bkeys_def distinct_card distinct_keys length_map set_bkeys)

lemma blen_binsert: "blen (binsert k v m) = (if k \<in> bdom m then blen m else Suc (blen m))"
proof -
  have "bdom (binsert k v m) = insert k (bdom m)" by (auto split: if_splits)
  then show ?thesis by (simp add: blen_card card_insert_if)
qed

lemma blen_bupdate [simp]: "blen (bupdate k f m) = blen m"
  by (auto simp: bupdate_def blen_binsert split: option.splits)

lemma bdom_bupdate [simp]: "bdom (bupdate k f m) = bdom m"
  by (auto split: if_splits)

lemma bempty_simps [simp]:
  "bretain P bempty = bempty" "blen bempty = 0" "bvalues bempty = []" "bdom bempty = {}"
  by (rule bmap_ext) (simp_all add: bget_bretain blen_def bvalues_def dom_def)

lemma binsert_binsert [simp]: "binsert k v (binsert k w m) = binsert k v m"
  by (rule bmap_ext) simp

lemma bupdate_binsert [simp]: "bupdate k f (binsert k v m) = binsert k (f v) m"
  by (simp add: bupdate_def)

lemma bretain_binsert:
  "bretain P (binsert k v m) = (if P k v then binsert k v (bretain P m) else bremove k (bretain P m))"
  by (rule bmap_ext) (simp add: bget_bretain)

lemma bget_fold_insert:
  "distinct (map fst ps) \<Longrightarrow> bget (fold (\<lambda>(k, v). binsert k v) ps m) j =
     (case map_of ps j of None \<Rightarrow> bget m j | Some v \<Rightarrow> Some v)"
  by (induction ps arbitrary: m) (auto simp: map_of_eq_None_iff [THEN iffD2] split: option.splits)

text \<open>Collecting the entries of a map builds the map again.\<close>

lemma fold_binsert_entries: "fold (\<lambda>(k, v). binsert k v) (entries m) bempty = m"
  by (rule bmap_ext) (simp add: bget_fold_insert bget_entries [symmetric] split: option.splits)

lemma bupdate_id: "(\<And>v. bget m k = Some v \<Longrightarrow> f v = v) \<Longrightarrow> bupdate k f m = m"
  by (cases "bget m k") (auto simp: bupdate_def intro!: bmap_ext)

instantiation btree_map :: (linorder, equal) equal
begin

definition equal_btree_map :: "('a, 'b) btree_map \<Rightarrow> ('a, 'b) btree_map \<Rightarrow> bool" where
  "equal_btree_map m m' \<longleftrightarrow> entries m = entries m'"

instance
  by standard (simp add: equal_btree_map_def entries_inject)

end

section \<open>The interface of an ordered map\<close>

text \<open>
  What the components rely on: lookup after insert and remove, and iteration in ascending
  key order over exactly the bindings. The sums over all bindings with which budgets are
  accounted follow from these laws alone.
\<close>

locale ordered_map =
  fixes empty :: "'m" and get :: "'m \<Rightarrow> 'k::linorder \<Rightarrow> 'v option"
    and ins :: "'k \<Rightarrow> 'v \<Rightarrow> 'm \<Rightarrow> 'm" and del :: "'k \<Rightarrow> 'm \<Rightarrow> 'm"
    and items :: "'m \<Rightarrow> ('k \<times> 'v) list"
  assumes get_empty: "get empty k = None"
    and get_ins: "get (ins k v m) k' = (if k' = k then Some v else get m k')"
    and get_del: "get (del k m) k' = (if k' = k then None else get m k')"
    and items_ascending: "sorted_wrt (<) (map fst (items m))"
    and items_get: "(k, v) \<in> set (items m) \<longleftrightarrow> get m k = Some v"
begin

definition total :: "('k \<Rightarrow> 'v \<Rightarrow> nat) \<Rightarrow> 'm \<Rightarrow> nat" where
  "total f m = (\<Sum>(k, v)\<leftarrow>items m. f k v)"

lemma keys_distinct: "distinct (map fst (items m))"
  using items_ascending strict_sorted_iff by blast

lemma finite_keys: "finite (dom (get m))"
proof -
  have "dom (get m) = fst ` set (items m)"
    by (force simp flip: items_get)
  then show ?thesis by simp
qed

lemma total_eq_sum: "total f m = (\<Sum>k\<in>dom (get m). f k (the (get m k)))"
proof -
  have d: "distinct (items m)" using keys_distinct distinct_map by blast
  have inj: "inj_on fst (set (items m))" using keys_distinct distinct_map by blast
  have dm: "dom (get m) = fst ` set (items m)"
    by (force simp flip: items_get)
  have "total f m = (\<Sum>p\<in>set (items m). f (fst p) (snd p))"
    using d by (simp add: total_def sum_list_distinct_conv_sum_set case_prod_unfold)
  also have "\<dots> = (\<Sum>p\<in>set (items m). f (fst p) (the (get m (fst p))))"
    by (rule sum.cong [OF refl]) (metis items_get option.sel prod.collapse)
  also have "\<dots> = (\<Sum>k\<in>dom (get m). f k (the (get m k)))"
    using inj by (simp add: dm sum.reindex)
  finally show ?thesis .
qed

lemma total_ins_new: "get m k = None \<Longrightarrow> total f (ins k v m) = total f m + f k v"
proof -
  assume new: "get m k = None"
  have dm: "dom (get (ins k v m)) = insert k (dom (get m))"
    by (auto simp: get_ins split: if_splits)
  have "total f (ins k v m)
      = f k v + (\<Sum>j\<in>dom (get m). f j (the (get (ins k v m) j)))"
    using new by (simp add: total_eq_sum dm finite_keys domIff get_ins)
  also have "(\<Sum>j\<in>dom (get m). f j (the (get (ins k v m) j))) = total f m"
    unfolding total_eq_sum using new by (intro sum.cong) (auto simp: get_ins)
  finally show ?thesis by simp
qed

lemma total_split:
  assumes "get m k = Some v"
  shows "total f m = f k v + (\<Sum>j\<in>dom (get m) - {k}. f j (the (get m j)))"
  using assms sum.remove [OF finite_keys, of k m "\<lambda>j. f j (the (get m j))"]
  by (simp add: total_eq_sum domI)

lemma total_ins_old:
  assumes "get m k = Some w"
  shows "total f (ins k v m) + f k w = total f m + f k v"
proof -
  have dm: "dom (get (ins k v m)) = dom (get m)"
    using assms by (auto simp: get_ins split: if_splits)
  have "(\<Sum>j\<in>dom (get m) - {k}. f j (the (get (ins k v m) j)))
      = (\<Sum>j\<in>dom (get m) - {k}. f j (the (get m j)))"
    by (intro sum.cong) (auto simp: get_ins)
  moreover have "get (ins k v m) k = Some v" by (simp add: get_ins)
  ultimately show ?thesis
    using total_split [OF assms, of f] total_split [of "ins k v m" k v f] dm by simp
qed

lemma total_del:
  assumes "get m k = Some v"
  shows "total f (del k m) + f k v = total f m"
proof -
  have dm: "dom (get (del k m)) = dom (get m) - {k}"
    by (auto simp: get_del split: if_splits)
  have "total f (del k m) = (\<Sum>j\<in>dom (get m) - {k}. f j (the (get m j)))"
    unfolding total_eq_sum dm by (intro sum.cong) (auto simp: get_del)
  then show ?thesis using total_split [OF assms, of f] by simp
qed

lemma total_cong:
  assumes "\<And>k. get m k = get m' k" and "\<And>k v. get m k = Some v \<Longrightarrow> f k v = g k v"
  shows "total f m = total g m'"
proof -
  have "dom (get m) = dom (get m')" using assms(1) by auto
  then show ?thesis unfolding total_eq_sum
    by (intro sum.cong) (auto simp: assms(1) [symmetric] assms(2))
qed

lemma total_mono:
  assumes "\<And>k v. get m k = Some v \<Longrightarrow> f k v \<le> g k v"
  shows "total f m \<le> total g m"
  unfolding total_eq_sum by (rule sum_mono) (auto simp: assms)

lemma total_add: "total (\<lambda>k v. f k v + g k v) m = total f m + total g m"
  by (simp add: total_eq_sum sum.distrib)

lemma total_member: "get m k = Some v \<Longrightarrow> f k v \<le> total f m"
  using total_split [of m k v f] by simp

lemma total_empty: "total f empty = 0"
  by (simp add: total_eq_sum get_empty dom_def)

end

interpretation bm: ordered_map bempty bget binsert bremove entries
  using ascending_entries by unfold_locales (auto simp: ascending_def)

text \<open>Summing a map with a machine integer: the exact sum or overflow.\<close>

definition add_u64 :: "'e \<Rightarrow> nat \<Rightarrow> nat \<Rightarrow> 'e + nat" where
  "add_u64 e a b = ok_or (checked_add u64_max a b) e"

lemma add_u64_eq_Ok [result_simps]: "add_u64 e a b = Inr c \<longleftrightarrow> a + b \<le> u64_max \<and> c = a + b"
  by (simp add: add_u64_def result_simps u64_simps)

lemma add_u64_exact [simp]: "a + b \<le> u64_max \<Longrightarrow> add_u64 e a b = Inr (a + b)"
  by (simp add: result_simps)

end
