(* ===== verification/Budget_Cascade.thy ===== *)
theory Budget_Cascade
  imports Btree_Map
begin

text \<open>
  The budget a delegating parent hands to a child (\<open>budget_cascade.rs\<close>): a fraction of
  what the parent has left, clamped between a minimum and a maximum, and the validation
  of the result (positive, within the cascade depth, no agent twice in the lineage).
\<close>

section \<open>Scaling an unsigned integer by a double\<close>

text \<open>
  A double is a NaN, an infinity, or a signed significand times a power of two. The only
  floating-point expression of this component is \<open>(n as f64 * x) as u64\<close>: both the
  conversion and the product round to 53 significant bits, ties to even; the final cast
  truncates towards zero, saturates at \<open>u64::MAX\<close> and maps NaN to zero. Exponent
  overflow and subnormal results need no case: beyond the range of a double the cast
  saturates, and below one it truncates to zero, as the exact product does.
\<close>

datatype f64 = NaN | Infinite bool | Finite bool nat int

fun bit_count :: "nat \<Rightarrow> nat" where
  "bit_count n = (if n = 0 then 0 else Suc (bit_count (n div 2)))"

declare bit_count.simps [simp del]

definition round53 :: "nat \<Rightarrow> int \<Rightarrow> nat \<times> int" where
  "round53 m e =
     (if m < 2 ^ 53 then (m, e)
      else let k = bit_count m - 53; q = m div 2 ^ k; r = m mod 2 ^ k; half = 2 ^ (k - 1)
           in (if half < r \<or> (r = half \<and> odd q) then q + 1 else q, e + int k))"

definition scale_u64 :: "nat \<Rightarrow> f64 \<Rightarrow> nat" where
  "scale_u64 n x =
     (case x of
        NaN \<Rightarrow> 0
      | Infinite neg \<Rightarrow> if neg \<or> n = 0 then 0 else u64_max
      | Finite neg m e \<Rightarrow>
          if neg then 0
          else let (a, ea) = round53 n 0; (p, ep) = round53 (a * m) (ea + e)
               in min u64_max (if 0 \<le> ep then p * 2 ^ nat ep else p div 2 ^ nat (- ep)))"

section \<open>Data\<close>

record budget_allocation =
  parent_budget_tokens :: nat
  parent_used_tokens :: nat
  child_fraction :: f64
  minimum_budget :: nat
  maximum_budget :: nat

definition default_budget_allocation :: budget_allocation where
  "default_budget_allocation =
     \<lparr>parent_budget_tokens = 0, parent_used_tokens = 0, child_fraction = Finite False 1 (- 1),
      minimum_budget = 1000, maximum_budget = 500000\<rparr>"

record cascaded_budget =
  allocated_tokens :: nat
  parent_remaining :: nat
  cascade_depth :: nat
  cascade_lineage :: "string list"

datatype cascade_error =
    ZeroAllocation
  | DepthLimitExceeded nat nat
  | LineageCycle string

definition MAX_CASCADE_DEPTH :: nat where "MAX_CASCADE_DEPTH = 5"

section \<open>Operations\<close>

definition cascade_budget :: "budget_allocation \<Rightarrow> cascaded_budget" where
  "cascade_budget a =
     (let remaining = saturating_sub (parent_budget_tokens a) (parent_used_tokens a);
          fractional = scale_u64 remaining (child_fraction a)
      in \<lparr>allocated_tokens = min (max fractional (minimum_budget a)) (maximum_budget a),
          parent_remaining = remaining, cascade_depth = 0, cascade_lineage = []\<rparr>)"

text \<open>The scan for the first agent that occurs a second time.\<close>

fun lineage_cycle :: "string list \<Rightarrow> string set \<Rightarrow> string option" where
  "lineage_cycle [] seen = None"
| "lineage_cycle (a # as) seen = (if a \<in> seen then Some a else lineage_cycle as (insert a seen))"

definition validate_cascade :: "cascaded_budget \<Rightarrow> cascade_error + unit" where
  "validate_cascade b =
     (if allocated_tokens b = 0 then Err ZeroAllocation
      else if MAX_CASCADE_DEPTH < cascade_depth b
        then Err (DepthLimitExceeded (cascade_depth b) MAX_CASCADE_DEPTH)
      else case lineage_cycle (cascade_lineage b) {} of
             Some a \<Rightarrow> Err (LineageCycle a)
           | None \<Rightarrow> Ok ())"

section \<open>Properties\<close>

lemma scale_u64_le_max: "scale_u64 n x \<le> u64_max"
  by (auto simp: scale_u64_def Let_def split: f64.splits prod.splits)

lemma lineage_cycle_None: "lineage_cycle as seen = None \<longleftrightarrow> distinct as \<and> set as \<inter> seen = {}"
  by (induction as seen rule: lineage_cycle.induct) auto

lemma lineage_cycle_Some:
  "lineage_cycle as seen = Some a \<Longrightarrow> \<exists>xs ys. as = xs @ a # ys \<and> a \<in> seen \<union> set xs"
proof (induction as seen rule: lineage_cycle.induct)
  case (2 b as seen)
  show ?case
  proof (cases "b \<in> seen")
    case False
    with 2 obtain xs ys where "as = xs @ a # ys" "a \<in> insert b seen \<union> set xs"
      by auto
    then show ?thesis by (intro exI [of _ "b # xs"] exI [of _ ys]) auto
  qed (use 2 in force)
qed simp

lemma validate_cascade_eq_Ok [result_simps]:
  "validate_cascade b = Inr u \<longleftrightarrow>
     0 < allocated_tokens b \<and> cascade_depth b \<le> MAX_CASCADE_DEPTH \<and> distinct (cascade_lineage b)"
  using lineage_cycle_None [of "cascade_lineage b" "{}"]
  by (auto simp: validate_cascade_def split: option.splits)

lemma cascade_budget_simps [simp]:
  "parent_remaining (cascade_budget a) = parent_budget_tokens a - parent_used_tokens a"
  "cascade_depth (cascade_budget a) = 0" "cascade_lineage (cascade_budget a) = []"
  by (simp_all add: cascade_budget_def Let_def)

lemma cascade_budget_le_max: "allocated_tokens (cascade_budget a) \<le> maximum_budget a"
  by (simp add: cascade_budget_def Let_def)

end
