(* ===== verification/Work_Graph.thy ===== *)
theory Work_Graph
  imports Budget_Cascade
begin

text \<open>
  The bounded work graph of \<open>work_graph.rs\<close>: its data and the validation of its
  identifiers, budgets, receipts and path claims. Field names carry the name of their
  struct where two structs share one. The hash behind execution fences and spend ids
  (\<open>blake3::hash(..).to_hex()\<close>, a third-party function) is the argument \<open>hash_hex\<close>
  of the definitions that use it.
\<close>

section \<open>Limits\<close>

definition MAX_DELIVERY_ATTEMPTS :: nat where "MAX_DELIVERY_ATTEMPTS = 2"
definition MAX_GRAPH_NODES :: nat where "MAX_GRAPH_NODES = 256"
definition MAX_FAN_OUT :: nat where "MAX_FAN_OUT = 16"
definition MAX_DEPTH :: nat where "MAX_DEPTH = 8"
definition MAX_LOCAL_CONCURRENCY :: nat where "MAX_LOCAL_CONCURRENCY = 32"
definition MAX_IDENTIFIER_BYTES :: nat where "MAX_IDENTIFIER_BYTES = 128"
definition MAX_RESULT_CLAIMS :: nat where "MAX_RESULT_CLAIMS = 64"
definition MAX_PATH_CLAIMS :: nat where "MAX_PATH_CLAIMS = 64"

lemmas limit_defs = MAX_DELIVERY_ATTEMPTS_def MAX_GRAPH_NODES_def MAX_FAN_OUT_def MAX_DEPTH_def
  MAX_LOCAL_CONCURRENCY_def MAX_IDENTIFIER_BYTES_def MAX_RESULT_CLAIMS_def MAX_PATH_CLAIMS_def

section \<open>Data\<close>

datatype child_outcome = Accepted | Rejected | Partial

record result_claim =
  claim_key :: string
  claim_value :: string

datatype usage_source = Measured | Reported

record child_execution_receipt =
  receipt_id :: string
  receipt_node_id :: string
  receipt_outcome_ref :: string
  receipt_outcome :: child_outcome
  receipt_tokens :: nat
  receipt_cost :: nat
  receipt_fence :: "string option"
  receipt_claims :: "result_claim list"
  receipt_usage_source :: usage_source

record measured_execution_spend =
  spend_id :: string
  spend_node_id :: string
  spend_outcome_refs :: "string list"
  spend_tokens :: nat
  spend_cost :: nat
  spend_fence :: string

record result_conflict =
  conflict_key :: string
  conflict_values :: "string list"
  conflict_node_ids :: "string list"

record fused_results =
  fused_accepted :: "(string, string) btree_map"
  fused_conflicts :: "result_conflict list"

record work_attribution =
  accepted_tokens :: nat
  accepted_cost_micros :: nat
  waste_tokens :: nat
  waste_cost_micros :: nat

record team_value_report =
  report_accepted_tokens :: nat
  report_total_tokens :: nat
  report_accepted_cost_micros :: nat
  report_total_cost_micros :: nat
  report_waste_tokens :: nat
  report_waste_cost_micros :: nat
  report_accepted_cost_basis_points :: nat

datatype node_status = Pending | Active | Completed | Stopped | Failed

datatype stop_reason =
    BudgetExhausted | Stale | Redundant | ParentStopped | ManualStop | StopDepthExceeded
  | StopFanOutExceeded | PolicyDenied | LeaseLost | Duplicate | LowValue | ExecutionFailed

record work_node_budget =
  tokens_allocated :: nat
  tokens_consumed :: nat
  cost_micros_allocated :: nat
  cost_micros_consumed :: nat

definition tokens_remaining :: "work_node_budget \<Rightarrow> nat" where
  "tokens_remaining b = saturating_sub (tokens_allocated b) (tokens_consumed b)"

definition cost_remaining :: "work_node_budget \<Rightarrow> nat" where
  "cost_remaining b = saturating_sub (cost_micros_allocated b) (cost_micros_consumed b)"

definition is_exhausted :: "work_node_budget \<Rightarrow> bool" where
  "is_exhausted b \<longleftrightarrow> tokens_remaining b = 0 \<or> cost_remaining b = 0"

definition zero_budget :: work_node_budget where
  "zero_budget = \<lparr>tokens_allocated = 0, tokens_consumed = 0,
                  cost_micros_allocated = 0, cost_micros_consumed = 0\<rparr>"

record chain_budget =
  chain_id :: string
  root_budget_tokens :: nat
  total_consumed_tokens :: nat
  total_allocated_tokens :: nat
  root_budget_cost_micros :: nat
  total_consumed_cost_micros :: nat
  total_allocated_cost_micros :: nat
  unauthorized_tokens :: nat
  unauthorized_cost_micros :: nat
  chain_depth :: nat

definition chain_remaining :: "chain_budget \<Rightarrow> nat" where
  "chain_remaining c = saturating_sub
     (saturating_sub (root_budget_tokens c) (total_consumed_tokens c)) (unauthorized_tokens c)"

record work_node =
  node_id :: string
  agent_id :: string
  parent_node_id :: "string option"
  capsule_ref :: string
  status :: node_status
  budget :: work_node_budget
  depth :: nat
  stop_reason :: "stop_reason option"
  outcome_ref :: "string option"
  claim_attempt :: nat
  delivery_attempt :: "nat option"
  execution_fence :: "string option"
  lease_expires_epoch_ms :: "nat option"
  path_claims :: "string list"
  task_ref :: string
  parent_task_ref :: "string option"
  policy_ref :: string
  expected_outcome_ref :: string
  execution_started :: bool

record bounded_work_graph =
  graph_id :: string
  nodes :: "(string, work_node) btree_map"
  children :: "(string, string list) btree_map"
  chain_budgets :: "(string, chain_budget) btree_map"
  pending_child_budgets :: "(string, work_node_budget) btree_map"
  pending_child_parents :: "(string, string) btree_map"
  receipts :: "(string, child_execution_receipt) btree_map"
  failed_spend :: "(string, measured_execution_spend) btree_map"
  reaped_executions :: "(string, string) btree_map"
  accepted_path :: "string set"
  max_local_concurrency :: nat
  max_fan_out :: nat
  max_depth :: nat

section \<open>Errors\<close>

datatype work_graph_error =
    CapacityExceeded
  | DuplicateNode string
  | NodeNotFound string
  | ParentNotActive string
  | DepthExceeded nat
  | FanOutExceeded nat
  | BudgetExceedsParent nat nat
  | InvalidTransition string
  | LocalConcurrencyExceeded nat
  | InvalidIdentifier string
  | InvalidBudget
  | DuplicateReceipt string
  | ReceiptExceedsBudget string
  | MissingReceipt string
  | RejectedAcceptedPath string
  | TooManyClaims
  | TooManyPathClaims
  | InvalidPathClaim
  | DuplicateClaim string
  | Overflow
  | StaleExecutionFence string
  | InvalidGraph string
  | Cascade cascade_error

text \<open>
  How a call can end without a result: it returns an error, it panics (an \<open>expect\<close> that
  fails or an index that is absent), or a loop of it never ends.
\<close>

datatype wg_failure = Fail work_graph_error | Panic string | Diverges

type_synonym 'a wg = "wg_failure + 'a"

abbreviation fail :: "work_graph_error \<Rightarrow> 'a wg" where "fail e \<equiv> Inl (Fail e)"
abbreviation panic :: "string \<Rightarrow> 'a wg" where "panic m \<equiv> Inl (Panic m)"

section \<open>Fences and ids\<close>

definition execution_fence_of :: "(string \<Rightarrow> string) \<Rightarrow> string \<Rightarrow> work_node \<Rightarrow> string" where
  "execution_fence_of hash_hex gid n =
     ''fence:'' @ hash_hex (gid @ [char_of (0::nat)] @ node_id n @ [char_of (0::nat)] @ agent_id n
       @ [char_of (0::nat)] @ capsule_ref n @ [char_of (0::nat)] @ show_nat (claim_attempt n))"

fun join :: "string \<Rightarrow> string list \<Rightarrow> string" where
  "join sep [] = []"
| "join sep [s] = s"
| "join sep (s # t # ts) = s @ sep @ join sep (t # ts)"

definition measured_spend_id :: "(string \<Rightarrow> string) \<Rightarrow> string list \<Rightarrow> string" where
  "measured_spend_id hash_hex refs = ''spend:'' @ hash_hex (join [char_of (0::nat)] refs)"

definition new_measured_spend ::
  "(string \<Rightarrow> string) \<Rightarrow> string \<Rightarrow> string list \<Rightarrow> nat \<Rightarrow> nat \<Rightarrow> string \<Rightarrow> measured_execution_spend"
where
  "new_measured_spend hash_hex nid refs tokens cost fence =
     \<lparr>spend_id = measured_spend_id hash_hex refs, spend_node_id = nid,
      spend_outcome_refs = refs, spend_tokens = tokens, spend_cost = cost, spend_fence = fence\<rparr>"

definition path_claims_overlap :: "string \<Rightarrow> string \<Rightarrow> bool" where
  "path_claims_overlap left right \<longleftrightarrow>
     left = right
     \<or> (case strip_prefix right left of None \<Rightarrow> False | Some suffix \<Rightarrow> starts_with ''/'' suffix)
     \<or> (case strip_prefix left right of None \<Rightarrow> False | Some suffix \<Rightarrow> starts_with ''/'' suffix)"

section \<open>Validation\<close>

definition validate_identifier :: "string \<Rightarrow> string \<Rightarrow> unit wg" where
  "validate_identifier value field =
     (if value = [] \<or> MAX_IDENTIFIER_BYTES < length value \<or> has_control value
      then fail (InvalidIdentifier field) else Ok ())"

definition validate_budget :: "work_node_budget \<Rightarrow> unit wg" where
  "validate_budget b =
     (if tokens_allocated b < tokens_consumed b \<or> cost_micros_allocated b < cost_micros_consumed b
      then fail InvalidBudget else Ok ())"

text \<open>The test of a fence: \<open>fence:\<close> and 64 lower-case hexadecimal digits.\<close>

definition fence_malformed :: "string \<Rightarrow> bool" where
  "fence_malformed fence \<longleftrightarrow>
     length fence \<noteq> 70 \<or> \<not> starts_with ''fence:'' fence \<or> \<not> list_all is_lower_hex (drop 6 fence)"

fun validate_claims :: "result_claim list \<Rightarrow> string set \<Rightarrow> unit wg" where
  "validate_claims [] keys = Ok ()"
| "validate_claims (c # cs) keys =
     ebind (validate_identifier (claim_key c) ''claim_key'') (\<lambda>_.
     ebind (validate_identifier (claim_value c) ''claim_value'') (\<lambda>_.
     if claim_key c \<in> keys then fail (DuplicateClaim (claim_key c))
     else validate_claims cs (insert (claim_key c) keys)))"

definition validate_receipt :: "child_execution_receipt \<Rightarrow> unit wg" where
  "validate_receipt r =
     ebind (validate_identifier (receipt_id r) ''receipt_id'') (\<lambda>_.
     ebind (validate_identifier (receipt_node_id r) ''node_id'') (\<lambda>_.
     ebind (validate_identifier (receipt_outcome_ref r) ''outcome_ref'') (\<lambda>_.
     if (case receipt_fence r of None \<Rightarrow> False | Some fence \<Rightarrow> fence_malformed fence)
       then fail (InvalidIdentifier ''execution_fence'')
     else if MAX_RESULT_CLAIMS < length (receipt_claims r) then fail TooManyClaims
     else validate_claims (receipt_claims r) {})))"

fun validate_outcome_refs :: "string list \<Rightarrow> string set \<Rightarrow> unit wg" where
  "validate_outcome_refs [] seen = Ok ()"
| "validate_outcome_refs (r # rs) seen =
     ebind (validate_identifier r ''outcome_ref'') (\<lambda>_.
     case strip_prefix ''id:sha256:'' r of
       None \<Rightarrow> fail (InvalidIdentifier ''outcome_ref'')
     | Some digest \<Rightarrow>
         if \<not> (length digest = 64 \<and> list_all is_lower_hex digest)
           then fail (InvalidIdentifier ''outcome_ref'')
         else if digest \<in> seen then fail (InvalidGraph ''duplicate failed spend receipt'')
         else validate_outcome_refs rs (insert digest seen))"

definition validate_measured_spend ::
  "(string \<Rightarrow> string) \<Rightarrow> measured_execution_spend \<Rightarrow> unit wg" where
  "validate_measured_spend hash_hex s =
     ebind (validate_identifier (spend_id s) ''spend_id'') (\<lambda>_.
     ebind (validate_identifier (spend_node_id s) ''node_id'') (\<lambda>_.
     if spend_outcome_refs s = [] \<or> 2 < length (spend_outcome_refs s)
       then fail (InvalidGraph ''failed spend must reference one or two receipts'')
     else ebind (validate_outcome_refs (spend_outcome_refs s) {}) (\<lambda>_.
     if spend_id s \<noteq> measured_spend_id hash_hex (spend_outcome_refs s)
       then fail (InvalidIdentifier ''spend_id'')
     else if fence_malformed (spend_fence s) then fail (InvalidIdentifier ''execution_fence'')
     else Ok ())))"

definition validate_path_claim :: "string \<Rightarrow> unit wg" where
  "validate_path_claim value =
     (case strip_prefix ''path:'' value of
        None \<Rightarrow> fail InvalidPathClaim
      | Some relative \<Rightarrow>
          if relative = [] \<or> 1024 < length relative
             \<or> starts_with ''/'' relative \<or> starts_with [CHR 0x5C] relative
             \<or> list_ex (\<lambda>part. part = [] \<or> part = ''.'' \<or> part = ''..'')
                 (split_on (\<lambda>c. c = CHR ''/'' \<or> c = CHR 0x5C) relative)
             \<or> has_control relative
          then fail InvalidPathClaim else Ok ())"

section \<open>Lemmas on validation\<close>

definition valid_id :: "string \<Rightarrow> bool" where
  "valid_id v \<longleftrightarrow> v \<noteq> [] \<and> length v \<le> MAX_IDENTIFIER_BYTES \<and> \<not> has_control v"

lemma validate_identifier_eq_Ok [result_simps]: "validate_identifier v f = Inr u \<longleftrightarrow> valid_id v"
  by (auto simp: validate_identifier_def valid_id_def)

definition budget_ok :: "work_node_budget \<Rightarrow> bool" where
  "budget_ok b \<longleftrightarrow> tokens_consumed b \<le> tokens_allocated b
     \<and> cost_micros_consumed b \<le> cost_micros_allocated b"

lemma validate_budget_eq_Ok [result_simps]: "validate_budget b = Inr u \<longleftrightarrow> budget_ok b"
  by (auto simp: validate_budget_def budget_ok_def)

lemma validate_claims_eq_Ok:
  "validate_claims cs keys = Inr u \<Longrightarrow>
     distinct (map claim_key cs) \<and> claim_key ` set cs \<inter> keys = {}"
  by (induction cs keys rule: validate_claims.induct) (auto simp: result_simps split: if_splits)

lemma path_claims_overlap_refl [simp]: "path_claims_overlap p p"
  by (simp add: path_claims_overlap_def)

lemma path_claims_overlap_sym: "path_claims_overlap p q \<longleftrightarrow> path_claims_overlap q p"
  by (auto simp: path_claims_overlap_def)

lemma path_claims_overlap_iff:
  "path_claims_overlap p q \<longleftrightarrow> p = q \<or> (\<exists>r. p = q @ ''/'' @ r) \<or> (\<exists>r. q = p @ ''/'' @ r)"
  by (auto simp: path_claims_overlap_def strip_prefix_eq_Some starts_with_iff split: option.splits)

interpretation pc: overlap_relation path_claims_overlap
  by unfold_locales (simp_all add: path_claims_overlap_sym)

end
