(* ===== verification/Control_Ops.thy ===== *)
theory Control_Ops
  imports Work_Graph
begin

text \<open>
  The queries and the control operations of the work graph (\<open>control_ops.rs\<close>): lineages,
  the budget reserved below a node, the cascade that stops a subtree, consumption against
  node and chain, and the validation of every persisted invariant.
\<close>

section \<open>Counting\<close>

definition local_concurrency_limit :: "bounded_work_graph \<Rightarrow> nat" where
  "local_concurrency_limit g = clamp 1 MAX_LOCAL_CONCURRENCY (max_local_concurrency g)"

definition active_count :: "bounded_work_graph \<Rightarrow> nat" where
  "active_count g = length (filter (\<lambda>n. status n = Active) (bvalues (nodes g)))"

definition total_count :: "bounded_work_graph \<Rightarrow> nat" where
  "total_count g = blen (nodes g)"

definition get_node :: "bounded_work_graph \<Rightarrow> string \<Rightarrow> work_node option" where
  "get_node g nid = bget (nodes g) nid"

definition contains_agent :: "bounded_work_graph \<Rightarrow> string \<Rightarrow> bool" where
  "contains_agent g aid \<longleftrightarrow> list_ex (\<lambda>n. agent_id n = aid) (bvalues (nodes g))"

definition children_of :: "bounded_work_graph \<Rightarrow> string \<Rightarrow> string list" where
  "children_of g nid = (case bget (children g) nid of None \<Rightarrow> [] | Some cs \<Rightarrow> cs)"

section \<open>Lineages\<close>

text \<open>
  The loop of \<open>checked_lineage\<close> walks to the root and refuses a node it has seen; the
  source appends and reverses at the end, the accumulator here is kept reversed.
\<close>

function checked_lineage_loop ::
  "(string, work_node) btree_map \<Rightarrow> string set \<Rightarrow> string list \<Rightarrow> string \<Rightarrow> string list wg" where
  "checked_lineage_loop ns seen acc cur =
     (if cur \<in> seen then fail (InvalidGraph ''cycle detected'')
      else case bget ns cur of
             None \<Rightarrow> fail (NodeNotFound cur)
           | Some n \<Rightarrow>
               (case parent_node_id n of
                  None \<Rightarrow> Ok (cur # acc)
                | Some p \<Rightarrow> checked_lineage_loop ns (insert cur seen) (cur # acc) p))"
  by pat_completeness auto
termination
proof (relation "measure (\<lambda>(ns, seen, acc, cur). card (bdom ns - seen))", goal_cases)
  case (2 ns seen acc cur n p)
  then have "bdom ns - insert cur seen \<subset> bdom ns - seen" by auto
  then show ?case by (simp add: psubset_card_mono)
qed simp

declare checked_lineage_loop.simps [simp del]

definition checked_lineage :: "bounded_work_graph \<Rightarrow> string \<Rightarrow> string list wg" where
  "checked_lineage g nid = checked_lineage_loop (nodes g) {} [] nid"

text \<open>
  \<open>chain_id_for_node\<close> and \<open>node_lineage\<close> walk to the root without a cycle check: on a
  graph with a cycle they do not return, which is the outer \<^const>\<open>None\<close>.
\<close>

partial_function (option) chain_id_loop ::
  "(string, work_node) btree_map \<Rightarrow> string \<Rightarrow> string option option" where
  "chain_id_loop ns cur =
     (case bget ns cur of
        None \<Rightarrow> Some None
      | Some n \<Rightarrow>
          (case parent_node_id n of
             None \<Rightarrow> Some (Some cur)
           | Some p \<Rightarrow> chain_id_loop ns p))"

definition chain_id_for_node :: "bounded_work_graph \<Rightarrow> string \<Rightarrow> string option option" where
  "chain_id_for_node g nid = chain_id_loop (nodes g) nid"

partial_function (option) node_lineage_loop ::
  "(string, work_node) btree_map \<Rightarrow> string list \<Rightarrow> string \<Rightarrow> string list option" where
  "node_lineage_loop ns acc cur =
     (case bget ns cur of
        None \<Rightarrow> Some acc
      | Some n \<Rightarrow>
          (case parent_node_id n of
             None \<Rightarrow> Some (cur # acc)
           | Some p \<Rightarrow> node_lineage_loop ns (cur # acc) p))"

declare chain_id_loop.simps [code] node_lineage_loop.simps [code]

definition node_lineage :: "bounded_work_graph \<Rightarrow> string \<Rightarrow> string list option" where
  "node_lineage g nid = node_lineage_loop (nodes g) [] nid"

text \<open>The call sites: a loop that does not end, and \<open>expect\<close> on the result.\<close>

definition expect_chain_id :: "bounded_work_graph \<Rightarrow> string \<Rightarrow> string \<Rightarrow> string wg" where
  "expect_chain_id g nid message =
     (case chain_id_for_node g nid of
        None \<Rightarrow> Inl Diverges
      | Some None \<Rightarrow> panic message
      | Some (Some c) \<Rightarrow> Ok c)"

definition root_agent_for :: "bounded_work_graph \<Rightarrow> string \<Rightarrow> string wg" where
  "root_agent_for g nid =
     ebind (checked_lineage g nid) (\<lambda>l.
     case l of
       [] \<Rightarrow> fail (NodeNotFound nid)
     | root_id # _ \<Rightarrow>
         (case bget (nodes g) root_id of
            None \<Rightarrow> panic ''no entry found for key''
          | Some n \<Rightarrow> Ok (agent_id n)))"

section \<open>Budget reserved below a node\<close>

definition settled :: "bounded_work_graph \<Rightarrow> string \<Rightarrow> work_node \<Rightarrow> bool" where
  "settled g cid child \<longleftrightarrow>
     (status child = Completed \<or> status child = Failed)
     \<and> execution_fence child \<noteq> None
     \<and> list_ex (\<lambda>r. receipt_node_id r = cid \<and> receipt_usage_source r = Measured
                   \<and> receipt_tokens r = tokens_consumed (budget child)
                   \<and> receipt_cost r = cost_micros_consumed (budget child)
                   \<and> receipt_fence r = execution_fence child) (bvalues (receipts g))"

text \<open>One child: its commitment, and its own children if it is settled.\<close>

definition reserve_child ::
  "bounded_work_graph \<Rightarrow> string \<Rightarrow> string option \<Rightarrow> string \<Rightarrow> string
   \<Rightarrow> nat \<times> nat \<times> string list \<times> string set \<Rightarrow> (nat \<times> nat \<times> string list \<times> string set) wg" where
  "reserve_child g parent_id exclude cur cid acc =
     (case acc of (tokens, cost, stack, visited) \<Rightarrow>
      if cur = parent_id \<and> Some cid = exclude then Ok acc
      else if cid \<in> visited then fail (InvalidGraph ''duplicate child or cycle'')
      else case bget (nodes g) cid of
             None \<Rightarrow> fail (InvalidGraph ''dangling child'')
           | Some child \<Rightarrow>
               (let done = settled g cid child;
                    stack' = (if done then cid # stack else stack);
                    child_tokens = (if done then tokens_consumed (budget child)
                                    else tokens_allocated (budget child));
                    child_cost = (if done then cost_micros_consumed (budget child)
                                  else cost_micros_allocated (budget child))
                in ebind (add_u64 (Fail Overflow) tokens child_tokens) (\<lambda>tokens'.
                   ebind (add_u64 (Fail Overflow) cost child_cost) (\<lambda>cost'.
                   Ok (tokens', cost', stack', insert cid visited)))))"

text \<open>One pending reservation: counted when its parent is the one being processed.\<close>

definition reserve_pending ::
  "bounded_work_graph \<Rightarrow> string \<Rightarrow> string option \<Rightarrow> string \<Rightarrow> string \<times> work_node_budget
   \<Rightarrow> nat \<times> nat \<Rightarrow> (nat \<times> nat) wg" where
  "reserve_pending g parent_id exclude cur entry acc =
     (case (entry, acc) of ((cid, b), (tokens, cost)) \<Rightarrow>
      if (cur = parent_id \<and> Some cid = exclude)
         \<or> bget (pending_child_parents g) cid \<noteq> Some cur then Ok acc
      else ebind (add_u64 (Fail Overflow) tokens (tokens_allocated b)) (\<lambda>tokens'.
           ebind (add_u64 (Fail Overflow) cost (cost_micros_allocated b)) (\<lambda>cost'.
           Ok (tokens', cost'))))"

text \<open>
  The worklist ends because a child is pushed only when it is new to \<open>visited\<close>: every
  push uses up one of the finitely many children.
\<close>

definition all_children :: "bounded_work_graph \<Rightarrow> string set" where
  "all_children g = (\<Union>cs\<in>set (bvalues (children g)). set cs)"

lemma finite_all_children [simp]: "finite (all_children g)"
  by (simp add: all_children_def)

lemma children_of_sub: "set (children_of g nid) \<subseteq> all_children g"
  by (force simp: children_of_def all_children_def in_bvalues_iff split: option.splits)

lemma reserve_child_measure:
  assumes "reserve_child g a ex cur cid (t, c, stack, vis) = Inr (t', c', stack', vis')"
    and "cid \<in> all_children g"
  shows "2 * card (all_children g - vis') + length stack'
       \<le> 2 * card (all_children g - vis) + length stack"
proof (cases "(cur = a \<and> Some cid = ex)")
  case True
  with assms(1) show ?thesis by (auto simp: reserve_child_def)
next
  case False
  with assms(1) have new: "cid \<notin> vis" and v: "vis' = insert cid vis"
    and s: "length stack' \<le> Suc (length stack)"
    by (auto simp: reserve_child_def result_simps Let_def split: if_splits option.splits)
  have "card (all_children g - vis') < card (all_children g - vis)"
    using new v assms(2) by (intro psubset_card_mono) auto
  with s show ?thesis by linarith
qed

lemma reserve_children_measure:
  assumes "efold (reserve_child g a ex cur) cs (t, c, stack, vis) = Inr (t', c', stack', vis')"
    and "set cs \<subseteq> all_children g"
  shows "2 * card (all_children g - vis') + length stack'
       \<le> 2 * card (all_children g - vis) + length stack"
  using assms
proof (induction cs arbitrary: t c stack vis)
  case (Cons x cs)
  from Cons.prems(1) obtain t1 c1 stack1 vis1 where
    first: "reserve_child g a ex cur x (t, c, stack, vis) = Inr (t1, c1, stack1, vis1)" and
    rest: "efold (reserve_child g a ex cur) cs (t1, c1, stack1, vis1) = Inr (t', c', stack', vis')"
    by (auto simp: ebind_eq_Ok)
  show ?case
    using reserve_child_measure [OF first] Cons.IH [OF rest] Cons.prems(2) by simp
qed simp

function reserved_loop ::
  "bounded_work_graph \<Rightarrow> string \<Rightarrow> string option \<Rightarrow> string list \<Rightarrow> string set \<Rightarrow> nat \<Rightarrow> nat
   \<Rightarrow> (nat \<times> nat) wg" where
  "reserved_loop g parent_id exclude [] visited tokens cost = Ok (tokens, cost)"
| "reserved_loop g parent_id exclude (cur # stack) visited tokens cost =
     ebind (efold (reserve_child g parent_id exclude cur) (children_of g cur)
              (tokens, cost, stack, visited)) (\<lambda>(tokens, cost, stack, visited).
     ebind (efold (reserve_pending g parent_id exclude cur) (entries (pending_child_budgets g))
              (tokens, cost)) (\<lambda>(tokens, cost).
     reserved_loop g parent_id exclude stack visited tokens cost))"
  by pat_completeness auto
termination
proof (relation "measure (\<lambda>(g, a, ex, stack, vis, t, c).
    2 * card (all_children g - vis) + length stack)", goal_cases)
  case (2 g a ex cur stack vis t c x t1 y c1 z s1 v1 w t2 c2)
  then show ?case
    using reserve_children_measure [OF _ children_of_sub, of g a ex cur cur t c stack vis t1 c1 s1 v1]
    by simp
qed simp

definition reserved_child_budget ::
  "bounded_work_graph \<Rightarrow> string \<Rightarrow> string option \<Rightarrow> (nat \<times> nat) wg" where
  "reserved_child_budget g parent_id exclude =
     reserved_loop g parent_id exclude [parent_id] {parent_id} 0 0"

section \<open>Ending and stopping executions\<close>

definition execution_exit_unconfirmed :: "work_node \<Rightarrow> bool" where
  "execution_exit_unconfirmed n \<longleftrightarrow> execution_started n \<and> status n = Active"

definition end_incarnation :: "bounded_work_graph \<Rightarrow> string \<Rightarrow> bounded_work_graph" where
  "end_incarnation g nid =
     (case bget (nodes g) nid of
        None \<Rightarrow> g
      | Some n \<Rightarrow>
          if \<not> execution_started n
          then g\<lparr>nodes := binsert nid (n\<lparr>lease_expires_epoch_ms := None\<rparr>) (nodes g)\<rparr>
          else case execution_fence n of
                 None \<Rightarrow> g
               | Some fence \<Rightarrow>
                   g\<lparr>reaped_executions := binsert nid fence (reaped_executions g)\<rparr>)"

text \<open>The body of \<open>stop_recursive\<close> before it descends.\<close>

definition stop_node ::
  "bounded_work_graph \<Rightarrow> string \<Rightarrow> stop_reason \<Rightarrow> string list \<Rightarrow> bounded_work_graph \<times> string list"
where
  "stop_node g nid reason stopped =
     (case bget (nodes g) nid of
        None \<Rightarrow> (g, stopped)
      | Some n \<Rightarrow>
          if status n = Active \<or> status n = Pending
          then (end_incarnation
                  (g\<lparr>nodes := binsert nid (n\<lparr>status := Stopped, stop_reason := Some reason\<rparr>)
                                (nodes g)\<rparr>) nid,
                stopped @ [nid])
          else (g, stopped))"

text \<open>
  The recursion descends the child index. Each level of it that is not a leaf is a key of
  the index, so a recursion deeper than the index has keys has met a key twice on its path
  and never ends: running out of the fuel given by \<open>stop_fuel\<close> is non-termination.
\<close>

fun stop_recursive ::
  "nat \<Rightarrow> bounded_work_graph \<Rightarrow> string \<Rightarrow> stop_reason \<Rightarrow> string list
   \<Rightarrow> (bounded_work_graph \<times> string list) option"
and stop_children ::
  "nat \<Rightarrow> bounded_work_graph \<Rightarrow> string list \<Rightarrow> string list
   \<Rightarrow> (bounded_work_graph \<times> string list) option"
where
  "stop_recursive 0 g nid reason stopped = None"
| "stop_recursive (Suc fuel) g nid reason stopped =
     (case stop_node g nid reason stopped of
        (g1, stopped1) \<Rightarrow> stop_children fuel g1 (children_of g1 nid) stopped1)"
| "stop_children fuel g [] stopped = Some (g, stopped)"
| "stop_children fuel g (c # cs) stopped =
     (case stop_recursive fuel g c ParentStopped stopped of
        None \<Rightarrow> None
      | Some (g1, stopped1) \<Rightarrow> stop_children fuel g1 cs stopped1)"

definition stop_fuel :: "bounded_work_graph \<Rightarrow> nat" where
  "stop_fuel g = Suc (Suc (blen (children g)))"

definition run_stop ::
  "bounded_work_graph \<Rightarrow> string \<Rightarrow> stop_reason \<Rightarrow> (bounded_work_graph \<times> string list) wg" where
  "run_stop g nid reason =
     (case stop_recursive (stop_fuel g) g nid reason [] of
        None \<Rightarrow> Inl Diverges
      | Some r \<Rightarrow> Ok r)"

definition stop ::
  "bounded_work_graph \<Rightarrow> string \<Rightarrow> stop_reason \<Rightarrow> (bounded_work_graph \<times> string list) wg" where
  "stop g nid reason =
     (if \<not> bcontains (nodes g) nid then fail (NodeNotFound nid) else run_stop g nid reason)"

definition stop_unlaunched ::
  "bounded_work_graph \<Rightarrow> string \<Rightarrow> stop_reason \<Rightarrow> (bounded_work_graph \<times> string list) wg" where
  "stop_unlaunched g nid reason =
     ebind (stop g nid reason) (\<lambda>(g1, stopped).
     Ok (g1\<lparr>nodes := bupdate nid (\<lambda>n. n\<lparr>lease_expires_epoch_ms := None\<rparr>) (nodes g1)\<rparr>, stopped))"

text \<open>\<open>enforce_stop_conditions\<close>: the exhausted nodes are collected first, then stopped in turn.\<close>

fun stop_each ::
  "string list \<Rightarrow> bounded_work_graph \<Rightarrow> (string \<times> stop_reason) list
   \<Rightarrow> (bounded_work_graph \<times> (string \<times> stop_reason) list) wg" where
  "stop_each [] g acc = Ok (g, acc)"
| "stop_each (nid # nids) g acc =
     ebind (run_stop g nid BudgetExhausted) (\<lambda>(g1, cascade).
     stop_each nids g1 (acc @ map (\<lambda>i. (i, BudgetExhausted)) cascade))"

definition exhausted_nodes :: "bounded_work_graph \<Rightarrow> string list" where
  "exhausted_nodes g =
     map fst (filter (\<lambda>p. status (snd p) = Active \<and> is_exhausted (budget (snd p)))
                (entries (nodes g)))"

definition enforce_stop_conditions ::
  "bounded_work_graph \<Rightarrow> (bounded_work_graph \<times> (string \<times> stop_reason) list) wg" where
  "enforce_stop_conditions g = stop_each (exhausted_nodes g) g []"

section \<open>Chain budgets and consumption\<close>

definition chain_budget_for :: "bounded_work_graph \<Rightarrow> string \<Rightarrow> chain_budget option option" where
  "chain_budget_for g nid =
     (case chain_id_for_node g nid of
        None \<Rightarrow> None
      | Some None \<Rightarrow> Some None
      | Some (Some c) \<Rightarrow> Some (bget (chain_budgets g) c))"

definition new_chain_budget :: "string \<Rightarrow> work_node_budget \<Rightarrow> chain_budget" where
  "new_chain_budget cid root_budget =
     \<lparr>chain_id = cid, root_budget_tokens = tokens_allocated root_budget,
      total_consumed_tokens = 0, total_allocated_tokens = tokens_allocated root_budget,
      root_budget_cost_micros = cost_micros_allocated root_budget,
      total_consumed_cost_micros = 0,
      total_allocated_cost_micros = cost_micros_allocated root_budget,
      unauthorized_tokens = 0, unauthorized_cost_micros = 0, chain_depth = 0\<rparr>"

definition ensure_chain_budget :: "bounded_work_graph \<Rightarrow> string \<Rightarrow> bounded_work_graph" where
  "ensure_chain_budget g cid =
     (let root_budget = (case bget (nodes g) cid of None \<Rightarrow> zero_budget | Some n \<Rightarrow> budget n)
      in if bcontains (chain_budgets g) cid then g
         else g\<lparr>chain_budgets := binsert cid (new_chain_budget cid root_budget) (chain_budgets g)\<rparr>)"

definition record_chain_allocation ::
  "bounded_work_graph \<Rightarrow> string \<Rightarrow> nat \<Rightarrow> nat \<Rightarrow> nat \<Rightarrow> nat \<Rightarrow> nat \<Rightarrow> bounded_work_graph" where
  "record_chain_allocation g cid previous_tokens tokens previous_cost cost d =
     (let g1 = ensure_chain_budget g cid
      in g1\<lparr>chain_budgets := bupdate cid (\<lambda>chain. chain\<lparr>
              total_allocated_tokens := saturating_add u64_max
                (saturating_sub (total_allocated_tokens chain) previous_tokens) tokens,
              total_allocated_cost_micros := saturating_add u64_max
                (saturating_sub (total_allocated_cost_micros chain) previous_cost) cost,
              chain_depth := max (chain_depth chain) d\<rparr>) (chain_budgets g1)\<rparr>)"

text \<open>The checks of \<open>consume_budget\<close> on the node: the new totals and whether they exhaust it.\<close>

definition consume_check_node ::
  "bounded_work_graph \<Rightarrow> string \<Rightarrow> nat \<Rightarrow> nat \<Rightarrow> (nat \<times> nat \<times> bool) wg" where
  "consume_check_node g nid tokens cost =
     ebind (ok_or (bget (nodes g) nid) (Fail (NodeNotFound nid))) (\<lambda>n.
     if status n \<noteq> Active then fail (InvalidTransition nid)
     else ebind (add_u64 (Fail Overflow) (tokens_consumed (budget n)) tokens) (\<lambda>next_tokens.
     ebind (add_u64 (Fail Overflow) (cost_micros_consumed (budget n)) cost) (\<lambda>next_cost.
     if tokens_allocated (budget n) < next_tokens \<or> cost_micros_allocated (budget n) < next_cost
       then fail InvalidBudget
     else ebind (reserved_child_budget g nid None) (\<lambda>(reserved_tokens, reserved_cost).
     if saturating_sub (tokens_remaining (budget n)) reserved_tokens < tokens
        \<or> saturating_sub (cost_remaining (budget n)) reserved_cost < cost
       then fail InvalidBudget
     else Ok (next_tokens, next_cost,
              next_tokens = tokens_allocated (budget n)
              \<or> next_cost = cost_micros_allocated (budget n))))))"

definition consume_check_chain ::
  "bounded_work_graph \<Rightarrow> string \<Rightarrow> nat \<Rightarrow> nat \<Rightarrow> (nat \<times> nat \<times> bool) wg" where
  "consume_check_chain g cid tokens cost =
     ebind (ok_or (bget (chain_budgets g) cid) (Fail (InvalidGraph ''missing chain budget''))) (\<lambda>chain.
     ebind (add_u64 (Fail Overflow) (total_consumed_tokens chain) tokens) (\<lambda>next_tokens.
     ebind (add_u64 (Fail Overflow) (total_consumed_cost_micros chain) cost) (\<lambda>next_cost.
     let spent_tokens = saturating_add u64_max next_tokens (unauthorized_tokens chain);
         spent_cost = saturating_add u64_max next_cost (unauthorized_cost_micros chain)
     in if root_budget_tokens chain < spent_tokens \<or> root_budget_cost_micros chain < spent_cost
          then fail InvalidBudget
        else Ok (next_tokens, next_cost,
                 spent_tokens = root_budget_tokens chain
                 \<or> spent_cost = root_budget_cost_micros chain))))"

text \<open>The commit: node and chain are written only after every check has passed.\<close>

definition consume_commit ::
  "bounded_work_graph \<Rightarrow> string \<Rightarrow> string \<Rightarrow> nat \<Rightarrow> nat \<Rightarrow> nat \<Rightarrow> nat \<Rightarrow> bounded_work_graph" where
  "consume_commit g nid cid node_tokens node_cost chain_tokens chain_cost =
     g\<lparr>nodes := bupdate nid (\<lambda>n. n\<lparr>budget := (budget n)\<lparr>tokens_consumed := node_tokens,
                                   cost_micros_consumed := node_cost\<rparr>\<rparr>) (nodes g),
       chain_budgets := bupdate cid (\<lambda>chain. chain\<lparr>total_consumed_tokens := chain_tokens,
                                   total_consumed_cost_micros := chain_cost\<rparr>) (chain_budgets g)\<rparr>"

definition consume_budget ::
  "bounded_work_graph \<Rightarrow> string \<Rightarrow> nat \<Rightarrow> nat \<Rightarrow> (bounded_work_graph \<times> bool) wg" where
  "consume_budget g nid tokens cost =
     ebind (consume_check_node g nid tokens cost) (\<lambda>(node_tokens, node_cost, exhausted).
     ebind (expect_chain_id g nid ''node always has a root node'') (\<lambda>cid.
     ebind (consume_check_chain g cid tokens cost) (\<lambda>(chain_tokens, chain_cost, chain_exhausted).
     let g1 = consume_commit g nid cid node_tokens node_cost chain_tokens chain_cost
     in if chain_exhausted
          then ebind (run_stop g1 cid BudgetExhausted) (\<lambda>(g2, _). Ok (g2, True))
        else if exhausted
          then Ok (end_incarnation
                     (g1\<lparr>nodes := bupdate nid (\<lambda>n. n\<lparr>status := Stopped,
                            stop_reason := Some BudgetExhausted\<rparr>) (nodes g1)\<rparr>) nid, True)
        else Ok (g1, False))))"

definition consume_tokens ::
  "bounded_work_graph \<Rightarrow> string \<Rightarrow> nat \<Rightarrow> bounded_work_graph wg" where
  "consume_tokens g nid tokens = ebind (consume_budget g nid tokens 0) (\<lambda>(g1, _). Ok g1)"

section \<open>Delivery attempts and path conflicts\<close>

definition begin_delivery_attempt ::
  "bounded_work_graph \<Rightarrow> string \<Rightarrow> string \<Rightarrow> nat \<Rightarrow> bounded_work_graph wg" where
  "begin_delivery_attempt g nid fence attempt =
     ebind (ok_or (bget (nodes g) nid) (Fail (InvalidTransition nid))) (\<lambda>n.
     if status n \<noteq> Active \<or> \<not> execution_started n \<or> execution_fence n \<noteq> Some fence
        \<or> \<not> (1 \<le> attempt \<and> attempt \<le> MAX_DELIVERY_ATTEMPTS)
        \<or> checked_add u8_max (case delivery_attempt n of None \<Rightarrow> 0 | Some a \<Rightarrow> a) 1 \<noteq> Some attempt
       then fail (InvalidTransition nid)
     else Ok (g\<lparr>nodes := binsert nid (n\<lparr>delivery_attempt := Some attempt\<rparr>) (nodes g)\<rparr>))"

definition has_live_path_conflict ::
  "bounded_work_graph \<Rightarrow> string list \<Rightarrow> nat \<Rightarrow> string option \<Rightarrow> bool" where
  "has_live_path_conflict g requested now_epoch_ms except_node_id \<longleftrightarrow>
     list_ex (\<lambda>n.
       Some (node_id n) \<noteq> except_node_id
       \<and> (execution_exit_unconfirmed n
          \<or> (execution_started n \<and> status n = Stopped
             \<and> (case lease_expires_epoch_ms n of
                  None \<Rightarrow> False | Some expires \<Rightarrow> now_epoch_ms < expires)))
       \<and> list_ex (\<lambda>held. list_ex (path_claims_overlap held) requested) (path_claims n))
     (bvalues (nodes g))"

end
