(* ===== verification/Validate_Invariants.thy ===== *)
theory Validate_Invariants
  imports Control_Ops
begin

text \<open>
  \<open>BoundedWorkGraph::validate_invariants\<close>, the check every stored graph passes before
  use and after every mutation, one definition per loop of the source and in its order.
\<close>

definition invalid :: "string \<Rightarrow> 'a wg" where
  "invalid message = fail (InvalidGraph message)"

definition validate_reaped :: "bounded_work_graph \<Rightarrow> unit wg" where
  "validate_reaped g = efor (entries (reaped_executions g)) (\<lambda>(nid, fence).
     if \<not> (case bget (nodes g) nid of
              None \<Rightarrow> False
            | Some n \<Rightarrow> execution_started n \<and> execution_fence n = Some fence)
     then invalid ''invalid execution exit acknowledgement'' else Ok ())"

definition validate_limits :: "bounded_work_graph \<Rightarrow> unit wg" where
  "validate_limits g =
     ebind (if graph_id g \<noteq> [] then validate_identifier (graph_id g) ''graph_id'' else Ok ()) (\<lambda>_.
     if MAX_GRAPH_NODES < blen (nodes g)
        \<or> max_fan_out g = 0 \<or> MAX_FAN_OUT < max_fan_out g
        \<or> max_depth g = 0 \<or> MAX_DEPTH < max_depth g
        \<or> max_local_concurrency g = 0 \<or> MAX_LOCAL_CONCURRENCY < max_local_concurrency g
        \<or> local_concurrency_limit g < active_count g
     then invalid ''configured limit exceeded'' else Ok ())"

fun validate_path_claims :: "string list \<Rightarrow> string set \<Rightarrow> unit wg" where
  "validate_path_claims [] seen = Ok ()"
| "validate_path_claims (c # cs) seen =
     ebind (validate_path_claim c) (\<lambda>_.
     if c \<in> seen then invalid ''duplicate path claim''
     else validate_path_claims cs (insert c seen))"

definition validate_node_context :: "bounded_work_graph \<Rightarrow> work_node \<Rightarrow> unit wg" where
  "validate_node_context g n =
     ebind (efor [(''task_ref'', task_ref n), (''policy_ref'', policy_ref n),
                  (''expected_outcome_ref'', expected_outcome_ref n)]
              (\<lambda>(field, value). if value \<noteq> [] then validate_identifier value field else Ok ())) (\<lambda>_.
     ebind (case parent_task_ref n of
              None \<Rightarrow> Ok () | Some t \<Rightarrow> validate_identifier t ''parent_task_ref'') (\<lambda>_.
     case parent_node_id n of
       None \<Rightarrow> Ok ()
     | Some pid \<Rightarrow>
         if task_ref n = [] then Ok ()
         else case bget (nodes g) pid of
                None \<Rightarrow> invalid ''missing context parent''
              | Some parent \<Rightarrow>
                  if parent_task_ref n \<noteq> Some (task_ref parent) \<or> policy_ref n \<noteq> policy_ref parent
                  then invalid ''task lineage or policy inheritance mismatch'' else Ok ()))"

definition validate_node_execution ::
  "(string \<Rightarrow> string) \<Rightarrow> bounded_work_graph \<Rightarrow> string \<Rightarrow> work_node \<Rightarrow> unit wg" where
  "validate_node_execution hash_hex g nid n =
     ebind (if MAX_PATH_CLAIMS < length (path_claims n) then fail TooManyPathClaims
            else validate_path_claims (path_claims n) {}) (\<lambda>_.
     if nid \<noteq> node_id n then invalid ''node key mismatch''
     else if (case execution_fence n of
                None \<Rightarrow> False
              | Some fence \<Rightarrow> fence \<noteq> execution_fence_of hash_hex (graph_id g) n)
       then invalid ''invalid execution fence''
     else if (case delivery_attempt n of
                None \<Rightarrow> False
              | Some a \<Rightarrow> \<not> (1 \<le> a \<and> a \<le> MAX_DELIVERY_ATTEMPTS))
          \<or> (delivery_attempt n \<noteq> None \<and> (\<not> execution_started n \<or> execution_fence n = None))
       then invalid ''invalid delivery attempt''
     else Ok ())"

definition validate_node_position :: "bounded_work_graph \<Rightarrow> string \<Rightarrow> work_node \<Rightarrow> unit wg" where
  "validate_node_position g nid n =
     ebind (checked_lineage g nid) (\<lambda>l.
     if depth n + 1 \<noteq> length l \<or> max_depth g < depth n then invalid ''invalid node depth''
     else if (case parent_node_id n of
                None \<Rightarrow> False
              | Some pid \<Rightarrow>
                  \<not> (case bget (children g) pid of None \<Rightarrow> False | Some cs \<Rightarrow> nid \<in> set cs))
       then invalid ''parent/child mismatch''
     else if parent_node_id n = None \<and> \<not> bcontains (chain_budgets g) nid
       then invalid ''missing chain budget''
     else Ok ())"

definition validate_node ::
  "(string \<Rightarrow> string) \<Rightarrow> bounded_work_graph \<Rightarrow> string \<Rightarrow> work_node \<Rightarrow> unit wg" where
  "validate_node hash_hex g nid n =
     ebind (validate_identifier nid ''node_id'') (\<lambda>_.
     ebind (validate_identifier (node_id n) ''node_id'') (\<lambda>_.
     ebind (validate_identifier (agent_id n) ''agent_id'') (\<lambda>_.
     ebind (validate_identifier (capsule_ref n) ''capsule_ref'') (\<lambda>_.
     ebind (validate_budget (budget n)) (\<lambda>_.
     ebind (validate_node_context g n) (\<lambda>_.
     ebind (validate_node_execution hash_hex g nid n) (\<lambda>_.
     validate_node_position g nid n)))))))"

definition validate_children_entry ::
  "bounded_work_graph \<Rightarrow> string \<Rightarrow> string list \<Rightarrow> unit wg" where
  "validate_children_entry g pid cs =
     (if \<not> bcontains (nodes g) pid \<or> max_fan_out g < length cs \<or> card (set cs) \<noteq> length cs
        then invalid ''invalid child index''
      else ebind (efor cs (\<lambda>cid.
             if (case bget (nodes g) cid of None \<Rightarrow> None | Some c \<Rightarrow> parent_node_id c) \<noteq> Some pid
             then invalid ''dangling child'' else Ok ())) (\<lambda>_.
           ebind (reserved_child_budget g pid None) (\<lambda>(tokens, cost).
           case bget (nodes g) pid of
             None \<Rightarrow> panic ''no entry found for key''
           | Some parent \<Rightarrow>
               if tokens_remaining (budget parent) < tokens \<or> cost_remaining (budget parent) < cost
               then invalid ''child budget over-allocation'' else Ok ())))"

definition validate_pending_entry ::
  "bounded_work_graph \<Rightarrow> string \<Rightarrow> work_node_budget \<Rightarrow> unit wg" where
  "validate_pending_entry g cid b =
     ebind (validate_identifier cid ''pending_child_id'') (\<lambda>_.
     ebind (validate_budget b) (\<lambda>_.
     if bcontains (nodes g) cid \<or> \<not> bcontains (pending_child_parents g) cid
     then invalid ''invalid pending budget'' else Ok ()))"

definition validate_stored_receipt :: "bounded_work_graph \<Rightarrow> child_execution_receipt \<Rightarrow> unit wg" where
  "validate_stored_receipt g r =
     ebind (validate_receipt r) (\<lambda>_.
     case bget (nodes g) (receipt_node_id r) of
       None \<Rightarrow> invalid ''orphan receipt''
     | Some n \<Rightarrow>
         if parent_node_id n = None
            \<or> tokens_consumed (budget n) \<noteq> receipt_tokens r
            \<or> cost_micros_consumed (budget n) \<noteq> receipt_cost r
            \<or> (execution_fence n \<noteq> None \<and> receipt_fence r \<noteq> execution_fence n)
         then invalid ''receipt/node mismatch'' else Ok ())"

definition has_receipt :: "bounded_work_graph \<Rightarrow> string \<Rightarrow> bool" where
  "has_receipt g nid \<longleftrightarrow> list_ex (\<lambda>r. receipt_node_id r = nid) (bvalues (receipts g))"

definition validate_failed_spend ::
  "(string \<Rightarrow> string) \<Rightarrow> bounded_work_graph \<Rightarrow> string \<Rightarrow> measured_execution_spend \<Rightarrow> unit wg" where
  "validate_failed_spend hash_hex g nid s =
     ebind (validate_measured_spend hash_hex s) (\<lambda>_.
     case bget (nodes g) nid of
       None \<Rightarrow> invalid ''orphan failed spend''
     | Some n \<Rightarrow>
         if nid \<noteq> spend_node_id s \<or> parent_node_id n = None \<or> status n \<noteq> Stopped
            \<or> stop_reason n \<noteq> Some BudgetExhausted
            \<or> execution_fence n \<noteq> Some (spend_fence s)
            \<or> (spend_tokens s \<le> tokens_allocated (budget n)
               \<and> spend_cost s \<le> cost_micros_allocated (budget n))
            \<or> has_receipt g nid \<or> nid \<in> accepted_path g
         then invalid ''failed spend/node mismatch'' else Ok ())"

text \<open>The lineages of the accepted receipts on the accepted path, collected in one set.\<close>

definition supported_path :: "bounded_work_graph \<Rightarrow> string set wg" where
  "supported_path g =
     efold (\<lambda>r acc.
       if receipt_outcome r = Accepted \<and> receipt_node_id r \<in> accepted_path g
       then ebind (checked_lineage g (receipt_node_id r)) (\<lambda>l. Ok (acc \<union> set l))
       else Ok acc) (bvalues (receipts g)) {}"

definition validate_accepted :: "bounded_work_graph \<Rightarrow> unit wg" where
  "validate_accepted g =
     (if \<exists>nid\<in>accepted_path g. \<not> bcontains (nodes g) nid then invalid ''orphan accepted path''
      else ebind (supported_path g) (\<lambda>supported.
           if supported \<noteq> accepted_path g
           then invalid ''accepted path lacks accepted receipt lineage'' else Ok ()))"

text \<open>The totals of one chain, recomputed from the nodes and the pending reservations.\<close>

record chain_totals =
  sum_allocated_tokens :: nat
  sum_allocated_cost :: nat
  sum_consumed_tokens :: nat
  sum_consumed_cost :: nat
  sum_unauthorized_tokens :: nat
  sum_unauthorized_cost :: nat
  deepest :: nat

definition no_totals :: chain_totals where
  "no_totals = \<lparr>sum_allocated_tokens = 0, sum_allocated_cost = 0, sum_consumed_tokens = 0,
     sum_consumed_cost = 0, sum_unauthorized_tokens = 0, sum_unauthorized_cost = 0, deepest = 0\<rparr>"

definition in_chain :: "string list \<Rightarrow> string \<Rightarrow> bool" where
  "in_chain l cid \<longleftrightarrow> (case l of [] \<Rightarrow> False | r # _ \<Rightarrow> r = cid)"

definition chain_add_node ::
  "bounded_work_graph \<Rightarrow> string \<Rightarrow> work_node \<Rightarrow> chain_totals \<Rightarrow> chain_totals wg" where
  "chain_add_node g cid n t =
     ebind (checked_lineage g (node_id n)) (\<lambda>l.
     if \<not> in_chain l cid then Ok t
     else ebind (add_u64 (Fail Overflow) (sum_allocated_tokens t) (tokens_allocated (budget n))) (\<lambda>at.
     ebind (add_u64 (Fail Overflow) (sum_allocated_cost t) (cost_micros_allocated (budget n))) (\<lambda>ac.
     ebind (add_u64 (Fail Overflow) (sum_consumed_tokens t) (tokens_consumed (budget n))) (\<lambda>ct.
     ebind (add_u64 (Fail Overflow) (sum_consumed_cost t) (cost_micros_consumed (budget n))) (\<lambda>cc.
     let t1 = t\<lparr>sum_allocated_tokens := at, sum_allocated_cost := ac, sum_consumed_tokens := ct,
                sum_consumed_cost := cc, deepest := max (deepest t) (depth n)\<rparr>
     in case bget (failed_spend g) (node_id n) of
          None \<Rightarrow> Ok t1
        | Some s \<Rightarrow> Ok (t1\<lparr>
            sum_unauthorized_tokens := saturating_add u64_max (sum_unauthorized_tokens t)
              (saturating_sub (spend_tokens s) (tokens_allocated (budget n))),
            sum_unauthorized_cost := saturating_add u64_max (sum_unauthorized_cost t)
              (saturating_sub (spend_cost s) (cost_micros_allocated (budget n)))\<rparr>))))))"

definition chain_add_pending ::
  "bounded_work_graph \<Rightarrow> string \<Rightarrow> string \<times> work_node_budget \<Rightarrow> chain_totals \<Rightarrow> chain_totals wg" where
  "chain_add_pending g cid entry t =
     (case entry of (child, b) \<Rightarrow>
      case bget (pending_child_parents g) child of
        None \<Rightarrow> Ok t
      | Some pid \<Rightarrow>
          ebind (checked_lineage g pid) (\<lambda>l.
          if \<not> in_chain l cid then Ok t
          else case bget (nodes g) pid of
                 None \<Rightarrow> panic ''no entry found for key''
               | Some parent \<Rightarrow>
                   ebind (ok_or (checked_add u16_max (depth parent) 1) (Fail Overflow)) (\<lambda>d.
                   ebind (add_u64 (Fail Overflow) (sum_allocated_tokens t) (tokens_allocated b)) (\<lambda>at.
                   ebind (add_u64 (Fail Overflow) (sum_allocated_cost t) (cost_micros_allocated b)) (\<lambda>ac.
                   Ok (t\<lparr>deepest := max (deepest t) d, sum_allocated_tokens := at,
                         sum_allocated_cost := ac\<rparr>))))))"

definition chain_sums :: "bounded_work_graph \<Rightarrow> string \<Rightarrow> chain_totals wg" where
  "chain_sums g cid =
     ebind (efold (chain_add_node g cid) (bvalues (nodes g)) no_totals)
       (efold (chain_add_pending g cid) (entries (pending_child_budgets g)))"

definition validate_chain :: "bounded_work_graph \<Rightarrow> string \<Rightarrow> chain_budget \<Rightarrow> unit wg" where
  "validate_chain g cid chain =
     (case bget (nodes g) cid of
        None \<Rightarrow> invalid ''invalid chain root''
      | Some root \<Rightarrow>
          if parent_node_id root \<noteq> None then invalid ''invalid chain root''
          else ebind (chain_sums g cid) (\<lambda>t.
            if chain_id chain \<noteq> cid
               \<or> root_budget_tokens chain \<noteq> tokens_allocated (budget root)
               \<or> root_budget_cost_micros chain \<noteq> cost_micros_allocated (budget root)
               \<or> total_allocated_tokens chain \<noteq> sum_allocated_tokens t
               \<or> total_allocated_cost_micros chain \<noteq> sum_allocated_cost t
               \<or> total_consumed_tokens chain \<noteq> sum_consumed_tokens t
               \<or> total_consumed_cost_micros chain \<noteq> sum_consumed_cost t
               \<or> unauthorized_tokens chain \<noteq> sum_unauthorized_tokens t
               \<or> unauthorized_cost_micros chain \<noteq> sum_unauthorized_cost t
               \<or> chain_depth chain \<noteq> deepest t
               \<or> root_budget_tokens chain < sum_consumed_tokens t
               \<or> root_budget_cost_micros chain < sum_consumed_cost t
            then invalid ''chain accounting mismatch'' else Ok ()))"

definition validate_invariants :: "(string \<Rightarrow> string) \<Rightarrow> bounded_work_graph \<Rightarrow> unit wg" where
  "validate_invariants hash_hex g =
     ebind (validate_reaped g) (\<lambda>_.
     ebind (validate_limits g) (\<lambda>_.
     ebind (efor (entries (nodes g)) (\<lambda>(nid, n). validate_node hash_hex g nid n)) (\<lambda>_.
     ebind (efor (entries (children g)) (\<lambda>(pid, cs). validate_children_entry g pid cs)) (\<lambda>_.
     ebind (efor (entries (pending_child_budgets g))
              (\<lambda>(cid, b). validate_pending_entry g cid b)) (\<lambda>_.
     ebind (efor (bvalues (receipts g)) (validate_stored_receipt g)) (\<lambda>_.
     ebind (efor (entries (failed_spend g))
              (\<lambda>(nid, s). validate_failed_spend hash_hex g nid s)) (\<lambda>_.
     ebind (validate_accepted g) (\<lambda>_.
     efor (entries (chain_budgets g)) (\<lambda>(cid, chain). validate_chain g cid chain)))))))))"

end
