(* ===== verification/Graph_Ops.thy ===== *)
theory Graph_Ops
  imports Validate_Invariants
begin

text \<open>
  The operations of the work graph (\<open>graph_ops.rs\<close>): building it, delegating and queueing
  children, claiming, completing and receipting their execution, and the read-outs over
  the accepted path. Each returns the new graph where the source takes \<open>&mut self\<close>.
  An operation writes only after its last check, so an error leaves the graph as it was;
  the one exception, \<open>record_child_receipt\<close>, returns the graph beside its result.
\<close>

section \<open>Construction and binding\<close>

definition new_graph :: "nat \<Rightarrow> nat \<Rightarrow> bounded_work_graph" where
  "new_graph fan_out deep =
     \<lparr>graph_id = [], nodes = bempty, children = bempty, chain_budgets = bempty,
      pending_child_budgets = bempty, pending_child_parents = bempty, receipts = bempty,
      failed_spend = bempty, reaped_executions = bempty, accepted_path = {},
      max_local_concurrency = MAX_FAN_OUT,
      max_fan_out = clamp 1 MAX_FAN_OUT fan_out, max_depth = clamp 1 MAX_DEPTH deep\<rparr>"

definition default_graph :: bounded_work_graph where
  "default_graph = new_graph MAX_FAN_OUT MAX_DEPTH"

definition with_local_concurrency :: "bounded_work_graph \<Rightarrow> nat \<Rightarrow> bounded_work_graph" where
  "with_local_concurrency g limit =
     g\<lparr>max_local_concurrency := clamp 1 MAX_LOCAL_CONCURRENCY limit\<rparr>"

definition with_graph_id :: "bounded_work_graph \<Rightarrow> string \<Rightarrow> bounded_work_graph wg" where
  "with_graph_id g gid =
     ebind (validate_identifier gid ''graph_id'') (\<lambda>_. Ok (g\<lparr>graph_id := gid\<rparr>))"

definition bind_graph_id :: "bounded_work_graph \<Rightarrow> string \<Rightarrow> bounded_work_graph wg" where
  "bind_graph_id g gid =
     ebind (validate_identifier gid ''graph_id'') (\<lambda>_.
     if graph_id g \<noteq> [] \<and> graph_id g \<noteq> gid then invalid ''graph id mismatch''
     else Ok (g\<lparr>graph_id := gid\<rparr>))"

section \<open>Adding nodes\<close>

definition new_node ::
  "string \<Rightarrow> string \<Rightarrow> string option \<Rightarrow> string \<Rightarrow> node_status \<Rightarrow> work_node_budget \<Rightarrow> nat \<Rightarrow> work_node"
where
  "new_node nid aid parent capsule st b d =
     \<lparr>node_id = nid, agent_id = aid, parent_node_id = parent, capsule_ref = capsule, status = st,
      budget = b, depth = d, stop_reason = None, outcome_ref = None, claim_attempt = 0,
      delivery_attempt = None, execution_fence = None, lease_expires_epoch_ms = None,
      path_claims = [], task_ref = [], parent_task_ref = None, policy_ref = [],
      expected_outcome_ref = [], execution_started = False\<rparr>"

definition add_root ::
  "bounded_work_graph \<Rightarrow> string \<Rightarrow> string \<Rightarrow> string \<Rightarrow> work_node_budget \<Rightarrow> bounded_work_graph wg" where
  "add_root g nid aid capsule b =
     (if MAX_GRAPH_NODES \<le> blen (nodes g) then fail CapacityExceeded
      else
     ebind (validate_identifier nid ''node_id'') (\<lambda>_.
     ebind (validate_identifier aid ''agent_id'') (\<lambda>_.
     ebind (validate_identifier capsule ''capsule_ref'') (\<lambda>_.
     ebind (validate_budget b) (\<lambda>_.
     if local_concurrency_limit g \<le> active_count g
       then fail (LocalConcurrencyExceeded (local_concurrency_limit g))
     else if bcontains (nodes g) nid then fail (DuplicateNode nid)
     else Ok (g\<lparr>nodes := binsert nid (new_node nid aid None capsule Active b 0) (nodes g),
               chain_budgets := binsert nid (new_chain_budget nid b) (chain_budgets g)\<rparr>))))))"

text \<open>What \<open>insert_child\<close> requires of the parent, and the depth of the new node, a \<open>u16\<close> sum that wraps.\<close>

definition insert_child_check ::
  "bounded_work_graph \<Rightarrow> string \<Rightarrow> string \<Rightarrow> work_node_budget \<Rightarrow> node_status \<Rightarrow> nat wg" where
  "insert_child_check g pid cid b st =
     ebind (reserved_child_budget g pid (Some cid)) (\<lambda>(reserved_tokens, reserved_cost).
     ebind (ok_or (bget (nodes g) pid) (Fail (NodeNotFound pid))) (\<lambda>parent.
     if status parent \<noteq> Active then fail (ParentNotActive pid)
     else let new_depth = (depth parent + 1) mod 2 ^ 16;
              available_tokens = saturating_sub (tokens_remaining (budget parent)) reserved_tokens;
              available_cost = saturating_sub (cost_remaining (budget parent)) reserved_cost
     in if max_depth g < new_depth then fail (DepthExceeded (max_depth g))
        else if available_tokens < tokens_allocated b
          then fail (BudgetExceedsParent (tokens_allocated b) available_tokens)
        else if available_cost < cost_micros_allocated b
          then fail (BudgetExceedsParent (cost_micros_allocated b) available_cost)
        else if max_fan_out g \<le> length (children_of g pid)
          then fail (FanOutExceeded (max_fan_out g))
        else if st = Active \<and> local_concurrency_limit g \<le> active_count g
          then fail (LocalConcurrencyExceeded (local_concurrency_limit g))
        else Ok new_depth))"

definition insert_child ::
  "bounded_work_graph \<Rightarrow> string \<Rightarrow> string \<Rightarrow> string \<Rightarrow> string \<Rightarrow> work_node_budget \<Rightarrow> node_status
   \<Rightarrow> bounded_work_graph wg" where
  "insert_child g pid cid aid capsule b st =
     (if MAX_GRAPH_NODES \<le> blen (nodes g) then fail CapacityExceeded
      else
     ebind (validate_identifier pid ''parent_node_id'') (\<lambda>_.
     ebind (validate_identifier cid ''child_node_id'') (\<lambda>_.
     ebind (validate_identifier aid ''child_agent_id'') (\<lambda>_.
     ebind (validate_identifier capsule ''capsule_ref'') (\<lambda>_.
     ebind (validate_budget b) (\<lambda>_.
     if bcontains (nodes g) cid then fail (DuplicateNode cid)
     else if \<not> (case (bget (pending_child_budgets g) cid, bget (pending_child_parents g) cid) of
                    (None, None) \<Rightarrow> True
                  | (Some _, Some parent) \<Rightarrow> parent = pid
                  | _ \<Rightarrow> False)
       then invalid ''pending child reservation is incomplete or belongs to another parent''
     else
     ebind (insert_child_check g pid cid b st) (\<lambda>new_depth.
     let g1 = g\<lparr>nodes := binsert cid (new_node cid aid (Some pid) capsule st b new_depth) (nodes g),
                children := binsert pid (children_of g pid @ [cid]) (children g)\<rparr>
     in ebind (expect_chain_id g1 cid ''delegated child always has a root node'') (\<lambda>chain.
        let reserved = (case bget (pending_child_budgets g1) cid of
                          None \<Rightarrow> zero_budget | Some r \<Rightarrow> r);
            g2 = g1\<lparr>pending_child_budgets := bremove cid (pending_child_budgets g1),
                    pending_child_parents := bremove cid (pending_child_parents g1)\<rparr>
        in Ok (record_chain_allocation g2 chain (tokens_allocated reserved) (tokens_allocated b)
                 (cost_micros_allocated reserved) (cost_micros_allocated b) new_depth)))))))))"

definition delegate ::
  "bounded_work_graph \<Rightarrow> string \<Rightarrow> string \<Rightarrow> string \<Rightarrow> string \<Rightarrow> work_node_budget
   \<Rightarrow> bounded_work_graph wg" where
  "delegate g pid cid aid capsule b = insert_child g pid cid aid capsule b Active"

definition queue_child ::
  "bounded_work_graph \<Rightarrow> string \<Rightarrow> string \<Rightarrow> string \<Rightarrow> string \<Rightarrow> work_node_budget
   \<Rightarrow> bounded_work_graph wg" where
  "queue_child g pid cid aid capsule b = insert_child g pid cid aid capsule b Pending"

section \<open>Claiming executions\<close>

definition claim_and_activate_until ::
  "(string \<Rightarrow> string) \<Rightarrow> bounded_work_graph \<Rightarrow> string \<Rightarrow> nat option \<Rightarrow> bounded_work_graph wg" where
  "claim_and_activate_until hash_hex g nid lease =
     ebind (validate_identifier nid ''node_id'') (\<lambda>_.
     if local_concurrency_limit g \<le> active_count g
       then fail (LocalConcurrencyExceeded (local_concurrency_limit g))
     else ebind (ok_or (bget (nodes g) nid) (Fail (NodeNotFound nid))) (\<lambda>n.
     case parent_node_id n of
       None \<Rightarrow> fail (InvalidTransition nid)
     | Some pid \<Rightarrow>
         if map_option status (bget (nodes g) pid) \<noteq> Some Active then fail (ParentNotActive pid)
         else if status n \<noteq> Pending then fail (InvalidTransition nid)
         else ebind (ok_or (checked_add u32_max (claim_attempt n) 1) (Fail Overflow)) (\<lambda>attempt.
              let n1 = n\<lparr>claim_attempt := attempt\<rparr>
              in Ok (g\<lparr>nodes := binsert nid
                   (n1\<lparr>execution_fence := Some (execution_fence_of hash_hex (graph_id g) n1),
                       delivery_attempt := None, lease_expires_epoch_ms := lease,
                       status := Active\<rparr>) (nodes g)\<rparr>))))"

definition claim_and_activate ::
  "(string \<Rightarrow> string) \<Rightarrow> bounded_work_graph \<Rightarrow> string \<Rightarrow> bounded_work_graph wg" where
  "claim_and_activate hash_hex g nid = claim_and_activate_until hash_hex g nid None"

definition claim_or_resume_active_until ::
  "(string \<Rightarrow> string) \<Rightarrow> bounded_work_graph \<Rightarrow> string \<Rightarrow> nat \<Rightarrow> bounded_work_graph wg" where
  "claim_or_resume_active_until hash_hex g nid lease =
     ebind (ok_or (bget (nodes g) nid) (Fail (NodeNotFound nid))) (\<lambda>n.
     if list_ex (\<lambda>(cid, c). cid \<noteq> nid \<and> execution_started c \<and> capsule_ref c = capsule_ref n)
          (entries (nodes g))
       then invalid ''context capsule was already consumed by another node''
     else case status n of
       Pending \<Rightarrow>
         ebind (claim_and_activate_until hash_hex g nid (Some lease)) (\<lambda>g1.
         Ok (g1\<lparr>nodes := bupdate nid (\<lambda>m. m\<lparr>execution_started := True\<rparr>) (nodes g1)\<rparr>))
     | Active \<Rightarrow>
         if parent_node_id n = None \<or> execution_fence n = None \<or> execution_started n
           then fail (InvalidTransition nid)
         else Ok (g\<lparr>nodes := binsert nid (n\<lparr>lease_expires_epoch_ms := Some lease,
                                             execution_started := True\<rparr>) (nodes g)\<rparr>)
     | _ \<Rightarrow> fail (InvalidTransition nid))"

definition recover_expired_execution ::
  "bounded_work_graph \<Rightarrow> string \<Rightarrow> nat \<Rightarrow> (bounded_work_graph \<times> string list) wg" where
  "recover_expired_execution g nid now_epoch_ms =
     ebind (ok_or (bget (nodes g) nid) (Fail (NodeNotFound nid))) (\<lambda>n.
     if parent_node_id n \<noteq> None \<and> status n = Active
        \<and> (case lease_expires_epoch_ms n of None \<Rightarrow> False | Some expires \<Rightarrow> expires \<le> now_epoch_ms)
     then stop g nid LeaseLost
     else Ok (g, []))"

section \<open>Binding paths and task context\<close>

definition set_path_claims ::
  "bounded_work_graph \<Rightarrow> string \<Rightarrow> string list \<Rightarrow> bounded_work_graph wg" where
  "set_path_claims g nid claims =
     (if MAX_PATH_CLAIMS < length claims then fail TooManyPathClaims
      else let sorted_claims = remdups_adj (sort claims)
      in ebind (efor sorted_claims validate_path_claim) (\<lambda>_.
         ebind (ok_or (bget (nodes g) nid) (Fail (NodeNotFound nid))) (\<lambda>n.
         if status n \<noteq> Pending then fail (InvalidTransition nid)
         else Ok (g\<lparr>nodes := binsert nid (n\<lparr>path_claims := sorted_claims\<rparr>) (nodes g)\<rparr>))))"

definition configure_root_context ::
  "bounded_work_graph \<Rightarrow> string \<Rightarrow> string \<Rightarrow> string \<Rightarrow> string \<Rightarrow> bounded_work_graph wg" where
  "configure_root_context g nid task policy expected =
     ebind (validate_identifier task ''task_ref'') (\<lambda>_.
     ebind (validate_identifier policy ''policy_ref'') (\<lambda>_.
     ebind (validate_identifier expected ''expected_outcome_ref'') (\<lambda>_.
     ebind (ok_or (bget (nodes g) nid) (Fail (NodeNotFound nid))) (\<lambda>n.
     if parent_node_id n \<noteq> None then fail (InvalidTransition nid)
     else Ok (g\<lparr>nodes := binsert nid (n\<lparr>task_ref := task, parent_task_ref := None,
                 policy_ref := policy, expected_outcome_ref := expected\<rparr>) (nodes g)\<rparr>)))))"

definition configure_child_context ::
  "bounded_work_graph \<Rightarrow> string \<Rightarrow> string \<Rightarrow> string \<Rightarrow> bounded_work_graph wg" where
  "configure_child_context g nid task expected =
     ebind (validate_identifier task ''task_ref'') (\<lambda>_.
     ebind (validate_identifier expected ''expected_outcome_ref'') (\<lambda>_.
     ebind (ok_or (Option.bind (bget (nodes g) nid) parent_node_id)
              (Fail (InvalidTransition nid))) (\<lambda>pid.
     ebind (ok_or (bget (nodes g) pid) (Fail (NodeNotFound pid))) (\<lambda>parent.
     if task_ref parent = [] \<or> policy_ref parent = []
       then invalid ''parent context is not configured''
     else ebind (ok_or (bget (nodes g) nid) (Fail (NodeNotFound nid))) (\<lambda>n.
     if status n \<noteq> Pending then fail (InvalidTransition nid)
     else Ok (g\<lparr>nodes := binsert nid (n\<lparr>task_ref := task,
                 parent_task_ref := Some (task_ref parent), policy_ref := policy_ref parent,
                 expected_outcome_ref := expected\<rparr>) (nodes g)\<rparr>))))))"

section \<open>Reserving a budget for a child\<close>

definition allocate_child_budget ::
  "bounded_work_graph \<Rightarrow> string \<Rightarrow> string \<Rightarrow> f64 \<Rightarrow> (bounded_work_graph \<times> work_node_budget) wg" where
  "allocate_child_budget g pid cid fraction =
     ebind (validate_identifier pid ''parent_node_id'') (\<lambda>_.
     ebind (validate_identifier cid ''child_node_id'') (\<lambda>_.
     if bcontains (nodes g) cid \<or> bcontains (pending_child_budgets g) cid
       then fail (DuplicateNode cid)
     else ebind (ok_or (bget (nodes g) pid) (Fail (NodeNotFound pid))) (\<lambda>parent.
     if status parent \<noteq> Active then fail (ParentNotActive pid)
     else if max_depth g \<le> depth parent then fail (DepthExceeded (max_depth g))
     else ebind (reserved_child_budget g pid (Some cid)) (\<lambda>(reserved_tokens, reserved_cost).
     let remaining = saturating_sub
           (saturating_sub (tokens_allocated (budget parent)) (tokens_consumed (budget parent)))
           reserved_tokens
     in if remaining = 0 then fail (BudgetExceedsParent 1 remaining)
     else
     let cascaded = cascade_budget \<lparr>parent_budget_tokens = tokens_allocated (budget parent),
           parent_used_tokens = tokens_consumed (budget parent), child_fraction = fraction,
           minimum_budget = 0, maximum_budget = remaining\<rparr>
     in case node_lineage g pid of
          None \<Rightarrow> Inl Diverges
        | Some up \<Rightarrow>
     let cascaded = cascaded\<lparr>cascade_depth := depth parent + 1, cascade_lineage := up @ [cid]\<rparr>
     in ebind (map_err (\<lambda>e. Fail (Cascade e)) (validate_cascade cascaded)) (\<lambda>_.
     if remaining < allocated_tokens cascaded
       then fail (BudgetExceedsParent (allocated_tokens cascaded) remaining)
     else
     let cost_left = saturating_sub (cost_remaining (budget parent)) reserved_cost;
         cost = (if cost_left = 0 then 0 else min (max (scale_u64 cost_left fraction) 1) cost_left);
         b = \<lparr>tokens_allocated = allocated_tokens cascaded, tokens_consumed = 0,
              cost_micros_allocated = cost, cost_micros_consumed = 0\<rparr>
     in ebind (expect_chain_id g pid ''parent node always has a root node'') (\<lambda>chain.
        let g1 = g\<lparr>pending_child_budgets := binsert cid b (pending_child_budgets g),
                   pending_child_parents := binsert cid pid (pending_child_parents g)\<rparr>
        in Ok (record_chain_allocation g1 chain 0 (tokens_allocated b) 0 (cost_micros_allocated b)
                 (depth parent + 1), b)))))))"

section \<open>Completion and receipts\<close>

definition complete :: "bounded_work_graph \<Rightarrow> string \<Rightarrow> string \<Rightarrow> bounded_work_graph wg" where
  "complete g nid outcome =
     ebind (validate_identifier outcome ''outcome_ref'') (\<lambda>_.
     ebind (ok_or (bget (nodes g) nid) (Fail (NodeNotFound nid))) (\<lambda>n.
     if status n \<noteq> Active then fail (InvalidTransition nid)
     else Ok (end_incarnation
            (g\<lparr>nodes := binsert nid (n\<lparr>status := Completed, outcome_ref := Some outcome,
                                        lease_expires_epoch_ms := None\<rparr>) (nodes g)\<rparr>) nid)))"

text \<open>The checks of \<open>record_child_receipt\<close> before anything is written.\<close>

definition receipt_check ::
  "bounded_work_graph \<Rightarrow> child_execution_receipt \<Rightarrow> (string \<times> nat \<times> nat) wg" where
  "receipt_check g r =
     ebind (validate_receipt r) (\<lambda>_.
     if bcontains (receipts g) (receipt_id r) \<or> has_receipt g (receipt_node_id r)
       then fail (DuplicateReceipt (receipt_id r))
     else ebind (ok_or (bget (nodes g) (receipt_node_id r))
                   (Fail (NodeNotFound (receipt_node_id r)))) (\<lambda>n.
     if parent_node_id n = None \<or> status n \<noteq> Active
       then fail (InvalidTransition (receipt_node_id r))
     else if execution_fence n \<noteq> None \<and> receipt_fence r \<noteq> execution_fence n
       then fail (StaleExecutionFence (receipt_node_id r))
     else if tokens_allocated (budget n) < receipt_tokens r
          \<or> cost_micros_allocated (budget n) < receipt_cost r
          \<or> receipt_tokens r < tokens_consumed (budget n)
          \<or> receipt_cost r < cost_micros_consumed (budget n)
       then fail (ReceiptExceedsBudget (receipt_node_id r))
     else let token_delta = receipt_tokens r - tokens_consumed (budget n);
              cost_delta = receipt_cost r - cost_micros_consumed (budget n)
     in ebind (reserved_child_budget g (receipt_node_id r) None)
          (\<lambda>(reserved_tokens, reserved_cost).
        if saturating_sub (tokens_remaining (budget n)) reserved_tokens < token_delta
           \<or> saturating_sub (cost_remaining (budget n)) reserved_cost < cost_delta
          then fail (ReceiptExceedsBudget (receipt_node_id r))
        else ebind (expect_chain_id g (receipt_node_id r) ''receipt node always has a root'')
               (\<lambda>chain. Ok (chain, token_delta, cost_delta)))))"

definition receipt_status :: "child_outcome \<Rightarrow> node_status" where
  "receipt_status outcome =
     (case outcome of Accepted \<Rightarrow> Completed | Partial \<Rightarrow> Completed | Rejected \<Rightarrow> Failed)"

definition receipt_commit ::
  "bounded_work_graph \<Rightarrow> child_execution_receipt \<Rightarrow> string \<Rightarrow> nat \<Rightarrow> nat \<Rightarrow> bounded_work_graph" where
  "receipt_commit g r cid chain_tokens chain_cost =
     (let nid = receipt_node_id r;
          g1 = g\<lparr>nodes := bupdate nid (\<lambda>n. n\<lparr>
                  budget := (budget n)\<lparr>tokens_consumed := receipt_tokens r,
                                       cost_micros_consumed := receipt_cost r\<rparr>,
                  status := receipt_status (receipt_outcome r),
                  outcome_ref := Some (receipt_outcome_ref r),
                  lease_expires_epoch_ms := None\<rparr>) (nodes g)\<rparr>;
          g2 = end_incarnation g1 nid
      in g2\<lparr>chain_budgets := bupdate cid (\<lambda>chain. chain\<lparr>
               total_consumed_tokens := chain_tokens,
               total_consumed_cost_micros := chain_cost\<rparr>) (chain_budgets g2),
            receipts := binsert (receipt_id r) r (receipts g2)\<rparr>)"

text \<open>The chain budget is created before the chain is checked, also when the check fails.\<close>

definition record_child_receipt ::
  "bounded_work_graph \<Rightarrow> child_execution_receipt \<Rightarrow> unit wg \<times> bounded_work_graph" where
  "record_child_receipt g r =
     (case receipt_check g r of
        Inl e \<Rightarrow> (Inl e, g)
      | Inr (cid, token_delta, cost_delta) \<Rightarrow>
          let g1 = ensure_chain_budget g cid in
          (case bget (chain_budgets g1) cid of
             None \<Rightarrow> (panic ''chain budget initialized'', g1)
           | Some chain \<Rightarrow>
               case (ebind (add_u64 (Fail Overflow) (total_consumed_tokens chain) token_delta) (\<lambda>ct.
                     ebind (add_u64 (Fail Overflow) (total_consumed_cost_micros chain) cost_delta) (\<lambda>cc.
                     if root_budget_tokens chain
                          < saturating_add u64_max ct (unauthorized_tokens chain)
                        \<or> root_budget_cost_micros chain
                          < saturating_add u64_max cc (unauthorized_cost_micros chain)
                     then fail (ReceiptExceedsBudget (receipt_node_id r))
                     else Ok (ct, cc)))) of
                 Inl e \<Rightarrow> (Inl e, g1)
               | Inr (ct, cc) \<Rightarrow> (Ok (), receipt_commit g1 r cid ct cc)))"

definition find_receipt :: "bounded_work_graph \<Rightarrow> string \<Rightarrow> child_execution_receipt option" where
  "find_receipt g nid = find (\<lambda>r. receipt_node_id r = nid) (bvalues (receipts g))"

definition evaluate_child_outcome :: "bounded_work_graph \<Rightarrow> string \<Rightarrow> child_outcome wg" where
  "evaluate_child_outcome g nid =
     ebind (validate_identifier nid ''node_id'') (\<lambda>_.
     ok_or (map_option receipt_outcome (find_receipt g nid)) (Fail (MissingReceipt nid)))"

definition mark_accepted_path :: "bounded_work_graph \<Rightarrow> string list \<Rightarrow> bounded_work_graph wg" where
  "mark_accepted_path g nids =
     ebind (efold (\<lambda>nid accepted.
              ebind (validate_identifier nid ''node_id'') (\<lambda>_.
              ebind (ok_or (find_receipt g nid) (Fail (MissingReceipt nid))) (\<lambda>r.
              if receipt_outcome r \<noteq> Accepted then fail (RejectedAcceptedPath nid)
              else case node_lineage g nid of
                     None \<Rightarrow> Inl Diverges
                   | Some l \<Rightarrow> Ok (accepted \<union> set l)))) nids {}) (\<lambda>accepted.
     Ok (g\<lparr>accepted_path := accepted\<rparr>))"

definition is_on_accepted_path :: "bounded_work_graph \<Rightarrow> string \<Rightarrow> bool" where
  "is_on_accepted_path g nid \<longleftrightarrow> nid \<in> accepted_path g"

section \<open>Results over the accepted path\<close>

type_synonym candidates = "(string, (string, string list) btree_map) btree_map"

definition add_candidate :: "string \<Rightarrow> result_claim \<Rightarrow> candidates \<Rightarrow> candidates" where
  "add_candidate nid c cands =
     (let by_value = (case bget cands (claim_key c) of None \<Rightarrow> bempty | Some m \<Rightarrow> m);
          node_ids = (case bget by_value (claim_value c) of None \<Rightarrow> [] | Some ns \<Rightarrow> ns)
      in binsert (claim_key c) (binsert (claim_value c) (node_ids @ [nid]) by_value) cands)"

definition collect_candidates :: "bounded_work_graph \<Rightarrow> candidates" where
  "collect_candidates g =
     fold (\<lambda>r cands. if receipt_node_id r \<notin> accepted_path g then cands
                     else fold (add_candidate (receipt_node_id r)) (receipt_claims r) cands)
       (bvalues (receipts g)) bempty"

definition fuse_key ::
  "string \<times> (string, string list) btree_map \<Rightarrow> fused_results \<Rightarrow> fused_results" where
  "fuse_key entry acc =
     (case entry of (key, by_value) \<Rightarrow>
      case bkeys by_value of
        [v] \<Rightarrow> acc\<lparr>fused_accepted := binsert key v (fused_accepted acc)\<rparr>
      | vs \<Rightarrow> acc\<lparr>fused_conflicts := fused_conflicts acc @
               [\<lparr>conflict_key = key, conflict_values = vs,
                 conflict_node_ids = remdups_adj (sort (concat (bvalues by_value)))\<rparr>]\<rparr>)"

definition fuse_accepted_results :: "bounded_work_graph \<Rightarrow> fused_results" where
  "fuse_accepted_results g =
     fold fuse_key (entries (collect_candidates g))
       \<lparr>fused_accepted = bempty, fused_conflicts = []\<rparr>"

definition attribute_node ::
  "bounded_work_graph \<Rightarrow> work_node \<Rightarrow> work_attribution \<Rightarrow> work_attribution wg" where
  "attribute_node g n acc =
     (let (tokens, cost) = (case bget (failed_spend g) (node_id n) of
            None \<Rightarrow> (tokens_consumed (budget n), cost_micros_consumed (budget n))
          | Some s \<Rightarrow> (spend_tokens s, spend_cost s))
      in if node_id n \<in> accepted_path g
         then ebind (add_u64 (Fail Overflow) (accepted_tokens acc) tokens) (\<lambda>t.
              ebind (add_u64 (Fail Overflow) (accepted_cost_micros acc) cost) (\<lambda>c.
              Ok (acc\<lparr>accepted_tokens := t, accepted_cost_micros := c\<rparr>)))
         else ebind (add_u64 (Fail Overflow) (waste_tokens acc) tokens) (\<lambda>t.
              ebind (add_u64 (Fail Overflow) (waste_cost_micros acc) cost) (\<lambda>c.
              Ok (acc\<lparr>waste_tokens := t, waste_cost_micros := c\<rparr>))))"

definition attribution :: "bounded_work_graph \<Rightarrow> work_attribution wg" where
  "attribution g =
     efold (attribute_node g) (bvalues (nodes g))
       \<lparr>accepted_tokens = 0, accepted_cost_micros = 0, waste_tokens = 0, waste_cost_micros = 0\<rparr>"

text \<open>
  The ratio is computed in 128 bits, where the product of a 64-bit value and 10000 is
  exact, and narrowed to 16 bits with 10000 where it does not fit.
\<close>

definition team_value_report :: "bounded_work_graph \<Rightarrow> team_value_report wg" where
  "team_value_report g =
     ebind (attribution g) (\<lambda>a.
     ebind (add_u64 (Fail Overflow) (accepted_tokens a) (waste_tokens a)) (\<lambda>total_tokens.
     ebind (add_u64 (Fail Overflow) (accepted_cost_micros a) (waste_cost_micros a)) (\<lambda>total_cost.
     let points = (if total_cost = 0 then 0
                   else let q = min (2 ^ 128 - 1) (accepted_cost_micros a * 10000) div total_cost
                        in if q \<le> u16_max then q else 10000)
     in Ok \<lparr>report_accepted_tokens = accepted_tokens a, report_total_tokens = total_tokens,
            report_accepted_cost_micros = accepted_cost_micros a,
            report_total_cost_micros = total_cost, report_waste_tokens = waste_tokens a,
            report_waste_cost_micros = waste_cost_micros a,
            report_accepted_cost_basis_points = points\<rparr>)))"

end
