(* ===== verification/Lineage.thy ===== *)
theory Lineage
  imports Graph_Ops
begin

text \<open>
  The shape of the graph: the chain of parents from a node to its root as an inductive
  relation, which all three walks of the source compute on a graph without cycles, and
  how it behaves under the updates the operations make.
\<close>

section \<open>The lineage of a node\<close>

type_synonym node_map = "(string, work_node) btree_map"

inductive lineage_of :: "node_map \<Rightarrow> string \<Rightarrow> string list \<Rightarrow> bool" for ns :: node_map where
  lineage_root: "bget ns r = Some n \<Longrightarrow> parent_node_id n = None \<Longrightarrow> lineage_of ns r [r]"
| lineage_child: "bget ns c = Some n \<Longrightarrow> parent_node_id n = Some p \<Longrightarrow> lineage_of ns p l
    \<Longrightarrow> lineage_of ns c (l @ [c])"

inductive_simps lineage_of_iff: "lineage_of ns c l"

lemma lineage_of_nonempty: "lineage_of ns c l \<Longrightarrow> l \<noteq> [] \<and> last l = c"
  by (induction rule: lineage_of.induct) auto

lemma lineage_of_unique: "lineage_of ns c l \<Longrightarrow> lineage_of ns c l' \<Longrightarrow> l = l'"
proof (induction arbitrary: l' rule: lineage_of.induct)
  case (lineage_root r n)
  from lineage_root.prems show ?case
    by (cases rule: lineage_of.cases) (use lineage_root.hyps in auto)
next
  case (lineage_child c n p l)
  from lineage_child.prems obtain l'' where "l' = l'' @ [c]" "lineage_of ns p l''"
    by (cases rule: lineage_of.cases) (use lineage_child.hyps in \<open>simp_all, blast?\<close>)
  with lineage_child.IH show ?case by simp
qed

text \<open>Every node on a lineage has the part up to it as its own lineage.\<close>

lemma lineage_of_prefix:
  "lineage_of ns c l \<Longrightarrow> x \<in> set l \<Longrightarrow> \<exists>xs ys. l = xs @ ys \<and> lineage_of ns x xs"
proof (induction rule: lineage_of.induct)
  case (lineage_root r n)
  then show ?case
    by (intro exI [of _ "[r]"] exI [of _ "[]"]) (auto intro: lineage_of.lineage_root)
next
  case (lineage_child c n p l)
  show ?case
  proof (cases "x = c")
    case True
    with lineage_child.hyps show ?thesis
      by (intro exI [of _ "l @ [c]"] exI [of _ "[]"]) (auto intro: lineage_of.lineage_child)
  next
    case False
    with lineage_child obtain xs ys where "l = xs @ ys" "lineage_of ns x xs" by auto
    then show ?thesis by (intro exI [of _ xs] exI [of _ "ys @ [c]"]) auto
  qed
qed

lemma lineage_of_parent_fresh:
  assumes "lineage_of ns p l" "bget ns c = Some n" "parent_node_id n = Some p"
  shows "c \<notin> set l"
proof
  assume "c \<in> set l"
  with assms(1) obtain xs ys where split: "l = xs @ ys" "lineage_of ns c xs"
    using lineage_of_prefix by blast
  have "lineage_of ns c (l @ [c])"
    using assms by (intro lineage_of.lineage_child)
  with split(2) have "xs = l @ [c]" by (rule lineage_of_unique)
  with split(1) show False by simp
qed

lemma lineage_of_distinct: "lineage_of ns c l \<Longrightarrow> distinct l"
  by (induction rule: lineage_of.induct) (auto dest: lineage_of_parent_fresh)

lemma lineage_of_dom: "lineage_of ns c l \<Longrightarrow> set l \<subseteq> bdom ns"
  by (induction rule: lineage_of.induct) auto

lemma lineage_of_self: "lineage_of ns c l \<Longrightarrow> c \<in> set l \<and> c \<in> bdom ns"
  by (induction rule: lineage_of.induct) auto

lemma lineage_of_closed:
  assumes "lineage_of ns c l" "x \<in> set l"
  shows "\<exists>xs. lineage_of ns x xs \<and> set xs \<subseteq> set l \<and> hd xs = hd l"
proof -
  obtain xs ys where "l = xs @ ys" "lineage_of ns x xs"
    using lineage_of_prefix [OF assms] by blast
  then show ?thesis using lineage_of_nonempty [of ns x xs]
    by (intro exI [of _ xs]) auto
qed

lemma lineage_of_root:
  "lineage_of ns c l \<Longrightarrow> \<exists>n. bget ns (hd l) = Some n \<and> parent_node_id n = None"
proof (induction rule: lineage_of.induct)
  case (lineage_child c n p l)
  then show ?case using lineage_of_nonempty [of ns p l] by (simp add: hd_append)
qed simp

section \<open>The walks of the source compute it\<close>

lemma checked_lineage_loop_sound:
  "checked_lineage_loop ns seen acc cur = Inr l' \<Longrightarrow>
     \<exists>l. lineage_of ns cur l \<and> set l \<inter> seen = {} \<and> l' = l @ acc"
proof (induction ns seen acc cur rule: checked_lineage_loop.induct)
  case (1 ns seen acc cur)
  from "1.prems" obtain n where n: "cur \<notin> seen" "bget ns cur = Some n"
    by (subst (asm) checked_lineage_loop.simps) (auto split: if_splits option.splits)
  show ?case
  proof (cases "parent_node_id n")
    case None
    with n "1.prems" have "l' = cur # acc"
      by (subst (asm) checked_lineage_loop.simps) auto
    with n None show ?thesis
      by (intro exI [of _ "[cur]"]) (auto intro: lineage_of.lineage_root)
  next
    case (Some p)
    with n "1.prems" have "checked_lineage_loop ns (insert cur seen) (cur # acc) p = Inr l'"
      by (subst (asm) checked_lineage_loop.simps) auto
    from "1.IH" [OF n(1) n(2) Some this] obtain l where
      "lineage_of ns p l" "set l \<inter> insert cur seen = {}" "l' = l @ cur # acc" by auto
    with n Some show ?thesis
      by (intro exI [of _ "l @ [cur]"]) (auto intro: lineage_of.lineage_child)
  qed
qed

lemma checked_lineage_loop_complete:
  "lineage_of ns cur l \<Longrightarrow> set l \<inter> seen = {} \<Longrightarrow>
     checked_lineage_loop ns seen acc cur = Inr (l @ acc)"
proof (induction arbitrary: seen acc rule: lineage_of.induct)
  case (lineage_root r n)
  then show ?case by (subst checked_lineage_loop.simps) auto
next
  case (lineage_child c n p l)
  then have "c \<notin> set l" by (intro lineage_of_parent_fresh)
  with lineage_child show ?case by (subst checked_lineage_loop.simps) auto
qed

lemma checked_lineage_eq_Ok [result_simps]:
  "checked_lineage g nid = Inr l \<longleftrightarrow> lineage_of (nodes g) nid l"
  using checked_lineage_loop_sound [of "nodes g" "{}" "[]" nid l]
    checked_lineage_loop_complete [of "nodes g" nid l "{}" "[]"]
  by (auto simp: checked_lineage_def)

lemma chain_id_loop_lineage: "lineage_of ns c l \<Longrightarrow> chain_id_loop ns c = Some (Some (hd l))"
proof (induction rule: lineage_of.induct)
  case (lineage_child c n p l)
  then show ?case using lineage_of_nonempty [of ns p l]
    by (subst chain_id_loop.simps) (simp add: hd_append)
qed (subst chain_id_loop.simps, simp)

lemma node_lineage_loop_lineage:
  "lineage_of ns c l \<Longrightarrow> node_lineage_loop ns acc c = Some (l @ acc)"
  by (induction arbitrary: acc rule: lineage_of.induct)
    (subst node_lineage_loop.simps, simp)+

lemma chain_id_for_node_lineage:
  "lineage_of (nodes g) c l \<Longrightarrow> chain_id_for_node g c = Some (Some (hd l))"
  by (simp add: chain_id_for_node_def chain_id_loop_lineage)

lemma expect_chain_id_lineage [simp]:
  "lineage_of (nodes g) c l \<Longrightarrow> expect_chain_id g c m = Inr (hd l)"
  by (simp add: expect_chain_id_def chain_id_for_node_lineage)

lemma node_lineage_lineage: "lineage_of (nodes g) c l \<Longrightarrow> node_lineage g c = Some l"
  by (simp add: node_lineage_def node_lineage_loop_lineage)

section \<open>Lineages under updates\<close>

text \<open>Only the parent pointers matter.\<close>

definition same_parents :: "node_map \<Rightarrow> node_map \<Rightarrow> bool" where
  "same_parents ns ns' \<longleftrightarrow>
     (\<forall>k. map_option parent_node_id (bget ns k) = map_option parent_node_id (bget ns' k))"

lemma same_parents_sym: "same_parents ns ns' \<Longrightarrow> same_parents ns' ns"
  by (simp add: same_parents_def)

lemma same_parents_refl [simp]: "same_parents ns ns"
  by (simp add: same_parents_def)

lemma same_parentsD:
  assumes "same_parents ns ns'" "bget ns k = Some n"
  obtains n' where "bget ns' k = Some n'" "parent_node_id n' = parent_node_id n"
proof -
  have "map_option parent_node_id (bget ns' k) = Some (parent_node_id n)"
    using assms unfolding same_parents_def by (metis option.simps(9))
  then show ?thesis using that by auto
qed

lemma same_parents_dom: "same_parents ns ns' \<Longrightarrow> bdom ns = bdom ns'"
  by (auto elim: same_parentsD elim: same_parentsD [OF same_parents_sym])

lemma lineage_of_mono_parents: "lineage_of ns c l \<Longrightarrow> same_parents ns ns' \<Longrightarrow> lineage_of ns' c l"
proof (induction rule: lineage_of.induct)
  case (lineage_root r n)
  then show ?case by (auto elim!: same_parentsD intro: lineage_of.lineage_root)
next
  case (lineage_child c n p l)
  from lineage_child.prems lineage_child.hyps(1) obtain n' where
    "bget ns' c = Some n'" "parent_node_id n' = parent_node_id n" by (rule same_parentsD)
  with lineage_child show ?case by (intro lineage_of.lineage_child [of _ c n' p l]) auto
qed

lemma lineage_of_same_parents: "same_parents ns ns' \<Longrightarrow> lineage_of ns = lineage_of ns'"
  by (intro ext iffI) (auto intro: lineage_of_mono_parents same_parents_sym)

lemma same_parents_binsert:
  "bget ns k = Some n \<Longrightarrow> parent_node_id n' = parent_node_id n \<Longrightarrow> same_parents ns (binsert k n' ns)"
  by (simp add: same_parents_def)

lemma same_parents_bupdate:
  "(\<And>n. parent_node_id (f n) = parent_node_id n) \<Longrightarrow> same_parents ns (bupdate k f ns)"
  by (auto simp: same_parents_def option.map_comp comp_def)

text \<open>A new leaf changes no other lineage.\<close>

lemma lineage_of_extend:
  "lineage_of ns c l \<Longrightarrow> k \<notin> bdom ns \<Longrightarrow> lineage_of (binsert k n ns) c l"
proof (induction rule: lineage_of.induct)
  case (lineage_root r m)
  then show ?case by (intro lineage_of.lineage_root [of _ r m]) auto
next
  case (lineage_child c m p l)
  then show ?case by (intro lineage_of.lineage_child [of _ c m p l]) auto
qed

lemma lineage_of_extend_iff:
  assumes "k \<notin> bdom ns" "c \<noteq> k" "\<And>x. x \<in> bdom ns \<Longrightarrow> \<exists>l. lineage_of ns x l"
  shows "lineage_of (binsert k n ns) c l \<longleftrightarrow> lineage_of ns c l"
proof
  assume new: "lineage_of (binsert k n ns) c l"
  then have "c \<in> bdom ns" using lineage_of_self [OF new] assms(2) by auto
  then obtain l' where old: "lineage_of ns c l'" using assms(3) by blast
  with assms(1) have "lineage_of (binsert k n ns) c l'" by (intro lineage_of_extend)
  with new have "l = l'" by (intro lineage_of_unique)
  with old show "lineage_of ns c l" by simp
qed (rule lineage_of_extend [OF _ assms(1)])

section \<open>The chain a node belongs to\<close>

definition root_of :: "node_map \<Rightarrow> string \<Rightarrow> string \<Rightarrow> bool" where
  "root_of ns c r \<longleftrightarrow> (\<exists>l. lineage_of ns c l \<and> hd l = r)"

lemma root_of_lineage: "lineage_of ns c l \<Longrightarrow> root_of ns c r \<longleftrightarrow> r = hd l"
  by (auto simp: root_of_def dest: lineage_of_unique)

lemma in_chain_root_of: "lineage_of ns c l \<Longrightarrow> in_chain l r \<longleftrightarrow> root_of ns c r"
  using lineage_of_nonempty [of ns c l]
  by (cases l) (auto simp: in_chain_def root_of_lineage)

lemma root_of_same_parents: "same_parents ns ns' \<Longrightarrow> root_of ns = root_of ns'"
  by (intro ext) (simp add: root_of_def lineage_of_same_parents)

lemma root_of_child:
  assumes "bget ns c = Some n" "parent_node_id n = Some p" "lineage_of ns p l"
  shows "root_of ns c r \<longleftrightarrow> root_of ns p r"
proof -
  have "lineage_of ns c (l @ [c])" using assms by (intro lineage_of.lineage_child)
  moreover have "l \<noteq> []" using lineage_of_nonempty assms(3) by blast
  ultimately show ?thesis using assms(3) by (simp add: root_of_lineage hd_append)
qed

section \<open>When the walks end\<close>

text \<open>The walk from a node reaches a root or leaves the graph after so many steps.\<close>

inductive walk_ends :: "node_map \<Rightarrow> string \<Rightarrow> nat \<Rightarrow> bool" for ns :: node_map where
  walk_out: "bget ns c = None \<Longrightarrow> walk_ends ns c 0"
| walk_root: "bget ns c = Some n \<Longrightarrow> parent_node_id n = None \<Longrightarrow> walk_ends ns c 0"
| walk_up: "bget ns c = Some n \<Longrightarrow> parent_node_id n = Some p \<Longrightarrow> walk_ends ns p k \<Longrightarrow> walk_ends ns c (Suc k)"

lemma walk_ends_unique: "walk_ends ns c k \<Longrightarrow> walk_ends ns c k' \<Longrightarrow> k = k'"
proof (induction arbitrary: k' rule: walk_ends.induct)
  case (walk_up c n p k)
  then obtain j where "k' = Suc j" "walk_ends ns p j" by (cases rule: walk_ends.cases [OF walk_up.prems]) auto
  then show ?case using walk_up.IH by simp
qed (erule walk_ends.cases; simp)+

lemma chain_id_loop_ends: "chain_id_loop ns c \<noteq> None \<longleftrightarrow> (\<exists>k. walk_ends ns c k)"
proof
  have "(\<exists>k. walk_ends ns c k)" if "chain_id_loop ns c = Some r" for r
    by (rule chain_id_loop.raw_induct [OF _ that]) (fastforce split: option.splits intro: walk_ends.intros)
  then show "chain_id_loop ns c \<noteq> None \<Longrightarrow> \<exists>k. walk_ends ns c k" by blast
  have "chain_id_loop ns c \<noteq> None" if "walk_ends ns c k" for k
    using that by (induction rule: walk_ends.induct) (subst chain_id_loop.simps, simp)+
  then show "\<exists>k. walk_ends ns c k \<Longrightarrow> chain_id_loop ns c \<noteq> None" by blast
qed

lemma node_lineage_loop_ends: "node_lineage_loop ns acc c \<noteq> None \<longleftrightarrow> (\<exists>k. walk_ends ns c k)"
proof
  have "(\<exists>k. walk_ends ns c k)" if "node_lineage_loop ns acc c = Some r" for r
    by (rule node_lineage_loop.raw_induct [OF _ that]) (fastforce split: option.splits intro: walk_ends.intros)
  then show "node_lineage_loop ns acc c \<noteq> None \<Longrightarrow> \<exists>k. walk_ends ns c k" by blast
  have "node_lineage_loop ns acc c \<noteq> None" if "walk_ends ns c k" for k
    using that by (induction arbitrary: acc rule: walk_ends.induct) (subst node_lineage_loop.simps, simp)+
  then show "\<exists>k. walk_ends ns c k \<Longrightarrow> node_lineage_loop ns acc c \<noteq> None" by blast
qed

abbreviation found_cycle :: "string list wg" where
  "found_cycle \<equiv> fail (InvalidGraph ''cycle detected'')"

text \<open>A node that was seen before has a longer walk than the current one, so it is another node.\<close>

lemma checked_lineage_no_cycle:
  "walk_ends ns c k \<Longrightarrow> \<forall>x\<in>seen. \<exists>m>k. walk_ends ns x m \<Longrightarrow> checked_lineage_loop ns seen acc c \<noteq> found_cycle"
proof (induction arbitrary: seen acc rule: walk_ends.induct)
  case (walk_out c)
  then show ?case
    by (subst checked_lineage_loop.simps) (auto dest: walk_ends_unique [OF walk_ends.walk_out])
next
  case (walk_root c n)
  then show ?case
    by (subst checked_lineage_loop.simps) (auto dest: walk_ends_unique [OF walk_ends.walk_root])
next
  case (walk_up c n p k)
  have c: "walk_ends ns c (Suc k)" using walk_up.hyps by (rule walk_ends.walk_up)
  then have "c \<notin> seen" using walk_up.prems by (auto dest: walk_ends_unique [OF c])
  moreover have "\<forall>x\<in>insert c seen. \<exists>m>k. walk_ends ns x m"
    using walk_up.prems c by (auto intro: Suc_lessD)
  ultimately show ?case using walk_up by (subst checked_lineage_loop.simps) simp
qed

lemma checked_lineage_cycle:
  "\<nexists>k. walk_ends ns c k \<Longrightarrow> checked_lineage_loop ns seen acc c = found_cycle"
proof (induction ns seen acc c rule: checked_lineage_loop.induct)
  case (1 ns seen acc cur)
  show ?case
  proof (cases "bget ns cur")
    case None
    then show ?thesis using 1(2) walk_ends.walk_out by blast
  next
    case (Some n)
    then obtain p where p: "parent_node_id n = Some p" using 1(2) walk_ends.walk_root by fastforce
    then have "\<nexists>k. walk_ends ns p k" using 1(2) Some walk_ends.walk_up by blast
    with 1(1) Some p show ?thesis by (subst checked_lineage_loop.simps) simp
  qed
qed

lemma checked_lineage_ends: "checked_lineage_loop ns {} acc c \<noteq> found_cycle \<longleftrightarrow> (\<exists>k. walk_ends ns c k)"
  using checked_lineage_no_cycle [of ns c _ "{}" acc] checked_lineage_cycle [of ns c "{}" acc] by blast

text \<open>
  C39. The walks to the root that check for no cycle (\<open>chain_id_for_node\<close>, \<open>node_lineage\<close>) end
  exactly where the walk that checks for one finds none: a graph on which \<open>checked_lineage\<close> was
  accepted never hangs them, and a cycle above a node hangs both.
\<close>

theorem walks_end_iff:
  "(chain_id_for_node g nid \<noteq> None \<longleftrightarrow> checked_lineage g nid \<noteq> found_cycle)
   \<and> (node_lineage g nid \<noteq> None \<longleftrightarrow> checked_lineage g nid \<noteq> found_cycle)"
  unfolding chain_id_for_node_def node_lineage_def checked_lineage_def
  by (simp only: chain_id_loop_ends node_lineage_loop_ends checked_lineage_ends simp_thms)

end
