(* ===== verification/Reserved.thy ===== *)
theory Reserved
  imports Lineage
begin

text \<open>
  What \<open>reserved_child_budget\<close> computes: the commitments of every child of a node, where a
  settled child counts with what it consumed and hands on the commitments below it. On a
  graph whose child index is a forest the worklist returns exactly this sum, or overflow.
\<close>

section \<open>The child index as a forest\<close>

definition forest :: "bounded_work_graph \<Rightarrow> bool" where
  "forest g \<longleftrightarrow>
     (\<forall>p cs. bget (children g) p = Some cs \<longrightarrow> distinct cs \<and>
        (\<forall>c\<in>set cs. \<exists>n. bget (nodes g) c = Some n \<and> parent_node_id n = Some p))
   \<and> (\<forall>k n. bget (nodes g) k = Some n \<longrightarrow> (\<exists>l. lineage_of (nodes g) k l) \<and>
        (\<forall>p. parent_node_id n = Some p \<longrightarrow> k \<in> set (children_of g p)))"

lemma forest_children:
  assumes "forest g"
  shows "c \<in> set (children_of g p) \<longleftrightarrow>
           (\<exists>n. bget (nodes g) c = Some n \<and> parent_node_id n = Some p)"
proof
  assume "c \<in> set (children_of g p)"
  then show "\<exists>n. bget (nodes g) c = Some n \<and> parent_node_id n = Some p"
    using assms by (cases "bget (children g) p") (auto simp: forest_def children_of_def)
qed (use assms in \<open>auto simp: forest_def\<close>)

lemma forest_distinct: "forest g \<Longrightarrow> distinct (children_of g p)"
  by (auto simp: forest_def children_of_def split: option.splits)

lemma forest_lineage: "forest g \<Longrightarrow> k \<in> bdom (nodes g) \<Longrightarrow> \<exists>l. lineage_of (nodes g) k l"
  by (auto simp: forest_def)

section \<open>Commitments\<close>

text \<open>
  Tokens and cost are accounted in the same way; the two selectors pick the allocated and
  the consumed amount of one of them.
\<close>

type_synonym amount = "work_node_budget \<Rightarrow> nat"

definition charge :: "amount \<Rightarrow> amount \<Rightarrow> bounded_work_graph \<Rightarrow> string \<Rightarrow> work_node \<Rightarrow> nat" where
  "charge alloc used g c n = (if settled g c n then used (budget n) else alloc (budget n))"

text \<open>The nodes whose children are counted below \<open>a\<close>: itself and the settled nodes reached.\<close>

inductive expands :: "bounded_work_graph \<Rightarrow> string \<Rightarrow> string \<Rightarrow> bool" for g a where
  expands_self: "expands g a a"
| expands_settled: "expands g a p \<Longrightarrow> bget (nodes g) c = Some n \<Longrightarrow> parent_node_id n = Some p
    \<Longrightarrow> settled g c n \<Longrightarrow> expands g a c"

definition node_part ::
  "amount \<Rightarrow> amount \<Rightarrow> bounded_work_graph \<Rightarrow> string set \<Rightarrow> nat" where
  "node_part alloc used g S = bm.total (\<lambda>c n. case parent_node_id n of
       None \<Rightarrow> 0 | Some p \<Rightarrow> if p \<in> S then charge alloc used g c n else 0) (nodes g)"

definition pending_part ::
  "amount \<Rightarrow> bounded_work_graph \<Rightarrow> string \<Rightarrow> string option \<Rightarrow> string set \<Rightarrow> nat" where
  "pending_part alloc g a ex S = bm.total (\<lambda>c b. case bget (pending_child_parents g) c of
       None \<Rightarrow> 0 | Some p \<Rightarrow> if p \<in> S \<and> \<not> (p = a \<and> ex = Some c) then alloc b else 0)
     (pending_child_budgets g)"

definition committed ::
  "amount \<Rightarrow> amount \<Rightarrow> bounded_work_graph \<Rightarrow> string \<Rightarrow> string option \<Rightarrow> string set \<Rightarrow> nat" where
  "committed alloc used g a ex S = node_part alloc used g S + pending_part alloc g a ex S"

definition reserved_amount ::
  "amount \<Rightarrow> amount \<Rightarrow> bounded_work_graph \<Rightarrow> string \<Rightarrow> string option \<Rightarrow> nat" where
  "reserved_amount alloc used g a ex = committed alloc used g a ex (Collect (expands g a))"

lemma committed_insert:
  assumes "p \<notin> S"
  shows "committed alloc used g a ex (insert p S)
       = committed alloc used g a ex S + committed alloc used g a ex {p}"
proof -
  have "node_part alloc used g (insert p S) = node_part alloc used g S + node_part alloc used g {p}"
    unfolding node_part_def bm.total_add [symmetric] using assms
    by (intro bm.total_cong) (auto split: option.splits)
  moreover have "pending_part alloc g a ex (insert p S)
      = pending_part alloc g a ex S + pending_part alloc g a ex {p}"
    unfolding pending_part_def bm.total_add [symmetric] using assms
    by (intro bm.total_cong) (auto split: option.splits)
  ultimately show ?thesis by (simp add: committed_def)
qed

lemma committed_mono: "S \<subseteq> T \<Longrightarrow> committed alloc used g a ex S \<le> committed alloc used g a ex T"
  unfolding committed_def node_part_def pending_part_def
  by (intro add_mono bm.total_mono) (auto split: option.splits)

lemma committed_empty [simp]: "committed alloc used g a ex {} = 0"
proof -
  have "node_part alloc used g {} = bm.total (\<lambda>_ _. 0) (nodes g)"
    unfolding node_part_def by (intro bm.total_cong) (auto split: option.splits)
  moreover have "pending_part alloc g a ex {} = bm.total (\<lambda>_ _. 0) (pending_child_budgets g)"
    unfolding pending_part_def by (intro bm.total_cong) (auto split: option.splits)
  ultimately show ?thesis by (simp add: committed_def bm.total_eq_sum)
qed

text \<open>The children of one node, as the inner loop of the source visits them.\<close>

lemma node_part_single:
  assumes "forest g"
  shows "node_part alloc used g {p}
       = (\<Sum>c\<leftarrow>children_of g p. charge alloc used g c (the (bget (nodes g) c)))"
proof -
  let ?f = "\<lambda>c n. case parent_node_id n of
      None \<Rightarrow> 0 | Some q \<Rightarrow> if q \<in> {p} then charge alloc used g c n else 0"
  have "node_part alloc used g {p} = (\<Sum>c\<in>bdom (nodes g). ?f c (the (bget (nodes g) c)))"
    by (simp add: node_part_def bm.total_eq_sum)
  also have "\<dots> = (\<Sum>c\<in>set (children_of g p). charge alloc used g c (the (bget (nodes g) c)))"
    using forest_children [OF assms]
    by (intro sum.mono_neutral_cong_right) (auto split: option.splits)
  finally show ?thesis
    using forest_distinct [OF assms] by (simp add: sum_list_distinct_conv_sum_set)
qed

definition counted ::
  "bounded_work_graph \<Rightarrow> string \<Rightarrow> string option \<Rightarrow> string \<Rightarrow> string \<Rightarrow> bool" where
  "counted g a ex cur c \<longleftrightarrow>
     \<not> (cur = a \<and> Some c = ex) \<and> bget (pending_child_parents g) c = Some cur"

lemma pending_part_single:
  "pending_part alloc g a ex {cur} = (\<Sum>(c, b)\<leftarrow>entries (pending_child_budgets g).
     if counted g a ex cur c then alloc b else 0)"
  unfolding pending_part_def bm.total_def counted_def
  by (intro arg_cong [of _ _ sum_list] map_cong) (auto split: option.splits)

section \<open>The loops\<close>

lemma reserve_children_eq:
  assumes "distinct cs" "set cs \<inter> vis = {}" "\<And>c. c \<in> set cs \<Longrightarrow> c \<in> bdom (nodes g)"
    and "\<And>c. c \<in> set cs \<Longrightarrow> ex \<noteq> Some c" and "t \<le> u64_max" "k \<le> u64_max"
  shows "efold (reserve_child g a ex cur) cs (t, k, stack, vis) =
    (let t' = t + (\<Sum>c\<leftarrow>cs. charge tokens_allocated tokens_consumed g c (the (bget (nodes g) c)));
         k' = k + (\<Sum>c\<leftarrow>cs. charge cost_micros_allocated cost_micros_consumed g c
                               (the (bget (nodes g) c)))
     in if t' \<le> u64_max \<and> k' \<le> u64_max
        then Ok (t', k', rev (filter (\<lambda>c. settled g c (the (bget (nodes g) c))) cs) @ stack,
                 vis \<union> set cs)
        else fail Overflow)"
  using assms
proof (induction cs arbitrary: t k stack vis)
  case (Cons c cs)
  from Cons.prems(3) obtain n where n: "bget (nodes g) c = Some n" by fastforce
  let ?t = "charge tokens_allocated tokens_consumed g c n"
  let ?k = "charge cost_micros_allocated cost_micros_consumed g c n"
  let ?stack = "if settled g c n then c # stack else stack"
  have step: "reserve_child g a ex cur c (t, k, stack, vis) =
      (if t + ?t \<le> u64_max \<and> k + ?k \<le> u64_max
       then Ok (t + ?t, k + ?k, ?stack, insert c vis) else fail Overflow)"
    using Cons.prems n
    by (auto simp: reserve_child_def charge_def Let_def add_u64_def checked_add_def)
  show ?case
  proof (cases "t + ?t \<le> u64_max \<and> k + ?k \<le> u64_max")
    case True
    have "efold (reserve_child g a ex cur) cs (t + ?t, k + ?k, ?stack, insert c vis) =
      (let t' = t + ?t + (\<Sum>c\<leftarrow>cs. charge tokens_allocated tokens_consumed g c (the (bget (nodes g) c)));
           k' = k + ?k + (\<Sum>c\<leftarrow>cs. charge cost_micros_allocated cost_micros_consumed g c
                               (the (bget (nodes g) c)))
       in if t' \<le> u64_max \<and> k' \<le> u64_max
          then Ok (t', k', rev (filter (\<lambda>c. settled g c (the (bget (nodes g) c))) cs) @ ?stack,
                   insert c vis \<union> set cs)
          else fail Overflow)"
      using Cons.prems True by (intro Cons.IH) auto
    with True show ?thesis by (simp add: step n Let_def add.assoc)
  next
    case False
    then show ?thesis by (auto simp: step n Let_def)
  qed
qed simp

lemma reserve_pending_eq:
  assumes "t \<le> u64_max" "k \<le> u64_max"
  shows "reserve_pending g a ex cur (c, b) (t, k) =
    (let t' = t + (if counted g a ex cur c then tokens_allocated b else 0);
         k' = k + (if counted g a ex cur c then cost_micros_allocated b else 0)
     in if t' \<le> u64_max \<and> k' \<le> u64_max then Ok (t', k') else fail Overflow)"
  using assms by (auto simp: reserve_pending_def counted_def add_u64_def checked_add_def Let_def)

lemma reserve_pendings_eq:
  assumes "t \<le> u64_max" "k \<le> u64_max"
  shows "efold (reserve_pending g a ex cur) es (t, k) =
    (let t' = t + (\<Sum>(c, b)\<leftarrow>es. if counted g a ex cur c then tokens_allocated b else 0);
         k' = k + (\<Sum>(c, b)\<leftarrow>es. if counted g a ex cur c then cost_micros_allocated b else 0)
     in if t' \<le> u64_max \<and> k' \<le> u64_max then Ok (t', k') else fail Overflow)"
  using assms
proof (induction es arbitrary: t k)
  case (Cons e es)
  obtain c b where e: "e = (c, b)" by fastforce
  define x where "x = (if counted g a ex cur c then tokens_allocated b else 0)"
  define y where "y = (if counted g a ex cur c then cost_micros_allocated b else 0)"
  have step: "reserve_pending g a ex cur (c, b) (t, k) =
      (if t + x \<le> u64_max \<and> k + y \<le> u64_max then Ok (t + x, k + y) else fail Overflow)"
    using Cons.prems by (simp add: reserve_pending_eq x_def y_def Let_def)
  show ?case
  proof (cases "t + x \<le> u64_max \<and> k + y \<le> u64_max")
    case True
    with Cons.IH [of "t + x" "k + y"] show ?thesis
      by (simp add: e step Let_def add.assoc x_def [symmetric] y_def [symmetric])
  next
    case False
    then show ?thesis
      by (auto simp: e step Let_def x_def [symmetric] y_def [symmetric])
  qed
qed (simp add: Let_def)

section \<open>The worklist\<close>

lemma expands_lineage:
  assumes "expands g a p" "lineage_of (nodes g) p l"
  shows "a \<in> set l"
  using assms
proof (induction arbitrary: l rule: expands.induct)
  case expands_self
  then show ?case using lineage_of_self by blast
next
  case (expands_settled p c n)
  from expands_settled.prems obtain l' where "lineage_of (nodes g) p l'" "l = l' @ [c]"
    by (cases rule: lineage_of.cases) (use expands_settled.hyps in auto)
  with expands_settled.IH show ?case by simp
qed

lemma expands_child_fresh:
  assumes "forest g" "expands g a p" "bget (nodes g) c = Some n" "parent_node_id n = Some p"
  shows "c \<noteq> a \<and> c \<noteq> p"
proof -
  obtain l where "lineage_of (nodes g) c l"
    using assms(1,3) forest_lineage by blast
  then obtain lp where lp: "lineage_of (nodes g) p lp"
    by (cases rule: lineage_of.cases) (use assms in auto)
  then have "c \<notin> set lp" using assms(3,4) by (rule lineage_of_parent_fresh)
  then show ?thesis using expands_lineage [OF assms(2) lp] lineage_of_self [OF lp] by auto
qed

text \<open>
  Between two iterations: \<open>P\<close> are the nodes processed, the totals are the commitments
  below them, and every settled child of a processed node is processed or on the stack.
\<close>

definition worklist_inv ::
  "bounded_work_graph \<Rightarrow> string \<Rightarrow> string option \<Rightarrow> string set \<Rightarrow> string list \<Rightarrow> string set
   \<Rightarrow> nat \<Rightarrow> nat \<Rightarrow> bool" where
  "worklist_inv g a ex P stack vis t k \<longleftrightarrow>
     a \<in> P \<union> set stack \<and> distinct stack \<and> set stack \<inter> P = {}
   \<and> P \<union> set stack \<subseteq> Collect (expands g a) \<and> P \<union> set stack \<subseteq> vis
   \<and> vis = insert a {c. \<exists>n p. bget (nodes g) c = Some n \<and> parent_node_id n = Some p \<and> p \<in> P}
   \<and> (\<forall>p\<in>P. \<forall>c n. bget (nodes g) c = Some n \<longrightarrow> parent_node_id n = Some p \<longrightarrow> settled g c n
        \<longrightarrow> c \<in> P \<union> set stack)
   \<and> t = committed tokens_allocated tokens_consumed g a ex P
   \<and> k = committed cost_micros_allocated cost_micros_consumed g a ex P
   \<and> t \<le> u64_max \<and> k \<le> u64_max"

lemma worklist_inv_start: "worklist_inv g a ex {} [a] {a} 0 0"
  by (auto simp: worklist_inv_def intro: expands_self)

lemma worklist_inv_end:
  assumes "worklist_inv g a ex P [] vis t k"
  shows "P = Collect (expands g a)"
proof (intro equalityI subsetI)
  fix p assume "p \<in> Collect (expands g a)"
  then have "expands g a p" by simp
  then show "p \<in> P"
    by (induction rule: expands.induct) (use assms in \<open>auto simp: worklist_inv_def\<close>)
qed (use assms in \<open>auto simp: worklist_inv_def\<close>)

lemma worklist_new:
  assumes "forest g" "worklist_inv g a ex P (cur # stack) vis t k"
  shows "set (children_of g cur) \<inter> vis = {}"
proof -
  have cur: "expands g a cur" "cur \<notin> P" using assms(2) by (auto simp: worklist_inv_def)
  have "c \<notin> vis" if "bget (nodes g) c = Some n" "parent_node_id n = Some cur" for c n
    using that assms(2) cur(2) expands_child_fresh [OF assms(1) cur(1) that]
    by (auto simp: worklist_inv_def)
  then show ?thesis by (auto simp: forest_children [OF assms(1)])
qed

lemma worklist_inv_step:
  assumes "forest g" "worklist_inv g a ex P (cur # stack) vis t k"
    and "t' = committed tokens_allocated tokens_consumed g a ex (insert cur P)" "t' \<le> u64_max"
    and "k' = committed cost_micros_allocated cost_micros_consumed g a ex (insert cur P)"
        "k' \<le> u64_max"
  shows "worklist_inv g a ex (insert cur P)
    (rev (filter (\<lambda>c. settled g c (the (bget (nodes g) c))) (children_of g cur)) @ stack)
    (vis \<union> set (children_of g cur)) t' k'"
proof -
  let ?cs = "children_of g cur"
  have cs: "c \<in> set ?cs \<longleftrightarrow> (\<exists>n. bget (nodes g) c = Some n \<and> parent_node_id n = Some cur)" for c
    by (rule forest_children [OF assms(1)])
  have cur: "expands g a cur" "cur \<notin> P" using assms(2) by (auto simp: worklist_inv_def)
  have fresh: "c \<noteq> a \<and> c \<noteq> cur" if "c \<in> set ?cs" for c
    using that expands_child_fresh [OF assms(1) cur(1)] by (auto simp: cs)
  have new: "set ?cs \<inter> vis = {}" by (rule worklist_new [OF assms(1,2)])
  have reach: "expands g a c" if "c \<in> set ?cs" "settled g c (the (bget (nodes g) c))" for c
    using that cur(1) by (auto simp: cs intro: expands_settled)
  show ?thesis
    unfolding worklist_inv_def
  proof (intro conjI)
    show "distinct (rev (filter (\<lambda>c. settled g c (the (bget (nodes g) c))) ?cs) @ stack)"
      using forest_distinct [OF assms(1)] assms(2) new by (auto simp: worklist_inv_def)
    show "set (rev (filter (\<lambda>c. settled g c (the (bget (nodes g) c))) ?cs) @ stack) \<inter> insert cur P = {}"
      using assms(2) new fresh by (auto simp: worklist_inv_def)
    show "vis \<union> set ?cs = insert a {c. \<exists>n p. bget (nodes g) c = Some n \<and>
        parent_node_id n = Some p \<and> p \<in> insert cur P}"
    proof -
      have "vis = insert a {c. \<exists>n p. bget (nodes g) c = Some n \<and> parent_node_id n = Some p \<and> p \<in> P}"
        using assms(2) by (simp add: worklist_inv_def)
      moreover have "set ?cs = {c. \<exists>n. bget (nodes g) c = Some n \<and> parent_node_id n = Some cur}"
        using cs by auto
      ultimately show ?thesis by auto
    qed
    show "insert cur P \<union> set (rev (filter (\<lambda>c. settled g c (the (bget (nodes g) c))) ?cs) @ stack)
        \<subseteq> Collect (expands g a)"
      using assms(2) reach cur by (auto simp: worklist_inv_def)
    show "\<forall>p\<in>insert cur P. \<forall>c n. bget (nodes g) c = Some n \<longrightarrow> parent_node_id n = Some p \<longrightarrow>
        settled g c n \<longrightarrow> c \<in> insert cur P \<union>
          set (rev (filter (\<lambda>c. settled g c (the (bget (nodes g) c))) ?cs) @ stack)"
      using assms(2) by (fastforce simp: worklist_inv_def cs)
  qed (use assms in \<open>auto simp: worklist_inv_def\<close>)
qed

text \<open>One iteration adds exactly the commitments below the node taken from the stack.\<close>

lemma worklist_iteration:
  assumes "forest g" "\<And>c. ex = Some c \<Longrightarrow> c \<notin> bdom (nodes g)"
    and "worklist_inv g a ex P (cur # stack) vis t k"
  defines "t' \<equiv> committed tokens_allocated tokens_consumed g a ex (insert cur P)"
    and "k' \<equiv> committed cost_micros_allocated cost_micros_consumed g a ex (insert cur P)"
  shows "reserved_loop g a ex (cur # stack) vis t k =
    (if t' \<le> u64_max \<and> k' \<le> u64_max
     then reserved_loop g a ex
       (rev (filter (\<lambda>c. settled g c (the (bget (nodes g) c))) (children_of g cur)) @ stack)
       (vis \<union> set (children_of g cur)) t' k'
     else fail Overflow)"
proof -
  let ?cs = "children_of g cur"
  have cs: "c \<in> set ?cs \<longleftrightarrow> (\<exists>n. bget (nodes g) c = Some n \<and> parent_node_id n = Some cur)" for c
    by (rule forest_children [OF assms(1)])
  have cur: "expands g a cur" "cur \<notin> P" using assms(3) by (auto simp: worklist_inv_def)
  have new: "set ?cs \<inter> vis = {}" by (rule worklist_new [OF assms(1,3)])
  have le: "t \<le> u64_max" "k \<le> u64_max" using assms(3) by (simp_all add: worklist_inv_def)
  have t': "t' = t + node_part tokens_allocated tokens_consumed g {cur}
      + pending_part tokens_allocated g a ex {cur}"
  proof -
    have "t = committed tokens_allocated tokens_consumed g a ex P" using assms(3) by (simp add: worklist_inv_def)
    then show ?thesis
      unfolding t'_def committed_insert [OF cur(2)] by (simp add: committed_def [of _ _ _ _ _ "{cur}"])
  qed
  have k': "k' = k + node_part cost_micros_allocated cost_micros_consumed g {cur}
      + pending_part cost_micros_allocated g a ex {cur}"
  proof -
    have "k = committed cost_micros_allocated cost_micros_consumed g a ex P" using assms(3) by (simp add: worklist_inv_def)
    then show ?thesis
      unfolding k'_def committed_insert [OF cur(2)] by (simp add: committed_def [of _ _ _ _ _ "{cur}"])
  qed
  have kids: "efold (reserve_child g a ex cur) ?cs (t, k, stack, vis) =
    (let t1 = t + node_part tokens_allocated tokens_consumed g {cur};
         k1 = k + node_part cost_micros_allocated cost_micros_consumed g {cur}
     in if t1 \<le> u64_max \<and> k1 \<le> u64_max
        then Ok (t1, k1, rev (filter (\<lambda>c. settled g c (the (bget (nodes g) c))) ?cs) @ stack,
                 vis \<union> set ?cs)
        else fail Overflow)"
    unfolding node_part_single [OF assms(1)]
    by (rule reserve_children_eq)
      (use forest_distinct [OF assms(1)] new le assms(2) in \<open>auto simp: cs\<close>)
  show ?thesis
    unfolding reserved_loop.simps kids t' k'
    by (auto simp: Let_def reserve_pendings_eq pending_part_single split: if_splits)
qed

lemma reserved_loop_eq:
  assumes "forest g" "\<And>c. ex = Some c \<Longrightarrow> c \<notin> bdom (nodes g)"
    and "worklist_inv g a ex P stack vis t k"
  shows "reserved_loop g a ex stack vis t k =
    (let rt = reserved_amount tokens_allocated tokens_consumed g a ex;
         rc = reserved_amount cost_micros_allocated cost_micros_consumed g a ex
     in if rt \<le> u64_max \<and> rc \<le> u64_max then Ok (rt, rc) else fail Overflow)"
  using assms(3)
proof (induction "2 * card (all_children g - vis) + length stack"
    arbitrary: P stack vis t k rule: less_induct)
  case less
  show ?case
  proof (cases stack)
    case Nil
    with less.prems have "P = Collect (expands g a)" using worklist_inv_end by blast
    with less.prems Nil show ?thesis by (simp add: worklist_inv_def reserved_amount_def)
  next
    case (Cons cur rest)
    let ?t = "committed tokens_allocated tokens_consumed g a ex (insert cur P)"
    let ?k = "committed cost_micros_allocated cost_micros_consumed g a ex (insert cur P)"
    let ?stack = "rev (filter (\<lambda>c. settled g c (the (bget (nodes g) c))) (children_of g cur)) @ rest"
    let ?vis = "vis \<union> set (children_of g cur)"
    have inv: "worklist_inv g a ex P (cur # rest) vis t k" using less.prems Cons by simp
    note iter = worklist_iteration [OF assms(1,2) inv]
    have sub: "insert cur P \<subseteq> Collect (expands g a)" using inv by (auto simp: worklist_inv_def)
    show ?thesis
    proof (cases "?t \<le> u64_max \<and> ?k \<le> u64_max")
      case True
      have inv': "worklist_inv g a ex (insert cur P) ?stack ?vis ?t ?k"
        by (rule worklist_inv_step [OF assms(1) inv]) (use True in auto)
      have new: "set (children_of g cur) \<inter> vis = {}"
        by (rule worklist_new [OF assms(1) inv])
      have "card (all_children g - ?vis) + length (children_of g cur) = card (all_children g - vis)"
      proof -
        have "all_children g - vis = (all_children g - ?vis) \<union> set (children_of g cur)"
          using new children_of_sub [of g cur] by auto
        moreover have "card ((all_children g - ?vis) \<union> set (children_of g cur))
            = card (all_children g - ?vis) + card (set (children_of g cur))"
          by (intro card_Un_disjoint) auto
        ultimately show ?thesis
          using distinct_card [OF forest_distinct [OF assms(1)]] by simp
      qed
      moreover have len: "length (filter (\<lambda>c. settled g c (the (bget (nodes g) c))) (children_of g cur))
          \<le> length (children_of g cur)" by (rule length_filter_le)
      ultimately have "2 * card (all_children g - ?vis) + length ?stack
          < 2 * card (all_children g - vis) + length stack"
        using Cons by (simp only: length_append length_rev list.size)
      from less.hyps [OF this inv'] show ?thesis using iter True Cons by simp
    next
      case False
      then have "\<not> (reserved_amount tokens_allocated tokens_consumed g a ex \<le> u64_max \<and>
          reserved_amount cost_micros_allocated cost_micros_consumed g a ex \<le> u64_max)"
        unfolding reserved_amount_def
        using committed_mono [OF sub] le_trans by blast
      with False iter Cons show ?thesis by (auto simp: Let_def)
    qed
  qed
qed

theorem reserved_child_budget_eq:
  assumes "forest g" "\<And>c. ex = Some c \<Longrightarrow> c \<notin> bdom (nodes g)"
  shows "reserved_child_budget g a ex =
    (let rt = reserved_amount tokens_allocated tokens_consumed g a ex;
         rc = reserved_amount cost_micros_allocated cost_micros_consumed g a ex
     in if rt \<le> u64_max \<and> rc \<le> u64_max then Ok (rt, rc) else fail Overflow)"
  unfolding reserved_child_budget_def
  by (rule reserved_loop_eq [OF assms worklist_inv_start]) auto

end
