(* ===== verification/Invariants.thy ===== *)
theory Invariants
  imports Reserved
begin

text \<open>
  The declarative invariant behind \<open>validate_invariants\<close>. Each predicate states what a group
  of checks means: node fields, the child index as a forest with bounded fan-out and covered
  commitments, receipts, failed spend, the accepted path, and the exact accounting of every
  chain. The checker accepts a graph exactly when all of them hold.
\<close>

section \<open>The invariant\<close>

definition reaped_ok :: "bounded_work_graph \<Rightarrow> bool" where
  "reaped_ok g \<longleftrightarrow> (\<forall>nid fence. bget (reaped_executions g) nid = Some fence \<longrightarrow>
     (\<exists>n. bget (nodes g) nid = Some n \<and> execution_started n \<and> execution_fence n = Some fence))"

definition limits_ok :: "bounded_work_graph \<Rightarrow> bool" where
  "limits_ok g \<longleftrightarrow> (graph_id g \<noteq> [] \<longrightarrow> valid_id (graph_id g))
     \<and> blen (nodes g) \<le> MAX_GRAPH_NODES
     \<and> 1 \<le> max_fan_out g \<and> max_fan_out g \<le> MAX_FAN_OUT
     \<and> 1 \<le> max_depth g \<and> max_depth g \<le> MAX_DEPTH
     \<and> 1 \<le> max_local_concurrency g \<and> max_local_concurrency g \<le> MAX_LOCAL_CONCURRENCY
     \<and> active_count g \<le> max_local_concurrency g"

definition context_ok :: "bounded_work_graph \<Rightarrow> work_node \<Rightarrow> bool" where
  "context_ok g n \<longleftrightarrow>
     (\<forall>v\<in>{task_ref n, policy_ref n, expected_outcome_ref n}. v \<noteq> [] \<longrightarrow> valid_id v)
     \<and> (\<forall>t. parent_task_ref n = Some t \<longrightarrow> valid_id t)
     \<and> (\<forall>pid. parent_node_id n = Some pid \<longrightarrow> task_ref n \<noteq> [] \<longrightarrow>
          (\<exists>p. bget (nodes g) pid = Some p \<and> parent_task_ref n = Some (task_ref p)
             \<and> policy_ref n = policy_ref p))"

definition execution_ok :: "(string \<Rightarrow> string) \<Rightarrow> string \<Rightarrow> work_node \<Rightarrow> bool" where
  "execution_ok h gid n \<longleftrightarrow>
     length (path_claims n) \<le> MAX_PATH_CLAIMS \<and> distinct (path_claims n)
     \<and> (\<forall>c\<in>set (path_claims n). validate_path_claim c = Ok ())
     \<and> (\<forall>fence. execution_fence n = Some fence \<longrightarrow> fence = execution_fence_of h gid n)
     \<and> (\<forall>a. delivery_attempt n = Some a \<longrightarrow> 1 \<le> a \<and> a \<le> MAX_DELIVERY_ATTEMPTS
          \<and> execution_started n \<and> execution_fence n \<noteq> None)"

definition position_ok :: "bounded_work_graph \<Rightarrow> string \<Rightarrow> work_node \<Rightarrow> bool" where
  "position_ok g nid n \<longleftrightarrow>
     (\<exists>l. lineage_of (nodes g) nid l \<and> length l = depth n + 1) \<and> depth n \<le> max_depth g
     \<and> (\<forall>pid. parent_node_id n = Some pid \<longrightarrow> nid \<in> set (children_of g pid))
     \<and> (parent_node_id n = None \<longrightarrow> nid \<in> bdom (chain_budgets g))"

definition node_ok :: "(string \<Rightarrow> string) \<Rightarrow> bounded_work_graph \<Rightarrow> string \<Rightarrow> work_node \<Rightarrow> bool" where
  "node_ok h g nid n \<longleftrightarrow> node_id n = nid \<and> valid_id nid \<and> valid_id (agent_id n)
     \<and> valid_id (capsule_ref n) \<and> budget_ok (budget n) \<and> context_ok g n
     \<and> execution_ok h (graph_id g) n \<and> position_ok g nid n"

text \<open>The commitments below a node fit in what it has left.\<close>

definition covered :: "bounded_work_graph \<Rightarrow> string \<Rightarrow> work_node \<Rightarrow> bool" where
  "covered g pid p \<longleftrightarrow>
     (let rt = reserved_amount tokens_allocated tokens_consumed g pid None;
          rc = reserved_amount cost_micros_allocated cost_micros_consumed g pid None
      in rt \<le> u64_max \<and> rc \<le> u64_max \<and> rt \<le> tokens_remaining (budget p) \<and> rc \<le> cost_remaining (budget p))"

definition children_ok :: "bounded_work_graph \<Rightarrow> string \<Rightarrow> string list \<Rightarrow> bool" where
  "children_ok g pid cs \<longleftrightarrow> length cs \<le> max_fan_out g \<and> distinct cs
     \<and> (\<forall>c\<in>set cs. \<exists>n. bget (nodes g) c = Some n \<and> parent_node_id n = Some pid)
     \<and> (\<exists>p. bget (nodes g) pid = Some p \<and> covered g pid p)"

definition pending_ok :: "bounded_work_graph \<Rightarrow> string \<Rightarrow> work_node_budget \<Rightarrow> bool" where
  "pending_ok g cid b \<longleftrightarrow> valid_id cid \<and> budget_ok b \<and> cid \<notin> bdom (nodes g)
     \<and> cid \<in> bdom (pending_child_parents g)"

definition receipt_ok :: "bounded_work_graph \<Rightarrow> child_execution_receipt \<Rightarrow> bool" where
  "receipt_ok g r \<longleftrightarrow> validate_receipt r = Ok ()
     \<and> (\<exists>n. bget (nodes g) (receipt_node_id r) = Some n \<and> parent_node_id n \<noteq> None
          \<and> tokens_consumed (budget n) = receipt_tokens r
          \<and> cost_micros_consumed (budget n) = receipt_cost r
          \<and> (execution_fence n \<noteq> None \<longrightarrow> receipt_fence r = execution_fence n))"

definition failed_ok ::
  "(string \<Rightarrow> string) \<Rightarrow> bounded_work_graph \<Rightarrow> string \<Rightarrow> measured_execution_spend \<Rightarrow> bool" where
  "failed_ok h g nid s \<longleftrightarrow> validate_measured_spend h s = Ok () \<and> spend_node_id s = nid
     \<and> (\<exists>n. bget (nodes g) nid = Some n \<and> parent_node_id n \<noteq> None \<and> status n = Stopped
          \<and> stop_reason n = Some BudgetExhausted \<and> execution_fence n = Some (spend_fence s)
          \<and> (tokens_allocated (budget n) < spend_tokens s \<or> cost_micros_allocated (budget n) < spend_cost s))
     \<and> \<not> has_receipt g nid \<and> nid \<notin> accepted_path g"

text \<open>The accepted path is the union of the lineages of the accepted receipts on it.\<close>

definition accepted_ok :: "bounded_work_graph \<Rightarrow> bool" where
  "accepted_ok g \<longleftrightarrow> accepted_path g \<subseteq> bdom (nodes g)
     \<and> accepted_path g = \<Union>{set l | l r k. bget (receipts g) k = Some r \<and> receipt_outcome r = Accepted
          \<and> receipt_node_id r \<in> accepted_path g \<and> lineage_of (nodes g) (receipt_node_id r) l}"

section \<open>Chain sums\<close>

definition chain_nodes :: "(string \<Rightarrow> work_node \<Rightarrow> nat) \<Rightarrow> bounded_work_graph \<Rightarrow> string \<Rightarrow> nat" where
  "chain_nodes f g cid = bm.total (\<lambda>k n. if root_of (nodes g) k cid then f k n else 0) (nodes g)"

definition pending_in_chain :: "bounded_work_graph \<Rightarrow> string \<Rightarrow> string \<Rightarrow> bool" where
  "pending_in_chain g cid c \<longleftrightarrow>
     (\<exists>p. bget (pending_child_parents g) c = Some p \<and> root_of (nodes g) p cid)"

definition chain_pending :: "amount \<Rightarrow> bounded_work_graph \<Rightarrow> string \<Rightarrow> nat" where
  "chain_pending f g cid =
     bm.total (\<lambda>c b. if pending_in_chain g cid c then f b else 0) (pending_child_budgets g)"

text \<open>What a failed execution spent beyond its node's allocation.\<close>

definition unauthorized :: "(measured_execution_spend \<Rightarrow> nat) \<Rightarrow> amount \<Rightarrow> bounded_work_graph \<Rightarrow> string \<Rightarrow> work_node \<Rightarrow> nat" where
  "unauthorized spent alloc g k n =
     (case bget (failed_spend g) k of None \<Rightarrow> 0 | Some s \<Rightarrow> saturating_sub (spent s) (alloc (budget n)))"

definition chain_depths :: "bounded_work_graph \<Rightarrow> string \<Rightarrow> nat set" where
  "chain_depths g cid =
     (\<lambda>k. depth (the (bget (nodes g) k))) ` {k \<in> bdom (nodes g). root_of (nodes g) k cid}
     \<union> (\<lambda>c. depth (the (bget (nodes g) (the (bget (pending_child_parents g) c)))) + 1)
         ` {c \<in> bdom (pending_child_budgets g). pending_in_chain g cid c}"

definition chain_ok :: "bounded_work_graph \<Rightarrow> string \<Rightarrow> chain_budget \<Rightarrow> bool" where
  "chain_ok g cid chain \<longleftrightarrow>
     (\<exists>root. bget (nodes g) cid = Some root \<and> parent_node_id root = None
        \<and> root_budget_tokens chain = tokens_allocated (budget root)
        \<and> root_budget_cost_micros chain = cost_micros_allocated (budget root))
     \<and> (\<forall>c p. c \<in> bdom (pending_child_budgets g) \<longrightarrow> bget (pending_child_parents g) c = Some p \<longrightarrow>
          p \<in> bdom (nodes g))
     \<and> chain_id chain = cid
     \<and> total_allocated_tokens chain = chain_nodes (\<lambda>_ n. tokens_allocated (budget n)) g cid
          + chain_pending tokens_allocated g cid
     \<and> total_allocated_cost_micros chain = chain_nodes (\<lambda>_ n. cost_micros_allocated (budget n)) g cid
          + chain_pending cost_micros_allocated g cid
     \<and> total_consumed_tokens chain = chain_nodes (\<lambda>_ n. tokens_consumed (budget n)) g cid
     \<and> total_consumed_cost_micros chain = chain_nodes (\<lambda>_ n. cost_micros_consumed (budget n)) g cid
     \<and> total_allocated_tokens chain \<le> u64_max \<and> total_allocated_cost_micros chain \<le> u64_max
     \<and> total_consumed_tokens chain \<le> u64_max \<and> total_consumed_cost_micros chain \<le> u64_max
     \<and> unauthorized_tokens chain =
          min u64_max (chain_nodes (unauthorized spend_tokens tokens_allocated g) g cid)
     \<and> unauthorized_cost_micros chain =
          min u64_max (chain_nodes (unauthorized spend_cost cost_micros_allocated g) g cid)
     \<and> chain_depth chain = Max (insert 0 (chain_depths g cid))
     \<and> total_consumed_tokens chain \<le> root_budget_tokens chain
     \<and> total_consumed_cost_micros chain \<le> root_budget_cost_micros chain"

definition wf_graph :: "(string \<Rightarrow> string) \<Rightarrow> bounded_work_graph \<Rightarrow> bool" where
  "wf_graph h g \<longleftrightarrow> reaped_ok g \<and> limits_ok g
     \<and> (\<forall>nid n. bget (nodes g) nid = Some n \<longrightarrow> node_ok h g nid n)
     \<and> (\<forall>pid cs. bget (children g) pid = Some cs \<longrightarrow> children_ok g pid cs)
     \<and> (\<forall>cid b. bget (pending_child_budgets g) cid = Some b \<longrightarrow> pending_ok g cid b)
     \<and> (\<forall>k r. bget (receipts g) k = Some r \<longrightarrow> receipt_ok g r)
     \<and> (\<forall>nid s. bget (failed_spend g) nid = Some s \<longrightarrow> failed_ok h g nid s)
     \<and> accepted_ok g
     \<and> (\<forall>cid chain. bget (chain_budgets g) cid = Some chain \<longrightarrow> chain_ok g cid chain)"

section \<open>The checker, group by group\<close>

lemma ebind_unit_Ok: "ebind m (\<lambda>_. k) = Inr y \<longleftrightarrow> m = Inr () \<and> k = Inr y"
  by (auto simp: ebind_eq_Ok)

lemma invalid_not_Ok [simp]: "invalid m \<noteq> Inr x"
  by (simp add: invalid_def)

lemma efor_entries:
  "efor (entries m) (\<lambda>(k, v). f k v) = Inr u \<longleftrightarrow> (\<forall>k v. bget m k = Some v \<longrightarrow> f k v = Inr ())"
  unfolding efor_eq_Ok by (auto simp: Ball_def split_paired_All)

lemma validate_reaped_iff: "validate_reaped g = Ok u \<longleftrightarrow> reaped_ok g"
  unfolding validate_reaped_def efor_entries reaped_ok_def
  by (intro iff_allI imp_cong refl) (auto split: option.splits if_splits)

lemma validate_limits_iff: "validate_limits g = Ok u \<longleftrightarrow> limits_ok g"
proof -
  have "\<not> local_concurrency_limit g < active_count g \<longleftrightarrow> active_count g \<le> max_local_concurrency g"
    if "max_local_concurrency g \<noteq> 0" "max_local_concurrency g \<le> MAX_LOCAL_CONCURRENCY"
    using that by (simp add: local_concurrency_limit_def not_less)
  then show ?thesis
    by (auto simp: validate_limits_def limits_ok_def result_simps)
qed

lemma validate_path_claims_iff:
  "validate_path_claims cs seen = Ok u \<longleftrightarrow>
     distinct cs \<and> set cs \<inter> seen = {} \<and> (\<forall>c\<in>set cs. validate_path_claim c = Ok ())"
  by (induction cs arbitrary: seen) (auto simp: result_simps)

lemma validate_node_context_iff: "validate_node_context g n = Ok u \<longleftrightarrow> context_ok g n"
  unfolding validate_node_context_def context_ok_def
  by (auto simp: result_simps split: option.splits if_splits)

lemma validate_node_execution_iff:
  "validate_node_execution h g nid n = Ok u \<longleftrightarrow> node_id n = nid \<and> execution_ok h (graph_id g) n"
  unfolding validate_node_execution_def execution_ok_def
  by (auto simp: result_simps validate_path_claims_iff split: option.splits if_splits)

lemma validate_node_position_iff: "validate_node_position g nid n = Ok u \<longleftrightarrow> position_ok g nid n"
  unfolding validate_node_position_def position_ok_def children_of_def
  by (auto simp: result_simps split: option.splits if_splits; metis)

lemma validate_node_iff: "validate_node h g nid n = Ok u \<longleftrightarrow> node_ok h g nid n"
  unfolding validate_node_def node_ok_def
  by (auto simp: result_simps validate_node_context_iff validate_node_execution_iff
      validate_node_position_iff)

lemma validate_pending_entry_iff: "validate_pending_entry g cid b = Ok u \<longleftrightarrow> pending_ok g cid b"
  unfolding validate_pending_entry_def pending_ok_def by (auto simp: result_simps)

lemma validate_stored_receipt_iff: "validate_stored_receipt g r = Ok u \<longleftrightarrow> receipt_ok g r"
  unfolding validate_stored_receipt_def receipt_ok_def
  by (auto simp: result_simps split: option.splits)

lemma validate_failed_spend_iff: "validate_failed_spend h g nid s = Ok u \<longleftrightarrow> failed_ok h g nid s"
  unfolding validate_failed_spend_def failed_ok_def
  by (auto simp: result_simps split: option.splits)

section \<open>The child index\<close>

text \<open>The structural half of the invariant: nodes have lineages and the index mirrors parents.\<close>

definition index_ok :: "bounded_work_graph \<Rightarrow> bool" where
  "index_ok g \<longleftrightarrow> (\<forall>nid n. bget (nodes g) nid = Some n \<longrightarrow> position_ok g nid n)
     \<and> (\<forall>pid cs. bget (children g) pid = Some cs \<longrightarrow> distinct cs
          \<and> (\<forall>c\<in>set cs. \<exists>n. bget (nodes g) c = Some n \<and> parent_node_id n = Some pid))"

lemma index_forest: "index_ok g \<Longrightarrow> forest g"
  unfolding index_ok_def forest_def position_ok_def by blast

lemma validate_children_entry_iff:
  assumes "forest g"
  shows "validate_children_entry g pid cs = Ok u \<longleftrightarrow> children_ok g pid cs"
proof (cases "bget (nodes g) pid")
  case None
  then show ?thesis by (auto simp: validate_children_entry_def children_ok_def)
next
  case (Some p)
  have "card (set cs) = length cs \<longleftrightarrow> distinct cs" by (metis card_distinct distinct_card)
  moreover have "efor cs (\<lambda>cid. if (case bget (nodes g) cid of None \<Rightarrow> None
      | Some c \<Rightarrow> parent_node_id c) \<noteq> Some pid then invalid ''dangling child'' else Ok ()) = Inr u \<longleftrightarrow>
      (\<forall>c\<in>set cs. \<exists>n. bget (nodes g) c = Some n \<and> parent_node_id n = Some pid)" for u
    unfolding efor_eq_Ok by (intro ball_cong refl) (auto split: option.splits)
  moreover have "reserved_child_budget g pid None =
    (let rt = reserved_amount tokens_allocated tokens_consumed g pid None;
         rc = reserved_amount cost_micros_allocated cost_micros_consumed g pid None
     in if rt \<le> u64_max \<and> rc \<le> u64_max then Ok (rt, rc) else fail Overflow)"
    by (rule reserved_child_budget_eq [OF assms]) simp
  ultimately show ?thesis
    using Some by (auto simp: validate_children_entry_def children_ok_def covered_def ebind_eq_Ok
        Let_def split: if_splits)
qed

section \<open>The accepted path\<close>

definition supported_by :: "bounded_work_graph \<Rightarrow> child_execution_receipt \<Rightarrow> string set" where
  "supported_by g r = (if receipt_outcome r = Accepted \<and> receipt_node_id r \<in> accepted_path g
     then \<Union>{set l | l. lineage_of (nodes g) (receipt_node_id r) l} else {})"

lemma in_supported_by: "x \<in> supported_by g r \<longleftrightarrow> receipt_outcome r = Accepted
    \<and> receipt_node_id r \<in> accepted_path g \<and> (\<exists>l. lineage_of (nodes g) (receipt_node_id r) l \<and> x \<in> set l)"
  by (auto simp: supported_by_def)

lemma supported_path_eq:
  assumes "\<And>r. r \<in> set rs \<Longrightarrow> \<exists>l. lineage_of (nodes g) (receipt_node_id r) l"
  shows "efold (\<lambda>r acc. if receipt_outcome r = Accepted \<and> receipt_node_id r \<in> accepted_path g
       then ebind (checked_lineage g (receipt_node_id r)) (\<lambda>l. Ok (acc \<union> set l)) else Ok acc) rs acc
     = Ok (acc \<union> (\<Union>r\<in>set rs. supported_by g r))"
  using assms
proof (induction rs arbitrary: acc)
  case (Cons r rs)
  from Cons.prems obtain l where l: "lineage_of (nodes g) (receipt_node_id r) l" by auto
  then have "{set l' | l'. lineage_of (nodes g) (receipt_node_id r) l'} = {set l}"
    using lineage_of_unique by blast
  then have "supported_by g r = (if receipt_outcome r = Accepted \<and> receipt_node_id r \<in> accepted_path g
      then set l else {})" by (simp add: supported_by_def)
  moreover have "checked_lineage g (receipt_node_id r) = Ok l" using l by (simp add: result_simps)
  ultimately show ?case using Cons by (simp add: Un_assoc)
qed simp

lemma validate_accepted_iff:
  assumes "\<And>k r. bget (receipts g) k = Some r \<Longrightarrow> \<exists>l. lineage_of (nodes g) (receipt_node_id r) l"
  shows "validate_accepted g = Ok u \<longleftrightarrow> accepted_ok g"
proof -
  have "supported_path g = Ok (\<Union>r\<in>set (bvalues (receipts g)). supported_by g r)"
    unfolding supported_path_def using assms by (subst supported_path_eq) (auto simp: in_bvalues_iff)
  moreover have "(\<Union>r\<in>set (bvalues (receipts g)). supported_by g r) =
     \<Union>{set l | l r k. bget (receipts g) k = Some r \<and> receipt_outcome r = Accepted
      \<and> receipt_node_id r \<in> accepted_path g \<and> lineage_of (nodes g) (receipt_node_id r) l}"
    by (auto simp: in_supported_by in_bvalues_iff) (blast, metis in_bvalues_iff)
  ultimately show ?thesis
    unfolding validate_accepted_def accepted_ok_def by auto
qed

section \<open>The accounting of a chain\<close>

definition fits :: "chain_totals \<Rightarrow> bool" where
  "fits t \<longleftrightarrow> sum_allocated_tokens t \<le> u64_max \<and> sum_allocated_cost t \<le> u64_max
     \<and> sum_consumed_tokens t \<le> u64_max \<and> sum_consumed_cost t \<le> u64_max"

text \<open>The totals with one node or one pending reservation added, without the overflow checks.\<close>

definition add_node_totals ::
  "bounded_work_graph \<Rightarrow> string \<Rightarrow> work_node \<Rightarrow> chain_totals \<Rightarrow> chain_totals" where
  "add_node_totals g cid n t =
     (if root_of (nodes g) (node_id n) cid
      then \<lparr>sum_allocated_tokens = sum_allocated_tokens t + tokens_allocated (budget n),
            sum_allocated_cost = sum_allocated_cost t + cost_micros_allocated (budget n),
            sum_consumed_tokens = sum_consumed_tokens t + tokens_consumed (budget n),
            sum_consumed_cost = sum_consumed_cost t + cost_micros_consumed (budget n),
            sum_unauthorized_tokens = (if bget (failed_spend g) (node_id n) = None
              then sum_unauthorized_tokens t else saturating_add u64_max (sum_unauthorized_tokens t)
                (unauthorized spend_tokens tokens_allocated g (node_id n) n)),
            sum_unauthorized_cost = (if bget (failed_spend g) (node_id n) = None
              then sum_unauthorized_cost t else saturating_add u64_max (sum_unauthorized_cost t)
                (unauthorized spend_cost cost_micros_allocated g (node_id n) n)),
            deepest = max (deepest t) (depth n)\<rparr>
      else t)"

definition add_pending_totals ::
  "bounded_work_graph \<Rightarrow> string \<Rightarrow> string \<times> work_node_budget \<Rightarrow> chain_totals \<Rightarrow> chain_totals" where
  "add_pending_totals g cid e t =
     (if pending_in_chain g cid (fst e)
      then t\<lparr>sum_allocated_tokens := sum_allocated_tokens t + tokens_allocated (snd e),
             sum_allocated_cost := sum_allocated_cost t + cost_micros_allocated (snd e),
             deepest := max (deepest t)
               (depth (the (bget (nodes g) (the (bget (pending_child_parents g) (fst e))))) + 1)\<rparr>
      else t)"

lemma add_u64_Err [simp]: "u64_max < a + b \<Longrightarrow> add_u64 e a b = Inl e"
  by (simp add: add_u64_def checked_add_def)

lemma chain_add_node_eq:
  assumes "lineage_of (nodes g) (node_id n) l" "fits t"
  shows "chain_add_node g cid n t =
    (if fits (add_node_totals g cid n t) then Ok (add_node_totals g cid n t) else fail Overflow)"
proof -
  have l: "checked_lineage g (node_id n) = Ok l" using assms(1) by (simp add: result_simps)
  show ?thesis
  proof (cases "root_of (nodes g) (node_id n) cid")
    case False
    with assms l show ?thesis
      by (simp add: chain_add_node_def in_chain_root_of [OF assms(1)] add_node_totals_def)
  next
    case True
    consider "u64_max < sum_allocated_tokens t + tokens_allocated (budget n)"
      | "sum_allocated_tokens t + tokens_allocated (budget n) \<le> u64_max"
        "u64_max < sum_allocated_cost t + cost_micros_allocated (budget n)"
      | "sum_allocated_tokens t + tokens_allocated (budget n) \<le> u64_max"
        "sum_allocated_cost t + cost_micros_allocated (budget n) \<le> u64_max"
        "u64_max < sum_consumed_tokens t + tokens_consumed (budget n)"
      | "sum_allocated_tokens t + tokens_allocated (budget n) \<le> u64_max"
        "sum_allocated_cost t + cost_micros_allocated (budget n) \<le> u64_max"
        "sum_consumed_tokens t + tokens_consumed (budget n) \<le> u64_max"
        "u64_max < sum_consumed_cost t + cost_micros_consumed (budget n)"
      | "sum_allocated_tokens t + tokens_allocated (budget n) \<le> u64_max"
        "sum_allocated_cost t + cost_micros_allocated (budget n) \<le> u64_max"
        "sum_consumed_tokens t + tokens_consumed (budget n) \<le> u64_max"
        "sum_consumed_cost t + cost_micros_consumed (budget n) \<le> u64_max"
      by linarith
    then show ?thesis
      using True
      by cases (simp_all add: chain_add_node_def l in_chain_root_of [OF assms(1)] add_node_totals_def
          fits_def unauthorized_def Let_def split: option.splits)
  qed
qed

lemma chain_nodes_fold:
  assumes "\<And>n. n \<in> set ns \<Longrightarrow> \<exists>l. lineage_of (nodes g) (node_id n) l" "fits t"
  shows "efold (chain_add_node g cid) ns t =
    (if fits (fold (add_node_totals g cid) ns t)
     then Ok (fold (add_node_totals g cid) ns t) else fail Overflow)"
proof (rule efold_guarded)
  show "fits (add_node_totals g cid n t) \<Longrightarrow> fits t" for n t
    by (auto simp: fits_def add_node_totals_def split: if_splits)
  show "chain_add_node g cid n t = (if fits (add_node_totals g cid n t)
      then Inr (add_node_totals g cid n t) else fail Overflow)" if "n \<in> set ns" "fits t" for n t
    using assms(1) [OF that(1)] chain_add_node_eq [OF _ that(2)] by blast
qed (use assms in auto)

lemma chain_add_pending_eq:
  assumes "bget (pending_child_parents g) c = Some p" "lineage_of (nodes g) p l" "bget (nodes g) p = Some n"
    and "depth n < u16_max" "fits t"
  shows "chain_add_pending g cid (c, b) t =
    (if fits (add_pending_totals g cid (c, b) t) then Ok (add_pending_totals g cid (c, b) t)
     else fail Overflow)"
proof -
  have l: "checked_lineage g p = Ok l" using assms(2) by (simp add: result_simps)
  have d: "checked_add u16_max (depth n) 1 = Some (depth n + 1)"
    using assms(4) by (simp add: checked_add_def)
  have in_chain: "pending_in_chain g cid c \<longleftrightarrow> in_chain l cid"
    using assms(1) by (simp add: pending_in_chain_def in_chain_root_of [OF assms(2)])
  consider "u64_max < sum_allocated_tokens t + tokens_allocated b"
    | "sum_allocated_tokens t + tokens_allocated b \<le> u64_max"
      "u64_max < sum_allocated_cost t + cost_micros_allocated b"
    | "sum_allocated_tokens t + tokens_allocated b \<le> u64_max"
      "sum_allocated_cost t + cost_micros_allocated b \<le> u64_max"
    by linarith
  then show ?thesis
    using assms d l in_chain
    by cases (auto simp: chain_add_pending_def add_pending_totals_def fits_def)
qed

lemma chain_pending_fold:
  assumes "\<And>c b. (c, b) \<in> set es \<Longrightarrow> \<exists>p l n. bget (pending_child_parents g) c = Some p
      \<and> lineage_of (nodes g) p l \<and> bget (nodes g) p = Some n \<and> depth n < u16_max" "fits t"
  shows "efold (chain_add_pending g cid) es t =
    (if fits (fold (add_pending_totals g cid) es t)
     then Ok (fold (add_pending_totals g cid) es t) else fail Overflow)"
proof (rule efold_guarded)
  show "fits (add_pending_totals g cid e t) \<Longrightarrow> fits t" for e t
    by (auto simp: fits_def add_pending_totals_def split: if_splits)
  show "chain_add_pending g cid e t = (if fits (add_pending_totals g cid e t)
      then Inr (add_pending_totals g cid e t) else fail Overflow)" if "e \<in> set es" "fits t" for e t
    using that assms(1) [of "fst e" "snd e"] chain_add_pending_eq [of g "fst e" _ _ _ t cid "snd e"]
    by (cases e) auto
qed (use assms in auto)

text \<open>The fields of the accumulated totals.\<close>

definition selected :: "(work_node \<Rightarrow> nat) \<Rightarrow> bounded_work_graph \<Rightarrow> string \<Rightarrow> work_node \<Rightarrow> nat" where
  "selected f g cid n = (if root_of (nodes g) (node_id n) cid then f n else 0)"

lemma Max_insert_max: "finite S \<Longrightarrow> Max (insert (max a b) S) = Max (insert a (insert b S))"
  by (cases "S = {}") (simp_all add: max.assoc)

lemma fold_node_totals:
  fixes ns t g cid
  defines "t' \<equiv> fold (add_node_totals g cid) ns t"
  shows "sum_allocated_tokens t' = sum_allocated_tokens t
      + (\<Sum>n\<leftarrow>ns. selected (\<lambda>n. tokens_allocated (budget n)) g cid n)"
    "sum_allocated_cost t' = sum_allocated_cost t
      + (\<Sum>n\<leftarrow>ns. selected (\<lambda>n. cost_micros_allocated (budget n)) g cid n)"
    "sum_consumed_tokens t' = sum_consumed_tokens t
      + (\<Sum>n\<leftarrow>ns. selected (\<lambda>n. tokens_consumed (budget n)) g cid n)"
    "sum_consumed_cost t' = sum_consumed_cost t
      + (\<Sum>n\<leftarrow>ns. selected (\<lambda>n. cost_micros_consumed (budget n)) g cid n)"
    "deepest t' = Max (insert (deepest t) (depth ` {n \<in> set ns. root_of (nodes g) (node_id n) cid}))"
  unfolding t'_def
proof (induction ns arbitrary: t)
  case (Cons n ns)
  {
    case 5
    have "{m \<in> set (n # ns). root_of (nodes g) (node_id m) cid} =
      (if root_of (nodes g) (node_id n) cid then insert n {m \<in> set ns. root_of (nodes g) (node_id m) cid}
       else {m \<in> set ns. root_of (nodes g) (node_id m) cid})" by auto
    then show ?case
      using Cons.IH(5) [of "add_node_totals g cid n t"]
      by (simp add: add_node_totals_def Max_insert_max del: Max_insert)
  }
qed (simp_all add: add_node_totals_def selected_def)

lemma saturating_chain: "saturating_add m (saturating_add m a b) c = saturating_add m a (b + c)"
  by (simp add: saturating_add_def)

lemma fold_node_unauthorized:
  assumes "sum_unauthorized_tokens t \<le> u64_max" "sum_unauthorized_cost t \<le> u64_max"
  shows "sum_unauthorized_tokens (fold (add_node_totals g cid) ns t) =
      saturating_add u64_max (sum_unauthorized_tokens t)
        (\<Sum>n\<leftarrow>ns. selected (\<lambda>n. unauthorized spend_tokens tokens_allocated g (node_id n) n) g cid n)
    \<and> sum_unauthorized_cost (fold (add_node_totals g cid) ns t) =
      saturating_add u64_max (sum_unauthorized_cost t)
        (\<Sum>n\<leftarrow>ns. selected (\<lambda>n. unauthorized spend_cost cost_micros_allocated g (node_id n) n) g cid n)"
  using assms
proof (induction ns arbitrary: t)
  case (Cons n ns)
  have "sum_unauthorized_tokens (add_node_totals g cid n t) = saturating_add u64_max (sum_unauthorized_tokens t)
      (selected (\<lambda>n. unauthorized spend_tokens tokens_allocated g (node_id n) n) g cid n)"
    "sum_unauthorized_cost (add_node_totals g cid n t) = saturating_add u64_max (sum_unauthorized_cost t)
      (selected (\<lambda>n. unauthorized spend_cost cost_micros_allocated g (node_id n) n) g cid n)"
    using Cons.prems by (auto simp: add_node_totals_def selected_def unauthorized_def saturating_add_def
        split: option.splits)
  then show ?case
    using Cons.IH [of "add_node_totals g cid n t"] by (simp add: saturating_chain u64_simps)
qed (simp add: saturating_add_def)

lemma fold_pending_totals:
  fixes es t g cid
  defines "t' \<equiv> fold (add_pending_totals g cid) es t"
  shows "sum_allocated_tokens t' = sum_allocated_tokens t
      + (\<Sum>(c, b)\<leftarrow>es. if pending_in_chain g cid c then tokens_allocated b else 0)"
    "sum_allocated_cost t' = sum_allocated_cost t
      + (\<Sum>(c, b)\<leftarrow>es. if pending_in_chain g cid c then cost_micros_allocated b else 0)"
    "sum_consumed_tokens t' = sum_consumed_tokens t" "sum_consumed_cost t' = sum_consumed_cost t"
    "sum_unauthorized_tokens t' = sum_unauthorized_tokens t"
    "sum_unauthorized_cost t' = sum_unauthorized_cost t"
    "deepest t' = Max (insert (deepest t)
      ((\<lambda>c. depth (the (bget (nodes g) (the (bget (pending_child_parents g) c)))) + 1)
        ` {c \<in> fst ` set es. pending_in_chain g cid c}))"
  unfolding t'_def
proof (induction es arbitrary: t)
  case (Cons e es)
  {
    case 7
    have "{c \<in> fst ` set (e # es). pending_in_chain g cid c} =
      (if pending_in_chain g cid (fst e) then insert (fst e) {c \<in> fst ` set es. pending_in_chain g cid c}
       else {c \<in> fst ` set es. pending_in_chain g cid c})" by auto
    then show ?case
      using Cons.IH(7) [of "add_pending_totals g cid e t"]
      by (simp add: add_pending_totals_def Max_insert_max del: Max_insert)
  }
qed (simp_all add: add_pending_totals_def case_prod_beta)

text \<open>Sums over the node list are sums over the node map where keys are node ids.\<close>

lemma node_sum_total:
  assumes "\<And>k n. bget (nodes g) k = Some n \<Longrightarrow> node_id n = k"
  shows "(\<Sum>n\<leftarrow>bvalues (nodes g). selected (\<lambda>n. f (node_id n) n) g cid n) = chain_nodes f g cid"
proof -
  have "(\<Sum>n\<leftarrow>bvalues (nodes g). selected (\<lambda>n. f (node_id n) n) g cid n)
      = (\<Sum>(k, n)\<leftarrow>entries (nodes g). selected (\<lambda>n. f (node_id n) n) g cid n)"
    by (simp add: bvalues_def comp_def split_def)
  also have "\<dots> = (\<Sum>(k, n)\<leftarrow>entries (nodes g). if root_of (nodes g) k cid then f k n else 0)"
    by (intro arg_cong [of _ _ sum_list] map_cong) (auto simp: selected_def assms)
  finally show ?thesis by (simp add: chain_nodes_def bm.total_def)
qed

lemma node_depths:
  assumes "\<And>k n. bget (nodes g) k = Some n \<Longrightarrow> node_id n = k"
  shows "depth ` {n \<in> set (bvalues (nodes g)). root_of (nodes g) (node_id n) cid} =
    (\<lambda>k. depth (the (bget (nodes g) k))) ` {k \<in> bdom (nodes g). root_of (nodes g) k cid}"
  using assms by (force simp: in_bvalues_iff)

definition chain_sums_of :: "bounded_work_graph \<Rightarrow> string \<Rightarrow> chain_totals" where
  "chain_sums_of g cid =
     \<lparr>sum_allocated_tokens = chain_nodes (\<lambda>_ n. tokens_allocated (budget n)) g cid + chain_pending tokens_allocated g cid,
      sum_allocated_cost = chain_nodes (\<lambda>_ n. cost_micros_allocated (budget n)) g cid
        + chain_pending cost_micros_allocated g cid,
      sum_consumed_tokens = chain_nodes (\<lambda>_ n. tokens_consumed (budget n)) g cid,
      sum_consumed_cost = chain_nodes (\<lambda>_ n. cost_micros_consumed (budget n)) g cid,
      sum_unauthorized_tokens = min u64_max (chain_nodes (unauthorized spend_tokens tokens_allocated g) g cid),
      sum_unauthorized_cost = min u64_max (chain_nodes (unauthorized spend_cost cost_micros_allocated g) g cid),
      deepest = Max (insert 0 (chain_depths g cid))\<rparr>"

lemma Max_insert_Un:
  "finite A \<Longrightarrow> finite B \<Longrightarrow> Max (insert (Max (insert x A)) B) = Max (insert x (A \<union> B))" for x :: nat
  by (cases "A = {}"; cases "B = {}") (simp_all add: Max_Un ac_simps)

lemma chain_sums_fold:
  assumes "\<And>k n. bget (nodes g) k = Some n \<Longrightarrow> node_id n = k"
  shows "fold (add_pending_totals g cid) (entries (pending_child_budgets g))
      (fold (add_node_totals g cid) (bvalues (nodes g)) no_totals) = chain_sums_of g cid"
proof -
  have dom: "fst ` set (entries (pending_child_budgets g)) = bdom (pending_child_budgets g)"
    using set_bkeys [of "pending_child_budgets g"] by (simp add: bkeys_def)
  note sums = node_sum_total [OF assms, where cid = cid]
  note plain = sums [where f = "\<lambda>_ n. tokens_allocated (budget n)"]
    sums [where f = "\<lambda>_ n. cost_micros_allocated (budget n)"]
    sums [where f = "\<lambda>_ n. tokens_consumed (budget n)"]
    sums [where f = "\<lambda>_ n. cost_micros_consumed (budget n)"]
  have fin: "finite {k \<in> bdom (nodes g). root_of (nodes g) k cid}"
    "finite {c \<in> bdom (pending_child_budgets g). pending_in_chain g cid c}"
    by simp_all
  show ?thesis
    by (rule chain_totals.equality)
      (simp_all add: chain_sums_of_def fold_pending_totals fold_node_totals fold_node_unauthorized
        no_totals_def saturating_add_def sums plain node_depths [OF assms] dom
        chain_pending_def bm.total_def chain_depths_def Max_insert_Un fin del: Max_insert)
qed

text \<open>What the earlier groups of checks establish for the accounting.\<close>

definition accountable :: "bounded_work_graph \<Rightarrow> bool" where
  "accountable g \<longleftrightarrow>
     (\<forall>k n. bget (nodes g) k = Some n \<longrightarrow> node_id n = k \<and> depth n < u16_max \<and> (\<exists>l. lineage_of (nodes g) k l))
     \<and> (\<forall>c b. bget (pending_child_budgets g) c = Some b \<longrightarrow> c \<in> bdom (pending_child_parents g))"

definition parents_known :: "bounded_work_graph \<Rightarrow> bool" where
  "parents_known g \<longleftrightarrow> (\<forall>c p. c \<in> bdom (pending_child_budgets g) \<longrightarrow>
     bget (pending_child_parents g) c = Some p \<longrightarrow> p \<in> bdom (nodes g))"

lemma chain_sums_needs_parents:
  assumes "accountable g" "chain_sums g cid = Ok t"
  shows "parents_known g"
  unfolding parents_known_def
proof (intro allI impI)
  fix c p
  assume c: "c \<in> bdom (pending_child_budgets g)" "bget (pending_child_parents g) c = Some p"
  obtain t1 where "efold (chain_add_pending g cid) (entries (pending_child_budgets g)) t1 = Ok t"
    using assms(2) by (auto simp: chain_sums_def ebind_eq_Ok)
  moreover from c obtain b where "(c, b) \<in> set (entries (pending_child_budgets g))" by auto
  ultimately have "\<exists>s s'. chain_add_pending g cid (c, b) s = Ok s'" by (rule efold_Ok_body)
  then obtain s s' where "chain_add_pending g cid (c, b) s = Ok s'" by blast
  with c show "p \<in> bdom (nodes g)"
    by (auto simp: chain_add_pending_def result_simps dest: lineage_of_self)
qed

lemma chain_sums_iff:
  assumes "accountable g"
  shows "chain_sums g cid = Ok t \<longleftrightarrow> parents_known g \<and> fits (chain_sums_of g cid) \<and> t = chain_sums_of g cid"
proof (cases "parents_known g")
  case True
  let ?t = "fold (add_node_totals g cid) (bvalues (nodes g)) no_totals"
  have ids: "\<And>k n. bget (nodes g) k = Some n \<Longrightarrow> node_id n = k"
    and lin: "\<And>n. n \<in> set (bvalues (nodes g)) \<Longrightarrow> \<exists>l. lineage_of (nodes g) (node_id n) l"
    using assms by (auto simp: accountable_def in_bvalues_iff)
  have pend: "\<exists>p l n. bget (pending_child_parents g) c = Some p \<and> lineage_of (nodes g) p l
      \<and> bget (nodes g) p = Some n \<and> depth n < u16_max"
    if "(c, b) \<in> set (entries (pending_child_budgets g))" for c b
  proof -
    from that assms obtain p where p: "bget (pending_child_parents g) c = Some p"
      by (auto simp: accountable_def)
    with that True have "p \<in> bdom (nodes g)" by (auto simp: parents_known_def)
    then obtain n where "bget (nodes g) p = Some n" by auto
    with p assms show ?thesis by (auto simp: accountable_def)
  qed
  have nodes: "efold (chain_add_node g cid) (bvalues (nodes g)) no_totals = (if fits ?t then Ok ?t else fail Overflow)"
    by (rule chain_nodes_fold [OF lin]) (simp_all add: fits_def no_totals_def)
  have final: "fold (add_pending_totals g cid) (entries (pending_child_budgets g)) ?t = chain_sums_of g cid"
    by (rule chain_sums_fold [OF ids])
  have earlier: "fits (chain_sums_of g cid) \<Longrightarrow> fits ?t"
    unfolding final [symmetric] by (auto simp: fits_def fold_pending_totals)
  show ?thesis
  proof (cases "fits ?t")
    case fit: True
    have "efold (chain_add_pending g cid) (entries (pending_child_budgets g)) ?t =
        (if fits (chain_sums_of g cid) then Ok (chain_sums_of g cid) else fail Overflow)"
      unfolding final [symmetric] by (rule chain_pending_fold [OF pend fit])
    with fit True show ?thesis by (auto simp: chain_sums_def nodes)
  next
    case False
    then show ?thesis using earlier by (auto simp: chain_sums_def nodes)
  qed
next
  case False
  then show ?thesis using chain_sums_needs_parents [OF assms] by blast
qed

lemma validate_chain_iff:
  assumes "accountable g"
  shows "validate_chain g cid chain = Ok u \<longleftrightarrow> chain_ok g cid chain"
proof (cases "bget (nodes g) cid")
  case None
  then show ?thesis by (simp add: validate_chain_def chain_ok_def)
next
  case (Some root)
  have "validate_chain g cid chain = Ok u \<longleftrightarrow> parent_node_id root = None
      \<and> parents_known g \<and> fits (chain_sums_of g cid)
      \<and> \<not> (let t = chain_sums_of g cid in chain_id chain \<noteq> cid
               \<or> root_budget_tokens chain \<noteq> tokens_allocated (budget root)
               \<or> root_budget_cost_micros chain \<noteq> cost_micros_allocated (budget root)
               \<or> total_allocated_tokens chain \<noteq> sum_allocated_tokens t
               \<or> total_allocated_cost_micros chain \<noteq> sum_allocated_cost t
               \<or> total_consumed_tokens chain \<noteq> sum_consumed_tokens t
               \<or> total_consumed_cost_micros chain \<noteq> sum_consumed_cost t
               \<or> unauthorized_tokens chain \<noteq> sum_unauthorized_tokens t
               \<or> unauthorized_cost_micros chain \<noteq> sum_unauthorized_cost t
               \<or> chain_depth chain \<noteq> deepest t
               \<or> root_budget_tokens chain < sum_consumed_tokens t
               \<or> root_budget_cost_micros chain < sum_consumed_cost t)"
    using Some by (auto simp: validate_chain_def ebind_eq_Ok chain_sums_iff [OF assms] Let_def)
  also have "\<dots> \<longleftrightarrow> chain_ok g cid chain"
    using Some by (auto simp: chain_ok_def chain_sums_of_def parents_known_def fits_def Let_def not_less)
  finally show ?thesis .
qed

section \<open>The checker decides the invariant\<close>

lemma node_ok_accountable:
  assumes "limits_ok g" "\<forall>nid n. bget (nodes g) nid = Some n \<longrightarrow> node_ok h g nid n"
    and "\<forall>cid b. bget (pending_child_budgets g) cid = Some b \<longrightarrow> pending_ok g cid b"
  shows "accountable g"
proof -
  have "depth n < u16_max" if "bget (nodes g) k = Some n" for k n
    using that assms(1,2) by (fastforce simp: limits_ok_def node_ok_def position_ok_def MAX_DEPTH_def u16_max_def)
  moreover have "node_id n = k \<and> (\<exists>l. lineage_of (nodes g) k l)" if "bget (nodes g) k = Some n" for k n
    using that assms(2) unfolding node_ok_def position_ok_def by blast
  ultimately show ?thesis
    using assms(3) unfolding accountable_def pending_ok_def by blast
qed

lemma wf_index: "\<forall>nid n. bget (nodes g) nid = Some n \<longrightarrow> node_ok h g nid n \<Longrightarrow>
    \<forall>pid cs. bget (children g) pid = Some cs \<longrightarrow> distinct cs
      \<and> (\<forall>c\<in>set cs. \<exists>n. bget (nodes g) c = Some n \<and> parent_node_id n = Some pid) \<Longrightarrow> forest g"
  by (rule index_forest) (auto simp: index_ok_def node_ok_def)

lemma validate_children_structure:
  "validate_children_entry g pid cs = Ok u \<Longrightarrow> distinct cs
     \<and> (\<forall>c\<in>set cs. \<exists>n. bget (nodes g) c = Some n \<and> parent_node_id n = Some pid)"
  by (auto simp: validate_children_entry_def ebind_eq_Ok efor_eq_Ok card_distinct
      split: if_splits option.splits)

lemma validate_children_iff:
  assumes "\<forall>nid n. bget (nodes g) nid = Some n \<longrightarrow> node_ok h g nid n"
  shows "(\<forall>pid cs. bget (children g) pid = Some cs \<longrightarrow> validate_children_entry g pid cs = Ok ()) \<longleftrightarrow>
    (\<forall>pid cs. bget (children g) pid = Some cs \<longrightarrow> children_ok g pid cs)"
proof -
  have "forest g" if "\<forall>pid cs. bget (children g) pid = Some cs \<longrightarrow> validate_children_entry g pid cs = Ok ()"
    using wf_index [OF assms] that validate_children_structure by blast
  moreover have "forest g" if "\<forall>pid cs. bget (children g) pid = Some cs \<longrightarrow> children_ok g pid cs"
    using wf_index [OF assms] that by (auto simp: children_ok_def)
  ultimately show ?thesis using validate_children_entry_iff by blast
qed

lemma wf_graph_iff_validated: "validate_invariants h g = Ok () \<longleftrightarrow> wf_graph h g"
proof -
  define N where "N \<longleftrightarrow> (\<forall>nid n. bget (nodes g) nid = Some n \<longrightarrow> node_ok h g nid n)"
  define P where "P \<longleftrightarrow> (\<forall>cid b. bget (pending_child_budgets g) cid = Some b \<longrightarrow> pending_ok g cid b)"
  define R where "R \<longleftrightarrow> (\<forall>k r. bget (receipts g) k = Some r \<longrightarrow> receipt_ok g r)"
  have R: "(\<forall>r\<in>set (bvalues (receipts g)). receipt_ok g r) \<longleftrightarrow> R" by (auto simp: R_def in_bvalues_iff)
  have "validate_invariants h g = Ok () \<longleftrightarrow> reaped_ok g \<and> limits_ok g \<and> N
      \<and> (\<forall>pid cs. bget (children g) pid = Some cs \<longrightarrow> validate_children_entry g pid cs = Ok ())
      \<and> P \<and> R \<and> (\<forall>nid s. bget (failed_spend g) nid = Some s \<longrightarrow> failed_ok h g nid s)
      \<and> validate_accepted g = Ok ()
      \<and> (\<forall>cid chain. bget (chain_budgets g) cid = Some chain \<longrightarrow> validate_chain g cid chain = Ok ())"
    unfolding validate_invariants_def ebind_unit_Ok efor_entries validate_reaped_iff validate_limits_iff
      validate_node_iff validate_pending_entry_iff validate_failed_spend_iff
      efor_eq_Ok [of "bvalues (receipts g)"] validate_stored_receipt_iff R N_def P_def ..
  moreover have "(\<forall>pid cs. bget (children g) pid = Some cs \<longrightarrow> validate_children_entry g pid cs = Ok ()) \<longleftrightarrow>
      (\<forall>pid cs. bget (children g) pid = Some cs \<longrightarrow> children_ok g pid cs)" if N
    using that validate_children_iff unfolding N_def by blast
  moreover have "validate_chain g cid chain = Ok () \<longleftrightarrow> chain_ok g cid chain"
    if N P "limits_ok g" for cid chain
    using that node_ok_accountable unfolding N_def P_def by (intro validate_chain_iff) blast
  moreover have "validate_accepted g = Ok () \<longleftrightarrow> accepted_ok g" if N R
  proof (rule validate_accepted_iff)
    show "\<exists>l. lineage_of (nodes g) (receipt_node_id r) l" if "bget (receipts g) k = Some r" for k r
      using that \<open>N\<close> \<open>R\<close> unfolding N_def R_def receipt_ok_def node_ok_def position_ok_def by blast
  qed
  ultimately show ?thesis unfolding wf_graph_def N_def [symmetric] P_def [symmetric] R_def [symmetric]
    by blast
qed

lemma wf_forest:
  assumes "wf_graph h g"
  shows "forest g"
proof (rule wf_index)
  show "\<forall>nid n. bget (nodes g) nid = Some n \<longrightarrow> node_ok h g nid n" using assms by (simp add: wf_graph_def)
  show "\<forall>pid cs. bget (children g) pid = Some cs \<longrightarrow> distinct cs
      \<and> (\<forall>c\<in>set cs. \<exists>n. bget (nodes g) c = Some n \<and> parent_node_id n = Some pid)"
    using assms by (simp add: wf_graph_def children_ok_def)
qed

text \<open>
  C8. The budget reserved below a node is exact: on every valid graph the worklist returns the
  sum of what the children of the node and of its settled descendants hold (what a settled child
  consumed, what any other child or pending reservation was allocated), or reports overflow when
  that sum does not fit in 64 bits.
\<close>

theorem reserved_budget_exact:
  assumes "wf_graph h g"
  shows "reserved_child_budget g a None =
    (let rt = reserved_amount tokens_allocated tokens_consumed g a None;
         rc = reserved_amount cost_micros_allocated cost_micros_consumed g a None
     in if rt \<le> u64_max \<and> rc \<le> u64_max then Ok (rt, rc) else fail Overflow)"
  by (rule reserved_child_budget_eq [OF wf_forest [OF assms]]) simp

text \<open>
  C6. The validation every stored graph passes decides the invariant: it accepts a graph exactly
  when every node is well-formed and correctly placed, the child index is a forest within the
  fan-out whose commitments the parents cover, receipts, failed spend and accepted path agree
  with the nodes, and the totals of every chain are the exact sums over its nodes and pending
  reservations and within the root's budget.
\<close>

theorem validate_invariants_iff: "validate_invariants h g = Ok () \<longleftrightarrow> wf_graph h g"
  by (rule wf_graph_iff_validated)

end
