(* ===== verification/Evolution.thy ===== *)
theory Evolution
  imports Invariants
begin

text \<open>
  How operations change nodes. Every operation of the graph only moves nodes forward: no node
  disappears, no terminal status is left, no identity, position or allocation changes, and
  consumption only grows.
\<close>

section \<open>The operations as steps\<close>

text \<open>
  One call of a public operation other than the claim of an execution, which is the one operation that
  starts one; \<open>graph_operation\<close> has all of them.
\<close>

inductive graph_step :: "(string \<Rightarrow> string) \<Rightarrow> bounded_work_graph \<Rightarrow> bounded_work_graph \<Rightarrow> bool"
  for h where
  op_add_root: "add_root g nid aid capsule b = Ok g' \<Longrightarrow> graph_step h g g'"
| op_delegate: "delegate g pid cid aid capsule b = Ok g' \<Longrightarrow> graph_step h g g'"
| op_queue_child: "queue_child g pid cid aid capsule b = Ok g' \<Longrightarrow> graph_step h g g'"
| op_activate: "claim_and_activate_until h g nid lease = Ok g' \<Longrightarrow> graph_step h g g'"
| op_recover: "recover_expired_execution g nid now = Ok (g', stopped) \<Longrightarrow> graph_step h g g'"
| op_path_claims: "set_path_claims g nid claims = Ok g' \<Longrightarrow> graph_step h g g'"
| op_root_context: "configure_root_context g nid task policy expected = Ok g' \<Longrightarrow> graph_step h g g'"
| op_child_context: "configure_child_context g nid task expected = Ok g' \<Longrightarrow> graph_step h g g'"
| op_allocate: "allocate_child_budget g pid cid fraction = Ok (g', b) \<Longrightarrow> graph_step h g g'"
| op_complete: "complete g nid outcome = Ok g' \<Longrightarrow> graph_step h g g'"
| op_receipt: "record_child_receipt g r = (res, g') \<Longrightarrow> graph_step h g g'"
| op_accept: "mark_accepted_path g nids = Ok g' \<Longrightarrow> graph_step h g g'"
| op_stop: "stop g nid reason = Ok (g', stopped) \<Longrightarrow> graph_step h g g'"
| op_stop_unlaunched: "stop_unlaunched g nid reason = Ok (g', stopped) \<Longrightarrow> graph_step h g g'"
| op_enforce: "enforce_stop_conditions g = Ok (g', reasons) \<Longrightarrow> graph_step h g g'"
| op_consume: "consume_budget g nid tokens cost = Ok (g', exhausted) \<Longrightarrow> graph_step h g g'"
| op_attempt: "begin_delivery_attempt g nid fence attempt = Ok g' \<Longrightarrow> graph_step h g g'"
| op_bind: "bind_graph_id g gid = Ok g' \<Longrightarrow> graph_step h g g'"

inductive graph_operation :: "(string \<Rightarrow> string) \<Rightarrow> bounded_work_graph \<Rightarrow> bounded_work_graph \<Rightarrow> bool"
  for h where
  op_step: "graph_step h g g' \<Longrightarrow> graph_operation h g g'"
| op_claim: "claim_or_resume_active_until h g nid lease = Ok g' \<Longrightarrow> graph_operation h g g'"

section \<open>The order on nodes\<close>

definition status_le :: "node_status \<Rightarrow> node_status \<Rightarrow> bool" where
  "status_le s s' \<longleftrightarrow> s = s' \<or> s = Pending \<or> (s = Active \<and> s' \<noteq> Pending)"

definition terminal :: "node_status \<Rightarrow> bool" where
  "terminal s \<longleftrightarrow> s = Completed \<or> s = Stopped \<or> s = Failed"

definition budget_le :: "work_node_budget \<Rightarrow> work_node_budget \<Rightarrow> bool" where
  "budget_le b b' \<longleftrightarrow> tokens_allocated b' = tokens_allocated b
     \<and> cost_micros_allocated b' = cost_micros_allocated b
     \<and> tokens_consumed b \<le> tokens_consumed b' \<and> cost_micros_consumed b \<le> cost_micros_consumed b'"

definition evolves :: "work_node \<Rightarrow> work_node \<Rightarrow> bool" where
  "evolves n n' \<longleftrightarrow> node_id n' = node_id n \<and> agent_id n' = agent_id n
     \<and> parent_node_id n' = parent_node_id n \<and> capsule_ref n' = capsule_ref n \<and> depth n' = depth n
     \<and> status_le (status n) (status n') \<and> budget_le (budget n) (budget n')
     \<and> (terminal (status n) \<longrightarrow> budget n' = budget n)
     \<and> (status n \<noteq> Pending \<longrightarrow> path_claims n' = path_claims n)
     \<and> execution_started n' = execution_started n
     \<and> claim_attempt n \<le> claim_attempt n'"

lemma budget_le_refl [simp]: "budget_le b b"
  by (simp add: budget_le_def)

lemma status_le_refl [simp]: "status_le s s"
  by (simp add: status_le_def)

lemma evolves_refl [simp]: "evolves n n"
  by (simp add: evolves_def)

lemma status_le_trans: "status_le s s' \<Longrightarrow> status_le s' s'' \<Longrightarrow> status_le s s''"
  by (auto simp: status_le_def)

lemma status_le_terminal: "status_le s s' \<Longrightarrow> terminal s \<Longrightarrow> s' = s"
  by (auto simp: status_le_def terminal_def)

lemma status_le_started: "status_le s s' \<Longrightarrow> s \<noteq> Pending \<Longrightarrow> s' \<noteq> Pending"
  by (auto simp: status_le_def)

lemma budget_le_trans: "budget_le b b' \<Longrightarrow> budget_le b' b'' \<Longrightarrow> budget_le b b''"
  by (simp add: budget_le_def)

lemma evolves_trans:
  assumes "evolves n n'" "evolves n' n''"
  shows "evolves n n''"
proof -
  have s: "status_le (status n) (status n')" "status_le (status n') (status n'')"
    using assms by (simp_all add: evolves_def)
  have b: "budget_le (budget n) (budget n'')"
    using assms budget_le_trans by (simp add: evolves_def) blast
  have t: "budget n'' = budget n" if "terminal (status n)"
    using that assms status_le_terminal [OF s(1)] by (simp add: evolves_def)
  have p: "path_claims n'' = path_claims n" if "status n \<noteq> Pending"
    using that assms status_le_started [OF s(1)] by (simp add: evolves_def)
  show ?thesis
    unfolding evolves_def
    using assms b t p status_le_trans [OF s] by (simp add: evolves_def)
qed

text \<open>Every old node is still there and has moved forward; a new node has not started.\<close>

definition nodes_evolve :: "node_map \<Rightarrow> node_map \<Rightarrow> bool" where
  "nodes_evolve ns ns' \<longleftrightarrow>
     (\<forall>k n. bget ns k = Some n \<longrightarrow> (\<exists>n'. bget ns' k = Some n' \<and> evolves n n'))
     \<and> (\<forall>k n'. bget ns k = None \<longrightarrow> bget ns' k = Some n' \<longrightarrow> \<not> execution_started n')"

lemma nodes_evolve_refl [simp]: "nodes_evolve ns ns"
  by (auto simp: nodes_evolve_def)

lemma evolves_started: "evolves n n' \<Longrightarrow> execution_started n' = execution_started n"
  by (simp add: evolves_def)

lemma nodes_evolve_trans [trans]:
  assumes "nodes_evolve ns ns'" "nodes_evolve ns' ns''"
  shows "nodes_evolve ns ns''"
  unfolding nodes_evolve_def
proof (intro conjI allI impI)
  fix k n assume "bget ns k = Some n"
  with assms obtain n' n'' where "evolves n n'" "bget ns'' k = Some n''" "evolves n' n''"
    unfolding nodes_evolve_def by blast
  then show "\<exists>n''. bget ns'' k = Some n'' \<and> evolves n n''" using evolves_trans by blast
next
  fix k n'' assume k: "bget ns k = None" "bget ns'' k = Some n''"
  show "\<not> execution_started n''"
  proof (cases "bget ns' k")
    case None
    with k assms(2) show ?thesis unfolding nodes_evolve_def by blast
  next
    case (Some n')
    with k assms have "\<not> execution_started n'" "evolves n' n''"
      unfolding nodes_evolve_def by (blast, metis option.inject)
    then show ?thesis by (simp add: evolves_started)
  qed
qed

lemma nodes_evolve_binsert:
  "bget ns k = Some m \<Longrightarrow> evolves m n \<Longrightarrow> nodes_evolve ns (binsert k n ns)"
  by (auto simp: nodes_evolve_def)

lemma nodes_evolve_new:
  "bget ns k = None \<Longrightarrow> \<not> execution_started n \<Longrightarrow> nodes_evolve ns (binsert k n ns)"
  by (auto simp: nodes_evolve_def)

lemma nodes_evolve_bupdate:
  "(\<And>n. bget ns k = Some n \<Longrightarrow> evolves n (f n)) \<Longrightarrow> nodes_evolve ns (bupdate k f ns)"
  by (auto simp: nodes_evolve_def)

section \<open>Stopping\<close>

text \<open>A relation that every single stop keeps, the whole cascade keeps.\<close>

lemma stop_cascade_keeps:
  assumes "\<And>g nid reason stopped. R g (fst (stop_node g nid reason stopped))"
    and "\<And>g. R g g" and "\<And>g g' g''. R g g' \<Longrightarrow> R g' g'' \<Longrightarrow> R g g''"
  shows stop_recursive_keeps: "stop_recursive fuel g nid reason stopped = Some (g', s') \<Longrightarrow> R g g'"
    and stop_children_keeps: "stop_children fuel g cs stopped = Some (g', s') \<Longrightarrow> R g g'"
proof (induction fuel g nid reason stopped and fuel g cs stopped
      arbitrary: g' s' and g' s' rule: stop_recursive_stop_children.induct)
    case (2 fuel g nid reason stopped)
    obtain g1 s1 where n: "stop_node g nid reason stopped = (g1, s1)" by fastforce
    with 2 have "R g1 g'" by simp
    moreover have "R g g1" using assms(1) [of g nid reason stopped] n by simp
    ultimately show ?case by (rule assms(3) [rotated])
  next
    case (4 fuel g c cs stopped)
    then obtain g1 s1 where c: "stop_recursive fuel g c ParentStopped stopped = Some (g1, s1)"
      "stop_children fuel g1 cs s1 = Some (g', s')"
      by (auto split: option.splits prod.splits)
    with 4 have "R g g1" "R g1 g'" by simp_all
    then show ?case by (rule assms(3))
qed (use assms(2) in auto)

lemma end_incarnation_evolves: "nodes_evolve (nodes g) (nodes (end_incarnation g nid))"
  by (auto simp: end_incarnation_def evolves_def split: option.splits intro: nodes_evolve_binsert)

lemma stop_node_evolves: "nodes_evolve (nodes g) (nodes (fst (stop_node g nid reason stopped)))"
proof (cases "bget (nodes g) nid")
  case (Some n)
  let ?g = "g\<lparr>nodes := binsert nid (n\<lparr>status := Stopped, stop_reason := Some reason\<rparr>) (nodes g)\<rparr>"
  have "nodes_evolve (nodes g) (nodes ?g)" if "status n = Active \<or> status n = Pending"
    using that Some by (auto simp: evolves_def status_le_def terminal_def intro!: nodes_evolve_binsert)
  then show ?thesis
    using Some nodes_evolve_trans [OF _ end_incarnation_evolves [of ?g nid]]
    by (simp add: stop_node_def)
qed (simp add: stop_node_def)

lemma run_stop_evolves:
  assumes "run_stop g nid reason = Ok (g', stopped)"
  shows "nodes_evolve (nodes g) (nodes g')"
proof (rule stop_recursive_keeps [where R = "\<lambda>g g'. nodes_evolve (nodes g) (nodes g')"])
  show "stop_recursive (stop_fuel g) g nid reason [] = Some (g', stopped)"
    using assms by (simp add: run_stop_def split: option.splits)
qed (auto intro: stop_node_evolves nodes_evolve_trans)

lemma stop_evolves: "stop g nid reason = Ok (g', stopped) \<Longrightarrow> nodes_evolve (nodes g) (nodes g')"
  by (auto simp: stop_def intro: run_stop_evolves split: if_splits)

lemma stop_each_evolves: "stop_each nids g acc = Ok (g', rs) \<Longrightarrow> nodes_evolve (nodes g) (nodes g')"
proof (induction nids g acc rule: stop_each.induct)
  case (2 nid nids g acc)
  then obtain g1 cascade where "run_stop g nid BudgetExhausted = Ok (g1, cascade)"
    "stop_each nids g1 (acc @ map (\<lambda>i. (i, BudgetExhausted)) cascade) = Ok (g', rs)"
    by (auto simp: ebind_eq_Ok)
  with 2 have "nodes_evolve (nodes g) (nodes g1)" "nodes_evolve (nodes g1) (nodes g')"
    by (auto intro: run_stop_evolves)
  then show ?case by (rule nodes_evolve_trans)
qed simp

section \<open>The other operations\<close>

lemma record_chain_allocation_fields [simp]:
  "nodes (record_chain_allocation g cid pt t pc c d) = nodes g"
  "children (record_chain_allocation g cid pt t pc c d) = children g"
  "receipts (record_chain_allocation g cid pt t pc c d) = receipts g"
  "pending_child_budgets (record_chain_allocation g cid pt t pc c d) = pending_child_budgets g"
  "pending_child_parents (record_chain_allocation g cid pt t pc c d) = pending_child_parents g"
  by (simp_all add: record_chain_allocation_def ensure_chain_budget_def Let_def)

lemma ensure_chain_budget_fields [simp]:
  "nodes (ensure_chain_budget g cid) = nodes g" "receipts (ensure_chain_budget g cid) = receipts g"
  "children (ensure_chain_budget g cid) = children g"
  by (simp_all add: ensure_chain_budget_def Let_def)

lemma add_root_evolves: "add_root g nid aid capsule b = Ok g' \<Longrightarrow> nodes_evolve (nodes g) (nodes g')"
  by (auto simp: add_root_def result_simps new_node_def split: if_splits intro!: nodes_evolve_new)

lemma insert_child_nodes:
  assumes "insert_child g pid cid aid capsule b st = Ok g'"
  shows "cid \<notin> bdom (nodes g)
    \<and> (\<exists>d. nodes g' = binsert cid (new_node cid aid (Some pid) capsule st b d) (nodes g))"
  using assms by (auto simp: insert_child_def result_simps Let_def split: if_splits)

lemma insert_child_evolves:
  "insert_child g pid cid aid capsule b st = Ok g' \<Longrightarrow> nodes_evolve (nodes g) (nodes g')"
  using insert_child_nodes by (fastforce simp: new_node_def intro: nodes_evolve_new)

lemma activate_evolves: "claim_and_activate_until h g nid lease = Ok g' \<Longrightarrow> nodes_evolve (nodes g) (nodes g')"
  by (auto simp: claim_and_activate_until_def result_simps u64_simps Let_def evolves_def status_le_def
      terminal_def split: if_splits option.splits intro!: nodes_evolve_binsert)

lemma set_path_claims_evolves: "set_path_claims g nid claims = Ok g' \<Longrightarrow> nodes_evolve (nodes g) (nodes g')"
  by (auto simp: set_path_claims_def result_simps Let_def evolves_def split: if_splits
      intro!: nodes_evolve_binsert)

lemma root_context_evolves:
  "configure_root_context g nid task policy expected = Ok g' \<Longrightarrow> nodes_evolve (nodes g) (nodes g')"
  by (auto simp: configure_root_context_def result_simps evolves_def split: if_splits
      intro!: nodes_evolve_binsert)

lemma child_context_evolves:
  "configure_child_context g nid task expected = Ok g' \<Longrightarrow> nodes_evolve (nodes g) (nodes g')"
  by (auto simp: configure_child_context_def result_simps evolves_def split: if_splits
      intro!: nodes_evolve_binsert)

lemma allocate_nodes: "allocate_child_budget g pid cid fraction = Ok (g', b) \<Longrightarrow> nodes g' = nodes g"
  by (auto simp: allocate_child_budget_def result_simps Let_def split: if_splits option.splits)

lemma complete_evolves: "complete g nid outcome = Ok g' \<Longrightarrow> nodes_evolve (nodes g) (nodes g')"
proof -
  assume "complete g nid outcome = Ok g'"
  then obtain n where n: "bget (nodes g) nid = Some n" "status n = Active"
    and g': "g' = end_incarnation (g\<lparr>nodes := binsert nid (n\<lparr>status := Completed, outcome_ref := Some outcome,
      lease_expires_epoch_ms := None\<rparr>) (nodes g)\<rparr>) nid"
    by (auto simp: complete_def result_simps split: if_splits)
  have "nodes_evolve (nodes g) (binsert nid (n\<lparr>status := Completed, outcome_ref := Some outcome,
      lease_expires_epoch_ms := None\<rparr>) (nodes g))"
    using n by (auto simp: evolves_def status_le_def terminal_def intro!: nodes_evolve_binsert)
  then show ?thesis
    unfolding g' by (intro nodes_evolve_trans [OF _ end_incarnation_evolves]) simp
qed

lemma receipt_checkD:
  assumes "receipt_check g r = Ok (cid, dt, dc)"
  obtains n where "bget (nodes g) (receipt_node_id r) = Some n" "status n = Active" "parent_node_id n \<noteq> None"
    "\<not> has_receipt g (receipt_node_id r)" "receipt_id r \<notin> bdom (receipts g)" "validate_receipt r = Ok ()"
    "execution_fence n \<noteq> None \<longrightarrow> receipt_fence r = execution_fence n"
    "receipt_tokens r \<le> tokens_allocated (budget n)" "receipt_cost r \<le> cost_micros_allocated (budget n)"
    "tokens_consumed (budget n) \<le> receipt_tokens r" "cost_micros_consumed (budget n) \<le> receipt_cost r"
    "dt = receipt_tokens r - tokens_consumed (budget n)" "dc = receipt_cost r - cost_micros_consumed (budget n)"
    "expect_chain_id g (receipt_node_id r) ''receipt node always has a root'' = Ok cid"
  using assms
  by (auto simp: receipt_check_def result_simps Let_def not_less split: if_splits)

lemma receipt_commit_evolves:
  assumes "bget (nodes g) (receipt_node_id r) = Some n" "status n = Active"
    and "tokens_consumed (budget n) \<le> receipt_tokens r" "cost_micros_consumed (budget n) \<le> receipt_cost r"
  shows "nodes_evolve (nodes g) (nodes (receipt_commit g r cid ct cc))"
proof -
  let ?f = "\<lambda>n. n\<lparr>budget := (budget n)\<lparr>tokens_consumed := receipt_tokens r,
      cost_micros_consumed := receipt_cost r\<rparr>, status := receipt_status (receipt_outcome r),
      outcome_ref := Some (receipt_outcome_ref r), lease_expires_epoch_ms := None\<rparr>"
  have "nodes_evolve (nodes g) (bupdate (receipt_node_id r) ?f (nodes g))"
    using assms by (intro nodes_evolve_bupdate)
      (auto simp: evolves_def status_le_def terminal_def budget_le_def receipt_status_def split: child_outcome.splits)
  also have "nodes_evolve \<dots> (nodes (receipt_commit g r cid ct cc))"
    using end_incarnation_evolves [of "g\<lparr>nodes := bupdate (receipt_node_id r) ?f (nodes g)\<rparr>"]
    by (simp add: receipt_commit_def Let_def)
  finally show ?thesis .
qed

lemma record_receipt_cases:
  assumes "record_child_receipt g r = (res, g')"
  obtains (refused) "nodes g' = nodes g" "children g' = children g" "receipts g' = receipts g" "res \<noteq> Ok ()"
  | (recorded) cid dt dc ct cc where "receipt_check g r = Ok (cid, dt, dc)" "res = Ok ()"
      "g' = receipt_commit (ensure_chain_budget g cid) r cid ct cc"
  using assms
  by (auto simp: record_child_receipt_def Let_def split: sum.splits option.splits prod.splits if_splits)

lemma record_receipt_evolves:
  assumes "record_child_receipt g r = (res, g')"
  shows "nodes_evolve (nodes g) (nodes g')"
  using assms
proof (cases rule: record_receipt_cases)
  case (recorded cid dt dc ct cc)
  from recorded(1) obtain n where n: "bget (nodes g) (receipt_node_id r) = Some n" "status n = Active"
    "tokens_consumed (budget n) \<le> receipt_tokens r" "cost_micros_consumed (budget n) \<le> receipt_cost r"
    by (rule receipt_checkD)
  then show ?thesis
    unfolding recorded(3) using receipt_commit_evolves [of "ensure_chain_budget g cid" r n] by simp
qed simp

lemma mark_accepted_nodes: "mark_accepted_path g nids = Ok g' \<Longrightarrow> nodes g' = nodes g"
  by (auto simp: mark_accepted_path_def result_simps)

lemma attempt_evolves: "begin_delivery_attempt g nid fence attempt = Ok g' \<Longrightarrow> nodes_evolve (nodes g) (nodes g')"
  by (auto simp: begin_delivery_attempt_def result_simps evolves_def split: if_splits
      intro!: nodes_evolve_binsert)

lemma bind_nodes: "bind_graph_id g gid = Ok g' \<Longrightarrow> nodes g' = nodes g"
  by (auto simp: bind_graph_id_def result_simps split: if_splits)

lemma recover_evolves:
  "recover_expired_execution g nid now = Ok (g', stopped) \<Longrightarrow> nodes_evolve (nodes g) (nodes g')"
  by (auto simp: recover_expired_execution_def result_simps split: if_splits intro: stop_evolves)

lemma stop_unlaunched_evolves:
  assumes "stop_unlaunched g nid reason = Ok (g', stopped)"
  shows "nodes_evolve (nodes g) (nodes g')"
proof -
  from assms obtain g1 where "stop g nid reason = Ok (g1, stopped)"
    and g': "nodes g' = bupdate nid (\<lambda>n. n\<lparr>lease_expires_epoch_ms := None\<rparr>) (nodes g1)"
    by (auto simp: stop_unlaunched_def result_simps)
  then have "nodes_evolve (nodes g) (nodes g1)" by (auto intro: stop_evolves)
  also have "nodes_evolve (nodes g1) (nodes g')"
    unfolding g' by (rule nodes_evolve_bupdate) (simp add: evolves_def)
  finally show ?thesis .
qed

text \<open>A successful consumption: the node and the chain, and what was written.\<close>

lemma consume_budgetD:
  assumes "consume_budget g nid tokens cost = Ok (g', exhausted)"
  obtains n cid ct cc where "bget (nodes g) nid = Some n" "status n = Active"
    "tokens_consumed (budget n) + tokens \<le> tokens_allocated (budget n)"
    "cost_micros_consumed (budget n) + cost \<le> cost_micros_allocated (budget n)"
    "expect_chain_id g nid ''node always has a root node'' = Ok cid"
    "\<exists>g1. g1 = consume_commit g nid cid (tokens_consumed (budget n) + tokens)
        (cost_micros_consumed (budget n) + cost) ct cc
      \<and> (g' = g1 \<or> (\<exists>stopped. run_stop g1 cid BudgetExhausted = Ok (g', stopped))
         \<or> g' = end_incarnation (g1\<lparr>nodes := bupdate nid (\<lambda>n. n\<lparr>status := Stopped,
              stop_reason := Some BudgetExhausted\<rparr>) (nodes g1)\<rparr>) nid)"
proof -
  from assms obtain nt nc ex cid ct cc cex where
    node: "consume_check_node g nid tokens cost = Ok (nt, nc, ex)" and
    cid: "expect_chain_id g nid ''node always has a root node'' = Ok cid" and
    chain: "consume_check_chain g cid tokens cost = Ok (ct, cc, cex)" and
    rest: "(let g1 = consume_commit g nid cid nt nc ct cc in
      if cex then ebind (run_stop g1 cid BudgetExhausted) (\<lambda>(g2, _). Ok (g2, True))
      else if ex then Ok (end_incarnation (g1\<lparr>nodes := bupdate nid (\<lambda>n. n\<lparr>status := Stopped,
          stop_reason := Some BudgetExhausted\<rparr>) (nodes g1)\<rparr>) nid, True)
      else Ok (g1, False)) = Ok (g', exhausted)"
    by (auto simp: consume_budget_def ebind_eq_Ok)
  from node obtain n where n: "bget (nodes g) nid = Some n" "status n = Active"
    "tokens_consumed (budget n) + tokens \<le> tokens_allocated (budget n)"
    "cost_micros_consumed (budget n) + cost \<le> cost_micros_allocated (budget n)"
    "nt = tokens_consumed (budget n) + tokens" "nc = cost_micros_consumed (budget n) + cost"
    by (auto simp: consume_check_node_def result_simps not_less split: if_splits)
  show thesis
    by (rule that [OF n(1-4) cid])
      (use rest n(5,6) in \<open>auto simp: Let_def result_simps split: if_splits\<close>)
qed

lemma consume_commit_evolves:
  assumes "bget (nodes g) nid = Some n" "status n = Active"
    and "tokens_consumed (budget n) \<le> t" "cost_micros_consumed (budget n) \<le> c"
  shows "nodes_evolve (nodes g) (nodes (consume_commit g nid cid t c ct cc))"
  using assms
  by (auto simp: consume_commit_def evolves_def budget_le_def terminal_def intro!: nodes_evolve_bupdate)

lemma consume_evolves:
  assumes "consume_budget g nid tokens cost = Ok (g', exhausted)"
  shows "nodes_evolve (nodes g) (nodes g')"
proof -
  from assms obtain n cid ct cc where n: "bget (nodes g) nid = Some n" "status n = Active"
    and g1: "\<exists>g1. g1 = consume_commit g nid cid (tokens_consumed (budget n) + tokens)
        (cost_micros_consumed (budget n) + cost) ct cc
      \<and> (g' = g1 \<or> (\<exists>stopped. run_stop g1 cid BudgetExhausted = Ok (g', stopped))
         \<or> g' = end_incarnation (g1\<lparr>nodes := bupdate nid (\<lambda>n. n\<lparr>status := Stopped,
              stop_reason := Some BudgetExhausted\<rparr>) (nodes g1)\<rparr>) nid)"
    by (rule consume_budgetD)
  define g1 where "g1 = consume_commit g nid cid (tokens_consumed (budget n) + tokens)
        (cost_micros_consumed (budget n) + cost) ct cc"
  have 1: "nodes_evolve (nodes g) (nodes g1)"
    unfolding g1_def by (rule consume_commit_evolves [OF n]) simp_all
  have "status n1 = Active" if "bget (nodes g1) nid = Some n1" for n1
    using that n by (auto simp: g1_def consume_commit_def)
  then have "nodes_evolve (nodes g1) (nodes (g1\<lparr>nodes := bupdate nid (\<lambda>n. n\<lparr>status := Stopped,
      stop_reason := Some BudgetExhausted\<rparr>) (nodes g1)\<rparr>))"
    by (auto simp: evolves_def status_le_def terminal_def intro!: nodes_evolve_bupdate)
  then have "nodes_evolve (nodes g1) (nodes (end_incarnation (g1\<lparr>nodes := bupdate nid (\<lambda>n. n\<lparr>status := Stopped,
      stop_reason := Some BudgetExhausted\<rparr>) (nodes g1)\<rparr>) nid))"
    using end_incarnation_evolves by (rule nodes_evolve_trans)
  with g1 have "nodes_evolve (nodes g1) (nodes g')"
    unfolding g1_def [symmetric] by (auto intro: run_stop_evolves)
  with 1 show ?thesis by (rule nodes_evolve_trans)
qed

lemma graph_step_evolves: "graph_step h g g' \<Longrightarrow> nodes_evolve (nodes g) (nodes g')"
  by (induction rule: graph_step.induct)
    (auto simp: delegate_def queue_child_def enforce_stop_conditions_def allocate_nodes
      mark_accepted_nodes bind_nodes
      intro: add_root_evolves insert_child_evolves activate_evolves recover_evolves
        set_path_claims_evolves root_context_evolves child_context_evolves complete_evolves
        record_receipt_evolves stop_evolves stop_unlaunched_evolves stop_each_evolves
        consume_evolves attempt_evolves)

text \<open>The guarded claim starts one execution that had not started.\<close>

lemma claim_resume_nodes:
  assumes "claim_or_resume_active_until h g nid lease = Ok g'"
  obtains n n' where "bget (nodes g) nid = Some n" "nodes g' = binsert nid n' (nodes g)"
    "status n = Pending \<or> status n = Active \<and> \<not> execution_started n"
    "status n' = Active" "execution_started n'" "path_claims n' = path_claims n"
    "node_id n' = node_id n" "parent_node_id n' = parent_node_id n"
  using assms
  by (auto simp: claim_or_resume_active_until_def claim_and_activate_until_def result_simps Let_def
      split: if_splits node_status.splits option.splits)

section \<open>Forward motion over any run\<close>

text \<open>A node moves forward when it evolves, but for its execution, which may start and is not undone.\<close>

definition moves :: "work_node \<Rightarrow> work_node \<Rightarrow> bool" where
  "moves n n' \<longleftrightarrow> evolves n (n'\<lparr>execution_started := execution_started n\<rparr>)
     \<and> (execution_started n \<longrightarrow> execution_started n')"

lemma moves_refl: "moves n n"
  by (simp add: moves_def)

lemma evolves_moves: "evolves n n' \<Longrightarrow> moves n n'"
  by (simp add: moves_def evolves_def)

lemma evolves_any_start:
  "evolves n (n'\<lparr>execution_started := execution_started n\<rparr>) \<longleftrightarrow> evolves (n\<lparr>execution_started := b\<rparr>) (n'\<lparr>execution_started := b\<rparr>)"
  by (simp add: evolves_def)

lemma moves_trans: "moves n n' \<Longrightarrow> moves n' n'' \<Longrightarrow> moves n n''"
  unfolding moves_def evolves_any_start [where b = False] by (blast intro: evolves_trans)

lemma claim_moves:
  assumes "claim_or_resume_active_until h g nid lease = Ok g'" "bget (nodes g) k = Some n"
  shows "\<exists>n'. bget (nodes g') k = Some n' \<and> moves n n'"
proof -
  from assms(1) obtain m where m: "bget (nodes g) nid = Some m"
    and claim: "(case status m of
       Pending \<Rightarrow>
         ebind (claim_and_activate_until h g nid (Some lease)) (\<lambda>g1.
         Ok (g1\<lparr>nodes := bupdate nid (\<lambda>m. m\<lparr>execution_started := True\<rparr>) (nodes g1)\<rparr>))
     | Active \<Rightarrow>
         if parent_node_id m = None \<or> execution_fence m = None \<or> execution_started m
           then fail (InvalidTransition nid)
         else Ok (g\<lparr>nodes := binsert nid (m\<lparr>lease_expires_epoch_ms := Some lease,
                                             execution_started := True\<rparr>) (nodes g)\<rparr>)
     | _ \<Rightarrow> fail (InvalidTransition nid)) = Ok g'"
    by (auto simp: claim_or_resume_active_until_def result_simps split: if_splits)
  show ?thesis
  proof (cases "status m")
    case Pending
    with claim obtain g1 where g1: "claim_and_activate_until h g nid (Some lease) = Ok g1"
      "g' = g1\<lparr>nodes := bupdate nid (\<lambda>m. m\<lparr>execution_started := True\<rparr>) (nodes g1)\<rparr>"
      by (auto simp: ebind_eq_Ok)
    then obtain n1 where "bget (nodes g1) k = Some n1" "evolves n n1"
      using activate_evolves assms(2) unfolding nodes_evolve_def by blast
    then show ?thesis using g1(2) by (auto simp: moves_def evolves_def)
  next
    case Active
    with claim have "g' = g\<lparr>nodes := binsert nid (m\<lparr>lease_expires_epoch_ms := Some lease,
        execution_started := True\<rparr>) (nodes g)\<rparr>" by (auto split: if_splits)
    then show ?thesis using assms(2) m by (auto simp: moves_def evolves_def status_le_def)
  qed (use claim in simp_all)
qed

lemma operation_moves:
  "graph_operation h g g' \<Longrightarrow> bget (nodes g) k = Some n \<Longrightarrow> \<exists>n'. bget (nodes g') k = Some n' \<and> moves n n'"
  by (induction rule: graph_operation.induct)
    (use graph_step_evolves evolves_moves in \<open>unfold nodes_evolve_def, blast\<close>, rule claim_moves)

lemma run_moves:
  "(graph_operation h)\<^sup>*\<^sup>* g g' \<Longrightarrow> bget (nodes g) k = Some n \<Longrightarrow> \<exists>n'. bget (nodes g') k = Some n' \<and> moves n n'"
  by (induction rule: rtranclp_induct) (blast intro: moves_refl, meson operation_moves moves_trans)

text \<open>
  C7. Nodes only move forward: whatever operations run on a graph, the claim of an execution among
  them, every node stays in it with its identity, parent, depth and allocation; a completed, stopped
  or failed node keeps that status and its spending for ever, an active node never becomes pending
  again and keeps its path claims, spending never decreases, and an execution that started has
  started for good.
\<close>

theorem nodes_move_forward:
  assumes "(graph_operation h)\<^sup>*\<^sup>* g g'" "bget (nodes g) k = Some n"
  shows "\<exists>n'. bget (nodes g') k = Some n' \<and> node_id n' = node_id n \<and> agent_id n' = agent_id n
    \<and> parent_node_id n' = parent_node_id n \<and> depth n' = depth n \<and> capsule_ref n' = capsule_ref n
    \<and> tokens_allocated (budget n') = tokens_allocated (budget n)
    \<and> cost_micros_allocated (budget n') = cost_micros_allocated (budget n)
    \<and> tokens_consumed (budget n) \<le> tokens_consumed (budget n')
    \<and> cost_micros_consumed (budget n) \<le> cost_micros_consumed (budget n')
    \<and> (status n \<in> {Completed, Stopped, Failed} \<longrightarrow> status n' = status n \<and> budget n' = budget n)
    \<and> (status n = Active \<longrightarrow> status n' \<noteq> Pending \<and> path_claims n' = path_claims n)
    \<and> (execution_started n \<longrightarrow> execution_started n')"
proof -
  obtain n' where n': "bget (nodes g') k = Some n'" "moves n n'"
    using run_moves [OF assms] by blast
  have "status n' = status n" if "status n \<in> {Completed, Stopped, Failed}"
    using that n'(2) status_le_terminal by (auto simp: moves_def evolves_def terminal_def)
  with n' show ?thesis
    by (intro exI [of _ n']) (auto simp: moves_def evolves_def budget_le_def terminal_def status_le_def)
qed

end
