(* ===== verification/Work_Graph_Store.thy ===== *)
theory Work_Graph_Store
  imports Evolution
begin

text \<open>
  The project's store of work graphs (\<open>work_graph_store.rs\<close>). Its operations return text
  errors; \<open>Message\<close> carries a text of the store and \<open>Graph\<close> the failure of a graph operation
  whose text is returned. JSON encoding and decoding (\<open>serde_json\<close>) are the arguments
  \<open>show_store\<close> and \<open>parse_store\<close>, the stored bytes a string; an absent file is \<^const>\<open>None\<close>.
  The exclusive file lock makes one call of \<open>mutate\<close> one step.
\<close>

section \<open>Data\<close>

definition STORE_SCHEMA_VERSION :: nat where "STORE_SCHEMA_VERSION = 1"
definition MAX_STORE_BYTES :: nat where "MAX_STORE_BYTES = 4 * 1024 * 1024"
definition MAX_GRAPHS :: nat where "MAX_GRAPHS = 32"

record work_graph_store =
  store_schema_version :: nat
  project_root_hash :: string
  graphs :: "(string, bounded_work_graph) btree_map"

datatype claim_node_execution_result = Claimed work_node | RecoveredExpired

datatype store_failure = Message string | Graph wg_failure

type_synonym 'a store_result = "store_failure + 'a"

definition lift_wg :: "'a wg \<Rightarrow> 'a store_result" where
  "lift_wg m = map_err Graph m"

lemma lift_wg_eq_Ok [result_simps]: "lift_wg m = Inr x \<longleftrightarrow> m = Inr x"
  by (simp add: lift_wg_def result_simps)

definition empty_store :: "string \<Rightarrow> work_graph_store" where
  "empty_store root_hash = \<lparr>store_schema_version = STORE_SCHEMA_VERSION,
     project_root_hash = root_hash, graphs = bempty\<rparr>"

section \<open>Operations\<close>

definition validate_id :: "string \<Rightarrow> string \<Rightarrow> unit store_result" where
  "validate_id value field =
     (if value = [] \<or> 128 < length value
         \<or> \<not> list_all (\<lambda>c. is_ascii_alphanumeric c \<or> c \<in> set ''-_.'') value
      then Err (Message (''invalid '' @ field @ '': expected 1..=128 ASCII [A-Za-z0-9._-]'')) else Ok ())"

definition store_graph :: "work_graph_store \<Rightarrow> string \<Rightarrow> bounded_work_graph option" where
  "store_graph s gid = bget (graphs s) gid"

definition graph_ids_for_agent :: "work_graph_store \<Rightarrow> string \<Rightarrow> string list" where
  "graph_ids_for_agent s aid = map fst (filter (\<lambda>(gid, g). contains_agent g aid) (entries (graphs s)))"

definition create :: "work_graph_store \<Rightarrow> string \<Rightarrow> bounded_work_graph \<Rightarrow> work_graph_store store_result" where
  "create s gid g =
     ebind (validate_id gid ''graph_id'') (\<lambda>_.
     if bcontains (graphs s) gid
       then Err (Message (''duplicate graph: '' @ gid
              @ '' (inspect it with action=get or choose a new graph_id)''))
     else if MAX_GRAPHS \<le> blen (graphs s)
       then Err (Message ''work graph store at capacity (32)'')
     else ebind (lift_wg (bind_graph_id g gid)) (\<lambda>g1.
          Ok (s\<lparr>graphs := binsert gid g1 (graphs s)\<rparr>)))"

text \<open>
  \<open>graph_mut\<close> hands out a mutable reference: looking the graph up, and writing it back.
\<close>

definition graph_mut :: "work_graph_store \<Rightarrow> string \<Rightarrow> bounded_work_graph store_result" where
  "graph_mut s gid =
     ebind (validate_id gid ''graph_id'') (\<lambda>_.
     ok_or (bget (graphs s) gid) (Message (''graph not found: '' @ gid)))"

definition put_graph :: "work_graph_store \<Rightarrow> string \<Rightarrow> bounded_work_graph \<Rightarrow> work_graph_store" where
  "put_graph s gid g = s\<lparr>graphs := binsert gid g (graphs s)\<rparr>"

definition live_conflict :: "work_graph_store \<Rightarrow> string \<Rightarrow> string \<Rightarrow> string list \<Rightarrow> nat \<Rightarrow> bool" where
  "live_conflict s gid nid requested now \<longleftrightarrow>
     requested \<noteq> [] \<and> list_ex (\<lambda>(cand, g).
       has_live_path_conflict g requested now (if cand = gid then Some nid else None)) (entries (graphs s))"

definition claim_node_execution ::
  "(string \<Rightarrow> string) \<Rightarrow> work_graph_store \<Rightarrow> string \<Rightarrow> string \<Rightarrow> nat \<Rightarrow> nat
   \<Rightarrow> (claim_node_execution_result \<times> work_graph_store) store_result" where
  "claim_node_execution hash_hex s gid nid now lease =
     ebind (validate_id gid ''graph_id'') (\<lambda>_.
     ebind (validate_id nid ''node_id'') (\<lambda>_.
     ebind (ok_or (Option.bind (store_graph s gid) (\<lambda>g. get_node g nid))
              (Message (''node not found: '' @ nid))) (\<lambda>n.
     if live_conflict s gid nid (path_claims n) now
       then Err (Message ''path claim conflicts with a live work graph execution'')
     else ebind (graph_mut s gid) (\<lambda>g.
     ebind (lift_wg (recover_expired_execution g nid now)) (\<lambda>(g1, stopped).
     if stopped \<noteq> [] then Ok (RecoveredExpired, put_graph s gid g1)
     else ebind (lift_wg (claim_or_resume_active_until hash_hex g1 nid lease)) (\<lambda>g2.
          ebind (ok_or (get_node g2 nid) (Message ''unreachable'')) (\<lambda>claimed.
          Ok (Claimed claimed, put_graph s gid g2)))))))) "

definition validate_store :: "(string \<Rightarrow> string) \<Rightarrow> work_graph_store \<Rightarrow> unit store_result" where
  "validate_store hash_hex s =
     (if MAX_GRAPHS < blen (graphs s) then Err (Message ''work graph store exceeds 32 graphs'')
      else efor (entries (graphs s)) (\<lambda>(gid, g).
        ebind (validate_id gid ''graph_id'') (\<lambda>_.
        if graph_id g \<noteq> gid then Err (Message ''work graph key/id mismatch'')
        else lift_wg (validate_invariants hash_hex g))))"

section \<open>Persistence\<close>

definition bind_all :: "(string, bounded_work_graph) btree_map \<Rightarrow> (string, bounded_work_graph) btree_map store_result" where
  "bind_all gs = efold (\<lambda>(gid, g) m. ebind (lift_wg (bind_graph_id g gid)) (\<lambda>g1. Ok (binsert gid g1 m)))
     (entries gs) gs"

definition decode_store ::
  "(string \<Rightarrow> string) \<Rightarrow> (string \<Rightarrow> work_graph_store option) \<Rightarrow> string \<Rightarrow> string
   \<Rightarrow> work_graph_store store_result" where
  "decode_store hash_hex parse_store root_hash bytes =
     (case parse_store bytes of
        None \<Rightarrow> Err (Message ''invalid work graph store JSON'')
      | Some s \<Rightarrow>
          if store_schema_version s \<noteq> STORE_SCHEMA_VERSION \<or> project_root_hash s \<noteq> root_hash
            then Err (Message ''work graph store scope or schema mismatch'')
          else ebind (bind_all (graphs s)) (\<lambda>gs.
               let s1 = s\<lparr>graphs := gs\<rparr>
               in ebind (validate_store hash_hex s1) (\<lambda>_. Ok s1)))"

definition load_in_directory ::
  "(string \<Rightarrow> string) \<Rightarrow> (string \<Rightarrow> work_graph_store option) \<Rightarrow> string \<Rightarrow> string option
   \<Rightarrow> work_graph_store store_result" where
  "load_in_directory hash_hex parse_store root_hash file =
     (case file of
        None \<Rightarrow> Ok (empty_store root_hash)
      | Some bytes \<Rightarrow>
          if MAX_STORE_BYTES < length bytes
          then Err (Message ''work graph store exceeds 4194304 bytes'')
          else decode_store hash_hex parse_store root_hash bytes)"

text \<open>
  Saving replaces the file through a temporary one (\<open>secure_atomic_write_in_directory\<close>): \<open>w\<close> says
  what becomes of that. An error after the renaming is returned although the file is replaced.
\<close>

definition save_in_directory ::
  "(work_graph_store \<Rightarrow> string) \<Rightarrow> file_write \<Rightarrow> work_graph_store \<Rightarrow> string option
   \<Rightarrow> unit store_result \<times> string option" where
  "save_in_directory show_store w s file =
     (let bytes = show_store s
      in if MAX_STORE_BYTES < length bytes
         then (Err (Message ''work graph store exceeds 4194304 bytes''), file)
         else case replace_file w bytes file of (r, file') \<Rightarrow> (map_err Message r, file'))"

text \<open>\<open>mutate\<close>: load, change, validate, save. The file is written last.\<close>

definition mutate ::
  "(string \<Rightarrow> string) \<Rightarrow> (string \<Rightarrow> work_graph_store option) \<Rightarrow> (work_graph_store \<Rightarrow> string) \<Rightarrow> string
   \<Rightarrow> (work_graph_store \<Rightarrow> ('a \<times> work_graph_store) store_result) \<Rightarrow> file_write \<Rightarrow> string option
   \<Rightarrow> 'a store_result \<times> string option" where
  "mutate hash_hex parse_store show_store root_hash change w file =
     (case ebind (load_in_directory hash_hex parse_store root_hash file) (\<lambda>s.
           ebind (change s) (\<lambda>(x, s1).
           ebind (validate_store hash_hex s1) (\<lambda>_. Ok (x, s1)))) of
        Inl e \<Rightarrow> (Err e, file)
      | Inr (x, s1) \<Rightarrow>
          (case save_in_directory show_store w s1 file of
             (Inl e, file') \<Rightarrow> (Err e, file')
           | (Inr _, file') \<Rightarrow> (Ok x, file')))"

definition graph_revision ::
  "(string \<Rightarrow> string) \<Rightarrow> (string \<times> string \<times> bounded_work_graph \<Rightarrow> string) \<Rightarrow> work_graph_store \<Rightarrow> string
   \<Rightarrow> string store_result" where
  "graph_revision hash_hex show_graph s gid =
     ebind (validate_id gid ''graph_id'') (\<lambda>_.
     ebind (ok_or (store_graph s gid) (Message (''graph not found: '' @ gid))) (\<lambda>g.
     Ok (hash_hex (''lean-ctx:work-graph-write-revision:v1'' @ [char_of (0::nat)]
           @ show_graph (project_root_hash s, gid, g)))))"

definition mutate_if_revision ::
  "(string \<Rightarrow> string) \<Rightarrow> (string \<times> string \<times> bounded_work_graph \<Rightarrow> string)
   \<Rightarrow> (string \<Rightarrow> work_graph_store option) \<Rightarrow> (work_graph_store \<Rightarrow> string) \<Rightarrow> string \<Rightarrow> string \<Rightarrow> string
   \<Rightarrow> (work_graph_store \<Rightarrow> ('a \<times> work_graph_store) store_result) \<Rightarrow> file_write \<Rightarrow> string option
   \<Rightarrow> 'a store_result \<times> string option" where
  "mutate_if_revision hash_hex show_graph parse_store show_store root_hash gid expected change w file =
     (if length expected \<noteq> 64 \<or> \<not> list_all is_lower_hex expected
      then (Err (Message ''invalid work graph write revision''), file)
      else mutate hash_hex parse_store show_store root_hash (\<lambda>s.
        ebind (graph_revision hash_hex show_graph s gid) (\<lambda>rev.
        if rev \<noteq> expected then Err (Message ''work graph revision conflict'') else change s)) w file)"

end
