(* ===== verification/Store_Laws.thy ===== *)
theory Store_Laws
  imports Work_Graph_Store
begin

text \<open>
  What the store guarantees: only validated graphs are persisted and a failed change leaves
  the file alone; what was saved is what the next process loads; and across all graphs of the
  project no two running executions hold overlapping path claims.
\<close>

section \<open>Validated stores\<close>

definition store_ok :: "(string \<Rightarrow> string) \<Rightarrow> work_graph_store \<Rightarrow> bool" where
  "store_ok h s \<longleftrightarrow> blen (graphs s) \<le> MAX_GRAPHS
     \<and> (\<forall>gid g. bget (graphs s) gid = Some g \<longrightarrow>
          validate_id gid ''graph_id'' = Ok () \<and> graph_id g = gid \<and> wf_graph h g)"

lemma validate_invariants_Ok: "validate_invariants h g = Inr u \<longleftrightarrow> wf_graph h g"
  using wf_graph_iff_validated [of h g] by simp

lemma validate_store_iff: "validate_store h s = Ok u \<longleftrightarrow> store_ok h s"
  unfolding validate_store_def store_ok_def
  by (simp add: efor_entries ebind_unit_Ok not_less)
    (auto simp: result_simps validate_invariants_Ok)

lemma load_ok:
  assumes "load_in_directory h parse_store root_hash file = Ok s"
  shows "store_ok h s"
proof (cases "file")
  case None
  with assms show ?thesis by (auto simp: load_in_directory_def empty_store_def store_ok_def)
next
  case (Some bytes)
  with assms show ?thesis
    by (auto simp: load_in_directory_def decode_store_def result_simps Let_def validate_store_iff
        split: if_splits option.splits)
qed

lemma mutate_result:
  assumes "mutate h parse_store show_store root_hash change w file = (res, file')"
  shows "(\<forall>x. res = Ok x \<longrightarrow> w = Replaced \<and>
        (\<exists>s s'. load_in_directory h parse_store root_hash file = Ok s \<and> store_ok h s
          \<and> change s = Ok (x, s') \<and> store_ok h s' \<and> file' = Some (show_store s')))
    \<and> (\<forall>e. res = Err e \<longrightarrow> file' = file \<or> (\<exists>d. w = NotSynced d) \<and>
        (\<exists>x s s'. load_in_directory h parse_store root_hash file = Ok s \<and> store_ok h s
          \<and> change s = Ok (x, s') \<and> store_ok h s' \<and> file' = Some (show_store s')))"
proof (cases "ebind (load_in_directory h parse_store root_hash file) (\<lambda>s.
    ebind (change s) (\<lambda>(x, s1). ebind (validate_store h s1) (\<lambda>_. Ok (x, s1))))")
  case (Inl e)
  then have "res = Err e" "file' = file" using assms by (simp_all add: mutate_def)
  then show ?thesis by simp
next
  case (Inr y)
  obtain x s1 where y: "y = (x, s1)" by (cases y)
  from Inr y obtain s where s: "load_in_directory h parse_store root_hash file = Ok s" "change s = Ok (x, s1)" "store_ok h s1"
    by (auto simp: ebind_eq_Ok validate_store_iff)
  then show ?thesis
    using assms Inr y load_ok [OF s(1)]
    by (cases w) (auto simp: mutate_def save_in_directory_def Let_def split: if_splits)
qed

text \<open>
  C9. Only validated stores are persisted: a change that succeeds started from a store whose
  graphs all satisfy the invariant and leaves the encoding of another such store; a change that
  fails, validation included, leaves the file as it was, but for the failure to synchronise the
  directory after the file was replaced, which leaves the encoding of the changed and
  validated store although an error is returned.
\<close>

theorem mutate_persists_validated:
  assumes "mutate h parse_store show_store root_hash change w file = (res, file')"
  shows "(\<forall>x. res = Ok x \<longrightarrow> w = Replaced \<and>
        (\<exists>s s'. load_in_directory h parse_store root_hash file = Ok s \<and> store_ok h s
          \<and> change s = Ok (x, s') \<and> store_ok h s' \<and> file' = Some (show_store s')))
    \<and> (\<forall>e. res = Err e \<longrightarrow> file' = file \<or> (\<exists>d. w = NotSynced d) \<and>
        (\<exists>x s s'. load_in_directory h parse_store root_hash file = Ok s \<and> store_ok h s
          \<and> change s = Ok (x, s') \<and> store_ok h s' \<and> file' = Some (show_store s')))"
  by (rule mutate_result [OF assms])

text \<open>Loading binds every graph to its key, which changes nothing in a validated store.\<close>

lemma bind_same: "valid_id gid \<Longrightarrow> graph_id g = gid \<Longrightarrow> bind_graph_id g gid = Ok g"
  by (cases g) (auto simp: bind_graph_id_def validate_identifier_def valid_id_def)

lemma validate_id_valid_id: "validate_id v f = Ok u \<Longrightarrow> valid_id v"
proof -
  assume v: "validate_id v f = Ok u"
  have "\<not> has_control v" if "list_all (\<lambda>c. is_ascii_alphanumeric c \<or> c \<in> set ''-_.'') v"
    using that by (induction v rule: has_control.induct)
      (auto simp: is_ascii_alphanumeric_def is_ascii_digit_def byte_def)
  with v show ?thesis
    by (auto simp: validate_id_def valid_id_def MAX_IDENTIFIER_BYTES_def split: if_splits)
qed

lemma bind_all_same:
  assumes "store_ok h s"
  shows "bind_all (graphs s) = Ok (graphs s)"
proof -
  have "efold (\<lambda>(gid, g) m. ebind (lift_wg (bind_graph_id g gid)) (\<lambda>g1. Ok (binsert gid g1 m))) es m = Ok m"
    if "\<forall>(gid, g)\<in>set es. bind_graph_id g gid = Ok g \<and> bget m gid = Some g" for es m
    using that
  proof (induction es arbitrary: m)
    case (Cons e es)
    obtain gid g where e: "e = (gid, g)" by fastforce
    have "binsert gid g m = m" using Cons.prems e by (intro bmap_ext) auto
    with Cons e show ?case by (simp add: lift_wg_def)
  qed simp
  moreover have "\<forall>(gid, g)\<in>set (entries (graphs s)). bind_graph_id g gid = Ok g \<and> bget (graphs s) gid = Some g"
    using assms bind_same validate_id_valid_id [where f = "''graph_id''"]
    by (auto simp: store_ok_def)
  ultimately show ?thesis by (simp add: bind_all_def)
qed

text \<open>
  C10. The next process sees the store that was saved: where the JSON decoder inverts the encoder
  on it, loading the file that a validated store of this project was saved to returns that very store.
\<close>

theorem load_saved_store:
  assumes "store_ok h s" "store_schema_version s = STORE_SCHEMA_VERSION" "project_root_hash s = root_hash"
    and "save_in_directory show_store w s file = (Ok (), file')" "parse_store (show_store s) = Some s"
  shows "load_in_directory h parse_store root_hash file' = Ok s"
proof -
  have "file' = Some (show_store s)" "\<not> MAX_STORE_BYTES < length (show_store s)"
    using assms(4) by (cases w; auto simp: save_in_directory_def Let_def split: if_splits)+
  with assms bind_all_same [OF assms(1)] validate_store_iff [THEN iffD2, OF assms(1)] show ?thesis
    by (simp add: load_in_directory_def decode_store_def)
qed

section \<open>Running executions\<close>

text \<open>An execution runs while it is started and its node active; its exit is unconfirmed.\<close>

definition running :: "work_graph_store \<Rightarrow> (string \<times> string) set" where
  "running s = {(gid, nid). \<exists>g n. bget (graphs s) gid = Some g \<and> bget (nodes g) nid = Some n
     \<and> execution_exit_unconfirmed n}"

definition held_paths :: "work_graph_store \<Rightarrow> string \<times> string \<Rightarrow> string set" where
  "held_paths s e = (case bget (graphs s) (fst e) of None \<Rightarrow> {}
     | Some g \<Rightarrow> (case bget (nodes g) (snd e) of None \<Rightarrow> {} | Some n \<Rightarrow> set (path_claims n)))"

definition pending_idle :: "bounded_work_graph \<Rightarrow> bool" where
  "pending_idle g \<longleftrightarrow> (\<forall>k n. bget (nodes g) k = Some n \<longrightarrow> status n = Pending \<longrightarrow> \<not> execution_started n)"

definition execution_inv :: "(string \<Rightarrow> string) \<Rightarrow> work_graph_store \<Rightarrow> bool" where
  "execution_inv h s \<longleftrightarrow> store_ok h s
     \<and> (\<forall>gid g. bget (graphs s) gid = Some g \<longrightarrow> pending_idle g)
     \<and> pc.exclusive (held_paths s) (running s)"

text \<open>
  The life of the store: a graph without executions is added, an operation runs on one graph,
  or an execution is claimed; each change is persisted only if the new store validates.
\<close>

inductive store_step :: "(string \<Rightarrow> string) \<Rightarrow> work_graph_store \<Rightarrow> work_graph_store \<Rightarrow> bool" for h where
  store_create: "create s gid g = Ok s' \<Longrightarrow> \<forall>n\<in>set (bvalues (nodes g)). \<not> execution_started n \<Longrightarrow>
    validate_store h s' = Ok () \<Longrightarrow> store_step h s s'"
| store_claim: "claim_node_execution h s gid nid now lease = Ok (c, s') \<Longrightarrow>
    validate_store h s' = Ok () \<Longrightarrow> store_step h s s'"
| store_op: "graph_mut s gid = Ok g \<Longrightarrow> graph_step h g g' \<Longrightarrow> s' = put_graph s gid g' \<Longrightarrow>
    validate_store h s' = Ok () \<Longrightarrow> store_step h s s'"

text \<open>After a change of one graph in which nothing new runs.\<close>

lemma evolved_running:
  assumes "nodes_evolve (nodes g) (nodes g')" "pending_idle g"
    and "bget (nodes g') k = Some n'" "execution_exit_unconfirmed n'"
  obtains n where "bget (nodes g) k = Some n" "execution_exit_unconfirmed n" "path_claims n' = path_claims n"
proof -
  have st: "execution_started n'" "status n' = Active"
    using assms(4) by (auto simp: execution_exit_unconfirmed_def)
  have "bget (nodes g) k \<noteq> None"
    using assms(1,3) st(1) unfolding nodes_evolve_def by blast
  then obtain n where n: "bget (nodes g) k = Some n" by blast
  with assms(1,3) have e: "evolves n n'" unfolding nodes_evolve_def by (metis option.inject)
  then have "execution_started n" using st(1) by (simp add: evolves_def)
  moreover from this n assms(2) have "status n \<noteq> Pending" by (auto simp: pending_idle_def)
  ultimately have "status n = Active" "path_claims n' = path_claims n"
    using e st(2) by (auto simp: evolves_def status_le_def)
  with n that \<open>execution_started n\<close> show thesis by (simp add: execution_exit_unconfirmed_def)
qed

lemma evolved_idle:
  assumes "nodes_evolve (nodes g) (nodes g')" "pending_idle g"
  shows "pending_idle g'"
  unfolding pending_idle_def
proof (intro allI impI)
  fix k n' assume k: "bget (nodes g') k = Some n'" "status n' = Pending"
  show "\<not> execution_started n'"
  proof (cases "bget (nodes g) k")
    case None
    with k assms(1) show ?thesis unfolding nodes_evolve_def by blast
  next
    case (Some n)
    with k assms(1) have e: "evolves n n'" unfolding nodes_evolve_def by (metis option.inject)
    then have "status n = Pending" using k(2) by (auto simp: evolves_def status_le_def)
    with Some assms(2) have "\<not> execution_started n" by (auto simp: pending_idle_def)
    then show ?thesis using evolves_started [OF e] by simp
  qed
qed

text \<open>Stopping an active node reports at least that node.\<close>

lemma stop_reports:
  shows "stop_recursive fuel g nid reason stopped = Some (g', s') \<Longrightarrow> \<exists>xs. s' = stopped @ xs"
    and "stop_children fuel g cs stopped = Some (g', s') \<Longrightarrow> \<exists>xs. s' = stopped @ xs"
proof (induction fuel g nid reason stopped and fuel g cs stopped
    arbitrary: g' s' and g' s' rule: stop_recursive_stop_children.induct)
  case (2 fuel g nid reason stopped)
  obtain g1 s1 where n: "stop_node g nid reason stopped = (g1, s1)" by fastforce
  then have "\<exists>xs. s1 = stopped @ xs" by (auto simp: stop_node_def split: option.splits if_splits)
  moreover have "\<exists>xs. s' = s1 @ xs" using 2 n by simp
  ultimately show ?case by auto
next
  case (4 fuel g c cs stopped)
  then obtain g1 s1 where "stop_recursive fuel g c ParentStopped stopped = Some (g1, s1)"
    "stop_children fuel g1 cs s1 = Some (g', s')"
    by (auto split: option.splits prod.splits)
  with 4 have "\<exists>xs. s1 = stopped @ xs" "\<exists>xs. s' = s1 @ xs" by simp_all
  then show ?case by auto
qed simp_all

lemma recover_nothing:
  assumes "recover_expired_execution g nid now = Ok (g', [])"
  shows "g' = g"
proof (rule ccontr)
  assume "g' \<noteq> g"
  with assms obtain n where n: "bget (nodes g) nid = Some n" "status n = Active"
    and "stop g nid LeaseLost = Ok (g', [])"
    by (auto simp: recover_expired_execution_def result_simps split: if_splits)
  then have "stop_recursive (stop_fuel g) g nid LeaseLost [] = Some (g', [])"
    by (auto simp: stop_def run_stop_def split: if_splits option.splits)
  with n obtain g1 where "stop_children (Suc (blen (children g))) g1 (children_of g1 nid) [nid] = Some (g', [])"
    by (auto simp: stop_fuel_def stop_node_def split: prod.splits)
  from stop_reports(2) [OF this] show False by simp
qed

lemma claimed_graph:
  assumes "claim_node_execution h s gid nid now lease = Ok (c, s')"
  obtains (recovered) g g' where "bget (graphs s) gid = Some g" "nodes_evolve (nodes g) (nodes g')"
      "s' = put_graph s gid g'"
  | (claimed) g g' n where "bget (graphs s) gid = Some g" "bget (nodes g) nid = Some n"
      "\<not> live_conflict s gid nid (path_claims n) now"
      "claim_or_resume_active_until h g nid lease = Ok g'" "s' = put_graph s gid g'"
proof -
  from assms obtain n g g1 stopped where n: "store_graph s gid = Some g" "get_node g nid = Some n"
    and free: "\<not> live_conflict s gid nid (path_claims n) now"
    and rec: "recover_expired_execution g nid now = Ok (g1, stopped)"
    and rest: "(if stopped \<noteq> [] then Ok (RecoveredExpired, put_graph s gid g1)
      else ebind (lift_wg (claim_or_resume_active_until h g1 nid lease)) (\<lambda>g2.
          ebind (ok_or (get_node g2 nid) (Message ''unreachable'')) (\<lambda>claimed.
          Ok (Claimed claimed, put_graph s gid g2)))) = Ok (c, s')"
    by (auto simp: claim_node_execution_def graph_mut_def store_graph_def result_simps bind_eq_Some_conv
        split: if_splits)
  show thesis
  proof (cases "stopped = []")
    case True
    with rec have "g1 = g" by (simp add: recover_nothing)
    with True rest n free claimed show thesis
      by (auto simp: result_simps store_graph_def get_node_def)
  next
    case False
    then have "s' = put_graph s gid g1" using rest by simp
    with n(1) recover_evolves [OF rec] show thesis by (intro recovered) (simp_all add: store_graph_def)
  qed
qed

lemma put_graph_simps [simp]:
  "bget (graphs (put_graph s gid g)) gid' = (if gid' = gid then Some g else bget (graphs s) gid')"
  by (simp add: put_graph_def)

lemma held_paths_put:
  "held_paths (put_graph s gid g) e =
     (if fst e = gid then (case bget (nodes g) (snd e) of None \<Rightarrow> {} | Some n \<Rightarrow> set (path_claims n))
      else held_paths s e)"
  by (simp add: held_paths_def)

text \<open>A change in which nothing starts keeps the executions exclusive.\<close>

lemma evolved_exclusive:
  assumes "execution_inv h s" "bget (graphs s) gid = Some g" "nodes_evolve (nodes g) (nodes g')"
  shows "pc.exclusive (held_paths (put_graph s gid g')) (running (put_graph s gid g'))
    \<and> pending_idle g'"
proof
  have idle: "pending_idle g" using assms(1,2) by (simp add: execution_inv_def)
  show "pending_idle g'" by (rule evolved_idle [OF assms(3) idle])
  have old: "e \<in> running s \<and> held_paths (put_graph s gid g') e \<subseteq> held_paths s e"
    if e: "e \<in> running (put_graph s gid g')" for e
  proof (cases "fst e = gid")
    case True
    with e obtain n' where n': "bget (nodes g') (snd e) = Some n'" "execution_exit_unconfirmed n'"
      by (auto simp: running_def)
    then obtain n where "bget (nodes g) (snd e) = Some n" "execution_exit_unconfirmed n"
      "path_claims n' = path_claims n" by (rule evolved_running [OF assms(3) idle])
    with n' True assms(2) show ?thesis by (cases e) (auto simp: running_def held_paths_def)
  next
    case False
    with e show ?thesis by (cases e) (auto simp: running_def held_paths_put)
  qed
  show "pc.exclusive (held_paths (put_graph s gid g')) (running (put_graph s gid g'))"
  proof (rule pc.exclusive_shrink)
    show "pc.exclusive (held_paths s) (running s)" using assms(1) by (simp add: execution_inv_def)
  qed (use old in auto)
qed

text \<open>The check of the store covers every running execution but the claimed one.\<close>

lemma no_live_conflict:
  assumes "store_ok h s" "\<not> live_conflict s gid nid req now"
    and "e \<in> running s" "e \<noteq> (gid, nid)" "a \<in> held_paths s e" "b \<in> set req"
  shows "\<not> path_claims_overlap a b"
proof -
  obtain gid' nid' where e: "e = (gid', nid')" by fastforce
  from assms(3,5) e obtain g n where g: "bget (graphs s) gid' = Some g" "bget (nodes g) nid' = Some n"
    "execution_exit_unconfirmed n" "a \<in> set (path_claims n)"
    by (auto simp: running_def held_paths_def)
  have "node_id n = nid'"
    using assms(1) g(1,2) unfolding store_ok_def wf_graph_def node_ok_def by blast
  with assms(4) e have "Some (node_id n) \<noteq> (if gid' = gid then Some nid else None)" by auto
  moreover have mem: "(gid', g) \<in> set (entries (graphs s))" using g(1) by simp
  have "\<not> list_ex (\<lambda>(cand, g). has_live_path_conflict g req now
      (if cand = gid then Some nid else None)) (entries (graphs s))"
    using assms(2,6) unfolding live_conflict_def by (cases req) simp_all
  then have "\<not> has_live_path_conflict g req now (if gid' = gid then Some nid else None)"
    using mem unfolding list_ex_iff by blast
  ultimately show ?thesis
    using g assms(6) by (fastforce simp: has_live_path_conflict_def list_ex_iff in_bvalues_iff)
qed

lemma claim_exclusive:
  assumes "execution_inv h s" "bget (graphs s) gid = Some g" "bget (nodes g) nid = Some n"
    and "\<not> live_conflict s gid nid (path_claims n) now"
    and "claim_or_resume_active_until h g nid lease = Ok g'"
  shows "pc.exclusive (held_paths (put_graph s gid g')) (running (put_graph s gid g')) \<and> pending_idle g'"
proof
  from assms(5) obtain m n' where m: "bget (nodes g) nid = Some m" "nodes g' = binsert nid n' (nodes g)"
    "status n' = Active" "execution_started n'" "path_claims n' = path_claims m"
    by (rule claim_resume_nodes)
  then have nn: "path_claims n' = path_claims n" using assms(3) by simp
  show "pending_idle g'"
    using assms(1,2) m(2-4) by (auto simp: pending_idle_def execution_inv_def split: if_splits)
  let ?s = "put_graph s gid g'"
  have sub: "running ?s \<subseteq> insert (gid, nid) (running s)"
    using m(2) assms(2) by (auto simp: running_def split: if_splits)
  have held: "held_paths ?s e = (if e = (gid, nid) then set (path_claims n) else held_paths s e)" for e
    using m(2) nn assms(2) by (cases e) (auto simp: held_paths_def)
  have "pc.exclusive (held_paths ?s) (insert (gid, nid) (running s - {(gid, nid)}))"
  proof (rule pc.exclusive_insert)
    show "pc.exclusive (held_paths ?s) (running s - {(gid, nid)})"
    proof (rule pc.exclusive_shrink)
      show "pc.exclusive (held_paths s) (running s)" using assms(1) by (simp add: execution_inv_def)
    qed (auto simp: held)
    show "\<not> path_claims_overlap a b"
      if "e \<in> running s - {(gid, nid)}" "a \<in> held_paths ?s e" "b \<in> held_paths ?s (gid, nid)" for e a b
      using no_live_conflict [OF _ assms(4), of h e a b] that assms(1)
      by (auto simp: held execution_inv_def split: if_splits)
  qed
  then show "pc.exclusive (held_paths ?s) (running ?s)"
    by (rule pc.exclusive_subset) (use sub in auto)
qed

lemma created_exclusive:
  assumes "execution_inv h s" "create s gid g = Ok s'" "\<forall>n\<in>set (bvalues (nodes g)). \<not> execution_started n"
  shows "pc.exclusive (held_paths s') (running s') \<and> (\<forall>gid g. bget (graphs s') gid = Some g \<longrightarrow> pending_idle g)"
proof
  from assms(2) obtain g1 where "bind_graph_id g gid = Ok g1" "s' = put_graph s gid g1"
    "bget (graphs s) gid = None"
    by (auto simp: create_def put_graph_def result_simps domIff split: if_splits)
  then have s': "s' = put_graph s gid g1" "nodes g1 = nodes g" "bget (graphs s) gid = None"
    using bind_nodes by simp_all
  have no: "\<not> execution_started n" if "bget (nodes g) k = Some n" for k n
    using that assms(3) by (auto simp: in_bvalues_iff)
  then show "\<forall>gid g. bget (graphs s') gid = Some g \<longrightarrow> pending_idle g"
    using assms(1) s' by (auto simp: execution_inv_def pending_idle_def)
  have run: "running s' \<subseteq> running s" "\<And>e. e \<in> running s' \<Longrightarrow> fst e \<noteq> gid"
    using no s' by (auto simp: running_def execution_exit_unconfirmed_def split: if_splits)
  show "pc.exclusive (held_paths s') (running s')"
  proof (rule pc.exclusive_shrink)
    show "pc.exclusive (held_paths s) (running s)" using assms(1) by (simp add: execution_inv_def)
    show "held_paths s' e \<subseteq> held_paths s e" if "e \<in> running s'" for e
      using run(2) [OF that] by (simp add: s'(1) held_paths_put)
  qed (rule run(1))
qed

lemma store_step_inv:
  assumes "execution_inv h s" "store_step h s s'"
  shows "execution_inv h s'"
  using assms(2)
proof cases
  case (store_create gid g)
  then show ?thesis
    using created_exclusive [OF assms(1)] by (simp add: execution_inv_def validate_store_iff)
next
  case (store_claim gid nid now lease c)
  from store_claim(1) show ?thesis
  proof (cases rule: claimed_graph)
    case (recovered g g')
    with evolved_exclusive [OF assms(1) recovered(1,2)] store_claim(2) assms(1) show ?thesis
      by (auto simp: execution_inv_def validate_store_iff split: if_splits)
  next
    case (claimed g g' n)
    with claim_exclusive [OF assms(1) claimed(1,2,3,4)] store_claim(2) assms(1) show ?thesis
      by (auto simp: execution_inv_def validate_store_iff split: if_splits)
  qed
next
  case (store_op gid g g')
  then have "bget (graphs s) gid = Some g" by (auto simp: graph_mut_def result_simps)
  from evolved_exclusive [OF assms(1) this graph_step_evolves [OF store_op(2)]] store_op(3,4) assms(1)
  show ?thesis by (auto simp: execution_inv_def validate_store_iff split: if_splits)
qed

definition store_init :: "work_graph_store \<Rightarrow> bool" where
  "store_init s \<longleftrightarrow> (\<exists>root_hash. s = empty_store root_hash)"

lemma store_init_inv: "store_init s \<Longrightarrow> execution_inv h s"
  by (auto simp: store_init_def empty_store_def execution_inv_def store_ok_def running_def pc.exclusive_def)

interpretation sm: invariant_machine store_init "store_step h" "execution_inv h"
  by unfold_locales (auto intro: store_init_inv store_step_inv)

text \<open>
  C1. No two running executions of a project hold overlapping path claims: in every store that
  creations, claims and graph operations can reach, two started and active nodes of any graphs
  whose path claims are equal or nested are the same node of the same graph.
\<close>

theorem running_paths_exclusive:
  assumes "reaches store_init (store_step h) s"
    and "bget (graphs s) gid = Some g" "bget (nodes g) nid = Some n" "execution_exit_unconfirmed n"
    and "bget (graphs s) gid' = Some g'" "bget (nodes g') nid' = Some n'" "execution_exit_unconfirmed n'"
    and "a \<in> set (path_claims n)" "b \<in> set (path_claims n')" "path_claims_overlap a b"
  shows "gid = gid' \<and> nid = nid'"
proof -
  have "execution_inv h s" by (rule sm.reachable_inv [OF assms(1)])
  then have "pc.exclusive (held_paths s) (running s)" by (simp add: execution_inv_def)
  moreover have "(gid, nid) \<in> running s" "(gid', nid') \<in> running s"
    using assms(2-7) by (auto simp: running_def)
  moreover have "a \<in> held_paths s (gid, nid)" "b \<in> held_paths s (gid', nid')"
    using assms(2-9) by (simp_all add: held_paths_def)
  ultimately have "(gid, nid) = (gid', nid')"
    using assms(10) by (rule pc.exclusive_same_holder)
  then show ?thesis by simp
qed

end
