(* ===== verification/Stop_Cascade.thy ===== *)
theory Stop_Cascade
  imports Evolution
begin

text \<open>
  The cascade that stops a node: it ends within the fuel of the model on every forest, halts
  exactly the subtree, and reports exactly the nodes it changed.
\<close>

section \<open>Halting one node\<close>

definition is_open :: "work_node \<Rightarrow> bool" where
  "is_open n \<longleftrightarrow> status n = Active \<or> status n = Pending"

definition halt :: "stop_reason \<Rightarrow> work_node \<Rightarrow> work_node" where
  "halt reason n =
     (if is_open n
      then let m = n\<lparr>status := Stopped, stop_reason := Some reason\<rparr>
           in if execution_started n then m else m\<lparr>lease_expires_epoch_ms := None\<rparr>
      else n)"

lemma halt_open: "is_open n \<Longrightarrow> status (halt r n) = Stopped \<and> stop_reason (halt r n) = Some r"
  by (simp add: halt_def Let_def)

text \<open>The acknowledgement of a halted execution: the fence of its last incarnation.\<close>

definition reap :: "work_node option \<Rightarrow> string option \<Rightarrow> string option" where
  "reap n old = (case n of None \<Rightarrow> old
     | Some m \<Rightarrow> if is_open m \<and> execution_started m \<and> execution_fence m \<noteq> None
                 then execution_fence m else old)"

text \<open>A change that halts exactly the nodes of a set, each for its reason.\<close>

definition halted ::
  "string set \<Rightarrow> (string \<Rightarrow> stop_reason) \<Rightarrow> string list \<Rightarrow> bounded_work_graph \<Rightarrow> bounded_work_graph \<Rightarrow> bool"
where
  "halted S \<rho> xs g g' \<longleftrightarrow>
     g' = g\<lparr>nodes := nodes g', reaped_executions := reaped_executions g'\<rparr>
     \<and> (\<forall>k. bget (nodes g') k = (if k \<in> S then map_option (halt (\<rho> k)) (bget (nodes g) k) else bget (nodes g) k))
     \<and> (\<forall>k. bget (reaped_executions g') k =
          (if k \<in> S then reap (bget (nodes g) k) (bget (reaped_executions g) k) else bget (reaped_executions g) k))
     \<and> distinct xs \<and> set xs = {k \<in> S. \<exists>n. bget (nodes g) k = Some n \<and> is_open n}"

lemma halted_empty: "halted {} \<rho> [] g g"
  by (simp add: halted_def)

lemma halted_seq:
  assumes "halted S \<rho> xs g g1" "halted T \<sigma> ys g1 g2" "S \<inter> T = {}"
  shows "halted (S \<union> T) (\<lambda>k. if k \<in> S then \<rho> k else \<sigma> k) (xs @ ys) g g2"
proof -
  have same: "bget (nodes g1) k = bget (nodes g) k" "bget (reaped_executions g1) k = bget (reaped_executions g) k"
    if "k \<in> T" for k
    using assms(1,3) that by (auto simp: halted_def)
  have "g2 = g1\<lparr>nodes := nodes g2, reaped_executions := reaped_executions g2\<rparr>"
    "g1 = g\<lparr>nodes := nodes g1, reaped_executions := reaped_executions g1\<rparr>"
    using assms(1,2) by (simp_all add: halted_def)
  then have "g2 = g\<lparr>nodes := nodes g2, reaped_executions := reaped_executions g2\<rparr>"
    by (metis bounded_work_graph.update_convs(2,9) bounded_work_graph.surjective
        bounded_work_graph.select_convs)
  then show ?thesis
    using assms same unfolding halted_def by auto
qed

lemma stop_node_halted:
  assumes "stop_node g nid reason stopped = (g', s')"
  shows "\<exists>xs. s' = stopped @ xs \<and> halted {nid} (\<lambda>_. reason) xs g g'"
proof (cases "bget (nodes g) nid")
  case None
  with assms show ?thesis by (auto simp: stop_node_def halted_def reap_def)
next
  case (Some n)
  show ?thesis
  proof (cases "is_open n")
    case True
    have g': "s' = stopped @ [nid]" "g' = end_incarnation
        (g\<lparr>nodes := binsert nid (n\<lparr>status := Stopped, stop_reason := Some reason\<rparr>) (nodes g)\<rparr>) nid"
      using assms Some True by (auto simp: stop_node_def is_open_def)
    have "halted {nid} (\<lambda>_. reason) [nid] g g'"
      unfolding g' using Some True
      by (auto simp: halted_def end_incarnation_def halt_def reap_def Let_def split: option.splits)
    with g' show ?thesis by blast
  next
    case False
    then have "g' = g" "s' = stopped" using assms Some by (auto simp: stop_node_def is_open_def)
    with False Some show ?thesis by (auto simp: halted_def halt_def reap_def)
  qed
qed

section \<open>Subtrees\<close>

definition subtree :: "bounded_work_graph \<Rightarrow> string \<Rightarrow> string set" where
  "subtree g a = {k. \<exists>l. lineage_of (nodes g) k l \<and> a \<in> set l}"

lemma halt_parent [simp]: "parent_node_id (halt r n) = parent_node_id n"
  by (simp add: halt_def Let_def)

lemma halted_same_parents: "halted S \<rho> xs g g' \<Longrightarrow> same_parents (nodes g) (nodes g')"
  by (auto simp: halted_def same_parents_def option.map_comp comp_def)

lemma halted_children: "halted S \<rho> xs g g' \<Longrightarrow> children g' = children g"
  unfolding halted_def by (elim conjE) (drule arg_cong [where f = children], simp)

lemma halted_subtree: "halted S \<rho> xs g g' \<Longrightarrow> subtree g' = subtree g"
  by (simp add: subtree_def fun_eq_iff lineage_of_same_parents [OF halted_same_parents])

lemma halted_forest:
  assumes "halted S \<rho> xs g g'" "forest g"
  shows "forest g'"
proof -
  have par: "(\<exists>n. bget (nodes g') c = Some n \<and> parent_node_id n = p) \<longleftrightarrow>
      (\<exists>n. bget (nodes g) c = Some n \<and> parent_node_id n = p)" for c p
    using halted_same_parents [OF assms(1)] same_parentsD same_parents_sym by metis
  have lin: "lineage_of (nodes g') = lineage_of (nodes g)"
    using lineage_of_same_parents [OF halted_same_parents [OF assms(1)]] by simp
  have ch: "children g' = children g" by (rule halted_children [OF assms(1)])
  have kids: "children_of g' = children_of g" by (simp add: fun_eq_iff children_of_def ch)
  show ?thesis
    unfolding forest_def ch lin kids
  proof (intro conjI allI impI)
    fix p cs assume cs: "bget (children g) p = Some cs"
    then show "distinct cs" using assms(2) by (simp add: forest_def)
    show "\<forall>c\<in>set cs. \<exists>n. bget (nodes g') c = Some n \<and> parent_node_id n = Some p"
      unfolding par using cs assms(2) by (simp add: forest_def)
  next
    fix k n assume "bget (nodes g') k = Some n"
    with par [of k "parent_node_id n"] obtain m where m: "bget (nodes g) k = Some m" "parent_node_id m = parent_node_id n"
      by blast
    show "\<exists>l. lineage_of (nodes g) k l" using m(1) assms(2) by (simp add: forest_def)
    show "k \<in> set (children_of g p)" if "parent_node_id n = Some p" for p
      using m that assms(2) by (simp add: forest_def)
  qed
qed

text \<open>A subtree is its root and the disjoint subtrees of the children.\<close>

lemma lineage_of_split_unique:
  assumes "lineage_of ns a la" "lineage_of ns k l" "a \<in> set l"
  shows "\<exists>ys. l = la @ ys"
  using lineage_of_prefix [OF assms(2,3)] lineage_of_unique [OF assms(1)] by blast

lemma subtree_children:
  assumes "forest g" "lineage_of (nodes g) a la"
  shows "subtree g a = insert a (\<Union>c\<in>set (children_of g a). subtree g c)"
proof (intro equalityI subsetI)
  fix k assume "k \<in> subtree g a"
  then obtain l where "lineage_of (nodes g) k l" "a \<in> set l" by (auto simp: subtree_def)
  then show "k \<in> insert a (\<Union>c\<in>set (children_of g a). subtree g c)"
  proof (induction rule: lineage_of.induct)
    case (lineage_child k n p l)
    have k: "lineage_of (nodes g) k (l @ [k])" using lineage_child by (intro lineage_of.lineage_child)
    show ?case
    proof (cases "a = k")
      case False
      then have "p = a \<or> (\<exists>c\<in>set (children_of g a). p \<in> subtree g c)"
        using lineage_child by auto
      then show ?thesis
      proof
        assume "p = a"
        then have "k \<in> set (children_of g a)"
          using lineage_child(1,2) forest_children [OF assms(1)] by blast
        moreover have "k \<in> subtree g k" using k by (auto simp: subtree_def)
        ultimately show ?thesis by blast
      next
        assume "\<exists>c\<in>set (children_of g a). p \<in> subtree g c"
        then obtain c where c: "c \<in> set (children_of g a)" "c \<in> set l"
          using lineage_of_unique [OF lineage_child(3)] by (auto simp: subtree_def)
        then have "k \<in> subtree g c" using k by (auto simp: subtree_def)
        with c(1) show ?thesis by blast
      qed
    qed simp
  qed simp
next
  fix k assume "k \<in> insert a (\<Union>c\<in>set (children_of g a). subtree g c)"
  then show "k \<in> subtree g a"
  proof
    assume "k = a"
    then show ?thesis using assms(2) lineage_of_self by (auto simp: subtree_def)
  next
    assume "k \<in> (\<Union>c\<in>set (children_of g a). subtree g c)"
    then obtain c l where c: "c \<in> set (children_of g a)" "lineage_of (nodes g) k l" "c \<in> set l"
      by (auto simp: subtree_def)
    then have "lineage_of (nodes g) c (la @ [c])"
      using forest_children [OF assms(1)] assms(2) lineage_child by blast
    from lineage_of_split_unique [OF this c(2,3)] show ?thesis
      using c(2) lineage_of_self [OF assms(2)] by (auto simp: subtree_def)
  qed
qed

lemma subtree_disjoint:
  assumes "forest g" "c \<in> set (children_of g a)" "d \<in> set (children_of g a)" "c \<noteq> d"
  shows "subtree g c \<inter> subtree g d = {}"
proof (rule ccontr)
  assume "subtree g c \<inter> subtree g d \<noteq> {}"
  then obtain k l where l: "lineage_of (nodes g) k l" "c \<in> set l" "d \<in> set l"
    using lineage_of_unique by (fastforce simp: subtree_def)
  obtain nc nd where n: "bget (nodes g) c = Some nc" "parent_node_id nc = Some a"
    "bget (nodes g) d = Some nd" "parent_node_id nd = Some a"
    using assms(2,3) forest_children [OF assms(1)] by blast
  obtain la where la: "lineage_of (nodes g) a la"
    using lineage_of_prefix [OF l(1,2)] n(1,2) by (auto simp: lineage_of_iff [of _ c])
  have "lineage_of (nodes g) c (la @ [c])" "lineage_of (nodes g) d (la @ [d])"
    using la n lineage_child by blast+
  then obtain ys zs where "l = (la @ [c]) @ ys" "l = (la @ [d]) @ zs"
    using l lineage_of_split_unique by metis
  with assms(4) show False by simp
qed

lemma subtree_not_above:
  assumes "forest g" "c \<in> set (children_of g a)"
  shows "a \<notin> subtree g c"
proof
  assume "a \<in> subtree g c"
  then obtain l where l: "lineage_of (nodes g) a l" "c \<in> set l" by (auto simp: subtree_def)
  obtain n where "bget (nodes g) c = Some n" "parent_node_id n = Some a"
    using assms forest_children by blast
  with l show False using lineage_of_parent_fresh by blast
qed

section \<open>The cascade\<close>

definition keys_left :: "bounded_work_graph \<Rightarrow> string list \<Rightarrow> nat" where
  "keys_left g l = card (bdom (children g) - set (butlast l))"

lemma children_of_key: "children_of g a \<noteq> [] \<Longrightarrow> a \<in> bdom (children g)"
  by (auto simp: children_of_def split: option.splits)

text \<open>The children in turn, given that each of their subtrees can be stopped.\<close>

lemma stop_children_halts:
  assumes "\<And>g c stopped. forest g \<Longrightarrow> c \<in> set cs0 \<Longrightarrow> lineage_of (nodes g) = lineage_of (nodes g0) \<Longrightarrow>
      children g = children g0 \<Longrightarrow>
      \<exists>g' xs. stop_recursive fuel g c ParentStopped stopped = Some (g', stopped @ xs)
        \<and> halted (subtree g c) (\<lambda>_. ParentStopped) xs g g'"
    and "set cs \<subseteq> set cs0" "distinct cs" "set cs0 = set (children_of g0 a)" "forest g"
    and "lineage_of (nodes g) = lineage_of (nodes g0)" "children g = children g0"
  shows "\<exists>g' xs. stop_children fuel g cs stopped = Some (g', stopped @ xs)
    \<and> halted (\<Union>c\<in>set cs. subtree g c) (\<lambda>_. ParentStopped) xs g g'"
  using assms(2,3,5-7)
proof (induction cs arbitrary: g stopped)
  case Nil
  then show ?case using halted_empty by (auto simp: halted_def)
next
  case (Cons c cs)
  from assms(1) [OF Cons.prems(3) _ Cons.prems(4,5), of c stopped] Cons.prems(1)
  obtain g1 xs where g1: "stop_recursive fuel g c ParentStopped stopped = Some (g1, stopped @ xs)"
    "halted (subtree g c) (\<lambda>_. ParentStopped) xs g g1" by auto
  have "forest g1" "lineage_of (nodes g1) = lineage_of (nodes g0)" "children g1 = children g0"
    using halted_forest [OF g1(2) Cons.prems(3)] Cons.prems(4,5) halted_children [OF g1(2)]
      lineage_of_same_parents [OF halted_same_parents [OF g1(2)]] by simp_all
  then obtain g2 ys where g2: "stop_children fuel g1 cs (stopped @ xs) = Some (g2, (stopped @ xs) @ ys)"
    "halted (\<Union>c\<in>set cs. subtree g1 c) (\<lambda>_. ParentStopped) ys g1 g2"
    using Cons.IH [of g1 "stopped @ xs"] Cons.prems(1,2) by auto
  have kids: "set (children_of g a) = set cs0"
    unfolding assms(4) using Cons.prems(5) by (simp add: children_of_def)
  have "subtree g c \<inter> (\<Union>d\<in>set cs. subtree g1 d) = {}"
    unfolding halted_subtree [OF g1(2)] using Cons.prems(1,2) kids
    by (intro Int_UN_distrib [THEN trans]) (auto dest: subtree_disjoint [OF Cons.prems(3), of c a])
  from halted_seq [OF g1(2) g2(2) this]
  have "halted (\<Union>d\<in>set (c # cs). subtree g d) (\<lambda>_. ParentStopped) (xs @ ys) g g2"
    by (simp add: halted_subtree [OF g1(2)])
  with g1(1) g2(1) show ?case by auto
qed

lemma keys_left_child:
  assumes "lineage_of (nodes g) a l" "a \<in> bdom (children g)"
  shows "keys_left g (l @ [c]) < keys_left g l"
proof -
  obtain m where l: "l = m @ [a]"
    using lineage_of_nonempty [OF assms(1)] by (metis append_butlast_last_id)
  then have "a \<notin> set m" using lineage_of_distinct [OF assms(1)] by simp
  with assms(2) have "bdom (children g) - insert a (set m) \<subset> bdom (children g) - set m" by auto
  then show ?thesis by (simp add: keys_left_def l butlast_append psubset_card_mono)
qed

lemma stop_recursive_halts:
  assumes "forest g" "lineage_of (nodes g) nid l" "keys_left g l < fuel"
  shows "\<exists>g' xs. stop_recursive fuel g nid reason stopped = Some (g', stopped @ xs)
    \<and> halted (subtree g nid) (\<lambda>k. if k = nid then reason else ParentStopped) xs g g'"
  using assms
proof (induction fuel arbitrary: g nid l reason stopped)
  case (Suc fuel)
  obtain g1 s1 where sn: "stop_node g nid reason stopped = (g1, s1)" by fastforce
  then obtain xs where xs: "s1 = stopped @ xs" "halted {nid} (\<lambda>_. reason) xs g g1"
    using stop_node_halted by blast
  have g1: "forest g1" "lineage_of (nodes g1) = lineage_of (nodes g)" "children g1 = children g"
    using halted_forest [OF xs(2) Suc.prems(1)] halted_children [OF xs(2)]
      lineage_of_same_parents [OF halted_same_parents [OF xs(2)]] by simp_all
  have kids: "children_of g1 nid = children_of g nid" by (simp add: children_of_def g1(3))
  have child: "\<exists>g' xs. stop_recursive fuel g2 c ParentStopped stopped = Some (g', stopped @ xs)
      \<and> halted (subtree g2 c) (\<lambda>_. ParentStopped) xs g2 g'"
    if g2: "forest g2" "c \<in> set (children_of g1 nid)" "lineage_of (nodes g2) = lineage_of (nodes g1)"
      "children g2 = children g1" for g2 c stopped
  proof -
    obtain n where "bget (nodes g1) c = Some n" "parent_node_id n = Some nid"
      using g2(2) forest_children [OF g1(1)] by blast
    moreover have "lineage_of (nodes g1) nid l" using Suc.prems(2) by (simp add: g1(2))
    ultimately have lc: "lineage_of (nodes g2) c (l @ [c])"
      unfolding g2(3) by (rule lineage_child)
    have "keys_left g2 (l @ [c]) = keys_left g (l @ [c])" by (simp add: keys_left_def g2(4) g1(3))
    also have "\<dots> < keys_left g l"
    proof (rule keys_left_child [OF Suc.prems(2) children_of_key])
      show "children_of g nid \<noteq> []" using g2(2) kids by auto
    qed
    finally have "keys_left g2 (l @ [c]) < fuel" using Suc.prems(3) by simp
    from Suc.IH [OF g2(1) lc this, of ParentStopped stopped] show ?thesis by simp
  qed
  have "\<exists>g' ys. stop_children fuel g1 (children_of g1 nid) s1 = Some (g', s1 @ ys)
      \<and> halted (\<Union>c\<in>set (children_of g1 nid). subtree g1 c) (\<lambda>_. ParentStopped) ys g1 g'"
    using child forest_distinct [OF g1(1)] g1(1)
    by (intro stop_children_halts [of "children_of g1 nid" g1 fuel _ nid]) auto
  then obtain g' ys where rest: "stop_children fuel g1 (children_of g1 nid) s1 = Some (g', s1 @ ys)"
    "halted (\<Union>c\<in>set (children_of g nid). subtree g c) (\<lambda>_. ParentStopped) ys g1 g'"
    by (auto simp: kids halted_subtree [OF xs(2)])
  have "{nid} \<inter> (\<Union>c\<in>set (children_of g nid). subtree g c) = {}"
    using subtree_not_above [OF Suc.prems(1)] by auto
  from halted_seq [OF xs(2) rest(2) this]
  have "halted (subtree g nid) (\<lambda>k. if k = nid then reason else ParentStopped) (xs @ ys) g g'"
    by (simp add: subtree_children [OF Suc.prems(1,2)])
  with sn rest(1) xs(1) show ?case by simp
qed simp

lemma run_stop_halts:
  assumes "forest g" "nid \<in> bdom (nodes g)"
  shows "\<exists>g' xs. run_stop g nid reason = Ok (g', xs)
    \<and> halted (subtree g nid) (\<lambda>k. if k = nid then reason else ParentStopped) xs g g'"
proof -
  obtain l where l: "lineage_of (nodes g) nid l" using forest_lineage [OF assms] by blast
  have "keys_left g l \<le> card (bdom (children g))"
    unfolding keys_left_def by (intro card_mono) auto
  then have "keys_left g l < stop_fuel g" by (simp add: stop_fuel_def blen_card)
  from stop_recursive_halts [OF assms(1) l this, of reason "[]"] show ?thesis
    by (auto simp: run_stop_def)
qed

lemma stop_halts:
  assumes "forest g" "nid \<in> bdom (nodes g)"
  shows "\<exists>g' xs. stop g nid reason = Ok (g', xs)
    \<and> halted (subtree g nid) (\<lambda>k. if k = nid then reason else ParentStopped) xs g g'"
  using run_stop_halts [OF assms] assms(2) by (auto simp: stop_def)

text \<open>
  C5. Stopping a node ends and cascades exactly: on every valid graph the call returns; every
  pending or active node of the subtree is stopped, the node for the given reason and its
  descendants because their parent stopped; no node outside the subtree and no node that was
  already finished changes; and the returned list names exactly the nodes that were stopped,
  once each.
\<close>

theorem stop_cascades:
  assumes "wf_graph h g" "bget (nodes g) nid = Some n"
  shows "\<exists>g' xs. stop g nid reason = Ok (g', xs)
    \<and> distinct xs
    \<and> set xs = {k \<in> subtree g nid. \<exists>m. bget (nodes g) k = Some m \<and> (status m = Active \<or> status m = Pending)}
    \<and> (\<forall>k m. bget (nodes g) k = Some m \<longrightarrow> k \<notin> set xs \<longrightarrow> bget (nodes g') k = Some m)
    \<and> (\<forall>k\<in>set xs. \<exists>m'. bget (nodes g') k = Some m' \<and> status m' = Stopped
         \<and> stop_reason m' = Some (if k = nid then reason else ParentStopped))"
proof -
  have "forest g" using assms(1) by (rule wf_forest)
  from stop_halts [OF this, of nid reason] assms(2) obtain g' xs where
    g': "stop g nid reason = Ok (g', xs)"
    "halted (subtree g nid) (\<lambda>k. if k = nid then reason else ParentStopped) xs g g'" by blast
  have "\<exists>m'. bget (nodes g') k = Some m' \<and> status m' = Stopped
      \<and> stop_reason m' = Some (if k = nid then reason else ParentStopped)" if "k \<in> set xs" for k
  proof -
    from that g'(2) obtain m where "bget (nodes g) k = Some m" "is_open m" "k \<in> subtree g nid"
      by (auto simp: halted_def)
    with g'(2) halt_open show ?thesis by (auto simp: halted_def)
  qed
  moreover have "bget (nodes g') k = Some m" if "bget (nodes g) k = Some m" "k \<notin> set xs" for k m
    using that g'(2) by (auto simp: halted_def halt_def)
  ultimately show ?thesis
    using g' by (intro exI [of _ g'] exI [of _ xs]) (auto simp: halted_def is_open_def)
qed

end
