(* ===== verification/Reports.thy ===== *)
theory Reports
  imports Graph_Ops
begin

text \<open>
  What the reports over a graph say: \<open>attribution\<close> splits the spend of the nodes exactly between
  the accepted path and waste, \<open>team_value_report\<close> totals it and states the accepted share in
  basis points, and \<open>fuse_accepted_results\<close> accepts a key exactly when the accepted receipts
  agree on one value for it and reports every other key as a conflict.
\<close>

section \<open>Attribution\<close>

definition spent_tokens :: "bounded_work_graph \<Rightarrow> work_node \<Rightarrow> nat" where
  "spent_tokens g n = (case bget (failed_spend g) (node_id n) of
     None \<Rightarrow> tokens_consumed (budget n) | Some s \<Rightarrow> spend_tokens s)"

definition spent_cost :: "bounded_work_graph \<Rightarrow> work_node \<Rightarrow> nat" where
  "spent_cost g n = (case bget (failed_spend g) (node_id n) of
     None \<Rightarrow> cost_micros_consumed (budget n) | Some s \<Rightarrow> spend_cost s)"

definition accepted_share :: "bounded_work_graph \<Rightarrow> (work_node \<Rightarrow> nat) \<Rightarrow> work_node list \<Rightarrow> nat" where
  "accepted_share g f ns = (\<Sum>n\<leftarrow>filter (\<lambda>n. node_id n \<in> accepted_path g) ns. f n)"

definition waste_share :: "bounded_work_graph \<Rightarrow> (work_node \<Rightarrow> nat) \<Rightarrow> work_node list \<Rightarrow> nat" where
  "waste_share g f ns = (\<Sum>n\<leftarrow>filter (\<lambda>n. node_id n \<notin> accepted_path g) ns. f n)"

lemma share_simps [simp]:
  "accepted_share g f [] = 0" "waste_share g f [] = 0"
  "accepted_share g f (n # ns) =
     (if node_id n \<in> accepted_path g then f n else 0) + accepted_share g f ns"
  "waste_share g f (n # ns) =
     (if node_id n \<in> accepted_path g then 0 else f n) + waste_share g f ns"
  by (simp_all add: accepted_share_def waste_share_def)

lemma share_total: "accepted_share g f ns + waste_share g f ns = (\<Sum>n\<leftarrow>ns. f n)"
  by (induction ns) auto

definition fits :: "work_attribution \<Rightarrow> bool" where
  "fits a \<longleftrightarrow> accepted_tokens a \<le> u64_max \<and> accepted_cost_micros a \<le> u64_max
     \<and> waste_tokens a \<le> u64_max \<and> waste_cost_micros a \<le> u64_max"

definition plus_shares :: "bounded_work_graph \<Rightarrow> work_node list \<Rightarrow> work_attribution \<Rightarrow> work_attribution" where
  "plus_shares g ns a =
     \<lparr>accepted_tokens = accepted_tokens a + accepted_share g (spent_tokens g) ns,
      accepted_cost_micros = accepted_cost_micros a + accepted_share g (spent_cost g) ns,
      waste_tokens = waste_tokens a + waste_share g (spent_tokens g) ns,
      waste_cost_micros = waste_cost_micros a + waste_share g (spent_cost g) ns\<rparr>"

lemma plus_shares_Nil [simp]: "plus_shares g [] a = a"
  by (simp add: plus_shares_def)

lemma plus_shares_Cons: "plus_shares g (n # ns) a = plus_shares g ns (plus_shares g [n] a)"
  by (simp add: plus_shares_def)

lemma fits_plus_shares: "fits (plus_shares g ns a) \<Longrightarrow> fits a"
  by (auto simp: fits_def plus_shares_def)

lemma add_u64_overflow: "\<not> a + b \<le> u64_max \<Longrightarrow> add_u64 e a b = Inl e"
  by (simp add: add_u64_def checked_add_def)

lemma attribute_node_eq:
  assumes "fits a"
  shows "attribute_node g n a =
           (if fits (plus_shares g [n] a) then Inr (plus_shares g [n] a) else fail Overflow)"
proof -
  have node: "attribute_node g n a =
     (if node_id n \<in> accepted_path g
      then ebind (add_u64 (Fail Overflow) (accepted_tokens a) (spent_tokens g n)) (\<lambda>t.
           ebind (add_u64 (Fail Overflow) (accepted_cost_micros a) (spent_cost g n)) (\<lambda>c.
           Inr (a\<lparr>accepted_tokens := t, accepted_cost_micros := c\<rparr>)))
      else ebind (add_u64 (Fail Overflow) (waste_tokens a) (spent_tokens g n)) (\<lambda>t.
           ebind (add_u64 (Fail Overflow) (waste_cost_micros a) (spent_cost g n)) (\<lambda>c.
           Inr (a\<lparr>waste_tokens := t, waste_cost_micros := c\<rparr>))))"
    by (simp add: attribute_node_def spent_tokens_def spent_cost_def split: option.split)
  show ?thesis
    using assms unfolding node
    by (cases "accepted_tokens a + spent_tokens g n \<le> u64_max";
        cases "accepted_cost_micros a + spent_cost g n \<le> u64_max";
        cases "waste_tokens a + spent_tokens g n \<le> u64_max";
        cases "waste_cost_micros a + spent_cost g n \<le> u64_max")
       (auto simp: fits_def plus_shares_def add_u64_overflow)
qed

lemma efold_attribute:
  "fits a \<Longrightarrow> efold (attribute_node g) ns a =
     (if fits (plus_shares g ns a) then Inr (plus_shares g ns a) else fail Overflow)"
proof (induction ns arbitrary: a)
  case (Cons n ns)
  show ?case
  proof (cases "fits (plus_shares g [n] a)")
    case True
    then show ?thesis
      using Cons by (simp add: attribute_node_eq plus_shares_Cons [of g n ns])
  next
    case False
    then have "\<not> fits (plus_shares g (n # ns) a)"
      using fits_plus_shares unfolding plus_shares_Cons [of g n ns] by blast
    then show ?thesis using False Cons.prems by (simp add: attribute_node_eq)
  qed
qed simp

text \<open>
  Attribution is exact: it succeeds precisely when the four totals fit into 64 bits, and
  then the accepted and the wasted amounts are the spend of the nodes on and off the accepted
  path, with the measured spend of a failed execution in place of its recorded consumption.
\<close>

theorem attribution_exact:
  "attribution g =
     (let ns = bvalues (nodes g);
          a = \<lparr>accepted_tokens = accepted_share g (spent_tokens g) ns,
               accepted_cost_micros = accepted_share g (spent_cost g) ns,
               waste_tokens = waste_share g (spent_tokens g) ns,
               waste_cost_micros = waste_share g (spent_cost g) ns\<rparr>
      in if fits a then Inr a else fail Overflow)"
  by (simp add: attribution_def efold_attribute fits_def plus_shares_def Let_def)

lemma attribution_cases:
  assumes "attribution g = Inr a"
  shows "accepted_tokens a + waste_tokens a = (\<Sum>n\<leftarrow>bvalues (nodes g). spent_tokens g n)"
    and "accepted_cost_micros a + waste_cost_micros a = (\<Sum>n\<leftarrow>bvalues (nodes g). spent_cost g n)"
  using assms
  by (auto simp: attribution_def efold_attribute fits_def plus_shares_def
        simp flip: share_total [of g] split: if_splits)

lemma basis_points_bound:
  assumes "0 < t" "(a::nat) \<le> t"
  shows "a * 10000 div t \<le> 10000"
  using assms by (metis div_le_mono div_mult_self_is_m mult.commute mult_le_mono2 nat_mult_le_cancel_disj)

lemma value_report_facts:
  assumes "Graph_Ops.team_value_report g = Inr r"
  shows "report_total_tokens r = (\<Sum>n\<leftarrow>bvalues (nodes g). spent_tokens g n)"
    and "report_total_cost_micros r = (\<Sum>n\<leftarrow>bvalues (nodes g). spent_cost g n)"
    and "report_accepted_tokens r + report_waste_tokens r = report_total_tokens r"
    and "report_accepted_cost_micros r + report_waste_cost_micros r = report_total_cost_micros r"
    and "report_accepted_cost_basis_points r
           = report_accepted_cost_micros r * 10000 div report_total_cost_micros r"
    and "report_accepted_cost_basis_points r \<le> 10000"
proof -
  let ?q = "\<lambda>a t. min (2 ^ 128 - 1) (a * 10000) div (t::nat)"
  from assms obtain a where a: "attribution g = Inr a"
    and t: "accepted_tokens a + waste_tokens a \<le> u64_max"
    and c: "accepted_cost_micros a + waste_cost_micros a \<le> u64_max"
    and r: "report_total_tokens r = accepted_tokens a + waste_tokens a"
      "report_total_cost_micros r = accepted_cost_micros a + waste_cost_micros a"
      "report_accepted_tokens r = accepted_tokens a" "report_waste_tokens r = waste_tokens a"
      "report_accepted_cost_micros r = accepted_cost_micros a"
      "report_waste_cost_micros r = waste_cost_micros a"
    and p: "report_accepted_cost_basis_points r =
       (if report_total_cost_micros r = 0 then 0
        else if ?q (accepted_cost_micros a) (report_total_cost_micros r) \<le> u16_max
          then ?q (accepted_cost_micros a) (report_total_cost_micros r) else 10000)"
    by (auto simp: team_value_report_def result_simps Let_def simp del: div_eq_0_iff)
  note sums = attribution_cases [OF a]
  have exact: "min (2 ^ 128 - 1) (accepted_cost_micros a * 10000) = accepted_cost_micros a * 10000"
    using c by (simp add: u64_max_def)
  have le: "accepted_cost_micros a * 10000 div report_total_cost_micros r \<le> 10000"
    using basis_points_bound [of "report_total_cost_micros r" "accepted_cost_micros a"] r(2)
    by (cases "report_total_cost_micros r = 0") auto
  show points: "report_accepted_cost_basis_points r
           = report_accepted_cost_micros r * 10000 div report_total_cost_micros r"
    using p le r(5) unfolding exact by (auto simp: u16_max_def)
  show "report_accepted_cost_basis_points r \<le> 10000"
    using points le r(5) by simp
qed (use assms attribution_cases in \<open>auto simp: team_value_report_def result_simps Let_def\<close>)

text \<open>
  A value report conserves the spend: its totals are the spend of all nodes, the accepted
  and the wasted part add up to them, and the accepted share is the exact quotient in basis
  points, never above 10000.
\<close>

theorem team_value_report_conserves:
  assumes "Graph_Ops.team_value_report g = Inr r"
  shows "report_total_tokens r = (\<Sum>n\<leftarrow>bvalues (nodes g). spent_tokens g n)
    \<and> report_total_cost_micros r = (\<Sum>n\<leftarrow>bvalues (nodes g). spent_cost g n)
    \<and> report_accepted_tokens r + report_waste_tokens r = report_total_tokens r
    \<and> report_accepted_cost_micros r + report_waste_cost_micros r = report_total_cost_micros r
    \<and> report_accepted_cost_basis_points r
        = report_accepted_cost_micros r * 10000 div report_total_cost_micros r
    \<and> report_accepted_cost_basis_points r \<le> 10000"
  by (intro conjI value_report_facts [OF assms])

section \<open>Fusing the accepted results\<close>

definition accepted_claims :: "bounded_work_graph \<Rightarrow> (string \<times> string \<times> string) set" where
  "accepted_claims g = {(claim_key c, claim_value c, receipt_node_id r) | r c.
     r \<in> set (bvalues (receipts g)) \<and> receipt_node_id r \<in> accepted_path g
     \<and> c \<in> set (receipt_claims r)}"

definition claimed_values :: "bounded_work_graph \<Rightarrow> string \<Rightarrow> string set" where
  "claimed_values g k = {v. \<exists>n. (k, v, n) \<in> accepted_claims g}"

definition claimants :: "bounded_work_graph \<Rightarrow> string \<Rightarrow> string set" where
  "claimants g k = {n. \<exists>v. (k, v, n) \<in> accepted_claims g}"

definition claimed_keys :: "bounded_work_graph \<Rightarrow> string set" where
  "claimed_keys g = fst ` accepted_claims g"

text \<open>The candidates as a relation, and that no entry of either map is empty.\<close>

definition cand_rel :: "candidates \<Rightarrow> (string \<times> string \<times> string) set" where
  "cand_rel cands = {(k, v, n). \<exists>m ns. bget cands k = Some m \<and> bget m v = Some ns \<and> n \<in> set ns}"

definition cand_full :: "candidates \<Rightarrow> bool" where
  "cand_full cands \<longleftrightarrow> (\<forall>k m. bget cands k = Some m \<longrightarrow> (\<exists>v ns. bget m v = Some ns) \<and> (\<forall>v. bget m v \<noteq> Some []))"

lemma cand_full_empty: "cand_full bempty" and cand_rel_empty: "cand_rel bempty = {}"
  by (simp_all add: cand_full_def cand_rel_def)

lemma cand_rel_add:
  "cand_rel (add_candidate n c cands) = insert (claim_key c, claim_value c, n) (cand_rel cands)"
  by (fastforce simp: cand_rel_def add_candidate_def Let_def split: if_splits option.splits)

lemma cand_full_add: "cand_full cands \<Longrightarrow> cand_full (add_candidate n c cands)"
  by (auto simp: cand_full_def add_candidate_def Let_def split: if_splits option.splits)

lemma cand_add_claims:
  "cand_full cands \<Longrightarrow> cand_full (fold (add_candidate n) cs cands)
   \<and> cand_rel (fold (add_candidate n) cs cands)
       = cand_rel cands \<union> (\<lambda>c. (claim_key c, claim_value c, n)) ` set cs"
  by (induction cs arbitrary: cands) (simp_all add: cand_full_add cand_rel_add)

lemma cand_add_receipts:
  "cand_full cands \<Longrightarrow>
   (let cands' = fold (\<lambda>r cands. if receipt_node_id r \<notin> accepted_path g then cands
          else fold (add_candidate (receipt_node_id r)) (receipt_claims r) cands) rs cands
    in cand_full cands' \<and> cand_rel cands' = cand_rel cands
         \<union> {(claim_key c, claim_value c, receipt_node_id r) | r c.
              r \<in> set rs \<and> receipt_node_id r \<in> accepted_path g \<and> c \<in> set (receipt_claims r)})"
proof (induction rs arbitrary: cands)
  case (Cons r rs)
  let ?step = "if receipt_node_id r \<notin> accepted_path g then cands
     else fold (add_candidate (receipt_node_id r)) (receipt_claims r) cands"
  have "cand_full ?step" using Cons.prems by (simp add: cand_add_claims)
  from Cons.IH [OF this] show ?case
    using Cons.prems by (auto simp: Let_def cand_add_claims image_iff split: if_splits)
qed simp

lemma collect_full: "cand_full (collect_candidates g)"
  and collect_rel: "cand_rel (collect_candidates g) = accepted_claims g"
  using cand_add_receipts [OF cand_full_empty, of g "bvalues (receipts g)"]
  by (simp_all add: collect_candidates_def accepted_claims_def cand_rel_empty Let_def)

lemma collect_values:
  assumes "bget (collect_candidates g) k = Some m"
  shows "bdom m = claimed_values g k"
proof (intro set_eqI iffI)
  fix v assume "v \<in> bdom m"
  then obtain ns where ns: "bget m v = Some ns" by auto
  moreover from this assms have "ns \<noteq> []" using collect_full [of g] by (auto simp: cand_full_def)
  ultimately have "(k, v, hd ns) \<in> cand_rel (collect_candidates g)"
    using assms by (auto simp: cand_rel_def)
  then show "v \<in> claimed_values g k" by (auto simp: claimed_values_def collect_rel)
next
  fix v assume "v \<in> claimed_values g k"
  then show "v \<in> bdom m" using assms by (auto simp: claimed_values_def cand_rel_def simp flip: collect_rel)
qed

lemma collect_claimants:
  assumes "bget (collect_candidates g) k = Some m"
  shows "set (concat (bvalues m)) = claimants g k"
proof -
  have "claimants g k = {n. \<exists>v ns. bget m v = Some ns \<and> n \<in> set ns}"
    using assms by (auto simp: claimants_def cand_rel_def simp flip: collect_rel)
  moreover have "n \<in> set (concat (bvalues m)) \<longleftrightarrow> (\<exists>v ns. bget m v = Some ns \<and> n \<in> set ns)" for n
    using in_bvalues_iff [of _ m] by fastforce
  ultimately show ?thesis by blast
qed

lemma collect_keys: "bdom (collect_candidates g) = claimed_keys g"
proof (intro set_eqI iffI)
  fix k assume "k \<in> bdom (collect_candidates g)"
  then obtain m where m: "bget (collect_candidates g) k = Some m" by auto
  with collect_full [of g] obtain v where "v \<in> bdom m" unfolding cand_full_def by blast
  then show "k \<in> claimed_keys g"
    using collect_values [OF m] by (force simp: claimed_values_def claimed_keys_def)
next
  fix k assume "k \<in> claimed_keys g"
  then show "k \<in> bdom (collect_candidates g)"
    by (auto simp: claimed_keys_def cand_rel_def simp flip: collect_rel)
qed

text \<open>The loop over the candidates, as the two lists it builds.\<close>

definition conflict_of :: "string \<times> (string, string list) btree_map \<Rightarrow> result_conflict" where
  "conflict_of e = \<lparr>conflict_key = fst e, conflict_values = bkeys (snd e),
     conflict_node_ids = remdups_adj (sort (concat (bvalues (snd e))))\<rparr>"

definition single :: "string \<times> (string, string list) btree_map \<Rightarrow> bool" where
  "single e \<longleftrightarrow> length (bkeys (snd e)) = 1"

lemma fuse_key_eq:
  "fuse_key e acc =
     (if single e then acc\<lparr>fused_accepted := binsert (fst e) (hd (bkeys (snd e))) (fused_accepted acc)\<rparr>
      else acc\<lparr>fused_conflicts := fused_conflicts acc @ [conflict_of e]\<rparr>)"
  by (cases e; cases "bkeys (snd e)" rule: remdups_adj.cases)
     (auto simp: fuse_key_def single_def conflict_of_def)

lemma fold_fuse_key:
  "fold fuse_key es acc =
     \<lparr>fused_accepted = fold (\<lambda>(k, v). binsert k v)
        (map (\<lambda>e. (fst e, hd (bkeys (snd e)))) (filter single es)) (fused_accepted acc),
      fused_conflicts = fused_conflicts acc @ map conflict_of (filter (\<lambda>e. \<not> single e) es)\<rparr>"
  by (induction es arbitrary: acc) (simp_all add: fuse_key_eq)

lemma bkeys_sorted_list: "bkeys m = sorted_list_of_set (bdom m)"
proof -
  have "sorted (bkeys m)" "distinct (bkeys m)"
    using ascending_entries [of m] by (simp_all add: ascending_def bkeys_def strict_sorted_iff)
  then show ?thesis by (metis set_bkeys sorted_list_of_set.idem_if_sorted_distinct)
qed

lemma remdups_adj_sort: "remdups_adj (sort xs) = sorted_list_of_set (set (xs :: 'a::linorder list))"
proof -
  have "distinct (remdups_adj ys)" if "sorted ys" for ys :: "'a list"
    using that by (induction ys rule: remdups_adj.induct) auto
  then have "sorted (remdups_adj (sort xs))" "distinct (remdups_adj (sort xs))" by simp_all
  then show ?thesis
    by (metis remdups_adj_set set_sort sorted_list_of_set.idem_if_sorted_distinct)
qed

lemma entry_single:
  assumes "bget (collect_candidates g) k = Some m"
  shows "single (k, m) \<longleftrightarrow> card (claimed_values g k) = 1"
  using collect_values [OF assms] by (simp add: single_def bkeys_sorted_list)

lemma entry_conflict:
  assumes "bget (collect_candidates g) k = Some m"
  shows "conflict_of (k, m) = \<lparr>conflict_key = k,
     conflict_values = sorted_list_of_set (claimed_values g k),
     conflict_node_ids = sorted_list_of_set (claimants g k)\<rparr>"
  using collect_values [OF assms] collect_claimants [OF assms]
  by (simp add: conflict_of_def bkeys_sorted_list remdups_adj_sort del: set_concat)

lemma filter_entries_by_key:
  "\<lbrakk>\<And>k v. bget m k = Some v \<Longrightarrow> P (k, v) \<longleftrightarrow> Q k; \<And>k v. bget m k = Some v \<Longrightarrow> F (k, v) = G k\<rbrakk>
   \<Longrightarrow> map F (filter P (entries m)) = map G (filter Q (bkeys m))"
  unfolding bkeys_def filter_map map_map
  by (rule map_cong) (auto intro!: filter_cong)

lemma fuse_accepted_results_facts:
  "bget (fused_accepted (fuse_accepted_results g)) k = Some v \<longleftrightarrow> claimed_values g k = {v}"
  "fused_conflicts (fuse_accepted_results g) =
     map (\<lambda>k. \<lparr>conflict_key = k, conflict_values = sorted_list_of_set (claimed_values g k),
               conflict_node_ids = sorted_list_of_set (claimants g k)\<rparr>)
       (filter (\<lambda>k. card (claimed_values g k) \<noteq> 1) (sorted_list_of_set (claimed_keys g)))"
proof -
  let ?es = "entries (collect_candidates g)"
  let ?ps = "map (\<lambda>e. (fst e, hd (bkeys (snd e)))) (filter single ?es)"
  have fused: "fuse_accepted_results g = \<lparr>fused_accepted = fold (\<lambda>(k, v). binsert k v) ?ps bempty,
      fused_conflicts = map conflict_of (filter (\<lambda>e. \<not> single e) ?es)\<rparr>"
    by (simp add: fuse_accepted_results_def fold_fuse_key)
  show "fused_conflicts (fuse_accepted_results g) =
     map (\<lambda>k. \<lparr>conflict_key = k, conflict_values = sorted_list_of_set (claimed_values g k),
               conflict_node_ids = sorted_list_of_set (claimants g k)\<rparr>)
       (filter (\<lambda>k. card (claimed_values g k) \<noteq> 1) (sorted_list_of_set (claimed_keys g)))"
    unfolding fused bounded_work_graph.simps fused_results.simps collect_keys [symmetric]
      bkeys_sorted_list [symmetric]
    by (rule filter_entries_by_key) (simp_all add: entry_single entry_conflict)
  have dist: "distinct (map fst ?ps)"
    by (simp add: comp_def distinct_map_filter)
  have "bget (fused_accepted (fuse_accepted_results g)) k = Some v \<longleftrightarrow> map_of ?ps k = Some v"
    unfolding fused fused_results.simps bget_fold_insert [OF dist] by (simp split: option.split)
  also have "\<dots> \<longleftrightarrow> (\<exists>m. bget (collect_candidates g) k = Some m \<and> single (k, m) \<and> v = hd (bkeys m))"
    using dist by (force simp: map_of_eq_Some_iff)
  also have "\<dots> \<longleftrightarrow> claimed_values g k = {v}"
  proof (cases "bget (collect_candidates g) k")
    case None
    then have "k \<notin> claimed_keys g" using collect_keys [of g] by auto
    then have "claimed_values g k = {}" by (force simp: claimed_values_def claimed_keys_def)
    with None show ?thesis by simp
  next
    case (Some m)
    then show ?thesis using collect_values [OF Some] entry_single [OF Some]
      by (auto simp: bkeys_sorted_list card_1_singleton_iff)
  qed
  finally show "bget (fused_accepted (fuse_accepted_results g)) k = Some v \<longleftrightarrow> claimed_values g k = {v}" .
qed

text \<open>
  Fusing accepts a key with a value exactly when that value is the only one the receipts on
  the accepted path claim for the key, and reports every other claimed key, in key order, as a
  conflict with all its values and all the nodes that claimed one, each sorted without repeats.
\<close>

theorem fuse_accepted_results_exact:
  "(bget (fused_accepted (fuse_accepted_results g)) k = Some v \<longleftrightarrow> claimed_values g k = {v})
   \<and> fused_conflicts (fuse_accepted_results g) =
     map (\<lambda>k. \<lparr>conflict_key = k, conflict_values = sorted_list_of_set (claimed_values g k),
               conflict_node_ids = sorted_list_of_set (claimants g k)\<rparr>)
       (filter (\<lambda>k. card (claimed_values g k) \<noteq> 1) (sorted_list_of_set (claimed_keys g)))"
  by (intro conjI fuse_accepted_results_facts)

end
