(* ===== verification/Graph_Witnesses.thy ===== *)
theory Graph_Witnesses
  imports Store_Laws Stop_Cascade Reports "HOL-Library.Code_Target_Nat"
begin

text \<open>
  A small project on which the hypotheses of the graph and store properties hold, built by the
  operations themselves: a root with one queued child that claims a path, stored and claimed.
\<close>

definition demo_hash :: "string \<Rightarrow> string" where
  "demo_hash s = replicate 64 (CHR ''a'')"

definition demo_budget :: "nat \<Rightarrow> work_node_budget" where
  "demo_budget t = \<lparr>tokens_allocated = t, tokens_consumed = 0, cost_micros_allocated = t,
     cost_micros_consumed = 0\<rparr>"

definition demo_root :: bounded_work_graph where
  "demo_root = projr (add_root default_graph ''root'' ''lead'' ''cap0'' (demo_budget 100))"

definition demo_queued :: bounded_work_graph where
  "demo_queued = projr (queue_child demo_root ''root'' ''c1'' ''worker'' ''cap1'' (demo_budget 40))"

definition demo_graph :: bounded_work_graph where
  "demo_graph = projr (set_path_claims demo_queued ''c1'' [''path:src''])"

definition demo_store :: work_graph_store where
  "demo_store = projr (create (empty_store ''r'') ''g1'' demo_graph)"

definition demo_claimed :: work_graph_store where
  "demo_claimed = snd (projr (claim_node_execution demo_hash demo_store ''g1'' ''c1'' 10 500))"

lemma projr_eq: "\<not> isl r \<Longrightarrow> r = Inr (projr r)"
  by simp

lemma demo_root_eq: "add_root default_graph ''root'' ''lead'' ''cap0'' (demo_budget 100) = Ok demo_root"
  unfolding demo_root_def by (rule projr_eq) code_simp

lemma demo_queued_eq: "queue_child demo_root ''root'' ''c1'' ''worker'' ''cap1'' (demo_budget 40) = Ok demo_queued"
  unfolding demo_queued_def by (rule projr_eq) code_simp

lemma demo_graph_eq: "set_path_claims demo_queued ''c1'' [''path:src''] = Ok demo_graph"
  unfolding demo_graph_def by (rule projr_eq) code_simp

lemma demo_store_eq: "create (empty_store ''r'') ''g1'' demo_graph = Ok demo_store"
  unfolding demo_store_def by (rule projr_eq) code_simp

lemma demo_store_valid: "validate_store demo_hash demo_store = Ok ()"
  by code_simp

lemma demo_claimed_eq:
  "\<exists>c. claim_node_execution demo_hash demo_store ''g1'' ''c1'' 10 500 = Ok (c, demo_claimed)"
proof -
  have "claim_node_execution demo_hash demo_store ''g1'' ''c1'' 10 500 =
      Inr (projr (claim_node_execution demo_hash demo_store ''g1'' ''c1'' 10 500))"
    by (rule projr_eq) code_simp
  then show ?thesis unfolding demo_claimed_def by (metis prod.collapse)
qed

lemma demo_claimed_valid: "validate_store demo_hash demo_claimed = Ok ()"
  by code_simp

lemma demo_store_reaches: "reaches store_init (store_step demo_hash) demo_store"
proof (rule reaches_step [OF reaches_init])
  show "store_init (empty_store ''r'')" by (auto simp: store_init_def)
  show "store_step demo_hash (empty_store ''r'') demo_store"
  proof (rule store_create [OF demo_store_eq _ demo_store_valid])
    show "\<forall>n\<in>set (bvalues (nodes demo_graph)). \<not> execution_started n" by code_simp
  qed
qed

lemma demo_claimed_reaches: "reaches store_init (store_step demo_hash) demo_claimed"
  using demo_claimed_eq store_claim [OF _ demo_claimed_valid]
  by (auto intro: reaches_step [OF demo_store_reaches])

definition demo_running :: bounded_work_graph where
  "demo_running = the (bget (graphs demo_claimed) ''g1'')"

definition demo_child :: work_node where
  "demo_child = the (bget (nodes demo_running) ''c1'')"

lemma demo_running_child:
  "bget (graphs demo_claimed) ''g1'' = Some demo_running"
  "bget (nodes demo_running) ''c1'' = Some demo_child"
  "execution_exit_unconfirmed demo_child" "path_claims demo_child = [''path:src'']"
proof -
  have "bget (graphs demo_claimed) ''g1'' \<noteq> None" by code_simp
  then show "bget (graphs demo_claimed) ''g1'' = Some demo_running" by (simp add: demo_running_def)
  have "bget (nodes demo_running) ''c1'' \<noteq> None" by code_simp
  then show "bget (nodes demo_running) ''c1'' = Some demo_child" by (simp add: demo_child_def)
  show "execution_exit_unconfirmed demo_child" by code_simp
  show "path_claims demo_child = [''path:src'']" by code_simp
qed

section \<open>Witnesses\<close>

theorem running_paths_exclusive_witness:
  "reaches store_init (store_step demo_hash) demo_claimed
   \<and> execution_exit_unconfirmed demo_child \<and> path_claims_overlap ''path:src'' ''path:src''
   \<and> ''g1'' = ''g1'' \<and> ''c1'' = ''c1''"
  using running_paths_exclusive [OF demo_claimed_reaches demo_running_child(1-3) demo_running_child(1-3),
      of "''path:src''" "''path:src''"] demo_claimed_reaches demo_running_child
  by simp

lemma demo_graph_wf: "wf_graph demo_hash demo_graph"
proof -
  have "validate_invariants demo_hash demo_graph = Ok ()" by code_simp
  then show ?thesis by (simp add: wf_graph_iff_validated)
qed

lemma demo_root_node: "\<exists>n. bget (nodes demo_root) ''root'' = Some n \<and> status n = Active"
proof -
  have "map_option status (bget (nodes demo_root) ''root'') = Some Active" by code_simp
  then show ?thesis by auto
qed

theorem nodes_move_forward_witness:
  "\<exists>n n'. bget (nodes demo_root) ''root'' = Some n
     \<and> bget (nodes (projr (claim_or_resume_active_until demo_hash demo_queued ''c1'' 500))) ''root'' = Some n'
     \<and> node_id n' = node_id n \<and> status n' \<noteq> Pending"
proof -
  let ?claimed = "projr (claim_or_resume_active_until demo_hash demo_queued ''c1'' 500)"
  obtain n where n: "bget (nodes demo_root) ''root'' = Some n" "status n = Active"
    using demo_root_node by blast
  have "claim_or_resume_active_until demo_hash demo_queued ''c1'' 500 = Ok ?claimed"
    by (rule projr_eq) code_simp
  then have "graph_operation demo_hash demo_queued ?claimed" by (rule op_claim)
  moreover have "graph_operation demo_hash demo_root demo_queued"
    by (rule op_step [OF op_queue_child [OF demo_queued_eq]])
  ultimately have "(graph_operation demo_hash)\<^sup>*\<^sup>* demo_root ?claimed" by (rule converse_rtranclp_into_rtranclp [OF _ r_into_rtranclp, rotated])
  from nodes_move_forward [OF this n(1)] n show ?thesis by auto
qed

theorem stop_cascades_witness:
  "\<exists>g' xs. stop demo_graph ''root'' ManualStop = Ok (g', xs) \<and> distinct xs
     \<and> (\<forall>k\<in>set xs. \<exists>m'. bget (nodes g') k = Some m' \<and> status m' = Stopped)"
proof -
  have "map_option status (bget (nodes demo_graph) ''root'') = Some Active" by code_simp
  then obtain n where "bget (nodes demo_graph) ''root'' = Some n" by auto
  from stop_cascades [OF demo_graph_wf this, of ManualStop] show ?thesis by blast
qed

theorem reserved_budget_exact_witness:
  "reserved_child_budget demo_graph ''root'' None = Ok (40, 40)
   \<and> reserved_amount tokens_allocated tokens_consumed demo_graph ''root'' None = 40"
proof -
  have "reserved_child_budget demo_graph ''root'' None = Ok (40, 40)" by code_simp
  with reserved_budget_exact [OF demo_graph_wf, of "''root''"] show ?thesis
    by (auto simp: Let_def split: if_splits)
qed

theorem mutate_persists_validated_witness:
  "\<exists>s'. create (empty_store ''r'') ''g1'' demo_graph = Ok s' \<and> store_ok demo_hash s'"
proof -
  have "mutate demo_hash (\<lambda>_. None) (\<lambda>_. ''bytes'') ''r''
      (\<lambda>s. ebind (create s ''g1'' demo_graph) (\<lambda>s1. Ok ((), s1))) Replaced None = (Ok (), Some ''bytes'')"
    by code_simp
  from mutate_persists_validated [OF this] show ?thesis
    by (auto simp: load_in_directory_def ebind_eq_Ok)
qed

lemma demo_store_ok: "store_ok demo_hash demo_store"
  using demo_store_valid by (simp add: validate_store_iff)

theorem load_saved_store_witness:
  "load_in_directory demo_hash (\<lambda>_. Some demo_store) ''r'' (Some ''bytes'') = Ok demo_store"
proof (rule load_saved_store [OF demo_store_ok])
  show "store_schema_version demo_store = STORE_SCHEMA_VERSION" by code_simp
  show "project_root_hash demo_store = ''r''" by code_simp
  show "save_in_directory (\<lambda>_. ''bytes'') Replaced demo_store None = (Ok (), Some ''bytes'')"
    by (simp add: save_in_directory_def MAX_STORE_BYTES_def)
qed simp

text \<open>The child settles with an accepted receipt, and its path is accepted.\<close>

definition demo_receipt :: child_execution_receipt where
  "demo_receipt = \<lparr>receipt_id = ''r1'', receipt_node_id = ''c1'', receipt_outcome_ref = ''out1'',
     receipt_outcome = Accepted, receipt_tokens = 30, receipt_cost = 20,
     receipt_fence = execution_fence demo_child,
     receipt_claims = [\<lparr>claim_key = ''k'', claim_value = ''v''\<rparr>], receipt_usage_source = Reported\<rparr>"

definition demo_settled :: bounded_work_graph where
  "demo_settled = projr (mark_accepted_path (snd (record_child_receipt demo_running demo_receipt)) [''c1''])"

theorem team_value_report_conserves_witness:
  "\<exists>r. Graph_Ops.team_value_report demo_settled = Inr r \<and> report_total_tokens r = 30
     \<and> report_accepted_cost_basis_points r = 10000"
proof -
  have "Graph_Ops.team_value_report demo_settled = Inr (projr (Graph_Ops.team_value_report demo_settled))"
    by (rule projr_eq) code_simp
  note report = team_value_report_conserves [OF this]
  have "(\<Sum>n\<leftarrow>bvalues (nodes demo_settled). spent_tokens demo_settled n) = 30" by code_simp
  moreover have "report_accepted_cost_micros (projr (Graph_Ops.team_value_report demo_settled)) = 20"
    "report_total_cost_micros (projr (Graph_Ops.team_value_report demo_settled)) = 20" by code_simp+
  ultimately show ?thesis
    using report \<open>Graph_Ops.team_value_report demo_settled = Inr _\<close> by auto
qed

end
