(* ===== verification/Agent_Lease.thy ===== *)
theory Agent_Lease
  imports Work_Graph "HOL-Library.Product_Lexorder"
begin

text \<open>
  The lease registry of \<open>agent_lease.rs\<close>: ownership of paths, symbols and work-graph
  nodes with expiry, owner- and token-bound release and renewal, and bounded waiting. An
  operation that may both change the registry and return an error yields the result beside
  the registry. The fencing digest of a lease (\<open>blake3\<close> over the serialised request) is the
  argument \<open>digest\<close>.
\<close>

section \<open>Constants and data\<close>

definition AGENT_LEASE_SCHEMA_VERSION :: nat where "AGENT_LEASE_SCHEMA_VERSION = 1"
definition DEFAULT_MAX_LEASES :: nat where "DEFAULT_MAX_LEASES = 1024"
definition MAX_LEASE_DURATION_MS :: nat where "MAX_LEASE_DURATION_MS = 60 * 60 * 1000"
definition MAX_RESOURCE_REF_BYTES :: nat where "MAX_RESOURCE_REF_BYTES = 256"
definition PROJECT_PATH_SCHEME :: string where "PROJECT_PATH_SCHEME = ''project-path:''"
definition HIERARCHICAL_PATH_SCHEMES :: "string list" where
  "HIERARCHICAL_PATH_SCHEMES = [PROJECT_PATH_SCHEME, ''path:'']"
definition WAITER_TTL_MS :: nat where "WAITER_TTL_MS = 2 * 60 * 1000"
definition MAX_CONTENDED_HOLD_MS :: nat where "MAX_CONTENDED_HOLD_MS = 60 * 60 * 1000"
definition RESERVED_LEASE_REF :: string where "RESERVED_LEASE_REF = ''reserved-for-waiter''"

datatype agent_lease_resource_kind = Path | Symbol | WorkGraphNode

text \<open>The derived order of the enum: the order of its constructors.\<close>

fun kind_rank :: "agent_lease_resource_kind \<Rightarrow> nat" where
  "kind_rank Path = 0"
| "kind_rank Symbol = 1"
| "kind_rank WorkGraphNode = 2"

lemma kind_rank_inj: "kind_rank a = kind_rank b \<Longrightarrow> a = b"
  by (cases a; cases b) simp_all

instantiation agent_lease_resource_kind :: linorder
begin

definition less_eq_agent_lease_resource_kind ::
  "agent_lease_resource_kind \<Rightarrow> agent_lease_resource_kind \<Rightarrow> bool" where
  "less_eq_agent_lease_resource_kind a b \<longleftrightarrow> kind_rank a \<le> kind_rank b"

definition less_agent_lease_resource_kind ::
  "agent_lease_resource_kind \<Rightarrow> agent_lease_resource_kind \<Rightarrow> bool" where
  "less_agent_lease_resource_kind a b \<longleftrightarrow> kind_rank a < kind_rank b"

instance
  by standard (auto simp: less_eq_agent_lease_resource_kind_def less_agent_lease_resource_kind_def
      dest: kind_rank_inj)

end

record agent_lease_request =
  req_schema_version :: nat
  lease_request_ref :: string
  resource_kind :: agent_lease_resource_kind
  resource_ref :: string
  owner_agent_id :: string
  duration_ms :: nat

record agent_lease =
  lease_schema_version :: nat
  lease_ref :: string
  request :: agent_lease_request
  expires_at_epoch_ms :: nat

datatype agent_lease_acquire = Granted agent_lease | HeldBy string string nat

record lease_waiter =
  waiter_kind :: agent_lease_resource_kind
  waiter_ref :: string
  waiter_owner :: string
  since_epoch_ms :: nat
  seen_epoch_ms :: nat

record lease_fairness =
  waiters :: "lease_waiter list"
  held_since :: "(string, nat) btree_map"

type_synonym resource = "agent_lease_resource_kind \<times> string"

record agent_lease_registry =
  leases :: "(resource, agent_lease) btree_map"
  max_leases :: nat
  fairness :: lease_fairness

datatype agent_lease_error =
    UnsupportedVersion nat | InvalidLease string | LeaseCapacityExceeded nat | NotOwner | NotFound
  | Expired | Serialize string | Store string

type_synonym 'a lease_result = "agent_lease_error + 'a"

section \<open>Validation\<close>

definition opaque_ref :: "string \<Rightarrow> string \<Rightarrow> unit lease_result" where
  "opaque_ref label value =
     (case split_once CHR '':'' value of
        None \<Rightarrow> Err (InvalidLease (label @ '' must use scheme:identifier form''))
      | Some (scheme, identifier) \<Rightarrow>
          if scheme \<noteq> [] \<and> list_all scheme_char scheme
             \<and> identifier \<noteq> [] \<and> length value \<le> MAX_RESOURCE_REF_BYTES
             \<and> list_all is_ascii_graphic identifier
          then Ok () else Err (InvalidLease (''invalid '' @ label)))"

definition agent_id_check :: "string \<Rightarrow> unit lease_result" where
  "agent_id_check value =
     (if value \<noteq> [] \<and> length value \<le> 256 \<and> list_all is_ascii_graphic value
      then Ok () else Err (InvalidLease ''invalid owner_agent_id''))"

definition check_duration :: "nat \<Rightarrow> unit lease_result" where
  "check_duration d =
     (if d = 0 \<or> MAX_LEASE_DURATION_MS < d
      then Err (InvalidLease ''duration_ms must be between 1 and 3600000'') else Ok ())"

definition validate_request :: "agent_lease_request \<Rightarrow> unit lease_result" where
  "validate_request q =
     (if req_schema_version q \<noteq> AGENT_LEASE_SCHEMA_VERSION
      then Err (UnsupportedVersion (req_schema_version q))
      else ebind (opaque_ref ''lease_request_ref'' (lease_request_ref q)) (\<lambda>_.
           ebind (opaque_ref ''resource_ref'' (resource_ref q)) (\<lambda>_.
           ebind (agent_id_check (owner_agent_id q)) (\<lambda>_.
           check_duration (duration_ms q)))))"

definition is_active_at :: "agent_lease \<Rightarrow> nat \<Rightarrow> bool" where
  "is_active_at l now \<longleftrightarrow> now < expires_at_epoch_ms l"

definition resources_overlap ::
  "agent_lease_resource_kind \<Rightarrow> string \<Rightarrow> agent_lease_resource_kind \<Rightarrow> string \<Rightarrow> bool" where
  "resources_overlap kind held other_kind other \<longleftrightarrow>
     kind = other_kind
     \<and> (held = other
        \<or> (kind = Path
           \<and> list_ex (\<lambda>scheme. starts_with scheme held \<and> starts_with scheme other
                          \<and> path_claims_overlap held other) HIERARCHICAL_PATH_SCHEMES))"

section \<open>The registry\<close>

definition new_registry :: "nat \<Rightarrow> agent_lease_registry" where
  "new_registry n = \<lparr>leases = bempty, max_leases = max n 1,
     fairness = \<lparr>waiters = [], held_since = bempty\<rparr>\<rparr>"

definition default_registry :: agent_lease_registry where
  "default_registry = new_registry DEFAULT_MAX_LEASES"

definition request_key :: "agent_lease_request \<Rightarrow> resource" where
  "request_key q = (resource_kind q, resource_ref q)"

definition remove_expired :: "agent_lease_registry \<Rightarrow> nat \<Rightarrow> agent_lease_registry" where
  "remove_expired r now =
     (let live = bretain (\<lambda>_ l. is_active_at l now) (leases r);
          held = set (map lease_ref (bvalues live))
      in r\<lparr>leases := live,
           fairness := \<lparr>waiters = filter (\<lambda>w. now < saturating_add u64_max (seen_epoch_ms w) WAITER_TTL_MS)
                                 (waiters (fairness r)),
                        held_since = bretain (\<lambda>ref _. ref \<in> held) (held_since (fairness r))\<rparr>\<rparr>)"

text \<open>Whether a waiter entry is the request's own: same agent, same resource.\<close>

definition own_waiter :: "agent_lease_request \<Rightarrow> lease_waiter \<Rightarrow> bool" where
  "own_waiter q w \<longleftrightarrow> waiter_owner w = owner_agent_id q \<and> waiter_kind w = resource_kind q
     \<and> waiter_ref w = resource_ref q"

fun mark_seen :: "agent_lease_request \<Rightarrow> nat \<Rightarrow> lease_waiter list \<Rightarrow> lease_waiter list" where
  "mark_seen q now [] = []"
| "mark_seen q now (w # ws) =
     (if own_waiter q w then w\<lparr>seen_epoch_ms := now\<rparr> # ws else w # mark_seen q now ws)"

definition wait :: "agent_lease_registry \<Rightarrow> agent_lease_request \<Rightarrow> nat \<Rightarrow> agent_lease_registry" where
  "wait r q now =
     (let ws = waiters (fairness r);
          ws' = (if list_ex (own_waiter q) ws then mark_seen q now ws
                 else if length ws < max_leases r
                   then ws @ [\<lparr>waiter_kind = resource_kind q, waiter_ref = resource_ref q,
                              waiter_owner = owner_agent_id q, since_epoch_ms = now,
                              seen_epoch_ms = now\<rparr>]
                 else ws)
      in r\<lparr>fairness := (fairness r)\<lparr>waiters := ws'\<rparr>\<rparr>)"

text \<open>\<open>Iterator::min\<close> and \<open>min_by_key\<close>, which returns the first of equal minima.\<close>

fun list_min :: "nat list \<Rightarrow> nat option" where
  "list_min [] = None"
| "list_min (x # xs) = (case list_min xs of None \<Rightarrow> Some x | Some y \<Rightarrow> Some (min x y))"

fun min_by_key :: "('a \<Rightarrow> nat) \<Rightarrow> 'a list \<Rightarrow> 'a option" where
  "min_by_key f [] = None"
| "min_by_key f (x # xs) =
     (case min_by_key f xs of None \<Rightarrow> Some x | Some y \<Rightarrow> if f y < f x then Some y else Some x)"

definition own_since :: "agent_lease_registry \<Rightarrow> agent_lease_request \<Rightarrow> nat" where
  "own_since r q =
     (case list_min (map since_epoch_ms (filter (own_waiter q) (waiters (fairness r)))) of
        None \<Rightarrow> u64_max | Some t \<Rightarrow> t)"

definition waits_before :: "agent_lease_registry \<Rightarrow> agent_lease_request \<Rightarrow> lease_waiter \<Rightarrow> bool" where
  "waits_before r q w \<longleftrightarrow> waiter_owner w \<noteq> owner_agent_id q \<and> since_epoch_ms w < own_since r q
     \<and> resources_overlap (waiter_kind w) (waiter_ref w) (resource_kind q) (resource_ref q)"

definition waiting_before ::
  "agent_lease_registry \<Rightarrow> agent_lease_request \<Rightarrow> lease_waiter option" where
  "waiting_before r q =
     min_by_key since_epoch_ms (filter (waits_before r q) (waiters (fairness r)))"

definition compute_lease_ref ::
  "(agent_lease_request \<Rightarrow> nat \<Rightarrow> string) \<Rightarrow> agent_lease_request \<Rightarrow> nat \<Rightarrow> string" where
  "compute_lease_ref digest q expires = ''lease:'' @ digest q expires"

definition held_by_lease :: "agent_lease \<Rightarrow> agent_lease_acquire" where
  "held_by_lease l = HeldBy (owner_agent_id (request l)) (lease_ref l) (expires_at_epoch_ms l)"

text \<open>The first lease whose path nests with the request in the request's own scheme.\<close>

definition nested_holder ::
  "agent_lease_registry \<Rightarrow> agent_lease_request \<Rightarrow> agent_lease option" where
  "nested_holder r q =
     (if resource_kind q \<noteq> Path then None
      else case find (\<lambda>scheme. starts_with scheme (resource_ref q)) HIERARCHICAL_PATH_SCHEMES of
             None \<Rightarrow> None
           | Some scheme \<Rightarrow>
               find (\<lambda>l. resource_kind (request l) = Path
                       \<and> starts_with scheme (resource_ref (request l))
                       \<and> path_claims_overlap (resource_ref (request l)) (resource_ref q))
                 (bvalues (leases r)))"

definition acquire_unfair ::
  "(agent_lease_request \<Rightarrow> nat \<Rightarrow> string) \<Rightarrow> agent_lease_registry \<Rightarrow> agent_lease_request \<Rightarrow> nat
   \<Rightarrow> agent_lease_acquire lease_result \<times> agent_lease_registry" where
  "acquire_unfair digest r q now =
     (case bget (leases r) (request_key q) of
        Some existing \<Rightarrow>
          if owner_agent_id (request existing) = owner_agent_id q
             \<and> lease_request_ref (request existing) = lease_request_ref q
          then (Ok (Granted existing), r)
          else (Ok (held_by_lease existing), r)
      | None \<Rightarrow>
     (case nested_holder r q of
        Some existing \<Rightarrow> (Ok (held_by_lease existing), r)
      | None \<Rightarrow>
     (case waiting_before r q of
        Some w \<Rightarrow> (Ok (HeldBy (waiter_owner w) RESERVED_LEASE_REF
                        (saturating_add u64_max (seen_epoch_ms w) WAITER_TTL_MS)), r)
      | None \<Rightarrow>
          if max_leases r \<le> blen (leases r)
          then (Err (LeaseCapacityExceeded (max_leases r)), r)
          else let expires = saturating_add u64_max now (duration_ms q);
                   l = \<lparr>lease_schema_version = AGENT_LEASE_SCHEMA_VERSION,
                        lease_ref = compute_lease_ref digest q expires, request = q,
                        expires_at_epoch_ms = expires\<rparr>
               in (Ok (Granted l), r\<lparr>leases := binsert (request_key q) l (leases r)\<rparr>))))"

definition note_grant ::
  "agent_lease_registry \<Rightarrow> agent_lease_request \<Rightarrow> agent_lease \<Rightarrow> nat \<Rightarrow> agent_lease_registry" where
  "note_grant r q l now =
     r\<lparr>fairness := \<lparr>waiters = filter (\<lambda>w. \<not> own_waiter q w) (waiters (fairness r)),
        held_since = (if bcontains (held_since (fairness r)) (lease_ref l) then held_since (fairness r)
                      else binsert (lease_ref l) now (held_since (fairness r)))\<rparr>\<rparr>"

definition acquire ::
  "(agent_lease_request \<Rightarrow> nat \<Rightarrow> string) \<Rightarrow> agent_lease_registry \<Rightarrow> agent_lease_request \<Rightarrow> nat
   \<Rightarrow> agent_lease_acquire lease_result \<times> agent_lease_registry" where
  "acquire digest r q now =
     (case validate_request q of
        Inl e \<Rightarrow> (Err e, r)
      | Inr _ \<Rightarrow>
          (case acquire_unfair digest (remove_expired r now) q now of
             (Inl e, r1) \<Rightarrow> (Err e, r1)
           | (Inr (Granted l), r1) \<Rightarrow> (Ok (Granted l), note_grant r1 q l now)
           | (Inr (HeldBy owner ref expires), r1) \<Rightarrow>
               (Ok (HeldBy owner ref expires), wait r1 q now)))"

definition release ::
  "agent_lease_registry \<Rightarrow> agent_lease_resource_kind \<Rightarrow> string \<Rightarrow> string \<Rightarrow> string \<Rightarrow> nat
   \<Rightarrow> bool lease_result \<times> agent_lease_registry" where
  "release r kind ref owner token now =
     (case ebind (opaque_ref ''resource_ref'' ref) (\<lambda>_. agent_id_check owner) of
        Inl e \<Rightarrow> (Err e, r)
      | Inr _ \<Rightarrow>
          let r1 = remove_expired r now
          in case bget (leases r1) (kind, ref) of
               None \<Rightarrow> (Ok False, r1)
             | Some existing \<Rightarrow>
                 if owner_agent_id (request existing) \<noteq> owner \<or> lease_ref existing \<noteq> token
                 then (Err NotOwner, r1)
                 else (Ok True, r1\<lparr>leases := bremove (kind, ref) (leases r1)\<rparr>))"

definition fence_lease :: "string \<Rightarrow> string \<Rightarrow> agent_lease \<Rightarrow> bool" where
  "fence_lease owner fence l \<longleftrightarrow> owner_agent_id (request l) = owner
     \<and> (lease_request_ref (request l) = fence
        \<or> starts_with (fence @ '':'') (lease_request_ref (request l)))"

definition release_fence ::
  "agent_lease_registry \<Rightarrow> string \<Rightarrow> string \<Rightarrow> nat \<Rightarrow> nat lease_result \<times> agent_lease_registry" where
  "release_fence r owner fence now =
     (case ebind (opaque_ref ''lease_request_ref'' fence) (\<lambda>_. agent_id_check owner) of
        Inl e \<Rightarrow> (Err e, r)
      | Inr _ \<Rightarrow>
          let r1 = remove_expired r now;
              r2 = r1\<lparr>leases := bretain (\<lambda>_ l. \<not> fence_lease owner fence l) (leases r1)\<rparr>
          in (Ok (blen (leases r1) - blen (leases r2)), r2))"

definition contended_hold :: "agent_lease_registry \<Rightarrow> agent_lease \<Rightarrow> string \<Rightarrow> nat \<Rightarrow> bool" where
  "contended_hold r l token now \<longleftrightarrow>
     (case bget (held_since (fairness r)) token of
        None \<Rightarrow> False | Some since \<Rightarrow> MAX_CONTENDED_HOLD_MS \<le> saturating_sub now since)
     \<and> waiting_before r (request l) \<noteq> None"

definition renew ::
  "agent_lease_registry \<Rightarrow> agent_lease_resource_kind \<Rightarrow> string \<Rightarrow> string \<Rightarrow> string \<Rightarrow> nat \<Rightarrow> nat
   \<Rightarrow> agent_lease lease_result \<times> agent_lease_registry" where
  "renew r kind ref owner token duration now =
     (case ebind (opaque_ref ''resource_ref'' ref) (\<lambda>_.
           ebind (agent_id_check owner) (\<lambda>_. check_duration duration)) of
        Inl e \<Rightarrow> (Err e, r)
      | Inr _ \<Rightarrow>
     (case bget (leases r) (kind, ref) of
        None \<Rightarrow> (Err NotFound, r)
      | Some existing \<Rightarrow>
          if \<not> is_active_at existing now
            then (Err Expired, r\<lparr>leases := bremove (kind, ref) (leases r)\<rparr>)
          else if owner_agent_id (request existing) \<noteq> owner \<or> lease_ref existing \<noteq> token
            then (Err NotOwner, r)
          else let r1 = remove_expired r now
          in if contended_hold r1 existing token now
             then (Err (InvalidLease (''another agent is waiting and this lease reached its maximum hold; ''
                     @ ''it is not renewed and goes to the waiter when it runs out'')), r1)
             else let l = existing\<lparr>request := (request existing)\<lparr>duration_ms := duration\<rparr>,
                              expires_at_epoch_ms := saturating_add u64_max now duration\<rparr>
                  in (Ok l, r1\<lparr>leases := binsert (kind, ref) l (leases r1)\<rparr>)))"

definition active_leases :: "agent_lease_registry \<Rightarrow> nat \<Rightarrow> nat" where
  "active_leases r now = length (filter (\<lambda>l. is_active_at l now) (bvalues (leases r)))"

text \<open>The closure of \<open>revoke_shared\<close>: the first lease with this token is dropped.\<close>

definition revoke ::
  "agent_lease_registry \<Rightarrow> string \<Rightarrow> agent_lease option \<times> agent_lease_registry" where
  "revoke r token =
     (case find (\<lambda>(k, l). lease_ref l = token) (entries (leases r)) of
        None \<Rightarrow> (None, r)
      | Some (k, _) \<Rightarrow> (bget (leases r) k, r\<lparr>leases := bremove k (leases r)\<rparr>))"

section \<open>The machine-wide store\<close>

text \<open>
  The registry on disk: the lease file and, beside it, the fairness file. JSON encoding and
  decoding (\<open>serde_json\<close>) are the arguments \<open>show_leases\<close>, \<open>parse_leases\<close>, \<open>show_fair\<close> and
  \<open>parse_fair\<close>; an absent file is \<^const>\<open>None\<close>. The exclusive file lock makes one call of
  \<open>with_shared_registry\<close> one step.
\<close>

record lease_file =
  file_schema_version :: nat
  file_leases :: "agent_lease list"

record lease_disk =
  leases_json :: "string option"
  waiters_json :: "string option"

definition load_registry ::
  "(string \<Rightarrow> lease_file option) \<Rightarrow> (string \<Rightarrow> lease_fairness option) \<Rightarrow> lease_disk
   \<Rightarrow> agent_lease_registry lease_result" where
  "load_registry parse_leases parse_fair disk =
     (case leases_json disk of
        None \<Rightarrow> Ok default_registry
      | Some content \<Rightarrow>
     (case parse_leases content of
        None \<Rightarrow> Err (Store ''lease store is corrupt'')
      | Some file \<Rightarrow>
          if file_schema_version file \<noteq> AGENT_LEASE_SCHEMA_VERSION
          then Err (UnsupportedVersion (file_schema_version file))
          else Ok (default_registry\<lparr>
            leases := fold (\<lambda>l m. binsert (request_key (request l)) l m) (file_leases file)
                        (leases default_registry),
            fairness := (case Option.bind (waiters_json disk) parse_fair of
                           None \<Rightarrow> \<lparr>waiters = [], held_since = bempty\<rparr> | Some f \<Rightarrow> f)\<rparr>)))"

text \<open>
  A file is written through a temporary one (\<open>config_io::write_atomic\<close>): an error leaves it as it was.
  Where the directory is read-only but the file itself is writable, it is overwritten in place, and an
  error then leaves a beginning of the new text.
\<close>

datatype lease_write = LeaseWritten | LeaseNotWritten string | LeaseTorn nat string

fun write_atomic :: "lease_write \<Rightarrow> string \<Rightarrow> string option \<Rightarrow> (string + unit) \<times> string option" where
  "write_atomic LeaseWritten content file = (Ok (), Some content)"
| "write_atomic (LeaseNotWritten e) content file = (Err e, file)"
| "write_atomic (LeaseTorn n e) content file = (Err e, map_option (\<lambda>_. take n content) file)"

definition lease_file_of :: "agent_lease_registry \<Rightarrow> lease_file" where
  "lease_file_of r = \<lparr>file_schema_version = AGENT_LEASE_SCHEMA_VERSION, file_leases = bvalues (leases r)\<rparr>"

text \<open>First the leases, then the fairness: an error of the first write leaves the second file alone.\<close>

definition save_registry ::
  "(lease_file \<Rightarrow> string) \<Rightarrow> (lease_fairness \<Rightarrow> string) \<Rightarrow> lease_write \<Rightarrow> lease_write \<Rightarrow> agent_lease_registry
   \<Rightarrow> lease_disk \<Rightarrow> unit lease_result \<times> lease_disk" where
  "save_registry show_leases show_fair w1 w2 r disk =
     (case write_atomic w1 (show_leases (lease_file_of r)) (leases_json disk) of
        (Inl e, f1) \<Rightarrow> (Err (Store (''persist leases.json: '' @ e)), disk\<lparr>leases_json := f1\<rparr>)
      | (Inr _, f1) \<Rightarrow>
     (case write_atomic w2 (show_fair (fairness r)) (waiters_json disk) of
        (Inl e, f2) \<Rightarrow> (Err (Store (''persist lease-waiters.json: '' @ e)), \<lparr>leases_json = f1, waiters_json = f2\<rparr>)
      | (Inr _, f2) \<Rightarrow> (Ok (), \<lparr>leases_json = f1, waiters_json = f2\<rparr>)))"

text \<open>An error of the mutation returns before the registry is saved: the files stay as they were.\<close>

definition with_shared_registry ::
  "(lease_file \<Rightarrow> string) \<Rightarrow> (lease_fairness \<Rightarrow> string) \<Rightarrow> (string \<Rightarrow> lease_file option)
   \<Rightarrow> (string \<Rightarrow> lease_fairness option) \<Rightarrow> lease_write \<Rightarrow> lease_write
   \<Rightarrow> (agent_lease_registry \<Rightarrow> 'a lease_result \<times> agent_lease_registry) \<Rightarrow> lease_disk
   \<Rightarrow> 'a lease_result \<times> lease_disk" where
  "with_shared_registry show_leases show_fair parse_leases parse_fair w1 w2 mutate disk =
     (case load_registry parse_leases parse_fair disk of
        Inl e \<Rightarrow> (Err e, disk)
      | Inr r \<Rightarrow>
          (case mutate r of
             (Inl e, _) \<Rightarrow> (Err e, disk)
           | (Inr x, r1) \<Rightarrow>
               (case save_registry show_leases show_fair w1 w2 r1 disk of
                  (Inl e, disk') \<Rightarrow> (Err e, disk')
                | (Inr _, disk') \<Rightarrow> (Ok x, disk'))))"

section \<open>Project-bound resources\<close>

text \<open>
  \<open>project_path_resource\<close>: the scope is the project's hash (\<open>hash_project_root\<close>, which reads
  the project's files), \<open>fold_case\<close> is \<open>to_lowercase\<close> on systems with case-insensitive paths
  and the identity elsewhere, \<open>scoped_digest\<close> the hash of a path too long for a reference.
\<close>

definition hex_upper :: "nat \<Rightarrow> char" where
  "hex_upper d = char_of (if d < 10 then 48 + d else 55 + d)"

definition plain_path_byte :: "char \<Rightarrow> bool" where
  "plain_path_byte c \<longleftrightarrow> is_ascii_alphanumeric c \<or> c \<in> set ''/.-_''"

definition encode_path_byte :: "char \<Rightarrow> string" where
  "encode_path_byte c =
     (if plain_path_byte c then [c]
      else [CHR ''%'', hex_upper (byte c div 16), hex_upper (byte c mod 16)])"

definition encode_path :: "string \<Rightarrow> string" where
  "encode_path relative = concat (map encode_path_byte relative)"

definition normalize_relative :: "(string \<Rightarrow> string) \<Rightarrow> string \<Rightarrow> string" where
  "normalize_relative fold_case relative =
     fold_case (map (\<lambda>c. if c = CHR 0x5C then CHR ''/'' else c) relative)"

definition project_path_resource ::
  "(string \<Rightarrow> string) \<Rightarrow> (string \<Rightarrow> string \<Rightarrow> string) \<Rightarrow> string \<Rightarrow> string \<Rightarrow> string lease_result" where
  "project_path_resource fold_case scoped_digest scope relative =
     (let rel = normalize_relative fold_case relative
      in if rel = [] \<or> starts_with ''/'' rel
            \<or> list_ex (\<lambda>part. part = [] \<or> part = ''.'' \<or> part = ''..'')
                (split_on (\<lambda>c. c = CHR ''/'') rel)
            \<or> has_control rel
         then Err (InvalidLease ''lease path must be a normalized path inside the project'')
         else let resource = PROJECT_PATH_SCHEME @ scope @ ''/'' @ encode_path rel
              in Ok (if MAX_RESOURCE_REF_BYTES < length resource
                     then ''project-pathref:'' @ scoped_digest scope rel
                     else resource))"

end
