(* ===== verification/Lease_Props.thy ===== *)
theory Lease_Props
  imports Lease_Laws
begin

lemma min_by_key_mem: "min_by_key f xs = Some x \<Longrightarrow> x \<in> set xs"
  by (induction xs arbitrary: x) (auto split: option.splits if_splits)

lemma min_by_key_None [simp]: "min_by_key f xs = None \<longleftrightarrow> xs = []"
  by (cases xs) (auto split: option.splits)

lemma list_min_eq: "list_min xs = (if xs = [] then None else Some (Min (set xs)))"
  by (induction xs) auto

lemma waiting_before_None:
  "waiting_before r q = None \<longleftrightarrow> (\<forall>w\<in>set (waiters (fairness r)). \<not> waits_before r q w)"
  by (simp add: waiting_before_def filter_empty_conv)

lemma acquire_unfair_granted:
  assumes "acquire_unfair digest r q now = (Ok (Granted l), r1)"
  shows "(bget (leases r) (request_key q) = Some l \<and> r1 = r
      \<and> owner_agent_id (request l) = owner_agent_id q
      \<and> lease_request_ref (request l) = lease_request_ref q)
    \<or> (bget (leases r) (request_key q) = None \<and> nested_holder r q = None
      \<and> waiting_before r q = None \<and> blen (leases r) < max_leases r \<and> request l = q
      \<and> expires_at_epoch_ms l = saturating_add u64_max now (duration_ms q)
      \<and> lease_ref l = compute_lease_ref digest q (expires_at_epoch_ms l)
      \<and> r1 = r\<lparr>leases := binsert (request_key q) l (leases r)\<rparr>)"
  using assms
  by (cases "bget (leases r) (request_key q)"; cases "nested_holder r q"; cases "waiting_before r q")
    (auto simp: acquire_unfair_def held_by_lease_def Let_def split: if_splits)

lemma acquire_unfair_held:
  assumes "acquire_unfair digest r q now = (Ok (HeldBy owner token expires), r1)"
  shows "r1 = r \<and>
    ((\<exists>l. (bget (leases r) (request_key q) = Some l \<or> nested_holder r q = Some l)
        \<and> owner = owner_agent_id (request l) \<and> token = lease_ref l)
     \<or> (\<exists>w. waiting_before r q = Some w \<and> owner = waiter_owner w \<and> token = RESERVED_LEASE_REF))"
  using assms
  by (cases "bget (leases r) (request_key q)"; cases "nested_holder r q"; cases "waiting_before r q")
    (auto simp: acquire_unfair_def held_by_lease_def Let_def split: if_splits)

text \<open>A grant is either the replay of a live lease or a new lease after every guard passed.\<close>

lemma acquire_granted_cases:
  assumes "acquire digest r q now = (Ok (Granted l), r')"
  obtains (replay) "bget (leases (remove_expired r now)) (request_key q) = Some l"
      "owner_agent_id (request l) = owner_agent_id q"
      "lease_request_ref (request l) = lease_request_ref q"
      "leases r' = leases (remove_expired r now)"
  | (fresh) "bget (leases (remove_expired r now)) (request_key q) = None"
      "nested_holder (remove_expired r now) q = None"
      "waiting_before (remove_expired r now) q = None"
      "blen (leases (remove_expired r now)) < max_leases r"
      "request l = q" "expires_at_epoch_ms l = saturating_add u64_max now (duration_ms q)"
      "lease_ref l = compute_lease_ref digest q (expires_at_epoch_ms l)"
      "leases r' = binsert (request_key q) l (leases (remove_expired r now))"
proof -
  obtain r1 where u: "acquire_unfair digest (remove_expired r now) q now = (Ok (Granted l), r1)"
    and r': "r' = note_grant r1 q l now"
    using assms by (auto simp: acquire_def split: sum.splits prod.splits agent_lease_acquire.splits)
  from acquire_unfair_granted [OF u] r' replay fresh show thesis by fastforce
qed

lemma acquire_valid:
  "acquire digest r q now = (Ok x, r') \<Longrightarrow> validate_request q = Ok ()"
  by (auto simp: acquire_def split: sum.splits)

lemma validate_request_duration: "validate_request q = Ok () \<Longrightarrow> 0 < duration_ms q"
  by (auto simp: validate_request_def check_duration_def result_simps split: if_splits)

text \<open>
  A grant is exclusive and bound to its request: the granted lease is stored under the
  requested resource for the requesting agent and request reference, it is active now, and no
  other lease that is still active overlaps the resource.
\<close>

theorem acquire_exclusive:
  assumes "lease_inv r" "acquire digest r q now = (Ok (Granted l), r')" "now < u64_max"
  shows "bget (leases r') (request_key q) = Some l
    \<and> owner_agent_id (request l) = owner_agent_id q
    \<and> lease_request_ref (request l) = lease_request_ref q
    \<and> is_active_at l now
    \<and> (\<forall>k l'. bget (leases r) k = Some l' \<longrightarrow> is_active_at l' now \<longrightarrow>
         resource_overlap k (request_key q) \<longrightarrow> k = request_key q \<and> l' = l)"
  using assms(2)
proof (cases rule: acquire_granted_cases)
  case replay
  have live: "lease_inv (remove_expired r now)" by (rule remove_expired_inv [OF assms(1)])
  have "k = request_key q" if "bget (leases r) k = Some l'" "is_active_at l' now"
    "resource_overlap k (request_key q)" for k l'
  proof (rule ro.exclusive_same_holder [of "\<lambda>k. {k}" "bdom (leases (remove_expired r now))"])
    show "k \<in> bdom (leases (remove_expired r now))" using that by (simp add: domIff bget_bretain)
    show "request_key q \<in> bdom (leases (remove_expired r now))" using replay(1) by blast
  qed (use live that in \<open>auto simp: lease_inv_def\<close>)
  moreover have "bget (leases r) (request_key q) = Some l" "is_active_at l now"
    "bget (leases r') (request_key q) = Some l"
    using replay by simp_all
  ultimately show ?thesis using replay(2,3) by (metis option.inject)
next
  case fresh
  have "keys_ok (remove_expired r now)"
    using remove_expired_inv [OF assms(1)] by (simp add: lease_inv_def)
  from no_conflict_iff [OF this] fresh(1,2)
  have *: "\<forall>k\<in>bdom (leases (remove_expired r now)). \<not> resource_overlap k (request_key q)" by blast
  have "\<not> resource_overlap k (request_key q)" if "bget (leases r) k = Some l'" "is_active_at l' now" for k l'
  proof -
    have "bget (leases (remove_expired r now)) k = Some l'" using that by simp
    with * show ?thesis by blast
  qed
  moreover have "is_active_at l now"
    using fresh assms(3) validate_request_duration [OF acquire_valid [OF assms(2)]]
    by (simp add: is_active_at_def saturating_add_def)
  ultimately show ?thesis using fresh(5,8) by (simp add: bget_binsert)
qed

text \<open>
  A refused request changes no lease that is still active; the answer names the owner
  of an active lease that overlaps the resource or an agent that has waited for it longer.
\<close>

theorem acquire_refused:
  assumes "lease_inv r" "acquire digest r q now = (Ok (HeldBy owner token expires), r')"
  shows "leases r' = bretain (\<lambda>_ l. is_active_at l now) (leases r)
    \<and> ((\<exists>k l. bget (leases r) k = Some l \<and> is_active_at l now \<and> resource_overlap k (request_key q)
           \<and> owner_agent_id (request l) = owner \<and> lease_ref l = token)
       \<or> (\<exists>w\<in>set (waiters (fairness r)). waits_before (remove_expired r now) q w
           \<and> waiter_owner w = owner \<and> token = RESERVED_LEASE_REF))"
proof -
  let ?r = "remove_expired r now"
  obtain r1 where u: "acquire_unfair digest ?r q now = (Ok (HeldBy owner token expires), r1)"
    and r': "r' = wait r1 q now"
    using assms(2) by (auto simp: acquire_def split: sum.splits prod.splits agent_lease_acquire.splits)
  have keys: "keys_ok ?r" using remove_expired_inv [OF assms(1)] by (simp add: lease_inv_def)
  from acquire_unfair_held [OF u]
  consider (same) l where "bget (leases ?r) (request_key q) = Some l" "r1 = ?r"
      "owner = owner_agent_id (request l)" "token = lease_ref l"
    | (nested) l where "nested_holder ?r q = Some l" "r1 = ?r"
      "owner = owner_agent_id (request l)" "token = lease_ref l"
    | (waiter) w where "waiting_before ?r q = Some w" "r1 = ?r" "owner = waiter_owner w"
      "token = RESERVED_LEASE_REF"
    by auto
  then show ?thesis
  proof cases
    case same
    then have "bget (leases r) (request_key q) = Some l" "is_active_at l now" "leases r' = leases ?r"
      using r' by simp_all
    with same show ?thesis using ro.overlap_refl [of "request_key q"]
      unfolding remove_expired_fields(1) [symmetric] by blast
  next
    case nested
    then obtain k where "bget (leases ?r) k = Some l" "resource_overlap k (request_key q)"
      using nested_holder_sound [OF keys] by blast
    moreover from this have "bget (leases r) k = Some l" "is_active_at l now" "leases r' = leases ?r"
      using nested r' by simp_all
    ultimately show ?thesis using nested unfolding remove_expired_fields(1) [symmetric] by blast
  next
    case waiter
    then have "w \<in> set (waiters (fairness r)) \<and> waits_before ?r q w"
      using min_by_key_mem by (fastforce simp: waiting_before_def)
    with waiter r' show ?thesis by auto
  qed
qed

text \<open>
  Acquiring is idempotent: the same request made again while its lease is active is
  granted the very same lease, token and expiry included.
\<close>

theorem acquire_idempotent:
  assumes "lease_inv r" "acquire digest r q now = (Ok (Granted l), r')"
    and "now < u64_max" "now' < expires_at_epoch_ms l"
  shows "fst (acquire digest r' q now') = Ok (Granted l)"
proof -
  have "bget (leases r') (request_key q) = Some l
    \<and> owner_agent_id (request l) = owner_agent_id q \<and> lease_request_ref (request l) = lease_request_ref q"
    using assms(2)
    by (cases rule: acquire_granted_cases) auto
  moreover have "validate_request q = Ok ()" using assms(2) by (rule acquire_valid)
  ultimately show ?thesis using assms(4)
    by (simp add: acquire_def acquire_unfair_def bget_bretain is_active_at_def)
qed

text \<open>
  A new lease is never handed past an agent that has waited longer for an overlapping
  resource and is still asking.
\<close>

theorem acquire_fair:
  assumes "acquire digest r q now = (Ok (Granted l), r')"
    and "bget (leases (remove_expired r now)) (request_key q) = None"
    and "w \<in> set (waiters (fairness r))"
    and "now < saturating_add u64_max (seen_epoch_ms w) WAITER_TTL_MS"
    and "waiter_owner w \<noteq> owner_agent_id q"
    and "resource_overlap (waiter_kind w, waiter_ref w) (request_key q)"
  shows "own_since (remove_expired r now) q \<le> since_epoch_ms w"
  using assms(1)
proof (cases rule: acquire_granted_cases)
  case fresh
  with assms have "\<not> waits_before (remove_expired r now) q w"
    by (simp add: waiting_before_None)
  with assms show ?thesis
    by (simp add: waits_before_def resource_overlap_def request_key_def not_less)
qed (use assms(2) in \<open>simp del: remove_expired_fields\<close>)

text \<open>
  C14. No starvation: when no active lease overlaps the resource and the registry has room,
  the agent that has waited longest is granted the lease the next time it asks.
\<close>

theorem longest_waiter_granted:
  assumes "lease_inv r" "validate_request q = Ok ()"
    and "\<And>k l. bget (leases r) k = Some l \<Longrightarrow> is_active_at l now \<Longrightarrow>
           \<not> resource_overlap k (request_key q)"
    and "blen (leases (remove_expired r now)) < max_leases r"
    and "\<And>w. w \<in> set (waiters (fairness r)) \<Longrightarrow> now < saturating_add u64_max (seen_epoch_ms w) WAITER_TTL_MS \<Longrightarrow>
           waiter_owner w \<noteq> owner_agent_id q \<Longrightarrow>
           resource_overlap (waiter_kind w, waiter_ref w) (request_key q) \<Longrightarrow>
           own_since (remove_expired r now) q \<le> since_epoch_ms w"
  shows "\<exists>l. fst (acquire digest r q now) = Ok (Granted l) \<and> request l = q"
proof -
  let ?r = "remove_expired r now"
  have keys: "keys_ok ?r" using remove_expired_inv [OF assms(1)] by (simp add: lease_inv_def)
  have "bget (leases ?r) (request_key q) = None \<and> nested_holder ?r q = None"
    unfolding no_conflict_iff [OF keys] using assms(3)
    by (auto simp: bget_bretain split: option.splits if_splits)
  moreover have "waiting_before ?r q = None"
    using assms(5) unfolding waiting_before_None
    by (fastforce simp: waits_before_def resource_overlap_def request_key_def)
  ultimately show ?thesis using assms(2,4)
    by (auto simp: acquire_def acquire_unfair_def Let_def)
qed

text \<open>
  A release takes effect only for the owner with the current token: it then removes
  exactly that lease; in every other case no active lease changes.
\<close>

theorem release_owner_bound:
  assumes "release r kind ref owner token now = (res, r')"
  shows "(res = Ok True \<longleftrightarrow> opaque_ref ''resource_ref'' ref = Ok () \<and> agent_id_check owner = Ok () \<and>
       (\<exists>l. bget (leases r) (kind, ref) = Some l \<and> is_active_at l now
            \<and> owner_agent_id (request l) = owner \<and> lease_ref l = token))
    \<and> (\<forall>k l. is_active_at l now \<longrightarrow>
        (bget (leases r') k = Some l \<longleftrightarrow>
           bget (leases r) k = Some l \<and> \<not> (res = Ok True \<and> k = (kind, ref))))"
  using assms
  by (cases "opaque_ref ''resource_ref'' ref"; cases "agent_id_check owner";
      cases "bget (leases r) (kind, ref)")
    (auto simp: release_def Let_def bget_bretain split: if_splits option.splits)

text \<open>
  Renewal extends the caller's own active lease and keeps its token: it succeeds only for
  the owner with the current token before expiry, moves the expiry to now plus the duration
  and leaves every other active lease alone; a failed renewal extends nothing.
\<close>

theorem renew_owner_bound:
  assumes "renew r kind ref owner token duration now = (res, r')"
  shows "(\<forall>l'. res = Ok l' \<longrightarrow>
        (\<exists>l. bget (leases r) (kind, ref) = Some l \<and> is_active_at l now
           \<and> owner_agent_id (request l) = owner \<and> lease_ref l = token
           \<and> owner_agent_id (request l') = owner \<and> lease_ref l' = token
           \<and> lease_request_ref (request l') = lease_request_ref (request l)
           \<and> expires_at_epoch_ms l' = saturating_add u64_max now duration)
        \<and> duration \<le> MAX_LEASE_DURATION_MS
        \<and> bget (leases r') (kind, ref) = Some l'
        \<and> (\<forall>k l. k \<noteq> (kind, ref) \<longrightarrow> is_active_at l now \<longrightarrow>
             (bget (leases r') k = Some l \<longleftrightarrow> bget (leases r) k = Some l)))
    \<and> (\<forall>e. res = Err e \<longrightarrow> (\<forall>k l. bget (leases r') k = Some l \<longrightarrow> bget (leases r) k = Some l))"
  using assms
  by (cases "opaque_ref ''resource_ref'' ref"; cases "agent_id_check owner"; cases "check_duration duration";
      cases "bget (leases r) (kind, ref)")
    (auto simp: renew_def Let_def bget_bretain check_duration_def split: if_splits option.splits)

text \<open>
  C2. In every registry that any interleaving of acquisitions, releases, renewals, fence
  releases and revocations can reach, two stored leases on overlapping resources are the
  same lease, and leases and waiters stay within the configured capacity.
\<close>

theorem lease_registry_exclusive:
  assumes "reaches lease_init (lease_step digest) r"
    and "bget (leases r) k = Some l" "bget (leases r) k' = Some l'"
    and "resources_overlap (resource_kind (request l)) (resource_ref (request l))
           (resource_kind (request l')) (resource_ref (request l'))"
  shows "k = k' \<and> l = l' \<and> blen (leases r) \<le> max_leases r
    \<and> length (waiters (fairness r)) \<le> max_leases r"
proof -
  have inv: "lease_inv r" by (rule lm.reachable_inv [OF assms(1)])
  then have "k = request_key (request l)" "k' = request_key (request l')"
    using assms(2,3) keys_okD [of r] by (simp_all add: lease_inv_def)
  then have "resource_overlap k k'" using assms(4) by (simp add: resource_overlap_def request_key_def)
  then have "k = k'"
    using inv assms(2,3) by (intro ro.exclusive_same_holder [of "\<lambda>k. {k}"]) (auto simp: lease_inv_def)
  with inv assms(2,3) show ?thesis by (simp add: lease_inv_def waiters_ok_def)
qed

text \<open>
  Releasing a fence drops exactly the active leases its owner took under that fence
  (the node lease and its path leases), keeps every other active lease, and reports how many
  were dropped.
\<close>

theorem release_fence_exact:
  assumes "release_fence r owner fence now = (Ok n, r')"
  shows "(\<forall>k l. bget (leases r') k = Some l \<longleftrightarrow>
        bget (leases r) k = Some l \<and> is_active_at l now \<and> \<not> fence_lease owner fence l)
    \<and> n = card {k. \<exists>l. bget (leases r) k = Some l \<and> is_active_at l now \<and> fence_lease owner fence l}"
proof -
  let ?live = "leases (remove_expired r now)"
  let ?kept = "bretain (\<lambda>_ l. \<not> fence_lease owner fence l) ?live"
  let ?gone = "{k. \<exists>l. bget (leases r) k = Some l \<and> is_active_at l now \<and> fence_lease owner fence l}"
  have n: "leases r' = ?kept" "n = blen ?live - blen ?kept"
    using assms by (auto simp: release_fence_def Let_def split: sum.splits)
  have "bdom ?live = bdom ?kept \<union> ?gone" "bdom ?kept \<inter> ?gone = {}"
    by (auto simp: dom_def)
  moreover have "finite ?gone" by (rule finite_subset [OF _ finite_bdom [of "leases r"]]) auto
  ultimately have "blen ?live = blen ?kept + card ?gone"
    unfolding blen_card by (simp add: card_Un_disjoint)
  with n show ?thesis by auto
qed

text \<open>
  Bounded holding: once a lease has been held for the maximum contended hold and an agent
  that waits for an overlapping resource came before, renewal is refused and the expiry stays.
\<close>

theorem renew_contended_refused:
  assumes "opaque_ref ''resource_ref'' ref = Ok ()" "agent_id_check owner = Ok ()"
    and "check_duration duration = Ok ()"
    and "bget (leases r) (kind, ref) = Some l" "is_active_at l now"
    and "owner_agent_id (request l) = owner" "lease_ref l = token"
    and "bget (held_since (fairness r)) token = Some since" "since + MAX_CONTENDED_HOLD_MS \<le> now"
    and "w \<in> set (waiters (fairness r))" "now < saturating_add u64_max (seen_epoch_ms w) WAITER_TTL_MS"
    and "waits_before (remove_expired r now) (request l) w"
  shows "\<exists>message. fst (renew r kind ref owner token duration now) = Err (InvalidLease message)
    \<and> bget (leases (snd (renew r kind ref owner token duration now))) (kind, ref) = Some l"
proof -
  let ?r = "remove_expired r now"
  have "token \<in> lease_ref ` set (bvalues (leases ?r))"
    using assms(4,5,7) by (force simp: in_bvalues_iff)
  then have "bget (held_since (fairness ?r)) token = Some since"
    using assms(8) by (simp add: remove_expired_def Let_def image_iff)
  moreover have "waiting_before ?r (request l) \<noteq> None"
    using assms(10-12) unfolding waiting_before_None by auto
  ultimately have "contended_hold ?r l token now"
    using assms(9) by (simp add: contended_hold_def)
  then show ?thesis using assms(1-7) by (simp add: renew_def Let_def)
qed

section \<open>The shared store\<close>

lemma file_leases_entries:
  assumes "keys_ok r"
  shows "fold (\<lambda>l m. binsert (request_key (request l)) l m) (bvalues (leases r)) bempty = leases r"
proof -
  have *: "fold (\<lambda>l. binsert (request_key (request l)) l) (map snd ps) m =
      fold (\<lambda>(k, v). binsert k v) ps m" if "\<forall>p\<in>set ps. request_key (request (snd p)) = fst p" for ps m
    using that by (induction ps arbitrary: m) auto
  have "\<forall>p\<in>set (entries (leases r)). request_key (request (snd p)) = fst p"
    using keys_okD [OF assms] by (metis in_entries_iff prod.collapse)
  from * [OF this, of bempty] show ?thesis
    by (simp add: bvalues_def fold_binsert_entries)
qed

text \<open>The order of waiting that a load finds: an absent or unreadable file means that no one waits.\<close>

definition fairness_of :: "(string \<Rightarrow> lease_fairness option) \<Rightarrow> lease_disk \<Rightarrow> lease_fairness" where
  "fairness_of parse_fair disk =
     (case Option.bind (waiters_json disk) parse_fair of None \<Rightarrow> \<lparr>waiters = [], held_since = bempty\<rparr> | Some f \<Rightarrow> f)"

lemma load_saved_leases:
  assumes "keys_ok r" "max_leases r = DEFAULT_MAX_LEASES" "leases_json disk = Some (show_leases (lease_file_of r))"
    and "parse_leases (show_leases (lease_file_of r)) = Some (lease_file_of r)"
  shows "load_registry parse_leases parse_fair disk = Ok (r\<lparr>fairness := fairness_of parse_fair disk\<rparr>)"
  using assms file_leases_entries [OF assms(1)]
  by (simp add: load_registry_def lease_file_of_def default_registry_def new_registry_def DEFAULT_MAX_LEASES_def fairness_of_def)

lemma load_max_leases: "load_registry parse_leases parse_fair disk = Ok r \<Longrightarrow> max_leases r = DEFAULT_MAX_LEASES"
  by (auto simp: load_registry_def default_registry_def new_registry_def DEFAULT_MAX_LEASES_def split: option.splits if_splits)

lemma lease_step_max: "lease_step digest r r' \<Longrightarrow> max_leases r' = max_leases r"
proof (induction rule: lease_step.induct)
  case (step_acquire r q now)
  have "max_leases (snd (acquire_unfair digest r0 q now)) = max_leases r0" for r0
    by (simp add: acquire_unfair_def Let_def split: option.split)
  from this [of "remove_expired r now"] show ?case
    by (cases "acquire_unfair digest (remove_expired r now) q now")
      (simp add: acquire_def split: sum.split agent_lease_acquire.split)
qed (simp_all add: release_def release_fence_def renew_def revoke_def Let_def split: sum.split option.split prod.split)

text \<open>What the files hold after a save, whichever of the two writes failed.\<close>

lemma saved_registry_loads:
  assumes "save_registry show_leases show_fair w1 w2 r1 disk = (res, disk')"
    and "load_registry parse_leases parse_fair disk = Ok r" "keys_ok r1" "max_leases r1 = DEFAULT_MAX_LEASES"
    and laws: "parse_leases (show_leases (lease_file_of r1)) = Some (lease_file_of r1)"
      "parse_fair (show_fair (fairness r1)) = Some (fairness r1)"
      "\<forall>n < length (show_leases (lease_file_of r1)). parse_leases (take n (show_leases (lease_file_of r1))) = None"
  shows "(res = Ok () \<longleftrightarrow> w1 = LeaseWritten \<and> w2 = LeaseWritten)
    \<and> (res = Ok () \<longrightarrow> load_registry parse_leases parse_fair disk' = Ok r1)
    \<and> load_registry parse_leases parse_fair disk'
        \<in> {Ok r, Err (Store ''lease store is corrupt'')} \<union> {Ok (r1\<lparr>fairness := f\<rparr>) |f. True}
    \<and> ((\<forall>n e. w1 \<noteq> LeaseTorn n e) \<longrightarrow> (\<exists>r'. load_registry parse_leases parse_fair disk' = Ok r'))"
proof -
  note saved = load_saved_leases [where parse_leases = parse_leases and parse_fair = parse_fair and show_leases = show_leases
    and r = r1, OF assms(3,4) _ laws(1)]
  show ?thesis
  proof (cases w1)
    case LeaseWritten
    then have l: "leases_json disk' = Some (show_leases (lease_file_of r1))" "res = Ok () \<longleftrightarrow> w2 = LeaseWritten"
      "w2 = LeaseWritten \<longrightarrow> waiters_json disk' = Some (show_fair (fairness r1))"
      using assms(1) by (cases w2; auto simp: save_registry_def)+
    moreover have "r1\<lparr>fairness := fairness r1\<rparr> = r1" by simp
    ultimately show ?thesis using saved [OF l(1)] LeaseWritten laws(2) by (auto simp: fairness_of_def)
  next
    case (LeaseNotWritten e)
    then have "disk' = disk" "res \<noteq> Ok ()" using assms(1) by (auto simp: save_registry_def)
    then show ?thesis using assms(2) LeaseNotWritten by auto
  next
    case (LeaseTorn n e)
    then have l: "leases_json disk' = map_option (\<lambda>_. take n (show_leases (lease_file_of r1))) (leases_json disk)"
      "res \<noteq> Ok ()" "waiters_json disk' = waiters_json disk"
      using assms(1) by (auto simp: save_registry_def)
    show ?thesis
    proof (cases "leases_json disk = None \<or> n < length (show_leases (lease_file_of r1))")
      case True
      then have "load_registry parse_leases parse_fair disk' \<in> {Ok r, Err (Store ''lease store is corrupt'')}"
        using l(1) assms(2) laws(3) by (cases "leases_json disk") (auto simp: load_registry_def)
      then show ?thesis using l(2) LeaseTorn by auto
    next
      case False
      then have "leases_json disk' = Some (show_leases (lease_file_of r1))" using l(1) by auto
      from saved [OF this] show ?thesis using l(2) LeaseTorn by auto
    qed
  qed
qed

text \<open>
  C40. The shared store implements the registry, failing writes included: an operation that a process
  runs on files that hold a registry answers as on the registry itself when both writes succeed,
  and the files then hold the changed registry; an operation that the registry refuses does not
  touch them. When a write fails the caller gets an error, and the next load finds the registry as
  it was, or the leases of the changed one with some order of waiting, or, only after a write that
  overwrote the lease file in place and was torn, a file it refuses: never leases that neither
  registry has. This assumes of JSON that the decoder inverts the encoder and rejects a proper
  beginning of an encoded lease file.
\<close>

theorem shared_registry_refines:
  assumes "with_shared_registry show_leases show_fair parse_leases parse_fair w1 w2 mutate disk = (res, disk')"
    and "load_registry parse_leases parse_fair disk = Ok r" and "lease_inv r"
    and "\<forall>x r1. mutate r = (Ok x, r1) \<longrightarrow> lease_step digest r r1
      \<and> parse_leases (show_leases (lease_file_of r1)) = Some (lease_file_of r1)
      \<and> parse_fair (show_fair (fairness r1)) = Some (fairness r1)
      \<and> (\<forall>n < length (show_leases (lease_file_of r1)). parse_leases (take n (show_leases (lease_file_of r1))) = None)"
  shows "(\<forall>e r1. mutate r = (Err e, r1) \<longrightarrow> res = Err e \<and> disk' = disk)
    \<and> (\<forall>x r1. mutate r = (Ok x, r1) \<longrightarrow>
        (if w1 = LeaseWritten \<and> w2 = LeaseWritten
         then res = Ok x \<and> load_registry parse_leases parse_fair disk' = Ok r1
         else (\<exists>e. res = Err (Store e)) \<and> load_registry parse_leases parse_fair disk'
           \<in> {Ok r, Err (Store ''lease store is corrupt'')} \<union> {Ok (r1\<lparr>fairness := f\<rparr>) |f. True})
        \<and> ((\<forall>n e. w1 \<noteq> LeaseTorn n e) \<longrightarrow> (\<exists>r'. load_registry parse_leases parse_fair disk' = Ok r')))"
proof (cases "mutate r")
  case (Pair y r1)
  show ?thesis
  proof (cases y)
    case (Inl e)
    then have "res = Err e" "disk' = disk" using assms(1,2) Pair by (simp_all add: with_shared_registry_def)
    then show ?thesis using Pair Inl by simp
  next
    case (Inr x)
    obtain sres where s: "save_registry show_leases show_fair w1 w2 r1 disk = (sres, disk')"
      "res = (case sres of Inl e \<Rightarrow> Err e | Inr _ \<Rightarrow> Ok x)"
      using assms(1,2) Pair Inr by (auto simp: with_shared_registry_def split: prod.splits sum.splits)
    have laws: "lease_step digest r r1" "parse_leases (show_leases (lease_file_of r1)) = Some (lease_file_of r1)"
      "parse_fair (show_fair (fairness r1)) = Some (fairness r1)"
      "\<forall>n < length (show_leases (lease_file_of r1)). parse_leases (take n (show_leases (lease_file_of r1))) = None"
      using assms(4) Pair Inr by auto
    have "keys_ok r1" using lease_step_inv [OF laws(1) assms(3)] by (simp add: lease_inv_def)
    moreover have "max_leases r1 = DEFAULT_MAX_LEASES" using lease_step_max [OF laws(1)] load_max_leases [OF assms(2)] by simp
    moreover have "\<exists>e. sres = Err (Store e)" if "sres \<noteq> Ok ()"
      using that s(1) by (auto simp: save_registry_def split: prod.splits sum.splits)
    ultimately show ?thesis
      using saved_registry_loads [OF s(1) assms(2) _ _ laws(2-4)] s(2) Pair Inr by (cases sres) auto
  qed
qed

end
