(* ===== verification/Lease_Paths.thy ===== *)
theory Lease_Paths
  imports Lease_Laws
begin

text \<open>
  The names of path leases: percent-encoding keeps the nesting of paths, and paths of
  different projects never meet.
\<close>

lemma byte_hex_upper: "d < 16 \<Longrightarrow> byte (hex_upper d) = (if d < 10 then 48 + d else 55 + d)"
  by (simp add: byte_def hex_upper_def)

lemma hex_upper_inj: "d < 16 \<Longrightarrow> e < 16 \<Longrightarrow> hex_upper d = hex_upper e \<Longrightarrow> d = e"
  by (drule arg_cong [where f = byte]) (simp add: byte_hex_upper split: if_splits)

lemma plain_slash [simp]: "plain_path_byte CHR ''/''" and not_plain_percent [simp]: "\<not> plain_path_byte CHR ''%''"
  by (auto simp: plain_path_byte_def is_ascii_alphanumeric_def is_ascii_digit_def byte_def)

lemma encode_path_simps [simp]:
  "encode_path [] = []" "encode_path (c # cs) = encode_path_byte c @ encode_path cs"
  by (simp_all add: encode_path_def)

lemma encode_path_append: "encode_path (p @ q) = encode_path p @ encode_path q"
  by (simp add: encode_path_def)

lemma encode_path_slash: "encode_path ''/'' = ''/''"
  by (simp add: encode_path_byte_def)

text \<open>The codes of two bytes are equal or neither begins the other.\<close>

lemma encode_path_byte_prefix:
  assumes "encode_path_byte a @ s = encode_path_byte b @ t"
  shows "a = b \<and> s = t"
proof (cases "plain_path_byte a = plain_path_byte b")
  case True
  have "byte a = byte b" if "byte a div 16 = byte b div 16" "byte a mod 16 = byte b mod 16"
    using that by (metis div_mult_mod_eq)
  moreover have "byte a div 16 < 16" "byte b div 16 < 16"
    using of_char_lt_256 [of a] of_char_lt_256 [of b] by linarith+
  ultimately show ?thesis using assms True hex_upper_inj byte_inject
    by (auto simp: encode_path_byte_def split: if_splits)
qed (use assms in \<open>auto simp: encode_path_byte_def split: if_splits\<close>)

lemma encode_path_byte_nonempty [simp]: "encode_path_byte a \<noteq> []"
  by (simp add: encode_path_byte_def)

lemma encode_path_inj: "encode_path p = encode_path q \<Longrightarrow> p = q"
proof (induction p arbitrary: q)
  case Nil
  then show ?case by (cases q) simp_all
next
  case (Cons a p)
  then show ?case by (cases q) (auto dest: encode_path_byte_prefix)
qed

lemma encode_path_below:
  "encode_path p = encode_path q @ ''/'' @ t \<Longrightarrow> \<exists>r. p = q @ ''/'' @ r"
proof (induction q arbitrary: p)
  case Nil
  then show ?case
  proof (cases p)
    case (Cons a ps)
    with Nil show ?thesis
      using encode_path_byte_prefix [of a "encode_path ps" "CHR ''/''" t]
      by (auto simp: encode_path_byte_def [of "CHR ''/''"])
  qed simp
next
  case (Cons b q)
  then show ?case
    by (cases p) (auto dest!: encode_path_byte_prefix)
qed

lemma encode_path_overlap:
  "path_claims_overlap (encode_path p) (encode_path q) \<longleftrightarrow> path_claims_overlap p q"
proof
  assume "path_claims_overlap (encode_path p) (encode_path q)"
  then show "path_claims_overlap p q"
    unfolding path_claims_overlap_iff
    using encode_path_inj encode_path_below [of p q] encode_path_below [of q p] by blast
next
  assume "path_claims_overlap p q"
  then show "path_claims_overlap (encode_path p) (encode_path q)"
    unfolding path_claims_overlap_iff
    by (metis encode_path_append encode_path_slash)
qed

lemma scope_split:
  assumes "CHR ''/'' \<notin> set s" "CHR ''/'' \<notin> set t"
  shows "s @ ''/'' @ x = t @ ''/'' @ y \<longleftrightarrow> s = t \<and> x = y"
  using assms
proof (induction s arbitrary: t)
  case Nil
  then show ?case by (cases t) auto
next
  case (Cons a s)
  then show ?case by (cases t) auto
qed

lemma scoped_overlap:
  assumes "CHR ''/'' \<notin> set s" "CHR ''/'' \<notin> set t"
  shows "path_claims_overlap (s @ ''/'' @ x) (t @ ''/'' @ y) \<longleftrightarrow> s = t \<and> path_claims_overlap x y"
  unfolding path_claims_overlap_iff append.assoc
  using scope_split [OF assms] scope_split [OF assms(2,1)] by blast

lemma prefix_overlap: "path_claims_overlap (p @ x) (p @ y) \<longleftrightarrow> path_claims_overlap x y"
  by (simp add: path_claims_overlap_iff)

lemma project_path_overlap:
  assumes "project_path_resource fold_case dg s p = Ok a" "project_path_resource fold_case dg t q = Ok b"
    and "starts_with PROJECT_PATH_SCHEME a" "starts_with PROJECT_PATH_SCHEME b"
    and "CHR ''/'' \<notin> set s" "CHR ''/'' \<notin> set t"
  shows "resources_overlap Path a Path b \<longleftrightarrow>
    s = t \<and> path_claims_overlap (normalize_relative fold_case p) (normalize_relative fold_case q)"
proof -
  have not_long: "\<not> starts_with PROJECT_PATH_SCHEME (''project-pathref:'' @ d)" for d
    by (simp add: PROJECT_PATH_SCHEME_def starts_with_def)
  let ?p = "normalize_relative fold_case p" and ?q = "normalize_relative fold_case q"
  have a: "a = PROJECT_PATH_SCHEME @ s @ ''/'' @ encode_path ?p"
    and b: "b = PROJECT_PATH_SCHEME @ t @ ''/'' @ encode_path ?q"
    using assms(1-4) not_long by (auto simp: project_path_resource_def Let_def split: if_splits)
  have "resources_overlap Path a Path b \<longleftrightarrow> path_claims_overlap a b"
    using assms(3,4) by (auto simp: resources_overlap_def HIERARCHICAL_PATH_SCHEMES_def)
  also have "\<dots> \<longleftrightarrow> s = t \<and> path_claims_overlap (encode_path ?p) (encode_path ?q)"
    unfolding a b prefix_overlap by (rule scoped_overlap [OF assms(5,6)])
  finally show ?thesis by (simp add: encode_path_overlap)
qed

text \<open>
  Path leases of one project conflict exactly when the normalized paths are equal or
  nested, and leases of two projects never conflict (for references within the length bound).
\<close>

theorem project_path_resource_overlap:
  assumes "project_path_resource fold_case dg s p = Ok a" "project_path_resource fold_case dg t q = Ok b"
    and "starts_with PROJECT_PATH_SCHEME a" "starts_with PROJECT_PATH_SCHEME b"
    and "CHR ''/'' \<notin> set s" "CHR ''/'' \<notin> set t"
  shows "resources_overlap Path a Path b \<longleftrightarrow>
    s = t \<and> path_claims_overlap (normalize_relative fold_case p) (normalize_relative fold_case q)"
  using assms by (rule project_path_overlap)

end
