(* ===== verification/Lease_Witnesses.thy ===== *)
theory Lease_Witnesses
  imports Lease_Props Lease_Paths
begin

text \<open>A small registry on which the hypotheses of the properties hold.\<close>

definition demo_request :: "string \<Rightarrow> string \<Rightarrow> agent_lease_request" where
  "demo_request owner ref = \<lparr>req_schema_version = 1, lease_request_ref = ''request:1'',
     resource_kind = Path, resource_ref = ref, owner_agent_id = owner, duration_ms = 100\<rparr>"

definition demo_lease :: agent_lease where
  "demo_lease = \<lparr>lease_schema_version = 1, lease_ref = ''lease:d'',
     request = demo_request ''agent-a'' ''path:p/src'', expires_at_epoch_ms = 110\<rparr>"

definition demo_registry :: "lease_waiter list \<Rightarrow> agent_lease_registry" where
  "demo_registry ws = \<lparr>leases = binsert (Path, ''path:p/src'') demo_lease bempty, max_leases = 1024,
     fairness = \<lparr>waiters = ws, held_since = binsert ''lease:d'' 10 bempty\<rparr>\<rparr>"

definition demo_waiter :: lease_waiter where
  "demo_waiter = \<lparr>waiter_kind = Path, waiter_ref = ''path:p/src/x'', waiter_owner = ''agent-b'',
     since_epoch_ms = 20, seen_epoch_ms = 20\<rparr>"

lemma demo_request_sel [simp]:
  "req_schema_version (demo_request owner ref) = 1"
  "lease_request_ref (demo_request owner ref) = ''request:1''"
  "resource_kind (demo_request owner ref) = Path" "resource_ref (demo_request owner ref) = ref"
  "owner_agent_id (demo_request owner ref) = owner" "duration_ms (demo_request owner ref) = 100"
  "request_key (demo_request owner ref) = (Path, ref)"
  by (simp_all add: demo_request_def request_key_def)

lemma demo_lease_sel [simp]:
  "lease_ref demo_lease = ''lease:d''" "request demo_lease = demo_request ''agent-a'' ''path:p/src''"
  "expires_at_epoch_ms demo_lease = 110" "is_active_at demo_lease now \<longleftrightarrow> now < 110"
  by (simp_all add: demo_lease_def is_active_at_def)

lemma demo_registry_sel [simp]:
  "leases (demo_registry ws) = binsert (Path, ''path:p/src'') demo_lease bempty"
  "max_leases (demo_registry ws) = 1024" "waiters (fairness (demo_registry ws)) = ws"
  "held_since (fairness (demo_registry ws)) = binsert ''lease:d'' 10 bempty"
  by (simp_all add: demo_registry_def)

lemma demo_refs [simp]:
  "opaque_ref ''lease_request_ref'' ''request:1'' = Ok ()"
  "opaque_ref ''resource_ref'' ''path:p/src'' = Ok ()"
  "opaque_ref ''resource_ref'' ''path:p/src/x'' = Ok ()"
  "agent_id_check ''agent-a'' = Ok ()" "agent_id_check ''agent-b'' = Ok ()"
  by code_simp+

lemma demo_duration [simp]: "check_duration 100 = Ok ()"
  by (simp add: check_duration_def MAX_LEASE_DURATION_MS_def)

lemma demo_valid [simp]:
  "validate_request (demo_request ''agent-a'' ''path:p/src'') = Ok ()"
  "validate_request (demo_request ''agent-b'' ''path:p/src/x'') = Ok ()"
  by (simp_all add: validate_request_def AGENT_LEASE_SCHEMA_VERSION_def)

lemma demo_overlap [simp]:
  "resource_overlap (Path, ''path:p/src/x'') (Path, ''path:p/src'')"
  "resource_overlap (Path, ''path:p/src'') (Path, ''path:p/src/x'')"
  by code_simp+

lemma demo_acquire:
  "acquire (\<lambda>_ _. ''d'') default_registry (demo_request ''agent-a'' ''path:p/src'') 10
     = (Ok (Granted demo_lease), demo_registry [])"
  by (simp add: acquire_def acquire_unfair_def remove_expired_def default_registry_def
      new_registry_def DEFAULT_MAX_LEASES_def nested_holder_def waiting_before_def
      compute_lease_ref_def saturating_add_def u64_max_def AGENT_LEASE_SCHEMA_VERSION_def
      note_grant_def demo_registry_def demo_lease_def Let_def split: option.splits)

lemma demo_live: "now < 110 \<Longrightarrow> remove_expired (demo_registry []) now = demo_registry []"
  by (simp add: remove_expired_def demo_registry_def bretain_binsert bvalues_def Let_def)

lemma demo_nested: "nested_holder (demo_registry ws) (demo_request ''agent-b'' ''path:p/src/x'') = Some demo_lease"
  by (simp add: nested_holder_def HIERARCHICAL_PATH_SCHEMES_def PROJECT_PATH_SCHEME_def
      starts_with_def bvalues_def path_claims_overlap_def)

lemma demo_held:
  "acquire (\<lambda>_ _. ''d'') (demo_registry []) (demo_request ''agent-b'' ''path:p/src/x'') 20
     = (Ok (HeldBy ''agent-a'' ''lease:d'' 110), demo_registry [demo_waiter])"
  by (simp add: acquire_def acquire_unfair_def demo_live demo_nested)
    (simp add: demo_registry_def demo_waiter_def wait_def held_by_lease_def Let_def)

lemma demo_default_inv [simp]: "lease_inv default_registry"
  by (rule lease_init_inv) (auto simp: lease_init_def default_registry_def)

lemma demo_inv [simp]: "lease_inv (demo_registry [])"
  using acquire_inv [of default_registry "\<lambda>_ _. ''d''" "demo_request ''agent-a'' ''path:p/src''" 10]
  by (simp add: demo_acquire)

lemma demo_reachable: "reaches lease_init (lease_step (\<lambda>_ _. ''d'')) (demo_registry [])"
proof -
  have "reaches lease_init (lease_step (\<lambda>_ _. ''d'')) default_registry"
    by (rule reaches_init) (auto simp: lease_init_def default_registry_def)
  then show ?thesis
    using step_acquire [of "\<lambda>_ _. ''d''" default_registry "demo_request ''agent-a'' ''path:p/src''" 10]
    by (auto simp: demo_acquire intro: reaches_step)
qed

section \<open>Witnesses\<close>

theorem lease_registry_exclusive_witness:
  "reaches lease_init (lease_step (\<lambda>_ _. ''d'')) (demo_registry [])
   \<and> bget (leases (demo_registry [])) (Path, ''path:p/src'') = Some demo_lease
   \<and> blen (leases (demo_registry [])) \<le> 1024"
  using lease_registry_exclusive [OF demo_reachable, of "(Path, ''path:p/src'')" demo_lease
      "(Path, ''path:p/src'')" demo_lease] demo_reachable
  by (simp add: resources_overlap_def)

theorem acquire_exclusive_witness:
  "bget (leases (demo_registry [])) (Path, ''path:p/src'') = Some demo_lease \<and> is_active_at demo_lease 10"
  using acquire_exclusive [OF demo_default_inv demo_acquire] by (simp add: u64_max_def)

theorem acquire_refused_witness:
  "\<exists>k l. bget (leases (demo_registry [])) k = Some l
     \<and> resource_overlap k (Path, ''path:p/src/x'') \<and> owner_agent_id (request l) = ''agent-a''"
  using acquire_refused [OF demo_inv demo_held] by auto

theorem acquire_idempotent_witness:
  "fst (acquire (\<lambda>_ _. ''d'') (demo_registry []) (demo_request ''agent-a'' ''path:p/src'') 60)
     = Ok (Granted demo_lease)"
  using acquire_idempotent [OF demo_default_inv demo_acquire, of 60] by (simp add: u64_max_def)

text \<open>A free resource for which two agents wait, \<open>agent-a\<close> longer than \<open>agent-b\<close>.\<close>

definition demo_queue :: agent_lease_registry where
  "demo_queue = (new_registry 4)\<lparr>fairness := \<lparr>waiters = [demo_waiter, demo_waiter\<lparr>waiter_ref := ''path:p/src'',
     waiter_owner := ''agent-a'', since_epoch_ms := 5\<rparr>], held_since = bempty\<rparr>\<rparr>"

lemma demo_queue_live: "now < 1000 \<Longrightarrow> remove_expired demo_queue now = demo_queue"
  by (simp add: remove_expired_def demo_queue_def new_registry_def demo_waiter_def Let_def
      saturating_add_def u64_max_def WAITER_TTL_MS_def)

lemma demo_queue_since: "own_since demo_queue (demo_request ''agent-a'' ''path:p/src'') = 5"
  by (simp add: own_since_def demo_queue_def own_waiter_def demo_waiter_def)

lemma demo_queue_sel [simp]: "leases demo_queue = bempty" "max_leases demo_queue = 4"
  by (simp_all add: demo_queue_def new_registry_def)

lemma demo_queue_inv: "lease_inv demo_queue"
  by (simp add: lease_inv_def keys_ok_def waiters_ok_def ro.exclusive_def)
    (simp add: demo_queue_def waiter_id_def demo_waiter_def)

lemma demo_queue_granted:
  "\<exists>l r'. acquire (\<lambda>_ _. ''d'') demo_queue (demo_request ''agent-a'' ''path:p/src'') 30 = (Ok (Granted l), r')"
proof -
  have "waiting_before demo_queue (demo_request ''agent-a'' ''path:p/src'') = None"
    by (auto simp: waiting_before_None waits_before_def demo_queue_since)
      (auto simp: demo_queue_def demo_waiter_def)
  then show ?thesis
    by (simp add: acquire_def acquire_unfair_def demo_queue_live nested_holder_def Let_def
        split: option.splits)
qed

theorem acquire_fair_witness:
  "demo_waiter \<in> set (waiters (fairness demo_queue))
   \<and> own_since (remove_expired demo_queue 30) (demo_request ''agent-a'' ''path:p/src'')
       \<le> since_epoch_ms demo_waiter"
proof -
  have "now < saturating_add u64_max (seen_epoch_ms demo_waiter) WAITER_TTL_MS" if "now = 30" for now
    using that by (simp add: demo_waiter_def saturating_add_def u64_max_def WAITER_TTL_MS_def)
  then show ?thesis
    using demo_queue_granted acquire_fair [of "\<lambda>_ _. ''d''" demo_queue
        "demo_request ''agent-a'' ''path:p/src''" 30 _ _ demo_waiter]
    by (auto simp: demo_queue_live) (auto simp: demo_queue_def demo_waiter_def)
qed

theorem longest_waiter_granted_witness:
  "\<exists>l. fst (acquire (\<lambda>_ _. ''d'') demo_queue (demo_request ''agent-a'' ''path:p/src'') 30) = Ok (Granted l)
     \<and> request l = demo_request ''agent-a'' ''path:p/src''"
proof (rule longest_waiter_granted)
  show "own_since (remove_expired demo_queue 30) (demo_request ''agent-a'' ''path:p/src'') \<le> since_epoch_ms w"
    if "w \<in> set (waiters (fairness demo_queue))" for w
    using that by (auto simp: demo_queue_live demo_queue_since) (auto simp: demo_queue_def demo_waiter_def)
qed (simp_all add: demo_queue_inv demo_queue_live)

theorem release_owner_bound_witness:
  "fst (release (demo_registry []) Path ''path:p/src'' ''agent-a'' ''lease:d'' 20) = Ok True
   \<and> fst (release (demo_registry []) Path ''path:p/src'' ''agent-b'' ''lease:d'' 20) \<noteq> Ok True"
  using release_owner_bound [OF prod.collapse [symmetric],
      of "demo_registry []" Path "''path:p/src''" "''agent-a''" "''lease:d''" 20]
    release_owner_bound [OF prod.collapse [symmetric],
      of "demo_registry []" Path "''path:p/src''" "''agent-b''" "''lease:d''" 20]
  by simp

lemma demo_renew:
  "renew (demo_registry []) Path ''path:p/src'' ''agent-a'' ''lease:d'' 100 20 =
     (Ok (demo_lease\<lparr>expires_at_epoch_ms := 120\<rparr>),
      (demo_registry [])\<lparr>leases := binsert (Path, ''path:p/src'') (demo_lease\<lparr>expires_at_epoch_ms := 120\<rparr>) bempty\<rparr>)"
proof -
  have "\<not> contended_hold (demo_registry []) demo_lease ''lease:d'' 20"
    by (simp add: contended_hold_def MAX_CONTENDED_HOLD_MS_def)
  then show ?thesis
    by (simp add: renew_def demo_live Let_def saturating_add_def u64_max_def)
      (simp add: demo_lease_def demo_request_def)
qed

theorem renew_owner_bound_witness:
  "\<exists>l. bget (leases (demo_registry [])) (Path, ''path:p/src'') = Some l
     \<and> owner_agent_id (request l) = ''agent-a'' \<and> lease_ref l = ''lease:d''"
  using renew_owner_bound [OF demo_renew] by blast

theorem release_fence_exact_witness:
  "fst (release_fence (demo_registry []) ''agent-a'' ''request:1'' 20) = Ok 1
   \<and> card {k. \<exists>l. bget (leases (demo_registry [])) k = Some l \<and> is_active_at l 20
          \<and> fence_lease ''agent-a'' ''request:1'' l} = 1"
proof -
  have fl: "fence_lease ''agent-a'' ''request:1'' demo_lease"
    by (simp add: fence_lease_def)
  have "release_fence (demo_registry []) ''agent-a'' ''request:1'' 20 =
    (Ok 1, (demo_registry [])\<lparr>leases := bremove (Path, ''path:p/src'') bempty\<rparr>)"
    by (simp add: release_fence_def demo_live Let_def fl bretain_binsert blen_def)
  from release_fence_exact [OF this] this show ?thesis by simp
qed

text \<open>A lease held for an hour while another agent waits.\<close>

definition demo_contended :: agent_lease_registry where
  "demo_contended = \<lparr>leases = binsert (Path, ''path:p/src'') (demo_lease\<lparr>expires_at_epoch_ms := 3700000\<rparr>) bempty,
     max_leases = 4, fairness = \<lparr>waiters = [demo_waiter\<lparr>seen_epoch_ms := 3600000\<rparr>],
     held_since = binsert ''lease:d'' 10 bempty\<rparr>\<rparr>"

theorem renew_contended_refused_witness:
  "\<exists>message. fst (renew demo_contended Path ''path:p/src'' ''agent-a'' ''lease:d'' 100 3600010)
     = Err (InvalidLease message)"
proof -
  let ?w = "demo_waiter\<lparr>seen_epoch_ms := 3600000\<rparr>" and ?l = "demo_lease\<lparr>expires_at_epoch_ms := 3700000\<rparr>"
  have live: "(3600010::nat) < saturating_add u64_max 3600000 WAITER_TTL_MS"
    by (simp add: saturating_add_def u64_max_def WAITER_TTL_MS_def)
  have "resources_overlap Path ''path:p/src/x'' Path ''path:p/src''" by code_simp
  moreover have "own_since (remove_expired demo_contended 3600010) (demo_request ''agent-a'' ''path:p/src'') = u64_max"
    by (simp add: own_since_def demo_contended_def own_waiter_def demo_waiter_def)
  ultimately have "waits_before (remove_expired demo_contended 3600010) (demo_request ''agent-a'' ''path:p/src'') ?w"
    by (simp add: waits_before_def demo_waiter_def u64_max_def)
  then show ?thesis
    using live renew_contended_refused [of "''path:p/src''" "''agent-a''" 100 demo_contended Path ?l 3600010
        "''lease:d''" 10 ?w]
    by (simp add: demo_contended_def is_active_at_def MAX_CONTENDED_HOLD_MS_def)
qed

definition demo_show :: "lease_file \<Rightarrow> string" where
  "demo_show f = (if file_leases f = [] then ''[]'' else ''[l]'')"

definition demo_parse :: "string \<Rightarrow> lease_file option" where
  "demo_parse s = (if s = ''[]'' then Some \<lparr>file_schema_version = 1, file_leases = []\<rparr>
     else if s = ''[l]'' then Some \<lparr>file_schema_version = 1, file_leases = [demo_lease]\<rparr> else None)"

definition demo_disk :: lease_disk where
  "demo_disk = \<lparr>leases_json = Some ''[l]'', waiters_json = Some ''w''\<rparr>"

lemma demo_disk_loads: "load_registry demo_parse (\<lambda>_. Some (fairness (demo_registry []))) demo_disk = Ok (demo_registry [])"
  by (simp add: load_registry_def demo_disk_def demo_parse_def AGENT_LEASE_SCHEMA_VERSION_def default_registry_def new_registry_def
      DEFAULT_MAX_LEASES_def demo_registry_def)

lemma demo_registry_inv: "lease_inv (demo_registry [])"
  by (auto simp: lease_inv_def keys_ok_def ro.exclusive_def waiters_ok_def blen_binsert split: if_splits)

text \<open>The owner releases its lease, and the file of the waiters cannot be written.\<close>

theorem shared_registry_refines_witness:
  "\<exists>e disk'. with_shared_registry demo_show (\<lambda>_. ''w'') demo_parse (\<lambda>_. Some (fairness (demo_registry [])))
       LeaseWritten (LeaseNotWritten ''full'') (\<lambda>r. release r Path ''path:p/src'' ''agent-a'' ''lease:d'' 20) demo_disk
       = (Err (Store e), disk')
     \<and> (\<exists>r'. load_registry demo_parse (\<lambda>_. Some (fairness (demo_registry []))) disk' = Ok r')"
proof -
  let ?op = "\<lambda>r. release r Path ''path:p/src'' ''agent-a'' ''lease:d'' 20" and ?pf = "\<lambda>_. Some (fairness (demo_registry []))"
  let ?r1 = "demo_registry []\<lparr>leases := bempty\<rparr>"
  obtain res disk' where run: "with_shared_registry demo_show (\<lambda>_. ''w'') demo_parse ?pf LeaseWritten (LeaseNotWritten ''full'') ?op demo_disk
      = (res, disk')" by fastforce
  have "bremove k (binsert k demo_lease bempty) = bempty" for k :: "agent_lease_resource_kind \<times> string" by (intro bmap_ext) auto
  then have rel: "?op (demo_registry []) = (Ok True, ?r1)"
    by (simp add: release_def demo_live Let_def)
  have "lease_step (\<lambda>_ _. ''d'') (demo_registry []) (snd (?op (demo_registry [])))" by (rule step_release)
  then have step: "lease_step (\<lambda>_ _. ''d'') (demo_registry []) ?r1" by (simp add: rel)
  have saved: "lease_file_of ?r1 = \<lparr>file_schema_version = 1, file_leases = []\<rparr>"
    by (simp add: lease_file_of_def bvalues_def AGENT_LEASE_SCHEMA_VERSION_def)
  have "\<forall>n < length ''[]''. demo_parse (take n ''[]'') = None"
    by (auto simp: demo_parse_def less_Suc_eq)
  then have "\<forall>x r1. ?op (demo_registry []) = (Ok x, r1) \<longrightarrow> lease_step (\<lambda>_ _. ''d'') (demo_registry []) r1
      \<and> demo_parse (demo_show (lease_file_of r1)) = Some (lease_file_of r1)
      \<and> ?pf ''w'' = Some (fairness r1)
      \<and> (\<forall>n < length (demo_show (lease_file_of r1)). demo_parse (take n (demo_show (lease_file_of r1))) = None)"
    unfolding rel using step saved by (auto simp: demo_show_def demo_parse_def)
  from shared_registry_refines [OF run demo_disk_loads demo_registry_inv this] run show ?thesis
    by (auto simp: rel)
qed

theorem project_path_resource_overlap_witness:
  "resources_overlap Path ''project-path:ab/src/a%20b'' Path ''project-path:ab/src''
   \<longleftrightarrow> ''ab'' = ''ab'' \<and> path_claims_overlap (normalize_relative id ''src/a b'') (normalize_relative id ''src'')"
proof (rule project_path_resource_overlap)
  show "project_path_resource id (\<lambda>_ _. []) ''ab'' ''src/a b'' = Ok ''project-path:ab/src/a%20b''" by code_simp
  show "project_path_resource id (\<lambda>_ _. []) ''ab'' ''src'' = Ok ''project-path:ab/src''" by code_simp
qed (simp_all add: PROJECT_PATH_SCHEME_def starts_with_def)

end
