(* ===== verification/Circuit_Breaker.thy ===== *)
theory Circuit_Breaker
  imports Prelude
begin

text \<open>
  The circuit breaker of \<open>lean-ctx-protocol/src/circuit_breaker.rs\<close>: one circuit per task
  class and provider, opened by repeated failures, probed after a recovery timeout and
  closed by successful probes. Instants and durations are naturals of one clock; the
  \<open>HashMap\<close> of circuits is a map. The variants that read the clock call the \<open>_at\<close> variants
  with the current instant, so that instant is an argument here.
\<close>

section \<open>Data\<close>

record circuit_breaker_config =
  failure_threshold :: nat
  recovery_timeout :: nat
  half_open_requests :: nat

definition default_config :: circuit_breaker_config where
  "default_config = \<lparr>failure_threshold = 3, recovery_timeout = 30 * 10 ^ 9, half_open_requests = 1\<rparr>"

definition validate_config :: "circuit_breaker_config \<Rightarrow> string + unit" where
  "validate_config c =
     (if failure_threshold c = 0 then Err ''failure_threshold must be greater than zero''
      else if recovery_timeout c = 0 then Err ''recovery_timeout must be greater than zero''
      else if half_open_requests c = 0 then Err ''half_open_requests must be greater than zero''
      else Ok ())"

datatype circuit_breaker_state = Closed | Open | HalfOpen

record circuit_breaker_decision =
  allowed :: bool
  selected_model :: string
  selected_provider :: string
  used_fallback :: bool

record circuit_entry =
  circuit_state :: circuit_breaker_state
  failures :: nat
  half_open_in_flight :: nat
  half_open_successes :: nat
  opened_at :: "nat option"

definition default_entry :: circuit_entry where
  "default_entry = \<lparr>circuit_state = Closed, failures = 0, half_open_in_flight = 0,
     half_open_successes = 0, opened_at = None\<rparr>"

type_synonym circuit_key = "string \<times> string"

record circuit_breaker =
  config :: circuit_breaker_config
  circuits :: "circuit_key \<rightharpoonup> circuit_entry"

section \<open>Operations on one circuit\<close>

definition reserve_half_open_request :: "circuit_entry \<Rightarrow> nat \<Rightarrow> bool \<times> circuit_entry" where
  "reserve_half_open_request e limit =
     (if half_open_in_flight e < limit
      then (True, e\<lparr>half_open_in_flight := half_open_in_flight e + 1\<rparr>) else (False, e))"

definition open_circuit :: "circuit_entry \<Rightarrow> nat \<Rightarrow> circuit_entry" where
  "open_circuit e now = e\<lparr>circuit_state := Open, failures := 0, half_open_in_flight := 0,
     half_open_successes := 0, opened_at := Some now\<rparr>"

definition close_circuit :: "circuit_entry \<Rightarrow> circuit_entry" where
  "close_circuit e = e\<lparr>circuit_state := Closed, failures := 0, half_open_in_flight := 0,
     half_open_successes := 0, opened_at := None\<rparr>"

definition allow_entry :: "circuit_breaker_config \<Rightarrow> circuit_entry \<Rightarrow> nat \<Rightarrow> bool \<times> circuit_entry" where
  "allow_entry c e now =
     (case circuit_state e of
        Closed \<Rightarrow> (True, e)
      | Open \<Rightarrow>
          if (case opened_at e of None \<Rightarrow> False
              | Some t \<Rightarrow> t \<le> now \<and> recovery_timeout c \<le> now - t)
          then reserve_half_open_request (e\<lparr>circuit_state := HalfOpen, half_open_in_flight := 0,
                 half_open_successes := 0, opened_at := None\<rparr>) (half_open_requests c)
          else (False, e)
      | HalfOpen \<Rightarrow> reserve_half_open_request e (half_open_requests c))"

definition success_entry :: "circuit_breaker_config \<Rightarrow> circuit_entry \<Rightarrow> circuit_entry" where
  "success_entry c e =
     (case circuit_state e of
        Closed \<Rightarrow> e\<lparr>failures := 0\<rparr>
      | Open \<Rightarrow> e
      | HalfOpen \<Rightarrow>
          let e1 = e\<lparr>half_open_in_flight := saturating_sub (half_open_in_flight e) 1,
                     half_open_successes := saturating_add u32_max (half_open_successes e) 1\<rparr>
          in if half_open_requests c \<le> half_open_successes e1 then close_circuit e1 else e1)"

definition failure_entry :: "circuit_breaker_config \<Rightarrow> circuit_entry \<Rightarrow> nat \<Rightarrow> circuit_entry" where
  "failure_entry c e now =
     (case circuit_state e of
        Closed \<Rightarrow>
          let e1 = e\<lparr>failures := saturating_add u32_max (failures e) 1\<rparr>
          in if failure_threshold c \<le> failures e1 then open_circuit e1 now else e1
      | Open \<Rightarrow> e
      | HalfOpen \<Rightarrow> open_circuit e now)"

section \<open>The breaker\<close>

definition new_breaker :: "circuit_breaker_config \<Rightarrow> circuit_breaker" where
  "new_breaker c = \<lparr>config = c, circuits = Map.empty\<rparr>"

definition try_new :: "circuit_breaker_config \<Rightarrow> string + circuit_breaker" where
  "try_new c = ebind (validate_config c) (\<lambda>_. Ok (new_breaker c))"

text \<open>\<open>entries.entry(key).or_default()\<close>: the circuit of a pair, closed when it is new.\<close>

definition entry_of :: "circuit_breaker \<Rightarrow> circuit_key \<Rightarrow> circuit_entry" where
  "entry_of b k = (case circuits b k of None \<Rightarrow> default_entry | Some e \<Rightarrow> e)"

definition state_of :: "circuit_breaker \<Rightarrow> circuit_key \<Rightarrow> circuit_breaker_state" where
  "state_of b k = (case circuits b k of None \<Rightarrow> Closed | Some e \<Rightarrow> circuit_state e)"

definition failure_count :: "circuit_breaker \<Rightarrow> circuit_key \<Rightarrow> nat" where
  "failure_count b k = (case circuits b k of None \<Rightarrow> 0 | Some e \<Rightarrow> failures e)"

definition set_entry :: "circuit_breaker \<Rightarrow> circuit_key \<Rightarrow> circuit_entry \<Rightarrow> circuit_breaker" where
  "set_entry b k e = b\<lparr>circuits := (circuits b)(k \<mapsto> e)\<rparr>"

definition allow_request_at :: "circuit_breaker \<Rightarrow> circuit_key \<Rightarrow> nat \<Rightarrow> bool \<times> circuit_breaker" where
  "allow_request_at b k now =
     (case allow_entry (config b) (entry_of b k) now of (ok, e) \<Rightarrow> (ok, set_entry b k e))"

definition record_success_at :: "circuit_breaker \<Rightarrow> circuit_key \<Rightarrow> nat \<Rightarrow> circuit_breaker" where
  "record_success_at b k now = set_entry b k (success_entry (config b) (entry_of b k))"

definition record_failure_at :: "circuit_breaker \<Rightarrow> circuit_key \<Rightarrow> nat \<Rightarrow> circuit_breaker" where
  "record_failure_at b k now = set_entry b k (failure_entry (config b) (entry_of b k) now)"

definition record_quality_regression_at ::
  "circuit_breaker \<Rightarrow> circuit_key \<Rightarrow> nat \<Rightarrow> circuit_breaker" where
  "record_quality_regression_at b k now = record_failure_at b k now"

definition record_quality_outcome ::
  "circuit_breaker \<Rightarrow> circuit_key \<Rightarrow> bool \<Rightarrow> nat \<Rightarrow> circuit_breaker" where
  "record_quality_outcome b k regressed now =
     (if regressed then record_quality_regression_at b k now else record_success_at b k now)"

definition reset :: "circuit_breaker \<Rightarrow> circuit_key \<Rightarrow> circuit_breaker" where
  "reset b k = b\<lparr>circuits := (circuits b)(k := None)\<rparr>"

definition route_at ::
  "circuit_breaker \<Rightarrow> string \<Rightarrow> string \<Rightarrow> string \<Rightarrow> string \<Rightarrow> string \<Rightarrow> nat
   \<Rightarrow> circuit_breaker_decision \<times> circuit_breaker" where
  "route_at b task_class candidate_provider candidate_model baseline_provider baseline_model now =
     (case allow_request_at b (task_class, candidate_provider) now of
        (True, b1) \<Rightarrow> (\<lparr>allowed = True, selected_model = candidate_model,
                         selected_provider = candidate_provider, used_fallback = False\<rparr>, b1)
      | (False, b1) \<Rightarrow> (\<lparr>allowed = True, selected_model = baseline_model,
                          selected_provider = baseline_provider, used_fallback = True\<rparr>, b1))"

section \<open>The invariant of a circuit\<close>

definition entry_ok :: "circuit_breaker_config \<Rightarrow> circuit_entry \<Rightarrow> bool" where
  "entry_ok c e \<longleftrightarrow>
     (case circuit_state e of
        Closed \<Rightarrow> failures e < failure_threshold c \<and> half_open_in_flight e = 0
                  \<and> half_open_successes e = 0 \<and> opened_at e = None
      | Open \<Rightarrow> failures e = 0 \<and> half_open_in_flight e = 0 \<and> half_open_successes e = 0
                \<and> opened_at e \<noteq> None
      | HalfOpen \<Rightarrow> failures e = 0 \<and> half_open_in_flight e \<le> half_open_requests c
                \<and> half_open_successes e < half_open_requests c \<and> opened_at e = None)"

text \<open>The configuration a constructor accepts, with the width of its fields.\<close>

definition config_ok :: "circuit_breaker_config \<Rightarrow> bool" where
  "config_ok c \<longleftrightarrow> validate_config c = Ok () \<and> failure_threshold c \<le> u32_max
     \<and> half_open_requests c \<le> u32_max"

lemma config_okD:
  "config_ok c \<Longrightarrow> 0 < failure_threshold c \<and> 0 < recovery_timeout c \<and> 0 < half_open_requests c
     \<and> failure_threshold c \<le> u32_max \<and> half_open_requests c \<le> u32_max"
  by (auto simp: config_ok_def validate_config_def split: if_splits)

definition breaker_inv :: "circuit_breaker \<Rightarrow> bool" where
  "breaker_inv b \<longleftrightarrow> config_ok (config b) \<and> (\<forall>k e. circuits b k = Some e \<longrightarrow> entry_ok (config b) e)"

lemma default_entry_ok: "config_ok c \<Longrightarrow> entry_ok c default_entry"
  using config_okD [of c] by (simp add: default_entry_def entry_ok_def)

lemma entry_of_ok: "breaker_inv b \<Longrightarrow> entry_ok (config b) (entry_of b k)"
  using default_entry_ok [of "config b"]
  by (auto simp: breaker_inv_def entry_of_def simp del: split_paired_All split: option.splits)

lemma allow_entry_ok: "config_ok c \<Longrightarrow> entry_ok c e \<Longrightarrow> entry_ok c (snd (allow_entry c e now))"
  using config_okD [of c]
  by (cases "circuit_state e") (auto simp: entry_ok_def allow_entry_def reserve_half_open_request_def)

lemma success_entry_ok: "config_ok c \<Longrightarrow> entry_ok c e \<Longrightarrow> entry_ok c (success_entry c e)"
  using config_okD [of c]
  by (cases "circuit_state e") (auto simp: entry_ok_def success_entry_def close_circuit_def Let_def)

lemma failure_entry_ok: "config_ok c \<Longrightarrow> entry_ok c e \<Longrightarrow> entry_ok c (failure_entry c e now)"
  using config_okD [of c]
  by (cases "circuit_state e") (auto simp: entry_ok_def failure_entry_def open_circuit_def Let_def)

lemma set_entry_simps [simp]:
  "config (set_entry b k e) = config b"
  "circuits (set_entry b k e) k' = (if k' = k then Some e else circuits b k')"
  "entry_of (set_entry b k e) k' = (if k' = k then e else entry_of b k')"
  by (simp_all add: set_entry_def entry_of_def)

lemma set_entry_inv: "breaker_inv b \<Longrightarrow> entry_ok (config b) e \<Longrightarrow> breaker_inv (set_entry b k e)"
  by (auto simp: breaker_inv_def split: if_splits)

section \<open>The breaker as a machine\<close>

inductive breaker_step :: "circuit_breaker \<Rightarrow> circuit_breaker \<Rightarrow> bool" where
  step_allow: "breaker_step b (snd (allow_request_at b k now))"
| step_success: "breaker_step b (record_success_at b k now)"
| step_failure: "breaker_step b (record_failure_at b k now)"
| step_outcome: "breaker_step b (record_quality_outcome b k regressed now)"
| step_reset: "breaker_step b (reset b k)"
| step_route: "breaker_step b (snd (route_at b tc cp cm bp bm now))"

definition breaker_init :: "circuit_breaker \<Rightarrow> bool" where
  "breaker_init b \<longleftrightarrow> (\<exists>c. try_new c = Ok b \<and> failure_threshold c \<le> u32_max
     \<and> half_open_requests c \<le> u32_max)"

lemma breaker_init_inv: "breaker_init b \<Longrightarrow> breaker_inv b"
  by (auto simp: breaker_init_def try_new_def new_breaker_def breaker_inv_def config_ok_def
      result_simps)

lemma allow_inv: "breaker_inv b \<Longrightarrow> breaker_inv (snd (allow_request_at b k now))"
  using allow_entry_ok [OF _ entry_of_ok, of b k now]
  by (auto simp: allow_request_at_def breaker_inv_def split: prod.splits
      intro!: set_entry_inv)

lemma success_inv: "breaker_inv b \<Longrightarrow> breaker_inv (record_success_at b k now)"
  unfolding record_success_at_def
  by (intro set_entry_inv success_entry_ok entry_of_ok) (auto simp: breaker_inv_def)

lemma failure_inv: "breaker_inv b \<Longrightarrow> breaker_inv (record_failure_at b k now)"
  unfolding record_failure_at_def
  by (intro set_entry_inv failure_entry_ok entry_of_ok) (auto simp: breaker_inv_def)

lemma reset_inv: "breaker_inv b \<Longrightarrow> breaker_inv (reset b k)"
  by (auto simp: breaker_inv_def reset_def)

lemma route_snd: "snd (route_at b tc cp cm bp bm now) = snd (allow_request_at b (tc, cp) now)"
  by (auto simp: route_at_def split: prod.splits bool.splits)

lemma breaker_step_inv: "breaker_step b b' \<Longrightarrow> breaker_inv b \<Longrightarrow> breaker_inv b'"
  by (induction rule: breaker_step.induct)
    (simp_all add: allow_inv success_inv failure_inv reset_inv route_snd record_quality_outcome_def
      record_quality_regression_at_def)

interpretation cb: invariant_machine breaker_init breaker_step breaker_inv
  by unfold_locales (auto intro: breaker_init_inv breaker_step_inv)

end
