(* ===== verification/Breaker_Laws.thy ===== *)
theory Breaker_Laws
  imports Circuit_Breaker
begin

text \<open>
  What the circuit breaker guarantees: circuits open after the configured number of
  consecutive failures, stay closed to traffic until the recovery timeout, admit a bounded
  number of probes, recover or reopen by the outcomes of the probes, and never influence the
  circuit of another pair.
\<close>

text \<open>
  In every state the breaker can reach, a closed circuit has fewer failures than the
  threshold, an open one knows when it opened, and a half-open one has at most the configured
  number of probes in flight and fewer successes than would close it.
\<close>

theorem breaker_reachable_ok:
  assumes "reaches breaker_init breaker_step b" "circuits b k = Some e"
  shows "(circuit_state e = Closed \<longrightarrow> failures e < failure_threshold (config b))
    \<and> (circuit_state e = Open \<longrightarrow> opened_at e \<noteq> None)
    \<and> (circuit_state e = HalfOpen \<longrightarrow> half_open_in_flight e \<le> half_open_requests (config b)
         \<and> half_open_successes e < half_open_requests (config b))"
  using cb.reachable_inv [OF assms(1)] assms(2)
  by (auto simp: breaker_inv_def entry_ok_def split: circuit_breaker_state.splits
      simp del: split_paired_All)

section \<open>Opening\<close>

lemma failure_entry_closed:
  assumes "circuit_state e = Closed" "failures e < failure_threshold c" "failure_threshold c \<le> u32_max"
  shows "failure_entry c e t =
    (if Suc (failures e) = failure_threshold c then open_circuit (e\<lparr>failures := Suc (failures e)\<rparr>) t
     else e\<lparr>failures := Suc (failures e)\<rparr>)"
  using assms by (auto simp: failure_entry_def saturating_add_exact Let_def)

lemma open_absorbs_failures:
  "circuit_state e = Open \<Longrightarrow> fold (\<lambda>t e. failure_entry c e t) ts e = e"
  by (induction ts) (simp_all add: failure_entry_def)

lemma failures_entry:
  assumes "circuit_state e = Closed" "failures e < failure_threshold c" "failure_threshold c \<le> u32_max"
  shows "let e' = fold (\<lambda>t e. failure_entry c e t) ts e
    in if failures e + length ts < failure_threshold c
       then circuit_state e' = Closed \<and> failures e' = failures e + length ts
       else circuit_state e' = Open \<and> opened_at e' = Some (ts ! (failure_threshold c - failures e - 1))"
  using assms
proof (induction ts arbitrary: e)
  case (Cons t ts)
  show ?case
  proof (cases "Suc (failures e) = failure_threshold c")
    case True
    then have "failure_threshold c - failures e - 1 = 0" by simp
    with True Cons.prems show ?thesis
      by (simp add: failure_entry_closed open_absorbs_failures open_circuit_def)
  next
    case False
    let ?e = "e\<lparr>failures := Suc (failures e)\<rparr>"
    have "failure_threshold c - failures e - 1 = Suc (failure_threshold c - failures ?e - 1)"
      using False Cons.prems by simp
    then show ?thesis
      using False Cons.prems Cons.IH [of ?e] by (simp add: failure_entry_closed Let_def)
  qed
qed simp

lemma fold_record_failure:
  "fold (\<lambda>t b. record_failure_at b k t) ts b =
     (if ts = [] then b
      else set_entry b k (fold (\<lambda>t e. failure_entry (config b) e t) ts (entry_of b k)))"
proof (induction ts arbitrary: b)
  case (Cons t ts)
  have "set_entry (set_entry b k e) k e' = set_entry b k e'" for e e' by (simp add: set_entry_def)
  then show ?case by (simp add: Cons.IH) (simp add: record_failure_at_def)
qed simp

lemma state_of_entry_of: "state_of b k = circuit_state (entry_of b k)"
  "failure_count b k = failures (entry_of b k)"
  by (simp_all add: state_of_def failure_count_def entry_of_def default_entry_def split: option.splits)

text \<open>
  A circuit opens exactly at the configured number of consecutive failures: below the
  threshold it stays closed and counts them, at the threshold it opens at the instant of that
  failure, and later failures do not move that instant.
\<close>

theorem breaker_opens_at_threshold:
  assumes "breaker_inv b" "state_of b k = Closed" "failure_count b k = 0" "ts \<noteq> []"
  shows "let b' = fold (\<lambda>t b. record_failure_at b k t) ts b
    in if length ts < failure_threshold (config b)
       then state_of b' k = Closed \<and> failure_count b' k = length ts
       else state_of b' k = Open
            \<and> opened_at (entry_of b' k) = Some (ts ! (failure_threshold (config b) - 1))"
  using failures_entry [of "entry_of b k" "config b" ts] assms config_okD [of "config b"]
  by (simp add: fold_record_failure state_of_entry_of breaker_inv_def Let_def)

theorem breaker_opens_at_threshold_witness:
  "state_of (fold (\<lambda>t b. record_failure_at b (''task'', ''p'') t) [5, 6, 7] (new_breaker default_config))
     (''task'', ''p'') = Open"
  using breaker_opens_at_threshold [of "new_breaker default_config" "(''task'', ''p'')" "[5, 6, 7]"]
  by (simp add: breaker_inv_def config_ok_def validate_config_def new_breaker_def default_config_def
      state_of_def failure_count_def u32_max_def Let_def)

section \<open>Recovery\<close>

datatype circuit_event = Allow nat | Success | Failure nat

text \<open>One event on a circuit, with the answer to a request.\<close>

fun event_entry :: "circuit_breaker_config \<Rightarrow> circuit_entry \<Rightarrow> circuit_event \<Rightarrow> bool \<times> circuit_entry" where
  "event_entry c e (Allow now) = allow_entry c e now"
| "event_entry c e Success = (False, success_entry c e)"
| "event_entry c e (Failure now) = (False, failure_entry c e now)"

fun run_events :: "circuit_breaker_config \<Rightarrow> circuit_entry \<Rightarrow> circuit_event list \<Rightarrow> nat \<times> circuit_entry" where
  "run_events c e [] = (0, e)"
| "run_events c e (ev # evs) =
     (case event_entry c e ev of (ok, e1) \<Rightarrow>
      case run_events c e1 evs of (n, e2) \<Rightarrow> ((if ok then 1 else 0) + n, e2))"

definition before :: "nat \<Rightarrow> circuit_event \<Rightarrow> bool" where
  "before deadline ev \<longleftrightarrow> (case ev of Allow now \<Rightarrow> now < deadline | _ \<Rightarrow> True)"

text \<open>
  An open circuit admits no request before its recovery timeout has passed, whatever
  outcomes are reported meanwhile, and admits the first request after it as a probe.
\<close>

theorem open_circuit_denies:
  assumes "config_ok c" "circuit_state e = Open" "opened_at e = Some t"
    and "list_all (before (t + recovery_timeout c)) evs" "t + recovery_timeout c \<le> now"
  shows "run_events c e evs = (0, e) \<and> fst (allow_entry c e now)
    \<and> circuit_state (snd (allow_entry c e now)) = HalfOpen
    \<and> half_open_in_flight (snd (allow_entry c e now)) = 1"
proof -
  have "run_events c e evs = (0, e)"
    using assms(4)
  proof (induction evs)
    case (Cons ev evs)
    then have "event_entry c e ev = (False, e)" using assms(2,3)
      by (cases ev) (auto simp: before_def allow_entry_def success_entry_def failure_entry_def)
    with Cons show ?case by simp
  qed simp
  then show ?thesis using assms config_okD [OF assms(1)]
    by (auto simp: allow_entry_def reserve_half_open_request_def)
qed

theorem open_circuit_denies_witness:
  "run_events default_config (open_circuit default_entry 7) [Allow 9, Success, Failure 10]
     = (0, open_circuit default_entry 7)"
  using open_circuit_denies [of default_config "open_circuit default_entry 7" 7
      "[Allow 9, Success, Failure 10]" "7 + recovery_timeout default_config"]
  by (simp add: config_ok_def validate_config_def default_config_def u32_max_def open_circuit_def before_def)

text \<open>The requests admitted while the circuit stays half-open.\<close>

fun probes :: "circuit_breaker_config \<Rightarrow> circuit_entry \<Rightarrow> circuit_event list \<Rightarrow> nat" where
  "probes c e [] = 0"
| "probes c e (ev # evs) =
     (if circuit_state e \<noteq> HalfOpen then 0
      else case event_entry c e ev of (ok, e1) \<Rightarrow> (if ok then 1 else 0) + probes c e1 evs)"

text \<open>
  The probes of one half-open phase are bounded: from a half-open circuit no sequence of
  requests and outcomes admits more than the free probe slots plus one per success that does
  not yet close the circuit, so fewer than twice the configured number in all.
\<close>

theorem half_open_probes_bounded:
  assumes "config_ok c" "entry_ok c e" "circuit_state e = HalfOpen"
  shows "probes c e evs \<le> (half_open_requests c - half_open_in_flight e)
    + (half_open_requests c - 1 - half_open_successes e)"
  using assms(2,3)
proof (induction evs arbitrary: e)
  case (Cons ev evs)
  let ?e = "snd (event_entry c e ev)"
  have ok: "entry_ok c ?e"
    using allow_entry_ok success_entry_ok failure_entry_ok assms(1) Cons.prems(1) by (cases ev) simp_all
  have "probes c ?e evs \<le> (if circuit_state ?e = HalfOpen then
      (half_open_requests c - half_open_in_flight ?e) + (half_open_requests c - 1 - half_open_successes ?e) else 0)"
    using Cons.IH [OF ok] by (cases evs) auto
  then show ?case
    using Cons.prems config_okD [OF assms(1)]
    by (cases ev) (auto simp: allow_entry_def reserve_half_open_request_def success_entry_def
        failure_entry_def close_circuit_def open_circuit_def entry_ok_def Let_def saturating_add_exact
        split: if_splits)
qed simp

theorem half_open_probes_bounded_witness:
  "probes default_config (default_entry\<lparr>circuit_state := HalfOpen\<rparr>) [Allow 1, Allow 2, Allow 3] \<le> 1"
  using half_open_probes_bounded [of default_config "default_entry\<lparr>circuit_state := HalfOpen\<rparr>"
      "[Allow 1, Allow 2, Allow 3]"]
  by (simp add: config_ok_def validate_config_def default_config_def u32_max_def default_entry_def entry_ok_def)

lemma success_half_open:
  assumes "circuit_state e = HalfOpen" "half_open_successes e < half_open_requests c"
    "half_open_requests c \<le> u32_max"
  shows "circuit_state (success_entry c e) =
      (if Suc (half_open_successes e) = half_open_requests c then Closed else HalfOpen)
    \<and> (Suc (half_open_successes e) = half_open_requests c \<longrightarrow> success_entry c e = close_circuit e)
    \<and> (Suc (half_open_successes e) \<noteq> half_open_requests c \<longrightarrow>
        half_open_successes (success_entry c e) = Suc (half_open_successes e))"
  using assms by (auto simp: success_entry_def Let_def saturating_add_exact close_circuit_def)

text \<open>
  The probes decide: a half-open circuit closes, with a clean count, exactly when the
  configured number of successes has been reported, and any failure before that opens it again
  at the instant of the failure.
\<close>

theorem half_open_decides:
  assumes "config_ok c" "entry_ok c e" "circuit_state e = HalfOpen"
    and "n \<le> half_open_requests c - half_open_successes e"
  shows "let e' = ((success_entry c) ^^ n) e
    in (if n = half_open_requests c - half_open_successes e
        then circuit_state e' = Closed \<and> failures e' = 0
        else circuit_state e' = HalfOpen
             \<and> (\<forall>now. circuit_state (failure_entry c e' now) = Open
                      \<and> opened_at (failure_entry c e' now) = Some now))"
proof -
  have e: "half_open_successes e < half_open_requests c" "half_open_requests c \<le> u32_max"
    using assms(2,3) config_okD [OF assms(1)] by (simp_all add: entry_ok_def)
  have run: "m < half_open_requests c - half_open_successes e \<Longrightarrow>
      circuit_state (((success_entry c) ^^ m) e) = HalfOpen
      \<and> half_open_successes (((success_entry c) ^^ m) e) = half_open_successes e + m" for m
  proof (induction m)
    case (Suc m)
    then show ?case
      using success_half_open [of "((success_entry c) ^^ m) e" c] e by auto
  qed (use assms(3) in simp)
  show ?thesis
  proof (cases "n = half_open_requests c - half_open_successes e")
    case True
    with e obtain m where "n = Suc m" using gr0_implies_Suc [of n] by auto
    with True have m: "n = Suc m" "m < half_open_requests c - half_open_successes e" by simp_all
    have "Suc (half_open_successes e + m) = half_open_requests c" using m(1) True e by simp
    then have "((success_entry c) ^^ n) e = close_circuit (((success_entry c) ^^ m) e)"
      using run [OF m(2)] success_half_open [of "((success_entry c) ^^ m) e" c] e m(1) by simp
    with True show ?thesis by (simp add: close_circuit_def)
  next
    case False
    with assms(4) have "n < half_open_requests c - half_open_successes e" by simp
    from run [OF this] False show ?thesis
      by (simp add: failure_entry_def open_circuit_def)
  qed
qed

theorem half_open_decides_witness:
  "circuit_state (success_entry default_config (default_entry\<lparr>circuit_state := HalfOpen\<rparr>)) = Closed"
  using half_open_decides [of default_config "default_entry\<lparr>circuit_state := HalfOpen\<rparr>" 1]
  by (simp add: config_ok_def validate_config_def default_config_def u32_max_def default_entry_def
      entry_ok_def Let_def)

section \<open>Isolation and routing\<close>

text \<open>
  Circuits are isolated: no operation on one task class and provider changes the circuit
  of another pair or the configuration.
\<close>

theorem circuits_isolated:
  assumes "k' \<noteq> k"
  shows "circuits (snd (allow_request_at b k now)) k' = circuits b k'
    \<and> circuits (record_success_at b k now) k' = circuits b k'
    \<and> circuits (record_failure_at b k now) k' = circuits b k'
    \<and> circuits (record_quality_outcome b k regressed now) k' = circuits b k'
    \<and> circuits (reset b k) k' = circuits b k'"
  using assms
  by (auto simp: allow_request_at_def record_success_at_def record_failure_at_def
      record_quality_outcome_def record_quality_regression_at_def reset_def split: prod.splits)

theorem circuits_isolated_witness:
  "circuits (record_failure_at (new_breaker default_config) (''t'', ''a'') 1) (''t'', ''b'') = None"
  using circuits_isolated [of "(''t'', ''b'')" "(''t'', ''a'')" "new_breaker default_config" 1]
  by (simp add: new_breaker_def)

text \<open>
  Routing never blocks a caller: every decision is allowed; it names the candidate when the
  circuit of the candidate admits the request and the baseline otherwise, and it falls back while
  the circuit is open and its recovery timeout has not passed.
\<close>

theorem route_decides:
  "let d = fst (route_at b tc cp cm bp bm now); ok = fst (allow_request_at b (tc, cp) now)
   in allowed d \<and> used_fallback d = (\<not> ok)
      \<and> (selected_provider d, selected_model d) = (if ok then (cp, cm) else (bp, bm))
      \<and> (\<forall>t. state_of b (tc, cp) = Open \<longrightarrow> opened_at (entry_of b (tc, cp)) = Some t \<longrightarrow>
            now < t + recovery_timeout (config b) \<longrightarrow> used_fallback d)"
  by (auto simp: route_at_def allow_request_at_def allow_entry_def state_of_entry_of Let_def
      split: prod.splits bool.splits)

theorem route_decides_witness:
  "used_fallback (fst (route_at (set_entry (new_breaker default_config) (''t'', ''c'')
      (open_circuit default_entry 7)) ''t'' ''c'' ''m1'' ''b'' ''m2'' 9))"
proof -
  let ?b = "set_entry (new_breaker default_config) (''t'', ''c'') (open_circuit default_entry 7)"
  have "state_of ?b (''t'', ''c'') = Open" "opened_at (entry_of ?b (''t'', ''c'')) = Some 7"
    "9 < 7 + recovery_timeout (config ?b)"
    by (simp_all add: state_of_entry_of open_circuit_def new_breaker_def default_config_def)
  then show ?thesis
    using route_decides [of ?b "''t''" "''c''" "''m1''" "''b''" "''m2''" 9] unfolding Let_def by blast
qed

theorem breaker_reachable_ok_witness:
  "reaches breaker_init breaker_step (record_failure_at (new_breaker default_config) (''t'', ''a'') 1)
   \<and> failures (entry_of (record_failure_at (new_breaker default_config) (''t'', ''a'') 1) (''t'', ''a'')) < 3"
proof -
  let ?b = "record_failure_at (new_breaker default_config) (''t'', ''a'') 1"
  have "breaker_init (new_breaker default_config)"
    unfolding breaker_init_def
    by (rule exI [of _ default_config])
      (simp add: try_new_def validate_config_def default_config_def u32_max_def)
  then have r: "reaches breaker_init breaker_step ?b"
    by (auto intro: reaches_step reaches_init step_failure)
  moreover have e: "circuits ?b (''t'', ''a'') = Some (default_entry\<lparr>failures := 1\<rparr>)"
    by (simp add: record_failure_at_def failure_entry_def entry_of_def new_breaker_def
        default_entry_def default_config_def saturating_add_def u32_max_def Let_def)
  ultimately show ?thesis
    using breaker_reachable_ok [OF r e]
    by (simp add: entry_of_def default_entry_def record_failure_at_def new_breaker_def default_config_def)
qed

end
