(* ===== verification/Workflow.thy ===== *)
theory Workflow
  imports Prelude
begin

text \<open>
  The workflow rail (\<open>core/workflow\<close>): the specification of a state machine with
  evidence-gated transitions (\<open>types.rs\<close>, \<open>engine.rs\<close>) and the gate every tool call passes
  while a run is active (\<open>gate.rs\<close>, with the stale rule and the withheld stand-in of
  \<open>store.rs\<close>). Instants are integers in nanoseconds; the clock is an argument.
\<close>

section \<open>Data\<close>

record state_spec =
  state_name :: string
  state_description :: "string option"
  allowed_tools :: "string list option"
  requires_evidence :: "string list option"

record transition_spec =
  trans_from :: string
  trans_to :: string
  trans_description :: "string option"

record workflow_spec =
  wf_name :: string
  wf_description :: "string option"
  initial :: string
  states :: "state_spec list"
  wf_transitions :: "transition_spec list"

record transition_record =
  rec_from :: string
  rec_to :: string
  rec_note :: "string option"
  rec_timestamp :: int

record evidence_item =
  evidence_key :: string
  evidence_value :: "string option"
  evidence_timestamp :: int

record workflow_run =
  spec :: workflow_spec
  current :: string
  started_at :: int
  updated_at :: int
  run_transitions :: "transition_record list"
  evidence :: "evidence_item list"

definition find_state :: "workflow_spec \<Rightarrow> string \<Rightarrow> state_spec option" where
  "find_state w name = find (\<lambda>s. state_name s = name) (states w)"

definition builtin_plan_code_test :: workflow_spec where
  "builtin_plan_code_test = \<lparr>wf_name = ''plan_code_test'',
     wf_description = Some (''Minimal workflow with evidence-gated transitions (planning''
       @ [CHR 0xE2, CHR 0x86, CHR 0x92] @ ''coding'' @ [CHR 0xE2, CHR 0x86, CHR 0x92] @ ''testing''
       @ [CHR 0xE2, CHR 0x86, CHR 0x92] @ ''done).''),
     initial = ''planning'',
     states =
       [\<lparr>state_name = ''planning'', state_description = Some ''Define approach + acceptance criteria.'',
         allowed_tools = Some [''ctx'', ''ctx_workflow'', ''ctx_overview'', ''ctx_search'', ''ctx_graph'',
           ''ctx_intent'', ''ctx_semantic_search'', ''ctx_tree'', ''ctx_read'', ''ctx_multi_read'',
           ''ctx_session'', ''ctx_knowledge'', ''ctx_agent'', ''ctx_share'', ''ctx_handoff'',
           ''ctx_feedback'', ''ctx_task''],
         requires_evidence = None\<rparr>,
        \<lparr>state_name = ''coding'', state_description = Some ''Implement changes.'',
         allowed_tools = Some [''ctx'', ''ctx_workflow'', ''ctx_read'', ''ctx_multi_read'', ''ctx_search'',
           ''ctx_tree'', ''ctx_edit'', ''ctx_delta'', ''ctx_graph'', ''ctx_outline'', ''ctx_symbol'',
           ''ctx_handoff'', ''ctx_feedback''],
         requires_evidence = Some [''tool:ctx_read'']\<rparr>,
        \<lparr>state_name = ''testing'', state_description = Some ''Run tests and verify behavior.'',
         allowed_tools = Some [''ctx'', ''ctx_workflow'', ''ctx_shell'', ''ctx_refactor'', ''ctx_metrics'',
           ''ctx_cost'', ''ctx_heatmap'', ''ctx_handoff'', ''ctx_feedback''],
         requires_evidence = Some [''tool:ctx_shell'']\<rparr>,
        \<lparr>state_name = ''done'', state_description = Some ''Complete.'',
         allowed_tools = Some [''ctx'', ''ctx_workflow''],
         requires_evidence = Some [''tool:ctx_shell'']\<rparr>],
     wf_transitions =
       [\<lparr>trans_from = ''planning'', trans_to = ''coding'',
         trans_description = Some ''Plan ready; start coding.''\<rparr>,
        \<lparr>trans_from = ''coding'', trans_to = ''testing'',
         trans_description = Some ''Implementation complete; run tests.''\<rparr>,
        \<lparr>trans_from = ''testing'', trans_to = ''done'',
         trans_description = Some ''Tests passed; wrap up.''\<rparr>]\<rparr>"

definition new_run :: "workflow_spec \<Rightarrow> int \<Rightarrow> workflow_run" where
  "new_run w now = \<lparr>spec = w, current = initial w, started_at = now, updated_at = now,
     run_transitions = [], evidence = []\<rparr>"

definition add_manual_evidence ::
  "workflow_run \<Rightarrow> string \<Rightarrow> string option \<Rightarrow> int \<Rightarrow> workflow_run" where
  "add_manual_evidence r key value now =
     r\<lparr>evidence := evidence r @ [\<lparr>evidence_key = key, evidence_value = value, evidence_timestamp = now\<rparr>],
       updated_at := now\<rparr>"

section \<open>The engine\<close>

definition validate_state_tools :: "state_spec \<Rightarrow> string + unit" where
  "validate_state_tools s =
     (case allowed_tools s of
        None \<Rightarrow> Ok ()
      | Some tools \<Rightarrow>
          if tools = []
          then Err (''State '' @ [CHR 0x27] @ state_name s @ [CHR 0x27]
                    @ '' allowed_tools must not be empty when present'')
          else efor tools (\<lambda>t. if is_blank t
                 then Err (''State '' @ [CHR 0x27] @ state_name s @ [CHR 0x27] @ '' has empty allowed_tools entry'')
                 else Ok ()))"

fun validate_states :: "state_spec list \<Rightarrow> string set \<Rightarrow> string + unit" where
  "validate_states [] seen = Ok ()"
| "validate_states (s # ss) seen =
     (if is_blank (state_name s) then Err ''StateSpec.name must not be empty''
      else if state_name s \<in> seen then Err (''Duplicate state name: '' @ state_name s)
      else ebind (validate_state_tools s) (\<lambda>_. validate_states ss (insert (state_name s) seen)))"

definition validate_spec :: "workflow_spec \<Rightarrow> string + unit" where
  "validate_spec w =
     (if states w = [] then Err ''WorkflowSpec.states must not be empty''
      else if is_blank (wf_name w) then Err ''WorkflowSpec.name must not be empty''
      else if is_blank (initial w) then Err ''WorkflowSpec.initial must not be empty''
      else ebind (validate_states (states w) {}) (\<lambda>_.
      if find_state w (initial w) = None
        then Err (''WorkflowSpec.initial '' @ [CHR 0x27] @ initial w @ [CHR 0x27] @ '' is not in states'')
      else efor (wf_transitions w) (\<lambda>t.
        if find_state w (trans_from t) = None
          then Err (''Transition.from '' @ [CHR 0x27] @ trans_from t @ [CHR 0x27] @ '' is not a state'')
        else if find_state w (trans_to t) = None
          then Err (''Transition.to '' @ [CHR 0x27] @ trans_to t @ [CHR 0x27] @ '' is not a state'')
        else Ok ())))"

definition allowed_transitions :: "workflow_spec \<Rightarrow> string \<Rightarrow> transition_spec list" where
  "allowed_transitions w from_state = filter (\<lambda>t. trans_from t = from_state) (wf_transitions w)"

definition find_transition :: "workflow_spec \<Rightarrow> string \<Rightarrow> string \<Rightarrow> transition_spec option" where
  "find_transition w from_state to_state =
     find (\<lambda>t. trans_from t = from_state \<and> trans_to t = to_state) (wf_transitions w)"

definition missing_evidence_for_state ::
  "workflow_spec \<Rightarrow> string \<Rightarrow> (string \<Rightarrow> bool) \<Rightarrow> string list" where
  "missing_evidence_for_state w to_state has_evidence =
     (case find_state w to_state of
        None \<Rightarrow> [''unknown_state:'' @ to_state]
      | Some s \<Rightarrow>
          (case requires_evidence s of
             None \<Rightarrow> []
           | Some req \<Rightarrow> filter (\<lambda>k. \<not> has_evidence k) req))"

fun join_with :: "string \<Rightarrow> string list \<Rightarrow> string" where
  "join_with sep [] = []"
| "join_with sep [s] = s"
| "join_with sep (s # t # ts) = s @ sep @ join_with sep (t # ts)"

definition can_transition ::
  "workflow_spec \<Rightarrow> string \<Rightarrow> string \<Rightarrow> (string \<Rightarrow> bool) \<Rightarrow> string + unit" where
  "can_transition w from_state to_state has_evidence =
     (if find_transition w from_state to_state = None
      then Err (''No transition: '' @ from_state @ '' '' @ [CHR 0xE2, CHR 0x86, CHR 0x92] @ '' '' @ to_state)
      else let missing = missing_evidence_for_state w to_state has_evidence
           in if missing \<noteq> []
              then Err (''Missing evidence for '' @ [CHR 0x27] @ to_state @ [CHR 0x27] @ '': ''
                        @ join_with '', '' missing)
              else Ok ())"

section \<open>The tool gate\<close>

definition CONTROL_TOOL :: string where "CONTROL_TOOL = ''ctx_workflow''"
definition WRAPPER_TOOL :: string where "WRAPPER_TOOL = ''ctx_call''"
definition CLOSED_NAME :: string where "CLOSED_NAME = ''gateway-withheld''"
definition STALE_MINUTES :: int where "STALE_MINUTES = 30"

definition WORKFLOW_PASSTHROUGH_TOOLS :: "string list" where
  "WORKFLOW_PASSTHROUGH_TOOLS = [''ctx'', ''ctx_workflow'', ''ctx_read'', ''ctx_multi_read'',
     ''ctx_smart_read'', ''ctx_search'', ''ctx_tree'', ''ctx_session'', ''ctx_ledger'']"

datatype tool_gate_answer = GateExpired | Pass | Refuse string

definition withheld_sentinel :: "string \<Rightarrow> int \<Rightarrow> workflow_run" where
  "withheld_sentinel reason now =
     \<lparr>spec = \<lparr>wf_name = CLOSED_NAME, wf_description = Some reason, initial = CLOSED_NAME,
        states = [\<lparr>state_name = CLOSED_NAME, state_description = Some reason,
                   allowed_tools = Some [''ctx'', ''ctx_workflow''], requires_evidence = None\<rparr>],
        wf_transitions = []\<rparr>,
      current = CLOSED_NAME, started_at = now, updated_at = now, run_transitions = [], evidence = []\<rparr>"

definition is_withheld_sentinel :: "workflow_run \<Rightarrow> bool" where
  "is_withheld_sentinel r \<longleftrightarrow> wf_name (spec r) = CLOSED_NAME \<and> current r = CLOSED_NAME"

text \<open>\<open>num_minutes\<close> truncates the signed duration toward zero.\<close>

definition num_minutes :: "int \<Rightarrow> int" where
  "num_minutes d = (if 0 \<le> d then d div (60 * 10 ^ 9) else - ((- d) div (60 * 10 ^ 9)))"

definition is_run_stale :: "workflow_run \<Rightarrow> int \<Rightarrow> bool" where
  "is_run_stale r now \<longleftrightarrow> \<not> is_withheld_sentinel r \<and> STALE_MINUTES < num_minutes (now - updated_at r)"

definition withheld_message :: "string \<Rightarrow> string" where
  "withheld_message tool = ''Tool '' @ [CHR 0x27] @ tool @ [CHR 0x27]
     @ '' blocked: the stored workflow is withheld by the context gateway. ''
     @ ''Use ctx_workflow(action='' @ [CHR 0x22] @ ''status'' @ [CHR 0x22] @ '') to check it again, or ''
     @ ''ctx_workflow(action='' @ [CHR 0x22] @ ''stop'' @ [CHR 0x22] @ '') to discard it.''"

definition refusal_message :: "workflow_run \<Rightarrow> string \<Rightarrow> string list \<Rightarrow> string" where
  "refusal_message r tool allowed =
     ''Tool '' @ [CHR 0x27] @ tool @ [CHR 0x27] @ '' blocked by workflow '' @ [CHR 0x27] @ wf_name (spec r)
     @ [CHR 0x27] @ '' (state: '' @ current r @ ''). Allowed: '' @ join_with '', '' (take 30 (sort allowed))
     @ ''. Use ctx_workflow(action='' @ [CHR 0x22] @ ''stop'' @ [CHR 0x22] @ '') to exit.''"

definition tool_gate :: "workflow_run \<Rightarrow> string \<Rightarrow> string list \<Rightarrow> int \<Rightarrow> tool_gate_answer" where
  "tool_gate r tool passthrough now =
     (if is_withheld_sentinel r
      then (if tool = CONTROL_TOOL \<or> tool = WRAPPER_TOOL \<or> tool = ''ctx'' then Pass
            else Refuse (withheld_message tool))
      else if tool = CONTROL_TOOL then Pass
      else if current r = ''done'' \<or> is_run_stale r now then GateExpired
      else if tool \<in> set passthrough then Pass
      else case Option.bind (find_state (spec r) (current r)) allowed_tools of
             None \<Rightarrow> Pass
           | Some tools \<Rightarrow> if tool \<in> set tools then Pass else Refuse (refusal_message r tool tools))"

section \<open>Valid specifications\<close>

definition state_names :: "workflow_spec \<Rightarrow> string set" where
  "state_names w = state_name ` set (states w)"

definition tools_ok :: "state_spec \<Rightarrow> bool" where
  "tools_ok s \<longleftrightarrow> (case allowed_tools s of None \<Rightarrow> True
     | Some tools \<Rightarrow> tools \<noteq> [] \<and> (\<forall>t\<in>set tools. \<not> is_blank t))"

lemma validate_state_tools_eq_Ok [result_simps]: "validate_state_tools s = Ok u \<longleftrightarrow> tools_ok s"
  by (auto simp: validate_state_tools_def tools_ok_def result_simps split: option.splits if_splits)

lemma validate_states_eq_Ok:
  "validate_states ss seen = Ok u \<longleftrightarrow>
     distinct (map state_name ss) \<and> state_name ` set ss \<inter> seen = {}
     \<and> (\<forall>s\<in>set ss. \<not> is_blank (state_name s) \<and> tools_ok s)"
  by (induction ss arbitrary: seen) (auto simp: result_simps)

lemma find_state_None [simp]: "find_state w n = None \<longleftrightarrow> n \<notin> state_names w"
  by (auto simp: find_state_def find_None_iff state_names_def)

lemma find_state_Some: "find_state w n = Some s \<Longrightarrow> s \<in> set (states w) \<and> state_name s = n"
  by (auto simp: find_state_def find_Some_iff)

text \<open>
  A specification is accepted exactly when it is a well-formed state machine: it has
  states with distinct non-blank names, its initial state and the two ends of every transition
  are among them, and every tool list it gives is non-empty and without blank entries.
\<close>

theorem validate_spec_iff:
  "validate_spec w = Ok () \<longleftrightarrow>
     states w \<noteq> [] \<and> \<not> is_blank (wf_name w) \<and> \<not> is_blank (initial w)
     \<and> distinct (map state_name (states w))
     \<and> (\<forall>s\<in>set (states w). \<not> is_blank (state_name s) \<and> tools_ok s)
     \<and> initial w \<in> state_names w
     \<and> (\<forall>t\<in>set (wf_transitions w). trans_from t \<in> state_names w \<and> trans_to t \<in> state_names w)"
  by (auto simp: validate_spec_def validate_states_eq_Ok result_simps split: if_splits)

theorem validate_spec_iff_witness:
  "validate_spec builtin_plan_code_test = Ok () \<and> initial builtin_plan_code_test \<in> state_names builtin_plan_code_test"
proof -
  have "validate_spec builtin_plan_code_test = Ok ()" by code_simp
  with validate_spec_iff [of builtin_plan_code_test] show ?thesis by blast
qed

section \<open>Transitions\<close>

lemma missing_evidence_Nil:
  "missing_evidence_for_state w n ev = [] \<longleftrightarrow>
     (\<exists>s. find_state w n = Some s \<and> (\<forall>req. requires_evidence s = Some req \<longrightarrow> (\<forall>k\<in>set req. ev k)))"
  by (cases "find_state w n")
    (auto simp: missing_evidence_for_state_def filter_empty_conv simp del: find_state_None split: option.splits)

text \<open>
  A transition is permitted exactly when the specification declares it, its target is a
  known state, and every piece of evidence the target requires is present.
\<close>

theorem can_transition_iff:
  "can_transition w a b ev = Ok () \<longleftrightarrow>
     (\<exists>t\<in>set (wf_transitions w). trans_from t = a \<and> trans_to t = b)
     \<and> (\<exists>s. find_state w b = Some s
          \<and> (\<forall>req. requires_evidence s = Some req \<longrightarrow> (\<forall>k\<in>set req. ev k)))"
  by (auto simp: can_transition_def missing_evidence_Nil find_transition_def find_None_iff Let_def)

theorem can_transition_iff_witness:
  "can_transition builtin_plan_code_test ''planning'' ''coding'' (\<lambda>k. k = ''tool:ctx_read'') = Ok ()
   \<and> can_transition builtin_plan_code_test ''planning'' ''coding'' (\<lambda>k. False) \<noteq> Ok ()
   \<and> (\<exists>s. find_state builtin_plan_code_test ''coding'' = Some s)"
proof -
  have ok: "can_transition builtin_plan_code_test ''planning'' ''coding'' (\<lambda>k. k = ''tool:ctx_read'') = Ok ()"
    by code_simp
  moreover have "can_transition builtin_plan_code_test ''planning'' ''coding'' (\<lambda>k. False) \<noteq> Ok ()"
    by code_simp
  ultimately show ?thesis using can_transition_iff [THEN iffD1, OF ok] by blast
qed

text \<open>The states a run can move through, with the evidence that is present.\<close>

inductive run_reaches :: "workflow_spec \<Rightarrow> (string \<Rightarrow> bool) \<Rightarrow> string \<Rightarrow> bool" for w ev where
  run_start: "run_reaches w ev (initial w)"
| run_move: "run_reaches w ev a \<Longrightarrow> can_transition w a b ev = Ok () \<Longrightarrow> run_reaches w ev b"

text \<open>
  The built-in workflow is evidence-gated end to end: a run reaches \<open>done\<close> only when both a
  read and a shell run have been evidenced, and with both it can.
\<close>

theorem builtin_done_needs_evidence:
  "run_reaches builtin_plan_code_test ev ''done'' \<longleftrightarrow> ev ''tool:ctx_read'' \<and> ev ''tool:ctx_shell''"
proof
  have states: "find_state builtin_plan_code_test ''coding'' \<noteq> None"
    "map_option requires_evidence (find_state builtin_plan_code_test ''coding'') = Some (Some [''tool:ctx_read''])"
    "map_option requires_evidence (find_state builtin_plan_code_test ''testing'') = Some (Some [''tool:ctx_shell''])"
    "map_option requires_evidence (find_state builtin_plan_code_test ''done'') = Some (Some [''tool:ctx_shell''])"
    by (code_simp, code_simp, code_simp, code_simp)
  have trans: "map (\<lambda>t. (trans_from t, trans_to t)) (wf_transitions builtin_plan_code_test) =
      [(''planning'', ''coding''), (''coding'', ''testing''), (''testing'', ''done'')]"
    by code_simp
  have step: "can_transition builtin_plan_code_test a b ev = Ok () \<longleftrightarrow>
      (a, b) = (''planning'', ''coding'') \<and> ev ''tool:ctx_read''
      \<or> (a, b) = (''coding'', ''testing'') \<and> ev ''tool:ctx_shell''
      \<or> (a, b) = (''testing'', ''done'') \<and> ev ''tool:ctx_shell''" for a b
  proof -
    have "(\<exists>t\<in>set (wf_transitions builtin_plan_code_test). trans_from t = a \<and> trans_to t = b) \<longleftrightarrow>
        (a, b) \<in> set (map (\<lambda>t. (trans_from t, trans_to t)) (wf_transitions builtin_plan_code_test))"
      by auto
    then show ?thesis
      using states by (auto simp: can_transition_def missing_evidence_Nil find_transition_def find_None_iff trans Let_def)
  qed
  have init: "initial builtin_plan_code_test = ''planning''" by (simp add: builtin_plan_code_test_def)
  show "ev ''tool:ctx_read'' \<and> ev ''tool:ctx_shell''" if "run_reaches builtin_plan_code_test ev ''done''"
  proof -
    have "run_reaches builtin_plan_code_test ev s \<Longrightarrow>
        (s = ''planning'' \<or> ev ''tool:ctx_read'') \<and> (s = ''done'' \<longrightarrow> ev ''tool:ctx_shell'')" for s
      by (induction rule: run_reaches.induct) (auto simp: init step)
    from this [OF that] show ?thesis by simp
  qed
  show "run_reaches builtin_plan_code_test ev ''done''" if "ev ''tool:ctx_read'' \<and> ev ''tool:ctx_shell''"
  proof -
    have "run_reaches builtin_plan_code_test ev ''coding''"
      by (rule run_move [OF run_start]) (use that in \<open>simp add: init step\<close>)
    then have "run_reaches builtin_plan_code_test ev ''testing''"
      by (rule run_move) (use that in \<open>simp add: step\<close>)
    then show ?thesis by (rule run_move) (use that in \<open>simp add: step\<close>)
  qed
qed

section \<open>The gate\<close>

lemma num_minutes_gt: "30 < num_minutes d \<longleftrightarrow> 31 * 60 * 10 ^ 9 \<le> d"
  by (auto simp: num_minutes_def)

text \<open>
  The stand-in for a withheld workflow is closed: whatever its age and whatever list of
  pass-through tools the server has, exactly the control tool, the wrapper and the meta name
  pass, every other tool is refused, and it never expires.
\<close>

theorem withheld_gate_closed:
  "tool_gate (withheld_sentinel reason created) tool passthrough now =
     (if tool = ''ctx_workflow'' \<or> tool = ''ctx_call'' \<or> tool = ''ctx'' then Pass
      else Refuse (withheld_message tool))"
  by (simp add: tool_gate_def withheld_sentinel_def is_withheld_sentinel_def CONTROL_TOOL_def WRAPPER_TOOL_def)

text \<open>
  The gate of a real run, decided on every branch: the control tool always passes; a run
  that is finished or has been idle for 31 minutes is expired; otherwise a tool is refused
  exactly when it is neither a pass-through tool nor allowed by the list of the current state.
\<close>

theorem tool_gate_decides:
  assumes "\<not> is_withheld_sentinel r"
  shows "tool_gate r ''ctx_workflow'' passthrough now = Pass
    \<and> (tool \<noteq> ''ctx_workflow'' \<longrightarrow>
        (tool_gate r tool passthrough now = GateExpired \<longleftrightarrow>
           current r = ''done'' \<or> 31 * 60 * 10 ^ 9 \<le> now - updated_at r)
      \<and> ((\<exists>m. tool_gate r tool passthrough now = Refuse m) \<longleftrightarrow>
           current r \<noteq> ''done'' \<and> now - updated_at r < 31 * 60 * 10 ^ 9 \<and> tool \<notin> set passthrough
           \<and> (\<exists>s tools. find_state (spec r) (current r) = Some s \<and> allowed_tools s = Some tools
                \<and> tool \<notin> set tools)))"
  using assms
  by (auto simp: tool_gate_def is_run_stale_def STALE_MINUTES_def num_minutes_gt CONTROL_TOOL_def
      bind_eq_Some_conv split: option.splits if_splits)

theorem tool_gate_decides_witness:
  "\<not> is_withheld_sentinel (new_run builtin_plan_code_test 0)
   \<and> tool_gate (new_run builtin_plan_code_test 0) ''ctx_workflow'' [] 5 = Pass
   \<and> tool_gate (new_run builtin_plan_code_test 0) ''ctx_shell'' [] (31 * 60 * 10 ^ 9) = GateExpired"
proof -
  have "\<not> is_withheld_sentinel (new_run builtin_plan_code_test 0)" by code_simp
  then show ?thesis
    using tool_gate_decides [of "new_run builtin_plan_code_test 0" "[]" 5]
      tool_gate_decides [of "new_run builtin_plan_code_test 0" "[]" "31 * 60 * 10 ^ 9" "''ctx_shell''"]
    by (simp add: new_run_def)
qed

end
