(* ===== verification/Task_Authority.thy ===== *)
theory Task_Authority
  imports Prelude
begin

text \<open>
  The authority check of the A2A tasks (\<open>core/a2a/task/authority.rs\<close>, constants of
  \<open>core/a2a/task.rs\<close>): the configured trust policy and its validation, the signed send and
  control descriptors, and the one decision \<open>authorize\<close> they share. Instants and durations are
  integers in nanoseconds, as \<open>chrono\<close> keeps them. Canonical JSON, SHA-256 and the Ed25519
  verification are arguments (\<open>canonical\<close>, \<open>sha256_hex\<close>, \<open>ed25519\<close>).
\<close>

section \<open>Constants\<close>

definition MAX_TASK_DESCRIPTOR_BYTES :: nat where "MAX_TASK_DESCRIPTOR_BYTES = 256 * 1024"
definition MAX_DESCRIPTOR_STRING_BYTES :: nat where "MAX_DESCRIPTOR_STRING_BYTES = 256"
definition MAX_DESCRIPTION_BYTES :: nat where "MAX_DESCRIPTION_BYTES = 64 * 1024"
definition MAX_ARTIFACT_REFS :: nat where "MAX_ARTIFACT_REFS = 64"
definition MAX_IDEMPOTENCY_KEY_BYTES :: nat where "MAX_IDEMPOTENCY_KEY_BYTES = 128"
definition MAX_TASK_LIFETIME_SECONDS :: int where "MAX_TASK_LIFETIME_SECONDS = 24 * 60 * 60"
definition MAX_POLICY_LIFETIME_SECONDS :: int where "MAX_POLICY_LIFETIME_SECONDS = 366 * 24 * 60 * 60"
definition MAX_TRUST_ENTRIES :: nat where "MAX_TRUST_ENTRIES = 1024"
definition MAX_AUTHORITY_CLOCK_SKEW_SECONDS :: int where "MAX_AUTHORITY_CLOCK_SKEW_SECONDS = 60"
definition IDEMPOTENCY_RETENTION_SECONDS :: int where
  "IDEMPOTENCY_RETENTION_SECONDS = MAX_TASK_LIFETIME_SECONDS + MAX_AUTHORITY_CLOCK_SKEW_SECONDS"
definition MAX_TASK_CONTROL_LIFETIME_SECONDS :: int where "MAX_TASK_CONTROL_LIFETIME_SECONDS = 15 * 60"
definition MAX_CANCEL_REASON_BYTES :: nat where "MAX_CANCEL_REASON_BYTES = 512"
definition DIGEST_PREFIX :: string where "DIGEST_PREFIX = ''sha256:''"
definition DIGEST_HEX_LEN :: nat where "DIGEST_HEX_LEN = 64"
definition TASK_DESCRIPTOR_SIGNING_DOMAIN :: string where
  "TASK_DESCRIPTOR_SIGNING_DOMAIN = ''leanctx.a2a.task.descriptor.sig.v1'' @ [CHR 0x00]"
definition TASK_CONTROL_SIGNING_DOMAIN :: string where
  "TASK_CONTROL_SIGNING_DOMAIN = ''leanctx.a2a.task.control.sig.v1'' @ [CHR 0x00]"
definition TASK_ACTION_SEND :: string where "TASK_ACTION_SEND = ''tasks/send''"
definition TASK_ACTION_GET :: string where "TASK_ACTION_GET = ''tasks/get''"
definition TASK_ACTION_CANCEL :: string where "TASK_ACTION_CANCEL = ''tasks/cancel''"
definition DELIVERY_CHECK :: string where "DELIVERY_CHECK = ''delivery/check''"
definition DELIVERY_RECORD :: string where "DELIVERY_RECORD = ''delivery/record''"
definition DELIVERY_DELEGATE :: string where "DELIVERY_DELEGATE = ''delivery/delegate''"

lemmas task_limits = MAX_TASK_DESCRIPTOR_BYTES_def MAX_DESCRIPTOR_STRING_BYTES_def MAX_DESCRIPTION_BYTES_def
  MAX_ARTIFACT_REFS_def MAX_IDEMPOTENCY_KEY_BYTES_def MAX_TASK_LIFETIME_SECONDS_def
  MAX_POLICY_LIFETIME_SECONDS_def MAX_TRUST_ENTRIES_def MAX_AUTHORITY_CLOCK_SKEW_SECONDS_def
  IDEMPOTENCY_RETENTION_SECONDS_def MAX_TASK_CONTROL_LIFETIME_SECONDS_def MAX_CANCEL_REASON_BYTES_def

lemmas action_names = TASK_ACTION_SEND_def TASK_ACTION_GET_def TASK_ACTION_CANCEL_def
  DELIVERY_CHECK_def DELIVERY_RECORD_def DELIVERY_DELEGATE_def

text \<open>The schema versions \<open>TASK_DESCRIPTOR_VERSION\<close> to \<open>TASK_CONTROL_DESCRIPTOR_VERSION\<close> are all 1.\<close>

definition TASK_SCHEMA_VERSION :: nat where "TASK_SCHEMA_VERSION = 1"

abbreviation seconds :: "int \<Rightarrow> int" where "seconds n \<equiv> n * 10 ^ 9"

text \<open>\<open>Duration::num_seconds\<close> truncates toward zero.\<close>

definition num_seconds :: "int \<Rightarrow> int" where
  "num_seconds d = (if 0 \<le> d then d div 10 ^ 9 else - ((- d) div 10 ^ 9))"

lemma num_seconds_le: "0 \<le> n \<Longrightarrow> num_seconds d \<le> n \<longleftrightarrow> d < seconds (n + 1)"
  by (auto simp: num_seconds_def)

section \<open>Data\<close>

record artifact_ref =
  artifact_schema_version :: nat
  artifact_id :: string
  artifact_digest :: string
  media_type :: string
  size_bytes :: nat
  artifact_uri :: "string option"

record capability_grant_ref =
  grant_ref_schema_version :: nat
  grant_ref_id :: string

record task_scope =
  scope_schema_version :: nat
  scope_tenant_id :: string
  scope_project_id :: string

record peer_trust =
  peer_schema_version :: nat
  peer_key_id :: string
  peer_agent_id :: string
  peer_public_key :: string
  allowed_actions :: "string list"
  allowed_scopes :: "task_scope list"
  peer_not_before :: int
  peer_expires_at :: int
  peer_revoked :: bool

record capability_grant =
  grant_schema_version :: nat
  grant_id :: string
  grant_key_id :: string
  grant_action :: string
  grant_tenant_id :: string
  grant_project_id :: string
  grant_not_before :: int
  grant_expires_at :: int
  grant_revoked :: bool

record authority_config =
  config_schema_version :: nat
  peers :: "peer_trust list"
  grants :: "capability_grant list"

record task_descriptor =
  desc_schema_version :: nat
  desc_sender :: string
  desc_recipient :: string
  desc_tenant_id :: string
  desc_project_id :: string
  desc_action :: string
  desc_issued_at :: int
  desc_expires_at :: int
  desc_idempotency_key :: string
  desc_description :: string
  desc_artifact_refs :: "artifact_ref list"
  desc_grant_ref :: capability_grant_ref
  desc_key_id :: string
  desc_signature :: string

record control_descriptor =
  ctl_schema_version :: nat
  ctl_sender :: string
  ctl_recipient :: string
  ctl_tenant_id :: string
  ctl_project_id :: string
  ctl_action :: string
  ctl_task_id :: string
  ctl_task_descriptor_digest :: string
  ctl_issued_at :: int
  ctl_expires_at :: int
  ctl_nonce :: string
  ctl_reason :: "string option"
  ctl_grant_ref :: capability_grant_ref
  ctl_key_id :: string
  ctl_signature :: string

record authority_expectation =
  exp_sender :: string
  exp_recipient :: string
  exp_tenant_id :: string
  exp_project_id :: string
  exp_now :: int

record authority_claim =
  claim_sender :: string
  claim_recipient :: string
  claim_tenant_id :: string
  claim_project_id :: string
  claim_action :: string
  claim_issued_at :: int
  claim_expires_at :: int
  claim_grant_id :: string
  claim_key_id :: string
  claim_signature :: string
  claim_signing_bytes :: string

datatype task_authority_error =
    MalformedBounds
  | UnsupportedAction
  | UnknownKey
  | RevokedKey
  | InvalidKey
  | InvalidSignature
  | WrongSender
  | WrongRecipient
  | WrongScope
  | KeyNotYetValid
  | KeyExpired
  | MissingGrant
  | RevokedGrant
  | GrantNotYetValid
  | GrantExpired
  | GrantMismatch
  | DescriptorNotYetValid
  | DescriptorExpired
  | DuplicateTrustEntry
  | SharedSecretReuse

type_synonym 'a auth = "task_authority_error + 'a"

section \<open>Strings\<close>

definition is_ascii_hexdigit :: "char \<Rightarrow> bool" where
  "is_ascii_hexdigit c \<longleftrightarrow> is_lower_hex c \<or> (65 \<le> byte c \<and> byte c \<le> 70)"

definition ascii_lower :: "char \<Rightarrow> char" where
  "ascii_lower c = (if 65 \<le> byte c \<and> byte c \<le> 90 then char_of (byte c + 32) else c)"

definition eq_ignore_ascii_case :: "string \<Rightarrow> string \<Rightarrow> bool" where
  "eq_ignore_ascii_case a b \<longleftrightarrow> map ascii_lower a = map ascii_lower b"

definition validate_task_identifier :: "string \<Rightarrow> nat \<Rightarrow> unit auth" where
  "validate_task_identifier value max_bytes =
     ensure (value \<noteq> [] \<and> length value \<le> max_bytes
       \<and> list_all (\<lambda>c. is_ascii_alphanumeric c \<or> c \<in> set ''._:/-'') value) MalformedBounds"

abbreviation short_identifier :: "string \<Rightarrow> unit auth" where
  "short_identifier value \<equiv> validate_task_identifier value MAX_DESCRIPTOR_STRING_BYTES"

definition validate_digest :: "string \<Rightarrow> unit auth" where
  "validate_digest value =
     (case strip_prefix DIGEST_PREFIX value of
        None \<Rightarrow> Err MalformedBounds
      | Some hex \<Rightarrow> ensure (length hex = DIGEST_HEX_LEN \<and> list_all is_ascii_hexdigit hex) MalformedBounds)"

text \<open>
  \<open>hex_decode\<close> reads two characters at a time with \<open>u8::from_str_radix\<close>, which takes a sign
  before the digits.
\<close>

definition hex_value :: "char \<Rightarrow> nat option" where
  "hex_value c = (if is_ascii_digit c then Some (byte c - 48)
     else if is_lower_hex c then Some (byte c - 87)
     else if is_ascii_hexdigit c then Some (byte c - 55) else None)"

definition hex_pair :: "char \<Rightarrow> char \<Rightarrow> char option" where
  "hex_pair a b = (if a = CHR ''+'' then map_option char_of (hex_value b)
     else case (hex_value a, hex_value b) of
            (Some x, Some y) \<Rightarrow> Some (char_of (16 * x + y)) | _ \<Rightarrow> None)"

fun hex_decode :: "string \<Rightarrow> string option" where
  "hex_decode [] = Some []"
| "hex_decode [a] = None"
| "hex_decode (a # b # s) =
     (case (hex_pair a b, hex_decode s) of (Some c, Some cs) \<Rightarrow> Some (c # cs) | _ \<Rightarrow> None)"

section \<open>The trust policy\<close>

definition is_control_action :: "string \<Rightarrow> bool" where
  "is_control_action action \<longleftrightarrow> action = TASK_ACTION_GET \<or> action = TASK_ACTION_CANCEL"

definition is_delivery_action :: "string \<Rightarrow> bool" where
  "is_delivery_action action \<longleftrightarrow> action = DELIVERY_CHECK \<or> action = DELIVERY_RECORD"

definition is_supported_task_action :: "string \<Rightarrow> bool" where
  "is_supported_task_action action \<longleftrightarrow> action = TASK_ACTION_SEND \<or> is_control_action action
     \<or> is_delivery_action action \<or> action = DELIVERY_DELEGATE"

definition validate_scope :: "task_scope \<Rightarrow> unit auth" where
  "validate_scope s =
     ebind (ensure (scope_schema_version s = TASK_SCHEMA_VERSION) MalformedBounds) (\<lambda>_.
     ebind (short_identifier (scope_tenant_id s)) (\<lambda>_.
     short_identifier (scope_project_id s)))"

definition validate_artifact :: "artifact_ref \<Rightarrow> unit auth" where
  "validate_artifact a =
     ebind (ensure (artifact_schema_version a = TASK_SCHEMA_VERSION
              \<and> size_bytes a \<le> MAX_TASK_DESCRIPTOR_BYTES) MalformedBounds) (\<lambda>_.
     ebind (short_identifier (artifact_id a)) (\<lambda>_.
     ebind (short_identifier (artifact_digest a)) (\<lambda>_.
     ebind (short_identifier (media_type a)) (\<lambda>_.
     case artifact_uri a of None \<Rightarrow> Ok () | Some uri \<Rightarrow> short_identifier uri))))"

definition validate_grant_ref :: "capability_grant_ref \<Rightarrow> unit auth" where
  "validate_grant_ref r =
     ebind (ensure (grant_ref_schema_version r = TASK_SCHEMA_VERSION) MalformedBounds) (\<lambda>_.
     short_identifier (grant_ref_id r))"

definition validate_peer :: "peer_trust \<Rightarrow> unit auth" where
  "validate_peer p =
     ebind (ensure (peer_schema_version p = TASK_SCHEMA_VERSION \<and> allowed_actions p \<noteq> []
              \<and> allowed_scopes p \<noteq> [] \<and> peer_not_before p < peer_expires_at p
              \<and> num_seconds (peer_expires_at p - peer_not_before p) \<le> MAX_POLICY_LIFETIME_SECONDS)
              MalformedBounds) (\<lambda>_.
     ebind (short_identifier (peer_key_id p)) (\<lambda>_.
     ebind (short_identifier (peer_agent_id p)) (\<lambda>_.
     ebind (ensure (length (peer_public_key p) = 64 \<and> list_all is_ascii_hexdigit (peer_public_key p))
              InvalidKey) (\<lambda>_.
     ebind (efor (allowed_actions p) (\<lambda>a. ensure (is_supported_task_action a) UnsupportedAction)) (\<lambda>_.
     efor (allowed_scopes p) validate_scope)))))"

definition validate_grant :: "capability_grant \<Rightarrow> unit auth" where
  "validate_grant g =
     ebind (ensure (grant_schema_version g = TASK_SCHEMA_VERSION
              \<and> grant_not_before g < grant_expires_at g
              \<and> num_seconds (grant_expires_at g - grant_not_before g) \<le> MAX_POLICY_LIFETIME_SECONDS)
              MalformedBounds) (\<lambda>_.
     ebind (efor [grant_id g, grant_key_id g, grant_action g, grant_tenant_id g, grant_project_id g]
              short_identifier) (\<lambda>_.
     ensure (is_supported_task_action (grant_action g)) UnsupportedAction))"

text \<open>
  The loop over entries that are valid, new among the earlier ones, and pass a last check; a
  repeated entry is an error.
\<close>

fun each_new :: "('a \<Rightarrow> unit auth) \<Rightarrow> ('a \<Rightarrow> 'a \<Rightarrow> bool) \<Rightarrow> ('a \<Rightarrow> unit auth) \<Rightarrow> 'a list \<Rightarrow> 'a list \<Rightarrow> unit auth"
where
  "each_new check same post earlier [] = Ok ()"
| "each_new check same post earlier (x # xs) =
     ebind (check x) (\<lambda>_.
     if list_ex (\<lambda>y. same y x) earlier then Err DuplicateTrustEntry
     else ebind (post x) (\<lambda>_. each_new check same post (earlier @ [x]) xs))"

definition same_peer :: "peer_trust \<Rightarrow> peer_trust \<Rightarrow> bool" where
  "same_peer p q \<longleftrightarrow> peer_key_id p = peer_key_id q
     \<or> eq_ignore_ascii_case (peer_public_key p) (peer_public_key q)"

definition validate_policy :: "authority_config \<Rightarrow> unit auth" where
  "validate_policy c =
     ebind (ensure (config_schema_version c = TASK_SCHEMA_VERSION
              \<and> length (peers c) \<le> MAX_TRUST_ENTRIES \<and> length (grants c) \<le> MAX_TRUST_ENTRIES)
              MalformedBounds) (\<lambda>_.
     ebind (each_new validate_peer same_peer (\<lambda>_. Ok ()) [] (peers c)) (\<lambda>_.
     each_new validate_grant (\<lambda>g h. grant_id g = grant_id h)
       (\<lambda>g. ensure (list_ex (\<lambda>p. peer_key_id p = grant_key_id g) (peers c)) UnknownKey) [] (grants c)))"

section \<open>The decision\<close>

definition verify_signed_transcript ::
  "(string \<Rightarrow> string \<Rightarrow> string \<Rightarrow> bool) \<Rightarrow> string \<Rightarrow> string \<Rightarrow> peer_trust \<Rightarrow> bool auth" where
  "verify_signed_transcript ed25519 signature transcript p =
     ebind (ok_or (hex_decode (peer_public_key p)) InvalidKey) (\<lambda>key.
     ebind (ok_or (hex_decode signature) InvalidSignature) (\<lambda>sig.
     Ok (length key = 32 \<and> length sig = 64 \<and> ed25519 key transcript sig)))"

definition authorize ::
  "(string \<Rightarrow> string \<Rightarrow> string \<Rightarrow> bool) \<Rightarrow> authority_claim \<Rightarrow> authority_config \<Rightarrow> authority_expectation
   \<Rightarrow> unit auth" where
  "authorize ed25519 c policy e =
     ebind (validate_policy policy) (\<lambda>_.
     ebind (ensure (claim_sender c = exp_sender e) WrongSender) (\<lambda>_.
     ebind (ensure (claim_recipient c = exp_recipient e) WrongRecipient) (\<lambda>_.
     ebind (ensure (claim_tenant_id c = exp_tenant_id e \<and> claim_project_id c = exp_project_id e) WrongScope) (\<lambda>_.
     ebind (ok_or (find (\<lambda>p. peer_key_id p = claim_key_id c) (peers policy)) UnknownKey) (\<lambda>p.
     ebind (ensure (\<not> peer_revoked p) RevokedKey) (\<lambda>_.
     ebind (ensure (peer_agent_id p = claim_sender c) WrongSender) (\<lambda>_.
     ebind (ensure (claim_action c \<in> set (allowed_actions p)) UnsupportedAction) (\<lambda>_.
     ebind (ensure (list_ex (\<lambda>s. scope_tenant_id s = claim_tenant_id c
                            \<and> scope_project_id s = claim_project_id c) (allowed_scopes p)) WrongScope) (\<lambda>_.
     ebind (verify_signed_transcript ed25519 (claim_signature c) (claim_signing_bytes c) p) (\<lambda>genuine.
     ebind (ensure genuine InvalidSignature) (\<lambda>_.
     ebind (ensure (claim_issued_at c \<le> exp_now e + seconds MAX_AUTHORITY_CLOCK_SKEW_SECONDS)
              DescriptorNotYetValid) (\<lambda>_.
     ebind (ensure (exp_now e < claim_expires_at c) DescriptorExpired) (\<lambda>_.
     ebind (ensure (peer_not_before p \<le> exp_now e \<and> peer_not_before p \<le> claim_issued_at c) KeyNotYetValid) (\<lambda>_.
     ebind (ensure (exp_now e < peer_expires_at p) KeyExpired) (\<lambda>_.
     ebind (ok_or (find (\<lambda>g. grant_id g = claim_grant_id c) (grants policy)) MissingGrant) (\<lambda>g.
     ebind (ensure (\<not> grant_revoked g) RevokedGrant) (\<lambda>_.
     ebind (ensure (grant_key_id g = claim_key_id c \<and> grant_action g = claim_action c
              \<and> grant_tenant_id g = claim_tenant_id c \<and> grant_project_id g = claim_project_id c)
              GrantMismatch) (\<lambda>_.
     ebind (ensure (grant_not_before g \<le> exp_now e \<and> grant_not_before g \<le> claim_issued_at c)
              GrantNotYetValid) (\<lambda>_.
     ebind (ensure (exp_now e < grant_expires_at g) GrantExpired) (\<lambda>_.
     ensure (claim_expires_at c \<le> grant_expires_at g \<and> claim_expires_at c \<le> peer_expires_at p)
       GrantMismatch))))))))))))))))))))"

section \<open>Descriptors\<close>

definition desc_signing_bytes :: "(task_descriptor \<Rightarrow> string) \<Rightarrow> task_descriptor \<Rightarrow> string" where
  "desc_signing_bytes canonical d = TASK_DESCRIPTOR_SIGNING_DOMAIN @ canonical (d\<lparr>desc_signature := []\<rparr>)"

definition content_digest ::
  "(task_descriptor \<Rightarrow> string) \<Rightarrow> (string \<Rightarrow> string) \<Rightarrow> task_descriptor \<Rightarrow> string" where
  "content_digest canonical sha256_hex d = ''sha256:'' @ sha256_hex (desc_signing_bytes canonical d)"

definition validate_descriptor_shape :: "(task_descriptor \<Rightarrow> string) \<Rightarrow> task_descriptor \<Rightarrow> unit auth" where
  "validate_descriptor_shape canonical d =
     ebind (ensure (desc_schema_version d = TASK_SCHEMA_VERSION \<and> desc_action d = TASK_ACTION_SEND
              \<and> length (desc_artifact_refs d) \<le> MAX_ARTIFACT_REFS
              \<and> length (desc_description d) \<le> MAX_DESCRIPTION_BYTES
              \<and> length (desc_idempotency_key d) \<le> MAX_IDEMPOTENCY_KEY_BYTES
              \<and> desc_issued_at d < desc_expires_at d
              \<and> num_seconds (desc_expires_at d - desc_issued_at d) \<le> MAX_TASK_LIFETIME_SECONDS)
              (if desc_action d = TASK_ACTION_SEND then MalformedBounds else UnsupportedAction)) (\<lambda>_.
     ebind (efor [desc_sender d, desc_recipient d, desc_tenant_id d, desc_project_id d, desc_action d,
                  desc_idempotency_key d, desc_key_id d] short_identifier) (\<lambda>_.
     ebind (ensure (desc_description d \<noteq> [] \<and> desc_idempotency_key d \<noteq> []
              \<and> length (desc_signature d) = 128 \<and> list_all is_ascii_hexdigit (desc_signature d))
              MalformedBounds) (\<lambda>_.
     ebind (validate_grant_ref (desc_grant_ref d)) (\<lambda>_.
     ebind (each_new validate_artifact (\<lambda>a b. artifact_id a = artifact_id b) (\<lambda>_. Ok ()) []
              (desc_artifact_refs d)) (\<lambda>_.
     ensure (length (desc_signing_bytes canonical d) \<le> MAX_TASK_DESCRIPTOR_BYTES) MalformedBounds)))))"

definition desc_claim :: "(task_descriptor \<Rightarrow> string) \<Rightarrow> task_descriptor \<Rightarrow> authority_claim" where
  "desc_claim canonical d =
     \<lparr>claim_sender = desc_sender d, claim_recipient = desc_recipient d, claim_tenant_id = desc_tenant_id d,
      claim_project_id = desc_project_id d, claim_action = desc_action d,
      claim_issued_at = desc_issued_at d, claim_expires_at = desc_expires_at d,
      claim_grant_id = grant_ref_id (desc_grant_ref d), claim_key_id = desc_key_id d,
      claim_signature = desc_signature d, claim_signing_bytes = desc_signing_bytes canonical d\<rparr>"

definition verify_descriptor_authority ::
  "(task_descriptor \<Rightarrow> string) \<Rightarrow> (string \<Rightarrow> string \<Rightarrow> string \<Rightarrow> bool) \<Rightarrow> task_descriptor \<Rightarrow> authority_config
   \<Rightarrow> authority_expectation \<Rightarrow> unit auth" where
  "verify_descriptor_authority canonical ed25519 d policy e =
     ebind (validate_descriptor_shape canonical d) (\<lambda>_. authorize ed25519 (desc_claim canonical d) policy e)"

definition ctl_signing_bytes :: "(control_descriptor \<Rightarrow> string) \<Rightarrow> control_descriptor \<Rightarrow> string" where
  "ctl_signing_bytes canonical d = TASK_CONTROL_SIGNING_DOMAIN @ canonical (d\<lparr>ctl_signature := []\<rparr>)"

definition validate_control_reason :: "string \<Rightarrow> string option \<Rightarrow> unit auth" where
  "validate_control_reason action reason =
     (case reason of
        None \<Rightarrow> Ok ()
      | Some r \<Rightarrow> ensure (action = TASK_ACTION_CANCEL \<and> r \<noteq> [] \<and> length r \<le> MAX_CANCEL_REASON_BYTES
                   \<and> list_all (\<lambda>c. 32 \<le> byte c \<and> byte c \<le> 126) r) MalformedBounds)"

definition validate_control_shape :: "(control_descriptor \<Rightarrow> string) \<Rightarrow> control_descriptor \<Rightarrow> unit auth" where
  "validate_control_shape canonical d =
     ebind (ensure (is_control_action (ctl_action d)) UnsupportedAction) (\<lambda>_.
     ebind (ensure (ctl_schema_version d = TASK_SCHEMA_VERSION
              \<and> ctl_issued_at d < ctl_expires_at d
              \<and> ctl_expires_at d - ctl_issued_at d \<le> seconds MAX_TASK_CONTROL_LIFETIME_SECONDS
              \<and> length (ctl_signature d) = 128 \<and> list_all is_ascii_hexdigit (ctl_signature d))
              MalformedBounds) (\<lambda>_.
     ebind (efor [ctl_sender d, ctl_recipient d, ctl_tenant_id d, ctl_project_id d, ctl_action d,
                  ctl_task_id d, ctl_key_id d] short_identifier) (\<lambda>_.
     ebind (validate_task_identifier (ctl_nonce d) MAX_IDEMPOTENCY_KEY_BYTES) (\<lambda>_.
     ebind (validate_digest (ctl_task_descriptor_digest d)) (\<lambda>_.
     ebind (validate_control_reason (ctl_action d) (ctl_reason d)) (\<lambda>_.
     ebind (validate_grant_ref (ctl_grant_ref d)) (\<lambda>_.
     ensure (length (ctl_signing_bytes canonical d) \<le> MAX_TASK_DESCRIPTOR_BYTES) MalformedBounds)))))))"

definition ctl_claim :: "(control_descriptor \<Rightarrow> string) \<Rightarrow> control_descriptor \<Rightarrow> authority_claim" where
  "ctl_claim canonical d =
     \<lparr>claim_sender = ctl_sender d, claim_recipient = ctl_recipient d, claim_tenant_id = ctl_tenant_id d,
      claim_project_id = ctl_project_id d, claim_action = ctl_action d,
      claim_issued_at = ctl_issued_at d, claim_expires_at = ctl_expires_at d,
      claim_grant_id = grant_ref_id (ctl_grant_ref d), claim_key_id = ctl_key_id d,
      claim_signature = ctl_signature d, claim_signing_bytes = ctl_signing_bytes canonical d\<rparr>"

definition verify_control_authority ::
  "(control_descriptor \<Rightarrow> string) \<Rightarrow> (string \<Rightarrow> string \<Rightarrow> string \<Rightarrow> bool) \<Rightarrow> control_descriptor \<Rightarrow> authority_config
   \<Rightarrow> authority_expectation \<Rightarrow> unit auth" where
  "verify_control_authority canonical ed25519 d policy e =
     ebind (validate_control_shape canonical d) (\<lambda>_. authorize ed25519 (ctl_claim canonical d) policy e)"

end
