(* ===== verification/Delivery.thy ===== *)
theory Delivery
  imports Task_Authority Work_Graph_Store
begin

text \<open>
  Delegated delivery: the certificate by which a host lets a child deliver for one execution of
  one node (\<open>core/a2a/task/delivery_delegation.rs\<close>), the signed delivery operation
  (\<open>core/a2a/task/delivery_authority.rs\<close>), the delivery scope
  (\<open>crates/lean-ctx-ocla/src/delivery_scope.rs\<close>), the authority a stored work graph gives a
  certificate (\<open>WorkGraphStore::child_delivery_authority\<close>), and the decision of the scoped
  delivery route (\<open>crates/lean-ctx/src/http_server/scoped_delivery.rs\<close>, up to the replay guard).
  Canonical JSON, SHA-256 and Ed25519 are arguments, and so is what the route asks the file
  system. A project root is the UTF-8 string of a path.
\<close>

section \<open>Identity of an execution\<close>

text \<open>\<open>json4\<close> is the JSON array of the four strings, \<open>hash_hex\<close> is BLAKE3 in hexadecimal.\<close>

definition execution_key_for_scope ::
  "(string \<Rightarrow> string \<Rightarrow> string \<Rightarrow> string \<Rightarrow> string) \<Rightarrow> (string \<Rightarrow> string) \<Rightarrow> string \<Rightarrow> string \<Rightarrow> string \<Rightarrow> string
   \<Rightarrow> string store_result" where
  "execution_key_for_scope json4 hash_hex scope gid nid fence =
     (if gid = [] \<or> nid = [] \<or> fence = []
      then Err (Message ''execution identity requires graph, node and fence'')
      else Ok (''work-execution:'' @ hash_hex (json4 scope gid nid fence)))"

definition attempt_task_id :: "string \<Rightarrow> nat \<Rightarrow> string" where
  "attempt_task_id execution_key attempt = execution_key @ '':attempt-'' @ show_nat attempt"

section \<open>Scope and privacy\<close>

datatype delivery_privacy = Private | Project

record delivery_scope =
  account_id :: string
  delivery_project_id :: string

record delivery_access =
  access_scope :: delivery_scope
  access_privacy :: delivery_privacy

definition valid_delivery_id :: "string \<Rightarrow> bool" where
  "valid_delivery_id value \<longleftrightarrow> value \<noteq> [] \<and> length value \<le> 256 \<and> list_all is_ascii_graphic value"

definition new_delivery_scope :: "string \<Rightarrow> string \<Rightarrow> string + delivery_scope" where
  "new_delivery_scope account project =
     (if \<not> valid_delivery_id account then Err ''invalid delivery account_id''
      else if \<not> valid_delivery_id project then Err ''invalid delivery project_id''
      else Ok \<lparr>account_id = account, delivery_project_id = project\<rparr>)"

definition permits :: "delivery_privacy \<Rightarrow> delivery_scope \<Rightarrow> delivery_scope \<Rightarrow> string \<Rightarrow> string \<Rightarrow> bool" where
  "permits privacy recorded authenticated original agent \<longleftrightarrow>
     recorded = authenticated \<and> valid_delivery_id original \<and> valid_delivery_id agent
     \<and> (privacy = Project \<or> original = agent)"

section \<open>The delegation certificate\<close>

definition DELEGATION_DOMAIN :: string where
  "DELEGATION_DOMAIN = ''leanctx.delivery.delegation.v1'' @ [CHR 0x00]"

definition MAX_DELEGATION_SECONDS :: int where "MAX_DELEGATION_SECONDS = 3600"

record execution_binding =
  exec_graph_id :: string
  exec_node_id :: string
  exec_fence :: string
  exec_task_id :: string
  exec_attempt :: nat

record delivery_delegation =
  cert_schema_version :: nat
  host_agent :: string
  cert_recipient :: string
  cert_tenant_id :: string
  cert_project_id :: string
  cert_project_root :: string
  cert_privacy :: delivery_privacy
  host_key_id :: string
  host_grant_id :: string
  child_agent :: string
  child_key_id :: string
  child_public_key :: string
  read_grant_id :: string
  write_grant_id :: "string option"
  execution :: execution_binding
  cert_issued_at :: int
  cert_expires_at :: int
  cert_signature :: string

definition cert_signing_bytes :: "(delivery_delegation \<Rightarrow> string) \<Rightarrow> delivery_delegation \<Rightarrow> string" where
  "cert_signing_bytes canonical c = DELEGATION_DOMAIN @ canonical (c\<lparr>cert_signature := []\<rparr>)"

definition cert_claim :: "(delivery_delegation \<Rightarrow> string) \<Rightarrow> delivery_delegation \<Rightarrow> authority_claim" where
  "cert_claim canonical c =
     \<lparr>claim_sender = host_agent c, claim_recipient = cert_recipient c, claim_tenant_id = cert_tenant_id c,
      claim_project_id = cert_project_id c, claim_action = DELIVERY_DELEGATE,
      claim_issued_at = cert_issued_at c, claim_expires_at = cert_expires_at c,
      claim_grant_id = host_grant_id c, claim_key_id = host_key_id c,
      claim_signature = cert_signature c, claim_signing_bytes = cert_signing_bytes canonical c\<rparr>"

definition derived_grant :: "delivery_delegation \<Rightarrow> string \<Rightarrow> string \<Rightarrow> capability_grant" where
  "derived_grant c gid action =
     \<lparr>grant_schema_version = 1, grant_id = gid, grant_key_id = child_key_id c, grant_action = action,
      grant_tenant_id = cert_tenant_id c, grant_project_id = cert_project_id c,
      grant_not_before = cert_issued_at c, grant_expires_at = cert_expires_at c, grant_revoked = False\<rparr>"

definition derived_policy :: "delivery_delegation \<Rightarrow> authority_config" where
  "derived_policy c =
     \<lparr>config_schema_version = 1,
      peers = [\<lparr>peer_schema_version = 1, peer_key_id = child_key_id c, peer_agent_id = child_agent c,
                peer_public_key = child_public_key c,
                allowed_actions = DELIVERY_CHECK
                  # (case write_grant_id c of None \<Rightarrow> [] | Some _ \<Rightarrow> [DELIVERY_RECORD]),
                allowed_scopes = [\<lparr>scope_schema_version = 1, scope_tenant_id = cert_tenant_id c,
                                   scope_project_id = cert_project_id c\<rparr>],
                peer_not_before = cert_issued_at c, peer_expires_at = cert_expires_at c,
                peer_revoked = False\<rparr>],
      grants = derived_grant c (read_grant_id c) DELIVERY_CHECK
        # (case write_grant_id c of None \<Rightarrow> [] | Some w \<Rightarrow> [derived_grant c w DELIVERY_RECORD])\<rparr>"

definition validate_write_grant :: "delivery_delegation \<Rightarrow> unit auth" where
  "validate_write_grant c =
     (case write_grant_id c of
        None \<Rightarrow> Ok ()
      | Some w \<Rightarrow> ebind (short_identifier w) (\<lambda>_. ensure (w \<noteq> read_grant_id c) DuplicateTrustEntry))"

definition verify_for_execution ::
  "(delivery_delegation \<Rightarrow> string) \<Rightarrow> (string \<Rightarrow> string \<Rightarrow> string \<Rightarrow> bool) \<Rightarrow> delivery_delegation
   \<Rightarrow> authority_config \<Rightarrow> authority_expectation \<Rightarrow> execution_binding \<Rightarrow> string \<Rightarrow> authority_config auth" where
  "verify_for_execution canonical ed25519 c policy expected_host live assigned_child =
     ebind (ensure (cert_schema_version c = 1
              \<and> starts_with ''/'' (cert_project_root c)
              \<and> length (cert_project_root c) \<le> 4096 \<and> CHR 0x00 \<notin> set (cert_project_root c)
              \<and> length (cert_signature c) = 128 \<and> list_all is_ascii_hexdigit (cert_signature c)
              \<and> length (child_public_key c) = 64 \<and> list_all is_ascii_hexdigit (child_public_key c)
              \<and> execution c = live
              \<and> child_agent c = assigned_child
              \<and> child_agent c \<noteq> host_agent c
              \<and> exec_attempt (execution c) \<noteq> 0
              \<and> exec_attempt (execution c) \<le> MAX_DELIVERY_ATTEMPTS
              \<and> cert_issued_at c < cert_expires_at c
              \<and> cert_expires_at c - cert_issued_at c \<le> seconds MAX_DELEGATION_SECONDS) MalformedBounds) (\<lambda>_.
     ebind (efor [host_agent c, cert_recipient c, cert_tenant_id c, cert_project_id c, host_key_id c,
                  host_grant_id c, child_agent c, child_key_id c, read_grant_id c,
                  exec_graph_id (execution c), exec_node_id (execution c), exec_fence (execution c),
                  exec_task_id (execution c)] short_identifier) (\<lambda>_.
     ebind (validate_write_grant c) (\<lambda>_.
     ebind (authorize ed25519 (cert_claim canonical c) policy expected_host) (\<lambda>_.
     ebind (validate_policy (derived_policy c)) (\<lambda>_.
     Ok (derived_policy c))))))"

section \<open>The authority of a stored execution\<close>

fun authority_error_text :: "task_authority_error \<Rightarrow> string" where
  "authority_error_text MalformedBounds = ''malformed task authority bounds''"
| "authority_error_text UnsupportedAction = ''unsupported task action''"
| "authority_error_text UnknownKey = ''unknown task authority key''"
| "authority_error_text RevokedKey = ''revoked task authority key''"
| "authority_error_text InvalidKey = ''invalid task authority key''"
| "authority_error_text InvalidSignature = ''invalid task descriptor signature''"
| "authority_error_text WrongSender = ''task descriptor sender mismatch''"
| "authority_error_text WrongRecipient = ''task descriptor recipient mismatch''"
| "authority_error_text WrongScope = ''task descriptor scope mismatch''"
| "authority_error_text KeyNotYetValid = ''task authority key is not yet valid''"
| "authority_error_text KeyExpired = ''task authority key is expired''"
| "authority_error_text MissingGrant = ''task capability grant is missing''"
| "authority_error_text RevokedGrant = ''task capability grant is revoked''"
| "authority_error_text GrantNotYetValid = ''task capability grant is not yet valid''"
| "authority_error_text GrantExpired = ''task capability grant is expired''"
| "authority_error_text GrantMismatch = ''task capability grant does not authorize descriptor''"
| "authority_error_text DescriptorNotYetValid = ''task descriptor is not yet valid''"
| "authority_error_text DescriptorExpired = ''task descriptor is expired''"
| "authority_error_text DuplicateTrustEntry = ''duplicate task authority trust entry''"
| "authority_error_text SharedSecretReuse = ''task authority key must not reuse a bearer or channel secret''"

text \<open>\<open>timestamp_millis\<close> rounds down; a negative reading has no \<open>u64\<close>.\<close>

definition epoch_millis :: "int \<Rightarrow> nat option" where
  "epoch_millis now = (let ms = now div 10 ^ 6 in if ms < 0 then None else Some (nat ms))"

definition live_node :: "work_node \<Rightarrow> nat \<Rightarrow> bool" where
  "live_node n now_ms \<longleftrightarrow> status n = Active \<and> execution_started n
     \<and> (case lease_expires_epoch_ms n of None \<Rightarrow> False | Some expiry \<Rightarrow> now_ms < expiry)"

definition child_delivery_authority ::
  "(string \<Rightarrow> string \<Rightarrow> string \<Rightarrow> string \<Rightarrow> string) \<Rightarrow> (string \<Rightarrow> string) \<Rightarrow> (delivery_delegation \<Rightarrow> string)
   \<Rightarrow> (string \<Rightarrow> string \<Rightarrow> string \<Rightarrow> bool) \<Rightarrow> work_graph_store \<Rightarrow> delivery_delegation \<Rightarrow> authority_config
   \<Rightarrow> authority_expectation \<Rightarrow> authority_config store_result" where
  "child_delivery_authority json4 hash_hex canonical ed25519 s c policy expected =
     ebind (ok_or (store_graph s (exec_graph_id (execution c))) (Message ''delegated graph is missing'')) (\<lambda>g.
     ebind (ok_or (get_node g (exec_node_id (execution c))) (Message ''delegated node is missing'')) (\<lambda>n.
     ebind (ok_or (epoch_millis (exp_now expected)) (Message ''invalid verification time'')) (\<lambda>now_ms.
     ebind (ensure (live_node n now_ms) (Message ''delegated execution is not live'')) (\<lambda>_.
     ebind (ok_or (execution_fence n) (Message ''execution fence missing'')) (\<lambda>fence.
     ebind (ok_or (delivery_attempt n) (Message ''execution attempt missing'')) (\<lambda>attempt.
     ebind (execution_key_for_scope json4 hash_hex (project_root_hash s) (graph_id g) (node_id n) fence) (\<lambda>task.
     ebind (lift_wg (root_agent_for g (node_id n))) (\<lambda>host.
     map_err (\<lambda>e. Message (authority_error_text e))
       (verify_for_execution canonical ed25519 c policy
          \<lparr>exp_sender = host, exp_recipient = exp_recipient expected, exp_tenant_id = exp_tenant_id expected,
           exp_project_id = exp_project_id expected, exp_now = exp_now expected\<rparr>
          \<lparr>exec_graph_id = graph_id g, exec_node_id = node_id n, exec_fence = fence,
           exec_task_id = attempt_task_id task attempt, exec_attempt = attempt\<rparr>
          (agent_id n))))))))))"

section \<open>Signed operations\<close>

definition DELIVERY_DOMAIN :: string where
  "DELIVERY_DOMAIN = ''leanctx.delivery.operation.sig.v1'' @ [CHR 0x00]"

definition MAX_DELIVERY_SECONDS :: int where "MAX_DELIVERY_SECONDS = 5 * 60"

record delivery_entry =
  entry_access :: "delivery_access option"
  entry_blake3 :: string
  entry_path :: string
  entry_line_count :: nat
  entry_token_count :: nat
  entry_agent_id :: string
  entry_conversation_id :: string
  entry_mtime :: nat
  entry_relay_content :: "string option"
  entry_relay_mode :: "string option"

datatype delivery_operation =
    Check string string "string option"
  | Record delivery_entry

record delivery_authority =
  auth_schema_version :: nat
  auth_sender :: string
  auth_recipient :: string
  auth_tenant_id :: string
  auth_project_id :: string
  auth_action :: string
  auth_request_digest :: string
  auth_issued_at :: int
  auth_expires_at :: int
  auth_nonce :: string
  auth_grant_ref :: capability_grant_ref
  auth_key_id :: string
  auth_signature :: string

record signed_delivery_request =
  authority :: delivery_authority
  operation :: delivery_operation
  delegation :: "delivery_delegation option"

fun action_of :: "delivery_operation \<Rightarrow> string" where
  "action_of (Check path blake3 conversation) = DELIVERY_CHECK"
| "action_of (Record entry) = DELIVERY_RECORD"

text \<open>
  \<open>canonical_request\<close> is the canonical JSON of an operation, \<open>canonical_bound\<close> that of the triple
  of the domain text, the operation and the certificate.
\<close>

definition bound_request_digest ::
  "(delivery_operation \<Rightarrow> string) \<Rightarrow> (delivery_operation \<Rightarrow> delivery_delegation \<Rightarrow> string) \<Rightarrow> (string \<Rightarrow> string)
   \<Rightarrow> signed_delivery_request \<Rightarrow> string" where
  "bound_request_digest canonical_request canonical_bound sha256_hex r =
     ''sha256:'' @ sha256_hex (case delegation r of
        None \<Rightarrow> canonical_request (operation r)
      | Some certificate \<Rightarrow> canonical_bound (operation r) certificate)"

definition auth_signing_bytes :: "(delivery_authority \<Rightarrow> string) \<Rightarrow> delivery_authority \<Rightarrow> string" where
  "auth_signing_bytes canonical a = DELIVERY_DOMAIN @ canonical (a\<lparr>auth_signature := []\<rparr>)"

definition auth_claim :: "(delivery_authority \<Rightarrow> string) \<Rightarrow> delivery_authority \<Rightarrow> authority_claim" where
  "auth_claim canonical a =
     \<lparr>claim_sender = auth_sender a, claim_recipient = auth_recipient a, claim_tenant_id = auth_tenant_id a,
      claim_project_id = auth_project_id a, claim_action = auth_action a,
      claim_issued_at = auth_issued_at a, claim_expires_at = auth_expires_at a,
      claim_grant_id = grant_ref_id (auth_grant_ref a), claim_key_id = auth_key_id a,
      claim_signature = auth_signature a, claim_signing_bytes = auth_signing_bytes canonical a\<rparr>"

definition verify_delivery_authority ::
  "(delivery_authority \<Rightarrow> string) \<Rightarrow> (string \<Rightarrow> string \<Rightarrow> string \<Rightarrow> bool) \<Rightarrow> delivery_authority
   \<Rightarrow> authority_config \<Rightarrow> authority_expectation \<Rightarrow> string \<Rightarrow> string \<Rightarrow> unit auth" where
  "verify_delivery_authority canonical ed25519 a policy expected op request_digest =
     ebind (ensure (is_delivery_action (auth_action a) \<and> auth_action a = op) UnsupportedAction) (\<lambda>_.
     ebind (ensure (auth_schema_version a = 1
              \<and> auth_issued_at a < auth_expires_at a
              \<and> auth_expires_at a - auth_issued_at a \<le> seconds MAX_DELIVERY_SECONDS
              \<and> length (auth_signature a) = 128 \<and> list_all is_ascii_hexdigit (auth_signature a)
              \<and> auth_request_digest a = request_digest) MalformedBounds) (\<lambda>_.
     ebind (efor [auth_sender a, auth_recipient a, auth_tenant_id a, auth_project_id a, auth_key_id a]
              short_identifier) (\<lambda>_.
     ebind (validate_task_identifier (auth_nonce a) MAX_IDEMPOTENCY_KEY_BYTES) (\<lambda>_.
     ebind (validate_digest (auth_request_digest a)) (\<lambda>_.
     ebind (validate_grant_ref (auth_grant_ref a)) (\<lambda>_.
     authorize ed25519 (auth_claim canonical a) policy expected))))))"

section \<open>The scoped delivery route\<close>

text \<open>
  A path is compared by its components: repeated separators and \<open>.\<close> parts are dropped, except
  a leading \<open>.\<close> of a relative path.
\<close>

definition path_components :: "string \<Rightarrow> bool \<times> string list" where
  "path_components p =
     (let parts = split_on (\<lambda>c. c = CHR ''/'') p; keep = filter (\<lambda>x. x \<noteq> [] \<and> x \<noteq> ''.'')
      in (starts_with ''/'' p,
          if \<not> starts_with ''/'' p \<and> hd parts = ''.'' then ''.'' # keep (tl parts) else keep parts))"

definition path_starts_with :: "string \<Rightarrow> string \<Rightarrow> bool" where
  "path_starts_with p base \<longleftrightarrow>
     fst (path_components p) = fst (path_components base)
     \<and> take (length (snd (path_components base))) (snd (path_components p)) = snd (path_components base)"


text \<open>What the route asks the file system: \<open>canonicalize\<close>, \<open>is_dir\<close>, \<open>is_file\<close>.\<close>

record delivery_fs =
  fs_canonical :: "string \<Rightarrow> string option"
  fs_is_dir :: "string \<Rightarrow> bool"
  fs_is_file :: "string \<Rightarrow> bool"

record delivery_server =
  a2a_recipient_id :: "string option"
  a2a_tenant_id :: "string option"
  a2a_project_id :: "string option"
  a2a_task_authority :: authority_config
  server_root :: string

datatype delivery_refusal = ScopeUnconfigured | DeliveryUnauthorized | InvalidDelivery

record delivery_crypto =
  dc_json4 :: "string \<Rightarrow> string \<Rightarrow> string \<Rightarrow> string \<Rightarrow> string"
  dc_hash_hex :: "string \<Rightarrow> string"
  dc_sha256_hex :: "string \<Rightarrow> string"
  dc_certificate :: "delivery_delegation \<Rightarrow> string"
  dc_request :: "delivery_operation \<Rightarrow> string"
  dc_bound :: "delivery_operation \<Rightarrow> delivery_delegation \<Rightarrow> string"
  dc_authority :: "delivery_authority \<Rightarrow> string"
  dc_ed25519 :: "string \<Rightarrow> string \<Rightarrow> string \<Rightarrow> bool"

fun operation_path :: "delivery_operation \<Rightarrow> string" where
  "operation_path (Check path blake3 conversation) = path"
| "operation_path (Record entry) = entry_path entry"

fun record_privacy :: "delivery_operation \<Rightarrow> delivery_privacy option" where
  "record_privacy (Check path blake3 conversation) = None"
| "record_privacy (Record entry) = map_option access_privacy (entry_access entry)"

text \<open>The block that runs for a request with a certificate; \<open>store\<close> is what loading the store gives.\<close>

definition delegated_policy ::
  "delivery_crypto \<Rightarrow> delivery_fs \<Rightarrow> delivery_server \<Rightarrow> work_graph_store store_result \<Rightarrow> string \<Rightarrow> string
   \<Rightarrow> string \<Rightarrow> int \<Rightarrow> delivery_operation \<Rightarrow> delivery_delegation \<Rightarrow> authority_config store_result" where
  "delegated_policy cr fs srv store recipient tenant project now request c =
     ebind (ok_or (fs_canonical fs (server_root srv)) (Message ''canonicalize'')) (\<lambda>root.
     ebind (ok_or (fs_canonical fs (operation_path request)) (Message ''canonicalize'')) (\<lambda>path.
     ebind (ensure (path_components (cert_project_root c) = path_components root
              \<and> fs_is_dir fs root \<and> fs_is_file fs path \<and> path_starts_with path root
              \<and> (case record_privacy request of None \<Rightarrow> True | Some p \<Rightarrow> p = cert_privacy c))
              (Message ''delegated delivery path or privacy mismatch'')) (\<lambda>_.
     ebind store (\<lambda>s.
     child_delivery_authority (dc_json4 cr) (dc_hash_hex cr) (dc_certificate cr) (dc_ed25519 cr) s c
       (a2a_task_authority srv)
       \<lparr>exp_sender = child_agent c, exp_recipient = recipient, exp_tenant_id = tenant,
        exp_project_id = project, exp_now = now\<rparr>))))"

fun check_operation :: "delivery_scope \<Rightarrow> string \<Rightarrow> delivery_operation \<Rightarrow> delivery_refusal + unit" where
  "check_operation scope sender (Check path blake3 conversation) =
     ensure (\<not> is_blank path \<and> length path \<le> 4096 \<and> CHR 0x00 \<notin> set path
       \<and> (case conversation of None \<Rightarrow> True | Some i \<Rightarrow> i \<noteq> [] \<and> length i \<le> 256)) InvalidDelivery"
| "check_operation scope sender (Record entry) =
     ensure (entry_agent_id entry = sender
       \<and> (case entry_access entry of None \<Rightarrow> False | Some access \<Rightarrow> access_scope access = scope))
       DeliveryUnauthorized"

text \<open>
  \<open>execute\<close> up to the replay guard: \<open>now\<close> is read at the start, \<open>now'\<close> for the certificate. The
  result is the scope in which the operation then runs.
\<close>

definition admit_delivery ::
  "delivery_crypto \<Rightarrow> delivery_fs \<Rightarrow> delivery_server \<Rightarrow> work_graph_store store_result \<Rightarrow> int \<Rightarrow> int
   \<Rightarrow> signed_delivery_request \<Rightarrow> delivery_refusal + delivery_scope" where
  "admit_delivery cr fs srv store now now' r =
     (case (a2a_recipient_id srv, a2a_tenant_id srv, a2a_project_id srv) of
        (Some recipient, Some tenant, Some project) \<Rightarrow>
          ebind (map_err (\<lambda>_. ScopeUnconfigured) (new_delivery_scope tenant project)) (\<lambda>scope.
          ebind (case delegation r of
                   None \<Rightarrow> Ok (a2a_task_authority srv)
                 | Some c \<Rightarrow> map_err (\<lambda>_. DeliveryUnauthorized)
                     (delegated_policy cr fs srv store recipient tenant project now' (operation r) c)) (\<lambda>policy.
          ebind (map_err (\<lambda>_. DeliveryUnauthorized)
                   (verify_delivery_authority (dc_authority cr) (dc_ed25519 cr) (authority r) policy
                      \<lparr>exp_sender = auth_sender (authority r), exp_recipient = recipient,
                       exp_tenant_id = tenant, exp_project_id = project, exp_now = now\<rparr>
                      (action_of (operation r))
                      (bound_request_digest (dc_request cr) (dc_bound cr) (dc_sha256_hex cr) r))) (\<lambda>_.
          ebind (check_operation scope (auth_sender (authority r)) (operation r)) (\<lambda>_. Ok scope))))
      | _ \<Rightarrow> Err ScopeUnconfigured)"

end
