(* ===== verification/Context_Capsule.thy ===== *)
theory Context_Capsule
  imports Task_Authority "HOL-Library.Product_Lexorder"
begin

text \<open>
  The context capsule (\<open>core/context_capsule.rs\<close>), the manifest one agent hands to another:
  its canonical form and the identifier computed from it, its validation, the relay envelope
  and the signed form. JSON (\<open>json\<close>, \<open>envelope_json\<close>), BLAKE3 in hexadecimal (\<open>hash_hex\<close>), the
  decoding of an Ed25519 key (\<open>key_ok\<close>) and Ed25519 itself (\<open>ed25519\<close>, \<open>signer\<close>) are arguments.
\<close>

section \<open>Data\<close>

definition CONTEXT_CAPSULE_SCHEMA_VERSION :: nat where "CONTEXT_CAPSULE_SCHEMA_VERSION = 1"
definition MAX_CAPSULE_REFERENCES :: nat where "MAX_CAPSULE_REFERENCES = 256"
definition MAX_CAPSULE_REF_LIST_ITEMS :: nat where "MAX_CAPSULE_REF_LIST_ITEMS = 256"
definition MAX_CAPSULE_ALLOWED_AGENTS :: nat where "MAX_CAPSULE_ALLOWED_AGENTS = 64"
definition MAX_CAPSULE_HOPS :: nat where "MAX_CAPSULE_HOPS = 256"
definition AGENT_ENVELOPE_SCHEMA_VERSION :: nat where "AGENT_ENVELOPE_SCHEMA_VERSION = 1"

datatype capsule_reference_kind = File | Symbol | Evidence | Recovery

text \<open>The derived order of the enum is the order of its constructors.\<close>

fun reference_rank :: "capsule_reference_kind \<Rightarrow> nat" where
  "reference_rank File = 0" | "reference_rank Symbol = 1" | "reference_rank Evidence = 2" | "reference_rank Recovery = 3"

lemma reference_rank_inj: "reference_rank a = reference_rank b \<Longrightarrow> a = b"
  by (cases a; cases b) simp_all

instantiation capsule_reference_kind :: linorder
begin

definition less_eq_capsule_reference_kind :: "capsule_reference_kind \<Rightarrow> capsule_reference_kind \<Rightarrow> bool" where
  "less_eq_capsule_reference_kind a b \<longleftrightarrow> reference_rank a \<le> reference_rank b"

definition less_capsule_reference_kind :: "capsule_reference_kind \<Rightarrow> capsule_reference_kind \<Rightarrow> bool" where
  "less_capsule_reference_kind a b \<longleftrightarrow> reference_rank a < reference_rank b"

instance
  by standard
     (auto simp: less_eq_capsule_reference_kind_def less_capsule_reference_kind_def intro: reference_rank_inj)

end

record capsule_reference =
  ref_kind :: capsule_reference_kind
  content_ref :: string
  ref_freshness_ref :: string
  ref_recovery_ref :: "string option"

datatype capsule_sensitivity = Public | Internal | Restricted

record capsule_budget =
  cap_tokens_used :: nat
  cap_tokens_remaining :: nat
  cap_cost_micros_used :: nat
  cap_cost_micros_remaining :: nat
  cap_latency_ms_used :: nat
  cap_latency_ms_remaining :: nat

record capsule_chain =
  cap_chain_id :: string
  parent_capsule_ref :: "string option"
  chain_owner_agent_id :: string
  attribution_ref :: string
  hop :: nat

record context_capsule =
  cap_schema_version :: nat
  capsule_id :: string
  cap_request_id :: string
  cap_session_id :: string
  cap_agent_id :: string
  intent_ref :: string
  cap_task_ref :: string
  cap_expected_outcome_ref :: string
  acceptance_criteria_refs :: "string list"
  references :: "capsule_reference list"
  finding_refs :: "string list"
  decision_refs :: "string list"
  uncertainty_refs :: "string list"
  negative_result_refs :: "string list"
  source_ref :: string
  cap_policy_ref :: string
  contract_ref :: string
  freshness_ref :: string
  sensitivity :: capsule_sensitivity
  allowed_agent_ids :: "string list"
  cap_budget :: capsule_budget
  cap_chain :: capsule_chain
  quality_signal_refs :: "string list"
  recovery_refs :: "string list"
  delta_from :: "string option"

datatype context_capsule_error = UnsupportedVersion nat | Invalid string | Serialize string

text \<open>A call returns an error of the source, or ends in the panic of a slice inside a character.\<close>

datatype capsule_failure = Refused context_capsule_error | SlicePanic

type_synonym 'a capsule_result = "capsule_failure + 'a"

abbreviation invalid :: "string \<Rightarrow> capsule_failure" where
  "invalid reason \<equiv> Refused (Invalid reason)"

section \<open>Canonical form and identifier\<close>

definition reference_key :: "capsule_reference \<Rightarrow> capsule_reference_kind \<times> string" where
  "reference_key r = (ref_kind r, content_ref r)"

definition sort_dedup :: "string list \<Rightarrow> string list" where
  "sort_dedup refs = remdups_adj (sort refs)"

definition canonicalize :: "context_capsule \<Rightarrow> context_capsule" where
  "canonicalize c =
     c\<lparr>acceptance_criteria_refs := sort (acceptance_criteria_refs c),
       references := sort_key reference_key (references c),
       finding_refs := sort_dedup (finding_refs c),
       decision_refs := sort_dedup (decision_refs c),
       uncertainty_refs := sort_dedup (uncertainty_refs c),
       negative_result_refs := sort_dedup (negative_result_refs c),
       quality_signal_refs := sort_dedup (quality_signal_refs c),
       recovery_refs := sort_dedup (recovery_refs c),
       allowed_agent_ids := sort_dedup (allowed_agent_ids c)\<rparr>"

definition pending_capsule :: "context_capsule \<Rightarrow> context_capsule" where
  "pending_capsule c = (canonicalize c)\<lparr>capsule_id := ''capsule:pending''\<rparr>"

definition computed_capsule_id ::
  "(context_capsule \<Rightarrow> string) \<Rightarrow> (string \<Rightarrow> string) \<Rightarrow> context_capsule \<Rightarrow> string" where
  "computed_capsule_id json hash_hex c = ''capsule:'' @ hash_hex (json (pending_capsule c))"

definition assign_capsule_id ::
  "(context_capsule \<Rightarrow> string) \<Rightarrow> (string \<Rightarrow> string) \<Rightarrow> context_capsule \<Rightarrow> context_capsule" where
  "assign_capsule_id json hash_hex c =
     (let d = canonicalize c in d\<lparr>capsule_id := computed_capsule_id json hash_hex d\<rparr>)"

section \<open>Validation\<close>

definition bounded :: "string \<Rightarrow> nat \<Rightarrow> nat \<Rightarrow> unit capsule_result" where
  "bounded label count maximum =
     ensure (count \<le> maximum) (invalid (label @ '' exceeds '' @ show_nat maximum))"

definition capsule_opaque_ref :: "string \<Rightarrow> string \<Rightarrow> unit capsule_result" where
  "capsule_opaque_ref label value =
     (case split_once CHR '':'' value of
        None \<Rightarrow> Err (invalid (label @ '' must use scheme:identifier form''))
      | Some (scheme, identifier) \<Rightarrow>
          ensure (scheme \<noteq> [] \<and> list_all scheme_char scheme
                  \<and> identifier \<noteq> [] \<and> length value \<le> 256 \<and> list_all is_ascii_graphic identifier)
            (invalid (''invalid '' @ label)))"

definition agent_id_value :: "string \<Rightarrow> unit capsule_result" where
  "agent_id_value value =
     ensure (value \<noteq> [] \<and> length value \<le> 256 \<and> list_all is_ascii_graphic value) (invalid ''invalid agent ID'')"

definition optional_ref :: "string \<Rightarrow> string option \<Rightarrow> unit capsule_result" where
  "optional_ref label v = (case v of None \<Rightarrow> Ok () | Some r \<Rightarrow> capsule_opaque_ref label r)"

fun validate_references ::
  "capsule_reference list \<Rightarrow> (capsule_reference_kind \<times> string) set \<Rightarrow> unit capsule_result" where
  "validate_references [] seen = Ok ()"
| "validate_references (r # rs) seen =
     ebind (capsule_opaque_ref ''reference content_ref'' (content_ref r)) (\<lambda>_.
     ebind (capsule_opaque_ref ''reference freshness_ref'' (ref_freshness_ref r)) (\<lambda>_.
     ebind (optional_ref ''reference recovery_ref'' (ref_recovery_ref r)) (\<lambda>_.
     ebind (ensure (reference_key r \<notin> seen) (invalid ''duplicate reference kind/content_ref pair'')) (\<lambda>_.
     validate_references rs (insert (reference_key r) seen)))))"

definition validate_ref_lists :: "string list list \<Rightarrow> unit capsule_result" where
  "validate_ref_lists ls = efor ls (\<lambda>l. efor l (capsule_opaque_ref ''list reference''))"

fun validate_agent_ids :: "string list \<Rightarrow> string set \<Rightarrow> unit capsule_result" where
  "validate_agent_ids [] seen = Ok ()"
| "validate_agent_ids (i # ids) seen =
     ebind (agent_id_value i) (\<lambda>_.
     ebind (ensure (i \<notin> seen) (invalid ''allowed_agent_ids must be unique'')) (\<lambda>_.
     validate_agent_ids ids (insert i seen)))"

text \<open>An optional reference to another capsule: well formed and not the capsule itself.\<close>

definition other_capsule_ref :: "string \<Rightarrow> string \<Rightarrow> string option \<Rightarrow> unit capsule_result" where
  "other_capsule_ref label own v =
     (case v of
        None \<Rightarrow> Ok ()
      | Some r \<Rightarrow> ebind (capsule_opaque_ref label r) (\<lambda>_.
                  ensure (r \<noteq> own) (invalid (label @ '' cannot self-reference''))))"

definition capsule_refs :: "context_capsule \<Rightarrow> (string \<times> string) list" where
  "capsule_refs c =
     [(''capsule_id'', capsule_id c), (''request_id'', cap_request_id c), (''session_id'', cap_session_id c),
      (''intent_ref'', intent_ref c), (''task_ref'', cap_task_ref c),
      (''expected_outcome_ref'', cap_expected_outcome_ref c), (''source_ref'', source_ref c),
      (''policy_ref'', cap_policy_ref c), (''contract_ref'', contract_ref c),
      (''freshness_ref'', freshness_ref c), (''chain_id'', cap_chain_id (cap_chain c)),
      (''attribution_ref'', attribution_ref (cap_chain c))]"

definition capsule_ref_lists :: "context_capsule \<Rightarrow> (string \<times> string list) list" where
  "capsule_ref_lists c =
     [(''acceptance_criteria_refs'', acceptance_criteria_refs c), (''finding_refs'', finding_refs c),
      (''decision_refs'', decision_refs c), (''uncertainty_refs'', uncertainty_refs c),
      (''negative_result_refs'', negative_result_refs c), (''quality_signal_refs'', quality_signal_refs c),
      (''recovery_refs'', recovery_refs c)]"

definition validate_capsule ::
  "(context_capsule \<Rightarrow> string) \<Rightarrow> (string \<Rightarrow> string) \<Rightarrow> context_capsule \<Rightarrow> unit capsule_result" where
  "validate_capsule json hash_hex c =
     ebind (ensure (cap_schema_version c = CONTEXT_CAPSULE_SCHEMA_VERSION)
              (Refused (UnsupportedVersion (cap_schema_version c)))) (\<lambda>_.
     ebind (efor (capsule_refs c) (\<lambda>(label, value).
              ebind (capsule_opaque_ref label value) (\<lambda>_. agent_id_value (cap_agent_id c)))) (\<lambda>_.
     ebind (ensure (starts_with ''capsule:'' (capsule_id c)) (invalid ''capsule_id must use capsule: scheme'')) (\<lambda>_.
     ebind (other_capsule_ref ''delta_from'' (capsule_id c) (delta_from c)) (\<lambda>_.
     ebind (other_capsule_ref ''parent_capsule_ref'' (capsule_id c) (parent_capsule_ref (cap_chain c))) (\<lambda>_.
     ebind (ensure (hop (cap_chain c) \<le> MAX_CAPSULE_HOPS)
              (invalid (''chain hop exceeds '' @ show_nat MAX_CAPSULE_HOPS))) (\<lambda>_.
     ebind (bounded ''references'' (length (references c)) MAX_CAPSULE_REFERENCES) (\<lambda>_.
     ebind (efor (capsule_ref_lists c) (\<lambda>(label, l). bounded label (length l) MAX_CAPSULE_REF_LIST_ITEMS)) (\<lambda>_.
     ebind (validate_references (references c) {}) (\<lambda>_.
     ebind (validate_ref_lists (map snd (capsule_ref_lists c))) (\<lambda>_.
     ebind (ensure (allowed_agent_ids c \<noteq> []) (invalid ''allowed_agent_ids cannot be empty'')) (\<lambda>_.
     ebind (bounded ''allowed_agent_ids'' (length (allowed_agent_ids c)) MAX_CAPSULE_ALLOWED_AGENTS) (\<lambda>_.
     ebind (validate_agent_ids (allowed_agent_ids c) {}) (\<lambda>_.
     ebind (agent_id_value (chain_owner_agent_id (cap_chain c))) (\<lambda>_.
     ensure (capsule_id c = computed_capsule_id json hash_hex c)
       (invalid ''capsule_id does not match canonical content'')))))))))))))))"

section \<open>The relay envelope\<close>

record agent_envelope =
  env_schema_version :: nat
  relay_id :: string
  from_agent_id :: string
  to_agent_id :: string
  env_capsule_ref :: string
  budget_tokens :: nat
  env_request_id :: string
  env_session_id :: string

definition computed_relay_id ::
  "(agent_envelope \<Rightarrow> string) \<Rightarrow> (string \<Rightarrow> string) \<Rightarrow> agent_envelope \<Rightarrow> string" where
  "computed_relay_id envelope_json hash_hex e =
     ''agent-relay:'' @ hash_hex (envelope_json (e\<lparr>relay_id := ''agent-relay:pending''\<rparr>))"

definition assign_relay_id ::
  "(agent_envelope \<Rightarrow> string) \<Rightarrow> (string \<Rightarrow> string) \<Rightarrow> agent_envelope \<Rightarrow> agent_envelope" where
  "assign_relay_id envelope_json hash_hex e = e\<lparr>relay_id := computed_relay_id envelope_json hash_hex e\<rparr>"

definition validate_envelope :: "agent_envelope \<Rightarrow> unit capsule_result" where
  "validate_envelope e =
     ebind (ensure (env_schema_version e = AGENT_ENVELOPE_SCHEMA_VERSION)
              (Refused (UnsupportedVersion (env_schema_version e)))) (\<lambda>_.
     ebind (agent_id_value (from_agent_id e)) (\<lambda>_.
     ebind (agent_id_value (to_agent_id e)) (\<lambda>_.
     ebind (ensure (from_agent_id e \<noteq> to_agent_id e)
              (invalid ''relay requires distinct source and target agents'')) (\<lambda>_.
     ebind (ensure (starts_with ''capsule:'' (env_capsule_ref e)) (invalid ''invalid capsule_ref'')) (\<lambda>_.
     ensure (budget_tokens e \<noteq> 0) (invalid ''budget_tokens must be positive''))))))"

definition agent_envelope_for ::
  "(context_capsule \<Rightarrow> string) \<Rightarrow> (agent_envelope \<Rightarrow> string) \<Rightarrow> (string \<Rightarrow> string) \<Rightarrow> context_capsule \<Rightarrow> string
   \<Rightarrow> agent_envelope capsule_result" where
  "agent_envelope_for json envelope_json hash_hex c target =
     ebind (validate_capsule json hash_hex c) (\<lambda>_.
     ebind (ensure (list_ex (\<lambda>a. a = target) (allowed_agent_ids c))
              (invalid ''target agent is not in allowed_agent_ids'')) (\<lambda>_.
     Ok (assign_relay_id envelope_json hash_hex
           \<lparr>env_schema_version = AGENT_ENVELOPE_SCHEMA_VERSION, relay_id = ''agent-relay:pending'',
            from_agent_id = chain_owner_agent_id (cap_chain c), to_agent_id = target,
            env_capsule_ref = capsule_id c, budget_tokens = cap_tokens_remaining (cap_budget c),
            env_request_id = cap_request_id c, env_session_id = cap_session_id c\<rparr>)))"

section \<open>The signed capsule\<close>

record signed_capsule =
  capsule :: context_capsule
  signer_public_key :: string
  capsule_signature :: string

definition hex_lower :: "nat \<Rightarrow> char" where
  "hex_lower d = ''0123456789abcdef'' ! d"

definition encode_hex :: "string \<Rightarrow> string" where
  "encode_hex bytes = concat (map (\<lambda>b. [hex_lower (byte b div 16), hex_lower (byte b mod 16)]) bytes)"

text \<open>
  \<open>decode_hex\<close> checks that the number of bytes is even and then slices two bytes at a time; a
  slice that begins or ends inside a character, that is before a continuation byte, panics.
\<close>

definition is_continuation :: "char \<Rightarrow> bool" where
  "is_continuation c \<longleftrightarrow> 128 \<le> byte c \<and> byte c < 192"

fun decode_pairs :: "string \<Rightarrow> string capsule_result" where
  "decode_pairs [] = Ok []"
| "decode_pairs [a] = Err (invalid ''odd length'')"
| "decode_pairs (a # b # s) =
     ebind (ensure (\<not> is_continuation a \<and> (s = [] \<or> \<not> is_continuation (hd s))) SlicePanic) (\<lambda>_.
     ebind (ok_or (hex_pair a b) (invalid ''invalid digit found in string'')) (\<lambda>c.
     ebind (decode_pairs s) (\<lambda>cs. Ok (c # cs))))"

definition decode_hex :: "string \<Rightarrow> string capsule_result" where
  "decode_hex s = ebind (ensure (even (length s)) (invalid ''odd length'')) (\<lambda>_. decode_pairs s)"

text \<open>\<open>map_err\<close> with a fixed text; a panic is not an error and passes.\<close>

definition relabel :: "string \<Rightarrow> capsule_failure \<Rightarrow> capsule_failure" where
  "relabel reason f = (case f of SlicePanic \<Rightarrow> SlicePanic | Refused _ \<Rightarrow> invalid reason)"

definition sign_capsule ::
  "(context_capsule \<Rightarrow> string) \<Rightarrow> (string \<Rightarrow> string) \<Rightarrow> (string \<Rightarrow> string) \<Rightarrow> string \<Rightarrow> context_capsule
   \<Rightarrow> signed_capsule capsule_result" where
  "sign_capsule json hash_hex signer public_key c =
     ebind (validate_capsule json hash_hex c) (\<lambda>_.
     Ok \<lparr>capsule = c, signer_public_key = encode_hex public_key,
         capsule_signature = encode_hex (signer (json c))\<rparr>)"

definition validate_structure ::
  "(context_capsule \<Rightarrow> string) \<Rightarrow> (string \<Rightarrow> string) \<Rightarrow> signed_capsule \<Rightarrow> unit capsule_result" where
  "validate_structure json hash_hex sc =
     ebind (validate_capsule json hash_hex (capsule sc)) (\<lambda>_.
     ebind (ensure (length (signer_public_key sc) = 64) (invalid ''invalid signer_public_key length'')) (\<lambda>_.
     ensure (length (capsule_signature sc) = 128) (invalid ''invalid signature length'')))"

definition verify_signed_capsule ::
  "(context_capsule \<Rightarrow> string) \<Rightarrow> (string \<Rightarrow> string) \<Rightarrow> (string \<Rightarrow> bool) \<Rightarrow> (string \<Rightarrow> string \<Rightarrow> string \<Rightarrow> bool)
   \<Rightarrow> signed_capsule \<Rightarrow> string \<Rightarrow> unit capsule_result" where
  "verify_signed_capsule json hash_hex key_ok ed25519 sc pinned_key =
     ebind (validate_structure json hash_hex sc) (\<lambda>_.
     ebind (map_err (relabel ''invalid signer hex'') (decode_hex (signer_public_key sc))) (\<lambda>key.
     ebind (ensure (length key = 32) (invalid ''key must be 32 bytes'')) (\<lambda>_.
     ebind (ensure (key_ok key) (invalid ''invalid Ed25519 key'')) (\<lambda>_.
     ebind (ensure (key = pinned_key) (invalid ''signer key does not match pinned key'')) (\<lambda>_.
     ebind (map_err (relabel ''invalid signature hex'') (decode_hex (capsule_signature sc))) (\<lambda>sig.
     ebind (ensure (length sig = 64) (invalid ''signature must be 64 bytes'')) (\<lambda>_.
     ensure (ed25519 key (json (capsule sc)) sig) (invalid ''signature verification failed''))))))))"

end
