(* ===== verification/Work_Graph_Delegation.thy ===== *)
theory Work_Graph_Delegation
  imports Delivery Context_Capsule Agent_Lease
begin

text \<open>
  The control boundary of a node that a host starts (\<open>core/work_graph_delegation.rs\<close>): the start
  window, the lease resources of a node and of its path claims, the start plan and the capsule
  that must authorize it; and the leases of one incarnation that the tool takes and gives back
  (\<open>crates/lean-ctx-server/src/tools/ctx_work_graph.rs\<close>). The project hash of the root is an
  argument (\<open>scope\<close>), as are JSON, BLAKE3 and what the plan asks the file system.
\<close>

section \<open>Windows and resources\<close>

definition MAX_START_WINDOW_MS :: nat where "MAX_START_WINDOW_MS = 30 * 60 * 1000"
definition DEFAULT_START_WINDOW_MS :: nat where "DEFAULT_START_WINDOW_MS = 300000"

definition start_window_ms :: "nat \<Rightarrow> nat store_result" where
  "start_window_ms timeout_ms =
     (if timeout_ms = 0 \<or> MAX_START_WINDOW_MS < timeout_ms
      then Err (Message (''timeout_ms must be between 1 and '' @ show_nat MAX_START_WINDOW_MS))
      else Ok timeout_ms)"

definition node_lease_resource ::
  "(string \<Rightarrow> string \<Rightarrow> string \<Rightarrow> string) \<Rightarrow> (string \<Rightarrow> string) \<Rightarrow> string \<Rightarrow> string \<Rightarrow> string \<Rightarrow> string store_result"
where
  "node_lease_resource json3 hash_hex scope gid nid =
     ebind (validate_id gid ''graph_id'') (\<lambda>_.
     ebind (validate_id nid ''node_id'') (\<lambda>_.
     Ok (''work-graph-node:'' @ hash_hex (json3 scope gid nid))))"

text \<open>An error of the lease registry, or a message.\<close>

datatype start_failure = Refusal store_failure | LeaseError agent_lease_error | CapsuleError capsule_failure

type_synonym 'a start_result = "start_failure + 'a"

definition claim_relative :: "string \<Rightarrow> string \<Rightarrow> string start_result" where
  "claim_relative scope claimed =
     (case split_once CHR ''/'' claimed of
        None \<Rightarrow> Ok claimed
      | Some (head, rest) \<Rightarrow>
          if head = scope then Ok rest
          else if length head = length scope \<and> list_all is_ascii_hexdigit head
          then Err (Refusal (Message ''path claim belongs to another project''))
          else Ok claimed)"

definition path_lease_resource ::
  "(string \<Rightarrow> string) \<Rightarrow> (string \<Rightarrow> string \<Rightarrow> string) \<Rightarrow> string \<Rightarrow> string \<Rightarrow> string start_result" where
  "path_lease_resource fold_case scoped_digest scope claim =
     ebind (ok_or (strip_prefix ''path:'' claim) (Refusal (Message ''path claim must use path: scheme''))) (\<lambda>claimed.
     ebind (claim_relative scope claimed) (\<lambda>relative.
     map_err LeaseError (project_path_resource fold_case scoped_digest scope relative)))"

section \<open>The start plan\<close>

record start_plan =
  plan_graph_id :: string
  plan_node :: work_node
  root_agent_id :: string
  plan_parent_capsule_ref :: "string option"
  plan_project_root :: string
  window_ms :: nat

text \<open>\<open>resolve\<close> is \<open>canonicalize\<close>: it returns the resolved path or the text of its error.\<close>

definition validate_plan ::
  "(string \<Rightarrow> string + string) \<Rightarrow> (string \<Rightarrow> bool) \<Rightarrow> start_plan \<Rightarrow> string store_result" where
  "validate_plan resolve is_dir p =
     ebind (ensure (plan_graph_id p \<noteq> [] \<and> length (plan_graph_id p) \<le> 128) (Message ''invalid graph_id'')) (\<lambda>_.
     ebind (start_window_ms (window_ms p)) (\<lambda>_.
     ebind (ok_or (execution_fence (plan_node p)) (Message ''node must carry a live execution fence'')) (\<lambda>fence.
     ebind (ensure (task_ref (plan_node p) \<noteq> [] \<and> policy_ref (plan_node p) \<noteq> [])
              (Message ''node task/policy context is not configured'')) (\<lambda>_.
     ebind (map_err (\<lambda>e. Message (''invalid project root: '' @ e)) (resolve (plan_project_root p))) (\<lambda>root.
     ebind (ensure (is_dir root) (Message ''project root is not a directory'')) (\<lambda>_.
     Ok fence))))))"

definition validate_capsule_scope :: "start_plan \<Rightarrow> context_capsule \<Rightarrow> unit store_result" where
  "validate_capsule_scope p c =
     ensure (capsule_id c = capsule_ref (plan_node p)
        \<and> cap_task_ref c = task_ref (plan_node p)
        \<and> cap_policy_ref c = policy_ref (plan_node p)
        \<and> cap_expected_outcome_ref c = expected_outcome_ref (plan_node p)
        \<and> cap_chain_id (cap_chain c) = ''graph:'' @ plan_graph_id p
        \<and> parent_capsule_ref (cap_chain c) = plan_parent_capsule_ref p
        \<and> hop (cap_chain c) = depth (plan_node p)
        \<and> chain_owner_agent_id (cap_chain c) = root_agent_id p
        \<and> list_ex (\<lambda>a. a = agent_id (plan_node p)) (allowed_agent_ids c)
        \<and> tokens_allocated (budget (plan_node p)) \<le> cap_tokens_remaining (cap_budget c)
        \<and> cost_micros_allocated (budget (plan_node p)) \<le> cap_cost_micros_remaining (cap_budget c)
        \<and> window_ms p \<le> cap_latency_ms_remaining (cap_budget c))
       (Message ''capsule does not authorize this node or budget'')"

definition verify_capsule ::
  "(context_capsule \<Rightarrow> string) \<Rightarrow> (string \<Rightarrow> string) \<Rightarrow> (string \<Rightarrow> bool) \<Rightarrow> (string \<Rightarrow> string \<Rightarrow> string \<Rightarrow> bool)
   \<Rightarrow> start_plan \<Rightarrow> signed_capsule \<Rightarrow> string \<Rightarrow> unit start_result" where
  "verify_capsule json hash_hex key_ok ed25519 p sc root_key =
     ebind (map_err CapsuleError (verify_signed_capsule json hash_hex key_ok ed25519 sc root_key)) (\<lambda>_.
     map_err Refusal (validate_capsule_scope p (capsule sc)))"

section \<open>The leases of an incarnation\<close>

type_synonym incarnation_lease = "agent_lease_resource_kind \<times> string \<times> string"

fun path_leases ::
  "(string \<Rightarrow> string) \<Rightarrow> (string \<Rightarrow> string \<Rightarrow> string) \<Rightarrow> string \<Rightarrow> string \<Rightarrow> nat \<Rightarrow> string list
   \<Rightarrow> incarnation_lease list start_result" where
  "path_leases fold_case scoped_digest scope fence index [] = Ok []"
| "path_leases fold_case scoped_digest scope fence index (claim # claims) =
     ebind (path_lease_resource fold_case scoped_digest scope claim) (\<lambda>resource.
     ebind (path_leases fold_case scoped_digest scope fence (Suc index) claims) (\<lambda>leases.
     Ok ((Path, resource, fence @ '':'' @ show_nat index) # leases)))"

definition incarnation_leases ::
  "(string \<Rightarrow> string \<Rightarrow> string \<Rightarrow> string) \<Rightarrow> (string \<Rightarrow> string) \<Rightarrow> (string \<Rightarrow> string) \<Rightarrow> (string \<Rightarrow> string \<Rightarrow> string)
   \<Rightarrow> string \<Rightarrow> string \<Rightarrow> work_node \<Rightarrow> string \<Rightarrow> incarnation_lease list start_result" where
  "incarnation_leases json3 hash_hex fold_case scoped_digest scope gid n fence =
     ebind (map_err Refusal (node_lease_resource json3 hash_hex scope gid (node_id n))) (\<lambda>resource.
     ebind (path_leases fold_case scoped_digest scope fence 0 (path_claims n)) (\<lambda>leases.
     Ok ((WorkGraphNode, resource, fence) # leases)))"

definition lease_request :: "string \<Rightarrow> nat \<Rightarrow> incarnation_lease \<Rightarrow> agent_lease_request" where
  "lease_request owner duration l =
     (case l of (kind, resource, request_ref) \<Rightarrow>
        \<lparr>req_schema_version = AGENT_LEASE_SCHEMA_VERSION, lease_request_ref = request_ref, resource_kind = kind,
         resource_ref = resource, owner_agent_id = owner, duration_ms = duration\<rparr>)"

text \<open>
  \<open>acquire_incarnation_leases\<close>: one acquisition after the other on the shared registry, each with
  its own reading of the clock; a refusal returns with what was acquired before it still held.
\<close>

fun acquire_incarnation_leases ::
  "(agent_lease_request \<Rightarrow> nat \<Rightarrow> string) \<Rightarrow> string \<Rightarrow> nat \<Rightarrow> (incarnation_lease \<times> nat) list
   \<Rightarrow> agent_lease_registry \<Rightarrow> unit start_result \<times> agent_lease_registry" where
  "acquire_incarnation_leases digest owner duration [] r = (Ok (), r)"
| "acquire_incarnation_leases digest owner duration ((l, now) # ls) r =
     (case acquire digest r (lease_request owner duration l) now of
        (Inl e, _) \<Rightarrow> (Err (LeaseError e), r)
      | (Inr (Granted g), r1) \<Rightarrow> acquire_incarnation_leases digest owner duration ls r1
      | (Inr (HeldBy _ _ _), r1) \<Rightarrow>
          (Err (Refusal (Message (''lease is held by another execution: '' @ fst (snd l)))), r1))"

text \<open>
  \<open>release_incarnation_leases\<close> only logs an error; \<open>abort_start\<close> first stops the claim in the
  stored graph and then releases.
\<close>

definition release_incarnation_leases ::
  "agent_lease_registry \<Rightarrow> string \<Rightarrow> string \<Rightarrow> nat \<Rightarrow> agent_lease_registry" where
  "release_incarnation_leases r owner fence now =
     (case release_fence r owner fence now of (Inl e, _) \<Rightarrow> r | (Inr n, r1) \<Rightarrow> r1)"

definition abort_change ::
  "string \<Rightarrow> string \<Rightarrow> stop_reason \<Rightarrow> work_graph_store \<Rightarrow> (unit \<times> work_graph_store) store_result" where
  "abort_change gid nid reason s =
     ebind (graph_mut s gid) (\<lambda>g.
     ebind (lift_wg (stop_unlaunched g nid reason)) (\<lambda>(g1, stopped).
     Ok ((), put_graph s gid g1)))"

definition abort_start ::
  "(string \<Rightarrow> string) \<Rightarrow> (string \<Rightarrow> work_graph_store option) \<Rightarrow> (work_graph_store \<Rightarrow> string) \<Rightarrow> string
   \<Rightarrow> string \<Rightarrow> string \<Rightarrow> string \<Rightarrow> string \<Rightarrow> stop_reason \<Rightarrow> nat \<Rightarrow> file_write \<Rightarrow> string option \<times> agent_lease_registry
   \<Rightarrow> unit store_result \<times> string option \<times> agent_lease_registry" where
  "abort_start hash_hex parse_store show_store root_hash gid nid owner fence reason now w st =
     (case mutate hash_hex parse_store show_store root_hash (abort_change gid nid reason) w (fst st) of
        (Inl e, file) \<Rightarrow> (Err e, file, snd st)
      | (Inr _, file) \<Rightarrow> (Ok (), file, release_incarnation_leases (snd st) owner fence now))"

end
