(* ===== verification/Delegation_Laws.thy ===== *)
theory Delegation_Laws
  imports Work_Graph_Delegation Lease_Paths Lease_Props Store_Laws Stop_Cascade
begin

text \<open>
  How the work graph and the lease registry agree: the lease of a path claim conflicts with
  another exactly when the claims do, the leases of an incarnation are held together and
  exclusively, and a start that is aborted leaves neither a running node nor a lease behind.
\<close>

section \<open>Claims and leases\<close>

lemma split_once_append:
  assumes "sep \<notin> set s"
  shows "split_once sep (s @ sep # x) = Some (s, x)"
proof -
  have "takeWhile (\<lambda>c. c \<noteq> sep) (s @ sep # x) = s" "dropWhile (\<lambda>c. c \<noteq> sep) (s @ sep # x) = sep # x"
    using assms by (induction s) auto
  then show ?thesis by (simp add: split_once_def)
qed

lemma path_lease_resource_scoped:
  assumes "CHR ''/'' \<notin> set scope"
  shows "path_lease_resource fold_case dg scope (''path:'' @ scope @ ''/'' @ p)
    = map_err LeaseError (project_path_resource fold_case dg scope p)"
  using split_once_append [OF assms, of p]
  by (simp add: path_lease_resource_def claim_relative_def ebind_def)

lemma normalize_plain: "CHR 0x5C \<notin> set p \<Longrightarrow> normalize_relative (\<lambda>s. s) p = p"
  by (auto simp: normalize_relative_def intro: map_idI)

text \<open>
  C36. The two exclusions agree: for the path claims of one project, as delegation stores them,
  the machine-wide leases a start takes for them overlap exactly when the work graph regards the
  claims as overlapping (on systems with case-sensitive paths, for paths without a backslash and
  within the length of a lease reference).
\<close>

theorem path_leases_agree_with_claims:
  assumes "path_lease_resource (\<lambda>s. s) dg scope (''path:'' @ scope @ ''/'' @ p) = Ok a"
    and "path_lease_resource (\<lambda>s. s) dg scope (''path:'' @ scope @ ''/'' @ q) = Ok b"
    and "starts_with PROJECT_PATH_SCHEME a" "starts_with PROJECT_PATH_SCHEME b"
    and "CHR ''/'' \<notin> set scope" "CHR 0x5C \<notin> set p" "CHR 0x5C \<notin> set q"
  shows "resources_overlap Path a Path b \<longleftrightarrow>
    path_claims_overlap (''path:'' @ scope @ ''/'' @ p) (''path:'' @ scope @ ''/'' @ q)"
proof -
  have "project_path_resource (\<lambda>s. s) dg scope p = Inr a" "project_path_resource (\<lambda>s. s) dg scope q = Inr b"
    using assms(1,2) path_lease_resource_scoped [OF assms(5)] by (simp_all add: map_err_eq_Ok)
  from project_path_overlap [OF this assms(3,4,5,5)] assms(6,7) show ?thesis
    by (simp only: normalize_plain prefix_overlap simp_thms)
qed

section \<open>The leases of an incarnation\<close>

abbreviation lease_key :: "incarnation_lease \<Rightarrow> agent_lease_resource_kind \<times> string" where
  "lease_key l \<equiv> (fst l, fst (snd l))"

abbreviation request_refs :: "(incarnation_lease \<times> nat) list \<Rightarrow> string list" where
  "request_refs ls \<equiv> map (\<lambda>(l, t). snd (snd l)) ls"

text \<open>A fence is fresh when no lease carries one of its request references.\<close>

definition fresh_refs :: "agent_lease_registry \<Rightarrow> string list \<Rightarrow> bool" where
  "fresh_refs r refs \<longleftrightarrow> distinct refs
     \<and> (\<forall>k l. bget (leases r) k = Some l \<longrightarrow> lease_request_ref (request l) \<notin> set refs)"

lemma fresh_refs_step:
  assumes "fresh_refs r (ref # refs)"
    and "\<And>k l. bget (leases r1) k = Some l \<Longrightarrow> bget (leases r) k = Some l \<or> lease_request_ref (request l) = ref"
  shows "fresh_refs r1 refs"
  unfolding fresh_refs_def
proof (intro conjI allI impI)
  show "distinct refs" using assms(1) by (simp add: fresh_refs_def)
  fix k l assume "bget (leases r1) k = Some l"
  with assms(2) have "bget (leases r) k = Some l \<or> lease_request_ref (request l) = ref" by blast
  with assms(1) show "lease_request_ref (request l) \<notin> set refs" unfolding fresh_refs_def by (metis distinct.simps(2) list.set_intros(2))
qed

lemma lease_request_fields [simp]:
  "request_key (lease_request owner d l) = lease_key l" "duration_ms (lease_request owner d l) = d"
  "lease_request_ref (lease_request owner d l) = snd (snd l)" "owner_agent_id (lease_request owner d l) = owner"
  by (cases l, simp add: lease_request_def request_key_def)+

lemma acquire_incarnation_leases_held:
  assumes "acquire_incarnation_leases digest owner d ls r = (Inr (), r')" "lease_inv r"
    and "fresh_refs r (request_refs ls)"
    and "\<And>l t. (l, t) \<in> set ls \<Longrightarrow> a \<le> t \<and> t \<le> b" "b < a + d" "a + d \<le> u64_max"
  shows "lease_inv r'
    \<and> (\<forall>k l. bget (leases r) k = Some l \<longrightarrow> is_active_at l b \<longrightarrow> bget (leases r') k = Some l)
    \<and> (\<forall>(l, t)\<in>set ls. \<exists>held. bget (leases r') (lease_key l) = Some held
         \<and> request held = lease_request owner d l \<and> is_active_at held b)"
  using assms(1-4)
proof (induction ls arbitrary: r)
  case (Cons x ls)
  obtain l t where x: "x = (l, t)" by fastforce
  let ?q = "lease_request owner d l"
  obtain g r1 where g: "acquire digest r ?q t = (Inr (Granted g), r1)"
    "acquire_incarnation_leases digest owner d ls r1 = (Inr (), r')"
    using Cons.prems(1) x by (auto split: prod.splits sum.splits agent_lease_acquire.splits)
  have inv: "lease_inv r1" using acquire_inv [OF Cons.prems(2), of digest ?q t] g(1) by simp
  have t: "a \<le> t" "t \<le> b" using Cons.prems(4) [of l t] x by simp_all
  have ref: "lease_request_ref (request m) \<noteq> snd (snd l)" if "bget (leases r) k = Some m" for k m
    using Cons.prems(3) that x by (cases k) (auto simp: fresh_refs_def)
  from g(1) have new: "request g = ?q" "expires_at_epoch_ms g = saturating_add u64_max t d"
    "leases r1 = binsert (lease_key l) g (leases (remove_expired r t))"
    and free: "bget (leases (remove_expired r t)) (lease_key l) = None"
    by (cases rule: acquire_granted_cases; use ref in auto)+
  have kept: "bget (leases r1) k = Some m" if "bget (leases r) k = Some m" "is_active_at m b" for k m
  proof -
    have "bget (leases (remove_expired r t)) k = Some m" using that t(2) by (simp add: is_active_at_def)
    moreover from this free have "k \<noteq> lease_key l" by (metis option.distinct(1))
    ultimately show ?thesis unfolding new(3) bget_binsert by simp
  qed
  have "fresh_refs r1 (request_refs ls)"
  proof (rule fresh_refs_step)
    show "fresh_refs r (snd (snd l) # request_refs ls)" using Cons.prems(3) x by simp
    show "bget (leases r) k = Some m \<or> lease_request_ref (request m) = snd (snd l)"
      if "bget (leases r1) k = Some m" for k m
      using that new(1) unfolding new(3) bget_binsert by (auto split: if_splits)
  qed
  moreover have "a \<le> t \<and> t \<le> b" if "(l, t) \<in> set ls" for l t
    using Cons.prems(4) that by (meson list.set_intros(2))
  ultimately have "lease_inv r'
    \<and> (\<forall>k l. bget (leases r1) k = Some l \<longrightarrow> is_active_at l b \<longrightarrow> bget (leases r') k = Some l)
    \<and> (\<forall>(l, t)\<in>set ls. \<exists>held. bget (leases r') (lease_key l) = Some held
         \<and> request held = lease_request owner d l \<and> is_active_at held b)"
    by (rule Cons.IH [OF g(2) inv])
  then have IH: "lease_inv r'" "\<And>k m. bget (leases r1) k = Some m \<Longrightarrow> is_active_at m b \<Longrightarrow> bget (leases r') k = Some m"
    "\<forall>(l, t)\<in>set ls. \<exists>held. bget (leases r') (lease_key l) = Some held
         \<and> request held = lease_request owner d l \<and> is_active_at held b" by blast+
  have "is_active_at g b" using new(2) t assms(5,6) by (simp add: is_active_at_def saturating_add_def)
  with IH(2) new(3) have "bget (leases r') (lease_key l) = Some g" by (simp add: bget_binsert)
  with IH kept new(1) \<open>is_active_at g b\<close> x show ?case by auto
qed simp

text \<open>
  The leases of an incarnation are held together and exclusively: when a start under a new
  fence has acquired all of them within their duration, each is held by the node's agent under
  its own request reference and still active at the last acquisition, and no lease of the
  registry, of whichever agent, overlaps it.
\<close>

theorem incarnation_leases_exclusive:
  assumes "acquire_incarnation_leases digest owner d ls r = (Ok (), r')" "lease_inv r"
    and "fresh_refs r (request_refs ls)"
    and "\<forall>(l, t)\<in>set ls. a \<le> t \<and> t \<le> b" "b < a + d" "a + d \<le> u64_max"
    and "(l, t) \<in> set ls"
  shows "\<exists>held. bget (leases r') (lease_key l) = Some held \<and> is_active_at held b
    \<and> owner_agent_id (request held) = owner \<and> lease_request_ref (request held) = snd (snd l)
    \<and> (\<forall>k other. bget (leases r') k = Some other \<longrightarrow> resource_overlap k (lease_key l) \<longrightarrow> other = held)"
proof -
  have "lease_inv r'" and "\<exists>held. bget (leases r') (lease_key l) = Some held
      \<and> request held = lease_request owner d l \<and> is_active_at held b"
    using acquire_incarnation_leases_held [OF assms(1-3) _ assms(5,6)] assms(4,7) by fastforce+
  then obtain held where h: "lease_inv r'" "bget (leases r') (lease_key l) = Some held"
    "request held = lease_request owner d l" "is_active_at held b" by blast
  have "other = held" if "bget (leases r') k = Some other" "resource_overlap k (lease_key l)" for k other
  proof -
    have "k = lease_key l"
      by (rule ro.exclusive_same_holder [of "\<lambda>k. {k}" "bdom (leases r')"])
         (use h(1,2) that in \<open>auto simp: lease_inv_def\<close>)
    with that(1) h(2) show ?thesis by simp
  qed
  with h(2-4) show ?thesis by auto
qed

text \<open>
  A node whose path claims are nested in one another passes every validation of the graph but
  can never be started: the lease of the second claim is refused because of the first.
\<close>

theorem nested_claims_never_start:
  assumes "lease_inv r" "fresh_refs r (request_refs ls)"
    and "\<forall>(l, t)\<in>set ls. a \<le> t \<and> t \<le> b" "b < a + d" "a + d \<le> u64_max"
    and "(l, t) \<in> set ls" "(l', t') \<in> set ls" "lease_key l \<noteq> lease_key l'"
    and "resource_overlap (lease_key l) (lease_key l')"
  shows "fst (acquire_incarnation_leases digest owner d ls r) \<noteq> Ok ()"
proof
  assume "fst (acquire_incarnation_leases digest owner d ls r) = Ok ()"
  then obtain r' where "acquire_incarnation_leases digest owner d ls r = (Inr (), r')" by (metis prod.collapse)
  from acquire_incarnation_leases_held [OF this assms(1,2) _ assms(4,5)] assms(3,6,7)
  have "lease_inv r'" "lease_key l \<in> bdom (leases r')" "lease_key l' \<in> bdom (leases r')" by fastforce+
  with assms(9) ro.exclusive_same_holder [of "\<lambda>k. {k}" "bdom (leases r')" "lease_key l" "lease_key l'"]
  have "lease_key l = lease_key l'" by (auto simp: lease_inv_def)
  with assms(8) show False by simp
qed

section \<open>An aborted start\<close>

lemma abort_change_stops:
  assumes "abort_change gid nid reason s = Inr (u, s')" "store_ok h s"
  shows "\<exists>g n. bget (graphs s') gid = Some g \<and> bget (nodes g) nid = Some n
    \<and> status n \<noteq> Active \<and> status n \<noteq> Pending \<and> lease_expires_epoch_ms n = None"
proof -
  from assms(1) obtain g g1 xs where g: "bget (graphs s) gid = Some g" "stop g nid reason = Inr (g1, xs)"
    "s' = put_graph s gid (g1\<lparr>nodes := bupdate nid (\<lambda>n. n\<lparr>lease_expires_epoch_ms := None\<rparr>) (nodes g1)\<rparr>)"
    by (auto simp: abort_change_def stop_unlaunched_def graph_mut_def ebind_eq_Ok ok_or_eq_Ok lift_wg_eq_Ok)
  have "nid \<in> bdom (nodes g)" using g(2) by (auto simp: stop_def bcontains_def split: if_splits)
  moreover have "forest g" using assms(2) g(1) wf_forest by (auto simp: store_ok_def)
  ultimately obtain ys g2 where "stop g nid reason = Inr (g2, ys)"
    and h: "halted (subtree g nid) (\<lambda>k. if k = nid then reason else ParentStopped) ys g g2"
    using stop_halts by blast
  with g(2) have "g2 = g1" by simp
  obtain n where n: "bget (nodes g) nid = Some n" using \<open>nid \<in> bdom (nodes g)\<close> by blast
  obtain l where "lineage_of (nodes g) nid l" using forest_lineage [OF \<open>forest g\<close> \<open>nid \<in> bdom (nodes g)\<close>] by blast
  then have "nid \<in> subtree g nid" using subtree_children [OF \<open>forest g\<close>] by blast
  with h n \<open>g2 = g1\<close> have "bget (nodes g1) nid = Some (halt reason n)" by (auto simp: halted_def)
  moreover have "status (halt reason n) \<noteq> Active \<and> status (halt reason n) \<noteq> Pending"
    by (auto simp: halt_def is_open_def Let_def)
  ultimately show ?thesis unfolding g(3) by (auto simp: put_graph_def)
qed

text \<open>
  An aborted start leaves nothing behind: when a start is aborted, the file holds a
  validated store in which the node is no longer active or pending and has no lease time, and the
  lease registry holds no lease of that incarnation, while every other active lease is kept.
\<close>

theorem aborted_start_leaves_nothing:
  assumes "abort_start hash_hex parse_store show_store root_hash gid nid owner fence reason now w (file, r)
      = (Ok (), file', r')"
    and "opaque_ref ''lease_request_ref'' fence = Ok ()" "agent_id_check owner = Ok ()"
  shows "(\<exists>s g n. file' = Some (show_store s) \<and> store_ok hash_hex s
      \<and> bget (graphs s) gid = Some g \<and> bget (nodes g) nid = Some n
      \<and> status n \<noteq> Active \<and> status n \<noteq> Pending \<and> lease_expires_epoch_ms n = None)
    \<and> (\<forall>k l. bget (leases r') k = Some l \<longleftrightarrow>
         bget (leases r) k = Some l \<and> is_active_at l now \<and> \<not> fence_lease owner fence l)"
proof -
  from assms(1) have m: "mutate hash_hex parse_store show_store root_hash (abort_change gid nid reason) w file = (Ok (), file')"
    and r': "r' = release_incarnation_leases r owner fence now"
    by (auto simp: abort_start_def split: prod.splits sum.splits)
  from mutate_result [OF m] obtain s s' where "store_ok hash_hex s" "abort_change gid nid reason s = Ok ((), s')"
    "store_ok hash_hex s'" "file' = Some (show_store s')" by auto
  moreover from abort_change_stops [OF this(2,1)] obtain g n where "bget (graphs s') gid = Some g"
    "bget (nodes g) nid = Some n" "status n \<noteq> Active \<and> status n \<noteq> Pending" "lease_expires_epoch_ms n = None" by blast
  moreover have "leases r' = bretain (\<lambda>_ l. \<not> fence_lease owner fence l) (leases (remove_expired r now))"
    using r' assms(2,3) by (simp add: release_incarnation_leases_def release_fence_def Let_def)
  ultimately show ?thesis by auto
qed

end
