(* ===== verification/Authority_Laws.thy ===== *)
theory Authority_Laws
  imports Task_Authority
begin

text \<open>
  What the authority decision means. The policy validation makes key and grant identifiers
  unique, so the first match the code looks up is the only one, and \<open>authorize\<close> decides a
  condition that names no order at all.
\<close>

section \<open>A valid policy\<close>

lemma each_new_eq_Ok [result_simps]:
  "each_new check same post earlier xs = Inr u \<longleftrightarrow>
     (\<forall>x\<in>set xs. check x = Inr () \<and> post x = Inr ()) \<and> sorted_wrt (\<lambda>a b. \<not> same a b) xs
     \<and> (\<forall>x\<in>set xs. \<forall>y\<in>set earlier. \<not> same y x)"
  by (induction xs arbitrary: earlier) (auto simp: ebind_eq_Ok list_ex_iff)

lemma distinct_map_sorted_wrt: "distinct (map f xs) \<longleftrightarrow> sorted_wrt (\<lambda>a b. f a \<noteq> f b) xs"
  by (induction xs) auto

lemma find_unique:
  assumes "distinct (map f xs)"
  shows "find (\<lambda>x. f x = k) xs = Some x \<longleftrightarrow> x \<in> set xs \<and> f x = k"
  using assms by (induction xs) auto

definition policy_ok :: "authority_config \<Rightarrow> bool" where
  "policy_ok c \<longleftrightarrow> config_schema_version c = 1
     \<and> length (peers c) \<le> 1024 \<and> length (grants c) \<le> 1024
     \<and> (\<forall>p\<in>set (peers c). validate_peer p = Ok ()) \<and> (\<forall>g\<in>set (grants c). validate_grant g = Ok ())
     \<and> distinct (map peer_key_id (peers c)) \<and> distinct (map (map ascii_lower \<circ> peer_public_key) (peers c))
     \<and> distinct (map grant_id (grants c))
     \<and> grant_key_id ` set (grants c) \<subseteq> peer_key_id ` set (peers c)"

lemma validate_policy_eq_Ok [result_simps]: "validate_policy c = Inr u \<longleftrightarrow> policy_ok c"
proof -
  have "sorted_wrt (\<lambda>a b. \<not> same_peer a b) ps \<longleftrightarrow>
      distinct (map peer_key_id ps) \<and> distinct (map (map ascii_lower \<circ> peer_public_key) ps)" for ps
    by (induction ps) (auto simp: same_peer_def eq_ignore_ascii_case_def)
  moreover have "(\<forall>g\<in>G. \<exists>p\<in>P. peer_key_id p = grant_key_id g) \<longleftrightarrow> grant_key_id ` G \<subseteq> peer_key_id ` P" for G P
    unfolding image_subset_iff image_iff by metis
  ultimately show ?thesis
    by (simp add: validate_policy_def policy_ok_def ebind_eq_Ok result_simps TASK_SCHEMA_VERSION_def
        MAX_TRUST_ENTRIES_def distinct_map_sorted_wrt [of grant_id] list_ex_iff ball_conj_distrib) blast
qed

section \<open>The decision\<close>

definition signed_by ::
  "(string \<Rightarrow> string \<Rightarrow> string \<Rightarrow> bool) \<Rightarrow> peer_trust \<Rightarrow> authority_claim \<Rightarrow> bool" where
  "signed_by ed25519 p c \<longleftrightarrow>
     (\<exists>key sig. hex_decode (peer_public_key p) = Some key \<and> hex_decode (claim_signature c) = Some sig
        \<and> length key = 32 \<and> length sig = 64 \<and> ed25519 key (claim_signing_bytes c) sig)"

definition peer_permits :: "peer_trust \<Rightarrow> authority_claim \<Rightarrow> bool" where
  "peer_permits p c \<longleftrightarrow> peer_key_id p = claim_key_id c \<and> \<not> peer_revoked p
     \<and> peer_agent_id p = claim_sender c \<and> claim_action c \<in> set (allowed_actions p)
     \<and> (\<exists>s\<in>set (allowed_scopes p). scope_tenant_id s = claim_tenant_id c \<and> scope_project_id s = claim_project_id c)"

definition grant_permits :: "capability_grant \<Rightarrow> authority_claim \<Rightarrow> bool" where
  "grant_permits g c \<longleftrightarrow> grant_id g = claim_grant_id c \<and> \<not> grant_revoked g
     \<and> grant_key_id g = claim_key_id c \<and> grant_action g = claim_action c
     \<and> grant_tenant_id g = claim_tenant_id c \<and> grant_project_id g = claim_project_id c"

definition in_time :: "peer_trust \<Rightarrow> capability_grant \<Rightarrow> authority_claim \<Rightarrow> int \<Rightarrow> bool" where
  "in_time p g c now \<longleftrightarrow> claim_issued_at c \<le> now + seconds 60 \<and> now < claim_expires_at c
     \<and> max (peer_not_before p) (grant_not_before g) \<le> min now (claim_issued_at c)
     \<and> claim_expires_at c \<le> min (peer_expires_at p) (grant_expires_at g)"

definition expected_by :: "authority_claim \<Rightarrow> authority_expectation \<Rightarrow> bool" where
  "expected_by c e \<longleftrightarrow> claim_sender c = exp_sender e \<and> claim_recipient c = exp_recipient e
     \<and> claim_tenant_id c = exp_tenant_id e \<and> claim_project_id c = exp_project_id e"

lemma authorize_found:
  "authorize ed25519 c policy e = Inr u \<longleftrightarrow>
     policy_ok policy \<and> expected_by c e
     \<and> (\<exists>p g. find (\<lambda>p. peer_key_id p = claim_key_id c) (peers policy) = Some p
          \<and> find (\<lambda>g. grant_id g = claim_grant_id c) (grants policy) = Some g
          \<and> peer_permits p c \<and> grant_permits g c \<and> signed_by ed25519 p c \<and> in_time p g c (exp_now e))"
proof -
  have key: "find (\<lambda>p. peer_key_id p = k) ps = Some p \<Longrightarrow> peer_key_id p = k"
    and gid: "find (\<lambda>g. grant_id g = k) gs = Some g \<Longrightarrow> grant_id g = k" for k ps p gs g
    by (auto simp: find_Some_iff)
  show ?thesis
    unfolding authorize_def
    by (cases "find (\<lambda>p. peer_key_id p = claim_key_id c) (peers policy)";
        cases "find (\<lambda>g. grant_id g = claim_grant_id c) (grants policy)")
       (auto simp: ebind_eq_Ok ensure_eq_Ok validate_policy_eq_Ok expected_by_def peer_permits_def
          grant_permits_def in_time_def list_ex_iff MAX_AUTHORITY_CLOCK_SKEW_SECONDS_def
          verify_signed_transcript_def signed_by_def ok_or_eq_Ok dest!: key gid)
qed

lemma authorize_eq_Ok:
  "authorize ed25519 c policy e = Inr u \<longleftrightarrow>
     policy_ok policy \<and> expected_by c e
     \<and> (\<exists>p\<in>set (peers policy). \<exists>g\<in>set (grants policy).
          peer_permits p c \<and> grant_permits g c \<and> signed_by ed25519 p c \<and> in_time p g c (exp_now e))"
proof (cases "policy_ok policy")
  case True
  then have d: "distinct (map peer_key_id (peers policy))" "distinct (map grant_id (grants policy))"
    by (simp_all add: policy_ok_def)
  show ?thesis
    unfolding authorize_found find_unique [OF d(1)] find_unique [OF d(2)]
    by (auto simp: peer_permits_def grant_permits_def)
qed (simp add: authorize_found)

text \<open>
  The authority check decides exactly this: the policy is valid, the claim names the
  expected parties and scope, and there are a trusted key and a grant of the policy, neither
  revoked, that bind the key to the sender, the action and the scope; the signature verifies
  under that key over the transcript of the claim; and the claim is issued within the clock
  skew, not expired, inside both validity windows and outliving neither.
\<close>

theorem authorize_iff:
  "authorize ed25519 c policy e = Ok () \<longleftrightarrow>
     policy_ok policy \<and> expected_by c e
     \<and> (\<exists>p\<in>set (peers policy). \<exists>g\<in>set (grants policy).
          peer_permits p c \<and> grant_permits g c \<and> signed_by ed25519 p c \<and> in_time p g c (exp_now e))"
  by (rule authorize_eq_Ok)

end
