(* ===== verification/Delivery_Laws.thy ===== *)
theory Delivery_Laws
  imports Delivery Authority_Laws Stop_Cascade Store_Laws
begin

text \<open>
  Delegation only narrows authority: what a certificate yields is bound to one live execution
  of one node, to the agent the node is assigned to and to delivery alone, and it ends when the
  node or any of its ancestors is stopped.
\<close>

section \<open>Certificates\<close>

lemma verify_for_execution_eq_Ok:
  assumes "verify_for_execution canonical ed25519 c policy h live child = Inr derived"
  shows "derived = derived_policy c" "policy_ok derived" "execution c = live" "child_agent c = child"
    "child_agent c \<noteq> host_agent c" "cert_expires_at c - cert_issued_at c \<le> seconds 3600"
    "authorize ed25519 (cert_claim canonical c) policy h = Inr ()"
    "validate_write_grant c = Inr ()"
  using assms
  by (auto simp: verify_for_execution_def ebind_eq_Ok ensure_eq_Ok validate_policy_eq_Ok
      MAX_DELEGATION_SECONDS_def)

text \<open>Whatever the policy derived from a certificate authorizes.\<close>

lemma derived_policy_narrow:
  assumes "authorize ed25519 claim (derived_policy c) e = Inr u"
  shows "claim_sender claim = child_agent c" "claim_key_id claim = child_key_id c"
    "claim_tenant_id claim = cert_tenant_id c" "claim_project_id claim = cert_project_id c"
    "claim_action claim = DELIVERY_CHECK \<and> claim_grant_id claim = read_grant_id c
      \<or> claim_action claim = DELIVERY_RECORD \<and> write_grant_id c = Some (claim_grant_id claim)"
    "cert_issued_at c \<le> exp_now e" "exp_now e < claim_expires_at claim"
    "claim_expires_at claim \<le> cert_expires_at c"
    "\<exists>key sig. hex_decode (child_public_key c) = Some key \<and> hex_decode (claim_signature claim) = Some sig
      \<and> ed25519 key (claim_signing_bytes claim) sig"
proof -
  from assms obtain p g where pg: "p \<in> set (peers (derived_policy c))" "g \<in> set (grants (derived_policy c))"
    "peer_permits p claim" "grant_permits g claim" "signed_by ed25519 p claim" "in_time p g claim (exp_now e)"
    unfolding authorize_eq_Ok by blast
  have p: "peer_agent_id p = child_agent c" "peer_key_id p = child_key_id c" "peer_public_key p = child_public_key c"
    "peer_not_before p = cert_issued_at c" "peer_expires_at p = cert_expires_at c"
    using pg(1) by (auto simp: derived_policy_def)
  have g: "grant_tenant_id g = cert_tenant_id c" "grant_project_id g = cert_project_id c"
    "grant_action g = DELIVERY_CHECK \<and> grant_id g = read_grant_id c
      \<or> grant_action g = DELIVERY_RECORD \<and> write_grant_id c = Some (grant_id g)"
    using pg(2) by (auto simp: derived_policy_def derived_grant_def split: option.splits)
  show "claim_sender claim = child_agent c" "claim_key_id claim = child_key_id c"
    "claim_tenant_id claim = cert_tenant_id c" "claim_project_id claim = cert_project_id c"
    "claim_action claim = DELIVERY_CHECK \<and> claim_grant_id claim = read_grant_id c
      \<or> claim_action claim = DELIVERY_RECORD \<and> write_grant_id c = Some (claim_grant_id claim)"
    using p g pg(3,4) by (auto simp: peer_permits_def grant_permits_def)
  show "cert_issued_at c \<le> exp_now e" "exp_now e < claim_expires_at claim"
    "claim_expires_at claim \<le> cert_expires_at c"
    using p pg(6) by (auto simp: in_time_def)
  show "\<exists>key sig. hex_decode (child_public_key c) = Some key \<and> hex_decode (claim_signature claim) = Some sig
      \<and> ed25519 key (claim_signing_bytes claim) sig"
    using p pg(5) by (auto simp: signed_by_def)
qed

section \<open>Live executions\<close>

text \<open>
  The execution a certificate names is the live one: the node exists, is active and started
  with an unexpired lease at the instant, has the fence and attempt of the certificate, is
  assigned to the child, and hangs below a root of the host.
\<close>

definition names_live_execution ::
  "work_graph_store \<Rightarrow> delivery_delegation \<Rightarrow> int \<Rightarrow> bool" where
  "names_live_execution s c now \<longleftrightarrow>
     (\<exists>g n now_ms. store_graph s (exec_graph_id (execution c)) = Some g
        \<and> get_node g (exec_node_id (execution c)) = Some n
        \<and> epoch_millis now = Some now_ms \<and> live_node n now_ms
        \<and> execution_fence n = Some (exec_fence (execution c))
        \<and> delivery_attempt n = Some (exec_attempt (execution c))
        \<and> agent_id n = child_agent c \<and> root_agent_for g (node_id n) = Ok (host_agent c))"

lemma child_delivery_authority_eq_Ok:
  assumes "child_delivery_authority json4 hash_hex canonical ed25519 s c policy e = Inr derived"
  shows "names_live_execution s c (exp_now e)" "derived = derived_policy c" "child_agent c \<noteq> host_agent c"
    "cert_expires_at c \<le> cert_issued_at c + seconds 3600"
    "authorize ed25519 (cert_claim canonical c) policy
       \<lparr>exp_sender = host_agent c, exp_recipient = exp_recipient e, exp_tenant_id = exp_tenant_id e,
        exp_project_id = exp_project_id e, exp_now = exp_now e\<rparr> = Inr ()"
proof -
  from assms obtain g n now_ms fence attempt task host where
    w: "store_graph s (exec_graph_id (execution c)) = Some g" "get_node g (exec_node_id (execution c)) = Some n"
      "epoch_millis (exp_now e) = Some now_ms" "live_node n now_ms" "execution_fence n = Some fence"
      "delivery_attempt n = Some attempt" "root_agent_for g (node_id n) = Inr host"
    and v: "verify_for_execution canonical ed25519 c policy
       \<lparr>exp_sender = host, exp_recipient = exp_recipient e, exp_tenant_id = exp_tenant_id e,
        exp_project_id = exp_project_id e, exp_now = exp_now e\<rparr>
       \<lparr>exec_graph_id = graph_id g, exec_node_id = node_id n, exec_fence = fence,
        exec_task_id = attempt_task_id task attempt, exec_attempt = attempt\<rparr> (agent_id n) = Inr derived"
    by (auto simp: child_delivery_authority_def ebind_eq_Ok ok_or_eq_Ok map_err_eq_Ok ensure_eq_Ok lift_wg_eq_Ok)
  note v' = verify_for_execution_eq_Ok [OF v]
  have host: "host = host_agent c"
    using v'(7) by (simp add: authorize_eq_Ok expected_by_def cert_claim_def)
  show "names_live_execution s c (exp_now e)"
    unfolding names_live_execution_def using w v'(3,4) host by auto
  show "derived = derived_policy c" "child_agent c \<noteq> host_agent c"
    "cert_expires_at c \<le> cert_issued_at c + seconds 3600" using v'(1,5,6) by simp_all
  show "authorize ed25519 (cert_claim canonical c) policy
       \<lparr>exp_sender = host_agent c, exp_recipient = exp_recipient e, exp_tenant_id = exp_tenant_id e,
        exp_project_id = exp_project_id e, exp_now = exp_now e\<rparr> = Inr ()"
    using v'(7) host by simp
qed

text \<open>
  Delegated authority is attenuated. When a stored work graph yields authority for a
  certificate, the certificate names a live execution and is signed by a host key that the
  configured policy lets delegate in that scope; and whatever the derived policy ever
  authorizes is a check, or a record if the certificate has a write grant, by the child the node
  is assigned to, in the certificate's scope, inside the hour of the certificate's validity and
  signed with the child's key. It never authorizes a further delegation.
\<close>

theorem delegated_authority_attenuated:
  assumes "child_delivery_authority json4 hash_hex canonical ed25519 s c policy e = Ok derived"
  shows "names_live_execution s c (exp_now e)
    \<and> (\<exists>p\<in>set (peers policy). \<exists>g\<in>set (grants policy).
         peer_permits p (cert_claim canonical c) \<and> grant_permits g (cert_claim canonical c)
         \<and> signed_by ed25519 p (cert_claim canonical c) \<and> grant_action g = DELIVERY_DELEGATE
         \<and> cert_expires_at c \<le> min (peer_expires_at p) (grant_expires_at g))
    \<and> (\<forall>claim e'. authorize ed25519 claim derived e' = Ok () \<longrightarrow>
         claim_sender claim = child_agent c
         \<and> (claim_action claim = DELIVERY_CHECK
            \<or> claim_action claim = DELIVERY_RECORD \<and> write_grant_id c = Some (claim_grant_id claim))
         \<and> claim_tenant_id claim = exp_tenant_id e \<and> claim_project_id claim = exp_project_id e
         \<and> cert_issued_at c \<le> exp_now e' \<and> exp_now e' < cert_issued_at c + seconds 3600
         \<and> (\<exists>key sig. hex_decode (child_public_key c) = Some key \<and> hex_decode (claim_signature claim) = Some sig
              \<and> ed25519 key (claim_signing_bytes claim) sig))"
proof -
  note d = child_delivery_authority_eq_Ok [OF assms]
  have scope: "cert_tenant_id c = exp_tenant_id e" "cert_project_id c = exp_project_id e"
    using d(5) by (simp_all add: authorize_eq_Ok expected_by_def cert_claim_def)
  have narrow: "claim_sender claim = child_agent c
         \<and> (claim_action claim = DELIVERY_CHECK
            \<or> claim_action claim = DELIVERY_RECORD \<and> write_grant_id c = Some (claim_grant_id claim))
         \<and> claim_tenant_id claim = exp_tenant_id e \<and> claim_project_id claim = exp_project_id e
         \<and> cert_issued_at c \<le> exp_now e' \<and> exp_now e' < cert_issued_at c + seconds 3600
         \<and> (\<exists>key sig. hex_decode (child_public_key c) = Some key \<and> hex_decode (claim_signature claim) = Some sig
              \<and> ed25519 key (claim_signing_bytes claim) sig)"
    if "authorize ed25519 claim derived e' = Inr ()" for claim e'
    using derived_policy_narrow [OF that [unfolded d(2)]] scope d(4) by auto
  from d(5) obtain p g where "p \<in> set (peers policy)" "g \<in> set (grants policy)"
    "peer_permits p (cert_claim canonical c)" "grant_permits g (cert_claim canonical c)"
    "signed_by ed25519 p (cert_claim canonical c)" "in_time p g (cert_claim canonical c) (exp_now e)"
    unfolding authorize_eq_Ok by auto
  then have "\<exists>p\<in>set (peers policy). \<exists>g\<in>set (grants policy).
      peer_permits p (cert_claim canonical c) \<and> grant_permits g (cert_claim canonical c)
      \<and> signed_by ed25519 p (cert_claim canonical c) \<and> grant_action g = DELIVERY_DELEGATE
      \<and> cert_expires_at c \<le> min (peer_expires_at p) (grant_expires_at g)"
    by (intro bexI [of _ p] bexI [of _ g]) (auto simp: grant_permits_def in_time_def cert_claim_def)
  with d(1) narrow show ?thesis by blast
qed

section \<open>Revocation\<close>

lemma halted_not_live:
  assumes "halted S \<rho> xs g g'" "k \<in> S" "bget (nodes g') k = Some n"
  shows "\<not> live_node n now_ms"
  using assms by (auto simp: halted_def halt_def is_open_def live_node_def Let_def split: if_splits)

lemma not_live_refused:
  assumes "store_graph s (exec_graph_id (execution c)) = Some g"
    and "\<And>n now_ms. get_node g (exec_node_id (execution c)) = Some n \<Longrightarrow> \<not> live_node n now_ms"
  shows "child_delivery_authority json4 hash_hex canonical ed25519 s c policy e \<noteq> Inr derived"
  using assms child_delivery_authority_eq_Ok(1) [of json4 hash_hex canonical ed25519 s c policy e derived]
  by (auto simp: names_live_execution_def)

text \<open>
  Stopping revokes delivery: once a node of a valid stored graph has been stopped, no
  certificate for it or for any node below it yields authority any more, whatever its fence,
  attempt or validity.
\<close>

theorem stop_revokes_delivery:
  assumes "wf_graph h g" "bget (nodes g) nid = Some n"
  shows "\<exists>g' xs. stop g nid reason = Ok (g', xs)
    \<and> (\<forall>s c json4 hash_hex canonical ed25519 policy e derived.
         exec_graph_id (execution c) = gid \<longrightarrow> exec_node_id (execution c) \<in> subtree g nid \<longrightarrow>
         child_delivery_authority json4 hash_hex canonical ed25519 (put_graph s gid g') c policy e \<noteq> Ok derived)"
proof -
  from stop_halts [OF wf_forest [OF assms(1)], of nid reason] assms(2) obtain g' xs where
    stop: "stop g nid reason = Ok (g', xs)"
    "halted (subtree g nid) (\<lambda>k. if k = nid then reason else ParentStopped) xs g g'" by blast
  have "child_delivery_authority json4 hash_hex canonical ed25519 (put_graph s gid g') c policy e \<noteq> Ok derived"
    if "exec_graph_id (execution c) = gid" "exec_node_id (execution c) \<in> subtree g nid"
    for s c json4 hash_hex canonical ed25519 policy e derived
  proof (rule not_live_refused)
    show "store_graph (put_graph s gid g') (exec_graph_id (execution c)) = Some g'"
      using that(1) by (simp add: store_graph_def put_graph_def)
  qed (use halted_not_live [OF stop(2) that(2)] in \<open>simp add: get_node_def\<close>)
  with stop(1) show ?thesis by blast
qed

section \<open>The route\<close>

text \<open>
  C35. A delegated delivery that the route admits is one of a live execution: the certificate
  names an execution of the loaded store that is live at that instant, the request is made by the
  agent the node is assigned to, its file lies under the project root of the certificate, its
  scope is the configured one, it is signed over the request together with the certificate, and
  a record is made under the write grant, in the requester's own name and with the certificate's
  privacy.
\<close>

theorem admitted_delivery_live:
  assumes "admit_delivery cr fs srv store now now' r = Ok scope" "delegation r = Some c"
  shows "\<exists>s root path. store = Ok s \<and> names_live_execution s c now'
    \<and> auth_sender (authority r) = child_agent c \<and> now < cert_expires_at c
    \<and> fs_canonical fs (server_root srv) = Some root \<and> fs_canonical fs (operation_path (operation r)) = Some path
    \<and> path_components (cert_project_root c) = path_components root \<and> path_starts_with path root
    \<and> a2a_tenant_id srv = Some (account_id scope) \<and> a2a_project_id srv = Some (delivery_project_id scope)
    \<and> auth_request_digest (authority r) = ''sha256:'' @ dc_sha256_hex cr (dc_bound cr (operation r) c)
    \<and> (\<forall>entry. operation r = Record entry \<longrightarrow> write_grant_id c \<noteq> None
         \<and> entry_agent_id entry = child_agent c
         \<and> entry_access entry = Some \<lparr>access_scope = scope, access_privacy = cert_privacy c\<rparr>)"
proof -
  from assms obtain recipient tenant project derived where
    cfg: "a2a_recipient_id srv = Some recipient" "a2a_tenant_id srv = Some tenant"
      "a2a_project_id srv = Some project" "new_delivery_scope tenant project = Inr scope"
    and pol: "delegated_policy cr fs srv store recipient tenant project now' (operation r) c = Inr derived"
    and ver: "verify_delivery_authority (dc_authority cr) (dc_ed25519 cr) (authority r) derived
        \<lparr>exp_sender = auth_sender (authority r), exp_recipient = recipient,
         exp_tenant_id = tenant, exp_project_id = project, exp_now = now\<rparr>
        (action_of (operation r)) (bound_request_digest (dc_request cr) (dc_bound cr) (dc_sha256_hex cr) r) = Inr ()"
    and op: "check_operation scope (auth_sender (authority r)) (operation r) = Inr ()"
    by (auto simp: admit_delivery_def ebind_eq_Ok map_err_eq_Ok split: option.splits)
  from pol obtain root path s where
    fs: "fs_canonical fs (server_root srv) = Some root" "fs_canonical fs (operation_path (operation r)) = Some path"
      "path_components (cert_project_root c) = path_components root" "path_starts_with path root"
      "case record_privacy (operation r) of None \<Rightarrow> True | Some p \<Rightarrow> p = cert_privacy c" "store = Inr s"
    and ch: "child_delivery_authority (dc_json4 cr) (dc_hash_hex cr) (dc_certificate cr) (dc_ed25519 cr) s c
       (a2a_task_authority srv) \<lparr>exp_sender = child_agent c, exp_recipient = recipient, exp_tenant_id = tenant,
        exp_project_id = project, exp_now = now'\<rparr> = Inr derived"
    by (auto simp: delegated_policy_def ebind_eq_Ok ok_or_eq_Ok ensure_eq_Ok)
  note d = child_delivery_authority_eq_Ok [OF ch]
  from ver have
    v: "auth_action (authority r) = action_of (operation r)"
      "auth_request_digest (authority r) = bound_request_digest (dc_request cr) (dc_bound cr) (dc_sha256_hex cr) r"
    and az: "authorize (dc_ed25519 cr) (auth_claim (dc_authority cr) (authority r)) (derived_policy c)
       \<lparr>exp_sender = auth_sender (authority r), exp_recipient = recipient,
         exp_tenant_id = tenant, exp_project_id = project, exp_now = now\<rparr> = Inr ()"
    by (auto simp: verify_delivery_authority_def ebind_eq_Ok ensure_eq_Ok d(2))
  note n = derived_policy_narrow [OF az, unfolded auth_claim_def authority_claim.simps authority_expectation.simps]
  have rec: "write_grant_id c \<noteq> None \<and> entry_agent_id entry = child_agent c
      \<and> entry_access entry = Some \<lparr>access_scope = scope, access_privacy = cert_privacy c\<rparr>"
    if "operation r = Record entry" for entry
    using n(1,5) v(1) op fs(5) that
    by (auto simp: ensure_eq_Ok action_names split: option.splits intro: delivery_access.equality)
  have sc: "account_id scope = tenant" "delivery_project_id scope = project"
    using cfg(4) by (auto simp: new_delivery_scope_def split: if_splits)
  show ?thesis
    using cfg sc fs d(1) n(1,7,8) v(2) rec assms(2)
    by (intro exI [of _ s] exI [of _ root] exI [of _ path]) (auto simp: bound_request_digest_def)
qed

end
