(* ===== verification/Task_Model.thy ===== *)
theory Task_Model
  imports Task_Authority Btree_Map
begin

text \<open>
  The A2A task (\<open>core/a2a/task/model.rs\<close>): its state machine, its messages and its history.
  Every reading of the clock (\<open>Utc::now()\<close>) is an argument, in the order the code reads it.
  The context gateway (\<open>context_admission\<close>), which masks or withholds text, is the record
  \<open>gateway\<close> of the functions the task code calls; nothing is assumed of it.
\<close>

section \<open>Data\<close>

datatype task_state = Created | Working | InputRequired | Completed | Failed | Canceled

datatype task_part =
    Text string
  | Data string string
  | File string "string option" "string option" "string option"

record task_message =
  role :: string
  msg_parts :: "task_part list"
  msg_timestamp :: int

record task_transition =
  tr_from :: task_state
  tr_to :: task_state
  tr_timestamp :: int
  tr_reason :: "string option"

record task =
  task_id :: string
  from_agent :: string
  to_agent :: string
  task_state :: task_state
  task_description :: string
  messages :: "task_message list"
  artifacts :: "task_part list"
  history :: "task_transition list"
  metadata :: "(string, string) btree_map"
  task_created_at :: int
  task_updated_at :: int
  task_tenant_id :: "string option"
  task_project_id :: "string option"
  task_action :: "string option"
  task_idempotency_key :: "string option"
  authority_key_id :: "string option"
  descriptor_digest :: "string option"
  task_artifact_refs :: "artifact_ref list"

record 'w gateway =
  admit_for_store :: "string \<Rightarrow> 'w + string"
  serve_stored :: "string \<Rightarrow> 'w + string"
  notice :: "'w \<Rightarrow> string"
  withheld_text :: "'w \<Rightarrow> string \<Rightarrow> string"

definition MAX_HISTORY :: nat where "MAX_HISTORY = 2048"

definition REASON_CREATED :: string where "REASON_CREATED = ''task created''"
definition REASON_MATERIALIZED :: string where "REASON_MATERIALIZED = ''remote task materialized''"
definition REASON_INPUT_RECEIVED :: string where "REASON_INPUT_RECEIVED = ''input received via A2A''"
definition REASON_CANCELED_VIA_A2A :: string where "REASON_CANCELED_VIA_A2A = ''canceled via A2A''"

definition engine_reason :: "string \<Rightarrow> bool" where
  "engine_reason reason \<longleftrightarrow> reason \<in> {REASON_CREATED, REASON_MATERIALIZED, REASON_INPUT_RECEIVED,
     REASON_CANCELED_VIA_A2A}"

section \<open>States\<close>

fun show_state :: "task_state \<Rightarrow> string" where
  "show_state Created = ''created''"
| "show_state Working = ''working''"
| "show_state InputRequired = ''input-required''"
| "show_state Completed = ''completed''"
| "show_state Failed = ''failed''"
| "show_state Canceled = ''canceled''"

definition parse_state :: "string \<Rightarrow> task_state option" where
  "parse_state s =
     (if s = ''created'' then Some Created
      else if s = ''working'' then Some Working
      else if s = ''input-required'' \<or> s = ''input_required'' then Some InputRequired
      else if s = ''completed'' then Some Completed
      else if s = ''failed'' then Some Failed
      else if s = ''canceled'' \<or> s = ''cancelled'' then Some Canceled
      else None)"

definition is_terminal :: "task_state \<Rightarrow> bool" where
  "is_terminal s \<longleftrightarrow> s = Completed \<or> s = Failed \<or> s = Canceled"

fun can_transition_to :: "task_state \<Rightarrow> task_state \<Rightarrow> bool" where
  "can_transition_to Created new \<longleftrightarrow> new = Working \<or> new = Canceled \<or> new = Failed"
| "can_transition_to Working new \<longleftrightarrow> new = InputRequired \<or> new = Completed \<or> new = Failed \<or> new = Canceled"
| "can_transition_to InputRequired new \<longleftrightarrow> new = Working \<or> new = Canceled \<or> new = Failed"
| "can_transition_to Completed new \<longleftrightarrow> False"
| "can_transition_to Failed new \<longleftrightarrow> False"
| "can_transition_to Canceled new \<longleftrightarrow> False"

section \<open>Parts\<close>

text \<open>Every caller-chosen string of a part passed through \<open>f\<close>, or the first refusal.\<close>

definition opt_map :: "(string \<Rightarrow> 'w + string) \<Rightarrow> string option \<Rightarrow> 'w + string option" where
  "opt_map f v = (case v of None \<Rightarrow> Ok None | Some s \<Rightarrow> ebind (f s) (\<lambda>t. Ok (Some t)))"

fun try_map :: "(string \<Rightarrow> 'w + string) \<Rightarrow> task_part \<Rightarrow> 'w + task_part" where
  "try_map f (Text t) = ebind (f t) (\<lambda>t'. Ok (Text t'))"
| "try_map f (Data mime d) = ebind (f mime) (\<lambda>mime'. ebind (f d) (\<lambda>d'. Ok (Data mime' d')))"
| "try_map f (File name mime d uri) =
     ebind (f name) (\<lambda>name'. ebind (opt_map f mime) (\<lambda>mime'. ebind (opt_map f d) (\<lambda>d'.
     ebind (opt_map f uri) (\<lambda>uri'. Ok (File name' mime' d' uri')))))"

definition admitted :: "'w gateway \<Rightarrow> task_part \<Rightarrow> 'w + task_part" where
  "admitted gw p = try_map (admit_for_store gw) p"

definition served_part :: "'w gateway \<Rightarrow> task_part \<Rightarrow> task_part" where
  "served_part gw p = (case try_map (serve_stored gw) p of Inl w \<Rightarrow> Text (notice gw w) | Inr q \<Rightarrow> q)"

definition served_text :: "'w gateway \<Rightarrow> string \<Rightarrow> string" where
  "served_text gw t = (case serve_stored gw t of Inl w \<Rightarrow> notice gw w | Inr u \<Rightarrow> u)"

section \<open>Tasks\<close>

definition first_transition :: "string \<Rightarrow> int \<Rightarrow> task_transition" where
  "first_transition reason now =
     \<lparr>tr_from = Created, tr_to = Created, tr_timestamp = now, tr_reason = Some reason\<rparr>"

definition new_task :: "string \<Rightarrow> int \<Rightarrow> string \<Rightarrow> string \<Rightarrow> string \<Rightarrow> task" where
  "new_task uuid now from to description =
     \<lparr>task_id = ''task-'' @ uuid, from_agent = from, to_agent = to, task_state = Created,
      task_description = description,
      messages = [\<lparr>role = from, msg_parts = [Text description], msg_timestamp = now\<rparr>],
      artifacts = [], history = [first_transition REASON_CREATED now], metadata = bempty,
      task_created_at = now, task_updated_at = now, task_tenant_id = None, task_project_id = None,
      task_action = None, task_idempotency_key = None, authority_key_id = None,
      descriptor_digest = None, task_artifact_refs = []\<rparr>"

definition from_remote_descriptor ::
  "'w gateway \<Rightarrow> (task_descriptor \<Rightarrow> string) \<Rightarrow> (string \<Rightarrow> string) \<Rightarrow> int \<Rightarrow> task_descriptor \<Rightarrow> string
   \<Rightarrow> 'w + task" where
  "from_remote_descriptor gw canonical sha256_hex now d tid =
     ebind (admit_for_store gw (desc_description d)) (\<lambda>description.
     Ok \<lparr>task_id = tid, from_agent = desc_sender d, to_agent = desc_recipient d, task_state = Created,
         task_description = description,
         messages = [\<lparr>role = desc_sender d, msg_parts = [Text description], msg_timestamp = now\<rparr>],
         artifacts = [], history = [first_transition REASON_MATERIALIZED now],
         metadata = binsert ''action'' (desc_action d) (binsert ''schema_version'' ''1'' bempty),
         task_created_at = now, task_updated_at = now, task_tenant_id = Some (desc_tenant_id d),
         task_project_id = Some (desc_project_id d), task_action = Some (desc_action d),
         task_idempotency_key = Some (desc_idempotency_key d), authority_key_id = Some (desc_key_id d),
         descriptor_digest = Some (content_digest canonical sha256_hex d),
         task_artifact_refs = desc_artifact_refs d\<rparr>)"

definition served_transition :: "'w gateway \<Rightarrow> task_transition \<Rightarrow> task_transition" where
  "served_transition gw tr =
     (case tr_reason tr of
        None \<Rightarrow> tr
      | Some reason \<Rightarrow> if engine_reason reason then tr
                      else tr\<lparr>tr_reason := Some (served_text gw reason)\<rparr>)"

definition served :: "'w gateway \<Rightarrow> task \<Rightarrow> task" where
  "served gw t =
     t\<lparr>task_description := served_text gw (task_description t),
       messages := map (\<lambda>m. m\<lparr>msg_parts := map (served_part gw) (msg_parts m)\<rparr>) (messages t),
       artifacts := map (served_part gw) (artifacts t),
       metadata := bmap (\<lambda>_. served_text gw) (metadata t),
       history := map (served_transition gw) (history t)\<rparr>"

definition admitted_reason :: "'w gateway \<Rightarrow> string option \<Rightarrow> string + string option" where
  "admitted_reason gw reason =
     (case reason of
        None \<Rightarrow> Ok None
      | Some r \<Rightarrow> if engine_reason r then Ok (Some r)
                  else map_err (\<lambda>w. withheld_text gw w ''task reason'')
                         (ebind (admit_for_store gw r) (\<lambda>a. Ok (Some a))))"

definition transition ::
  "'w gateway \<Rightarrow> task \<Rightarrow> task_state \<Rightarrow> string option \<Rightarrow> int \<Rightarrow> string + task" where
  "transition gw t new reason now =
     (if MAX_HISTORY \<le> length (history t) then Err ''task transition history limit exceeded''
      else if length (history t) = MAX_HISTORY - 1 \<and> \<not> is_terminal new
        then Err ''task transition history reserved for terminal state''
      else if \<not> can_transition_to (task_state t) new
        then Err (''invalid transition: '' @ show_state (task_state t)
                  @ [CHR 0x20, CHR 0xE2, CHR 0x86, CHR 0x92, CHR 0x20] @ show_state new)
      else if now < task_updated_at t then Err ''task clock precedes stored state''
      else ebind (admitted_reason gw reason) (\<lambda>admitted.
           Ok (t\<lparr>history := history t @ [\<lparr>tr_from = task_state t, tr_to = new, tr_timestamp = now,
                                          tr_reason = admitted\<rparr>],
                 task_state := new, task_updated_at := now\<rparr>)))"

text \<open>Two readings of the clock: one for the message, one for the task.\<close>

definition add_message :: "task \<Rightarrow> string \<Rightarrow> task_part list \<Rightarrow> int \<Rightarrow> int \<Rightarrow> task" where
  "add_message t who ps now now' =
     t\<lparr>messages := messages t @ [\<lparr>role = who, msg_parts = ps, msg_timestamp = now\<rparr>],
       task_updated_at := now'\<rparr>"

definition append_message ::
  "'w gateway \<Rightarrow> task \<Rightarrow> string \<Rightarrow> task_part list \<Rightarrow> int \<Rightarrow> int \<Rightarrow> 'w + task" where
  "append_message gw t who ps now now' =
     ebind (efold (\<lambda>p acc. ebind (admitted gw p) (\<lambda>q. Ok (acc @ [q]))) ps []) (\<lambda>qs.
     Ok (add_message t who qs now now'))"

definition add_artifact :: "task \<Rightarrow> task_part \<Rightarrow> int \<Rightarrow> task" where
  "add_artifact t a now = t\<lparr>artifacts := artifacts t @ [a], task_updated_at := now\<rparr>"

end
