(* ===== verification/Task_Store.thy ===== *)
theory Task_Store
  imports Task_Model
begin

text \<open>
  The task store (\<open>core/a2a/task/store.rs\<close>): the tasks of a project and the ledger of
  idempotency keys, kept in one file. Loading and saving apply the same validation. JSON is the
  pair of arguments \<open>parse_tasks\<close> and \<open>show_tasks\<close>, an absent file \<^const>\<open>None\<close>; the lock makes
  one mutation one step. The metadata of a task is a hash map in the source; its order only
  selects which of several errors is reported.
\<close>

section \<open>Data\<close>

definition MAX_TASK_STORE_BYTES :: nat where "MAX_TASK_STORE_BYTES = 8 * 1024 * 1024"
definition MAX_TASKS :: nat where "MAX_TASKS = 10000"
definition MAX_IDEMPOTENCY_RECORDS :: nat where "MAX_IDEMPOTENCY_RECORDS = 10000"
definition MAX_ID_BYTES :: nat where "MAX_ID_BYTES = 256"
definition MAX_MESSAGES :: nat where "MAX_MESSAGES = 1024"
definition MAX_PARTS :: nat where "MAX_PARTS = 1024"
definition MAX_PARTS_PER_MESSAGE :: nat where "MAX_PARTS_PER_MESSAGE = 256"
definition MAX_METADATA_ENTRIES :: nat where "MAX_METADATA_ENTRIES = 256"
definition MAX_TEXT_BYTES :: nat where "MAX_TEXT_BYTES = 1024 * 1024"
definition MAX_METADATA_VALUE_BYTES :: nat where "MAX_METADATA_VALUE_BYTES = 64 * 1024"

record idempotency_record =
  rec_schema_version :: nat
  rec_key :: string
  rec_sender :: string
  rec_recipient :: string
  rec_tenant_id :: string
  rec_project_id :: string
  rec_action :: string
  rec_key_id :: string
  rec_descriptor_digest :: string
  rec_task_id :: string
  rec_created_at :: int

record remote_task_materialization =
  materialized_task_id :: string
  duplicate :: bool

record task_store =
  tasks :: "task list"
  store_updated_at :: "int option"
  idempotency :: "idempotency_record list"

datatype task_io_error =
    InvalidInput task_authority_error
  | InvalidData string
  | AlreadyExists string
  | PermissionDenied string
  | Unparsable

type_synonym 'a task_io = "task_io_error + 'a"

definition default_task_store :: task_store where
  "default_task_store = \<lparr>tasks = [], store_updated_at = None, idempotency = []\<rparr>"

section \<open>Validation\<close>

definition validate_bounded :: "string \<Rightarrow> string \<Rightarrow> nat \<Rightarrow> unit task_io" where
  "validate_bounded value field max_bytes =
     ensure (length value \<le> max_bytes) (InvalidData (''invalid '' @ field))"

definition validate_bounded_nonempty :: "string \<Rightarrow> string \<Rightarrow> nat \<Rightarrow> unit task_io" where
  "validate_bounded_nonempty value field max_bytes =
     ebind (ensure (value \<noteq> []) (InvalidData (''invalid '' @ field))) (\<lambda>_.
     validate_bounded value field max_bytes)"

definition validate_restored_identifier :: "string \<Rightarrow> string \<Rightarrow> unit task_io" where
  "validate_restored_identifier value field =
     ebind (validate_bounded_nonempty value field MAX_ID_BYTES) (\<lambda>_.
     ensure (\<not> has_control value) (InvalidData (''invalid '' @ field)))"

fun validate_part :: "task_part \<Rightarrow> unit task_io" where
  "validate_part (Text t) = validate_bounded t ''text part'' MAX_TEXT_BYTES"
| "validate_part (Data mime d) =
     ebind (validate_restored_identifier mime ''data mime_type'') (\<lambda>_.
     validate_bounded d ''data part'' MAX_TEXT_BYTES)"
| "validate_part (File name mime d uri) =
     ebind (validate_restored_identifier name ''file name'') (\<lambda>_.
     ebind (case mime of None \<Rightarrow> Ok () | Some v \<Rightarrow> validate_restored_identifier v ''file mime_type'') (\<lambda>_.
     ebind (case d of None \<Rightarrow> Ok () | Some v \<Rightarrow> validate_bounded v ''file data'' MAX_TEXT_BYTES) (\<lambda>_.
     ebind (case uri of None \<Rightarrow> Ok () | Some v \<Rightarrow> validate_bounded_nonempty v ''file uri'' MAX_TEXT_BYTES) (\<lambda>_.
     ensure (d \<noteq> None \<or> uri \<noteq> None) (InvalidData ''file part requires data or uri'')))))"

definition validate_reason :: "task_transition \<Rightarrow> unit task_io" where
  "validate_reason tr = (case tr_reason tr of
     None \<Rightarrow> Ok () | Some r \<Rightarrow> validate_bounded r ''transition reason'' MAX_DESCRIPTION_BYTES)"

text \<open>The loop over the transitions after the first: the state and the instant reached so far.\<close>

fun replay_history :: "task_transition list \<Rightarrow> task_state \<Rightarrow> int \<Rightarrow> (task_state \<times> int) task_io" where
  "replay_history [] state timestamp = Ok (state, timestamp)"
| "replay_history (tr # trs) state timestamp =
     ebind (ensure (tr_from tr = state \<and> can_transition_to (tr_from tr) (tr_to tr)
              \<and> timestamp \<le> tr_timestamp tr) (InvalidData ''task history is inconsistent'')) (\<lambda>_.
     ebind (validate_reason tr) (\<lambda>_. replay_history trs (tr_to tr) (tr_timestamp tr)))"

definition validate_history :: "task \<Rightarrow> unit task_io" where
  "validate_history t =
     (case history t of
        [] \<Rightarrow> Err (InvalidData ''index out of bounds'')
      | first # rest \<Rightarrow>
          ebind (ensure (tr_from first = Created \<and> tr_to first = Created)
                   (InvalidData ''task history has invalid origin'')) (\<lambda>_.
          ebind (validate_reason first) (\<lambda>_.
          ebind (replay_history rest Created (tr_timestamp first)) (\<lambda>(state, timestamp).
          ensure (state = task_state t \<and> task_created_at t \<le> tr_timestamp first
                  \<and> timestamp \<le> task_updated_at t) (InvalidData ''task state does not match history'')))))"

definition validate_message :: "task \<Rightarrow> task_message \<Rightarrow> unit task_io" where
  "validate_message t m =
     ebind (validate_restored_identifier (role m) ''message role'') (\<lambda>_.
     ebind (ensure (task_created_at t \<le> msg_timestamp m \<and> msg_timestamp m \<le> task_updated_at t)
              (InvalidData ''message timestamp is outside task lifetime'')) (\<lambda>_.
     ebind (ensure (length (msg_parts m) \<le> MAX_PARTS_PER_MESSAGE)
              (InvalidData ''message part limit exceeded'')) (\<lambda>_.
     efor (msg_parts m) validate_part)))"

definition validate_task :: "task \<Rightarrow> unit task_io" where
  "validate_task t =
     ebind (validate_restored_identifier (from_agent t) ''from_agent'') (\<lambda>_.
     ebind (validate_restored_identifier (to_agent t) ''to_agent'') (\<lambda>_.
     ebind (validate_bounded_nonempty (task_description t) ''task description'' MAX_DESCRIPTION_BYTES) (\<lambda>_.
     ebind (ensure (task_created_at t \<le> task_updated_at t)
              (InvalidData ''task timestamps are inconsistent'')) (\<lambda>_.
     ebind (ensure (length (messages t) \<le> MAX_MESSAGES \<and> length (artifacts t) \<le> MAX_PARTS
              \<and> history t \<noteq> [] \<and> length (history t) \<le> MAX_HISTORY
              \<and> blen (metadata t) \<le> MAX_METADATA_ENTRIES)
              (InvalidData ''task collection limit exceeded'')) (\<lambda>_.
     ebind (efor (messages t) (validate_message t)) (\<lambda>_.
     ebind (efor (artifacts t) validate_part) (\<lambda>_.
     ebind (efor (entries (metadata t)) (\<lambda>(k, v).
              ebind (validate_restored_identifier k ''metadata key'') (\<lambda>_.
              validate_bounded v ''metadata value'' MAX_METADATA_VALUE_BYTES))) (\<lambda>_.
     validate_history t))))))))"

fun validate_tasks :: "task list \<Rightarrow> string set \<Rightarrow> unit task_io" where
  "validate_tasks [] seen = Ok ()"
| "validate_tasks (t # ts) seen =
     ebind (validate_restored_identifier (task_id t) ''task id'') (\<lambda>_.
     ebind (ensure (task_id t \<notin> seen) (InvalidData ''task store contains duplicate task ids'')) (\<lambda>_.
     ebind (validate_task t) (\<lambda>_. validate_tasks ts (insert (task_id t) seen))))"

definition validate_restored :: "task_store \<Rightarrow> unit task_io" where
  "validate_restored s =
     ebind (ensure (length (tasks s) \<le> MAX_TASKS) (InvalidData ''task store entry limit exceeded'')) (\<lambda>_.
     validate_tasks (tasks s) {})"

section \<open>Persistence\<close>

definition load_tasks :: "(string \<Rightarrow> task_store option) \<Rightarrow> string option \<Rightarrow> task_store task_io" where
  "load_tasks parse_tasks file =
     (case file of
        None \<Rightarrow> Ok default_task_store
      | Some content \<Rightarrow>
          ebind (ensure (length content \<le> MAX_TASK_STORE_BYTES)
                   (InvalidData ''task store exceeds size limit'')) (\<lambda>_.
          ebind (ok_or (parse_tasks content) Unparsable) (\<lambda>s.
          ebind (ensure (length (idempotency s) \<le> MAX_IDEMPOTENCY_RECORDS)
                   (InvalidData ''task idempotency entry limit exceeded'')) (\<lambda>_.
          ebind (validate_restored s) (\<lambda>_. Ok s)))))"

definition save_tasks :: "(task_store \<Rightarrow> string) \<Rightarrow> task_store \<Rightarrow> string task_io" where
  "save_tasks show_tasks s =
     ebind (validate_restored s) (\<lambda>_.
     let json = show_tasks s
     in ebind (ensure (length json \<le> MAX_TASK_STORE_BYTES) (InvalidData ''task store exceeds size limit''))
          (\<lambda>_. Ok json))"

text \<open>
  \<open>mutate_under\<close>: load, change, check the two limits, stamp, save. The file is replaced last, so
  an error leaves it as it was.
\<close>

definition mutate_tasks ::
  "(string \<Rightarrow> task_store option) \<Rightarrow> (task_store \<Rightarrow> string) \<Rightarrow> int
   \<Rightarrow> (task_store \<Rightarrow> ('a \<times> task_store) task_io) \<Rightarrow> string option \<Rightarrow> 'a task_io \<times> string option" where
  "mutate_tasks parse_tasks show_tasks now change file =
     (case ebind (load_tasks parse_tasks file) (\<lambda>s.
           ebind (change s) (\<lambda>(x, s1).
           ebind (ensure (length (tasks s1) \<le> MAX_TASKS) (InvalidData ''task store entry limit exceeded'')) (\<lambda>_.
           ebind (ensure (length (idempotency s1) \<le> MAX_IDEMPOTENCY_RECORDS)
                    (InvalidData ''task idempotency entry limit exceeded'')) (\<lambda>_.
           ebind (save_tasks show_tasks (s1\<lparr>store_updated_at := Some now\<rparr>)) (\<lambda>json.
           Ok (x, json)))))) of
        Inl e \<Rightarrow> (Err e, file)
      | Inr (x, json) \<Rightarrow> (Ok x, Some json))"

section \<open>Operations\<close>

definition create_task ::
  "task_store \<Rightarrow> string \<Rightarrow> int \<Rightarrow> int \<Rightarrow> string \<Rightarrow> string \<Rightarrow> string \<Rightarrow> string \<times> task_store" where
  "create_task s uuid now now' from to description =
     (let t = new_task uuid now from to description
      in (task_id t, s\<lparr>tasks := tasks s @ [t], store_updated_at := Some now'\<rparr>))"

definition create_admitted ::
  "'w gateway \<Rightarrow> task_store \<Rightarrow> string \<Rightarrow> int \<Rightarrow> int \<Rightarrow> string \<Rightarrow> string \<Rightarrow> string \<Rightarrow> 'w + task_store" where
  "create_admitted gw s uuid now now' from to description =
     ebind (admit_for_store gw description) (\<lambda>admitted.
     Ok (s\<lparr>tasks := tasks s @ [new_task uuid now from to admitted], store_updated_at := Some now'\<rparr>))"

definition matches_authority :: "idempotency_record \<Rightarrow> task_descriptor \<Rightarrow> bool" where
  "matches_authority r d \<longleftrightarrow> rec_sender r = desc_sender d \<and> rec_recipient r = desc_recipient d
     \<and> rec_tenant_id r = desc_tenant_id d \<and> rec_project_id r = desc_project_id d
     \<and> rec_action r = desc_action d \<and> rec_key_id r = desc_key_id d"

definition prune_idempotency :: "task_store \<Rightarrow> int \<Rightarrow> task_store" where
  "prune_idempotency s now =
     s\<lparr>idempotency := filter (\<lambda>r. now - seconds IDEMPOTENCY_RETENTION_SECONDS < rec_created_at r) (idempotency s)\<rparr>"

definition record_of :: "task_descriptor \<Rightarrow> string \<Rightarrow> string \<Rightarrow> int \<Rightarrow> idempotency_record" where
  "record_of d digest tid now =
     \<lparr>rec_schema_version = TASK_SCHEMA_VERSION, rec_key = desc_idempotency_key d, rec_sender = desc_sender d,
      rec_recipient = desc_recipient d, rec_tenant_id = desc_tenant_id d,
      rec_project_id = desc_project_id d, rec_action = desc_action d, rec_key_id = desc_key_id d,
      rec_descriptor_digest = digest, rec_task_id = tid, rec_created_at = now\<rparr>"

text \<open>The change of \<open>materialize_remote_task\<close> under the lock; \<open>now'\<close> is read for the task.\<close>

definition materialize_change ::
  "'w gateway \<Rightarrow> (task_descriptor \<Rightarrow> string) \<Rightarrow> (string \<Rightarrow> string) \<Rightarrow> string \<Rightarrow> int \<Rightarrow> int \<Rightarrow> task_descriptor
   \<Rightarrow> task_store \<Rightarrow> (remote_task_materialization \<times> task_store) task_io" where
  "materialize_change gw canonical sha256_hex uuid now now' d s0 =
     (let s = prune_idempotency s0 now; digest = content_digest canonical sha256_hex d
      in case find (\<lambda>r. rec_key r = desc_idempotency_key d) (idempotency s) of
           Some existing \<Rightarrow>
             if matches_authority existing d \<and> rec_descriptor_digest existing = digest
             then Ok (\<lparr>materialized_task_id = rec_task_id existing, duplicate = True\<rparr>, s)
             else Err (AlreadyExists ''conflicting idempotency key reuse'')
         | None \<Rightarrow>
             if MAX_IDEMPOTENCY_RECORDS \<le> length (idempotency s) \<or> MAX_TASKS \<le> length (tasks s)
             then Err (InvalidData ''task idempotency entry limit exceeded'')
             else let tid = ''task-'' @ uuid
             in ebind (map_err (\<lambda>w. PermissionDenied (withheld_text gw w ''task text''))
                        (from_remote_descriptor gw canonical sha256_hex now' d tid)) (\<lambda>t.
                Ok (\<lparr>materialized_task_id = tid, duplicate = False\<rparr>,
                    s\<lparr>tasks := tasks s @ [t],
                      idempotency := idempotency s @ [record_of d digest tid now]\<rparr>)))"

definition materialize_remote_task ::
  "'w gateway \<Rightarrow> (task_descriptor \<Rightarrow> string) \<Rightarrow> (string \<Rightarrow> string) \<Rightarrow> (string \<Rightarrow> task_store option)
   \<Rightarrow> (task_store \<Rightarrow> string) \<Rightarrow> string \<Rightarrow> int \<Rightarrow> int \<Rightarrow> int \<Rightarrow> task_descriptor \<Rightarrow> string option
   \<Rightarrow> remote_task_materialization task_io \<times> string option" where
  "materialize_remote_task gw canonical sha256_hex parse_tasks show_tasks uuid now now' now'' d file =
     (case validate_descriptor_shape canonical d of
        Inl e \<Rightarrow> (Err (InvalidInput e), file)
      | Inr _ \<Rightarrow> mutate_tasks parse_tasks show_tasks now''
                  (materialize_change gw canonical sha256_hex uuid now now' d) file)"

definition get_task :: "task_store \<Rightarrow> string \<Rightarrow> task option" where
  "get_task s tid = find (\<lambda>t. task_id t = tid) (tasks s)"

definition tasks_for_agent :: "task_store \<Rightarrow> string \<Rightarrow> task list" where
  "tasks_for_agent s aid = filter (\<lambda>t. to_agent t = aid \<or> from_agent t = aid) (tasks s)"

definition pending_tasks_for :: "task_store \<Rightarrow> string \<Rightarrow> task list" where
  "pending_tasks_for s aid = filter (\<lambda>t. to_agent t = aid \<and> \<not> is_terminal (task_state t)) (tasks s)"

text \<open>A write through \<open>get_task_mut\<close>: the first task with the id is replaced.\<close>

fun put_task :: "task list \<Rightarrow> string \<Rightarrow> task \<Rightarrow> task list" where
  "put_task [] tid t' = []"
| "put_task (t # ts) tid t' = (if task_id t = tid then t' # ts else t # put_task ts tid t')"

text \<open>\<open>cleanup_old\<close> for an age whose duration \<open>chrono\<close> can represent.\<close>

definition cleanup_old :: "task_store \<Rightarrow> int \<Rightarrow> nat \<Rightarrow> task_store" where
  "cleanup_old s now max_age_hours =
     prune_idempotency (s\<lparr>tasks := filter (\<lambda>t. \<not> is_terminal (task_state t)
         \<or> now - seconds (int max_age_hours * 3600) < task_updated_at t) (tasks s)\<rparr>) now"

end
