(* ===== verification/Task_Laws.thy ===== *)
theory Task_Laws
  imports Task_Store Authority_Laws
begin

text \<open>
  The life of a task and of its idempotency key: every history a task can reach replays from
  its creation, an open task can always be ended, and a signed descriptor creates one task
  however often it is delivered while it is valid.
\<close>

section \<open>Histories\<close>

definition linked :: "task_transition \<Rightarrow> task_transition \<Rightarrow> bool" where
  "linked a b \<longleftrightarrow> tr_from b = tr_to a \<and> can_transition_to (tr_from b) (tr_to b)
     \<and> tr_timestamp a \<le> tr_timestamp b"

definition history_ok :: "task \<Rightarrow> bool" where
  "history_ok t \<longleftrightarrow> history t \<noteq> []
     \<and> tr_from (hd (history t)) = Created \<and> tr_to (hd (history t)) = Created
     \<and> successively linked (history t) \<and> tr_to (last (history t)) = task_state t
     \<and> task_created_at t \<le> tr_timestamp (hd (history t))
     \<and> tr_timestamp (last (history t)) \<le> task_updated_at t"

lemma replay_history_eq_Ok [result_simps]:
  "replay_history trs (tr_to prev) (tr_timestamp prev) = Inr (s, ts) \<longleftrightarrow>
     successively linked (prev # trs) \<and> (\<forall>tr\<in>set trs. validate_reason tr = Inr ())
     \<and> s = tr_to (last (prev # trs)) \<and> ts = tr_timestamp (last (prev # trs))"
proof (induction trs arbitrary: prev)
  case (Cons tr trs)
  show ?case
    using Cons.IH [of tr] by (auto simp: ebind_eq_Ok result_simps linked_def)
qed auto

lemma validate_history_eq_Ok [result_simps]:
  "validate_history t = Inr u \<longleftrightarrow> history_ok t \<and> (\<forall>tr\<in>set (history t). validate_reason tr = Inr ())"
proof (cases "history t")
  case (Cons first rest)
  show ?thesis
  proof (cases "tr_to first = Created")
    case True
    show ?thesis
      using replay_history_eq_Ok [of rest first] Cons True
      by (auto simp: validate_history_def history_ok_def ebind_eq_Ok result_simps)
  qed (use Cons in \<open>auto simp: validate_history_def history_ok_def ebind_eq_Ok result_simps\<close>)
qed (simp add: validate_history_def history_ok_def)

section \<open>The life of a task\<close>

definition task_init :: "'w gateway \<Rightarrow> task \<Rightarrow> bool" where
  "task_init gw t \<longleftrightarrow> (\<exists>uuid now from to desc. t = new_task uuid now from to desc)
     \<or> (\<exists>canonical sha256_hex now d tid. from_remote_descriptor gw canonical sha256_hex now d tid = Ok t)"

text \<open>The operations on a task; a message or an artifact is added by a clock that does not go back.\<close>

inductive task_step :: "'w gateway \<Rightarrow> task \<Rightarrow> task \<Rightarrow> bool" for gw :: "'w gateway" where
  step_transition: "transition gw t new reason now = Ok t' \<Longrightarrow> task_step gw t t'"
| step_message: "task_updated_at t \<le> now \<Longrightarrow> now \<le> now' \<Longrightarrow> task_step gw t (add_message t who ps now now')"
| step_append: "append_message gw t who ps now now' = Ok t' \<Longrightarrow> task_updated_at t \<le> now \<Longrightarrow> now \<le> now'
    \<Longrightarrow> task_step gw t t'"
| step_artifact: "task_updated_at t \<le> now \<Longrightarrow> task_step gw t (add_artifact t a now)"

definition task_inv :: "task \<Rightarrow> bool" where
  "task_inv t \<longleftrightarrow> history_ok t \<and> length (history t) \<le> MAX_HISTORY
     \<and> (\<not> is_terminal (task_state t) \<longrightarrow> length (history t) < MAX_HISTORY)
     \<and> task_created_at t \<le> task_updated_at t
     \<and> (\<forall>m\<in>set (messages t). task_created_at t \<le> msg_timestamp m \<and> msg_timestamp m \<le> task_updated_at t)"

lemma first_transition_fields [simp]:
  "tr_from (first_transition r now) = Created" "tr_to (first_transition r now) = Created"
  "tr_timestamp (first_transition r now) = now"
  by (simp_all add: first_transition_def)

lemma task_inv_init: "task_init gw t \<Longrightarrow> task_inv t"
  by (auto simp: task_init_def task_inv_def history_ok_def new_task_def from_remote_descriptor_def
      ebind_eq_Ok MAX_HISTORY_def)

lemma history_ok_snoc:
  assumes "history_ok t" "can_transition_to (task_state t) new" "task_updated_at t \<le> now"
  shows "history_ok (t\<lparr>history := history t @ [\<lparr>tr_from = task_state t, tr_to = new, tr_timestamp = now,
           tr_reason = r\<rparr>], task_state := new, task_updated_at := now\<rparr>)"
  using assms by (auto simp: history_ok_def successively_append_iff linked_def)

lemma transition_cases:
  assumes "transition gw t new reason now = Inr t'"
  obtains r where "t' = t\<lparr>history := history t @ [\<lparr>tr_from = task_state t, tr_to = new, tr_timestamp = now,
      tr_reason = r\<rparr>], task_state := new, task_updated_at := now\<rparr>"
    "can_transition_to (task_state t) new" "task_updated_at t \<le> now" "length (history t) < MAX_HISTORY"
    "is_terminal new \<or> Suc (length (history t)) < MAX_HISTORY"
proof -
  have "MAX_HISTORY - 1 \<noteq> length (history t) \<Longrightarrow> length (history t) < MAX_HISTORY \<Longrightarrow>
      Suc (length (history t)) < MAX_HISTORY" by simp
  with assms that show ?thesis
    by (fastforce simp: transition_def ebind_eq_Ok split: if_splits)
qed

lemma task_inv_stamp:
  "task_inv t \<Longrightarrow> task_updated_at t \<le> now \<Longrightarrow> now \<le> now' \<Longrightarrow> task_inv (add_message t who ps now now')"
  "task_inv t \<Longrightarrow> task_updated_at t \<le> now \<Longrightarrow> task_inv (add_artifact t a now)"
  by (fastforce simp: task_inv_def history_ok_def add_message_def add_artifact_def)+

lemma task_inv_step:
  assumes "task_inv t" "task_step gw t t'"
  shows "task_inv t'"
  using assms(2)
proof cases
  case (step_transition new reason now)
  then show ?thesis
  proof (rule transition_cases)
    fix r
    assume t': "t' = t\<lparr>history := history t @ [\<lparr>tr_from = task_state t, tr_to = new, tr_timestamp = now,
      tr_reason = r\<rparr>], task_state := new, task_updated_at := now\<rparr>"
      "can_transition_to (task_state t) new" "task_updated_at t \<le> now" "length (history t) < MAX_HISTORY"
      "is_terminal new \<or> Suc (length (history t)) < MAX_HISTORY"
    with assms(1) history_ok_snoc [OF _ t'(2,3)] show ?thesis by (fastforce simp: task_inv_def)
  qed
qed (use assms(1) in \<open>auto simp: append_message_def ebind_eq_Ok task_inv_stamp\<close>)

interpretation tk: invariant_machine "task_init gw" "task_step gw" task_inv
  by unfold_locales (rule task_inv_init, assumption, rule task_inv_step)

text \<open>
  Every history is a replay: whatever operations a task has been through, its history starts
  at creation, each transition continues from the state before it, is one the state machine
  allows and is not earlier, the last one ends in the current state, and at most 2048 are kept.
\<close>

theorem task_history_sound:
  assumes "reaches (task_init gw) (task_step gw) t"
  shows "history_ok t \<and> length (history t) \<le> 2048
    \<and> (\<forall>m\<in>set (messages t). task_created_at t \<le> msg_timestamp m \<and> msg_timestamp m \<le> task_updated_at t)"
  using tk.reachable_inv [OF assms] by (simp add: task_inv_def MAX_HISTORY_def)

text \<open>
  An open task can always be ended: in every reachable state that is not terminal a
  cancellation and a failure are accepted, however long the history is, and lead to a terminal
  state that no further transition leaves.
\<close>

theorem open_task_can_end:
  assumes "reaches (task_init gw) (task_step gw) t" "\<not> is_terminal (task_state t)"
    and "task_updated_at t \<le> now" "new = Canceled \<or> new = Failed" "engine_reason reason"
  shows "\<exists>t'. transition gw t new (Some reason) now = Ok t' \<and> task_state t' = new
    \<and> (\<forall>newer r later t''. transition gw t' newer r later \<noteq> Ok t'')"
proof -
  have len: "length (history t) < MAX_HISTORY"
    using tk.reachable_inv [OF assms(1)] assms(2) by (simp add: task_inv_def)
  have "can_transition_to (task_state t) new"
    using assms(2,4) by (cases "task_state t") (auto simp: is_terminal_def)
  with len assms(3-5) obtain t' where t': "transition gw t new (Some reason) now = Ok t'" "task_state t' = new"
    by (auto simp: transition_def admitted_reason_def is_terminal_def)
  moreover have "\<not> can_transition_to (task_state t') newer" for newer
    using t'(2) assms(4) by auto
  ultimately show ?thesis by (auto elim: transition_cases)
qed

section \<open>One task per descriptor\<close>

text \<open>What happens to the ledger up to an instant: deliveries, clean-up, and any change of tasks.\<close>

inductive ledger_step ::
  "'w gateway \<Rightarrow> (task_descriptor \<Rightarrow> string) \<Rightarrow> (string \<Rightarrow> string) \<Rightarrow> int \<Rightarrow> task_store \<Rightarrow> task_store \<Rightarrow> bool"
  for gw :: "'w gateway" and canonical sha256_hex and until :: int where
  ledger_deliver: "materialize_change gw canonical sha256_hex uuid now now' d s = Ok (m, s') \<Longrightarrow> now \<le> until
    \<Longrightarrow> ledger_step gw canonical sha256_hex until s s'"
| ledger_cleanup: "now \<le> until \<Longrightarrow> ledger_step gw canonical sha256_hex until s (cleanup_old s now hours)"
| ledger_tasks: "ledger_step gw canonical sha256_hex until s (s\<lparr>tasks := ts, store_updated_at := u\<rparr>)"

definition sole_record :: "idempotency_record \<Rightarrow> task_store \<Rightarrow> bool" where
  "sole_record r s \<longleftrightarrow> r \<in> set (idempotency s) \<and> (\<forall>r'\<in>set (idempotency s). rec_key r' = rec_key r \<longrightarrow> r' = r)"

lemma sole_record_find:
  "sole_record r s \<Longrightarrow> find (\<lambda>x. rec_key x = rec_key r) (idempotency s) = Some r"
  by (cases "find (\<lambda>x. rec_key x = rec_key r) (idempotency s)")
     (auto simp: sole_record_def find_None_iff find_Some_iff)

lemma sole_record_prune:
  assumes "sole_record r s" "now - seconds IDEMPOTENCY_RETENTION_SECONDS < rec_created_at r"
  shows "sole_record r (prune_idempotency s now)"
  using assms by (auto simp: sole_record_def prune_idempotency_def)

lemma sole_record_step:
  assumes "ledger_step gw canonical sha256_hex until s s'" "sole_record r s"
    and "until - seconds IDEMPOTENCY_RETENTION_SECONDS < rec_created_at r"
  shows "sole_record r s'"
  using assms(1)
proof cases
  case (ledger_deliver uuid now now' d m)
  have "sole_record r (prune_idempotency s now)"
    using sole_record_prune [OF assms(2)] assms(3) ledger_deliver(2) by simp
  moreover from this have "rec_key r \<noteq> desc_idempotency_key d"
    if "find (\<lambda>r. rec_key r = desc_idempotency_key d) (idempotency (prune_idempotency s now)) = None"
    using that by (auto simp: find_None_iff sole_record_def)
  ultimately show ?thesis using ledger_deliver(1)
    by (auto simp: materialize_change_def Let_def ebind_eq_Ok sole_record_def record_of_def
        split: option.splits if_splits)
next
  case (ledger_cleanup now hours)
  then show ?thesis
    using sole_record_prune [of r "s\<lparr>tasks := filter (\<lambda>t. \<not> is_terminal (task_state t)
         \<or> now - seconds (int hours * 3600) < task_updated_at t) (tasks s)\<rparr>" now] assms(2,3)
    by (simp add: cleanup_old_def sole_record_def)
next
  case (ledger_tasks ts u)
  with assms(2) show ?thesis by (simp add: sole_record_def)
qed

lemma sole_record_run:
  assumes "(ledger_step gw canonical sha256_hex until)\<^sup>*\<^sup>* s s'" "sole_record r s"
    and "until - seconds IDEMPOTENCY_RETENTION_SECONDS < rec_created_at r"
  shows "sole_record r s'"
  using assms(1,2) by (induction rule: rtranclp_induct) (auto intro: sole_record_step [OF _ _ assms(3)])

lemma delivered_sole_record:
  assumes "materialize_change gw canonical sha256_hex uuid now now' d s = Inr (m, s')" "\<not> duplicate m"
  shows "sole_record (record_of d (content_digest canonical sha256_hex d) (materialized_task_id m) now) s'"
  using assms
  by (auto simp: materialize_change_def Let_def ebind_eq_Ok sole_record_def record_of_def find_None_iff
      split: option.splits if_splits)

text \<open>
  C38. A descriptor creates one task: once a send descriptor that passed the authority check has
  been materialized, then as long as it has not expired, and after any number of deliveries,
  clean-ups and task changes, delivering it again returns the id of that task as a duplicate and
  creates nothing. The lifetime is at most 24 hours to the nanosecond.
\<close>

theorem descriptor_creates_one_task:
  assumes "verify_descriptor_authority canonical ed25519 d policy e = Ok ()" "exp_now e \<le> now"
    and "desc_expires_at d - desc_issued_at d \<le> seconds MAX_TASK_LIFETIME_SECONDS"
    and "materialize_change gw canonical sha256_hex uuid now now' d s = Ok (m, s1)" "\<not> duplicate m"
    and "(ledger_step gw canonical sha256_hex later)\<^sup>*\<^sup>* s1 s2" "later < desc_expires_at d"
  shows "materialize_change gw canonical sha256_hex uuid' later later' d s2 =
    Ok (\<lparr>materialized_task_id = materialized_task_id m, duplicate = True\<rparr>, prune_idempotency s2 later)"
proof -
  let ?r = "record_of d (content_digest canonical sha256_hex d) (materialized_task_id m) now"
  have "desc_issued_at d \<le> exp_now e + seconds 60"
    using assms(1) by (auto simp: verify_descriptor_authority_def ebind_eq_Ok authorize_eq_Ok in_time_def desc_claim_def)
  then have kept: "later - seconds IDEMPOTENCY_RETENTION_SECONDS < rec_created_at ?r"
    using assms(2,3,7) by (simp add: record_of_def task_limits)
  have "sole_record ?r s2"
    by (rule sole_record_run [OF assms(6) delivered_sole_record [OF assms(4,5)] kept])
  then have "find (\<lambda>x. rec_key x = desc_idempotency_key d) (idempotency (prune_idempotency s2 later)) = Some ?r"
    using sole_record_find [OF sole_record_prune [OF _ kept]] by (simp add: record_of_def)
  then show ?thesis
    by (simp add: materialize_change_def matches_authority_def record_of_def)
qed

end
