(* ===== verification/Task_Witnesses.thy ===== *)
theory Task_Witnesses
  imports Task_Laws "HOL-Library.Code_Target_Nat"
begin

text \<open>
  A peer with one key and one grant, and the descriptors it sends: the task and authority
  properties applied, and a descriptor whose lifetime ends a fraction of a second late.
\<close>

definition demo_gateway :: "unit gateway" where
  "demo_gateway = \<lparr>admit_for_store = Inr, serve_stored = Inr, notice = (\<lambda>_. []), withheld_text = (\<lambda>_ _. [])\<rparr>"

definition demo_canonical :: "task_descriptor \<Rightarrow> string" where "demo_canonical d = desc_idempotency_key d"
definition demo_sha256 :: "string \<Rightarrow> string" where "demo_sha256 s = replicate 64 (CHR ''a'')"
definition demo_ed25519 :: "string \<Rightarrow> string \<Rightarrow> string \<Rightarrow> bool" where "demo_ed25519 key data sig \<longleftrightarrow> True"

definition demo_policy :: authority_config where
  "demo_policy = \<lparr>config_schema_version = 1,
     peers = [\<lparr>peer_schema_version = 1, peer_key_id = ''k1'', peer_agent_id = ''a1'',
       peer_public_key = replicate 64 (CHR ''0''), allowed_actions = [''tasks/send'', ''delivery/delegate''],
       allowed_scopes = [\<lparr>scope_schema_version = 1, scope_tenant_id = ''t1'', scope_project_id = ''p1''\<rparr>],
       peer_not_before = 0, peer_expires_at = seconds 200000, peer_revoked = False\<rparr>],
     grants = [\<lparr>grant_schema_version = 1, grant_id = ''g1'', grant_key_id = ''k1'', grant_action = ''tasks/send'',
       grant_tenant_id = ''t1'', grant_project_id = ''p1'', grant_not_before = 0,
       grant_expires_at = seconds 200000, grant_revoked = False\<rparr>,
      \<lparr>grant_schema_version = 1, grant_id = ''g2'', grant_key_id = ''k1'', grant_action = ''delivery/delegate'',
       grant_tenant_id = ''t1'', grant_project_id = ''p1'', grant_not_before = 0,
       grant_expires_at = seconds 200000, grant_revoked = False\<rparr>]\<rparr>"

definition demo_expect :: "int \<Rightarrow> authority_expectation" where
  "demo_expect now = \<lparr>exp_sender = ''a1'', exp_recipient = ''b1'', exp_tenant_id = ''t1'',
     exp_project_id = ''p1'', exp_now = now\<rparr>"

definition demo_descriptor :: "int \<Rightarrow> int \<Rightarrow> task_descriptor" where
  "demo_descriptor issued expires = \<lparr>desc_schema_version = 1, desc_sender = ''a1'', desc_recipient = ''b1'',
     desc_tenant_id = ''t1'', desc_project_id = ''p1'', desc_action = ''tasks/send'', desc_issued_at = issued,
     desc_expires_at = expires, desc_idempotency_key = ''key1'', desc_description = ''review'',
     desc_artifact_refs = [], desc_grant_ref = \<lparr>grant_ref_schema_version = 1, grant_ref_id = ''g1''\<rparr>,
     desc_key_id = ''k1'', desc_signature = replicate 128 (CHR ''0'')\<rparr>"

abbreviation demo_verify :: "task_descriptor \<Rightarrow> int \<Rightarrow> unit auth" where
  "demo_verify d now \<equiv> verify_descriptor_authority demo_canonical demo_ed25519 d demo_policy (demo_expect now)"

abbreviation demo_deliver ::
  "string \<Rightarrow> int \<Rightarrow> task_descriptor \<Rightarrow> task_store \<Rightarrow> (remote_task_materialization \<times> task_store) task_io" where
  "demo_deliver uuid now d s \<equiv> materialize_change demo_gateway demo_canonical demo_sha256 uuid now now d s"

text \<open>
  The retention of idempotency keys is one second too short for the descriptors the shape check
  accepts: it truncates the lifetime to whole seconds, so a descriptor may live for almost a
  second longer than 24 hours. Delivered at the end of that second it still verifies, its record
  has been pruned, and it creates a second task.
\<close>

theorem late_replay_creates_second_task:
  "\<exists>d s1 s2 m1 m2. demo_verify d 0 = Ok () \<and> demo_verify d (seconds 86460 + 2 * 10 ^ 8) = Ok ()
     \<and> demo_deliver ''u1'' 0 d default_task_store = Ok (m1, s1) \<and> \<not> duplicate m1
     \<and> demo_deliver ''u2'' (seconds 86460 + 2 * 10 ^ 8) d s1 = Ok (m2, s2) \<and> \<not> duplicate m2
     \<and> materialized_task_id m1 \<noteq> materialized_task_id m2"
proof -
  let ?d = "demo_descriptor (seconds 60) (seconds 86460 + 5 * 10 ^ 8)"
  let ?r1 = "projr (demo_deliver ''u1'' 0 ?d default_task_store)"
  let ?r2 = "projr (demo_deliver ''u2'' (seconds 86460 + 2 * 10 ^ 8) ?d (snd ?r1))"
  have v: "demo_verify ?d 0 = Ok ()" "demo_verify ?d (seconds 86460 + 2 * 10 ^ 8) = Ok ()" by code_simp+
  have r: "demo_deliver ''u1'' 0 ?d default_task_store = Inr ?r1"
    "demo_deliver ''u2'' (seconds 86460 + 2 * 10 ^ 8) ?d (snd ?r1) = Inr ?r2" by code_simp+
  have n: "\<not> duplicate (fst ?r1)" "\<not> duplicate (fst ?r2)"
    "materialized_task_id (fst ?r1) \<noteq> materialized_task_id (fst ?r2)" by code_simp+
  show ?thesis
    by (intro exI [of _ ?d] exI [of _ "snd ?r1"] exI [of _ "snd ?r2"] exI [of _ "fst ?r1"] exI [of _ "fst ?r2"])
       (use v r n in \<open>simp only: prod.collapse simp_thms\<close>)
qed

theorem descriptor_creates_one_task_witness:
  "\<exists>m s1. demo_deliver ''u1'' 0 (demo_descriptor 0 (seconds 100)) default_task_store = Ok (m, s1)
     \<and> fst (projr (demo_deliver ''u2'' (seconds 99) (demo_descriptor 0 (seconds 100)) s1))
         = \<lparr>materialized_task_id = materialized_task_id m, duplicate = True\<rparr>"
proof -
  let ?d = "demo_descriptor 0 (seconds 100)"
  let ?r1 = "projr (demo_deliver ''u1'' 0 ?d default_task_store)"
  have v: "demo_verify ?d 0 = Ok ()" by code_simp
  have "demo_deliver ''u1'' 0 ?d default_task_store = Inr ?r1" by code_simp
  then have r: "demo_deliver ''u1'' 0 ?d default_task_store = Inr (fst ?r1, snd ?r1)" by simp
  have n: "\<not> duplicate (fst ?r1)" by code_simp
  have "exp_now (demo_expect 0) \<le> 0" "desc_expires_at ?d - desc_issued_at ?d \<le> seconds MAX_TASK_LIFETIME_SECONDS"
    "seconds 99 < desc_expires_at ?d" by code_simp+
  from descriptor_creates_one_task [OF v this(1,2) r n rtranclp.rtrancl_refl this(3)]
  show ?thesis
    by (intro exI [of _ "fst ?r1"] exI [of _ "snd ?r1"] conjI r) simp
qed

definition demo_task :: task where
  "demo_task = new_task ''u1'' 0 ''a1'' ''b1'' ''review''"

lemma demo_task_reaches: "reaches (task_init demo_gateway) (task_step demo_gateway) demo_task"
  by (rule reaches_init) (unfold task_init_def demo_task_def, blast)

theorem task_history_sound_witness: "history_ok demo_task \<and> length (history demo_task) \<le> 2048"
  using task_history_sound [OF demo_task_reaches] by simp

theorem open_task_can_end_witness:
  "\<exists>t'. transition demo_gateway demo_task Canceled (Some ''canceled via A2A'') 5 = Ok t' \<and> task_state t' = Canceled"
proof -
  have "\<not> is_terminal (task_state demo_task)" "task_updated_at demo_task \<le> 5"
    "engine_reason ''canceled via A2A''" by code_simp+
  from open_task_can_end [OF demo_task_reaches this(1,2) _ this(3), of Canceled] show ?thesis by blast
qed

end
