(* ===== verification/Delegation_Witnesses.thy ===== *)
theory Delegation_Witnesses
  imports Delegation_Laws Delivery_Laws Graph_Witnesses Task_Witnesses
begin

text \<open>
  The project of the graph witnesses with its child running and delivering: the delegation and
  delivery properties applied to it.
\<close>

section \<open>A certificate for the running child\<close>

definition demo_fence :: string where "demo_fence = the (execution_fence demo_child)"

definition demo_delivering :: work_graph_store where
  "demo_delivering = put_graph demo_claimed ''g1'' (projr (begin_delivery_attempt demo_running ''c1'' demo_fence 1))"

definition demo_json4 :: "string \<Rightarrow> string \<Rightarrow> string \<Rightarrow> string \<Rightarrow> string" where
  "demo_json4 a b c d = a @ b @ c @ d"

definition host_policy :: authority_config where
  "host_policy = demo_policy\<lparr>peers := map (\<lambda>p. p\<lparr>peer_agent_id := ''lead''\<rparr>) (peers demo_policy)\<rparr>"

definition demo_certificate :: delivery_delegation where
  "demo_certificate =
     \<lparr>cert_schema_version = 1, host_agent = ''lead'', cert_recipient = ''b1'', cert_tenant_id = ''t1'',
      cert_project_id = ''p1'', cert_project_root = ''/p'', cert_privacy = Project, host_key_id = ''k1'',
      host_grant_id = ''g2'', child_agent = ''worker'', child_key_id = ''ck'',
      child_public_key = replicate 64 (CHR ''1''), read_grant_id = ''r1'', write_grant_id = None,
      execution = \<lparr>exec_graph_id = ''g1'', exec_node_id = ''c1'', exec_fence = demo_fence,
        exec_task_id = attempt_task_id (''work-execution:'' @ demo_hash []) 1, exec_attempt = 1\<rparr>,
      cert_issued_at = 0, cert_expires_at = seconds 100, cert_signature = replicate 128 (CHR ''0'')\<rparr>"

definition demo_instant :: int where "demo_instant = 20 * 10 ^ 6"

definition demo_crypto :: delivery_crypto where
  "demo_crypto = \<lparr>dc_json4 = demo_json4, dc_hash_hex = demo_hash, dc_sha256_hex = demo_sha256,
     dc_certificate = (\<lambda>_. []), dc_request = (\<lambda>_. []), dc_bound = (\<lambda>_ _. []), dc_authority = (\<lambda>_. []),
     dc_ed25519 = demo_ed25519\<rparr>"

abbreviation demo_derive :: "work_graph_store \<Rightarrow> authority_config store_result" where
  "demo_derive s \<equiv> child_delivery_authority demo_json4 demo_hash (\<lambda>_. []) demo_ed25519 s demo_certificate
     host_policy (demo_expect demo_instant)"

theorem delegated_authority_attenuated_witness:
  "names_live_execution demo_delivering demo_certificate demo_instant"
proof -
  have "demo_derive demo_delivering = Inr (projr (demo_derive demo_delivering))" by code_simp
  from delegated_authority_attenuated [OF this] show ?thesis by (simp add: demo_expect_def)
qed

theorem stop_revokes_delivery_witness:
  "\<exists>g' xs. stop demo_graph ''root'' ManualStop = Ok (g', xs)
     \<and> (\<forall>derived. demo_derive (put_graph demo_delivering ''g1'' g') \<noteq> Ok derived)"
proof -
  have "bget (nodes demo_graph) ''root'' \<noteq> None" by code_simp
  then obtain n where n: "bget (nodes demo_graph) ''root'' = Some n" by blast
  have "checked_lineage demo_graph ''c1'' = Ok [''root'', ''c1'']" by code_simp
  then have "''c1'' \<in> subtree demo_graph ''root''"
    by (auto simp: subtree_def checked_lineage_eq_Ok)
  with stop_revokes_delivery [OF demo_graph_wf n, of ManualStop "''g1''"] show ?thesis
    by (fastforce simp: demo_certificate_def)
qed

section \<open>A delegated lookup\<close>

definition demo_fs :: delivery_fs where
  "demo_fs = \<lparr>fs_canonical = Some, fs_is_dir = (\<lambda>_. True), fs_is_file = (\<lambda>_. True)\<rparr>"

definition demo_server :: delivery_server where
  "demo_server = \<lparr>a2a_recipient_id = Some ''b1'', a2a_tenant_id = Some ''t1'', a2a_project_id = Some ''p1'',
     a2a_task_authority = host_policy, server_root = ''/p''\<rparr>"

definition demo_lookup :: signed_delivery_request where
  "demo_lookup = \<lparr>authority =
       \<lparr>auth_schema_version = 1, auth_sender = ''worker'', auth_recipient = ''b1'', auth_tenant_id = ''t1'',
        auth_project_id = ''p1'', auth_action = ''delivery/check'',
        auth_request_digest = ''sha256:'' @ demo_sha256 [], auth_issued_at = 0, auth_expires_at = seconds 50,
        auth_nonce = ''n1'', auth_grant_ref = \<lparr>grant_ref_schema_version = 1, grant_ref_id = ''r1''\<rparr>,
        auth_key_id = ''ck'', auth_signature = replicate 128 (CHR ''0'')\<rparr>,
     operation = Check ''/p/src/a.rs'' ''x'' None, delegation = Some demo_certificate\<rparr>"

theorem admitted_delivery_live_witness:
  "auth_sender (authority demo_lookup) = child_agent demo_certificate
   \<and> (\<exists>s. Ok demo_delivering = (Ok s :: work_graph_store store_result)
        \<and> names_live_execution s demo_certificate demo_instant)"
proof -
  let ?a = "admit_delivery demo_crypto demo_fs demo_server (Ok demo_delivering) demo_instant demo_instant demo_lookup"
  have "?a = Inr (projr ?a)" by code_simp
  moreover have "delegation demo_lookup = Some demo_certificate" by (simp add: demo_lookup_def)
  ultimately show ?thesis using admitted_delivery_live by fastforce
qed

section \<open>Leases\<close>

theorem path_leases_agree_with_claims_witness:
  "resources_overlap Path ''project-path:ab/src/a%20b'' Path ''project-path:ab/src''
   \<longleftrightarrow> path_claims_overlap (''path:'' @ ''ab'' @ ''/'' @ ''src/a b'') (''path:'' @ ''ab'' @ ''/'' @ ''src'')"
proof (rule path_leases_agree_with_claims)
  show "path_lease_resource (\<lambda>s. s) (\<lambda>_ _. []) ''ab'' (''path:'' @ ''ab'' @ ''/'' @ ''src/a b'')
      = Ok ''project-path:ab/src/a%20b''" by code_simp
  show "path_lease_resource (\<lambda>s. s) (\<lambda>_ _. []) ''ab'' (''path:'' @ ''ab'' @ ''/'' @ ''src'')
      = Ok ''project-path:ab/src''" by code_simp
qed (simp_all add: PROJECT_PATH_SCHEME_def starts_with_def)

definition demo_leases :: "(incarnation_lease \<times> nat) list" where
  "demo_leases = [((WorkGraphNode, ''work-graph-node:x'', ''fence:f''), 10), ((Path, ''project-path:ab/src'', ''fence:f:0''), 11)]"

definition demo_held :: agent_lease_registry where
  "demo_held = snd (acquire_incarnation_leases (\<lambda>_ _. ''d'') ''worker'' 100 demo_leases default_registry)"

lemma demo_held_eq:
  "acquire_incarnation_leases (\<lambda>_ _. ''d'') ''worker'' 100 demo_leases default_registry = (Ok (), demo_held)"
proof -
  have "fst (acquire_incarnation_leases (\<lambda>_ _. ''d'') ''worker'' 100 demo_leases default_registry) = Ok ()"
    by code_simp
  then show ?thesis unfolding demo_held_def by (metis prod.collapse)
qed

lemma default_registry_inv: "lease_inv default_registry"
  by (rule lease_init_inv) (auto simp: lease_init_def default_registry_def)

theorem incarnation_leases_exclusive_witness:
  "\<exists>held. bget (leases demo_held) (Path, ''project-path:ab/src'') = Some held \<and> is_active_at held 11
     \<and> owner_agent_id (request held) = ''worker''"
proof -
  have "fresh_refs default_registry (request_refs demo_leases)"
    by (simp add: fresh_refs_def demo_leases_def default_registry_def new_registry_def)
  from incarnation_leases_exclusive [OF demo_held_eq default_registry_inv this,
      of 10 11 "(Path, ''project-path:ab/src'', ''fence:f:0'')" 11]
  show ?thesis by (auto simp: demo_leases_def u64_max_def)
qed

theorem aborted_start_leaves_nothing_witness:
  "\<forall>l. bget (leases (release_incarnation_leases demo_held ''worker'' ''fence:f'' 20)) (Path, ''project-path:ab/src'') \<noteq> Some l"
proof -
  let ?a = "abort_start demo_hash (\<lambda>_. Some demo_claimed) (\<lambda>_. ''S'') ''r'' ''g1'' ''c1'' ''worker'' ''fence:f''
     LeaseLost 20 Replaced (Some ''S'', demo_held)"
  have "fst ?a = Ok ()" by code_simp
  then have a: "?a = (Ok (), fst (snd ?a), snd (snd ?a))" by (metis prod.collapse)
  have "opaque_ref ''lease_request_ref'' ''fence:f'' = Ok ()" "agent_id_check ''worker'' = Ok ()" by code_simp+
  note left = aborted_start_leaves_nothing [OF a this]
  have "snd (snd ?a) = release_incarnation_leases demo_held ''worker'' ''fence:f'' 20"
    using a by (auto simp: abort_start_def split: prod.splits sum.splits)
  moreover have "case bget (leases demo_held) (Path, ''project-path:ab/src'') of None \<Rightarrow> True
      | Some l \<Rightarrow> fence_lease ''worker'' ''fence:f'' l" by code_simp
  ultimately show ?thesis using left by (auto split: option.splits)
qed

end
