(* ===== verification/Capsule_Laws.thy ===== *)
theory Capsule_Laws
  imports Context_Capsule "HOL-Library.Multiset"
begin

text \<open>
  What the identifier of a capsule stands for, and that a signed capsule is read back: the
  canonical form forgets order and repetition and nothing else, so equal identifiers mean
  equal manifests (as far as the digest does not collide).
\<close>

section \<open>Canonical form\<close>

lemma sort_eq_iff_mset: "sort xs = sort ys \<longleftrightarrow> mset xs = mset ys"
proof
  assume "sort xs = sort ys"
  then have "mset (sort xs) = mset (sort ys)" by simp
  then show "mset xs = mset ys" by simp
qed (metis mset_sort properties_for_sort sorted_sort)

lemma sorted_remdups_adj_strict: "sorted xs \<Longrightarrow> sorted (remdups_adj xs) \<and> distinct (remdups_adj xs)"
  by (induction xs rule: remdups_adj.induct) (auto simp: less_le)

lemma set_sort_dedup [simp]: "set (sort_dedup xs) = set xs"
  by (simp add: sort_dedup_def)

lemma sort_dedup_eq_iff: "sort_dedup xs = sort_dedup ys \<longleftrightarrow> set xs = set ys"
proof
  assume "set xs = set ys"
  then have "set (sort_dedup xs) = set (sort_dedup ys)" by simp
  then show "sort_dedup xs = sort_dedup ys"
    unfolding sort_dedup_def
    by (intro sorted_distinct_set_unique) (simp_all add: sorted_remdups_adj_strict)
qed (metis set_sort_dedup)

lemma sort_dedup_idem [simp]: "sort_dedup (sort_dedup xs) = sort_dedup xs"
  by (simp add: sort_dedup_eq_iff)

lemma sort_key_distinct_eq_iff:
  assumes "distinct (map f xs)" "distinct (map f ys)"
  shows "sort_key f xs = sort_key f ys \<longleftrightarrow> set xs = set ys"
proof
  assume "sort_key f xs = sort_key f ys"
  then have "set (sort_key f xs) = set (sort_key f ys)" by simp
  then show "set xs = set ys" by simp
next
  assume "set xs = set ys"
  then have "mset xs = mset (sort_key f ys)"
    using assms set_eq_iff_mset_eq_distinct by (auto simp: distinct_map)
  moreover have "inj_on f (set xs)" using assms(1) by (simp add: distinct_map)
  ultimately show "sort_key f xs = sort_key f ys" by (rule sort_key_inj_key_eq) simp
qed

lemma canonicalize_idem [simp]: "canonicalize (canonicalize c) = canonicalize c"
  by (simp add: canonicalize_def sort_key_id_if_sorted)

lemma pending_capsule_canonicalize [simp]: "pending_capsule (canonicalize c) = pending_capsule c"
  by (simp add: pending_capsule_def)

text \<open>Two capsules with the same manifest: equal up to the order and the repetition of references.\<close>

definition without_lists :: "context_capsule \<Rightarrow> context_capsule" where
  "without_lists c =
     c\<lparr>capsule_id := [], acceptance_criteria_refs := [], references := [], finding_refs := [],
       decision_refs := [], uncertainty_refs := [], negative_result_refs := [], quality_signal_refs := [],
       recovery_refs := [], allowed_agent_ids := []\<rparr>"

definition same_manifest :: "context_capsule \<Rightarrow> context_capsule \<Rightarrow> bool" where
  "same_manifest c d \<longleftrightarrow> without_lists c = without_lists d
     \<and> mset (acceptance_criteria_refs c) = mset (acceptance_criteria_refs d)
     \<and> set (references c) = set (references d)
     \<and> set (finding_refs c) = set (finding_refs d) \<and> set (decision_refs c) = set (decision_refs d)
     \<and> set (uncertainty_refs c) = set (uncertainty_refs d)
     \<and> set (negative_result_refs c) = set (negative_result_refs d)
     \<and> set (quality_signal_refs c) = set (quality_signal_refs d)
     \<and> set (recovery_refs c) = set (recovery_refs d)
     \<and> set (allowed_agent_ids c) = set (allowed_agent_ids d)"

lemma pending_capsule_eq_iff:
  assumes "distinct (map reference_key (references c))" "distinct (map reference_key (references d))"
  shows "pending_capsule c = pending_capsule d \<longleftrightarrow> same_manifest c d"
  using sort_key_distinct_eq_iff [OF assms]
  by (cases c; cases d)
     (auto simp: pending_capsule_def canonicalize_def same_manifest_def without_lists_def
       sort_eq_iff_mset sort_dedup_eq_iff)

section \<open>Valid capsules\<close>

lemma validate_references_eq_Ok [result_simps]:
  "validate_references rs seen = Inr u \<Longrightarrow>
     distinct (map reference_key rs) \<and> reference_key ` set rs \<inter> seen = {}"
  by (induction rs arbitrary: seen) (auto simp: ebind_eq_Ok result_simps)

lemma validate_agent_ids_eq_Ok:
  "validate_agent_ids ids seen = Inr u \<longleftrightarrow>
     distinct ids \<and> set ids \<inter> seen = {} \<and> (\<forall>i\<in>set ids. agent_id_value i = Inr ())"
  by (induction ids arbitrary: seen) (auto simp: ebind_eq_Ok result_simps)

lemma validate_capsuleD:
  assumes "validate_capsule json hash_hex c = Inr u"
  shows "distinct (map reference_key (references c))" "distinct (allowed_agent_ids c)"
    "capsule_id c = computed_capsule_id json hash_hex c" "starts_with ''capsule:'' (capsule_id c)"
    "agent_id_value (chain_owner_agent_id (cap_chain c)) = Inr ()"
    "\<And>a. a \<in> set (allowed_agent_ids c) \<Longrightarrow> agent_id_value a = Inr ()"
  using assms validate_references_eq_Ok [of "references c" "{}"]
  by (auto simp: validate_capsule_def ebind_eq_Ok ensure_eq_Ok validate_agent_ids_eq_Ok)

text \<open>
  C37. The identifier of a valid capsule stands for its manifest: two valid capsules have the
  same identifier exactly when they agree in every field up to the order of their lists and
  repeated entries of the lists that are de-duplicated (for the acceptance criteria, repetition
  counts), provided the digest does not collide on the two canonical forms.
\<close>

theorem capsule_id_identifies:
  assumes "validate_capsule json hash_hex c = Ok ()" "validate_capsule json hash_hex d = Ok ()"
    and "inj_on (\<lambda>x. hash_hex (json x)) {pending_capsule c, pending_capsule d}"
  shows "capsule_id c = capsule_id d \<longleftrightarrow> same_manifest c d"
proof -
  have "capsule_id c = capsule_id d \<longleftrightarrow> pending_capsule c = pending_capsule d"
    unfolding validate_capsuleD(3) [OF assms(1)] validate_capsuleD(3) [OF assms(2)] computed_capsule_id_def
    using inj_on_eq_iff [OF assms(3)] by simp
  then show ?thesis
    using pending_capsule_eq_iff validate_capsuleD(1) [OF assms(1)] validate_capsuleD(1) [OF assms(2)] by simp
qed

section \<open>Signed capsules\<close>

lemma hex_lower_value:
  assumes "d < 16"
  shows "hex_value (hex_lower d) = Some d" "hex_lower d \<noteq> CHR ''+''" "\<not> is_continuation (hex_lower d)"
proof -
  have "d \<in> set [0..<16]" using assms by simp
  then have "hex_value (hex_lower d) = Some d \<and> hex_lower d \<noteq> CHR ''+'' \<and> \<not> is_continuation (hex_lower d)"
    by (simp add: upt_conv_Cons) (elim disjE; simp add: hex_lower_def hex_value_def is_ascii_digit_def
        is_lower_hex_def is_ascii_hexdigit_def is_continuation_def byte_def)
  then show "hex_value (hex_lower d) = Some d" "hex_lower d \<noteq> CHR ''+''" "\<not> is_continuation (hex_lower d)"
    by blast+
qed

lemma byte_nibbles: "byte b div 16 < 16" "byte b mod 16 < 16"
  using of_char_lt_256 [of b] by linarith+

lemma length_encode_hex [simp]: "length (encode_hex bs) = 2 * length bs"
  by (induction bs) (simp_all add: encode_hex_def)

lemma decode_pairs_encode_hex: "decode_pairs (encode_hex bs) = Inr bs"
proof (induction bs)
  case (Cons b bs)
  have pair: "hex_pair (hex_lower (byte b div 16)) (hex_lower (byte b mod 16)) = Some b"
    using hex_lower_value byte_nibbles [of b] by (simp add: hex_pair_def) (simp add: byte_def)
  have "encode_hex bs = [] \<or> \<not> is_continuation (hd (encode_hex bs))"
    using hex_lower_value(3) byte_nibbles by (cases bs) (simp_all add: encode_hex_def)
  with Cons pair hex_lower_value(3) byte_nibbles [of b] show ?case
    by (simp add: encode_hex_def)
qed (simp add: encode_hex_def)

lemma decode_hex_encode_hex: "decode_hex (encode_hex bs) = Inr bs"
  by (simp add: decode_hex_def decode_pairs_encode_hex)

text \<open>
  A signed capsule is read back: whatever a signer produces for a valid capsule verifies
  under the signer's own key and under no other pinned key.
\<close>

theorem signed_capsule_verifies:
  assumes "sign_capsule json hash_hex signer public_key c = Ok sc"
    and "length public_key = 32" "key_ok public_key" "length (signer (json c)) = 64"
    and "ed25519 public_key (json c) (signer (json c))"
  shows "verify_signed_capsule json hash_hex key_ok ed25519 sc pinned =
    (if pinned = public_key then Ok () else Err (invalid ''signer key does not match pinned key''))"
  using assms
  by (auto simp: sign_capsule_def ebind_eq_Ok verify_signed_capsule_def validate_structure_def decode_hex_encode_hex)

text \<open>
  The envelope of a capsule names its owner, an allowed agent and the remaining tokens; it
  passes its own validation exactly when the owner is not the target and tokens remain, which
  \<open>agent_envelope\<close> does not ask for.
\<close>

theorem agent_envelope_valid_iff:
  assumes "agent_envelope_for json envelope_json hash_hex c target = Ok e"
  shows "validate_envelope e = Ok () \<longleftrightarrow>
    chain_owner_agent_id (cap_chain c) \<noteq> target \<and> cap_tokens_remaining (cap_budget c) \<noteq> 0"
proof -
  from assms obtain u where v: "validate_capsule json hash_hex c = Inr u" and t: "target \<in> set (allowed_agent_ids c)"
    by (auto simp: agent_envelope_for_def ebind_eq_Ok ensure_eq_Ok list_ex_iff)
  note d = validate_capsuleD [OF v]
  show ?thesis
    using assms d(4,5) d(6) [OF t]
    by (auto simp: agent_envelope_for_def ebind_eq_Ok validate_envelope_def ensure_eq_Ok assign_relay_id_def)
qed

end
