(* ===== verification/Capsule_Witnesses.thy ===== *)
theory Capsule_Witnesses
  imports Capsule_Laws "HOL-Library.Code_Target_Nat"
begin

text \<open>Concrete capsules on which the properties of the context capsule are applied.\<close>

definition demo_capsule :: "string list \<Rightarrow> context_capsule" where
  "demo_capsule findings =
     \<lparr>cap_schema_version = 1, capsule_id = ''capsule:request:1'', cap_request_id = ''request:1'',
      cap_session_id = ''session:1'', cap_agent_id = ''parent'', intent_ref = ''intent:i'',
      cap_task_ref = ''task:t'', cap_expected_outcome_ref = ''outcome:o'',
      acceptance_criteria_refs = [''criteria:green''],
      references = [\<lparr>ref_kind = File, content_ref = ''blake3:f'', ref_freshness_ref = ''freshness:1'',
                     ref_recovery_ref = None\<rparr>],
      finding_refs = findings, decision_refs = [], uncertainty_refs = [], negative_result_refs = [],
      source_ref = ''source:w'', cap_policy_ref = ''policy:p'', contract_ref = ''contract:c'',
      freshness_ref = ''freshness:1'', sensitivity = Internal, allowed_agent_ids = [''child''],
      cap_budget = \<lparr>cap_tokens_used = 0, cap_tokens_remaining = 0, cap_cost_micros_used = 0,
                     cap_cost_micros_remaining = 9, cap_latency_ms_used = 0, cap_latency_ms_remaining = 9\<rparr>,
      cap_chain = \<lparr>cap_chain_id = ''graph:g'', parent_capsule_ref = None, chain_owner_agent_id = ''parent'',
                    attribution_ref = ''attribution:a'', hop = 0\<rparr>,
      quality_signal_refs = [], recovery_refs = [], delta_from = None\<rparr>"

text \<open>JSON is instantiated by the request id and the digest by the identity.\<close>

abbreviation demo_validate :: "context_capsule \<Rightarrow> unit capsule_result" where
  "demo_validate \<equiv> validate_capsule cap_request_id (\<lambda>s. s)"

theorem capsule_id_identifies_witness:
  "same_manifest (demo_capsule [''finding:a'', ''finding:b'']) (demo_capsule [''finding:b'', ''finding:a'', ''finding:b''])"
proof -
  let ?c = "demo_capsule [''finding:a'', ''finding:b'']"
  let ?d = "demo_capsule [''finding:b'', ''finding:a'', ''finding:b'']"
  have v: "demo_validate ?c = Ok ()" "demo_validate ?d = Ok ()" by code_simp+
  have "pending_capsule ?c = pending_capsule ?d" by code_simp
  then have "inj_on (\<lambda>x. cap_request_id x) {pending_capsule ?c, pending_capsule ?d}" by simp
  from capsule_id_identifies [OF v this] show ?thesis by (simp add: demo_capsule_def)
qed

definition demo_key :: string where "demo_key = replicate 32 CHR ''k''"

theorem signed_capsule_verifies_witness:
  "\<exists>sc. sign_capsule cap_request_id (\<lambda>s. s) (\<lambda>_. replicate 64 CHR ''s'') demo_key (demo_capsule []) = Ok sc
     \<and> verify_signed_capsule cap_request_id (\<lambda>s. s) (\<lambda>_. True) (\<lambda>_ _ _. True) sc demo_key = Ok ()"
proof -
  have "demo_validate (demo_capsule []) = Ok ()" by code_simp
  then obtain sc where
    "sign_capsule cap_request_id (\<lambda>s. s) (\<lambda>_. replicate 64 CHR ''s'') demo_key (demo_capsule []) = Inr sc"
    by (simp add: sign_capsule_def)
  with signed_capsule_verifies [OF this, of "\<lambda>_. True" "\<lambda>_ _ _. True" demo_key] show ?thesis
    by (simp add: demo_key_def)
qed

text \<open>
  The bytes of a signer key are not checked to be ASCII before they are sliced: a received
  capsule that is valid in itself and whose key is 64 bytes long with a two-byte character at an
  odd position makes the verification panic instead of returning an error.
\<close>

theorem verify_signed_capsule_panics:
  "verify_signed_capsule cap_request_id (\<lambda>s. s) (\<lambda>_. True) (\<lambda>_ _ _. True)
     \<lparr>capsule = demo_capsule [],
      signer_public_key = CHR ''0'' # CHR 0xC3 # CHR 0xA9 # replicate 61 CHR ''0'',
      capsule_signature = replicate 128 CHR ''0''\<rparr> demo_key = Err SlicePanic"
  by code_simp

text \<open>\<open>agent_envelope\<close> returns an envelope that its own validation refuses.\<close>

theorem agent_envelope_may_be_invalid:
  "ebind (agent_envelope_for cap_request_id (\<lambda>_. ''e'') (\<lambda>s. s) (demo_capsule []) ''child'') validate_envelope
     = Err (invalid ''budget_tokens must be positive'')"
  by code_simp

end
