(* ===== verification/Replay_Interface.thy ===== *)
theory Replay_Interface
  imports Prelude
begin

text \<open>
  What a client of a replay ledger relies on: a proof that was accepted is remembered by every
  later operation that is not a release of it, and a remembered proof is not accepted again.
  Both ledgers of the HTTP server (\<open>Replay_Ledger\<close> and \<open>Remote_Replay\<close>) are instances.
\<close>

locale replay_guard =
  fixes perform :: "'op \<Rightarrow> 's \<Rightarrow> 's" and accepts :: "'op \<Rightarrow> 's \<Rightarrow> bool"
    and presents :: "'op \<Rightarrow> bool" and in_time :: "'op \<Rightarrow> bool"
    and undisturbed :: "'op \<Rightarrow> bool" and remembers :: "'s \<Rightarrow> bool"
  assumes accepted_remembered: "presents op \<Longrightarrow> in_time op \<Longrightarrow> accepts op s \<Longrightarrow> remembers (perform op s)"
    and remembered_kept: "undisturbed op \<Longrightarrow> remembers s \<Longrightarrow> remembers (perform op s)"
    and remembered_refused: "undisturbed op \<Longrightarrow> presents op \<Longrightarrow> remembers s \<Longrightarrow> \<not> accepts op s"
begin

lemma remembers_history: "\<forall>op\<in>set ops. undisturbed op \<Longrightarrow> remembers s \<Longrightarrow> remembers (fold perform ops s)"
  by (induction ops arbitrary: s) (auto intro: remembered_kept)

lemma accepted_once:
  assumes "presents op" "in_time op" "accepts op s" "\<forall>x\<in>set ops. undisturbed x"
    and "undisturbed op'" "presents op'"
  shows "\<not> accepts op' (fold perform ops (perform op s))"
  using assms by (intro remembered_refused remembers_history accepted_remembered)

end

end
