(* ===== verification/Replay_Ledger.thy ===== *)
theory Replay_Ledger
  imports Delivery Replay_Interface
begin

text \<open>
  The replay ledger of the HTTP routes (\<open>crates/lean-ctx/src/http_server/relay_replay.rs\<close>) and
  the delivery route that consumes a nonce before it acts. The directory holds the database (two
  tables and one row of metadata), the marker file that says it was established, and the length
  of the ledger of an earlier release; an operation is one transaction, so an error leaves the
  database as it was. Random markers and leases are arguments (the draws in order), as is the
  answer of the page count check. Failures of SQLite and of the file system are not modelled:
  an operation here is one whose database opens with the expected schema and answers.
\<close>

section \<open>Data\<close>

definition MIN_RETENTION_SECONDS :: int where "MIN_RETENTION_SECONDS = 86730"
definition MAX_RETENTION_SECONDS :: int where "MAX_RETENTION_SECONDS = 366 * 86400"
definition DEFAULT_MAX_ROWS :: nat where "DEFAULT_MAX_ROWS = 262144"
definition DEFAULT_PER_ORIGIN_MAX_ROWS :: nat where "DEFAULT_PER_ORIGIN_MAX_ROWS = 8192"
definition DEFAULT_MAX_DATABASE_BYTES :: nat where "DEFAULT_MAX_DATABASE_BYTES = 256 * 1024 * 1024"
definition DATABASE_PAGE_SIZE :: nat where "DATABASE_PAGE_SIZE = 4 * 1024"
definition MAX_LEASE_BYTES :: nat where "MAX_LEASE_BYTES = 32"
definition PENDING :: int where "PENDING = 0"
definition COMPLETED :: int where "COMPLETED = 1"
definition UNRECLAIMABLE_RETRY_AFTER_SECONDS :: int where "UNRECLAIMABLE_RETRY_AFTER_SECONDS = 3600"
definition MAX_RESPONSE_BYTES :: nat where "MAX_RESPONSE_BYTES = 64 * 1024"

definition i64_max :: int where "i64_max = 2 ^ 63 - 1"
definition i64_min :: int where "i64_min = - (2 ^ 63)"

definition checked_add_i64 :: "int \<Rightarrow> int \<Rightarrow> int option" where
  "checked_add_i64 a b = (if i64_min \<le> a + b \<and> a + b \<le> i64_max then Some (a + b) else None)"

definition saturating_sub_i64 :: "int \<Rightarrow> int \<Rightarrow> int" where
  "saturating_sub_i64 a b = max i64_min (min i64_max (a - b))"

record replay_limits =
  max_rows :: nat
  per_origin_max_rows :: nat
  max_database_bytes :: nat

record replay_row =
  row_origin :: string
  row_tenant :: string
  row_project :: string
  row_fingerprint :: string
  row_signed_expires_at :: int
  row_retain_until :: int
  row_lease :: string
  row_state :: int
  row_accepted_at :: int

record replay_db =
  proofs :: "(string, replay_row) btree_map"
  task_responses :: "(string, string) btree_map"
  db_creation_marker :: string
  db_retention_seconds :: int
  last_observed_at :: int

record replay_dir =
  legacy_len :: nat
  established :: "string option"
  database :: "replay_db option"

record replay_handle =
  handle_creation_marker :: string
  handle_limits :: replay_limits
  handle_retention_seconds :: int

datatype replay_error =
    ReplayInvalidInput string
  | ProofExpired
  | CapacityExhausted int
  | MigrationRequired string
  | LeaseMismatch
  | Unavailable string

datatype reservation = Reserved string | InFlight | AlreadyCompleted | Conflict

type_synonym 'a replay_result = "replay_error + 'a"

section \<open>Validation\<close>

definition validate_replay_limits :: "replay_limits \<Rightarrow> unit replay_result" where
  "validate_replay_limits l =
     ensure (max_rows l \<noteq> 0 \<and> per_origin_max_rows l \<noteq> 0 \<and> per_origin_max_rows l \<le> max_rows l
        \<and> int (max_rows l) \<le> i64_max \<and> int (per_origin_max_rows l) \<le> i64_max
        \<and> DATABASE_PAGE_SIZE \<le> max_database_bytes l \<and> max_database_bytes l \<le> DEFAULT_MAX_DATABASE_BYTES)
       (ReplayInvalidInput ''relay replay limits are outside bounded range'')"

definition default_replay_limits :: replay_limits where
  "default_replay_limits = \<lparr>max_rows = DEFAULT_MAX_ROWS, per_origin_max_rows = DEFAULT_PER_ORIGIN_MAX_ROWS,
     max_database_bytes = DEFAULT_MAX_DATABASE_BYTES\<rparr>"

definition validate_retention :: "int \<Rightarrow> unit replay_result" where
  "validate_retention retention =
     ensure (MIN_RETENTION_SECONDS \<le> retention \<and> retention \<le> MAX_RETENTION_SECONDS)
       (ReplayInvalidInput ''retention must be between 86730 and 31622400 seconds'')"

definition validate_replay_digest :: "string \<Rightarrow> string \<Rightarrow> unit replay_result" where
  "validate_replay_digest value name =
     ensure (length value = 64 \<and> list_all is_lower_hex value)
       (ReplayInvalidInput (name @ '' must be exactly 64 lowercase hexadecimal bytes''))"

definition validate_replay_scope :: "string \<Rightarrow> string \<Rightarrow> unit replay_result" where
  "validate_replay_scope value name =
     ensure (value \<noteq> [] \<and> length value \<le> 128) (ReplayInvalidInput (name @ '' must be between 1 and 128 bytes''))"

definition validate_lease :: "string \<Rightarrow> unit replay_result" where
  "validate_lease value =
     ensure (length value = MAX_LEASE_BYTES \<and> list_all is_ascii_hexdigit value)
       (ReplayInvalidInput ''opaque relay lease is malformed'')"

section \<open>The tables\<close>

definition valid_marker :: "string \<Rightarrow> bool" where
  "valid_marker marker \<longleftrightarrow> length marker = MAX_LEASE_BYTES \<and> list_all is_lower_hex marker"

definition read_creation_marker :: "replay_dir \<Rightarrow> string option replay_result" where
  "read_creation_marker dir =
     (case established dir of
        None \<Rightarrow> Ok None
      | Some marker \<Rightarrow> if valid_marker marker then Ok (Some marker)
          else Err (Unavailable ''invalid relay replay established marker''))"

definition initialize_schema :: "int \<Rightarrow> string \<Rightarrow> replay_db" where
  "initialize_schema retention marker =
     \<lparr>proofs = bempty, task_responses = bempty, db_creation_marker = marker,
      db_retention_seconds = retention, last_observed_at = 0\<rparr>"

definition validate_schema :: "replay_db \<Rightarrow> unit replay_result" where
  "validate_schema db =
     ebind (ensure (valid_marker (db_creation_marker db))
              (Unavailable ''relay replay creation marker or schema version is invalid'')) (\<lambda>_.
     validate_retention (db_retention_seconds db))"

text \<open>
  \<open>new\<close>. The marker is written before the database, and stays when a later step fails. A larger
  retention of the caller is stored, a smaller one does not shrink the stored one.
\<close>

definition locate_ledger :: "int \<Rightarrow> string \<Rightarrow> replay_dir \<Rightarrow> (string \<times> replay_db \<times> replay_dir) replay_result" where
  "locate_ledger retention draw dir =
     ebind (read_creation_marker dir) (\<lambda>marker.
     case (database dir, marker) of
       (Some db, Some m) \<Rightarrow> Ok (m, db, dir)
     | (None, None) \<Rightarrow>
         let db = initialize_schema retention draw
         in Ok (draw, db, dir\<lparr>established := Some draw, database := Some db\<rparr>)
     | _ \<Rightarrow> Err (Unavailable ''relay replay database and established marker must both exist; explicit recovery required''))"

definition open_ledger ::
  "replay_limits \<Rightarrow> int \<Rightarrow> string \<Rightarrow> replay_dir \<Rightarrow> replay_handle replay_result \<times> replay_dir" where
  "open_ledger limits retention draw dir =
     (case ebind (validate_replay_limits limits) (\<lambda>_.
           ebind (validate_retention retention) (\<lambda>_.
           ebind (ensure (legacy_len dir = 0) (MigrationRequired ''non-empty legacy ledger'')) (\<lambda>_.
           locate_ledger retention draw dir))) of
        Inl e \<Rightarrow> (Err e, dir)
      | Inr (marker, db, dir') \<Rightarrow>
          (case ebind (validate_schema db) (\<lambda>_.
                ensure (db_creation_marker db = marker) (Unavailable ''relay replay database identity mismatch'')) of
             Inl e \<Rightarrow> (Err e, dir')
           | Inr _ \<Rightarrow>
               let effective = max (db_retention_seconds db) retention
               in (Ok \<lparr>handle_creation_marker = marker, handle_limits = limits, handle_retention_seconds = effective\<rparr>,
                   dir'\<lparr>database := Some (db\<lparr>db_retention_seconds := effective\<rparr>)\<rparr>)))"

definition open_for_operation :: "replay_handle \<Rightarrow> replay_dir \<Rightarrow> replay_db replay_result" where
  "open_for_operation h dir =
     ebind (read_creation_marker dir) (\<lambda>marker.
     ebind (ensure (marker = Some (handle_creation_marker h))
              (Unavailable ''relay replay established marker missing or changed'')) (\<lambda>_.
     ebind (ok_or (database dir) (Unavailable ''open relay replay database'')) (\<lambda>db.
     ebind (validate_schema db) (\<lambda>_.
     ebind (ensure (db_creation_marker db = handle_creation_marker h)
              (Unavailable ''relay replay database identity changed'')) (\<lambda>_.
     Ok db)))))"

text \<open>Deleting a proof deletes its response (\<open>ON DELETE CASCADE\<close>).\<close>

definition keep_proofs :: "(string \<Rightarrow> replay_row \<Rightarrow> bool) \<Rightarrow> replay_db \<Rightarrow> replay_db" where
  "keep_proofs keep db =
     (let kept = bretain keep (proofs db)
      in db\<lparr>proofs := kept, task_responses := bretain (\<lambda>k _. bcontains kept k) (task_responses db)\<rparr>)"

definition prune_expired :: "replay_db \<Rightarrow> int \<Rightarrow> replay_db" where
  "prune_expired db now = keep_proofs (\<lambda>_ r. \<not> (row_state r = COMPLETED \<and> row_retain_until r \<le> now)) db"

definition read_last_observed :: "replay_db \<Rightarrow> int replay_result" where
  "read_last_observed db =
     (if 0 \<le> last_observed_at db \<and> last_observed_at db \<le> i64_max - MAX_RETENTION_SECONDS
      then Ok (last_observed_at db)
      else Err (Unavailable ''persisted relay replay clock is outside its supported range''))"

definition update_last_observed :: "replay_db \<Rightarrow> int \<Rightarrow> replay_db" where
  "update_last_observed db now = db\<lparr>last_observed_at := max (last_observed_at db) now\<rparr>"

definition count_rows :: "replay_db \<Rightarrow> string option \<Rightarrow> nat" where
  "count_rows db origin =
     (case origin of
        None \<Rightarrow> blen (proofs db)
      | Some o' \<Rightarrow> length (filter (\<lambda>r. row_origin r = o') (bvalues (proofs db))))"

definition retry_after_seconds :: "replay_db \<Rightarrow> string option \<Rightarrow> int \<Rightarrow> int" where
  "retry_after_seconds db origin now =
     (case map row_retain_until (filter (\<lambda>r. row_state r = COMPLETED
             \<and> (case origin of None \<Rightarrow> True | Some o' \<Rightarrow> row_origin r = o')) (bvalues (proofs db))) of
        [] \<Rightarrow> UNRECLAIMABLE_RETRY_AFTER_SECONDS
      | d # ds \<Rightarrow> max 1 (saturating_sub_i64 (fold min ds d) now))"

text \<open>The insertion tries four random leases; a lease that is taken inserts nothing.\<close>

definition free_lease :: "replay_db \<Rightarrow> string list \<Rightarrow> string option" where
  "free_lease db draws = find (\<lambda>l. \<not> list_ex (\<lambda>r. row_lease r = l) (bvalues (proofs db))) (take 4 draws)"

section \<open>Operations\<close>

record replay_request =
  rq_storage_id :: string
  rq_origin :: string
  rq_tenant :: string
  rq_project :: string
  rq_fingerprint :: string
  rq_signed_expires_at :: int

definition validate_replay_request :: "replay_request \<Rightarrow> unit replay_result" where
  "validate_replay_request q =
     ebind (validate_replay_digest (rq_storage_id q) ''storage_id'') (\<lambda>_.
     ebind (validate_replay_scope (rq_origin q) ''origin'') (\<lambda>_.
     ebind (validate_replay_scope (rq_tenant q) ''tenant'') (\<lambda>_.
     ebind (validate_replay_scope (rq_project q) ''project'') (\<lambda>_.
     validate_replay_digest (rq_fingerprint q) ''fingerprint''))))"

definition existing_answer :: "replay_request \<Rightarrow> replay_row \<Rightarrow> reservation replay_result" where
  "existing_answer q r =
     (if \<not> (row_origin r = rq_origin q \<and> row_tenant r = rq_tenant q \<and> row_project r = rq_project q)
         \<or> row_fingerprint r \<noteq> rq_fingerprint q then Ok Conflict
      else if row_state r = PENDING then Ok InFlight
      else if row_state r = COMPLETED then Ok AlreadyCompleted
      else Err (Unavailable ''relay replay row has an invalid state''))"

text \<open>The insertion of a new proof, after the pruning: clock, capacity, lease, page bound.\<close>

definition insert_proof ::
  "replay_handle \<Rightarrow> string list \<Rightarrow> bool \<Rightarrow> replay_request \<Rightarrow> int \<Rightarrow> int \<Rightarrow> int \<Rightarrow> replay_db
   \<Rightarrow> (reservation \<times> replay_db) replay_result" where
  "insert_proof h draws exceeds q persisted now effective db =
     ebind (if rq_signed_expires_at q < effective
            then if MAX_RETENTION_SECONDS < saturating_sub_i64 persisted now
                 then Err (Unavailable ''persisted relay replay clock is ahead of the system clock'')
                 else Err ProofExpired
            else Ok ()) (\<lambda>_.
     ebind (ok_or (checked_add_i64 effective (max (handle_retention_seconds h) (db_retention_seconds db)))
              (ReplayInvalidInput ''relay replay time overflow'')) (\<lambda>deadline.
     ebind (if max_rows (handle_limits h) \<le> count_rows db None
            then Err (CapacityExhausted (retry_after_seconds db None effective)) else Ok ()) (\<lambda>_.
     ebind (if per_origin_max_rows (handle_limits h) \<le> count_rows db (Some (rq_origin q))
            then Err (CapacityExhausted (retry_after_seconds db (Some (rq_origin q)) effective)) else Ok ()) (\<lambda>_.
     ebind (ok_or (free_lease db draws) (Unavailable ''random relay lease collision'')) (\<lambda>lease.
     ebind (ensure (\<not> exceeds) (Unavailable ''relay replay database exceeded its page bound'')) (\<lambda>_.
     Ok (Reserved lease,
         update_last_observed
           (db\<lparr>proofs := binsert (rq_storage_id q)
              \<lparr>row_origin = rq_origin q, row_tenant = rq_tenant q, row_project = rq_project q,
               row_fingerprint = rq_fingerprint q, row_signed_expires_at = rq_signed_expires_at q,
               row_retain_until = max (rq_signed_expires_at q) deadline, row_lease = lease,
               row_state = PENDING, row_accepted_at = effective\<rparr> (proofs db)\<rparr>) effective)))))))"

definition reserve_transaction ::
  "replay_handle \<Rightarrow> string list \<Rightarrow> bool \<Rightarrow> replay_request \<Rightarrow> int \<Rightarrow> replay_db
   \<Rightarrow> (reservation \<times> replay_db) replay_result" where
  "reserve_transaction h draws exceeds q now db =
     ebind (read_last_observed db) (\<lambda>persisted.
     let effective = max now persisted
     in ebind (ok_or (checked_add_i64 effective MAX_RETENTION_SECONDS)
                 (ReplayInvalidInput ''relay replay time overflow'')) (\<lambda>horizon.
        ebind (ensure (rq_signed_expires_at q \<le> horizon)
                 (ReplayInvalidInput ''signed relay expiry exceeds the bounded 31622400s replay horizon'')) (\<lambda>_.
        let db1 = prune_expired db effective
        in case bget (proofs db1) (rq_storage_id q) of
             Some existing \<Rightarrow>
               ebind (existing_answer q existing) (\<lambda>answer. Ok (answer, update_last_observed db1 effective))
           | None \<Rightarrow> insert_proof h draws exceeds q persisted now effective db1)))"

text \<open>
  An operation: its arguments are validated, the database is opened, one transaction runs. A
  transaction that is not committed is rolled back.
\<close>

definition transact ::
  "replay_handle \<Rightarrow> unit replay_result \<Rightarrow> (replay_db \<Rightarrow> ('a \<times> replay_db) replay_result) \<Rightarrow> replay_dir
   \<Rightarrow> 'a replay_result \<times> replay_dir" where
  "transact h valid run dir =
     (case ebind valid (\<lambda>_. ebind (open_for_operation h dir) run) of
        Inl e \<Rightarrow> (Err e, dir)
      | Inr (x, db) \<Rightarrow> (Ok x, dir\<lparr>database := Some db\<rparr>))"

definition reserve ::
  "replay_handle \<Rightarrow> string list \<Rightarrow> bool \<Rightarrow> replay_request \<Rightarrow> int \<Rightarrow> replay_dir
   \<Rightarrow> reservation replay_result \<times> replay_dir" where
  "reserve h draws exceeds q now =
     transact h (validate_replay_request q) (reserve_transaction h draws exceeds q now)"

definition transition_transaction ::
  "string \<Rightarrow> string \<Rightarrow> bool \<Rightarrow> string option \<Rightarrow> replay_db \<Rightarrow> (unit \<times> replay_db) replay_result" where
  "transition_transaction sid lease completing response db =
     ebind (ok_or (bget (proofs db) sid) LeaseMismatch) (\<lambda>r.
     ebind (ensure (row_lease r = lease) LeaseMismatch) (\<lambda>_.
     if completing \<and> row_state r = COMPLETED then
       ebind (ensure (bget (task_responses db) sid = response) LeaseMismatch) (\<lambda>_. Ok ((), db))
     else ebind (ensure (row_state r = PENDING) LeaseMismatch) (\<lambda>_.
       if completing then
         ebind (case response of
                  None \<Rightarrow> Ok db
                | Some body \<Rightarrow>
                    if bcontains (task_responses db) sid then Err (Unavailable ''persist task response'')
                    else Ok (db\<lparr>task_responses := binsert sid body (task_responses db)\<rparr>)) (\<lambda>db1.
         Ok ((), db1\<lparr>proofs := binsert sid (r\<lparr>row_state := COMPLETED\<rparr>) (proofs db1)\<rparr>))
       else Ok ((), keep_proofs (\<lambda>k _. k \<noteq> sid) db))))"

definition transition_proof ::
  "replay_handle \<Rightarrow> string \<Rightarrow> string \<Rightarrow> bool \<Rightarrow> string option \<Rightarrow> replay_dir \<Rightarrow> unit replay_result \<times> replay_dir" where
  "transition_proof h sid lease completing response =
     transact h (ebind (validate_replay_digest sid ''storage_id'') (\<lambda>_. validate_lease lease))
       (transition_transaction sid lease completing response)"

definition complete_proof :: "replay_handle \<Rightarrow> string \<Rightarrow> string \<Rightarrow> replay_dir \<Rightarrow> unit replay_result \<times> replay_dir" where
  "complete_proof h sid lease = transition_proof h sid lease True None"

definition complete_with_response ::
  "replay_handle \<Rightarrow> string \<Rightarrow> string \<Rightarrow> string \<Rightarrow> replay_dir \<Rightarrow> unit replay_result \<times> replay_dir" where
  "complete_with_response h sid lease body dir =
     (if body = [] \<or> MAX_RESPONSE_BYTES < length body
      then (Err (ReplayInvalidInput ''invalid task response size''), dir)
      else transition_proof h sid lease True (Some body) dir)"

definition release_proof :: "replay_handle \<Rightarrow> string \<Rightarrow> string \<Rightarrow> replay_dir \<Rightarrow> unit replay_result \<times> replay_dir" where
  "release_proof h sid lease = transition_proof h sid lease False None"

definition completed_response :: "replay_handle \<Rightarrow> replay_request \<Rightarrow> replay_dir \<Rightarrow> string option replay_result" where
  "completed_response h q dir =
     ebind (validate_replay_digest (rq_storage_id q) ''storage_id'') (\<lambda>_.
     ebind (validate_replay_digest (rq_fingerprint q) ''fingerprint'') (\<lambda>_.
     ebind (validate_replay_scope (rq_origin q) ''origin'') (\<lambda>_.
     ebind (validate_replay_scope (rq_tenant q) ''tenant'') (\<lambda>_.
     ebind (validate_replay_scope (rq_project q) ''project'') (\<lambda>_.
     ebind (open_for_operation h dir) (\<lambda>db.
     case (bget (task_responses db) (rq_storage_id q), bget (proofs db) (rq_storage_id q)) of
       (Some body, Some r) \<Rightarrow>
         if row_origin r = rq_origin q \<and> row_tenant r = rq_tenant q \<and> row_project r = rq_project q
            \<and> row_fingerprint r = rq_fingerprint q \<and> row_state r = COMPLETED
         then if body \<noteq> [] \<and> length body \<le> MAX_RESPONSE_BYTES then Ok (Some body)
              else Err (Unavailable ''stored task response violates bound'')
         else Ok None
     | _ \<Rightarrow> Ok None))))))"

section \<open>The delivery route\<close>

text \<open>
  The rest of \<open>execute\<close>: the nonce of an admitted request is reserved and completed before the
  registry is touched. \<open>nonce_id\<close> is the digest of the canonical tuple of recipient, tenant,
  project, sender and nonce.
\<close>

datatype delivery_answer = Executed | Replayed | ReplayUnavailable | DeliveryRefused delivery_refusal

definition delivery_proof ::
  "delivery_crypto \<Rightarrow> (string \<Rightarrow> string \<Rightarrow> string \<Rightarrow> string \<Rightarrow> string \<Rightarrow> string) \<Rightarrow> string \<Rightarrow> string \<Rightarrow> string
   \<Rightarrow> delivery_authority \<Rightarrow> replay_request" where
  "delivery_proof cr nonce_id recipient tenant project a =
     \<lparr>rq_storage_id = nonce_id recipient tenant project (auth_sender a) (auth_nonce a),
      rq_origin = auth_sender a, rq_tenant = auth_tenant_id a, rq_project = auth_project_id a,
      rq_fingerprint = dc_sha256_hex cr (auth_signing_bytes (dc_authority cr) a),
      rq_signed_expires_at = auth_expires_at a div 10 ^ 9\<rparr>"

definition consume_nonce ::
  "string \<Rightarrow> string list \<Rightarrow> bool \<Rightarrow> replay_request \<Rightarrow> int \<Rightarrow> replay_dir \<Rightarrow> delivery_answer \<times> replay_dir" where
  "consume_nonce marker draws exceeds q now dir =
     (case open_ledger default_replay_limits MIN_RETENTION_SECONDS marker dir of
        (Inl e, dir0) \<Rightarrow> (ReplayUnavailable, dir0)
      | (Inr h, dir0) \<Rightarrow>
          (case reserve h draws exceeds q now dir0 of
             (Inl e, dir1) \<Rightarrow> (ReplayUnavailable, dir1)
           | (Inr (Reserved lease), dir1) \<Rightarrow>
               (case complete_proof h (rq_storage_id q) lease dir1 of
                  (Inl e, dir2) \<Rightarrow> (ReplayUnavailable, dir2)
                | (Inr _, dir2) \<Rightarrow> (Executed, dir2))
           | (Inr _, dir1) \<Rightarrow> (Replayed, dir1)))"

definition execute_delivery ::
  "delivery_crypto \<Rightarrow> (string \<Rightarrow> string \<Rightarrow> string \<Rightarrow> string \<Rightarrow> string \<Rightarrow> string) \<Rightarrow> delivery_fs \<Rightarrow> delivery_server
   \<Rightarrow> work_graph_store store_result \<Rightarrow> string \<Rightarrow> string list \<Rightarrow> bool \<Rightarrow> int \<Rightarrow> int \<Rightarrow> signed_delivery_request
   \<Rightarrow> replay_dir \<Rightarrow> delivery_answer \<times> replay_dir" where
  "execute_delivery cr nonce_id fs srv store marker draws exceeds now now' r dir =
     (case (admit_delivery cr fs srv store now now' r, a2a_recipient_id srv) of
        (Inr scope, Some recipient) \<Rightarrow>
          consume_nonce marker draws exceeds
            (delivery_proof cr nonce_id recipient (account_id scope) (delivery_project_id scope) (authority r))
            (now div 10 ^ 9) dir
      | (Inl e, _) \<Rightarrow> (DeliveryRefused e, dir)
      | (Inr scope, None) \<Rightarrow> (DeliveryRefused ScopeUnconfigured, dir))"

end
