(* ===== verification/Replay_Laws.thy ===== *)
theory Replay_Laws
  imports Replay_Ledger Authority_Laws
begin

text \<open>
  What the relay ledger promises: a proof is accepted once whatever the clock does, the bounds
  and constraints of its tables, that a response is given out only for the proof it answers, that
  a database other than the established one is refused, and that the delivery route executes a
  signed authority once.
\<close>

section \<open>Transactions\<close>

lemma open_for_operation_eq_Ok:
  "open_for_operation h dir = Inr db \<longleftrightarrow>
     established dir = Some (handle_creation_marker h) \<and> valid_marker (handle_creation_marker h)
     \<and> database dir = Some db \<and> db_creation_marker db = handle_creation_marker h
     \<and> MIN_RETENTION_SECONDS \<le> db_retention_seconds db \<and> db_retention_seconds db \<le> MAX_RETENTION_SECONDS"
  by (auto simp: open_for_operation_def read_creation_marker_def validate_schema_def validate_retention_def
      result_simps split: option.splits if_splits)

lemma transact_eq_Ok:
  assumes "transact h valid run dir = (Inr x, dir')"
  obtains db db' where "valid = Inr ()" "open_for_operation h dir = Inr db" "run db = Inr (x, db')"
    "dir' = dir\<lparr>database := Some db'\<rparr>"
  using assms by (auto simp: transact_def result_simps split: sum.splits)

lemma transact_eq_Err: "transact h valid run dir = (Inl e, dir') \<Longrightarrow> dir' = dir"
  by (auto simp: transact_def split: sum.splits)

section \<open>Tables\<close>

lemma keep_proofs_fields [simp]:
  "last_observed_at (keep_proofs keep db) = last_observed_at db"
  "db_retention_seconds (keep_proofs keep db) = db_retention_seconds db"
  "db_creation_marker (keep_proofs keep db) = db_creation_marker db"
  "proofs (keep_proofs keep db) = bretain keep (proofs db)"
  by (simp_all add: keep_proofs_def Let_def)

lemma update_last_observed_fields [simp]:
  "proofs (update_last_observed db now) = proofs db"
  "task_responses (update_last_observed db now) = task_responses db"
  "last_observed_at (update_last_observed db now) = max (last_observed_at db) now"
  "db_retention_seconds (update_last_observed db now) = db_retention_seconds db"
  "db_creation_marker (update_last_observed db now) = db_creation_marker db"
  by (simp_all add: update_last_observed_def)

lemma prune_expired_fields [simp]:
  "last_observed_at (prune_expired db now) = last_observed_at db"
  "db_retention_seconds (prune_expired db now) = db_retention_seconds db"
  "db_creation_marker (prune_expired db now) = db_creation_marker db"
  by (simp_all add: prune_expired_def)

lemma bget_prune_expired:
  "bget (proofs (prune_expired db now)) k = Some r \<longleftrightarrow>
     bget (proofs db) k = Some r \<and> \<not> (row_state r = COMPLETED \<and> row_retain_until r \<le> now)"
  by (auto simp: prune_expired_def)

text \<open>A reservation finds a row, or inserts one after the checks of the clock, the bounds and the lease.\<close>

definition inserted_row :: "replay_request \<Rightarrow> int \<Rightarrow> int \<Rightarrow> string \<Rightarrow> replay_row" where
  "inserted_row q deadline now lease =
     \<lparr>row_origin = rq_origin q, row_tenant = rq_tenant q, row_project = rq_project q,
      row_fingerprint = rq_fingerprint q, row_signed_expires_at = rq_signed_expires_at q,
      row_retain_until = max (rq_signed_expires_at q) deadline, row_lease = lease,
      row_state = PENDING, row_accepted_at = now\<rparr>"

lemma reserve_transaction_cases:
  assumes "reserve_transaction h draws exceeds q now db = Inr (answer, db')"
  defines "eff \<equiv> max now (last_observed_at db)"
  defines "db1 \<equiv> prune_expired db eff"
  obtains (found) r where "bget (proofs db1) (rq_storage_id q) = Some r" "existing_answer q r = Inr answer"
      "db' = update_last_observed db1 eff"
  | (fresh) lease where "bget (proofs db1) (rq_storage_id q) = None" "answer = Reserved lease"
      "eff \<le> rq_signed_expires_at q" "free_lease db1 draws = Some lease"
      "count_rows db1 None < max_rows (handle_limits h)"
      "count_rows db1 (Some (rq_origin q)) < per_origin_max_rows (handle_limits h)"
      "db' = update_last_observed
         (db1\<lparr>proofs := binsert (rq_storage_id q)
            (inserted_row q (eff + max (handle_retention_seconds h) (db_retention_seconds db)) eff lease) (proofs db1)\<rparr>) eff"
  using assms
  by (auto simp: reserve_transaction_def insert_proof_def inserted_row_def read_last_observed_def checked_add_i64_def
      Let_def result_simps not_less not_le split: if_splits option.splits)

lemma existing_answer_not_Reserved: "existing_answer q r \<noteq> Inr (Reserved lease)"
  by (simp add: existing_answer_def)

lemma reserve_eq_Ok:
  assumes "reserve h draws exceeds q now dir = (Inr answer, dir')"
  obtains db db' where "validate_replay_request q = Inr ()" "open_for_operation h dir = Inr db"
    "reserve_transaction h draws exceeds q now db = Inr (answer, db')" "dir' = dir\<lparr>database := Some db'\<rparr>"
  using assms by (auto simp: reserve_def elim: transact_eq_Ok)

lemma transition_transaction_eq_Ok:
  "transition_transaction sid lease completing response db = Inr ((), db') \<longleftrightarrow>
     (\<exists>r. bget (proofs db) sid = Some r \<and> row_lease r = lease \<and>
       (if completing \<and> row_state r = COMPLETED then bget (task_responses db) sid = response \<and> db' = db
        else row_state r = PENDING \<and>
          (if completing
           then (response \<noteq> None \<longrightarrow> sid \<notin> bdom (task_responses db))
             \<and> db' = db\<lparr>proofs := binsert sid (r\<lparr>row_state := COMPLETED\<rparr>) (proofs db),
                  task_responses := (case response of None \<Rightarrow> task_responses db
                     | Some body \<Rightarrow> binsert sid body (task_responses db))\<rparr>
           else db' = keep_proofs (\<lambda>k _. k \<noteq> sid) db)))"
proof (cases "bget (proofs db) sid")
  case (Some r)
  then show ?thesis
    by (cases response; cases "row_state r = COMPLETED"; cases completing)
      (auto simp: transition_transaction_def result_simps COMPLETED_def PENDING_def split: if_splits)
qed (simp add: transition_transaction_def)


section \<open>A proof is accepted once\<close>

datatype relay_operation =
    OpenRelay replay_limits int string
  | ReserveRelay replay_handle "string list" bool replay_request int
  | CompleteRelay replay_handle string string
  | RespondRelay replay_handle string string string
  | ReleaseRelay replay_handle string string

fun relay_perform :: "relay_operation \<Rightarrow> replay_dir \<Rightarrow> replay_dir" where
  "relay_perform (OpenRelay limits retention draw) dir = snd (open_ledger limits retention draw dir)"
| "relay_perform (ReserveRelay h draws exceeds q now) dir = snd (reserve h draws exceeds q now dir)"
| "relay_perform (CompleteRelay h sid lease) dir = snd (complete_proof h sid lease dir)"
| "relay_perform (RespondRelay h sid lease body) dir = snd (complete_with_response h sid lease body dir)"
| "relay_perform (ReleaseRelay h sid lease) dir = snd (release_proof h sid lease dir)"

fun relay_accepts :: "relay_operation \<Rightarrow> replay_dir \<Rightarrow> bool" where
  "relay_accepts (ReserveRelay h draws exceeds q now) dir =
     (case fst (reserve h draws exceeds q now dir) of Inr (Reserved lease) \<Rightarrow> True | _ \<Rightarrow> False)"
| "relay_accepts _ dir = False"

fun presents_proof :: "string \<Rightarrow> int \<Rightarrow> relay_operation \<Rightarrow> bool" where
  "presents_proof sid e (ReserveRelay h draws exceeds q now) \<longleftrightarrow>
     rq_storage_id q = sid \<and> rq_signed_expires_at q = e"
| "presents_proof sid e _ \<longleftrightarrow> False"

fun proof_in_time :: "relay_operation \<Rightarrow> bool" where
  "proof_in_time (ReserveRelay h draws exceeds q now) \<longleftrightarrow> rq_signed_expires_at q < now + MIN_RETENTION_SECONDS"
| "proof_in_time _ \<longleftrightarrow> True"

fun keeps_proof :: "string \<Rightarrow> relay_operation \<Rightarrow> bool" where
  "keeps_proof sid (ReleaseRelay h sid' lease) \<longleftrightarrow> sid' \<noteq> sid"
| "keeps_proof sid _ \<longleftrightarrow> True"

definition remembers_proof :: "string \<Rightarrow> int \<Rightarrow> replay_db \<Rightarrow> bool" where
  "remembers_proof sid e db \<longleftrightarrow>
     e < last_observed_at db \<or> (\<exists>r. bget (proofs db) sid = Some r \<and> e < row_retain_until r)"

definition dir_remembers :: "string \<Rightarrow> int \<Rightarrow> replay_dir \<Rightarrow> bool" where
  "dir_remembers sid e dir \<longleftrightarrow> (\<exists>db. database dir = Some db \<and> remembers_proof sid e db)"

lemma remembers_reserve_transaction:
  assumes "remembers_proof sid e db" "reserve_transaction h draws exceeds q now db = Inr (answer, db')"
  shows "remembers_proof sid e db'"
    and "rq_storage_id q = sid \<Longrightarrow> rq_signed_expires_at q = e \<Longrightarrow> answer \<noteq> Reserved lease"
proof -
  let ?eff = "max now (last_observed_at db)"
  have gone: "e < ?eff" if "bget (proofs (prune_expired db ?eff)) sid = None"
    using that assms(1) bget_prune_expired [of db ?eff sid]
    by (cases "bget (proofs db) sid") (fastforce simp: remembers_proof_def)+
  have kept: "remembers_proof sid e (update_last_observed (prune_expired db ?eff) ?eff)"
    using assms(1) gone by (cases "bget (proofs (prune_expired db ?eff)) sid")
      (fastforce simp: remembers_proof_def bget_prune_expired)+
  show "remembers_proof sid e db'"
    using assms(2)
  proof (cases rule: reserve_transaction_cases)
    case found
    then show ?thesis using kept by simp
  next
    case fresh
    then show ?thesis
      using kept gone by (cases "rq_storage_id q = sid") (auto simp: remembers_proof_def)
  qed
  show "answer \<noteq> Reserved lease" if "rq_storage_id q = sid" "rq_signed_expires_at q = e"
    using assms(2) by (cases rule: reserve_transaction_cases)
      (use that gone existing_answer_not_Reserved in auto)
qed

lemma remembers_transition_transaction:
  assumes "remembers_proof sid e db" "transition_transaction sid' lease completing response db = Inr (u, db')"
    and "completing \<or> sid' \<noteq> sid"
  shows "remembers_proof sid e db'"
  using assms by (cases u) (auto simp: remembers_proof_def transition_transaction_eq_Ok split: if_splits)

lemma dir_remembers_transact:
  assumes "dir_remembers sid e dir"
    and "\<And>db x db'. remembers_proof sid e db \<Longrightarrow> run db = Inr (x, db') \<Longrightarrow> remembers_proof sid e db'"
  shows "dir_remembers sid e (snd (transact h valid run dir))"
proof (cases "transact h valid run dir")
  case (Pair r dir')
  then show ?thesis
    using assms by (cases r) (auto simp: dir_remembers_def open_for_operation_eq_Ok
        dest: transact_eq_Err elim!: transact_eq_Ok)
qed

lemma dir_remembers_open:
  "dir_remembers sid e dir \<Longrightarrow> dir_remembers sid e (snd (open_ledger limits retention draw dir))"
  by (auto simp: dir_remembers_def open_ledger_def locate_ledger_def remembers_proof_def Let_def ebind_eq_Ok
      split: sum.splits option.splits)

lemma remembers_inserted:
  assumes "reserve_transaction h draws exceeds q now db = Inr (Reserved lease, db')"
    and "rq_signed_expires_at q < now + MIN_RETENTION_SECONDS" "MIN_RETENTION_SECONDS \<le> db_retention_seconds db"
  shows "remembers_proof (rq_storage_id q) (rq_signed_expires_at q) db'"
  using assms(1)
  by (cases rule: reserve_transaction_cases)
    (use assms(2,3) existing_answer_not_Reserved in \<open>auto simp: remembers_proof_def inserted_row_def\<close>)

interpretation rp: replay_guard relay_perform relay_accepts "presents_proof sid e" proof_in_time "keeps_proof sid"
  "dir_remembers sid e"
proof (unfold_locales, goal_cases)
  case (1 op dir)
  then obtain h draws exceeds q now where op: "op = ReserveRelay h draws exceeds q now"
    "rq_storage_id q = sid" "rq_signed_expires_at q = e" "e < now + MIN_RETENTION_SECONDS"
    by (cases op) auto
  with 1(3) obtain lease dir' where "reserve h draws exceeds q now dir = (Inr (Reserved lease), dir')"
    by (cases "reserve h draws exceeds q now dir") (auto split: sum.splits reservation.splits)
  then show ?case
    using op by (auto simp: dir_remembers_def open_for_operation_eq_Ok elim!: reserve_eq_Ok dest: remembers_inserted)
next
  case (2 op dir)
  then show ?case
    by (cases op) (auto simp: reserve_def complete_proof_def complete_with_response_def release_proof_def
        transition_proof_def intro!: dir_remembers_transact dir_remembers_open
        intro: remembers_reserve_transaction(1) remembers_transition_transaction)
next
  case (3 op dir)
  then obtain h draws exceeds q now where op: "op = ReserveRelay h draws exceeds q now"
    "rq_storage_id q = sid" "rq_signed_expires_at q = e"
    by (cases op) auto
  show ?case
  proof
    assume "relay_accepts op dir"
    then obtain lease dir' where "reserve h draws exceeds q now dir = (Inr (Reserved lease), dir')"
      by (cases "reserve h draws exceeds q now dir") (auto simp: op split: sum.splits reservation.splits)
    then show False
      using 3(3) op by (auto simp: dir_remembers_def open_for_operation_eq_Ok elim!: reserve_eq_Ok
          dest: remembers_reserve_transaction(2))
  qed
qed

text \<open>
  C11. A relay proof is accepted once, where it expires less than 86730 seconds (the minimal retention) after the
  clock by which it was first presented. After such a reservation no later reservation of the same proof succeeds:
  through any sequence of openings, reservations, completions and releases other than a release
  of that proof, by any handle and at any reading of the clock, forwards or backwards.
\<close>

theorem proof_accepted_once:
  assumes "fst (reserve h draws exceeds q now dir) = Ok (Reserved lease)"
    and "rq_signed_expires_at q < now + MIN_RETENTION_SECONDS"
    and "\<forall>op\<in>set ops. keeps_proof (rq_storage_id q) op"
    and "rq_storage_id q' = rq_storage_id q" "rq_signed_expires_at q' = rq_signed_expires_at q"
  shows "fst (reserve h' draws' exceeds' q' now' (fold relay_perform ops (snd (reserve h draws exceeds q now dir))))
    \<noteq> Ok (Reserved lease')"
proof -
  have "\<not> relay_accepts (ReserveRelay h' draws' exceeds' q' now')
      (fold relay_perform ops (relay_perform (ReserveRelay h draws exceeds q now) dir))"
    by (rule rp.accepted_once [where sid = "rq_storage_id q" and e = "rq_signed_expires_at q"])
      (use assms in simp_all)
  then show ?thesis by auto
qed


section \<open>The delivery route executes a nonce once\<close>

lemma consume_nonce_Executed:
  assumes "consume_nonce marker draws exceeds q now dir = (Executed, dir')"
  obtains h lease where
    "relay_accepts (ReserveRelay h draws exceeds q now)
       (relay_perform (OpenRelay default_replay_limits MIN_RETENTION_SECONDS marker) dir)"
    "dir' = fold relay_perform [OpenRelay default_replay_limits MIN_RETENTION_SECONDS marker,
       ReserveRelay h draws exceeds q now, CompleteRelay h (rq_storage_id q) lease] dir"
proof -
  obtain r0 dir0 where o1: "open_ledger default_replay_limits MIN_RETENTION_SECONDS marker dir = (r0, dir0)"
    by fastforce
  with assms obtain h where h: "r0 = Inr h" by (cases r0) (auto simp: consume_nonce_def)
  obtain r1 dir1 where o2: "reserve h draws exceeds q now dir0 = (r1, dir1)" by fastforce
  with assms o1 h obtain lease where l: "r1 = Inr (Reserved lease)"
    by (auto simp: consume_nonce_def split: sum.splits reservation.splits)
  obtain r2 dir2 where o3: "complete_proof h (rq_storage_id q) lease dir1 = (r2, dir2)" by fastforce
  with assms o1 o2 h l have "dir' = dir2"
    by (auto simp: consume_nonce_def split: sum.splits)
  with o1 o2 o3 h l that [of h lease] show thesis by simp
qed

lemma admitted_expiry:
  assumes "admit_delivery cr fs srv store now now' r = Inr scope"
  shows "auth_expires_at (authority r) div 10 ^ 9 < now div 10 ^ 9 + MIN_RETENTION_SECONDS"
proof -
  from assms obtain policy recipient tenant project op digest where
    "verify_delivery_authority (dc_authority cr) (dc_ed25519 cr) (authority r) policy
       \<lparr>exp_sender = auth_sender (authority r), exp_recipient = recipient, exp_tenant_id = tenant,
        exp_project_id = project, exp_now = now\<rparr> op digest = Inr ()"
    by (auto simp: admit_delivery_def ebind_eq_Ok map_err_eq_Ok split: option.splits)
  then have "auth_expires_at (authority r) - auth_issued_at (authority r) \<le> seconds MAX_DELIVERY_SECONDS"
    "auth_issued_at (authority r) \<le> now + seconds MAX_AUTHORITY_CLOCK_SKEW_SECONDS"
    by (auto simp: verify_delivery_authority_def result_simps authorize_eq_Ok in_time_def auth_claim_def
        MAX_AUTHORITY_CLOCK_SKEW_SECONDS_def)
  then have "auth_expires_at (authority r) \<le> now + 360 * 10 ^ 9"
    by (simp add: MAX_DELIVERY_SECONDS_def MAX_AUTHORITY_CLOCK_SKEW_SECONDS_def)
  then have "auth_expires_at (authority r) div 10 ^ 9 \<le> (now + 360 * 10 ^ 9) div 10 ^ 9"
    by (intro zdiv_mono1) auto
  then show ?thesis by (simp add: MIN_RETENTION_SECONDS_def)
qed

lemma admitted_scope:
  assumes "admit_delivery cr fs srv store now now' r = Inr scope"
  shows "\<exists>recipient. a2a_recipient_id srv = Some recipient \<and> a2a_tenant_id srv = Some (account_id scope)
    \<and> a2a_project_id srv = Some (delivery_project_id scope)"
  using assms
  by (auto simp: admit_delivery_def new_delivery_scope_def result_simps split: option.splits if_splits)

lemma execute_delivery_Executed:
  assumes "execute_delivery cr nonce_id fs srv store marker draws exceeds now now' r dir = (Executed, dir')"
  obtains scope recipient where "admit_delivery cr fs srv store now now' r = Inr scope"
    "a2a_recipient_id srv = Some recipient" "a2a_tenant_id srv = Some (account_id scope)"
    "a2a_project_id srv = Some (delivery_project_id scope)"
    "consume_nonce marker draws exceeds
       (delivery_proof cr nonce_id recipient (account_id scope) (delivery_project_id scope) (authority r))
       (now div 10 ^ 9) dir = (Executed, dir')"
  using assms admitted_scope [of cr fs srv store now now' r]
  by (auto simp: execute_delivery_def split: sum.splits option.splits)

text \<open>
  C12. The delivery route executes a signed authority at most once: after an operation was
  executed under a nonce, the route executes no other request with the same sender, nonce and
  expiry, whatever its body, signature or certificate, whatever the other operations on the
  ledger in between (a release of that nonce excepted), and whatever the clock reads.
\<close>

theorem delivery_executed_once:
  fixes srv :: delivery_server
  assumes "execute_delivery cr nonce_id fs srv store marker draws exceeds now now1 r dir = (Executed, dir')"
    and "auth_sender (authority r') = auth_sender (authority r)" "auth_nonce (authority r') = auth_nonce (authority r)"
    and "auth_expires_at (authority r') = auth_expires_at (authority r)"
    and "\<forall>op\<in>set ops. keeps_proof (nonce_id (the (a2a_recipient_id srv)) (the (a2a_tenant_id srv))
       (the (a2a_project_id srv)) (auth_sender (authority r)) (auth_nonce (authority r))) op"
  shows "fst (execute_delivery cr nonce_id fs' srv store' marker' draws' exceeds' now' now1' r'
      (fold relay_perform ops dir')) \<noteq> Executed"
proof
  assume "fst (execute_delivery cr nonce_id fs' srv store' marker' draws' exceeds' now' now1' r'
      (fold relay_perform ops dir')) = Executed"
  then obtain dir2 where again: "execute_delivery cr nonce_id fs' srv store' marker' draws' exceeds' now' now1' r'
      (fold relay_perform ops dir') = (Executed, dir2)" by (metis prod.collapse)
  from assms(1) obtain scope recipient where one: "admit_delivery cr fs srv store now now1 r = Inr scope"
    "a2a_recipient_id srv = Some recipient" "a2a_tenant_id srv = Some (account_id scope)"
    "a2a_project_id srv = Some (delivery_project_id scope)"
    "consume_nonce marker draws exceeds
       (delivery_proof cr nonce_id recipient (account_id scope) (delivery_project_id scope) (authority r))
       (now div 10 ^ 9) dir = (Executed, dir')" (is "consume_nonce _ _ _ ?q _ _ = _")
    by (elim execute_delivery_Executed)
  from again one(2-4) have two: "consume_nonce marker' draws' exceeds'
       (delivery_proof cr nonce_id recipient (account_id scope) (delivery_project_id scope) (authority r'))
       (now' div 10 ^ 9) (fold relay_perform ops dir') = (Executed, dir2)" (is "consume_nonce _ _ _ ?q' _ _ = _")
    by (elim execute_delivery_Executed) simp
  let ?open = "OpenRelay default_replay_limits MIN_RETENTION_SECONDS"
  from one(5) obtain h lease where first: "relay_accepts (ReserveRelay h draws exceeds ?q (now div 10 ^ 9)) (relay_perform (?open marker) dir)"
    "dir' = fold relay_perform [?open marker, ReserveRelay h draws exceeds ?q (now div 10 ^ 9),
       CompleteRelay h (rq_storage_id ?q) lease] dir" by (elim consume_nonce_Executed)
  from two obtain h' where "relay_accepts (ReserveRelay h' draws' exceeds' ?q' (now' div 10 ^ 9))
      (relay_perform (?open marker') (fold relay_perform ops dir'))" by (elim consume_nonce_Executed)
  moreover have "\<not> relay_accepts (ReserveRelay h' draws' exceeds' ?q' (now' div 10 ^ 9))
      (fold relay_perform (CompleteRelay h (rq_storage_id ?q) lease # ops @ [?open marker'])
        (relay_perform (ReserveRelay h draws exceeds ?q (now div 10 ^ 9)) (relay_perform (?open marker) dir)))"
    by (rule rp.accepted_once [where sid = "rq_storage_id ?q" and e = "rq_signed_expires_at ?q"])
      (use first(1) admitted_expiry [OF one(1)] one(2-4) assms(2-5) in \<open>simp_all add: delivery_proof_def\<close>)
  ultimately show False by (simp add: first(2))
qed


section \<open>Bounds and constraints of the tables\<close>

lemma length_filter_bvalues: "length (filter P (bvalues m)) = card {k. \<exists>v. bget m k = Some v \<and> P v}"
proof -
  have "length (filter P (bvalues m)) = length (map fst (filter (P \<circ> snd) (entries m)))"
    by (simp add: bvalues_def filter_map)
  also have "\<dots> = card (fst ` set (filter (P \<circ> snd) (entries m)))"
    by (metis distinct_card distinct_keys distinct_map_filter set_map)
  also have "fst ` set (filter (P \<circ> snd) (entries m)) = {k. \<exists>v. bget m k = Some v \<and> P v}"
    by (force simp: image_iff simp flip: in_entries_iff)
  finally show ?thesis .
qed

definition origin_rows :: "replay_db \<Rightarrow> string \<Rightarrow> string set" where
  "origin_rows db origin = {k. \<exists>r. bget (proofs db) k = Some r \<and> row_origin r = origin}"

lemma count_rows_origin: "count_rows db (Some origin) = card (origin_rows db origin)"
  by (simp add: count_rows_def length_filter_bvalues origin_rows_def)

lemma finite_origin_rows [simp]: "finite (origin_rows db origin)"
  by (rule finite_subset [of _ "bdom (proofs db)"]) (auto simp: origin_rows_def)

definition rows_ok :: "replay_limits \<Rightarrow> replay_db \<Rightarrow> bool" where
  "rows_ok limits db \<longleftrightarrow> count_rows db None \<le> max_rows limits
     \<and> (\<forall>origin. count_rows db (Some origin) \<le> per_origin_max_rows limits)"

definition leases_ok :: "replay_db \<Rightarrow> bool" where
  "leases_ok db \<longleftrightarrow> (\<forall>k r k' r'. bget (proofs db) k = Some r \<longrightarrow> bget (proofs db) k' = Some r' \<longrightarrow>
     row_lease r = row_lease r' \<longrightarrow> k = k')"

definition responses_ok :: "replay_db \<Rightarrow> bool" where
  "responses_ok db \<longleftrightarrow> (\<forall>k body. bget (task_responses db) k = Some body \<longrightarrow>
     body \<noteq> [] \<and> length body \<le> MAX_RESPONSE_BYTES
     \<and> (\<exists>r. bget (proofs db) k = Some r \<and> row_state r = COMPLETED))"

definition tables_ok :: "replay_limits \<Rightarrow> replay_db \<Rightarrow> bool" where
  "tables_ok limits db \<longleftrightarrow> rows_ok limits db \<and> leases_ok db \<and> responses_ok db"

text \<open>Rows may go and change their state; what stays keeps its origin and its lease.\<close>

definition rows_shrink :: "replay_db \<Rightarrow> replay_db \<Rightarrow> bool" where
  "rows_shrink db db' \<longleftrightarrow> (\<forall>k r. bget (proofs db') k = Some r \<longrightarrow>
     (\<exists>r'. bget (proofs db) k = Some r' \<and> row_origin r' = row_origin r \<and> row_lease r' = row_lease r))"

lemma rows_ok_shrink:
  assumes "rows_ok limits db" "rows_shrink db db'"
  shows "rows_ok limits db'"
proof -
  have "origin_rows db' origin \<subseteq> origin_rows db origin" for origin
    using assms(2) by (fastforce simp: origin_rows_def rows_shrink_def)
  then have "card (origin_rows db' origin) \<le> card (origin_rows db origin)" for origin
    by (simp add: card_mono)
  moreover have "blen (proofs db') \<le> blen (proofs db)"
    using assms(2) by (fastforce simp: rows_shrink_def blen_card intro!: card_mono)
  ultimately show ?thesis
    using assms(1) unfolding rows_ok_def count_rows_origin
    by (auto simp: count_rows_def intro: order.trans)
qed

lemma leases_ok_shrink: "leases_ok db \<Longrightarrow> rows_shrink db db' \<Longrightarrow> leases_ok db'"
  unfolding leases_ok_def rows_shrink_def by metis

lemma tables_ok_keep_proofs:
  assumes "tables_ok limits db"
  shows "tables_ok limits (keep_proofs keep db)"
proof -
  have "rows_shrink db (keep_proofs keep db)" by (simp add: rows_shrink_def)
  moreover have "responses_ok (keep_proofs keep db)"
    using assms by (fastforce simp: tables_ok_def responses_ok_def keep_proofs_def Let_def)
  ultimately show ?thesis
    using assms by (auto simp: tables_ok_def intro: rows_ok_shrink leases_ok_shrink)
qed

lemma tables_ok_prune: "tables_ok limits db \<Longrightarrow> tables_ok limits (prune_expired db now)"
  by (simp add: prune_expired_def tables_ok_keep_proofs)

lemma tables_ok_observed: "tables_ok limits (update_last_observed db now) = tables_ok limits db"
  by (simp add: tables_ok_def rows_ok_def leases_ok_def responses_ok_def count_rows_def)

lemma free_lease_unused:
  "free_lease db draws = Some lease \<Longrightarrow> bget (proofs db) k = Some r \<Longrightarrow> row_lease r \<noteq> lease"
  by (auto simp: free_lease_def find_Some_iff list_ex_iff in_bvalues_iff)

lemma tables_ok_insert:
  assumes "tables_ok limits db" "bget (proofs db) sid = None" "free_lease db draws = Some (row_lease row)"
    and "count_rows db None < max_rows limits" "count_rows db (Some (row_origin row)) < per_origin_max_rows limits"
  shows "tables_ok limits (db\<lparr>proofs := binsert sid row (proofs db)\<rparr>)" (is "tables_ok limits ?db")
proof -
  have "origin_rows ?db origin = (if origin = row_origin row then insert sid (origin_rows db origin) else origin_rows db origin)"
    for origin using assms(2) by (auto simp: origin_rows_def)
  then have "count_rows ?db (Some origin) \<le> per_origin_max_rows limits" for origin
    using assms(1,5) card_insert_le_m1
    by (auto simp: tables_ok_def rows_ok_def count_rows_origin card_insert_if)
  moreover have "count_rows ?db None \<le> max_rows limits"
    using assms(4) by (simp add: count_rows_def blen_binsert)
  ultimately have "rows_ok limits ?db" by (simp add: rows_ok_def)
  moreover have "leases_ok ?db"
    using assms(1) free_lease_unused [OF assms(3)] unfolding tables_ok_def leases_ok_def
    by (simp split: if_splits) metis
  moreover have "responses_ok ?db"
    using assms(1,2) by (fastforce simp: tables_ok_def responses_ok_def)
  ultimately show ?thesis by (simp add: tables_ok_def)
qed

lemma tables_ok_reserve:
  assumes "tables_ok (handle_limits h) db" "reserve_transaction h draws exceeds q now db = Inr (answer, db')"
  shows "tables_ok (handle_limits h) db'"
  using assms(2)
proof (cases rule: reserve_transaction_cases)
  case found
  then show ?thesis using assms(1) by (simp add: tables_ok_observed tables_ok_prune)
next
  case (fresh lease)
  then show ?thesis
    unfolding tables_ok_observed fresh(7)
    by (intro tables_ok_insert) (simp_all add: inserted_row_def tables_ok_prune assms(1))
qed

lemma tables_ok_transition:
  assumes "tables_ok limits db" "transition_transaction sid lease completing response db = Inr ((), db')"
    and "\<forall>body. response = Some body \<longrightarrow> body \<noteq> [] \<and> length body \<le> MAX_RESPONSE_BYTES"
  shows "tables_ok limits db'"
proof -
  from assms(2) obtain r where r: "bget (proofs db) sid = Some r"
    and cases: "db' = db \<or> db' = keep_proofs (\<lambda>k _. k \<noteq> sid) db
      \<or> db' = db\<lparr>proofs := binsert sid (r\<lparr>row_state := COMPLETED\<rparr>) (proofs db),
             task_responses := (case response of None \<Rightarrow> task_responses db
                | Some body \<Rightarrow> binsert sid body (task_responses db))\<rparr>" (is "_ \<or> _ \<or> db' = ?done")
    by (auto simp: transition_transaction_eq_Ok split: if_splits)
  have "rows_shrink db ?done" using r by (simp add: rows_shrink_def)
  moreover have "responses_ok ?done"
    using assms(1,3) r by (cases response) (fastforce simp: tables_ok_def responses_ok_def)+
  ultimately have "tables_ok limits ?done"
    using assms(1) unfolding tables_ok_def by (blast intro: rows_ok_shrink leases_ok_shrink)
  then show ?thesis using cases assms(1) tables_ok_keep_proofs by blast
qed


definition relay_inv :: "replay_limits \<Rightarrow> replay_dir \<Rightarrow> bool" where
  "relay_inv limits dir \<longleftrightarrow> (\<forall>db. database dir = Some db \<longrightarrow> tables_ok limits db)"

fun uses_limits :: "replay_limits \<Rightarrow> relay_operation \<Rightarrow> bool" where
  "uses_limits limits (OpenRelay l retention draw) \<longleftrightarrow> True"
| "uses_limits limits (ReserveRelay h draws exceeds q now) \<longleftrightarrow> handle_limits h = limits"
| "uses_limits limits (CompleteRelay h sid lease) \<longleftrightarrow> True"
| "uses_limits limits (RespondRelay h sid lease body) \<longleftrightarrow> True"
| "uses_limits limits (ReleaseRelay h sid lease) \<longleftrightarrow> True"

definition relay_step :: "replay_limits \<Rightarrow> replay_dir \<Rightarrow> replay_dir \<Rightarrow> bool" where
  "relay_step limits dir dir' \<longleftrightarrow> (\<exists>op. uses_limits limits op \<and> dir' = relay_perform op dir)"

lemma relay_inv_transact:
  assumes "relay_inv limits dir"
    and "\<And>db x db'. tables_ok limits db \<Longrightarrow> run db = Inr (x, db') \<Longrightarrow> tables_ok limits db'"
  shows "relay_inv limits (snd (transact h valid run dir))"
proof (cases "transact h valid run dir")
  case (Pair r dir')
  then show ?thesis
    using assms by (cases r) (auto simp: relay_inv_def open_for_operation_eq_Ok
        dest: transact_eq_Err elim!: transact_eq_Ok)
qed

lemma tables_ok_retention: "tables_ok limits (db\<lparr>db_retention_seconds := n\<rparr>) = tables_ok limits db"
  by (simp add: tables_ok_def rows_ok_def leases_ok_def responses_ok_def count_rows_def)

lemma tables_ok_empty: "tables_ok limits (initialize_schema retention marker)"
  by (auto simp: tables_ok_def rows_ok_def leases_ok_def responses_ok_def count_rows_def initialize_schema_def
      blen_card bvalues_def split: option.splits)

lemma relay_inv_open: "relay_inv limits dir \<Longrightarrow> relay_inv limits (snd (open_ledger l retention draw dir))"
  by (auto simp: relay_inv_def open_ledger_def locate_ledger_def Let_def ebind_eq_Ok tables_ok_retention tables_ok_empty
      split: sum.splits option.splits)

interpretation rl: invariant_machine "\<lambda>dir. database dir = None" "relay_step limits" "relay_inv limits"
proof
  fix dir dir' assume inv: "relay_inv limits dir" and "relay_step limits dir dir'"
  then obtain op where op: "uses_limits limits op" "dir' = relay_perform op dir" by (auto simp: relay_step_def)
  show "relay_inv limits dir'"
  proof (cases op)
    case (ReserveRelay h draws exceeds q now)
    then show ?thesis
      using op inv by (auto simp: reserve_def intro!: relay_inv_transact intro: tables_ok_reserve)
  next
    case (RespondRelay h sid lease body)
    then show ?thesis
      using op inv by (auto simp: complete_with_response_def transition_proof_def not_less
          intro!: relay_inv_transact intro: tables_ok_transition)
  qed (use op inv in \<open>auto simp: complete_proof_def release_proof_def transition_proof_def
      intro!: relay_inv_transact relay_inv_open intro: tables_ok_transition\<close>)
qed (simp add: relay_inv_def)

text \<open>
  The bounds of the relay ledger hold however the routes interleave: a database grown by any
  sequence of openings, reservations, completions and releases under the default limits has at
  most 262144 proofs and 8192 of one origin, no two proofs share a lease, and a stored response
  is of 1 to 65536 bytes and belongs to a completed proof.
\<close>

theorem relay_tables_bounded:
  assumes "reaches (\<lambda>dir. database dir = None) (relay_step default_replay_limits) dir" "database dir = Some db"
  shows "count_rows db None \<le> 262144 \<and> count_rows db (Some origin) \<le> 8192
    \<and> (\<forall>k r k' r'. bget (proofs db) k = Some r \<longrightarrow> bget (proofs db) k' = Some r' \<longrightarrow>
         row_lease r = row_lease r' \<longrightarrow> k = k')
    \<and> (\<forall>k body. bget (task_responses db) k = Some body \<longrightarrow> 1 \<le> length body \<and> length body \<le> 65536
         \<and> (\<exists>r. bget (proofs db) k = Some r \<and> row_state r = COMPLETED))"
proof -
  have "relay_inv default_replay_limits dir" by (rule rl.reachable_inv) fact
  then have ok: "rows_ok default_replay_limits db" "leases_ok db" "responses_ok db"
    using assms(2) by (auto simp: relay_inv_def tables_ok_def)
  have "count_rows db None \<le> 262144 \<and> count_rows db (Some origin) \<le> 8192"
    using ok(1) by (simp add: rows_ok_def default_replay_limits_def DEFAULT_MAX_ROWS_def DEFAULT_PER_ORIGIN_MAX_ROWS_def)
  moreover have "1 \<le> length body \<and> length body \<le> 65536 \<and> (\<exists>r. bget (proofs db) k = Some r \<and> row_state r = COMPLETED)"
    if "bget (task_responses db) k = Some body" for k body
    using ok(3) that by (auto simp: responses_ok_def MAX_RESPONSE_BYTES_def Suc_le_eq)
  ultimately show ?thesis using ok(2) unfolding leases_ok_def by blast
qed

section \<open>Stored responses\<close>

definition same_binding :: "replay_request \<Rightarrow> replay_request \<Rightarrow> bool" where
  "same_binding q q' \<longleftrightarrow> rq_storage_id q' = rq_storage_id q \<and> rq_origin q' = rq_origin q \<and> rq_tenant q' = rq_tenant q
     \<and> rq_project q' = rq_project q \<and> rq_fingerprint q' = rq_fingerprint q"

lemma completed_response_found:
  assumes "validate_replay_request q = Inr ()" "open_for_operation h dir = Inr db"
    and "bget (task_responses db) (rq_storage_id q) = Some body" "body \<noteq> []" "length body \<le> MAX_RESPONSE_BYTES"
    and "bget (proofs db) (rq_storage_id q) = Some r" "row_state r = COMPLETED"
  shows "completed_response h q dir = Ok (if row_origin r = rq_origin q \<and> row_tenant r = rq_tenant q
      \<and> row_project r = rq_project q \<and> row_fingerprint r = rq_fingerprint q then Some body else None)"
  using assms by (auto simp: completed_response_def validate_replay_request_def result_simps)

lemma free_lease_drawn: "free_lease db draws = Some lease \<Longrightarrow> lease \<in> set draws"
  by (auto simp: free_lease_def find_Some_iff dest: in_set_takeD nth_mem)

lemma reserve_then_complete:
  assumes "reserve h draws exceeds q now dir = (Inr (Reserved lease), dir1)" "relay_inv limits dir"
    and "\<forall>d\<in>set draws. validate_lease d = Inr ()"
    and "body \<noteq> []" "length body \<le> MAX_RESPONSE_BYTES"
  obtains db2 r where "complete_with_response h (rq_storage_id q) lease body dir1 = (Inr (), dir1\<lparr>database := Some db2\<rparr>)"
    "open_for_operation h (dir1\<lparr>database := Some db2\<rparr>) = Inr db2"
    "bget (proofs db2) (rq_storage_id q) = Some r" "row_state r = COMPLETED"
    "row_origin r = rq_origin q" "row_tenant r = rq_tenant q" "row_project r = rq_project q"
    "row_fingerprint r = rq_fingerprint q" "bget (task_responses db2) (rq_storage_id q) = Some body"
proof -
  from assms(1) obtain db db1 where v: "validate_replay_request q = Inr ()" "open_for_operation h dir = Inr db"
    "reserve_transaction h draws exceeds q now db = Inr (Reserved lease, db1)" "dir1 = dir\<lparr>database := Some db1\<rparr>"
    by (elim reserve_eq_Ok)
  let ?p = "prune_expired db (max now (last_observed_at db))" and ?sid = "rq_storage_id q"
  from v(3) obtain deadline where ins: "bget (proofs ?p) ?sid = None" "free_lease ?p draws = Some lease"
    "proofs db1 = binsert ?sid (inserted_row q deadline (max now (last_observed_at db)) lease) (proofs ?p)"
    "task_responses db1 = task_responses ?p" "db_creation_marker db1 = db_creation_marker db"
    "db_retention_seconds db1 = db_retention_seconds db"
    by (cases rule: reserve_transaction_cases) (use existing_answer_not_Reserved in auto)
  have "responses_ok ?p"
    using assms(2) v(2) tables_ok_prune [of limits db] by (auto simp: relay_inv_def open_for_operation_eq_Ok tables_ok_def)
  then have none: "?sid \<notin> bdom (task_responses db1)" using ins(1,4) by (fastforce simp: responses_ok_def)
  let ?row = "(inserted_row q deadline (max now (last_observed_at db)) lease)\<lparr>row_state := COMPLETED\<rparr>"
  let ?db2 = "db1\<lparr>proofs := binsert ?sid ?row (proofs db1), task_responses := binsert ?sid body (task_responses db1)\<rparr>"
  have "transition_transaction ?sid lease True (Some body) db1 = Inr ((), ?db2)"
    using ins(3) none unfolding transition_transaction_eq_Ok by (simp add: inserted_row_def PENDING_def COMPLETED_def)
  moreover have "validate_replay_digest ?sid ''storage_id'' = Inr ()" "validate_lease lease = Inr ()"
    using v(1) assms(3) free_lease_drawn [OF ins(2)] by (auto simp: validate_replay_request_def result_simps)
  moreover have "open_for_operation h dir1 = Inr db1" "open_for_operation h (dir1\<lparr>database := Some ?db2\<rparr>) = Inr ?db2"
    using v(2,4) ins(5,6) by (auto simp: open_for_operation_eq_Ok)
  ultimately show thesis
    using assms(4,5) by (intro that [of ?db2 ?row])
      (simp_all add: complete_with_response_def transition_proof_def transact_def not_less inserted_row_def)
qed

text \<open>
  A response reaches exactly the delivery it answers: whoever reserved a proof can complete it
  with a response, after which a repetition of the same delivery is answered with those bytes, and
  a request under the same storage id from another origin, tenant or project, or with other
  content, is answered with none.
\<close>

theorem response_roundtrip:
  assumes "reserve h draws exceeds q now dir = (Ok (Reserved lease), dir1)" "relay_inv limits dir"
    and "\<forall>d\<in>set draws. validate_lease d = Ok ()"
    and "body \<noteq> []" "length body \<le> MAX_RESPONSE_BYTES"
  shows "\<exists>dir2. complete_with_response h (rq_storage_id q) lease body dir1 = (Ok (), dir2)
    \<and> (\<forall>q'. validate_replay_request q' = Ok () \<longrightarrow> rq_storage_id q' = rq_storage_id q \<longrightarrow>
         completed_response h q' dir2 = Ok (if same_binding q q' then Some body else None))"
proof -
  from assms obtain db2 r where *: "complete_with_response h (rq_storage_id q) lease body dir1 = (Inr (), dir1\<lparr>database := Some db2\<rparr>)"
    "open_for_operation h (dir1\<lparr>database := Some db2\<rparr>) = Inr db2"
    "bget (proofs db2) (rq_storage_id q) = Some r" "row_state r = COMPLETED"
    "row_origin r = rq_origin q" "row_tenant r = rq_tenant q" "row_project r = rq_project q"
    "row_fingerprint r = rq_fingerprint q" "bget (task_responses db2) (rq_storage_id q) = Some body"
    by (elim reserve_then_complete)
  have "completed_response h q' (dir1\<lparr>database := Some db2\<rparr>) = Ok (if same_binding q q' then Some body else None)"
    if "validate_replay_request q' = Ok ()" "rq_storage_id q' = rq_storage_id q" for q'
    using completed_response_found [OF that(1) *(2), of body r] * that(2) assms(4,5)
    by (auto simp: same_binding_def)
  with *(1) show ?thesis by blast
qed

section \<open>Only the established database is used\<close>

definition consistent_dir :: "replay_dir \<Rightarrow> bool" where
  "consistent_dir dir \<longleftrightarrow>
     (case (established dir, database dir) of
        (None, None) \<Rightarrow> True
      | (Some marker, Some db) \<Rightarrow> db_creation_marker db = marker
      | _ \<Rightarrow> False)"

lemma inconsistent_not_opened: "\<not> consistent_dir dir \<Longrightarrow> \<exists>e. open_for_operation h dir = Inl e"
  by (cases "open_for_operation h dir") (auto simp: consistent_dir_def open_for_operation_eq_Ok)

lemma inconsistent_transact:
  assumes "\<not> consistent_dir dir"
  shows "snd (transact h valid run dir) = dir" "fst (transact h valid run dir) \<noteq> Inr x"
  using inconsistent_not_opened [OF assms, of h] by (cases valid; auto simp: transact_def)+

text \<open>
  The ledger fails closed: where the database was deleted, replaced by another or lost its
  marker, opening it fails, no operation accepts a proof, no response is given out, and nothing on
  disk changes.
\<close>

theorem replaced_ledger_refused:
  assumes "\<not> consistent_dir dir"
  shows "(\<exists>e. open_ledger limits retention draw dir = (Err e, dir)) \<and> (\<exists>e. completed_response h q dir = Err e)
    \<and> \<not> relay_accepts op dir \<and> relay_perform op dir = dir"
proof -
  have no_open: "\<exists>e. open_ledger limits retention draw dir = (Err e, dir)" for limits retention draw
    using assms by (auto simp: consistent_dir_def open_ledger_def locate_ledger_def read_creation_marker_def
        validate_schema_def validate_retention_def ensure_def ebind_def Let_def split: sum.splits option.splits if_splits)
  then have "snd (open_ledger limits retention draw dir) = dir" for limits retention draw
    by (metis snd_conv)
  moreover have "\<exists>e. completed_response h q dir = Err e"
    using inconsistent_not_opened [OF assms, of h]
    by (cases "completed_response h q dir") (auto simp: completed_response_def ebind_eq_Ok)
  moreover have "\<not> relay_accepts op dir"
    by (cases op) (simp_all add: reserve_def inconsistent_transact(2) [OF assms] split: sum.splits reservation.splits)
  moreover have "relay_perform op dir = dir"
    using calculation(1)
    by (cases op) (simp_all add: inconsistent_transact(1) [OF assms] reserve_def complete_with_response_def complete_proof_def release_proof_def transition_proof_def)
  ultimately show ?thesis using no_open by blast
qed

end
