(* ===== verification/Relay_Record.thy ===== *)
theory Relay_Record
  imports Task_Authority
begin

text \<open>
  Relayed deliveries (\<open>src/core/a2a/relay.rs\<close>): the chain of hops, the record an origin signs and
  every hop seals again, its metadata encoding, and the table of peers with what each may pass on.
  JSON, base64, the hexadecimal coding of the \<open>hex\<close> crate, SHA-256, HMAC, Ed25519 and the parsers
  of URLs and IP addresses are collected in records of parameters.
\<close>

section \<open>Data\<close>

definition RELAY_RECORD_VERSION :: nat where "RELAY_RECORD_VERSION = 1"
definition RELAY_PEER_TABLE_VERSION :: nat where "RELAY_PEER_TABLE_VERSION = 1"
definition RELAY_MAX_HOPS :: nat where "RELAY_MAX_HOPS = 16"
definition RELAY_MAX_PEERS :: nat where "RELAY_MAX_PEERS = 32"
definition RELAY_MAX_RECORD_BYTES :: nat where "RELAY_MAX_RECORD_BYTES = 32 * 1024"
definition RELAY_MAX_PAYLOAD_BYTES :: nat where "RELAY_MAX_PAYLOAD_BYTES = 2 * 1024 * 1024"
definition RELAY_MAX_RETRIES :: nat where "RELAY_MAX_RETRIES = 5"
definition RELAY_MAX_RETRY_DELAY_MS :: nat where "RELAY_MAX_RETRY_DELAY_MS = 30000"
definition RELAY_MAX_ID_BYTES :: nat where "RELAY_MAX_ID_BYTES = 128"
definition RELAY_MAX_DEADLINE_SECS :: int where "RELAY_MAX_DEADLINE_SECS = 24 * 60 * 60"

datatype relay_error =
    MaxHopsExceeded nat | RelayCycle string | RelayMalformed string | Oversize | DeadlineExceeded
  | RouteMismatch | ScopeViolation | UnknownRoute string | AmbiguousRoute string | InvalidPeer string
  | InvalidRelaySignature | InvalidCredential | RetryCap

type_synonym 'a relay = "relay_error + 'a"

datatype transport_content_type = HandoffBundle | ContextPackage | A2AMessage | A2ATask | EvidenceBundle

datatype data_classification = Public | Internal | Confidential | Restricted

record relay_hop =
  hop_agent_id :: string
  hop_received_at :: int
  hop_forwarded_at :: "int option"
  hop_processing_ms :: "nat option"

record relay_chain =
  hops :: "relay_hop list"
  chain_max_hops :: nat

record relay_origin_view =
  ov_schema_version :: nat
  ov_payload_sha256 :: string
  ov_delivery_id :: string
  ov_origin :: string
  ov_final_recipient :: string
  ov_tenant_id :: string
  ov_project_id :: string
  ov_content_type :: transport_content_type
  ov_classification :: data_classification
  ov_expires_at :: int
  ov_max_hops :: nat
  ov_origin_hop :: relay_hop

record relay_record =
  rec_schema_version :: nat
  payload_sha256 :: string
  delivery_id :: string
  rec_origin :: string
  final_recipient :: string
  current_peer :: string
  next_peer :: string
  rec_tenant_id :: string
  rec_project_id :: string
  rec_content_type :: transport_content_type
  classification :: data_classification
  rec_expires_at :: int
  relay_chain :: relay_chain
  origin_signature :: string
  hop_signature :: string

record relay_crypto =
  rc_origin_json :: "relay_origin_view \<Rightarrow> string"
  rc_hop_json :: "relay_record \<Rightarrow> string"
  rc_hex_encode :: "string \<Rightarrow> string"
  rc_hex_decode :: "string \<Rightarrow> string option"
  rc_sha256 :: "string \<Rightarrow> string"
  rc_hmac :: "string \<Rightarrow> string \<Rightarrow> string"
  rc_key_ok :: "string \<Rightarrow> bool"
  rc_ed25519 :: "string \<Rightarrow> string \<Rightarrow> string \<Rightarrow> bool"

section \<open>The chain of hops\<close>

definition new_chain :: "nat \<Rightarrow> relay_chain" where
  "new_chain n = \<lparr>hops = [], chain_max_hops = n\<rparr>"

definition chain_contains :: "relay_chain \<Rightarrow> string \<Rightarrow> bool" where
  "chain_contains c agent \<longleftrightarrow> list_ex (\<lambda>h. hop_agent_id h = agent) (hops c)"

definition relay_chain_depth :: "relay_chain \<Rightarrow> nat" where
  "relay_chain_depth c = length (hops c)"

definition chain_origin :: "relay_chain \<Rightarrow> string option" where
  "chain_origin c = (case hops c of [] \<Rightarrow> None | h # _ \<Rightarrow> Some (hop_agent_id h))"

definition relay_id_ok :: "string \<Rightarrow> bool" where
  "relay_id_ok i \<longleftrightarrow> \<not> (i = [] \<or> RELAY_MAX_ID_BYTES < length i)"

definition hop_backwards :: "relay_hop \<Rightarrow> bool" where
  "hop_backwards h \<longleftrightarrow> (case hop_forwarded_at h of None \<Rightarrow> False | Some f \<Rightarrow> f < hop_received_at h)"

definition add_hop :: "relay_chain \<Rightarrow> relay_hop \<Rightarrow> relay_chain relay" where
  "add_hop c h =
     (if chain_max_hops c = 0 \<or> RELAY_MAX_HOPS < chain_max_hops c \<or> chain_max_hops c \<le> length (hops c)
      then Err (MaxHopsExceeded (chain_max_hops c))
      else if \<not> relay_id_ok (hop_agent_id h) then Err (RelayMalformed ''relay hop identity'')
      else if chain_contains c (hop_agent_id h) then Err (RelayCycle (hop_agent_id h))
      else if hop_backwards h then Err (RelayMalformed ''relay hop timestamps'')
      else Ok (c\<lparr>hops := hops c @ [h]\<rparr>))"

definition add_peer_hop :: "relay_chain \<Rightarrow> string \<Rightarrow> int \<Rightarrow> relay_chain relay" where
  "add_peer_hop c agent now =
     add_hop c \<lparr>hop_agent_id = agent, hop_received_at = now, hop_forwarded_at = Some now, hop_processing_ms = Some 0\<rparr>"

fun validate_hops :: "string set \<Rightarrow> relay_hop list \<Rightarrow> unit relay" where
  "validate_hops seen [] = Ok ()"
| "validate_hops seen (h # hs) =
     (if \<not> relay_id_ok (hop_agent_id h) then Err (RelayMalformed ''relay hop identity'')
      else if hop_backwards h \<or> hop_agent_id h \<in> seen then Err (RelayCycle (hop_agent_id h))
      else validate_hops (insert (hop_agent_id h) seen) hs)"

definition validate_relay_chain :: "relay_chain \<Rightarrow> unit relay" where
  "validate_relay_chain c =
     (if chain_max_hops c = 0 \<or> RELAY_MAX_HOPS < chain_max_hops c \<or> hops c = [] \<or> chain_max_hops c < length (hops c)
      then Err (MaxHopsExceeded (chain_max_hops c))
      else validate_hops {} (hops c))"

section \<open>The record\<close>

definition validate_relay_shape :: "relay_record \<Rightarrow> unit relay" where
  "validate_relay_shape r =
     ebind (ensure (length (payload_sha256 r) = 64 \<and> list_all is_lower_hex (payload_sha256 r))
              (RelayMalformed ''payload digest'')) (\<lambda>_.
     ebind (ensure (rec_schema_version r = RELAY_RECORD_VERSION) (RelayMalformed ''relay record version'')) (\<lambda>_.
     ebind (efor [(''delivery_id'', delivery_id r), (''origin'', rec_origin r), (''final_recipient'', final_recipient r),
                  (''current_peer'', current_peer r), (''next_peer'', next_peer r), (''tenant_id'', rec_tenant_id r),
                  (''project_id'', rec_project_id r)]
              (\<lambda>(name, value). ensure (relay_id_ok value) (RelayMalformed name))) (\<lambda>_.
     ebind (ensure (\<not> (RELAY_MAX_ID_BYTES * 2 < length (origin_signature r)
                        \<or> RELAY_MAX_ID_BYTES * 2 < length (hop_signature r)))
              (RelayMalformed ''relay signature'')) (\<lambda>_.
     ebind (validate_relay_chain (relay_chain r)) (\<lambda>_.
     ensure (hops (relay_chain r) \<noteq> [] \<and> hop_agent_id (last (hops (relay_chain r))) = current_peer r
             \<and> chain_origin (relay_chain r) = Some (rec_origin r))
       (RelayMalformed ''relay chain identity''))))))"

definition validate_relay_deadline :: "relay_record \<Rightarrow> int \<Rightarrow> unit relay" where
  "validate_relay_deadline r now =
     (if rec_expires_at r \<le> now then Err DeadlineExceeded
      else if RELAY_MAX_DEADLINE_SECS < num_seconds (rec_expires_at r - now)
      then Err (RelayMalformed ''relay deadline exceeds cap'')
      else Ok ())"

definition validate_relay_at :: "relay_record \<Rightarrow> int \<Rightarrow> string \<Rightarrow> string option \<Rightarrow> nat \<Rightarrow> unit relay" where
  "validate_relay_at r now expected_current expected_next limit =
     ebind (validate_relay_shape r) (\<lambda>_.
     ebind (validate_relay_deadline r now) (\<lambda>_.
     ebind (ensure (\<not> (current_peer r \<noteq> expected_current
                        \<or> (case expected_next of None \<Rightarrow> False | Some p \<Rightarrow> next_peer r \<noteq> p))) RouteMismatch) (\<lambda>_.
     ebind (ensure (\<not> (limit < chain_max_hops (relay_chain r) \<or> limit < relay_chain_depth (relay_chain r)))
              (MaxHopsExceeded limit)) (\<lambda>_.
     ensure (\<not> (origin_signature r = [] \<or> hop_signature r = [])) InvalidRelaySignature))))"

definition origin_view :: "relay_record \<Rightarrow> relay_origin_view relay" where
  "origin_view r =
     (case hops (relay_chain r) of
        [] \<Rightarrow> Err (RelayMalformed ''relay origin hop'')
      | h # _ \<Rightarrow> Ok
          \<lparr>ov_schema_version = rec_schema_version r, ov_payload_sha256 = payload_sha256 r,
           ov_delivery_id = delivery_id r, ov_origin = rec_origin r, ov_final_recipient = final_recipient r,
           ov_tenant_id = rec_tenant_id r, ov_project_id = rec_project_id r, ov_content_type = rec_content_type r,
           ov_classification = classification r, ov_expires_at = rec_expires_at r,
           ov_max_hops = chain_max_hops (relay_chain r), ov_origin_hop = h\<rparr>)"

definition origin_bytes :: "relay_crypto \<Rightarrow> relay_record \<Rightarrow> string relay" where
  "origin_bytes cr r = ebind (origin_view r) (\<lambda>v. Ok (rc_origin_json cr v))"

definition payload_digest :: "relay_crypto \<Rightarrow> string \<Rightarrow> string" where
  "payload_digest cr payload = rc_hex_encode cr (rc_sha256 cr payload)"

definition origin_fingerprint :: "relay_crypto \<Rightarrow> relay_record \<Rightarrow> string relay" where
  "origin_fingerprint cr r = ebind (origin_bytes cr r) (\<lambda>bytes. Ok (payload_digest cr bytes))"

definition verify_payload :: "relay_crypto \<Rightarrow> relay_record \<Rightarrow> string \<Rightarrow> unit relay" where
  "verify_payload cr r payload = ensure (payload_sha256 r = payload_digest cr payload) InvalidRelaySignature"

definition hop_bytes :: "relay_crypto \<Rightarrow> relay_record \<Rightarrow> string" where
  "hop_bytes cr r = rc_hop_json cr (r\<lparr>hop_signature := []\<rparr>)"

definition sign_hop :: "relay_crypto \<Rightarrow> relay_record \<Rightarrow> string \<Rightarrow> string relay" where
  "sign_hop cr r key =
     (if key = [] then Err InvalidCredential else Ok (rc_hex_encode cr (rc_hmac cr key (hop_bytes cr r))))"

definition sign_origin :: "relay_crypto \<Rightarrow> relay_record \<Rightarrow> (string \<Rightarrow> string) \<Rightarrow> string relay" where
  "sign_origin cr r signer = ebind (origin_bytes cr r) (\<lambda>bytes. Ok (rc_hex_encode cr (signer bytes)))"

definition decode_origin_key :: "relay_crypto \<Rightarrow> string \<Rightarrow> string relay" where
  "decode_origin_key cr raw =
     ebind (ensure (length raw = 64) InvalidCredential) (\<lambda>_.
     ebind (ok_or (rc_hex_decode cr raw) InvalidCredential) (\<lambda>bytes.
     ebind (ensure (length bytes = 32 \<and> rc_key_ok cr bytes) InvalidCredential) (\<lambda>_. Ok bytes)))"

definition verify_origin :: "relay_crypto \<Rightarrow> relay_record \<Rightarrow> string \<Rightarrow> unit relay" where
  "verify_origin cr r key =
     ebind (decode_origin_key cr key) (\<lambda>k.
     ebind (ensure (length (origin_signature r) = 128) InvalidRelaySignature) (\<lambda>_.
     ebind (ok_or (rc_hex_decode cr (origin_signature r)) InvalidRelaySignature) (\<lambda>sig.
     ebind (ensure (length sig = 64) InvalidRelaySignature) (\<lambda>_.
     ebind (origin_bytes cr r) (\<lambda>bytes.
     ensure (rc_ed25519 cr k bytes sig) InvalidRelaySignature)))))"

definition verify_hop_signature :: "relay_crypto \<Rightarrow> string \<Rightarrow> string \<Rightarrow> unit relay" where
  "verify_hop_signature cr actual expected =
     ebind (ok_or (rc_hex_decode cr actual) InvalidRelaySignature) (\<lambda>a.
     ebind (ok_or (rc_hex_decode cr expected) InvalidRelaySignature) (\<lambda>e.
     ensure (length a = length e \<and> a = e) InvalidRelaySignature))"

definition verify_hop :: "relay_crypto \<Rightarrow> relay_record \<Rightarrow> string \<Rightarrow> unit relay" where
  "verify_hop cr r key = ebind (sign_hop cr r key) (verify_hop_signature cr (hop_signature r))"

definition new_signed ::
  "relay_crypto \<Rightarrow> string \<Rightarrow> string \<Rightarrow> string \<Rightarrow> string \<Rightarrow> string \<Rightarrow> transport_content_type \<Rightarrow> data_classification
   \<Rightarrow> int \<Rightarrow> nat \<Rightarrow> int \<Rightarrow> (string \<Rightarrow> string) \<Rightarrow> string \<Rightarrow> string \<Rightarrow> relay_record relay" where
  "new_signed cr delivery origin recipient tenant project kind class expires limit now signer channel_key payload =
     ebind (add_peer_hop (new_chain limit) origin now) (\<lambda>chain.
     let r = \<lparr>rec_schema_version = RELAY_RECORD_VERSION, payload_sha256 = payload_digest cr payload,
              delivery_id = delivery, rec_origin = origin, final_recipient = recipient, current_peer = origin,
              next_peer = recipient, rec_tenant_id = tenant, rec_project_id = project, rec_content_type = kind,
              classification = class, rec_expires_at = expires, relay_chain = chain, origin_signature = [],
              hop_signature = []\<rparr>
     in ebind (validate_relay_shape r) (\<lambda>_.
        ebind (validate_relay_deadline r now) (\<lambda>_.
        ebind (sign_origin cr r signer) (\<lambda>sig.
        let r1 = r\<lparr>origin_signature := sig\<rparr>
        in ebind (sign_hop cr r1 channel_key) (\<lambda>seal. Ok (r1\<lparr>hop_signature := seal\<rparr>))))))"

definition route_from_origin ::
  "relay_crypto \<Rightarrow> relay_record \<Rightarrow> string \<Rightarrow> int \<Rightarrow> string \<Rightarrow> string \<Rightarrow> relay_record relay" where
  "route_from_origin cr r next now origin_key channel_key =
     ebind (validate_relay_at r now (rec_origin r) None (chain_max_hops (relay_chain r))) (\<lambda>_.
     ebind (verify_origin cr r origin_key) (\<lambda>_.
     ebind (ensure (relay_chain_depth (relay_chain r) = 1) RouteMismatch) (\<lambda>_.
     let routed = r\<lparr>next_peer := next\<rparr>
     in ebind (ensure (\<not> chain_contains (relay_chain routed) next) (RelayCycle next)) (\<lambda>_.
        ebind (validate_relay_shape routed) (\<lambda>_.
        ebind (sign_hop cr routed channel_key) (\<lambda>seal. Ok (routed\<lparr>hop_signature := seal\<rparr>)))))))"

definition forward_from ::
  "relay_crypto \<Rightarrow> relay_record \<Rightarrow> string \<Rightarrow> string \<Rightarrow> int \<Rightarrow> string \<Rightarrow> relay_record relay" where
  "forward_from cr r local next now hop_key =
     ebind (validate_relay_at r now (current_peer r) None (chain_max_hops (relay_chain r))) (\<lambda>_.
     ebind (ensure (local = next_peer r) RouteMismatch) (\<lambda>_.
     ebind (add_peer_hop (relay_chain r) local now) (\<lambda>chain.
     let f = r\<lparr>relay_chain := chain, current_peer := local, next_peer := next\<rparr>
     in ebind (ensure (\<not> chain_contains (relay_chain f) next) (RelayCycle next)) (\<lambda>_.
        ebind (validate_relay_shape f) (\<lambda>_.
        ebind (sign_hop cr f hop_key) (\<lambda>seal. Ok (f\<lparr>hop_signature := seal\<rparr>)))))))"

section \<open>The metadata encoding\<close>

record relay_codec =
  cd_json :: "relay_record \<Rightarrow> string"
  cd_parse :: "string \<Rightarrow> relay_record option"
  cd_base64 :: "string \<Rightarrow> string"
  cd_unbase64 :: "string \<Rightarrow> string option"

definition encode_metadata :: "relay_codec \<Rightarrow> relay_record \<Rightarrow> string relay" where
  "encode_metadata cd r =
     ebind (validate_relay_shape r) (\<lambda>_.
     ebind (ensure (\<not> RELAY_MAX_RECORD_BYTES < length (cd_json cd r)) Oversize) (\<lambda>_.
     Ok (cd_base64 cd (cd_json cd r))))"

definition decode_metadata :: "relay_codec \<Rightarrow> string \<Rightarrow> relay_record relay" where
  "decode_metadata cd value =
     ebind (ensure (\<not> (value = [] \<or> RELAY_MAX_RECORD_BYTES * 2 < length value)) Oversize) (\<lambda>_.
     ebind (ok_or (cd_unbase64 cd value) (RelayMalformed ''relay metadata encoding'')) (\<lambda>bytes.
     ebind (ensure (\<not> RELAY_MAX_RECORD_BYTES < length bytes) Oversize) (\<lambda>_.
     ebind (ok_or (cd_parse cd bytes) (RelayMalformed ''relay metadata'')) (\<lambda>r.
     ebind (validate_relay_shape r) (\<lambda>_.
     ebind (encode_metadata cd r) (\<lambda>encoded.
     ebind (ensure (encoded = value) (RelayMalformed ''non-canonical relay metadata'')) (\<lambda>_. Ok r)))))))"

section \<open>Peers\<close>

record relay_peer_config =
  cfg_schema_version :: nat
  peer_id :: string
  endpoint_url :: string
  bearer_token :: string
  channel_key :: string
  origin_public_key :: string
  recipient_id :: string
  allowed_tenant_ids :: "string list"
  allowed_project_ids :: "string list"
  allowed_content_types :: "transport_content_type list"
  allowed_classifications :: "data_classification list"
  cfg_max_hops :: nat
  max_payload_bytes :: nat
  retry_count :: nat
  retry_delay_ms :: nat

record parsed_url =
  url_scheme :: string
  url_host :: "string option"
  url_username :: string
  url_password :: "string option"

definition ensure_unique :: "string list \<Rightarrow> unit relay" where
  "ensure_unique values = ensure (distinct values \<and> [] \<notin> set values) ScopeViolation"

text \<open>\<open>loopback_ip\<close> says that a text parses as a loopback IP address; ASCII case is folded for the name.\<close>

definition ascii_lower :: "string \<Rightarrow> string" where
  "ascii_lower = map (\<lambda>c. if 65 \<le> byte c \<and> byte c \<le> 90 then char_of (byte c + 32) else c)"

definition is_loopback_host :: "(string \<Rightarrow> bool) \<Rightarrow> string \<Rightarrow> bool" where
  "is_loopback_host loopback_ip host \<longleftrightarrow> ascii_lower host = ''localhost'' \<or> loopback_ip host"

definition validate_relay_peer ::
  "relay_crypto \<Rightarrow> (string \<Rightarrow> parsed_url option) \<Rightarrow> (string \<Rightarrow> bool) \<Rightarrow> bool \<Rightarrow> relay_peer_config \<Rightarrow> unit relay" where
  "validate_relay_peer cr parse_url loopback_ip allow_loopback_http p =
     ebind (decode_origin_key cr (origin_public_key p)) (\<lambda>_.
     ebind (ensure (cfg_schema_version p = RELAY_PEER_TABLE_VERSION \<and> peer_id p \<noteq> [] \<and> peer_id p \<noteq> ''legacy''
              \<and> length (peer_id p) \<le> RELAY_MAX_ID_BYTES \<and> recipient_id p \<noteq> []
              \<and> length (recipient_id p) \<le> RELAY_MAX_ID_BYTES \<and> bearer_token p \<noteq> [] \<and> channel_key p \<noteq> []
              \<and> bearer_token p \<noteq> channel_key p) (InvalidPeer (peer_id p))) (\<lambda>_.
     ebind (ensure (allowed_tenant_ids p \<noteq> [] \<and> allowed_project_ids p \<noteq> [] \<and> allowed_content_types p \<noteq> []
              \<and> allowed_classifications p \<noteq> []) ScopeViolation) (\<lambda>_.
     ebind (ensure_unique (allowed_tenant_ids p)) (\<lambda>_.
     ebind (ensure_unique (allowed_project_ids p)) (\<lambda>_.
     ebind (ensure (cfg_max_hops p \<noteq> 0 \<and> cfg_max_hops p \<le> RELAY_MAX_HOPS) (MaxHopsExceeded (cfg_max_hops p))) (\<lambda>_.
     ebind (ensure (max_payload_bytes p \<noteq> 0 \<and> max_payload_bytes p \<le> RELAY_MAX_PAYLOAD_BYTES) Oversize) (\<lambda>_.
     ebind (ensure (retry_count p \<le> RELAY_MAX_RETRIES \<and> retry_delay_ms p \<le> RELAY_MAX_RETRY_DELAY_MS) RetryCap) (\<lambda>_.
     ebind (ensure (A2AMessage \<notin> set (allowed_content_types p)) ScopeViolation) (\<lambda>_.
     ebind (ok_or (parse_url (endpoint_url p)) (InvalidPeer (peer_id p))) (\<lambda>url.
     let loopback = (case url_host url of None \<Rightarrow> False | Some h \<Rightarrow> is_loopback_host loopback_ip h)
     in ensure (url_host url \<noteq> None \<and> url_username url = [] \<and> url_password url = None
                \<and> (url_scheme url = ''https'' \<or> allow_loopback_http \<and> loopback \<and> url_scheme url = ''http''))
          (InvalidPeer (peer_id p))))))))))))"

definition peer_allows :: "relay_peer_config \<Rightarrow> relay_record \<Rightarrow> nat \<Rightarrow> bool" where
  "peer_allows p r payload_bytes \<longleftrightarrow>
     payload_bytes \<le> max_payload_bytes p
     \<and> rec_tenant_id r \<in> set (allowed_tenant_ids p)
     \<and> rec_project_id r \<in> set (allowed_project_ids p)
     \<and> rec_content_type r \<in> set (allowed_content_types p)
     \<and> classification r \<in> set (allowed_classifications p)
     \<and> relay_chain_depth (relay_chain r) \<le> cfg_max_hops p"

record relay_peer_table =
  table_schema_version :: nat
  table_peers :: "relay_peer_config list"

fun validate_peer_rows :: "(relay_peer_config \<Rightarrow> unit relay) \<Rightarrow> string set \<Rightarrow> relay_peer_config list \<Rightarrow> unit relay" where
  "validate_peer_rows check seen [] = Ok ()"
| "validate_peer_rows check seen (p # ps) =
     ebind (check p) (\<lambda>_.
     ebind (ensure (peer_id p \<notin> seen) (InvalidPeer (peer_id p))) (\<lambda>_.
     validate_peer_rows check (insert (peer_id p) seen) ps))"

definition validate_peer_table ::
  "relay_crypto \<Rightarrow> (string \<Rightarrow> parsed_url option) \<Rightarrow> (string \<Rightarrow> bool) \<Rightarrow> bool \<Rightarrow> relay_peer_table \<Rightarrow> unit relay" where
  "validate_peer_table cr parse_url loopback_ip allow_loopback_http t =
     ebind (ensure (table_schema_version t = RELAY_PEER_TABLE_VERSION \<and> length (table_peers t) \<le> RELAY_MAX_PEERS)
              (InvalidPeer ''peer table'')) (\<lambda>_.
     validate_peer_rows (validate_relay_peer cr parse_url loopback_ip allow_loopback_http) {} (table_peers t))"

definition table_peer :: "relay_peer_table \<Rightarrow> string \<Rightarrow> relay_peer_config option" where
  "table_peer t pid = find (\<lambda>p. peer_id p = pid) (table_peers t)"

definition route_for_recipient :: "relay_peer_table \<Rightarrow> string \<Rightarrow> relay_peer_config relay" where
  "route_for_recipient t rid =
     (case filter (\<lambda>p. recipient_id p = rid) (table_peers t) of
        [] \<Rightarrow> Err (UnknownRoute rid)
      | [p] \<Rightarrow> Ok p
      | p # _ \<Rightarrow> Err (AmbiguousRoute rid))"

definition reject_shared_relay_secret :: "relay_peer_table \<Rightarrow> unit relay" where
  "reject_shared_relay_secret t =
     ensure (distinct (map channel_key (table_peers t)) \<and> distinct (map bearer_token (table_peers t))) InvalidCredential"

end
