(* ===== verification/Remote_Replay.thy ===== *)
theory Remote_Replay
  imports Btree_Map Relay_Record Replay_Interface
begin

text \<open>
  The replay ledger of direct deliveries (\<open>crates/lean-ctx/src/http_server/remote_replay.rs\<close>) and
  the part of \<open>a2a_deliver\<close> (\<open>handlers.rs\<close>) that asks it before it hands a payload off. The file
  is absent or holds a ledger; every operation loads it, changes the copy and writes it back
  under an exclusive lock, so an error leaves the file as it was. \<open>json_len\<close> is the length of the
  JSON text of a ledger, which the size limit bounds. Failures of the file system are not modelled.
\<close>

section \<open>Data\<close>

definition LEDGER_SCHEMA_VERSION :: nat where "LEDGER_SCHEMA_VERSION = 2"
definition MAX_LEDGER_BYTES :: nat where "MAX_LEDGER_BYTES = 1000000"
definition MAX_LEDGER_ENTRIES :: nat where "MAX_LEDGER_ENTRIES = 10000"

datatype entry_state = EntryPending | EntryCompleted

record ledger_entry =
  accepted_at :: int
  generation :: nat
  entry_state :: entry_state
  entry_fingerprint :: "string option"

record replay_ledger =
  ledger_schema_version :: nat
  next_generation :: nat
  ledger_observed_at :: int
  ledger_entries :: "(string, ledger_entry) btree_map"

datatype delivery_reservation = ReservedGeneration nat | DeliveryInFlight | DeliveryCompleted | DeliveryConflict

datatype ledger_operation =
    ReserveDelivery int "string option" "string option"
  | CompleteDelivery nat "string option"
  | ReleaseDelivery nat "string option"

definition default_ledger :: replay_ledger where
  "default_ledger = \<lparr>ledger_schema_version = LEDGER_SCHEMA_VERSION, next_generation = 1,
     ledger_observed_at = 0, ledger_entries = bempty\<rparr>"

section \<open>Operations\<close>

definition load_ledger :: "(replay_ledger \<Rightarrow> nat) \<Rightarrow> replay_ledger option \<Rightarrow> string + replay_ledger" where
  "load_ledger json_len disk =
     (case disk of
        None \<Rightarrow> Ok default_ledger
      | Some l \<Rightarrow>
          if MAX_LEDGER_BYTES < json_len l then Err ''replay ledger exceeds size limit''
          else if ledger_schema_version l \<noteq> LEDGER_SCHEMA_VERSION \<or> MAX_LEDGER_ENTRIES < blen (ledger_entries l)
          then Err ''invalid replay ledger bounds or schema''
          else Ok l)"

text \<open>The ledger is replaced through a temporary file; \<open>w\<close> says what becomes of that.\<close>

definition persist_ledger ::
  "(replay_ledger \<Rightarrow> nat) \<Rightarrow> file_write \<Rightarrow> replay_ledger \<Rightarrow> replay_ledger option \<Rightarrow> (string + unit) \<times> replay_ledger option" where
  "persist_ledger json_len w l disk =
     (if MAX_LEDGER_BYTES < json_len l then (Err ''replay ledger exceeds size limit'', disk) else replace_file w l disk)"

definition delivery_ids :: "string \<Rightarrow> string option \<Rightarrow> string list" where
  "delivery_ids aid legacy =
     (case legacy of None \<Rightarrow> [aid] | Some a \<Rightarrow> if a \<noteq> aid then [aid, a] else [aid])"

text \<open>The age of an entry is a checked subtraction of \<open>i64\<close> values.\<close>

definition retained :: "int \<Rightarrow> int \<Rightarrow> ledger_entry \<Rightarrow> bool" where
  "retained max_age now e \<longleftrightarrow>
     now - accepted_at e \<le> 2 ^ 63 - 1 \<and> - (2 ^ 63) \<le> now - accepted_at e
     \<and> 0 \<le> now - accepted_at e \<and> now - accepted_at e \<le> max_age"

definition reserve_entries ::
  "replay_ledger \<Rightarrow> string \<Rightarrow> string option \<Rightarrow> int \<Rightarrow> int \<Rightarrow> string option
   \<Rightarrow> string + (delivery_reservation \<times> replay_ledger)" where
  "reserve_entries l aid legacy now max_age fingerprint =
     (let effective = max now (ledger_observed_at l);
          l1 = l\<lparr>ledger_observed_at := effective,
                 ledger_entries := bretain (\<lambda>_. retained max_age effective) (ledger_entries l)\<rparr>;
          ids = delivery_ids aid legacy;
          found = List.map_filter (bget (ledger_entries l1)) ids
      in if list_ex (\<lambda>e. entry_fingerprint e \<noteq> fingerprint) found then Ok (DeliveryConflict, l1)
         else if list_ex (\<lambda>e. entry_state e = EntryCompleted) found then Ok (DeliveryCompleted, l1)
         else if list_ex (\<lambda>e. entry_state e = EntryPending) found then Ok (DeliveryInFlight, l1)
         else if MAX_LEDGER_ENTRIES
                  < blen (ledger_entries l1) + length (filter (\<lambda>i. \<not> bcontains (ledger_entries l1) i) ids)
         then Err ''replay ledger entry limit reached''
         else if u64_max < next_generation l1 + 1 then Err ''replay generation exhausted''
         else let g = next_generation l1;
                  e = \<lparr>accepted_at = effective, generation = g, entry_state = EntryPending,
                       entry_fingerprint = fingerprint\<rparr>
              in Ok (ReservedGeneration g,
                     l1\<lparr>next_generation := g + 1,
                        ledger_entries := fold (\<lambda>i. binsert i e) ids (ledger_entries l1)\<rparr>))"

definition transition_entries ::
  "replay_ledger \<Rightarrow> string \<Rightarrow> string option \<Rightarrow> nat \<Rightarrow> bool \<Rightarrow> string + replay_ledger" where
  "transition_entries l aid legacy g completing =
     (let ids = delivery_ids aid legacy
      in ebind (efor ids (\<lambda>i.
              ebind (ok_or (bget (ledger_entries l) i) ''replay reservation missing'') (\<lambda>e.
              ensure (generation e = g \<and> entry_state e = EntryPending)
                ''replay reservation ownership mismatch''))) (\<lambda>_.
         Ok (l\<lparr>ledger_entries := fold (\<lambda>i. if completing then bupdate i (\<lambda>e. e\<lparr>entry_state := EntryCompleted\<rparr>)
                                              else bremove i) ids (ledger_entries l)\<rparr>)))"

fun apply_operation ::
  "string \<Rightarrow> int \<Rightarrow> ledger_operation \<Rightarrow> replay_ledger \<Rightarrow> string + (delivery_reservation \<times> replay_ledger)" where
  "apply_operation aid max_age (ReserveDelivery now legacy fingerprint) l =
     reserve_entries l aid legacy now max_age fingerprint"
| "apply_operation aid max_age (CompleteDelivery g legacy) l =
     ebind (transition_entries l aid legacy g True) (\<lambda>l'. Ok (DeliveryCompleted, l'))"
| "apply_operation aid max_age (ReleaseDelivery g legacy) l =
     ebind (transition_entries l aid legacy g False) (\<lambda>l'. Ok (DeliveryCompleted, l'))"

definition update_ledger ::
  "(replay_ledger \<Rightarrow> nat) \<Rightarrow> int \<Rightarrow> file_write \<Rightarrow> string \<Rightarrow> ledger_operation \<Rightarrow> replay_ledger option
   \<Rightarrow> (string + delivery_reservation) \<times> replay_ledger option" where
  "update_ledger json_len max_age w aid op disk =
     (case ebind (load_ledger json_len disk) (apply_operation aid max_age op) of
        Inl e \<Rightarrow> (Err e, disk)
      | Inr (answer, l') \<Rightarrow>
          (case persist_ledger json_len w l' disk of
             (Inl e, disk') \<Rightarrow> (Err e, disk')
           | (Inr _, disk') \<Rightarrow> (Ok answer, disk')))"

section \<open>The delivery handler\<close>

definition MAX_REMOTE_ENVELOPE_AGE_SECONDS :: int where "MAX_REMOTE_ENVELOPE_AGE_SECONDS = 300"
definition MAX_REMOTE_ENVELOPE_FUTURE_SKEW_SECONDS :: int where "MAX_REMOTE_ENVELOPE_FUTURE_SKEW_SECONDS = 30"

definition REMOTE_REPLAY_RETENTION_SECONDS :: int where
  "REMOTE_REPLAY_RETENTION_SECONDS =
     RELAY_MAX_DEADLINE_SECS + MAX_REMOTE_ENVELOPE_AGE_SECONDS + MAX_REMOTE_ENVELOPE_FUTURE_SKEW_SECONDS"

definition envelope_fresh :: "int \<Rightarrow> int \<Rightarrow> bool" where
  "envelope_fresh sent_at now \<longleftrightarrow>
     num_seconds (now - sent_at) \<le> MAX_REMOTE_ENVELOPE_AGE_SECONDS
     \<and> - MAX_REMOTE_ENVELOPE_FUTURE_SKEW_SECONDS \<le> num_seconds (now - sent_at)"

text \<open>What becomes of the payload, which is the work of the handoff worker.\<close>

datatype handoff_outcome = WorkerLost | Refused | Succeeded

datatype deliver_answer =
    InvalidRemoteAuthority | DeliveryInProgress | IdentityConflict | AlreadyReceived
  | ReplayProtectionUnavailable | HandoffUnavailable | HandoffResponse handoff_outcome

text \<open>
  \<open>a2a_deliver\<close> from the freshness check on; \<open>authentic\<close> is the rest of the authority check, \<open>w1\<close> and
  \<open>w2\<close> are the writes of the ledger before and after the handoff. A task control request (\<open>control\<close>)
  that was completed is handed to the worker again, which checks its authority and answers from its own
  records; its outcome changes nothing in the ledger. The first part of the result says whether
  the payload was handed to the worker.
\<close>

definition deliver_guarded ::
  "(replay_ledger \<Rightarrow> nat) \<Rightarrow> int \<Rightarrow> bool \<Rightarrow> bool \<Rightarrow> int \<Rightarrow> string \<Rightarrow> string option \<Rightarrow> int \<Rightarrow> handoff_outcome
   \<Rightarrow> file_write \<Rightarrow> file_write \<Rightarrow> replay_ledger option \<Rightarrow> bool \<times> deliver_answer \<times> replay_ledger option" where
  "deliver_guarded json_len max_age authentic control sent_at aid legacy now outcome w1 w2 disk =
     (if \<not> (authentic \<and> envelope_fresh sent_at now) then (False, InvalidRemoteAuthority, disk)
      else case update_ledger json_len max_age w1 aid (ReserveDelivery (now div 10 ^ 9) legacy None) disk of
        (Inl e, disk1) \<Rightarrow> (False, ReplayProtectionUnavailable, disk1)
      | (Inr DeliveryInFlight, disk1) \<Rightarrow> (False, DeliveryInProgress, disk1)
      | (Inr DeliveryConflict, disk1) \<Rightarrow> (False, IdentityConflict, disk1)
      | (Inr DeliveryCompleted, disk1) \<Rightarrow>
          if control
          then (True, if outcome = WorkerLost then HandoffUnavailable else HandoffResponse outcome, disk1)
          else (False, AlreadyReceived, disk1)
      | (Inr (ReservedGeneration g), disk1) \<Rightarrow>
          (case outcome of
             WorkerLost \<Rightarrow> (True, HandoffUnavailable, disk1)
           | Refused \<Rightarrow> (True, HandoffResponse Refused,
                        snd (update_ledger json_len max_age w2 aid (ReleaseDelivery g legacy) disk1))
           | Succeeded \<Rightarrow>
               (case update_ledger json_len max_age w2 aid (CompleteDelivery g legacy) disk1 of
                  (Inl e, disk2) \<Rightarrow> (True, ReplayProtectionUnavailable, disk2)
                | (Inr _, disk2) \<Rightarrow> (True, HandoffResponse Succeeded, disk2))))"

end
