(* ===== verification/Remote_Laws.thy ===== *)
theory Remote_Laws
  imports Remote_Replay
begin

text \<open>
  What the ledger of direct deliveries promises: its invariant, that a completion or a release
  touches only the reservation it names, and that a delivery is accepted once in its window.
\<close>

section \<open>What each operation changes\<close>

lemma fold_binsert: "bget (fold (\<lambda>i. binsert i e) ids m) k = (if k \<in> set ids then Some e else bget m k)"
  by (induction ids arbitrary: m) auto

lemma blen_fold_binsert:
  "blen (fold (\<lambda>i. binsert i e) ids m) = card (set ids \<union> bdom m)"
proof -
  have "bdom (fold (\<lambda>i. binsert i e) ids m) = set ids \<union> bdom m" by (auto simp: fold_binsert)
  then show ?thesis by (simp add: blen_card)
qed

lemma fold_transition:
  "bget (fold (\<lambda>i. if completing then bupdate i (\<lambda>e. e\<lparr>entry_state := EntryCompleted\<rparr>) else bremove i) ids m) k
   = (if k \<in> set ids then if completing then map_option (\<lambda>e. e\<lparr>entry_state := EntryCompleted\<rparr>) (bget m k) else None
      else bget m k)"
  by (induction ids arbitrary: m) (auto simp: option.map_comp o_def)

lemma set_delivery_ids: "set (delivery_ids aid legacy) = insert aid (set_option legacy)"
  by (auto simp: delivery_ids_def split: option.splits)

lemma distinct_delivery_ids: "distinct (delivery_ids aid legacy)"
  by (auto simp: delivery_ids_def split: option.splits)

lemma update_ledger_eq_Ok:
  assumes "update_ledger json_len max_age w aid op file = (Inr answer, file')"
  obtains l l' where "load_ledger json_len file = Inr l" "apply_operation aid max_age op l = Inr (answer, l')"
    "file' = Some l'" "json_len l' \<le> MAX_LEDGER_BYTES"
  using assms by (cases w) (auto simp: update_ledger_def persist_ledger_def result_simps split: sum.splits if_splits)

text \<open>Whatever becomes of the write, the file is as it was or holds the changed ledger.\<close>

lemma update_ledger_file:
  assumes "update_ledger json_len max_age w aid op file = (r, file')"
  obtains (same) "file' = file" "\<nexists>answer. r = Inr answer"
  | (changed) l l' answer where "load_ledger json_len file = Inr l" "apply_operation aid max_age op l = Inr (answer, l')"
      "file' = Some l'" "json_len l' \<le> MAX_LEDGER_BYTES" "r = Inr answer \<or> (\<exists>e. r = Inl e)"
  using assms by (cases w) (auto simp: update_ledger_def persist_ledger_def result_simps split: sum.splits if_splits)

text \<open>The answers of a reservation in full: the pruned ledger first, then what is found in it.\<close>

definition pruned_ledger :: "int \<Rightarrow> int \<Rightarrow> replay_ledger \<Rightarrow> replay_ledger" where
  "pruned_ledger max_age now l =
     (let effective = max now (ledger_observed_at l)
      in l\<lparr>ledger_observed_at := effective,
           ledger_entries := bretain (\<lambda>_. retained max_age effective) (ledger_entries l)\<rparr>)"

lemma reserve_entries_cases:
  assumes "reserve_entries l aid legacy now max_age fp = Inr (answer, l')"
  defines "l1 \<equiv> pruned_ledger max_age now l"
  obtains (refused) "l' = l1" "\<nexists>g. answer = ReservedGeneration g"
      "\<exists>i\<in>set (delivery_ids aid legacy). i \<in> bdom (ledger_entries l1)"
  | (fresh) "answer = ReservedGeneration (next_generation l)" "next_generation l < u64_max"
      "\<forall>i\<in>set (delivery_ids aid legacy). i \<notin> bdom (ledger_entries l1)"
      "blen (ledger_entries l1) + length (delivery_ids aid legacy) \<le> MAX_LEDGER_ENTRIES"
      "l' = l1\<lparr>next_generation := next_generation l + 1,
         ledger_entries := fold (\<lambda>i. binsert i \<lparr>accepted_at = ledger_observed_at l1, generation = next_generation l,
           entry_state = EntryPending, entry_fingerprint = fp\<rparr>) (delivery_ids aid legacy) (ledger_entries l1)\<rparr>"
proof -
  let ?ids = "delivery_ids aid legacy"
  let ?found = "List.map_filter (bget (ledger_entries l1)) ?ids"
  have found: "?found = [] \<longleftrightarrow> (\<forall>i\<in>set ?ids. i \<notin> bdom (ledger_entries l1))"
    by (auto simp: List.map_filter_def filter_empty_conv)
  show thesis
  proof (cases "?found = []")
    case True
    then have len: "length (filter (\<lambda>i. \<not> bcontains (ledger_entries l1) i) ?ids) = length ?ids"
      using found by (simp add: filter_id_conv)
    show thesis
      using assms(1) True found len
      by (intro fresh)
        (auto simp: reserve_entries_def l1_def [unfolded pruned_ledger_def Let_def] Let_def not_less
           pruned_ledger_def split: if_splits)
  next
    case False
    then obtain e es where e: "?found = e # es" by (cases ?found) auto
    have "entry_state e = EntryCompleted \<or> entry_state e = EntryPending" by (cases "entry_state e") auto
    then show thesis
      using assms(1) False found e
      by (intro refused)
        (auto simp: reserve_entries_def l1_def [unfolded pruned_ledger_def Let_def] Let_def
           pruned_ledger_def split: if_splits)
  qed
qed


lemma transition_entries_eq_Ok:
  "transition_entries l aid legacy g completing = Inr l' \<longleftrightarrow>
     (\<forall>i\<in>set (delivery_ids aid legacy). \<exists>e. bget (ledger_entries l) i = Some e \<and> generation e = g
        \<and> entry_state e = EntryPending)
     \<and> l' = l\<lparr>ledger_entries := fold (\<lambda>i. if completing then bupdate i (\<lambda>e. e\<lparr>entry_state := EntryCompleted\<rparr>)
                                            else bremove i) (delivery_ids aid legacy) (ledger_entries l)\<rparr>"
  by (auto simp: transition_entries_def Let_def result_simps)

section \<open>The invariant\<close>

definition ledger_ok :: "replay_ledger \<Rightarrow> bool" where
  "ledger_ok l \<longleftrightarrow> ledger_schema_version l = LEDGER_SCHEMA_VERSION
     \<and> blen (ledger_entries l) \<le> MAX_LEDGER_ENTRIES
     \<and> (\<forall>i e. bget (ledger_entries l) i = Some e \<longrightarrow>
          generation e < next_generation l \<and> accepted_at e \<le> ledger_observed_at l)"

definition remote_inv :: "(replay_ledger \<Rightarrow> nat) \<Rightarrow> replay_ledger option \<Rightarrow> bool" where
  "remote_inv json_len file \<longleftrightarrow> (\<forall>l. file = Some l \<longrightarrow> ledger_ok l \<and> json_len l \<le> MAX_LEDGER_BYTES)"

definition remote_step :: "(replay_ledger \<Rightarrow> nat) \<Rightarrow> int \<Rightarrow> replay_ledger option \<Rightarrow> replay_ledger option \<Rightarrow> bool" where
  "remote_step json_len max_age file file' \<longleftrightarrow> (\<exists>w aid op. file' = snd (update_ledger json_len max_age w aid op file))"

lemma blen_mono: "bdom m \<subseteq> bdom m' \<Longrightarrow> blen m \<le> blen m'"
  by (simp add: blen_card card_mono)

lemma ledger_ok_pruned: "ledger_ok l \<Longrightarrow> ledger_ok (pruned_ledger max_age now l)"
  using blen_mono [of "bretain (\<lambda>_. retained max_age (max now (ledger_observed_at l))) (ledger_entries l)" "ledger_entries l"]
  by (fastforce simp: ledger_ok_def pruned_ledger_def Let_def)

lemma ledger_ok_reserve:
  assumes "ledger_ok l" "reserve_entries l aid legacy now max_age fp = Inr (answer, l')"
  shows "ledger_ok l'"
  using assms(2)
proof (cases rule: reserve_entries_cases)
  case refused
  then show ?thesis using ledger_ok_pruned [OF assms(1)] by simp
next
  case fresh
  let ?l1 = "pruned_ledger max_age now l" and ?ids = "delivery_ids aid legacy"
  have ok: "ledger_ok ?l1" by (rule ledger_ok_pruned) fact
  have "card (set ?ids \<union> bdom (ledger_entries ?l1)) \<le> length ?ids + blen (ledger_entries ?l1)"
    by (metis blen_card card_Un_le card_length add_le_mono1 order.trans)
  moreover have "next_generation ?l1 = next_generation l" by (simp add: pruned_ledger_def Let_def)
  ultimately show ?thesis
    using ok fresh(4,5) by (fastforce simp: ledger_ok_def blen_fold_binsert fold_binsert split: if_splits)
qed

lemma ledger_ok_transition:
  assumes "ledger_ok l" "transition_entries l aid legacy g completing = Inr l'"
  shows "ledger_ok l'"
proof -
  have "bdom (ledger_entries l') \<subseteq> bdom (ledger_entries l)"
    using assms(2) by (auto simp: transition_entries_eq_Ok fold_transition split: if_splits)
  then have "blen (ledger_entries l') \<le> blen (ledger_entries l)" by (rule blen_mono)
  then show ?thesis
    using assms by (auto simp: ledger_ok_def transition_entries_eq_Ok fold_transition split: if_splits)
qed

lemma ledger_ok_load: "remote_inv json_len file \<Longrightarrow> load_ledger json_len file = Inr l \<Longrightarrow> ledger_ok l"
  by (auto simp: remote_inv_def load_ledger_def default_ledger_def ledger_ok_def blen_card split: option.splits if_splits)

lemma ledger_ok_apply:
  "ledger_ok l \<Longrightarrow> apply_operation aid max_age op l = Inr (answer, l') \<Longrightarrow> ledger_ok l'"
  by (cases op) (auto simp: result_simps intro: ledger_ok_reserve ledger_ok_transition)

interpretation rm: invariant_machine "\<lambda>file. file = None" "remote_step json_len max_age" "remote_inv json_len"
proof
  fix d d' assume inv: "remote_inv json_len d" and "remote_step json_len max_age d d'"
  then obtain w aid op where step: "d' = snd (update_ledger json_len max_age w aid op d)"
    by (auto simp: remote_step_def)
  obtain r where u: "update_ledger json_len max_age w aid op d = (r, d')" using step by (metis prod.collapse)
  then show "remote_inv json_len d'"
  proof (cases rule: update_ledger_file)
    case (changed l l' answer)
    then have "ledger_ok l'" using inv by (blast intro: ledger_ok_apply ledger_ok_load)
    then show ?thesis using changed by (simp add: remote_inv_def)
  qed (use inv in simp)
qed (simp add: remote_inv_def)

text \<open>
  However requests are interleaved, the ledger of direct deliveries stays one the server will
  load again: within its entry and size limits, no generation handed out twice, no acceptance
  later than the clock it remembers.
\<close>

theorem remote_ledger_bounded:
  assumes "reaches (\<lambda>file. file = None) (remote_step json_len max_age) (Some l)"
  shows "load_ledger json_len (Some l) = Ok l \<and> blen (ledger_entries l) \<le> 10000
    \<and> (\<forall>i e. bget (ledger_entries l) i = Some e \<longrightarrow>
         generation e < next_generation l \<and> accepted_at e \<le> ledger_observed_at l)"
proof -
  have "remote_inv json_len (Some l)" by (rule rm.reachable_inv) fact
  then show ?thesis
    by (auto simp: remote_inv_def ledger_ok_def load_ledger_def MAX_LEDGER_ENTRIES_def not_less)
qed

section \<open>Deliveries are accepted once\<close>

abbreviation remote_retention :: int where "remote_retention \<equiv> REMOTE_REPLAY_RETENTION_SECONDS"

text \<open>One call by any process: the identifier, the operation, and what becomes of the write.\<close>

type_synonym ledger_call = "string \<times> ledger_operation \<times> file_write"

definition remote_perform ::
  "(replay_ledger \<Rightarrow> nat) \<Rightarrow> ledger_call \<Rightarrow> replay_ledger option \<Rightarrow> replay_ledger option" where
  "remote_perform json_len = (\<lambda>(aid, op, w) file. snd (update_ledger json_len remote_retention w aid op file))"

definition remote_accepts :: "(replay_ledger \<Rightarrow> nat) \<Rightarrow> ledger_call \<Rightarrow> replay_ledger option \<Rightarrow> bool" where
  "remote_accepts json_len = (\<lambda>(aid, op, w) file.
     case fst (update_ledger json_len remote_retention w aid op file) of
       Inr (ReservedGeneration g) \<Rightarrow> True | _ \<Rightarrow> False)"

fun presents_delivery :: "string \<Rightarrow> ledger_call \<Rightarrow> bool" where
  "presents_delivery i (aid, ReserveDelivery now legacy fp, w) \<longleftrightarrow> i \<in> set (delivery_ids aid legacy)"
| "presents_delivery i (aid, CompleteDelivery g legacy, w) \<longleftrightarrow> False"
| "presents_delivery i (aid, ReleaseDelivery g legacy, w) \<longleftrightarrow> False"

fun presented_by :: "int \<Rightarrow> ledger_call \<Rightarrow> bool" where
  "presented_by deadline (aid, ReserveDelivery now legacy fp, w) \<longleftrightarrow> deadline \<le> now + remote_retention"
| "presented_by deadline (aid, CompleteDelivery g legacy, w) \<longleftrightarrow> True"
| "presented_by deadline (aid, ReleaseDelivery g legacy, w) \<longleftrightarrow> True"

text \<open>Until the deadline by the clock of every request, and without a release of the delivery.\<close>

fun keeps_delivery :: "string \<Rightarrow> int \<Rightarrow> ledger_call \<Rightarrow> bool" where
  "keeps_delivery i deadline (aid, ReserveDelivery now legacy fp, w) \<longleftrightarrow> now \<le> deadline"
| "keeps_delivery i deadline (aid, CompleteDelivery g legacy, w) \<longleftrightarrow> True"
| "keeps_delivery i deadline (aid, ReleaseDelivery g legacy, w) \<longleftrightarrow> i \<notin> set (delivery_ids aid legacy)"

definition remembers_delivery :: "string \<Rightarrow> int \<Rightarrow> replay_ledger \<Rightarrow> bool" where
  "remembers_delivery i deadline l \<longleftrightarrow> (\<exists>e. bget (ledger_entries l) i = Some e
     \<and> accepted_at e \<le> ledger_observed_at l
     \<and> max (ledger_observed_at l) deadline - accepted_at e \<le> remote_retention)"

lemma remembers_pruned:
  assumes "remembers_delivery i deadline l" "now \<le> deadline"
  shows "remembers_delivery i deadline (pruned_ledger remote_retention now l)"
proof -
  from assms(1) obtain e where e: "bget (ledger_entries l) i = Some e" "accepted_at e \<le> ledger_observed_at l"
    "max (ledger_observed_at l) deadline - accepted_at e \<le> remote_retention"
    by (auto simp: remembers_delivery_def)
  define eff where "eff = max now (ledger_observed_at l)"
  have bounds: "accepted_at e \<le> eff" "max eff deadline = max (ledger_observed_at l) deadline"
    "eff \<le> max (ledger_observed_at l) deadline"
    using e(2) assms(2) by (auto simp: eff_def)
  moreover have "retained remote_retention eff e"
    using e bounds
    by (simp add: retained_def REMOTE_REPLAY_RETENTION_SECONDS_def RELAY_MAX_DEADLINE_SECS_def
        MAX_REMOTE_ENVELOPE_AGE_SECONDS_def MAX_REMOTE_ENVELOPE_FUTURE_SKEW_SECONDS_def)
  ultimately show ?thesis
    using e by (auto simp: remembers_delivery_def pruned_ledger_def Let_def simp flip: eff_def)
qed

lemma remembers_found: "remembers_delivery i deadline l \<Longrightarrow> i \<in> bdom (ledger_entries l)"
  by (auto simp: remembers_delivery_def)

lemma remembers_reserve:
  assumes "remembers_delivery i deadline l" "now \<le> deadline"
    and "reserve_entries l aid legacy now remote_retention fp = Inr (answer, l')"
  shows "remembers_delivery i deadline l'" and "i \<in> set (delivery_ids aid legacy) \<Longrightarrow> \<nexists>g. answer = ReservedGeneration g"
proof -
  note p = remembers_pruned [OF assms(1,2)]
  show "remembers_delivery i deadline l'"
    using assms(3)
  proof (cases rule: reserve_entries_cases)
    case fresh
    then have "i \<notin> set (delivery_ids aid legacy)" using remembers_found [OF p] by blast
    then show ?thesis using p fresh(5) by (auto simp: remembers_delivery_def fold_binsert)
  qed (use p in simp)
  show "\<nexists>g. answer = ReservedGeneration g" if "i \<in> set (delivery_ids aid legacy)"
    using assms(3) by (cases rule: reserve_entries_cases) (use that remembers_found [OF p] in blast)+
qed

lemma remembers_transition:
  assumes "remembers_delivery i deadline l" "transition_entries l aid legacy g completing = Inr l'"
    and "completing \<or> i \<notin> set (delivery_ids aid legacy)"
  shows "remembers_delivery i deadline l'"
  using assms by (auto simp: remembers_delivery_def transition_entries_eq_Ok fold_transition)


lemma remote_perform_keeps:
  assumes "update_ledger json_len remote_retention w aid op disk = (r, disk')"
    and "remembers_delivery i deadline l" "disk = Some l" "keeps_delivery i deadline (aid, op, w)"
  shows "\<exists>l'. disk' = Some l' \<and> remembers_delivery i deadline l'"
    and "presents_delivery i (aid, op, w) \<Longrightarrow> r \<noteq> Inr (ReservedGeneration g)"
proof -
  have "(\<exists>l'. disk' = Some l' \<and> remembers_delivery i deadline l')
    \<and> (presents_delivery i (aid, op, w) \<longrightarrow> r \<noteq> Inr (ReservedGeneration g))"
    using assms(1)
  proof (cases rule: update_ledger_file)
    case (changed l0 l' answer)
    have "l0 = l" using changed(1) assms(3) by (auto simp: load_ledger_def split: if_splits)
    then have "remembers_delivery i deadline l'"
      using changed(2) assms(2,4) by (cases op) (auto simp: result_simps intro: remembers_reserve(1) remembers_transition)
    moreover have "answer \<noteq> ReservedGeneration g" if "presents_delivery i (aid, op, w)"
      using that changed(2) \<open>l0 = l\<close> assms(2,4) by (cases op) (use remembers_reserve(2) in \<open>auto\<close>)
    ultimately show ?thesis using changed(3,5) by auto
  qed (use assms(2,3) in auto)
  then show "\<exists>l'. disk' = Some l' \<and> remembers_delivery i deadline l'"
    and "presents_delivery i (aid, op, w) \<Longrightarrow> r \<noteq> Inr (ReservedGeneration g)" by auto
qed

lemma accepted_remembers_delivery:
  assumes "update_ledger json_len remote_retention w aid op disk = (Inr (ReservedGeneration g), disk')"
    and "presents_delivery i (aid, op, w)" "presented_by deadline (aid, op, w)"
  shows "\<exists>l'. disk' = Some l' \<and> remembers_delivery i deadline l'"
proof -
  from assms(2) obtain now legacy fp where op: "op = ReserveDelivery now legacy fp" "i \<in> set (delivery_ids aid legacy)"
    by (cases op) auto
  from assms(1) obtain l l' where *: "reserve_entries l aid legacy now remote_retention fp = Inr (ReservedGeneration g, l')"
    "disk' = Some l'"
    by (auto simp: op elim: update_ledger_eq_Ok)
  from *(1) show ?thesis
  proof (cases rule: reserve_entries_cases)
    case fresh
    then show ?thesis
      using * op assms(3) by (auto simp: remembers_delivery_def fold_binsert pruned_ledger_def Let_def
          REMOTE_REPLAY_RETENTION_SECONDS_def RELAY_MAX_DEADLINE_SECS_def
          MAX_REMOTE_ENVELOPE_AGE_SECONDS_def MAX_REMOTE_ENVELOPE_FUTURE_SKEW_SECONDS_def)
  qed simp
qed

interpretation rg: replay_guard "remote_perform json_len" "remote_accepts json_len" "presents_delivery i"
  "presented_by deadline" "keeps_delivery i deadline" "\<lambda>disk. \<exists>l. disk = Some l \<and> remembers_delivery i deadline l"
proof (unfold_locales, goal_cases)
  case (1 op s)
  obtain aid o1 w where op: "op = (aid, o1, w)" by (cases op) auto
  obtain r s' where u: "update_ledger json_len remote_retention w aid o1 s = (r, s')" by fastforce
  with 1(3) obtain g where "r = Inr (ReservedGeneration g)"
    by (auto simp: remote_accepts_def op split: sum.splits delivery_reservation.splits)
  with u 1(1,2) show ?case
    by (auto simp: op remote_perform_def dest: accepted_remembers_delivery)
next
  case (2 op s)
  obtain aid o1 w where op: "op = (aid, o1, w)" by (cases op) auto
  obtain r s' where u: "update_ledger json_len remote_retention w aid o1 s = (r, s')" by fastforce
  with 2 show ?case by (auto simp: op remote_perform_def dest: remote_perform_keeps(1))
next
  case (3 op s)
  obtain aid o1 w where op: "op = (aid, o1, w)" by (cases op) auto
  obtain r s' where u: "update_ledger json_len remote_retention w aid o1 s = (r, s')" by fastforce
  with 3 show ?case
    by (auto simp: op remote_accepts_def split: sum.splits delivery_reservation.splits dest: remote_perform_keeps(2))
qed

text \<open>
  A direct delivery is accepted once: after a request under an identifier (its own or its
  legacy one) was reserved, no later request presenting that identifier is reserved, as long as
  the delivery is not released and the clock that requests read stays within the retention of
  the acceptance; completing, refusing and accepting other deliveries in between change nothing.
\<close>

theorem delivery_accepted_once:
  assumes "fst (update_ledger json_len remote_retention w aid (ReserveDelivery now legacy fp) disk) = Ok (ReservedGeneration g)"
    and "i \<in> set (delivery_ids aid legacy)"
    and "\<forall>x\<in>set ops. keeps_delivery i (now + remote_retention) x"
    and "i \<in> set (delivery_ids aid' legacy')" "now' \<le> now + remote_retention"
  shows "fst (update_ledger json_len remote_retention w' aid' (ReserveDelivery now' legacy' fp')
    (fold (remote_perform json_len) ops (snd (update_ledger json_len remote_retention w aid (ReserveDelivery now legacy fp) disk))))
    \<noteq> Ok (ReservedGeneration g')"
proof -
  have "\<not> remote_accepts json_len (aid', ReserveDelivery now' legacy' fp', w')
      (fold (remote_perform json_len) ops (remote_perform json_len (aid, ReserveDelivery now legacy fp, w) disk))"
    by (rule rg.accepted_once [where i = i and deadline = "now + remote_retention"])
      (use assms in \<open>simp_all add: remote_accepts_def\<close>)
  then show ?thesis by (auto simp: remote_accepts_def remote_perform_def)
qed

text \<open>A handoff is the handoff of a reservation, or of a control request that was completed before.\<close>

lemma deliver_guarded_handed:
  assumes "deliver_guarded json_len m authentic control sent_at aid legacy now outcome w1 w2 disk = (True, answer, disk')"
  obtains (reserved) g disk1 where "envelope_fresh sent_at now"
    "update_ledger json_len m w1 aid (ReserveDelivery (now div 10 ^ 9) legacy None) disk = (Inr (ReservedGeneration g), disk1)"
    "disk' = (case outcome of WorkerLost \<Rightarrow> disk1
       | Refused \<Rightarrow> snd (update_ledger json_len m w2 aid (ReleaseDelivery g legacy) disk1)
       | Succeeded \<Rightarrow> snd (update_ledger json_len m w2 aid (CompleteDelivery g legacy) disk1))"
  | (repeated) "envelope_fresh sent_at now" control
    "update_ledger json_len m w1 aid (ReserveDelivery (now div 10 ^ 9) legacy None) disk = (Inr DeliveryCompleted, disk')"
  using assms
  by (auto simp: deliver_guarded_def split: if_splits prod.splits sum.splits delivery_reservation.splits
      handoff_outcome.splits)

lemma num_seconds_lower: "- n \<le> num_seconds d \<Longrightarrow> 0 \<le> n \<Longrightarrow> - (n + 1) * 10 ^ 9 < d"
  by (auto simp: num_seconds_def split: if_splits)

lemma fresh_window:
  assumes "envelope_fresh sent_at now" "envelope_fresh sent_at now'"
  shows "now' div 10 ^ 9 \<le> now div 10 ^ 9 + remote_retention"
proof -
  have "now' - sent_at < 301 * 10 ^ 9" "- (31 * 10 ^ 9) < now - sent_at"
    using assms num_seconds_le [of 300 "now' - sent_at"] num_seconds_lower [of 30 "now - sent_at"]
    by (auto simp: envelope_fresh_def MAX_REMOTE_ENVELOPE_AGE_SECONDS_def MAX_REMOTE_ENVELOPE_FUTURE_SKEW_SECONDS_def)
  then have "now' < now + 332 * 10 ^ 9" by simp
  then have "now' div 10 ^ 9 \<le> (now + 332 * 10 ^ 9) div 10 ^ 9" by (intro zdiv_mono1) auto
  then show ?thesis
    by (simp add: REMOTE_REPLAY_RETENTION_SECONDS_def RELAY_MAX_DEADLINE_SECS_def
        MAX_REMOTE_ENVELOPE_AGE_SECONDS_def MAX_REMOTE_ENVELOPE_FUTURE_SKEW_SECONDS_def)
qed

text \<open>
  C13. A signed envelope is handed off once: when the handler reserved an envelope and handed it off, and
  the worker did not refuse it (it succeeded, or was lost with its effect unknown), the same
  envelope is never reserved again, however often it is resent, whatever other deliveries do to the
  ledger in between, whichever writes of the ledger fail, and even when the completion could not
  be recorded, as long as no request read a clock more than the retention ahead of the acceptance.
  It is handed to the worker again only if it is a task control request whose delivery the ledger
  has as completed.
\<close>

theorem envelope_handed_off_once:
  assumes "deliver_guarded json_len remote_retention authentic control sent_at aid legacy now outcome w1 w2 disk
      = (True, answer, disk')" "outcome \<noteq> Refused"
    and "fst (update_ledger json_len remote_retention w1 aid (ReserveDelivery (now div 10 ^ 9) legacy None) disk) \<noteq> Ok DeliveryCompleted"
    and "\<forall>x\<in>set ops. keeps_delivery aid (now div 10 ^ 9 + remote_retention) x"
    and "deliver_guarded json_len remote_retention authentic' control sent_at aid legacy now' outcome' w1' w2'
      (fold (remote_perform json_len) ops disk') = (handed, answer', disk'')"
  shows "handed \<longrightarrow> control \<and> fst (update_ledger json_len remote_retention w1' aid
      (ReserveDelivery (now' div 10 ^ 9) legacy None) (fold (remote_perform json_len) ops disk')) = Ok DeliveryCompleted"
proof
  assume handed
  with assms(5) have again: "deliver_guarded json_len remote_retention authentic' control sent_at aid
      legacy now' outcome' w1' w2' (fold (remote_perform json_len) ops disk') = (True, answer', disk'')" by simp
  let ?first = "ReserveDelivery (now div 10 ^ 9) legacy None"
  from assms(1) obtain g disk1 where one: "envelope_fresh sent_at now"
    "update_ledger json_len remote_retention w1 aid ?first disk = (Inr (ReservedGeneration g), disk1)"
    "disk' = (case outcome of WorkerLost \<Rightarrow> disk1
       | Refused \<Rightarrow> snd (update_ledger json_len remote_retention w2 aid (ReleaseDelivery g legacy) disk1)
       | Succeeded \<Rightarrow> snd (update_ledger json_len remote_retention w2 aid (CompleteDelivery g legacy) disk1))"
    by (cases rule: deliver_guarded_handed) (use assms(3) in auto)
  define pre where "pre = (case outcome of Succeeded \<Rightarrow> [(aid, CompleteDelivery g legacy, w2)] | _ \<Rightarrow> [])"
  have disk': "disk' = fold (remote_perform json_len) pre (remote_perform json_len (aid, ?first, w1) disk)"
    using one(2,3) assms(2) by (cases outcome) (auto simp: pre_def remote_perform_def)
  have once: "\<not> remote_accepts json_len (aid, ReserveDelivery (now' div 10 ^ 9) legacy None, w1')
      (fold (remote_perform json_len) (pre @ ops) (remote_perform json_len (aid, ?first, w1) disk))"
    if "envelope_fresh sent_at now'"
  proof (rule rg.accepted_once [where i = aid and deadline = "now div 10 ^ 9 + remote_retention"])
    show "\<forall>x\<in>set (pre @ ops). keeps_delivery aid (now div 10 ^ 9 + remote_retention) x"
      using assms(4) by (auto simp: pre_def split: handoff_outcome.splits)
  qed (use one(2) fresh_window [OF one(1) that] in \<open>simp_all add: set_delivery_ids remote_accepts_def\<close>)
  from again show "control \<and> fst (update_ledger json_len remote_retention w1' aid
      (ReserveDelivery (now' div 10 ^ 9) legacy None) (fold (remote_perform json_len) ops disk')) = Ok DeliveryCompleted"
    by (cases rule: deliver_guarded_handed) (use once in \<open>auto simp: disk' remote_accepts_def\<close>)
qed

end
