(* ===== verification/Replay_Witnesses.thy ===== *)
theory Replay_Witnesses
  imports Replay_Laws Remote_Laws Delegation_Witnesses
begin

text \<open>The properties of the two replay ledgers at concrete deliveries.\<close>

section \<open>The relay ledger\<close>

definition demo_digest :: string where "demo_digest = replicate 64 (CHR ''a'')"
definition demo_marker :: string where "demo_marker = replicate 32 (CHR ''b'')"
definition demo_draws :: "string list" where "demo_draws = [replicate 32 (CHR ''c'')]"

definition fresh_dir :: replay_dir where
  "fresh_dir = \<lparr>legacy_len = 0, established = None, database = None\<rparr>"

definition demo_open :: "replay_dir" where
  "demo_open = snd (open_ledger default_replay_limits MIN_RETENTION_SECONDS demo_marker fresh_dir)"

definition demo_handle :: replay_handle where
  "demo_handle = projr (fst (open_ledger default_replay_limits MIN_RETENTION_SECONDS demo_marker fresh_dir))"

definition demo_proof :: replay_request where
  "demo_proof = \<lparr>rq_storage_id = demo_digest, rq_origin = ''o'', rq_tenant = ''t'', rq_project = ''p'',
     rq_fingerprint = demo_digest, rq_signed_expires_at = 5000\<rparr>"

abbreviation demo_reserve :: "int \<Rightarrow> replay_dir \<Rightarrow> reservation replay_result \<times> replay_dir" where
  "demo_reserve \<equiv> reserve demo_handle demo_draws False demo_proof"

lemma demo_reserved: "fst (demo_reserve 1000 demo_open) = Ok (Reserved (hd demo_draws))"
  by code_simp

theorem proof_accepted_once_witness:
  "fst (demo_reserve 900 (fold relay_perform [CompleteRelay demo_handle demo_digest (hd demo_draws),
      ReserveRelay demo_handle demo_draws False (demo_proof\<lparr>rq_storage_id := replicate 64 (CHR ''d'')\<rparr>) 4000]
      (snd (demo_reserve 1000 demo_open)))) \<noteq> Ok (Reserved (hd demo_draws))"
  by (rule proof_accepted_once [OF demo_reserved]) (simp_all add: demo_proof_def MIN_RETENTION_SECONDS_def)

theorem relay_tables_bounded_witness:
  "count_rows (the (database (snd (demo_reserve 1000 demo_open)))) (Some ''o'') \<le> 8192"
proof -
  have init: "reaches (\<lambda>dir. database dir = None) (relay_step default_replay_limits) fresh_dir"
    by (rule reaches_init) (simp add: fresh_dir_def)
  have "relay_step default_replay_limits fresh_dir demo_open"
    unfolding relay_step_def by (rule exI [of _ "OpenRelay default_replay_limits MIN_RETENTION_SECONDS demo_marker"])
      (simp add: demo_open_def)
  moreover have "handle_limits demo_handle = default_replay_limits" by code_simp
  then have "relay_step default_replay_limits demo_open (snd (demo_reserve 1000 demo_open))"
    unfolding relay_step_def by (intro exI [of _ "ReserveRelay demo_handle demo_draws False demo_proof 1000"]) simp
  ultimately have "reaches (\<lambda>dir. database dir = None) (relay_step default_replay_limits) (snd (demo_reserve 1000 demo_open))"
    using init by (blast intro: reaches_step)
  moreover have "database (snd (demo_reserve 1000 demo_open)) \<noteq> None" by code_simp
  ultimately show ?thesis using relay_tables_bounded by fastforce
qed

theorem response_roundtrip_witness:
  "\<exists>dir2. complete_with_response demo_handle demo_digest (hd demo_draws) ''ok'' (snd (demo_reserve 1000 demo_open)) = (Ok (), dir2)
    \<and> completed_response demo_handle demo_proof dir2 = Ok (Some ''ok'')
    \<and> completed_response demo_handle (demo_proof\<lparr>rq_origin := ''x''\<rparr>) dir2 = Ok None"
proof -
  have got: "demo_reserve 1000 demo_open = (Ok (Reserved (hd demo_draws)), snd (demo_reserve 1000 demo_open))"
    using demo_reserved by (metis prod.collapse)
  have inv: "relay_inv default_replay_limits demo_open"
    unfolding demo_open_def by (rule relay_inv_open) (simp add: relay_inv_def fresh_dir_def)
  have draws: "\<forall>d\<in>set demo_draws. validate_lease d = Ok ()" by code_simp
  from response_roundtrip [OF got inv draws, of "''ok''"] obtain dir2 where "complete_with_response demo_handle (rq_storage_id demo_proof) (hd demo_draws) ''ok''
      (snd (demo_reserve 1000 demo_open)) = (Ok (), dir2)"
    "\<forall>q'. validate_replay_request q' = Ok () \<longrightarrow> rq_storage_id q' = rq_storage_id demo_proof \<longrightarrow>
         completed_response demo_handle q' dir2 = Ok (if same_binding demo_proof q' then Some ''ok'' else None)"
    by (auto simp: MAX_RESPONSE_BYTES_def)
  moreover have "validate_replay_request demo_proof = Ok ()" "validate_replay_request (demo_proof\<lparr>rq_origin := ''x''\<rparr>) = Ok ()"
    by code_simp+
  ultimately show ?thesis by (auto simp: same_binding_def demo_proof_def)
qed

theorem replaced_ledger_refused_witness:
  "\<not> relay_accepts (ReserveRelay demo_handle demo_draws False demo_proof 1000) (demo_open\<lparr>database := None\<rparr>)
   \<and> (\<exists>e. open_ledger default_replay_limits MIN_RETENTION_SECONDS demo_marker (demo_open\<lparr>database := None\<rparr>)
        = (Err e, demo_open\<lparr>database := None\<rparr>))"
proof -
  have "\<not> consistent_dir (demo_open\<lparr>database := None\<rparr>)" by code_simp
  from replaced_ledger_refused [OF this] show ?thesis by blast
qed

section \<open>The delivery route\<close>

definition demo_nonce_id :: "string \<Rightarrow> string \<Rightarrow> string \<Rightarrow> string \<Rightarrow> string \<Rightarrow> string" where
  "demo_nonce_id recipient tenant project sender nonce = demo_digest"

abbreviation demo_execute :: "replay_dir \<Rightarrow> delivery_answer \<times> replay_dir" where
  "demo_execute \<equiv> execute_delivery demo_crypto demo_nonce_id demo_fs demo_server (Ok demo_delivering) demo_marker
     demo_draws False demo_instant demo_instant demo_lookup"

lemma demo_executed: "fst (demo_execute fresh_dir) = Executed"
  by code_simp

theorem delivery_executed_once_witness:
  "fst (demo_execute (snd (demo_execute fresh_dir))) \<noteq> Executed"
proof -
  have "demo_execute fresh_dir = (Executed, snd (demo_execute fresh_dir))"
    using demo_executed by (metis prod.collapse)
  from delivery_executed_once [OF this refl refl refl, of "[]"] show ?thesis by simp
qed

section \<open>Direct deliveries\<close>

abbreviation demo_deliver :: "int \<Rightarrow> replay_ledger option \<Rightarrow> bool \<times> deliver_answer \<times> replay_ledger option" where
  "demo_deliver now \<equiv> deliver_guarded (\<lambda>_. 100) remote_retention True False (1000 * 10 ^ 9) ''d1'' None now Succeeded Replaced Replaced"

theorem envelope_handed_off_once_witness:
  "fst (demo_deliver (1001 * 10 ^ 9) None)
   \<and> \<not> fst (demo_deliver (1200 * 10 ^ 9) (snd (snd (demo_deliver (1001 * 10 ^ 9) None))))"
proof -
  have one: "fst (demo_deliver (1001 * 10 ^ 9) None)" by code_simp
  then have "demo_deliver (1001 * 10 ^ 9) None
      = (True, fst (snd (demo_deliver (1001 * 10 ^ 9) None)), snd (snd (demo_deliver (1001 * 10 ^ 9) None)))"
    by (simp add: prod_eq_iff)
  note first = envelope_handed_off_once [OF this, of "[]"]
  obtain handed answer disk where again: "demo_deliver (1200 * 10 ^ 9) (snd (snd (demo_deliver (1001 * 10 ^ 9) None)))
      = (handed, answer, disk)" by (metis prod.collapse)
  have "fst (update_ledger (\<lambda>_. 100) remote_retention Replaced ''d1'' (ReserveDelivery 1001 None None) None) \<noteq> Ok DeliveryCompleted"
    by code_simp
  then have "\<not> handed" using first [of True "1200 * 10 ^ 9" Succeeded Replaced Replaced handed answer disk] again by simp
  then show ?thesis using one again by simp
qed

text \<open>
  The ledger of direct deliveries prunes by the latest clock any request has shown it but does not
  check an envelope against that clock: a reading more than the retention ahead, once it is
  corrected, readmits an envelope that is still fresh. The relay ledger refuses it.
\<close>

theorem clock_jump_readmits:
  "fst (demo_deliver (1001 * 10 ^ 9) None)
   \<and> fst (demo_deliver (1100 * 10 ^ 9)
        (remote_perform (\<lambda>_. 100) (''d2'', ReserveDelivery 100000 None None, Replaced)
          (snd (snd (demo_deliver (1001 * 10 ^ 9) None)))))"
  by code_simp

end
