(* ===== verification/Transport.thy ===== *)
theory Transport
  imports Relay_Record Btree_Map Context_Capsule "HOL-Library.Word"
begin

text \<open>
  The transport envelope (\<open>src/core/a2a_transport.rs\<close>): its canonical signing transcript, the HMAC
  signature, the delivery identity that survives retries, and the relay record it may carry.
  HMAC, SHA-256, the RFC 3339 rendering of an instant and JSON are arguments.
\<close>

unbundle bit_operations_syntax

section \<open>Data\<close>

definition MAX_ENVELOPE_BYTES :: nat where "MAX_ENVELOPE_BYTES = 2000000"

definition SIGNING_DOMAIN :: string where
  "SIGNING_DOMAIN = ''leanctx.a2a.transport.sig.v3'' @ [CHR 0x00]"

definition RELAY_METADATA_KEY :: string where "RELAY_METADATA_KEY = ''leanctx.relay.v1''"
definition LEGACY_DELIVERY_ID_METADATA :: string where "LEGACY_DELIVERY_ID_METADATA = ''legacy_delivery_id''"
definition LEGACY_DELIVERY_SENT_AT_METADATA :: string where
  "LEGACY_DELIVERY_SENT_AT_METADATA = ''legacy_delivery_sent_at''"

record agent_identity =
  id_agent_id :: string
  id_agent_type :: string
  daemon_fingerprint :: string
  capabilities :: "string list"

record transport_envelope =
  format_version :: nat
  sent_at :: int
  env_sender :: agent_identity
  env_recipient :: "string option"
  env_content_type :: transport_content_type
  payload_json :: string
  env_signature :: "string option"
  env_metadata :: "(string, string) btree_map"

definition new_envelope ::
  "agent_identity \<Rightarrow> string option \<Rightarrow> transport_content_type \<Rightarrow> string \<Rightarrow> int \<Rightarrow> transport_envelope" where
  "new_envelope sender recipient kind payload now =
     \<lparr>format_version = 1, sent_at = now, env_sender = sender, env_recipient = recipient, env_content_type = kind,
      payload_json = payload, env_signature = None, env_metadata = bempty\<rparr>"

section \<open>The signing transcript\<close>

fun be_bytes :: "nat \<Rightarrow> nat \<Rightarrow> string" where
  "be_bytes 0 v = []"
| "be_bytes (Suc k) v = be_bytes k (v div 256) @ [char_of (v mod 256)]"

text \<open>What \<open>push_field\<close> and \<open>push_count\<close> append.\<close>

definition push_field :: "string \<Rightarrow> string" where
  "push_field bytes = be_bytes 8 (length bytes) @ bytes"

definition push_count :: "nat \<Rightarrow> string" where
  "push_count n = be_bytes 8 n"

definition canonical_capabilities :: "string list \<Rightarrow> string + string list" where
  "canonical_capabilities caps =
     (if list_ex (\<lambda>c. c = []) caps then Err ''capability must not be empty''
      else let sorted = sort caps
           in if length (remdups_adj sorted) \<noteq> length sorted
              then Err ''duplicate capability in sender identity'' else Ok (remdups_adj sorted))"

fun content_type_str :: "transport_content_type \<Rightarrow> string" where
  "content_type_str HandoffBundle = ''handoff_bundle''"
| "content_type_str ContextPackage = ''context_package''"
| "content_type_str A2AMessage = ''a2a_message''"
| "content_type_str A2ATask = ''a2a_task''"
| "content_type_str EvidenceBundle = ''evidence_bundle''"

definition push_list :: "('a \<Rightarrow> string) \<Rightarrow> 'a list \<Rightarrow> string" where
  "push_list enc xs = push_count (length xs) @ concat (map enc xs)"

fun push_recipient :: "string option \<Rightarrow> string" where
  "push_recipient None = [CHR 0x00]"
| "push_recipient (Some r) = CHR 0x01 # push_field r"

definition push_entry :: "string \<times> string \<Rightarrow> string" where
  "push_entry = (\<lambda>(k, v). push_field k @ push_field v)"

definition signing_transcript :: "(int \<Rightarrow> string) \<Rightarrow> transport_envelope \<Rightarrow> string + string" where
  "signing_transcript rfc3339 e =
     ebind (canonical_capabilities (capabilities (env_sender e))) (\<lambda>caps.
     Ok (SIGNING_DOMAIN @ push_field (be_bytes 4 (format_version e)) @ push_field (id_agent_id (env_sender e))
         @ push_field (id_agent_type (env_sender e)) @ push_field (daemon_fingerprint (env_sender e))
         @ push_list push_field caps @ push_recipient (env_recipient e)
         @ push_field (content_type_str (env_content_type e)) @ push_field (rfc3339 (sent_at e))
         @ push_list push_entry (entries (env_metadata e)) @ push_field (payload_json e)))"

section \<open>Signing\<close>

text \<open>\<open>hex_encode\<close> of \<open>agent_identity.rs\<close> writes two lower-case digits per byte.\<close>

definition hex_encode :: "string \<Rightarrow> string" where
  "hex_encode bytes = concat (map (\<lambda>b. [hex_lower (byte b div 16), hex_lower (byte b mod 16)]) bytes)"

text \<open>A comparison that looks at every byte, whatever the difference.\<close>

definition byte_word :: "char \<Rightarrow> 8 word" where "byte_word c = of_nat (byte c)"

definition constant_time_eq :: "string \<Rightarrow> string \<Rightarrow> bool" where
  "constant_time_eq a b \<longleftrightarrow> length a = length b
     \<and> fold (\<lambda>(x, y) diff. diff OR (byte_word x XOR byte_word y)) (zip a b) 0 = 0"

definition compute_hmac ::
  "(int \<Rightarrow> string) \<Rightarrow> (string \<Rightarrow> string \<Rightarrow> string) \<Rightarrow> transport_envelope \<Rightarrow> string \<Rightarrow> string + string" where
  "compute_hmac rfc3339 hmac e secret = ebind (signing_transcript rfc3339 e) (\<lambda>t. Ok (hmac secret t))"

text \<open>Signing clears the signature first, and leaves it cleared on an error.\<close>

definition sign_envelope ::
  "(int \<Rightarrow> string) \<Rightarrow> (string \<Rightarrow> string \<Rightarrow> string) \<Rightarrow> transport_envelope \<Rightarrow> string
   \<Rightarrow> (string + unit) \<times> transport_envelope" where
  "sign_envelope rfc3339 hmac e secret =
     (let e0 = e\<lparr>env_signature := None\<rparr>
      in case compute_hmac rfc3339 hmac e0 secret of
           Inl err \<Rightarrow> (Err err, e0)
         | Inr mac \<Rightarrow> (Ok (), e0\<lparr>env_signature := Some (hex_encode mac)\<rparr>))"

definition verify_envelope ::
  "(int \<Rightarrow> string) \<Rightarrow> (string \<Rightarrow> string \<Rightarrow> string) \<Rightarrow> transport_envelope \<Rightarrow> string \<Rightarrow> bool" where
  "verify_envelope rfc3339 hmac e secret =
     (case env_signature e of
        None \<Rightarrow> False
      | Some sig \<Rightarrow>
          if sig = [] \<or> odd (length sig) \<or> \<not> list_all is_ascii_hexdigit sig then False
          else (case (hex_decode sig, compute_hmac rfc3339 hmac e secret) of
                  (Some expected, Inr computed) \<Rightarrow> constant_time_eq computed expected
                | _ \<Rightarrow> False))"

section \<open>The relay record of an envelope\<close>

fun relay_error_text :: "relay_error \<Rightarrow> string" where
  "relay_error_text (MaxHopsExceeded n) = ''relay chain exceeded maximum of '' @ show_nat n @ '' hops''"
| "relay_error_text (RelayCycle a) = ''relay cycle detected at agent '' @ a"
| "relay_error_text (RelayMalformed m) = ''malformed relay data: '' @ m"
| "relay_error_text Oversize = ''relay data exceeds its cap''"
| "relay_error_text DeadlineExceeded = ''relay deadline expired''"
| "relay_error_text RouteMismatch = ''relay route mismatch''"
| "relay_error_text ScopeViolation = ''relay scope or classification is not allowed''"
| "relay_error_text (UnknownRoute r) = ''unknown relay route: '' @ r"
| "relay_error_text (AmbiguousRoute r) = ''ambiguous relay route: '' @ r"
| "relay_error_text (InvalidPeer p) = ''invalid relay peer: '' @ p"
| "relay_error_text InvalidRelaySignature = ''invalid relay signature''"
| "relay_error_text InvalidCredential = ''invalid relay credential''"
| "relay_error_text RetryCap = ''relay retry cap exceeded''"

definition envelope_relay_record :: "relay_codec \<Rightarrow> transport_envelope \<Rightarrow> string + relay_record option" where
  "envelope_relay_record cd e =
     (case bget (env_metadata e) RELAY_METADATA_KEY of
        None \<Rightarrow> Ok None
      | Some value \<Rightarrow> ebind (map_err relay_error_text (decode_metadata cd value)) (\<lambda>r. Ok (Some r)))"

definition attach_relay_record ::
  "relay_codec \<Rightarrow> transport_envelope \<Rightarrow> relay_record \<Rightarrow> string + transport_envelope" where
  "attach_relay_record cd e r =
     ebind (map_err relay_error_text (encode_metadata cd r)) (\<lambda>encoded.
     case bget (env_metadata e) RELAY_METADATA_KEY of
       Some existing \<Rightarrow>
         if existing \<noteq> encoded then Err ''relay metadata already contains a different record'' else Ok e
     | None \<Rightarrow> Ok (e\<lparr>env_metadata := binsert RELAY_METADATA_KEY encoded (env_metadata e)\<rparr>))"

text \<open>The identity of a delivery: everything but the instant, the signature and the legacy aliases.\<close>

definition stable_envelope :: "transport_envelope \<Rightarrow> transport_envelope" where
  "stable_envelope e = e\<lparr>sent_at := 0, env_signature := None,
     env_metadata := bremove LEGACY_DELIVERY_SENT_AT_METADATA
       (bremove LEGACY_DELIVERY_ID_METADATA (env_metadata e))\<rparr>"

definition stable_delivery_id ::
  "relay_codec \<Rightarrow> (int \<Rightarrow> string) \<Rightarrow> (string \<Rightarrow> string) \<Rightarrow> transport_envelope \<Rightarrow> string + string" where
  "stable_delivery_id cd rfc3339 sha256 e =
     ebind (envelope_relay_record cd e) (\<lambda>record.
     case record of
       Some r \<Rightarrow> Ok (delivery_id r)
     | None \<Rightarrow> ebind (signing_transcript rfc3339 (stable_envelope e)) (\<lambda>t. Ok (hex_encode (sha256 t))))"

section \<open>The wire form\<close>

definition too_large :: "nat \<Rightarrow> string" where
  "too_large n = ''envelope too large ('' @ show_nat n @ '' bytes, max '' @ show_nat MAX_ENVELOPE_BYTES @ '')''"

definition serialize_envelope ::
  "relay_codec \<Rightarrow> (transport_envelope \<Rightarrow> string) \<Rightarrow> transport_envelope \<Rightarrow> string + string" where
  "serialize_envelope cd show_json e =
     ebind (envelope_relay_record cd e) (\<lambda>_.
     ebind (ensure (\<not> MAX_ENVELOPE_BYTES < length (show_json e)) (too_large (length (show_json e)))) (\<lambda>_.
     Ok (show_json e)))"

definition parse_envelope ::
  "relay_codec \<Rightarrow> (string \<Rightarrow> string + transport_envelope) \<Rightarrow> string \<Rightarrow> string + transport_envelope" where
  "parse_envelope cd read_json json =
     ebind (ensure (\<not> MAX_ENVELOPE_BYTES < length json) (too_large (length json))) (\<lambda>_.
     ebind (read_json json) (\<lambda>e.
     ebind (ensure (format_version e = 1)
              (''unsupported format_version '' @ show_nat (format_version e) @ '' (expected 1)'')) (\<lambda>_.
     ebind (envelope_relay_record cd e) (\<lambda>_. Ok e))))"

end
