(* ===== verification/Dlq.thy ===== *)
theory Dlq
  imports Relay_Record Btree_Map "HOL-Library.Product_Lexorder"
begin

text \<open>
  The dead-letter queue (\<open>src/core/a2a/dlq.rs\<close>): failed deliveries kept for a retry, one file per
  tenant and project. A backend is a vector in memory, a directory of store files, or a reason
  why there is none. The parsers of RFC 3339 and of URLs, the length of the JSON text and BLAKE3
  are arguments. Every operation on a file runs under the lock of its scope, so an operation is
  one step; failures of the file system and the migration of the global store of an earlier
  release are not modelled.
\<close>

section \<open>Data\<close>

definition STORE_VERSION :: nat where "STORE_VERSION = 1"
definition MAX_ENTRIES_PER_SCOPE :: nat where "MAX_ENTRIES_PER_SCOPE = 1000"
definition MAX_STORE_BYTES :: nat where "MAX_STORE_BYTES = 8 * 1024 * 1024"
definition MAX_MESSAGE_BYTES :: nat where "MAX_MESSAGE_BYTES = 2 * 1024 * 1024"
definition MAX_IDENTIFIER_BYTES :: nat where "MAX_IDENTIFIER_BYTES = 512"
definition MAX_ERROR_BYTES :: nat where "MAX_ERROR_BYTES = 64 * 1024"

datatype dead_letter_delivery = LocalAgentBus | RemoteHttp string

record dlq_scope =
  dlq_tenant_id :: string
  dlq_project_id :: string

record dead_letter =
  dl_id :: string
  dl_peer_id :: string
  dl_delivery_id :: string
  dl_tenant_id :: string
  dl_project_id :: string
  dl_delivery :: dead_letter_delivery
  original_message :: string
  target_agent :: string
  dl_error :: string
  dl_attempts :: nat
  first_failed_at :: string
  last_failed_at :: string

record durable_dlq =
  dlq_version :: nat
  dlq_entries :: "dead_letter list"

text \<open>A store file: its length and what its JSON text denotes, when it denotes a store.\<close>

record dlq_file =
  file_len :: nat
  file_store :: "durable_dlq option"

datatype queue_backend =
    MemoryQueue "dead_letter list"
  | DurableQueue "(string, dlq_file) btree_map"
  | UnavailableQueue string

record dlq_env =
  parse_rfc3339 :: "string \<Rightarrow> int option"
  dlq_parse_url :: "string \<Rightarrow> parsed_url option"
  store_json_len :: "dead_letter list \<Rightarrow> nat"
  blake3_hex :: "string \<Rightarrow> string"

definition default_dlq :: durable_dlq where
  "default_dlq = \<lparr>dlq_version = STORE_VERSION, dlq_entries = []\<rparr>"

section \<open>Validation\<close>

definition validate_dlq_identifier :: "string \<Rightarrow> string \<Rightarrow> string + unit" where
  "validate_dlq_identifier label value =
     ensure (\<not> (is_blank value \<or> MAX_IDENTIFIER_BYTES < length value \<or> CHR 0x00 \<in> set value)) (''invalid '' @ label)"

definition validate_dlq_scope :: "dlq_scope \<Rightarrow> string + unit" where
  "validate_dlq_scope s =
     ebind (validate_dlq_identifier ''tenant_id'' (dlq_tenant_id s)) (\<lambda>_.
     validate_dlq_identifier ''project_id'' (dlq_project_id s))"

definition new_dlq_scope :: "string \<Rightarrow> string \<Rightarrow> string + dlq_scope" where
  "new_dlq_scope tenant project =
     (let s = \<lparr>dlq_tenant_id = tenant, dlq_project_id = project\<rparr>
      in ebind (validate_dlq_scope s) (\<lambda>_. Ok s))"

definition letter_url_ok :: "dlq_env \<Rightarrow> string \<Rightarrow> string + unit" where
  "letter_url_ok env url =
     ebind (ok_or (dlq_parse_url env url) ''invalid dead letter endpoint_url'') (\<lambda>u.
     ensure (\<not> (\<not> (url_scheme u = ''http'' \<or> url_scheme u = ''https'') \<or> url_host u = None
                 \<or> url_username u \<noteq> [] \<or> url_password u \<noteq> None))
       ''dead letter endpoint_url must be absolute HTTP(S)'')"

definition validate_letter :: "dlq_env \<Rightarrow> dead_letter \<Rightarrow> string + unit" where
  "validate_letter env l =
     ebind (validate_dlq_identifier ''id'' (dl_id l)) (\<lambda>_.
     ebind (validate_dlq_identifier ''peer_id'' (dl_peer_id l)) (\<lambda>_.
     ebind (validate_dlq_identifier ''delivery_id'' (dl_delivery_id l)) (\<lambda>_.
     ebind (new_dlq_scope (dl_tenant_id l) (dl_project_id l)) (\<lambda>_.
     ebind (validate_dlq_identifier ''target_agent'' (target_agent l)) (\<lambda>_.
     ebind (ensure (\<not> (original_message l = [] \<or> MAX_MESSAGE_BYTES < length (original_message l)))
              ''dead letter message must be non-empty and bounded'') (\<lambda>_.
     ebind (ensure (\<not> (dl_error l = [] \<or> MAX_ERROR_BYTES < length (dl_error l)))
              ''dead letter error must be non-empty and bounded'') (\<lambda>_.
     ebind (ensure (dl_attempts l \<noteq> 0) ''dead letter attempts must be greater than zero'') (\<lambda>_.
     ebind (ok_or (parse_rfc3339 env (first_failed_at l)) ''invalid first_failed_at'') (\<lambda>first.
     ebind (ok_or (parse_rfc3339 env (last_failed_at l)) ''invalid last_failed_at'') (\<lambda>last.
     ebind (ensure (\<not> last < first) ''last_failed_at must not precede first_failed_at'') (\<lambda>_.
     case dl_delivery l of
       RemoteHttp url \<Rightarrow> letter_url_ok env url
     | LocalAgentBus \<Rightarrow> Ok ())))))))))))"

section \<open>Store files\<close>

definition scope_store_path :: "dlq_env \<Rightarrow> dlq_scope \<Rightarrow> string" where
  "scope_store_path env s = blake3_hex env (dlq_tenant_id s @ CHR 0x00 # dlq_project_id s)"

definition in_scope :: "dlq_scope \<Rightarrow> dead_letter \<Rightarrow> bool" where
  "in_scope s l \<longleftrightarrow> dl_tenant_id l = dlq_tenant_id s \<and> dl_project_id l = dlq_project_id s"

text \<open>Entries written before peers had names are given the compatibility identity.\<close>

definition upgrade_letter :: "dead_letter \<Rightarrow> dead_letter" where
  "upgrade_letter l =
     (let l1 = (if dl_peer_id l = [] then l\<lparr>dl_peer_id := ''legacy''\<rparr> else l)
      in if dl_delivery_id l1 = [] then l1\<lparr>dl_delivery_id := dl_id l1\<rparr> else l1)"

fun load_letters :: "dlq_env \<Rightarrow> dlq_scope option \<Rightarrow> dead_letter list \<Rightarrow> string + dead_letter list" where
  "load_letters env expected [] = Ok []"
| "load_letters env expected (l # ls) =
     ebind (validate_letter env (upgrade_letter l)) (\<lambda>_.
     ebind (ensure (case expected of None \<Rightarrow> True | Some s \<Rightarrow> in_scope s (upgrade_letter l))
              ''DLQ scope store contains an entry from another scope'') (\<lambda>_.
     ebind (load_letters env expected ls) (\<lambda>rest. Ok (upgrade_letter l # rest))))"

definition load_store :: "dlq_env \<Rightarrow> dlq_file option \<Rightarrow> dlq_scope option \<Rightarrow> string + durable_dlq" where
  "load_store env f expected =
     (case f of
        None \<Rightarrow> Ok default_dlq
      | Some f \<Rightarrow>
          ebind (ensure (\<not> MAX_STORE_BYTES < file_len f) ''DLQ store exceeds size limit'') (\<lambda>_.
          ebind (ok_or (file_store f) ''invalid DLQ store'') (\<lambda>st.
          ebind (ensure (\<not> (dlq_version st \<noteq> STORE_VERSION \<or> MAX_ENTRIES_PER_SCOPE < length (dlq_entries st)))
                   ''invalid DLQ store bounds or version'') (\<lambda>_.
          ebind (load_letters env expected (dlq_entries st)) (\<lambda>es. Ok (st\<lparr>dlq_entries := es\<rparr>))))))"

definition save_store :: "dlq_env \<Rightarrow> durable_dlq \<Rightarrow> string + dlq_file" where
  "save_store env st =
     ebind (ensure (\<not> MAX_STORE_BYTES < store_json_len env (dlq_entries st)) ''DLQ store exceeds size limit'') (\<lambda>_.
     Ok \<lparr>file_len = store_json_len env (dlq_entries st), file_store = Some st\<rparr>)"

definition store_error :: "string \<Rightarrow> string" where
  "store_error e = ''dead letter store unavailable: '' @ e"

text \<open>
  Every file of the directory; the entries of a file must belong to the scope its name is derived
  from.
\<close>

fun load_all_scope_entries :: "dlq_env \<Rightarrow> (string \<times> dlq_file) list \<Rightarrow> string + dead_letter list" where
  "load_all_scope_entries env [] = Ok []"
| "load_all_scope_entries env ((name, f) # fs) =
     ebind (load_store env (Some f) None) (\<lambda>st.
     ebind (case dlq_entries st of
              [] \<Rightarrow> Ok ()
            | l # _ \<Rightarrow>
                ebind (new_dlq_scope (dl_tenant_id l) (dl_project_id l)) (\<lambda>s.
                ensure (\<not> (scope_store_path env s \<noteq> name \<or> list_ex (\<lambda>e. \<not> in_scope s e) (dlq_entries st)))
                  ''DLQ scope store identity does not match its contents'')) (\<lambda>_.
     ebind (load_all_scope_entries env fs) (\<lambda>rest. Ok (dlq_entries st @ rest))))"

text \<open>
  \<open>with_entries\<close>: the operation works on the vector itself in memory, so what it did before an
  error stays; on a file it works on a copy that is written back after it succeeded.
\<close>

definition with_entries ::
  "dlq_env \<Rightarrow> dlq_scope option \<Rightarrow> bool \<Rightarrow> (dead_letter list \<Rightarrow> (string + 'r) \<times> dead_letter list)
   \<Rightarrow> queue_backend \<Rightarrow> (string + 'r) \<times> queue_backend" where
  "with_entries env scope mutating operation q =
     (case q of
        MemoryQueue es \<Rightarrow> (case operation es of (r, es') \<Rightarrow> (r, MemoryQueue es'))
      | DurableQueue files \<Rightarrow>
          (case scope of
             Some s \<Rightarrow>
               (case load_store env (bget files (scope_store_path env s)) (Some s) of
                  Inl e \<Rightarrow> (Err (store_error e), q)
                | Inr st \<Rightarrow>
                    (case operation (dlq_entries st) of
                       (Inl e, es) \<Rightarrow> (Err e, q)
                     | (Inr r, es) \<Rightarrow>
                         if \<not> mutating then (Ok r, q)
                         else (case save_store env (st\<lparr>dlq_entries := es\<rparr>) of
                                 Inl e \<Rightarrow> (Err (store_error e), q)
                               | Inr f \<Rightarrow> (Ok r, DurableQueue (binsert (scope_store_path env s) f files)))))
           | None \<Rightarrow>
               if mutating then (Err ''unscoped durable DLQ mutation is forbidden'', q)
               else (case load_all_scope_entries env (entries files) of
                       Inl e \<Rightarrow> (Err (store_error e), q)
                     | Inr es \<Rightarrow> (fst (operation es), q)))
      | UnavailableQueue e \<Rightarrow> (Err (store_error e), q))"

section \<open>Operations\<close>

definition same_delivery :: "dead_letter \<Rightarrow> dead_letter \<Rightarrow> bool" where
  "same_delivery a b \<longleftrightarrow> dl_peer_id a = dl_peer_id b \<and> dl_delivery_id a = dl_delivery_id b
     \<and> dl_tenant_id a = dl_tenant_id b \<and> dl_project_id a = dl_project_id b"

fun update_first :: "('a \<Rightarrow> bool) \<Rightarrow> ('a \<Rightarrow> 'a) \<Rightarrow> 'a list \<Rightarrow> 'a list" where
  "update_first P f [] = []"
| "update_first P f (x # xs) = (if P x then f x # xs else x # update_first P f xs)"

fun remove_first :: "('a \<Rightarrow> bool) \<Rightarrow> 'a list \<Rightarrow> 'a list" where
  "remove_first P [] = []"
| "remove_first P (x # xs) = (if P x then xs else x # remove_first P xs)"

text \<open>The oldest letters make room until the text fits; a single letter that does not fit is an error.\<close>

fun evict_oldest :: "dlq_env \<Rightarrow> dead_letter list \<Rightarrow> (string + unit) \<times> dead_letter list" where
  "evict_oldest env [] = (Ok (), [])"
| "evict_oldest env (l # ls) =
     (if store_json_len env (l # ls) \<le> MAX_STORE_BYTES then (Ok (), l # ls)
      else if ls = [] then (Err ''dead letter exceeds per-scope store size limit'', l # ls)
      else evict_oldest env ls)"

definition failed_again :: "dead_letter \<Rightarrow> dead_letter \<Rightarrow> dead_letter" where
  "failed_again letter e =
     e\<lparr>dl_error := dl_error letter, dl_attempts := max (dl_attempts e) (dl_attempts letter),
       last_failed_at := last_failed_at letter\<rparr>"

definition enqueue_entries :: "dlq_env \<Rightarrow> dead_letter \<Rightarrow> dead_letter list \<Rightarrow> (string + unit) \<times> dead_letter list" where
  "enqueue_entries env letter es =
     (if list_ex (\<lambda>e. same_delivery e letter) es
      then (Ok (), update_first (\<lambda>e. same_delivery e letter) (failed_again letter) es)
      else
        let same_scope = (\<lambda>e. dl_tenant_id e = dl_tenant_id letter \<and> dl_project_id e = dl_project_id letter);
            es1 = (if MAX_ENTRIES_PER_SCOPE \<le> length (filter same_scope es) then remove_first same_scope es else es)
        in evict_oldest env (es1 @ [letter]))"

definition enqueue_letter :: "dlq_env \<Rightarrow> dead_letter \<Rightarrow> queue_backend \<Rightarrow> (string + unit) \<times> queue_backend" where
  "enqueue_letter env letter q =
     (case ebind (validate_letter env letter) (\<lambda>_. new_dlq_scope (dl_tenant_id letter) (dl_project_id letter)) of
        Inl e \<Rightarrow> (Err e, q)
      | Inr s \<Rightarrow> with_entries env (Some s) True (enqueue_entries env letter) q)"

definition dequeue_letter ::
  "dlq_env \<Rightarrow> dlq_scope \<Rightarrow> string \<Rightarrow> queue_backend \<Rightarrow> (string + dead_letter option) \<times> queue_backend" where
  "dequeue_letter env s i q =
     (case ebind (validate_dlq_scope s) (\<lambda>_. validate_dlq_identifier ''id'' i) of
        Inl e \<Rightarrow> (Err e, q)
      | Inr _ \<Rightarrow> with_entries env (Some s) True
          (\<lambda>es. (Ok (find (\<lambda>l. dl_id l = i \<and> in_scope s l) es), remove_first (\<lambda>l. dl_id l = i \<and> in_scope s l) es)) q)"

definition peek_letters :: "dlq_env \<Rightarrow> dlq_scope \<Rightarrow> queue_backend \<Rightarrow> string + dead_letter list" where
  "peek_letters env s q =
     ebind (validate_dlq_scope s) (\<lambda>_.
     fst (with_entries env (Some s) False (\<lambda>es. (Ok (filter (in_scope s) es), es)) q))"

definition get_letter :: "dlq_env \<Rightarrow> dlq_scope \<Rightarrow> string \<Rightarrow> queue_backend \<Rightarrow> string + dead_letter option" where
  "get_letter env s i q =
     ebind (validate_dlq_scope s) (\<lambda>_.
     ebind (validate_dlq_identifier ''id'' i) (\<lambda>_.
     fst (with_entries env (Some s) False (\<lambda>es. (Ok (find (\<lambda>l. dl_id l = i \<and> in_scope s l) es), es)) q)))"

text \<open>
  A retry on the local bus; \<open>resend\<close> posts the message, \<open>now\<close> is the text of the current instant.
  The position is sought by the identifier alone, and attempts saturate at 255.
\<close>

definition retry_entries ::
  "(dead_letter \<Rightarrow> string + unit) \<Rightarrow> string \<Rightarrow> string \<Rightarrow> dead_letter list
   \<Rightarrow> (string + string option) \<times> dead_letter list" where
  "retry_entries resend now i es =
     (case find (\<lambda>l. dl_id l = i) es of
        None \<Rightarrow> (Err (''dead letter not found: '' @ i), es)
      | Some l \<Rightarrow>
          if dl_delivery l \<noteq> LocalAgentBus
          then (Err ''remote dead letters require the configured authenticated transport'', es)
          else (case resend l of
                  Inr _ \<Rightarrow> (Ok None, remove_first (\<lambda>l. dl_id l = i) es)
                | Inl e \<Rightarrow> (Ok (Some e),
                    update_first (\<lambda>l. dl_id l = i)
                      (\<lambda>l. l\<lparr>dl_attempts := saturating_add u8_max (dl_attempts l) 1, last_failed_at := now\<rparr>) es)))"

definition retry_letter ::
  "dlq_env \<Rightarrow> (dead_letter \<Rightarrow> string + unit) \<Rightarrow> string \<Rightarrow> dlq_scope \<Rightarrow> string \<Rightarrow> queue_backend
   \<Rightarrow> (string + unit) \<times> queue_backend" where
  "retry_letter env resend now s i q =
     (case ebind (validate_dlq_scope s) (\<lambda>_. validate_dlq_identifier ''id'' i) of
        Inl e \<Rightarrow> (Err e, q)
      | Inr _ \<Rightarrow>
          (case with_entries env (Some s) True (retry_entries resend now i) q of
             (Inl e, q') \<Rightarrow> (Err e, q')
           | (Inr None, q') \<Rightarrow> (Ok (), q')
           | (Inr (Some e), q') \<Rightarrow> (Err e, q')))"

definition ensure_writable :: "dlq_env \<Rightarrow> dlq_scope \<Rightarrow> queue_backend \<Rightarrow> string + unit" where
  "ensure_writable env s q =
     ebind (validate_dlq_scope s) (\<lambda>_.
     case q of
       MemoryQueue es \<Rightarrow> Ok ()
     | DurableQueue files \<Rightarrow>
         ebind (map_err store_error (load_store env (bget files (scope_store_path env s)) (Some s))) (\<lambda>_. Ok ())
     | UnavailableQueue e \<Rightarrow> Err (store_error e))"

record dlq_stats =
  stats_total :: nat
  max_scope_depth :: nat
  oldest_age_seconds :: int
  by_target_agent :: "(string, nat) btree_map"

definition count_key :: "'k::linorder \<Rightarrow> ('k, nat) btree_map \<Rightarrow> ('k, nat) btree_map" where
  "count_key k m = binsert k (case bget m k of None \<Rightarrow> 1 | Some n \<Rightarrow> n + 1) m"

text \<open>A negative age is not a \<open>u64\<close> and counts as none; an instant that does not parse is skipped.\<close>

definition letter_age :: "dlq_env \<Rightarrow> int \<Rightarrow> dead_letter \<Rightarrow> int" where
  "letter_age env now l =
     (case parse_rfc3339 env (first_failed_at l) of
        None \<Rightarrow> 0
      | Some t \<Rightarrow> if num_seconds (now - t) < 0 then 0 else num_seconds (now - t))"

definition stats_entries :: "dlq_env \<Rightarrow> int \<Rightarrow> dlq_scope option \<Rightarrow> dead_letter list \<Rightarrow> dlq_stats" where
  "stats_entries env now scope es =
     (let counted = filter (\<lambda>l. case scope of None \<Rightarrow> True | Some s \<Rightarrow> in_scope s l) es
      in \<lparr>stats_total = length counted,
          max_scope_depth = fold max (bvalues (fold (\<lambda>l. count_key (dl_tenant_id l, dl_project_id l)) counted bempty)) 0,
          oldest_age_seconds = fold max (map (letter_age env now) counted) 0,
          by_target_agent = fold (\<lambda>l. count_key (target_agent l)) counted bempty\<rparr>)"

definition queue_stats :: "dlq_env \<Rightarrow> int \<Rightarrow> dlq_scope option \<Rightarrow> queue_backend \<Rightarrow> string + dlq_stats" where
  "queue_stats env now scope q =
     ebind (case scope of None \<Rightarrow> Ok () | Some s \<Rightarrow> validate_dlq_scope s) (\<lambda>_.
     fst (with_entries env scope False (\<lambda>es. (Ok (stats_entries env now scope es), es)) q))"

end
