(* ===== verification/Remote_Transport.thy ===== *)
theory Remote_Transport
  imports Transport Dlq
begin

text \<open>
  The sending side of remote deliveries (\<open>src/core/a2a/remote_transport.rs\<close>): the configuration in
  its two modes, the delivery of an envelope to a configured peer with a bounded number of
  attempts, what is kept as a dead letter, and the retry of a dead letter. The network is the
  answer to each attempt; the clock, JSON, URLs, UTF-8 and cryptography are arguments; the text
  that a URL parser gives for its errors is left out of the messages.
\<close>

section \<open>Data\<close>

definition DEFAULT_MAX_PAYLOAD_BYTES :: nat where "DEFAULT_MAX_PAYLOAD_BYTES = 2000000"
definition MAX_ERROR_BODY_BYTES :: nat where "MAX_ERROR_BODY_BYTES = 64 * 1024"
definition MAX_TASK_RESPONSE_BYTES :: nat where "MAX_TASK_RESPONSE_BYTES = 64 * 1024"

record remote_transport_config =
  tc_endpoint_url :: string
  tc_timeout :: nat
  tc_max_payload_bytes :: nat
  tc_auth_token :: "string option"
  tc_signing_key :: "string option"
  tc_recipient_id :: "string option"
  tc_tenant_id :: "string option"
  tc_project_id :: "string option"
  tc_retry_count :: nat
  tc_retry_delay :: nat
  tc_peer_id :: "string option"
  tc_local_peer_id :: "string option"
  tc_peers :: "relay_peer_config list"
  tc_allow_loopback_http :: bool

definition default_transport_config :: remote_transport_config where
  "default_transport_config =
     \<lparr>tc_endpoint_url = [], tc_timeout = 30 * 10 ^ 9, tc_max_payload_bytes = DEFAULT_MAX_PAYLOAD_BYTES,
      tc_auth_token = None, tc_signing_key = None, tc_recipient_id = None, tc_tenant_id = None,
      tc_project_id = None, tc_retry_count = 2, tc_retry_delay = 10 ^ 9, tc_peer_id = None,
      tc_local_peer_id = None, tc_peers = [], tc_allow_loopback_http = False\<rparr>"

datatype transport_error =
    PayloadTooLarge nat
  | TransportTimeout
  | RemoteError nat string
  | SerializationError string
  | Exhausted nat
  | DeadLetterFailure string

record delivery_receipt =
  receipt_envelope_id :: string
  delivered_at :: int
  remote_status :: nat
  round_trip_ms :: nat
  unverified_task_response :: "string option"

text \<open>An answer of the network: a response with its stream of chunks (one may fail), or an error.\<close>

record http_reply =
  reply_status :: nat
  reply_content_length :: "nat option"
  reply_chunks :: "string option list"

datatype attempt_answer = Answered http_reply | TimedOut | SendFailed

record transport_env =
  te_crypto :: relay_crypto
  te_codec :: relay_codec
  te_rfc3339 :: "int \<Rightarrow> string"
  te_json :: "transport_envelope \<Rightarrow> string"
  te_read_json :: "string \<Rightarrow> string + transport_envelope"
  te_parse_url :: "string \<Rightarrow> parsed_url option"
  te_loopback_ip :: "string \<Rightarrow> bool"
  te_utf8_ok :: "string \<Rightarrow> bool"
  te_lossy :: "string \<Rightarrow> string"
  te_dlq :: dlq_env

section \<open>Configuration\<close>

definition unset :: "string option \<Rightarrow> bool" where
  "unset v \<longleftrightarrow> (case v of None \<Rightarrow> True | Some s \<Rightarrow> s = [])"

definition validate_peer_mode :: "transport_env \<Rightarrow> remote_transport_config \<Rightarrow> string + unit" where
  "validate_peer_mode te c =
     ebind (ensure (\<not> ((case tc_local_peer_id c of None \<Rightarrow> True | Some i \<Rightarrow> i = [] \<or> RELAY_MAX_ID_BYTES < length i)
                        \<or> tc_peers c = [] \<or> RELAY_MAX_PAYLOAD_BYTES < tc_max_payload_bytes c))
              ''peer transport requires a bounded local identity, peer table and payload limit'') (\<lambda>_.
     ebind (ensure (\<not> (tc_endpoint_url c \<noteq> []
                        \<or> list_ex (\<lambda>v. v \<noteq> None) [tc_auth_token c, tc_signing_key c, tc_recipient_id c, tc_tenant_id c,
                             tc_project_id c, tc_peer_id c]
                        \<or> tc_retry_count c \<noteq> 0 \<or> tc_retry_delay c \<noteq> 0))
              ''peer transport must not contain singleton authority or retry policy'') (\<lambda>_.
     let t = \<lparr>table_schema_version = RELAY_PEER_TABLE_VERSION, table_peers = tc_peers c\<rparr>
     in ebind (map_err relay_error_text
                 (validate_peer_table (te_crypto te) (te_parse_url te) (te_loopback_ip te) (tc_allow_loopback_http c) t)) (\<lambda>_.
        map_err relay_error_text (reject_shared_relay_secret t))))"

text \<open>\<open>is_loopback_host\<close> of this module also accepts an address in brackets.\<close>

definition loopback_endpoint :: "transport_env \<Rightarrow> parsed_url \<Rightarrow> bool" where
  "loopback_endpoint te u =
     (case url_host u of
        None \<Rightarrow> False
      | Some host \<Rightarrow>
          let ip_host = (if starts_with ''['' host \<and> 2 \<le> length host \<and> last host = CHR '']'' then butlast (tl host) else host)
          in ascii_lower host = ''localhost'' \<or> te_loopback_ip te ip_host)"

definition validate_transport_config :: "transport_env \<Rightarrow> remote_transport_config \<Rightarrow> string + unit" where
  "validate_transport_config te c =
     ebind (ensure (\<not> (tc_timeout c = 0 \<or> tc_max_payload_bytes c = 0)) ''transport bounds must be greater than zero'') (\<lambda>_.
     ebind (ensure (\<not> (RELAY_MAX_RETRIES < tc_retry_count c \<or> RELAY_MAX_RETRY_DELAY_MS < tc_retry_delay c div 10 ^ 6))
              ''retry policy exceeds bounded relay caps'') (\<lambda>_.
     if tc_local_peer_id c \<noteq> None \<or> tc_peers c \<noteq> [] then validate_peer_mode te c
     else
       ebind (ensure (tc_peer_id c = None) ''singleton transport must not contain a peer_id'') (\<lambda>_.
       ebind (ok_or (te_parse_url te (tc_endpoint_url c)) ''invalid endpoint_url'') (\<lambda>u.
       ebind (ensure ((url_scheme u = ''http'' \<or> url_scheme u = ''https'') \<and> url_host u \<noteq> None)
                ''endpoint_url must be an absolute HTTP(S) URL'') (\<lambda>_.
       ebind (ensure (\<not> (url_username u \<noteq> [] \<or> url_password u \<noteq> None)) ''endpoint_url must not contain credentials'') (\<lambda>_.
       ebind (ensure (\<not> (url_scheme u = ''http'' \<and> \<not> loopback_endpoint te u))
                ''endpoint_url must use HTTPS except for loopback hosts'') (\<lambda>_.
       ebind (ensure (\<not> unset (tc_auth_token c)) ''auth_token is required for remote A2A delivery'') (\<lambda>_.
       ebind (ensure (\<not> unset (tc_signing_key c)) ''signing_key is required for remote A2A delivery'') (\<lambda>_.
       ebind (ensure (tc_auth_token c \<noteq> tc_signing_key c) ''signing_key must be distinct from auth_token'') (\<lambda>_.
       ebind (ensure (\<not> unset (tc_recipient_id c)) ''recipient_id is required for remote A2A delivery'') (\<lambda>_.
       ebind (ensure (\<not> unset (tc_tenant_id c)) ''tenant_id is required for remote A2A delivery'') (\<lambda>_.
       ensure (\<not> unset (tc_project_id c)) ''project_id is required for remote A2A delivery''))))))))))))"

definition for_peer_table ::
  "transport_env \<Rightarrow> relay_peer_table \<Rightarrow> string \<Rightarrow> nat \<Rightarrow> bool \<Rightarrow> string + remote_transport_config" where
  "for_peer_table te t local timeout allow_loopback_http =
     ebind (map_err relay_error_text
              (validate_peer_table (te_crypto te) (te_parse_url te) (te_loopback_ip te) allow_loopback_http t)) (\<lambda>_.
     let c = default_transport_config\<lparr>tc_timeout := timeout, tc_max_payload_bytes := RELAY_MAX_PAYLOAD_BYTES,
               tc_retry_count := 0, tc_retry_delay := 0, tc_local_peer_id := Some local, tc_peers := table_peers t,
               tc_allow_loopback_http := allow_loopback_http\<rparr>
     in ebind (validate_transport_config te c) (\<lambda>_. Ok c))"

section \<open>Attempts\<close>

definition is_success :: "nat \<Rightarrow> bool" where "is_success status \<longleftrightarrow> 200 \<le> status \<and> status < 300"
definition is_server_error :: "nat \<Rightarrow> bool" where "is_server_error status \<longleftrightarrow> 500 \<le> status \<and> status < 600"

fun read_error_chunks :: "string \<Rightarrow> string option list \<Rightarrow> string" where
  "read_error_chunks body [] = body"
| "read_error_chunks body (None # cs) = body"
| "read_error_chunks body (Some c # cs) =
     (let body' = body @ take (min (length c) (MAX_ERROR_BODY_BYTES - length body)) c
      in if length body' = MAX_ERROR_BODY_BYTES then body' else read_error_chunks body' cs)"

definition read_error_body :: "transport_env \<Rightarrow> http_reply \<Rightarrow> string" where
  "read_error_body te r = te_lossy te (read_error_chunks [] (reply_chunks r))"

fun read_response_chunks :: "string \<Rightarrow> string option list \<Rightarrow> string option" where
  "read_response_chunks bytes [] = Some bytes"
| "read_response_chunks bytes (None # cs) = None"
| "read_response_chunks bytes (Some c # cs) =
     (if MAX_TASK_RESPONSE_BYTES - length bytes < length c then None else read_response_chunks (bytes @ c) cs)"

definition read_task_response ::
  "transport_env \<Rightarrow> http_reply \<Rightarrow> transport_content_type \<Rightarrow> transport_error + string option" where
  "read_task_response te r kind =
     (let invalid = SerializationError ''invalid or oversized task response''
      in if kind \<noteq> A2ATask then Ok None
         else
           ebind (ensure (case reply_content_length r of None \<Rightarrow> True | Some n \<Rightarrow> \<not> MAX_TASK_RESPONSE_BYTES < n) invalid) (\<lambda>_.
           ebind (ok_or (read_response_chunks [] (reply_chunks r)) invalid) (\<lambda>bytes.
           ebind (ensure (bytes \<noteq> [] \<and> te_utf8_ok te bytes) invalid) (\<lambda>_. Ok (Some bytes)))))"

text \<open>
  The loop over \<open>0..=retries\<close>; \<open>GivenUp\<close> carries the failure and the attempts of its dead letter. The
  statement after the loop is the branch without a further attempt.
\<close>

datatype post_outcome = Acknowledged http_reply | GivenUp transport_error nat | FellThrough transport_error

fun post_attempts :: "transport_env \<Rightarrow> (nat \<Rightarrow> attempt_answer) \<Rightarrow> nat \<Rightarrow> nat list \<Rightarrow> post_outcome" where
  "post_attempts te net retries [] = FellThrough (Exhausted retries)"
| "post_attempts te net retries (a # rest) =
     (case net a of
        Answered r \<Rightarrow>
          if is_success (reply_status r) then Acknowledged r
          else if is_server_error (reply_status r) then
            if a = retries then GivenUp (Exhausted retries) (saturating_add u8_max a 1)
            else post_attempts te net retries rest
          else GivenUp (RemoteError (reply_status r) (read_error_body te r)) (saturating_add u8_max a 1)
      | TimedOut \<Rightarrow>
          if retries = 0 then GivenUp TransportTimeout (saturating_add u8_max a 1)
          else if a = retries then GivenUp (Exhausted retries) (saturating_add u8_max a 1)
          else post_attempts te net retries rest
      | SendFailed \<Rightarrow>
          if a = retries then GivenUp (Exhausted retries) (saturating_add u8_max a 1)
          else post_attempts te net retries rest)"

section \<open>Dead letters\<close>

fun transport_error_text :: "transport_error \<Rightarrow> string" where
  "transport_error_text (PayloadTooLarge n) = ''payload too large: '' @ show_nat n @ '' bytes''"
| "transport_error_text TransportTimeout = ''transport timed out''"
| "transport_error_text (RemoteError status body) = ''remote returned HTTP '' @ show_nat status @ '': '' @ body"
| "transport_error_text (SerializationError e) = ''serialization failed: '' @ e"
| "transport_error_text (Exhausted n) = ''delivery exhausted after '' @ show_nat n @ '' retries''"
| "transport_error_text (DeadLetterFailure e) = ''delivery failed and could not be persisted to DLQ: '' @ e"

text \<open>\<open>is_char_boundary\<close>: the start, the end, or a byte that does not continue a character.\<close>

definition is_char_boundary :: "string \<Rightarrow> nat \<Rightarrow> bool" where
  "is_char_boundary s i \<longleftrightarrow> i = 0 \<or> i = length s \<or> i < length s \<and> \<not> (128 \<le> byte (s ! i) \<and> byte (s ! i) < 192)"

fun floor_char_boundary :: "string \<Rightarrow> nat \<Rightarrow> nat" where
  "floor_char_boundary s 0 = 0"
| "floor_char_boundary s (Suc i) = (if is_char_boundary s (Suc i) then Suc i else floor_char_boundary s i)"

definition truncate_error :: "string \<Rightarrow> string" where
  "truncate_error e = (if MAX_ERROR_BYTES < length e then take (floor_char_boundary e MAX_ERROR_BYTES) e else e)"

definition envelope_id :: "transport_env \<Rightarrow> string \<Rightarrow> string" where
  "envelope_id te body = ''envelope:'' @ blake3_hex (te_dlq te) body"

text \<open>
  The letter of a permanent failure. The scope falls back to the configured one; that it is
  there is what \<open>expect\<close> asserts in the source (the letter of a record always has a scope).
\<close>

definition failure_letter ::
  "transport_env \<Rightarrow> transport_envelope \<Rightarrow> string \<Rightarrow> transport_error \<Rightarrow> nat \<Rightarrow> remote_transport_config \<Rightarrow> string \<Rightarrow> string
   \<Rightarrow> int \<Rightarrow> dead_letter" where
  "failure_letter te e body failure attempts c peer url now =
     (let record = (case envelope_relay_record (te_codec te) e of Inr r \<Rightarrow> r | Inl _ \<Rightarrow> None);
          failed_at = te_rfc3339 te now
      in \<lparr>dl_id = envelope_id te body, dl_peer_id = peer,
          dl_delivery_id = (case record of
             Some r \<Rightarrow> delivery_id r
           | None \<Rightarrow> (case stable_delivery_id (te_codec te) (te_rfc3339 te) (rc_sha256 (te_crypto te)) e of
                        Inr i \<Rightarrow> i | Inl _ \<Rightarrow> envelope_id te body)),
          dl_tenant_id = (case record of Some r \<Rightarrow> rec_tenant_id r | None \<Rightarrow> the (tc_tenant_id c)),
          dl_project_id = (case record of Some r \<Rightarrow> rec_project_id r | None \<Rightarrow> the (tc_project_id c)),
          dl_delivery = RemoteHttp url, original_message = te_lossy te body,
          target_agent = (case env_recipient e of Some r \<Rightarrow> r | None \<Rightarrow> url),
          dl_error = truncate_error (transport_error_text failure), dl_attempts = attempts,
          first_failed_at = failed_at, last_failed_at = failed_at\<rparr>)"

definition record_failure_for_peer ::
  "transport_env \<Rightarrow> transport_envelope \<Rightarrow> string \<Rightarrow> transport_error \<Rightarrow> nat \<Rightarrow> remote_transport_config \<Rightarrow> string \<Rightarrow> string
   \<Rightarrow> int \<Rightarrow> queue_backend \<Rightarrow> transport_error \<times> queue_backend" where
  "record_failure_for_peer te e body failure attempts c peer url now q =
     (case enqueue_letter (te_dlq te) (failure_letter te e body failure attempts c peer url now) q of
        (Inr _, q') \<Rightarrow> (failure, q')
      | (Inl error, q') \<Rightarrow>
          (DeadLetterFailure (transport_error_text failure @ ''; invalid OCLA request: '' @ error), q'))"

definition record_failure ::
  "transport_env \<Rightarrow> transport_envelope \<Rightarrow> string \<Rightarrow> transport_error \<Rightarrow> nat \<Rightarrow> remote_transport_config
   \<Rightarrow> int \<Rightarrow> queue_backend \<Rightarrow> transport_error \<times> queue_backend" where
  "record_failure te e body failure attempts c now q =
     record_failure_for_peer te e body failure attempts c (case tc_peer_id c of None \<Rightarrow> ''legacy'' | Some p \<Rightarrow> p)
       (tc_endpoint_url c) now q"

definition ensure_dlq_scope :: "transport_env \<Rightarrow> string \<Rightarrow> string \<Rightarrow> queue_backend \<Rightarrow> transport_error + unit" where
  "ensure_dlq_scope te tenant project q =
     map_err (\<lambda>e. DeadLetterFailure (''invalid OCLA request: '' @ e))
       (ebind (new_dlq_scope tenant project) (\<lambda>s. ensure_writable (te_dlq te) s q))"

section \<open>Delivery\<close>

definition serialize_and_validate ::
  "transport_env \<Rightarrow> transport_envelope \<Rightarrow> nat \<Rightarrow> transport_error + string" where
  "serialize_and_validate te e limit =
     ebind (ensure (\<not> limit < length (te_json te e)) (PayloadTooLarge (length (te_json te e)))) (\<lambda>_. Ok (te_json te e))"

text \<open>
  \<open>deliver_to\<close> up to the first attempt: the peer, the envelope as it is signed for the channel of
  that peer, and the text that is posted.
\<close>

definition prepare_peer_delivery ::
  "transport_env \<Rightarrow> remote_transport_config \<Rightarrow> string \<Rightarrow> int \<Rightarrow> transport_envelope
   \<Rightarrow> transport_error + (relay_peer_config \<times> relay_record \<times> transport_envelope \<times> string)" where
  "prepare_peer_delivery te c pid now e =
     ebind (map_err SerializationError (validate_transport_config te c)) (\<lambda>_.
     ebind (ensure (tc_local_peer_id c \<noteq> None) (SerializationError ''explicit peer delivery requires peer transport'')) (\<lambda>_.
     ebind (ok_or (find (\<lambda>p. peer_id p = pid) (tc_peers c)) (SerializationError (''unknown relay peer: '' @ pid))) (\<lambda>peer.
     ebind (map_err SerializationError (envelope_relay_record (te_codec te) e)) (\<lambda>found.
     ebind (ok_or found (SerializationError ''relay record is required for peer delivery'')) (\<lambda>r.
     ebind (map_err (\<lambda>err. SerializationError (relay_error_text err))
              (validate_relay_at r now (current_peer r) (Some (peer_id peer)) (cfg_max_hops peer))) (\<lambda>_.
     ebind (map_err (\<lambda>err. SerializationError (relay_error_text err))
              (verify_hop (te_crypto te) r (channel_key peer))) (\<lambda>_.
     ebind (ensure (\<not> (\<not> peer_allows peer r (length (payload_json e))
                \<or> env_content_type e \<noteq> rec_content_type r
                \<or> id_agent_id (env_sender e) \<noteq> current_peer r
                \<or> tc_local_peer_id c \<noteq> Some (current_peer r)
                \<or> bget (env_metadata e) ''tenant_id'' \<noteq> Some (rec_tenant_id r)
                \<or> bget (env_metadata e) ''project_id'' \<noteq> Some (rec_project_id r)
                \<or> verify_payload (te_crypto te) r (payload_json e) \<noteq> Ok ()))
              (SerializationError ''peer policy denied relay scope'')) (\<lambda>_.
     ebind (ensure (env_recipient e = Some (final_recipient r))
              (SerializationError ''envelope recipient does not match signed final recipient'')) (\<lambda>_.
     ebind (map_err SerializationError (attach_relay_record (te_codec te) e r)) (\<lambda>attached.
     case sign_envelope (te_rfc3339 te) (rc_hmac (te_crypto te)) (attached\<lparr>env_signature := None\<rparr>) (channel_key peer) of
       (Inl err, sealed) \<Rightarrow> Err (SerializationError err)
     | (Inr _, sealed) \<Rightarrow>
         ebind (serialize_and_validate te sealed (max_payload_bytes peer)) (\<lambda>body.
         ebind (ok_or (te_parse_url te (endpoint_url peer)) (SerializationError ''invalid peer endpoint_url'')) (\<lambda>_.
         Ok (peer, r, sealed, body)))))))))))))"

text \<open>
  The rest: nothing is posted unless a failure could be recorded, an acknowledged delivery is
  never recorded as a failure, and every other end of the loop is recorded once.
\<close>

definition deliver_to ::
  "transport_env \<Rightarrow> (nat \<Rightarrow> attempt_answer) \<Rightarrow> remote_transport_config \<Rightarrow> string \<Rightarrow> int \<Rightarrow> int \<Rightarrow> nat \<Rightarrow> transport_envelope
   \<Rightarrow> queue_backend \<Rightarrow> (transport_error + delivery_receipt) \<times> queue_backend" where
  "deliver_to te net c pid now ended elapsed e q =
     (case ebind (prepare_peer_delivery te c pid now e) (\<lambda>(peer, r, sealed, body).
           ebind (ensure_dlq_scope te (rec_tenant_id r) (rec_project_id r) q) (\<lambda>_. Ok (peer, r, sealed, body))) of
        Inl err \<Rightarrow> (Err err, q)
      | Inr (peer, r, sealed, body) \<Rightarrow>
          (case post_attempts te net (retry_count peer) [0..<Suc (retry_count peer)] of
             Acknowledged reply \<Rightarrow>
               (case read_task_response te reply (env_content_type sealed) of
                  Inl err \<Rightarrow> (Err err, q)
                | Inr task \<Rightarrow>
                    (Ok \<lparr>receipt_envelope_id = delivery_id r, delivered_at = ended, remote_status = reply_status reply,
                         round_trip_ms = elapsed, unverified_task_response = task\<rparr>, q))
           | GivenUp failure attempts \<Rightarrow>
               (case record_failure_for_peer te sealed body failure attempts c (peer_id peer) (endpoint_url peer) ended q of
                  (err, q') \<Rightarrow> (Err err, q'))
           | FellThrough err \<Rightarrow> (Err err, q)))"

text \<open>\<open>deliver\<close>: the same for the single configured recipient, whose scope is stamped on the envelope.\<close>

definition prepare_delivery ::
  "transport_env \<Rightarrow> remote_transport_config \<Rightarrow> queue_backend \<Rightarrow> transport_envelope
   \<Rightarrow> transport_error + (transport_envelope \<times> string)" where
  "prepare_delivery te c q e =
     ebind (map_err SerializationError (validate_transport_config te c)) (\<lambda>_.
     ebind (ensure (tc_local_peer_id c = None) (SerializationError ''peer transport requires explicit peer delivery'')) (\<lambda>_.
     ebind (ensure_dlq_scope te (the (tc_tenant_id c)) (the (tc_project_id c)) q) (\<lambda>_.
     ebind (ensure (env_recipient e = tc_recipient_id c)
              (SerializationError ''envelope recipient does not match configured remote recipient'')) (\<lambda>_.
     let scoped = e\<lparr>env_metadata := binsert ''project_id'' (the (tc_project_id c))
                      (binsert ''tenant_id'' (the (tc_tenant_id c)) (env_metadata e))\<rparr>
     in case sign_envelope (te_rfc3339 te) (rc_hmac (te_crypto te)) scoped (the (tc_signing_key c)) of
          (Inl err, sealed) \<Rightarrow> Err (SerializationError err)
        | (Inr _, sealed) \<Rightarrow>
            ebind (serialize_and_validate te sealed (tc_max_payload_bytes c)) (\<lambda>body. Ok (sealed, body))))))"

definition deliver ::
  "transport_env \<Rightarrow> (nat \<Rightarrow> attempt_answer) \<Rightarrow> remote_transport_config \<Rightarrow> int \<Rightarrow> nat \<Rightarrow> transport_envelope
   \<Rightarrow> queue_backend \<Rightarrow> (transport_error + delivery_receipt) \<times> queue_backend" where
  "deliver te net c ended elapsed e q =
     (case prepare_delivery te c q e of
        Inl err \<Rightarrow> (Err err, q)
      | Inr (sealed, body) \<Rightarrow>
          (case post_attempts te net (tc_retry_count c) [0..<Suc (tc_retry_count c)] of
             Acknowledged reply \<Rightarrow>
               (case read_task_response te reply (env_content_type sealed) of
                  Inl err \<Rightarrow> (Err err, q)
                | Inr task \<Rightarrow>
                    (Ok \<lparr>receipt_envelope_id = envelope_id te body, delivered_at = ended, remote_status = reply_status reply,
                         round_trip_ms = elapsed, unverified_task_response = task\<rparr>, q))
           | GivenUp failure attempts \<Rightarrow>
               (case record_failure te sealed body failure attempts c ended q of (err, q') \<Rightarrow> (Err err, q'))
           | FellThrough err \<Rightarrow> (Err err, q)))"

section \<open>Retrying a dead letter\<close>

text \<open>
  A letter of a peer goes back to that peer; a letter of the single recipient keeps its first
  signature and instant as the aliases under which the receiver knows it.
\<close>

definition peer_letter_envelope ::
  "transport_env \<Rightarrow> remote_transport_config \<Rightarrow> int \<Rightarrow> dead_letter \<Rightarrow> transport_error + transport_envelope" where
  "peer_letter_envelope te c now l =
     ebind (map_err SerializationError (te_read_json te (original_message l))) (\<lambda>e.
     ebind (map_err SerializationError (envelope_relay_record (te_codec te) e)) (\<lambda>found.
     ebind (ok_or found (SerializationError ''peer dead letter is missing relay record'')) (\<lambda>r.
     ebind (ensure (delivery_id r = dl_delivery_id l)
              (SerializationError ''dead letter delivery ID does not match relay record'')) (\<lambda>_.
     ebind (ensure (rec_tenant_id r = dl_tenant_id l \<and> rec_project_id r = dl_project_id l)
              (SerializationError ''dead letter scope does not match relay record'')) (\<lambda>_.
     ebind (ok_or (find (\<lambda>p. peer_id p = dl_peer_id l) (tc_peers c))
              (SerializationError ''dead letter peer is not configured'')) (\<lambda>peer.
     ebind (case dl_delivery l of
              LocalAgentBus \<Rightarrow> Err (SerializationError ''dead letter is not remote'')
            | RemoteHttp url \<Rightarrow>
                ensure (endpoint_url peer = url) (SerializationError ''dead letter endpoint does not match peer'')) (\<lambda>_.
     Ok (e\<lparr>sent_at := now, env_signature := None\<rparr>))))))))"

definition legacy_letter_envelope ::
  "transport_env \<Rightarrow> remote_transport_config \<Rightarrow> int \<Rightarrow> dead_letter \<Rightarrow> transport_error + transport_envelope" where
  "legacy_letter_envelope te c now l =
     ebind (ensure (tc_tenant_id c = Some (dl_tenant_id l) \<and> tc_project_id c = Some (dl_project_id l))
              (SerializationError ''dead letter scope does not match configured remote transport'')) (\<lambda>_.
     ebind (case dl_delivery l of
              LocalAgentBus \<Rightarrow> Err (SerializationError ''dead letter is not a remote delivery'')
            | RemoteHttp url \<Rightarrow> ensure (url = tc_endpoint_url c)
                (SerializationError ''dead letter endpoint does not match configured remote transport'')) (\<lambda>_.
     ebind (map_err SerializationError (te_read_json te (original_message l))) (\<lambda>e.
     let aliased =
           (case (bget (env_metadata e) LEGACY_DELIVERY_ID_METADATA, env_signature e) of
              (None, Some sig) \<Rightarrow>
                e\<lparr>env_metadata := binsert LEGACY_DELIVERY_SENT_AT_METADATA (te_rfc3339 te (sent_at e))
                     (binsert LEGACY_DELIVERY_ID_METADATA (ascii_lower sig) (env_metadata e))\<rparr>
            | _ \<Rightarrow> e)
     in Ok (aliased\<lparr>sent_at := now, env_signature := None\<rparr>))))"

definition retry_dead_letter ::
  "transport_env \<Rightarrow> (nat \<Rightarrow> attempt_answer) \<Rightarrow> remote_transport_config \<Rightarrow> int \<Rightarrow> int \<Rightarrow> int \<Rightarrow> nat \<Rightarrow> dead_letter
   \<Rightarrow> queue_backend \<Rightarrow> (transport_error + delivery_receipt) \<times> queue_backend" where
  "retry_dead_letter te net c now now' ended elapsed l q =
     (if dl_peer_id l \<noteq> ''legacy'' then
        (case peer_letter_envelope te c now l of
           Inl err \<Rightarrow> (Err err, q)
         | Inr e \<Rightarrow> deliver_to te net c (dl_peer_id l) now' ended elapsed e q)
      else
        (case legacy_letter_envelope te c now l of
           Inl err \<Rightarrow> (Err err, q)
         | Inr e \<Rightarrow> deliver te net c ended elapsed e q))"

end
