(* ===== verification/Relay_Rate.thy ===== *)
theory Relay_Rate
  imports Btree_Map
begin

text \<open>
  The quotas of the relay receiver (\<open>crates/lean-ctx/src/http_server/relay_rate.rs\<close>): a token bucket
  per configured peer, one for the tenant and one for the project, debited together or not at
  all. Instants are nanoseconds of the monotonic clock, credit is kept in billionths of a request,
  and the saturating \<open>u128\<close> operations have their bound written out. What the laws show: no
  sequence of requests exceeds burst plus rate, the retry hint is exact, and a refusal changes
  nothing.
\<close>

section \<open>Buckets\<close>

definition CREDIT_SCALE :: nat where "CREDIT_SCALE = 1000000000"
definition MAX_PEERS :: nat where "MAX_PEERS = 32"
definition MAX_ID_BYTES :: nat where "MAX_ID_BYTES = 128"
definition MAX_RATE :: nat where "MAX_RATE = 100000"
definition u128_max :: nat where "u128_max = 2 ^ 128 - 1"

record relay_quota =
  requests_per_second :: nat
  quota_burst :: nat

record relay_quota_config =
  peer_quota :: relay_quota
  tenant_quota :: relay_quota
  project_quota :: relay_quota

definition default_quota_config :: relay_quota_config where
  "default_quota_config =
     \<lparr>peer_quota = \<lparr>requests_per_second = 20, quota_burst = 40\<rparr>,
      tenant_quota = \<lparr>requests_per_second = 40, quota_burst = 80\<rparr>,
      project_quota = \<lparr>requests_per_second = 30, quota_burst = 60\<rparr>\<rparr>"

definition valid_quota :: "relay_quota \<Rightarrow> bool" where
  "valid_quota q \<longleftrightarrow> 1 \<le> requests_per_second q \<and> requests_per_second q \<le> MAX_RATE
     \<and> 1 \<le> quota_burst q \<and> quota_burst q \<le> MAX_RATE"

definition validate_quota_config :: "relay_quota_config \<Rightarrow> string + unit" where
  "validate_quota_config c =
     ensure (list_all valid_quota [peer_quota c, tenant_quota c, project_quota c])
       ''relay quota rates and bursts must be between 1 and 100000''"

record bucket =
  bucket_quota :: relay_quota
  credit :: nat
  last_refill :: nat

definition new_bucket :: "relay_quota \<Rightarrow> nat \<Rightarrow> bucket" where
  "new_bucket q now = \<lparr>bucket_quota = q, credit = quota_burst q * CREDIT_SCALE, last_refill = now\<rparr>"

definition refill :: "bucket \<Rightarrow> nat \<Rightarrow> bucket" where
  "refill b now =
     (let added = min u128_max ((now - last_refill b) * requests_per_second (bucket_quota b))
      in b\<lparr>credit := min (min u128_max (credit b + added)) (quota_burst (bucket_quota b) * CREDIT_SCALE),
           last_refill := max (last_refill b) now\<rparr>)"

definition div_ceil :: "nat \<Rightarrow> nat \<Rightarrow> nat" where
  "div_ceil a b = (if a mod b > 0 then a div b + 1 else a div b)"

definition retry_after :: "bucket \<Rightarrow> nat" where
  "retry_after b = min (div_ceil (CREDIT_SCALE - credit b) (requests_per_second (bucket_quota b))) CREDIT_SCALE"

text \<open>The subtraction is a plain one; \<open>check_at\<close> only consumes where the credit covers it.\<close>

definition consume :: "bucket \<Rightarrow> bucket" where
  "consume b = b\<lparr>credit := credit b - CREDIT_SCALE\<rparr>"

section \<open>The receiver\<close>

datatype quota_rejection = UnknownPeer | WrongQuotaScope | Limited nat

record relay_quota_state =
  peer_buckets :: "(string, bucket) btree_map"
  quota_tenant_id :: string
  quota_project_id :: string
  tenant_bucket :: bucket
  project_bucket :: bucket

definition valid_quota_id :: "string \<Rightarrow> bool" where
  "valid_quota_id i \<longleftrightarrow> i \<noteq> [] \<and> length i \<le> MAX_ID_BYTES"

definition new_quota_state ::
  "relay_quota_config \<Rightarrow> string list \<Rightarrow> string \<Rightarrow> string \<Rightarrow> nat \<Rightarrow> string + relay_quota_state" where
  "new_quota_state config ps tenant project now =
     ebind (validate_quota_config config) (\<lambda>_.
     ebind (ensure (ps \<noteq> [] \<and> length ps \<le> MAX_PEERS \<and> valid_quota_id tenant \<and> valid_quota_id project
              \<and> list_all valid_quota_id ps)
              ''relay quota requires bounded configured peer and scope identities'') (\<lambda>_.
     let buckets = fold (\<lambda>p. binsert p (new_bucket (peer_quota config) now)) ps bempty
     in ebind (ensure (blen buckets = length ps) ''relay quota peer identities must be unique'') (\<lambda>_.
        Ok \<lparr>peer_buckets = buckets, quota_tenant_id = tenant, quota_project_id = project,
            tenant_bucket = new_bucket (tenant_quota config) now,
            project_bucket = new_bucket (project_quota config) now\<rparr>)))"

definition longest_wait :: "bucket list \<Rightarrow> nat" where
  "longest_wait bs = fold max (map retry_after bs) 0"

definition check_at ::
  "relay_quota_state \<Rightarrow> string \<Rightarrow> string \<Rightarrow> string \<Rightarrow> string \<Rightarrow> nat \<Rightarrow> quota_rejection + relay_quota_state" where
  "check_at s current_peer origin_peer tenant project now =
     ebind (ensure (tenant = quota_tenant_id s \<and> project = quota_project_id s) WrongQuotaScope) (\<lambda>_.
     ebind (ok_or (bget (peer_buckets s) current_peer) UnknownPeer) (\<lambda>c0.
     ebind (ok_or (bget (peer_buckets s) origin_peer) UnknownPeer) (\<lambda>o0.
     let c = refill c0 now; o' = refill o0 now; t = refill (tenant_bucket s) now; p = refill (project_bucket s) now;
         wait = longest_wait [c, o', t, p]
     in if wait \<noteq> 0 then Err (Limited wait)
        else
          let b1 = binsert current_peer (consume c) (peer_buckets s);
              b2 = (if origin_peer \<noteq> current_peer then binsert origin_peer (consume o') b1 else b1)
          in Ok (s\<lparr>peer_buckets := b2, tenant_bucket := consume t, project_bucket := consume p\<rparr>))))"

text \<open>The seconds of the \<open>Retry-After\<close> header: rounded up, at least one.\<close>

definition retry_after_header :: "nat \<Rightarrow> nat" where
  "retry_after_header nanos = max 1 (nanos div 10 ^ 9 + (if nanos mod 10 ^ 9 > 0 then 1 else 0))"

section \<open>The retry hint is exact\<close>

lemma div_ceil_le_iff:
  assumes "0 < b"
  shows "div_ceil a b \<le> n \<longleftrightarrow> a \<le> n * b"
proof (cases "a mod b = 0")
  case True
  then have "a = a div b * b" by (simp add: mod_0_imp_dvd)
  then have "a \<le> n * b \<longleftrightarrow> a div b \<le> n" using assms by (metis mult_le_cancel2)
  then show ?thesis using True by (simp add: div_ceil_def)
next
  case False
  then have "a \<noteq> n * b" by auto
  then have "a \<le> n * b \<longleftrightarrow> a div b < n" using assms by (simp add: div_less_iff_less_mult le_less)
  then show ?thesis using False by (simp add: div_ceil_def Suc_le_eq)
qed

definition bucket_ok :: "bucket \<Rightarrow> bool" where
  "bucket_ok b \<longleftrightarrow> valid_quota (bucket_quota b) \<and> credit b \<le> quota_burst (bucket_quota b) * CREDIT_SCALE"

lemma capacity_small: "valid_quota q \<Longrightarrow> quota_burst q * CREDIT_SCALE \<le> u128_max"
  by (auto simp: valid_quota_def MAX_RATE_def CREDIT_SCALE_def u128_max_def)

lemma capacity_one: "valid_quota q \<Longrightarrow> CREDIT_SCALE \<le> quota_burst q * CREDIT_SCALE"
  by (auto simp: valid_quota_def MAX_RATE_def CREDIT_SCALE_def u128_max_def)

lemma refill_fields [simp]:
  "bucket_quota (refill b now) = bucket_quota b" "last_refill (refill b now) = max (last_refill b) now"
  by (simp_all add: refill_def Let_def)

lemma credit_refill:
  "bucket_ok b \<Longrightarrow> credit (refill b now) =
     min (quota_burst (bucket_quota b) * CREDIT_SCALE)
       (credit b + (now - last_refill b) * requests_per_second (bucket_quota b))"
  using capacity_small [of "bucket_quota b"] by (auto simp: refill_def Let_def bucket_ok_def)

lemma bucket_ok_refill: "bucket_ok b \<Longrightarrow> bucket_ok (refill b now)"
  by (simp add: bucket_ok_def refill_def Let_def)

lemma retry_after_le:
  assumes "bucket_ok b"
  shows "retry_after b \<le> d \<longleftrightarrow> CREDIT_SCALE \<le> credit b + d * requests_per_second (bucket_quota b)"
proof -
  have r: "0 < requests_per_second (bucket_quota b)" using assms by (simp add: bucket_ok_def valid_quota_def)
  then have "div_ceil (CREDIT_SCALE - credit b) (requests_per_second (bucket_quota b)) \<le> CREDIT_SCALE"
    by (simp add: div_ceil_le_iff) (metis diff_le_self le_trans mult_le_mono2 mult.right_neutral One_nat_def Suc_leI)
  then show ?thesis using r by (simp add: retry_after_def div_ceil_le_iff min_absorb1 le_diff_conv add.commute)
qed

lemma retry_after_zero: "bucket_ok b \<Longrightarrow> retry_after b = 0 \<longleftrightarrow> CREDIT_SCALE \<le> credit b"
  using retry_after_le [of b 0] by simp

text \<open>A bucket that is short now has its next request at exactly the hint, not a nanosecond earlier.\<close>

lemma refill_ready_iff:
  assumes "bucket_ok b" "last_refill b \<le> now" "now \<le> later"
  shows "retry_after (refill b later) = 0 \<longleftrightarrow> retry_after (refill b now) \<le> later - now"
proof -
  define cap rate where "cap = quota_burst (bucket_quota b) * CREDIT_SCALE" and "rate = requests_per_second (bucket_quota b)"
  have cap: "CREDIT_SCALE \<le> cap" using assms(1) by (simp add: bucket_ok_def capacity_one cap_def)
  have later: "(later - last_refill b) * rate = (now - last_refill b) * rate + (later - now) * rate"
    using assms(2,3) by (simp flip: add_mult_distrib)
  note c = credit_refill [OF assms(1), folded cap_def rate_def]
  have "retry_after (refill b later) = 0 \<longleftrightarrow> CREDIT_SCALE \<le> credit b + (later - last_refill b) * rate"
    using cap by (simp add: retry_after_zero bucket_ok_refill [OF assms(1)] c)
  moreover have "retry_after (refill b now) \<le> later - now \<longleftrightarrow>
      CREDIT_SCALE \<le> min cap (credit b + (now - last_refill b) * rate) + (later - now) * rate"
    by (simp add: retry_after_le bucket_ok_refill [OF assms(1)] c flip: rate_def)
  ultimately show ?thesis using cap later by linarith
qed

definition quota_ok :: "relay_quota_state \<Rightarrow> bool" where
  "quota_ok s \<longleftrightarrow> (\<forall>p b. bget (peer_buckets s) p = Some b \<longrightarrow> bucket_ok b)
     \<and> bucket_ok (tenant_bucket s) \<and> bucket_ok (project_bucket s)"

text \<open>No bucket of the receiver has been used at a later instant.\<close>

definition quota_clock_before :: "relay_quota_state \<Rightarrow> nat \<Rightarrow> bool" where
  "quota_clock_before s now \<longleftrightarrow> (\<forall>p b. bget (peer_buckets s) p = Some b \<longrightarrow> last_refill b \<le> now)
     \<and> last_refill (tenant_bucket s) \<le> now \<and> last_refill (project_bucket s) \<le> now"

lemma longest_wait_le: "longest_wait bs \<le> n \<longleftrightarrow> (\<forall>b\<in>set bs. retry_after b \<le> n)"
proof -
  have "fold max xs a \<le> n \<longleftrightarrow> a \<le> n \<and> (\<forall>x\<in>set xs. x \<le> n)" for xs and a :: nat
    by (induction xs arbitrary: a) auto
  then show ?thesis by (simp add: longest_wait_def)
qed

lemma longest_wait_zero: "longest_wait bs = 0 \<longleftrightarrow> (\<forall>b\<in>set bs. retry_after b = 0)"
  using longest_wait_le [of bs 0] by simp

lemma check_at_eq_Ok:
  "check_at s cur org tenant project now = Inr s' \<longleftrightarrow>
     tenant = quota_tenant_id s \<and> project = quota_project_id s \<and>
     (\<exists>c0 o0. bget (peer_buckets s) cur = Some c0 \<and> bget (peer_buckets s) org = Some o0
       \<and> retry_after (refill c0 now) = 0 \<and> retry_after (refill o0 now) = 0
       \<and> retry_after (refill (tenant_bucket s) now) = 0 \<and> retry_after (refill (project_bucket s) now) = 0
       \<and> s' = s\<lparr>peer_buckets := (let b1 = binsert cur (consume (refill c0 now)) (peer_buckets s)
                  in if org \<noteq> cur then binsert org (consume (refill o0 now)) b1 else b1),
                tenant_bucket := consume (refill (tenant_bucket s) now),
                project_bucket := consume (refill (project_bucket s) now)\<rparr>)"
proof (cases "bget (peer_buckets s) cur"; cases "bget (peer_buckets s) org")
  fix c0 o0 assume "bget (peer_buckets s) cur = Some c0" "bget (peer_buckets s) org = Some o0"
  then show ?thesis
    by (auto simp: check_at_def result_simps Let_def longest_wait_zero split: if_splits simp del: neq0_conv)
qed (simp_all add: check_at_def result_simps)

text \<open>
  The retry hint of a rate-limited relay request is exact: while no other request is admitted,
  the same request is admitted at an instant exactly when the hinted time has passed.
\<close>

theorem retry_hint_exact:
  assumes "quota_ok s" "quota_clock_before s now"
    and "check_at s cur org tenant project now = Err (Limited wait)" "now \<le> later"
  shows "(\<exists>s'. check_at s cur org tenant project later = Ok s') \<longleftrightarrow> now + wait \<le> later"
proof -
  from assms(3) obtain c0 o0 where found: "tenant = quota_tenant_id s" "project = quota_project_id s"
    "bget (peer_buckets s) cur = Some c0" "bget (peer_buckets s) org = Some o0"
    and wait: "wait = longest_wait [refill c0 now, refill o0 now, refill (tenant_bucket s) now,
      refill (project_bucket s) now]"
    by (auto simp: check_at_def ebind_eq_Err ok_or_eq_Err ok_or_eq_Ok ensure_def Let_def split: if_splits)
  have ready: "retry_after (refill b later) = 0 \<longleftrightarrow> retry_after (refill b now) \<le> later - now"
    if "b \<in> {c0, o0, tenant_bucket s, project_bucket s}" for b
    using that assms(1,2,4) found by (intro refill_ready_iff) (auto simp: quota_ok_def quota_clock_before_def)
  have "(\<exists>s'. check_at s cur org tenant project later = Ok s') \<longleftrightarrow> wait \<le> later - now"
    using found ready by (auto simp: check_at_eq_Ok wait longest_wait_le)
  then show ?thesis using assms(4) by auto
qed


section \<open>No more than burst plus rate\<close>

record quota_request =
  rq_current :: string
  rq_origin_peer :: string
  rq_quota_tenant :: string
  rq_quota_project :: string
  rq_at :: nat

text \<open>The requests of a sequence that the receiver admits.\<close>

fun quota_admitted :: "relay_quota_state \<Rightarrow> quota_request list \<Rightarrow> quota_request list" where
  "quota_admitted s [] = []"
| "quota_admitted s (r # rs) =
     (case check_at s (rq_current r) (rq_origin_peer r) (rq_quota_tenant r) (rq_quota_project r) (rq_at r) of
        Inl e \<Rightarrow> quota_admitted s rs
      | Inr s' \<Rightarrow> r # quota_admitted s' rs)"

definition charges :: "string \<Rightarrow> quota_request \<Rightarrow> bool" where
  "charges p r \<longleftrightarrow> rq_current r = p \<or> rq_origin_peer r = p"

text \<open>What a bucket can still pay until an instant.\<close>

definition purse :: "nat \<Rightarrow> bucket \<Rightarrow> nat" where
  "purse until b = credit b + (until - last_refill b) * requests_per_second (bucket_quota b)"

lemma bucket_ok_consume: "bucket_ok b \<Longrightarrow> bucket_ok (consume b)"
  by (auto simp: bucket_ok_def consume_def)

lemma purse_consume:
  assumes "bucket_ok b" "retry_after (refill b now) = 0" "now \<le> until"
  shows "CREDIT_SCALE + purse until (consume (refill b now)) \<le> purse until b"
proof -
  define rate where "rate = requests_per_second (bucket_quota b)"
  have paid: "CREDIT_SCALE \<le> credit (refill b now)"
    using assms(1,2) by (simp add: retry_after_zero bucket_ok_refill)
  have "credit (refill b now) \<le> credit b + (now - last_refill b) * rate"
    using assms(1) by (simp add: credit_refill rate_def)
  moreover have "(now - last_refill b) * rate + (until - max (last_refill b) now) * rate = (until - last_refill b) * rate"
    using assms(3) by (simp add: max_def flip: add_mult_distrib)
  ultimately show ?thesis using paid by (simp add: purse_def consume_def flip: rate_def)
qed

lemma check_at_buckets:
  assumes "check_at s cur org tenant project now = Inr s'" "quota_ok s" "now \<le> until"
  shows "quota_ok s'"
    and "CREDIT_SCALE + purse until (tenant_bucket s') \<le> purse until (tenant_bucket s)"
    and "CREDIT_SCALE + purse until (project_bucket s') \<le> purse until (project_bucket s)"
    and "bget (peer_buckets s) p = Some b \<Longrightarrow> \<exists>b'. bget (peer_buckets s') p = Some b'
       \<and> (if p = cur \<or> p = org then CREDIT_SCALE else 0) + purse until b' \<le> purse until b"
proof -
  from assms(1) obtain c0 o0 where f: "bget (peer_buckets s) cur = Some c0" "bget (peer_buckets s) org = Some o0"
    "retry_after (refill c0 now) = 0" "retry_after (refill o0 now) = 0"
    "retry_after (refill (tenant_bucket s) now) = 0" "retry_after (refill (project_bucket s) now) = 0"
    and s': "s' = s\<lparr>peer_buckets := (let b1 = binsert cur (consume (refill c0 now)) (peer_buckets s)
                  in if org \<noteq> cur then binsert org (consume (refill o0 now)) b1 else b1),
                tenant_bucket := consume (refill (tenant_bucket s) now),
                project_bucket := consume (refill (project_bucket s) now)\<rparr>"
    by (auto simp: check_at_eq_Ok)
  have ok: "bucket_ok c0" "bucket_ok o0" "bucket_ok (tenant_bucket s)" "bucket_ok (project_bucket s)"
    using assms(2) f by (auto simp: quota_ok_def)
  then show "quota_ok s'"
    using assms(2) by (auto simp: s' quota_ok_def Let_def bucket_ok_consume bucket_ok_refill split: if_splits)
  show "CREDIT_SCALE + purse until (tenant_bucket s') \<le> purse until (tenant_bucket s)"
    "CREDIT_SCALE + purse until (project_bucket s') \<le> purse until (project_bucket s)"
    using purse_consume ok f assms(3) by (simp_all add: s')
  show "\<exists>b'. bget (peer_buckets s') p = Some b'
       \<and> (if p = cur \<or> p = org then CREDIT_SCALE else 0) + purse until b' \<le> purse until b"
    if "bget (peer_buckets s) p = Some b"
    using that f ok purse_consume [of c0 now until] purse_consume [of o0 now until] assms(3)
    by (auto simp: s' Let_def)
qed

lemma admitted_within_scope:
  assumes "quota_ok s" "\<forall>r\<in>set rs. rq_at r \<le> until"
  shows "length (quota_admitted s rs) * CREDIT_SCALE \<le> purse until (tenant_bucket s)
    \<and> length (quota_admitted s rs) * CREDIT_SCALE \<le> purse until (project_bucket s)"
  using assms
proof (induction rs arbitrary: s)
  case (Cons r rs)
  then show ?case
    using check_at_buckets(1-3) [of s "rq_current r" "rq_origin_peer r" "rq_quota_tenant r" "rq_quota_project r" "rq_at r" _ until]
    by (fastforce split: sum.splits)
qed simp

lemma admitted_within_peer:
  assumes "quota_ok s" "\<forall>r\<in>set rs. rq_at r \<le> until" "bget (peer_buckets s) p = Some b"
  shows "length (filter (charges p) (quota_admitted s rs)) * CREDIT_SCALE \<le> purse until b"
  using assms
proof (induction rs arbitrary: s b)
  case (Cons r rs)
  have at: "rq_at r \<le> until" and rs: "\<forall>r\<in>set rs. rq_at r \<le> until" using Cons.prems by auto
  show ?case
  proof (cases "check_at s (rq_current r) (rq_origin_peer r) (rq_quota_tenant r) (rq_quota_project r) (rq_at r)")
    case (Inl e)
    then show ?thesis using Cons.IH [OF Cons.prems(1) rs Cons.prems(3)] by simp
  next
    case (Inr s')
    from check_at_buckets(1,4) [OF Inr Cons.prems(1) at] Cons.prems(3) obtain b' where
      b': "quota_ok s'" "bget (peer_buckets s') p = Some b'"
      "(if p = rq_current r \<or> p = rq_origin_peer r then CREDIT_SCALE else 0) + purse until b' \<le> purse until b" by blast
    from Cons.IH [OF b'(1) rs b'(2)] b'(3) show ?thesis
      by (auto simp: Inr charges_def split: if_splits)
  qed
qed simp

lemma new_quota_state_eq_Ok:
  assumes "new_quota_state config ps tenant project now = Inr s"
  shows "quota_ok s" "tenant_bucket s = new_bucket (tenant_quota config) now"
    "project_bucket s = new_bucket (project_quota config) now"
    "p \<in> set ps \<Longrightarrow> bget (peer_buckets s) p = Some (new_bucket (peer_quota config) now)"
proof -
  have get: "bget (fold (\<lambda>p. binsert p b) ps m) k = (if k \<in> set ps then Some b else bget m k)" for b m k
    by (induction ps arbitrary: m) auto
  show "tenant_bucket s = new_bucket (tenant_quota config) now"
    "project_bucket s = new_bucket (project_quota config) now"
    "p \<in> set ps \<Longrightarrow> bget (peer_buckets s) p = Some (new_bucket (peer_quota config) now)"
    using assms by (auto simp: new_quota_state_def result_simps Let_def get)
  show "quota_ok s"
    using assms by (auto simp: new_quota_state_def validate_quota_config_def result_simps Let_def get quota_ok_def
        bucket_ok_def new_bucket_def split: if_splits)
qed

text \<open>
  C33. The relay receiver admits no more than its quotas, whatever the requests, their order and
  their clock readings: from its start until an instant, a peer (as forwarder or as origin) is
  admitted at most its burst plus its rate times the elapsed time, and so are the tenant and the
  project in all.
\<close>

theorem quota_rate_bound:
  assumes "new_quota_state config ps tenant project start = Ok s" "p \<in> set ps" "\<forall>r\<in>set rs. rq_at r \<le> until"
  shows "length (filter (charges p) (quota_admitted s rs)) * 10 ^ 9
      \<le> quota_burst (peer_quota config) * 10 ^ 9 + (until - start) * requests_per_second (peer_quota config)
    \<and> length (quota_admitted s rs) * 10 ^ 9
      \<le> quota_burst (tenant_quota config) * 10 ^ 9 + (until - start) * requests_per_second (tenant_quota config)
    \<and> length (quota_admitted s rs) * 10 ^ 9
      \<le> quota_burst (project_quota config) * 10 ^ 9 + (until - start) * requests_per_second (project_quota config)"
proof -
  note n = new_quota_state_eq_Ok [OF assms(1)]
  from admitted_within_peer [OF n(1) assms(3) n(4) [OF assms(2)]] admitted_within_scope [OF n(1) assms(3)]
  show ?thesis by (simp add: n(2,3) purse_def new_bucket_def CREDIT_SCALE_def)
qed

end
