(* ===== verification/A2a_Handlers.thy ===== *)
theory A2a_Handlers
  imports Remote_Transport Relay_Rate Replay_Ledger Remote_Replay
begin

text \<open>
  The delivery route of the HTTP server (\<open>crates/lean-ctx/src/http_server/handlers.rs\<close> and
  \<open>relay_replay_async.rs\<close>): the relay receiver with every check in its order, the replay proof, the
  handoff or the next hop and what becomes of the proof; and the authority and the identity of a
  direct delivery, in front of the guarded handoff of \<open>Remote_Replay\<close>. The handoff worker, the
  network and the clock readings are arguments; the first part of a result says what was done
  with the payload.
\<close>

section \<open>Data\<close>

datatype response_body =
    ErrorBody string
  | StatusBody string
  | ForwardedBody string
  | WithheldBody "string list"
  | NotRetainedBody
  | TextBody string

record relay_response =
  resp_status :: nat
  resp_retry_after :: "int option"
  resp_body :: response_body
  resp_withheld :: bool

definition respond :: "nat \<Rightarrow> response_body \<Rightarrow> relay_response" where
  "respond code body = \<lparr>resp_status = code, resp_retry_after = None, resp_body = body, resp_withheld = False\<rparr>"

abbreviation reject :: "nat \<Rightarrow> string \<Rightarrow> relay_response" where
  "reject code err \<equiv> respond code (ErrorBody err)"

record relay_headers =
  hd_peer :: "string option"
  hd_authorization :: "string option"
  hd_idempotency_key :: "string option"

record relay_server =
  sv_peers :: relay_peer_table
  sv_recipient_id :: "string option"
  sv_tenant_id :: "string option"
  sv_project_id :: "string option"
  sv_timeout :: nat

record relay_state =
  rs_quotas :: "relay_quota_state option"
  rs_handle :: "replay_handle option"
  rs_dir :: replay_dir

text \<open>What one request reads: clocks, random draws, the quota lock and the page count check.\<close>

record relay_inputs =
  in_marker :: string
  in_leases :: "string list"
  in_exceeds :: bool
  in_validated_at :: int
  in_reserved_at :: int
  in_forwarded_at :: int
  in_instant :: nat
  in_lock_free :: bool

record handler_env =
  he_transport :: transport_env
  he_identity :: "string \<Rightarrow> string \<Rightarrow> agent_identity"
  he_admit_carrier :: "string \<Rightarrow> string list + string"
  he_acceptance :: "string \<Rightarrow> (string \<times> string \<times> string) option"
  he_task_status :: "string \<Rightarrow> string list option"
  he_unspaced :: "string \<Rightarrow> bool"
  he_json :: "response_body \<Rightarrow> string"

datatype relay_effect = HandedOff | ForwardedTo string transport_envelope

section \<open>The store of relay proofs\<close>

text \<open>The handle is opened on first use and kept.\<close>

definition relay_store :: "string \<Rightarrow> relay_state \<Rightarrow> replay_handle replay_result \<times> relay_state" where
  "relay_store marker st =
     (case rs_handle st of
        Some h \<Rightarrow> (Ok h, st)
      | None \<Rightarrow>
          (case open_ledger default_replay_limits REMOTE_REPLAY_RETENTION_SECONDS marker (rs_dir st) of
             (Inl e, dir) \<Rightarrow> (Err e, st\<lparr>rs_dir := dir\<rparr>)
           | (Inr h, dir) \<Rightarrow> (Ok h, st\<lparr>rs_handle := Some h, rs_dir := dir\<rparr>)))"

definition with_store ::
  "string \<Rightarrow> (replay_handle \<Rightarrow> replay_dir \<Rightarrow> 'a replay_result \<times> replay_dir) \<Rightarrow> relay_state \<Rightarrow> 'a replay_result \<times> relay_state" where
  "with_store marker run st =
     (case relay_store marker st of
        (Inl e, st') \<Rightarrow> (Err e, st')
      | (Inr h, st') \<Rightarrow> (case run h (rs_dir st') of (r, dir) \<Rightarrow> (r, st'\<lparr>rs_dir := dir\<rparr>)))"

definition relay_storage_id :: "relay_crypto \<Rightarrow> relay_record \<Rightarrow> string" where
  "relay_storage_id cr r =
     rc_hex_encode cr (rc_sha256 cr (''leanctx.relay.storage.v1''
       @ concat (map push_field [rec_origin r, rec_tenant_id r, rec_project_id r, delivery_id r])))"

definition relay_proof :: "relay_crypto \<Rightarrow> relay_record \<Rightarrow> string \<Rightarrow> replay_request" where
  "relay_proof cr r fingerprint =
     \<lparr>rq_storage_id = relay_storage_id cr r, rq_origin = rec_origin r, rq_tenant = rec_tenant_id r,
      rq_project = rec_project_id r, rq_fingerprint = fingerprint, rq_signed_expires_at = rec_expires_at r div 10 ^ 9\<rparr>"

definition reserve_relay ::
  "relay_inputs \<Rightarrow> replay_request \<Rightarrow> relay_state \<Rightarrow> reservation replay_result \<times> relay_state" where
  "reserve_relay ins q =
     with_store (in_marker ins) (\<lambda>h. reserve h (in_leases ins) (in_exceeds ins) q (in_reserved_at ins div 10 ^ 9))"

definition complete_relay :: "relay_inputs \<Rightarrow> string \<Rightarrow> string \<Rightarrow> relay_state \<Rightarrow> unit replay_result \<times> relay_state" where
  "complete_relay ins sid lease = with_store (in_marker ins) (\<lambda>h. complete_proof h sid lease)"

definition release_relay :: "relay_inputs \<Rightarrow> string \<Rightarrow> string \<Rightarrow> relay_state \<Rightarrow> unit replay_result \<times> relay_state" where
  "release_relay ins sid lease = with_store (in_marker ins) (\<lambda>h. release_proof h sid lease)"

definition completed_relay_response ::
  "relay_inputs \<Rightarrow> replay_request \<Rightarrow> relay_state \<Rightarrow> string option replay_result \<times> relay_state" where
  "completed_relay_response ins q = with_store (in_marker ins) (\<lambda>h dir. (completed_response h q dir, dir))"

definition MAX_ACKNOWLEDGEMENT_FIELD_BYTES :: nat where "MAX_ACKNOWLEDGEMENT_FIELD_BYTES = 256"

definition acknowledged_identifier :: "handler_env \<Rightarrow> string \<Rightarrow> bool" where
  "acknowledged_identifier he v \<longleftrightarrow> v \<noteq> [] \<and> length v \<le> MAX_ACKNOWLEDGEMENT_FIELD_BYTES \<and> he_unspaced he v"

text \<open>
  \<open>he_acceptance\<close> reads an acceptance reply (status, content type, task), \<open>he_task_status\<close> the
  identifiers of a signed status; \<open>he_unspaced\<close> says that a text has neither whitespace nor control
  characters.
\<close>

definition is_delivery_acknowledgement :: "handler_env \<Rightarrow> string \<Rightarrow> bool" where
  "is_delivery_acknowledgement he body =
     (case he_acceptance he body of
        Some (code, kind, task) \<Rightarrow>
          (code = ''accepted'' \<or> code = ''duplicate'') \<and> kind = ''a2a_task'' \<and> acknowledged_identifier he task
      | None \<Rightarrow> (case he_task_status he body of None \<Rightarrow> False | Some ids \<Rightarrow> list_all (acknowledged_identifier he) ids))"

definition complete_relay_with_response ::
  "handler_env \<Rightarrow> relay_inputs \<Rightarrow> string \<Rightarrow> string \<Rightarrow> string \<Rightarrow> relay_state \<Rightarrow> unit replay_result \<times> relay_state" where
  "complete_relay_with_response he ins sid lease body =
     with_store (in_marker ins) (\<lambda>h.
       if (body \<noteq> [] \<and> length body \<le> MAX_TASK_RESPONSE_BYTES) \<and> \<not> is_delivery_acknowledgement he body
       then complete_proof h sid lease
       else complete_with_response h sid lease body)"

section \<open>Admission\<close>

definition bearer_of :: "string \<Rightarrow> string option" where
  "bearer_of authorization =
     (case strip_prefix ''Bearer '' authorization of
        Some b \<Rightarrow> Some b
      | None \<Rightarrow> strip_prefix ''bearer '' authorization)"

text \<open>\<open>constant_time_eq\<close> of the server compares bytes by \<open>subtle\<close>; only the result matters here.\<close>

definition server_bytes_eq :: "string \<Rightarrow> string \<Rightarrow> bool" where
  "server_bytes_eq a b \<longleftrightarrow> length a = length b \<and> a = b"

definition relay_admit ::
  "handler_env \<Rightarrow> relay_server \<Rightarrow> relay_headers \<Rightarrow> string \<Rightarrow> int
   \<Rightarrow> relay_response + (transport_envelope \<times> relay_record \<times> string)" where
  "relay_admit he sv hs body now =
     (let te = he_transport he; cr = te_crypto te
      in ebind (ok_or (hd_peer hs) (reject 401 ''missing_peer_identity'')) (\<lambda>pid.
         ebind (ok_or (table_peer (sv_peers sv) pid) (reject 401 ''unknown_peer'')) (\<lambda>peer.
         ebind (ok_or (hd_authorization hs) (reject 401 ''missing_peer_bearer'')) (\<lambda>authorization.
         ebind (ok_or (bearer_of authorization) (reject 401 ''malformed_peer_bearer'')) (\<lambda>bearer.
         ebind (ensure (server_bytes_eq bearer (bearer_token peer)) (reject 401 ''invalid_peer_bearer'')) (\<lambda>_.
         ebind (map_err (\<lambda>_. reject 400 ''invalid_envelope'') (parse_envelope (te_codec te) (te_read_json te) body)) (\<lambda>e.
         ebind (ok_or (case envelope_relay_record (te_codec te) e of Inr found \<Rightarrow> found | Inl _ \<Rightarrow> None)
                  (reject 400 ''relay_record_required'')) (\<lambda>r.
         ebind (ok_or (sv_recipient_id sv) (reject 503 ''recipient_not_configured'')) (\<lambda>local.
         ebind (ensure (\<not> (id_agent_id (env_sender e) \<noteq> current_peer r
                    \<or> current_peer r \<noteq> pid
                    \<or> env_content_type e \<noteq> rec_content_type r
                    \<or> bget (env_metadata e) ''tenant_id'' \<noteq> Some (rec_tenant_id r)
                    \<or> bget (env_metadata e) ''project_id'' \<noteq> Some (rec_project_id r)
                    \<or> next_peer r \<noteq> local
                    \<or> env_recipient e \<noteq> Some (final_recipient r)
                    \<or> recipient_id peer \<noteq> local
                    \<or> \<not> verify_envelope (te_rfc3339 te) (rc_hmac cr) e (channel_key peer)
                    \<or> verify_hop cr r (channel_key peer) \<noteq> Ok ()))
                  (reject 401 ''invalid_relay_authority'')) (\<lambda>_.
         ebind (ok_or (table_peer (sv_peers sv) (rec_origin r)) (reject 401 ''unknown_origin'')) (\<lambda>origin_peer.
         ebind (ensure (\<not> (verify_origin cr r (origin_public_key origin_peer) \<noteq> Ok ()
                    \<or> verify_payload cr r (payload_json e) \<noteq> Ok ()))
                  (reject 401 ''invalid_origin_authority'')) (\<lambda>_.
         ebind (ensure (\<not> (sv_tenant_id sv \<noteq> Some (rec_tenant_id r)
                    \<or> sv_project_id sv \<noteq> Some (rec_project_id r)
                    \<or> \<not> peer_allows peer r (length (payload_json e))
                    \<or> \<not> peer_allows origin_peer r (length (payload_json e))
                    \<or> validate_relay_at r now (current_peer r) (Some local) (cfg_max_hops peer) \<noteq> Ok ()
                    \<or> env_content_type e \<notin> {A2ATask, ContextPackage, EvidenceBundle}))
                  (reject 403 ''relay_policy_denied'')) (\<lambda>_.
         ebind (ensure (\<not> (case hd_idempotency_key hs of None \<Rightarrow> False | Some k \<Rightarrow> k \<noteq> delivery_id r))
                  (reject 400 ''idempotency_key_mismatch'')) (\<lambda>_.
         Ok (e, r, local)))))))))))))))"

definition check_relay_quota :: "relay_inputs \<Rightarrow> relay_record \<Rightarrow> relay_state \<Rightarrow> relay_response + relay_state" where
  "check_relay_quota ins r st =
     (let unavailable = reject 503 ''relay_quota_unavailable''
      in ebind (ok_or (rs_quotas st) unavailable) (\<lambda>quotas.
         ebind (ensure (in_lock_free ins) unavailable) (\<lambda>_.
         case check_at quotas (current_peer r) (rec_origin r) (rec_tenant_id r) (rec_project_id r) (in_instant ins) of
           Inr quotas' \<Rightarrow> Ok (st\<lparr>rs_quotas := Some quotas'\<rparr>)
         | Inl (Limited wait) \<Rightarrow>
             Err \<lparr>resp_status = 429, resp_retry_after = Some (int (retry_after_header wait)),
                  resp_body = ErrorBody ''relay_rate_limited'', resp_withheld = False\<rparr>
         | Inl _ \<Rightarrow> Err unavailable)))"

fun relay_replay_error :: "replay_error \<Rightarrow> relay_response" where
  "relay_replay_error (CapacityExhausted wait) =
     \<lparr>resp_status = 429, resp_retry_after = Some (max wait 1), resp_body = ErrorBody ''relay_replay_capacity_exhausted'',
      resp_withheld = False\<rparr>"
| "relay_replay_error ProofExpired = reject 400 ''invalid_relay_replay_binding''"
| "relay_replay_error (ReplayInvalidInput e) = reject 400 ''invalid_relay_replay_binding''"
| "relay_replay_error (MigrationRequired e) = reject 503 ''replay_protection_unavailable''"
| "relay_replay_error LeaseMismatch = reject 503 ''replay_protection_unavailable''"
| "relay_replay_error (Unavailable e) = reject 503 ''replay_protection_unavailable''"

section \<open>The next hop\<close>

definition TASK_RESPONSE_REDACTION_REQUIRED :: string where
  "TASK_RESPONSE_REDACTION_REQUIRED = ''relay.task_response_redaction_required''"

definition task_response_bytes :: "string \<Rightarrow> relay_response" where
  "task_response_bytes body = respond 200 (TextBody body)"

definition withheld_task_response :: "string list \<Rightarrow> relay_response" where
  "withheld_task_response codes = (respond 502 (WithheldBody codes))\<lparr>resp_withheld := True\<rparr>"

definition completed_without_retained_response :: relay_response where
  "completed_without_retained_response = respond 410 NotRetainedBody"

definition missing_replayed_task_response :: relay_response where
  "missing_replayed_task_response = reject 503 ''task_response_unavailable''"

definition forwarded_delivery_response ::
  "handler_env \<Rightarrow> delivery_receipt \<Rightarrow> transport_content_type \<Rightarrow> relay_response" where
  "forwarded_delivery_response he receipt kind =
     (if kind = A2ATask then
        (case unverified_task_response receipt of
           None \<Rightarrow> reject 502 ''missing_task_response''
         | Some raw \<Rightarrow>
             if raw = [] \<or> \<not> length raw \<le> 64 * 1024 then reject 502 ''missing_task_response''
             else (case he_admit_carrier he raw of
                     Inr text \<Rightarrow>
                       if text = raw then task_response_bytes raw
                       else withheld_task_response [TASK_RESPONSE_REDACTION_REQUIRED]
                   | Inl codes \<Rightarrow> withheld_task_response codes))
      else respond 200 (ForwardedBody (receipt_envelope_id receipt)))"

text \<open>The envelope for the next peer: the record has advanced one hop, the relay is the sender.\<close>

definition forwarded_envelope ::
  "handler_env \<Rightarrow> transport_envelope \<Rightarrow> relay_record \<Rightarrow> string \<Rightarrow> string + transport_envelope" where
  "forwarded_envelope he e r local =
     attach_relay_record (te_codec (he_transport he))
       (e\<lparr>env_sender := he_identity he local ''relay'', env_signature := None,
          env_metadata := bremove RELAY_METADATA_KEY (env_metadata e)\<rparr>) r"

text \<open>How the work after the reservation ends: with the proof released, kept, or with a response to settle.\<close>

datatype relay_end = ReleasedWith relay_response | KeptWith relay_response | RespondedWith relay_response

definition relay_forward ::
  "handler_env \<Rightarrow> relay_server \<Rightarrow> relay_inputs \<Rightarrow> (string \<Rightarrow> transport_envelope \<Rightarrow> transport_error + delivery_receipt)
   \<Rightarrow> transport_envelope \<Rightarrow> relay_record \<Rightarrow> string \<Rightarrow> relay_effect option \<times> relay_end" where
  "relay_forward he sv ins downstream e r local =
     (case route_for_recipient (sv_peers sv) (final_recipient r) of
        Inl err \<Rightarrow> (None, ReleasedWith (reject 404 ''relay_route_not_found''))
      | Inr next \<Rightarrow>
          (case forward_from (te_crypto (he_transport he)) r local (peer_id next) (in_forwarded_at ins) (channel_key next) of
             Inl err \<Rightarrow> (None, ReleasedWith (reject 508 ''relay_cycle_or_hop_cap''))
           | Inr r' \<Rightarrow>
               (case forwarded_envelope he e r' local of
                  Inl err \<Rightarrow> (None, ReleasedWith (reject 400 ''invalid_relay_record''))
                | Inr e' \<Rightarrow>
                    (case for_peer_table (he_transport he) (sv_peers sv) local (sv_timeout sv) False of
                       Inl err \<Rightarrow> (None, ReleasedWith (reject 503 ''relay_transport_unavailable''))
                     | Inr transport \<Rightarrow>
                         (Some (ForwardedTo (peer_id next) e'),
                          case downstream (peer_id next) e' of
                            Inr receipt \<Rightarrow> RespondedWith (forwarded_delivery_response he receipt (env_content_type e'))
                          | Inl err \<Rightarrow>
                              if env_content_type e' \<noteq> A2ATask
                              then ReleasedWith (reject 502 ''downstream_delivery_failed'')
                              else KeptWith (reject 502 ''downstream_delivery_failed''))))))"

section \<open>The relay receiver\<close>

definition body_bytes :: "handler_env \<Rightarrow> response_body \<Rightarrow> string" where
  "body_bytes he b = (case b of TextBody t \<Rightarrow> t | _ \<Rightarrow> he_json he b)"

definition settle_completion :: "unit replay_result \<times> relay_state \<Rightarrow> relay_response \<Rightarrow> relay_response \<times> relay_state" where
  "settle_completion completion resp =
     (case completion of
        (Inl e, st) \<Rightarrow> (reject 503 ''replay_protection_unavailable'', st)
      | (Inr _, st) \<Rightarrow> (resp, st))"

definition settle_response ::
  "handler_env \<Rightarrow> relay_inputs \<Rightarrow> transport_content_type \<Rightarrow> bool \<Rightarrow> string \<Rightarrow> string \<Rightarrow> relay_response \<Rightarrow> relay_state
   \<Rightarrow> relay_response \<times> relay_state" where
  "settle_response he ins kind final sid lease resp st =
     (if \<not> is_success (resp_status resp) then
        if resp_withheld resp then (resp, snd (complete_relay ins sid lease st))
        else if \<not> final \<and> kind = A2ATask then (resp, st)
        else (resp, snd (release_relay ins sid lease st))
      else if kind = A2ATask then
        let bytes = body_bytes he (resp_body resp)
        in if 64 * 1024 < length bytes \<or> bytes = [] then (missing_replayed_task_response, st)
           else settle_completion (complete_relay_with_response he ins sid lease bytes st) resp
      else settle_completion (complete_relay ins sid lease st) resp)"

fun settle_end ::
  "handler_env \<Rightarrow> relay_inputs \<Rightarrow> transport_content_type \<Rightarrow> bool \<Rightarrow> string \<Rightarrow> string \<Rightarrow> relay_end \<Rightarrow> relay_state
   \<Rightarrow> relay_response \<times> relay_state" where
  "settle_end he ins kind final sid lease (ReleasedWith resp) st = (resp, snd (release_relay ins sid lease st))"
| "settle_end he ins kind final sid lease (KeptWith resp) st = (resp, st)"
| "settle_end he ins kind final sid lease (RespondedWith resp) st = settle_response he ins kind final sid lease resp st"

text \<open>\<open>worker\<close> is the answer of the handoff worker, none when its task was lost.\<close>

definition relay_handoff :: "(nat \<times> string) option \<Rightarrow> relay_effect option \<times> relay_end" where
  "relay_handoff worker =
     (Some HandedOff,
      case worker of
        None \<Rightarrow> KeptWith (reject 503 ''handoff_worker_unavailable'')
      | Some (code, text) \<Rightarrow> RespondedWith (respond code (TextBody text)))"

definition answer_completed ::
  "relay_inputs \<Rightarrow> transport_content_type \<Rightarrow> replay_request \<Rightarrow> relay_state \<Rightarrow> relay_response \<times> relay_state" where
  "answer_completed ins kind q st =
     (if kind = A2ATask then
        (case completed_relay_response ins q st of
           (Inr (Some body), st') \<Rightarrow> (task_response_bytes body, st')
         | (Inr None, st') \<Rightarrow> (completed_without_retained_response, st')
         | (Inl err, st') \<Rightarrow> (relay_replay_error err, st'))
      else (respond 200 (StatusBody ''already_received''), st))"

definition relay_guarded ::
  "handler_env \<Rightarrow> relay_server \<Rightarrow> relay_inputs \<Rightarrow> (nat \<times> string) option
   \<Rightarrow> (string \<Rightarrow> transport_envelope \<Rightarrow> transport_error + delivery_receipt) \<Rightarrow> transport_envelope \<Rightarrow> relay_record \<Rightarrow> string
   \<Rightarrow> string \<Rightarrow> relay_state \<Rightarrow> relay_effect option \<times> relay_response \<times> relay_state" where
  "relay_guarded he sv ins worker downstream e r local fingerprint st =
     (let q = relay_proof (te_crypto (he_transport he)) r fingerprint; sid = rq_storage_id q
      in case reserve_relay ins q st of
           (Inl err, st1) \<Rightarrow> (None, relay_replay_error err, st1)
         | (Inr InFlight, st1) \<Rightarrow> (None, reject 503 ''delivery_in_progress'', st1)
         | (Inr Conflict, st1) \<Rightarrow> (None, reject 409 ''delivery_identity_conflict'', st1)
         | (Inr AlreadyCompleted, st1) \<Rightarrow> (None, answer_completed ins (env_content_type e) q st1)
         | (Inr (Reserved lease), st1) \<Rightarrow>
             (let final = (final_recipient r = local)
              in case (if final then relay_handoff worker else relay_forward he sv ins downstream e r local) of
                   (effect, ending) \<Rightarrow> (effect, settle_end he ins (env_content_type e) final sid lease ending st1)))"

definition relay_a2a_deliver ::
  "handler_env \<Rightarrow> relay_server \<Rightarrow> relay_headers \<Rightarrow> string \<Rightarrow> relay_inputs \<Rightarrow> (nat \<times> string) option
   \<Rightarrow> (string \<Rightarrow> transport_envelope \<Rightarrow> transport_error + delivery_receipt) \<Rightarrow> relay_state
   \<Rightarrow> relay_effect option \<times> relay_response \<times> relay_state" where
  "relay_a2a_deliver he sv hs body ins worker downstream st =
     (case ebind (relay_admit he sv hs body (in_validated_at ins)) (\<lambda>(e, r, local).
           ebind (check_relay_quota ins r st) (\<lambda>st1. Ok (e, r, local, st1))) of
        Inl resp \<Rightarrow> (None, resp, st)
      | Inr (e, r, local, st1) \<Rightarrow>
          (case origin_fingerprint (te_crypto (he_transport he)) r of
             Inl err \<Rightarrow> (None, reject 400 ''invalid_origin_binding'', st1)
           | Inr fingerprint \<Rightarrow> relay_guarded he sv ins worker downstream e r local fingerprint st1))"

section \<open>Direct deliveries\<close>

definition valid_remote_authority ::
  "transport_env \<Rightarrow> transport_envelope \<Rightarrow> string \<Rightarrow> string option \<Rightarrow> string option \<Rightarrow> string option \<Rightarrow> bool" where
  "valid_remote_authority te e secret recipient tenant project \<longleftrightarrow>
     verify_envelope (te_rfc3339 te) (rc_hmac (te_crypto te)) e secret
     \<and> (case recipient of None \<Rightarrow> False | Some x \<Rightarrow> env_recipient e = Some x)
     \<and> (case tenant of None \<Rightarrow> False | Some x \<Rightarrow> bget (env_metadata e) ''tenant_id'' = Some x)
     \<and> (case project of None \<Rightarrow> False | Some x \<Rightarrow> bget (env_metadata e) ''project_id'' = Some x)"

definition verified_legacy_delivery_id ::
  "transport_env \<Rightarrow> transport_envelope \<Rightarrow> string \<Rightarrow> unit + string option" where
  "verified_legacy_delivery_id te e secret =
     (case (bget (env_metadata e) LEGACY_DELIVERY_ID_METADATA, bget (env_metadata e) LEGACY_DELIVERY_SENT_AT_METADATA) of
        (Some i, Some at) \<Rightarrow>
          ebind (ensure (\<not> (length i \<noteq> 64 \<or> \<not> list_all is_ascii_hexdigit i)) ()) (\<lambda>_.
          ebind (ok_or (parse_rfc3339 (te_dlq te) at) ()) (\<lambda>t.
          let original = e\<lparr>env_metadata := bremove LEGACY_DELIVERY_SENT_AT_METADATA
                             (bremove LEGACY_DELIVERY_ID_METADATA (env_metadata e)),
                           sent_at := t, env_signature := Some (ascii_lower i)\<rparr>
          in ebind (ensure (verify_envelope (te_rfc3339 te) (rc_hmac (te_crypto te)) original secret) ()) (\<lambda>_.
             Ok (Some (ascii_lower i)))))
      | (None, None) \<Rightarrow> Ok None
      | _ \<Rightarrow> Err ())"

datatype a2a_answer =
    AuthNotConfigured | InvalidEnvelope | RelayPeersNotConfigured | InvalidLegacyId | Guarded deliver_answer

text \<open>
  \<open>a2a_deliver\<close> without configured peers. \<open>deliver_guarded\<close> checks the freshness together with the
  authority, as the source does; \<open>control\<close> says that a payload is a task control request.
\<close>

definition a2a_deliver ::
  "transport_env \<Rightarrow> (replay_ledger \<Rightarrow> nat) \<Rightarrow> (string \<Rightarrow> bool) \<Rightarrow> relay_server \<Rightarrow> string option \<Rightarrow> string \<Rightarrow> int
   \<Rightarrow> handoff_outcome \<Rightarrow> file_write \<Rightarrow> file_write \<Rightarrow> replay_ledger option \<Rightarrow> bool \<times> a2a_answer \<times> replay_ledger option" where
  "a2a_deliver te json_len control sv secret body now outcome w1 w2 disk =
     (case secret of
        None \<Rightarrow> (False, AuthNotConfigured, disk)
      | Some key \<Rightarrow>
          (case parse_envelope (te_codec te) (te_read_json te) body of
             Inl err \<Rightarrow> (False, InvalidEnvelope, disk)
           | Inr e \<Rightarrow>
               if bcontains (env_metadata e) RELAY_METADATA_KEY then (False, RelayPeersNotConfigured, disk)
               else
                 let authentic = valid_remote_authority te e key (sv_recipient_id sv) (sv_tenant_id sv) (sv_project_id sv)
                 in if \<not> (authentic \<and> envelope_fresh (sent_at e) now) then (False, Guarded InvalidRemoteAuthority, disk)
                    else
                      (case stable_delivery_id (te_codec te) (te_rfc3339 te) (rc_sha256 (te_crypto te)) e of
                         Inl err \<Rightarrow> (False, InvalidEnvelope, disk)
                       | Inr aid \<Rightarrow>
                           (case verified_legacy_delivery_id te e key of
                              Inl _ \<Rightarrow> (False, InvalidLegacyId, disk)
                            | Inr legacy \<Rightarrow>
                                (case deliver_guarded json_len REMOTE_REPLAY_RETENTION_SECONDS authentic
                                        (env_content_type e = A2ATask \<and> control (payload_json e)) (sent_at e) aid legacy
                                        now outcome w1 w2 disk of
                                   (handed, answer, disk') \<Rightarrow> (handed, Guarded answer, disk'))))))"

end
