(* ===== verification/Relay_Laws.thy ===== *)
theory Relay_Laws
  imports Relay_Record
begin

text \<open>
  What relaying keeps: a record passes each agent at most once and at most sixteen in all, what
  its origin signed never changes on the way, and its metadata encoding is canonical.
\<close>

section \<open>Valid records\<close>

definition hop_ids :: "relay_record \<Rightarrow> string list" where
  "hop_ids r = map hop_agent_id (hops (relay_chain r))"

lemma validate_hops_distinct:
  "validate_hops seen hs = Inr u \<Longrightarrow> distinct (map hop_agent_id hs) \<and> set (map hop_agent_id hs) \<inter> seen = {}"
  by (induction seen hs rule: validate_hops.induct) (auto split: if_splits)

lemma valid_shape_chain:
  assumes "validate_relay_shape r = Inr u"
  shows "hops (relay_chain r) \<noteq> []" "hop_ids r \<noteq> []" "distinct (hop_ids r)" "last (hop_ids r) = current_peer r"
    "hd (hop_ids r) = rec_origin r" "length (hop_ids r) \<le> chain_max_hops (relay_chain r)"
    "chain_max_hops (relay_chain r) \<le> RELAY_MAX_HOPS"
proof -
  have s: "validate_relay_chain (relay_chain r) = Inr ()" "hops (relay_chain r) \<noteq> []"
    "hop_agent_id (last (hops (relay_chain r))) = current_peer r" "chain_origin (relay_chain r) = Some (rec_origin r)"
    using assms by (auto simp: validate_relay_shape_def result_simps)
  then show "hops (relay_chain r) \<noteq> []" "hop_ids r \<noteq> []" "last (hop_ids r) = current_peer r" "hd (hop_ids r) = rec_origin r"
    by (auto simp: hop_ids_def last_map list.map_sel(1) chain_origin_def split: list.splits)
  show "distinct (hop_ids r)" "length (hop_ids r) \<le> chain_max_hops (relay_chain r)"
    "chain_max_hops (relay_chain r) \<le> RELAY_MAX_HOPS"
    using s(1) by (auto simp: hop_ids_def validate_relay_chain_def dest: validate_hops_distinct split: if_splits)
qed

lemma add_peer_hop_eq_Ok:
  "add_peer_hop c agent now = Inr c' \<longleftrightarrow>
     chain_max_hops c \<noteq> 0 \<and> chain_max_hops c \<le> RELAY_MAX_HOPS \<and> length (hops c) < chain_max_hops c
     \<and> relay_id_ok agent \<and> \<not> chain_contains c agent
     \<and> c' = c\<lparr>hops := hops c @ [\<lparr>hop_agent_id = agent, hop_received_at = now, hop_forwarded_at = Some now,
                hop_processing_ms = Some 0\<rparr>]\<rparr>"
  by (auto simp: add_peer_hop_def add_hop_def hop_backwards_def)

section \<open>Forwarding\<close>

text \<open>One forwarding: by whom, to whom, when, under which channel key.\<close>

type_synonym forwarding = "string \<times> string \<times> int \<times> string"

abbreviation forward_along :: "relay_crypto \<Rightarrow> forwarding list \<Rightarrow> relay_record \<Rightarrow> relay_record relay" where
  "forward_along cr fs r \<equiv> efold (\<lambda>(local, next, now, key) r. forward_from cr r local next now key) fs r"

lemma forward_from_eq_Ok:
  assumes "forward_from cr r local next now key = Inr r'"
  shows "validate_relay_shape r = Inr ()" "now < rec_expires_at r" "local = next_peer r"
    "hop_ids r' = hop_ids r @ [local]" "distinct (hop_ids r')" "next \<notin> set (hop_ids r')"
    "length (hop_ids r') \<le> chain_max_hops (relay_chain r)" "chain_max_hops (relay_chain r) \<le> RELAY_MAX_HOPS"
    "rec_expires_at r' = rec_expires_at r" "chain_max_hops (relay_chain r') = chain_max_hops (relay_chain r)"
    "origin_view r' = origin_view r" "origin_signature r' = origin_signature r" "payload_sha256 r' = payload_sha256 r"
    "key \<noteq> []" "hop_signature r' = rc_hex_encode cr (rc_hmac cr key (hop_bytes cr r'))"
    "current_peer r' = local" "next_peer r' = next"
proof -
  from assms obtain chain where valid: "validate_relay_shape r = Inr ()" "validate_relay_deadline r now = Inr ()"
    "local = next_peer r" "add_peer_hop (relay_chain r) local now = Inr chain"
    and f: "\<not> chain_contains chain next"
      "validate_relay_shape (r\<lparr>relay_chain := chain, current_peer := local, next_peer := next\<rparr>) = Inr ()"
    and key: "key \<noteq> []" and r': "r' = r\<lparr>relay_chain := chain, current_peer := local, next_peer := next,
      hop_signature := rc_hex_encode cr (rc_hmac cr key (hop_bytes cr (r\<lparr>relay_chain := chain, current_peer := local, next_peer := next\<rparr>)))\<rparr>"
    by (auto simp: forward_from_def validate_relay_at_def sign_hop_def Let_def result_simps split: if_splits)
  from valid(4) have chain: "chain = (relay_chain r)\<lparr>hops := hops (relay_chain r) @ [\<lparr>hop_agent_id = local,
      hop_received_at = now, hop_forwarded_at = Some now, hop_processing_ms = Some 0\<rparr>]\<rparr>"
    by (simp add: add_peer_hop_eq_Ok)
  note v = valid_shape_chain [OF valid(1)] and w = valid_shape_chain [OF f(2)]
  show "validate_relay_shape r = Inr ()" "local = next_peer r" "key \<noteq> []" by fact+
  show "now < rec_expires_at r" using valid(2) by (auto simp: validate_relay_deadline_def split: if_splits)
  show "hop_ids r' = hop_ids r @ [local]" by (simp add: hop_ids_def r' chain)
  have ids: "hop_ids r' = hop_ids (r\<lparr>relay_chain := chain, current_peer := local, next_peer := next\<rparr>)"
    by (simp add: hop_ids_def r')
  show "distinct (hop_ids r')" "length (hop_ids r') \<le> chain_max_hops (relay_chain r)"
    "chain_max_hops (relay_chain r) \<le> RELAY_MAX_HOPS"
    using w by (simp_all add: ids chain)
  show "next \<notin> set (hop_ids r')" using f(1) by (auto simp: hop_ids_def r' chain_contains_def list_ex_iff)
  show "origin_view r' = origin_view r"
    using v(1) by (auto simp: r' chain origin_view_def neq_Nil_conv)
  show "hop_signature r' = rc_hex_encode cr (rc_hmac cr key (hop_bytes cr r'))" by (simp add: r' hop_bytes_def)
  show "rec_expires_at r' = rec_expires_at r" "chain_max_hops (relay_chain r') = chain_max_hops (relay_chain r)"
    "origin_signature r' = origin_signature r" "payload_sha256 r' = payload_sha256 r"
    "current_peer r' = local" "next_peer r' = next"
    by (simp_all add: r' chain)
qed

lemma forward_along_keeps:
  assumes "forward_along cr fs r = Inr r'" "validate_relay_shape r = Inr ()"
  shows "hop_ids r' = hop_ids r @ map fst fs \<and> distinct (hop_ids r')
    \<and> length (hop_ids r') \<le> chain_max_hops (relay_chain r) \<and> chain_max_hops (relay_chain r) \<le> RELAY_MAX_HOPS
    \<and> (\<forall>(local, next, now, key)\<in>set fs. now < rec_expires_at r)
    \<and> origin_view r' = origin_view r \<and> origin_signature r' = origin_signature r \<and> payload_sha256 r' = payload_sha256 r"
  using assms
proof (induction fs arbitrary: r)
  case Nil
  then show ?case using valid_shape_chain [OF Nil.prems(2)] by simp
next
  case (Cons f fs)
  obtain local nxt now key where f: "f = (local, nxt, now, key)" by (cases f)
  with Cons.prems obtain r1 where one: "forward_from cr r local nxt now key = Inr r1" "forward_along cr fs r1 = Inr r'"
    by (auto simp: ebind_eq_Ok)
  note o = forward_from_eq_Ok [OF one(1)]
  show ?case
  proof (cases fs)
    case Nil
    then show ?thesis using one(2) o by (simp add: f)
  next
    case (Cons g gs)
    obtain l2 n2 t2 k2 where g: "g = (l2, n2, t2, k2)" by (cases g)
    with one(2) Cons obtain r2 where "forward_from cr r1 l2 n2 t2 k2 = Inr r2" by (auto simp: ebind_eq_Ok)
    then have "validate_relay_shape r1 = Inr ()" by (rule forward_from_eq_Ok)
    note ih = Cons.IH [OF one(2) this]
    then have "hop_ids r' = hop_ids r @ map fst (f # fs)" using o(4) by (simp add: f)
    moreover have "distinct (hop_ids r')" using ih by blast
    moreover have "length (hop_ids r') \<le> chain_max_hops (relay_chain r)" using ih unfolding o(10) by blast
    moreover have "(\<forall>(local, next, now, key)\<in>set (f # fs). now < rec_expires_at r)
        \<and> origin_view r' = origin_view r \<and> origin_signature r' = origin_signature r \<and> payload_sha256 r' = payload_sha256 r"
      using ih o(2,9,11-13) by (simp add: f)
    ultimately show ?thesis using o(8) by blast
  qed
qed

text \<open>
  C32. Forwarding is loop-free and bounded: however a valid record is forwarded, through whichever
  peers, the agents on its chain are the old ones followed by the forwarders, no agent occurs
  twice, there are at most its hop limit and at most sixteen, and every forwarding happened
  before the record expired.
\<close>

theorem forwarding_bounded:
  assumes "forward_along cr fs r = Ok r'" "validate_relay_shape r = Ok ()"
  shows "hop_ids r' = hop_ids r @ map fst fs \<and> distinct (hop_ids r')
    \<and> length (hop_ids r') \<le> min 16 (chain_max_hops (relay_chain r)) \<and> length fs < 16
    \<and> (\<forall>(local, next, now, key)\<in>set fs. now < rec_expires_at r)"
proof -
  note k = forward_along_keeps [OF assms]
  then have "length (hop_ids r') = length (hop_ids r) + length fs" by simp
  moreover have "0 < length (hop_ids r)" using valid_shape_chain(2) [OF assms(2)] by simp
  moreover have "length (hop_ids r') \<le> chain_max_hops (relay_chain r)" "chain_max_hops (relay_chain r) \<le> 16"
    using k unfolding RELAY_MAX_HOPS_def by blast+
  ultimately have "length (hop_ids r') \<le> min 16 (chain_max_hops (relay_chain r)) \<and> length fs < 16" by linarith
  with k show ?thesis by blast
qed


section \<open>Signatures\<close>

lemma new_signed_eq_Ok:
  assumes "new_signed cr delivery origin recipient tenant project kind class expires limit now signer ch payload = Inr r"
  shows "validate_relay_shape (r\<lparr>origin_signature := [], hop_signature := []\<rparr>) = Inr ()"
    "validate_relay_deadline r now = Inr ()" "hop_ids r = [origin]" "rec_origin r = origin" "current_peer r = origin"
    "next_peer r = recipient" "payload_sha256 r = payload_digest cr payload"
    "\<exists>bytes. origin_bytes cr r = Inr bytes \<and> origin_signature r = rc_hex_encode cr (signer bytes)"
    "ch \<noteq> []" "hop_signature r = rc_hex_encode cr (rc_hmac cr ch (hop_bytes cr r))"
    "chain_max_hops (relay_chain r) = limit"
  using assms
  by (auto simp: new_signed_def Let_def result_simps add_peer_hop_eq_Ok new_chain_def validate_relay_deadline_def
      sign_origin_def sign_hop_def origin_bytes_def origin_view_def hop_bytes_def hop_ids_def split: if_splits)

lemma validate_shape_signatures:
  "validate_relay_shape (r\<lparr>origin_signature := sig, hop_signature := seal\<rparr>) = Inr () \<longleftrightarrow>
     validate_relay_shape (r\<lparr>origin_signature := [], hop_signature := []\<rparr>) = Inr ()
     \<and> length sig \<le> RELAY_MAX_ID_BYTES * 2 \<and> length seal \<le> RELAY_MAX_ID_BYTES * 2"
  by (auto simp: validate_relay_shape_def result_simps)

text \<open>What the code relies on: hexadecimal doubles the length and decodes to what was encoded.\<close>

definition hex_ok :: "relay_crypto \<Rightarrow> string \<Rightarrow> bool" where
  "hex_ok cr bytes \<longleftrightarrow> rc_hex_decode cr (rc_hex_encode cr bytes) = Some bytes
     \<and> length (rc_hex_encode cr bytes) = 2 * length bytes"

lemma verify_hop_sealed:
  assumes "key \<noteq> []" "hop_signature r = rc_hex_encode cr (rc_hmac cr key (hop_bytes cr r))"
    and "hex_ok cr (rc_hmac cr key (hop_bytes cr r))"
  shows "verify_hop cr r key = Ok ()"
  using assms by (simp add: verify_hop_def sign_hop_def verify_hop_signature_def hex_ok_def)

lemma forward_along_sealed:
  assumes "forward_along cr fs r = Inr r'" "fs \<noteq> []"
  shows "(\<lambda>(local, next, now, key). key) (last fs) \<noteq> []
    \<and> hop_signature r' = rc_hex_encode cr (rc_hmac cr ((\<lambda>(local, next, now, key). key) (last fs)) (hop_bytes cr r'))"
proof -
  obtain gs local nxt now key where fs: "fs = gs @ [(local, nxt, now, key)]"
    using assms(2) by (metis append_butlast_last_id prod_cases4)
  with assms(1) obtain r1 where "forward_from cr r1 local nxt now key = Inr r'"
    by (auto simp: efold_append ebind_eq_Ok)
  from forward_from_eq_Ok(14,15) [OF this] show ?thesis by (simp add: fs)
qed

definition last_channel_key :: "string \<Rightarrow> forwarding list \<Rightarrow> string" where
  "last_channel_key ch fs = (if fs = [] then ch else (\<lambda>(local, next, now, key). key) (last fs))"

text \<open>
  What an origin signs stays verifiable along the whole route: a freshly signed record is
  valid for its recipient, and after any forwarding the record still verifies under the origin's
  public key and against the payload, has the same fingerprint (so that every ledger on the way
  recognizes it), and is sealed for the last channel it was sent through.
\<close>

theorem origin_authority_survives:
  assumes "new_signed cr delivery origin recipient tenant project kind class expires limit now signer ch payload = Ok r"
    and "forward_along cr fs r = Ok r'"
    and "decode_origin_key cr public = Ok k" "\<forall>bytes. rc_ed25519 cr k bytes (signer bytes) \<and> length (signer bytes) = 64"
    and "\<forall>bytes. hex_ok cr bytes" "\<forall>key bytes. length (rc_hmac cr key bytes) = 32"
  shows "validate_relay_at r now origin (Some recipient) limit = Ok ()
    \<and> verify_origin cr r' public = Ok () \<and> verify_payload cr r' payload = Ok ()
    \<and> origin_fingerprint cr r' = origin_fingerprint cr r \<and> verify_hop cr r' (last_channel_key ch fs) = Ok ()"
proof -
  note n = new_signed_eq_Ok [OF assms(1)]
  obtain bytes where b: "origin_bytes cr r = Inr bytes" "origin_signature r = rc_hex_encode cr (signer bytes)"
    using n(8) by blast
  have len: "length (origin_signature r) = 128" "length (hop_signature r) = 64"
    using assms(4-6) by (simp_all add: b(2) n(10) hex_ok_def)
  have shape: "validate_relay_shape r = Inr ()"
    using n(1) len validate_shape_signatures [where r = r and sig = "origin_signature r" and seal = "hop_signature r"]
    by (simp add: RELAY_MAX_ID_BYTES_def)
  have "relay_chain_depth (relay_chain r) = 1"
    using n(3) by (auto simp: relay_chain_depth_def hop_ids_def)
  then have at: "validate_relay_at r now origin (Some recipient) limit = Ok ()"
    using shape n(2-6,11) len valid_shape_chain(6) [OF shape]
    by (auto simp: validate_relay_at_def ensure_def)
  note k = forward_along_keeps [OF assms(2) shape]
  then have same: "origin_bytes cr r' = Inr bytes" "origin_signature r' = origin_signature r" "payload_sha256 r' = payload_sha256 r"
    using b(1) by (simp_all add: origin_bytes_def)
  have "verify_origin cr r' public = Ok ()"
    using assms(3-5) same b(2) len(1) by (simp add: verify_origin_def hex_ok_def)
  moreover have "verify_hop cr r' (last_channel_key ch fs) = Ok ()"
  proof (cases "fs = []")
    case True
    then show ?thesis using verify_hop_sealed [OF n(9,10)] assms(2,5) by (simp add: last_channel_key_def)
  next
    case False
    with forward_along_sealed [OF assms(2)] assms(5) show ?thesis
      by (intro verify_hop_sealed) (auto simp: last_channel_key_def)
  qed
  ultimately show ?thesis
    using at same n(7) b(1) by (simp add: verify_payload_def origin_fingerprint_def)
qed

section \<open>Metadata\<close>

text \<open>
  The relay metadata of an envelope is canonical: where JSON and unpadded base64 invert each
  other on the record, decoding accepts exactly the one text that encoding produces, so a record
  cannot be presented in two encodings.
\<close>

theorem metadata_canonical:
  assumes "cd_parse cd (cd_json cd r) = Some r" "cd_json cd r \<noteq> []"
    and "cd_unbase64 cd (cd_base64 cd (cd_json cd r)) = Some (cd_json cd r)"
    and "length (cd_base64 cd (cd_json cd r)) = (4 * length (cd_json cd r) + 2) div 3"
  shows "decode_metadata cd value = Ok r \<longleftrightarrow> encode_metadata cd r = Ok value"
proof
  assume "decode_metadata cd value = Ok r"
  then show "encode_metadata cd r = Ok value" by (auto simp: decode_metadata_def result_simps)
next
  assume enc: "encode_metadata cd r = Ok value"
  then have v: "validate_relay_shape r = Inr ()" "length (cd_json cd r) \<le> RELAY_MAX_RECORD_BYTES"
    "value = cd_base64 cd (cd_json cd r)"
    by (auto simp: encode_metadata_def result_simps)
  have "0 < length (cd_json cd r)" using assms(2) by simp
  then have "0 < length value" "length value \<le> RELAY_MAX_RECORD_BYTES * 2"
    using assms(4) v(2) unfolding v(3) by linarith+
  then show "decode_metadata cd value = Ok r"
    using enc v assms(1,3) by (auto simp: decode_metadata_def result_simps)
qed

section \<open>Peers\<close>

lemma validate_peer_rows_eq_Ok:
  "validate_peer_rows check seen ps = Inr u \<longleftrightarrow>
     (\<forall>p\<in>set ps. check p = Inr ()) \<and> distinct (map peer_id ps) \<and> peer_id ` set ps \<inter> seen = {}"
  by (induction check seen ps rule: validate_peer_rows.induct) (auto simp: result_simps)

lemma table_peer_iff:
  assumes "distinct (map peer_id (table_peers t))"
  shows "table_peer t i = Some p \<longleftrightarrow> p \<in> set (table_peers t) \<and> peer_id p = i"
  using assms unfolding table_peer_def find_Some_iff
  by (auto simp: in_set_conv_nth distinct_conv_nth)

end
