(* ===== verification/Transport_Laws.thy ===== *)
theory Transport_Laws
  imports Transport Capsule_Laws
begin

text \<open>
  The transcript of an envelope determines the envelope: every part of it is self-delimiting, so
  no field can move its bytes into another. From this follow that a signature covers every
  authenticated field, and that the delivery identity covers all but the retry fields.
\<close>

section \<open>Self-delimiting encodings\<close>

locale self_delimiting =
  fixes enc :: "'a \<Rightarrow> string" and sized :: "'a \<Rightarrow> bool"
  assumes delimited: "sized a \<Longrightarrow> sized b \<Longrightarrow> enc a @ x = enc b @ y \<Longrightarrow> a = b \<and> x = y"
begin

lemma concat_delimited:
  "length xs = length ys \<Longrightarrow> \<forall>a\<in>set xs. sized a \<Longrightarrow> \<forall>b\<in>set ys. sized b \<Longrightarrow>
     concat (map enc xs) @ x = concat (map enc ys) @ y \<Longrightarrow> xs = ys \<and> x = y"
proof (induction xs ys rule: list_induct2)
  case (Cons a xs b ys)
  then have "enc a @ (concat (map enc xs) @ x) = enc b @ (concat (map enc ys) @ y)" by simp
  then have "a = b \<and> concat (map enc xs) @ x = concat (map enc ys) @ y"
    by (intro delimited) (use Cons.prems in auto)
  with Cons show ?case by auto
qed simp

end

lemma length_be_bytes [simp]: "length (be_bytes k v) = k"
  by (induction k arbitrary: v) auto

lemma be_bytes_inject: "v < 256 ^ k \<Longrightarrow> w < 256 ^ k \<Longrightarrow> be_bytes k v = be_bytes k w \<Longrightarrow> v = w"
proof (induction k arbitrary: v w)
  case (Suc k)
  then have "be_bytes k (v div 256) = be_bytes k (w div 256)" "char_of (v mod 256) = (char_of (w mod 256) :: char)"
    by auto
  moreover have "v div 256 < 256 ^ k" "w div 256 < 256 ^ k" using Suc.prems by (auto simp: less_mult_imp_div_less)
  ultimately have "v div 256 = w div 256" "v mod 256 = w mod 256"
    using Suc.IH by (auto dest: arg_cong [where f = "of_char :: char \<Rightarrow> nat"])
  then show ?case by (metis div_mult_mod_eq)
qed simp

abbreviation u64_sized :: "nat \<Rightarrow> bool" where "u64_sized n \<equiv> n < 256 ^ 8"

interpretation field: self_delimiting push_field "\<lambda>s. u64_sized (length s)"
proof
  fix a b x y :: string
  assume "u64_sized (length a)" "u64_sized (length b)" "push_field a @ x = push_field b @ y"
  then have "be_bytes 8 (length a) = be_bytes 8 (length b)" "a @ x = b @ y"
    by (simp_all add: push_field_def append_eq_append_conv)
  moreover from this have "length a = length b"
    using \<open>u64_sized (length a)\<close> \<open>u64_sized (length b)\<close> be_bytes_inject by blast
  ultimately show "a = b \<and> x = y" by simp
qed

interpretation entry: self_delimiting push_entry "\<lambda>(k, v). u64_sized (length k) \<and> u64_sized (length v)"
  by unfold_locales (auto simp: push_entry_def dest!: field.delimited [rotated 2])

interpretation recipient: self_delimiting push_recipient "\<lambda>r. \<forall>s. r = Some s \<longrightarrow> u64_sized (length s)"
proof
  fix a b x y
  assume "\<forall>s. a = Some s \<longrightarrow> u64_sized (length s)" "\<forall>s. b = Some s \<longrightarrow> u64_sized (length s)"
    "push_recipient a @ x = push_recipient b @ y"
  then show "a = b \<and> x = y" by (cases a; cases b) (auto dest: field.delimited [rotated 2])
qed

text \<open>A list behind its count is delimited where its elements are.\<close>

context self_delimiting
begin

lemma list_delimited:
  assumes "u64_sized (length xs)" "u64_sized (length ys)" "\<forall>a\<in>set xs. sized a" "\<forall>b\<in>set ys. sized b"
    and "push_list enc xs @ x = push_list enc ys @ y"
  shows "xs = ys \<and> x = y"
proof -
  have "be_bytes 8 (length xs) = be_bytes 8 (length ys)" "concat (map enc xs) @ x = concat (map enc ys) @ y"
    using assms(5) by (simp_all add: push_list_def push_count_def append_eq_append_conv)
  moreover from this have "length xs = length ys" using assms(1,2) be_bytes_inject by blast
  ultimately show ?thesis using assms(3,4) concat_delimited by blast
qed

end

section \<open>The transcript determines the envelope\<close>

text \<open>No string of a program reaches 2^64 bytes.\<close>

definition envelope_sized :: "(int \<Rightarrow> string) \<Rightarrow> transport_envelope \<Rightarrow> bool" where
  "envelope_sized rfc3339 e \<longleftrightarrow> format_version e < 256 ^ 4
     \<and> (\<forall>s\<in>{id_agent_id (env_sender e), id_agent_type (env_sender e), daemon_fingerprint (env_sender e),
            rfc3339 (sent_at e), payload_json e} \<union> set (capabilities (env_sender e)) \<union> set_option (env_recipient e).
          u64_sized (length s))
     \<and> u64_sized (length (capabilities (env_sender e))) \<and> u64_sized (blen (env_metadata e))
     \<and> (\<forall>k v. bget (env_metadata e) k = Some v \<longrightarrow> u64_sized (length k) \<and> u64_sized (length v))"

text \<open>Two envelopes that differ at most in the order of the capabilities and the signature.\<close>

definition same_authenticated :: "transport_envelope \<Rightarrow> transport_envelope \<Rightarrow> bool" where
  "same_authenticated e e' \<longleftrightarrow> format_version e = format_version e' \<and> sent_at e = sent_at e'
     \<and> id_agent_id (env_sender e) = id_agent_id (env_sender e')
     \<and> id_agent_type (env_sender e) = id_agent_type (env_sender e')
     \<and> daemon_fingerprint (env_sender e) = daemon_fingerprint (env_sender e')
     \<and> mset (capabilities (env_sender e)) = mset (capabilities (env_sender e'))
     \<and> env_recipient e = env_recipient e' \<and> env_content_type e = env_content_type e'
     \<and> payload_json e = payload_json e' \<and> env_metadata e = env_metadata e'"

lemma canonical_capabilities_eq_Ok:
  "canonical_capabilities caps = Inr cs \<longleftrightarrow> [] \<notin> set caps \<and> distinct caps \<and> cs = sort caps"
proof -
  have "length (remdups_adj (sort caps)) = card (set caps)"
    by (metis distinct_card sorted_remdups_adj_strict remdups_adj_set set_sort sorted_sort)
  then have "length (remdups_adj (sort caps)) = length (sort caps) \<longleftrightarrow> distinct caps"
    by (metis card_distinct distinct_card length_sort)
  moreover have "distinct caps \<Longrightarrow> remdups_adj (sort caps) = sort caps"
    by (simp add: remdups_adj_distinct)
  ultimately show ?thesis
    by (auto simp: canonical_capabilities_def Let_def list_ex_iff)
qed


lemma content_type_str_inject: "content_type_str a = content_type_str b \<Longrightarrow> a = b"
  by (cases a; cases b) simp_all

lemma content_type_str_sized: "u64_sized (length (content_type_str a))"
  by (cases a) simp_all

lemma entries_inject: "entries m = entries m' \<Longrightarrow> m = m'"
  by (simp add: entries_inject)

lemma envelope_sizedD:
  assumes "envelope_sized rfc3339 e"
  shows "u64_sized (length (be_bytes 4 (format_version e)))"
    "u64_sized (length (id_agent_id (env_sender e)))" "u64_sized (length (id_agent_type (env_sender e)))"
    "u64_sized (length (daemon_fingerprint (env_sender e)))"
    "u64_sized (length (sort (capabilities (env_sender e))))" "\<forall>c\<in>set (sort (capabilities (env_sender e))). u64_sized (length c)"
    "\<forall>s. env_recipient e = Some s \<longrightarrow> u64_sized (length s)"
    "u64_sized (length (rfc3339 (sent_at e)))" "u64_sized (length (entries (env_metadata e)))"
    "\<forall>p\<in>set (entries (env_metadata e)). case p of (k, v) \<Rightarrow> u64_sized (length k) \<and> u64_sized (length v)"
    "u64_sized (length (payload_json e))" "format_version e < 256 ^ 4"
  using assms by (auto simp: envelope_sized_def blen_def)

text \<open>The fields of the transcript, taken off one by one.\<close>

lemma transcript_fields:
  assumes "envelope_sized rfc3339 e" "envelope_sized rfc3339 e'"
    and "signing_transcript rfc3339 e = Inr t" "signing_transcript rfc3339 e' = Inr t"
  shows "format_version e = format_version e'" "id_agent_id (env_sender e) = id_agent_id (env_sender e')"
    "id_agent_type (env_sender e) = id_agent_type (env_sender e')"
    "daemon_fingerprint (env_sender e) = daemon_fingerprint (env_sender e')"
    "sort (capabilities (env_sender e)) = sort (capabilities (env_sender e'))"
    "env_recipient e = env_recipient e'" "env_content_type e = env_content_type e'"
    "rfc3339 (sent_at e) = rfc3339 (sent_at e')" "env_metadata e = env_metadata e'" "payload_json e = payload_json e'"
proof -
  let ?s = "env_sender e" and ?s' = "env_sender e'"
  note z = envelope_sizedD [OF assms(1)] and z' = envelope_sizedD [OF assms(2)]
  have t: "push_field (be_bytes 4 (format_version e)) @ push_field (id_agent_id ?s) @ push_field (id_agent_type ?s)
      @ push_field (daemon_fingerprint ?s) @ push_list push_field (sort (capabilities ?s))
      @ push_recipient (env_recipient e) @ push_field (content_type_str (env_content_type e))
      @ push_field (rfc3339 (sent_at e)) @ push_list push_entry (entries (env_metadata e)) @ push_field (payload_json e) @ []
    = push_field (be_bytes 4 (format_version e')) @ push_field (id_agent_id ?s') @ push_field (id_agent_type ?s')
      @ push_field (daemon_fingerprint ?s') @ push_list push_field (sort (capabilities ?s'))
      @ push_recipient (env_recipient e') @ push_field (content_type_str (env_content_type e'))
      @ push_field (rfc3339 (sent_at e')) @ push_list push_entry (entries (env_metadata e')) @ push_field (payload_json e') @ []"
    using assms(3,4) by (auto simp: signing_transcript_def ebind_eq_Ok canonical_capabilities_eq_Ok)
  note t1 = field.delimited [OF z(1) z'(1) t]
  note t2 = field.delimited [OF z(2) z'(2) conjunct2 [OF t1]]
  note t3 = field.delimited [OF z(3) z'(3) conjunct2 [OF t2]]
  note t4 = field.delimited [OF z(4) z'(4) conjunct2 [OF t3]]
  note t5 = field.list_delimited [OF z(5) z'(5) z(6) z'(6) conjunct2 [OF t4]]
  note t6 = recipient.delimited [OF z(7) z'(7) conjunct2 [OF t5]]
  note t7 = field.delimited [OF content_type_str_sized content_type_str_sized conjunct2 [OF t6]]
  note t8 = field.delimited [OF z(8) z'(8) conjunct2 [OF t7]]
  note t9 = entry.list_delimited [OF z(9) z'(9) z(10) z'(10) conjunct2 [OF t8]]
  note t10 = field.delimited [OF z(11) z'(11) conjunct2 [OF t9]]
  show "id_agent_id (env_sender e) = id_agent_id (env_sender e')"
    "id_agent_type (env_sender e) = id_agent_type (env_sender e')"
    "daemon_fingerprint (env_sender e) = daemon_fingerprint (env_sender e')"
    "sort (capabilities (env_sender e)) = sort (capabilities (env_sender e'))"
    "env_recipient e = env_recipient e'" "rfc3339 (sent_at e) = rfc3339 (sent_at e')" "payload_json e = payload_json e'"
    using t2 t3 t4 t5 t6 t8 t10 by blast+
  show "format_version e = format_version e'" using be_bytes_inject [OF z(12) z'(12)] t1 by blast
  show "env_content_type e = env_content_type e'" using content_type_str_inject t7 by blast
  show "env_metadata e = env_metadata e'" using entries_inject t9 by blast
qed

lemma same_authenticated_transcript:
  assumes "same_authenticated e e'"
  shows "signing_transcript rfc3339 e = signing_transcript rfc3339 e'"
proof -
  have "canonical_capabilities (capabilities (env_sender e)) = canonical_capabilities (capabilities (env_sender e'))"
    using assms properties_for_sort [of "sort (capabilities (env_sender e))" "capabilities (env_sender e')"]
      mset_eq_setD [of "capabilities (env_sender e)" "capabilities (env_sender e')"]
    by (simp add: canonical_capabilities_def same_authenticated_def list_ex_iff)
  then show ?thesis using assms by (simp add: signing_transcript_def same_authenticated_def)
qed

lemma transcript_same_authenticated:
  assumes "inj rfc3339" "envelope_sized rfc3339 e" "envelope_sized rfc3339 e'"
    and "signing_transcript rfc3339 e = Inr t" "signing_transcript rfc3339 e' = Inr t"
  shows "same_authenticated e e'"
proof -
  note f = transcript_fields [OF assms(2-5)]
  have "sent_at e = sent_at e'" using assms(1) f(8) by (simp add: inj_eq)
  moreover have "mset (capabilities (env_sender e)) = mset (capabilities (env_sender e'))"
    using f(5) by (metis mset_sort)
  ultimately show ?thesis using f by (simp add: same_authenticated_def)
qed

text \<open>
  The signing transcript binds every authenticated field: two envelopes have the same
  transcript exactly when they agree on version, instant, sender identity with its set of
  capabilities, recipient (absent or given), content type, metadata and payload; no choice of
  contents moves bytes from one field to another.
\<close>

theorem transcript_binds:
  assumes "inj rfc3339" "envelope_sized rfc3339 e" "envelope_sized rfc3339 e'" "signing_transcript rfc3339 e = Ok t"
  shows "signing_transcript rfc3339 e' = Ok t \<longleftrightarrow> same_authenticated e e'"
  using transcript_same_authenticated [OF assms] same_authenticated_transcript [of e e' rfc3339] assms(4) by auto


section \<open>Signatures\<close>

text \<open>Without a collision on the two transcripts, equal digests mean equal transcripts.\<close>

lemma unique_preimage:
  assumes "\<And>t'. x = Inr t' \<Longrightarrow> g t = g t' \<Longrightarrow> t = t'"
  shows "(\<exists>t'. x = Inr t' \<and> g t' = g t) \<longleftrightarrow> x = Inr t"
  using assms by (cases x) (auto dest: sym)

lemma byte_word_inject: "byte_word x = byte_word y \<longleftrightarrow> x = y"
proof -
  have "byte_word x = byte_word y \<longleftrightarrow> byte x mod 256 = byte y mod 256"
    by (simp add: byte_word_def word_of_nat_eq_iff take_bit_eq_mod)
  also have "\<dots> \<longleftrightarrow> byte x = byte y"
    using of_char_lt_256 [of x] of_char_lt_256 [of y] by (simp add: byte_def)
  finally show ?thesis by (auto dest: byte_inject)
qed

lemma constant_time_eq_iff: "constant_time_eq a b \<longleftrightarrow> a = b"
proof -
  have xor: "v XOR w = 0 \<longleftrightarrow> v = w" for v w :: "8 word"
  proof
    assume "v XOR w = 0"
    then have "bit (v XOR w) n \<longleftrightarrow> bit (0 :: 8 word) n" for n by (rule arg_cong)
    then have "bit v n \<longleftrightarrow> bit w n" for n by (simp add: bit_xor_iff)
    then show "v = w" by (intro bit_word_eqI) blast
  qed simp
  have "fold (\<lambda>(x, y) diff. diff OR (byte_word x XOR byte_word y)) zs d = 0 \<longleftrightarrow> d = 0 \<and> (\<forall>(x, y)\<in>set zs. x = y)"
    for zs and d
    by (induction zs arbitrary: d) (auto simp: or_eq_0_iff xor byte_word_inject)
  then have "constant_time_eq a b \<longleftrightarrow> length a = length b \<and> (\<forall>(x, y)\<in>set (zip a b). x = y)"
    by (simp add: constant_time_eq_def)
  also have "\<dots> \<longleftrightarrow> list_all2 (=) a b" by (simp add: list_all2_iff)
  also have "\<dots> \<longleftrightarrow> a = b" by (simp add: list_all2_eq [symmetric])
  finally show ?thesis .
qed

lemma hex_encode_props:
  "length (hex_encode bs) = 2 * length bs" "list_all is_ascii_hexdigit (hex_encode bs)" "hex_decode (hex_encode bs) = Some bs"
proof -
  show "length (hex_encode bs) = 2 * length bs" by (induction bs) (simp_all add: hex_encode_def)
  have digit: "is_ascii_hexdigit (hex_lower d)" if "d < 16" for d
    using hex_lower_value(1) [OF that] by (auto simp: hex_value_def is_lower_hex_def is_ascii_hexdigit_def split: if_splits)
  show "list_all is_ascii_hexdigit (hex_encode bs)"
    by (induction bs) (simp_all add: hex_encode_def digit byte_nibbles)
  have pair: "hex_pair (hex_lower (byte b div 16)) (hex_lower (byte b mod 16)) = Some b" for b
    using hex_lower_value byte_nibbles [of b] by (simp add: hex_pair_def) (simp add: byte_def)
  show "hex_decode (hex_encode bs) = Some bs"
    by (induction bs) (simp_all add: hex_encode_def pair)
qed

lemma sign_envelope_eq_Ok:
  assumes "sign_envelope rfc3339 hmac e secret = (Inr u, s)"
  obtains t where "signing_transcript rfc3339 s = Inr t" "env_signature s = Some (hex_encode (hmac secret t))"
    "same_authenticated e s"
  using assms
  by (auto simp: sign_envelope_def compute_hmac_def signing_transcript_def ebind_eq_Ok same_authenticated_def Let_def
      split: sum.splits)

lemma verify_envelope_hex:
  assumes "env_signature e = Some (hex_encode mac)" "mac \<noteq> []"
  shows "verify_envelope rfc3339 hmac e secret \<longleftrightarrow> (\<exists>t. signing_transcript rfc3339 e = Inr t \<and> hmac secret t = mac)"
proof -
  have "hex_encode mac \<noteq> []" using hex_encode_props(1) [of mac] assms(2) by auto
  then show ?thesis
    using assms(1) hex_encode_props [of mac]
    by (auto simp: verify_envelope_def compute_hmac_def constant_time_eq_iff ebind_eq_Ok split: sum.splits)
qed

text \<open>
  C31. An envelope signature is tamper-evident: a signed envelope verifies under the secret it was
  signed with, and another envelope that carries the same signature verifies under it exactly
  when it agrees on every authenticated field, unless its transcript collides under HMAC.
\<close>

theorem envelope_tamper_evident:
  assumes "sign_envelope rfc3339 hmac e secret = (Ok (), s)" "\<forall>t. hmac secret t \<noteq> []"
    and "inj rfc3339" "envelope_sized rfc3339 s" "envelope_sized rfc3339 x" "env_signature x = env_signature s"
    and "\<forall>t t'. signing_transcript rfc3339 s = Ok t \<longrightarrow> signing_transcript rfc3339 x = Ok t' \<longrightarrow>
       hmac secret t = hmac secret t' \<longrightarrow> t = t'"
  shows "verify_envelope rfc3339 hmac s secret \<and> (verify_envelope rfc3339 hmac x secret \<longleftrightarrow> same_authenticated s x)"
proof -
  from assms(1) obtain t where t: "signing_transcript rfc3339 s = Inr t" "env_signature s = Some (hex_encode (hmac secret t))"
    by (elim sign_envelope_eq_Ok)
  have "verify_envelope rfc3339 hmac s secret"
    using verify_envelope_hex [OF t(2)] t(1) assms(2) by blast
  moreover have "verify_envelope rfc3339 hmac x secret \<longleftrightarrow>
      (\<exists>t'. signing_transcript rfc3339 x = Inr t' \<and> hmac secret t' = hmac secret t)"
    using verify_envelope_hex [of x "hmac secret t"] t(2) assms(2,6) by simp
  moreover have "\<dots> \<longleftrightarrow> signing_transcript rfc3339 x = Inr t"
    by (rule unique_preimage) (use assms(7) t(1) in blast)
  moreover have "\<dots> \<longleftrightarrow> same_authenticated s x"
    using transcript_same_authenticated [OF assms(3-5) t(1)] same_authenticated_transcript [of s x rfc3339] t(1) by auto
  ultimately show ?thesis by simp
qed

section \<open>The identity of a delivery\<close>

lemma hex_encode_inject: "hex_encode a = hex_encode b \<Longrightarrow> a = b"
  by (metis hex_encode_props(3) option.inject)

text \<open>
  The delivery identity is stable under retries and nothing else: two envelopes without a relay
  record have the same identity exactly when they agree on everything but the instant, the
  signature and the two legacy aliases, unless their transcripts collide under SHA-256.
\<close>

theorem stable_identity:
  assumes "bget (env_metadata e) RELAY_METADATA_KEY = None" "bget (env_metadata e') RELAY_METADATA_KEY = None"
    and "inj rfc3339" "envelope_sized rfc3339 (stable_envelope e)" "envelope_sized rfc3339 (stable_envelope e')"
    and "stable_delivery_id cd rfc3339 sha256 e = Ok i"
    and "\<forall>t t'. signing_transcript rfc3339 (stable_envelope e) = Ok t \<longrightarrow>
       signing_transcript rfc3339 (stable_envelope e') = Ok t' \<longrightarrow> sha256 t = sha256 t' \<longrightarrow> t = t'"
  shows "stable_delivery_id cd rfc3339 sha256 e' = Ok i \<longleftrightarrow> same_authenticated (stable_envelope e) (stable_envelope e')"
proof -
  from assms(1,6) obtain t where t: "signing_transcript rfc3339 (stable_envelope e) = Inr t" "i = hex_encode (sha256 t)"
    by (auto simp: stable_delivery_id_def envelope_relay_record_def ebind_eq_Ok)
  have "stable_delivery_id cd rfc3339 sha256 e' = Ok i \<longleftrightarrow>
      (\<exists>t'. signing_transcript rfc3339 (stable_envelope e') = Inr t' \<and> sha256 t' = sha256 t)"
    using assms(2) t(2) by (auto simp: stable_delivery_id_def envelope_relay_record_def ebind_eq_Ok dest: hex_encode_inject)
  also have "\<dots> \<longleftrightarrow> signing_transcript rfc3339 (stable_envelope e') = Inr t"
    by (rule unique_preimage) (use assms(7) t(1) in blast)
  also have "\<dots> \<longleftrightarrow> same_authenticated (stable_envelope e) (stable_envelope e')"
    using transcript_same_authenticated [OF assms(3-5) t(1)] same_authenticated_transcript [of "stable_envelope e" "stable_envelope e'" rfc3339] t(1)
    by auto
  finally show ?thesis .
qed

end
