(* ===== verification/Dlq_Laws.thy ===== *)
theory Dlq_Laws
  imports Dlq
begin

text \<open>
  What the dead-letter queue promises: every scope is kept apart from every other, a store stays
  readable and bounded as long as the recorded instants do not run backwards, and a recorded
  failure is found again. An instant that runs backwards makes the store of the scope unreadable.
\<close>

section \<open>Lists\<close>

lemma set_update_first: "set (update_first P f xs) \<subseteq> set xs \<union> f ` {x \<in> set xs. P x}"
  by (induction xs) auto

lemma map_update_first: "(\<And>x. g (f x) = g x) \<Longrightarrow> map g (update_first P f xs) = map g xs"
  by (induction xs) auto

lemma length_update_first [simp]: "length (update_first P f xs) = length xs"
  by (induction xs) auto

lemma update_first_in: "list_ex P xs \<Longrightarrow> \<exists>x\<in>set xs. P x \<and> f x \<in> set (update_first P f xs)"
  by (induction xs) auto

lemma set_remove_first: "set (remove_first P xs) \<subseteq> set xs"
  by (induction xs) auto

lemma distinct_remove_first: "distinct (map g xs) \<Longrightarrow> distinct (map g (remove_first P xs))"
  using set_remove_first [of P] by (induction xs) fastforce+

lemma length_remove_first: "list_ex P xs \<Longrightarrow> Suc (length (remove_first P xs)) = length xs"
  by (induction xs) auto

lemma length_remove_first_le: "length (remove_first P xs) \<le> length xs"
  by (induction xs) auto

lemma evict_oldest_drop: "\<exists>k. snd (evict_oldest env es) = drop k es"
proof (induction es)
  case (Cons l ls)
  then obtain k where k: "snd (evict_oldest env ls) = drop k ls" by blast
  have "l # ls = drop 0 (l # ls)" "drop k ls = drop (Suc k) (l # ls)" by simp_all
  with k show ?case by (metis evict_oldest.simps(2) snd_conv)
qed simp

lemma evict_oldest_last: "es \<noteq> [] \<Longrightarrow> snd (evict_oldest env es) \<noteq> [] \<and> last (snd (evict_oldest env es)) = last es"
  by (induction es) auto

section \<open>Valid letters\<close>

lemma validate_dlq_identifier_eq_Ok [result_simps]:
  "validate_dlq_identifier label v = Inr u \<longleftrightarrow> \<not> is_blank v \<and> length v \<le> MAX_IDENTIFIER_BYTES \<and> CHR 0x00 \<notin> set v"
  by (auto simp: validate_dlq_identifier_def ensure_eq_Ok)

lemma new_dlq_scope_eq_Ok [result_simps]:
  "new_dlq_scope t p = Inr s \<longleftrightarrow> s = \<lparr>dlq_tenant_id = t, dlq_project_id = p\<rparr> \<and> validate_dlq_scope s = Inr ()"
  by (auto simp: new_dlq_scope_def Let_def ebind_eq_Ok)

definition letter_scope :: "dead_letter \<Rightarrow> dlq_scope" where
  "letter_scope l = \<lparr>dlq_tenant_id = dl_tenant_id l, dlq_project_id = dl_project_id l\<rparr>"

lemma in_scope_iff: "in_scope s l \<longleftrightarrow> letter_scope l = s"
  by (cases s) (auto simp: in_scope_def letter_scope_def)

lemma valid_letter_ids: "validate_letter env l = Inr () \<Longrightarrow> dl_peer_id l \<noteq> [] \<and> dl_delivery_id l \<noteq> []"
  by (auto simp: validate_letter_def result_simps)

lemma upgrade_valid: "validate_letter env l = Inr () \<Longrightarrow> upgrade_letter l = l"
  using valid_letter_ids by (simp add: upgrade_letter_def)

lemma valid_letter_scope: "validate_letter env l = Inr () \<Longrightarrow> validate_dlq_scope (letter_scope l) = Inr ()"
  by (auto simp: validate_letter_def letter_scope_def result_simps)

lemma valid_letter_times:
  "validate_letter env l = Inr () \<Longrightarrow> \<exists>t t'. parse_rfc3339 env (first_failed_at l) = Some t
     \<and> parse_rfc3339 env (last_failed_at l) = Some t' \<and> t \<le> t'"
  by (auto simp: validate_letter_def result_simps)

text \<open>What a later failure may change of a valid letter.\<close>

lemma validate_letter_update:
  assumes "validate_letter env l = Inr ()" "e \<noteq> []" "length e \<le> MAX_ERROR_BYTES" "n \<noteq> 0"
    and "parse_rfc3339 env (first_failed_at l) = Some t" "parse_rfc3339 env now = Some t'"
  shows "validate_letter env (l\<lparr>dl_error := e, dl_attempts := n, last_failed_at := now\<rparr>) = Inr () \<longleftrightarrow> t \<le> t'"
  using assms by (auto simp: validate_letter_def result_simps)

lemma valid_letter_error:
  "validate_letter env l = Inr () \<Longrightarrow> dl_error l \<noteq> [] \<and> length (dl_error l) \<le> MAX_ERROR_BYTES \<and> dl_attempts l \<noteq> 0"
  by (auto simp: validate_letter_def result_simps)

section \<open>Loading what was saved\<close>

definition delivery_key :: "dead_letter \<Rightarrow> string \<times> string" where
  "delivery_key l = (dl_peer_id l, dl_delivery_id l)"

definition letters_ok :: "dlq_env \<Rightarrow> dlq_scope \<Rightarrow> dead_letter list \<Rightarrow> bool" where
  "letters_ok env s es \<longleftrightarrow> (\<forall>l\<in>set es. validate_letter env l = Inr () \<and> letter_scope l = s)
     \<and> length es \<le> MAX_ENTRIES_PER_SCOPE \<and> distinct (map delivery_key es)"

definition saved_file :: "dlq_env \<Rightarrow> dead_letter list \<Rightarrow> dlq_file" where
  "saved_file env es = \<lparr>file_len = store_json_len env es, file_store = Some \<lparr>dlq_version = STORE_VERSION, dlq_entries = es\<rparr>\<rparr>"

lemma load_letters_valid:
  "\<forall>l\<in>set es. validate_letter env l = Inr () \<and> letter_scope l = s \<Longrightarrow> load_letters env (Some s) es = Inr es"
  by (induction es) (simp_all add: upgrade_valid [of env] in_scope_iff)

lemma load_valid_letters:
  "load_letters env (Some s) ls = Inr es \<Longrightarrow> \<forall>l\<in>set ls. validate_letter env l = Inr () \<Longrightarrow>
   es = ls \<and> (\<forall>l\<in>set ls. letter_scope l = s)"
  by (induction ls arbitrary: es) (auto simp: result_simps in_scope_iff upgrade_valid [of env])

lemma load_saved_file:
  "letters_ok env s es \<Longrightarrow> store_json_len env es \<le> MAX_STORE_BYTES \<Longrightarrow>
   load_store env (Some (saved_file env es)) (Some s) = Inr \<lparr>dlq_version = STORE_VERSION, dlq_entries = es\<rparr>"
  by (simp add: load_store_def saved_file_def letters_ok_def load_letters_valid)

definition file_ok :: "dlq_env \<Rightarrow> string \<Rightarrow> dlq_file \<Rightarrow> bool" where
  "file_ok env name f \<longleftrightarrow> (\<exists>s es. validate_dlq_scope s = Inr () \<and> name = scope_store_path env s
     \<and> f = saved_file env es \<and> letters_ok env s es \<and> store_json_len env es \<le> MAX_STORE_BYTES)"

definition files_ok :: "dlq_env \<Rightarrow> (string, dlq_file) btree_map \<Rightarrow> bool" where
  "files_ok env files \<longleftrightarrow> (\<forall>name f. bget files name = Some f \<longrightarrow> file_ok env name f)"

text \<open>What is loaded for a scope is a well-formed store of that scope, also if another scope has the file.\<close>

lemma files_ok_load:
  assumes "files_ok env files" "load_store env (bget files (scope_store_path env s)) (Some s) = Inr st"
  shows "letters_ok env s (dlq_entries st)" "dlq_version st = STORE_VERSION"
proof -
  have "letters_ok env s (dlq_entries st) \<and> dlq_version st = STORE_VERSION"
  proof (cases "bget files (scope_store_path env s)")
    case (Some f)
    with assms(1) have "file_ok env (scope_store_path env s) f" by (simp add: files_ok_def)
    then obtain s' es where es: "f = saved_file env es" "letters_ok env s' es"
      by (auto simp: file_ok_def)
    with assms(2) Some have load: "load_letters env (Some s) es = Inr (dlq_entries st)" and v: "dlq_version st = STORE_VERSION"
      by (auto simp: load_store_def saved_file_def result_simps)
    from load_valid_letters [OF load] es(2) v show ?thesis by (auto simp: letters_ok_def)
  qed (use assms(2) in \<open>auto simp: load_store_def default_dlq_def letters_ok_def\<close>)
  then show "letters_ok env s (dlq_entries st)" "dlq_version st = STORE_VERSION" by simp_all
qed

lemma with_entries_durable:
  assumes "files_ok env files" "validate_dlq_scope s = Inr ()"
    and "\<And>es r es'. load_store env (bget files (scope_store_path env s)) (Some s) = Inr \<lparr>dlq_version = STORE_VERSION, dlq_entries = es\<rparr> \<Longrightarrow>
      letters_ok env s es \<Longrightarrow> operation es = (Inr r, es') \<Longrightarrow> letters_ok env s es'"
  shows "\<exists>files'. snd (with_entries env (Some s) True operation (DurableQueue files)) = DurableQueue files' \<and> files_ok env files'"
proof (cases "load_store env (bget files (scope_store_path env s)) (Some s)")
  case (Inr st)
  note ok = files_ok_load [OF assms(1) Inr]
  obtain r es' where op: "operation (dlq_entries st) = (r, es')" by fastforce
  have st: "st = \<lparr>dlq_version = STORE_VERSION, dlq_entries = dlq_entries st\<rparr>" using ok(2) by (cases st) simp
  show ?thesis
  proof (cases r)
    case (Inr x)
    then have "letters_ok env s es'" using assms(3) ok(1) op st Inr \<open>load_store _ _ _ = Inr st\<close> by metis
    then have "file_ok env (scope_store_path env s) (saved_file env es')" if "store_json_len env es' \<le> MAX_STORE_BYTES"
      using that assms(2) by (auto simp: file_ok_def)
    moreover have "st\<lparr>dlq_entries := es'\<rparr> = \<lparr>dlq_version = STORE_VERSION, dlq_entries = es'\<rparr>" using ok(2) by (cases st) simp
    ultimately show ?thesis
      using assms(1) op Inr \<open>load_store _ _ _ = Inr st\<close>
      by (auto simp: with_entries_def save_store_def files_ok_def saved_file_def ensure_def split: if_splits)
  qed (use assms(1) op Inr in \<open>auto simp: with_entries_def\<close>)
qed (use assms(1) in \<open>simp add: with_entries_def\<close>)

section \<open>The invariant of the operations\<close>

lemma letters_ok_sub:
  assumes "letters_ok env s es" "set es' \<subseteq> set es" "length es' \<le> length es" "distinct (map delivery_key es')"
  shows "letters_ok env s es'"
  using assms by (auto simp: letters_ok_def)

lemma letters_ok_remove_first: "letters_ok env s es \<Longrightarrow> letters_ok env s (remove_first P es)"
  by (rule letters_ok_sub)
    (auto simp: letters_ok_def length_remove_first_le distinct_remove_first dest: set_remove_first [THEN subsetD])

lemma letters_ok_drop: "letters_ok env s es \<Longrightarrow> letters_ok env s (drop k es)"
  by (rule letters_ok_sub) (auto simp: letters_ok_def simp flip: drop_map dest: in_set_dropD)

lemma letters_ok_update_first:
  assumes "letters_ok env s es" "\<And>l. delivery_key (f l) = delivery_key l" "\<And>l. letter_scope (f l) = letter_scope l"
    and "\<And>l. l \<in> set es \<Longrightarrow> P l \<Longrightarrow> validate_letter env (f l) = Inr ()"
  shows "letters_ok env s (update_first P f es)"
  using assms set_update_first [of P f es] by (fastforce simp: letters_ok_def map_update_first)

text \<open>
  The instant an operation records is not before the first failure of the letter it concerns.
\<close>

definition not_before :: "dlq_env \<Rightarrow> string \<Rightarrow> dead_letter \<Rightarrow> bool" where
  "not_before env now l \<longleftrightarrow> (\<exists>t t'. parse_rfc3339 env (first_failed_at l) = Some t
     \<and> parse_rfc3339 env now = Some t' \<and> t \<le> t')"

lemma validate_letter_later:
  assumes "validate_letter env l = Inr ()" "e \<noteq> []" "length e \<le> MAX_ERROR_BYTES" "n \<noteq> 0" "not_before env now l"
  shows "validate_letter env (l\<lparr>dl_error := e, dl_attempts := n, last_failed_at := now\<rparr>) = Inr ()"
  using assms validate_letter_update unfolding not_before_def by blast

lemma same_delivery_iff: "same_delivery a b \<longleftrightarrow> delivery_key a = delivery_key b \<and> letter_scope a = letter_scope b"
  by (auto simp: same_delivery_def delivery_key_def letter_scope_def)

lemma letters_ok_enqueue:
  assumes "letters_ok env s es" "validate_letter env letter = Inr ()" "letter_scope letter = s"
    and "\<forall>l\<in>set es. same_delivery l letter \<longrightarrow> not_before env (last_failed_at letter) l"
  shows "letters_ok env s (snd (enqueue_entries env letter es))"
proof (cases "list_ex (\<lambda>e. same_delivery e letter) es")
  case True
  have "validate_letter env (failed_again letter l) = Inr ()" if "l \<in> set es" "same_delivery l letter" for l
    using assms(1,4) that valid_letter_error [OF assms(2)] unfolding failed_again_def
    by (intro validate_letter_later) (auto simp: letters_ok_def)
  then have "letters_ok env s (update_first (\<lambda>e. same_delivery e letter) (failed_again letter) es)"
    using assms(1) by (intro letters_ok_update_first) (simp_all add: delivery_key_def letter_scope_def failed_again_def)
  with True show ?thesis by (simp add: enqueue_entries_def)
next
  case False
  let ?P = "\<lambda>e. dl_tenant_id e = dl_tenant_id letter \<and> dl_project_id e = dl_project_id letter"
  define es1 where "es1 = (if MAX_ENTRIES_PER_SCOPE \<le> length (filter ?P es) then remove_first ?P es else es)"
  have all: "?P l" if "l \<in> set es" for l using assms(1,3) that by (auto simp: letters_ok_def letter_scope_def)
  have ok1: "letters_ok env s es1" using assms(1) by (simp add: es1_def letters_ok_remove_first)
  have "length (filter ?P es) = length es" using all by (simp add: filter_id_conv)
  then have "length es1 < MAX_ENTRIES_PER_SCOPE"
    using assms(1) all length_remove_first [of ?P es]
    by (cases es) (auto simp: es1_def letters_ok_def MAX_ENTRIES_PER_SCOPE_def list_ex_iff split: if_splits)
  moreover have "delivery_key letter \<notin> delivery_key ` set es1"
  proof
    assume "delivery_key letter \<in> delivery_key ` set es1"
    then obtain l where "l \<in> set es" "delivery_key l = delivery_key letter"
      using set_remove_first [of ?P es] by (auto simp: es1_def split: if_splits)
    with False assms(1,3) show False by (auto simp: list_ex_iff same_delivery_iff letters_ok_def)
  qed
  ultimately have "letters_ok env s (es1 @ [letter])"
    using ok1 assms(2,3) by (auto simp: letters_ok_def)
  moreover have "snd (enqueue_entries env letter es) = snd (evict_oldest env (es1 @ [letter]))"
    using False by (simp add: enqueue_entries_def Let_def es1_def)
  ultimately show ?thesis using evict_oldest_drop [of env "es1 @ [letter]"] letters_ok_drop by metis
qed

lemma letters_ok_retry:
  assumes "letters_ok env s es" "\<forall>l\<in>set es. dl_id l = i \<longrightarrow> not_before env now l"
  shows "letters_ok env s (snd (retry_entries resend now i es))"
proof -
  have "validate_letter env (l\<lparr>dl_attempts := saturating_add u8_max (dl_attempts l) 1, last_failed_at := now\<rparr>) = Inr ()"
    if "l \<in> set es" "dl_id l = i" for l
  proof -
    have v: "validate_letter env l = Inr ()" using assms(1) that by (simp add: letters_ok_def)
    have "saturating_add u8_max (dl_attempts l) 1 \<noteq> 0" by (simp add: saturating_add_def u8_max_def)
    from validate_letter_later [OF v _ _ this, of "dl_error l" now] valid_letter_error [OF v] assms(2) that
    show ?thesis by simp
  qed
  then have "letters_ok env s (update_first (\<lambda>l. dl_id l = i)
      (\<lambda>l. l\<lparr>dl_attempts := saturating_add u8_max (dl_attempts l) 1, last_failed_at := now\<rparr>) es)"
    using assms(1) by (intro letters_ok_update_first) (simp_all add: delivery_key_def letter_scope_def)
  with assms(1) show ?thesis
    by (auto simp: retry_entries_def letters_ok_remove_first split: option.splits sum.splits)
qed

section \<open>Reachable queues\<close>

datatype dlq_operation =
    EnqueueLetter dead_letter
  | DequeueLetter dlq_scope string
  | RetryLetter "dead_letter \<Rightarrow> string + unit" string dlq_scope string

fun dlq_perform :: "dlq_env \<Rightarrow> dlq_operation \<Rightarrow> queue_backend \<Rightarrow> queue_backend" where
  "dlq_perform env (EnqueueLetter l) q = snd (enqueue_letter env l q)"
| "dlq_perform env (DequeueLetter s i) q = snd (dequeue_letter env s i q)"
| "dlq_perform env (RetryLetter resend now s i) q = snd (retry_letter env resend now s i q)"

definition stored_letters :: "(string, dlq_file) btree_map \<Rightarrow> dead_letter set" where
  "stored_letters files = {l. \<exists>name f st. bget files name = Some f \<and> file_store f = Some st \<and> l \<in> set (dlq_entries st)}"

fun records_forward :: "dlq_env \<Rightarrow> dlq_operation \<Rightarrow> dead_letter set \<Rightarrow> bool" where
  "records_forward env (EnqueueLetter x) ls \<longleftrightarrow> (\<forall>l\<in>ls. same_delivery l x \<longrightarrow> not_before env (last_failed_at x) l)"
| "records_forward env (DequeueLetter s i) ls \<longleftrightarrow> True"
| "records_forward env (RetryLetter resend now s i) ls \<longleftrightarrow> (\<forall>l\<in>ls. dl_id l = i \<longrightarrow> not_before env now l)"

lemma loaded_stored:
  assumes "files_ok env files" "load_store env (bget files (scope_store_path env s)) (Some s) = Inr st"
  shows "set (dlq_entries st) \<subseteq> stored_letters files"
proof (cases "bget files (scope_store_path env s)")
  case (Some f)
  with assms(1) have "file_ok env (scope_store_path env s) f" by (simp add: files_ok_def)
  then obtain s' es where f: "f = saved_file env es" "letters_ok env s' es" by (auto simp: file_ok_def)
  with assms(2) Some have "load_letters env (Some s) es = Inr (dlq_entries st)"
    by (auto simp: load_store_def saved_file_def result_simps)
  from load_valid_letters [OF this] f(2) have "dlq_entries st = es" by (auto simp: letters_ok_def)
  with Some f(1) have "bget files (scope_store_path env s) = Some f"
    "file_store f = Some \<lparr>dlq_version = STORE_VERSION, dlq_entries = dlq_entries st\<rparr>" by (simp_all add: saved_file_def)
  then show ?thesis unfolding stored_letters_def by fastforce
qed (use assms(2) in \<open>auto simp: load_store_def default_dlq_def\<close>)

lemma files_ok_perform:
  assumes "files_ok env files" "records_forward env op (stored_letters files)"
  shows "\<exists>files'. dlq_perform env op (DurableQueue files) = DurableQueue files' \<and> files_ok env files'"
proof (cases op)
  case (EnqueueLetter x)
  show ?thesis
  proof (cases "validate_letter env x")
    case (Inr u)
    then have v: "validate_letter env x = Inr ()" by simp
    have s: "new_dlq_scope (dl_tenant_id x) (dl_project_id x) = Inr (letter_scope x)"
      using valid_letter_scope [OF v] by (simp add: new_dlq_scope_eq_Ok letter_scope_def)
    have "\<exists>files'. snd (with_entries env (Some (letter_scope x)) True (enqueue_entries env x) (DurableQueue files)) = DurableQueue files'
        \<and> files_ok env files'"
    proof (rule with_entries_durable [OF assms(1) valid_letter_scope [OF v]])
      fix es r es'
      assume "letters_ok env (letter_scope x) es" "enqueue_entries env x es = (Inr r, es')"
        and "load_store env (bget files (scope_store_path env (letter_scope x))) (Some (letter_scope x))
          = Inr \<lparr>dlq_version = STORE_VERSION, dlq_entries = es\<rparr>"
      then show "letters_ok env (letter_scope x) es'"
        using letters_ok_enqueue [of env "letter_scope x" es x] v assms(2) EnqueueLetter loaded_stored [OF assms(1)] by fastforce
    qed
    then show ?thesis using EnqueueLetter v s by (simp add: enqueue_letter_def)
  qed (use assms(1) EnqueueLetter in \<open>simp add: enqueue_letter_def\<close>)
next
  case (DequeueLetter s i)
  show ?thesis
  proof (cases "ebind (validate_dlq_scope s) (\<lambda>_. validate_dlq_identifier ''id'' i)")
    case (Inr u)
    then have v: "validate_dlq_scope s = Inr ()" by (auto simp: ebind_eq_Ok)
    from with_entries_durable [OF assms(1) v, of "\<lambda>es. (Ok (find (\<lambda>l. dl_id l = i \<and> in_scope s l) es),
        remove_first (\<lambda>l. dl_id l = i \<and> in_scope s l) es)"]
    show ?thesis using DequeueLetter Inr by (auto simp: dequeue_letter_def letters_ok_remove_first)
  qed (use assms(1) DequeueLetter in \<open>simp add: dequeue_letter_def\<close>)
next
  case (RetryLetter resend now s i)
  show ?thesis
  proof (cases "ebind (validate_dlq_scope s) (\<lambda>_. validate_dlq_identifier ''id'' i)")
    case (Inr u)
    then have v: "validate_dlq_scope s = Inr ()" by (auto simp: ebind_eq_Ok)
    have "\<exists>files'. snd (with_entries env (Some s) True (retry_entries resend now i) (DurableQueue files)) = DurableQueue files'
        \<and> files_ok env files'"
    proof (rule with_entries_durable [OF assms(1) v])
      fix es r es'
      assume "letters_ok env s es" "retry_entries resend now i es = (Inr r, es')"
        and "load_store env (bget files (scope_store_path env s)) (Some s) = Inr \<lparr>dlq_version = STORE_VERSION, dlq_entries = es\<rparr>"
      then show "letters_ok env s es'"
        using letters_ok_retry [of env s es i now resend] assms(2) RetryLetter loaded_stored [OF assms(1)] by fastforce
    qed
    then show ?thesis
      using RetryLetter Inr by (auto simp: retry_letter_def split: prod.splits sum.splits option.splits)
  qed (use assms(1) RetryLetter in \<open>simp add: retry_letter_def\<close>)
qed

text \<open>Queues that start empty and grow by operations whose instants do not run backwards.\<close>

definition dlq_step :: "dlq_env \<Rightarrow> queue_backend \<Rightarrow> queue_backend \<Rightarrow> bool" where
  "dlq_step env q q' \<longleftrightarrow> (\<exists>op files. q = DurableQueue files \<and> records_forward env op (stored_letters files)
     \<and> q' = dlq_perform env op q)"

definition dlq_inv :: "dlq_env \<Rightarrow> queue_backend \<Rightarrow> bool" where
  "dlq_inv env q \<longleftrightarrow> (\<exists>files. q = DurableQueue files \<and> files_ok env files)"

interpretation dq: invariant_machine "\<lambda>q. q = DurableQueue bempty" "dlq_step env" "dlq_inv env"
proof (unfold_locales, goal_cases)
  case (2 q q')
  then show ?case using files_ok_perform by (fastforce simp: dlq_step_def dlq_inv_def)
qed (simp add: dlq_inv_def files_ok_def)

section \<open>Scopes\<close>

definition scope_material :: "dlq_scope \<Rightarrow> string" where
  "scope_material s = dlq_tenant_id s @ CHR 0x00 # dlq_project_id s"

text \<open>Identifiers hold no NUL, so the separator tells tenant from project.\<close>

lemma split_at_separator:
  assumes "a @ c # x = b @ c # y" "c \<notin> set a" "c \<notin> set b"
  shows "a = b \<and> x = y"
  using assms
proof (induction a arbitrary: b)
  case Nil
  then show ?case by (cases b) auto
next
  case (Cons z a)
  then show ?case by (cases b) auto
qed

lemma scope_material_inject:
  assumes "validate_dlq_scope s = Inr ()" "validate_dlq_scope s' = Inr ()" "scope_material s = scope_material s'"
  shows "s = s'"
proof -
  have nul: "CHR 0x00 \<notin> set (dlq_tenant_id s)" "CHR 0x00 \<notin> set (dlq_tenant_id s')"
    using assms(1,2) by (auto simp: validate_dlq_scope_def result_simps)
  have "dlq_tenant_id s = dlq_tenant_id s' \<and> dlq_project_id s = dlq_project_id s'"
    by (rule split_at_separator [OF _ nul]) (use assms(3) in \<open>simp add: scope_material_def\<close>)
  then show ?thesis by simp
qed

lemma distinct_store_paths:
  assumes "validate_dlq_scope s = Inr ()" "validate_dlq_scope s' = Inr ()" "s \<noteq> s'"
    and "blake3_hex env (scope_material s) = blake3_hex env (scope_material s') \<longrightarrow> scope_material s = scope_material s'"
  shows "scope_store_path env s \<noteq> scope_store_path env s'"
  using assms scope_material_inject by (auto simp: scope_store_path_def scope_material_def)

fun operation_scope :: "dlq_operation \<Rightarrow> dlq_scope" where
  "operation_scope (EnqueueLetter l) = letter_scope l"
| "operation_scope (DequeueLetter s i) = s"
| "operation_scope (RetryLetter resend now s i) = s"

lemma with_entries_touches:
  "\<exists>files'. snd (with_entries env (Some s) mutating operation (DurableQueue files)) = DurableQueue files'
     \<and> (\<forall>name. name \<noteq> scope_store_path env s \<longrightarrow> bget files' name = bget files name)"
  by (auto simp: with_entries_def split: sum.splits prod.splits)

lemma dlq_perform_touches:
  "\<exists>files'. dlq_perform env op (DurableQueue files) = DurableQueue files'
     \<and> (\<forall>name. name \<noteq> scope_store_path env (operation_scope op) \<longrightarrow> bget files' name = bget files name)"
proof (cases op)
  case (EnqueueLetter x)
  then show ?thesis
    using with_entries_touches [of env "letter_scope x" True "enqueue_entries env x" files]
    by (auto simp: enqueue_letter_def letter_scope_def result_simps split: sum.splits)
next
  case (DequeueLetter s i)
  then show ?thesis
    using with_entries_touches [of env s True _ files] by (auto simp: dequeue_letter_def split: sum.splits)
next
  case (RetryLetter resend now s i)
  then show ?thesis
    using with_entries_touches [of env s True "retry_entries resend now i" files]
    by (auto simp: retry_letter_def split: sum.splits prod.splits option.splits)
qed

text \<open>
  Dead letters are kept apart by tenant and project: whatever an operation on one scope does,
  and whatever the store files hold, every other valid scope lists the same letters and is as
  writable as before, unless BLAKE3 collides on the two scopes.
\<close>

theorem dlq_scopes_isolated:
  assumes "validate_dlq_scope (operation_scope op) = Ok ()" "validate_dlq_scope s = Ok ()" "s \<noteq> operation_scope op"
    and "blake3_hex env (scope_material (operation_scope op)) = blake3_hex env (scope_material s) \<longrightarrow>
      scope_material (operation_scope op) = scope_material s"
  shows "peek_letters env s (dlq_perform env op (DurableQueue files)) = peek_letters env s (DurableQueue files)
    \<and> ensure_writable env s (dlq_perform env op (DurableQueue files)) = ensure_writable env s (DurableQueue files)"
proof -
  obtain files' where f: "dlq_perform env op (DurableQueue files) = DurableQueue files'"
    "\<And>name. name \<noteq> scope_store_path env (operation_scope op) \<Longrightarrow> bget files' name = bget files name"
    using dlq_perform_touches by blast
  have "scope_store_path env s \<noteq> scope_store_path env (operation_scope op)"
    using distinct_store_paths [OF assms(1,2) _ assms(4)] assms(3) by auto
  then have "bget files' (scope_store_path env s) = bget files (scope_store_path env s)" by (rule f(2))
  then show ?thesis by (simp add: f(1) peek_letters_def ensure_writable_def with_entries_def split: sum.splits)
qed

section \<open>What a scope lists\<close>

lemma filter_in_scope: "letters_ok env s es \<Longrightarrow> filter (in_scope s) es = es"
  by (auto simp: letters_ok_def in_scope_iff filter_id_conv)

lemma peek_loaded:
  assumes "files_ok env files" "validate_dlq_scope s = Inr ()"
    and "load_store env (bget files (scope_store_path env s)) (Some s) = Inr st"
  shows "peek_letters env s (DurableQueue files) = Inr (dlq_entries st)" "ensure_writable env s (DurableQueue files) = Inr ()"
  using assms filter_in_scope [OF files_ok_load(1) [OF assms(1,3)]]
  by (simp_all add: peek_letters_def ensure_writable_def with_entries_def)

lemma files_ok_loads:
  assumes "files_ok env files" "validate_dlq_scope s = Inr ()"
    and "\<forall>s'. validate_dlq_scope s' = Inr () \<longrightarrow> blake3_hex env (scope_material s') = blake3_hex env (scope_material s)
       \<longrightarrow> scope_material s' = scope_material s"
  shows "\<exists>st. load_store env (bget files (scope_store_path env s)) (Some s) = Inr st"
proof (cases "bget files (scope_store_path env s)")
  case (Some f)
  with assms(1) have "file_ok env (scope_store_path env s) f" by (simp add: files_ok_def)
  then obtain s' es where f: "validate_dlq_scope s' = Inr ()" "scope_store_path env s = scope_store_path env s'"
    "f = saved_file env es" "letters_ok env s' es" "store_json_len env es \<le> MAX_STORE_BYTES" by (auto simp: file_ok_def)
  have "s' = s"
  proof (rule ccontr)
    assume "s' \<noteq> s"
    from distinct_store_paths [OF f(1) assms(2) this] assms(3) f(1) have "scope_store_path env s' \<noteq> scope_store_path env s" by simp
    with f(2) show False by simp
  qed
  then show ?thesis using Some f(3-5) load_saved_file by metis
qed (simp add: load_store_def)

text \<open>
  C34. A dead-letter queue stays readable and bounded: after any operations whose recorded instants
  do not precede the first failure of the letter they concern, every valid scope whose file name
  collides with that of no other scope under BLAKE3 is writable and lists at most 1000 letters, all of that scope, all valid, no two for the same delivery to the
  same peer.
\<close>

theorem dlq_stays_readable:
  assumes "reaches (\<lambda>q. q = DurableQueue bempty) (dlq_step env) q" "validate_dlq_scope s = Ok ()"
    and "\<forall>s'. validate_dlq_scope s' = Ok () \<longrightarrow> blake3_hex env (scope_material s') = blake3_hex env (scope_material s)
       \<longrightarrow> scope_material s' = scope_material s"
  shows "ensure_writable env s q = Ok () \<and> (\<exists>ls. peek_letters env s q = Ok ls \<and> length ls \<le> 1000
    \<and> (\<forall>l\<in>set ls. validate_letter env l = Ok () \<and> in_scope s l)
    \<and> distinct (map (\<lambda>l. (dl_peer_id l, dl_delivery_id l)) ls))"
proof -
  have "dlq_inv env q" by (rule dq.reachable_inv) fact
  then obtain files where q: "q = DurableQueue files" "files_ok env files" by (auto simp: dlq_inv_def)
  from files_ok_loads [OF q(2) assms(2,3)] obtain st
    where st: "load_store env (bget files (scope_store_path env s)) (Some s) = Inr st" by blast
  note peek = peek_loaded [OF q(2) assms(2) st]
  have "letters_ok env s (dlq_entries st)" by (rule files_ok_load [OF q(2) st])
  then have "length (dlq_entries st) \<le> 1000" "\<forall>l\<in>set (dlq_entries st). validate_letter env l = Ok () \<and> in_scope s l"
    "distinct (map (\<lambda>l. (dl_peer_id l, dl_delivery_id l)) (dlq_entries st))"
    by (simp_all add: letters_ok_def in_scope_iff MAX_ENTRIES_PER_SCOPE_def delivery_key_def [abs_def])
  with peek q(1) show ?thesis by blast
qed

section \<open>Recording a failure\<close>

lemma enqueue_letter_Ok:
  assumes "enqueue_letter env x (DurableQueue files) = (Inr u, q')" "files_ok env files"
  obtains es es' where "validate_letter env x = Inr ()"
    "load_store env (bget files (scope_store_path env (letter_scope x))) (Some (letter_scope x))
       = Inr \<lparr>dlq_version = STORE_VERSION, dlq_entries = es\<rparr>"
    "letters_ok env (letter_scope x) es" "enqueue_entries env x es = (Inr (), es')"
    "store_json_len env es' \<le> MAX_STORE_BYTES"
    "q' = DurableQueue (binsert (scope_store_path env (letter_scope x)) (saved_file env es') files)"
proof -
  let ?s = "letter_scope x"
  from assms(1) have v: "validate_letter env x = Inr ()"
    and w: "with_entries env (Some ?s) True (enqueue_entries env x) (DurableQueue files) = (Inr u, q')"
    by (auto simp: enqueue_letter_def letter_scope_def result_simps split: sum.splits)
  from w obtain st where st: "load_store env (bget files (scope_store_path env ?s)) (Some ?s) = Inr st"
    by (cases "load_store env (bget files (scope_store_path env ?s)) (Some ?s)") (auto simp: with_entries_def)
  note ok = files_ok_load [OF assms(2) st]
  obtain r es' where op: "enqueue_entries env x (dlq_entries st) = (r, es')" by fastforce
  have "st\<lparr>dlq_entries := es'\<rparr> = \<lparr>dlq_version = STORE_VERSION, dlq_entries = es'\<rparr>" using ok(2) by (cases st) simp
  with w st op have "r = Inr ()" "store_json_len env es' \<le> MAX_STORE_BYTES"
    "q' = DurableQueue (binsert (scope_store_path env ?s) (saved_file env es') files)"
    by (cases r; auto simp: with_entries_def save_store_def saved_file_def ensure_def split: if_splits)+
  moreover have "st = \<lparr>dlq_version = STORE_VERSION, dlq_entries = dlq_entries st\<rparr>" using ok(2) by (cases st) simp
  ultimately show thesis using that v st ok(1) op by metis
qed

lemma enqueue_entries_keeps:
  assumes "enqueue_entries env x es = (r, es')"
  shows "\<exists>l\<in>set es'. same_delivery l x \<and> dl_error l = dl_error x \<and> last_failed_at l = last_failed_at x
    \<and> dl_attempts x \<le> dl_attempts l"
proof (cases "list_ex (\<lambda>e. same_delivery e x) es")
  case True
  with assms have "es' = update_first (\<lambda>e. same_delivery e x) (failed_again x) es" by (simp add: enqueue_entries_def)
  moreover obtain l where "same_delivery l x" "failed_again x l \<in> set (update_first (\<lambda>e. same_delivery e x) (failed_again x) es)"
    using update_first_in [OF True] by blast
  ultimately show ?thesis by (intro bexI [of _ "failed_again x l"]) (auto simp: failed_again_def same_delivery_def)
next
  case False
  let ?P = "\<lambda>e. dl_tenant_id e = dl_tenant_id x \<and> dl_project_id e = dl_project_id x"
  define kept where "kept = (if MAX_ENTRIES_PER_SCOPE \<le> length (filter ?P es) then remove_first ?P es else es)"
  have "enqueue_entries env x es = evict_oldest env (kept @ [x])"
    using False by (simp add: enqueue_entries_def kept_def Let_def)
  with assms have "snd (evict_oldest env (kept @ [x])) = es'" by simp
  with evict_oldest_last [of "kept @ [x]" env] have "es' \<noteq> []" "last es' = x" by simp_all
  then have "x \<in> set es'" using last_in_set by blast
  then show ?thesis by (auto simp: same_delivery_def)
qed

text \<open>
  A recorded failure is found again: when the queue accepted a dead letter, its scope lists a
  letter of that delivery with the error, the instant and at least the attempts just recorded,
  whatever had to make room for it.
\<close>

theorem dead_letter_kept:
  assumes "reaches (\<lambda>q. q = DurableQueue bempty) (dlq_step env) (DurableQueue files)"
    and "records_forward env (EnqueueLetter x) (stored_letters files)"
    and "enqueue_letter env x (DurableQueue files) = (Ok (), q')"
  shows "\<exists>ls. peek_letters env (letter_scope x) q' = Ok ls \<and> (\<exists>l\<in>set ls. same_delivery l x \<and> dl_error l = dl_error x
    \<and> last_failed_at l = last_failed_at x \<and> dl_attempts x \<le> dl_attempts l)"
proof -
  have "dlq_inv env (DurableQueue files)" by (rule dq.reachable_inv) fact
  then have ok: "files_ok env files" by (simp add: dlq_inv_def)
  let ?p = "scope_store_path env (letter_scope x)"
  from assms(3) ok obtain es es' where e: "validate_letter env x = Inr ()"
    "load_store env (bget files ?p) (Some (letter_scope x)) = Inr \<lparr>dlq_version = STORE_VERSION, dlq_entries = es\<rparr>"
    "letters_ok env (letter_scope x) es" "enqueue_entries env x es = (Inr (), es')"
    "store_json_len env es' \<le> MAX_STORE_BYTES" "q' = DurableQueue (binsert ?p (saved_file env es') files)"
    by (elim enqueue_letter_Ok)
  have "letters_ok env (letter_scope x) es'"
    using letters_ok_enqueue [OF e(3,1) refl] assms(2) loaded_stored [OF ok e(2)] e(4) by auto
  then have "peek_letters env (letter_scope x) q' = Inr es'"
    using load_saved_file [of env "letter_scope x" es'] e(5,6) filter_in_scope valid_letter_scope [OF e(1)]
    by (simp add: peek_letters_def with_entries_def)
  then show ?thesis using enqueue_entries_keeps [OF e(4)] by blast
qed

section \<open>An instant that runs backwards\<close>

lemma load_letters_invalid:
  "l \<in> set ls \<Longrightarrow> validate_letter env (upgrade_letter l) = Inl e \<Longrightarrow> \<exists>e'. load_letters env s ls = Inl e'"
  by (induction ls) (auto simp: ebind_def split: sum.splits)

lemma unreadable_unchanged:
  assumes "load_store env (bget files (scope_store_path env (operation_scope op))) (Some (operation_scope op)) = Inl e"
  shows "dlq_perform env op (DurableQueue files) = DurableQueue files"
  using assms
  by (cases op) (auto simp: enqueue_letter_def dequeue_letter_def retry_letter_def with_entries_def letter_scope_def
      result_simps split: sum.splits)

text \<open>
  A clock that runs backwards locks a scope out of its dead letters: recording a failure of a
  stored delivery at an instant before its first failure succeeds, and from then on the scope is
  not writable (so the transport delivers nothing for it), cannot be listed, and no operation on
  it, removing letters included, changes anything any more.
\<close>

theorem clock_rollback_locks_scope:
  assumes "reaches (\<lambda>q. q = DurableQueue bempty) (dlq_step env) (DurableQueue files)"
    and "peek_letters env (letter_scope x) (DurableQueue files) = Ok ls" "l \<in> set ls" "same_delivery l x"
    and "parse_rfc3339 env (first_failed_at l) = Some t" "parse_rfc3339 env (last_failed_at x) = Some t'" "t' < t"
    and "enqueue_letter env x (DurableQueue files) = (Ok (), q')"
  shows "(\<exists>e. ensure_writable env (letter_scope x) q' = Err e) \<and> (\<exists>e. peek_letters env (letter_scope x) q' = Err e)
    \<and> (\<forall>op. operation_scope op = letter_scope x \<longrightarrow> dlq_perform env op q' = q')"
proof -
  have "dlq_inv env (DurableQueue files)" by (rule dq.reachable_inv) fact
  then have ok: "files_ok env files" by (simp add: dlq_inv_def)
  let ?s = "letter_scope x"
  let ?p = "scope_store_path env ?s"
  from assms(8) ok obtain es es' where e: "validate_letter env x = Inr ()"
    "load_store env (bget files ?p) (Some ?s) = Inr \<lparr>dlq_version = STORE_VERSION, dlq_entries = es\<rparr>"
    "letters_ok env ?s es" "enqueue_entries env x es = (Inr (), es')" "q' = DurableQueue (binsert ?p (saved_file env es') files)"
    by (elim enqueue_letter_Ok)
  have v: "validate_dlq_scope ?s = Inr ()" by (rule valid_letter_scope [OF e(1)])
  have "ls = es" using peek_loaded(1) [OF ok v e(2)] assms(2) by simp
  with assms(3,4) have ex: "list_ex (\<lambda>e. same_delivery e x) es" by (auto simp: list_ex_iff)
  have es': "es' = update_first (\<lambda>e. same_delivery e x) (failed_again x) es"
    using e(4) ex by (simp add: enqueue_entries_def)
  from update_first_in [OF ex, of "failed_again x"] obtain l' where l': "l' \<in> set es" "same_delivery l' x" "failed_again x l' \<in> set es'"
    by (auto simp: es')
  have "delivery_key l' = delivery_key l" using l'(2) assms(4) by (simp add: same_delivery_iff)
  then have "l' = l"
    using e(3) l'(1) assms(3) \<open>ls = es\<close> by (auto simp: letters_ok_def distinct_map inj_on_def)
  have valid: "validate_letter env l = Inr ()" using e(3) assms(3) \<open>ls = es\<close> by (auto simp: letters_ok_def)
  have "upgrade_letter (failed_again x l) = failed_again x l"
    using valid_letter_ids [OF valid] by (simp add: failed_again_def upgrade_letter_def Let_def)
  moreover have "validate_letter env (failed_again x l) \<noteq> Inr ()"
    using validate_letter_update [OF valid _ _ _ assms(5,6), of "dl_error x" "max (dl_attempts l) (dl_attempts x)"]
      valid_letter_error [OF e(1)] assms(7) by (auto simp: failed_again_def)
  ultimately obtain err where "validate_letter env (upgrade_letter (failed_again x l)) = Inl err"
    by (cases "validate_letter env (failed_again x l)") auto
  from load_letters_invalid [OF _ this] l'(3) \<open>l' = l\<close> obtain err' where "load_letters env (Some ?s) es' = Inl err'" by blast
  then have "load_store env (bget (binsert ?p (saved_file env es') files) ?p) (Some ?s) \<noteq> Inr st" for st
    by (auto simp: load_store_def saved_file_def result_simps)
  then obtain err'' where bad: "load_store env (bget (binsert ?p (saved_file env es') files) ?p) (Some ?s) = Inl err''"
    by (meson sumE)
  then show ?thesis
    using v unreadable_unchanged [of env "binsert ?p (saved_file env es') files"]
    by (auto simp: e(5) ensure_writable_def peek_letters_def with_entries_def)
qed

end
