(* ===== verification/A2a_Laws.thy ===== *)
theory A2a_Laws
  imports A2a_Handlers Relay_Laws Transport_Laws Dlq_Laws Replay_Laws Remote_Laws
begin

text \<open>
  What the delivery route promises: a payload is handed on only for an authentic record inside
  the configured scope, at most once, a duplicate of a completed task gets the bytes of the first
  answer, and every response has the form its status asks for.
\<close>

section \<open>Admission\<close>

text \<open>The sending peer: its bearer, its seal on the envelope and on the record, and the route it names.\<close>

definition link_authentic ::
  "transport_env \<Rightarrow> relay_headers \<Rightarrow> relay_peer_config \<Rightarrow> transport_envelope \<Rightarrow> relay_record \<Rightarrow> string \<Rightarrow> bool" where
  "link_authentic te hs peer e r local \<longleftrightarrow>
     hd_peer hs = Some (current_peer r)
     \<and> (\<exists>a. hd_authorization hs = Some a \<and> bearer_of a = Some (bearer_token peer))
     \<and> verify_envelope (te_rfc3339 te) (rc_hmac (te_crypto te)) e (channel_key peer)
     \<and> verify_hop (te_crypto te) r (channel_key peer) = Ok ()
     \<and> id_agent_id (env_sender e) = current_peer r \<and> next_peer r = local \<and> recipient_id peer = local"

text \<open>The origin: its signature on the record, which covers the digest of this payload.\<close>

definition origin_authentic :: "transport_env \<Rightarrow> relay_peer_config \<Rightarrow> transport_envelope \<Rightarrow> relay_record \<Rightarrow> bool" where
  "origin_authentic te origin_peer e r \<longleftrightarrow>
     verify_origin (te_crypto te) r (origin_public_key origin_peer) = Ok ()
     \<and> payload_sha256 r = payload_digest (te_crypto te) (payload_json e)"

text \<open>The scope: what record and envelope say agrees, and the server and both peers allow it.\<close>

definition scope_allowed ::
  "relay_server \<Rightarrow> relay_peer_config \<Rightarrow> relay_peer_config \<Rightarrow> transport_envelope \<Rightarrow> relay_record \<Rightarrow> bool" where
  "scope_allowed sv peer origin_peer e r \<longleftrightarrow>
     sv_tenant_id sv = Some (rec_tenant_id r) \<and> bget (env_metadata e) ''tenant_id'' = Some (rec_tenant_id r)
     \<and> sv_project_id sv = Some (rec_project_id r) \<and> bget (env_metadata e) ''project_id'' = Some (rec_project_id r)
     \<and> env_recipient e = Some (final_recipient r) \<and> env_content_type e = rec_content_type r
     \<and> env_content_type e \<in> {A2ATask, ContextPackage, EvidenceBundle}
     \<and> peer_allows peer r (length (payload_json e)) \<and> peer_allows origin_peer r (length (payload_json e))"

lemma found_record: "(case m of Inr found \<Rightarrow> found | Inl _ \<Rightarrow> None) = Some r \<longleftrightarrow> m = Inr (Some r)"
  by (cases m) auto

lemma relay_admit_iff:
  "relay_admit he sv hs body now = Inr (e, r, local) \<longleftrightarrow>
     sv_recipient_id sv = Some local
     \<and> parse_envelope (te_codec (he_transport he)) (te_read_json (he_transport he)) body = Inr e
     \<and> envelope_relay_record (te_codec (he_transport he)) e = Inr (Some r)
     \<and> (\<exists>peer origin_peer. table_peer (sv_peers sv) (current_peer r) = Some peer
          \<and> table_peer (sv_peers sv) (rec_origin r) = Some origin_peer
          \<and> link_authentic (he_transport he) hs peer e r local \<and> origin_authentic (he_transport he) origin_peer e r
          \<and> scope_allowed sv peer origin_peer e r
          \<and> validate_relay_at r now (current_peer r) (Some local) (cfg_max_hops peer) = Inr ())
     \<and> (case hd_idempotency_key hs of None \<Rightarrow> True | Some k \<Rightarrow> k = delivery_id r)"
  (is "?admit \<longleftrightarrow> ?ok")
proof
  assume ?admit
  then show ?ok
    unfolding relay_admit_def Let_def result_simps found_record link_authentic_def origin_authentic_def scope_allowed_def
      verify_payload_def server_bytes_eq_def
    by (cases "hd_idempotency_key hs") auto
next
  assume ?ok
  then show ?admit
    unfolding link_authentic_def origin_authentic_def scope_allowed_def
    by (cases "hd_idempotency_key hs")
      (auto simp: relay_admit_def found_record verify_payload_def server_bytes_eq_def)
qed

lemma relay_a2a_deliver_effect:
  assumes "relay_a2a_deliver he sv hs body ins worker downstream st = (Some eff, resp, st')"
  obtains e r local st1 fp where "relay_admit he sv hs body (in_validated_at ins) = Inr (e, r, local)"
    "check_relay_quota ins r st = Inr st1" "origin_fingerprint (te_crypto (he_transport he)) r = Inr fp"
    "relay_guarded he sv ins worker downstream e r local fp st1 = (Some eff, resp, st')"
proof (cases "relay_admit he sv hs body (in_validated_at ins)")
  case (Inr x)
  obtain e r local where x: "x = (e, r, local)" using prod_cases3 by blast
  show ?thesis
  proof (cases "check_relay_quota ins r st")
    case (Inr st1)
    with assms \<open>relay_admit _ _ _ _ _ = Inr x\<close> x show ?thesis
      by (cases "origin_fingerprint (te_crypto (he_transport he)) r") (auto simp: relay_a2a_deliver_def intro: that)
  qed (use assms Inr x in \<open>auto simp: relay_a2a_deliver_def\<close>)
qed (use assms in \<open>auto simp: relay_a2a_deliver_def\<close>)

lemma check_relay_quota_eq_Ok:
  assumes "check_relay_quota ins r st = Inr st1"
  obtains quotas quotas' where "rs_quotas st = Some quotas" "in_lock_free ins"
    "check_at quotas (current_peer r) (rec_origin r) (rec_tenant_id r) (rec_project_id r) (in_instant ins) = Inr quotas'"
    "st1 = st\<lparr>rs_quotas := Some quotas'\<rparr>"
proof -
  obtain quotas where q: "rs_quotas st = Some quotas" "in_lock_free ins"
    using assms by (auto simp: check_relay_quota_def Let_def result_simps)
  show thesis
  proof (cases "check_at quotas (current_peer r) (rec_origin r) (rec_tenant_id r) (rec_project_id r) (in_instant ins)")
    case (Inl x)
    then show ?thesis using assms q by (cases x) (simp_all add: check_relay_quota_def Let_def)
  next
    case (Inr quotas')
    then show ?thesis using assms q that by (simp add: check_relay_quota_def Let_def)
  qed
qed

lemma check_relay_quota_dir: "check_relay_quota ins r st = Inr st1 \<Longrightarrow> rs_dir st1 = rs_dir st"
  by (elim check_relay_quota_eq_Ok) simp

section \<open>The store behind the handler\<close>

definition opens_of :: "string \<Rightarrow> relay_state \<Rightarrow> relay_operation list" where
  "opens_of marker st = (case rs_handle st of None \<Rightarrow> [OpenRelay default_replay_limits REMOTE_REPLAY_RETENTION_SECONDS marker] | Some h \<Rightarrow> [])"

lemma with_store_cases:
  obtains (failed) e st' where "with_store marker run st = (Inl e, st')" "rs_dir st' = fold relay_perform (opens_of marker st) (rs_dir st)"
  | (ran) h r dir where "with_store marker run st = (r, st\<lparr>rs_handle := Some h, rs_dir := dir\<rparr>)"
      "run h (fold relay_perform (opens_of marker st) (rs_dir st)) = (r, dir)"
proof (cases "rs_handle st")
  case None
  obtain r0 dir0 where o: "open_ledger default_replay_limits REMOTE_REPLAY_RETENTION_SECONDS marker (rs_dir st) = (r0, dir0)"
    by fastforce
  with None have d: "fold relay_perform (opens_of marker st) (rs_dir st) = dir0" by (simp add: opens_of_def)
  show ?thesis
  proof (cases r0)
    case (Inl e)
    then show ?thesis using failed None o d by (simp add: with_store_def relay_store_def)
  next
    case (Inr h)
    obtain r dir where "run h dir0 = (r, dir)" by fastforce
    then show ?thesis using ran Inr None o d by (simp add: with_store_def relay_store_def)
  qed
next
  case (Some h)
  obtain r dir where "run h (rs_dir st) = (r, dir)" by fastforce
  with Some show ?thesis
    using ran [where h = h and r = r and dir = dir] by (cases st) (simp add: with_store_def relay_store_def opens_of_def)
qed

lemma keeps_opens [simp]: "\<forall>op\<in>set (opens_of marker st). keeps_proof sid op"
  by (simp add: opens_of_def split: option.splits)

lemma reserve_relay_Reserved:
  assumes "reserve_relay ins q st = (Inr (Reserved lease), st1)"
  obtains h where "rs_handle st1 = Some h" "relay_accepts (ReserveRelay h (in_leases ins) (in_exceeds ins) q (in_reserved_at ins div 10 ^ 9))
      (fold relay_perform (opens_of (in_marker ins) st) (rs_dir st))"
    "rs_dir st1 = relay_perform (ReserveRelay h (in_leases ins) (in_exceeds ins) q (in_reserved_at ins div 10 ^ 9))
      (fold relay_perform (opens_of (in_marker ins) st) (rs_dir st))"
proof (cases rule: with_store_cases [of "in_marker ins"
      "\<lambda>h. reserve h (in_leases ins) (in_exceeds ins) q (in_reserved_at ins div 10 ^ 9)" st])
  case (failed e st')
  with assms show ?thesis by (simp add: reserve_relay_def)
next
  case (ran h r dir)
  with assms have "r = Inr (Reserved lease)" "st1 = st\<lparr>rs_handle := Some h, rs_dir := dir\<rparr>" by (simp_all add: reserve_relay_def)
  with ran(2) show ?thesis by (intro that [of h]) simp_all
qed

text \<open>Completing a proof, with or without a response, performs operations that keep every proof.\<close>

lemma with_store_performs:
  assumes "\<And>h dir. \<exists>op. keeps_proof sid op \<and> snd (run h dir) = relay_perform op dir"
  shows "\<exists>ops. (\<forall>op\<in>set ops. keeps_proof sid op) \<and> rs_dir (snd (with_store marker run st)) = fold relay_perform ops (rs_dir st)"
proof (cases rule: with_store_cases [of marker run st])
  case (failed e st')
  then show ?thesis by (intro exI [of _ "opens_of marker st"]) simp
next
  case (ran h r dir)
  from assms obtain op where "keeps_proof sid op"
    "snd (run h (fold relay_perform (opens_of marker st) (rs_dir st))) = relay_perform op (fold relay_perform (opens_of marker st) (rs_dir st))"
    by blast
  with ran show ?thesis by (intro exI [of _ "opens_of marker st @ [op]"]) auto
qed

lemma complete_relay_performs:
  "\<exists>ops. (\<forall>op\<in>set ops. keeps_proof sid op) \<and> rs_dir (snd (complete_relay ins i lease st)) = fold relay_perform ops (rs_dir st)"
  unfolding complete_relay_def
  by (rule with_store_performs) (rule exI [of _ "CompleteRelay _ i lease"], simp)

lemma complete_relay_with_response_performs:
  "\<exists>ops. (\<forall>op\<in>set ops. keeps_proof sid op)
     \<and> rs_dir (snd (complete_relay_with_response he ins i lease body st)) = fold relay_perform ops (rs_dir st)"
  unfolding complete_relay_with_response_def
proof (rule with_store_performs)
  fix h dir
  let ?run = "(if (body \<noteq> [] \<and> length body \<le> MAX_TASK_RESPONSE_BYTES) \<and> \<not> is_delivery_acknowledgement he body
    then complete_proof h i lease else complete_with_response h i lease body) dir"
  have "snd ?run = relay_perform (CompleteRelay h i lease) dir \<or> snd ?run = relay_perform (RespondRelay h i lease body) dir"
    by simp
  then show "\<exists>op. keeps_proof sid op \<and> snd ?run = relay_perform op dir" by (metis keeps_proof.simps(4,5))
qed

section \<open>A relayed payload is acted on once\<close>

text \<open>
  The ends after which the handler keeps the proof: the worker accepted the payload or was lost,
  the next peer took it, or the fate of a forwarded task is unknown.
\<close>

fun effect_retained ::
  "(nat \<times> string) option \<Rightarrow> (string \<Rightarrow> transport_envelope \<Rightarrow> transport_error + delivery_receipt) \<Rightarrow> relay_effect \<Rightarrow> bool" where
  "effect_retained worker downstream HandedOff \<longleftrightarrow> (case worker of None \<Rightarrow> True | Some (code, _) \<Rightarrow> is_success code)"
| "effect_retained worker downstream (ForwardedTo p e) \<longleftrightarrow>
     env_content_type e = A2ATask \<or> (\<exists>receipt. downstream p e = Inr receipt)"

lemma forwarded_envelope_type: "forwarded_envelope he e r local = Inr e' \<Longrightarrow> env_content_type e' = env_content_type e"
  by (auto simp: forwarded_envelope_def attach_relay_record_def result_simps split: option.splits if_splits)

lemma forwarded_response_status:
  "kind \<noteq> A2ATask \<Longrightarrow> is_success (resp_status (forwarded_delivery_response he receipt kind))"
  by (simp add: forwarded_delivery_response_def respond_def is_success_def)

lemma settle_response_performs:
  assumes "is_success (resp_status resp) \<or> resp_withheld resp \<or> (\<not> final \<and> kind = A2ATask)"
  shows "\<exists>ops. (\<forall>op\<in>set ops. keeps_proof sid op)
    \<and> rs_dir (snd (settle_response he ins kind final i lease resp st)) = fold relay_perform ops (rs_dir st)"
proof -
  have none: "\<exists>ops. (\<forall>op\<in>set ops. keeps_proof sid op) \<and> rs_dir st = fold relay_perform ops (rs_dir st)"
    by (rule exI [of _ "[]"]) simp
  have settle: "snd (settle_completion c resp) = snd c" for c :: "unit replay_result \<times> relay_state"
    by (cases c) (auto simp: settle_completion_def split: sum.splits)
  show ?thesis
    using assms none complete_relay_performs [of sid ins i lease st]
      complete_relay_with_response_performs [of sid he ins i lease "body_bytes he (resp_body resp)" st]
    by (auto simp: settle_response_def Let_def settle)
qed

lemma relay_guarded_effect:
  assumes "relay_guarded he sv ins worker downstream e r local fp st = (Some eff, resp, st')"
    and "effect_retained worker downstream eff"
  obtains h opens ops where
    "relay_accepts (ReserveRelay h (in_leases ins) (in_exceeds ins) (relay_proof (te_crypto (he_transport he)) r fp)
       (in_reserved_at ins div 10 ^ 9)) (fold relay_perform opens (rs_dir st))"
    "rs_dir st' = fold relay_perform ops (relay_perform (ReserveRelay h (in_leases ins) (in_exceeds ins)
       (relay_proof (te_crypto (he_transport he)) r fp) (in_reserved_at ins div 10 ^ 9)) (fold relay_perform opens (rs_dir st)))"
    "\<forall>op\<in>set ops. keeps_proof (relay_storage_id (te_crypto (he_transport he)) r) op"
proof -
  let ?q = "relay_proof (te_crypto (he_transport he)) r fp"
  obtain res st1 where res: "reserve_relay ins ?q st = (res, st1)" by fastforce
  with assms(1) obtain lease where lease: "res = Inr (Reserved lease)"
    by (auto simp: relay_guarded_def Let_def answer_completed_def split: sum.splits reservation.splits)
  obtain h where h: "relay_accepts (ReserveRelay h (in_leases ins) (in_exceeds ins) ?q (in_reserved_at ins div 10 ^ 9))
      (fold relay_perform (opens_of (in_marker ins) st) (rs_dir st))"
    "rs_dir st1 = relay_perform (ReserveRelay h (in_leases ins) (in_exceeds ins) ?q (in_reserved_at ins div 10 ^ 9))
      (fold relay_perform (opens_of (in_marker ins) st) (rs_dir st))"
    using reserve_relay_Reserved res lease by blast
  obtain eff' ending where fin: "(if final_recipient r = local then relay_handoff worker
      else relay_forward he sv ins downstream e r local) = (eff', ending)" by fastforce
  with assms(1) res lease have st': "eff' = Some eff" "st' = snd (settle_end he ins (env_content_type e) (final_recipient r = local)
      (relay_storage_id (te_crypto (he_transport he)) r) lease ending st1)"
    by (auto simp: relay_guarded_def Let_def relay_proof_def)
  have "\<exists>ops. (\<forall>op\<in>set ops. keeps_proof (relay_storage_id (te_crypto (he_transport he)) r) op) \<and> rs_dir st' = fold relay_perform ops (rs_dir st1)"
  proof (cases ending)
    case (KeptWith resp')
    then show ?thesis using st'(2) by (intro exI [of _ "[]"]) simp
  next
    case (RespondedWith resp')
    have "is_success (resp_status resp') \<or> resp_withheld resp' \<or> (\<not> final_recipient r = local \<and> env_content_type e = A2ATask)"
      using fin st'(1) RespondedWith assms(2) forwarded_response_status
      by (auto simp: relay_handoff_def relay_forward_def respond_def dest!: forwarded_envelope_type
          split: if_splits option.splits sum.splits)
    from settle_response_performs [OF this] show ?thesis using st'(2) RespondedWith by simp
  next
    case (ReleasedWith resp')
    then show ?thesis
      using fin st'(1) assms(2)
      by (auto simp: relay_handoff_def relay_forward_def split: if_splits option.splits sum.splits)
  qed
  then show thesis using that [OF h(1)] h(2) by metis
qed

definition same_relay :: "relay_record \<Rightarrow> relay_record \<Rightarrow> bool" where
  "same_relay r r' \<longleftrightarrow> rec_origin r' = rec_origin r \<and> rec_tenant_id r' = rec_tenant_id r \<and> rec_project_id r' = rec_project_id r
     \<and> delivery_id r' = delivery_id r \<and> rec_expires_at r' = rec_expires_at r"

lemma same_relay_proof:
  "same_relay r r' \<Longrightarrow> rq_storage_id (relay_proof cr r' fp') = rq_storage_id (relay_proof cr r fp)
     \<and> rq_signed_expires_at (relay_proof cr r' fp') = rq_signed_expires_at (relay_proof cr r fp)"
  by (simp add: same_relay_def relay_proof_def relay_storage_id_def)

lemma admitted_relay_expiry:
  assumes "validate_relay_at r now c nxt limit = Inr ()" "now \<le> reserved + 300 * 10 ^ 9"
  shows "rec_expires_at r div 10 ^ 9 < reserved div 10 ^ 9 + MIN_RETENTION_SECONDS"
proof -
  have "num_seconds (rec_expires_at r - now) \<le> 86400"
    using assms(1) by (auto simp: validate_relay_at_def validate_relay_deadline_def result_simps RELAY_MAX_DEADLINE_SECS_def split: if_splits)
  then have "rec_expires_at r - now < 86401 * 10 ^ 9" using num_seconds_le [of 86400 "rec_expires_at r - now"] by simp
  then have "rec_expires_at r \<le> reserved + 86701 * 10 ^ 9" using assms(2) by simp
  then have "rec_expires_at r div 10 ^ 9 \<le> (reserved + 86701 * 10 ^ 9) div 10 ^ 9" by (intro zdiv_mono1) auto
  then show ?thesis by (simp add: MIN_RETENTION_SECONDS_def)
qed

text \<open>A proof whose effect was retained is accepted by no later reservation.\<close>

lemma relay_proof_spent:
  assumes "relay_a2a_deliver he sv hs body ins worker downstream st = (Some eff, resp, st')"
    and "effect_retained worker downstream eff" "in_validated_at ins \<le> in_reserved_at ins + 300 * 10 ^ 9"
    and "relay_admit he sv hs body (in_validated_at ins) = Inr (e, r, local)"
    and "\<forall>op\<in>set ops. keeps_proof (relay_storage_id (te_crypto (he_transport he)) r) op"
    and "rq_storage_id q = relay_storage_id (te_crypto (he_transport he)) r" "rq_signed_expires_at q = rec_expires_at r div 10 ^ 9"
  shows "\<not> relay_accepts (ReserveRelay h draws exceeds q now) (fold relay_perform ops (rs_dir st'))"
proof -
  let ?cr = "te_crypto (he_transport he)"
  from assms(1,4) obtain st1 fp where "relay_guarded he sv ins worker downstream e r local fp st1 = (Some eff, resp, st')"
    by (elim relay_a2a_deliver_effect) simp
  from relay_guarded_effect [OF this assms(2)] obtain h1 opens done_ops where first:
    "relay_accepts (ReserveRelay h1 (in_leases ins) (in_exceeds ins) (relay_proof ?cr r fp) (in_reserved_at ins div 10 ^ 9))
       (fold relay_perform opens (rs_dir st1))"
    "rs_dir st' = fold relay_perform done_ops (relay_perform (ReserveRelay h1 (in_leases ins) (in_exceeds ins)
       (relay_proof ?cr r fp) (in_reserved_at ins div 10 ^ 9)) (fold relay_perform opens (rs_dir st1)))"
    "\<forall>op\<in>set done_ops. keeps_proof (relay_storage_id ?cr r) op" by blast
  obtain limit where "validate_relay_at r (in_validated_at ins) (current_peer r) (Some local) limit = Inr ()"
    using assms(4) by (auto simp: relay_admit_iff)
  note in_time = admitted_relay_expiry [OF this assms(3)]
  have "\<not> relay_accepts (ReserveRelay h draws exceeds q now) (fold relay_perform (done_ops @ ops)
      (relay_perform (ReserveRelay h1 (in_leases ins) (in_exceeds ins) (relay_proof ?cr r fp) (in_reserved_at ins div 10 ^ 9))
        (fold relay_perform opens (rs_dir st1))))"
    by (rule rp.accepted_once [where sid = "relay_storage_id ?cr r" and e = "rec_expires_at r div 10 ^ 9"])
      (use first(1,3) assms(5-7) in_time in \<open>auto simp: relay_proof_def\<close>)
  then show ?thesis by (simp add: first(2))
qed

text \<open>
  C3. A relayed delivery is acted on once: after a server handed a record to its worker or passed
  it to the next peer, and the worker did not refuse it (the next peer of a task may even have
  failed), no request with a record of the same origin, scope, delivery and expiry has an effect
  again, through any later operations on the ledger but a release of that proof, at any reading
  of the clock, and for any peer, bearer, envelope or signature it comes with.
\<close>

theorem relay_acts_once:
  assumes "relay_a2a_deliver he sv hs body ins worker downstream st = (Some eff, resp, st')"
    and "effect_retained worker downstream eff" "in_validated_at ins \<le> in_reserved_at ins + 300 * 10 ^ 9"
    and "relay_admit he sv hs body (in_validated_at ins) = Ok (e, r, local)"
    and "rs_dir st'' = fold relay_perform ops (rs_dir st')"
    and "\<forall>op\<in>set ops. keeps_proof (relay_storage_id (te_crypto (he_transport he)) r) op"
    and "\<forall>e' r' local'. relay_admit he sv' hs' body' (in_validated_at ins') = Ok (e', r', local') \<longrightarrow> same_relay r r'"
  shows "fst (relay_a2a_deliver he sv' hs' body' ins' worker' downstream' st'') = None"
proof (rule ccontr)
  let ?cr = "te_crypto (he_transport he)"
  assume "\<not> ?thesis"
  then obtain eff' resp' st3 where again: "relay_a2a_deliver he sv' hs' body' ins' worker' downstream' st'' = (Some eff', resp', st3)"
    by (metis not_Some_eq prod.collapse)
  then obtain e' r' local' st2 fp' where two: "relay_admit he sv' hs' body' (in_validated_at ins') = Inr (e', r', local')"
    "check_relay_quota ins' r' st'' = Inr st2" "relay_guarded he sv' ins' worker' downstream' e' r' local' fp' st2 = (Some eff', resp', st3)"
    by (elim relay_a2a_deliver_effect)
  have same: "same_relay r r'" using assms(7) two(1) by blast
  obtain lease st4 where "reserve_relay ins' (relay_proof ?cr r' fp') st2 = (Inr (Reserved lease), st4)"
    using two(3) by (auto simp: relay_guarded_def Let_def answer_completed_def split: sum.splits reservation.splits prod.splits)
  then obtain h' where "relay_accepts (ReserveRelay h' (in_leases ins') (in_exceeds ins') (relay_proof ?cr r' fp')
      (in_reserved_at ins' div 10 ^ 9)) (fold relay_perform (opens_of (in_marker ins') st2) (rs_dir st2))"
    by (elim reserve_relay_Reserved)
  moreover have "rs_dir st2 = fold relay_perform ops (rs_dir st')"
    using check_relay_quota_dir [OF two(2)] assms(5) by simp
  moreover have "\<not> relay_accepts (ReserveRelay h' (in_leases ins') (in_exceeds ins') (relay_proof ?cr r' fp')
      (in_reserved_at ins' div 10 ^ 9)) (fold relay_perform (ops @ opens_of (in_marker ins') st2) (rs_dir st'))"
    by (rule relay_proof_spent [OF assms(1-4)])
      (use assms(6) same_relay_proof [OF same] keeps_opens in \<open>auto simp: relay_proof_def\<close>)
  ultimately show False by simp
qed

text \<open>
  C4. A server acts on a relayed payload only with authority: when it handed the payload off or
  passed it on, the sending peer is configured and proved its bearer, its channel seals the
  envelope and the record, the configured origin signed the record and the digest of this very
  payload, server and both peers allow the scope, kind, class, size and hops, the record names
  this server as the next hop and has not expired, and it is handed off exactly where this server
  is the final recipient.
\<close>

theorem relay_acts_with_authority:
  assumes "relay_a2a_deliver he sv hs body ins worker downstream st = (Some eff, resp, st')"
  shows "\<exists>e r local peer origin_peer.
    parse_envelope (te_codec (he_transport he)) (te_read_json (he_transport he)) body = Ok e
    \<and> envelope_relay_record (te_codec (he_transport he)) e = Ok (Some r) \<and> sv_recipient_id sv = Some local
    \<and> table_peer (sv_peers sv) (current_peer r) = Some peer \<and> table_peer (sv_peers sv) (rec_origin r) = Some origin_peer
    \<and> link_authentic (he_transport he) hs peer e r local \<and> origin_authentic (he_transport he) origin_peer e r
    \<and> scope_allowed sv peer origin_peer e r
    \<and> in_validated_at ins < rec_expires_at r \<and> relay_chain_depth (relay_chain r) \<le> cfg_max_hops peer
    \<and> distinct (hop_ids r) \<and> (eff = HandedOff \<longleftrightarrow> final_recipient r = local)"
proof -
  from assms obtain e r local st1 fp where admit: "relay_admit he sv hs body (in_validated_at ins) = Inr (e, r, local)"
    and run: "relay_guarded he sv ins worker downstream e r local fp st1 = (Some eff, resp, st')"
    by (elim relay_a2a_deliver_effect)
  from admit obtain peer origin_peer where a: "sv_recipient_id sv = Some local"
    "parse_envelope (te_codec (he_transport he)) (te_read_json (he_transport he)) body = Inr e"
    "envelope_relay_record (te_codec (he_transport he)) e = Inr (Some r)"
    "table_peer (sv_peers sv) (current_peer r) = Some peer" "table_peer (sv_peers sv) (rec_origin r) = Some origin_peer"
    "link_authentic (he_transport he) hs peer e r local" "origin_authentic (he_transport he) origin_peer e r"
    "scope_allowed sv peer origin_peer e r"
    "validate_relay_at r (in_validated_at ins) (current_peer r) (Some local) (cfg_max_hops peer) = Inr ()"
    by (auto simp: relay_admit_iff)
  have "in_validated_at ins < rec_expires_at r" "relay_chain_depth (relay_chain r) \<le> cfg_max_hops peer" "validate_relay_shape r = Inr ()"
    using a(9) by (auto simp: validate_relay_at_def validate_relay_deadline_def result_simps split: if_splits)
  moreover have "distinct (hop_ids r)" using valid_shape_chain calculation(3) by blast
  moreover have "eff = HandedOff \<longleftrightarrow> final_recipient r = local"
    using run by (auto simp: relay_guarded_def Let_def relay_handoff_def relay_forward_def answer_completed_def
        split: sum.splits reservation.splits prod.splits if_splits)
  ultimately show ?thesis using a by blast
qed

section \<open>Duplicates of a completed task\<close>

lemma reserve_completed:
  assumes "open_for_operation h dir = Inr db" "bget (proofs db) (rq_storage_id q) = Some row" "row_state row = COMPLETED"
    and "row_origin row = rq_origin q" "row_tenant row = rq_tenant q" "row_project row = rq_project q"
    and "row_fingerprint row = rq_fingerprint q" "bget (task_responses db) (rq_storage_id q) = Some body"
    and "body \<noteq> []" "length body \<le> MAX_RESPONSE_BYTES"
    and "reserve h draws exceeds q now dir = (Inr answer, dir')" "\<not> relay_accepts (ReserveRelay h draws exceeds q now) dir"
  shows "answer = AlreadyCompleted" "completed_response h q dir' = Inr (Some body)"
proof -
  from assms(11) obtain db1 db' where r: "validate_replay_request q = Inr ()" "open_for_operation h dir = Inr db1"
    "reserve_transaction h draws exceeds q now db1 = Inr (answer, db')" "dir' = dir\<lparr>database := Some db'\<rparr>"
    by (elim reserve_eq_Ok)
  have db1: "db1 = db" using r(2) assms(1) by simp
  let ?eff = "max now (last_observed_at db)"
  from r(3) [unfolded db1] have "answer = AlreadyCompleted \<and> completed_response h q dir' = Inr (Some body)"
  proof (cases rule: reserve_transaction_cases)
    case (found row')
    then have row': "row' = row" "bget (proofs (prune_expired db ?eff)) (rq_storage_id q) = Some row"
      using assms(2) by (auto simp: bget_prune_expired)
    have "answer = AlreadyCompleted"
      using found(2) row'(1) assms(3-7) by (simp add: existing_answer_def PENDING_def COMPLETED_def)
    moreover have "open_for_operation h dir' = Inr db'"
      using assms(1) r(4) found(3) by (simp add: open_for_operation_eq_Ok)
    moreover have "bget (proofs db') (rq_storage_id q) = Some row" using found(3) row'(2) by simp
    moreover from this have "bget (task_responses db') (rq_storage_id q) = Some body"
      using found(3) assms(8) by (auto simp: prune_expired_def keep_proofs_def Let_def)
    ultimately show ?thesis using completed_response_found [OF r(1)] assms(3-7,9,10) by simp
  next
    case (fresh lease)
    with assms(11,12) show ?thesis by simp
  qed
  then show "answer = AlreadyCompleted" "completed_response h q dir' = Inr (Some body)" by simp_all
qed

lemma relay_inv_opens: "relay_inv limits dir \<Longrightarrow> relay_inv limits (fold relay_perform (opens_of marker st) dir)"
  by (simp add: opens_of_def relay_inv_open split: option.splits)

text \<open>A task that was handed off and acknowledged leaves a completed proof with the bytes of its answer.\<close>

lemma acknowledged_task_stored:
  assumes "reserve_relay ins q st = (Inr (Reserved lease), st1)" "relay_inv limits (rs_dir st)"
    and "\<forall>d\<in>set (in_leases ins). validate_lease d = Inr ()"
    and "is_delivery_acknowledgement he text" "text \<noteq> []" "length text \<le> 64 * 1024"
  obtains h db row where "complete_relay_with_response he ins (rq_storage_id q) lease text st1 = (Inr (), st1\<lparr>rs_dir := (rs_dir st1)\<lparr>database := Some db\<rparr>\<rparr>)"
    "rs_handle st1 = Some h" "open_for_operation h ((rs_dir st1)\<lparr>database := Some db\<rparr>) = Inr db"
    "bget (proofs db) (rq_storage_id q) = Some row" "row_state row = COMPLETED"
    "row_origin row = rq_origin q" "row_tenant row = rq_tenant q" "row_project row = rq_project q"
    "row_fingerprint row = rq_fingerprint q" "bget (task_responses db) (rq_storage_id q) = Some text"
proof -
  let ?dir = "fold relay_perform (opens_of (in_marker ins) st) (rs_dir st)"
  from assms(1) obtain h where h: "rs_handle st1 = Some h"
    "relay_accepts (ReserveRelay h (in_leases ins) (in_exceeds ins) q (in_reserved_at ins div 10 ^ 9)) ?dir"
    "rs_dir st1 = relay_perform (ReserveRelay h (in_leases ins) (in_exceeds ins) q (in_reserved_at ins div 10 ^ 9)) ?dir"
    by (elim reserve_relay_Reserved)
  have res: "reserve h (in_leases ins) (in_exceeds ins) q (in_reserved_at ins div 10 ^ 9) ?dir = (Inr (Reserved lease), rs_dir st1)"
  proof (cases rule: with_store_cases [of "in_marker ins"
        "\<lambda>h. reserve h (in_leases ins) (in_exceeds ins) q (in_reserved_at ins div 10 ^ 9)" st])
    case (ran h' r dir)
    with assms(1) h(1) show ?thesis by (auto simp: reserve_relay_def)
  qed (use assms(1) in \<open>simp add: reserve_relay_def\<close>)
  have len: "length text \<le> MAX_RESPONSE_BYTES" using assms(6) by (simp add: MAX_RESPONSE_BYTES_def)
  from reserve_then_complete [OF res relay_inv_opens [OF assms(2)] assms(3,5) len] obtain db row where
    "complete_with_response h (rq_storage_id q) lease text (rs_dir st1) = (Inr (), (rs_dir st1)\<lparr>database := Some db\<rparr>)"
    "open_for_operation h ((rs_dir st1)\<lparr>database := Some db\<rparr>) = Inr db"
    "bget (proofs db) (rq_storage_id q) = Some row" "row_state row = COMPLETED"
    "row_origin row = rq_origin q" "row_tenant row = rq_tenant q" "row_project row = rq_project q"
    "row_fingerprint row = rq_fingerprint q" "bget (task_responses db) (rq_storage_id q) = Some text" by blast
  then show thesis
    using h(1) assms(4) by (intro that [of db h row])
      (simp_all add: complete_relay_with_response_def with_store_def relay_store_def)
qed

lemma same_origin_view:
  assumes "origin_view r' = origin_view r" "origin_view r = Inr v"
  shows "same_relay r r'" "origin_fingerprint cr r' = origin_fingerprint cr r" "rec_content_type r' = rec_content_type r"
    "relay_proof cr r' fp = relay_proof cr r fp"
  using assms
  by (auto simp: origin_view_def same_relay_def origin_fingerprint_def origin_bytes_def relay_proof_def relay_storage_id_def
      split: list.splits)

lemma acknowledged_task_run:
  assumes "relay_guarded he sv ins (Some (code, text)) downstream e r local fp st = (Some HandedOff, resp, st')"
    and "env_content_type e = A2ATask" "is_success code" "is_delivery_acknowledgement he text" "text \<noteq> []" "length text \<le> 64 * 1024"
    and "relay_inv limits (rs_dir st)" "\<forall>d\<in>set (in_leases ins). validate_lease d = Inr ()"
  obtains h db row lease st1 where "reserve_relay ins (relay_proof (te_crypto (he_transport he)) r fp) st = (Inr (Reserved lease), st1)"
    "resp = respond code (TextBody text)" "st' = st1\<lparr>rs_dir := (rs_dir st1)\<lparr>database := Some db\<rparr>\<rparr>"
    "rs_handle st1 = Some h" "open_for_operation h ((rs_dir st1)\<lparr>database := Some db\<rparr>) = Inr db"
    "bget (proofs db) (relay_storage_id (te_crypto (he_transport he)) r) = Some row" "row_state row = COMPLETED"
    "row_origin row = rec_origin r" "row_tenant row = rec_tenant_id r" "row_project row = rec_project_id r"
    "row_fingerprint row = fp" "bget (task_responses db) (relay_storage_id (te_crypto (he_transport he)) r) = Some text"
proof -
  let ?q = "relay_proof (te_crypto (he_transport he)) r fp"
  have q: "rq_storage_id ?q = relay_storage_id (te_crypto (he_transport he)) r" "rq_origin ?q = rec_origin r"
    "rq_tenant ?q = rec_tenant_id r" "rq_project ?q = rec_project_id r" "rq_fingerprint ?q = fp" by (simp_all add: relay_proof_def)
  obtain lease st1 where res: "reserve_relay ins ?q st = (Inr (Reserved lease), st1)"
    using assms(1) by (auto simp: relay_guarded_def Let_def answer_completed_def split: sum.splits reservation.splits prod.splits)
  from acknowledged_task_stored [OF res assms(7,8,4-6)] obtain h db row where done_:
    "complete_relay_with_response he ins (rq_storage_id ?q) lease text st1 = (Inr (), st1\<lparr>rs_dir := (rs_dir st1)\<lparr>database := Some db\<rparr>\<rparr>)"
    "rs_handle st1 = Some h" "open_for_operation h ((rs_dir st1)\<lparr>database := Some db\<rparr>) = Inr db"
    "bget (proofs db) (rq_storage_id ?q) = Some row" "row_state row = COMPLETED"
    "row_origin row = rq_origin ?q" "row_tenant row = rq_tenant ?q" "row_project row = rq_project ?q"
    "row_fingerprint row = rq_fingerprint ?q" "bget (task_responses db) (rq_storage_id ?q) = Some text" by blast
  have "final_recipient r = local"
    using assms(1) res by (auto simp: relay_guarded_def Let_def relay_forward_def split: sum.splits prod.splits if_splits)
  then have "relay_guarded he sv ins (Some (code, text)) downstream e r local fp st
      = (Some HandedOff, respond code (TextBody text), st1\<lparr>rs_dir := (rs_dir st1)\<lparr>database := Some db\<rparr>\<rparr>)"
    using res done_(1) assms(2,3,5,6)
    by (simp add: relay_guarded_def Let_def relay_handoff_def settle_response_def respond_def body_bytes_def settle_completion_def q)
  with assms(1) have "resp = respond code (TextBody text)" "st' = st1\<lparr>rs_dir := (rs_dir st1)\<lparr>database := Some db\<rparr>\<rparr>" by simp_all
  then show thesis using that [OF res] done_(2-) q by metis
qed

text \<open>A later request on a completed proof with a stored answer gets that answer or the refusal of the ledger.\<close>

lemma completed_guarded:
  assumes "rs_handle st = Some h" "open_for_operation h (rs_dir st) = Inr db"
    and "bget (proofs db) (relay_storage_id (te_crypto (he_transport he)) r) = Some row" "row_state row = COMPLETED"
    and "row_origin row = rec_origin r" "row_tenant row = rec_tenant_id r" "row_project row = rec_project_id r" "row_fingerprint row = fp"
    and "bget (task_responses db) (relay_storage_id (te_crypto (he_transport he)) r) = Some text" "text \<noteq> []" "length text \<le> 64 * 1024"
    and "\<not> relay_accepts (ReserveRelay h (in_leases ins) (in_exceeds ins) (relay_proof (te_crypto (he_transport he)) r fp)
      (in_reserved_at ins div 10 ^ 9)) (rs_dir st)"
    and "env_content_type e = A2ATask"
  shows "\<exists>resp' st''. relay_guarded he sv ins worker downstream e r local fp st = (None, resp', st'')
    \<and> (resp' = task_response_bytes text \<or> (\<exists>err. resp' = relay_replay_error err))"
proof -
  let ?q = "relay_proof (te_crypto (he_transport he)) r fp"
  obtain res dir where res: "reserve h (in_leases ins) (in_exceeds ins) ?q (in_reserved_at ins div 10 ^ 9) (rs_dir st) = (res, dir)"
    by fastforce
  then have rr: "reserve_relay ins ?q st = (res, st\<lparr>rs_dir := dir\<rparr>)"
    using assms(1) by (simp add: reserve_relay_def with_store_def relay_store_def)
  show ?thesis
  proof (cases res)
    case (Inl err)
    then show ?thesis using rr by (auto simp: relay_guarded_def)
  next
    case (Inr answer)
    have q: "rq_storage_id ?q = relay_storage_id (te_crypto (he_transport he)) r" "rq_origin ?q = rec_origin r"
      "rq_tenant ?q = rec_tenant_id r" "rq_project ?q = rec_project_id r" "rq_fingerprint ?q = fp" by (simp_all add: relay_proof_def)
    have len: "length text \<le> MAX_RESPONSE_BYTES" using assms(11) by (simp add: MAX_RESPONSE_BYTES_def)
    from reserve_completed [where q = ?q, unfolded q, OF assms(2-10) len res [unfolded Inr] assms(12)]
    have "answer = AlreadyCompleted" "completed_response h ?q dir = Inr (Some text)" by simp_all
    then show ?thesis
      using rr Inr assms(1,13)
      by (simp add: relay_guarded_def Let_def answer_completed_def completed_relay_response_def with_store_def relay_store_def)
  qed
qed

text \<open>
  A duplicate of a task gets the answer of the first: after a task record was handed off and the
  worker answered with an acknowledgement, a later request with the same signed content that
  passes admission and quota is not handed off again, and is answered with exactly those bytes or
  with the refusal of a proof that has since expired or could not be checked.
\<close>

theorem relay_duplicate_answered:
  assumes "relay_a2a_deliver he sv hs body ins (Some (code, text)) downstream st = (Some HandedOff, resp, st')"
    and "is_success code" "is_delivery_acknowledgement he text" "text \<noteq> []" "length text \<le> 64 * 1024"
    and "relay_inv limits (rs_dir st)" "\<forall>d\<in>set (in_leases ins). validate_lease d = Ok ()"
    and "in_validated_at ins \<le> in_reserved_at ins + 300 * 10 ^ 9"
    and "relay_admit he sv hs body (in_validated_at ins) = Ok (e, r, local)" "rec_content_type r = A2ATask"
    and "relay_admit he sv' hs' body' (in_validated_at ins') = Ok (e', r', local')" "origin_view r' = origin_view r"
    and "check_relay_quota ins' r' st' = Ok st2"
  shows "\<exists>resp' st''. relay_a2a_deliver he sv' hs' body' ins' worker' downstream' st' = (None, resp', st'')
    \<and> (resp' = task_response_bytes text \<or> (\<exists>err. resp' = relay_replay_error err))"
proof -
  let ?cr = "te_crypto (he_transport he)"
  from assms(1,9) obtain st0 fp where one: "check_relay_quota ins r st = Inr st0" "origin_fingerprint ?cr r = Inr fp"
    "relay_guarded he sv ins (Some (code, text)) downstream e r local fp st0 = (Some HandedOff, resp, st')"
    by (elim relay_a2a_deliver_effect) simp
  obtain v where "origin_view r = Inr v" using one(2) by (auto simp: origin_fingerprint_def origin_bytes_def ebind_eq_Ok)
  note same = same_origin_view [OF assms(12) this]
  have kinds: "env_content_type e = A2ATask" "env_content_type e' = A2ATask"
    using assms(9,10,11) same(3) by (auto simp: relay_admit_iff scope_allowed_def)
  have inv0: "relay_inv limits (rs_dir st0)" using assms(6) check_relay_quota_dir [OF one(1)] by simp
  obtain h db row lease st1 where run: "st' = st1\<lparr>rs_dir := (rs_dir st1)\<lparr>database := Some db\<rparr>\<rparr>" "rs_handle st1 = Some h"
    "open_for_operation h ((rs_dir st1)\<lparr>database := Some db\<rparr>) = Inr db"
    "bget (proofs db) (relay_storage_id ?cr r) = Some row" "row_state row = COMPLETED"
    "row_origin row = rec_origin r" "row_tenant row = rec_tenant_id r" "row_project row = rec_project_id r"
    "row_fingerprint row = fp" "bget (task_responses db) (relay_storage_id ?cr r) = Some text"
    by (rule acknowledged_task_run [OF one(3) kinds(1) assms(2-5) inv0 assms(7)])
  have st2: "rs_dir st2 = rs_dir st'" "rs_handle st2 = Some h" "open_for_operation h (rs_dir st2) = Inr db"
    using assms(13) run(1-3) by (auto elim!: check_relay_quota_eq_Ok)
  have "relay_a2a_deliver he sv' hs' body' ins' worker' downstream' st' = relay_guarded he sv' ins' worker' downstream' e' r' local' fp st2"
    using assms(11,13) same(2) one(2) by (simp add: relay_a2a_deliver_def)
  moreover have "\<not> relay_accepts (ReserveRelay h (in_leases ins') (in_exceeds ins') (relay_proof ?cr r' fp) (in_reserved_at ins' div 10 ^ 9))
      (fold relay_perform [] (rs_dir st'))"
    by (rule relay_proof_spent [OF assms(1) _ assms(8,9)]) (use assms(2) same(4) in \<open>auto simp: relay_proof_def\<close>)
  moreover have "relay_storage_id ?cr r' = relay_storage_id ?cr r" "rec_origin r' = rec_origin r"
    "rec_tenant_id r' = rec_tenant_id r" "rec_project_id r' = rec_project_id r"
    using same(1) by (simp_all add: same_relay_def relay_storage_id_def)
  ultimately show ?thesis
    using completed_guarded [OF st2(2,3), where r = r' and row = row and fp = fp] run(4-10) assms(4,5) kinds(2) st2(1) by simp
qed

end
