(* ===== verification/Link_Laws.thy ===== *)
theory Link_Laws
  imports A2a_Laws
begin

text \<open>
  Sender and receiver together: what a transport posts to a peer passes the admission of that
  peer, a failure that was not acknowledged is recorded as a dead letter and nothing else is,
  and a dead letter that is retried is recognised by the receiver as the same delivery.
\<close>

section \<open>Preparing a delivery\<close>

lemma attach_same_record:
  assumes "envelope_relay_record cd e = Inr (Some r)" "attach_relay_record cd e r = Inr e'"
  shows "e' = e"
proof -
  from assms(1) obtain enc where v: "bget (env_metadata e) RELAY_METADATA_KEY = Some enc" "decode_metadata cd enc = Inr r"
    by (auto simp: envelope_relay_record_def result_simps split: option.splits)
  from v(2) have "encode_metadata cd r = Inr enc" by (auto simp: decode_metadata_def result_simps)
  with assms(2) v(1) show ?thesis by (auto simp: attach_relay_record_def result_simps split: if_splits)
qed

lemma signed_eq_Ok:
  "(case (p :: (string + unit) \<times> transport_envelope) of (Inl err, s) \<Rightarrow> Inl (f err) | (Inr _, s) \<Rightarrow> k s) = Inr y \<longleftrightarrow>
     (\<exists>s. p = (Inr (), s) \<and> k s = Inr y)"
  by (cases p) (auto split: sum.splits)

lemma prepare_peer_delivery_eq_Ok:
  assumes "prepare_peer_delivery te c pid now e = Inr (peer, r, s, body)"
  shows "find (\<lambda>p. peer_id p = pid) (tc_peers c) = Some peer" "envelope_relay_record (te_codec te) e = Inr (Some r)"
    "validate_relay_at r now (current_peer r) (Some pid) (cfg_max_hops peer) = Inr ()"
    "verify_hop (te_crypto te) r (channel_key peer) = Inr ()" "peer_allows peer r (length (payload_json e))"
    "env_content_type e = rec_content_type r" "id_agent_id (env_sender e) = current_peer r"
    "tc_local_peer_id c = Some (current_peer r)" "bget (env_metadata e) ''tenant_id'' = Some (rec_tenant_id r)"
    "bget (env_metadata e) ''project_id'' = Some (rec_project_id r)"
    "payload_sha256 r = payload_digest (te_crypto te) (payload_json e)" "env_recipient e = Some (final_recipient r)"
    "sign_envelope (te_rfc3339 te) (rc_hmac (te_crypto te)) (e\<lparr>env_signature := None\<rparr>) (channel_key peer) = (Inr (), s)"
    "body = te_json te s" "length body \<le> max_payload_bytes peer"
proof -
  let ?rec = "envelope_relay_record (te_codec te) e"
  from assms obtain attached where p: "find (\<lambda>p. peer_id p = pid) (tc_peers c) = Some peer" "?rec = Inr (Some r)"
    "validate_relay_at r now (current_peer r) (Some (peer_id peer)) (cfg_max_hops peer) = Inr ()"
    "verify_hop (te_crypto te) r (channel_key peer) = Inr ()" "peer_allows peer r (length (payload_json e))"
    "env_content_type e = rec_content_type r" "id_agent_id (env_sender e) = current_peer r"
    "tc_local_peer_id c = Some (current_peer r)" "bget (env_metadata e) ''tenant_id'' = Some (rec_tenant_id r)"
    "bget (env_metadata e) ''project_id'' = Some (rec_project_id r)" "verify_payload (te_crypto te) r (payload_json e) = Inr ()"
    "env_recipient e = Some (final_recipient r)" "attach_relay_record (te_codec te) e r = Inr attached"
    "sign_envelope (te_rfc3339 te) (rc_hmac (te_crypto te)) (attached\<lparr>env_signature := None\<rparr>) (channel_key peer) = (Inr (), s)"
    "serialize_and_validate te s (max_payload_bytes peer) = Inr body"
    unfolding prepare_peer_delivery_def result_simps signed_eq_Ok by auto
  have "attached = e" using attach_same_record p(2,13) by blast
  moreover have "peer_id peer = pid" using p(1) by (auto simp: find_Some_iff)
  ultimately show "find (\<lambda>p. peer_id p = pid) (tc_peers c) = Some peer" "?rec = Inr (Some r)"
    "validate_relay_at r now (current_peer r) (Some pid) (cfg_max_hops peer) = Inr ()"
    "verify_hop (te_crypto te) r (channel_key peer) = Inr ()" "peer_allows peer r (length (payload_json e))"
    "env_content_type e = rec_content_type r" "id_agent_id (env_sender e) = current_peer r"
    "tc_local_peer_id c = Some (current_peer r)" "bget (env_metadata e) ''tenant_id'' = Some (rec_tenant_id r)"
    "bget (env_metadata e) ''project_id'' = Some (rec_project_id r)"
    "payload_sha256 r = payload_digest (te_crypto te) (payload_json e)" "env_recipient e = Some (final_recipient r)"
    "sign_envelope (te_rfc3339 te) (rc_hmac (te_crypto te)) (e\<lparr>env_signature := None\<rparr>) (channel_key peer) = (Inr (), s)"
    "body = te_json te s" "length body \<le> max_payload_bytes peer"
    using p by (auto simp: verify_payload_def serialize_and_validate_def result_simps)
qed

lemma sign_envelope_shape:
  assumes "sign_envelope rfc3339 hmac e secret = (Inr u, s)"
  shows "\<exists>sig. s = e\<lparr>env_signature := Some sig\<rparr>"
  using assms by (auto simp: sign_envelope_def Let_def split: sum.splits)

lemma signed_verifies:
  assumes "sign_envelope rfc3339 hmac e secret = (Inr u, s)" "\<And>t. hmac secret t \<noteq> []"
  shows "verify_envelope rfc3339 hmac s secret"
proof -
  from assms(1) obtain t where "signing_transcript rfc3339 s = Inr t" "env_signature s = Some (hex_encode (hmac secret t))"
    by (elim sign_envelope_eq_Ok)
  then show ?thesis using verify_envelope_hex assms(2) by blast
qed

section \<open>The link between two servers\<close>

text \<open>The headers of a request to a peer: who sends, the bearer of that peer, and the delivery.\<close>

definition posted_headers :: "relay_peer_config \<Rightarrow> relay_record \<Rightarrow> relay_headers" where
  "posted_headers peer r =
     \<lparr>hd_peer = Some (current_peer r), hd_authorization = Some (''Bearer '' @ bearer_token peer),
      hd_idempotency_key = Some (delivery_id r)\<rparr>"

text \<open>A record that was valid at one instant and for one limit, at another instant and for another limit.\<close>

lemma validate_relay_at_again:
  assumes "validate_relay_at r now c nxt limit = Inr ()"
  shows "validate_relay_at r now' c nxt limit' = Inr () \<longleftrightarrow> now' < rec_expires_at r
    \<and> num_seconds (rec_expires_at r - now') \<le> RELAY_MAX_DEADLINE_SECS \<and> chain_max_hops (relay_chain r) \<le> limit'"
proof -
  have s: "validate_relay_shape r = Inr ()" "current_peer r = c" "case nxt of None \<Rightarrow> True | Some p \<Rightarrow> next_peer r = p"
    "origin_signature r \<noteq> []" "hop_signature r \<noteq> []"
    using assms by (auto simp: validate_relay_at_def result_simps split: option.splits)
  have "relay_chain_depth (relay_chain r) \<le> limit'" if "chain_max_hops (relay_chain r) \<le> limit'"
    using valid_shape_chain(6) [OF s(1)] that by (simp add: relay_chain_depth_def hop_ids_def)
  then show ?thesis
    using s by (auto simp: validate_relay_at_def validate_relay_deadline_def result_simps split: option.splits if_splits)
qed

lemma validate_relay_at_later:
  assumes "validate_relay_at r now c nxt limit = Inr ()" "now \<le> now'" "now' < rec_expires_at r"
    and "chain_max_hops (relay_chain r) \<le> limit'"
  shows "validate_relay_at r now' c nxt limit' = Inr ()"
proof -
  have "num_seconds (rec_expires_at r - now) \<le> RELAY_MAX_DEADLINE_SECS"
    using assms(1) by (auto simp: validate_relay_at_def validate_relay_deadline_def result_simps split: if_splits)
  moreover have "num_seconds (rec_expires_at r - now') \<le> num_seconds (rec_expires_at r - now)"
    using assms(2,3) by (simp add: num_seconds_def zdiv_mono1)
  ultimately show ?thesis using assms(3,4) by (simp add: validate_relay_at_again [OF assms(1)])
qed

text \<open>
  C15. Where the two sides of a link share the bearer and the channel key and the receiver is the peer
  the sender names, what the transport posts, with the headers it posts, is never refused for its
  bearer, its signature, its hop, its payload digest or the agreement of record and envelope. It is
  admitted, as the same record and the envelope as it was signed, exactly when the text has at most
  2000000 bytes, the receiver knows the origin and the origin's signature verifies under its key
  there, tenant and project are the receiver's, its rows of the peer and of the origin allow the
  record, the content is of a kind that is relayed, the deadline is ahead of the receiver's clock
  by at most a day, and the signed hop limit is within that of the receiver's row of the peer.
\<close>

theorem relay_link_admits:
  assumes "prepare_peer_delivery te c pid now e = Ok (peer, r, s, body)" "te_read_json te body = Ok s"
    and "format_version e = 1" "\<forall>t. rc_hmac (te_crypto te) (channel_key peer) t \<noteq> []"
    and "he_transport he = te" "sv_recipient_id sv = Some pid" "table_peer (sv_peers sv) (current_peer r) = Some row"
    and "bearer_token row = bearer_token peer" "channel_key row = channel_key peer" "recipient_id row = pid"
  shows "relay_admit he sv (posted_headers peer r) body now' = Ok (s, r, pid) \<longleftrightarrow>
    length body \<le> 2000000
    \<and> (\<exists>origin_row. table_peer (sv_peers sv) (rec_origin r) = Some origin_row
         \<and> verify_origin (te_crypto te) r (origin_public_key origin_row) = Ok ()
         \<and> peer_allows origin_row r (length (payload_json e)))
    \<and> sv_tenant_id sv = Some (rec_tenant_id r) \<and> sv_project_id sv = Some (rec_project_id r)
    \<and> peer_allows row r (length (payload_json e))
    \<and> rec_content_type r \<in> {A2ATask, ContextPackage, EvidenceBundle}
    \<and> now' < rec_expires_at r \<and> num_seconds (rec_expires_at r - now') \<le> 24 * 60 * 60
    \<and> chain_max_hops (relay_chain r) \<le> cfg_max_hops row"
proof -
  note p = prepare_peer_delivery_eq_Ok [OF assms(1)]
  obtain sig where s: "s = e\<lparr>env_signature := Some sig\<rparr>" using sign_envelope_shape [OF p(13)] by auto
  have rec_s: "envelope_relay_record (te_codec te) s = Inr (Some r)" using p(2) s by (simp add: envelope_relay_record_def)
  have "parse_envelope (te_codec te) (te_read_json te) body = Inr s \<longleftrightarrow> length body \<le> 2000000"
    using assms(2,3) rec_s s by (auto simp: parse_envelope_def MAX_ENVELOPE_BYTES_def result_simps)
  moreover have "verify_envelope (te_rfc3339 te) (rc_hmac (te_crypto te)) s (channel_key row)"
    using signed_verifies [OF p(13)] assms(4,9) by simp
  then have "link_authentic te (posted_headers peer r) row s r pid"
    using p(3,4,7) assms(8-10) s
    by (auto simp: link_authentic_def posted_headers_def bearer_of_def validate_relay_at_def result_simps)
  moreover have "origin_authentic te x s r \<longleftrightarrow> verify_origin (te_crypto te) r (origin_public_key x) = Ok ()" for x
    using p(11) s by (simp add: origin_authentic_def)
  moreover have "scope_allowed sv row x s r \<longleftrightarrow> sv_tenant_id sv = Some (rec_tenant_id r) \<and> sv_project_id sv = Some (rec_project_id r)
      \<and> rec_content_type r \<in> {A2ATask, ContextPackage, EvidenceBundle}
      \<and> peer_allows row r (length (payload_json e)) \<and> peer_allows x r (length (payload_json e))" for x
    using p(6,9,10,12) s by (auto simp: scope_allowed_def)
  ultimately show ?thesis
    using assms(5-7) rec_s validate_relay_at_again [OF p(3), of now' "cfg_max_hops row"]
    by (auto simp: relay_admit_iff posted_headers_def RELAY_MAX_DEADLINE_SECS_def)
qed

section \<open>Attempts and dead letters\<close>




lemma prepared_row_checked:
  assumes "prepare_peer_delivery te c pid now e = Inr (peer, r, s, body)"
  shows "validate_relay_peer (te_crypto te) (te_parse_url te) (te_loopback_ip te) (tc_allow_loopback_http c) peer = Inr ()"
proof -
  have "validate_transport_config te c = Inr ()" "tc_local_peer_id c \<noteq> None"
    using assms unfolding prepare_peer_delivery_def result_simps by auto
  then have "validate_peer_table (te_crypto te) (te_parse_url te) (te_loopback_ip te) (tc_allow_loopback_http c)
      \<lparr>table_schema_version = RELAY_PEER_TABLE_VERSION, table_peers = tc_peers c\<rparr> = Inr ()"
    by (auto simp: validate_transport_config_def validate_peer_mode_def Let_def result_simps)
  moreover have "peer \<in> set (tc_peers c)"
    using prepare_peer_delivery_eq_Ok(1) [OF assms] by (auto simp: find_Some_iff)
  ultimately show ?thesis
    by (auto simp: validate_peer_table_def result_simps validate_peer_rows_eq_Ok)
qed



section \<open>Retrying the single recipient\<close>

lemma prepare_delivery_eq_Ok:
  assumes "prepare_delivery te c q e = Inr (s, body)"
  obtains tenant project where "tc_tenant_id c = Some tenant" "tc_project_id c = Some project"
    "sign_envelope (te_rfc3339 te) (rc_hmac (te_crypto te))
       (e\<lparr>env_metadata := binsert ''project_id'' project (binsert ''tenant_id'' tenant (env_metadata e))\<rparr>)
       (the (tc_signing_key c)) = (Inr (), s)" "body = te_json te s"
proof -
  have v: "validate_transport_config te c = Inr ()" "tc_local_peer_id c = None"
    "sign_envelope (te_rfc3339 te) (rc_hmac (te_crypto te))
       (e\<lparr>env_metadata := binsert ''project_id'' (the (tc_project_id c)) (binsert ''tenant_id'' (the (tc_tenant_id c)) (env_metadata e))\<rparr>)
       (the (tc_signing_key c)) = (Inr (), s)" "body = te_json te s"
    using assms unfolding prepare_delivery_def result_simps Let_def signed_eq_Ok serialize_and_validate_def by auto
  have "\<not> unset (tc_tenant_id c)" "\<not> unset (tc_project_id c)"
    using v(1,2) by (auto simp: validate_transport_config_def validate_peer_mode_def result_simps split: if_splits)
  then obtain tenant project where "tc_tenant_id c = Some tenant" "tc_project_id c = Some project"
    by (auto simp: unset_def split: option.splits)
  with v(3,4) show thesis by (intro that) simp_all
qed

lemma ascii_lower_hex: "ascii_lower (hex_encode bs) = hex_encode bs"
proof -
  have digit: "\<not> (65 \<le> byte (hex_lower d) \<and> byte (hex_lower d) \<le> 90)" if "d < 16" for d
  proof -
    have "d \<in> set [0..<16]" using that by simp
    then show ?thesis by (simp add: upt_conv_Cons) (elim disjE; simp add: hex_lower_def byte_def)
  qed
  show ?thesis by (induction bs) (simp_all add: hex_encode_def ascii_lower_def digit byte_nibbles)
qed

lemma alias_keys:
  "LEGACY_DELIVERY_ID_METADATA \<noteq> LEGACY_DELIVERY_SENT_AT_METADATA" "LEGACY_DELIVERY_ID_METADATA \<noteq> ''tenant_id''"
  "LEGACY_DELIVERY_ID_METADATA \<noteq> ''project_id''" "LEGACY_DELIVERY_SENT_AT_METADATA \<noteq> ''tenant_id''"
  "LEGACY_DELIVERY_SENT_AT_METADATA \<noteq> ''project_id''" "RELAY_METADATA_KEY \<noteq> ''tenant_id''" "RELAY_METADATA_KEY \<noteq> ''project_id''"
  "RELAY_METADATA_KEY \<noteq> LEGACY_DELIVERY_ID_METADATA" "RELAY_METADATA_KEY \<noteq> LEGACY_DELIVERY_SENT_AT_METADATA"
  by (simp_all add: LEGACY_DELIVERY_ID_METADATA_def LEGACY_DELIVERY_SENT_AT_METADATA_def RELAY_METADATA_KEY_def)

text \<open>Adding the aliases, stamping the same scope and removing the aliases again changes nothing.\<close>

lemma aliases_removed:
  assumes "bget m LEGACY_DELIVERY_ID_METADATA = None" "bget m LEGACY_DELIVERY_SENT_AT_METADATA = None"
    and "bget m ''tenant_id'' = Some tenant" "bget m ''project_id'' = Some project"
  shows "bremove LEGACY_DELIVERY_SENT_AT_METADATA (bremove LEGACY_DELIVERY_ID_METADATA
      (binsert ''project_id'' project (binsert ''tenant_id'' tenant
        (binsert LEGACY_DELIVERY_SENT_AT_METADATA at (binsert LEGACY_DELIVERY_ID_METADATA i m))))) = m"
  by (rule bmap_ext) (use assms alias_keys in auto)

text \<open>A resent envelope with the aliases of the first attempt has its identity and proves its signature.\<close>

lemma resent_recognised:
  assumes "verify_envelope (te_rfc3339 te) (rc_hmac (te_crypto te)) s key" "env_signature s = Some sg"
    and "length sg = 64" "list_all is_ascii_hexdigit sg" "ascii_lower sg = sg"
    and "bget (env_metadata s) LEGACY_DELIVERY_ID_METADATA = None" "bget (env_metadata s) LEGACY_DELIVERY_SENT_AT_METADATA = None"
    and "bget (env_metadata s) ''tenant_id'' = Some tenant" "bget (env_metadata s) ''project_id'' = Some project"
    and "bget (env_metadata s) RELAY_METADATA_KEY = None"
    and "parse_rfc3339 (te_dlq te) (te_rfc3339 te (sent_at s)) = Some (sent_at s)"
    and s2: "s2 = s\<lparr>env_metadata := binsert ''project_id'' project (binsert ''tenant_id'' tenant
        (binsert LEGACY_DELIVERY_SENT_AT_METADATA (te_rfc3339 te (sent_at s)) (binsert LEGACY_DELIVERY_ID_METADATA sg (env_metadata s)))),
      sent_at := now, env_signature := sig2\<rparr>"
  shows "stable_delivery_id (te_codec te) (te_rfc3339 te) (rc_sha256 (te_crypto te)) s2
      = stable_delivery_id (te_codec te) (te_rfc3339 te) (rc_sha256 (te_crypto te)) s"
    "verified_legacy_delivery_id te s2 key = Ok (env_signature s)"
proof -
  note gone = aliases_removed [OF assms(6-9)]
  have "bremove LEGACY_DELIVERY_SENT_AT_METADATA (bremove LEGACY_DELIVERY_ID_METADATA (env_metadata s)) = env_metadata s"
    by (rule bmap_ext) (use assms(6,7) in auto)
  then have "stable_envelope s2 = stable_envelope s" using gone by (simp add: stable_envelope_def s2)
  moreover have "bget (env_metadata s2) RELAY_METADATA_KEY = None" using assms(10) alias_keys by (simp add: s2)
  ultimately show "stable_delivery_id (te_codec te) (te_rfc3339 te) (rc_sha256 (te_crypto te)) s2
      = stable_delivery_id (te_codec te) (te_rfc3339 te) (rc_sha256 (te_crypto te)) s"
    using assms(10) by (simp add: stable_delivery_id_def envelope_relay_record_def)
  have "bget (env_metadata s2) LEGACY_DELIVERY_ID_METADATA = Some sg"
    "bget (env_metadata s2) LEGACY_DELIVERY_SENT_AT_METADATA = Some (te_rfc3339 te (sent_at s))"
    using alias_keys by (simp_all add: s2)
  moreover have "s2\<lparr>env_metadata := bremove LEGACY_DELIVERY_SENT_AT_METADATA (bremove LEGACY_DELIVERY_ID_METADATA (env_metadata s2)),
      sent_at := sent_at s, env_signature := Some sg\<rparr> = s"
    using gone assms(2) by (simp add: s2)
  ultimately show "verified_legacy_delivery_id te s2 key = Ok (env_signature s)"
    using assms(1-5,11) by (simp add: verified_legacy_delivery_id_def Let_def)
qed

text \<open>What is posted for one letter: the first attempt, and every retry of a letter of an attempt that failed.\<close>

inductive resent :: "transport_env \<Rightarrow> remote_transport_config \<Rightarrow> transport_envelope \<Rightarrow> string \<Rightarrow> transport_envelope \<Rightarrow> string \<Rightarrow> bool"
  for te c s body where
  resent_first: "resent te c s body s body"
| resent_again: "resent te c s body s1 body1 \<Longrightarrow>
    legacy_letter_envelope te c now (failure_letter te s1 body1 failure n c ''legacy'' (tc_endpoint_url c) ended) = Ok e2 \<Longrightarrow>
    prepare_delivery te c q e2 = Ok (s2, body2) \<Longrightarrow> te_lossy te body2 = body2 \<Longrightarrow> te_read_json te body2 = Ok s2 \<Longrightarrow>
    resent te c s body s2 body2"

text \<open>The metadata of a retry: those of the first attempt with its signature and instant as aliases.\<close>

definition aliased_metadata :: "transport_env \<Rightarrow> string \<Rightarrow> string \<Rightarrow> transport_envelope \<Rightarrow> string \<Rightarrow> (string, string) btree_map" where
  "aliased_metadata te tenant project s sg = binsert ''project_id'' project (binsert ''tenant_id'' tenant
     (binsert LEGACY_DELIVERY_SENT_AT_METADATA (te_rfc3339 te (sent_at s)) (binsert LEGACY_DELIVERY_ID_METADATA sg (env_metadata s))))"

definition aliased_from :: "transport_env \<Rightarrow> string \<Rightarrow> string \<Rightarrow> transport_envelope \<Rightarrow> string \<Rightarrow> transport_envelope \<Rightarrow> bool" where
  "aliased_from te tenant project s sg x \<longleftrightarrow>
     (\<exists>t sig. x = s\<lparr>env_metadata := aliased_metadata te tenant project s sg, sent_at := t, env_signature := Some sig\<rparr>)"

lemma retry_letter_aliased:
  assumes "s1 = s \<or> aliased_from te tenant project s sg s1"
    and "env_signature s = Some sg" "ascii_lower sg = sg" "bget (env_metadata s) LEGACY_DELIVERY_ID_METADATA = None"
    and "bget (env_metadata s) RELAY_METADATA_KEY = None"
    and "tc_tenant_id c = Some tenant" "tc_project_id c = Some project" "te_lossy te body1 = body1" "te_read_json te body1 = Ok s1"
  obtains e2 where "legacy_letter_envelope te c now (failure_letter te s1 body1 failure n c ''legacy'' (tc_endpoint_url c) ended) = Ok e2"
    "e2 = s\<lparr>env_metadata := env_metadata e2, sent_at := now, env_signature := None\<rparr>"
    "\<And>q s2 body2. prepare_delivery te c q e2 = Ok (s2, body2) \<Longrightarrow> aliased_from te tenant project s sg s2"
proof -
  let ?M = "binsert LEGACY_DELIVERY_SENT_AT_METADATA (te_rfc3339 te (sent_at s)) (binsert LEGACY_DELIVERY_ID_METADATA sg (env_metadata s))"
  define m where "m = (if s1 = s then ?M else aliased_metadata te tenant project s sg)"
  define e2 where "e2 = s\<lparr>env_metadata := m, sent_at := now, env_signature := None\<rparr>"
  have norec: "bget (env_metadata s1) RELAY_METADATA_KEY = None"
    using assms(1,5) alias_keys by (auto simp: aliased_from_def aliased_metadata_def)
  have "legacy_letter_envelope te c now (failure_letter te s1 body1 failure n c ''legacy'' (tc_endpoint_url c) ended) = Ok e2"
  proof (cases "s1 = s")
    case True
    then show ?thesis using assms norec
      by (simp add: legacy_letter_envelope_def failure_letter_def envelope_relay_record_def Let_def e2_def m_def)
  next
    case False
    then obtain t sig where s1: "s1 = s\<lparr>env_metadata := aliased_metadata te tenant project s sg, sent_at := t, env_signature := Some sig\<rparr>"
      using assms(1) by (auto simp: aliased_from_def)
    then have "bget (env_metadata s1) LEGACY_DELIVERY_ID_METADATA = Some sg" using alias_keys by (simp add: aliased_metadata_def)
    then show ?thesis using assms(6-9) norec False s1
      by (simp add: legacy_letter_envelope_def failure_letter_def envelope_relay_record_def Let_def e2_def m_def)
  qed
  moreover have "binsert ''project_id'' project (binsert ''tenant_id'' tenant m) = aliased_metadata te tenant project s sg"
    by (rule bmap_ext) (simp add: m_def aliased_metadata_def)
  then have "aliased_from te tenant project s sg s2" if two: "prepare_delivery te c q e2 = Ok (s2, body2)" for q s2 body2
  proof -
    obtain sig where "s2 = e2\<lparr>env_metadata := binsert ''project_id'' project (binsert ''tenant_id'' tenant (env_metadata e2)),
        env_signature := Some sig\<rparr>"
      using prepare_delivery_eq_Ok [OF two] sign_envelope_shape assms(6,7) by (metis option.inject)
    then show ?thesis using \<open>binsert _ _ _ = _\<close> unfolding aliased_from_def e2_def
      by (intro exI [of _ now] exI [of _ sig]) simp
  qed
  moreover have "e2 = s\<lparr>env_metadata := env_metadata e2, sent_at := now, env_signature := None\<rparr>" by (simp add: e2_def)
  ultimately show ?thesis using that by blast
qed

lemma resent_aliased:
  assumes "resent te c s body s1 body1" "te_lossy te body = body" "te_read_json te body = Ok s"
    and "env_signature s = Some sg" "ascii_lower sg = sg" "bget (env_metadata s) LEGACY_DELIVERY_ID_METADATA = None"
    and "bget (env_metadata s) RELAY_METADATA_KEY = None" "tc_tenant_id c = Some tenant" "tc_project_id c = Some project"
  shows "(s1 = s \<or> aliased_from te tenant project s sg s1) \<and> te_lossy te body1 = body1 \<and> te_read_json te body1 = Ok s1"
  using assms(1)
proof (induction rule: resent.induct)
  case (resent_again s1 body1 now failure n ended e2 q s2 body2)
  then show ?case
    using retry_letter_aliased [OF _ assms(4-9), of s1 te body1 now failure n ended] by (metis sum.inject(2))
qed (use assms(2,3) in simp)

lemma singleton_recognised:
  assumes "prepare_delivery te c q e = Ok (s, body)" "bget (env_metadata e) RELAY_METADATA_KEY = None"
    and "bget (env_metadata e) LEGACY_DELIVERY_ID_METADATA = None" "bget (env_metadata e) LEGACY_DELIVERY_SENT_AT_METADATA = None"
    and "te_lossy te body = body" "te_read_json te body = Ok s"
    and "\<forall>t. length (rc_hmac (te_crypto te) (the (tc_signing_key c)) t) = 32"
    and "parse_rfc3339 (te_dlq te) (te_rfc3339 te (sent_at e)) = Some (sent_at e)"
    and "resent te c s body s1 body1"
  shows "\<exists>e2. legacy_letter_envelope te c now (failure_letter te s1 body1 failure n c ''legacy'' (tc_endpoint_url c) ended) = Ok e2
    \<and> e2 = s\<lparr>env_metadata := env_metadata e2, sent_at := now, env_signature := None\<rparr>
    \<and> (\<forall>q2 s2 body2. prepare_delivery te c q2 e2 = Ok (s2, body2) \<longrightarrow>
         stable_delivery_id (te_codec te) (te_rfc3339 te) (rc_sha256 (te_crypto te)) s2
           = stable_delivery_id (te_codec te) (te_rfc3339 te) (rc_sha256 (te_crypto te)) s
         \<and> verified_legacy_delivery_id te s2 (the (tc_signing_key c)) = Ok (env_signature s))"
proof -
  let ?hmac = "rc_hmac (te_crypto te)" and ?key = "the (tc_signing_key c)" and ?rfc = "te_rfc3339 te"
  obtain tenant project where tp: "tc_tenant_id c = Some tenant" "tc_project_id c = Some project"
    and sg: "sign_envelope ?rfc ?hmac (e\<lparr>env_metadata := binsert ''project_id'' project (binsert ''tenant_id'' tenant (env_metadata e))\<rparr>)
      ?key = (Inr (), s)"
    by (rule prepare_delivery_eq_Ok [OF assms(1)])
  obtain t where sig: "env_signature s = Some (hex_encode (?hmac ?key t))" by (rule sign_envelope_eq_Ok [OF sg])
  define sg1 where "sg1 = hex_encode (?hmac ?key t)"
  have hex: "length sg1 = 64" "list_all is_ascii_hexdigit sg1" "ascii_lower sg1 = sg1"
    using hex_encode_props(1,2) [of "?hmac ?key t"] assms(7) ascii_lower_hex by (simp_all add: sg1_def)
  have "s = e\<lparr>env_metadata := binsert ''project_id'' project (binsert ''tenant_id'' tenant (env_metadata e)), env_signature := Some sg1\<rparr>"
    using sign_envelope_shape [OF sg] sig by (auto simp: sg1_def)
  then have s: "env_signature s = Some sg1" "sent_at s = sent_at e" "bget (env_metadata s) LEGACY_DELIVERY_ID_METADATA = None"
    "bget (env_metadata s) LEGACY_DELIVERY_SENT_AT_METADATA = None" "bget (env_metadata s) ''tenant_id'' = Some tenant"
    "bget (env_metadata s) ''project_id'' = Some project" "bget (env_metadata s) RELAY_METADATA_KEY = None"
    using assms(2-4) alias_keys by auto
  have "?hmac ?key t' \<noteq> []" for t' using assms(7) by (metis list.size(3) zero_neq_numeral)
  then have ok: "verify_envelope ?rfc ?hmac s ?key" by (rule signed_verifies [OF sg])
  note form = resent_aliased [OF assms(9,5,6) s(1) hex(3) s(3,7) tp]
  from form have read: "te_lossy te body1 = body1" "te_read_json te body1 = Ok s1" by simp_all
  obtain e2 where e2: "legacy_letter_envelope te c now (failure_letter te s1 body1 failure n c ''legacy'' (tc_endpoint_url c) ended) = Ok e2"
    and shape: "e2 = s\<lparr>env_metadata := env_metadata e2, sent_at := now, env_signature := None\<rparr>"
    and next_form: "\<And>q s2 body2. prepare_delivery te c q e2 = Ok (s2, body2) \<Longrightarrow> aliased_from te tenant project s sg1 s2"
    using retry_letter_aliased [OF conjunct1 [OF form] s(1) hex(3) s(3,7) tp read, of now failure n ended] by metis
  have "stable_delivery_id (te_codec te) ?rfc (rc_sha256 (te_crypto te)) s2 = stable_delivery_id (te_codec te) ?rfc (rc_sha256 (te_crypto te)) s
      \<and> verified_legacy_delivery_id te s2 ?key = Ok (env_signature s)" if two: "prepare_delivery te c q2 e2 = Ok (s2, body2)" for q2 s2 body2
  proof -
    obtain t sig2 where "s2 = s\<lparr>env_metadata := aliased_metadata te tenant project s sg1, sent_at := t, env_signature := Some sig2\<rparr>"
      using next_form [OF two] by (auto simp: aliased_from_def)
    from resent_recognised [OF ok s(1) hex s(3-7) _ this [unfolded aliased_metadata_def]] assms(8) s(2) show ?thesis by simp
  qed
  with e2 shape show ?thesis by blast
qed

lemma letter_peer: "dl_peer_id (failure_letter te e body failure attempts c peer url now) = peer"
  by (simp add: failure_letter_def Let_def)

lemma configured_peer_not_legacy:
  assumes "prepare_peer_delivery te c pid now e = Inr (peer, r, s, body)"
  shows "pid \<noteq> ''legacy''"
proof -
  have "peer_id peer \<noteq> ''legacy''"
    using prepared_row_checked [OF assms] by (auto simp: validate_relay_peer_def Let_def result_simps)
  then show ?thesis using prepare_peer_delivery_eq_Ok(1) [OF assms] by (auto simp: find_Some_iff)
qed

lemma peer_letter_recognised:
  assumes "prepare_peer_delivery te c pid now e = Ok (peer, r, s, body)" "te_lossy te body = body" "te_read_json te body = Ok s"
  shows "\<exists>e2. peer_letter_envelope te c now1 (failure_letter te s body failure n c pid (endpoint_url peer) ended) = Ok e2
    \<and> e2 = s\<lparr>sent_at := now1, env_signature := None\<rparr>
    \<and> (\<forall>now2 peer2 r2 s2 body2. prepare_peer_delivery te c pid now2 e2 = Ok (peer2, r2, s2, body2) \<longrightarrow>
         peer2 = peer \<and> r2 = r \<and> payload_json s2 = payload_json s
         \<and> (\<forall>he sv hs now3 x r3 local. he_transport he = te \<longrightarrow> te_read_json te body2 = Ok s2
              \<longrightarrow> relay_admit he sv hs body2 now3 = Ok (x, r3, local) \<longrightarrow> r3 = r))"
proof -
  note p = prepare_peer_delivery_eq_Ok [OF assms(1)]
  obtain sig where s: "s = e\<lparr>env_signature := Some sig\<rparr>" using sign_envelope_shape [OF p(13)] by auto
  have rec_s: "envelope_relay_record (te_codec te) s = Inr (Some r)" using p(2) s by (simp add: envelope_relay_record_def)
  define e2 where "e2 = s\<lparr>sent_at := now1, env_signature := None\<rparr>"
  have "peer_letter_envelope te c now1 (failure_letter te s body failure n c pid (endpoint_url peer) ended) = Ok e2"
    using p(1) rec_s assms(2,3) by (simp add: peer_letter_envelope_def failure_letter_def Let_def e2_def)
  moreover have "peer2 = peer \<and> r2 = r \<and> payload_json s2 = payload_json s
      \<and> (\<forall>he sv hs now3 x r3 local. he_transport he = te \<longrightarrow> te_read_json te body2 = Ok s2
           \<longrightarrow> relay_admit he sv hs body2 now3 = Ok (x, r3, local) \<longrightarrow> r3 = r)"
    if "prepare_peer_delivery te c pid now2 e2 = Ok (peer2, r2, s2, body2)" for now2 peer2 r2 s2 body2
  proof -
    note p2 = prepare_peer_delivery_eq_Ok [OF that]
    obtain sig2 where s2: "s2 = e2\<lparr>env_signature := Some sig2\<rparr>" using sign_envelope_shape [OF p2(13)] by auto
    have rec: "envelope_relay_record (te_codec te) e2 = Inr (Some r)" using rec_s by (simp add: envelope_relay_record_def e2_def)
    then have "envelope_relay_record (te_codec te) s2 = Inr (Some r)" by (simp add: envelope_relay_record_def s2)
    then show ?thesis
      using p(1) p2(1,2) rec s2 by (auto simp: e2_def relay_admit_iff parse_envelope_def result_simps)
  qed
  ultimately show ?thesis using e2_def by blast
qed

text \<open>
  C30. A dead letter is retried as the same delivery. For the single recipient: where the first attempt
  carried neither aliases nor a relay record of its own, the letter of that attempt and of any retry
  of it is accepted for a retry, which sends the same message with a new instant; whatever that
  instant and the new signature, the receiver finds the identity of the first attempt and verifies
  the first signature as its alias, so that its ledger recognises either. For a peer: the letter of a delivery is accepted for a
  retry to that peer, which posts the same record and payload again, so that a receiver that admits
  it works on the record of the first attempt. This assumes that the text of an envelope survives
  the letter and reads back, and for the single recipient that HMAC has 32 bytes and the instant
  reads back.
\<close>

theorem retried_letter_recognised:
  "(prepare_delivery te c q e = Ok (s, body) \<and> bget (env_metadata e) RELAY_METADATA_KEY = None
      \<and> bget (env_metadata e) LEGACY_DELIVERY_ID_METADATA = None \<and> bget (env_metadata e) LEGACY_DELIVERY_SENT_AT_METADATA = None
      \<and> te_lossy te body = body \<and> te_read_json te body = Ok s
      \<and> (\<forall>t. length (rc_hmac (te_crypto te) (the (tc_signing_key c)) t) = 32)
      \<and> parse_rfc3339 (te_dlq te) (te_rfc3339 te (sent_at e)) = Some (sent_at e)
      \<and> resent te c s body s1 body1 \<longrightarrow>
    (\<exists>e2. (\<forall>net q1. retry_dead_letter te net c now1 now2 ended1 elapsed
             (failure_letter te s1 body1 failure n c ''legacy'' (tc_endpoint_url c) ended) q1 = deliver te net c ended1 elapsed e2 q1)
      \<and> e2 = s\<lparr>env_metadata := env_metadata e2, sent_at := now1, env_signature := None\<rparr>
      \<and> (\<forall>q2 s2 body2. prepare_delivery te c q2 e2 = Ok (s2, body2) \<longrightarrow>
           stable_delivery_id (te_codec te) (te_rfc3339 te) (rc_sha256 (te_crypto te)) s2
             = stable_delivery_id (te_codec te) (te_rfc3339 te) (rc_sha256 (te_crypto te)) s
           \<and> verified_legacy_delivery_id te s2 (the (tc_signing_key c)) = Ok (env_signature s))))
   \<and> (prepare_peer_delivery te c pid now e = Ok (peer, r, s, body) \<and> te_lossy te body = body \<and> te_read_json te body = Ok s \<longrightarrow>
    (\<exists>e2. (\<forall>net q1. retry_dead_letter te net c now1 now2 ended1 elapsed
             (failure_letter te s body failure n c pid (endpoint_url peer) ended) q1 = deliver_to te net c pid now2 ended1 elapsed e2 q1)
      \<and> e2 = s\<lparr>sent_at := now1, env_signature := None\<rparr>
      \<and> (\<forall>peer2 r2 s2 body2. prepare_peer_delivery te c pid now2 e2 = Ok (peer2, r2, s2, body2) \<longrightarrow>
           peer2 = peer \<and> r2 = r \<and> payload_json s2 = payload_json s
           \<and> (\<forall>he sv hs now3 x r3 local. he_transport he = te \<longrightarrow> te_read_json te body2 = Ok s2
                \<longrightarrow> relay_admit he sv hs body2 now3 = Ok (x, r3, local) \<longrightarrow> r3 = r))))"
    (is "(?single \<longrightarrow> ?A) \<and> (?peer \<longrightarrow> ?B)")
proof (intro conjI impI)
  assume single: ?single
  then have "\<exists>e2. legacy_letter_envelope te c now1 (failure_letter te s1 body1 failure n c ''legacy'' (tc_endpoint_url c) ended) = Ok e2
    \<and> e2 = s\<lparr>env_metadata := env_metadata e2, sent_at := now1, env_signature := None\<rparr>
    \<and> (\<forall>q2 s2 body2. prepare_delivery te c q2 e2 = Ok (s2, body2) \<longrightarrow>
         stable_delivery_id (te_codec te) (te_rfc3339 te) (rc_sha256 (te_crypto te)) s2
           = stable_delivery_id (te_codec te) (te_rfc3339 te) (rc_sha256 (te_crypto te)) s
         \<and> verified_legacy_delivery_id te s2 (the (tc_signing_key c)) = Ok (env_signature s))"
    by (intro singleton_recognised [of te c q e s body s1 body1 now1 failure n ended]) simp_all
  then obtain e2 where "legacy_letter_envelope te c now1 (failure_letter te s1 body1 failure n c ''legacy'' (tc_endpoint_url c) ended) = Ok e2"
    and shape: "e2 = s\<lparr>env_metadata := env_metadata e2, sent_at := now1, env_signature := None\<rparr>"
    and same: "\<forall>q2 s2 body2. prepare_delivery te c q2 e2 = Ok (s2, body2) \<longrightarrow>
         stable_delivery_id (te_codec te) (te_rfc3339 te) (rc_sha256 (te_crypto te)) s2
           = stable_delivery_id (te_codec te) (te_rfc3339 te) (rc_sha256 (te_crypto te)) s
         \<and> verified_legacy_delivery_id te s2 (the (tc_signing_key c)) = Ok (env_signature s)" by blast
  then have "\<forall>net q1. retry_dead_letter te net c now1 now2 ended1 elapsed
      (failure_letter te s1 body1 failure n c ''legacy'' (tc_endpoint_url c) ended) q1 = deliver te net c ended1 elapsed e2 q1"
    by (simp add: retry_dead_letter_def letter_peer)
  with same shape show ?A by blast
next
  assume peer: ?peer
  then obtain e2 where "peer_letter_envelope te c now1 (failure_letter te s body failure n c pid (endpoint_url peer) ended) = Ok e2"
    and shape: "e2 = s\<lparr>sent_at := now1, env_signature := None\<rparr>"
    and same: "\<forall>now2 peer2 r2 s2 body2. prepare_peer_delivery te c pid now2 e2 = Ok (peer2, r2, s2, body2) \<longrightarrow>
         peer2 = peer \<and> r2 = r \<and> payload_json s2 = payload_json s
         \<and> (\<forall>he sv hs now3 x r3 local. he_transport he = te \<longrightarrow> te_read_json te body2 = Ok s2
              \<longrightarrow> relay_admit he sv hs body2 now3 = Ok (x, r3, local) \<longrightarrow> r3 = r)"
    using peer_letter_recognised [of te c pid now e peer r s body now1 failure n ended] by blast
  moreover have "pid \<noteq> ''legacy''" using peer configured_peer_not_legacy by blast
  ultimately have "\<forall>net q1. retry_dead_letter te net c now1 now2 ended1 elapsed
      (failure_letter te s body failure n c pid (endpoint_url peer) ended) q1 = deliver_to te net c pid now2 ended1 elapsed e2 q1"
    by (simp add: retry_dead_letter_def letter_peer)
  with shape spec [OF same, of now2] show ?B by (intro exI conjI)
qed

end
