(* ===== verification/Relay_Witnesses.thy ===== *)
theory Relay_Witnesses
  imports Link_Laws Replay_Witnesses
begin

text \<open>The properties of the relay, its transport and its dead letters at concrete deliveries.\<close>

section \<open>Quotas\<close>

definition demo_quotas :: relay_quota_state where
  "demo_quotas = projr (new_quota_state default_quota_config [''a'', ''b''] ''t'' ''p'' 0)"

definition demo_quota_request :: quota_request where
  "demo_quota_request = \<lparr>rq_current = ''a'', rq_origin_peer = ''b'', rq_quota_tenant = ''t'', rq_quota_project = ''p'', rq_at = 5\<rparr>"

theorem quota_rate_bound_witness:
  "length (filter (charges ''a'') (quota_admitted demo_quotas [demo_quota_request, demo_quota_request])) * 10 ^ 9
     \<le> 40 * 10 ^ 9 + 5 * (20 :: nat)"
proof -
  have new: "new_quota_state default_quota_config [''a'', ''b''] ''t'' ''p'' 0 = Ok demo_quotas"
    by code_simp
  have "\<forall>r\<in>set [demo_quota_request, demo_quota_request]. rq_at r \<le> 5" by (simp add: demo_quota_request_def)
  from quota_rate_bound [OF new _ this, of "''a''"] show ?thesis by (simp add: default_quota_config_def)
qed

section \<open>A record from origin to recipient\<close>

definition demo_rc :: relay_crypto where
  "demo_rc = \<lparr>rc_origin_json = (\<lambda>v. ov_delivery_id v), rc_hop_json = (\<lambda>r. current_peer r), rc_hex_encode = hex_encode,
     rc_hex_decode = hex_decode, rc_sha256 = (\<lambda>_. replicate 32 (CHR ''s'')), rc_hmac = (\<lambda>_ _. replicate 32 (CHR ''m'')),
     rc_key_ok = (\<lambda>_. True), rc_ed25519 = (\<lambda>_ _ _. True)\<rparr>"

definition demo_start :: int where "demo_start = 1000 * 10 ^ 9"
definition demo_origin_key :: string where "demo_origin_key = replicate 64 (CHR ''a'')"

definition demo_key_bytes :: string where "demo_key_bytes = projr (decode_origin_key demo_rc demo_origin_key)"

definition demo_signed :: "relay_record relay" where
  "demo_signed = new_signed demo_rc ''d1'' ''a'' ''b'' ''t'' ''p'' A2ATask data_classification.Internal (demo_start + 3600 * 10 ^ 9) 4 demo_start
     (\<lambda>_. replicate 64 (CHR ''g'')) ''key'' ''{}''"

definition demo_record :: relay_record where "demo_record = projr demo_signed"

lemma demo_signed_Ok: "demo_signed = Ok demo_record" by code_simp

definition demo_hops :: "forwarding list" where
  "demo_hops = [(''b'', ''c'', demo_start + 1, ''key2''), (''c'', ''d'', demo_start + 2, ''key3'')]"

definition demo_forwarded :: relay_record where
  "demo_forwarded = projr (forward_along demo_rc demo_hops demo_record)"

lemma demo_forwarded_Ok: "forward_along demo_rc demo_hops demo_record = Ok demo_forwarded" by code_simp

theorem forwarding_bounded_witness:
  "hop_ids demo_forwarded = [''a'', ''b'', ''c''] \<and> distinct (hop_ids demo_forwarded)"
proof -
  have shape: "validate_relay_shape demo_record = Ok ()" by code_simp
  have "hop_ids demo_record = [''a'']" by code_simp
  with forwarding_bounded [OF demo_forwarded_Ok shape] show ?thesis by (auto simp: demo_hops_def)
qed

theorem origin_authority_survives_witness:
  "verify_origin demo_rc demo_forwarded demo_origin_key = Ok () \<and> verify_payload demo_rc demo_forwarded ''{}'' = Ok ()
   \<and> verify_hop demo_rc demo_forwarded ''key3'' = Ok ()"
proof -
  have key: "decode_origin_key demo_rc demo_origin_key = Ok demo_key_bytes" by code_simp
  have "\<forall>bytes. hex_ok demo_rc bytes" by (simp add: hex_ok_def demo_rc_def hex_encode_props)
  moreover have "\<forall>bytes. rc_ed25519 demo_rc demo_key_bytes bytes ((\<lambda>_. replicate 64 (CHR ''g'')) bytes)
      \<and> length ((\<lambda>_. replicate 64 (CHR ''g'')) bytes) = 64"
    "\<forall>key bytes. length (rc_hmac demo_rc key bytes) = 32" by (simp_all add: demo_rc_def)
  ultimately show ?thesis
    using origin_authority_survives [OF demo_signed_Ok [unfolded demo_signed_def] demo_forwarded_Ok key]
    by (simp add: last_channel_key_def demo_hops_def)
qed

section \<open>Signed envelopes\<close>

text \<open>A rendering of instants that tells them apart.\<close>

definition tally :: "int \<Rightarrow> string" where
  "tally i = (if 0 \<le> i then replicate (2 * nat i) (CHR ''x'') else replicate (2 * nat (- i) + 1) (CHR ''x''))"

lemma inj_tally: "inj tally"
proof (rule injI)
  fix i j assume "tally i = tally j"
  then have "length (tally i) = length (tally j)" by simp
  then show "i = j" by (auto simp: tally_def split: if_splits dest: arg_cong [of _ _ even])
qed

definition demo_sender :: agent_identity where
  "demo_sender = \<lparr>id_agent_id = ''a'', id_agent_type = ''agent'', daemon_fingerprint = ''f'', capabilities = [''x'']\<rparr>"

definition demo_envelope :: transport_envelope where
  "demo_envelope = \<lparr>format_version = 1, sent_at = 3, env_sender = demo_sender, env_recipient = Some ''b'', env_content_type = A2ATask,
     payload_json = ''{}'', env_signature = None,
     env_metadata = binsert ''tenant_id'' ''t'' (binsert ''project_id'' ''p'' bempty)\<rparr>"

definition joined_hmac :: "string \<Rightarrow> string \<Rightarrow> string" where "joined_hmac key t = t @ key"

definition demo_sealed :: transport_envelope where
  "demo_sealed = snd (sign_envelope tally joined_hmac demo_envelope ''key'')"

definition demo_tampered :: transport_envelope where
  "demo_tampered = demo_sealed\<lparr>payload_json := ''[]''\<rparr>"

lemma demo_envelope_sized: "envelope_sized tally demo_envelope" "envelope_sized tally (demo_envelope\<lparr>payload_json := ''[]''\<rparr>)"
  by (auto simp: envelope_sized_def demo_envelope_def demo_sender_def tally_def blen_binsert split: if_splits)

lemma envelope_sized_signature: "envelope_sized rfc3339 (e\<lparr>env_signature := sig\<rparr>) = envelope_sized rfc3339 e"
  by (simp add: envelope_sized_def)

theorem envelope_tamper_evident_witness:
  "verify_envelope tally joined_hmac demo_sealed ''key'' \<and> \<not> verify_envelope tally joined_hmac demo_tampered ''key''"
proof -
  have "fst (sign_envelope tally joined_hmac demo_envelope ''key'') = Ok ()"
    by (simp add: sign_envelope_def compute_hmac_def signing_transcript_def canonical_capabilities_def demo_envelope_def
        demo_sender_def Let_def)
  then have signed: "sign_envelope tally joined_hmac demo_envelope ''key'' = (Ok (), demo_sealed)"
    by (metis demo_sealed_def prod.collapse)
  obtain sig where sealed: "demo_sealed = demo_envelope\<lparr>env_signature := Some sig\<rparr>" using sign_envelope_shape [OF signed] by blast
  have sized: "envelope_sized tally demo_sealed" "envelope_sized tally demo_tampered"
    using demo_envelope_sized by (simp_all add: demo_tampered_def sealed envelope_sized_def)
  have "\<forall>t. joined_hmac ''key'' t \<noteq> []" by (simp add: joined_hmac_def)
  note key = this
  have "env_signature demo_tampered = env_signature demo_sealed" by (simp add: demo_tampered_def)
  moreover have "\<forall>t t'. signing_transcript tally demo_sealed = Ok t \<longrightarrow> signing_transcript tally demo_tampered = Ok t' \<longrightarrow>
      joined_hmac ''key'' t = joined_hmac ''key'' t' \<longrightarrow> t = t'" by (simp add: joined_hmac_def)
  ultimately have "verify_envelope tally joined_hmac demo_sealed ''key''
      \<and> (verify_envelope tally joined_hmac demo_tampered ''key'' \<longleftrightarrow> same_authenticated demo_sealed demo_tampered)"
    by (rule envelope_tamper_evident [OF signed key inj_tally sized])
  moreover have "\<not> same_authenticated demo_sealed demo_tampered"
    by (simp add: same_authenticated_def demo_tampered_def sealed demo_envelope_def)
  ultimately show ?thesis by blast
qed

section \<open>Dead letters\<close>

definition demo_dlq_env :: dlq_env where
  "demo_dlq_env = \<lparr>parse_rfc3339 = (\<lambda>s. Some (int (length s))),
     dlq_parse_url = (\<lambda>_. Some \<lparr>url_scheme = ''https'', url_host = Some ''h'', url_username = [], url_password = None\<rparr>),
     store_json_len = (\<lambda>es. 1000 * length es), blake3_hex = id\<rparr>"

definition demo_letter :: "string \<Rightarrow> string \<Rightarrow> string \<Rightarrow> dead_letter" where
  "demo_letter tenant delivery at = \<lparr>dl_id = delivery, dl_peer_id = ''b'', dl_delivery_id = delivery, dl_tenant_id = tenant,
     dl_project_id = ''p'', dl_delivery = RemoteHttp ''https://h'', original_message = ''{}'', target_agent = ''b'',
     dl_error = ''down'', dl_attempts = 1, first_failed_at = at, last_failed_at = at\<rparr>"

definition demo_scope :: "string \<Rightarrow> dlq_scope" where
  "demo_scope tenant = \<lparr>dlq_tenant_id = tenant, dlq_project_id = ''p''\<rparr>"

definition one_letter :: queue_backend where
  "one_letter = dlq_perform demo_dlq_env (EnqueueLetter (demo_letter ''t'' ''d1'' ''xxx'')) (DurableQueue bempty)"

definition one_file :: "(string, dlq_file) btree_map" where
  "one_file = (case one_letter of DurableQueue files \<Rightarrow> files | _ \<Rightarrow> bempty)"

lemma one_letter_file: "one_letter = DurableQueue one_file" by code_simp

theorem dlq_scopes_isolated_witness:
  "peek_letters demo_dlq_env (demo_scope ''t'') (dlq_perform demo_dlq_env (EnqueueLetter (demo_letter ''u'' ''d1'' ''x'')) (DurableQueue one_file))
     = peek_letters demo_dlq_env (demo_scope ''t'') (DurableQueue one_file)"
proof -
  have "validate_dlq_scope (operation_scope (EnqueueLetter (demo_letter ''u'' ''d1'' ''x''))) = Ok ()"
    "validate_dlq_scope (demo_scope ''t'') = Ok ()"
    "demo_scope ''t'' \<noteq> operation_scope (EnqueueLetter (demo_letter ''u'' ''d1'' ''x''))" by code_simp+
  from dlq_scopes_isolated [OF this, of demo_dlq_env one_file] show ?thesis by (simp add: demo_dlq_env_def)
qed

lemma one_letter_reached: "reaches (\<lambda>q. q = DurableQueue bempty) (dlq_step demo_dlq_env) one_letter"
proof (rule reaches_step)
  show "reaches (\<lambda>q. q = DurableQueue bempty) (dlq_step demo_dlq_env) (DurableQueue bempty)" by (rule reaches_init) simp
  show "dlq_step demo_dlq_env (DurableQueue bempty) one_letter"
    unfolding dlq_step_def one_letter_def
    by (intro exI [of _ "EnqueueLetter (demo_letter ''t'' ''d1'' ''xxx'')"] exI [of _ bempty]) (simp add: stored_letters_def)
qed

lemma demo_collision_free:
  "\<forall>s'. validate_dlq_scope s' = Ok () \<longrightarrow> blake3_hex demo_dlq_env (scope_material s') = blake3_hex demo_dlq_env (scope_material s)
     \<longrightarrow> scope_material s' = scope_material s"
  by (simp add: demo_dlq_env_def)

theorem dlq_stays_readable_witness:
  "ensure_writable demo_dlq_env (demo_scope ''t'') one_letter = Ok ()
   \<and> (\<exists>ls. peek_letters demo_dlq_env (demo_scope ''t'') one_letter = Ok ls \<and> length ls \<le> 1000)"
proof -
  have "validate_dlq_scope (demo_scope ''t'') = Ok ()" by code_simp
  from dlq_stays_readable [OF one_letter_reached this demo_collision_free] show ?thesis by blast
qed

theorem clock_rollback_locks_scope_witness:
  "\<exists>q'. enqueue_letter demo_dlq_env (demo_letter ''t'' ''d1'' ''x'') one_letter = (Ok (), q')
     \<and> (\<exists>e. ensure_writable demo_dlq_env (demo_scope ''t'') q' = Err e)
     \<and> dlq_perform demo_dlq_env (DequeueLetter (demo_scope ''t'') ''d1'') q' = q'"
proof -
  let ?x = "demo_letter ''t'' ''d1'' ''x''"
  have scope: "letter_scope ?x = demo_scope ''t''" by code_simp
  define q' where "q' = snd (enqueue_letter demo_dlq_env ?x (DurableQueue one_file))"
  have "fst (enqueue_letter demo_dlq_env ?x (DurableQueue one_file)) = Ok ()" by code_simp
  then have enq: "enqueue_letter demo_dlq_env ?x (DurableQueue one_file) = (Ok (), q')" by (simp add: q'_def prod_eq_iff)
  have "peek_letters demo_dlq_env (letter_scope ?x) (DurableQueue one_file) = Ok [demo_letter ''t'' ''d1'' ''xxx'']"
    "demo_letter ''t'' ''d1'' ''xxx'' \<in> set [demo_letter ''t'' ''d1'' ''xxx'']" "same_delivery (demo_letter ''t'' ''d1'' ''xxx'') ?x"
    "parse_rfc3339 demo_dlq_env (first_failed_at (demo_letter ''t'' ''d1'' ''xxx'')) = Some 3"
    "parse_rfc3339 demo_dlq_env (last_failed_at ?x) = Some 1" "(1 :: int) < 3" by code_simp+
  from clock_rollback_locks_scope [OF one_letter_reached [unfolded one_letter_file] this enq]
  have "\<exists>e. ensure_writable demo_dlq_env (demo_scope ''t'') q' = Err e"
    "dlq_perform demo_dlq_env (DequeueLetter (demo_scope ''t'') ''d1'') q' = q'" unfolding scope by (blast, simp only: operation_scope.simps)
  with enq show ?thesis by (auto simp: one_letter_file)
qed

end
