(* ===== verification/Link_Witnesses.thy ===== *)
theory Link_Witnesses
  imports Relay_Witnesses
begin

text \<open>The properties of the delivery route, of the link and of the dead letters it writes at one delivery.\<close>

section \<open>A link between two servers\<close>

definition demo_codec :: relay_codec where
  "demo_codec = \<lparr>cd_json = (\<lambda>_. ''j''), cd_parse = (\<lambda>_. Some demo_record), cd_base64 = id, cd_unbase64 = Some\<rparr>"

definition demo_posted :: transport_envelope where
  "demo_posted = demo_envelope\<lparr>env_metadata := binsert RELAY_METADATA_KEY ''j'' (env_metadata demo_envelope),
     env_signature := Some (hex_encode (replicate 32 (CHR ''m'')))\<rparr>"

definition demo_te :: transport_env where
  "demo_te = \<lparr>te_crypto = demo_rc, te_codec = demo_codec, te_rfc3339 = tally, te_json = (\<lambda>_. ''{}''), te_read_json = (\<lambda>_. Ok demo_posted),
     te_parse_url = dlq_parse_url demo_dlq_env, te_loopback_ip = (\<lambda>_. False), te_utf8_ok = (\<lambda>_. True), te_lossy = id,
     te_dlq = demo_dlq_env\<rparr>"

definition demo_peer :: "string \<Rightarrow> relay_peer_config" where
  "demo_peer pid = \<lparr>cfg_schema_version = 1, peer_id = pid, endpoint_url = ''https://h'', bearer_token = ''tok'', channel_key = ''key'',
     origin_public_key = demo_origin_key, recipient_id = ''b'', allowed_tenant_ids = [''t''], allowed_project_ids = [''p''],
     allowed_content_types = [A2ATask], allowed_classifications = [data_classification.Internal], cfg_max_hops = 4,
     max_payload_bytes = 1000, retry_count = 1, retry_delay_ms = 0\<rparr>"

definition demo_transport :: remote_transport_config where
  "demo_transport = projr (for_peer_table demo_te \<lparr>table_schema_version = 1, table_peers = [demo_peer ''b'']\<rparr> ''a'' 1000 False)"

definition demo_sv :: relay_server where
  "demo_sv = \<lparr>sv_peers = \<lparr>table_schema_version = 1, table_peers = [demo_peer ''a'']\<rparr>, sv_recipient_id = Some ''b'',
     sv_tenant_id = Some ''t'', sv_project_id = Some ''p'', sv_timeout = 1000\<rparr>"

definition demo_he :: handler_env where
  "demo_he = \<lparr>he_transport = demo_te, he_identity = (\<lambda>i k. demo_sender\<lparr>id_agent_id := i, id_agent_type := k\<rparr>),
     he_admit_carrier = Inr, he_acceptance = (\<lambda>_. Some (''accepted'', ''a2a_task'', ''d1'')), he_task_status = (\<lambda>_. None),
     he_unspaced = (\<lambda>_. True), he_json = (\<lambda>_. ''{}'')\<rparr>"

abbreviation demo_unsigned :: transport_envelope where
  "demo_unsigned \<equiv> demo_posted\<lparr>env_signature := None\<rparr>"

abbreviation demo_signature :: string where "demo_signature \<equiv> hex_encode (replicate 32 (CHR ''m''))"

lemma demo_sign_any:
  "env_sender e = demo_sender \<Longrightarrow>
     sign_envelope rfc3339 (rc_hmac demo_rc) e key = (Ok (), e\<lparr>env_signature := Some demo_signature\<rparr>)"
  by (simp add: sign_envelope_def compute_hmac_def signing_transcript_def canonical_capabilities_def demo_sender_def demo_rc_def Let_def)

lemma demo_sign: "sign_envelope tally (rc_hmac demo_rc) demo_unsigned ''key'' = (Ok (), demo_posted)"
  by (subst demo_sign_any) (simp_all add: demo_posted_def demo_envelope_def)

text \<open>The checks of the sender on this delivery, one by one.\<close>

lemma demo_config: "validate_transport_config demo_te demo_transport = Ok ()" by code_simp
lemma demo_local: "tc_local_peer_id demo_transport = Some ''a''" by code_simp
lemma demo_peer_found: "find (\<lambda>p. peer_id p = ''b'') (tc_peers demo_transport) = Some (demo_peer ''b'')" by code_simp
lemma demo_read: "envelope_relay_record demo_codec demo_unsigned = Ok (Some demo_record)" by code_simp
lemma demo_record_valid: "validate_relay_at demo_record (demo_start + 1) ''a'' (Some ''b'') 4 = Ok ()" by code_simp
lemma demo_hop: "verify_hop demo_rc demo_record ''key'' = Ok ()" by code_simp
lemma demo_allowed: "peer_allows (demo_peer pid) demo_record (length (payload_json demo_unsigned))" by code_simp
lemma demo_payload: "verify_payload demo_rc demo_record (payload_json demo_unsigned) = Ok ()" by code_simp
lemma demo_attached: "attach_relay_record demo_codec demo_unsigned demo_record = Ok demo_unsigned" by code_simp
lemma demo_serialized: "serialize_and_validate demo_te demo_posted 1000 = Ok ''{}''" by code_simp

lemma demo_fields:
  "current_peer demo_record = ''a''" "next_peer demo_record = ''b''" "rec_origin demo_record = ''a''" "final_recipient demo_record = ''b''"
  "relay_record.rec_tenant_id demo_record = ''t''" "relay_record.rec_project_id demo_record = ''p''"
  "rec_content_type demo_record = A2ATask" "delivery_id demo_record = ''d1''"
  by code_simp+

lemma demo_metadata: "bget (env_metadata demo_posted) ''tenant_id'' = Some ''t''" "bget (env_metadata demo_posted) ''project_id'' = Some ''p''"
  by code_simp+

lemma demo_prepared:
  "prepare_peer_delivery demo_te demo_transport ''b'' (demo_start + 1) demo_unsigned = Ok (demo_peer ''b'', demo_record, demo_posted, ''{}'')"
proof -
  have te: "te_crypto demo_te = demo_rc" "te_codec demo_te = demo_codec" "te_rfc3339 demo_te = tally"
    "te_parse_url demo_te u = Some \<lparr>url_scheme = ''https'', url_host = Some ''h'', url_username = [], url_password = None\<rparr>" for u
    by (simp_all add: demo_te_def demo_dlq_env_def)
  have e: "env_content_type demo_unsigned = A2ATask" "id_agent_id (env_sender demo_unsigned) = ''a''" "env_recipient demo_unsigned = Some ''b''"
    by (simp_all add: demo_posted_def demo_envelope_def demo_sender_def)
  show ?thesis
    using demo_config demo_local demo_peer_found demo_read demo_record_valid demo_hop demo_allowed [of "''b''"] demo_payload demo_attached
      demo_serialized demo_sign demo_fields demo_metadata te e
    by (auto simp: prepare_peer_delivery_def demo_peer_def)
qed

abbreviation demo_headers :: relay_headers where "demo_headers \<equiv> posted_headers (demo_peer ''b'') demo_record"

lemma demo_hmac: "rc_hmac demo_rc key t \<noteq> []" by (simp add: demo_rc_def)
lemma demo_rows: "table_peer (sv_peers demo_sv) ''a'' = Some (demo_peer ''a'')" by code_simp
lemma demo_origin: "verify_origin demo_rc demo_record demo_origin_key = Ok ()" by code_simp
lemma demo_expiry: "rec_expires_at demo_record = demo_start + 3600 * 10 ^ 9" by code_simp
lemma demo_chain: "chain_max_hops (relay_chain demo_record) = 4" by code_simp

theorem relay_link_admits_witness:
  "relay_admit demo_he demo_sv demo_headers ''{}'' (demo_start + 2) = Ok (demo_posted, demo_record, ''b'')"
proof -
  have "table_peer (sv_peers demo_sv) (current_peer demo_record) = Some (demo_peer ''a'')" using demo_rows demo_fields by simp
  note same = relay_link_admits [OF demo_prepared _ _ _ _ _ this, of demo_he "demo_start + 2"]
  have "relay_admit demo_he demo_sv demo_headers ''{}'' (demo_start + 2) = Ok (demo_posted, demo_record, ''b'') \<longleftrightarrow>
    length ''{}'' \<le> 2000000
    \<and> (\<exists>origin_row. table_peer (sv_peers demo_sv) (rec_origin demo_record) = Some origin_row
         \<and> verify_origin (te_crypto demo_te) demo_record (origin_public_key origin_row) = Ok ()
         \<and> peer_allows origin_row demo_record (length (payload_json demo_unsigned)))
    \<and> sv_tenant_id demo_sv = Some (relay_record.rec_tenant_id demo_record) \<and> sv_project_id demo_sv = Some (relay_record.rec_project_id demo_record)
    \<and> peer_allows (demo_peer ''a'') demo_record (length (payload_json demo_unsigned))
    \<and> rec_content_type demo_record \<in> {A2ATask, ContextPackage, EvidenceBundle}
    \<and> demo_start + 2 < rec_expires_at demo_record \<and> num_seconds (rec_expires_at demo_record - (demo_start + 2)) \<le> 24 * 60 * 60
    \<and> chain_max_hops (relay_chain demo_record) \<le> cfg_max_hops (demo_peer ''a'')"
    by (rule same) (use demo_hmac in
        \<open>simp_all add: demo_te_def demo_he_def demo_sv_def demo_peer_def demo_posted_def demo_envelope_def\<close>)
  moreover have "verify_origin (te_crypto demo_te) demo_record (origin_public_key (demo_peer ''a'')) = Ok ()"
    using demo_origin by (simp add: demo_te_def demo_peer_def)
  moreover have "sv_tenant_id demo_sv = Some ''t''" "sv_project_id demo_sv = Some ''p''" "cfg_max_hops (demo_peer ''a'') = 4"
    by (simp_all add: demo_sv_def demo_peer_def)
  ultimately show ?thesis using demo_rows demo_fields demo_allowed [of "''a''"] demo_expiry demo_chain by (simp add: num_seconds_def)
qed

lemma demo_admitted:
  assumes "demo_start + 1 \<le> now" "now < demo_start + 3600 * 10 ^ 9"
  shows "relay_admit demo_he demo_sv demo_headers ''{}'' now = Ok (demo_posted, demo_record, ''b'')"
proof -
  have te: "te_crypto demo_te = demo_rc" "te_codec demo_te = demo_codec" "te_rfc3339 demo_te = tally" "te_read_json demo_te ''{}'' = Ok demo_posted"
    "he_transport demo_he = demo_te" by (simp_all add: demo_te_def demo_he_def)
  have e: "env_content_type demo_posted = A2ATask" "id_agent_id (env_sender demo_posted) = ''a''" "env_recipient demo_posted = Some ''b''"
    "format_version demo_posted = 1" "payload_json demo_posted = ''{}''"
    by (simp_all add: demo_posted_def demo_envelope_def demo_sender_def)
  have "envelope_relay_record demo_codec demo_posted = Ok (Some demo_record)" using demo_read by (simp add: envelope_relay_record_def)
  moreover from this have "parse_envelope demo_codec (te_read_json demo_te) ''{}'' = Ok demo_posted"
    using te e by (simp add: parse_envelope_def MAX_ENVELOPE_BYTES_def)
  moreover have "verify_envelope tally (rc_hmac demo_rc) demo_posted ''key''" by (rule signed_verifies [OF demo_sign demo_hmac])
  then have "link_authentic demo_te demo_headers (demo_peer ''a'') demo_posted demo_record ''b''"
    using demo_fields te e demo_hop by (simp add: link_authentic_def posted_headers_def bearer_of_def demo_peer_def)
  moreover have "origin_authentic demo_te (demo_peer ''a'') demo_posted demo_record"
    using demo_origin demo_payload te e by (auto simp: origin_authentic_def demo_peer_def verify_payload_def result_simps)
  moreover have "scope_allowed demo_sv (demo_peer ''a'') (demo_peer ''a'') demo_posted demo_record"
    using demo_fields demo_metadata e demo_allowed [of "''a''"] by (simp add: scope_allowed_def demo_sv_def)
  moreover have "validate_relay_at demo_record now ''a'' (Some ''b'') 4 = Ok ()"
    by (rule validate_relay_at_later [OF demo_record_valid]) (use assms demo_expiry demo_chain in simp_all)
  ultimately show ?thesis
    using demo_rows demo_fields te by (simp add: relay_admit_iff posted_headers_def demo_sv_def demo_peer_def)
qed

section \<open>The route\<close>

definition demo_ins :: relay_inputs where
  "demo_ins = \<lparr>in_marker = demo_marker, in_leases = demo_draws, in_exceeds = False, in_validated_at = demo_start + 2,
     in_reserved_at = demo_start + 3, in_forwarded_at = demo_start + 4, in_instant = 0, in_lock_free = True\<rparr>"

definition demo_rs :: relay_state where
  "demo_rs = \<lparr>rs_quotas = Some demo_quotas, rs_handle = None, rs_dir = fresh_dir\<rparr>"

definition unreachable :: "string \<Rightarrow> transport_envelope \<Rightarrow> transport_error + delivery_receipt" where
  "unreachable p e = Err (SerializationError p)"

abbreviation demo_run :: "relay_state \<Rightarrow> relay_effect option \<times> relay_response \<times> relay_state" where
  "demo_run \<equiv> relay_a2a_deliver demo_he demo_sv demo_headers ''{}'' demo_ins (Some (200, ''{}'')) unreachable"

text \<open>The quotas of the first request and of a repetition at the same instant.\<close>

abbreviation filled :: "nat \<Rightarrow> relay_quota \<Rightarrow> bucket" where
  "filled k q \<equiv> \<lparr>bucket_quota = q, credit = k * CREDIT_SCALE, last_refill = 0\<rparr>"

lemma filled_steady:
  assumes "valid_quota q" "0 < k" "k \<le> quota_burst q"
  shows "refill (filled k q) 0 = filled k q" "retry_after (filled k q) = 0" "consume (filled k q) = filled (k - 1) q"
proof -
  have cap: "k * CREDIT_SCALE \<le> quota_burst q * CREDIT_SCALE" using assms(3) by simp
  moreover have "k * CREDIT_SCALE \<le> u128_max" using cap capacity_small [OF assms(1)] by linarith
  ultimately show "refill (filled k q) 0 = filled k q" by (simp add: refill_def Let_def min.absorb1 min.absorb2 del: mult_le_cancel2)
  have "CREDIT_SCALE - k * CREDIT_SCALE = 0" using assms(2) by (simp add: mult_le_cancel2 Suc_le_eq)
  then show "retry_after (filled k q) = 0" by (simp add: retry_after_def div_ceil_def)
  show "consume (filled k q) = filled (k - 1) q" by (simp add: consume_def diff_mult_distrib)
qed

definition demo_left :: "nat \<Rightarrow> (string, bucket) btree_map \<Rightarrow> relay_quota_state" where
  "demo_left n ps = \<lparr>peer_buckets = ps, quota_tenant_id = ''t'', quota_project_id = ''p'',
     tenant_bucket = filled (80 - n) (tenant_quota default_quota_config), project_bucket = filled (60 - n) (project_quota default_quota_config)\<rparr>"

lemma demo_check:
  assumes "bget ps ''a'' = Some (filled (40 - n) (peer_quota default_quota_config))" "n < 40"
  shows "check_at (demo_left n ps) ''a'' ''a'' ''t'' ''p'' 0
    = Ok (demo_left (Suc n) (binsert ''a'' (filled (40 - Suc n) (peer_quota default_quota_config)) ps))"
proof -
  have "valid_quota (peer_quota default_quota_config)" "valid_quota (tenant_quota default_quota_config)"
    "valid_quota (project_quota default_quota_config)" by (simp_all add: valid_quota_def default_quota_config_def MAX_RATE_def)
  note steady = this [THEN filled_steady(1)] this [THEN filled_steady(2)] this [THEN filled_steady(3)]
  have "quota_burst (peer_quota default_quota_config) = 40" "quota_burst (tenant_quota default_quota_config) = 80"
    "quota_burst (project_quota default_quota_config) = 60" by (simp_all add: default_quota_config_def)
  with assms show ?thesis by (simp add: check_at_def demo_left_def steady longest_wait_def Let_def)
qed

definition demo_buckets :: "(string, bucket) btree_map" where
  "demo_buckets = binsert ''b'' (filled 40 (peer_quota default_quota_config)) (binsert ''a'' (filled 40 (peer_quota default_quota_config)) bempty)"

lemma demo_quotas_new: "demo_quotas = demo_left 0 demo_buckets"
  by (simp add: demo_quotas_def new_quota_state_def validate_quota_config_def default_quota_config_def valid_quota_def MAX_RATE_def
      MAX_PEERS_def Relay_Rate.MAX_ID_BYTES_def valid_quota_id_def Let_def blen_binsert new_bucket_def demo_left_def demo_buckets_def dom_def)

definition demo_quotas1 :: relay_quota_state where
  "demo_quotas1 = demo_left 1 (binsert ''a'' (filled 39 (peer_quota default_quota_config)) demo_buckets)"

lemma demo_quota_once: "check_at demo_quotas ''a'' ''a'' ''t'' ''p'' 0 = Ok demo_quotas1"
  using demo_check [of demo_buckets 0] by (simp add: demo_quotas_new demo_buckets_def demo_quotas1_def)

lemma demo_quota_twice: "\<exists>q. check_at demo_quotas1 ''a'' ''a'' ''t'' ''p'' 0 = Ok q"
  unfolding demo_quotas1_def by (rule exI, rule demo_check) simp_all

definition demo_rs1 :: relay_state where "demo_rs1 = demo_rs\<lparr>rs_quotas := Some demo_quotas1\<rparr>"

lemma demo_quota: "check_relay_quota demo_ins demo_record demo_rs = Ok demo_rs1"
  using demo_quota_once by (simp add: check_relay_quota_def demo_rs_def demo_rs1_def demo_ins_def demo_fields)

definition demo_fp :: string where "demo_fp = projr (origin_fingerprint demo_rc demo_record)"

lemma demo_fingerprint: "origin_fingerprint demo_rc demo_record = Ok demo_fp" by code_simp

definition demo_guarded :: "relay_state \<Rightarrow> relay_effect option \<times> relay_response \<times> relay_state" where
  "demo_guarded = relay_guarded demo_he demo_sv demo_ins (Some (200, ''{}'')) unreachable demo_posted demo_record ''b'' demo_fp"

definition demo_after :: relay_state where "demo_after = snd (snd (demo_guarded demo_rs1))"

lemma demo_handed: "fst (demo_guarded \<lparr>rs_quotas = q, rs_handle = None, rs_dir = fresh_dir\<rparr>) = Some HandedOff"
  by code_simp

lemma demo_reading: "relay_admit demo_he demo_sv demo_headers ''{}'' (in_validated_at demo_ins) = Ok (demo_posted, demo_record, ''b'')"
  by (rule demo_admitted) (simp_all add: demo_ins_def)

lemma demo_ran: "demo_run demo_rs = (Some HandedOff, fst (snd (demo_guarded demo_rs1)), demo_after)"
proof -
  have "te_crypto (he_transport demo_he) = demo_rc" by (simp add: demo_he_def demo_te_def)
  then have "demo_run demo_rs = demo_guarded demo_rs1"
    using demo_reading demo_quota demo_fingerprint by (simp add: relay_a2a_deliver_def demo_guarded_def)
  moreover have "demo_rs1 = \<lparr>rs_quotas = Some demo_quotas1, rs_handle = None, rs_dir = fresh_dir\<rparr>" by (simp add: demo_rs1_def demo_rs_def)
  ultimately show ?thesis using demo_handed [of "Some demo_quotas1"] by (simp add: demo_after_def prod_eq_iff)
qed

lemma demo_guarded_quotas: "rs_quotas (snd (snd (demo_guarded \<lparr>rs_quotas = q, rs_handle = None, rs_dir = fresh_dir\<rparr>))) = q"
  by code_simp

lemma demo_kept: "rs_quotas demo_after = Some demo_quotas1"
  using demo_guarded_quotas [of "Some demo_quotas1"] by (simp add: demo_after_def demo_rs1_def demo_rs_def)

lemma demo_in_time: "in_validated_at demo_ins \<le> in_reserved_at demo_ins + 300 * 10 ^ 9" by (simp add: demo_ins_def)
lemma demo_retained: "effect_retained (Some (200, ''{}'')) unreachable HandedOff" by (simp add: is_success_def)

theorem relay_acts_with_authority_witness:
  "\<exists>e r peer. link_authentic demo_te demo_headers peer e r ''b'' \<and> origin_authentic demo_te (demo_peer ''a'') e r
     \<and> scope_allowed demo_sv peer (demo_peer ''a'') e r \<and> final_recipient r = ''b''"
proof -
  from relay_acts_with_authority [OF demo_ran] obtain e r local peer origin_peer where
    "parse_envelope (te_codec (he_transport demo_he)) (te_read_json (he_transport demo_he)) ''{}'' = Ok e"
    "envelope_relay_record (te_codec (he_transport demo_he)) e = Ok (Some r)" "sv_recipient_id demo_sv = Some local"
    "table_peer (sv_peers demo_sv) (rec_origin r) = Some origin_peer"
    "link_authentic (he_transport demo_he) demo_headers peer e r local" "origin_authentic (he_transport demo_he) origin_peer e r"
    "scope_allowed demo_sv peer origin_peer e r" "HandedOff = HandedOff \<longleftrightarrow> final_recipient r = local"
    by blast
  moreover from this have "e = demo_posted" "r = demo_record"
    using demo_read by (auto simp: parse_envelope_def result_simps demo_he_def demo_te_def envelope_relay_record_def)
  ultimately show ?thesis using demo_fields demo_rows by (auto simp: demo_sv_def demo_he_def)
qed

theorem relay_acts_once_witness:
  "fst (demo_run demo_rs) = Some HandedOff \<and> fst (demo_run demo_after) = None"
proof -
  have same: "\<forall>e' r' local'. relay_admit demo_he demo_sv demo_headers ''{}'' (in_validated_at demo_ins) = Ok (e', r', local') \<longrightarrow> same_relay demo_record r'"
    by (simp add: demo_reading same_relay_def)
  have "fst (demo_run demo_after) = None"
    by (rule relay_acts_once [OF demo_ran demo_retained demo_in_time demo_reading _ _ same, of _ "[]"]) simp_all
  with demo_ran show ?thesis by simp
qed

theorem relay_duplicate_answered_witness:
  "\<exists>resp' st''. demo_run demo_after = (None, resp', st'')
     \<and> (resp' = task_response_bytes ''{}'' \<or> (\<exists>err. resp' = relay_replay_error err))"
proof -
  have kept: "rs_quotas demo_after = Some demo_quotas1" by (rule demo_kept)
  have "is_success 200" "is_delivery_acknowledgement demo_he ''{}''" "(''{}'' :: string) \<noteq> []" "length ''{}'' \<le> 64 * 1024"
    "\<forall>d\<in>set (in_leases demo_ins). validate_lease d = Ok ()" by code_simp+
  note facts = this
  have inv: "relay_inv default_replay_limits (rs_dir demo_rs)" by (simp add: relay_inv_def fresh_dir_def demo_rs_def)
  obtain q where "check_relay_quota demo_ins demo_record demo_after = Ok (demo_after\<lparr>rs_quotas := Some q\<rparr>)"
    using demo_quota_twice kept by (auto simp: check_relay_quota_def demo_ins_def demo_fields)
  from relay_duplicate_answered [OF demo_ran facts(1-4) inv facts(5) demo_in_time demo_reading demo_fields(7) demo_reading refl this]
  show ?thesis .
qed

section \<open>Dead letters of the link\<close>



definition demo_single :: remote_transport_config where
  "demo_single = default_transport_config\<lparr>tc_endpoint_url := ''https://h'', tc_auth_token := Some ''tok'', tc_signing_key := Some ''key'',
     tc_recipient_id := Some ''b'', tc_tenant_id := Some ''t'', tc_project_id := Some ''p''\<rparr>"

definition demo_scoped :: "transport_envelope \<Rightarrow> transport_envelope" where
  "demo_scoped e = e\<lparr>env_metadata := binsert ''project_id'' ''p'' (binsert ''tenant_id'' ''t'' (env_metadata e)),
     env_signature := Some demo_signature\<rparr>"

definition demo_te1 :: transport_env where
  "demo_te1 = demo_te\<lparr>te_read_json := (\<lambda>_. Ok (demo_scoped demo_envelope)),
     te_dlq := demo_dlq_env\<lparr>parse_rfc3339 := (\<lambda>s. Some (int (length s) div 2))\<rparr>\<rparr>"

lemma demo_single_prepared:
  assumes "env_sender e = demo_sender" "env_recipient e = Some ''b''"
  shows "prepare_delivery demo_te1 demo_single (DurableQueue bempty) e = Ok (demo_scoped e, ''{}'')"
proof -
  have "validate_transport_config demo_te1 demo_single = Ok ()"
    by (simp add: validate_transport_config_def demo_single_def default_transport_config_def demo_te1_def demo_te_def demo_dlq_env_def
        DEFAULT_MAX_PAYLOAD_BYTES_def RELAY_MAX_RETRIES_def RELAY_MAX_RETRY_DELAY_MS_def unset_def)
  moreover have "ensure_dlq_scope demo_te1 ''t'' ''p'' (DurableQueue bempty) = Ok ()" by code_simp
  moreover have "te_crypto demo_te1 = demo_rc" "te_json demo_te1 x = ''{}''" for x by (simp_all add: demo_te1_def demo_te_def)
  ultimately show ?thesis
    using assms by (simp add: prepare_delivery_def demo_sign_any demo_scoped_def serialize_and_validate_def Let_def)
      (simp add: demo_single_def default_transport_config_def DEFAULT_MAX_PAYLOAD_BYTES_def demo_sign_any)
qed

abbreviation demo_retry_letter :: dead_letter where
  "demo_retry_letter \<equiv> failure_letter demo_te1 (demo_scoped demo_envelope) ''{}'' TransportTimeout 3 demo_single ''legacy'' ''https://h'' 9"

abbreviation demo_peer_letter :: dead_letter where
  "demo_peer_letter \<equiv> failure_letter demo_te demo_posted ''{}'' TransportTimeout 2 demo_transport ''b'' ''https://h'' 9"

theorem retried_letter_recognised_witness:
  "(\<exists>e2. (\<forall>net q1. retry_dead_letter demo_te1 net demo_single 20 30 40 5 demo_retry_letter q1 = deliver demo_te1 net demo_single 40 5 e2 q1)
     \<and> sent_at e2 = 20
     \<and> stable_delivery_id demo_codec tally (rc_sha256 demo_rc) (demo_scoped e2)
         = stable_delivery_id demo_codec tally (rc_sha256 demo_rc) (demo_scoped demo_envelope)
     \<and> verified_legacy_delivery_id demo_te1 (demo_scoped e2) ''key'' = Ok (Some demo_signature))
   \<and> (\<forall>net q1. retry_dead_letter demo_te net demo_transport 20 30 40 5 demo_peer_letter q1
        = deliver_to demo_te net demo_transport ''b'' 30 40 5 (demo_posted\<lparr>sent_at := 20, env_signature := None\<rparr>) q1)"
proof
  have e: "env_sender demo_envelope = demo_sender" "env_recipient demo_envelope = Some ''b''" by (simp_all add: demo_envelope_def)
  have te: "te_crypto demo_te1 = demo_rc" "te_codec demo_te1 = demo_codec" "te_rfc3339 demo_te1 = tally"
    "the (tc_signing_key demo_single) = ''key''" "tc_endpoint_url demo_single = ''https://h''"
    by (simp_all add: demo_te1_def demo_te_def demo_single_def)
  have absent: "bget (env_metadata demo_envelope) RELAY_METADATA_KEY = None" "bget (env_metadata demo_envelope) LEGACY_DELIVERY_ID_METADATA = None"
    "bget (env_metadata demo_envelope) LEGACY_DELIVERY_SENT_AT_METADATA = None" by code_simp+
  have laws: "te_lossy demo_te1 ''{}'' = ''{}''" "te_read_json demo_te1 ''{}'' = Ok (demo_scoped demo_envelope)"
    "\<forall>t. length (rc_hmac (te_crypto demo_te1) (the (tc_signing_key demo_single)) t) = 32"
    "parse_rfc3339 (te_dlq demo_te1) (te_rfc3339 demo_te1 (sent_at demo_envelope)) = Some (sent_at demo_envelope)"
    by (simp_all add: demo_te1_def demo_te_def demo_rc_def demo_envelope_def tally_def)
  note single = conjunct1 [OF retried_letter_recognised, rule_format, OF conjI, OF demo_single_prepared [OF e],
      of "demo_scoped demo_envelope" "''{}''" 20 30 40 5 TransportTimeout 3 9]
  obtain e2 where e2: "\<forall>net q1. retry_dead_letter demo_te1 net demo_single 20 30 40 5 demo_retry_letter q1 = deliver demo_te1 net demo_single 40 5 e2 q1"
    "e2 = (demo_scoped demo_envelope)\<lparr>env_metadata := env_metadata e2, sent_at := 20, env_signature := None\<rparr>"
    "\<forall>q2 s2 body2. prepare_delivery demo_te1 demo_single q2 e2 = Ok (s2, body2) \<longrightarrow>
         stable_delivery_id demo_codec tally (rc_sha256 demo_rc) s2 = stable_delivery_id demo_codec tally (rc_sha256 demo_rc) (demo_scoped demo_envelope)
         \<and> verified_legacy_delivery_id demo_te1 s2 ''key'' = Ok (env_signature (demo_scoped demo_envelope))"
    using single absent laws resent_first unfolding te by blast
  from e2(2) e have "sent_at e2 = 20 \<and> env_sender e2 = demo_sender \<and> env_recipient e2 = Some ''b''"
    by (metis (no_types, lifting) demo_scoped_def transport_envelope.select_convs transport_envelope.surjective transport_envelope.update_convs)
  moreover from this have "prepare_delivery demo_te1 demo_single (DurableQueue bempty) e2 = Ok (demo_scoped e2, ''{}'')"
    by (intro demo_single_prepared) simp_all
  note e2(3) [rule_format, OF this]
  moreover have "env_signature (demo_scoped demo_envelope) = Some demo_signature" by (simp add: demo_scoped_def)
  ultimately show "\<exists>e2. (\<forall>net q1. retry_dead_letter demo_te1 net demo_single 20 30 40 5 demo_retry_letter q1 = deliver demo_te1 net demo_single 40 5 e2 q1)
     \<and> sent_at e2 = 20
     \<and> stable_delivery_id demo_codec tally (rc_sha256 demo_rc) (demo_scoped e2)
         = stable_delivery_id demo_codec tally (rc_sha256 demo_rc) (demo_scoped demo_envelope)
     \<and> verified_legacy_delivery_id demo_te1 (demo_scoped e2) ''key'' = Ok (Some demo_signature)"
    using e2(1) by (intro exI [of _ e2] conjI) simp_all
next
  have "te_lossy demo_te ''{}'' = ''{}''" "te_read_json demo_te ''{}'' = Ok demo_posted" by (simp_all add: demo_te_def)
  then obtain e2 where "\<forall>net q1. retry_dead_letter demo_te net demo_transport 20 30 40 5
        (failure_letter demo_te demo_posted ''{}'' TransportTimeout 2 demo_transport ''b'' (endpoint_url (demo_peer ''b'')) 9) q1
      = deliver_to demo_te net demo_transport ''b'' 30 40 5 e2 q1" "e2 = demo_posted\<lparr>sent_at := 20, env_signature := None\<rparr>"
    using conjunct2 [OF retried_letter_recognised, rule_format, OF conjI, OF demo_prepared, of 20 30 40 5 TransportTimeout 2 9] by blast
  then show "\<forall>net q1. retry_dead_letter demo_te net demo_transport 20 30 40 5 demo_peer_letter q1
      = deliver_to demo_te net demo_transport ''b'' 30 40 5 (demo_posted\<lparr>sent_at := 20, env_signature := None\<rparr>) q1" by (simp add: demo_peer_def)
qed

end
