(* ===== verification/Via_Ids.thy ===== *)
theory Via_Ids
  imports Prelude
begin

text \<open>
  The identities of the protocol crate (\<open>lean-ctx-protocol/src/identity.rs\<close> and \<open>common.rs\<close>): opaque
  identifiers, SHA-256 digests, semantic versions, references and second-precision UTC timestamps.
  Each newtype is the string it wraps; its constructor is a check that returns that string.
\<close>

definition MAX_IDENTIFIER_LENGTH :: nat where "MAX_IDENTIFIER_LENGTH = 256"
definition MAX_REFERENCE_LENGTH :: nat where "MAX_REFERENCE_LENGTH = 1024"
definition SHA256_HEX_LENGTH :: nat where "SHA256_HEX_LENGTH = 64"
definition MAX_SEMVER_LENGTH :: nat where "MAX_SEMVER_LENGTH = 128"

section \<open>Opaque identifiers, references and digests\<close>

definition validate_bounded_opaque_identifier :: "string \<Rightarrow> string \<Rightarrow> string + unit" where
  "validate_bounded_opaque_identifier v type_name =
     (if is_blank v then Err (type_name @ '' must not be empty'')
      else if length v > MAX_IDENTIFIER_LENGTH
      then Err (type_name @ '' exceeds the '' @ show_nat MAX_IDENTIFIER_LENGTH @ '' byte limit'')
      else if has_control v then Err (type_name @ '' must not contain control characters'')
      else Ok ())"

definition bounded_identifier_new :: "string \<Rightarrow> string \<Rightarrow> string + string" where
  "bounded_identifier_new type_name v =
     ebind (validate_bounded_opaque_identifier v type_name) (\<lambda>_. Ok v)"

definition protocol_reference_new :: "string \<Rightarrow> string + string" where
  "protocol_reference_new v =
     (if is_blank v then Err ''ProtocolReference must not be empty''
      else if length v > MAX_REFERENCE_LENGTH
      then Err (''ProtocolReference exceeds the '' @ show_nat MAX_REFERENCE_LENGTH @ '' byte limit'')
      else if has_control v then Err ''ProtocolReference must not contain control characters''
      else Ok v)"

definition sha256_digest_new :: "string \<Rightarrow> string + string" where
  "sha256_digest_new v =
     (case strip_prefix ''sha256:'' v of
        None \<Rightarrow> Err ''Sha256Digest must start with the canonical sha256: prefix''
      | Some hex \<Rightarrow>
          if length hex \<noteq> SHA256_HEX_LENGTH
          then Err (''Sha256Digest must contain exactly '' @ show_nat SHA256_HEX_LENGTH
                    @ '' lowercase hexadecimal characters'')
          else if \<not> list_all is_lower_hex hex
          then Err ''Sha256Digest must contain lowercase hexadecimal characters only''
          else Ok v)"

section \<open>Semantic versions\<close>

definition split_optional :: "string \<Rightarrow> char \<Rightarrow> string + (string \<times> string option)" where
  "split_optional v separator =
     (case split_once separator v of
        None \<Rightarrow> Ok (v, None)
      | Some (before, after) \<Rightarrow>
          if before = [] \<or> after = [] \<or> separator = CHR ''+'' \<and> separator \<in> set after
          then Err (''SemanticVersion contains an invalid '' @ [separator] @ '' segment'')
          else Ok (before, Some after))"

definition valid_numeric :: "string \<Rightarrow> bool" where
  "valid_numeric v \<longleftrightarrow> v \<noteq> [] \<and> list_all is_ascii_digit v \<and> (length v = 1 \<or> \<not> starts_with ''0'' v)"

definition validate_identifier_components :: "string \<Rightarrow> bool \<Rightarrow> string \<Rightarrow> string + unit" where
  "validate_identifier_components v reject_leading_zero_numeric field =
     (if list_ex (\<lambda>part. part = [] \<or> \<not> list_all (\<lambda>c. is_ascii_alphanumeric c \<or> c = CHR ''-'') part
           \<or> reject_leading_zero_numeric \<and> length part > 1 \<and> list_all is_ascii_digit part \<and> starts_with ''0'' part)
         (split_on (\<lambda>c. c = CHR ''.'') v)
      then Err (''SemanticVersion '' @ field
                @ '' must contain dot-separated ASCII alphanumeric or hyphen identifiers'')
      else Ok ())"

definition semantic_version_new :: "string \<Rightarrow> string + string" where
  "semantic_version_new v =
     ebind (ensure (v \<noteq> [] \<and> length v \<le> MAX_SEMVER_LENGTH \<and> list_all (\<lambda>c. byte c < 128) v)
       (''SemanticVersion must be nonempty ASCII and at most '' @ show_nat MAX_SEMVER_LENGTH @ '' bytes'')) (\<lambda>_.
     ebind (split_optional v (CHR ''+'')) (\<lambda>(without_build, build).
     ebind (split_optional without_build (CHR ''-'')) (\<lambda>(core, prerelease).
     let core_components = split_on (\<lambda>c. c = CHR ''.'') core in
     ebind (ensure (length core_components = 3 \<and> list_all valid_numeric core_components)
       ''SemanticVersion must have major.minor.patch numeric core components'') (\<lambda>_.
     ebind (case prerelease of None \<Rightarrow> Ok () | Some p \<Rightarrow> validate_identifier_components p True ''prerelease'') (\<lambda>_.
     ebind (case build of None \<Rightarrow> Ok () | Some b \<Rightarrow> validate_identifier_components b False ''build metadata'') (\<lambda>_.
     Ok v))))))"

section \<open>UTC timestamps\<close>

definition decimal :: "string \<Rightarrow> nat" where
  "decimal bytes = fold (\<lambda>b v. v * 10 + (byte b - 48)) bytes 0"

text \<open>The source marks a month outside 1 to 12 as unreachable; \<open>utc_timestamp_new\<close> checks it first.\<close>

definition days_in_month :: "nat \<Rightarrow> nat \<Rightarrow> nat" where
  "days_in_month year month =
     (if month \<in> {1, 3, 5, 7, 8, 10, 12} then 31
      else if month \<in> {4, 6, 9, 11} then 30
      else if year mod 400 = 0 \<or> year mod 4 = 0 \<and> year mod 100 \<noteq> 0 then 29
      else 28)"

definition slice :: "nat \<Rightarrow> nat \<Rightarrow> 'a list \<Rightarrow> 'a list" where
  "slice a b xs = take (b - a) (drop a xs)"

definition utc_timestamp_new :: "string \<Rightarrow> string + string" where
  "utc_timestamp_new v =
     (if length v \<noteq> 20 \<or> v ! 4 \<noteq> CHR ''-'' \<or> v ! 7 \<noteq> CHR ''-'' \<or> v ! 10 \<noteq> CHR ''T'' \<or> v ! 13 \<noteq> CHR '':''
         \<or> v ! 16 \<noteq> CHR '':'' \<or> v ! 19 \<noteq> CHR ''Z''
         \<or> list_ex (\<lambda>(a, b). \<not> list_all is_ascii_digit (slice a b v))
             [(0, 4), (5, 7), (8, 10), (11, 13), (14, 16), (17, 19)]
      then Err ''UtcTimestamp must use canonical YYYY-MM-DDTHH:MM:SSZ syntax''
      else
        let year = decimal (slice 0 4 v); month = decimal (slice 5 7 v); day = decimal (slice 8 10 v);
            hour = decimal (slice 11 13 v); minute = decimal (slice 14 16 v); second = decimal (slice 17 19 v)
        in if year = 0 \<or> \<not> (1 \<le> month \<and> month \<le> 12) \<or> day = 0 \<or> day > days_in_month year month
              \<or> hour > 23 \<or> minute > 59 \<or> second > 59
           then Err ''UtcTimestamp contains an invalid calendar or clock value''
           else Ok v)"

section \<open>What the constructors accept\<close>

lemma sha256_digest_new_eq_Ok:
  "sha256_digest_new v = Inr d \<longleftrightarrow> d = v \<and> (\<exists>hex. v = ''sha256:'' @ hex \<and> length hex = 64 \<and> list_all is_lower_hex hex)"
  by (auto simp: sha256_digest_new_def SHA256_HEX_LENGTH_def strip_prefix_eq_Some split: option.splits)

lemma digest_length: "sha256_digest_new v = Inr d \<Longrightarrow> length d = 71"
  by (auto simp: sha256_digest_new_eq_Ok)

end
