(* ===== verification/Json.thy ===== *)
theory Json
  imports Btree_Map
begin

text \<open>
  JSON values as \<open>serde_json\<close> has them. A number is its text. As the input of a decoder an object has its
  fields in the order of the text and may repeat a key; \<open>serde_json\<close>'s map, in its default form, has
  its keys in order.
\<close>

datatype json =
    JNull
  | JBool bool
  | JNumber string
  | JString string
  | JArray "json list"
  | JObject "(string \<times> json) list"

text \<open>\<open>Value::get\<close> with a key, and \<open>as_str\<close> on what it finds.\<close>

fun jget :: "json \<Rightarrow> string \<Rightarrow> json option" where
  "jget (JObject fs) k = map_of fs k"
| "jget _ k = None"

fun as_str :: "json option \<Rightarrow> string option" where
  "as_str (Some (JString s)) = Some s"
| "as_str _ = None"

text \<open>Indexing with a key: an absent field is null.\<close>

definition jindex :: "json \<Rightarrow> string \<Rightarrow> json" where
  "jindex v k = (case jget v k of None \<Rightarrow> JNull | Some w \<Rightarrow> w)"

text \<open>An object as \<open>json!\<close> builds it and assignment through an index changes it: in key order.\<close>

definition jobj :: "(string \<times> json) list \<Rightarrow> json" where
  "jobj fs = JObject (fold (\<lambda>(k, v). al_insert k v) fs [])"

text \<open>Assignment through an index: null becomes an object, anything else but an object panics.\<close>

fun set_key :: "string \<Rightarrow> json \<Rightarrow> json \<Rightarrow> json option" where
  "set_key k v (JObject fs) = Some (JObject (al_insert k v fs))"
| "set_key k v JNull = Some (JObject [(k, v)])"
| "set_key k v _ = None"

text \<open>The canonical form of a value: every object in key order, recursively (\<open>canonical.rs\<close>).\<close>

function sort_json :: "json \<Rightarrow> json" where
  "sort_json (JObject fs) = jobj (map (\<lambda>f. (fst f, sort_json (snd f))) fs)"
| "sort_json (JArray vs) = JArray (map sort_json vs)"
| "sort_json JNull = JNull"
| "sort_json (JBool x) = JBool x"
| "sort_json (JNumber s) = JNumber s"
| "sort_json (JString s) = JString s"
  by pat_completeness auto

lemma size_field: "f \<in> set fs \<Longrightarrow> size (snd f) < Suc (size_list (size_prod (\<lambda>_. 0) size) fs)"
  by (induction fs) auto

termination sort_json
proof (relation "measure size")
  fix fs :: "(string \<times> json) list" and f assume "f \<in> set fs"
  then show "(snd f, JObject fs) \<in> measure size" using size_field [of f fs] by simp
next
  fix vs v assume "(v :: json) \<in> set vs"
  then have "size v < Suc (size_list size vs)" by (induction vs) auto
  then show "(v, JArray vs) \<in> measure size" by simp
qed simp

lemma as_str_eq_Some: "as_str v = Some s \<longleftrightarrow> v = Some (JString s)"
  by (induction v rule: as_str.induct) auto

end
