(* ===== verification/Via_Types.thy ===== *)
theory Via_Types
  imports Via_Ids Json
begin

text \<open>
  The data of the Edge-to-Via protocol (\<open>lean-ctx-protocol/src/edge_via.rs\<close>): every struct as a
  record, every enum as a datatype. SHA-256, the reading of an RFC 3339 time and the JSON
  encodings that \<open>serde\<close> derives are the fields of \<open>via_codec\<close>, an argument of the definitions that
  use them.
\<close>

section \<open>Limits\<close>

definition VIA_PROTOCOL_V1 :: nat where "VIA_PROTOCOL_V1 = 1"
definition MAX_VIA_CAUSALITY :: nat where "MAX_VIA_CAUSALITY = 32"
definition MAX_VIA_CAPABILITIES :: nat where "MAX_VIA_CAPABILITIES = 64"
definition MAX_VIA_CONTENT_ITEMS :: nat where "MAX_VIA_CONTENT_ITEMS = 4096"
definition MAX_VIA_PLAN_SOURCES :: nat where "MAX_VIA_PLAN_SOURCES = 64"
definition MAX_VIA_FRAME_BYTES :: nat where "MAX_VIA_FRAME_BYTES = 65536"
definition MAX_VIA_MANIFEST_BYTES :: nat where "MAX_VIA_MANIFEST_BYTES = 262144"
definition MAX_VIA_PLAN_BYTES :: nat where "MAX_VIA_PLAN_BYTES = 65536"
definition MAX_VIA_WIRE_BYTES :: nat where "MAX_VIA_WIRE_BYTES = 262656"
definition MAX_VIA_OUTPUT_TOKENS :: nat where "MAX_VIA_OUTPUT_TOKENS = 1000000"
definition MAX_VIA_PLAN_TTL_SECONDS :: nat where "MAX_VIA_PLAN_TTL_SECONDS = 300"
definition MAX_VIA_ACK_EVENTS :: nat where "MAX_VIA_ACK_EVENTS = 1024"
definition MAX_VIA_ACK_GRAPH_NODES :: nat where "MAX_VIA_ACK_GRAPH_NODES = 4096"
definition MAX_VIA_ACK_GRAPH_EDGES :: nat where "MAX_VIA_ACK_GRAPH_EDGES = 8192"
definition MAX_VIA_STREAM_WINDOW :: nat where "MAX_VIA_STREAM_WINDOW = 32"
definition MAX_VIA_BACKPRESSURE_RETRY_MS :: nat where "MAX_VIA_BACKPRESSURE_RETRY_MS = 30000"
definition MAX_VIA_CONTENT_CHUNKS_PER_REQUEST :: nat where "MAX_VIA_CONTENT_CHUNKS_PER_REQUEST = 4"
definition MAX_VIA_CONTENT_CHUNK_BYTES :: nat where "MAX_VIA_CONTENT_CHUNK_BYTES = 16 * 1024"
definition MAX_VIA_CONTENT_REQUEST_BYTES :: nat where "MAX_VIA_CONTENT_REQUEST_BYTES = 64 * 1024"
definition MAX_VIA_CONTENT_REQUEST_TOKENS :: nat where "MAX_VIA_CONTENT_REQUEST_TOKENS = 16384"
definition MAX_VIA_CONTENT_REQUEST_TTL_SECONDS :: nat where "MAX_VIA_CONTENT_REQUEST_TTL_SECONDS = 30"
definition MAX_VIA_INFERENCE_SEGMENTS :: nat where "MAX_VIA_INFERENCE_SEGMENTS = 128"
definition MAX_VIA_INFERENCE_LINEAGE :: nat where "MAX_VIA_INFERENCE_LINEAGE = 8"
definition MAX_VIA_INFERENCE_MANIFEST_BYTES :: nat where "MAX_VIA_INFERENCE_MANIFEST_BYTES = 49152"
definition MAX_VIA_INFERENCE_CANDIDATES :: nat where "MAX_VIA_INFERENCE_CANDIDATES = 64"
definition MAX_VIA_INFERENCE_CANDIDATE_SET_BYTES :: nat where "MAX_VIA_INFERENCE_CANDIDATE_SET_BYTES = 65536"
definition MAX_VIA_PLAN_REQUEST_BYTES :: nat where "MAX_VIA_PLAN_REQUEST_BYTES = 65536"

type_synonym sha256_digest = string
type_synonym protocol_reference = string
type_synonym semantic_version = string
type_synonym utc_timestamp = string
type_synonym opaque_id = string

section \<open>Scopes and negotiation\<close>

datatype via_classification = Public | Normal | Sensitive | Secret | LocalOnly | EnterprisePrivate

record via_scope =
  scope_protocol_version :: nat
  event_or_request_id :: protocol_reference
  causality_id :: "protocol_reference option"
  user_id :: "protocol_reference option"
  device_id :: "protocol_reference option"
  project_id :: "opaque_id option"
  workspace_id :: "opaque_id option"
  session_id :: "opaque_id option"
  conversation_id :: "protocol_reference option"
  scope_agent_id :: "opaque_id option"
  team_id :: "protocol_reference option"
  organization_id :: "protocol_reference option"
  classification :: via_classification

datatype via_capability = EventStream | ContentManifestCap | ContentOnDemand | TypedPlans | MultiAgentIdentity

fun capability_rank :: "via_capability \<Rightarrow> nat" where
  "capability_rank EventStream = 0"
| "capability_rank ContentManifestCap = 1"
| "capability_rank ContentOnDemand = 2"
| "capability_rank TypedPlans = 3"
| "capability_rank MultiAgentIdentity = 4"

lemma capability_rank_inject: "capability_rank a = capability_rank b \<longleftrightarrow> a = b"
  by (cases a; cases b) simp_all

text \<open>The derived order follows the order of the variants.\<close>

instantiation via_capability :: linorder
begin

definition less_eq_via_capability :: "via_capability \<Rightarrow> via_capability \<Rightarrow> bool" where
  "less_eq_via_capability a b \<longleftrightarrow> capability_rank a \<le> capability_rank b"

definition less_via_capability :: "via_capability \<Rightarrow> via_capability \<Rightarrow> bool" where
  "less_via_capability a b \<longleftrightarrow> capability_rank a < capability_rank b"

instance
  by standard (auto simp: less_eq_via_capability_def less_via_capability_def capability_rank_inject)

end

record via_protocol_hello =
  minimum_version :: nat
  maximum_version :: nat
  hello_capabilities :: "via_capability list"

section \<open>Content\<close>

record scoped_content_id =
  scope_digest :: sha256_digest
  content_digest :: sha256_digest

record scoped_reference =
  ref_scope_digest :: sha256_digest
  reference :: protocol_reference

datatype content_kind = SourceFile | Message | SearchResult | ShellResult | McpResult | InferenceManifestKind

datatype content_availability = EdgeOnly | TransientRemoteAllowed | DeniedRemote

record token_count_entry =
  family :: opaque_id
  family_tokens :: nat

datatype inference_segment_role =
  System | Developer | User | Assistant | ToolCall | ToolResult | ToolSchema | RequestControl

datatype inference_mutability = Immutable | Conditional

datatype inference_delivery_state = CacheMarked | Uncached

datatype inference_tokenizer_family = Cl100kBaseApproxV1

datatype inference_cache_policy = AnthropicExplicitCacheControlV1

record inference_segment =
  segment_id :: sha256_digest
  position :: nat
  content_or_representation_id :: scoped_content_id
  role :: inference_segment_role
  mutability :: inference_mutability
  guard_hash :: sha256_digest
  token_count :: nat
  delivery_state :: inference_delivery_state
  source_lineage :: "scoped_content_id list"

record inference_accounting =
  total_tokens :: nat
  immutable_tokens :: nat
  conditional_tokens :: nat
  cache_marked_tokens :: nat
  uncached_tokens :: nat

record inference_manifest =
  im_scope :: via_scope
  im_manifest_id :: scoped_content_id
  im_tokenizer_family :: inference_tokenizer_family
  im_cache_policy :: inference_cache_policy
  im_segments :: "inference_segment list"
  im_accounting :: inference_accounting
  im_stable_prefix_digest :: "sha256_digest option"

record inference_manifest_identity =
  id_accounting :: inference_accounting
  id_cache_policy :: inference_cache_policy
  id_scope :: via_scope
  id_segments :: "inference_segment list"
  id_stable_prefix_digest :: "sha256_digest option"
  id_tokenizer_family :: inference_tokenizer_family

record chunk_descriptor =
  cd_chunk_id :: sha256_digest
  cd_start_byte :: nat
  cd_end_byte :: nat
  cd_byte_count :: nat
  symbol :: "string option"
  cd_token_count :: "nat option"
  cd_operator_id :: opaque_id
  cd_operator_version :: semantic_version

record content_manifest =
  cm_scope :: via_scope
  content_id :: scoped_content_id
  kind :: content_kind
  cm_byte_count :: nat
  token_counts :: "token_count_entry list"
  cm_source_version :: "sha256_digest option"
  language :: "string option"
  structural_manifest :: "sha256_digest option"
  chunks :: "chunk_descriptor list"
  availability :: content_availability

datatype need_content_purpose = ContextPlanning

record need_content =
  nc_protocol_version :: nat
  nc_request_id :: scoped_reference
  nc_source_content_id :: scoped_content_id
  nc_chunk_ids :: "sha256_digest list"
  nc_purpose :: need_content_purpose
  nc_max_bytes :: nat
  nc_max_tokens :: nat
  nc_expires_at :: utc_timestamp
  nc_policy_version :: semantic_version

record content_chunk =
  ck_protocol_version :: nat
  ck_request_id :: scoped_reference
  ck_source_content_id :: scoped_content_id
  ck_chunk_id :: sha256_digest
  ck_start_byte :: nat
  ck_end_byte :: nat
  ck_byte_count :: nat
  ck_source_version :: sha256_digest
  ck_content :: string
  ck_payload_digest :: sha256_digest
  ck_expires_at :: utc_timestamp

record content_chunk_ack =
  ca_protocol_version :: nat
  ca_request_id :: scoped_reference
  ca_source_content_id :: scoped_content_id
  ca_chunk_id :: sha256_digest

section \<open>Event streams\<close>

datatype via_observed_event_kind =
    SessionStarted | SessionEnded | AgentObserved | UserMessageObserved | AssistantMessageObserved | FileObserved
  | FileReadObserved | FileChanged | SearchExecuted | SearchResultObserved | ShellExecuted | ShellResultObserved
  | McpToolCalled | McpResultObserved | ProviderRequestPending | ContextDelivered | ContextReused
  | ContextInvalidated

record observation_payload =
  ob_kind :: via_observed_event_kind
  input_ids :: "scoped_content_id list"
  output_ids :: "scoped_content_id list"
  ob_capability_id :: "opaque_id option"

datatype plan_event_status = Applied | Rejected

record plan_event_payload =
  pe_plan_id :: opaque_id
  pe_status :: plan_event_status

datatype via_event_payload =
    Observation observation_payload
  | ContentManifestEvent content_manifest
  | InferenceManifestEvent inference_manifest
  | Plan plan_event_payload

record via_event_frame =
  fr_protocol_version :: nat
  fr_stream_id :: scoped_reference
  seq :: nat
  fr_event_id :: opaque_id
  causality :: "opaque_id list"
  payload_hash :: sha256_digest
  fr_scope :: via_scope
  payload :: via_event_payload

datatype via_event_ack_status = Stored | Duplicate

record via_event_ack =
  ea_protocol_version :: nat
  ea_stream_id :: scoped_reference
  acknowledged_seq :: nat
  acknowledged_event_id :: opaque_id
  ea_next_seq :: nat
  ea_status :: via_event_ack_status
  accepted_event_count :: nat
  graph_nodes :: nat
  graph_edges :: nat

record via_backpressure =
  bp_protocol_version :: nat
  bp_stream_id :: scoped_reference
  accepted_window :: nat
  retry_after_ms :: nat

record via_stream_resume =
  sr_protocol_version :: nat
  sr_stream_id :: scoped_reference

record via_stream_position =
  pos_seq :: nat
  pos_event_id :: opaque_id

record via_stream_cursor =
  cu_protocol_version :: nat
  cu_stream_id :: scoped_reference
  cu_next_seq :: nat
  last_accepted :: "via_stream_position option"

section \<open>Plans\<close>

record via_plan_header =
  plan_id :: opaque_id
  caused_by :: opaque_id
  policy_id :: opaque_id
  policy_version :: semantic_version
  expected_source_ids :: "scoped_content_id list"
  immutable_guard_digest :: sha256_digest
  operator_id :: opaque_id
  operator_version :: semantic_version
  expires_at :: utc_timestamp
  output_budget_tokens :: nat

record inference_segment_transition =
  tr_position :: nat
  old_segment_id :: sha256_digest
  old_representation_id :: scoped_content_id
  old_guard_hash :: sha256_digest
  new_segment_id :: sha256_digest
  new_representation_id :: scoped_content_id
  new_guard_hash :: sha256_digest
  old_token_count :: nat
  new_token_count :: nat

record inference_candidate_set =
  candidate_set_id :: scoped_content_id
  cs_manifest_id :: scoped_content_id
  cs_operator_id :: opaque_id
  cs_operator_version :: semantic_version
  cs_transitions :: "inference_segment_transition list"

record inference_candidate_set_identity =
  ci_manifest_id :: scoped_content_id
  ci_operator_id :: opaque_id
  ci_operator_version :: semantic_version
  ci_transitions :: "inference_segment_transition list"

record inference_plan_id_identity =
  pi_scope_digest :: sha256_digest
  pi_caused_by :: opaque_id
  pi_manifest_id :: scoped_content_id
  pi_candidate_set_id :: scoped_content_id
  selected_transitions :: "inference_segment_transition list"
  pi_output_budget_tokens :: nat

record inference_plan =
  ip_manifest_id :: scoped_content_id
  ip_transitions :: "inference_segment_transition list"

record via_plan_request =
  rq_protocol_version :: nat
  rq_stream_id :: scoped_reference
  rq_event_id :: opaque_id
  rq_immutable_guard_digest :: sha256_digest
  rq_now :: utc_timestamp
  rq_expires_at :: utc_timestamp
  inference_candidates :: "inference_candidate_set option"

datatype via_plan_body =
    Read scoped_content_id
  | Search scoped_content_id
  | Shell scoped_content_id
  | Mcp scoped_content_id
  | Reuse "scoped_content_id list"
  | Inference inference_plan

record via_optimization_plan =
  op_protocol_version :: nat
  op_scope :: via_scope
  header :: via_plan_header
  body :: via_plan_body

section \<open>Messages and JSON\<close>

datatype via_wire_message =
    Hello via_protocol_hello
  | Event via_event_frame
  | EventAck via_event_ack
  | Backpressure via_backpressure
  | StreamResume via_stream_resume
  | StreamCursor via_stream_cursor
  | ContentManifest content_manifest
  | NeedContent need_content
  | ContentChunk content_chunk
  | ContentChunkAck content_chunk_ack
  | PlanRequest via_plan_request
  | OptimizationPlan via_optimization_plan

text \<open>
  What the derived decoder of a message hands to the decoders the crate writes itself: an event
  frame with the fields it does not know, the JSON of a plan, or any other message, decoded.
\<close>

record via_event_frame_wire =
  fw_protocol_version :: nat
  fw_stream_id :: scoped_reference
  fw_seq :: nat
  fw_event_id :: opaque_id
  fw_causality :: "opaque_id list"
  fw_payload_hash :: sha256_digest
  fw_scope :: via_scope
  fw_payload :: via_event_payload
  unknown_fields :: "(string \<times> json) list"

datatype via_raw_message =
    RawEvent via_event_frame_wire
  | RawPlan json
  | RawMessage via_wire_message

text \<open>
  The code outside the crate: SHA-256, the seconds of an RFC 3339 time since the epoch, and the
  encodings of \<open>serde_json\<close>, each with the text of its error. \<open>debug_text\<close> is the \<open>Debug\<close> form of a
  string, \<open>at_position\<close> what \<open>serde_json\<close> adds to an error about an input.
\<close>

record via_codec =
  sha_bytes :: "string \<Rightarrow> string"
  rfc3339_seconds :: "string \<Rightarrow> int option"
  json_bytes :: "json \<Rightarrow> string + string"
  scope_bytes :: "via_scope \<Rightarrow> string + string"
  identity_value :: "inference_manifest_identity \<Rightarrow> string + json"
  inference_manifest_bytes :: "inference_manifest \<Rightarrow> string + string"
  content_manifest_bytes :: "content_manifest \<Rightarrow> string + string"
  payload_bytes :: "via_event_payload \<Rightarrow> string + string"
  frame_bytes :: "via_event_frame \<Rightarrow> string + string"
  candidate_set_bytes :: "inference_candidate_set \<Rightarrow> string + string"
  candidate_identity_bytes :: "inference_candidate_set_identity \<Rightarrow> string + string"
  plan_identity_bytes :: "inference_plan_id_identity \<Rightarrow> string + string"
  plan_bytes :: "via_optimization_plan \<Rightarrow> string + string"
  plan_wire_of :: "json \<Rightarrow> string + via_optimization_plan"
  message_bytes :: "via_wire_message \<Rightarrow> string + string"
  raw_message_of_bytes :: "string \<Rightarrow> string + via_raw_message"
  debug_text :: "string \<Rightarrow> string"
  at_position :: "string \<Rightarrow> string \<Rightarrow> string"

end
