(* ===== verification/Via_Content.thy ===== *)
theory Via_Content
  imports Transport Via_Types
begin

text \<open>
  The validators of scopes, hellos, inference manifests, content manifests, content requests and
  content chunks of the Edge-to-Via protocol, each check in the order of the source.
\<close>

section \<open>Shared checks\<close>

definition validate_protocol_version :: "nat \<Rightarrow> string + unit" where
  "validate_protocol_version version =
     (if version = VIA_PROTOCOL_V1 then Ok ()
      else Err (''unsupported Via protocol_version '' @ show_nat version @ ''; expected '' @ show_nat VIA_PROTOCOL_V1))"

definition via_sha256 :: "via_codec \<Rightarrow> string \<Rightarrow> string + sha256_digest" where
  "via_sha256 x bytes = sha256_digest_new (''sha256:'' @ hex_encode (sha_bytes x bytes))"

fun canonical_json_value :: "json \<Rightarrow> json" where
  "canonical_json_value (JObject fs) =
     JObject (fold (\<lambda>(k, v). al_insert k v) (map (\<lambda>(k, v). (k, canonical_json_value v)) fs) [])"
| "canonical_json_value (JArray vs) = JArray (map canonical_json_value vs)"
| "canonical_json_value scalar = scalar"

definition canonical_json_bytes :: "via_codec \<Rightarrow> inference_manifest_identity \<Rightarrow> string + string" where
  "canonical_json_bytes x v =
     ebind (map_err (\<lambda>e. ''serialize canonical JSON: '' @ e) (identity_value x v)) (\<lambda>j.
     map_err (\<lambda>e. ''encode canonical JSON: '' @ e) (json_bytes x (canonical_json_value j)))"

definition validate_content_ttl :: "via_codec \<Rightarrow> utc_timestamp \<Rightarrow> utc_timestamp \<Rightarrow> string + unit" where
  "validate_content_ttl x now expiry =
     ebind (ok_or (rfc3339_seconds x now) ''content request time is invalid'') (\<lambda>n.
     ebind (ok_or (rfc3339_seconds x expiry) ''content request expiry is invalid'') (\<lambda>e.
     ensure (1 \<le> e - n \<and> e - n \<le> int MAX_VIA_CONTENT_REQUEST_TTL_SECONDS)
       ''content request TTL must be active and at most 30 seconds''))"

definition validate_plan_ttl :: "via_codec \<Rightarrow> utc_timestamp \<Rightarrow> utc_timestamp \<Rightarrow> string + unit" where
  "validate_plan_ttl x now expiry =
     ebind (ok_or (rfc3339_seconds x now) ''plan time is invalid'') (\<lambda>n.
     ebind (ok_or (rfc3339_seconds x expiry) ''plan expiry is invalid'') (\<lambda>e.
     ensure (1 \<le> e - n \<and> e - n \<le> int MAX_VIA_PLAN_TTL_SECONDS)
       ''plan TTL must be active and at most 300 seconds''))"

definition validate_unique :: "'a list \<Rightarrow> nat \<Rightarrow> string \<Rightarrow> string + unit" where
  "validate_unique vs maximum field =
     (if length vs > maximum then Err (field @ '' exceeds the '' @ show_nat maximum @ '' item limit'')
      else if length (remdups vs) \<noteq> length vs then Err (field @ '' must not contain duplicates'')
      else Ok ())"

section \<open>Scopes and hellos\<close>

definition validate_scope :: "via_scope \<Rightarrow> string + unit" where
  "validate_scope s = validate_protocol_version (scope_protocol_version s)"

definition digest_scope :: "via_codec \<Rightarrow> via_scope \<Rightarrow> string + sha256_digest" where
  "digest_scope x s =
     ebind (validate_scope s) (\<lambda>_.
     ebind (map_err (\<lambda>e. ''serialize Via scope: '' @ e) (scope_bytes x s)) (via_sha256 x))"

definition validate_hello :: "via_protocol_hello \<Rightarrow> string + unit" where
  "validate_hello h =
     ebind (ensure (minimum_version h \<noteq> 0 \<and> minimum_version h \<le> maximum_version h)
       ''ViaProtocolHelloV1 version range must be nonzero and ordered'') (\<lambda>_.
     validate_unique (hello_capabilities h) MAX_VIA_CAPABILITIES ''ViaProtocolHelloV1 capabilities'')"

definition negotiate :: "via_protocol_hello \<Rightarrow> via_protocol_hello \<Rightarrow> string + nat" where
  "negotiate h peer =
     ebind (validate_hello h) (\<lambda>_.
     ebind (validate_hello peer) (\<lambda>_.
     let minimum = max (minimum_version h) (minimum_version peer);
         maximum = min (maximum_version h) (maximum_version peer)
     in if minimum > maximum \<or> \<not> (minimum \<le> VIA_PROTOCOL_V1 \<and> VIA_PROTOCOL_V1 \<le> maximum)
        then Err ''Via protocol version ranges have no locally supported overlap''
        else Ok VIA_PROTOCOL_V1))"

definition shared_capabilities ::
  "via_protocol_hello \<Rightarrow> via_protocol_hello \<Rightarrow> string + via_capability list" where
  "shared_capabilities h peer =
     ebind (negotiate h peer) (\<lambda>_.
     Ok (sort (filter (\<lambda>c. c \<in> set (hello_capabilities peer)) (hello_capabilities h))))"

definition from_scope_and_bytes :: "via_codec \<Rightarrow> via_scope \<Rightarrow> string \<Rightarrow> string + scoped_content_id" where
  "from_scope_and_bytes x s content =
     ebind (digest_scope x s) (\<lambda>sd.
     ebind (via_sha256 x content) (\<lambda>cd.
     Ok \<lparr>scope_digest = sd, content_digest = cd\<rparr>))"

definition scoped_reference_new :: "via_codec \<Rightarrow> via_scope \<Rightarrow> protocol_reference \<Rightarrow> string + scoped_reference" where
  "scoped_reference_new x s r =
     ebind (digest_scope x s) (\<lambda>sd. Ok \<lparr>ref_scope_digest = sd, reference = r\<rparr>)"

section \<open>Inference manifests\<close>

fun role_discriminant :: "inference_segment_role \<Rightarrow> nat" where
  "role_discriminant System = 0"
| "role_discriminant Developer = 1"
| "role_discriminant User = 2"
| "role_discriminant Assistant = 3"
| "role_discriminant ToolCall = 4"
| "role_discriminant ToolResult = 5"
| "role_discriminant ToolSchema = 6"
| "role_discriminant RequestControl = 7"

definition inference_segment_id ::
  "via_codec \<Rightarrow> via_scope \<Rightarrow> nat \<Rightarrow> inference_segment_role \<Rightarrow> sha256_digest \<Rightarrow> string + sha256_digest" where
  "inference_segment_id x s pos r guard =
     ebind (digest_scope x s) (\<lambda>sd.
     via_sha256 x (''leanctx.inference.segment.v1'' @ [CHR 0x00] @ sd @ be_bytes 2 pos
       @ be_bytes 1 (role_discriminant r) @ guard))"

definition validate_segment :: "via_codec \<Rightarrow> inference_segment \<Rightarrow> via_scope \<Rightarrow> nat \<Rightarrow> string + unit" where
  "validate_segment x seg s expected_position =
     ebind (ensure (position seg = expected_position)
       ''InferenceSegmentV1 positions must be contiguous and ordered'') (\<lambda>_.
     ebind (digest_scope x s) (\<lambda>sd.
     ebind (ensure (scope_digest (content_or_representation_id seg) = sd
         \<and> \<not> list_ex (\<lambda>source. scope_digest source \<noteq> sd) (source_lineage seg))
       ''InferenceSegmentV1 content and lineage IDs must match manifest scope'') (\<lambda>_.
     ebind (ensure (guard_hash seg = content_digest (content_or_representation_id seg))
       ''InferenceSegmentV1 guard_hash must match content identity'') (\<lambda>_.
     ebind (ensure (length (source_lineage seg) \<le> MAX_VIA_INFERENCE_LINEAGE)
       (''InferenceSegmentV1 source_lineage exceeds the '' @ show_nat MAX_VIA_INFERENCE_LINEAGE @ '' item limit'')) (\<lambda>_.
     ebind (validate_unique (source_lineage seg) MAX_VIA_INFERENCE_LINEAGE ''InferenceSegmentV1 source_lineage'') (\<lambda>_.
     ebind (inference_segment_id x s (position seg) (role seg) (guard_hash seg)) (\<lambda>sid.
     ensure (segment_id seg = sid)
       ''InferenceSegmentV1 segment_id does not match its canonical binding'')))))))"

definition from_canonical_bytes ::
  "via_codec \<Rightarrow> via_scope \<Rightarrow> nat \<Rightarrow> inference_segment_role \<Rightarrow> inference_mutability \<Rightarrow> string \<Rightarrow> nat
   \<Rightarrow> inference_delivery_state \<Rightarrow> scoped_content_id list \<Rightarrow> string + inference_segment" where
  "from_canonical_bytes x s pos r mut canonical_bytes tokens delivery lineage =
     ebind (from_scope_and_bytes x s canonical_bytes) (\<lambda>cid.
     ebind (inference_segment_id x s pos r (content_digest cid)) (\<lambda>sid.
     let seg = \<lparr>segment_id = sid, position = pos, content_or_representation_id = cid, role = r, mutability = mut,
                guard_hash = content_digest cid, token_count = tokens, delivery_state = delivery,
                source_lineage = lineage\<rparr>
     in ebind (validate_segment x seg s pos) (\<lambda>_. Ok seg)))"

text \<open>One segment added to the five counters, in the order the source checks for overflow.\<close>

definition account_segment ::
  "inference_segment \<Rightarrow> inference_accounting \<Rightarrow> string + inference_accounting" where
  "account_segment seg a =
     ebind (ok_or (checked_add u64_max (total_tokens a) (token_count seg)) ''InferenceManifestV1 total token overflow'') (\<lambda>t.
     let a = a\<lparr>total_tokens := t\<rparr> in
     ebind (case mutability seg of
         Immutable \<Rightarrow> ebind (ok_or (checked_add u64_max (immutable_tokens a) (token_count seg))
             ''InferenceManifestV1 mutability token overflow'') (\<lambda>n. Ok (a\<lparr>immutable_tokens := n\<rparr>))
       | Conditional \<Rightarrow> ebind (ok_or (checked_add u64_max (conditional_tokens a) (token_count seg))
             ''InferenceManifestV1 mutability token overflow'') (\<lambda>n. Ok (a\<lparr>conditional_tokens := n\<rparr>))) (\<lambda>a.
     case delivery_state seg of
         CacheMarked \<Rightarrow> ebind (ok_or (checked_add u64_max (cache_marked_tokens a) (token_count seg))
             ''InferenceManifestV1 delivery token overflow'') (\<lambda>n. Ok (a\<lparr>cache_marked_tokens := n\<rparr>))
       | Uncached \<Rightarrow> ebind (ok_or (checked_add u64_max (uncached_tokens a) (token_count seg))
             ''InferenceManifestV1 delivery token overflow'') (\<lambda>n. Ok (a\<lparr>uncached_tokens := n\<rparr>))))"

definition inference_accounting_of :: "inference_segment list \<Rightarrow> string + inference_accounting" where
  "inference_accounting_of segs = efold account_segment segs
     \<lparr>total_tokens = 0, immutable_tokens = 0, conditional_tokens = 0, cache_marked_tokens = 0, uncached_tokens = 0\<rparr>"

definition expected_manifest_id :: "via_codec \<Rightarrow> inference_manifest \<Rightarrow> string + scoped_content_id" where
  "expected_manifest_id x m =
     ebind (canonical_json_bytes x
       \<lparr>id_accounting = im_accounting m, id_cache_policy = im_cache_policy m, id_scope = im_scope m,
        id_segments = im_segments m, id_stable_prefix_digest = im_stable_prefix_digest m,
        id_tokenizer_family = im_tokenizer_family m\<rparr>) (\<lambda>encoded.
     from_scope_and_bytes x (im_scope m) (''leanctx.inference.manifest.v1'' @ [CHR 0x00] @ encoded))"

text \<open>The loop over the segments: each valid at its index, no segment id seen before.\<close>

definition segment_step ::
  "via_codec \<Rightarrow> via_scope \<Rightarrow> nat \<times> inference_segment \<Rightarrow> sha256_digest set \<Rightarrow> string + sha256_digest set" where
  "segment_step x s = (\<lambda>(pos, seg) ids.
     ebind (validate_segment x seg s pos) (\<lambda>_.
     if segment_id seg \<in> ids then Err ''InferenceManifestV1 segment IDs must be unique''
     else Ok (insert (segment_id seg) ids)))"

definition validate_inference_manifest :: "via_codec \<Rightarrow> inference_manifest \<Rightarrow> string + unit" where
  "validate_inference_manifest x m =
     ebind (validate_scope (im_scope m)) (\<lambda>_.
     ebind (ensure (im_segments m \<noteq> [] \<and> length (im_segments m) \<le> MAX_VIA_INFERENCE_SEGMENTS)
       (''InferenceManifestV1 segments must contain 1..='' @ show_nat MAX_VIA_INFERENCE_SEGMENTS @ '' items'')) (\<lambda>_.
     ebind (efold (segment_step x (im_scope m)) (enumerate 0 (im_segments m)) {}) (\<lambda>_.
     ebind (inference_accounting_of (im_segments m)) (\<lambda>acc.
     ebind (ensure (im_accounting m = acc) ''InferenceManifestV1 accounting does not match segment tokens'') (\<lambda>_.
     ebind (expected_manifest_id x m) (\<lambda>mid.
     ebind (ensure (im_manifest_id m = mid) ''InferenceManifestV1 manifest_id does not match canonical fields'') (\<lambda>_.
     ebind (map_err (\<lambda>e. ''serialize inference manifest: '' @ e) (inference_manifest_bytes x m)) (\<lambda>bytes.
     ensure (length bytes \<le> MAX_VIA_INFERENCE_MANIFEST_BYTES)
       (''InferenceManifestV1 exceeds the '' @ show_nat MAX_VIA_INFERENCE_MANIFEST_BYTES @ '' byte limit'')))))))))"

definition inference_manifest_new ::
  "via_codec \<Rightarrow> via_scope \<Rightarrow> inference_segment list \<Rightarrow> sha256_digest option \<Rightarrow> string + inference_manifest" where
  "inference_manifest_new x s segs prefix =
     ebind (inference_accounting_of segs) (\<lambda>acc.
     ebind (from_scope_and_bytes x s []) (\<lambda>placeholder.
     let m = \<lparr>im_scope = s, im_manifest_id = placeholder, im_tokenizer_family = Cl100kBaseApproxV1,
              im_cache_policy = AnthropicExplicitCacheControlV1, im_segments = segs, im_accounting = acc,
              im_stable_prefix_digest = prefix\<rparr>
     in ebind (expected_manifest_id x m) (\<lambda>mid.
        let m = m\<lparr>im_manifest_id := mid\<rparr>
        in ebind (validate_inference_manifest x m) (\<lambda>_. Ok m))))"

section \<open>Content manifests\<close>

text \<open>\<open>value.trim().is_empty() || value.len() > n || value.chars().any(char::is_control)\<close>\<close>

definition unprintable :: "nat \<Rightarrow> string \<Rightarrow> bool" where
  "unprintable n v \<longleftrightarrow> is_blank v \<or> length v > n \<or> has_control v"

definition validate_chunk_descriptor :: "chunk_descriptor \<Rightarrow> nat \<Rightarrow> string + unit" where
  "validate_chunk_descriptor c content_bytes =
     ebind (ensure (cd_start_byte c < cd_end_byte c \<and> cd_end_byte c \<le> content_bytes
         \<and> cd_byte_count c = cd_end_byte c - cd_start_byte c)
       ''ChunkDescriptorV1 byte range and byte_count are inconsistent'') (\<lambda>_.
     ensure (\<not> (\<exists>v\<in>set_option (symbol c). unprintable 1024 v))
       ''ChunkDescriptorV1 symbol must be bounded printable text'')"

text \<open>The loop over the chunks, with \<open>previous_end\<close> and the ids seen so far.\<close>

definition chunk_step ::
  "nat \<Rightarrow> chunk_descriptor \<Rightarrow> nat \<times> sha256_digest set \<Rightarrow> string + (nat \<times> sha256_digest set)" where
  "chunk_step content_bytes c = (\<lambda>(previous_end, ids).
     ebind (validate_chunk_descriptor c content_bytes) (\<lambda>_.
     if cd_start_byte c \<noteq> previous_end \<or> cd_chunk_id c \<in> ids
     then Err ''ContentManifestV1 chunks must be contiguous, ordered, and unique''
     else Ok (cd_end_byte c, insert (cd_chunk_id c) ids)))"

definition validate_content_manifest :: "via_codec \<Rightarrow> content_manifest \<Rightarrow> string + unit" where
  "validate_content_manifest x m =
     ebind (validate_scope (cm_scope m)) (\<lambda>_.
     ebind (digest_scope x (cm_scope m)) (\<lambda>sd.
     ebind (ensure (scope_digest (content_id m) = sd)
       ''ContentManifestV1 content_id scope does not match manifest scope'') (\<lambda>_.
     ebind (ensure (length (chunks m) \<le> MAX_VIA_CONTENT_ITEMS)
       (''ContentManifestV1 chunks exceeds the '' @ show_nat MAX_VIA_CONTENT_ITEMS @ '' item limit'')) (\<lambda>_.
     ebind (ensure (\<not> (cm_byte_count m = 0 \<and> chunks m \<noteq> [] \<or> cm_byte_count m > 0 \<and> chunks m = []))
       ''ContentManifestV1 empty state is inconsistent with chunks'') (\<lambda>_.
     ebind (ensure (\<not> (classification (cm_scope m) \<in> {Secret, LocalOnly} \<and> availability m = TransientRemoteAllowed))
       ''secret or local-only content cannot allow remote availability'') (\<lambda>_.
     ebind (ensure (\<not> (\<exists>v\<in>set_option (language m). unprintable 128 v))
       ''ContentManifestV1 language must be bounded printable text'') (\<lambda>_.
     ebind (validate_unique (map family (token_counts m)) MAX_VIA_CAPABILITIES ''ContentManifestV1 token families'') (\<lambda>_.
     ebind (efold (chunk_step (cm_byte_count m)) (chunks m) (0, {})) (\<lambda>(previous_end, ids).
     ebind (ensure (previous_end = cm_byte_count m)
       ''ContentManifestV1 chunks must cover the declared byte_count'') (\<lambda>_.
     ebind (map_err (\<lambda>e. ''serialize content manifest: '' @ e) (content_manifest_bytes x m)) (\<lambda>bytes.
     ensure (length bytes \<le> MAX_VIA_MANIFEST_BYTES)
       (''ContentManifestV1 exceeds the '' @ show_nat MAX_VIA_MANIFEST_BYTES @ '' byte limit''))))))))))))"

section \<open>Content on demand\<close>

definition validate_need_content :: "via_codec \<Rightarrow> need_content \<Rightarrow> utc_timestamp \<Rightarrow> string + unit" where
  "validate_need_content x r now =
     ebind (validate_protocol_version (nc_protocol_version r)) (\<lambda>_.
     ebind (ensure (ref_scope_digest (nc_request_id r) = scope_digest (nc_source_content_id r))
       ''NeedContentV1 request and source scopes must match'') (\<lambda>_.
     ebind (ensure (nc_chunk_ids r \<noteq> []) ''NeedContentV1 must request at least one chunk'') (\<lambda>_.
     ebind (validate_unique (nc_chunk_ids r) MAX_VIA_CONTENT_CHUNKS_PER_REQUEST ''NeedContentV1 chunk IDs'') (\<lambda>_.
     ebind (ensure (nc_max_bytes r \<noteq> 0 \<and> nc_max_bytes r \<le> MAX_VIA_CONTENT_REQUEST_BYTES
         \<and> nc_max_tokens r \<noteq> 0 \<and> nc_max_tokens r \<le> MAX_VIA_CONTENT_REQUEST_TOKENS)
       ''NeedContentV1 budgets and expiry must be bounded and active'') (\<lambda>_.
     validate_content_ttl x now (nc_expires_at r))))))"

definition validate_content_chunk :: "via_codec \<Rightarrow> content_chunk \<Rightarrow> utc_timestamp \<Rightarrow> string + unit" where
  "validate_content_chunk x c now =
     ebind (validate_protocol_version (ck_protocol_version c)) (\<lambda>_.
     ebind (ensure (ref_scope_digest (ck_request_id c) = scope_digest (ck_source_content_id c))
       ''ContentChunkV1 request and source scopes must match'') (\<lambda>_.
     ebind (ensure (ck_start_byte c < ck_end_byte c \<and> ck_end_byte c - ck_start_byte c = ck_byte_count c
         \<and> ck_byte_count c = length (ck_content c) \<and> length (ck_content c) \<le> MAX_VIA_CONTENT_CHUNK_BYTES)
       ''ContentChunkV1 range, size, or expiry is invalid'') (\<lambda>_.
     ebind (validate_content_ttl x now (ck_expires_at c)) (\<lambda>_.
     ebind (via_sha256 x (ck_content c)) (\<lambda>digest.
     ensure (digest = ck_chunk_id c \<and> digest = ck_payload_digest c)
       ''ContentChunkV1 payload digest does not bind exact content bytes'')))))"

definition validate_content_chunk_ack :: "content_chunk_ack \<Rightarrow> string + unit" where
  "validate_content_chunk_ack a =
     ebind (validate_protocol_version (ca_protocol_version a)) (\<lambda>_.
     ensure (ref_scope_digest (ca_request_id a) = scope_digest (ca_source_content_id a))
       ''ContentChunkAckV1 request and source scopes must match'')"

end
