(* ===== verification/Via_Plan.thy ===== *)
theory Via_Plan
  imports Via_Content
begin

text \<open>
  Event frames, acknowledgements and cursors, optimisation plans with their candidate sets and the
  guard over the immutable segments, the strict decoder of plans, and the wire messages of the
  Edge-to-Via protocol.
\<close>

section \<open>Event frames\<close>

definition validate_event_payload :: "via_codec \<Rightarrow> via_event_payload \<Rightarrow> via_scope \<Rightarrow> string + unit" where
  "validate_event_payload x pl s =
     (case pl of
        Observation p \<Rightarrow>
          ebind (validate_unique (input_ids p) MAX_VIA_CONTENT_ITEMS ''ObservationPayloadV1 input_ids'') (\<lambda>_.
          ebind (validate_unique (output_ids p) MAX_VIA_CONTENT_ITEMS ''ObservationPayloadV1 output_ids'') (\<lambda>_.
          ebind (digest_scope x s) (\<lambda>sd.
          ensure (\<not> list_ex (\<lambda>i. scope_digest i \<noteq> sd) (input_ids p @ output_ids p))
            ''ObservationPayloadV1 content IDs must match frame scope'')))
      | ContentManifestEvent m \<Rightarrow>
          ebind (ensure (cm_scope m = s) ''ContentManifestV1 scope must match frame scope'') (\<lambda>_.
          validate_content_manifest x m)
      | InferenceManifestEvent m \<Rightarrow>
          ebind (ensure (im_scope m = s) ''InferenceManifestV1 scope must match frame scope'') (\<lambda>_.
          validate_inference_manifest x m)
      | Plan _ \<Rightarrow> Ok ())"

definition digest_event_payload :: "via_codec \<Rightarrow> via_event_payload \<Rightarrow> string + sha256_digest" where
  "digest_event_payload x pl =
     ebind (map_err (\<lambda>e. ''serialize Via event payload: '' @ e) (payload_bytes x pl)) (via_sha256 x)"

definition validate_frame :: "via_codec \<Rightarrow> via_event_frame \<Rightarrow> string + unit" where
  "validate_frame x f =
     ebind (validate_protocol_version (fr_protocol_version f)) (\<lambda>_.
     ebind (validate_scope (fr_scope f)) (\<lambda>_.
     ebind (digest_scope x (fr_scope f)) (\<lambda>sd.
     ebind (ensure (ref_scope_digest (fr_stream_id f) = sd)
       ''ViaEventFrameV1 stream_id scope does not match frame scope'') (\<lambda>_.
     ebind (validate_unique (causality f) MAX_VIA_CAUSALITY ''ViaEventFrameV1 causality'') (\<lambda>_.
     ebind (ensure (fr_event_id f \<notin> set (causality f)) ''ViaEventFrameV1 event_id cannot be its own cause'') (\<lambda>_.
     ebind (validate_event_payload x (payload f) (fr_scope f)) (\<lambda>_.
     ebind (digest_event_payload x (payload f)) (\<lambda>d.
     ebind (ensure (d = payload_hash f) ''ViaEventFrameV1 payload_hash does not match payload'') (\<lambda>_.
     ebind (map_err (\<lambda>e. ''serialize Via event frame: '' @ e) (frame_bytes x f)) (\<lambda>bytes.
     ensure (length bytes \<le> MAX_VIA_FRAME_BYTES)
       (''ViaEventFrameV1 exceeds the '' @ show_nat MAX_VIA_FRAME_BYTES @ '' byte limit'')))))))))))"

definition frame_new ::
  "via_codec \<Rightarrow> scoped_reference \<Rightarrow> nat \<Rightarrow> opaque_id \<Rightarrow> opaque_id list \<Rightarrow> via_scope \<Rightarrow> via_event_payload
   \<Rightarrow> string + via_event_frame" where
  "frame_new x stream_id sq event_id causes s pl =
     ebind (digest_event_payload x pl) (\<lambda>d.
     let f = \<lparr>fr_protocol_version = VIA_PROTOCOL_V1, fr_stream_id = stream_id, seq = sq, fr_event_id = event_id,
              causality = causes, payload_hash = d, fr_scope = s, payload = pl\<rparr>
     in ebind (validate_frame x f) (\<lambda>_. Ok f))"

definition validate_successor :: "via_codec \<Rightarrow> via_event_frame \<Rightarrow> via_event_frame \<Rightarrow> string + unit" where
  "validate_successor x f previous =
     ebind (validate_frame x f) (\<lambda>_.
     ebind (validate_frame x previous) (\<lambda>_.
     ebind (ok_or (checked_add u64_max (seq previous) 1) ''ViaEventFrameV1 predecessor seq cannot advance'') (\<lambda>expected_seq.
     ensure (fr_stream_id f = fr_stream_id previous \<and> seq f = expected_seq)
       ''ViaEventFrameV1 successor must share stream_id and increment seq by one'')))"

section \<open>Acknowledgements and cursors\<close>

definition validate_event_ack :: "via_event_ack \<Rightarrow> string + unit" where
  "validate_event_ack a =
     ebind (validate_protocol_version (ea_protocol_version a)) (\<lambda>_.
     ebind (ensure (checked_add u64_max (acknowledged_seq a) 1 = Some (ea_next_seq a))
       ''ViaEventAckV1 next_seq must immediately follow acknowledged_seq'') (\<lambda>_.
     ensure (accepted_event_count a = ea_next_seq a \<and> accepted_event_count a \<le> MAX_VIA_ACK_EVENTS
         \<and> graph_nodes a \<le> MAX_VIA_ACK_GRAPH_NODES \<and> graph_edges a \<le> MAX_VIA_ACK_GRAPH_EDGES)
       ''ViaEventAckV1 accepted_event_count must equal the stream frontier and counters must remain bounded''))"

definition validate_backpressure :: "via_backpressure \<Rightarrow> string + unit" where
  "validate_backpressure b =
     ebind (validate_protocol_version (bp_protocol_version b)) (\<lambda>_.
     ensure (accepted_window b \<le> MAX_VIA_STREAM_WINDOW \<and> retry_after_ms b \<noteq> 0
         \<and> retry_after_ms b \<le> MAX_VIA_BACKPRESSURE_RETRY_MS)
       ''ViaBackpressureV1 window or retry interval exceeds its bound'')"

definition validate_stream_resume :: "via_stream_resume \<Rightarrow> string + unit" where
  "validate_stream_resume r = validate_protocol_version (sr_protocol_version r)"

definition validate_stream_cursor :: "via_stream_cursor \<Rightarrow> string + unit" where
  "validate_stream_cursor c =
     ebind (validate_protocol_version (cu_protocol_version c)) (\<lambda>_.
     ensure (case last_accepted c of
         None \<Rightarrow> cu_next_seq c = 0
       | Some p \<Rightarrow> checked_add u64_max (pos_seq p) 1 = Some (cu_next_seq c))
       ''ViaStreamCursorV1 next_seq must bind the last accepted position'')"

section \<open>Transitions\<close>

text \<open>
  The loops of \<open>InferenceCandidateSetV1::validate_for_scope\<close> and \<open>InferencePlanV1::validate\<close>: the
  last position, and the old and new segment ids seen so far. \<open>insert\<close> on the second set is not
  reached where the first refuses, and either refusal ends the loop.
\<close>

type_synonym transition_state = "nat option \<times> sha256_digest set \<times> sha256_digest set"

text \<open>The part of the condition both loops share: scope, guards, change and reduction.\<close>

definition transition_invalid :: "sha256_digest \<Rightarrow> inference_segment_transition \<Rightarrow> bool" where
  "transition_invalid sd t \<longleftrightarrow>
     scope_digest (old_representation_id t) \<noteq> sd \<or> scope_digest (new_representation_id t) \<noteq> sd
     \<or> old_guard_hash t \<noteq> content_digest (old_representation_id t)
     \<or> new_guard_hash t \<noteq> content_digest (new_representation_id t)
     \<or> old_segment_id t = new_segment_id t \<or> old_representation_id t = new_representation_id t
     \<or> new_token_count t \<ge> old_token_count t"

definition candidate_step ::
  "sha256_digest \<Rightarrow> inference_segment_transition \<Rightarrow> transition_state \<Rightarrow> string + transition_state" where
  "candidate_step sd t = (\<lambda>(prior, olds, news).
     if \<exists>p\<in>set_option prior. tr_position t \<le> p
     then Err ''InferenceCandidateSetV1 transitions must be position-sorted''
     else if old_segment_id t \<in> olds \<or> new_segment_id t \<in> news \<or> transition_invalid sd t
     then Err ''InferenceCandidateSetV1 transition identity or reduction is invalid''
     else Ok (Some (tr_position t), insert (old_segment_id t) olds, insert (new_segment_id t) news))"

definition plan_step ::
  "sha256_digest \<Rightarrow> inference_segment_transition \<Rightarrow> transition_state \<Rightarrow> string + transition_state" where
  "plan_step sd t = (\<lambda>(prior, olds, news).
     if \<exists>p\<in>set_option prior. tr_position t \<le> p
     then Err ''InferencePlanV1 transitions must be strictly position-sorted''
     else if old_segment_id t \<in> olds \<or> new_segment_id t \<in> news
     then Err ''InferencePlanV1 transition segment IDs must be unique''
     else if transition_invalid sd t
     then Err ''InferencePlanV1 transition identity or token reduction is invalid''
     else Ok (Some (tr_position t), insert (old_segment_id t) olds, insert (new_segment_id t) news))"

definition candidate_expected_id ::
  "via_codec \<Rightarrow> inference_candidate_set \<Rightarrow> sha256_digest \<Rightarrow> string + scoped_content_id" where
  "candidate_expected_id x c sd =
     ebind (map_err (\<lambda>e. ''serialize inference candidate identity: '' @ e)
       (candidate_identity_bytes x \<lparr>ci_manifest_id = cs_manifest_id c, ci_operator_id = cs_operator_id c,
          ci_operator_version = cs_operator_version c, ci_transitions = cs_transitions c\<rparr>)) (\<lambda>encoded.
     ebind (via_sha256 x (''leanctx.inference.candidate-set.v1'' @ [CHR 0x00] @ encoded)) (\<lambda>d.
     Ok \<lparr>scope_digest = sd, content_digest = d\<rparr>))"

definition validate_candidate_set ::
  "via_codec \<Rightarrow> inference_candidate_set \<Rightarrow> sha256_digest \<Rightarrow> string + unit" where
  "validate_candidate_set x c sd =
     ebind (ensure (scope_digest (cs_manifest_id c) = sd \<and> scope_digest (candidate_set_id c) = sd)
       ''InferenceCandidateSetV1 scope does not match request'') (\<lambda>_.
     ebind (ensure (cs_operator_id c = ''leanctx.inference.history.compact'' \<and> cs_operator_version c = ''1.0.0'')
       ''InferenceCandidateSetV1 operator is unsupported'') (\<lambda>_.
     ebind (ensure (cs_transitions c \<noteq> [] \<and> length (cs_transitions c) \<le> MAX_VIA_INFERENCE_CANDIDATES)
       (''InferenceCandidateSetV1 transitions must be within 1..='' @ show_nat MAX_VIA_INFERENCE_CANDIDATES)) (\<lambda>_.
     ebind (efold (candidate_step sd) (cs_transitions c) (None, {}, {})) (\<lambda>_.
     ebind (map_err (\<lambda>e. ''serialize inference candidate set: '' @ e) (candidate_set_bytes x c)) (\<lambda>encoded.
     ebind (ensure (length encoded \<le> MAX_VIA_INFERENCE_CANDIDATE_SET_BYTES)
       (''InferenceCandidateSetV1 exceeds the '' @ show_nat MAX_VIA_INFERENCE_CANDIDATE_SET_BYTES @ '' byte limit'')) (\<lambda>_.
     ebind (candidate_expected_id x c sd) (\<lambda>cid.
     ensure (candidate_set_id c = cid) ''InferenceCandidateSetV1 ID does not match canonical metadata'')))))))"

definition inference_plan_id ::
  "via_codec \<Rightarrow> sha256_digest \<Rightarrow> opaque_id \<Rightarrow> scoped_content_id \<Rightarrow> scoped_content_id
   \<Rightarrow> inference_segment_transition list \<Rightarrow> nat \<Rightarrow> string + opaque_id" where
  "inference_plan_id x sd cause mid cid selected budget =
     ebind (map_err (\<lambda>e. ''serialize inference plan identity: '' @ e)
       (plan_identity_bytes x \<lparr>pi_scope_digest = sd, pi_caused_by = cause, pi_manifest_id = mid,
          pi_candidate_set_id = cid, selected_transitions = selected, pi_output_budget_tokens = budget\<rparr>)) (\<lambda>encoded.
     ebind (via_sha256 x (''leanctx.inference.plan-id.v1'' @ [CHR 0x00] @ encoded)) (\<lambda>digest.
     ebind (ok_or (strip_prefix ''sha256:'' digest) ''inference plan digest prefix is invalid'') (\<lambda>hex.
     bounded_identifier_new ''PlanId'' (''inference-'' @ hex))))"

definition validate_inference_plan :: "via_codec \<Rightarrow> inference_plan \<Rightarrow> via_scope \<Rightarrow> string + unit" where
  "validate_inference_plan x p s =
     ebind (ensure (ip_transitions p \<noteq> [] \<and> length (ip_transitions p) \<le> MAX_VIA_INFERENCE_SEGMENTS)
       (''InferencePlanV1 transitions must be within 1..='' @ show_nat MAX_VIA_INFERENCE_SEGMENTS)) (\<lambda>_.
     ebind (digest_scope x s) (\<lambda>sd.
     ebind (ensure (scope_digest (ip_manifest_id p) = sd) ''InferencePlanV1 manifest_id must match plan scope'') (\<lambda>_.
     ebind (efold (plan_step sd) (ip_transitions p) (None, {}, {})) (\<lambda>_. Ok ()))))"

section \<open>The guard over the immutable segments\<close>

text \<open>What \<open>push_guard_text\<close> appends; a text of four gigabytes or more is an error.\<close>

definition push_guard_text :: "string \<Rightarrow> string + string" where
  "push_guard_text v =
     (if length v \<le> u32_max then Ok (be_bytes 4 (length v) @ v) else Err ''inference guard field is too large'')"

text \<open>What a loop appends to the bytes, where an iteration may fail.\<close>

fun append_each :: "('a \<Rightarrow> string + string) \<Rightarrow> 'a list \<Rightarrow> string + string" where
  "append_each f [] = Ok []"
| "append_each f (y # ys) = ebind (f y) (\<lambda>b. ebind (append_each f ys) (\<lambda>bs. Ok (b @ bs)))"

definition guard_source :: "scoped_content_id \<Rightarrow> string + string" where
  "guard_source source = append_each push_guard_text [scope_digest source, content_digest source]"

fun delivery_byte :: "inference_delivery_state \<Rightarrow> nat" where
  "delivery_byte CacheMarked = 0"
| "delivery_byte Uncached = 1"

fun tokenizer_byte :: "inference_tokenizer_family \<Rightarrow> nat" where
  "tokenizer_byte Cl100kBaseApproxV1 = 0"

fun cache_policy_byte :: "inference_cache_policy \<Rightarrow> nat" where
  "cache_policy_byte AnthropicExplicitCacheControlV1 = 0"

definition guard_segment :: "inference_segment \<Rightarrow> string + string" where
  "guard_segment seg =
     ebind (append_each push_guard_text
       [segment_id seg, scope_digest (content_or_representation_id seg),
        content_digest (content_or_representation_id seg), guard_hash seg]) (\<lambda>texts.
     ebind (ensure (length (source_lineage seg) \<le> u8_max) ''too much inference lineage'') (\<lambda>_.
     ebind (append_each guard_source (source_lineage seg)) (\<lambda>lineage.
     Ok (be_bytes 2 (position seg) @ be_bytes 1 (role_discriminant (role seg)) @ texts
         @ be_bytes 8 (token_count seg) @ be_bytes 1 (delivery_byte (delivery_state seg))
         @ be_bytes 1 (length (source_lineage seg)) @ lineage))))"

definition immutable_segments :: "inference_manifest \<Rightarrow> inference_segment list" where
  "immutable_segments m = filter (\<lambda>seg. mutability seg = Immutable) (im_segments m)"

definition guard_transcript :: "via_codec \<Rightarrow> inference_manifest \<Rightarrow> string + string" where
  "guard_transcript x m =
     ebind (validate_inference_manifest x m) (\<lambda>_.
     ebind (digest_scope x (im_scope m)) (\<lambda>sd.
     ebind (push_guard_text sd) (\<lambda>scope_text.
     ebind (ensure (length (immutable_segments m) \<le> u16_max) ''too many immutable inference segments'') (\<lambda>_.
     ebind (append_each guard_segment (immutable_segments m)) (\<lambda>segs.
     Ok (''leanctx.inference.immutable-guard.v1'' @ [CHR 0x00] @ scope_text
       @ be_bytes 1 (tokenizer_byte (im_tokenizer_family m)) @ be_bytes 1 (cache_policy_byte (im_cache_policy m))
       @ be_bytes 2 (length (immutable_segments m)) @ segs))))))"

definition inference_immutable_guard :: "via_codec \<Rightarrow> inference_manifest \<Rightarrow> string + sha256_digest" where
  "inference_immutable_guard x m = ebind (guard_transcript x m) (via_sha256 x)"

section \<open>Plan requests and plans\<close>

definition validate_plan_request :: "via_codec \<Rightarrow> via_plan_request \<Rightarrow> string + unit" where
  "validate_plan_request x r =
     ebind (validate_protocol_version (rq_protocol_version r)) (\<lambda>_.
     ebind (validate_plan_ttl x (rq_now r) (rq_expires_at r)) (\<lambda>_.
     case inference_candidates r of
       None \<Rightarrow> Ok ()
     | Some c \<Rightarrow> validate_candidate_set x c (ref_scope_digest (rq_stream_id r))))"

fun body_source_ids :: "via_plan_body \<Rightarrow> scoped_content_id list" where
  "body_source_ids (Read i) = [i]"
| "body_source_ids (Search i) = [i]"
| "body_source_ids (Shell i) = [i]"
| "body_source_ids (Mcp i) = [i]"
| "body_source_ids (Reuse is) = is"
| "body_source_ids (Inference p) = [ip_manifest_id p]"

definition validate_plan :: "via_codec \<Rightarrow> via_optimization_plan \<Rightarrow> utc_timestamp \<Rightarrow> string + unit" where
  "validate_plan x p now =
     ebind (validate_protocol_version (op_protocol_version p)) (\<lambda>_.
     ebind (validate_scope (op_scope p)) (\<lambda>_.
     ebind (digest_scope x (op_scope p)) (\<lambda>sd.
     ebind (ensure (output_budget_tokens (header p) \<noteq> 0 \<and> output_budget_tokens (header p) \<le> MAX_VIA_OUTPUT_TOKENS)
       (''ViaPlanHeaderV1 output_budget_tokens must be within 1..='' @ show_nat MAX_VIA_OUTPUT_TOKENS)) (\<lambda>_.
     ebind (validate_unique (expected_source_ids (header p)) MAX_VIA_PLAN_SOURCES ''ViaPlanHeaderV1 expected_source_ids'') (\<lambda>_.
     ebind (ensure (expected_source_ids (header p) \<noteq> []) ''ViaPlanHeaderV1 expected_source_ids must not be empty'') (\<lambda>_.
     ebind (ensure (\<not> list_ex (\<lambda>source. scope_digest source \<noteq> sd) (expected_source_ids (header p)))
       ''ViaPlanHeaderV1 expected_source_ids must match plan scope'') (\<lambda>_.
     ebind (validate_plan_ttl x now (expires_at (header p))) (\<lambda>_.
     ebind (validate_unique (body_source_ids (body p)) MAX_VIA_PLAN_SOURCES ''Via plan body source IDs'') (\<lambda>_.
     ebind (ensure (body_source_ids (body p) \<noteq> []
         \<and> \<not> list_ex (\<lambda>source. source \<notin> set (expected_source_ids (header p))) (body_source_ids (body p)))
       ''Via plan body sources must be covered by expected_source_ids'') (\<lambda>_.
     ebind (case body p of Inference ip \<Rightarrow> validate_inference_plan x ip (op_scope p) | _ \<Rightarrow> Ok ()) (\<lambda>_.
     ebind (map_err (\<lambda>e. ''serialize Via plan: '' @ e) (plan_bytes x p)) (\<lambda>bytes.
     ensure (length bytes \<le> MAX_VIA_PLAN_BYTES)
       (''ViaOptimizationPlanV1 exceeds the '' @ show_nat MAX_VIA_PLAN_BYTES @ '' byte limit'')))))))))))))"

definition validate_for_execution ::
  "via_codec \<Rightarrow> via_optimization_plan \<Rightarrow> utc_timestamp \<Rightarrow> opaque_id \<Rightarrow> scoped_content_id list \<Rightarrow> sha256_digest
   \<Rightarrow> string + unit" where
  "validate_for_execution x p now current_event_id current_source_ids current_guard_digest =
     ebind (validate_plan x p now) (\<lambda>_.
     ebind (ensure (caused_by (header p) = current_event_id) ''Via optimization plan causal event is stale'') (\<lambda>_.
     ebind (validate_unique current_source_ids MAX_VIA_PLAN_SOURCES ''current source IDs'') (\<lambda>_.
     ebind (ensure (set current_source_ids = set (expected_source_ids (header p)))
       ''Via optimization plan source state is stale'') (\<lambda>_.
     ensure (current_guard_digest = immutable_guard_digest (header p))
       ''Via optimization plan immutable guard is stale''))))"

section \<open>The strict plan decoder\<close>

text \<open>
  \<open>StrictPlanJsonVisitor\<close>: an object that repeats a key is refused, at any depth. A key is looked
  up among those already read before its value is read.
\<close>

fun strict_json :: "via_codec \<Rightarrow> json \<Rightarrow> string + json"
  and strict_fields :: "via_codec \<Rightarrow> (string \<times> json) list \<Rightarrow> (string \<times> json) list \<Rightarrow> string + (string \<times> json) list"
  and strict_elements :: "via_codec \<Rightarrow> json list \<Rightarrow> string + json list" where
  "strict_json x (JObject fs) = ebind (strict_fields x fs []) (\<lambda>obj. Ok (JObject obj))"
| "strict_json x (JArray vs) = ebind (strict_elements x vs) (\<lambda>ws. Ok (JArray ws))"
| "strict_json x v = Ok v"
| "strict_fields x [] obj = Ok obj"
| "strict_fields x ((k, v) # fs) obj =
     (if k \<in> set (map fst obj) then Err (''duplicate JSON object key '' @ debug_text x k)
      else ebind (strict_json x v) (\<lambda>w. strict_fields x fs (al_insert k w obj)))"
| "strict_elements x [] = Ok []"
| "strict_elements x (v # vs) = ebind (strict_json x v) (\<lambda>w. ebind (strict_elements x vs) (\<lambda>ws. Ok (w # ws)))"

fun plan_variant_field :: "string \<Rightarrow> string + string" where
  "plan_variant_field t =
     (if t = ''read'' then Ok ''source_id''
      else if t = ''search'' then Ok ''index_id''
      else if t = ''shell'' \<or> t = ''mcp'' then Ok ''output_id''
      else if t = ''reuse'' then Ok ''source_ids''
      else if t = ''inference'' then Ok ''inference_plan''
      else Err (''ViaOptimizationPlanV1 has unsupported plan_type '' @ t))"

fun join_fields :: "string list \<Rightarrow> string" where
  "join_fields [] = []"
| "join_fields [f] = f"
| "join_fields (f # fs) = f @ '', '' @ join_fields fs"

definition decode_plan :: "via_codec \<Rightarrow> json \<Rightarrow> string + via_optimization_plan" where
  "decode_plan x raw =
     ebind (strict_json x raw) (\<lambda>v.
     ebind (case v of JObject fs \<Rightarrow> Ok fs | _ \<Rightarrow> Err ''ViaOptimizationPlanV1 must be an object'') (\<lambda>obj.
     ebind (case map_of obj ''plan_type'' of
         Some (JString t) \<Rightarrow> Ok t | _ \<Rightarrow> Err ''ViaOptimizationPlanV1 requires plan_type'') (\<lambda>plan_type.
     ebind (plan_variant_field plan_type) (\<lambda>variant_field.
     let unknown = filter (\<lambda>k. k \<notin> {''protocol_version'', ''scope'', ''header'', ''plan_type''} \<and> k \<noteq> variant_field)
                     (map fst obj)
     in ebind (ensure (unknown = [])
          (''ViaOptimizationPlanV1 contains unknown top-level fields: '' @ join_fields unknown)) (\<lambda>_.
        plan_wire_of x v)))))"

section \<open>Wire messages\<close>

definition frame_of_wire :: "via_event_frame_wire \<Rightarrow> string + via_event_frame" where
  "frame_of_wire w =
     (if unknown_fields w \<noteq> []
      then Err (''ViaEventFrameV1 contains unknown top-level fields: '' @ join_fields (map fst (unknown_fields w)))
      else Ok \<lparr>fr_protocol_version = fw_protocol_version w, fr_stream_id = fw_stream_id w, seq = fw_seq w,
               fr_event_id = fw_event_id w, causality = fw_causality w, payload_hash = fw_payload_hash w,
               fr_scope = fw_scope w, payload = fw_payload w\<rparr>)"

text \<open>The decoder of a message: the derived part, then the decoders of frames and plans.\<close>

definition message_of_bytes :: "via_codec \<Rightarrow> string \<Rightarrow> string + via_wire_message" where
  "message_of_bytes x bytes =
     ebind (raw_message_of_bytes x bytes) (\<lambda>raw.
     map_err (at_position x bytes)
       (case raw of
          RawEvent w \<Rightarrow> ebind (frame_of_wire w) (\<lambda>f. Ok (Event f))
        | RawPlan j \<Rightarrow> ebind (decode_plan x j) (\<lambda>p. Ok (OptimizationPlan p))
        | RawMessage msg \<Rightarrow> Ok msg))"

fun validate_message :: "via_codec \<Rightarrow> via_wire_message \<Rightarrow> utc_timestamp \<Rightarrow> string + unit" where
  "validate_message x (Hello h) now = validate_hello h"
| "validate_message x (Event f) now = validate_frame x f"
| "validate_message x (EventAck a) now = validate_event_ack a"
| "validate_message x (Backpressure b) now = validate_backpressure b"
| "validate_message x (StreamResume r) now = validate_stream_resume r"
| "validate_message x (StreamCursor c) now = validate_stream_cursor c"
| "validate_message x (ContentManifest m) now = validate_content_manifest x m"
| "validate_message x (NeedContent r) now = validate_need_content x r now"
| "validate_message x (ContentChunk c) now = validate_content_chunk x c now"
| "validate_message x (ContentChunkAck a) now = validate_content_chunk_ack a"
| "validate_message x (PlanRequest r) now = validate_plan_request x r"
| "validate_message x (OptimizationPlan p) now = validate_plan x p now"

fun is_plan_request :: "via_wire_message \<Rightarrow> bool" where
  "is_plan_request (PlanRequest r) = True"
| "is_plan_request _ = False"

definition wire_limit :: string where
  "wire_limit = ''ViaWireMessageV1 exceeds the '' @ show_nat MAX_VIA_WIRE_BYTES @ '' byte limit''"

definition plan_request_limit :: string where
  "plan_request_limit = ''Via plan request exceeds the '' @ show_nat MAX_VIA_PLAN_REQUEST_BYTES @ '' byte limit''"

definition encode_at :: "via_codec \<Rightarrow> via_wire_message \<Rightarrow> utc_timestamp \<Rightarrow> string + string" where
  "encode_at x msg now =
     ebind (validate_message x msg now) (\<lambda>_.
     ebind (map_err (\<lambda>e. ''serialize Via V1 message: '' @ e) (message_bytes x msg)) (\<lambda>bytes.
     ebind (ensure (length bytes \<le> MAX_VIA_WIRE_BYTES) wire_limit) (\<lambda>_.
     ebind (ensure (\<not> (is_plan_request msg \<and> length bytes > MAX_VIA_PLAN_REQUEST_BYTES)) plan_request_limit) (\<lambda>_.
     Ok bytes))))"

definition decode_at :: "via_codec \<Rightarrow> string \<Rightarrow> utc_timestamp \<Rightarrow> string + via_wire_message" where
  "decode_at x bytes now =
     ebind (ensure (length bytes \<le> MAX_VIA_WIRE_BYTES) wire_limit) (\<lambda>_.
     ebind (map_err (\<lambda>e. ''decode Via V1 message: '' @ e) (message_of_bytes x bytes)) (\<lambda>msg.
     ebind (ensure (\<not> (is_plan_request msg \<and> length bytes > MAX_VIA_PLAN_REQUEST_BYTES)) plan_request_limit) (\<lambda>_.
     ebind (validate_message x msg now) (\<lambda>_.
     Ok msg))))"

end
