(* ===== verification/Hex_Laws.thy ===== *)
theory Hex_Laws
  imports Transport_Laws
begin

text \<open>Hexadecimal text is lower-case digits, so nothing else can stand in its place.\<close>

lemma is_lower_hex_encode: "list_all is_lower_hex (hex_encode bs)"
proof -
  have "is_lower_hex (hex_lower d)" if "d < 16" for d
  proof -
    have "d \<in> set [0..<16]" using that by simp
    then show ?thesis
      by (simp add: upt_conv_Cons) (elim disjE; simp add: hex_lower_def is_lower_hex_def is_ascii_digit_def byte_def)
  qed
  then show ?thesis by (induction bs) (simp_all add: hex_encode_def byte_nibbles)
qed

end
