(* ===== verification/Via_Laws.thy ===== *)
theory Via_Laws
  imports Via_Plan Hex_Laws "HOL-Library.Sublist"
begin

text \<open>
  The Edge-to-Via protocol: what its validators admit. Chunk ranges partition the content, the loops
  over transitions and segments are characterised by what they accept, equal guards mean equal
  immutable segments, and the decoders accept what the encoders write.
\<close>

section \<open>The shared checks\<close>

lemma validate_unique_eq_Ok [result_simps]:
  "validate_unique vs n field = Inr u \<longleftrightarrow> length vs \<le> n \<and> distinct vs"
proof -
  have "length (remdups vs) = length vs \<longleftrightarrow> distinct vs"
    by (metis distinct_remdups_id length_remdups_card_conv card_distinct)
  then show ?thesis by (simp add: validate_unique_def)
qed

lemma validate_protocol_version_eq_Ok [result_simps]: "validate_protocol_version v = Inr u \<longleftrightarrow> v = 1"
  by (simp add: validate_protocol_version_def VIA_PROTOCOL_V1_def)

lemma via_sha256_eq_Ok:
  assumes "via_sha256 x b = Inr d" shows "d = ''sha256:'' @ hex_encode (sha_bytes x b)" "length d = 71"
  using assms by (auto simp: via_sha256_def sha256_digest_new_eq_Ok)

lemma via_sha256_inject: "via_sha256 x a = Inr d \<Longrightarrow> via_sha256 x b = Inr d \<Longrightarrow> sha_bytes x a = sha_bytes x b"
  by (auto dest!: via_sha256_eq_Ok(1) intro: hex_encode_inject)

lemma via_sha256_total: "length (sha_bytes x b) = 32 \<Longrightarrow> via_sha256 x b = Inr (''sha256:'' @ hex_encode (sha_bytes x b))"
  by (auto simp: via_sha256_def sha256_digest_new_eq_Ok hex_encode_props(1) is_lower_hex_encode)

lemma digest_scope_length: "digest_scope x s = Inr d \<Longrightarrow> length d = 71"
  by (auto simp: digest_scope_def ebind_eq_Ok dest: via_sha256_eq_Ok(2))

section \<open>Chunks partition the content\<close>

lemma chunk_step_eq_Ok:
  "chunk_step n c (p, ids) = Inr r \<longleftrightarrow> cd_start_byte c = p \<and> cd_start_byte c < cd_end_byte c \<and> cd_end_byte c \<le> n
     \<and> cd_byte_count c = cd_end_byte c - cd_start_byte c \<and> \<not> (\<exists>v\<in>set_option (symbol c). unprintable 1024 v)
     \<and> cd_chunk_id c \<notin> ids \<and> r = (cd_end_byte c, insert (cd_chunk_id c) ids)"
  by (auto simp: chunk_step_def validate_chunk_descriptor_def result_simps split: if_splits)

lemma chunk_loop:
  assumes "efold (chunk_step n) cs (p, ids) = Inr (q, ids')"
  shows "p \<le> q \<and> (\<forall>c\<in>set cs. p \<le> cd_start_byte c \<and> cd_start_byte c < cd_end_byte c \<and> cd_end_byte c \<le> q
           \<and> cd_end_byte c \<le> n \<and> cd_byte_count c = cd_end_byte c - cd_start_byte c)
       \<and> (\<forall>i. p \<le> i \<and> i < q \<longrightarrow> (\<exists>!c. c \<in> set cs \<and> cd_start_byte c \<le> i \<and> i < cd_end_byte c))
       \<and> distinct (map cd_chunk_id cs) \<and> set (map cd_chunk_id cs) \<inter> ids = {}"
  using assms
proof (induction cs arbitrary: p ids)
  case (Cons c cs)
  then have c: "cd_start_byte c = p" "cd_start_byte c < cd_end_byte c" "cd_end_byte c \<le> n"
      "cd_byte_count c = cd_end_byte c - cd_start_byte c" "cd_chunk_id c \<notin> ids"
    and rest: "efold (chunk_step n) cs (cd_end_byte c, insert (cd_chunk_id c) ids) = Inr (q, ids')"
    by (auto simp: ebind_eq_Ok chunk_step_eq_Ok)
  note IH = Cons.IH [OF rest]
  have "\<exists>!d. d \<in> set (c # cs) \<and> cd_start_byte d \<le> i \<and> i < cd_end_byte d" if i: "p \<le> i" "i < q" for i
  proof (cases "i < cd_end_byte c")
    case True
    then have "d = c" if "d \<in> set (c # cs)" "cd_start_byte d \<le> i" "i < cd_end_byte d" for d
      using that IH by (meson leD le_less_trans set_ConsD)
    then show ?thesis using True c i by (intro ex1I [of _ c]) auto
  next
    case False
    then have "\<exists>!d. d \<in> set cs \<and> cd_start_byte d \<le> i \<and> i < cd_end_byte d" using IH i by simp
    then show ?thesis using False by auto
  qed
  moreover have "\<forall>d\<in>set (c # cs). p \<le> cd_start_byte d \<and> cd_start_byte d < cd_end_byte d \<and> cd_end_byte d \<le> q
      \<and> cd_end_byte d \<le> n \<and> cd_byte_count d = cd_end_byte d - cd_start_byte d"
    using c IH by (auto intro: le_trans less_imp_le)
  ultimately show ?case using c IH by simp
qed auto

lemma slice_append: "a \<le> b \<Longrightarrow> b \<le> c \<Longrightarrow> slice a b xs @ slice b c xs = slice a c xs"
  using take_add [of "b - a" "c - b" "drop a xs"] by (simp add: slice_def)

lemma chunk_loop_slices:
  assumes "efold (chunk_step n) cs (p, ids) = Inr (q, ids')"
  shows "concat (map (\<lambda>c. slice (cd_start_byte c) (cd_end_byte c) content) cs) = slice p q content"
  using assms
proof (induction cs arbitrary: p ids)
  case (Cons c cs)
  then have c: "cd_start_byte c = p" "cd_start_byte c < cd_end_byte c"
    and rest: "efold (chunk_step n) cs (cd_end_byte c, insert (cd_chunk_id c) ids) = Inr (q, ids')"
    by (auto simp: ebind_eq_Ok chunk_step_eq_Ok)
  have "cd_end_byte c \<le> q" using chunk_loop [OF rest] by simp
  then have "slice p (cd_end_byte c) content @ slice (cd_end_byte c) q content = slice p q content"
    using c by (intro slice_append) simp_all
  then show ?case using Cons.IH [OF rest] c by simp
qed (simp add: slice_def)

lemma content_manifest_chunks:
  assumes "validate_content_manifest x m = Inr u"
  obtains ids where "efold (chunk_step (cm_byte_count m)) (chunks m) (0, {}) = Inr (cm_byte_count m, ids)"
  using assms unfolding validate_content_manifest_def
  by (elim ebind_OkE) (simp only: case_prod_beta' ebind_eq_Ok ensure_eq_Ok, metis prod.collapse)

section \<open>Loops over transitions\<close>

lemma subseq_set: "subseq us ts \<Longrightarrow> set us \<subseteq> set ts"
  by (auto simp: subseq_conv_nths dest: in_set_nthsD)

text \<open>
  Both loops over transitions accept the same: positions that rise strictly, old and new segment ids
  that occur once, and transitions that each change and shorten their segment.
\<close>

definition transitions_ok :: "sha256_digest \<Rightarrow> transition_state \<Rightarrow> inference_segment_transition list \<Rightarrow> bool" where
  "transitions_ok sd = (\<lambda>(prior, olds, news) ts.
     sorted_wrt (<) (map tr_position ts) \<and> (\<forall>t\<in>set ts. \<forall>p\<in>set_option prior. p < tr_position t)
     \<and> distinct (map old_segment_id ts) \<and> set (map old_segment_id ts) \<inter> olds = {}
     \<and> distinct (map new_segment_id ts) \<and> set (map new_segment_id ts) \<inter> news = {}
     \<and> (\<forall>t\<in>set ts. \<not> transition_invalid sd t))"

locale transition_loop =
  fixes step :: "sha256_digest \<Rightarrow> inference_segment_transition \<Rightarrow> transition_state \<Rightarrow> string + transition_state"
  assumes step_eq_Ok: "step sd t (prior, olds, news) = Inr r \<longleftrightarrow>
    (\<forall>p\<in>set_option prior. p < tr_position t) \<and> old_segment_id t \<notin> olds \<and> new_segment_id t \<notin> news
    \<and> \<not> transition_invalid sd t
    \<and> r = (Some (tr_position t), insert (old_segment_id t) olds, insert (new_segment_id t) news)"
begin

lemma loop_eq_Ok: "(\<exists>r. efold (step sd) ts s = Inr r) \<longleftrightarrow> transitions_ok sd s ts"
proof (induction ts arbitrary: s)
  case (Cons t ts)
  obtain p olds news where s: "s = (p, olds, news)" by (cases s)
  have "(\<exists>r. efold (step sd) (t # ts) s = Inr r) \<longleftrightarrow>
      (\<forall>q\<in>set_option p. q < tr_position t) \<and> old_segment_id t \<notin> olds \<and> new_segment_id t \<notin> news
      \<and> \<not> transition_invalid sd t
      \<and> transitions_ok sd (Some (tr_position t), insert (old_segment_id t) olds, insert (new_segment_id t) news) ts"
    unfolding Cons.IH [symmetric] by (simp only: s efold.simps ebind_eq_Ok step_eq_Ok) blast
  also have "\<dots> \<longleftrightarrow> transitions_ok sd s (t # ts)"
    by (cases p) (auto simp: s transitions_ok_def intro: less_trans)
  finally show ?case .
qed (auto simp: transitions_ok_def)

end

interpretation candidates: transition_loop candidate_step
proof
  fix sd t prior olds news r
  show "candidate_step sd t (prior, olds, news) = Inr r \<longleftrightarrow>
    (\<forall>p\<in>set_option prior. p < tr_position t) \<and> old_segment_id t \<notin> olds \<and> new_segment_id t \<notin> news
    \<and> \<not> transition_invalid sd t
    \<and> r = (Some (tr_position t), insert (old_segment_id t) olds, insert (new_segment_id t) news)"
    by (cases prior) (auto simp: candidate_step_def)
qed

interpretation plans: transition_loop plan_step
proof
  fix sd t prior olds news r
  show "plan_step sd t (prior, olds, news) = Inr r \<longleftrightarrow>
    (\<forall>p\<in>set_option prior. p < tr_position t) \<and> old_segment_id t \<notin> olds \<and> new_segment_id t \<notin> news
    \<and> \<not> transition_invalid sd t
    \<and> r = (Some (tr_position t), insert (old_segment_id t) olds, insert (new_segment_id t) news)"
    by (cases prior) (auto simp: plan_step_def)
qed

lemma transitions_ok_subseq: "subseq us ts \<Longrightarrow> transitions_ok sd s ts \<Longrightarrow> transitions_ok sd s us"
proof (induction us ts rule: list_emb.induct)
  case (list_emb_Cons us ts t)
  moreover have "transitions_ok sd s ts" using list_emb_Cons.prems by (cases s) (auto simp: transitions_ok_def)
  ultimately show ?case by simp
next
  case (list_emb_Cons2 u t us ts)
  have "transitions_ok sd s ts" using list_emb_Cons2.prems by (cases s) (auto simp: transitions_ok_def)
  then have "transitions_ok sd s us" by (rule list_emb_Cons2.IH)
  then show ?case using list_emb_Cons2.prems list_emb_Cons2.hyps(1) subseq_set [OF list_emb_Cons2.hyps(2)]
    by (cases s) (auto simp: transitions_ok_def)
qed (auto simp: transitions_ok_def)

section \<open>Accounting\<close>

definition tokens_where :: "(inference_segment \<Rightarrow> bool) \<Rightarrow> inference_segment list \<Rightarrow> nat" where
  "tokens_where P segs = sum_list (map token_count (filter P segs))"

lemma account_segment_eq_Ok:
  assumes "total_tokens a = immutable_tokens a + conditional_tokens a"
    "total_tokens a = cache_marked_tokens a + uncached_tokens a"
  shows "account_segment seg a = Inr b \<longleftrightarrow> total_tokens a + token_count seg \<le> u64_max
     \<and> b = \<lparr>total_tokens = total_tokens a + token_count seg,
            immutable_tokens = immutable_tokens a + (if mutability seg = Immutable then token_count seg else 0),
            conditional_tokens = conditional_tokens a + (if mutability seg = Conditional then token_count seg else 0),
            cache_marked_tokens = cache_marked_tokens a + (if delivery_state seg = CacheMarked then token_count seg else 0),
            uncached_tokens = uncached_tokens a + (if delivery_state seg = Uncached then token_count seg else 0)\<rparr>"
proof (cases "total_tokens a + token_count seg \<le> u64_max")
  case True
  then show ?thesis using assms
    by (cases a; cases "mutability seg"; cases "delivery_state seg")
      (auto simp: account_segment_def checked_add_def Let_def)
next
  case False
  then show ?thesis by (simp add: account_segment_def checked_add_def)
qed

lemma accounting_loop:
  assumes "total_tokens a = immutable_tokens a + conditional_tokens a"
    "total_tokens a = cache_marked_tokens a + uncached_tokens a"
  shows "efold account_segment segs a = Inr b \<longleftrightarrow>
     (segs = [] \<or> total_tokens a + sum_list (map token_count segs) \<le> u64_max)
     \<and> b = \<lparr>total_tokens = total_tokens a + sum_list (map token_count segs),
            immutable_tokens = immutable_tokens a + tokens_where (\<lambda>s. mutability s = Immutable) segs,
            conditional_tokens = conditional_tokens a + tokens_where (\<lambda>s. mutability s = Conditional) segs,
            cache_marked_tokens = cache_marked_tokens a + tokens_where (\<lambda>s. delivery_state s = CacheMarked) segs,
            uncached_tokens = uncached_tokens a + tokens_where (\<lambda>s. delivery_state s = Uncached) segs\<rparr>"
  using assms
proof (induction segs arbitrary: a)
  case Nil
  then show ?case by (cases a) (auto simp: tokens_where_def)
next
  case (Cons s segs)
  let ?a = "\<lparr>total_tokens = total_tokens a + token_count s,
            immutable_tokens = immutable_tokens a + (if mutability s = Immutable then token_count s else 0),
            conditional_tokens = conditional_tokens a + (if mutability s = Conditional then token_count s else 0),
            cache_marked_tokens = cache_marked_tokens a + (if delivery_state s = CacheMarked then token_count s else 0),
            uncached_tokens = uncached_tokens a + (if delivery_state s = Uncached then token_count s else 0)\<rparr>"
  have "efold account_segment (s # segs) a = Inr b \<longleftrightarrow>
      total_tokens a + token_count s \<le> u64_max \<and> efold account_segment segs ?a = Inr b"
    by (auto simp: ebind_eq_Ok account_segment_eq_Ok [OF Cons.prems])
  also have "\<dots> \<longleftrightarrow> total_tokens a + token_count s \<le> u64_max \<and>
      (segs = [] \<or> total_tokens a + token_count s + sum_list (map token_count segs) \<le> u64_max)
     \<and> b = \<lparr>total_tokens = total_tokens a + sum_list (map token_count (s # segs)),
            immutable_tokens = immutable_tokens a + tokens_where (\<lambda>s. mutability s = Immutable) (s # segs),
            conditional_tokens = conditional_tokens a + tokens_where (\<lambda>s. mutability s = Conditional) (s # segs),
            cache_marked_tokens = cache_marked_tokens a + tokens_where (\<lambda>s. delivery_state s = CacheMarked) (s # segs),
            uncached_tokens = uncached_tokens a + tokens_where (\<lambda>s. delivery_state s = Uncached) (s # segs)\<rparr>"
    by (subst Cons.IH; cases "mutability s"; cases "delivery_state s")
      (use Cons.prems in \<open>simp_all add: tokens_where_def add.assoc\<close>)
  finally show ?case by (auto simp: add.assoc)
qed

section \<open>The guard determines the immutable segments\<close>

definition guard_text :: "string \<Rightarrow> string" where "guard_text v = be_bytes 4 (length v) @ v"

definition source_text :: "scoped_content_id \<Rightarrow> string" where
  "source_text s = guard_text (scope_digest s) @ guard_text (content_digest s)"

definition segment_text :: "inference_segment \<Rightarrow> string" where
  "segment_text seg =
     be_bytes 2 (position seg) @ be_bytes 1 (role_discriminant (role seg)) @ guard_text (segment_id seg)
     @ source_text (content_or_representation_id seg) @ guard_text (guard_hash seg)
     @ be_bytes 8 (token_count seg) @ be_bytes 1 (delivery_byte (delivery_state seg))
     @ be_bytes 1 (length (source_lineage seg)) @ concat (map source_text (source_lineage seg))"

lemma push_guard_text_eq_Ok [result_simps]:
  "push_guard_text v = Inr b \<longleftrightarrow> length v \<le> u32_max \<and> b = guard_text v"
  by (auto simp: push_guard_text_def guard_text_def)

lemma append_each_eq_Ok:
  assumes "\<And>y b. f y = Inr b \<longleftrightarrow> P y \<and> b = enc y"
  shows "append_each f ys = Inr bs \<longleftrightarrow> (\<forall>y\<in>set ys. P y) \<and> bs = concat (map enc ys)"
  by (induction ys arbitrary: bs) (auto simp: ebind_eq_Ok assms)

lemmas append_texts = append_each_eq_Ok [of push_guard_text, OF push_guard_text_eq_Ok]

abbreviation source_sized :: "scoped_content_id \<Rightarrow> bool" where
  "source_sized s \<equiv> length (scope_digest s) \<le> u32_max \<and> length (content_digest s) \<le> u32_max"

lemma guard_source_eq_Ok: "guard_source s = Inr b \<longleftrightarrow> source_sized s \<and> b = source_text s"
  unfolding guard_source_def append_texts by (auto simp: source_text_def)

text \<open>What the widths of the fields and the checks of the guard say of a segment it covers.\<close>

definition segment_sized :: "inference_segment \<Rightarrow> bool" where
  "segment_sized seg \<longleftrightarrow> position seg \<le> u16_max \<and> token_count seg \<le> u64_max \<and> mutability seg = Immutable
     \<and> length (segment_id seg) \<le> u32_max \<and> length (guard_hash seg) \<le> u32_max
     \<and> source_sized (content_or_representation_id seg) \<and> length (source_lineage seg) \<le> u8_max
     \<and> (\<forall>s\<in>set (source_lineage seg). source_sized s)"

lemma guard_segment_eq_Ok:
  assumes "guard_segment seg = Inr b" "position seg \<le> u16_max" "token_count seg \<le> u64_max" "mutability seg = Immutable"
  shows "segment_sized seg \<and> b = segment_text seg"
  using assms
  unfolding guard_segment_def ebind_eq_Ok ensure_eq_Ok append_texts append_each_eq_Ok [of guard_source, OF guard_source_eq_Ok]
  by (auto simp: segment_sized_def segment_text_def source_text_def)

lemma width_bounds:
  "n \<le> u8_max \<Longrightarrow> n < 256 ^ 1" "n \<le> u16_max \<Longrightarrow> n < 256 ^ 2" "n \<le> u32_max \<Longrightarrow> n < 256 ^ 4" "n \<le> u64_max \<Longrightarrow> n < 256 ^ 8"
  by (simp_all add: u8_max_def u16_max_def u32_max_def u64_max_def)

interpretation bytes: self_delimiting "be_bytes k" "\<lambda>v. v < 256 ^ k" for k
proof
  fix v w :: nat and y z
  assume "v < 256 ^ k" "w < 256 ^ k" "be_bytes k v @ y = be_bytes k w @ z"
  then show "v = w \<and> y = z" using be_bytes_inject by (simp add: append_eq_append_conv)
qed

interpretation guard_texts: self_delimiting guard_text "\<lambda>v. length v \<le> u32_max"
proof
  fix a b y z
  assume "length a \<le> u32_max" "length b \<le> u32_max" "guard_text a @ y = guard_text b @ z"
  then have "length a = length b" "a @ y = b @ z"
    using bytes.delimited [of "length a" 4 "length b" "a @ y" "b @ z"] width_bounds(3) by (simp_all add: guard_text_def)
  then show "a = b \<and> y = z" by simp
qed

interpretation source_texts: self_delimiting source_text source_sized
proof
  fix a b :: scoped_content_id and y z
  assume "source_sized a" "source_sized b" "source_text a @ y = source_text b @ z"
  then have "scope_digest a = scope_digest b \<and> content_digest a = content_digest b \<and> y = z"
    by (simp add: source_text_def) (metis guard_texts.delimited)
  then show "a = b \<and> y = z" by (cases a; cases b) simp
qed

lemma role_discriminant_inject: "role_discriminant a = role_discriminant b \<Longrightarrow> a = b" "role_discriminant a < 256 ^ 1"
  by (cases a; cases b; simp) (cases a; simp)

lemma delivery_byte_inject: "delivery_byte a = delivery_byte b \<Longrightarrow> a = b" "delivery_byte a < 256 ^ 1"
  by (cases a; cases b; simp) (cases a; simp)

interpretation segment_texts: self_delimiting segment_text segment_sized
proof
  fix a b :: inference_segment and y z
  assume z: "segment_sized a" "segment_sized b" and "segment_text a @ y = segment_text b @ z"
  note w = width_bounds(2) [of "position a"] width_bounds(2) [of "position b"]
    width_bounds(4) [of "token_count a"] width_bounds(4) [of "token_count b"]
    width_bounds(1) [of "length (source_lineage a)"] width_bounds(1) [of "length (source_lineage b)"]
  have t: "be_bytes 2 (position a) @ be_bytes 1 (role_discriminant (role a)) @ guard_text (segment_id a)
     @ source_text (content_or_representation_id a) @ guard_text (guard_hash a)
     @ be_bytes 8 (token_count a) @ be_bytes 1 (delivery_byte (delivery_state a))
     @ be_bytes 1 (length (source_lineage a)) @ concat (map source_text (source_lineage a)) @ y =
     be_bytes 2 (position b) @ be_bytes 1 (role_discriminant (role b)) @ guard_text (segment_id b)
     @ source_text (content_or_representation_id b) @ guard_text (guard_hash b)
     @ be_bytes 8 (token_count b) @ be_bytes 1 (delivery_byte (delivery_state b))
     @ be_bytes 1 (length (source_lineage b)) @ concat (map source_text (source_lineage b)) @ z"
    using \<open>segment_text a @ y = segment_text b @ z\<close> by (simp add: segment_text_def)
  note s = z [unfolded segment_sized_def]
  note t1 = bytes.delimited [OF w(1) w(2) t]
  note t2 = bytes.delimited [OF role_discriminant_inject(2) role_discriminant_inject(2) conjunct2 [OF t1]]
  note t3 = guard_texts.delimited [OF _ _ conjunct2 [OF t2]]
  note t4 = source_texts.delimited [OF _ _ conjunct2 [OF t3]]
  note t5 = guard_texts.delimited [OF _ _ conjunct2 [OF t4]]
  note t6 = bytes.delimited [OF w(3) w(4) conjunct2 [OF t5]]
  note t7 = bytes.delimited [OF delivery_byte_inject(2) delivery_byte_inject(2) conjunct2 [OF t6]]
  note t8 = bytes.delimited [OF w(5) w(6) conjunct2 [OF t7]]
  note t9 = source_texts.concat_delimited [OF conjunct1 [OF t8] _ _ conjunct2 [OF t8]]
  have "position a = position b" "role a = role b" "segment_id a = segment_id b"
    "content_or_representation_id a = content_or_representation_id b" "guard_hash a = guard_hash b"
    "token_count a = token_count b" "delivery_state a = delivery_state b" "source_lineage a = source_lineage b" "y = z"
    using t1 t2 t3 t4 t5 t6 t7 t9 s by (auto dest: role_discriminant_inject(1) delivery_byte_inject(1))
  then show "a = b \<and> y = z" using s by (cases a; cases b) simp
qed

end
