(* ===== verification/Via_Props.thy ===== *)
theory Via_Props
  imports Via_Laws
begin

text \<open>
  The properties of the Edge-to-Via protocol: content arrives as it was described, plans run on the
  state they were made for, selections of candidates are plans, streams have no gaps, messages
  survive the wire, and the strict decoder admits exactly the objects without repeated keys.
\<close>

section \<open>Content on demand\<close>

text \<open>
  C22. Content fetched on demand is the content described: when the chunk ids of a valid manifest are
  the digests of the ranges of a content, then whatever valid chunks were received under these ids,
  in whatever order and whatever ranges they name, put in the order of the manifest they are the
  content, unless a received chunk collides with a range under SHA-256; and the ranges of the
  manifest cover every byte exactly once.
\<close>

theorem chunks_reassemble_content:
  assumes "validate_content_manifest x m = Ok ()" and "length content = cm_byte_count m"
    and "\<forall>c\<in>set (chunks m). via_sha256 x (slice (cd_start_byte c) (cd_end_byte c) content) = Ok (cd_chunk_id c)"
    and "\<forall>c\<in>set (chunks m). validate_content_chunk x (got c) (now c) = Ok () \<and> ck_chunk_id (got c) = cd_chunk_id c"
    and "\<forall>c\<in>set (chunks m). sha_bytes x (ck_content (got c)) = sha_bytes x (slice (cd_start_byte c) (cd_end_byte c) content)
           \<longrightarrow> ck_content (got c) = slice (cd_start_byte c) (cd_end_byte c) content"
  shows "concat (map (\<lambda>c. ck_content (got c)) (chunks m)) = content
    \<and> (\<forall>i < length content. \<exists>!c. c \<in> set (chunks m) \<and> cd_start_byte c \<le> i \<and> i < cd_end_byte c)"
proof -
  obtain ids where loop: "efold (chunk_step (cm_byte_count m)) (chunks m) (0, {}) = Inr (cm_byte_count m, ids)"
    using content_manifest_chunks [OF assms(1)] .
  have "ck_content (got c) = slice (cd_start_byte c) (cd_end_byte c) content" if "c \<in> set (chunks m)" for c
  proof -
    have "via_sha256 x (ck_content (got c)) = Inr (cd_chunk_id c)"
      using assms(4) that by (auto simp: validate_content_chunk_def elim!: ebind_OkE simp: ensure_eq_Ok)
    then show ?thesis using via_sha256_inject assms(3,5) that by blast
  qed
  then have "concat (map (\<lambda>c. ck_content (got c)) (chunks m)) =
      concat (map (\<lambda>c. slice (cd_start_byte c) (cd_end_byte c) content) (chunks m))"
    by (metis (no_types, lifting) map_cong)
  also have "\<dots> = content" using chunk_loop_slices [OF loop, of content] assms(2) by (simp add: slice_def)
  finally show ?thesis using chunk_loop [OF loop] assms(2) by simp
qed

section \<open>Plans\<close>

text \<open>The fields of a manifest fit their machine integers.\<close>

definition manifest_typed :: "inference_manifest \<Rightarrow> bool" where
  "manifest_typed m \<longleftrightarrow> (\<forall>seg\<in>set (im_segments m). position seg \<le> u16_max \<and> token_count seg \<le> u64_max)"

lemma guard_transcript_eq_Ok:
  assumes "guard_transcript x m = Inr t" "manifest_typed m"
  obtains sd where "digest_scope x (im_scope m) = Inr sd" "length sd = 71"
    "\<forall>seg\<in>set (immutable_segments m). segment_sized seg" "length (immutable_segments m) \<le> u16_max"
    "t = ''leanctx.inference.immutable-guard.v1'' @ [CHR 0x00] @ guard_text sd
       @ be_bytes 1 (tokenizer_byte (im_tokenizer_family m)) @ be_bytes 1 (cache_policy_byte (im_cache_policy m))
       @ be_bytes 2 (length (immutable_segments m)) @ concat (map segment_text (immutable_segments m))"
proof -
  from assms(1) obtain sd segs where sd: "digest_scope x (im_scope m) = Inr sd"
    and n: "length (immutable_segments m) \<le> u16_max" and segs: "append_each guard_segment (immutable_segments m) = Inr segs"
    and t: "t = ''leanctx.inference.immutable-guard.v1'' @ [CHR 0x00] @ guard_text sd
       @ be_bytes 1 (tokenizer_byte (im_tokenizer_family m)) @ be_bytes 1 (cache_policy_byte (im_cache_policy m))
       @ be_bytes 2 (length (immutable_segments m)) @ segs"
    unfolding guard_transcript_def by (elim ebind_OkE) (simp add: push_guard_text_eq_Ok ensure_eq_Ok)
  have "(\<forall>seg\<in>set ys. segment_sized seg) \<and> bs = concat (map segment_text ys)"
    if "append_each guard_segment ys = Inr bs" "set ys \<subseteq> set (immutable_segments m)" for ys bs
    using that
  proof (induction ys arbitrary: bs)
    case (Cons y ys)
    then have y: "position y \<le> u16_max" "token_count y \<le> u64_max" "mutability y = Immutable"
      using assms(2) by (auto simp: immutable_segments_def manifest_typed_def)
    from Cons show ?case by (auto simp: ebind_eq_Ok dest!: guard_segment_eq_Ok [OF _ y])
  qed simp
  then show ?thesis using that sd n t segs digest_scope_length by blast
qed

lemma guard_transcript_inject:
  assumes "guard_transcript x m = Inr t" "guard_transcript x n = Inr t" "manifest_typed m" "manifest_typed n"
  shows "immutable_segments m = immutable_segments n \<and> digest_scope x (im_scope m) = digest_scope x (im_scope n)"
proof -
  let ?m = "immutable_segments m" and ?n = "immutable_segments n"
  obtain sd where m: "digest_scope x (im_scope m) = Inr sd" "length sd = 71" "\<forall>seg\<in>set ?m. segment_sized seg"
    "length ?m \<le> u16_max"
    "t = ''leanctx.inference.immutable-guard.v1'' @ [CHR 0x00] @ guard_text sd
       @ be_bytes 1 (tokenizer_byte (im_tokenizer_family m)) @ be_bytes 1 (cache_policy_byte (im_cache_policy m))
       @ be_bytes 2 (length ?m) @ concat (map segment_text ?m)"
    using guard_transcript_eq_Ok [OF assms(1,3)] .
  obtain sd' where n: "digest_scope x (im_scope n) = Inr sd'" "length sd' = 71" "\<forall>seg\<in>set ?n. segment_sized seg"
    "length ?n \<le> u16_max"
    "t = ''leanctx.inference.immutable-guard.v1'' @ [CHR 0x00] @ guard_text sd'
       @ be_bytes 1 (tokenizer_byte (im_tokenizer_family n)) @ be_bytes 1 (cache_policy_byte (im_cache_policy n))
       @ be_bytes 2 (length ?n) @ concat (map segment_text ?n)"
    using guard_transcript_eq_Ok [OF assms(2,4)] .
  have sized: "length sd \<le> u32_max" "length sd' \<le> u32_max" using m(2) n(2) by (simp_all add: u32_max_def)
  have bytes: "tokenizer_byte f < 256 ^ 1" "cache_policy_byte p < 256 ^ 1" for f p
    by (cases f; simp) (cases p; simp)
  from m(5) n(5) have t: "guard_text sd
       @ be_bytes 1 (tokenizer_byte (im_tokenizer_family m)) @ be_bytes 1 (cache_policy_byte (im_cache_policy m))
       @ be_bytes 2 (length ?m) @ concat (map segment_text ?m) @ [] = guard_text sd'
       @ be_bytes 1 (tokenizer_byte (im_tokenizer_family n)) @ be_bytes 1 (cache_policy_byte (im_cache_policy n))
       @ be_bytes 2 (length ?n) @ concat (map segment_text ?n) @ []"
    by simp
  note t1 = guard_texts.delimited [OF sized t]
  note t2 = bytes.delimited [OF bytes(1) bytes(1) conjunct2 [OF t1]]
  note t3 = bytes.delimited [OF bytes(2) bytes(2) conjunct2 [OF t2]]
  note t4 = bytes.delimited [OF width_bounds(2) [OF m(4)] width_bounds(2) [OF n(4)] conjunct2 [OF t3]]
  note t5 = segment_texts.concat_delimited [OF conjunct1 [OF t4] m(3) n(3) conjunct2 [OF t4]]
  from t1 t5 m(1) n(1) show ?thesis by simp
qed

text \<open>
  C21. A plan runs only on the state it was made for: when Edge admits a plan for execution under the
  guard of its current manifest, and the guard in the plan was computed from the manifest the
  plan was made for, then the event that caused the plan is the current one, the sources are the
  expected ones, and every immutable segment of the current manifest (position, role, identity,
  tokens, delivery and lineage) is as it was, as is the scope digest, unless the two transcripts
  collide under SHA-256.
\<close>

theorem plan_bound_to_state:
  assumes "validate_for_execution x p now event sources guard = Ok ()"
    and "inference_immutable_guard x current = Ok guard"
    and "inference_immutable_guard x planned = Ok (immutable_guard_digest (header p))"
    and "manifest_typed current" "manifest_typed planned"
    and "\<forall>t t'. guard_transcript x current = Ok t \<longrightarrow> guard_transcript x planned = Ok t'
           \<longrightarrow> sha_bytes x t = sha_bytes x t' \<longrightarrow> t = t'"
  shows "caused_by (header p) = event \<and> set sources = set (expected_source_ids (header p))
    \<and> set (body_source_ids (body p)) \<subseteq> set sources
    \<and> immutable_segments current = immutable_segments planned
    \<and> digest_scope x (im_scope current) = digest_scope x (im_scope planned)"
proof -
  have e: "caused_by (header p) = event" "set sources = set (expected_source_ids (header p))"
      "guard = immutable_guard_digest (header p)" "validate_plan x p now = Inr ()"
    using assms(1) by (auto simp: validate_for_execution_def ebind_eq_Ok ensure_eq_Ok)
  have "set (body_source_ids (body p)) \<subseteq> set sources"
    using e(2,4) unfolding validate_plan_def ebind_eq_Ok ensure_eq_Ok list_ex_iff by blast
  moreover obtain t t' where t: "guard_transcript x current = Inr t" "guard_transcript x planned = Inr t'"
      "via_sha256 x t = Inr guard" "via_sha256 x t' = Inr guard"
    using assms(2,3) e(3) by (auto simp: inference_immutable_guard_def ebind_eq_Ok)
  moreover have "t = t'" using assms(6) t via_sha256_inject by blast
  ultimately show ?thesis using e guard_transcript_inject [of x current t planned] assms(4,5) by blast
qed

text \<open>
  C23. Every selection from an admitted candidate set is a plan that shortens the request: any
  non-empty subsequence of the transitions of a candidate set that Via accepted for a scope forms
  an inference plan that Edge accepts in that scope, it rewrites no segment twice, and the tokens
  after the plan are fewer than before.
\<close>

theorem selection_is_plan:
  assumes "validate_candidate_set x c sd = Ok ()" and "digest_scope x s = Ok sd"
    and "subseq ts (cs_transitions c)" and "ts \<noteq> []"
  shows "validate_inference_plan x \<lparr>ip_manifest_id = cs_manifest_id c, ip_transitions = ts\<rparr> s = Ok ()
    \<and> distinct (map old_segment_id ts) \<and> distinct (map tr_position ts)
    \<and> sum_list (map new_token_count ts) < sum_list (map old_token_count ts)"
proof -
  have c: "scope_digest (cs_manifest_id c) = sd" "length (cs_transitions c) \<le> 64"
      "\<exists>r. efold (candidate_step sd) (cs_transitions c) (None, {}, {}) = Inr r"
    using assms(1) unfolding validate_candidate_set_def
    by (auto simp: ensure_eq_Ok MAX_VIA_INFERENCE_CANDIDATES_def elim!: ebind_OkE)
  then have ok: "transitions_ok sd (None, {}, {}) ts"
    using candidates.loop_eq_Ok transitions_ok_subseq [OF assms(3)] by blast
  moreover from this obtain r where "efold (plan_step sd) ts (None, {}, {}) = Inr r"
    using plans.loop_eq_Ok by blast
  moreover have "length ts \<le> 64" using list_emb_length [OF assms(3)] c(2) by simp
  moreover have "sum_list (map new_token_count us) < sum_list (map old_token_count us)"
    if "us \<noteq> []" "\<forall>t\<in>set us. new_token_count t < old_token_count t" for us
    using that
  proof (induction us rule: list_nonempty_induct)
    case (cons u us)
    then show ?case by (simp add: add_strict_mono)
  qed simp
  ultimately show ?thesis
    using assms(2,4) c(1) strict_sorted_iff [of "map tr_position ts"]
    by (auto simp: validate_inference_plan_def MAX_VIA_INFERENCE_SEGMENTS_def transitions_ok_def transition_invalid_def
        sorted_wrt_map not_le)
qed

section \<open>Streams\<close>

lemma validate_successor_eq_Ok:
  "validate_successor x f g = Inr u \<longleftrightarrow> validate_frame x f = Inr () \<and> validate_frame x g = Inr ()
     \<and> seq g + 1 \<le> u64_max \<and> fr_stream_id f = fr_stream_id g \<and> seq f = seq g + 1"
  by (auto simp: validate_successor_def ebind_eq_Ok ok_or_eq_Ok ensure_eq_Ok checked_add_eq_Some)

lemma successors_consecutive:
  "successively (\<lambda>g f. validate_successor x f g = Inr ()) fs \<Longrightarrow> i < length fs \<Longrightarrow>
     fr_stream_id (fs ! i) = fr_stream_id (hd fs) \<and> seq (fs ! i) = seq (hd fs) + i"
proof (induction fs arbitrary: i)
  case (Cons f fs)
  then show ?case
    by (cases i; cases fs) (auto simp: successively_Cons validate_successor_eq_Ok)
qed simp

text \<open>
  C27. A stream that is followed frame by frame has no gap, no replay and no fork, and a cursor
  resumes it where it stopped: along frames of which each is admitted as the successor of the one
  before, every frame belongs to the stream of the first and the i-th has the i-th sequence
  number after it; and when a valid cursor of the stream names the last of these frames, another
  valid frame of the stream extends them exactly when its sequence number is the cursor's next.
\<close>

theorem stream_without_gap:
  assumes "successively (\<lambda>g f. validate_successor x f g = Ok ()) fs" and "fs \<noteq> []"
    and "validate_frame x (last fs) = Ok ()"
    and "validate_stream_cursor c = Ok ()"
    and "last_accepted c = Some \<lparr>pos_seq = seq (last fs), pos_event_id = fr_event_id (last fs)\<rparr>"
    and "validate_frame x f = Ok ()" and "fr_stream_id f = fr_stream_id (hd fs)"
  shows "(\<forall>i < length fs. fr_stream_id (fs ! i) = fr_stream_id (hd fs) \<and> seq (fs ! i) = seq (hd fs) + i)
    \<and> distinct (map seq fs)
    \<and> (successively (\<lambda>g f. validate_successor x f g = Ok ()) (fs @ [f]) \<longleftrightarrow> seq f = cu_next_seq c)"
proof -
  note run = successors_consecutive [OF assms(1)]
  have "distinct (map seq fs)" by (auto simp: distinct_conv_nth run)
  moreover have "fr_stream_id (last fs) = fr_stream_id (hd fs)"
    using run [of "length fs - 1"] assms(2) by (simp add: last_conv_nth)
  moreover have "cu_next_seq c = seq (last fs) + 1" "seq (last fs) + 1 \<le> u64_max"
    using assms(4,5) by (auto simp: validate_stream_cursor_def ebind_eq_Ok ensure_eq_Ok checked_add_eq_Some)
  ultimately show ?thesis
    using run assms by (simp add: successively_append_iff validate_successor_eq_Ok)
qed

section \<open>The strict decoder and the wire\<close>

fun unique_keys :: "json \<Rightarrow> bool" where
  "unique_keys (JObject fs) \<longleftrightarrow> distinct (map fst fs) \<and> list_all (\<lambda>(k, v). unique_keys v) fs"
| "unique_keys (JArray vs) \<longleftrightarrow> list_all unique_keys vs"
| "unique_keys _ \<longleftrightarrow> True"

abbreviation canonical_fields :: "(string \<times> json) list \<Rightarrow> (string \<times> json) list \<Rightarrow> (string \<times> json) list" where
  "canonical_fields fs obj \<equiv> fold (\<lambda>(k, v). al_insert k v) (map (\<lambda>(k, v). (k, canonical_json_value v)) fs) obj"

lemma al_insert_keys: "set (map fst (al_insert k v ps)) = insert k (set (map fst ps))"
proof (induction ps)
  case (Cons p ps)
  then show ?case by (cases p) (simp add: insert_commute)
qed simp

lemma strict_json_unique:
  "strict_json x v = Inr w \<longleftrightarrow> unique_keys v \<and> w = canonical_json_value v"
  "strict_fields x fs obj = Inr obj' \<longleftrightarrow>
     list_all (\<lambda>(k, v). unique_keys v) fs \<and> distinct (map fst fs) \<and> set (map fst fs) \<inter> set (map fst obj) = {}
     \<and> obj' = canonical_fields fs obj"
  "strict_elements x vs = Inr ws \<longleftrightarrow> list_all unique_keys vs \<and> ws = map canonical_json_value vs"
proof (induction x v and x fs obj and x vs arbitrary: w and obj' and ws
    rule: strict_json_strict_fields_strict_elements.induct)
  case (5 x k v fs obj)
  show ?case
  proof (cases "k \<in> set (map fst obj)")
    case False
    then have "strict_fields x ((k, v) # fs) obj = Inr obj' \<longleftrightarrow>
        unique_keys v \<and> strict_fields x fs (al_insert k (canonical_json_value v) obj) = Inr obj'"
      using 5(1) by (auto simp: ebind_eq_Ok)
    also have "\<dots> \<longleftrightarrow> unique_keys v \<and> list_all (\<lambda>(k, v). unique_keys v) fs \<and> distinct (map fst fs)
        \<and> set (map fst fs) \<inter> insert k (set (map fst obj)) = {}
        \<and> obj' = canonical_fields fs (al_insert k (canonical_json_value v) obj)"
      using 5(2) [OF False, of "canonical_json_value v" obj'] 5(1) [OF False, of "canonical_json_value v"]
      by (auto simp only: al_insert_keys)
    also have "\<dots> \<longleftrightarrow> list_all (\<lambda>(k, v). unique_keys v) ((k, v) # fs) \<and> distinct (map fst ((k, v) # fs))
        \<and> set (map fst ((k, v) # fs)) \<inter> set (map fst obj) = {} \<and> obj' = canonical_fields ((k, v) # fs) obj"
      using False by auto
    finally show ?thesis .
  qed simp
qed (auto simp: ebind_eq_Ok)

text \<open>
  C28. The strict decoder of plans admits exactly the values in which no object repeats a key, at any
  depth, and returns their canonical form; and a plan is decoded only from such an object whose
  fields are the four common ones and the one field of its plan type, each at most once.
\<close>

theorem strict_decoder_iff:
  "(strict_json x raw = Ok v \<longleftrightarrow> unique_keys raw \<and> v = canonical_json_value raw)
   \<and> (\<forall>p. decode_plan x raw = Ok p \<longleftrightarrow>
        (\<exists>fs t field. canonical_json_value raw = JObject fs \<and> unique_keys raw \<and> map_of fs ''plan_type'' = Some (JString t)
           \<and> plan_variant_field t = Ok field
           \<and> set (map fst fs) \<subseteq> {''protocol_version'', ''scope'', ''header'', ''plan_type'', field}
           \<and> plan_wire_of x (canonical_json_value raw) = Ok p))"
proof -
  have obj: "(case j of JObject fs \<Rightarrow> Ok fs | _ \<Rightarrow> Err e) = Ok fs \<longleftrightarrow> j = JObject fs" for e :: string and fs j
    by (cases j) auto
  have str: "(case j of Some (JString t) \<Rightarrow> Ok t | _ \<Rightarrow> Err e) = Ok t \<longleftrightarrow> j = Some (JString t)" for e :: string and j t
    by (auto split: option.split json.split)
  have logic: "(\<exists>v. (U \<and> v = j) \<and> (\<exists>fs. v = JObject fs \<and> (\<exists>t. A fs t \<and> (\<exists>field. B t field \<and> (\<exists>u. C fs field \<and> W v))))) \<longleftrightarrow>
      (\<exists>fs t field. j = JObject fs \<and> U \<and> A fs t \<and> B t field \<and> C fs field \<and> W j)" for U A B C W j
    by blast
  have "decode_plan x raw = Ok p \<longleftrightarrow>
      (\<exists>fs t field. canonical_json_value raw = JObject fs \<and> unique_keys raw \<and> map_of fs ''plan_type'' = Some (JString t)
           \<and> plan_variant_field t = Ok field
           \<and> filter (\<lambda>k. k \<notin> {''protocol_version'', ''scope'', ''header'', ''plan_type''} \<and> k \<noteq> field) (map fst fs) = []
           \<and> plan_wire_of x (canonical_json_value raw) = Ok p)" for p
    unfolding decode_plan_def Let_def ebind_eq_Ok strict_json_unique ensure_eq_Ok obj str by (rule logic)
  moreover have "filter (\<lambda>k. k \<notin> A \<and> k \<noteq> field) ks = [] \<longleftrightarrow> set ks \<subseteq> A \<union> {field}" for A and field :: string and ks
    by (auto simp: filter_empty_conv)
  ultimately show ?thesis by (simp only: strict_json_unique Un_insert_left Un_empty_left simp_thms)
qed

text \<open>
  What the derived encoders and decoders do: a decoded message is the encoded one, where an event
  frame comes with no unknown field and a plan as an object with its fields in order.
\<close>

fun body_tag :: "via_plan_body \<Rightarrow> string" where
  "body_tag (Read i) = ''read''"
| "body_tag (Search i) = ''search''"
| "body_tag (Shell i) = ''shell''"
| "body_tag (Mcp i) = ''mcp''"
| "body_tag (Reuse is) = ''reuse''"
| "body_tag (Inference p) = ''inference''"

fun body_field :: "via_plan_body \<Rightarrow> string" where
  "body_field (Read i) = ''source_id''"
| "body_field (Search i) = ''index_id''"
| "body_field (Shell i) = ''output_id''"
| "body_field (Mcp i) = ''output_id''"
| "body_field (Reuse is) = ''source_ids''"
| "body_field (Inference p) = ''inference_plan''"

definition plan_object :: "via_optimization_plan \<Rightarrow> json \<Rightarrow> json \<Rightarrow> json \<Rightarrow> json \<Rightarrow> json" where
  "plan_object p version sc hdr bd =
     JObject [(''protocol_version'', version), (''scope'', sc), (''header'', hdr),
              (''plan_type'', JString (body_tag (body p))), (body_field (body p), bd)]"

definition wire_of_frame :: "via_event_frame \<Rightarrow> via_event_frame_wire" where
  "wire_of_frame f =
     \<lparr>fw_protocol_version = fr_protocol_version f, fw_stream_id = fr_stream_id f, fw_seq = seq f,
      fw_event_id = fr_event_id f, fw_causality = causality f, fw_payload_hash = payload_hash f,
      fw_scope = fr_scope f, fw_payload = payload f, unknown_fields = []\<rparr>"

definition serde_reads_back :: "via_codec \<Rightarrow> via_wire_message \<Rightarrow> string \<Rightarrow> bool" where
  "serde_reads_back x msg bytes \<longleftrightarrow>
     (case msg of
        Event f \<Rightarrow> raw_message_of_bytes x bytes = Ok (RawEvent (wire_of_frame f))
      | OptimizationPlan p \<Rightarrow>
          (\<exists>version sc hdr bd. raw_message_of_bytes x bytes = Ok (RawPlan (plan_object p version sc hdr bd))
             \<and> unique_keys version \<and> unique_keys sc \<and> unique_keys hdr \<and> unique_keys bd
             \<and> plan_wire_of x (canonical_json_value (plan_object p version sc hdr bd)) = Ok p)
      | _ \<Rightarrow> raw_message_of_bytes x bytes = Ok (RawMessage msg))"

lemma decode_plan_object:
  assumes "unique_keys version" "unique_keys sc" "unique_keys hdr" "unique_keys bd"
    and "plan_wire_of x (canonical_json_value (plan_object p version sc hdr bd)) = Ok p"
  shows "decode_plan x (plan_object p version sc hdr bd) = Ok p"
proof -
  have f: "plan_variant_field (body_tag (body p)) = Ok (body_field (body p))" by (cases "body p") simp_all
  have u: "unique_keys (plan_object p version sc hdr bd)" using assms(1-4) by (cases "body p") (simp_all add: plan_object_def)
  have s: "strict_json x (plan_object p version sc hdr bd) = Ok (canonical_json_value (plan_object p version sc hdr bd))"
    using u by (simp only: strict_json_unique)
  have "canonical_json_value (plan_object p version sc hdr bd) = JObject (canonical_fields
      [(''protocol_version'', version), (''scope'', sc), (''header'', hdr),
       (''plan_type'', JString (body_tag (body p))), (body_field (body p), bd)] [])"
    by (simp only: plan_object_def canonical_json_value.simps)
  moreover have "map_of (canonical_fields fs []) = map_of (rev (map (\<lambda>(k, v). (k, canonical_json_value v)) fs))" for fs
    by (induction fs rule: rev_induct) (auto simp: map_of_al_insert)
  ultimately show ?thesis
    using f assms(5) s by (cases "body p") (simp_all add: decode_plan_def plan_object_def del: plan_variant_field.simps)
qed

lemma message_of_bytes_reads_back:
  assumes "serde_reads_back x msg bytes" shows "message_of_bytes x bytes = Ok msg"
proof (cases msg)
  case (Event f)
  then show ?thesis using assms by (simp add: serde_reads_back_def message_of_bytes_def frame_of_wire_def wire_of_frame_def)
next
  case (OptimizationPlan p)
  then show ?thesis using assms by (auto simp: serde_reads_back_def message_of_bytes_def decode_plan_object)
qed (use assms in \<open>simp_all add: serde_reads_back_def message_of_bytes_def\<close>)

text \<open>
  Every message one side may send the other side reads: bytes that the encoder released at an
  instant decode at that instant to the message that was encoded, through the decoders of frames
  and plans that refuse unknown and repeated fields, and are within the wire limits.
\<close>

theorem wire_round_trip:
  assumes "encode_at x msg now = Ok bytes"
    and "\<forall>b. message_bytes x msg = Ok b \<longrightarrow> serde_reads_back x msg b"
  shows "decode_at x bytes now = Ok msg \<and> length bytes \<le> MAX_VIA_WIRE_BYTES
    \<and> (is_plan_request msg \<longrightarrow> length bytes \<le> MAX_VIA_PLAN_REQUEST_BYTES)"
proof -
  have b: "message_bytes x msg = Inr bytes" "validate_message x msg now = Inr ()" "length bytes \<le> MAX_VIA_WIRE_BYTES"
    "is_plan_request msg \<longrightarrow> length bytes \<le> MAX_VIA_PLAN_REQUEST_BYTES"
    using assms(1) by (auto simp: encode_at_def ebind_eq_Ok map_err_eq_Ok ensure_eq_Ok)
  then have "message_of_bytes x bytes = Inr msg" using assms(2) message_of_bytes_reads_back by blast
  then show ?thesis using b by (auto simp: decode_at_def)
qed

end
