(* ===== verification/Via_Witnesses.thy ===== *)
theory Via_Witnesses
  imports Via_Props
begin

text \<open>
  Concrete exchanges of the Edge-to-Via protocol. The digest function of the examples keeps the last
  32 bytes of its input; the encodings keep what an example needs to read back.
\<close>

section \<open>A codec\<close>

definition demo_sha :: "string \<Rightarrow> string" where
  "demo_sha b = rev (take 32 (rev b @ replicate 32 (CHR 0x00)))"

text \<open>The seconds of a canonical timestamp since the beginning of year 0.\<close>

definition demo_seconds :: "string \<Rightarrow> int option" where
  "demo_seconds v = (case utc_timestamp_new v of
     Inl _ \<Rightarrow> None
   | Inr _ \<Rightarrow>
       let y = decimal (slice 0 4 v); mo = decimal (slice 5 7 v); d = decimal (slice 8 10 v);
           days = 365 * y + (y - 1) div 4 - (y - 1) div 100 + (y - 1) div 400
             + sum_list (map (days_in_month y) [1..<mo]) + d
       in Some (int (((days * 24 + decimal (slice 11 13 v)) * 60 + decimal (slice 14 16 v)) * 60
                     + decimal (slice 17 19 v))))"

definition demo_scope :: via_scope where
  "demo_scope = \<lparr>scope_protocol_version = 1, event_or_request_id = ''event-7'', causality_id = None, user_id = None,
     device_id = None, project_id = Some ''project'', workspace_id = None, session_id = None, conversation_id = None,
     scope_agent_id = None, team_id = None, organization_id = None, classification = Normal\<rparr>"

definition demo_digest :: "string \<Rightarrow> sha256_digest" where
  "demo_digest b = ''sha256:'' @ hex_encode (demo_sha b)"

definition demo_id :: "string \<Rightarrow> scoped_content_id" where
  "demo_id b = \<lparr>scope_digest = demo_digest ''event-7'', content_digest = demo_digest b\<rparr>"

definition demo_transition :: "nat \<Rightarrow> string \<Rightarrow> string \<Rightarrow> nat \<Rightarrow> nat \<Rightarrow> inference_segment_transition" where
  "demo_transition pos old new before after =
     \<lparr>tr_position = pos, old_segment_id = demo_digest (''segment '' @ old), old_representation_id = demo_id old,
      old_guard_hash = demo_digest old, new_segment_id = demo_digest (''segment '' @ new),
      new_representation_id = demo_id new, new_guard_hash = demo_digest new, old_token_count = before,
      new_token_count = after\<rparr>"

definition demo_manifest_id :: scoped_content_id where
  "demo_manifest_id = demo_id (''leanctx.inference.manifest.v1'' @ [CHR 0x00] @ ''null'')"

definition demo_plan :: "sha256_digest \<Rightarrow> via_optimization_plan" where
  "demo_plan guard =
     \<lparr>op_protocol_version = 1, op_scope = demo_scope,
      header = \<lparr>plan_id = ''inference-1'', caused_by = ''event-7'', policy_id = ''policy'', policy_version = ''1.0.0'',
        expected_source_ids = [demo_manifest_id], immutable_guard_digest = guard, operator_id = ''compact'',
        operator_version = ''1.0.0'', expires_at = ''2026-01-01T00:00:10Z'', output_budget_tokens = 500\<rparr>,
      body = Inference \<lparr>ip_manifest_id = demo_manifest_id, ip_transitions = [demo_transition 1 ''old'' ''new'' 90 30]\<rparr>\<rparr>"

definition demo_plan_json :: json where
  "demo_plan_json = plan_object (demo_plan []) (JNumber ''1'') (JObject [(''protocol_version'', JNumber ''1'')])
     (JObject [(''plan_id'', JString ''inference-1'')]) (JObject [])"

definition demo :: via_codec where
  "demo = \<lparr>sha_bytes = demo_sha, rfc3339_seconds = demo_seconds, json_bytes = (\<lambda>_. Ok ''null''),
     scope_bytes = (\<lambda>s. Ok (event_or_request_id s)), identity_value = (\<lambda>_. Ok JNull),
     inference_manifest_bytes = (\<lambda>_. Ok ''manifest''), content_manifest_bytes = (\<lambda>_. Ok ''manifest''),
     payload_bytes = (\<lambda>_. Ok ''payload''), frame_bytes = (\<lambda>_. Ok ''frame''),
     candidate_set_bytes = (\<lambda>_. Ok ''candidates''), candidate_identity_bytes = (\<lambda>_. Ok ''identity''),
     plan_identity_bytes = (\<lambda>_. Ok ''plan identity''), plan_bytes = (\<lambda>_. Ok ''plan''),
     plan_wire_of = (\<lambda>_. Ok (demo_plan [])), message_bytes = (\<lambda>_. Ok ''message''),
     raw_message_of_bytes = (\<lambda>_. Ok (RawPlan demo_plan_json)), debug_text = (\<lambda>s. s), at_position = (\<lambda>_ e. e)\<rparr>"

lemma demo_codec [simp]:
  "sha_bytes demo = demo_sha" "rfc3339_seconds demo = demo_seconds" "json_bytes demo j = Ok ''null''"
  "scope_bytes demo s = Ok (event_or_request_id s)" "identity_value demo i = Ok JNull"
  "inference_manifest_bytes demo m = Ok ''manifest''" "content_manifest_bytes demo cm = Ok ''manifest''"
  "payload_bytes demo pl = Ok ''payload''" "frame_bytes demo fr = Ok ''frame''"
  "candidate_set_bytes demo cs = Ok ''candidates''" "candidate_identity_bytes demo ci = Ok ''identity''"
  "plan_bytes demo p = Ok ''plan''" "plan_wire_of demo w = Ok (demo_plan [])" "message_bytes demo msg = Ok ''message''"
  "raw_message_of_bytes demo b = Ok (RawPlan demo_plan_json)"
  by (simp_all add: demo_def)

lemma via_sha256_demo [simp]: "via_sha256 demo b = Ok (demo_digest b)"
  by (simp add: via_sha256_total demo_sha_def demo_digest_def)

lemma demo_digest_inject [simp]: "demo_digest a = demo_digest b \<longleftrightarrow> demo_sha a = demo_sha b"
  by (auto simp: demo_digest_def dest: hex_encode_inject)

lemma demo_scope_simps [simp]:
  "scope_protocol_version demo_scope = 1" "classification demo_scope = Normal" "event_or_request_id demo_scope = ''event-7''"
  by (simp_all add: demo_scope_def)

lemma validate_demo_scope [simp]: "validate_scope demo_scope = Ok ()"
  by (simp add: validate_scope_def validate_protocol_version_def VIA_PROTOCOL_V1_def)

lemma digest_demo_scope [simp]: "digest_scope demo demo_scope = Ok (demo_digest ''event-7'')"
  by (simp add: digest_scope_def)

lemma demo_id_simps [simp]:
  "scope_digest (demo_id b) = demo_digest ''event-7''" "content_digest (demo_id b) = demo_digest b"
  "demo_id a = demo_id b \<longleftrightarrow> demo_sha a = demo_sha b"
  by (simp_all add: demo_id_def)

lemma demo_times:
  "demo_seconds ''2026-01-01T00:00:10Z'' = Some 63934444810" "demo_seconds ''2026-01-01T00:00:00Z'' = Some 63934444800"
  by (simp_all add: demo_seconds_def utc_timestamp_new_def slice_def decimal_def days_in_month_def is_ascii_digit_def byte_def)

lemma demo_ttl [simp]:
  "validate_content_ttl demo ''2026-01-01T00:00:00Z'' ''2026-01-01T00:00:10Z'' = Ok ()"
  "validate_plan_ttl demo ''2026-01-01T00:00:00Z'' ''2026-01-01T00:00:10Z'' = Ok ()"
  by (simp_all add: validate_content_ttl_def validate_plan_ttl_def demo_times MAX_VIA_CONTENT_REQUEST_TTL_SECONDS_def
      MAX_VIA_PLAN_TTL_SECONDS_def)

section \<open>Content in two chunks\<close>

definition demo_chunk :: "nat \<Rightarrow> nat \<Rightarrow> chunk_descriptor" where
  "demo_chunk a b = \<lparr>cd_chunk_id = demo_digest (slice a b ''abcdef''), cd_start_byte = a, cd_end_byte = b,
     cd_byte_count = b - a, symbol = Some ''fn'', cd_token_count = None, cd_operator_id = ''chunker'', cd_operator_version = ''1.0.0''\<rparr>"

definition demo_content :: content_manifest where
  "demo_content = \<lparr>cm_scope = demo_scope, content_id = demo_id ''abcdef'', kind = SourceFile, cm_byte_count = 6,
     token_counts = [], cm_source_version = None, language = Some ''rust'', structural_manifest = None,
     chunks = [demo_chunk 0 4, demo_chunk 4 6], availability = TransientRemoteAllowed\<rparr>"

definition demo_got :: "chunk_descriptor \<Rightarrow> content_chunk" where
  "demo_got c = \<lparr>ck_protocol_version = 1,
     ck_request_id = \<lparr>ref_scope_digest = demo_digest ''event-7'', reference = ''request''\<rparr>,
     ck_source_content_id = demo_id ''abcdef'', ck_chunk_id = cd_chunk_id c, ck_start_byte = cd_start_byte c,
     ck_end_byte = cd_end_byte c, ck_byte_count = cd_byte_count c, ck_source_version = demo_digest ''v1'',
     ck_content = slice (cd_start_byte c) (cd_end_byte c) ''abcdef'', ck_payload_digest = cd_chunk_id c,
     ck_expires_at = ''2026-01-01T00:00:10Z''\<rparr>"

abbreviation demo_now :: utc_timestamp where "demo_now \<equiv> ''2026-01-01T00:00:00Z''"

lemma demo_content_valid: "validate_content_manifest demo demo_content = Ok ()"
  by (simp add: validate_content_manifest_def demo_content_def demo_chunk_def chunk_step_def
      validate_chunk_descriptor_def validate_unique_def unprintable_def byte_def slice_def demo_sha_def
      MAX_VIA_CONTENT_ITEMS_def MAX_VIA_CAPABILITIES_def MAX_VIA_MANIFEST_BYTES_def)

lemma demo_got_valid: "c \<in> {demo_chunk 0 4, demo_chunk 4 6} \<Longrightarrow> validate_content_chunk demo (demo_got c) demo_now = Ok ()"
  by (auto simp: validate_content_chunk_def demo_got_def demo_chunk_def validate_protocol_version_def VIA_PROTOCOL_V1_def
      slice_def MAX_VIA_CONTENT_CHUNK_BYTES_def)

theorem chunks_reassemble_content_witness:
  "concat (map (\<lambda>c. ck_content (demo_got c)) (chunks demo_content)) = ''abcdef''
   \<and> (\<exists>!c. c \<in> set (chunks demo_content) \<and> cd_start_byte c \<le> 4 \<and> 4 < cd_end_byte c)"
proof -
  have "concat (map (\<lambda>c. ck_content (demo_got c)) (chunks demo_content)) = ''abcdef''
    \<and> (\<forall>i < length ''abcdef''. \<exists>!c. c \<in> set (chunks demo_content) \<and> cd_start_byte c \<le> i \<and> i < cd_end_byte c)"
  proof (rule chunks_reassemble_content [where x = demo and now = "\<lambda>_. demo_now"])
    show "validate_content_manifest demo demo_content = Ok ()" by (rule demo_content_valid)
    show "\<forall>c\<in>set (chunks demo_content). validate_content_chunk demo (demo_got c) demo_now = Ok ()
        \<and> ck_chunk_id (demo_got c) = cd_chunk_id c"
      using demo_got_valid by (simp add: demo_content_def) (simp add: demo_got_def)
  qed (simp_all add: demo_content_def demo_chunk_def demo_got_def)
  then show ?thesis by (elim conjE allE [of _ 4]) simp
qed

section \<open>A manifest, its guard and a plan\<close>

definition demo_segment :: "nat \<Rightarrow> inference_mutability \<Rightarrow> string \<Rightarrow> nat \<Rightarrow> inference_segment" where
  "demo_segment pos mut b tokens =
     \<lparr>segment_id = demo_digest (''leanctx.inference.segment.v1'' @ [CHR 0x00] @ demo_digest ''event-7''
        @ be_bytes 2 pos @ be_bytes 1 (role_discriminant User) @ demo_digest b),
      position = pos, content_or_representation_id = demo_id b, role = User, mutability = mut,
      guard_hash = demo_digest b, token_count = tokens, delivery_state = Uncached, source_lineage = [demo_id ''source'']\<rparr>"

definition demo_inference :: "string \<Rightarrow> nat \<Rightarrow> inference_manifest" where
  "demo_inference b tokens =
     \<lparr>im_scope = demo_scope, im_manifest_id = demo_manifest_id, im_tokenizer_family = Cl100kBaseApproxV1,
      im_cache_policy = AnthropicExplicitCacheControlV1,
      im_segments = [demo_segment 0 Immutable ''fixed'' 40, demo_segment 1 Conditional b tokens],
      im_accounting = \<lparr>total_tokens = 40 + tokens, immutable_tokens = 40, conditional_tokens = tokens,
        cache_marked_tokens = 0, uncached_tokens = 40 + tokens\<rparr>,
      im_stable_prefix_digest = None\<rparr>"

lemma demo_segment_valid [simp]: "validate_segment demo (demo_segment pos mut b n) demo_scope pos = Ok ()"
  by (simp add: validate_segment_def demo_segment_def inference_segment_id_def validate_unique_def MAX_VIA_INFERENCE_LINEAGE_def)

lemma demo_segment_ids:
  "segment_id (demo_segment 0 Immutable ''fixed'' 40) \<noteq> segment_id (demo_segment 1 Conditional ''old'' n)"
  "segment_id (demo_segment 0 Immutable ''fixed'' 40) \<noteq> segment_id (demo_segment 1 Conditional ''new'' n)"
  unfolding demo_segment_def inference_segment.simps demo_digest_inject
  by (simp_all add: demo_sha_def demo_digest_def hex_encode_def hex_lower_def byte_def)

lemma demo_inference_valid:
  assumes "segment_id (demo_segment 0 Immutable ''fixed'' 40) \<noteq> segment_id (demo_segment 1 Conditional b n)" "n \<le> 1000"
  shows "validate_inference_manifest demo (demo_inference b n) = Ok ()"
proof -
  have "inference_accounting_of (im_segments (demo_inference b n)) = Ok (im_accounting (demo_inference b n))"
    using assms(2) by (simp add: inference_accounting_of_def account_segment_def demo_inference_def demo_segment_def
        checked_add_def u64_max_def)
  moreover have "efold (segment_step demo demo_scope) (enumerate 0 (im_segments (demo_inference b n))) {} =
      Ok {segment_id (demo_segment 1 Conditional b n), segment_id (demo_segment 0 Immutable ''fixed'' 40)}"
    using assms(1) by (simp add: segment_step_def demo_inference_def)
  ultimately show ?thesis
    by (simp add: validate_inference_manifest_def expected_manifest_id_def canonical_json_bytes_def from_scope_and_bytes_def
        demo_manifest_id_def demo_id_def MAX_VIA_INFERENCE_SEGMENTS_def MAX_VIA_INFERENCE_MANIFEST_BYTES_def
        demo_inference_def)
qed

lemmas demo_inference_valids =
  demo_inference_valid [OF demo_segment_ids(1)] demo_inference_valid [OF demo_segment_ids(2)]

lemma demo_digest_length [simp]: "length (demo_digest b) = 71"
  by (simp add: demo_digest_def hex_encode_props(1) demo_sha_def)

definition demo_transcript :: string where
  "demo_transcript = ''leanctx.inference.immutable-guard.v1'' @ [CHR 0x00] @ guard_text (demo_digest ''event-7'')
     @ be_bytes 1 0 @ be_bytes 1 0 @ be_bytes 2 1 @ segment_text (demo_segment 0 Immutable ''fixed'' 40)"

lemma demo_guard_transcript:
  assumes "validate_inference_manifest demo (demo_inference b n) = Ok ()"
  shows "guard_transcript demo (demo_inference b n) = Ok demo_transcript"
proof -
  have imm: "immutable_segments (demo_inference b n) = [demo_segment 0 Immutable ''fixed'' 40]"
    by (simp add: immutable_segments_def demo_inference_def demo_segment_def)
  have "guard_segment (demo_segment 0 Immutable ''fixed'' 40) = Ok (segment_text (demo_segment 0 Immutable ''fixed'' 40))"
    by (simp add: guard_segment_def segment_text_def source_text_def push_guard_text_def guard_text_def guard_source_def
        demo_segment_def u32_max_def u8_max_def)
  then show ?thesis
    using assms by (simp add: guard_transcript_def imm push_guard_text_def guard_text_def u32_max_def u16_max_def demo_transcript_def)
      (simp add: demo_inference_def guard_text_def)
qed

lemmas demo_guards =
  demo_guard_transcript [OF demo_inference_valids(1)] demo_guard_transcript [OF demo_inference_valids(2)]

lemma demo_transition_valid [simp]: "\<not> transition_invalid (demo_digest ''event-7'') (demo_transition pos ''old'' ''new'' 90 30)"
  by (simp add: transition_invalid_def demo_transition_def demo_sha_def)

lemma demo_plan_valid: "validate_plan demo (demo_plan g) demo_now = Ok ()"
  by (simp add: validate_plan_def demo_plan_def validate_protocol_version_def VIA_PROTOCOL_V1_def validate_unique_def
      validate_inference_plan_def plan_step_def demo_manifest_id_def MAX_VIA_OUTPUT_TOKENS_def MAX_VIA_PLAN_SOURCES_def
      MAX_VIA_INFERENCE_SEGMENTS_def MAX_VIA_PLAN_BYTES_def)

theorem plan_bound_to_state_witness:
  "caused_by (header (demo_plan (demo_digest demo_transcript))) = ''event-7''
   \<and> set [demo_manifest_id] = set (expected_source_ids (header (demo_plan (demo_digest demo_transcript))))
   \<and> set (body_source_ids (body (demo_plan (demo_digest demo_transcript)))) \<subseteq> set [demo_manifest_id]
   \<and> immutable_segments (demo_inference ''new'' 30) = immutable_segments (demo_inference ''old'' 90)
   \<and> digest_scope demo (im_scope (demo_inference ''new'' 30)) = digest_scope demo (im_scope (demo_inference ''old'' 90))"
proof (rule plan_bound_to_state [where x = demo and now = demo_now and guard = "demo_digest demo_transcript"])
  show "validate_for_execution demo (demo_plan (demo_digest demo_transcript)) demo_now ''event-7'' [demo_manifest_id]
      (demo_digest demo_transcript) = Ok ()"
    by (simp add: validate_for_execution_def demo_plan_valid validate_unique_def MAX_VIA_PLAN_SOURCES_def)
      (simp add: demo_plan_def)
  show "inference_immutable_guard demo (demo_inference ''new'' 30) = Ok (demo_digest demo_transcript)"
    "inference_immutable_guard demo (demo_inference ''old'' 90) = Ok (immutable_guard_digest (header (demo_plan (demo_digest demo_transcript))))"
    by (simp_all add: inference_immutable_guard_def demo_guards demo_plan_def)
  show "manifest_typed (demo_inference ''new'' 30)" "manifest_typed (demo_inference ''old'' 90)"
    by (simp_all add: manifest_typed_def demo_inference_def demo_segment_def u16_max_def u64_max_def)
qed (simp add: demo_guards)

section \<open>A candidate set\<close>

definition demo_candidates :: inference_candidate_set where
  "demo_candidates =
     \<lparr>candidate_set_id = demo_id (''leanctx.inference.candidate-set.v1'' @ [CHR 0x00] @ ''identity''),
      cs_manifest_id = demo_manifest_id, cs_operator_id = ''leanctx.inference.history.compact'',
      cs_operator_version = ''1.0.0'',
      cs_transitions = [demo_transition 1 ''old'' ''new'' 90 30, demo_transition 4 ''before'' ''after'' 20 5]\<rparr>"

lemma demo_candidates_valid: "validate_candidate_set demo demo_candidates (demo_digest ''event-7'') = Ok ()"
  by (simp add: validate_candidate_set_def demo_candidates_def candidate_step_def candidate_expected_id_def demo_manifest_id_def
      MAX_VIA_INFERENCE_CANDIDATES_def MAX_VIA_INFERENCE_CANDIDATE_SET_BYTES_def)
    (simp add: demo_transition_def transition_invalid_def demo_sha_def demo_id_def)

theorem selection_is_plan_witness:
  "validate_inference_plan demo \<lparr>ip_manifest_id = cs_manifest_id demo_candidates,
       ip_transitions = [demo_transition 4 ''before'' ''after'' 20 5]\<rparr> demo_scope = Ok ()
   \<and> distinct (map old_segment_id [demo_transition 4 ''before'' ''after'' 20 5])
   \<and> distinct (map tr_position [demo_transition 4 ''before'' ''after'' 20 5])
   \<and> sum_list (map new_token_count [demo_transition 4 ''before'' ''after'' 20 5])
      < sum_list (map old_token_count [demo_transition 4 ''before'' ''after'' 20 5])"
  by (rule selection_is_plan [OF demo_candidates_valid digest_demo_scope])
    (simp_all add: demo_candidates_def demo_transition_def)

section \<open>A stream and a message\<close>

definition demo_frame :: "nat \<Rightarrow> string \<Rightarrow> via_event_frame" where
  "demo_frame n event =
     \<lparr>fr_protocol_version = 1, fr_stream_id = \<lparr>ref_scope_digest = demo_digest ''event-7'', reference = ''stream''\<rparr>, seq = n,
      fr_event_id = event, causality = [''cause''], payload_hash = demo_digest ''payload'', fr_scope = demo_scope,
      payload = Observation \<lparr>ob_kind = FileChanged, input_ids = [demo_id ''a''], output_ids = [], ob_capability_id = None\<rparr>\<rparr>"

definition demo_cursor :: via_stream_cursor where
  "demo_cursor =
     \<lparr>cu_protocol_version = 1, cu_stream_id = \<lparr>ref_scope_digest = demo_digest ''event-7'', reference = ''stream''\<rparr>,
      cu_next_seq = 9, last_accepted = Some \<lparr>pos_seq = 8, pos_event_id = ''b''\<rparr>\<rparr>"

lemma demo_frame_valid: "event \<noteq> ''cause'' \<Longrightarrow> validate_frame demo (demo_frame n event) = Ok ()"
  by (simp add: validate_frame_def demo_frame_def validate_protocol_version_def VIA_PROTOCOL_V1_def validate_unique_def
      validate_event_payload_def digest_event_payload_def MAX_VIA_CAUSALITY_def MAX_VIA_CONTENT_ITEMS_def MAX_VIA_FRAME_BYTES_def)

theorem stream_without_gap_witness:
  "seq ([demo_frame 7 ''a'', demo_frame 8 ''b''] ! 1) = seq (hd [demo_frame 7 ''a'', demo_frame 8 ''b'']) + 1
   \<and> distinct (map seq [demo_frame 7 ''a'', demo_frame 8 ''b''])
   \<and> (successively (\<lambda>g f. validate_successor demo f g = Ok ()) ([demo_frame 7 ''a'', demo_frame 8 ''b''] @ [demo_frame 9 ''c''])
      \<longleftrightarrow> seq (demo_frame 9 ''c'') = cu_next_seq demo_cursor)"
proof -
  let ?fs = "[demo_frame 7 ''a'', demo_frame 8 ''b'']"
  have "(\<forall>i < length ?fs. fr_stream_id (?fs ! i) = fr_stream_id (hd ?fs) \<and> seq (?fs ! i) = seq (hd ?fs) + i)
    \<and> distinct (map seq ?fs)
    \<and> (successively (\<lambda>g f. validate_successor demo f g = Ok ()) (?fs @ [demo_frame 9 ''c''])
       \<longleftrightarrow> seq (demo_frame 9 ''c'') = cu_next_seq demo_cursor)"
    by (rule stream_without_gap)
      (simp_all add: validate_successor_eq_Ok demo_frame_valid, simp_all add: demo_frame_def demo_cursor_def u64_max_def
        validate_stream_cursor_def validate_protocol_version_def VIA_PROTOCOL_V1_def checked_add_def)
  then have all: "\<forall>i < length ?fs. fr_stream_id (?fs ! i) = fr_stream_id (hd ?fs) \<and> seq (?fs ! i) = seq (hd ?fs) + i"
    and rest: "distinct (map seq ?fs)
    \<and> (successively (\<lambda>g f. validate_successor demo f g = Ok ()) (?fs @ [demo_frame 9 ''c''])
       \<longleftrightarrow> seq (demo_frame 9 ''c'') = cu_next_seq demo_cursor)" by blast+
  have "1 < length ?fs" by simp
  then have "seq (?fs ! 1) = seq (hd ?fs) + 1" using all by blast
  then show ?thesis using rest by (rule conjI)
qed

theorem wire_round_trip_witness:
  "decode_at demo ''message'' demo_now = Ok (OptimizationPlan (demo_plan [])) \<and> length ''message'' \<le> MAX_VIA_WIRE_BYTES
   \<and> (is_plan_request (OptimizationPlan (demo_plan [])) \<longrightarrow> length ''message'' \<le> MAX_VIA_PLAN_REQUEST_BYTES)"
proof (rule wire_round_trip)
  show "encode_at demo (OptimizationPlan (demo_plan [])) demo_now = Ok ''message''"
    by (simp add: encode_at_def demo_plan_valid MAX_VIA_WIRE_BYTES_def MAX_VIA_PLAN_REQUEST_BYTES_def)
  show "\<forall>b. message_bytes demo (OptimizationPlan (demo_plan [])) = Ok b \<longrightarrow> serde_reads_back demo (OptimizationPlan (demo_plan [])) b"
    by (auto simp: serde_reads_back_def demo_plan_json_def intro!: exI)
qed

end
