(* ===== verification/Audit_Trail.thy ===== *)
theory Audit_Trail
  imports Transport Via_Ids Json
begin

text \<open>
  The engine's audit trail (\<open>src/core/audit_trail.rs\<close> and \<open>audit_trail/segments.rs\<close>): entries chained by
  SHA-256, appended under an exclusive lock to \<open>trail.jsonl\<close>, which is sealed and moved to a numbered
  segment when it is full or its day has passed. A file is its bytes. What a call finds outside
  (the clock, the key, the outcome of a write or a rename) is a record per attempt; an
  error of opening, locking, seeking or reading ends the call before it writes.
\<close>

section \<open>Events\<close>

datatype audit_event_type =
    ToolCall | ToolDenied | PathJailViolation | BudgetExceeded | CrossProjectAccess | RateLimited
  | SecurityViolation | RoleChanged | SecretDetected | AgentRegistered | AgentSuspended | AgentResumed
  | AgentDecommissioned | AgentDriftDetected | AgentDriftAcknowledged
  | Unknown string

fun wire_label :: "audit_event_type \<Rightarrow> string" where
  "wire_label ToolCall = ''tool_call''"
| "wire_label ToolDenied = ''tool_denied''"
| "wire_label PathJailViolation = ''path_jail_violation''"
| "wire_label BudgetExceeded = ''budget_exceeded''"
| "wire_label CrossProjectAccess = ''cross_project_access''"
| "wire_label RateLimited = ''rate_limited''"
| "wire_label SecurityViolation = ''security_violation''"
| "wire_label RoleChanged = ''role_changed''"
| "wire_label SecretDetected = ''secret_detected''"
| "wire_label AgentRegistered = ''agent_registered''"
| "wire_label AgentSuspended = ''agent_suspended''"
| "wire_label AgentResumed = ''agent_resumed''"
| "wire_label AgentDecommissioned = ''agent_decommissioned''"
| "wire_label AgentDriftDetected = ''agent_drift_detected''"
| "wire_label AgentDriftAcknowledged = ''agent_drift_acknowledged''"
| "wire_label (Unknown label) = label"

definition is_ascii_lowercase :: "char \<Rightarrow> bool" where
  "is_ascii_lowercase c \<longleftrightarrow> 97 \<le> byte c \<and> byte c \<le> 122"

definition valid_extension_event_label :: "string \<Rightarrow> bool" where
  "valid_extension_event_label label \<longleftrightarrow> length label \<le> 64 \<and>
     (case strip_prefix ''x-'' label of
        None \<Rightarrow> False
      | Some [] \<Rightarrow> False
      | Some (c # cs) \<Rightarrow> is_ascii_lowercase c
          \<and> list_all (\<lambda>d. is_ascii_lowercase d \<or> is_ascii_digit d \<or> d = CHR ''_'') cs)"

definition known_events :: "audit_event_type list" where
  "known_events = [ToolCall, ToolDenied, PathJailViolation, BudgetExceeded, CrossProjectAccess, RateLimited,
     SecurityViolation, RoleChanged, SecretDetected, AgentRegistered, AgentSuspended, AgentResumed,
     AgentDecommissioned, AgentDriftDetected, AgentDriftAcknowledged]"

definition event_of_label :: "string \<Rightarrow> audit_event_type option" where
  "event_of_label label =
     (case find (\<lambda>e. wire_label e = label) known_events of
        Some e \<Rightarrow> Some e
      | None \<Rightarrow> if valid_extension_event_label label then Some (Unknown label) else None)"

text \<open>
  Serialising an unknown event with a label outside the extension namespace is an error, on which
  \<open>append_locked\<close> panics before it writes; no reader or writer of the crate makes such an event.
\<close>

definition event_json :: "audit_event_type \<Rightarrow> string + json" where
  "event_json e =
     (case e of
        Unknown label \<Rightarrow> if valid_extension_event_label label then Ok (JString label)
          else Err (''unknown event_type is not a safe additive label: '' @ label)
      | _ \<Rightarrow> Ok (JString (wire_label e)))"

section \<open>Entries\<close>

record audit_entry =
  timestamp :: string
  agent_id :: string
  tool :: string
  action :: "string option"
  input_hash :: string
  output_tokens :: nat
  role :: string
  event_type :: audit_event_type
  prev_hash :: string
  entry_hash :: string
  signature :: "string option"

record audit_entry_data =
  ed_agent_id :: string
  ed_tool :: string
  ed_action :: "string option"
  ed_input_hash :: string
  ed_output_tokens :: nat
  ed_role :: string
  ed_event_type :: audit_event_type

text \<open>
  Code outside the crate: SHA-256, the text of a JSON value, the values of a line of text (a stream that
  ends at the first error), and the signature scheme with the public key of \<open>lean-ctx\<close>.
\<close>

record audit_codec =
  au_sha :: "string \<Rightarrow> string"
  json_text :: "json \<Rightarrow> string"
  json_values :: "string \<Rightarrow> (string + json) list"
  public_key :: "string option"
  verify_signature :: "string \<Rightarrow> string \<Rightarrow> string \<Rightarrow> bool"

fun optional_text :: "string option \<Rightarrow> json" where
  "optional_text None = JNull"
| "optional_text (Some s) = JString s"

definition hashed_object :: "json \<Rightarrow> json \<Rightarrow> json \<Rightarrow> json \<Rightarrow> json \<Rightarrow> json \<Rightarrow> json \<Rightarrow> json" where
  "hashed_object a t act i n r e =
     jobj [(''agent_id'', a), (''tool'', t), (''action'', act), (''input_hash'', i), (''output_tokens'', n),
           (''role'', r), (''event_type'', e)]"

text \<open>What \<open>serde\<close> writes for an entry, and reads back from a value.\<close>

definition entry_json :: "audit_entry \<Rightarrow> json" where
  "entry_json e =
     JObject ([(''timestamp'', JString (timestamp e)), (''agent_id'', JString (agent_id e)), (''tool'', JString (tool e)),
        (''action'', optional_text (action e)), (''input_hash'', JString (input_hash e)),
        (''output_tokens'', JNumber (show_nat (output_tokens e))), (''role'', JString (role e)),
        (''event_type'', JString (wire_label (event_type e))), (''prev_hash'', JString (prev_hash e)),
        (''entry_hash'', JString (entry_hash e))]
       @ (case signature e of None \<Rightarrow> [] | Some s \<Rightarrow> [(''signature'', JString s)]))"

definition parse_digits :: "nat \<Rightarrow> string \<Rightarrow> nat option" where
  "parse_digits bound s =
     (if s \<noteq> [] \<and> list_all is_ascii_digit s \<and> decimal s \<le> bound then Some (decimal s) else None)"

definition number_of :: "json option \<Rightarrow> nat option" where
  "number_of v = (case v of Some (JNumber s) \<Rightarrow> parse_digits u32_max s | _ \<Rightarrow> None)"

definition optional_of :: "json option \<Rightarrow> string option option" where
  "optional_of v = (case v of None \<Rightarrow> Some None | Some JNull \<Rightarrow> Some None | Some (JString s) \<Rightarrow> Some (Some s) | _ \<Rightarrow> None)"

definition entry_of_json :: "json \<Rightarrow> audit_entry option" where
  "entry_of_json v =
     (case (as_str (jget v ''timestamp''), as_str (jget v ''agent_id''), as_str (jget v ''tool''),
            optional_of (jget v ''action''), as_str (jget v ''input_hash''), number_of (jget v ''output_tokens''),
            as_str (jget v ''role''), Option.bind (as_str (jget v ''event_type'')) event_of_label,
            as_str (jget v ''prev_hash''), as_str (jget v ''entry_hash''), optional_of (jget v ''signature'')) of
        (Some ts, Some a, Some t, Some act, Some i, Some n, Some r, Some ev, Some p, Some h, Some sg) \<Rightarrow>
          Some \<lparr>timestamp = ts, agent_id = a, tool = t, action = act, input_hash = i, output_tokens = n, role = r,
                event_type = ev, prev_hash = p, entry_hash = h, signature = sg\<rparr>
      | _ \<Rightarrow> None)"

definition compute_entry_hash :: "audit_codec \<Rightarrow> string \<Rightarrow> string \<Rightarrow> string" where
  "compute_entry_hash c prev data = hex_encode (au_sha c (prev @ data))"

section \<open>Segments\<close>

definition SEGMENT_MAX_BYTES :: nat where "SEGMENT_MAX_BYTES = 64 * 1024 * 1024"
definition SEAL_EVENT :: string where "SEAL_EVENT = ''x-segment_sealed''"

definition seal_action :: "nat \<Rightarrow> string" where
  "seal_action sq = ''segment='' @ show_nat sq"

text \<open>\<open>str::parse::<u64>\<close> takes one plus sign before the digits.\<close>

definition parse_u64 :: "string \<Rightarrow> nat option" where
  "parse_u64 s = (case s of c # cs \<Rightarrow> if c = CHR ''+'' then parse_digits u64_max cs else parse_digits u64_max s | [] \<Rightarrow> None)"

definition sealed_seq :: "string option \<Rightarrow> nat option" where
  "sealed_seq act = Option.bind act (\<lambda>a. Option.bind (strip_prefix ''segment='' a) parse_u64)"

text \<open>\<open>days\<close> reads the UTC day of an RFC 3339 time.\<close>

definition due :: "(string \<Rightarrow> int option) \<Rightarrow> nat \<Rightarrow> string option \<Rightarrow> int \<Rightarrow> bool" where
  "due days len last_at today \<longleftrightarrow>
     (if len = 0 then False
      else if len \<ge> SEGMENT_MAX_BYTES then True
      else case Option.bind last_at days of None \<Rightarrow> False | Some d \<Rightarrow> d < today)"

definition is_seal :: "audit_event_type \<Rightarrow> bool" where
  "is_seal e \<longleftrightarrow> e = Unknown SEAL_EVENT"

definition seal_data :: "nat \<Rightarrow> audit_entry_data" where
  "seal_data sq = \<lparr>ed_agent_id = ''lean-ctx'', ed_tool = ''audit_trail'', ed_action = Some (seal_action sq),
     ed_input_hash = [], ed_output_tokens = 0, ed_role = ''system'', ed_event_type = Unknown SEAL_EVENT\<rparr>"

text \<open>The active file, absent or present, and the sealed segments by number.\<close>

record trail =
  active :: "string option"
  sealed_segments :: "(nat \<times> string) list"

section \<open>The tail of a file\<close>

definition TAIL :: nat where "TAIL = 64 * 1024"

text \<open>\<open>str::from_utf8\<close>: the well-formed sequences of one to four bytes.\<close>

abbreviation cont :: "char \<Rightarrow> bool" where "cont c \<equiv> 128 \<le> byte c \<and> byte c < 192"

fun valid_utf8 :: "string \<Rightarrow> bool" where
  "valid_utf8 [] = True"
| "valid_utf8 (a # s) =
     (if byte a < 128 then valid_utf8 s
      else if 194 \<le> byte a \<and> byte a < 224
      then (case s of b # s2 \<Rightarrow> cont b \<and> valid_utf8 s2 | _ \<Rightarrow> False)
      else if 224 \<le> byte a \<and> byte a < 240
      then (case s of b # c # s3 \<Rightarrow> cont b \<and> cont c \<and> (byte a = 224 \<longrightarrow> 160 \<le> byte b) \<and> (byte a = 237 \<longrightarrow> byte b < 160)
              \<and> valid_utf8 s3 | _ \<Rightarrow> False)
      else if 240 \<le> byte a \<and> byte a < 245
      then (case s of b # c # d # s4 \<Rightarrow> cont b \<and> cont c \<and> cont d \<and> (byte a = 240 \<longrightarrow> 144 \<le> byte b)
              \<and> (byte a = 244 \<longrightarrow> byte b < 144) \<and> valid_utf8 s4 | _ \<Rightarrow> False)
      else False)"

text \<open>\<open>str::lines\<close>: split at line feeds, drop a carriage return before one, no line after the last.\<close>

fun raw_lines :: "string \<Rightarrow> (string \<times> bool) list" where
  "raw_lines [] = []"
| "raw_lines (c # cs) =
     (if c = CHR 0x0A then ([], True) # raw_lines cs
      else case raw_lines cs of
             [] \<Rightarrow> [([c], False)]
           | (l, ended) # ls \<Rightarrow> (c # l, ended) # ls)"

definition strip_cr :: "string \<times> bool \<Rightarrow> string" where
  "strip_cr = (\<lambda>(l, ended). if ended \<and> l \<noteq> [] \<and> last l = CHR 0x0D then butlast l else l)"

definition str_lines :: "string \<Rightarrow> string list" where
  "str_lines s = map strip_cr (raw_lines s)"

text \<open>The loop over one line: the last value that names an \<open>entry_hash\<close>, or the first error.\<close>

fun last_entry_value :: "(string + json) list \<Rightarrow> json option \<Rightarrow> string + json option" where
  "last_entry_value [] found = Ok found"
| "last_entry_value (Inl e # vs) found = Err (''audit tail parse: '' @ e)"
| "last_entry_value (Inr v # vs) found =
     last_entry_value vs (if as_str (jget v ''entry_hash'') \<noteq> None then Some v else found)"

fun tail_of_lines :: "audit_codec \<Rightarrow> string list \<Rightarrow> string + json option" where
  "tail_of_lines c [] = Err ''audit tail: no readable chain head''"
| "tail_of_lines c (l # ls) =
     (if is_blank l then tail_of_lines c ls
      else ebind (last_entry_value (json_values c l) None) (\<lambda>found.
        case found of Some v \<Rightarrow> Ok (Some v) | None \<Rightarrow> tail_of_lines c ls))"

definition read_tail_entry :: "audit_codec \<Rightarrow> string \<Rightarrow> string + json option" where
  "read_tail_entry c bytes =
     (if bytes = [] then Ok None
      else let window = drop (length bytes - min (length bytes) TAIL) bytes in
        if \<not> valid_utf8 window then Err ''audit tail read: stream did not contain valid UTF-8''
        else tail_of_lines c (rev (str_lines window)))"

definition read_last_hash_tail :: "audit_codec \<Rightarrow> string \<Rightarrow> string + string" where
  "read_last_hash_tail c bytes =
     ebind (read_tail_entry c bytes) (\<lambda>found.
     Ok (case Option.bind found (\<lambda>v. as_str (jget v ''entry_hash'')) of Some h \<Rightarrow> h | None \<Rightarrow> ''genesis''))"

section \<open>Appending\<close>

text \<open>
  A write that fails is rolled back to the length before it; where the rollback fails too, a part of
  the line stays behind.
\<close>

datatype write_outcome = Written | RolledBack string | Torn nat string

record append_env =
  io_error :: "string option"
  signer :: "string \<Rightarrow> string + string"
  stamp_text :: string
  seal_write :: write_outcome
  data_write :: write_outcome
  rename_error :: "string option"
  day_of :: "string \<Rightarrow> int option"
  today :: int
  backing_off :: bool
  verified_once :: bool

definition append_locked ::
  "audit_codec \<Rightarrow> append_env \<Rightarrow> write_outcome \<Rightarrow> string \<Rightarrow> audit_entry_data \<Rightarrow> string
   \<Rightarrow> (string + audit_entry) \<times> string" where
  "append_locked c env outcome bytes d prev =
     (let authenticated = ed_event_type d = AgentDriftDetected \<or> ed_event_type d = AgentDriftAcknowledged
            \<or> is_seal (ed_event_type d)
      in case event_json (ed_event_type d) of
           Inl e \<Rightarrow> (Err e, bytes)
         | Inr ev \<Rightarrow>
             let data_json = json_text c (hashed_object (JString (ed_agent_id d)) (JString (ed_tool d))
                   (optional_text (ed_action d)) (JString (ed_input_hash d))
                   (JNumber (show_nat (ed_output_tokens d))) (JString (ed_role d)) ev);
                 h = compute_entry_hash c prev data_json
             in case (authenticated, signer env h) of
                  (True, Inl e) \<Rightarrow> (Err (''audit signature: '' @ e), bytes)
                | (_, sig) \<Rightarrow>
                    let entry = \<lparr>timestamp = stamp_text env, agent_id = ed_agent_id d, tool = ed_tool d,
                          action = ed_action d, input_hash = ed_input_hash d, output_tokens = ed_output_tokens d,
                          role = ed_role d, event_type = ed_event_type d, prev_hash = prev, entry_hash = h,
                          signature = (case sig of Inl _ \<Rightarrow> None | Inr s \<Rightarrow> Some (hex_encode s))\<rparr>;
                        line = json_text c (entry_json entry) @ [CHR 0x0A]
                    in case outcome of
                         Written \<Rightarrow> (Ok entry, bytes @ line)
                       | RolledBack e \<Rightarrow> (Err (''audit append: '' @ e), bytes)
                       | Torn n e \<Rightarrow> (Err (''audit append: '' @ e), bytes @ take n line))"

datatype appended = Done audit_entry | Moved

definition next_seq :: "trail \<Rightarrow> nat" where
  "next_seq t = (if sealed_segments t = [] then 0 else fst (last (sealed_segments t)) + 1)"

text \<open>Rename the active file to segment \<open>sq\<close>, unless it exists.\<close>

definition retire :: "append_env \<Rightarrow> trail \<Rightarrow> nat \<Rightarrow> string + trail" where
  "retire env t sq =
     (if sq \<in> fst ` set (sealed_segments t) then Err (''audit segment '' @ show_nat sq @ '' already exists'')
      else case (rename_error env, active t) of
             (Some e, _) \<Rightarrow> Err (''audit segment rename: '' @ e)
           | (None, None) \<Rightarrow> Err ''audit segment rename: no such file''
           | (None, Some bytes) \<Rightarrow> Ok \<lparr>active = None, sealed_segments = al_insert sq bytes (sealed_segments t)\<rparr>)"

definition append_to ::
  "audit_codec \<Rightarrow> append_env \<Rightarrow> trail \<Rightarrow> string \<Rightarrow> audit_entry_data \<Rightarrow> string \<Rightarrow> (string + appended) \<times> trail" where
  "append_to c env t bytes d prev =
     (case append_locked c env (data_write env) bytes d prev of
        (Inl e, bytes') \<Rightarrow> (Err e, t\<lparr>active := Some bytes'\<rparr>)
      | (Inr entry, bytes') \<Rightarrow> (Ok (Done entry), t\<lparr>active := Some bytes'\<rparr>))"

text \<open>The move to a segment, and what happens to the entry when the rename fails.\<close>

definition retire_or_append ::
  "audit_codec \<Rightarrow> append_env \<Rightarrow> trail \<Rightarrow> string \<Rightarrow> audit_entry_data \<Rightarrow> nat \<Rightarrow> (string + appended) \<times> trail" where
  "retire_or_append c env t bytes d sq =
     (case retire env t sq of
        Inr t' \<Rightarrow> (Ok Moved, t')
      | Inl _ \<Rightarrow> (case read_last_hash_tail c bytes of
                    Inl e \<Rightarrow> (Err e, t)
                  | Inr prev \<Rightarrow> append_to c env t bytes d prev))"

definition append_or_seal ::
  "audit_codec \<Rightarrow> append_env \<Rightarrow> trail \<Rightarrow> string \<Rightarrow> audit_entry_data \<Rightarrow> (string + appended) \<times> trail" where
  "append_or_seal c env t bytes d =
     (case read_tail_entry c bytes of
        Inl e \<Rightarrow> (Err e, t)
      | Inr None \<Rightarrow>
          (case (if sealed_segments t = [] then Ok ''genesis''
                 else read_last_hash_tail c (snd (last (sealed_segments t)))) of
             Inl e \<Rightarrow> (Err e, t)
           | Inr prev \<Rightarrow> append_to c env t bytes d prev)
      | Inr (Some last_value) \<Rightarrow>
          let last_hash = (case as_str (jget last_value ''entry_hash'') of Some h \<Rightarrow> h | None \<Rightarrow> []);
              sq = next_seq t;
              sealed = (if as_str (jget last_value ''event_type'') = Some SEAL_EVENT
                        then sealed_seq (as_str (jget last_value ''action'')) else None);
              last_at = as_str (jget last_value ''timestamp'')
          in if sealed = Some sq then retire_or_append c env t bytes d sq
             else if (case sealed of Some n \<Rightarrow> n < sq | None \<Rightarrow> False) then (Ok Moved, t)
             else if due (day_of env) (length bytes) last_at (today env) \<and> \<not> backing_off env \<and> verified_once env
             then (case append_locked c env (seal_write env) bytes (seal_data sq) last_hash of
                     (Inl e, bytes') \<Rightarrow> (Err e, t\<lparr>active := Some bytes'\<rparr>)
                   | (Inr _, bytes') \<Rightarrow> retire_or_append c env (t\<lparr>active := Some bytes'\<rparr>) bytes' d sq)
             else append_to c env t bytes d last_hash)"

definition SNAPSHOT_ATTEMPTS :: nat where "SNAPSHOT_ATTEMPTS = 3"

text \<open>\<open>open_active_locked\<close> creates the active file where it is absent.\<close>

fun record_attempts ::
  "audit_codec \<Rightarrow> (nat \<Rightarrow> append_env) \<Rightarrow> nat \<Rightarrow> trail \<Rightarrow> audit_entry_data \<Rightarrow> (string + audit_entry) \<times> trail" where
  "record_attempts c env 0 t d = (Err ''audit trail: the active file kept moving'', t)"
| "record_attempts c env (Suc k) t d =
     (case io_error (env k) of
        Some e \<Rightarrow> (Err e, t)
      | None \<Rightarrow>
          let bytes = (case active t of None \<Rightarrow> [] | Some b \<Rightarrow> b);
              t = t\<lparr>active := Some bytes\<rparr>
          in case append_or_seal c (env k) t bytes d of
               (Inl e, t') \<Rightarrow> (Err e, t')
             | (Inr (Done entry), t') \<Rightarrow> (Ok entry, t')
             | (Inr Moved, t') \<Rightarrow> record_attempts c env k t' d)"

definition try_record ::
  "audit_codec \<Rightarrow> (nat \<Rightarrow> append_env) \<Rightarrow> trail \<Rightarrow> audit_entry_data \<Rightarrow> (string + audit_entry) \<times> trail" where
  "try_record c env t d = record_attempts c env SNAPSHOT_ATTEMPTS t d"

end
