(* ===== verification/Audit_Verify.thy ===== *)
theory Audit_Verify
  imports Audit_Trail
begin

text \<open>
  Verification of the audit trail (\<open>src/core/audit_trail.rs\<close>, \<open>audit_trail/checkpoint.rs\<close>): the chain state
  an entry advances, the pass over a file, the signed checkpoint from which a pass may resume,
  and the pass over the segments and the active file. The security counts of
  \<open>src/core/security_events.rs\<close> that a verified chain carries are part of the state.
\<close>

section \<open>Security evidence\<close>

datatype security_kind =
    SecretRedacted | ShellBlocked | PathBlocked | InjectionFlagged | PiiRedacted | ContentWithheld | CoverageIncomplete

fun kind_str :: "security_kind \<Rightarrow> string" where
  "kind_str SecretRedacted = ''secret_redacted''"
| "kind_str ShellBlocked = ''shell_blocked''"
| "kind_str PathBlocked = ''path_blocked''"
| "kind_str InjectionFlagged = ''injection_flagged''"
| "kind_str PiiRedacted = ''pii_redacted''"
| "kind_str ContentWithheld = ''content_withheld''"
| "kind_str CoverageIncomplete = ''coverage_incomplete''"

definition ALL_kinds :: "security_kind list" where
  "ALL_kinds = [SecretRedacted, ShellBlocked, PathBlocked, InjectionFlagged, PiiRedacted, ContentWithheld, CoverageIncomplete]"

definition kind_from_action :: "string \<Rightarrow> security_kind option" where
  "kind_from_action act = find (\<lambda>k. kind_str k = hd (split_on (\<lambda>c. c = CHR '':'') act)) ALL_kinds"

definition in_signed_tally :: "security_kind \<Rightarrow> bool" where
  "in_signed_tally k \<longleftrightarrow> k \<in> {SecretRedacted, ShellBlocked, PathBlocked, InjectionFlagged}"

record security_counts =
  secrets_redacted :: nat
  shell_blocked :: nat
  path_blocked :: nat
  injection_flagged :: nat
  pii_redacted :: nat
  content_withheld :: nat
  coverage_incomplete :: nat

definition ZERO_counts :: security_counts where
  "ZERO_counts = \<lparr>secrets_redacted = 0, shell_blocked = 0, path_blocked = 0, injection_flagged = 0, pii_redacted = 0,
     content_withheld = 0, coverage_incomplete = 0\<rparr>"

fun add_count :: "security_counts \<Rightarrow> security_kind \<Rightarrow> nat \<Rightarrow> security_counts" where
  "add_count s SecretRedacted n = s\<lparr>secrets_redacted := saturating_add u64_max (secrets_redacted s) n\<rparr>"
| "add_count s ShellBlocked n = s\<lparr>shell_blocked := saturating_add u64_max (shell_blocked s) n\<rparr>"
| "add_count s PathBlocked n = s\<lparr>path_blocked := saturating_add u64_max (path_blocked s) n\<rparr>"
| "add_count s InjectionFlagged n = s\<lparr>injection_flagged := saturating_add u64_max (injection_flagged s) n\<rparr>"
| "add_count s PiiRedacted n = s\<lparr>pii_redacted := saturating_add u64_max (pii_redacted s) n\<rparr>"
| "add_count s ContentWithheld n = s\<lparr>content_withheld := saturating_add u64_max (content_withheld s) n\<rparr>"
| "add_count s CoverageIncomplete n = s\<lparr>coverage_incomplete := saturating_add u64_max (coverage_incomplete s) n\<rparr>"

text \<open>\<open>str::split_once\<close> with a string.\<close>

fun split_once_str :: "string \<Rightarrow> string \<Rightarrow> (string \<times> string) option" where
  "split_once_str pat [] = (if pat = [] then Some ([], []) else None)"
| "split_once_str pat (c # cs) =
     (case strip_prefix pat (c # cs) of
        Some rest \<Rightarrow> Some ([], rest)
      | None \<Rightarrow> map_option (\<lambda>(a, b). (c # a, b)) (split_once_str pat cs))"

definition parse_action :: "string \<Rightarrow> (security_kind \<times> nat \<times> string option) option" where
  "parse_action act =
     Option.bind (kind_from_action act) (\<lambda>k.
     let rest = (case split_once (CHR '':'') act of Some (_, r) \<Rightarrow> r | None \<Rightarrow> []);
         (head, session) = (case split_once_str ''|session='' rest of
             Some (h, s) \<Rightarrow> (h, Some s) | None \<Rightarrow> (rest, None));
         n = hd (split_on (\<lambda>c. c = CHR ''|'') head)
     in Some (k, case parse_u64 n of Some m \<Rightarrow> m | None \<Rightarrow> 1, session))"

record signed_tally_evidence =
  counts :: security_counts
  entries_counted :: nat
  first_hash :: "string option"
  last_hash :: "string option"

definition default_evidence :: signed_tally_evidence where
  "default_evidence = \<lparr>counts = ZERO_counts, entries_counted = 0, first_hash = None, last_hash = None\<rparr>"

definition record_evidence :: "security_kind \<Rightarrow> nat \<Rightarrow> string \<Rightarrow> signed_tally_evidence \<Rightarrow> signed_tally_evidence" where
  "record_evidence k n h e =
     \<lparr>counts = add_count (counts e) k n, entries_counted = entries_counted e + 1,
      first_hash = (case first_hash e of None \<Rightarrow> Some h | Some f \<Rightarrow> Some f), last_hash = Some h\<rparr>"

section \<open>The chain state\<close>

record chain_state =
  cs_prev_hash :: string
  cs_total :: nat
  cs_unknown :: nat
  cs_pending :: "(string, string \<times> string) btree_map"
  cs_tally :: signed_tally_evidence
  cs_security :: signed_tally_evidence
  cs_sealed :: "nat option"

definition genesis :: chain_state where
  "genesis = \<lparr>cs_prev_hash = ''genesis'', cs_total = 0, cs_unknown = 0, cs_pending = bempty, cs_tally = default_evidence,
     cs_security = default_evidence, cs_sealed = None\<rparr>"

definition hashed_fields :: "json \<Rightarrow> json option" where
  "hashed_fields v =
     (case (jget v ''agent_id'', jget v ''tool'', jget v ''input_hash'', jget v ''output_tokens'', jget v ''role'',
            jget v ''event_type'') of
        (Some a, Some t, Some i, Some n, Some r, Some e) \<Rightarrow> Some (hashed_object a t (jindex v ''action'') i n r e)
      | _ \<Rightarrow> None)"

definition is_unknown :: "audit_event_type \<Rightarrow> bool" where
  "is_unknown e \<longleftrightarrow> (case e of Unknown _ \<Rightarrow> True | _ \<Rightarrow> False)"

definition signature_required :: "audit_event_type \<Rightarrow> bool" where
  "signature_required e \<longleftrightarrow> is_seal e \<or> e = AgentDriftDetected \<or> e = AgentDriftAcknowledged"

definition signature_ok :: "audit_codec \<Rightarrow> audit_entry \<Rightarrow> bool" where
  "signature_ok c e \<longleftrightarrow>
     (case signature e of
        None \<Rightarrow> \<not> signature_required (event_type e)
      | Some s \<Rightarrow> (case (hex_decode s, public_key c) of
                     (Some sig, Some key) \<Rightarrow> verify_signature c key (entry_hash e) sig | _ \<Rightarrow> False))"

definition note_security :: "audit_entry \<Rightarrow> chain_state \<Rightarrow> chain_state" where
  "note_security e st =
     (case Option.bind (action e) parse_action of
        None \<Rightarrow> st
      | Some (k, n, _) \<Rightarrow>
          let st = st\<lparr>cs_security := record_evidence k n (entry_hash e) (cs_security st)\<rparr>
          in if in_signed_tally k then st\<lparr>cs_tally := record_evidence k n (entry_hash e) (cs_tally st)\<rparr> else st)"

definition note_drift :: "audit_entry \<Rightarrow> chain_state \<Rightarrow> chain_state" where
  "note_drift e st =
     (if event_type e = AgentDriftDetected then
        (case action e of
           None \<Rightarrow> st
         | Some evidence \<Rightarrow>
             st\<lparr>cs_pending := binsert (agent_id e) (timestamp e, evidence @ '' observation='' @ entry_hash e) (cs_pending st)\<rparr>)
      else if event_type e = AgentDriftAcknowledged
        \<and> (case bget (cs_pending st) (agent_id e) of None \<Rightarrow> False | Some (_, evidence) \<Rightarrow> action e = Some evidence)
      then st\<lparr>cs_pending := bremove (agent_id e) (cs_pending st)\<rparr>
      else st)"

text \<open>
  \<open>ChainState::advance\<close>: \<open>Inl\<close> is the state a refusal leaves behind, in which the counters of unknown
  events and the seal may already be those of the refused entry.
\<close>

definition advance :: "audit_codec \<Rightarrow> json \<Rightarrow> chain_state \<Rightarrow> chain_state + chain_state" where
  "advance c v st =
     (case (as_str (jget v ''prev_hash''), as_str (jget v ''entry_hash''), hashed_fields v) of
        (Some entry_prev, Some h, Some partial) \<Rightarrow>
          if entry_prev \<noteq> cs_prev_hash st then Err st
          else if h \<noteq> compute_entry_hash c (cs_prev_hash st) (json_text c partial) then Err st
          else (case entry_of_json v of
             None \<Rightarrow> Err st
           | Some e \<Rightarrow>
               let seal = is_seal (event_type e);
                   st = (if is_unknown (event_type e) \<and> \<not> seal then st\<lparr>cs_unknown := cs_unknown st + 1\<rparr> else st)
               in if seal \<and> sealed_seq (action e) = None then Err st
                  else let st = st\<lparr>cs_sealed := (if seal then sealed_seq (action e) else None)\<rparr>
                       in if \<not> signature_ok c e then Err st
                          else Ok ((note_drift e (note_security e st))\<lparr>cs_prev_hash := h, cs_total := cs_total st + 1\<rparr>))
      | _ \<Rightarrow> Err st)"

fun advance_all :: "audit_codec \<Rightarrow> (string + json) list \<Rightarrow> chain_state \<Rightarrow> chain_state + chain_state" where
  "advance_all c [] st = Ok st"
| "advance_all c (Inl e # vs) st = Err st"
| "advance_all c (Inr v # vs) st = ebind (advance c v st) (advance_all c vs)"

definition verify_line :: "audit_codec \<Rightarrow> string \<times> bool \<Rightarrow> chain_state \<Rightarrow> chain_state + chain_state" where
  "verify_line c raw st =
     (let line = strip_cr raw in
      if \<not> valid_utf8 line then Err st
      else ebind (advance_all c (json_values c line) st) (\<lambda>st'.
        if json_values c line = [] then Err st' else Ok st'))"

fun verify_lines :: "audit_codec \<Rightarrow> (string \<times> bool) list \<Rightarrow> chain_state \<Rightarrow> chain_state + chain_state" where
  "verify_lines c [] st = Ok st"
| "verify_lines c (l # ls) st = ebind (verify_line c l st) (verify_lines c ls)"

definition ends_on_newline :: "string \<Rightarrow> bool" where
  "ends_on_newline bytes \<longleftrightarrow> bytes = [] \<or> last bytes = CHR 0x0A"

definition verify_stream :: "audit_codec \<Rightarrow> string \<Rightarrow> chain_state \<Rightarrow> chain_state + (chain_state \<times> nat \<times> bool)" where
  "verify_stream c bytes st =
     ebind (verify_lines c (raw_lines bytes) st) (\<lambda>st'. Ok (st', length bytes, ends_on_newline bytes))"

section \<open>Checkpoints\<close>

definition CHECKPOINT_VERSION :: nat where "CHECKPOINT_VERSION = 5"
definition EDGE_BYTES :: nat where "EDGE_BYTES = 64 * 1024"
definition FULL_REVERIFY_SECS :: int where "FULL_REVERIFY_SECS = 24 * 60 * 60"
definition CLOCK_SKEW_SECS :: int where "CLOCK_SKEW_SECS = 300"
definition MAX_CHECKPOINT_BYTES :: nat where "MAX_CHECKPOINT_BYTES = 1024 * 1024"

record file_stamp =
  size :: nat
  dev :: nat
  ino :: nat
  mtime_secs :: nat
  mtime_nanos :: nat

record payload =
  version :: nat
  trail_name :: string
  stamp :: file_stamp
  head_digest :: string
  tail_digest :: string
  full_verified_at :: int
  start_hash :: string
  start_total :: nat
  state :: chain_state

record envelope =
  env_payload :: string
  env_signature :: string

record resumed =
  offset :: nat
  rs_state :: chain_state
  rs_full_verified_at :: int

text \<open>The JSON of checkpoints and the stored key, outside the module.\<close>

record checkpoint_codec =
  envelope_of :: "string \<Rightarrow> envelope option"
  envelope_bytes :: "envelope \<Rightarrow> string option"
  payload_of :: "string \<Rightarrow> payload option"
  payload_text :: "payload \<Rightarrow> string option"
  stored_key :: "(string \<Rightarrow> string) option"
  write_ok :: bool

definition edge_digests :: "audit_codec \<Rightarrow> string \<Rightarrow> nat \<Rightarrow> (string \<times> string) option" where
  "edge_digests c bytes off =
     (let window = min off EDGE_BYTES in
      if off \<le> length bytes
      then Some (hex_encode (au_sha c (take window bytes)), hex_encode (au_sha c (take window (drop (off - window) bytes))))
      else None)"

definition authentic_prefix_of ::
  "audit_codec \<Rightarrow> checkpoint_codec \<Rightarrow> string \<Rightarrow> string option \<Rightarrow> string \<Rightarrow> file_stamp \<Rightarrow> payload option" where
  "authentic_prefix_of c k name store bytes st =
     Option.bind store (\<lambda>raw.
     Option.bind (envelope_of k (take MAX_CHECKPOINT_BYTES raw)) (\<lambda>env.
     Option.bind (hex_decode (env_signature env)) (\<lambda>sig.
     Option.bind (public_key c) (\<lambda>key.
     if \<not> verify_signature c key (env_payload env) sig then None
     else Option.bind (payload_of k (env_payload env)) (\<lambda>p.
       if version p \<noteq> CHECKPOINT_VERSION \<or> trail_name p \<noteq> name then None
       else if (dev st, ino st) \<noteq> (dev (stamp p), ino (stamp p)) \<or> size st < size (stamp p) then None
       else if size st = size (stamp p) \<and> st \<noteq> stamp p then None
       else Option.bind (edge_digests c bytes (size (stamp p))) (\<lambda>(h, t).
         if h \<noteq> head_digest p \<or> t \<noteq> tail_digest p then None else Some p))))))"

definition resume ::
  "audit_codec \<Rightarrow> checkpoint_codec \<Rightarrow> string \<Rightarrow> string option \<Rightarrow> string \<Rightarrow> file_stamp \<Rightarrow> chain_state \<Rightarrow> int option \<Rightarrow> int
   \<Rightarrow> resumed option" where
  "resume c k name store bytes st start max_age now =
     Option.bind (authentic_prefix_of c k name store bytes st) (\<lambda>p.
     if start_hash p \<noteq> cs_prev_hash start \<or> start_total p \<noteq> cs_total start then None
     else let age = now - full_verified_at p in
       if age < - CLOCK_SKEW_SECS \<or> (case max_age of None \<Rightarrow> False | Some m \<Rightarrow> age \<ge> m) then None
       else Some \<lparr>offset = size (stamp p), rs_state = state p, rs_full_verified_at = full_verified_at p\<rparr>)"

definition holds_prefix_of ::
  "audit_codec \<Rightarrow> checkpoint_codec \<Rightarrow> string \<Rightarrow> string option \<Rightarrow> string \<Rightarrow> file_stamp \<Rightarrow> bool" where
  "holds_prefix_of c k name store bytes st \<longleftrightarrow>
     (case authentic_prefix_of c k name store bytes st of None \<Rightarrow> False | Some p \<Rightarrow> size (stamp p) > 0)"

text \<open>Saving is best effort: what fails leaves the store as it was.\<close>

definition save_checkpoint ::
  "audit_codec \<Rightarrow> checkpoint_codec \<Rightarrow> string \<Rightarrow> string option \<Rightarrow> string \<Rightarrow> file_stamp \<Rightarrow> chain_state \<Rightarrow> chain_state \<Rightarrow> int
   \<Rightarrow> string option" where
  "save_checkpoint c k name store bytes st start final verified_at =
     (if size st = 0 then store
      else case (edge_digests c bytes (size st), stored_key k) of
             (Some (h, t), Some sign) \<Rightarrow>
               (case payload_text k \<lparr>version = CHECKPOINT_VERSION, trail_name = name, stamp = st, head_digest = h,
                       tail_digest = t, full_verified_at = verified_at, start_hash = cs_prev_hash start,
                       start_total = cs_total start, state = final\<rparr> of
                  None \<Rightarrow> store
                | Some text \<Rightarrow>
                    (case envelope_bytes k \<lparr>env_payload = text, env_signature = hex_encode (sign text)\<rparr> of
                       None \<Rightarrow> store
                     | Some raw \<Rightarrow> if write_ok k then Some raw else store))
           | _ \<Rightarrow> store)"

section \<open>Verifying a trail\<close>

datatype verified = Missing | Unavailable | Invalid chain_state | Valid chain_state

text \<open>
  What a reader finds of one file: its bytes up to the length taken under the shared lock, its stamp
  where the platform has one, the checkpoint, whether it lies inside the data directory, whether
  the lock was granted, and whether the file still held these bytes after the pass.
\<close>

record file_view =
  bytes_read :: string
  identity :: "file_stamp option"
  store :: "string option"
  store_name :: string
  in_data_dir :: bool
  lock_granted :: bool
  still_held :: bool

definition verify_full ::
  "audit_codec \<Rightarrow> checkpoint_codec \<Rightarrow> file_view \<Rightarrow> chain_state \<Rightarrow> int \<Rightarrow> verified \<times> string option" where
  "verify_full c k f start now =
     (case verify_stream c (bytes_read f) start of
        Inl st \<Rightarrow> if \<not> still_held f then (Unavailable, store f)
                   else (Invalid st, if in_data_dir f then None else store f)
      | Inr (st, read, clean) \<Rightarrow>
          if \<not> still_held f then (Unavailable, store f)
          else (Valid st,
                case identity f of
                  Some i \<Rightarrow> if in_data_dir f \<and> clean \<and> read = size i
                             then save_checkpoint c k (store_name f) (store f) (bytes_read f) i start st now else store f
                | None \<Rightarrow> store f))"

definition verify_file ::
  "audit_codec \<Rightarrow> checkpoint_codec \<Rightarrow> file_view \<Rightarrow> chain_state \<Rightarrow> bool \<Rightarrow> int option \<Rightarrow> int \<Rightarrow> verified \<times> string option" where
  "verify_file c k f start force_full max_age now =
     (if \<not> lock_granted f then (Unavailable, store f)
      else case (if force_full \<or> \<not> in_data_dir f then None
                 else Option.bind (identity f) (\<lambda>i. map_option (Pair i)
                   (resume c k (store_name f) (store f) (bytes_read f) i start max_age now))) of
             None \<Rightarrow> verify_full c k f start now
           | Some (i, r) \<Rightarrow>
               if offset r = size i then (Valid (rs_state r), store f)
               else (case verify_stream c (drop (offset r) (bytes_read f)) (rs_state r) of
                  Inr (st, read, clean) \<Rightarrow>
                    if \<not> still_held f then (Unavailable, store f)
                    else (Valid st,
                          if clean \<and> offset r + read = size i
                          then save_checkpoint c k (store_name f) (store f) (bytes_read f) i start st (rs_full_verified_at r)
                          else store f)
                | Inl _ \<Rightarrow> if \<not> still_held f then (Unavailable, store f) else verify_full c k f start now))"

text \<open>The segments in order, each ended by the seal that names it, then the active file.\<close>

fun verify_segments ::
  "audit_codec \<Rightarrow> checkpoint_codec \<Rightarrow> (nat \<times> file_view option) list \<Rightarrow> bool \<Rightarrow> nat option \<Rightarrow> nat \<Rightarrow> int \<Rightarrow> chain_state
   \<Rightarrow> verified" where
  "verify_segments c k [] force_full sample index now st = Valid st"
| "verify_segments c k ((sq, None) # segs) force_full sample index now st = Unavailable"
| "verify_segments c k ((sq, Some f) # segs) force_full sample index now st =
     (case fst (verify_file c k f st force_full (if Some index = sample then Some FULL_REVERIFY_SECS else None) now) of
        Valid st' \<Rightarrow> if cs_sealed st' = Some sq then verify_segments c k segs force_full sample (index + 1) now st'
                      else Invalid st'
      | other \<Rightarrow> other)"

definition verify_snapshot ::
  "audit_codec \<Rightarrow> checkpoint_codec \<Rightarrow> (nat \<times> file_view option) list \<Rightarrow> file_view option \<Rightarrow> bool \<Rightarrow> int \<Rightarrow> verified" where
  "verify_snapshot c k segs act force_full now =
     (if segs = [] \<and> act = None then Missing
      else let day = nat (now div (24 * 60 * 60));
               sample = (if segs = [] then None else Some (day mod length segs))
           in case verify_segments c k segs force_full sample 0 now genesis of
                Valid st \<Rightarrow> (case act of
                    None \<Rightarrow> Valid st
                  | Some f \<Rightarrow> fst (verify_file c k f st force_full (Some FULL_REVERIFY_SECS) now))
              | other \<Rightarrow> other)"

record chain_verify_result =
  total_entries :: nat
  cv_valid :: bool
  first_invalid_at :: "nat option"
  source_present :: bool
  unknown_event_types :: nat

definition unavailable :: chain_verify_result where
  "unavailable = \<lparr>total_entries = 0, cv_valid = False, first_invalid_at = Some 0, source_present = False, unknown_event_types = 0\<rparr>"

definition invalid_at :: "nat \<Rightarrow> nat \<Rightarrow> chain_verify_result" where
  "invalid_at n unknown =
     \<lparr>total_entries = n, cv_valid = False, first_invalid_at = Some n, source_present = True,
      unknown_event_types = unknown\<rparr>"

fun verify_chain_mode :: "verified \<Rightarrow> string option \<Rightarrow> chain_verify_result \<times> (string \<times> string) option" where
  "verify_chain_mode Missing a =
     (\<lparr>total_entries = 0, cv_valid = True, first_invalid_at = None, source_present = False, unknown_event_types = 0\<rparr>, None)"
| "verify_chain_mode Unavailable a = (unavailable, None)"
| "verify_chain_mode (Invalid st) a = (invalid_at (cs_total st) (cs_unknown st), None)"
| "verify_chain_mode (Valid st) a =
     (\<lparr>total_entries = cs_total st, cv_valid = True, first_invalid_at = None, source_present = True,
       unknown_event_types = cs_unknown st\<rparr>, Option.bind a (bget (cs_pending st)))"

definition latest_unacknowledged_drift :: "verified \<Rightarrow> string \<Rightarrow> string + (string \<times> string) option" where
  "latest_unacknowledged_drift v a =
     (let (chain, pending) = verify_chain_mode v (Some a) in
      if \<not> source_present chain then Err ''audit trail unavailable''
      else if \<not> cv_valid chain
      then Err (''audit chain invalid at entry '' @ show_nat (case first_invalid_at chain of Some n \<Rightarrow> n | None \<Rightarrow> total_entries chain))
      else if total_entries chain = 0 then Err ''audit trail unavailable''
      else Ok pending)"

fun verified_signed_tally :: "verified \<Rightarrow> signed_tally_evidence option" where
  "verified_signed_tally Missing = Some default_evidence"
| "verified_signed_tally (Valid st) = Some (cs_tally st)"
| "verified_signed_tally _ = None"

fun verified_security :: "verified \<Rightarrow> chain_verify_result \<times> signed_tally_evidence option" where
  "verified_security Missing = (fst (verify_chain_mode Missing None), Some default_evidence)"
| "verified_security Unavailable = (unavailable, None)"
| "verified_security (Invalid st) = (fst (verify_chain_mode (Invalid st) None), None)"
| "verified_security (Valid st) = (fst (verify_chain_mode (Valid st) None), Some (cs_security st))"

end
