(* ===== verification/Evidence_Bundle.thy ===== *)
theory Evidence_Bundle
  imports Audit_Verify
begin

text \<open>
  Evidence bundles: the generator of the engine (\<open>src/core/evidence_bundle.rs\<close>, with
  \<open>sort_json\<close> and \<open>sign_manifest\<close> of \<open>canonical.rs\<close>) and the independent verifier
  (\<open>packages/leanctx-verify/src/verify.rs\<close>) with its five steps. ZIP, the JSON reader, the repair of
  invalid UTF-8, Base64, RFC 3339 and Ed25519 are arguments. A verifier that panics
  returns \<open>None\<close>.
\<close>

section \<open>The audit segment of a bundle\<close>

text \<open>
  What the ZIP reader gives for an entry: an error, or the decoded name (or why it has none), the
  declared size and the contents (\<open>None\<close> where reading fails).
\<close>

datatype zip_entry = Unreadable string | ZipEntry "string + string" nat "string option"

record bundle_codec =
  rfc3339_instant :: "string \<Rightarrow> string + int"
  parse_json :: "string \<Rightarrow> string + json"
  lossy :: "string \<Rightarrow> string"
  base64 :: "string \<Rightarrow> string"
  zip_write :: "(string \<times> string) list \<Rightarrow> string + string"
  unzip_entries :: "string \<Rightarrow> string + zip_entry list"
  key_ok :: "string \<Rightarrow> bool"
  ed25519 :: "string \<Rightarrow> string \<Rightarrow> string \<Rightarrow> bool"

text \<open>
  The files a reader of the trail since an instant takes: a sealed segment whose last entry is older is
  left out. The list of segments is read before and after; here it holds still.
\<close>

definition entry_time :: "bundle_codec \<Rightarrow> json \<Rightarrow> int option" where
  "entry_time b v =
     Option.bind (as_str (jget v ''timestamp'')) (\<lambda>s. case rfc3339_instant b s of Inr at \<Rightarrow> Some at | Inl _ \<Rightarrow> None)"

definition sealed_since :: "audit_codec \<Rightarrow> bundle_codec \<Rightarrow> int option \<Rightarrow> string \<Rightarrow> bool" where
  "sealed_since c b since bytes \<longleftrightarrow>
     (case since of
        None \<Rightarrow> True
      | Some s \<Rightarrow>
          (case (case read_tail_entry c bytes of Inr (Some v) \<Rightarrow> entry_time b v | _ \<Rightarrow> None) of
             None \<Rightarrow> True
           | Some sealed_at \<Rightarrow> sealed_at \<ge> s))"

definition trail_files_since :: "audit_codec \<Rightarrow> bundle_codec \<Rightarrow> trail \<Rightarrow> int option \<Rightarrow> string list" where
  "trail_files_since c b t since =
     filter (sealed_since c b since) (map snd (sealed_segments t)) @ (case active t of None \<Rightarrow> [] | Some a \<Rightarrow> [a])"

fun join_files :: "string list \<Rightarrow> string \<Rightarrow> string + string" where
  "join_files [] acc = Ok acc"
| "join_files (part # parts) acc =
     (if \<not> valid_utf8 part then Err ''stream did not contain valid UTF-8''
      else let joined = acc @ part
           in join_files parts (if joined \<noteq> [] \<and> last joined \<noteq> CHR 0x0A then joined @ [CHR 0x0A] else joined))"

definition read_trail_since :: "audit_codec \<Rightarrow> bundle_codec \<Rightarrow> trail \<Rightarrow> int option \<Rightarrow> string + string option" where
  "read_trail_since c b t since =
     (let files = trail_files_since c b t since in
      if files = [] then Ok None else ebind (join_files files []) (\<lambda>joined. Ok (Some joined)))"

record segment_state =
  segment_lines :: "string list"
  anchor_prev_hash :: "string option"
  head_hash :: string

text \<open>
  The loop over the values of one line: garbage before the attested period is skipped, inside it is
  an error; an entry outside the period is left out.
\<close>

fun export_values ::
  "audit_codec \<Rightarrow> bundle_codec \<Rightarrow> int \<Rightarrow> int \<Rightarrow> nat \<Rightarrow> (string + json) list \<Rightarrow> bool \<Rightarrow> segment_state \<Rightarrow> string + segment_state" where
  "export_values c b from until n [] parsed s = Ok s"
| "export_values c b from until n (Inl e # vs) parsed s =
     (if segment_lines s = [] \<and> \<not> parsed then Ok s
      else Err (''corrupt trail line '' @ show_nat n @ '' inside the attested period: '' @ e))"
| "export_values c b from until n (Inr v # vs) parsed s =
     (case entry_of_json v of
        None \<Rightarrow> if segment_lines s = [] then export_values c b from until n vs True s
                else Err (''malformed audit entry at line '' @ show_nat n)
      | Some e \<Rightarrow>
          (case rfc3339_instant b (timestamp e) of
             Inl x \<Rightarrow> Err (''corrupt trail timestamp at line '' @ show_nat n @ '': '' @ x)
           | Inr ts \<Rightarrow>
               if ts < from \<or> ts > until then export_values c b from until n vs True s
               else export_values c b from until n vs True
                      \<lparr>segment_lines = segment_lines s @ [json_text c (entry_json e)],
                       anchor_prev_hash = (case anchor_prev_hash s of None \<Rightarrow> Some (prev_hash e) | Some a \<Rightarrow> Some a),
                       head_hash = entry_hash e\<rparr>))"

fun export_lines ::
  "audit_codec \<Rightarrow> bundle_codec \<Rightarrow> int \<Rightarrow> int \<Rightarrow> nat \<Rightarrow> string list \<Rightarrow> segment_state \<Rightarrow> string + segment_state" where
  "export_lines c b from until n [] s = Ok s"
| "export_lines c b from until n (l # ls) s =
     ebind (export_values c b from until n (json_values c l) False s) (export_lines c b from until (n + 1) ls)"

text \<open>The bytes of \<open>audit/trail.jsonl\<close>, with the number of entries, the anchor and the head of the manifest.\<close>

definition export_segment ::
  "audit_codec \<Rightarrow> bundle_codec \<Rightarrow> int \<Rightarrow> int \<Rightarrow> string \<Rightarrow> string + (string \<times> nat \<times> string \<times> string)" where
  "export_segment c b from until trail_raw =
     ebind (export_lines c b from until 1 (str_lines trail_raw) \<lparr>segment_lines = [], anchor_prev_hash = None, head_hash = []\<rparr>) (\<lambda>s.
     if segment_lines s = [] then Err ''no audit entries in the period: nothing to attest''
     else Ok (concat (map (\<lambda>l. l @ [CHR 0x0A]) (segment_lines s)), length (segment_lines s),
              (case anchor_prev_hash s of Some a \<Rightarrow> a | None \<Rightarrow> []), head_hash s))"

section \<open>Canonical JSON and the manifest signature\<close>

definition canonical_serialize :: "audit_codec \<Rightarrow> json \<Rightarrow> string" where
  "canonical_serialize c v = json_text c (sort_json v)"

definition bundle_sha256_hex :: "audit_codec \<Rightarrow> string \<Rightarrow> string" where
  "bundle_sha256_hex c bytes = hex_encode (au_sha c bytes)"

fun remove_key :: "string \<Rightarrow> json \<Rightarrow> json option \<times> json" where
  "remove_key k (JObject fs) = (map_of fs k, JObject (filter (\<lambda>f. fst f \<noteq> k) fs))"
| "remove_key k v = (None, v)"

definition text_signature :: "json option \<Rightarrow> string + string option" where
  "text_signature v =
     (case v of
        None \<Rightarrow> Ok None
      | Some (JString s) \<Rightarrow> Ok (Some s)
      | Some _ \<Rightarrow> Err ''manifest signature must be a string'')"

definition manifest_without_signature :: "json \<Rightarrow> string + (json \<times> string option)" where
  "manifest_without_signature manifest =
     (let (outer, rest) = remove_key ''signature'' manifest in
      ebind (text_signature outer) (\<lambda>sig.
      case jget rest ''signing'' of
        Some (JObject fs) \<Rightarrow>
          let (inner, signing) = remove_key ''signature'' (JObject fs) in
          if inner = None then Ok (rest, sig)
          else ebind (ensure (sig = None) ''manifest has multiple signature fields'') (\<lambda>_.
            ebind (text_signature inner) (\<lambda>sig.
            Ok (case set_key ''signing'' signing rest of Some v \<Rightarrow> v | None \<Rightarrow> rest, sig)))
      | _ \<Rightarrow> Ok (rest, sig)))"

definition sign_manifest :: "audit_codec \<Rightarrow> bundle_codec \<Rightarrow> (string \<Rightarrow> string) \<Rightarrow> json \<Rightarrow> string + string" where
  "sign_manifest c b sign manifest =
     ebind (manifest_without_signature manifest) (\<lambda>(plain, _). Ok (base64 b (sign (canonical_serialize c plain))))"

section \<open>Generating a bundle\<close>

record bundle_spec =
  spec_from :: string
  spec_to :: string
  spec_out :: "string option"

text \<open>
  What the generator finds outside: the resolved policy with its coverage, the report of a framework,
  the project name, the key pair and whether the archive can be written.
\<close>

record bundle_env =
  policy_files :: "string + (string \<times> string) list"
  framework_report :: "(string \<times> (string + json)) option"
  project_name :: string
  keypair :: "string + (string \<times> (string \<Rightarrow> string))"
  out_error :: "string option"

record bundle_result =
  out_path :: string
  archive_sha256 :: string
  bundle_entries :: nat
  bundle_files :: "string list"

definition manifest_files :: "audit_codec \<Rightarrow> (string \<times> string) list \<Rightarrow> json" where
  "manifest_files c files =
     JArray (map (\<lambda>(path, bytes). jobj [(''path'', JString path), (''sha256'', JString (bundle_sha256_hex c bytes))]) files)"

definition signing_json :: "string \<Rightarrow> string \<Rightarrow> string \<Rightarrow> json" where
  "signing_json key digest sig =
     jobj [(''algorithm'', JString ''ed25519''), (''public_key'', JString key), (''signed_digest'', JString digest),
           (''signature'', JString sig)]"

definition manifest_json ::
  "audit_codec \<Rightarrow> bundle_spec \<Rightarrow> string \<Rightarrow> string option \<Rightarrow> (string \<times> string) list \<Rightarrow> nat \<times> string \<times> string \<Rightarrow> json \<Rightarrow> json" where
  "manifest_json c spec project framework files chain signing =
     jobj [(''bundle'', JString ''evidence-bundle''), (''version'', JNumber ''1''),
       (''period'', jobj [(''from'', JString (spec_from spec)), (''to'', JString (spec_to spec))]),
       (''subject'', jobj [(''agent_id'', JString ''lean-ctx''), (''project'', JString project)]),
       (''framework'', optional_text framework),
       (''files'', manifest_files c files),
       (''chain'', jobj [(''entries'', JNumber (show_nat (fst chain))), (''anchor_prev_hash'', JString (fst (snd chain))),
          (''head_hash'', JString (snd (snd chain)))]),
       (''signing'', signing)]"

definition default_out :: "bundle_spec \<Rightarrow> string" where
  "default_out spec = ''evidence-bundle_'' @ filter (\<lambda>x. x \<noteq> CHR '':'') (spec_from spec) @ ''_''
     @ filter (\<lambda>x. x \<noteq> CHR '':'') (spec_to spec) @ ''.zip''"

text \<open>The digest goes into the manifest, the manifest is signed, and the signature goes in beside it.\<close>

definition signed_manifest ::
  "audit_codec \<Rightarrow> bundle_codec \<Rightarrow> (json \<Rightarrow> json) \<Rightarrow> string \<times> (string \<Rightarrow> string) \<Rightarrow> string + json" where
  "signed_manifest c b manifest key =
     (let public_key = hex_encode (fst key);
          digest = bundle_sha256_hex c (canonical_serialize c (manifest (signing_json public_key [] [])))
      in ebind (map_err (\<lambda>e. ''manifest signature: '' @ e) (sign_manifest c b (snd key) (manifest (signing_json public_key digest [])))) (\<lambda>sig.
         Ok (manifest (signing_json public_key digest sig))))"

text \<open>The payload of a bundle in path order: the segment, the policy with its coverage, the report of a framework.\<close>

definition coverage_files :: "audit_codec \<Rightarrow> bundle_env \<Rightarrow> string + (string \<times> string) list" where
  "coverage_files c env =
     (case framework_report env of
        None \<Rightarrow> Ok []
      | Some (fid, report) \<Rightarrow> ebind report (\<lambda>v. Ok [(''coverage/'' @ fid @ ''.json'', canonical_serialize c v)]))"

definition payload_files :: "audit_codec \<Rightarrow> bundle_env \<Rightarrow> string \<Rightarrow> string + (string \<times> string) list" where
  "payload_files c env audit_jsonl =
     ebind (policy_files env) (\<lambda>policy.
     ebind (coverage_files c env) (\<lambda>coverage.
     Ok (sort_key fst ((''audit/trail.jsonl'', audit_jsonl) # policy @ coverage))))"

definition bundle_manifest ::
  "audit_codec \<Rightarrow> bundle_codec \<Rightarrow> bundle_env \<Rightarrow> bundle_spec \<Rightarrow> (string \<times> string) list \<Rightarrow> nat \<times> string \<times> string \<Rightarrow> string + json" where
  "bundle_manifest c b env spec files chain =
     ebind (map_err (\<lambda>e. ''signing identity: '' @ e) (keypair env)) (\<lambda>key.
     signed_manifest c b (manifest_json c spec (project_name env) (map_option fst (framework_report env)) files chain) key)"

definition write_bundle ::
  "audit_codec \<Rightarrow> bundle_codec \<Rightarrow> bundle_env \<Rightarrow> bundle_spec \<Rightarrow> nat \<Rightarrow> (string \<times> string) list \<Rightarrow> string + (bundle_result \<times> string)" where
  "write_bundle c b env spec n files =
     ebind (zip_write b files) (\<lambda>bytes.
     ebind (case out_error env of None \<Rightarrow> Ok () | Some e \<Rightarrow> Err (''write: '' @ e)) (\<lambda>_.
     Ok (\<lparr>out_path = (case spec_out spec of Some p \<Rightarrow> p | None \<Rightarrow> default_out spec),
          archive_sha256 = bundle_sha256_hex c bytes, bundle_entries = n, bundle_files = map fst files\<rparr>, bytes)))"

definition assemble_bundle ::
  "audit_codec \<Rightarrow> bundle_codec \<Rightarrow> bundle_env \<Rightarrow> bundle_spec \<Rightarrow> string \<times> nat \<times> string \<times> string \<Rightarrow> string + (bundle_result \<times> string)" where
  "assemble_bundle c b env spec segment =
     ebind (payload_files c env (fst segment)) (\<lambda>files.
     ebind (bundle_manifest c b env spec files (snd segment)) (\<lambda>manifest.
     write_bundle c b env spec (fst (snd segment)) (sort_key fst ((''manifest.json'', canonical_serialize c manifest) # files))))"

definition generate_with ::
  "audit_codec \<Rightarrow> bundle_codec \<Rightarrow> bundle_env \<Rightarrow> trail \<Rightarrow> bundle_spec \<Rightarrow> string + (bundle_result \<times> string)" where
  "generate_with c b env t spec =
     ebind (map_err (\<lambda>e. ''--from is not RFC 3339: '' @ e) (rfc3339_instant b (spec_from spec))) (\<lambda>from.
     ebind (map_err (\<lambda>e. ''--to is not RFC 3339: '' @ e) (rfc3339_instant b (spec_to spec))) (\<lambda>until.
     ebind (ensure (from \<le> until) ''--from must not be after --to'') (\<lambda>_.
     ebind (map_err (\<lambda>e. ''no audit trail: '' @ e) (read_trail_since c b t (Some from))) (\<lambda>found.
     ebind (case found of Some raw \<Rightarrow> Ok raw | None \<Rightarrow> Err ''no audit trail'') (\<lambda>raw.
     ebind (export_segment c b from until raw) (assemble_bundle c b env spec))))))"

section \<open>Steps of the verifier\<close>

datatype step_status = Pass | Fail | Skipped

record step =
  step_name :: string
  status :: step_status
  detail :: string

record report =
  report_valid :: bool
  key_self_attested :: bool
  steps :: "step list"

definition mk_step :: "string \<Rightarrow> step_status \<Rightarrow> string \<Rightarrow> step" where
  "mk_step n s d = \<lparr>step_name = n, status = s, detail = d\<rparr>"

definition RESERVED_DIRS :: "string list" where "RESERVED_DIRS = [''slo/'', ''registry/'']"

record archive_limits =
  raw_bytes :: nat
  max_entries :: nat
  entry_bytes :: nat
  total_bytes :: nat

definition DEFAULT_ARCHIVE_LIMITS :: archive_limits where
  "DEFAULT_ARCHIVE_LIMITS = \<lparr>raw_bytes = 64 * 1024 * 1024, max_entries = 1024, entry_bytes = 32 * 1024 * 1024,
     total_bytes = 64 * 1024 * 1024\<rparr>"

definition sha256_hex :: "audit_codec \<Rightarrow> string \<Rightarrow> string" where
  "sha256_hex c bytes = hex_encode (au_sha c bytes)"

text \<open>
  \<open>hex_decode\<close> slices two bytes at a time, without a check for ASCII: a slice that starts or ends inside
  a character panics, unless an earlier pair was no number.
\<close>

fun hex_slices :: "string \<Rightarrow> string option option" where
  "hex_slices [] = Some (Some [])"
| "hex_slices [a] = Some None"
| "hex_slices (a # d # s) =
     (if cont a \<or> (s \<noteq> [] \<and> cont (hd s)) then None
      else case hex_pair a d of
             None \<Rightarrow> Some None
           | Some x \<Rightarrow> map_option (map_option ((#) x)) (hex_slices s))"

definition bundle_hex_decode :: "string \<Rightarrow> string option option" where
  "bundle_hex_decode s = (if odd (length s) then Some None else hex_slices s)"

definition text_at :: "json \<Rightarrow> string \<Rightarrow> string" where
  "text_at v k = (case as_str (jget v k) of Some s \<Rightarrow> s | None \<Rightarrow> [])"

definition count_at :: "json \<Rightarrow> string \<Rightarrow> nat" where
  "count_at v k = (case jget v k of Some (JNumber s) \<Rightarrow> (case parse_digits u64_max s of Some n \<Rightarrow> n | None \<Rightarrow> 0) | _ \<Rightarrow> 0)"

subsection \<open>The audit chain\<close>

definition chain_data :: "json \<Rightarrow> json" where
  "chain_data e = hashed_object (jindex e ''agent_id'') (jindex e ''tool'') (jindex e ''action'') (jindex e ''input_hash'')
     (jindex e ''output_tokens'') (jindex e ''role'') (jindex e ''event_type'')"

fun replay :: "audit_codec \<Rightarrow> bundle_codec \<Rightarrow> string list \<Rightarrow> string \<Rightarrow> nat \<Rightarrow> string + (string \<times> nat)" where
  "replay c b [] prev count = Ok (prev, count)"
| "replay c b (l # ls) prev count =
     (case parse_json b l of
        Inl e \<Rightarrow> Err (''entry '' @ show_nat count @ '': not valid JSON ('' @ e @ '')'')
      | Inr entry \<Rightarrow>
          if jindex entry ''prev_hash'' \<noteq> JString prev
          then Err (''entry '' @ show_nat count @ '': prev_hash '' @ json_text c (jindex entry ''prev_hash'')
                    @ '' breaks the chain (expected '' @ prev @ '')'')
          else let expected = sha256_hex c (prev @ json_text c (chain_data entry))
               in if text_at entry ''entry_hash'' \<noteq> expected
                  then Err (''entry '' @ show_nat count @ '': recorded hash does not match recomputation'')
                  else replay c b ls expected (count + 1))"

definition verify_chain :: "audit_codec \<Rightarrow> bundle_codec \<Rightarrow> (string, string) btree_map \<Rightarrow> json \<Rightarrow> step" where
  "verify_chain c b files manifest =
     (case bget files ''audit/trail.jsonl'' of
        None \<Rightarrow> mk_step ''audit chain replay'' Fail ''audit/trail.jsonl missing''
      | Some trail \<Rightarrow>
          let chain = jindex manifest ''chain''
          in case replay c b (str_lines (lossy b trail)) (text_at chain ''anchor_prev_hash'') 0 of
               Inl e \<Rightarrow> mk_step ''audit chain replay'' Fail e
             | Inr (prev, count) \<Rightarrow>
                 if count \<noteq> count_at chain ''entries''
                 then mk_step ''audit chain replay'' Fail (''manifest claims '' @ show_nat (count_at chain ''entries'')
                        @ '' entries, archive holds '' @ show_nat count)
                 else if prev \<noteq> text_at chain ''head_hash''
                 then mk_step ''audit chain replay'' Fail ''head hash does not match the manifest''
                 else mk_step ''audit chain replay'' Pass (show_nat count @ '' entries replay from anchor to head''))"

subsection \<open>Signatures\<close>

definition unsigned_manifest :: "json \<Rightarrow> json option" where
  "unsigned_manifest manifest =
     Option.bind (set_key ''signature'' (JString []) (jindex manifest ''signing'')) (\<lambda>s.
     Option.bind (set_key ''signed_digest'' (JString []) s) (\<lambda>s.
     set_key ''signing'' s manifest))"

text \<open>A key that is not 32 bytes long is read as zeros.\<close>

definition key_of :: "string \<Rightarrow> string" where
  "key_of bytes = (if length bytes = 32 then bytes else replicate 32 (CHR 0x00))"

definition verify_manifest_signature ::
  "audit_codec \<Rightarrow> bundle_codec \<Rightarrow> json \<Rightarrow> string \<Rightarrow> string \<Rightarrow> step option" where
  "verify_manifest_signature c b manifest key_hex manifest_key =
     (let signing = jindex manifest ''signing''; name = ''manifest signature'' in
      case unsigned_manifest manifest of
        None \<Rightarrow> None
      | Some plain \<Rightarrow>
          let digest = sha256_hex c (json_text c plain) in
          if digest \<noteq> text_at signing ''signed_digest''
          then Some (mk_step name Fail ''manifest digest does not recompute: manifest was modified'')
          else (case (bundle_hex_decode key_hex, bundle_hex_decode (text_at signing ''signature'')) of
             (Some (Some kb), Some (Some sb)) \<Rightarrow>
               if \<not> key_ok b (key_of kb) then Some (mk_step name Fail ''public key is not a valid Ed25519 key'')
               else if length sb \<noteq> 64 then Some (mk_step name Fail ''signature is not a valid Ed25519 signature'')
               else if \<not> ed25519 b (key_of kb) digest sb
               then Some (mk_step name Fail ''Ed25519 verification failed: wrong key or forged manifest'')
               else Some (mk_step name Pass (''Ed25519 valid over digest '' @ take 16 digest @ '' (''
                      @ (if key_hex = manifest_key then ''embedded key (self-attested)'' else ''out-of-band key'') @ '')''))
           | (None, _) \<Rightarrow> None
           | (_, None) \<Rightarrow> None
           | _ \<Rightarrow> Some (mk_step name Fail ''key or signature is not valid hex'')))"

fun entry_signatures ::
  "bundle_codec \<Rightarrow> string \<Rightarrow> string list \<Rightarrow> nat \<Rightarrow> nat \<Rightarrow> nat \<Rightarrow> (string + (nat \<times> nat)) option" where
  "entry_signatures b key [] i good plain = Some (Ok (good, plain))"
| "entry_signatures b key (l # ls) i good plain =
     (case parse_json b l of
        Inl _ \<Rightarrow> entry_signatures b key ls (i + 1) good plain
      | Inr entry \<Rightarrow>
          (case as_str (jget entry ''signature'') of
             None \<Rightarrow> entry_signatures b key ls (i + 1) good (plain + 1)
           | Some [] \<Rightarrow> entry_signatures b key ls (i + 1) good (plain + 1)
           | Some sig_hex \<Rightarrow>
               (case bundle_hex_decode sig_hex of
                  None \<Rightarrow> None
                | Some None \<Rightarrow> Some (Err (''entry '' @ show_nat i @ '': signature is not hex''))
                | Some (Some sb) \<Rightarrow>
                    if length sb \<noteq> 64 then Some (Err (''entry '' @ show_nat i @ '': malformed signature''))
                    else if \<not> ed25519 b key (text_at entry ''entry_hash'') sb
                    then Some (Err (''entry '' @ show_nat i @ '': signature does not verify''))
                    else entry_signatures b key ls (i + 1) (good + 1) plain)))"

definition verify_entry_signatures :: "bundle_codec \<Rightarrow> (string, string) btree_map \<Rightarrow> string \<Rightarrow> step option" where
  "verify_entry_signatures b files key_hex =
     (let name = ''entry signatures'' in
      case bget files ''audit/trail.jsonl'' of
        None \<Rightarrow> Some (mk_step name Skipped ''no audit segment'')
      | Some trail \<Rightarrow>
          (case bundle_hex_decode key_hex of
             None \<Rightarrow> None
           | Some None \<Rightarrow> Some (mk_step name Skipped ''no usable key'')
           | Some (Some kb) \<Rightarrow>
               if \<not> key_ok b (key_of kb) then Some (mk_step name Skipped ''no usable key'')
               else map_option (\<lambda>r. case r of
                   Inl e \<Rightarrow> mk_step name Fail e
                 | Inr (good, plain) \<Rightarrow> mk_step name Pass
                     (if plain = 0 then show_nat good @ '' entries signed and verified''
                      else show_nat good @ '' verified, '' @ show_nat plain
                        @ '' unsigned (early-boot entries reduce provenance, not integrity)''))
                 (entry_signatures b (key_of kb) (str_lines (lossy b trail)) 0 0 0)))"

section \<open>The archive and its inventory\<close>

definition archive_limit_failure :: "string \<Rightarrow> report" where
  "archive_limit_failure d = \<lparr>report_valid = False, key_self_attested = False, steps = [mk_step ''archive readable'' Fail d]\<rparr>"

fun read_entries ::
  "archive_limits \<Rightarrow> nat \<Rightarrow> nat \<Rightarrow> zip_entry list \<Rightarrow> (string, string) btree_map \<Rightarrow> report + (string, string) btree_map" where
  "read_entries lim i sofar [] files = Ok files"
| "read_entries lim i sofar (Unreadable e # es) files = Err (archive_limit_failure (''entry '' @ show_nat i @ '': '' @ e))"
| "read_entries lim i sofar (ZipEntry (Inl e) declared contents # es) files =
     Err (archive_limit_failure (''entry '' @ show_nat i @ '': '' @ e))"
| "read_entries lim i sofar (ZipEntry (Inr name) declared contents # es) files =
     (if declared > entry_bytes lim
      then Err (archive_limit_failure (''entry '' @ name @ '' has '' @ show_nat declared @ '' bytes; limit is '' @ show_nat (entry_bytes lim)))
      else case checked_add u64_max sofar declared of
        None \<Rightarrow> Err (archive_limit_failure ''archive payload size overflowed'')
      | Some new \<Rightarrow>
          if new > total_bytes lim
          then Err (archive_limit_failure (''archive payload has '' @ show_nat new @ '' bytes; limit is '' @ show_nat (total_bytes lim)))
          else (case contents of
             None \<Rightarrow> Err (archive_limit_failure (''entry '' @ name @ '' unreadable''))
           | Some bytes \<Rightarrow>
               let buf = take (saturating_add u64_max declared 1) bytes
               in if length buf \<noteq> declared
                  then Err (archive_limit_failure (''entry '' @ name @ '' read '' @ show_nat (length buf) @ '' bytes; declared '' @ show_nat declared))
                  else read_entries lim (i + 1) new es (binsert name buf files)))"

definition listed_files :: "json \<Rightarrow> (string \<times> string) list" where
  "listed_files manifest =
     (case jget manifest ''files'' of
        Some (JArray fs) \<Rightarrow> List.map_filter (\<lambda>f. case (as_str (jget f ''path''), as_str (jget f ''sha256'')) of
            (Some p, Some h) \<Rightarrow> Some (p, h) | _ \<Rightarrow> None) fs
      | _ \<Rightarrow> [])"

fun check_listed :: "audit_codec \<Rightarrow> (string, string) btree_map \<Rightarrow> (string \<times> string) list \<Rightarrow> string + unit" where
  "check_listed c files [] = Ok ()"
| "check_listed c files ((path, expected) # ls) =
     (case bget files path of
        None \<Rightarrow> Err (''listed file missing from archive: '' @ path)
      | Some bytes \<Rightarrow>
          if sha256_hex c bytes \<noteq> expected
          then Err (''hash mismatch for '' @ path @ '': manifest '' @ expected @ '', archive '' @ sha256_hex c bytes)
          else check_listed c files ls)"

fun check_unlisted :: "(string \<times> string) list \<Rightarrow> string list \<Rightarrow> string + unit" where
  "check_unlisted listed [] = Ok ()"
| "check_unlisted listed (name # ns) =
     (if name = ''manifest.json'' \<or> (name \<noteq> [] \<and> last name = CHR ''/'') then check_unlisted listed ns
      else if name \<notin> fst ` set listed \<and> \<not> list_ex (\<lambda>d. starts_with d name) RESERVED_DIRS
      then Err (''unlisted payload file in archive: '' @ name)
      else check_unlisted listed ns)"

definition check_inventory :: "audit_codec \<Rightarrow> (string, string) btree_map \<Rightarrow> (string \<times> string) list \<Rightarrow> string + unit" where
  "check_inventory c files listed =
     ebind (ensure (listed \<noteq> []) ''manifest lists no files'') (\<lambda>_.
     ebind (check_listed c files listed) (\<lambda>_. check_unlisted listed (bkeys files)))"

definition verify_files ::
  "audit_codec \<Rightarrow> bundle_codec \<Rightarrow> (string, string) btree_map \<Rightarrow> string option \<Rightarrow> report option" where
  "verify_files c b files pubkey_override =
     (let failed = (\<lambda>d. Some \<lparr>report_valid = False, key_self_attested = False, steps = [mk_step ''manifest parses'' Fail d]\<rparr>) in
      case map_option (parse_json b) (bget files ''manifest.json'') of
        Some (Inr manifest) \<Rightarrow>
          if jindex manifest ''bundle'' \<noteq> JString ''evidence-bundle'' \<or> jindex manifest ''version'' \<noteq> JNumber ''1''
          then failed (''unsupported bundle/version: '' @ json_text c (jindex manifest ''bundle'') @ ''/''
                       @ json_text c (jindex manifest ''version''))
          else
            let listed = listed_files manifest;
                first = mk_step ''archive + manifest'' Pass (''evidence-bundle v1, '' @ show_nat (blen files) @ '' archive entries'');
                inventory = (case check_inventory c files listed of
                    Inr _ \<Rightarrow> mk_step ''file inventory + SHA-256'' Pass (show_nat (length listed) @ '' files match their manifest hashes'')
                  | Inl d \<Rightarrow> mk_step ''file inventory + SHA-256'' Fail d);
                chain_step = verify_chain c b files manifest;
                manifest_key = text_at (jindex manifest ''signing'') ''public_key'';
                key_hex = (case pubkey_override of Some k \<Rightarrow> k | None \<Rightarrow> manifest_key)
            in Option.bind (verify_manifest_signature c b manifest key_hex manifest_key) (\<lambda>sig_step.
               Option.bind (verify_entry_signatures b files key_hex) (\<lambda>entry_step.
               Some \<lparr>report_valid = (status inventory = Pass \<and> status chain_step = Pass \<and> status sig_step = Pass
                       \<and> status entry_step \<noteq> Fail),
                     key_self_attested = (pubkey_override = None),
                     steps = [first, inventory, chain_step, sig_step, entry_step]\<rparr>))
      | _ \<Rightarrow> failed ''manifest.json missing or not valid JSON'')"

definition verify_bundle_with_limits ::
  "audit_codec \<Rightarrow> bundle_codec \<Rightarrow> string \<Rightarrow> string option \<Rightarrow> archive_limits \<Rightarrow> report option" where
  "verify_bundle_with_limits c b raw pubkey_override lim =
     (if length raw > raw_bytes lim
      then Some (archive_limit_failure (''archive has '' @ show_nat (length raw) @ '' bytes; limit is '' @ show_nat (raw_bytes lim)))
      else case unzip_entries b raw of
        Inl e \<Rightarrow> Some (archive_limit_failure (''not a ZIP: '' @ e))
      | Inr es \<Rightarrow>
          if length es > max_entries lim
          then Some (archive_limit_failure (''archive has '' @ show_nat (length es) @ '' entries; limit is '' @ show_nat (max_entries lim)))
          else (case read_entries lim 0 0 es bempty of
             Inl r \<Rightarrow> Some r
           | Inr files \<Rightarrow> verify_files c b files pubkey_override))"

definition verify_bundle ::
  "audit_codec \<Rightarrow> bundle_codec \<Rightarrow> string \<Rightarrow> string option \<Rightarrow> report option" where
  "verify_bundle c b raw pubkey_override =
     verify_bundle_with_limits c b raw pubkey_override DEFAULT_ARCHIVE_LIMITS"

end
