(* ===== verification/Audit_Laws.thy ===== *)
theory Audit_Laws
  imports Audit_Verify Hex_Laws
begin

text \<open>
  The audit trail: what an entry that was written reads back as, how a pass splits at a line end, how
  the chain binds its entries, and what the tail of a written file is.
\<close>

section \<open>Numbers and labels\<close>

lemma decimal_append: "decimal (s @ [c]) = decimal s * 10 + (byte c - 48)"
  by (simp add: decimal_def)

lemma digit_char: "d < 10 \<Longrightarrow> is_ascii_digit (char_of (48 + d)) \<and> byte (char_of (48 + d)) = 48 + d"
  by (simp add: is_ascii_digit_def byte_def of_char_of)

lemma show_nat_digits: "show_nat n \<noteq> [] \<and> list_all is_ascii_digit (show_nat n) \<and> decimal (show_nat n) = n"
proof (induction n rule: show_nat.induct)
  case (1 n)
  show ?case
  proof (cases "n < 10")
    case True
    then show ?thesis using digit_char [of n] by (subst (1 2 3) show_nat.simps) (simp add: decimal_def)
  next
    case False
    have "n mod 10 < 10" by simp
    then show ?thesis
      using False 1 digit_char [of "n mod 10"] by (subst (1 2 3) show_nat.simps) (simp add: decimal_append)
  qed
qed

lemma parse_digits_show_nat: "n \<le> bound \<Longrightarrow> parse_digits bound (show_nat n) = Some n"
  by (simp add: parse_digits_def show_nat_digits)

lemma sealed_seq_seal_action: "n \<le> u64_max \<Longrightarrow> sealed_seq (Some (seal_action n)) = Some n"
proof -
  assume n: "n \<le> u64_max"
  obtain d ds where s: "show_nat n = d # ds" using show_nat_digits [of n] by (cases "show_nat n") auto
  then have "is_ascii_digit d" using show_nat_digits [of n] by simp
  then have "d \<noteq> CHR ''+''" by (auto simp: is_ascii_digit_def byte_def)
  then have "parse_u64 (show_nat n) = Some n" using parse_digits_show_nat [OF n] s by (simp add: parse_u64_def)
  then show ?thesis by (simp add: sealed_seq_def seal_action_def)
qed

definition writable :: "audit_event_type \<Rightarrow> bool" where
  "writable e \<longleftrightarrow> (\<forall>label. e = Unknown label \<longrightarrow> valid_extension_event_label label)"

lemma event_json_writable: "event_json e = Inr j \<longleftrightarrow> writable e \<and> j = JString (wire_label e)"
  by (auto simp: event_json_def writable_def split: audit_event_type.split)

text \<open>A label that is written is read back as the event it names.\<close>

lemma event_of_label_wire: "writable e \<Longrightarrow> event_of_label (wire_label e) = Some e"
proof (cases e)
  case (Unknown label)
  assume "writable e"
  then have label: "valid_extension_event_label label" using Unknown by (simp add: writable_def)
  then have "strip_prefix ''x-'' label \<noteq> None" by (auto simp: valid_extension_event_label_def split: option.splits)
  then obtain r where "label = ''x-'' @ r" by (auto simp: strip_prefix_eq_Some)
  then have "find (\<lambda>e. wire_label e = label) known_events = None" by (simp add: known_events_def find_None_iff)
  then show ?thesis using label Unknown by (simp add: event_of_label_def)
qed (simp_all add: event_of_label_def known_events_def)

section \<open>Entries written and read back\<close>

definition entry_hashed :: "audit_entry \<Rightarrow> json" where
  "entry_hashed e = hashed_object (JString (agent_id e)) (JString (tool e)) (optional_text (action e))
     (JString (input_hash e)) (JNumber (show_nat (output_tokens e))) (JString (role e)) (JString (wire_label (event_type e)))"

lemma jget_entry_json:
  "jget (entry_json e) ''timestamp'' = Some (JString (timestamp e))"
  "jget (entry_json e) ''agent_id'' = Some (JString (agent_id e))"
  "jget (entry_json e) ''tool'' = Some (JString (tool e))"
  "jget (entry_json e) ''action'' = Some (optional_text (action e))"
  "jget (entry_json e) ''input_hash'' = Some (JString (input_hash e))"
  "jget (entry_json e) ''output_tokens'' = Some (JNumber (show_nat (output_tokens e)))"
  "jget (entry_json e) ''role'' = Some (JString (role e))"
  "jget (entry_json e) ''event_type'' = Some (JString (wire_label (event_type e)))"
  "jget (entry_json e) ''prev_hash'' = Some (JString (prev_hash e))"
  "jget (entry_json e) ''entry_hash'' = Some (JString (entry_hash e))"
  "jget (entry_json e) ''signature'' = map_option JString (signature e)"
  by (simp_all add: entry_json_def map_add_Some_iff split: option.split)

lemma hashed_fields_entry_json: "hashed_fields (entry_json e) = Some (entry_hashed e)"
  by (simp add: hashed_fields_def jget_entry_json jindex_def entry_hashed_def)

lemma optional_of_text: "optional_of (Some (optional_text a)) = Some a" "optional_of (map_option JString a) = Some a"
  by (cases a; simp add: optional_of_def)+

lemma entry_of_entry_json:
  assumes "output_tokens e \<le> u32_max" "writable (event_type e)"
  shows "entry_of_json (entry_json e) = Some e"
  using assms by (simp add: entry_of_json_def jget_entry_json optional_of_text number_of_def parse_digits_show_nat event_of_label_wire)

text \<open>An entry made to follow a hash.\<close>

definition follows :: "audit_codec \<Rightarrow> string \<Rightarrow> audit_entry \<Rightarrow> bool" where
  "follows c prev e \<longleftrightarrow> prev_hash e = prev \<and> entry_hash e = compute_entry_hash c prev (json_text c (entry_hashed e))
     \<and> output_tokens e \<le> u32_max \<and> writable (event_type e) \<and> signature_ok c e
     \<and> (is_seal (event_type e) \<longrightarrow> sealed_seq (action e) \<noteq> None)"

fun linked :: "audit_codec \<Rightarrow> string \<Rightarrow> audit_entry list \<Rightarrow> bool" where
  "linked c prev [] \<longleftrightarrow> True"
| "linked c prev (e # es) \<longleftrightarrow> follows c prev e \<and> linked c (entry_hash e) es"

definition head_after :: "string \<Rightarrow> audit_entry list \<Rightarrow> string" where
  "head_after prev es = (if es = [] then prev else entry_hash (last es))"

lemma linked_append: "linked c prev (es @ fs) \<longleftrightarrow> linked c prev es \<and> linked c (head_after prev es) fs"
  by (induction es arbitrary: prev) (auto simp: head_after_def)

text \<open>What an accepted entry does to the state.\<close>

definition apply_entry :: "audit_entry \<Rightarrow> chain_state \<Rightarrow> chain_state" where
  "apply_entry e st =
     (let st1 = (if is_unknown (event_type e) \<and> \<not> is_seal (event_type e) then st\<lparr>cs_unknown := cs_unknown st + 1\<rparr> else st)
      in (note_drift e (note_security e
            (st1\<lparr>cs_sealed := (if is_seal (event_type e) then sealed_seq (action e) else None)\<rparr>)))
         \<lparr>cs_prev_hash := entry_hash e, cs_total := cs_total st + 1\<rparr>)"

lemma note_keeps [simp]:
  "cs_sealed (note_drift e st) = cs_sealed st" "cs_sealed (note_security e st) = cs_sealed st"
  "cs_total (note_drift e st) = cs_total st" "cs_total (note_security e st) = cs_total st"
  "cs_pending (note_security e st) = cs_pending st"
  by (auto simp: note_drift_def note_security_def Let_def split: option.split prod.split)

lemma apply_entry_simps [simp]:
  "cs_prev_hash (apply_entry e st) = entry_hash e" "cs_total (apply_entry e st) = cs_total st + 1"
  "cs_sealed (apply_entry e st) = (if is_seal (event_type e) then sealed_seq (action e) else None)"
  by (simp_all add: apply_entry_def Let_def)

lemma fold_apply_entry:
  "cs_prev_hash (fold apply_entry es st) = head_after (cs_prev_hash st) es"
  "cs_total (fold apply_entry es st) = cs_total st + length es"
  "es \<noteq> [] \<Longrightarrow> cs_sealed (fold apply_entry es st) =
     (if is_seal (event_type (last es)) then sealed_seq (action (last es)) else None)"
  by (induction es arbitrary: st) (auto simp: head_after_def)

lemma advance_entry: "follows c (cs_prev_hash st) e \<Longrightarrow> advance c (entry_json e) st = Inr (apply_entry e st)"
  by (auto simp: advance_def follows_def jget_entry_json hashed_fields_entry_json entry_of_entry_json apply_entry_def Let_def)

lemma advance_eq_Ok:
  assumes "advance c v st = Inr st'"
  obtains partial where "hashed_fields v = Some partial"
    "cs_prev_hash st' = compute_entry_hash c (cs_prev_hash st) (json_text c partial)"
  using assms by (auto simp: advance_def Let_def split: option.splits if_splits)

section \<open>Lines\<close>

lemma raw_lines_line: "CHR 0x0A \<notin> set l \<Longrightarrow> raw_lines (l @ CHR 0x0A # rest) = (l, True) # raw_lines rest"
  by (induction l) auto

lemma raw_lines_ended: "ends_on_newline a \<Longrightarrow> raw_lines (a @ b) = raw_lines a @ raw_lines b"
proof (induction a)
  case (Cons x a)
  show ?case
  proof (cases "a = []")
    case True
    then show ?thesis using Cons.prems by (simp add: ends_on_newline_def)
  next
    case False
    then have IH: "raw_lines (a @ b) = raw_lines a @ raw_lines b" using Cons by (simp add: ends_on_newline_def)
    have "raw_lines a \<noteq> []" using False by (cases a) (auto split: list.splits)
    then show ?thesis using IH by (cases "raw_lines a") auto
  qed
qed simp

lemma verify_lines_append: "verify_lines c (xs @ ys) st = ebind (verify_lines c xs st) (verify_lines c ys)"
proof (induction xs arbitrary: st)
  case (Cons x xs)
  then show ?case by (cases "verify_line c x st") simp_all
qed simp

text \<open>A pass over a file is a pass over a prefix that ends a line and then over the rest.\<close>

lemma verify_stream_append:
  assumes "verify_stream c a st = Inr (st1, n, True)"
  shows "verify_stream c (a @ b) st = ebind (verify_stream c b st1) (\<lambda>(st2, m, clean). Ok (st2, n + m, ends_on_newline (a @ b)))"
proof -
  from assms have "ends_on_newline a" "verify_lines c (raw_lines a) st = Inr st1" "n = length a"
    by (auto simp: verify_stream_def ebind_eq_Ok)
  then show ?thesis
    by (cases "verify_lines c (raw_lines b) st1") (simp_all add: verify_stream_def raw_lines_ended verify_lines_append)
qed

section \<open>UTF-8\<close>

lemma valid_utf8_append: "valid_utf8 a \<Longrightarrow> valid_utf8 (a @ b) = valid_utf8 b"
proof (induction a rule: valid_utf8.induct)
  case (2 a s)
  consider "byte a < 128" | "\<not> byte a < 128" "194 \<le> byte a \<and> byte a < 224"
    | "\<not> byte a < 128" "\<not> (194 \<le> byte a \<and> byte a < 224)" "224 \<le> byte a \<and> byte a < 240"
    | "\<not> byte a < 128" "\<not> (194 \<le> byte a \<and> byte a < 224)" "\<not> (224 \<le> byte a \<and> byte a < 240)" "240 \<le> byte a \<and> byte a < 245"
    using 2(5) by (simp split: if_splits)
  then show ?case
  proof cases
    case 1
    then show ?thesis using 2(1,5) by simp
  next
    case c: 2
    with 2(5) obtain b1 s2 where s: "s = b1 # s2" by (cases s) simp_all
    show ?thesis using 2(2) [OF c s] 2(5) c by (simp add: s)
  next
    case c: 3
    with 2(5) obtain b1 b2 s2 where s: "s = b1 # b2 # s2" by (cases s; cases "tl s") simp_all
    show ?thesis using 2(3) [OF c s refl] 2(5) c by (simp add: s)
  next
    case c: 4
    with 2(5) obtain b1 b2 b3 s2 where s: "s = b1 # b2 # b3 # s2"
      by (cases s; cases "tl s"; cases "tl (tl s)") simp_all
    show ?thesis using 2(4) [OF c s refl refl] 2(5) c by (simp add: s)
  qed
qed simp

lemma valid_utf8_suffix: "valid_utf8 a \<Longrightarrow> valid_utf8 (a @ b) \<Longrightarrow> valid_utf8 b"
  by (simp add: valid_utf8_append)

lemma continuation_not_utf8: "cont (hd s) \<Longrightarrow> s \<noteq> [] \<Longrightarrow> \<not> valid_utf8 s"
  by (cases s) auto

lemma is_blank_bytes: "is_blank s \<Longrightarrow> c \<in> set s \<Longrightarrow> byte c \<le> 32 \<or> 128 \<le> byte c"
proof (induction s rule: is_blank.induct)
  case (2 a s)
  show ?case
  proof (cases "(9 \<le> byte a \<and> byte a \<le> 13) \<or> byte a = 32")
    case True
    then show ?thesis using 2(1,4,5) by auto
  next
    case ascii: False
    with 2(4) obtain b s2 where s: "s = b # s2" by (cases s) simp_all
    show ?thesis
    proof (cases "byte a = 0xC2 \<and> (byte b = 0x85 \<or> byte b = 0xA0)")
      case True
      then show ?thesis using 2(2) [OF ascii s True] 2(4,5) ascii s by auto
    next
      case two: False
      with 2(4) ascii s obtain d s3 where s2: "s2 = d # s3" by (cases s2) simp_all
      have "is_blank s3" "128 \<le> byte a" "128 \<le> byte b" "128 \<le> byte d" using 2(4) ascii two by (auto simp: s s2)
      then show ?thesis using 2(3) [OF ascii s two s2] 2(5) by (auto simp: s s2)
    qed
  qed
qed simp

section \<open>Files that were written\<close>

text \<open>
  What the JSON writer and reader do with an entry: a line without line feeds that ends with a brace,
  in UTF-8, read back as the one value; what is left of it when its beginning is cut off does not
  parse.
\<close>

definition json_laws :: "audit_codec \<Rightarrow> bool" where
  "json_laws c \<longleftrightarrow> (\<forall>e. let l = json_text c (entry_json e) in
     json_values c l = [Ok (entry_json e)] \<and> CHR 0x0A \<notin> set l \<and> l \<noteq> [] \<and> last l = CHR ''}'' \<and> valid_utf8 l
     \<and> (\<forall>k. 0 < k \<longrightarrow> k < length l \<longrightarrow> (\<exists>e. Err e \<in> set (json_values c (drop k l)))))"

lemma json_lawsD:
  assumes "json_laws c"
  shows "json_values c (json_text c (entry_json e)) = [Inr (entry_json e)]" "CHR 0x0A \<notin> set (json_text c (entry_json e))"
    "json_text c (entry_json e) \<noteq> []" "last (json_text c (entry_json e)) = CHR ''}''" "valid_utf8 (json_text c (entry_json e))"
    "0 < k \<Longrightarrow> k < length (json_text c (entry_json e)) \<Longrightarrow> \<exists>e'. Inl e' \<in> set (json_values c (drop k (json_text c (entry_json e))))"
  using assms by (simp_all add: json_laws_def Let_def)

definition line_of :: "audit_codec \<Rightarrow> audit_entry \<Rightarrow> string" where
  "line_of c e = json_text c (entry_json e) @ [CHR 0x0A]"

definition text_of :: "audit_codec \<Rightarrow> audit_entry list \<Rightarrow> string" where
  "text_of c es = concat (map (line_of c) es)"

lemma text_of_simps [simp]:
  "text_of c [] = []" "text_of c (e # es) = line_of c e @ text_of c es" "text_of c (es @ fs) = text_of c es @ text_of c fs"
  by (simp_all add: text_of_def)

lemma text_of_eq_Nil [simp]: "text_of c es = [] \<longleftrightarrow> es = []"
  by (cases es) (simp_all add: line_of_def)

lemma ends_on_newline_text [simp]: "ends_on_newline (text_of c es)"
  by (cases es rule: rev_cases) (simp_all add: ends_on_newline_def line_of_def)

lemma strip_cr_line: "json_laws c \<Longrightarrow> strip_cr (json_text c (entry_json e), b) = json_text c (entry_json e)"
  using json_lawsD(4) [of c e] by (simp add: strip_cr_def)

lemma raw_lines_text: "json_laws c \<Longrightarrow> raw_lines (text_of c es) = map (\<lambda>e. (json_text c (entry_json e), True)) es"
  by (induction es) (simp_all add: line_of_def raw_lines_line json_lawsD(2))

lemma verify_line_entry:
  "json_laws c \<Longrightarrow> follows c (cs_prev_hash st) e \<Longrightarrow>
     verify_line c (json_text c (entry_json e), True) st = Inr (apply_entry e st)"
  by (simp add: verify_line_def Let_def strip_cr_line json_lawsD(1,5) advance_entry)

text \<open>A file of linked entries verifies, and its state is that of its entries.\<close>

lemma verify_text:
  assumes "json_laws c" "linked c (cs_prev_hash st) es"
  shows "verify_stream c (text_of c es) st = Inr (fold apply_entry es st, length (text_of c es), True)"
proof -
  have "verify_lines c (raw_lines (text_of c es)) st = Inr (fold apply_entry es st)"
    using assms(2) unfolding raw_lines_text [OF assms(1)]
    by (induction es arbitrary: st) (simp_all add: verify_line_entry [OF assms(1)])
  then show ?thesis by (simp add: verify_stream_def)
qed

section \<open>The tail of a file that was written\<close>

lemma last_entry_value_error: "Inl e \<in> set vs \<Longrightarrow> \<exists>e'. last_entry_value vs found = Inl e'"
  by (induction vs found rule: last_entry_value.induct) auto

text \<open>The window holds the whole last line, or a part of it that does not parse.\<close>

lemma tail_of_text:
  assumes "json_laws c" "read_tail_entry c (text_of c es) = Inr found"
  shows "found = (if es = [] then None else Some (entry_json (last es)))"
proof (cases es rule: rev_cases)
  case Nil
  then show ?thesis using assms(2) by (simp add: read_tail_entry_def)
next
  case (snoc fs e)
  let ?l = "json_text c (entry_json e)" and ?t = "text_of c es"
  define k where "k = length ?t - min (length ?t) TAIL"
  define w where "w = drop k ?t"
  have t: "?t = text_of c fs @ ?l @ [CHR 0x0A]" using snoc by (simp add: line_of_def)
  have wlen: "w \<noteq> []" using t by (simp add: w_def k_def TAIL_def min_def)
  have "?t \<noteq> []" using t by simp
  then have r: "tail_of_lines c (rev (str_lines w)) = Inr found"
    using assms(2) by (simp add: read_tail_entry_def w_def k_def Let_def split: if_splits)
  have nb: "\<not> is_blank (drop j ?l)" if "j < length ?l" for j
  proof -
    have "CHR ''}'' \<in> set (drop j ?l)" using json_lawsD(4) [OF assms(1), of e] that by (metis drop_eq_Nil last_drop last_in_set leD)
    then show ?thesis using is_blank_bytes [of "drop j ?l" "CHR ''}''"] by (auto simp: byte_def)
  qed
  have nonempty: "0 < length ?l" using json_lawsD(3) [OF assms(1), of e] by simp
  show ?thesis
  proof (cases "k \<le> length (text_of c fs)")
    case True
    then have "w = drop k (text_of c fs) @ ?l @ [CHR 0x0A]" by (simp add: w_def t)
    moreover have "ends_on_newline (drop k (text_of c fs))"
      using ends_on_newline_text [of c fs] by (cases "k < length (text_of c fs)") (auto simp: ends_on_newline_def last_drop)
    ultimately have "str_lines w = str_lines (drop k (text_of c fs)) @ [?l]"
      using raw_lines_line [of ?l "[]"] json_lawsD(2) [OF assms(1)]
      by (simp add: str_lines_def raw_lines_ended strip_cr_line [OF assms(1)])
    then show ?thesis
      using r nb [OF nonempty] snoc by (simp add: json_lawsD(1) [OF assms(1)] jget_entry_json)
  next
    case False
    define j where "j = k - length (text_of c fs)"
    have w: "w = drop j (?l @ [CHR 0x0A])" using False by (simp add: w_def t j_def)
    have j: "0 < j" using False by (simp add: j_def)
    show ?thesis
    proof (cases "j < length ?l")
      case True
      then have "w = drop j ?l @ [CHR 0x0A]" by (simp add: w)
      moreover have "CHR 0x0A \<notin> set (drop j ?l)" using json_lawsD(2) [OF assms(1)] in_set_dropD by fast
      moreover have "last (drop j ?l) = CHR ''}''" using json_lawsD(4) [OF assms(1)] True by (simp add: last_drop)
      ultimately have "str_lines w = [drop j ?l]" using raw_lines_line [of "drop j ?l" "[]"] by (simp add: str_lines_def strip_cr_def)
      moreover obtain x where "Inl x \<in> set (json_values c (drop j ?l))" using json_lawsD(6) [OF assms(1) j True] by blast
      ultimately show ?thesis using r nb [OF True] last_entry_value_error [of x _ None] by fastforce
    next
      case ge: False
      have "length w = min (length ?t) TAIL" by (simp add: w_def k_def)
      moreover have "length w \<le> 1" using ge by (simp add: w)
      moreover have "length ?t \<ge> 2" using nonempty unfolding t length_append by (simp del: length_greater_0_conv)
      ultimately show ?thesis by (simp add: TAIL_def)
    qed
  qed
qed

lemma last_hash_of_text:
  assumes "json_laws c" "read_last_hash_tail c (text_of c es) = Inr h"
  shows "h = head_after ''genesis'' es"
proof -
  from assms(2) obtain found where f: "read_tail_entry c (text_of c es) = Inr found"
    "h = (case Option.bind found (\<lambda>v. as_str (jget v ''entry_hash'')) of Some h \<Rightarrow> h | None \<Rightarrow> ''genesis'')"
    by (auto simp: read_last_hash_tail_def ebind_eq_Ok)
  then show ?thesis using tail_of_text [OF assms(1) f(1)] by (simp add: head_after_def jget_entry_json)
qed

section \<open>The chain binds its entries\<close>

abbreviation chain_head :: "audit_codec \<Rightarrow> string \<Rightarrow> string list \<Rightarrow> string" where
  "chain_head c start ts \<equiv> foldl (compute_entry_hash c) start ts"

fun preimages :: "audit_codec \<Rightarrow> string \<Rightarrow> string list \<Rightarrow> string set" where
  "preimages c start [] = {}"
| "preimages c start (t # ts) = insert (start @ t) (preimages c (compute_entry_hash c start t) ts)"

lemma preimages_append: "preimages c start (ts @ us) = preimages c start ts \<union> preimages c (chain_head c start ts) us"
  by (induction ts arbitrary: start) auto

lemma length_entry_hash: "length (compute_entry_hash c p t) = 2 * length (au_sha c (p @ t))"
  by (simp add: compute_entry_hash_def hex_encode_props(1))

text \<open>A chain starts at \<open>genesis\<close>, which no hash begins with.\<close>

definition plain_start :: "string \<Rightarrow> bool" where
  "plain_start start \<longleftrightarrow> start \<noteq> [] \<and> \<not> is_lower_hex (hd start)"

lemma plain_start_genesis: "plain_start ''genesis''"
  by (simp add: plain_start_def is_lower_hex_def is_ascii_digit_def byte_def)

lemma entry_hash_hex:
  assumes "length (au_sha c (p @ t)) = 32"
  shows "compute_entry_hash c p t \<noteq> []" "is_lower_hex (hd (compute_entry_hash c p t))"
proof -
  show "compute_entry_hash c p t \<noteq> []" using length_entry_hash [of c p t] assms by auto
  then show "is_lower_hex (hd (compute_entry_hash c p t))"
    using is_lower_hex_encode [of "au_sha c (p @ t)"] by (cases "compute_entry_hash c p t") (simp_all add: compute_entry_hash_def)
qed

lemma chain_head_inject:
  assumes sha: "\<And>b. length (au_sha c b) = 32" and plain: "plain_start start"
    and "inj_on (au_sha c) (preimages c start ts \<union> preimages c start us)"
    and "chain_head c start ts = chain_head c start us"
  shows "ts = us"
  using assms(3,4)
proof (induction ts arbitrary: us rule: rev_induct)
  case Nil
  show ?case
  proof (cases us rule: rev_cases)
    case (snoc us' u)
    then show ?thesis using Nil(2) plain entry_hash_hex(2) [of c "chain_head c start us'" u] sha by (simp add: plain_start_def)
  qed simp
next
  case (snoc t ts)
  let ?p = "chain_head c start ts"
  show ?case
  proof (cases us rule: rev_cases)
    case Nil
    then show ?thesis using snoc.prems(2) plain entry_hash_hex(2) [of c ?p t] sha by (auto simp: plain_start_def)
  next
    case us: (snoc us' u)
    let ?q = "chain_head c start us'"
    have "compute_entry_hash c ?p t = compute_entry_hash c ?q u" using snoc.prems(2) us by simp
    then have "au_sha c (?p @ t) = au_sha c (?q @ u)" unfolding compute_entry_hash_def [of c ?p t] compute_entry_hash_def [of c ?q u]
      by (rule hex_encode_inject)
    moreover have "?p @ t \<in> preimages c start (ts @ [t]) \<union> preimages c start us"
      "?q @ u \<in> preimages c start (ts @ [t]) \<union> preimages c start us" by (simp_all add: us preimages_append)
    ultimately have eq: "?p @ t = ?q @ u" by (rule inj_onD [OF snoc.prems(1)])
    have head: "(vs = [] \<and> chain_head c start vs = start)
        \<or> (length (chain_head c start vs) = 64 \<and> is_lower_hex (hd (chain_head c start vs)))" for vs
      using sha entry_hash_hex(2) by (cases vs rule: rev_cases) (simp_all add: length_entry_hash)
    have "length ?p = length ?q"
    proof (rule ccontr)
      assume ne: "length ?p \<noteq> length ?q"
      have "hd ?p = hd ?q" using eq plain head [of ts] head [of us'] by (auto simp: plain_start_def hd_append dest: arg_cong [where f = hd] split: if_splits)
      then show False using ne head [of ts] head [of us'] plain by (auto simp: plain_start_def)
    qed
    then have "?p = ?q" "t = u" using eq by simp_all
    moreover have "inj_on (au_sha c) (preimages c start ts \<union> preimages c start us')"
      using snoc.prems(1) us by (auto simp: preimages_append intro: inj_on_subset)
    ultimately show ?thesis using snoc.IH us by blast
  qed
qed

end
