(* ===== verification/Audit_Props.thy ===== *)
theory Audit_Props
  imports Audit_Laws
begin

text \<open>
  What is recorded in the audit trail verifies: the entries a trail on disk represents, the calls of
  \<open>try_record\<close> that extend them, and the full verification of what they left behind.
\<close>

section \<open>What a trail on disk represents\<close>

fun trail_entries :: "audit_entry list list \<Rightarrow> audit_entry list option \<Rightarrow> audit_entry list" where
  "trail_entries ess None = concat ess"
| "trail_entries ess (Some es) = concat ess @ es"

definition sealed_as :: "nat \<Rightarrow> audit_entry list \<Rightarrow> bool" where
  "sealed_as n es \<longleftrightarrow> es \<noteq> [] \<and> is_seal (event_type (last es)) \<and> sealed_seq (action (last es)) = Some n"

definition represents :: "audit_codec \<Rightarrow> trail \<Rightarrow> audit_entry list list \<Rightarrow> audit_entry list option \<Rightarrow> bool" where
  "represents c t ess act \<longleftrightarrow> sealed_segments t = enumerate 0 (map (text_of c) ess)
     \<and> active t = map_option (text_of c) act \<and> (\<forall>i < length ess. sealed_as i (ess ! i))
     \<and> linked c ''genesis'' (trail_entries ess act)"

text \<open>Data a caller records, and surroundings in which a write is whole or undone and a signature is the key's.\<close>

definition data_ok :: "audit_entry_data \<Rightarrow> bool" where
  "data_ok d \<longleftrightarrow> writable (ed_event_type d) \<and> ed_output_tokens d \<le> u32_max \<and> \<not> is_seal (ed_event_type d)"

definition env_ok :: "audit_codec \<Rightarrow> append_env \<Rightarrow> bool" where
  "env_ok c env \<longleftrightarrow> (\<forall>h s. signer env h = Ok s \<longrightarrow> (\<exists>key. public_key c = Some key \<and> verify_signature c key h s))
     \<and> (\<forall>n e. data_write env \<noteq> Torn n e) \<and> (\<forall>n e. seal_write env \<noteq> Torn n e)"

lemma append_locked_cases:
  assumes "append_locked c env w bytes d prev = (r, bytes')" and "env_ok c env" and "\<And>n e. w \<noteq> Torn n e"
    and "ed_output_tokens d \<le> u32_max" and "is_seal (ed_event_type d) \<longrightarrow> sealed_seq (ed_action d) \<noteq> None"
  shows "(\<exists>e. r = Inr e \<and> bytes' = bytes @ line_of c e \<and> follows c prev e \<and> event_type e = ed_event_type d \<and> action e = ed_action d)
       \<or> (\<exists>x. r = Inl x \<and> bytes' = bytes)"
proof (cases "event_json (ed_event_type d)")
  case (Inl x)
  then show ?thesis using assms(1) by (auto simp: append_locked_def Let_def)
next
  case (Inr ev)
  then have ev: "writable (ed_event_type d)" "ev = JString (wire_label (ed_event_type d))" by (simp_all add: event_json_writable)
  define h where "h = compute_entry_hash c prev (json_text c (hashed_object (JString (ed_agent_id d)) (JString (ed_tool d))
     (optional_text (ed_action d)) (JString (ed_input_hash d)) (JNumber (show_nat (ed_output_tokens d))) (JString (ed_role d)) ev))"
  define e where "e = \<lparr>timestamp = stamp_text env, agent_id = ed_agent_id d, tool = ed_tool d, action = ed_action d,
     input_hash = ed_input_hash d, output_tokens = ed_output_tokens d, role = ed_role d, event_type = ed_event_type d,
     prev_hash = prev, entry_hash = h, signature = (case signer env h of Inl _ \<Rightarrow> None | Inr s \<Rightarrow> Some (hex_encode s))\<rparr>"
  show ?thesis
  proof (cases "signature_required (ed_event_type d) \<and> (\<exists>x. signer env h = Inl x)")
    case True
    then show ?thesis using assms(1) Inr
      by (auto simp: append_locked_def Let_def h_def signature_required_def)
  next
    case False
    have "signature_ok c e"
    proof (cases "signer env h")
      case (Inl x)
      then show ?thesis using False by (simp add: signature_ok_def e_def)
    next
      case (Inr s)
      then obtain key where "public_key c = Some key" "verify_signature c key h s" using assms(2) [unfolded env_ok_def] by blast
      then show ?thesis using Inr by (simp add: signature_ok_def e_def hex_encode_props(3))
    qed
    then have "follows c prev e"
      using assms(4,5) ev by (simp add: follows_def entry_hashed_def e_def h_def)
    moreover have "append_locked c env w bytes d prev = (case w of
        Written \<Rightarrow> (Ok e, bytes @ line_of c e) | RolledBack x \<Rightarrow> (Err (''audit append: '' @ x), bytes)
      | Torn n x \<Rightarrow> (Err (''audit append: '' @ x), bytes @ take n (line_of c e)))"
      using False Inr by (cases "signer env h"; cases w)
        (auto simp: append_locked_def Let_def e_def h_def line_of_def signature_required_def split: bool.split)
    ultimately show ?thesis using assms(1,3) by (cases w) (auto simp: e_def)
  qed
qed

lemma seal_data_ok:
  "n \<le> u64_max \<Longrightarrow> ed_output_tokens (seal_data n) \<le> u32_max \<and> sealed_seq (ed_action (seal_data n)) = Some n
     \<and> is_seal (ed_event_type (seal_data n))"
  by (simp add: seal_data_def sealed_seq_seal_action is_seal_def)

lemma next_seq_represents: "represents c t ess act \<Longrightarrow> next_seq t = length ess"
  by (cases ess rule: rev_cases) (auto simp: represents_def next_seq_def enumerate_append_eq)

lemma append_to_represents:
  assumes "append_to c env t (text_of c es) d prev = (r, t')" "represents c t ess (Some es)" "env_ok c env" "data_ok d"
    and "prev = head_after ''genesis'' (concat ess @ es)"
  shows "(\<exists>e. r = Inr (Done e) \<and> represents c t' ess (Some (es @ [e]))) \<or> (\<exists>x. r = Inl x \<and> represents c t' ess (Some es))"
proof -
  obtain r0 bytes' where a: "append_locked c env (data_write env) (text_of c es) d prev = (r0, bytes')" by fastforce
  have "(\<exists>e. r0 = Inr e \<and> bytes' = text_of c es @ line_of c e \<and> follows c prev e \<and> event_type e = ed_event_type d \<and> action e = ed_action d)
       \<or> (\<exists>x. r0 = Inl x \<and> bytes' = text_of c es)"
    by (rule append_locked_cases [OF a assms(3)]) (use assms(3,4) in \<open>auto simp: env_ok_def data_ok_def\<close>)
  then show ?thesis
    using assms(1,2,5) a by (auto simp: append_to_def represents_def linked_append simp flip: append_assoc)
qed

lemma al_insert_enumerate: "al_insert (n + length xs) y (enumerate n xs) = enumerate n (xs @ [y])"
proof (induction xs arbitrary: n)
  case (Cons x xs)
  then show ?case using Cons.IH [of "Suc n"] by simp
qed simp

lemma retire_represents:
  assumes "retire env t (length ess) = Inr t'" "represents c t ess (Some es)" "sealed_as (length ess) es"
  shows "represents c t' (ess @ [es]) None"
proof -
  have "sealed_segments t' = al_insert (0 + length ess) (text_of c es) (enumerate 0 (map (text_of c) ess))" "active t' = None"
    using assms(1,2) by (auto simp: retire_def represents_def split: if_splits option.splits)
  then have "sealed_segments t' = enumerate 0 (map (text_of c) (ess @ [es]))"
    using al_insert_enumerate [of 0 "map (text_of c) ess" "text_of c es"] by simp
  then show ?thesis
    using \<open>active t' = None\<close> assms(2,3) by (auto simp: represents_def nth_append less_Suc_eq)
qed

definition extends :: "audit_codec \<Rightarrow> trail \<Rightarrow> audit_entry list \<Rightarrow> nat \<Rightarrow> audit_entry option \<Rightarrow> bool" where
  "extends c t old n made \<longleftrightarrow> (\<exists>ess act new. represents c t ess act \<and> trail_entries ess act = old @ new \<and> length ess \<le> n
     \<and> (\<forall>e. made = Some e \<longrightarrow> act \<noteq> None \<and> new \<noteq> [] \<and> last new = e))"

fun made_by :: "string + appended \<Rightarrow> audit_entry option" where
  "made_by (Inr (Done e)) = Some e"
| "made_by _ = None"

lemma extendsI: "represents c t ess act \<Longrightarrow> trail_entries ess act = old @ new \<Longrightarrow> length ess \<le> n \<Longrightarrow>
    (\<And>e. made = Some e \<Longrightarrow> act \<noteq> None \<and> new \<noteq> [] \<and> last new = e) \<Longrightarrow> extends c t old n made"
  unfolding extends_def by blast

lemma extendsE:
  assumes "extends c t old n made"
  obtains ess act new where "represents c t ess act" "trail_entries ess act = old @ new" "length ess \<le> n"
    "\<forall>e. made = Some e \<longrightarrow> act \<noteq> None \<and> new \<noteq> [] \<and> last new = e"
  using assms unfolding extends_def by (elim exE conjE) (rule that)

lemma extends_mono: "extends c t old n made \<Longrightarrow> n \<le> m \<Longrightarrow> extends c t old m made"
  unfolding extends_def by (meson le_trans)

lemma append_to_extends:
  assumes "append_to c env t (text_of c (es @ xs)) d prev = (r, t')" "represents c t ess (Some (es @ xs))" "env_ok c env" "data_ok d"
    and "prev = head_after ''genesis'' (concat ess @ es @ xs)" "length ess \<le> n"
  shows "extends c t' (concat ess @ es) n (made_by r)"
  using append_to_represents [OF assms(1-5)] assms(6)
proof (elim disjE exE conjE)
  fix e
  assume "r = Inr (Done e)" "represents c t' ess (Some ((es @ xs) @ [e]))"
  then show ?thesis using assms(6) by (intro extendsI [where ess = ess and act = "Some ((es @ xs) @ [e])" and new = "xs @ [e]"]) auto
next
  fix x
  assume "r = Inl x" "represents c t' ess (Some (es @ xs))"
  then show ?thesis using assms(6) by (intro extendsI [where ess = ess and act = "Some (es @ xs)" and new = xs]) auto
qed

lemma retire_or_append_extends:
  assumes "json_laws c" "retire_or_append c env t (text_of c (es @ xs)) d (length ess) = (r, t')"
    and "represents c t ess (Some (es @ xs))" "sealed_as (length ess) (es @ xs)" "env_ok c env" "data_ok d"
  shows "extends c t' (concat ess @ es) (Suc (length ess)) (made_by r)"
proof (cases "retire env t (length ess)")
  case (Inr u)
  then have "r = Inr Moved" "t' = u" using assms(2) by (simp_all add: retire_or_append_def)
  then show ?thesis using retire_represents [OF Inr assms(3,4)]
    by (intro extendsI [where ess = "ess @ [es @ xs]" and act = None and new = xs]) auto
next
  case (Inl x)
  have ne: "es @ xs \<noteq> []" using assms(4) by (simp add: sealed_as_def)
  show ?thesis
  proof (cases "read_last_hash_tail c (text_of c (es @ xs))")
    case e: (Inl e)
    then have "r = Inl e" "t' = t" using assms(2) Inl by (simp_all add: retire_or_append_def)
    then show ?thesis using assms(3) by (intro extendsI [where ess = ess and act = "Some (es @ xs)" and new = xs]) auto
  next
    case h: (Inr h)
    then have "append_to c env t (text_of c (es @ xs)) d h = (r, t')" using assms(2) Inl by (simp add: retire_or_append_def)
    moreover have "h = head_after ''genesis'' (concat ess @ es @ xs)"
      using last_hash_of_text [OF assms(1) h] ne by (auto simp: head_after_def)
    ultimately show ?thesis using append_to_extends [OF _ assms(3,5,6)] by simp
  qed
qed

lemma head_of_segments:
  assumes "json_laws c" "represents c t ess (Some [])"
    and "(if sealed_segments t = [] then Ok ''genesis'' else read_last_hash_tail c (snd (last (sealed_segments t)))) = Inr prev"
  shows "prev = head_after ''genesis'' (concat ess)"
proof (cases ess rule: rev_cases)
  case Nil
  then show ?thesis using assms(2,3) by (simp add: represents_def head_after_def)
next
  case (snoc fss fs)
  then have "snd (last (sealed_segments t)) = text_of c fs" "sealed_segments t \<noteq> []" "fs \<noteq> []"
    using assms(2) by (auto simp: represents_def enumerate_append_eq sealed_as_def nth_append)
  then show ?thesis using last_hash_of_text [OF assms(1), of fs prev] assms(3) snoc by (simp add: head_after_def)
qed

text \<open>The seal is written and the file moved, or the entry appended behind the seal.\<close>

lemma seal_extends:
  assumes laws: "json_laws c" and rep: "represents c t ess (Some es)" and env: "env_ok c env" and data: "data_ok d"
    and small: "length ess \<le> u64_max" and prev: "prev = head_after ''genesis'' (concat ess @ es)"
    and a: "append_locked c env (seal_write env) (text_of c es) (seal_data (length ess)) prev = (r0, bytes')"
    and call: "(case r0 of Inl x \<Rightarrow> (Inl x, t\<lparr>active := Some bytes'\<rparr>)
        | Inr _ \<Rightarrow> retire_or_append c env (t\<lparr>active := Some bytes'\<rparr>) bytes' d (length ess)) = (r, t')"
  shows "extends c t' (concat ess @ es) (Suc (length ess)) (made_by r)"
proof -
  note sd = seal_data_ok [OF small]
  have "(\<exists>e. r0 = Inr e \<and> bytes' = text_of c es @ line_of c e \<and> follows c prev e
        \<and> event_type e = ed_event_type (seal_data (length ess)) \<and> action e = ed_action (seal_data (length ess)))
      \<or> (\<exists>x. r0 = Inl x \<and> bytes' = text_of c es)"
    by (rule append_locked_cases [OF a env]) (use env sd in \<open>auto simp: env_ok_def\<close>)
  then show ?thesis
  proof (elim disjE exE conjE)
    fix x
    assume "r0 = Inl x" "bytes' = text_of c es"
    then have "r = Inl x" "t' = t" using call rep by (auto simp: represents_def)
    then show ?thesis using rep by (intro extendsI [where ess = ess and act = "Some es" and new = "[]"]) auto
  next
    fix e
    assume e: "r0 = Inr e" "bytes' = text_of c es @ line_of c e" "follows c prev e"
      "event_type e = ed_event_type (seal_data (length ess))" "action e = ed_action (seal_data (length ess))"
    let ?t = "t\<lparr>active := Some (text_of c (es @ [e]))\<rparr>"
    have "represents c ?t ess (Some (es @ [e]))"
      using rep e(3) prev by (auto simp: represents_def linked_append simp flip: append_assoc)
    moreover have "sealed_as (length ess) (es @ [e])" using e(4,5) sd by (simp add: sealed_as_def)
    moreover have "retire_or_append c env ?t (text_of c (es @ [e])) d (length ess) = (r, t')"
      using call e(1,2) by simp
    ultimately show ?thesis using retire_or_append_extends [OF laws _ _ _ env data] by blast
  qed
qed

text \<open>A call on an active file that is empty, and on one that has a last entry.\<close>

lemma unchanged_extends: "represents c t ess (Some es) \<Longrightarrow> extends c t (concat ess @ es) (Suc (length ess)) None"
  by (intro extendsI [where ess = ess and act = "Some es" and new = "[]"]) auto

lemma append_empty_extends:
  assumes laws: "json_laws c" and call: "append_or_seal c env t [] d = (r, t')"
    and rep: "represents c t ess (Some [])" and env: "env_ok c env" and data: "data_ok d"
  shows "extends c t' (concat ess) (Suc (length ess)) (made_by r)"
proof -
  let ?head = "if sealed_segments t = [] then Ok ''genesis'' else read_last_hash_tail c (snd (last (sealed_segments t)))"
  have tail: "read_tail_entry c [] = Inr None" by (simp add: read_tail_entry_def)
  show ?thesis
  proof (cases ?head)
    case (Inl x)
    then have "r = Inl x" "t' = t" using call tail by (simp_all add: append_or_seal_def)
    then show ?thesis using unchanged_extends [OF rep] by simp
  next
    case (Inr prev)
    then have "append_to c env t (text_of c ([] @ [])) d prev = (r, t')" using call tail by (simp add: append_or_seal_def)
    then show ?thesis
      using append_to_extends [of c env t "[]" "[]" d prev r t' ess "Suc (length ess)"] rep env data
        head_of_segments [OF laws rep Inr] by simp
  qed
qed

lemma append_last_extends:
  assumes laws: "json_laws c" and call: "append_or_seal c env t (text_of c es) d = (r, t')"
    and rep: "represents c t ess (Some es)" and env: "env_ok c env" and data: "data_ok d" and small: "length ess \<le> u64_max"
    and tail: "read_tail_entry c (text_of c es) = Inr (Some (entry_json (last es)))" and ne: "es \<noteq> []"
  shows "extends c t' (concat ess @ es) (Suc (length ess)) (made_by r)"
proof -
  let ?e = "last es"
  have head: "entry_hash ?e = head_after ''genesis'' (concat ess @ es)" using ne by (simp add: head_after_def)
  have seal: "wire_label (event_type ?e) = SEAL_EVENT \<Longrightarrow> is_seal (event_type ?e)"
    by (cases "event_type ?e") (simp_all add: is_seal_def SEAL_EVENT_def)
  have act: "as_str (Some (optional_text (action ?e))) = action ?e" by (cases "action ?e") simp_all
  define sealed where "sealed = (if wire_label (event_type ?e) = SEAL_EVENT then sealed_seq (action ?e) else None)"
  define is_due where "is_due \<longleftrightarrow> due (day_of env) (length (text_of c es)) (Some (timestamp ?e)) (today env)
      \<and> \<not> backing_off env \<and> verified_once env"
  note body = call [unfolded append_or_seal_def tail sum.case option.case Let_def jget_entry_json act as_str.simps option.inject
      next_seq_represents [OF rep], folded sealed_def is_due_def]
  consider (again) "sealed = Some (length ess)" | (moved) "sealed \<noteq> Some (length ess)" "\<exists>n. sealed = Some n \<and> n < length ess"
    | (seal) "sealed \<noteq> Some (length ess)" "\<nexists>n. sealed = Some n \<and> n < length ess" is_due
    | (append) "sealed \<noteq> Some (length ess)" "\<nexists>n. sealed = Some n \<and> n < length ess" "\<not> is_due" by blast
  then show ?thesis
  proof cases
    case again
    then have "retire_or_append c env t (text_of c (es @ [])) d (length ess) = (r, t')" using body by simp
    moreover have "sealed_as (length ess) (es @ [])" using again seal ne by (auto simp: sealed_as_def sealed_def split: if_splits)
    ultimately show ?thesis using retire_or_append_extends [OF laws, of env t es "[]" d ess r t'] rep env data by simp
  next
    case moved
    then have "r = Inr Moved" "t' = t" using body by auto
    then show ?thesis using unchanged_extends [OF rep] by simp
  next
    case seal: seal
    obtain r0 bytes' where a: "append_locked c env (seal_write env) (text_of c es) (seal_data (length ess)) (entry_hash ?e) = (r0, bytes')"
      by fastforce
    show ?thesis
      by (rule seal_extends [OF laws rep env data small head a]) (use body seal a in \<open>auto split: option.splits sum.splits\<close>)
  next
    case append
    then have "append_to c env t (text_of c (es @ [])) d (entry_hash ?e) = (r, t')" using body by (auto split: option.splits)
    then show ?thesis
      using append_to_extends [of c env t es "[]" d "entry_hash ?e" r t' ess "Suc (length ess)"] rep env data head by simp
  qed
qed

lemma append_or_seal_extends:
  assumes laws: "json_laws c" and call: "append_or_seal c env t (text_of c es) d = (r, t')"
    and rep: "represents c t ess (Some es)" and env: "env_ok c env" and data: "data_ok d" and small: "length ess \<le> u64_max"
  shows "extends c t' (concat ess @ es) (Suc (length ess)) (made_by r)"
proof (cases "read_tail_entry c (text_of c es)")
  case (Inl x)
  then have "r = Inl x" "t' = t" using call by (simp_all add: append_or_seal_def)
  then show ?thesis using unchanged_extends [OF rep] by simp
next
  case (Inr found)
  note found = tail_of_text [OF laws Inr]
  show ?thesis
  proof (cases "es = []")
    case True
    then show ?thesis using append_empty_extends [OF laws, of env t d r t' ess] call rep env data by simp
  next
    case False
    then show ?thesis using append_last_extends [OF laws call rep env data small] Inr found by simp
  qed
qed

section \<open>Recording\<close>

lemma represents_create:
  "represents c t ess act \<Longrightarrow> \<exists>es. represents c (t\<lparr>active := Some (case active t of None \<Rightarrow> [] | Some b \<Rightarrow> b)\<rparr>) ess (Some es)
     \<and> trail_entries ess act = concat ess @ es \<and> text_of c es = (case active t of None \<Rightarrow> [] | Some b \<Rightarrow> b)"
  by (cases act) (auto simp: represents_def intro: exI [of _ "[]"])

fun entry_made :: "string + audit_entry \<Rightarrow> audit_entry option" where
  "entry_made (Inr e) = Some e"
| "entry_made (Inl x) = None"

lemma record_attempts_extends:
  assumes "json_laws c" "record_attempts c env n t d = (r, t')" "represents c t ess act" "\<And>k. env_ok c (env k)" "data_ok d"
    and "length ess + n \<le> u64_max"
  shows "extends c t' (trail_entries ess act) (length ess + n) (entry_made r)"
  using assms(2,3,6)
proof (induction n arbitrary: t ess act)
  case 0
  then show ?case by (intro extendsI [where ess = ess and act = act and new = "[]"]) auto
next
  case (Suc n)
  show ?case
  proof (cases "io_error (env n)")
    case (Some x)
    then show ?thesis using Suc.prems by (intro extendsI [where ess = ess and act = act and new = "[]"]) auto
  next
    case None
    let ?b = "case active t of None \<Rightarrow> [] | Some b \<Rightarrow> b"
    obtain es where es: "represents c (t\<lparr>active := Some ?b\<rparr>) ess (Some es)" "trail_entries ess act = concat ess @ es" "text_of c es = ?b"
      using represents_create [OF Suc.prems(2)] by blast
    obtain r1 t1 where a: "append_or_seal c (env n) (t\<lparr>active := Some ?b\<rparr>) (text_of c es) d = (r1, t1)" by fastforce
    have ext: "extends c t1 (concat ess @ es) (Suc (length ess)) (made_by r1)"
      using append_or_seal_extends [OF assms(1) a es(1) assms(4,5)] Suc.prems(3) by simp
    have step: "record_attempts c env (Suc n) t d = (case r1 of Inl x \<Rightarrow> (Inl x, t1) | Inr (Done e) \<Rightarrow> (Inr e, t1)
        | Inr Moved \<Rightarrow> record_attempts c env n t1 d)"
      using None a es(3) by (simp add: Let_def split: sum.split appended.split)
    show ?thesis
    proof (cases "r1 = Inr Moved")
      case False
      then have "t' = t1" "entry_made r = made_by r1" using step Suc.prems(1) by (cases r1; auto split: appended.splits)+
      then show ?thesis using extends_mono [OF ext, of "length ess + Suc n"] es(2) by simp
    next
      case True
      from ext obtain ess1 act1 new where e1: "represents c t1 ess1 act1" "trail_entries ess1 act1 = (concat ess @ es) @ new"
        "length ess1 \<le> Suc (length ess)" by (rule extendsE)
      have "extends c t' (trail_entries ess1 act1) (length ess1 + n) (entry_made r)"
        using Suc.IH [OF _ e1(1)] step True Suc.prems e1(3) by simp
      then obtain ess2 act2 new2 where e2: "represents c t' ess2 act2" "trail_entries ess2 act2 = trail_entries ess1 act1 @ new2"
        "length ess2 \<le> length ess1 + n" "\<forall>e. entry_made r = Some e \<longrightarrow> act2 \<noteq> None \<and> new2 \<noteq> [] \<and> last new2 = e"
        by (rule extendsE)
      show ?thesis
        by (rule extendsI [OF e2(1), where new = "new @ new2"]) (use e1 e2 es(2) in auto)
    qed
  qed
qed

abbreviation empty_trail :: trail where "empty_trail \<equiv> \<lparr>active = None, sealed_segments = []\<rparr>"

text \<open>A call of \<open>try_record\<close> by any process, with whatever it finds.\<close>

inductive audit_step :: "audit_codec \<Rightarrow> trail \<Rightarrow> trail \<Rightarrow> bool" for c where
  "json_laws c \<Longrightarrow> try_record c env t d = (r, t') \<Longrightarrow> \<forall>k. env_ok c (env k) \<Longrightarrow> data_ok d \<Longrightarrow>
     next_seq t + SNAPSHOT_ATTEMPTS \<le> u64_max \<Longrightarrow> audit_step c t t'"

lemma try_record_extends:
  assumes "json_laws c" "try_record c env t d = (r, t')" "represents c t ess act" "\<forall>k. env_ok c (env k)" "data_ok d"
    and "next_seq t + SNAPSHOT_ATTEMPTS \<le> u64_max"
  shows "extends c t' (trail_entries ess act) (length ess + SNAPSHOT_ATTEMPTS) (entry_made r)"
  using record_attempts_extends [OF assms(1) assms(2) [unfolded try_record_def] assms(3)] assms(4-6) next_seq_represents [OF assms(3)]
  by simp

interpretation audit: invariant_machine "\<lambda>t. t = empty_trail" "audit_step c" "\<lambda>t. \<exists>ess act. represents c t ess act" for c
proof
  fix t :: trail
  assume "t = empty_trail"
  then have "represents c t [] None" by (simp add: represents_def)
  then show "\<exists>ess act. represents c t ess act" by blast
next
  fix t t' :: trail
  assume "\<exists>ess act. represents c t ess act" "audit_step c t t'"
  then show "\<exists>ess act. represents c t' ess act"
    by (elim exE audit_step.cases) (metis extends_def try_record_extends)
qed

section \<open>Verifying what was recorded\<close>

text \<open>A reader finds the bytes of a file, with the lock and undisturbed.\<close>

definition reads :: "file_view \<Rightarrow> string \<Rightarrow> bool" where
  "reads f b \<longleftrightarrow> bytes_read f = b \<and> lock_granted f \<and> still_held f"

definition snapshot_of :: "trail \<Rightarrow> (nat \<times> file_view option) list \<Rightarrow> file_view option \<Rightarrow> bool" where
  "snapshot_of t segs act \<longleftrightarrow>
     list_all2 (\<lambda>(n, b) (m, f). m = n \<and> (\<exists>v. f = Some v \<and> reads v b)) (sealed_segments t) segs
     \<and> rel_option (\<lambda>b v. reads v b) (active t) act"

lemma verify_file_text:
  assumes "json_laws c" "reads f (text_of c es)" "linked c (cs_prev_hash st) es"
  shows "fst (verify_file c k f st True max_age now) = Valid (fold apply_entry es st)"
  using assms(2) verify_text [OF assms(1,3)] by (simp add: verify_file_def verify_full_def reads_def)

lemma verify_segments_text:
  assumes "json_laws c" "list_all2 (\<lambda>(n, b) (m, f). m = n \<and> (\<exists>v. f = Some v \<and> reads v b)) (enumerate n (map (text_of c) ess)) segs"
    and "linked c (cs_prev_hash st) (concat ess)" "\<forall>i < length ess. sealed_as (n + i) (ess ! i)"
  shows "verify_segments c k segs True sample idx now st = Valid (fold apply_entry (concat ess) st)"
  using assms(2-4)
proof (induction ess arbitrary: n segs st idx)
  case (Cons es ess)
  then obtain f segs' where segs: "segs = (n, Some f) # segs'" "reads f (text_of c es)"
      "list_all2 (\<lambda>(n, b) (m, f). m = n \<and> (\<exists>v. f = Some v \<and> reads v b)) (enumerate (Suc n) (map (text_of c) ess)) segs'"
    by (cases segs) auto
  have sealed: "sealed_as n es" "\<forall>i < length ess. sealed_as (Suc n + i) (ess ! i)" using Cons.prems(3) by (auto simp: All_less_Suc2)
  have l: "linked c (cs_prev_hash st) es" "linked c (cs_prev_hash (fold apply_entry es st)) (concat ess)"
    using Cons.prems(2) by (simp_all add: linked_append fold_apply_entry)
  show ?case
    using verify_file_text [OF assms(1) segs(2) l(1)] Cons.IH [OF segs(3) l(2) sealed(2)] sealed(1) segs(1)
    by (simp add: sealed_as_def fold_apply_entry)
qed simp

lemma verify_represents:
  assumes "json_laws c" "represents c t ess act" "snapshot_of t segs view"
  shows "verify_snapshot c k segs view True now =
    (if ess = [] \<and> act = None then Missing else Valid (fold apply_entry (trail_entries ess act) genesis))"
proof -
  have l: "linked c (cs_prev_hash genesis) (concat ess)" "\<forall>i < length ess. sealed_as (0 + i) (ess ! i)"
    using assms(2) by (cases act; simp add: represents_def linked_append genesis_def)+
  have s: "list_all2 (\<lambda>(n, b) (m, f). m = n \<and> (\<exists>v. f = Some v \<and> reads v b)) (enumerate 0 (map (text_of c) ess)) segs"
    using assms(2,3) by (simp add: represents_def snapshot_of_def)
  note segs = verify_segments_text [OF assms(1) s l]
  have ne: "segs = [] \<longleftrightarrow> ess = []" using list_all2_lengthD [OF s] by auto
  have v: "rel_option (\<lambda>b v. reads v b) (map_option (text_of c) act) view" using assms(2,3) by (simp add: represents_def snapshot_of_def)
  show ?thesis
  proof (cases act)
    case None
    then have "view = None" using v by (cases view) auto
    then show ?thesis using None segs ne by (auto simp: verify_snapshot_def Let_def)
  next
    case (Some es)
    then obtain f where f: "view = Some f" "reads f (text_of c es)" using v by (cases view) auto
    have "linked c (cs_prev_hash (fold apply_entry (concat ess) genesis)) es"
      using assms(2) Some by (simp add: represents_def linked_append fold_apply_entry genesis_def)
    from verify_file_text [OF assms(1) f(2) this]
    show ?thesis using Some segs f(1) by (simp add: verify_snapshot_def Let_def)
  qed
qed

text \<open>
  C16. Whatever was recorded verifies, where every append that fails is rolled back and one signing key is in use:
  from an empty trail, after any calls of \<open>try_record\<close> by any processes, with appends that fail and are undone,
  seals, moves to segments that fail and are tried again, and a key that is there for some calls and not for
  others but is never replaced, a full verification of the trail never finds it invalid; and after one
  more call the verified chain is the one before with entries added behind it, and where the call
  returned an entry the chain ends with it. The callers record events and token counts of the wire form and no seals,
  and the numbers of segments fit 64 bits. A rollback that fails leaves a part of a line behind, after which
  nothing of this holds.
\<close>

theorem recorded_trail_verifies:
  assumes "json_laws c" and "reaches (\<lambda>t. t = empty_trail) (audit_step c) t"
    and "try_record c env t d = (r, t')" and "\<forall>k. env_ok c (env k)" and "data_ok d"
    and "next_seq t + SNAPSHOT_ATTEMPTS \<le> u64_max"
    and "snapshot_of t segs view" and "snapshot_of t' segs' view'"
  shows "\<exists>es new. verify_snapshot c k segs view True now \<in> {Missing, Valid (fold apply_entry es genesis)}
    \<and> verify_snapshot c k segs' view' True now' \<in> {Missing, Valid (fold apply_entry (es @ new) genesis)}
    \<and> (\<forall>e. r = Ok e \<longrightarrow> new \<noteq> [] \<and> last new = e
          \<and> verify_snapshot c k segs' view' True now' = Valid (fold apply_entry (es @ new) genesis))"
proof -
  obtain ess act where rep: "represents c t ess act" using audit.reachable_inv [OF assms(2)] by blast
  obtain ess' act' new where rep': "represents c t' ess' act'" "trail_entries ess' act' = trail_entries ess act @ new"
    "\<forall>e. entry_made r = Some e \<longrightarrow> act' \<noteq> None \<and> new \<noteq> [] \<and> last new = e"
    by (rule extendsE [OF try_record_extends [OF assms(1,3) rep assms(4-6)]])
  show ?thesis
    using verify_represents [OF assms(1) rep assms(7), of k now] verify_represents [OF assms(1) rep'(1) assms(8), of k now'] rep'(2,3)
    by (intro exI [of _ "trail_entries ess act"] exI [of _ new]) auto
qed

end
