(* ===== verification/Bundle_Laws.thy ===== *)
theory Bundle_Laws
  imports Evidence_Bundle Audit_Props
begin

text \<open>
  Evidence bundles: what a canonical object holds, what the exporter writes for a trail whose times are
  in order, that the segment replays, and what an archive that was written reads back as.
\<close>

section \<open>Objects in key order\<close>

lemma map_of_rev: "distinct (map fst fs) \<Longrightarrow> map_of (rev fs) = map_of fs"
  using map_of_inject_set [of "rev fs" fs] by (simp add: rev_map [symmetric])

lemma map_of_fold_al_insert:
  "map_of (fold (\<lambda>(k, v). al_insert k v) fs acc) = map_of acc ++ map_of (rev fs)"
  by (induction fs arbitrary: acc) (auto simp: map_of_al_insert)

lemma ascending_fold: "ascending acc \<Longrightarrow> ascending (fold (\<lambda>(k, v). al_insert k v) fs acc)"
  by (induction fs arbitrary: acc) (auto simp: ascending_al_insert)

lemma jget_jobj: "distinct (map fst fs) \<Longrightarrow> jget (jobj fs) k = map_of fs k"
  by (simp add: jobj_def map_of_fold_al_insert map_of_rev)

lemma jget_sort_json:
  assumes "distinct (map fst fs)"
  shows "jget (sort_json (JObject fs)) k = map_option sort_json (map_of fs k)"
proof -
  have "distinct (map fst (map (\<lambda>f. (fst f, sort_json (snd f))) fs))" using assms by (simp add: o_def)
  moreover have "map_of (map (\<lambda>f. (fst f, sort_json (snd f))) fs) k = map_option sort_json (map_of fs k)"
    using map_of_map [of sort_json fs] by (simp add: case_prod_unfold)
  ultimately show ?thesis by (simp add: jget_jobj)
qed

text \<open>An object that was built in key order from values in canonical form is in canonical form.\<close>

lemma jobj_ascending: "ascending fs \<Longrightarrow> jobj fs = JObject fs"
proof -
  assume "ascending fs"
  moreover from this have "ascending (fold (\<lambda>(k, v). al_insert k v) fs [])" by (simp add: ascending_fold)
  moreover have "map_of (fold (\<lambda>(k, v). al_insert k v) fs []) = map_of fs"
    using \<open>ascending fs\<close> by (simp add: map_of_fold_al_insert map_of_rev ascending_distinct)
  ultimately show ?thesis using ascending_ext by (auto simp: jobj_def)
qed

lemma set_fold_al_insert: "set (fold (\<lambda>(k, v). al_insert k v) fs acc) \<subseteq> set fs \<union> set acc"
proof (induction fs arbitrary: acc)
  case (Cons f fs)
  show ?case using Cons [of "al_insert (fst f) (snd f) acc"] set_al_insert_sub [of "fst f" "snd f" acc]
    by (auto simp: case_prod_unfold)
qed simp

lemma sort_json_jobj: "(\<And>k v. (k, v) \<in> set fs \<Longrightarrow> sort_json v = v) \<Longrightarrow> sort_json (jobj fs) = jobj fs"
proof -
  assume fs: "\<And>k v. (k, v) \<in> set fs \<Longrightarrow> sort_json v = v"
  define gs where "gs = fold (\<lambda>(k, v). al_insert k v) fs []"
  have "map (\<lambda>f. (fst f, sort_json (snd f))) gs = gs"
  proof (rule map_idI)
    fix f assume "f \<in> set gs"
    then have "(fst f, snd f) \<in> set fs" using set_fold_al_insert [of fs "[]"] by (auto simp: gs_def)
    then show "(fst f, sort_json (snd f)) = f" using fs by (cases f) simp
  qed
  moreover have "ascending gs" by (simp add: gs_def ascending_fold)
  ultimately show ?thesis by (simp add: jobj_def [of fs] gs_def [symmetric] jobj_ascending)
qed

lemma sort_json_optional [simp]: "sort_json (optional_text v) = optional_text v"
  by (cases v) simp_all

lemma distinct_entry_json: "\<exists>fs. entry_json e = JObject fs \<and> distinct (map fst fs)"
  by (simp add: entry_json_def split: option.split)

lemma jget_sorted_entry: "jget (sort_json (entry_json e)) k = map_option sort_json (jget (entry_json e) k)"
  using distinct_entry_json [of e] jget_sort_json by auto

lemma jindex_sorted_entry:
  "jindex (sort_json (entry_json e)) k = (case jget (entry_json e) k of None \<Rightarrow> JNull | Some v \<Rightarrow> sort_json v)"
  by (simp add: jindex_def jget_sorted_entry split: option.split)

lemma chain_data_entry: "chain_data (sort_json (entry_json e)) = entry_hashed e"
  by (simp add: chain_data_def jindex_sorted_entry jget_entry_json entry_hashed_def)

section \<open>What the outside promises\<close>

text \<open>
  The JSON reader inverts the writer on entries and manifests, giving objects in key order; text in UTF-8
  needs no repair; an archive that was written, which takes no name twice, reads back as its files;
  and Base64 of a signature is ASCII text that ends with padding.
\<close>

definition bundle_laws :: "audit_codec \<Rightarrow> bundle_codec \<Rightarrow> bool" where
  "bundle_laws c b \<longleftrightarrow>
     (\<forall>e. parse_json b (json_text c (entry_json e)) = Ok (sort_json (entry_json e)))
     \<and> (\<forall>spec project framework files chain key digest sig.
          let m = manifest_json c spec project framework files chain (signing_json key digest sig)
          in parse_json b (json_text c m) = Ok m)
     \<and> (\<forall>s. valid_utf8 s \<longrightarrow> lossy b s = s)
     \<and> (\<forall>files bytes. zip_write b files = Ok bytes \<longrightarrow> distinct (map fst files)
          \<and> unzip_entries b bytes = Ok (map (\<lambda>(p, s). ZipEntry (Ok p) (length s) (Some s)) files))
     \<and> (\<forall>s. length s = 64 \<longrightarrow> length (base64 b s) = 88 \<and> list_all (\<lambda>x. byte x < 128) (base64 b s)
          \<and> last (base64 b s) = CHR ''='')"

lemma bundle_lawsD:
  assumes "bundle_laws c b"
  shows "parse_json b (json_text c (entry_json e)) = Inr (sort_json (entry_json e))"
    "parse_json b (json_text c (manifest_json c spec project framework files chain (signing_json key digest sig)))
       = Inr (manifest_json c spec project framework files chain (signing_json key digest sig))"
    "valid_utf8 s \<Longrightarrow> lossy b s = s"
    "zip_write b files = Inr bytes \<Longrightarrow> distinct (map fst files)"
    "zip_write b files = Inr bytes \<Longrightarrow> unzip_entries b bytes = Inr (map (\<lambda>(p, s). ZipEntry (Ok p) (length s) (Some s)) files)"
    "length s = 64 \<Longrightarrow> length (base64 b s) = 88" "length s = 64 \<Longrightarrow> list_all (\<lambda>x. byte x < 128) (base64 b s)"
    "length s = 64 \<Longrightarrow> last (base64 b s) = CHR ''=''"
  using assms unfolding bundle_laws_def Let_def by blast+

section \<open>The manifest\<close>

lemma manifest_canonical [simp]:
  "sort_json (manifest_json c spec project framework files chain (signing_json key digest sig))
     = manifest_json c spec project framework files chain (signing_json key digest sig)"
proof -
  have "sort_json (manifest_files c files) = manifest_files c files"
    by (auto simp: manifest_files_def case_prod_unfold intro!: sort_json_jobj)
  moreover have "sort_json (signing_json key digest sig) = signing_json key digest sig"
    unfolding signing_json_def by (rule sort_json_jobj) auto
  ultimately show ?thesis unfolding manifest_json_def
    by (intro sort_json_jobj) (auto intro!: sort_json_jobj)
qed

lemma jobj_ext: "(\<And>k. map_of (rev fs) k = map_of (rev gs) k) \<Longrightarrow> jobj fs = jobj gs"
proof -
  assume "\<And>k. map_of (rev fs) k = map_of (rev gs) k"
  then have "map_of (fold (\<lambda>(k, v). al_insert k v) fs []) = map_of (fold (\<lambda>(k, v). al_insert k v) gs [])"
    by (auto simp: map_of_fold_al_insert)
  then show ?thesis by (auto simp: jobj_def intro!: ascending_ext ascending_fold)
qed

lemma set_key_jobj: "set_key k v (jobj fs) = Some (jobj (fs @ [(k, v)]))"
  by (simp add: jobj_def)

lemma unsigned_manifest_json:
  "unsigned_manifest (manifest_json c spec project framework files chain (signing_json key digest sig))
     = Some (manifest_json c spec project framework files chain (signing_json key [] []))"
proof -
  have "jindex (manifest_json c spec project framework files chain (signing_json key digest sig)) ''signing'' = signing_json key digest sig"
    by (simp add: jindex_def manifest_json_def jget_jobj)
  moreover have "set_key ''signature'' (JString []) (signing_json key digest sig) = Some (signing_json key digest [])"
    unfolding signing_json_def set_key_jobj by (auto intro: jobj_ext)
  moreover have "set_key ''signed_digest'' (JString []) (signing_json key digest []) = Some (signing_json key [] [])"
    unfolding signing_json_def set_key_jobj by (auto intro: jobj_ext)
  moreover have "set_key ''signing'' v (manifest_json c spec project framework files chain w) = Some (manifest_json c spec project framework files chain v)" for v w
    unfolding manifest_json_def set_key_jobj by (auto intro: jobj_ext)
  ultimately show ?thesis by (simp add: unsigned_manifest_def)
qed

lemma manifest_fields:
  "jindex (manifest_json c spec project framework files chain signing) ''bundle'' = JString ''evidence-bundle''"
  "jindex (manifest_json c spec project framework files chain signing) ''version'' = JNumber ''1''"
  "jget (manifest_json c spec project framework files chain signing) ''files'' = Some (manifest_files c files)"
  "jindex (manifest_json c spec project framework files chain signing) ''signing'' = signing"
  "text_at (jindex (manifest_json c spec project framework files chain signing) ''chain'') ''anchor_prev_hash'' = fst (snd chain)"
  "text_at (jindex (manifest_json c spec project framework files chain signing) ''chain'') ''head_hash'' = snd (snd chain)"
  "jget (jindex (manifest_json c spec project framework files chain signing) ''chain'') ''entries'' = Some (JNumber (show_nat (fst chain)))"
  "text_at (signing_json key digest sig) ''public_key'' = key"
  "text_at (signing_json key digest sig) ''signed_digest'' = digest"
  "text_at (signing_json key digest sig) ''signature'' = sig"
  by (simp_all add: manifest_json_def jindex_def jget_jobj text_at_def signing_json_def)

lemma listed_manifest_files:
  "listed_files (manifest_json c spec project framework files chain signing) = map (\<lambda>(p, s). (p, bundle_sha256_hex c s)) files"
proof -
  have "List.map_filter (\<lambda>f. case (as_str (jget f ''path''), as_str (jget f ''sha256'')) of (Some p, Some h) \<Rightarrow> Some (p, h) | _ \<Rightarrow> None)
      (map (\<lambda>(path, bytes). jobj [(''path'', JString path), (''sha256'', JString (bundle_sha256_hex c bytes))]) files)
    = map (\<lambda>(p, s). (p, bundle_sha256_hex c s)) files"
    by (induction files) (auto simp: map_filter_simps jget_jobj)
  then show ?thesis by (simp add: listed_files_def manifest_fields manifest_files_def)
qed

section \<open>The exported segment\<close>

definition in_period :: "(audit_entry \<Rightarrow> int) \<Rightarrow> int \<Rightarrow> int \<Rightarrow> audit_entry \<Rightarrow> bool" where
  "in_period at from until e \<longleftrightarrow> from \<le> at e \<and> at e \<le> until"

abbreviation entry_line :: "audit_codec \<Rightarrow> audit_entry \<Rightarrow> string" where
  "entry_line c e \<equiv> json_text c (entry_json e)"

definition take_entry :: "audit_codec \<Rightarrow> audit_entry \<Rightarrow> segment_state \<Rightarrow> segment_state" where
  "take_entry c e s = \<lparr>segment_lines = segment_lines s @ [entry_line c e],
     anchor_prev_hash = (case anchor_prev_hash s of None \<Rightarrow> Some (prev_hash e) | Some a \<Rightarrow> Some a), head_hash = entry_hash e\<rparr>"

text \<open>Entries that read back, with the instants of their timestamps.\<close>

definition dated :: "bundle_codec \<Rightarrow> (audit_entry \<Rightarrow> int) \<Rightarrow> audit_entry list \<Rightarrow> bool" where
  "dated b at es \<longleftrightarrow> (\<forall>e\<in>set es. rfc3339_instant b (timestamp e) = Ok (at e) \<and> output_tokens e \<le> u32_max \<and> writable (event_type e))"

lemma export_lines_entries:
  assumes "json_laws c" "dated b at es"
  shows "export_lines c b from until n (map (entry_line c) es) s = Inr (fold (take_entry c) (filter (in_period at from until) es) s)"
  using assms(2)
proof (induction es arbitrary: n s)
  case (Cons e es)
  then have "rfc3339_instant b (timestamp e) = Inr (at e)" "entry_of_json (entry_json e) = Some e"
    by (simp_all add: dated_def entry_of_entry_json)
  then have "export_values c b from until n (json_values c (entry_line c e)) False s
      = Inr (if in_period at from until e then take_entry c e s else s)"
    by (auto simp: json_lawsD(1) [OF assms(1)] in_period_def take_entry_def)
  moreover have "dated b at es" using Cons.prems by (simp add: dated_def)
  ultimately show ?case using Cons.IH by simp
qed simp

lemma fold_take_entry:
  "segment_lines (fold (take_entry c) ws s) = segment_lines s @ map (entry_line c) ws"
  "anchor_prev_hash (fold (take_entry c) ws s) =
     (case anchor_prev_hash s of Some a \<Rightarrow> Some a | None \<Rightarrow> if ws = [] then None else Some (prev_hash (hd ws)))"
  "head_hash (fold (take_entry c) ws s) = head_after (head_hash s) ws"
  by (induction ws arbitrary: s) (auto simp: take_entry_def head_after_def split: option.split)

lemma str_lines_text: "json_laws c \<Longrightarrow> str_lines (text_of c es) = map (entry_line c) es"
  by (simp add: str_lines_def raw_lines_text strip_cr_line)

text \<open>The segment of a text of entries is the text of those in the period.\<close>

lemma export_segment_text:
  assumes "json_laws c" "dated b at es" "export_segment c b from until (text_of c es) = Inr (seg, n, anchor, head)"
  defines "ws \<equiv> filter (in_period at from until) es"
  shows "ws \<noteq> []" "seg = text_of c ws" "n = length ws" "anchor = prev_hash (hd ws)" "head = entry_hash (last ws)"
proof -
  let ?s = "fold (take_entry c) ws \<lparr>segment_lines = [], anchor_prev_hash = None, head_hash = []\<rparr>"
  have s: "(if segment_lines ?s = [] then Err ''no audit entries in the period: nothing to attest''
     else Ok (concat (map (\<lambda>l. l @ [CHR 0x0A]) (segment_lines ?s)), length (segment_lines ?s),
              (case anchor_prev_hash ?s of Some a \<Rightarrow> a | None \<Rightarrow> []), head_hash ?s)) = Inr (seg, n, anchor, head)"
    using assms(3) unfolding ws_def by (simp add: export_segment_def str_lines_text [OF assms(1)] export_lines_entries [OF assms(1,2)] split del: if_split)
  then show "ws \<noteq> []" by (auto simp: fold_take_entry)
  moreover have "text_of c ws = concat (map (\<lambda>e. entry_line c e @ [CHR 0x0A]) ws)"
    unfolding text_of_def line_of_def ..
  ultimately show "seg = text_of c ws" "n = length ws" "anchor = prev_hash (hd ws)" "head = entry_hash (last ws)"
    using s by (simp_all add: fold_take_entry head_after_def o_def)
qed

lemma sorted_period:
  assumes "sorted (map at es)"
  obtains pre post where "es = pre @ filter (in_period at from until) es @ post"
proof -
  have tail: "\<exists>post. xs = filter (in_period at from until) xs @ post" if "sorted (map at xs)" "\<forall>x\<in>set xs. from \<le> at x" for xs
    using that
  proof (induction xs)
    case (Cons x xs)
    show ?case
    proof (cases "at x \<le> until")
      case True
      then show ?thesis using Cons by (auto simp: in_period_def)
    next
      case False
      then have "filter (in_period at from until) (x # xs) = []" using Cons.prems by (auto simp: in_period_def filter_empty_conv)
      then show ?thesis by simp
    qed
  qed simp
  have "\<exists>pre post. es = pre @ filter (in_period at from until) es @ post"
    using assms
  proof (induction es)
    case (Cons x xs)
    show ?case
    proof (cases "from \<le> at x")
      case True
      then have "\<forall>y\<in>set (x # xs). from \<le> at y" using Cons.prems by auto
      then show ?thesis using tail [of "x # xs"] Cons.prems by (metis append_Nil)
    next
      case False
      then obtain pre post where "xs = pre @ filter (in_period at from until) xs @ post" using Cons by auto
      then have "x # xs = (x # pre) @ filter (in_period at from until) (x # xs) @ post" using False by (simp add: in_period_def)
      then show ?thesis by blast
    qed
  qed simp
  then show ?thesis using that by blast
qed

section \<open>The segment replays\<close>

lemma replay_linked:
  assumes "bundle_laws c b" "linked c prev ws"
  shows "replay c b (map (entry_line c) ws) prev n = Inr (head_after prev ws, n + length ws)"
  using assms(2)
proof (induction ws arbitrary: prev n)
  case (Cons e ws)
  let ?v = "sort_json (entry_json e)"
  have f: "prev_hash e = prev" "entry_hash e = sha256_hex c (prev @ json_text c (entry_hashed e))" "linked c (entry_hash e) ws"
    using Cons.prems unfolding linked.simps follows_def compute_entry_hash_def sha256_hex_def by blast+
  have v: "jindex ?v ''prev_hash'' = JString prev" "text_at ?v ''entry_hash'' = entry_hash e"
    by (simp_all add: jindex_def text_at_def jget_sorted_entry jget_entry_json f(1))
  show ?case using Cons.IH [OF f(3), of "n + 1"]
    by (simp add: bundle_lawsD(1) [OF assms(1)] v chain_data_entry f(2) [symmetric] Let_def head_after_def)
qed (simp add: head_after_def)

lemma valid_utf8_text: "json_laws c \<Longrightarrow> valid_utf8 (text_of c es)"
  by (induction es) (simp_all add: line_of_def valid_utf8_append json_lawsD(5) byte_def)

lemma verify_chain_segment:
  assumes "json_laws c" "bundle_laws c b" "linked c anchor ws" "ws \<noteq> []"
    and "bget files ''audit/trail.jsonl'' = Some (text_of c ws)" and "length ws \<le> u64_max"
  shows "status (verify_chain c b files
     (manifest_json c spec project framework fs (length ws, anchor, entry_hash (last ws)) signing)) = Pass"
  using assms(4-6)
  by (simp add: verify_chain_def Let_def bundle_lawsD(3) [OF assms(2) valid_utf8_text [OF assms(1)]] str_lines_text [OF assms(1)]
      replay_linked [OF assms(2,3)] count_at_def manifest_fields parse_digits_show_nat head_after_def mk_step_def)

section \<open>Reading the trail\<close>

lemma join_files_texts:
  "json_laws c \<Longrightarrow> join_files (map (text_of c) ess) (text_of c es) = Inr (text_of c (es @ concat ess))"
proof (induction ess arbitrary: es)
  case (Cons fs ess)
  have "text_of c es @ text_of c fs = text_of c (es @ fs)" by simp
  moreover have "text_of c (es @ fs) = [] \<or> last (text_of c (es @ fs)) = CHR 0x0A"
    using ends_on_newline_text [of c "es @ fs"] by (simp only: ends_on_newline_def)
  ultimately show ?case using Cons.IH [OF Cons.prems, of "es @ fs"] valid_utf8_text [OF Cons.prems]
    by (auto simp del: text_of_simps text_of_eq_Nil simp: Let_def)
qed simp

text \<open>A segment that is left out has no entry of the period when its times are in order.\<close>

lemma sealed_since_text:
  assumes "json_laws c" "dated b at es" "sorted (map at es)" "\<not> sealed_since c b (Some from) (text_of c es)"
  shows "filter (in_period at from until) es = []"
proof -
  from assms(4) obtain v t where v: "read_tail_entry c (text_of c es) = Inr (Some v)" "entry_time b v = Some t" "t < from"
    by (auto simp: sealed_since_def split: option.splits sum.splits)
  from tail_of_text [OF assms(1) v(1)] have es: "es \<noteq> []" "v = entry_json (last es)" by (auto split: if_splits)
  then have "t = at (last es)" using v(2) assms(2) by (simp add: entry_time_def jget_entry_json dated_def)
  moreover have "at e \<le> at (last es)" if "e \<in> set es" for e
    using assms(3) that es(1) by (cases es rule: rev_cases) (auto simp: sorted_append)
  ultimately show ?thesis using v(3) by (fastforce simp: in_period_def filter_empty_conv)
qed

lemma read_trail_represents:
  assumes "json_laws c" "represents c t ess act" "dated b at (trail_entries ess act)" "sorted (map at (trail_entries ess act))"
    and "read_trail_since c b t (Some from) = Inr (Some raw)"
  obtains es where "raw = text_of c es" "dated b at es"
    "filter (in_period at from until) es = filter (in_period at from until) (trail_entries ess act)"
proof -
  let ?keep = "\<lambda>es. sealed_since c b (Some from) (text_of c es)"
  define acts where "acts = (case act of None \<Rightarrow> [] | Some es \<Rightarrow> [es])"
  have es: "trail_entries ess act = concat ess @ concat acts" by (cases act) (simp_all add: acts_def)
  have "trail_files_since c b t (Some from) = map (text_of c) (filter ?keep ess @ acts)"
    using assms(2) by (cases act) (simp_all add: trail_files_since_def represents_def acts_def filter_map o_def)
  then have raw: "raw = text_of c (concat (filter ?keep ess @ acts))"
    using assms(5) join_files_texts [OF assms(1), of "filter ?keep ess @ acts" "[]"]
    by (auto simp: read_trail_since_def Let_def ebind_eq_Ok simp del: text_of_simps(3) map_append concat_append split: if_splits)
  have seg: "filter (in_period at from until) fs = []" if "fs \<in> set ess" "\<not> ?keep fs" for fs
  proof (rule sealed_since_text [OF assms(1) _ _ that(2)])
    from that(1) obtain xs ys where "ess = xs @ fs # ys" by (meson split_list)
    then have "trail_entries ess act = concat xs @ fs @ concat ys @ concat acts" unfolding es by simp
    then show "dated b at fs" "sorted (map at fs)" using assms(3,4) by (auto simp: dated_def sorted_append)
  qed
  have "filter (in_period at from until) (concat (filter ?keep ess)) = filter (in_period at from until) (concat ess)"
    using seg by (induction ess) (auto simp: filter_concat)
  then show ?thesis using that [OF raw] assms(3) by (auto simp: es dated_def)
qed

section \<open>Archives\<close>

lemma take_whole:
  "length s \<le> u64_max \<Longrightarrow> min (length s) (saturating_add u64_max (length s) (Suc 0)) = length s"
  "length s \<le> u64_max \<Longrightarrow> take (saturating_add u64_max (length s) (Suc 0)) s = s"
  by (simp_all add: saturating_add_def)

definition fits :: "archive_limits \<Rightarrow> (string \<times> string) list \<Rightarrow> bool" where
  "fits lim files \<longleftrightarrow> length files \<le> max_entries lim \<and> list_all (\<lambda>f. length (snd f) \<le> entry_bytes lim) files
     \<and> sum_list (map (\<lambda>f. length (snd f)) files) \<le> total_bytes lim"

lemma read_stored:
  assumes "list_all (\<lambda>f. length (snd f) \<le> entry_bytes lim) files" "n + sum_list (map (\<lambda>f. length (snd f)) files) \<le> total_bytes lim"
    and "total_bytes lim \<le> u64_max"
  shows "read_entries lim i n (map (\<lambda>(p, s). ZipEntry (Ok p) (length s) (Some s)) files) acc = Inr (fold (\<lambda>(p, s). binsert p s) files acc)"
  using assms(1,2)
proof (induction files arbitrary: i n acc)
  case (Cons f files)
  obtain p s where f: "f = (p, s)" by force
  have "checked_add u64_max n (length s) = Some (n + length s)" "length s \<le> u64_max"
    using Cons.prems(2) assms(3) by (simp_all add: f checked_add_def)
  then show ?case using Cons.IH [of "n + length s" "i + 1"] Cons.prems by (simp add: f take_whole Let_def)
qed simp

lemma bget_fold_binsert: "distinct (map fst files) \<Longrightarrow> bget (fold (\<lambda>(p, s). binsert p s) files bempty) k = map_of files k"
proof -
  have "bget (fold (\<lambda>(p, s). binsert p s) files acc) = bget acc ++ map_of (rev files)" for acc
  proof (induction files arbitrary: acc)
    case (Cons f files)
    obtain p s where f: "f = (p, s)" by force
    show ?case by (rule ext) (simp add: f Cons map_add_def split: option.split)
  qed simp
  moreover assume "distinct (map fst files)"
  ultimately show ?thesis by (simp add: map_of_rev bget_entries map_add_def split: option.split)
qed

end
