(* ===== verification/Bundle_Props.thy ===== *)
theory Bundle_Props
  imports Bundle_Laws
begin

text \<open>
  The properties of evidence bundles: what the engine generates replays in the independent verifier, its
  manifest signature is refused there, and a manifest that verifies determines the payload of its archive.
\<close>

section \<open>Hexadecimal text\<close>

lemma hex_value_ascii: "hex_value x = Some n \<Longrightarrow> byte x < 128"
  by (auto simp: hex_value_def is_ascii_digit_def is_lower_hex_def is_ascii_hexdigit_def split: if_splits)

lemma hex_pair_ascii: "hex_pair x y = Some z \<Longrightarrow> byte x < 128 \<and> byte y < 128"
  by (auto simp: hex_pair_def byte_def dest: hex_value_ascii split: if_splits option.splits)

text \<open>Text the engine decodes, the verifier decodes to the same bytes.\<close>

lemma bundle_hex_decode_engine: "hex_decode s = Some bs \<Longrightarrow> bundle_hex_decode s = Some (Some bs)"
proof -
  have "hex_slices s = Some (Some bs) \<and> even (length s) \<and> (s \<noteq> [] \<longrightarrow> byte (hd s) < 128)" if "hex_decode s = Some bs"
    using that
  proof (induction s arbitrary: bs rule: hex_decode.induct)
    case (3 x y s)
    then obtain z zs where z: "hex_pair x y = Some z" "hex_decode s = Some zs" "bs = z # zs" by (auto split: option.splits)
    from 3(1) [OF z(2)] hex_pair_ascii [OF z(1)] z show ?case by auto
  qed simp_all
  moreover assume "hex_decode s = Some bs"
  ultimately show ?thesis by (simp add: bundle_hex_decode_def)
qed

text \<open>ASCII text of even length that ends with padding is no hexadecimal text, and decoding it does not panic.\<close>

lemma bundle_hex_decode_padded:
  assumes "even (length s)" "list_all (\<lambda>x. byte x < 128) s" "s \<noteq> []" "last s = CHR ''=''"
  shows "bundle_hex_decode s = Some None"
proof -
  have pad: "hex_pair x (CHR ''='') = None" for x
    by (simp add: hex_pair_def hex_value_def is_ascii_digit_def is_lower_hex_def is_ascii_hexdigit_def byte_def split: option.split)
  have "hex_slices s = Some None" if "list_all (\<lambda>x. byte x < 128) s" "even (length s)" "s \<noteq> []" "last s = CHR ''=''" for s
    using that
  proof (induction s rule: hex_slices.induct)
    case (3 x y s)
    show ?case
    proof (cases s)
      case Nil
      then show ?thesis using 3 pad by simp
    next
      case (Cons z zs)
      then show ?thesis using 3 by (simp split: option.split)
    qed
  qed simp_all
  then show ?thesis using assms by (simp add: bundle_hex_decode_def)
qed

section \<open>Steps of the verifier\<close>

lemma check_listed_iff:
  "check_listed c files ls = Inr () \<longleftrightarrow> (\<forall>(p, h)\<in>set ls. \<exists>s. bget files p = Some s \<and> sha256_hex c s = h)"
  by (induction c files ls rule: check_listed.induct) (auto split: option.splits)

definition outside_inventory :: "string \<Rightarrow> bool" where
  "outside_inventory name \<longleftrightarrow> name = ''manifest.json'' \<or> (name \<noteq> [] \<and> last name = CHR ''/'')
     \<or> list_ex (\<lambda>d. starts_with d name) RESERVED_DIRS"

lemma check_unlisted_iff:
  "check_unlisted ls names = Inr () \<longleftrightarrow> (\<forall>n\<in>set names. n \<in> fst ` set ls \<or> outside_inventory n)"
proof (induction names)
  case (Cons n ns)
  show ?case
  proof (cases "n = ''manifest.json'' \<or> (n \<noteq> [] \<and> last n = CHR ''/'')")
    case True
    then have "outside_inventory n" unfolding outside_inventory_def by blast
    then show ?thesis using True Cons by simp
  next
    case False
    then have "outside_inventory n \<longleftrightarrow> list_ex (\<lambda>d. starts_with d n) RESERVED_DIRS" unfolding outside_inventory_def by blast
    then show ?thesis using False Cons by (simp, blast)
  qed
qed simp

lemma in_bkeys: "n \<in> set (bkeys files) \<longleftrightarrow> bget files n \<noteq> None"
  unfolding bkeys_def bget_entries map_of_eq_None_iff by simp

lemma check_inventory_iff:
  "check_inventory c files ls = Inr () \<longleftrightarrow> ls \<noteq> []
     \<and> (\<forall>(p, h)\<in>set ls. \<exists>s. bget files p = Some s \<and> sha256_hex c s = h)
     \<and> (\<forall>n. bget files n \<noteq> None \<longrightarrow> n \<in> fst ` set ls \<or> outside_inventory n)"
  unfolding check_inventory_def ebind_eq_Ok ensure_eq_Ok check_listed_iff check_unlisted_iff in_bkeys [symmetric] Ball_def
  by (simp add: check_listed_iff Ball_def)

lemma verify_files_eq:
  assumes "bget files ''manifest.json'' = Some m" "parse_json b m = Inr manifest"
    and "jindex manifest ''bundle'' = JString ''evidence-bundle''" "jindex manifest ''version'' = JNumber ''1''"
    and "verify_files c b files key = Some r"
  obtains sig entry where
    "verify_manifest_signature c b manifest (case key of Some k \<Rightarrow> k | None \<Rightarrow> text_at (jindex manifest ''signing'') ''public_key'')
       (text_at (jindex manifest ''signing'') ''public_key'') = Some sig"
    "verify_entry_signatures b files (case key of Some k \<Rightarrow> k | None \<Rightarrow> text_at (jindex manifest ''signing'') ''public_key'') = Some entry"
    "report_valid r \<longleftrightarrow> check_inventory c files (listed_files manifest) = Inr ()
       \<and> status (verify_chain c b files manifest) = Pass \<and> status sig = Pass \<and> status entry \<noteq> Fail"
    "map status (steps r) = [Pass, if check_inventory c files (listed_files manifest) = Inr () then Pass else Fail,
       status (verify_chain c b files manifest), status sig, status entry]"
  using assms by (auto simp: verify_files_def Let_def mk_step_def bind_eq_Some_conv split: sum.splits if_splits)

section \<open>What is generated\<close>

lemma signed_manifest_eq_Ok:
  assumes "signed_manifest c b manifest (key, sign) = Inr m"
  obtains plain where "m = manifest (signing_json (hex_encode key)
     (bundle_sha256_hex c (canonical_serialize c (manifest (signing_json (hex_encode key) [] [])))) (base64 b (sign plain)))"
  using assms unfolding signed_manifest_def Let_def sign_manifest_def fst_conv snd_conv
  by (auto elim!: ebind_OkE simp: map_err_eq_Ok ebind_eq_Ok)

text \<open>The manifest over the payload with its digest and a signature.\<close>

definition sealed_manifest ::
  "audit_codec \<Rightarrow> bundle_env \<Rightarrow> bundle_spec \<Rightarrow> (string \<times> string) list \<Rightarrow> nat \<times> string \<times> string \<Rightarrow> string \<Rightarrow> string \<Rightarrow> json" where
  "sealed_manifest c env spec files chain key sig =
     (let sealed = (\<lambda>digest sig. manifest_json c spec (project_name env) (map_option fst (framework_report env)) files chain
           (signing_json (hex_encode key) digest sig))
      in sealed (bundle_sha256_hex c (json_text c (sealed [] []))) sig)"

lemma assemble_bundle_eq_Ok:
  assumes "assemble_bundle c b env spec (seg, chain) = Inr (res, bytes)"
  obtains files key sign plain where
    "keypair env = Inr (key, sign)" "(''audit/trail.jsonl'', seg) \<in> set files" "bundle_entries res = fst chain"
    "zip_write b (sort_key fst ((''manifest.json'', json_text c (sealed_manifest c env spec files chain key (base64 b (sign plain)))) # files)) = Inr bytes"
proof -
  from assms obtain files manifest where f: "payload_files c env seg = Inr files"
    "bundle_manifest c b env spec files chain = Inr manifest"
    "write_bundle c b env spec (fst chain) (sort_key fst ((''manifest.json'', canonical_serialize c manifest) # files)) = Inr (res, bytes)"
    unfolding assemble_bundle_def fst_conv snd_conv by (elim ebind_OkE)
  from f(1) have seg: "(''audit/trail.jsonl'', seg) \<in> set files"
    unfolding payload_files_def by (elim ebind_OkE) (metis Inr_inject list.set_intros(1) set_sort)
  from f(2) obtain kp where kp: "keypair env = Inr kp"
    "signed_manifest c b (manifest_json c spec (project_name env) (map_option fst (framework_report env)) files chain) kp = Inr manifest"
    unfolding bundle_manifest_def by (elim ebind_OkE) (simp only: map_err_eq_Ok)
  obtain key sign where k: "kp = (key, sign)" by force
  from signed_manifest_eq_Ok [OF kp(2) [unfolded k]] obtain plain where
    "manifest = sealed_manifest c env spec files chain key (base64 b (sign plain))"
    unfolding sealed_manifest_def Let_def canonical_serialize_def manifest_canonical by metis
  moreover have "canonical_serialize c (sealed_manifest c env spec files chain key sig) = json_text c (sealed_manifest c env spec files chain key sig)" for sig
    by (simp add: sealed_manifest_def Let_def canonical_serialize_def)
  moreover from f(3) have "zip_write b (sort_key fst ((''manifest.json'', canonical_serialize c manifest) # files)) = Inr bytes"
    and n: "bundle_entries res = fst chain"
    unfolding write_bundle_def by (elim ebind_OkE, fastforce)+
  ultimately show ?thesis using that [OF kp(1) [unfolded k] seg n] by metis
qed

lemma generate_with_eq_Ok:
  assumes "generate_with c b env t spec = Inr (res, bytes)"
  obtains lo hi raw segment where
    "rfc3339_instant b (spec_from spec) = Inr lo" "rfc3339_instant b (spec_to spec) = Inr hi"
    "read_trail_since c b t (Some lo) = Inr (Some raw)" "export_segment c b lo hi raw = Inr segment"
    "assemble_bundle c b env spec segment = Inr (res, bytes)"
  using assms unfolding generate_with_def by (elim ebind_OkE) (auto simp: map_err_eq_Ok split: option.splits)

lemma read_entries_Inl: "read_entries lim i n es files = Inl r \<Longrightarrow> \<not> report_valid r"
  by (induction lim i n es files rule: read_entries.induct)
    (auto simp: archive_limit_failure_def Let_def split: if_splits option.splits)

lemma read_stored_Ok:
  "read_entries lim i n (map (\<lambda>(p, s). ZipEntry (Ok p) (length s) (Some s)) files) acc = Inr m
     \<Longrightarrow> m = fold (\<lambda>(p, s). binsert p s) files acc"
proof (induction files arbitrary: i n acc)
  case (Cons f files)
  obtain p s where f: "f = (p, s)" by force
  show ?case using Cons by (auto simp: f Let_def min_def split: if_splits option.splits)
qed simp

text \<open>The verifier on an archive that was written.\<close>

lemma verify_written:
  assumes "bundle_laws c b" "zip_write b files = Inr bytes" "verify_bundle c b bytes key = Some r"
  shows "\<not> report_valid r \<or> verify_files c b (fold (\<lambda>(p, s). binsert p s) files bempty) key = Some r"
  using assms(3) bundle_lawsD(5) [OF assms(1,2)]
  by (auto simp: verify_bundle_def verify_bundle_with_limits_def archive_limit_failure_def
      split: if_splits sum.splits dest: read_entries_Inl read_stored_Ok)

text \<open>The files of an archive within the limits of the verifier.\<close>

definition bundle_contents :: "bundle_codec \<Rightarrow> string \<Rightarrow> (string, string) btree_map option" where
  "bundle_contents b raw =
     (case unzip_entries b raw of
        Inr es \<Rightarrow> (case read_entries DEFAULT_ARCHIVE_LIMITS 0 0 es bempty of Inr files \<Rightarrow> Some files | Inl _ \<Rightarrow> None)
      | Inl _ \<Rightarrow> None)"

lemma stored_within_limits:
  assumes "fits DEFAULT_ARCHIVE_LIMITS files"
  shows "read_entries DEFAULT_ARCHIVE_LIMITS 0 0 (map (\<lambda>(p, s). ZipEntry (Ok p) (length s) (Some s)) files) bempty
    = Inr (fold (\<lambda>(p, s). binsert p s) files bempty)"
proof -
  have "total_bytes DEFAULT_ARCHIVE_LIMITS \<le> u64_max" by (simp add: DEFAULT_ARCHIVE_LIMITS_def u64_max_def)
  then show ?thesis using assms by (intro read_stored) (auto simp: fits_def)
qed

lemma verify_written_fits:
  assumes "bundle_laws c b" "zip_write b files = Inr bytes" "fits DEFAULT_ARCHIVE_LIMITS files"
    and "length bytes \<le> raw_bytes DEFAULT_ARCHIVE_LIMITS"
  shows "verify_bundle c b bytes key = verify_files c b (fold (\<lambda>(p, s). binsert p s) files bempty) key"
  using stored_within_limits [OF assms(3)] assms(3,4) bundle_lawsD(5) [OF assms(1,2)]
  by (simp add: verify_bundle_def verify_bundle_with_limits_def fits_def)

lemma written_contents:
  assumes "bundle_laws c b" "zip_write b files = Inr bytes" "fits DEFAULT_ARCHIVE_LIMITS files"
  shows "bundle_contents b bytes = Some (fold (\<lambda>(p, s). binsert p s) files bempty)"
  using stored_within_limits [OF assms(3)] bundle_lawsD(5) [OF assms(1,2)] by (simp add: bundle_contents_def)

text \<open>A generated archive: its files are the payload and a manifest over it, which the verifier reads back.\<close>

lemma generated_archive:
  assumes "bundle_laws c b" "assemble_bundle c b env spec (seg, chain) = Inr (res, bytes)" "keypair env = Inr (key, sign)"
  obtains plain files all m where
    "(''audit/trail.jsonl'', seg) \<in> set files" "zip_write b all = Inr bytes"
    "m = sealed_manifest c env spec files chain key (base64 b (sign plain))"
    "bget (fold (\<lambda>(p, s). binsert p s) all bempty) ''manifest.json'' = Some (json_text c m)" "parse_json b (json_text c m) = Inr m"
    "bundle_entries res = fst chain" "distinct (map fst all)" "set all = insert (''manifest.json'', json_text c m) (set files)"
proof -
  from assms(2) obtain files key' sign' plain where k': "keypair env = Inr (key', sign')" and
    k: "(''audit/trail.jsonl'', seg) \<in> set files" "bundle_entries res = fst chain" and
    z': "zip_write b (sort_key fst ((''manifest.json'', json_text c (sealed_manifest c env spec files chain key' (base64 b (sign' plain)))) # files)) = Inr bytes"
    by (rule assemble_bundle_eq_Ok)
  have "key' = key" "sign' = sign" using k' assms(3) by simp_all
  note z = z' [unfolded this]
  define m where "m = sealed_manifest c env spec files chain key (base64 b (sign plain))"
  define all where "all = sort_key fst ((''manifest.json'', json_text c m) # files)"
  have zip: "zip_write b all = Inr bytes" using z unfolding all_def m_def .
  note distinct = bundle_lawsD(4) [OF assms(1) zip]
  have set: "set all = insert (''manifest.json'', json_text c m) (set files)" unfolding all_def set_sort by simp
  then have "bget (fold (\<lambda>(p, s). binsert p s) all bempty) ''manifest.json'' = Some (json_text c m)"
    using distinct by (simp add: bget_fold_binsert)
  moreover have "parse_json b (json_text c m) = Inr m"
    unfolding m_def sealed_manifest_def Let_def by (rule bundle_lawsD(2) [OF assms(1)])
  ultimately show ?thesis using that [OF k(1) zip m_def _ _ k(2) distinct set] by blast
qed

lemma sealed_manifest_fields:
  "jindex (sealed_manifest c env spec files chain key sig) ''bundle'' = JString ''evidence-bundle''"
  "jindex (sealed_manifest c env spec files chain key sig) ''version'' = JNumber ''1''"
  "text_at (jindex (sealed_manifest c env spec files chain key sig) ''signing'') ''public_key'' = hex_encode key"
  "listed_files (sealed_manifest c env spec files chain key sig) = map (\<lambda>(p, s). (p, bundle_sha256_hex c s)) files"
  by (simp_all add: sealed_manifest_def Let_def manifest_fields listed_manifest_files)

text \<open>The verifier cannot read the signature of a generated manifest, whatever key it is given.\<close>

lemma refused_signature:
  assumes "bundle_laws c b" "length raw = 64"
    and m: "m = sealed_manifest c env spec files chain key (base64 b raw)"
  shows "verify_manifest_signature c b m k k' = Some s \<Longrightarrow> status s = Fail"
    and "\<exists>s. verify_manifest_signature c b m (hex_encode key) k' = Some s"
proof -
  have "bundle_hex_decode (base64 b raw) = Some None"
    using bundle_lawsD(6-8) [OF assms(1,2)] by (intro bundle_hex_decode_padded) (auto simp del: length_greater_0_conv)
  then show "verify_manifest_signature c b m k k' = Some s \<Longrightarrow> status s = Fail"
    "\<exists>s. verify_manifest_signature c b m (hex_encode key) k' = Some s"
    by (auto simp: m sealed_manifest_def verify_manifest_signature_def Let_def unsigned_manifest_json manifest_fields mk_step_def
        bundle_hex_decode_engine [OF hex_encode_props(3)] split: if_splits option.splits)
qed

text \<open>
  C25. No bundle of the generator passes the independent verifier: for every trail, period, policy and key, and
  whatever key the auditor brings, a report on an archive that \<open>generate_with\<close> returned is not valid.
  The manifest is signed by \<open>sign_manifest\<close>, in Base64, over the canonical manifest; the verifier reads hexadecimal
  digits, over the digest.
\<close>

theorem generated_bundle_refused:
  assumes "bundle_laws c b" and "generate_with c b env t spec = Ok (res, bytes)"
    and "\<forall>key sign m. keypair env = Ok (key, sign) \<longrightarrow> length (sign m) = 64"
    and "verify_bundle c b bytes auditor_key = Some r"
  shows "\<not> report_valid r"
proof (rule ccontr)
  assume valid: "\<not> \<not> report_valid r"
  obtain seg chain where asm: "assemble_bundle c b env spec (seg, chain) = Inr (res, bytes)"
    using generate_with_eq_Ok [OF assms(2)] by (metis surj_pair)
  then obtain key sign where k: "keypair env = Inr (key, sign)" by (rule assemble_bundle_eq_Ok)
  obtain plain files all m where g: "zip_write b all = Inr bytes" "m = sealed_manifest c env spec files chain key (base64 b (sign plain))"
    "bget (fold (\<lambda>(p, s). binsert p s) all bempty) ''manifest.json'' = Some (json_text c m)" "parse_json b (json_text c m) = Inr m"
    using generated_archive [OF assms(1) asm k] by metis
  have "verify_files c b (fold (\<lambda>(p, s). binsert p s) all bempty) auditor_key = Some r"
    using verify_written [OF assms(1) g(1) assms(4)] valid by simp
  from verify_files_eq [OF g(3,4) _ _ this, unfolded g(2) sealed_manifest_fields, folded g(2)] valid
  obtain s where s: "verify_manifest_signature c b m (case auditor_key of Some k \<Rightarrow> k | None \<Rightarrow> hex_encode key) (hex_encode key) = Some s" "status s = Pass"
    by auto
  have "length (sign plain) = 64" using assms(3) k by blast
  from refused_signature(1) [OF assms(1) this g(2) s(1)] s(2) show False by simp
qed

section \<open>What is generated replays\<close>

text \<open>The verifier's signature check agrees with the engine's, whose public key signs the trail.\<close>

definition key_laws :: "audit_codec \<Rightarrow> bundle_codec \<Rightarrow> string \<Rightarrow> bool" where
  "key_laws c b key \<longleftrightarrow> public_key c = Some key \<and> length key = 32 \<and> key_ok b key
     \<and> (\<forall>h s. verify_signature c key h s \<longrightarrow> length s = 64 \<and> ed25519 b key h s)"

lemma entry_signatures_linked:
  assumes "bundle_laws c b" "key_laws c b key" "linked c prev ws"
  shows "\<exists>p q. entry_signatures b key (map (entry_line c) ws) i g u = Some (Inr (p, q))"
  using assms(3)
proof (induction ws arbitrary: prev i g u)
  case (Cons e ws)
  let ?v = "sort_json (entry_json e)"
  have IH: "\<exists>p q. entry_signatures b key (map (entry_line c) ws) (Suc i) g' u' = Some (Inr (p, q))" for g' u'
    using Cons by auto
  have v: "as_str (jget ?v ''signature'') = signature e" "text_at ?v ''entry_hash'' = entry_hash e"
    by (cases "signature e"; simp add: text_at_def jget_sorted_entry jget_entry_json)+
  have ok: "signature_ok c e" using Cons.prems by (simp add: follows_def)
  show ?case
  proof (cases "signature e")
    case None
    then show ?thesis using IH by (simp add: bundle_lawsD(1) [OF assms(1)] v)
  next
    case (Some s)
    then obtain sb where sb: "hex_decode s = Some sb" "length sb = 64" "ed25519 b key (entry_hash e) sb"
      using ok assms(2) by (auto simp: signature_ok_def key_laws_def split: option.splits)
    then show ?thesis using IH bundle_hex_decode_engine [OF sb(1)] Some
      by (cases s) (simp_all add: bundle_lawsD(1) [OF assms(1)] v)
  qed
qed simp

lemma entry_step_passes:
  assumes "json_laws c" "bundle_laws c b" "key_laws c b key" "linked c prev ws"
    and "bget files ''audit/trail.jsonl'' = Some (text_of c ws)"
  shows "\<exists>s. verify_entry_signatures b files (hex_encode key) = Some s \<and> status s = Pass"
  using assms(5) entry_signatures_linked [OF assms(2-4), of 0 0 0] assms(3)
  by (auto simp: verify_entry_signatures_def Let_def bundle_lawsD(3) [OF assms(2) valid_utf8_text [OF assms(1)]] str_lines_text [OF assms(1)]
      bundle_hex_decode_engine [OF hex_encode_props(3)] key_of_def key_laws_def mk_step_def split: if_splits)

text \<open>The period of a trail whose times are in order is a stretch of its chain.\<close>

lemma period_linked:
  assumes "linked c prev es" "sorted (map at es)" "filter (in_period at from until) es \<noteq> []"
  defines "ws \<equiv> filter (in_period at from until) es"
  shows "linked c (prev_hash (hd ws)) ws"
proof -
  obtain pre post where "es = pre @ ws @ post" using sorted_period [OF assms(2)] unfolding ws_def by metis
  then have "linked c (head_after prev pre) ws" using assms(1) by (simp add: linked_append)
  moreover have "ws \<noteq> []" using assms(3) by (simp add: ws_def)
  ultimately show ?thesis by (cases ws) (auto simp: follows_def)
qed

lemma length_text_of: "length es \<le> length (text_of c es)"
  by (induction es) (simp_all add: line_of_def)

lemma generated_inventory:
  assumes "distinct (map fst all)" "set files \<subseteq> set all" "\<forall>f\<in>set all. f \<in> set files \<or> outside_inventory (fst f)" "files \<noteq> []"
  shows "check_inventory c (fold (\<lambda>(p, s). binsert p s) all bempty) (map (\<lambda>(p, s). (p, bundle_sha256_hex c s)) files) = Inr ()"
proof -
  have get: "bget (fold (\<lambda>(p, s). binsert p s) all bempty) n = map_of all n" for n using assms(1) by (rule bget_fold_binsert)
  have "\<exists>x. map_of all p = Some x \<and> sha256_hex c x = bundle_sha256_hex c s" if "(p, s) \<in> set files" for p s
    using that assms(1,2) by (intro exI [of _ s]) (auto simp: sha256_hex_def bundle_sha256_hex_def)
  moreover have "n \<in> fst ` set files \<or> outside_inventory n" if "map_of all n \<noteq> None" for n
  proof -
    from that obtain x where "(n, x) \<in> set all" by (auto dest: map_of_SomeD)
    then show ?thesis using assms(3) by force
  qed
  ultimately show ?thesis using assms(4) unfolding check_inventory_iff get by (auto simp: image_image case_prod_unfold)
qed

lemma linked_each: "linked c prev es \<Longrightarrow> e \<in> set es \<Longrightarrow> output_tokens e \<le> u32_max \<and> writable (event_type e)"
  by (induction es arbitrary: prev) (auto simp: follows_def)

lemma verify_files_steps:
  assumes "bget files ''manifest.json'' = Some m" "parse_json b m = Inr manifest"
    and "jindex manifest ''bundle'' = JString ''evidence-bundle''" "jindex manifest ''version'' = JNumber ''1''"
    and "verify_manifest_signature c b manifest (text_at (jindex manifest ''signing'') ''public_key'')
       (text_at (jindex manifest ''signing'') ''public_key'') = Some sig"
    and "verify_entry_signatures b files (text_at (jindex manifest ''signing'') ''public_key'') = Some entry"
  shows "\<exists>r. verify_files c b files None = Some r
    \<and> report_valid r = (check_inventory c files (listed_files manifest) = Inr () \<and> status (verify_chain c b files manifest) = Pass
         \<and> status sig = Pass \<and> status entry \<noteq> Fail)
    \<and> map status (steps r) =
    [Pass, if check_inventory c files (listed_files manifest) = Inr () then Pass else Fail,
       status (verify_chain c b files manifest), status sig, status entry]"
  using assms by (auto simp: verify_files_def Let_def mk_step_def split: sum.splits)

text \<open>
  The report on an archive with a linked segment and a manifest over it: everything hangs on the manifest
  signature.
\<close>

lemma packed_report:
  assumes laws: "json_laws c" "bundle_laws c b" and ws: "linked c (prev_hash (hd ws)) ws" "ws \<noteq> []" and key: "key_laws c b key"
    and m: "m = sealed_manifest c env spec files (length ws, prev_hash (hd ws), entry_hash (last ws)) key sig"
    and files: "(''audit/trail.jsonl'', text_of c ws) \<in> set files" "set files \<subseteq> set all" "(''manifest.json'', json_text c m) \<in> set all"
      "\<forall>f\<in>set all. f \<in> set files \<or> outside_inventory (fst f)"
    and zip: "zip_write b all = Inr bytes" "fits DEFAULT_ARCHIVE_LIMITS all" "length bytes \<le> raw_bytes DEFAULT_ARCHIVE_LIMITS"
    and s: "verify_manifest_signature c b m (hex_encode key) (hex_encode key) = Some s"
  shows "\<exists>r. verify_bundle c b bytes None = Some r \<and> (report_valid r \<longleftrightarrow> status s = Pass)
    \<and> map status (steps r) = [Pass, Pass, Pass, status s, Pass]"
proof -
  let ?f = "fold (\<lambda>(p, s). binsert p s) all bempty"
  note distinct = bundle_lawsD(4) [OF laws(2) zip(1)]
  have get: "bget ?f p = Some x" if "(p, x) \<in> set all" for p x using that distinct by (simp add: bget_fold_binsert)
  have trail: "bget ?f ''audit/trail.jsonl'' = Some (text_of c ws)" using files(1,2) by (intro get) blast
  have parse: "parse_json b (json_text c m) = Inr m"
    unfolding m sealed_manifest_def Let_def by (rule bundle_lawsD(2) [OF laws(2)])
  have "length (text_of c ws) \<le> entry_bytes DEFAULT_ARCHIVE_LIMITS" using zip(2) files(1,2) by (fastforce simp: fits_def list_all_iff)
  then have size: "length ws \<le> u64_max"
    using length_text_of [of ws c] by (simp add: DEFAULT_ARCHIVE_LIMITS_def u64_max_def)
  have inventory: "check_inventory c ?f (listed_files m) = Inr ()"
    unfolding m sealed_manifest_fields using files(1) by (intro generated_inventory [OF distinct files(2,4)]) auto
  have chain: "status (verify_chain c b ?f m) = Pass"
    unfolding m sealed_manifest_def Let_def by (rule verify_chain_segment [OF laws ws trail size])
  obtain entry where entry: "verify_entry_signatures b ?f (hex_encode key) = Some entry" "status entry = Pass"
    using entry_step_passes [OF laws key ws(1) trail] by blast
  have pk: "text_at (jindex m ''signing'') ''public_key'' = hex_encode key" by (simp add: m sealed_manifest_fields)
  from verify_files_steps [OF get [OF files(3)] parse _ _ s [folded pk] entry(1) [folded pk]] inventory chain entry(2)
  show ?thesis unfolding verify_written_fits [OF laws(2) zip] by (simp add: m sealed_manifest_fields)
qed

lemma generated_report:
  assumes laws: "json_laws c" "bundle_laws c b" and ws: "linked c (prev_hash (hd ws)) ws" "ws \<noteq> []"
    and asm: "assemble_bundle c b env spec (text_of c ws, length ws, prev_hash (hd ws), entry_hash (last ws)) = Inr (res, bytes)"
    and key: "keypair env = Inr (key, sign)" "key_laws c b key" "\<forall>m. length (sign m) = 64"
    and fits: "\<forall>files. zip_write b files = Inr bytes \<longrightarrow> fits DEFAULT_ARCHIVE_LIMITS files" "length bytes \<le> raw_bytes DEFAULT_ARCHIVE_LIMITS"
  shows "bundle_entries res = length ws"
    and "\<exists>files. bundle_contents b bytes = Some files \<and> bget files ''audit/trail.jsonl'' = Some (text_of c ws)"
    and "\<exists>r. verify_bundle c b bytes None = Some r \<and> map status (steps r) = [Pass, Pass, Pass, Fail, Pass]"
proof -
  from generated_archive [OF laws(2) asm key(1), unfolded fst_conv] obtain plain files all m where
    g: "(''audit/trail.jsonl'', text_of c ws) \<in> set files" "zip_write b all = Inr bytes"
    "m = sealed_manifest c env spec files (length ws, prev_hash (hd ws), entry_hash (last ws)) key (base64 b (sign plain))" and
    n: "bundle_entries res = length ws" and all: "set all = insert (''manifest.json'', json_text c m) (set files)" .
  show "bundle_entries res = length ws" by (rule n)
  obtain s where s: "verify_manifest_signature c b m (hex_encode key) (hex_encode key) = Some s" "status s = Fail"
    using refused_signature [OF laws(2) _ g(3)] key(3) by blast
  have fit: "fits DEFAULT_ARCHIVE_LIMITS all" using fits(1) g(2) by blast
  have "(''audit/trail.jsonl'', text_of c ws) \<in> set all" using g(1) unfolding all by blast
  then show "\<exists>files. bundle_contents b bytes = Some files \<and> bget files ''audit/trail.jsonl'' = Some (text_of c ws)"
    using written_contents [OF laws(2) g(2) fit] bundle_lawsD(4) [OF laws(2) g(2)] by (simp add: bget_fold_binsert)
  have out: "\<forall>f\<in>set all. f \<in> set files \<or> outside_inventory (fst f)" unfolding all by (simp add: outside_inventory_def)
  have sub: "set files \<subseteq> set all" "(''manifest.json'', json_text c m) \<in> set all" unfolding all by blast+
  from packed_report [OF laws ws key(2) g(3,1) sub out g(2) fit fits(2) s(1)] s(2)
  show "\<exists>r. verify_bundle c b bytes None = Some r \<and> map status (steps r) = [Pass, Pass, Pass, Fail, Pass]" by auto
qed

text \<open>
  C18. What is recorded, exported and packed replays in the independent verifier: for a trail whose timestamps are in
  order, written under one key, and an archive within the limits of the verifier, the trail in the archive is the text
  of exactly the entries of the period in their order, whole segments left out or not, and the verifier's steps on
  archive, inventory, audit chain and entry signatures pass; the manifest signature alone fails.
\<close>

theorem generated_bundle_replays:
  assumes "json_laws c" and "bundle_laws c b" and "represents c t ess act"
    and "\<forall>e\<in>set (trail_entries ess act). rfc3339_instant b (timestamp e) = Ok (at e)"
    and "sorted (map at (trail_entries ess act))"
    and "rfc3339_instant b (spec_from spec) = Ok lo" and "rfc3339_instant b (spec_to spec) = Ok hi"
    and "generate_with c b env t spec = Ok (res, bytes)"
    and "keypair env = Ok (key, sign)" and "key_laws c b key" and "\<forall>m. length (sign m) = 64"
    and "\<forall>files. zip_write b files = Ok bytes \<longrightarrow> fits DEFAULT_ARCHIVE_LIMITS files"
    and "length bytes \<le> raw_bytes DEFAULT_ARCHIVE_LIMITS"
  shows "bundle_entries res = length (filter (in_period at lo hi) (trail_entries ess act))
    \<and> (\<exists>files. bundle_contents b bytes = Some files
         \<and> bget files ''audit/trail.jsonl'' = Some (text_of c (filter (in_period at lo hi) (trail_entries ess act))))
    \<and> (\<exists>r. verify_bundle c b bytes None = Some r \<and> map status (steps r) = [Pass, Pass, Pass, Fail, Pass])"
proof -
  let ?es = "trail_entries ess act"
  define ws where "ws = filter (in_period at lo hi) ?es"
  have linked: "linked c ''genesis'' ?es" using assms(3) by (simp add: represents_def)
  then have dated: "dated b at ?es" using assms(4) linked_each by (auto simp: dated_def)
  obtain raw seg chain where raw: "read_trail_since c b t (Some lo) = Inr (Some raw)" "export_segment c b lo hi raw = Inr (seg, chain)"
    and asm: "assemble_bundle c b env spec (seg, chain) = Inr (res, bytes)"
    using generate_with_eq_Ok [OF assms(8)] assms(6,7) by (metis Inr_inject surj_pair)
  obtain es where es: "raw = text_of c es" "dated b at es" "filter (in_period at lo hi) es = ws"
    using read_trail_represents [OF assms(1,3) dated assms(5) raw(1)] unfolding ws_def .
  obtain n anchor head where chain: "chain = (n, anchor, head)" by (cases chain) auto
  from export_segment_text [OF assms(1) es(2) raw(2) [unfolded es(1) chain], unfolded es(3)]
  have seg: "ws \<noteq> []" "seg = text_of c ws" "chain = (length ws, prev_hash (hd ws), entry_hash (last ws))" by (simp_all add: chain)
  have wl: "linked c (prev_hash (hd ws)) ws" using period_linked [OF linked assms(5)] seg(1) unfolding ws_def by blast
  from generated_report [OF assms(1,2) wl seg(1) asm [unfolded seg] assms(9-13)] show ?thesis by (simp add: ws_def)
qed

section \<open>What a valid report attests\<close>

text \<open>The manifest among the files of an archive.\<close>

definition bundle_root :: "bundle_codec \<Rightarrow> string \<Rightarrow> json option" where
  "bundle_root b raw =
     Option.bind (bundle_contents b raw) (\<lambda>files. Option.bind (bget files ''manifest.json'') (\<lambda>s.
     case parse_json b s of Inr v \<Rightarrow> Some v | Inl _ \<Rightarrow> None))"

lemma unsigned_keeps_files: "unsigned_manifest m = Some u \<Longrightarrow> listed_files u = listed_files m"
  by (cases m) (auto simp: unsigned_manifest_def bind_eq_Some_conv listed_files_def map_of_al_insert)

lemma manifest_signature_passes:
  assumes "verify_manifest_signature c b m k k' = Some s" "status s = Pass"
  obtains u where "unsigned_manifest m = Some u" "sha256_hex c (json_text c u) = text_at (jindex m ''signing'') ''signed_digest''"
  using assms by (auto simp: verify_manifest_signature_def Let_def mk_step_def split: option.splits if_splits)

text \<open>What a valid report rests on.\<close>

lemma valid_report:
  assumes "verify_bundle c b raw key = Some r" "report_valid r"
  obtains files m u where "bundle_contents b raw = Some files" "bundle_root b raw = Some m" "unsigned_manifest m = Some u"
    "sha256_hex c (json_text c u) = text_at (jindex m ''signing'') ''signed_digest''"
    "check_inventory c files (listed_files u) = Inr ()"
proof -
  from assms obtain es files where f: "unzip_entries b raw = Inr es" "read_entries DEFAULT_ARCHIVE_LIMITS 0 0 es bempty = Inr files"
    "verify_files c b files key = Some r"
    by (auto simp: verify_bundle_def verify_bundle_with_limits_def archive_limit_failure_def split: if_splits sum.splits dest: read_entries_Inl)
  from f(3) assms(2) obtain t m where m: "bget files ''manifest.json'' = Some t" "parse_json b t = Inr m"
    "jindex m ''bundle'' = JString ''evidence-bundle''" "jindex m ''version'' = JNumber ''1''"
    by (auto simp: verify_files_def Let_def split: option.splits sum.splits if_splits)
  from verify_files_eq [OF m f(3)] assms(2) obtain k k' s where s: "verify_manifest_signature c b m k k' = Some s" "status s = Pass"
    and inv: "check_inventory c files (listed_files m) = Inr ()" by metis
  from s obtain u where u: "unsigned_manifest m = Some u" "sha256_hex c (json_text c u) = text_at (jindex m ''signing'') ''signed_digest''"
    by (rule manifest_signature_passes)
  show ?thesis using that [OF _ _ u] inv f(1,2) m(1,2) unsigned_keeps_files [OF u(1)] by (simp add: bundle_contents_def bundle_root_def)
qed

text \<open>
  C19. One signed digest attests one payload: two archives that verify, under whatever keys, with the same signed digest
  hold the same bytes in every file outside the manifest, directories and the reserved directories, and
  neither has such a file that the other has not, unless two of their files or manifests collide under
  SHA-256.
\<close>

theorem valid_bundles_agree:
  assumes "verify_bundle c b raw key = Some r" and "report_valid r"
    and "verify_bundle c b raw' key' = Some r'" and "report_valid r'"
    and "bundle_contents b raw = Some files" and "bundle_contents b raw' = Some files'"
    and "bundle_root b raw = Some m" and "bundle_root b raw' = Some m'"
    and "text_at (jindex m ''signing'') ''signed_digest'' = text_at (jindex m' ''signing'') ''signed_digest''"
    and "inj_on (json_text c) {u. unsigned_manifest m = Some u \<or> unsigned_manifest m' = Some u}"
    and "inj_on (au_sha c) (ran (bget files) \<union> ran (bget files')
           \<union> {json_text c u |u. unsigned_manifest m = Some u \<or> unsigned_manifest m' = Some u})"
    and "\<not> outside_inventory path"
  shows "bget files path = bget files' path"
proof -
  from valid_report [OF assms(1,2)] assms(5,7) obtain u where u: "unsigned_manifest m = Some u"
    "sha256_hex c (json_text c u) = text_at (jindex m ''signing'') ''signed_digest''" "check_inventory c files (listed_files u) = Inr ()"
    by (metis option.inject)
  from valid_report [OF assms(3,4)] assms(6,8) obtain u' where u': "unsigned_manifest m' = Some u'"
    "sha256_hex c (json_text c u') = text_at (jindex m' ''signing'') ''signed_digest''" "check_inventory c files' (listed_files u') = Inr ()"
    by (metis option.inject)
  have sha: "x = y" if "sha256_hex c x = sha256_hex c y" "x \<in> ran (bget files) \<union> ran (bget files')
      \<union> {json_text c u |u. unsigned_manifest m = Some u \<or> unsigned_manifest m' = Some u}" "y \<in> ran (bget files) \<union> ran (bget files')
      \<union> {json_text c u |u. unsigned_manifest m = Some u \<or> unsigned_manifest m' = Some u}" for x y
    using inj_onD [OF assms(11) hex_encode_inject that(2,3)] that(1) by (simp add: sha256_hex_def)
  have "json_text c u = json_text c u'" by (rule sha) (use u(1,2) u'(1,2) assms(9) in auto)
  then have same: "u' = u" using inj_onD [OF assms(10), of u u'] u(1) u'(1) by simp
  note inv = u(3) [unfolded check_inventory_iff] u'(3) [unfolded check_inventory_iff same]
  show ?thesis
  proof (cases "path \<in> fst ` set (listed_files u)")
    case False
    then have "bget files path = None" "bget files' path = None" using inv assms(12) by blast+
    then show ?thesis by simp
  next
    case True
    then obtain h where "(path, h) \<in> set (listed_files u)" by auto
    then obtain x y where x: "bget files path = Some x" "bget files' path = Some y" "sha256_hex c x = sha256_hex c y" using inv by fastforce
    have "x = y" by (rule sha [OF x(3)]) (use x(1,2) in \<open>auto simp: ran_def\<close>)
    then show ?thesis using x by simp
  qed
qed

end
