(* ===== verification/Audit_Resume.thy ===== *)
theory Audit_Resume
  imports Audit_Laws
begin

text \<open>
  The verdict of a resumed verification, the binding of the chain head, pending drift, and the tail
  window that stops a trail.
\<close>

section \<open>Resuming from a checkpoint\<close>

text \<open>The payload of a store that carries the key's signature, the version and the name.\<close>

definition checkpoint_payload :: "audit_codec \<Rightarrow> checkpoint_codec \<Rightarrow> string \<Rightarrow> string option \<Rightarrow> payload option" where
  "checkpoint_payload c k name st =
     Option.bind st (\<lambda>raw.
     Option.bind (envelope_of k (take MAX_CHECKPOINT_BYTES raw)) (\<lambda>env.
     Option.bind (hex_decode (env_signature env)) (\<lambda>sig.
     Option.bind (public_key c) (\<lambda>key.
     if \<not> verify_signature c key (env_payload env) sig then None
     else Option.bind (payload_of k (env_payload env)) (\<lambda>p.
       if version p \<noteq> CHECKPOINT_VERSION \<or> trail_name p \<noteq> name then None else Some p)))))"

lemma authentic_prefix_payload:
  assumes "authentic_prefix_of c k name st bytes i = Some p"
  shows "checkpoint_payload c k name st = Some p" "size (stamp p) \<le> size i"
  using assms by (auto simp: authentic_prefix_of_def checkpoint_payload_def bind_eq_Some_conv split: if_splits)

text \<open>A checkpoint for a start state tells what a pass over its part of the file finds.\<close>

definition truthful :: "audit_codec \<Rightarrow> checkpoint_codec \<Rightarrow> string \<Rightarrow> string option \<Rightarrow> chain_state \<Rightarrow> string \<Rightarrow> bool" where
  "truthful c k name st start bytes \<longleftrightarrow>
     (\<forall>p. checkpoint_payload c k name st = Some p \<longrightarrow> start_hash p = cs_prev_hash start \<longrightarrow> start_total p = cs_total start \<longrightarrow>
        size (stamp p) \<le> length bytes
        \<and> verify_stream c (take (size (stamp p)) bytes) start = Ok (state p, size (stamp p), True))"

text \<open>The JSON of a checkpoint is read back as it was written, where it is read at all.\<close>

definition checkpoint_laws :: "checkpoint_codec \<Rightarrow> bool" where
  "checkpoint_laws k \<longleftrightarrow> (\<forall>p text. payload_text k p = Some text \<longrightarrow> payload_of k text = Some p)
     \<and> (\<forall>e raw e'. envelope_bytes k e = Some raw \<longrightarrow> envelope_of k (take MAX_CHECKPOINT_BYTES raw) = Some e' \<longrightarrow> e' = e)"

lemma truthful_append: "truthful c k name st start bytes \<Longrightarrow> truthful c k name st start (bytes @ xs)"
  by (auto simp: truthful_def)

lemma save_checkpoint_cases:
  "save_checkpoint c k name st bytes i start final at = st
   \<or> (\<exists>h t text sg raw. save_checkpoint c k name st bytes i start final at = Some raw
        \<and> payload_text k \<lparr>version = CHECKPOINT_VERSION, trail_name = name, stamp = i, head_digest = h, tail_digest = t,
             full_verified_at = at, start_hash = cs_prev_hash start, start_total = cs_total start, state = final\<rparr> = Some text
        \<and> envelope_bytes k \<lparr>env_payload = text, env_signature = sg\<rparr> = Some raw)"
  by (auto simp: save_checkpoint_def split: option.splits prod.splits)

lemma truthful_save:
  assumes "checkpoint_laws k" "verify_stream c bytes start = Inr (final, size i, True)" "size i = length bytes"
    and "truthful c k name st start bytes"
  shows "truthful c k name (save_checkpoint c k name st bytes i start final at) start bytes"
  using save_checkpoint_cases [of c k name st bytes i start final at]
proof (elim disjE exE conjE)
  fix h t tx sg raw
  let ?p = "\<lparr>version = CHECKPOINT_VERSION, trail_name = name, stamp = i, head_digest = h, tail_digest = t,
    full_verified_at = at, start_hash = cs_prev_hash start, start_total = cs_total start, state = final\<rparr>"
  assume raw: "save_checkpoint c k name st bytes i start final at = Some raw" "payload_text k ?p = Some tx"
    "envelope_bytes k \<lparr>env_payload = tx, env_signature = sg\<rparr> = Some raw"
  have "p = ?p" if "checkpoint_payload c k name (Some raw) = Some p" for p
  proof -
    from that obtain e where e: "envelope_of k (take MAX_CHECKPOINT_BYTES raw) = Some e" "payload_of k (env_payload e) = Some p"
      by (auto simp: checkpoint_payload_def bind_eq_Some_conv split: if_splits)
    then have "e = \<lparr>env_payload = tx, env_signature = sg\<rparr>" using assms(1) raw(3) unfolding checkpoint_laws_def by blast
    moreover have "payload_of k tx = Some ?p" using assms(1) raw(2) unfolding checkpoint_laws_def by blast
    ultimately show ?thesis using e(2) by simp
  qed
  then show ?thesis using assms(2,3) raw(1) by (auto simp: truthful_def)
qed (use assms(4) in simp)

lemma ends_on_newline_append: "ends_on_newline b \<Longrightarrow> b \<noteq> [] \<Longrightarrow> ends_on_newline (a @ b)"
  by (simp add: ends_on_newline_def)

text \<open>A pass that resumes where a truthful checkpoint ends is the rest of the full pass.\<close>

lemma resume_truthful:
  assumes "truthful c k name st start bytes" "resume c k name st bytes i start max_age now = Some r"
  shows "offset r \<le> length bytes" "offset r \<le> size i" "verify_stream c (take (offset r) bytes) start = Inr (rs_state r, offset r, True)"
    "verify_stream c bytes start = ebind (verify_stream c (drop (offset r) bytes) (rs_state r))
       (\<lambda>(st2, m, clean). Ok (st2, offset r + m, ends_on_newline bytes))"
proof -
  obtain p where p: "authentic_prefix_of c k name st bytes i = Some p" "start_hash p = cs_prev_hash start"
      "start_total p = cs_total start" "offset r = size (stamp p)" "rs_state r = state p"
    using assms(2) by (auto simp: resume_def bind_eq_Some_conv Let_def split: if_splits)
  then show "offset r \<le> length bytes" "offset r \<le> size i" and
    v: "verify_stream c (take (offset r) bytes) start = Inr (rs_state r, offset r, True)"
    using assms(1) authentic_prefix_payload [OF p(1)] by (auto simp: truthful_def)
  from verify_stream_append [OF v, of "drop (offset r) bytes"]
  show "verify_stream c bytes start = ebind (verify_stream c (drop (offset r) bytes) (rs_state r))
       (\<lambda>(st2, m, clean). Ok (st2, offset r + m, ends_on_newline bytes))" by simp
qed

lemma verify_full_truthful:
  assumes "checkpoint_laws k" "identity f = Some i" "size i = length (bytes_read f)" "still_held f"
    and "truthful c k (store_name f) (store f) start (bytes_read f)"
  shows "truthful c k (store_name f) (snd (verify_full c k f start now)) start (bytes_read f)"
proof (cases "verify_stream c (bytes_read f) start")
  case (Inl st)
  then show ?thesis using assms(4,5) by (auto simp: verify_full_def truthful_def checkpoint_payload_def)
next
  case (Inr x)
  obtain st n clean where x: "x = (st, n, clean)" by (cases x)
  show ?thesis
  proof (cases "in_data_dir f \<and> clean \<and> n = size i")
    case True
    then show ?thesis
      using truthful_save [OF assms(1) _ assms(3,5), of st] Inr x assms(2,4) by (simp add: verify_full_def)
  next
    case False
    then show ?thesis using Inr x assms(2,4,5) by (auto simp: verify_full_def)
  qed
qed

text \<open>
  C20. Resuming changes no verdict: while the checkpoint of a file tells what a pass over its part of
  the file found, a verification that resumes from it gives exactly the verdict and the chain state
  of a full pass, a broken suffix included; and the checkpoint it leaves behind, whether saved,
  kept or dropped, tells the truth again, also when entries are appended to the file afterwards.
\<close>

theorem resumed_verification_exact:
  assumes "checkpoint_laws k" and "identity f = Some i" and "size i = length (bytes_read f)" and "still_held f"
    and "truthful c k (store_name f) (store f) start (bytes_read f)"
  shows "fst (verify_file c k f start False max_age now) = fst (verify_file c k f start True max_age now)
    \<and> truthful c k (store_name f) (snd (verify_file c k f start force_full max_age now)) start (bytes_read f @ appended)"
proof -
  note full = verify_full_truthful [OF assms]
  have "fst (verify_file c k f start False max_age now) = fst (verify_file c k f start True max_age now)
      \<and> truthful c k (store_name f) (snd (verify_file c k f start False max_age now)) start (bytes_read f)"
  proof (cases "lock_granted f \<and> in_data_dir f \<and> resume c k (store_name f) (store f) (bytes_read f) i start max_age now \<noteq> None")
    case False
    then show ?thesis using full assms(2,5) by (auto simp: verify_file_def)
  next
    case True
    then obtain r where r: "resume c k (store_name f) (store f) (bytes_read f) i start max_age now = Some r" by blast
    note t = resume_truthful [OF assms(5) r]
    show ?thesis
    proof (cases "offset r = size i")
      case off: True
      then show ?thesis using True r t(4) assms(2-5) by (simp add: verify_file_def verify_full_def verify_stream_def)
    next
      case off: False
      show ?thesis
      proof (cases "verify_stream c (drop (offset r) (bytes_read f)) (rs_state r)")
        case (Inl st)
        then show ?thesis using True r off full assms(2,4) by (simp add: verify_file_def)
      next
        case (Inr x)
        obtain st m clean where x: "x = (st, m, clean)" by (cases x)
        have c: "clean = ends_on_newline (drop (offset r) (bytes_read f))" "m = length (bytes_read f) - offset r"
          using Inr x by (auto simp: verify_stream_def ebind_eq_Ok)
        have pass: "verify_stream c (bytes_read f) start = Inr (st, size i, ends_on_newline (bytes_read f))"
          using t Inr x c assms(3) by simp
        have "ends_on_newline (bytes_read f)" if clean
          using ends_on_newline_append [of "drop (offset r) (bytes_read f)" "take (offset r) (bytes_read f)"] that c off t(1) assms(3)
          by simp
        then show ?thesis
          using True r off Inr x pass assms truthful_save [OF assms(1) _ assms(3,5), of st]
          by (auto simp: verify_file_def verify_full_def)
      qed
    qed
  qed
  moreover have "truthful c k (store_name f) (snd (verify_file c k f start True max_age now)) start (bytes_read f)"
    using full assms(5) by (simp add: verify_file_def)
  ultimately show ?thesis using truthful_append by (cases force_full) auto
qed

section \<open>The chain head binds the trail\<close>

definition stream_values :: "audit_codec \<Rightarrow> string \<Rightarrow> (string + json) list" where
  "stream_values c bytes = concat (map (\<lambda>l. json_values c (strip_cr l)) (raw_lines bytes))"

text \<open>The hashed part of every entry of a file, in order.\<close>

definition entry_texts :: "audit_codec \<Rightarrow> string \<Rightarrow> string list" where
  "entry_texts c bytes =
     map (\<lambda>v. case v of Inr j \<Rightarrow> json_text c (case hashed_fields j of Some p \<Rightarrow> p | None \<Rightarrow> JNull) | Inl e \<Rightarrow> e) (stream_values c bytes)"

lemma advance_all_append: "advance_all c (xs @ ys) st = ebind (advance_all c xs st) (advance_all c ys)"
proof (induction c xs st rule: advance_all.induct)
  case (3 c v vs st)
  then show ?case by (cases "advance c v st") simp_all
qed simp_all

lemma verify_stream_values:
  assumes "verify_stream c bytes st = Inr (st', n, b)"
  shows "advance_all c (stream_values c bytes) st = Inr st'"
proof -
  have "advance_all c (concat (map (\<lambda>l. json_values c (strip_cr l)) ls)) st = Inr st'" if "verify_lines c ls st = Inr st'" for ls
    using that
    by (induction ls arbitrary: st) (auto simp: ebind_eq_Ok advance_all_append verify_line_def Let_def split: if_splits)
  then show ?thesis using assms by (auto simp: verify_stream_def ebind_eq_Ok stream_values_def)
qed

lemma advance_all_head:
  "advance_all c vs st = Inr st' \<Longrightarrow>
     cs_prev_hash st' = chain_head c (cs_prev_hash st)
       (map (\<lambda>v. case v of Inr j \<Rightarrow> json_text c (case hashed_fields j of Some p \<Rightarrow> p | None \<Rightarrow> JNull) | Inl e \<Rightarrow> e) vs)"
proof (induction c vs st rule: advance_all.induct)
  case (3 c v vs st)
  then obtain s1 where s1: "advance c v st = Inr s1" "advance_all c vs s1 = Inr st'" by (auto simp: ebind_eq_Ok)
  from s1(1) obtain q where "hashed_fields v = Some q" "cs_prev_hash s1 = compute_entry_hash c (cs_prev_hash st) (json_text c q)"
    by (rule advance_eq_Ok)
  then show ?case using 3(1) [OF s1] by simp
qed simp_all

text \<open>The files of a trail as a reader finds them, and the hashed parts of all their entries.\<close>

definition trail_files :: "(nat \<times> file_view option) list \<Rightarrow> file_view option \<Rightarrow> string list" where
  "trail_files segs act = map bytes_read (List.map_filter snd segs @ (case act of None \<Rightarrow> [] | Some f \<Rightarrow> [f]))"

definition trail_texts :: "audit_codec \<Rightarrow> (nat \<times> file_view option) list \<Rightarrow> file_view option \<Rightarrow> string list" where
  "trail_texts c segs act = concat (map (entry_texts c) (trail_files segs act))"

lemma verify_file_head:
  assumes "fst (verify_file c k f st True max_age now) = Valid st'"
  shows "cs_prev_hash st' = chain_head c (cs_prev_hash st) (entry_texts c (bytes_read f))"
proof -
  from assms obtain n x where "verify_stream c (bytes_read f) st = Inr (st', n, x)"
    by (auto simp: verify_file_def verify_full_def split: sum.splits if_splits)
  from advance_all_head [OF verify_stream_values [OF this]] show ?thesis by (simp add: entry_texts_def)
qed

lemma verify_segments_head:
  "verify_segments c k segs True sample i now st = Valid st' \<Longrightarrow>
     cs_prev_hash st' = chain_head c (cs_prev_hash st) (trail_texts c segs None)"
proof (induction segs arbitrary: i st)
  case (Cons s segs)
  then obtain sq f s1 where s: "s = (sq, Some f)" "verify_segments c k segs True sample (i + 1) now s1 = Valid st'"
    and f: "fst (verify_file c k f st True (if Some i = sample then Some FULL_REVERIFY_SECS else None) now) = Valid s1"
    by (cases s; cases "snd s") (auto split: verified.splits if_splits)
  from Cons.IH [OF s(2)] verify_file_head [OF f] show ?case
    by (simp add: s(1) trail_texts_def trail_files_def List.map_filter_simps)
qed (simp add: trail_texts_def trail_files_def List.map_filter_simps)

lemma verify_snapshot_head:
  assumes "verify_snapshot c k segs act True now = Valid st"
  shows "cs_prev_hash st = chain_head c ''genesis'' (trail_texts c segs act)"
proof -
  from assms obtain sample s1 where s1: "verify_segments c k segs True sample 0 now genesis = Valid s1"
    and act: "case act of None \<Rightarrow> st = s1 | Some f \<Rightarrow> fst (verify_file c k f s1 True (Some FULL_REVERIFY_SECS) now) = Valid st"
    by (auto simp: verify_snapshot_def Let_def split: if_splits verified.splits option.splits)
  have "trail_texts c segs (Some f) = trail_texts c segs None @ entry_texts c (bytes_read f)" for f
    by (simp add: trail_texts_def trail_files_def)
  then show ?thesis using verify_segments_head [OF s1] act verify_file_head [of c k _ s1]
    by (auto simp: genesis_def split: option.splits)
qed

text \<open>
  C17. The head of a verified trail binds the hashed part of everything before it: two trails, of any number
  of segments and an active file, that a full verification accepts with the same head hash hold
  the same hashed parts (agent, tool, action, input hash, tokens, role and event of each entry) in the same order
  and number, however they are divided into segments, unless two of the texts that were hashed collide under
  SHA-256. What is not hashed, the timestamps and signatures, the head does not bind.
\<close>

theorem chain_head_binds_entries:
  assumes "verify_snapshot c k segs act True now = Valid st" and "verify_snapshot c k' segs' act' True now' = Valid st'"
    and "cs_prev_hash st = cs_prev_hash st'" and "\<forall>s. length (au_sha c s) = 32"
    and "inj_on (au_sha c) (preimages c ''genesis'' (trail_texts c segs act) \<union> preimages c ''genesis'' (trail_texts c segs' act'))"
  shows "trail_texts c segs act = trail_texts c segs' act'"
proof -
  have eq: "chain_head c ''genesis'' (trail_texts c segs act) = chain_head c ''genesis'' (trail_texts c segs' act')"
    using verify_snapshot_head [OF assms(1)] verify_snapshot_head [OF assms(2)] assms(3) by simp
  show ?thesis by (rule chain_head_inject [OF _ plain_start_genesis assms(5) eq]) (use assms(4) in blast)
qed

section \<open>Pending drift\<close>

text \<open>An observation of drift, and the acknowledgement that names its evidence.\<close>

definition drift_evidence :: "string \<Rightarrow> audit_entry \<Rightarrow> string option" where
  "drift_evidence a e = (if event_type e = AgentDriftDetected \<and> agent_id e = a
     then map_option (\<lambda>x. x @ '' observation='' @ entry_hash e) (action e) else None)"

definition acknowledges :: "string \<Rightarrow> string \<Rightarrow> audit_entry \<Rightarrow> bool" where
  "acknowledges a ev e \<longleftrightarrow> event_type e = AgentDriftAcknowledged \<and> agent_id e = a \<and> action e = Some ev"

lemma pending_apply_entry:
  "bget (cs_pending (apply_entry e st)) a = (case drift_evidence a e of
     Some ev \<Rightarrow> Some (timestamp e, ev)
   | None \<Rightarrow> (case bget (cs_pending st) a of
       Some (ts, ev) \<Rightarrow> if acknowledges a ev e then None else Some (ts, ev) | None \<Rightarrow> None))"
proof -
  let ?st = "note_security e ((if is_unknown (event_type e) \<and> \<not> is_seal (event_type e) then st\<lparr>cs_unknown := cs_unknown st + 1\<rparr> else st)
      \<lparr>cs_sealed := (if is_seal (event_type e) then sealed_seq (action e) else None)\<rparr>)"
  have p: "cs_pending ?st = cs_pending st" by simp
  have "cs_pending (apply_entry e st) = cs_pending (note_drift e ?st)" by (simp add: apply_entry_def Let_def)
  then show ?thesis
    by (cases "event_type e = AgentDriftDetected"; cases "action e"; cases "agent_id e = a")
      (auto simp: note_drift_def p drift_evidence_def acknowledges_def split: option.splits prod.splits)
qed

lemma pending_fold:
  "bget (cs_pending (fold apply_entry es st)) a = Some (ts, ev) \<longleftrightarrow>
     (\<exists>xs d ys. es = xs @ d # ys \<and> drift_evidence a d = Some ev \<and> ts = timestamp d
        \<and> (\<forall>e\<in>set ys. drift_evidence a e = None \<and> \<not> acknowledges a ev e))
     \<or> (bget (cs_pending st) a = Some (ts, ev) \<and> (\<forall>e\<in>set es. drift_evidence a e = None \<and> \<not> acknowledges a ev e))"
proof (induction es rule: rev_induct)
  case (snoc e es)
  have split: "(\<exists>xs d ys. es @ [e] = xs @ d # ys \<and> P d ys) \<longleftrightarrow> P e [] \<or> (\<exists>xs d ys. es = xs @ d # ys \<and> P d (ys @ [e]))" for P
    by (auto simp: append_eq_append_conv2 append_eq_Cons_conv Cons_eq_append_conv) (metis append_butlast_last_id last_snoc butlast_snoc)+
  show ?case unfolding fold_append comp_def pending_apply_entry split
    by (cases "drift_evidence a e") (use snoc in \<open>auto simp: pending_apply_entry split: option.splits if_splits\<close>)
qed simp

lemma advance_entry_json:
  assumes "advance c (entry_json e) st = Inr st'" "output_tokens e \<le> u32_max" "writable (event_type e)"
  shows "st' = apply_entry e st"
  using assms(1) by (auto simp: advance_def jget_entry_json hashed_fields_entry_json entry_of_entry_json [OF assms(2,3)]
      apply_entry_def Let_def split: if_splits)

lemma advance_all_entries:
  "advance_all c (map (\<lambda>e. Ok (entry_json e)) es) st = Inr st' \<Longrightarrow>
     \<forall>e\<in>set es. output_tokens e \<le> u32_max \<and> writable (event_type e) \<Longrightarrow> st' = fold apply_entry es st"
  by (induction es arbitrary: st) (auto simp: ebind_eq_Ok dest!: advance_entry_json)

text \<open>
  C24. Drift stays pending until it is acknowledged by name: when the entries of a trail verify, the
  drift reported for an agent is its last observation that carried evidence, with its time and
  its entry hash, and none is reported exactly when there was no such observation or an
  acknowledgement of the agent that names that very observation came after the last one. No
  other entry, and no acknowledgement of older or different evidence, clears it.
\<close>

theorem drift_pending_until_named:
  assumes "advance_all c (map (\<lambda>e. Ok (entry_json e)) es) genesis = Ok st" and "es \<noteq> []"
    and "\<forall>e\<in>set es. output_tokens e \<le> u32_max \<and> writable (event_type e)"
  shows "latest_unacknowledged_drift (Valid st) a = Ok (Some (ts, ev)) \<longleftrightarrow>
    (\<exists>xs d ys. es = xs @ d # ys \<and> drift_evidence a d = Some ev \<and> ts = timestamp d
       \<and> (\<forall>e\<in>set ys. drift_evidence a e = None \<and> \<not> acknowledges a ev e))"
proof -
  have st: "st = fold apply_entry es genesis" by (rule advance_all_entries [OF assms(1,3)])
  then have "cs_total st \<noteq> 0" using assms(2) by (simp add: fold_apply_entry)
  then have "latest_unacknowledged_drift (Valid st) a = Ok (Some (ts, ev)) \<longleftrightarrow> bget (cs_pending st) a = Some (ts, ev)"
    by (simp add: latest_unacknowledged_drift_def)
  also have "\<dots> \<longleftrightarrow> (\<exists>xs d ys. es = xs @ d # ys \<and> drift_evidence a d = Some ev \<and> ts = timestamp d
       \<and> (\<forall>e\<in>set ys. drift_evidence a e = None \<and> \<not> acknowledges a ev e))"
    unfolding st pending_fold by (simp add: genesis_def)
  finally show ?thesis .
qed

section \<open>The window over the tail\<close>

text \<open>
  C26. A trail can become unwritable: where the byte at which the 64 KiB window over the tail of the
  active file begins lies inside a character, no call of \<open>try_record\<close> appends anything, whatever its
  data and whatever it finds, so the file and with it the window never change again.
\<close>

theorem tail_window_stops_trail:
  assumes "active t = Some bytes" and "TAIL < length bytes" and "cont (bytes ! (length bytes - TAIL))"
  shows "\<exists>e. try_record c env t d = (Err e, t)"
proof -
  let ?w = "drop (length bytes - min (length bytes) TAIL) bytes"
  have "hd ?w = bytes ! (length bytes - TAIL)" "?w \<noteq> []"
    using assms(2) by (simp_all add: hd_drop_conv_nth TAIL_def)
  then have "\<not> valid_utf8 ?w" using assms(3) continuation_not_utf8 by metis
  then have "\<exists>e. read_tail_entry c bytes = Inl e" using assms(2) by (auto simp: read_tail_entry_def Let_def)
  then obtain e where "append_or_seal c ev t bytes d = (Inl e, t)" for ev by (auto simp: append_or_seal_def)
  note stuck = this
  have same: "t\<lparr>active := Some bytes\<rparr> = t" using assms(1) by (cases t) simp
  show ?thesis
    by (cases "io_error (env 2)") (simp_all add: try_record_def SNAPSHOT_ATTEMPTS_def numeral_eq_Suc assms(1) same stuck)
qed

end
