(* ===== verification/Json_Codec.thy ===== *)
theory Json_Codec
  imports Json Hex_Laws
begin

text \<open>
  A JSON writer and reader of the simplest kind, with strings in hexadecimal: an instance of what the audit
  trail and the evidence bundles ask of the JSON library, read back exactly.
\<close>

fun enc :: "json \<Rightarrow> string" where
  "enc JNull = ''N''"
| "enc (JBool x) = (if x then ''T'' else ''F'')"
| "enc (JNumber s) = ''D'' @ hex_encode s @ '';''"
| "enc (JString s) = ''S'' @ hex_encode s @ '';''"
| "enc (JArray vs) = ''['' @ concat (map enc vs) @ '']''"
| "enc (JObject fs) = CHR 0x7B # concat (map (\<lambda>f. hex_encode (fst f) @ '':'' @ enc (snd f)) fs) @ [CHR 0x7D]"

definition dec_text :: "char \<Rightarrow> string \<Rightarrow> (string \<times> string) option" where
  "dec_text x s = (case dropWhile (\<lambda>y. y \<noteq> x) s of
     [] \<Rightarrow> None
   | _ # rest \<Rightarrow> map_option (\<lambda>t. (t, rest)) (hex_decode (takeWhile (\<lambda>y. y \<noteq> x) s)))"

fun dec :: "nat \<Rightarrow> string \<Rightarrow> (json \<times> string) option"
  and dec_items :: "nat \<Rightarrow> string \<Rightarrow> (json list \<times> string) option"
  and dec_fields :: "nat \<Rightarrow> string \<Rightarrow> ((string \<times> json) list \<times> string) option" where
  "dec (Suc n) (c # s) =
     (if c = CHR ''N'' then Some (JNull, s)
      else if c = CHR ''T'' then Some (JBool True, s)
      else if c = CHR ''F'' then Some (JBool False, s)
      else if c = CHR ''D'' then map_option (\<lambda>(t, r). (JNumber t, r)) (dec_text (CHR '';'') s)
      else if c = CHR ''S'' then map_option (\<lambda>(t, r). (JString t, r)) (dec_text (CHR '';'') s)
      else if c = CHR ''['' then map_option (\<lambda>(vs, r). (JArray vs, r)) (dec_items n s)
      else if c = CHR 0x7B then map_option (\<lambda>(fs, r). (JObject fs, r)) (dec_fields n s)
      else None)"
| "dec _ _ = None"
| "dec_items (Suc n) (c # s) =
     (if c = CHR '']'' then Some ([], s)
      else Option.bind (dec n (c # s)) (\<lambda>(v, r). map_option (\<lambda>(vs, r'). (v # vs, r')) (dec_items n r)))"
| "dec_items _ _ = None"
| "dec_fields (Suc n) (c # s) =
     (if c = CHR 0x7D then Some ([], s)
      else Option.bind (dec_text (CHR '':'') (c # s)) (\<lambda>(k, r).
           Option.bind (dec n r) (\<lambda>(v, r'). map_option (\<lambda>(fs, r''). ((k, v) # fs, r'')) (dec_fields n r'))))"
| "dec_fields _ _ = None"

lemma hex_encode_chars: "x \<in> set (hex_encode s) \<Longrightarrow> is_lower_hex x"
  using is_lower_hex_encode [of s] by (auto simp: list_all_iff)

lemma not_hex [simp]:
  "\<not> is_lower_hex (CHR '';'')" "\<not> is_lower_hex (CHR '':'')" "\<not> is_lower_hex (CHR '']'')" "\<not> is_lower_hex (CHR 0x7B)"
  "\<not> is_lower_hex (CHR 0x7D)" "\<not> is_lower_hex (CHR 0x0A)"
  by (simp_all add: is_lower_hex_def is_ascii_digit_def byte_def)

lemma dec_text_hex: "\<not> is_lower_hex x \<Longrightarrow> dec_text x (hex_encode s @ x # r) = Some (s, r)"
proof -
  assume "\<not> is_lower_hex x"
  then have "\<forall>y\<in>set (hex_encode s). y \<noteq> x" using hex_encode_chars by blast
  then show ?thesis by (simp add: dec_text_def takeWhile_append2 dropWhile_append2 hex_encode_props(3))
qed

lemma enc_nonempty [simp]: "enc v \<noteq> []"
  by (cases v) simp_all

lemma enc_head: "hd (enc v) \<noteq> CHR '']''"
  by (cases v) simp_all

text \<open>What is written is read back, the rest of the text left over.\<close>

lemma dec_enc: "length (enc v) \<le> n \<Longrightarrow> dec n (enc v @ r) = Some (v, r)"
proof (induction v arbitrary: n r)
  case (JArray vs)
  obtain n' where n: "n = Suc n'" using JArray.prems by (cases n) simp_all
  have "dec_items m (concat (map enc vs) @ CHR '']'' # r) = Some (vs, r)"
    if "length (concat (map enc vs)) < m" for m r
    using JArray.IH that
  proof (induction vs arbitrary: m)
    case Nil
    then show ?case by (cases m) simp_all
  next
    case (Cons v vs)
    obtain m' where m: "m = Suc m'" using Cons.prems by (cases m) simp_all
    obtain c s where e: "enc v = c # s" by (cases "enc v") simp_all
    have "c \<noteq> CHR '']''" using enc_head [of v] e by simp
    moreover have "dec m' (enc v @ concat (map enc vs) @ CHR '']'' # r) = Some (v, concat (map enc vs) @ CHR '']'' # r)"
      using Cons.prems m by (intro Cons.prems(1)) simp_all
    moreover have "dec_items m' (concat (map enc vs) @ CHR '']'' # r) = Some (vs, r)"
      using Cons.prems m e by (intro Cons.IH) simp_all
    ultimately show ?case by (simp add: m e)
  qed
  then show ?case using JArray.prems by (simp add: n)
next
  case (JObject fs)
  obtain n' where n: "n = Suc n'" using JObject.prems by (cases n) simp_all
  let ?f = "\<lambda>f. hex_encode (fst f) @ '':'' @ enc (snd f)"
  have "dec_fields m (concat (map ?f fs) @ CHR 0x7D # r) = Some (fs, r)"
    if "length (concat (map ?f fs)) < m" for m r
    using JObject.IH that
  proof (induction fs arbitrary: m)
    case Nil
    then show ?case by (cases m) simp_all
  next
    case (Cons f fs)
    obtain m' where m: "m = Suc m'" using Cons.prems by (cases m) simp_all
    obtain k v where f: "f = (k, v)" by force
    let ?rest = "concat (map ?f fs) @ CHR 0x7D # r"
    obtain c s where e: "hex_encode k @ CHR '':'' # enc v @ ?rest = c # s" by (cases "hex_encode k") simp_all
    have "c \<noteq> CHR 0x7D" using e hex_encode_chars [of c k] by (cases "hex_encode k") auto
    moreover have "dec_text (CHR '':'') (c # s) = Some (k, enc v @ ?rest)" unfolding e [symmetric] by (rule dec_text_hex) simp
    moreover have "dec m' (enc v @ ?rest) = Some (v, ?rest)"
      using Cons.prems m f by (intro Cons.prems(1) [of f]) (simp_all add: snds.simps)
    moreover have "dec_fields m' ?rest = Some (fs, r)"
      by (rule Cons.IH, rule Cons.prems(1)) (use Cons.prems(2) m in simp_all)
    moreover have "concat (map ?f (f # fs)) @ CHR 0x7D # r = c # s" using e by (simp add: f)
    ultimately show ?case by (simp add: m f del: list.map concat.simps)
  qed
  then show ?case using JObject.prems by (simp add: n)
next
  case JNull
  then show ?case by (cases n) simp_all
next
  case (JBool x)
  then show ?case by (cases n; cases x) simp_all
next
  case (JNumber s)
  then show ?case by (cases n) (simp_all add: dec_text_hex)
next
  case (JString s)
  then show ?case by (cases n) (simp_all add: dec_text_hex)
qed

text \<open>The text is ASCII without line feeds.\<close>

definition plain_char :: "char \<Rightarrow> bool" where
  "plain_char x \<longleftrightarrow> byte x < 128 \<and> x \<noteq> CHR 0x0A"

lemma plain_char_hex: "is_lower_hex x \<Longrightarrow> plain_char x"
  by (auto simp: is_lower_hex_def is_ascii_digit_def plain_char_def byte_def)

lemma plain_hex [simp]: "list_all plain_char (hex_encode s)"
  using is_lower_hex_encode [of s] plain_char_hex by (auto simp: list_all_iff)

lemma plain_marks:
  "plain_char (CHR ''N'')" "plain_char (CHR ''T'')" "plain_char (CHR ''F'')" "plain_char (CHR ''D'')" "plain_char (CHR ''S'')"
  "plain_char (CHR '';'')" "plain_char (CHR '':'')" "plain_char (CHR ''['')" "plain_char (CHR '']'')" "plain_char (CHR 0x7B)"
  "plain_char (CHR 0x7D)"
  by (simp_all add: plain_char_def byte_def)

lemma list_all_concat: "list_all P (concat xss) \<longleftrightarrow> (\<forall>xs\<in>set xss. list_all P xs)"
  by (induction xss) simp_all

lemma enc_plain: "list_all plain_char (enc v)"
proof (induction v)
  case (JArray vs)
  then show ?case by (simp add: list_all_concat plain_marks)
next
  case (JObject fs)
  have "list_all plain_char (enc (snd f))" if "f \<in> set fs" for f
    using JObject [OF that, of "snd f"] by (cases f) (simp add: snds.simps)
  then show ?case by (simp add: list_all_concat plain_marks)
qed (simp_all add: plain_marks)

end
