(* ===== verification/Audit_Witnesses.thy ===== *)
theory Audit_Witnesses
  imports Audit_Resume Audit_Props Json_Codec
begin

text \<open>The audit trail at concrete inputs: one codec that keeps the laws, a recorded entry, and trails built from it.\<close>

section \<open>A codec\<close>

definition demo_sha :: "string \<Rightarrow> string" where
  "demo_sha s = take 32 (rev s @ replicate 32 (CHR ''0''))"

definition demo_parse :: "string \<Rightarrow> json option" where
  "demo_parse l = (case dec (length l) l of Some (v, []) \<Rightarrow> Some v | _ \<Rightarrow> None)"

definition demo_values :: "string \<Rightarrow> (string + json) list" where
  "demo_values l = (case demo_parse l of
     Some v \<Rightarrow> if hd l = CHR 0x7B then [Ok v] else [Err ''expected value''] | None \<Rightarrow> [Err ''expected value''])"

definition demo_key :: string where "demo_key = replicate 32 (CHR ''k'')"

definition audit_demo :: audit_codec where
  "audit_demo = \<lparr>au_sha = demo_sha, json_text = enc, json_values = demo_values, public_key = Some demo_key,
     verify_signature = (\<lambda>key h s. length s = 64)\<rparr>"

lemma audit_demo_sel [simp]:
  "au_sha audit_demo = demo_sha" "json_text audit_demo = enc" "json_values audit_demo = demo_values"
  "public_key audit_demo = Some demo_key" "verify_signature audit_demo key h s \<longleftrightarrow> length s = 64"
  by (simp_all add: audit_demo_def)

lemma length_demo_sha: "length (demo_sha s) = 32"
  by (simp add: demo_sha_def)

lemma demo_parse_enc: "demo_parse (enc v) = Some v"
  using dec_enc [of v "length (enc v)" "[]"] by (simp add: demo_parse_def)

text \<open>The text of an entry opens one brace, at its beginning.\<close>

lemma enc_entry:
  obtains body where "enc (entry_json e) = CHR 0x7B # body" "CHR 0x7B \<notin> set body" "last (CHR 0x7B # body) = CHR 0x7D"
proof -
  have hex: "CHR 0x7B \<notin> set (hex_encode s)" for s using hex_encode_chars [of "CHR 0x7B" s] by auto
  then have opt: "CHR 0x7B \<notin> set (enc (optional_text v))" for v by (cases v) simp_all
  show ?thesis
    by (rule that [of "tl (enc (entry_json e))"]; cases "signature e") (simp_all add: entry_json_def hex opt)
qed

lemma valid_utf8_ascii: "list_all plain_char s \<Longrightarrow> valid_utf8 s"
  by (induction s) (simp_all add: plain_char_def)

lemma demo_laws: "json_laws audit_demo"
  unfolding json_laws_def Let_def audit_demo_sel
proof (intro allI conjI impI)
  fix e
  obtain body where b: "enc (entry_json e) = CHR 0x7B # body" "CHR 0x7B \<notin> set body" "last (CHR 0x7B # body) = CHR 0x7D" by (rule enc_entry)
  have "hd (enc (entry_json e)) = CHR 0x7B" by (simp add: b(1))
  then show "demo_values (enc (entry_json e)) = [Ok (entry_json e)]" by (simp add: demo_values_def demo_parse_enc)
  show "CHR 0x0A \<notin> set (enc (entry_json e))" using enc_plain [of "entry_json e"] by (auto simp: list_all_iff plain_char_def)
  show "enc (entry_json e) \<noteq> []" "last (enc (entry_json e)) = CHR ''}''" using b(3) by (simp_all add: b(1))
  show "valid_utf8 (enc (entry_json e))" by (rule valid_utf8_ascii) (rule enc_plain)
  fix k assume "0 < k" "k < length (enc (entry_json e))"
  then have "hd (drop k (enc (entry_json e))) \<in> set body"
    by (cases k) (simp_all add: b(1) hd_drop_conv_nth)
  then have "hd (drop k (enc (entry_json e))) \<noteq> CHR 0x7B" using b(2) by auto
  then show "\<exists>e'. Err e' \<in> set (demo_values (drop k (enc (entry_json e))))" by (auto simp: demo_values_def split: option.splits)
qed

section \<open>One entry\<close>

definition demo_data :: audit_entry_data where
  "demo_data = \<lparr>ed_agent_id = ''a'', ed_tool = ''ctx_read'', ed_action = None, ed_input_hash = ''00'', ed_output_tokens = 7,
     ed_role = ''dev'', ed_event_type = ToolCall\<rparr>"

definition demo_hashed :: json where
  "demo_hashed = hashed_object (JString ''a'') (JString ''ctx_read'') JNull (JString ''00'') (JNumber (show_nat 7)) (JString ''dev'')
     (JString ''tool_call'')"

definition demo_entry :: audit_entry where
  "demo_entry = \<lparr>timestamp = ''t'', agent_id = ''a'', tool = ''ctx_read'', action = None, input_hash = ''00'', output_tokens = 7,
     role = ''dev'', event_type = ToolCall, prev_hash = ''genesis'',
     entry_hash = compute_entry_hash audit_demo ''genesis'' (enc demo_hashed), signature = None\<rparr>"

lemma demo_entry_follows: "follows audit_demo ''genesis'' demo_entry"
  by (simp add: follows_def demo_entry_def entry_hashed_def demo_hashed_def writable_def signature_ok_def signature_required_def
      is_seal_def u32_max_def)

definition demo_env :: "nat \<Rightarrow> append_env" where
  "demo_env = (\<lambda>_. \<lparr>io_error = None, signer = (\<lambda>_. Err ''no key''), stamp_text = ''t'', seal_write = Written, data_write = Written,
     rename_error = None, day_of = (\<lambda>_. Some 0), today = 0, backing_off = False, verified_once = True\<rparr>)"

definition demo_trail :: trail where
  "demo_trail = \<lparr>active = Some (text_of audit_demo [demo_entry]), sealed_segments = []\<rparr>"

lemma demo_recorded: "try_record audit_demo demo_env empty_trail demo_data = (Ok demo_entry, demo_trail)"
  by (simp add: try_record_def SNAPSHOT_ATTEMPTS_def numeral_eq_Suc append_or_seal_def read_tail_entry_def append_to_def
      append_locked_def demo_data_def demo_env_def event_json_def Let_def is_seal_def demo_entry_def demo_hashed_def demo_trail_def line_of_def)

definition demo_view :: "string \<Rightarrow> file_view" where
  "demo_view bytes = \<lparr>bytes_read = bytes, identity = None, store = None, store_name = ''trail'', in_data_dir = True, lock_granted = True,
     still_held = True\<rparr>"

definition demo_checkpoints :: checkpoint_codec where
  "demo_checkpoints = \<lparr>envelope_of = (\<lambda>_. None), envelope_bytes = (\<lambda>_. None), payload_of = (\<lambda>_. None), payload_text = (\<lambda>_. None),
     stored_key = None, write_ok = False\<rparr>"

theorem recorded_trail_verifies_witness:
  "\<exists>es new. verify_snapshot audit_demo demo_checkpoints [] None True 0 \<in> {Missing, Valid (fold apply_entry es genesis)}
    \<and> verify_snapshot audit_demo demo_checkpoints [] (Some (demo_view (text_of audit_demo [demo_entry]))) True 0
        \<in> {Missing, Valid (fold apply_entry (es @ new) genesis)}
    \<and> (\<forall>e. Ok demo_entry = (Ok e :: string + audit_entry) \<longrightarrow> new \<noteq> [] \<and> last new = e
          \<and> verify_snapshot audit_demo demo_checkpoints [] (Some (demo_view (text_of audit_demo [demo_entry]))) True 0
              = Valid (fold apply_entry (es @ new) genesis))"
proof (rule recorded_trail_verifies [OF demo_laws _ demo_recorded])
  show "reaches (\<lambda>t. t = empty_trail) (audit_step audit_demo) empty_trail" by (rule reaches.intros) simp
  show "\<forall>k. env_ok audit_demo (demo_env k)" by (simp add: env_ok_def demo_env_def)
  show "data_ok demo_data" by (simp add: data_ok_def demo_data_def writable_def is_seal_def u32_max_def)
  show "next_seq empty_trail + SNAPSHOT_ATTEMPTS \<le> u64_max" by (simp add: next_seq_def SNAPSHOT_ATTEMPTS_def u64_max_def)
  show "snapshot_of empty_trail [] None" by (simp add: snapshot_of_def)
  show "snapshot_of demo_trail [] (Some (demo_view (text_of audit_demo [demo_entry])))"
    by (simp add: snapshot_of_def demo_trail_def reads_def demo_view_def)
qed

section \<open>A checkpoint\<close>

definition demo_text :: string where "demo_text = text_of audit_demo [demo_entry]"

definition demo_state :: chain_state where "demo_state = fold apply_entry [demo_entry] genesis"

lemma demo_text_verifies: "verify_stream audit_demo demo_text genesis = Ok (demo_state, length demo_text, True)"
  unfolding demo_text_def demo_state_def
  by (rule verify_text [OF demo_laws]) (simp add: genesis_def demo_entry_follows)

definition demo_stamp :: file_stamp where
  "demo_stamp = \<lparr>size = length demo_text, dev = 1, ino = 1, mtime_secs = 0, mtime_nanos = 0\<rparr>"

definition demo_payload :: payload where
  "demo_payload = \<lparr>version = CHECKPOINT_VERSION, trail_name = ''trail'', stamp = demo_stamp,
     head_digest = fst (the (edge_digests audit_demo demo_text (length demo_text))),
     tail_digest = snd (the (edge_digests audit_demo demo_text (length demo_text))),
     full_verified_at = 0, start_hash = ''genesis'', start_total = 0, state = demo_state\<rparr>"

text \<open>A store with one checkpoint, over the first line.\<close>

definition one_checkpoint :: checkpoint_codec where
  "one_checkpoint = \<lparr>envelope_of = (\<lambda>_. Some \<lparr>env_payload = ''p'', env_signature = hex_encode (replicate 64 (CHR ''s''))\<rparr>),
     envelope_bytes = (\<lambda>_. None), payload_of = (\<lambda>_. Some demo_payload), payload_text = (\<lambda>_. None), stored_key = None, write_ok = False\<rparr>"

definition demo_file :: file_view where
  "demo_file = \<lparr>bytes_read = demo_text @ ''x'', identity = Some (demo_stamp\<lparr>size := length demo_text + 1\<rparr>), store = Some ''e'', store_name = ''trail'',
     in_data_dir = True, lock_granted = True, still_held = True\<rparr>"

theorem resumed_verification_exact_witness:
  "fst (verify_file audit_demo one_checkpoint demo_file genesis False None 0)
     = fst (verify_file audit_demo one_checkpoint demo_file genesis True None 0)
   \<and> truthful audit_demo one_checkpoint (store_name demo_file)
       (snd (verify_file audit_demo one_checkpoint demo_file genesis False None 0)) genesis (bytes_read demo_file @ [])"
proof (rule resumed_verification_exact)
  show "checkpoint_laws one_checkpoint" by (simp add: checkpoint_laws_def one_checkpoint_def)
  show "identity demo_file = Some (demo_stamp\<lparr>size := length demo_text + 1\<rparr>)"
    "size (demo_stamp\<lparr>size := length demo_text + 1\<rparr>) = length (bytes_read demo_file)" "still_held demo_file"
    by (simp_all add: demo_file_def)
  have "checkpoint_payload audit_demo one_checkpoint ''trail'' (Some ''e'') = Some demo_payload"
    by (simp add: checkpoint_payload_def one_checkpoint_def demo_payload_def hex_encode_props(3))
  then show "truthful audit_demo one_checkpoint (store_name demo_file) (store demo_file) genesis (bytes_read demo_file)"
    using demo_text_verifies by (simp add: truthful_def demo_file_def demo_payload_def demo_stamp_def)
qed

section \<open>The head of a chain\<close>

text \<open>The same entry under two timestamps: the head does not tell them apart.\<close>

definition later_entry :: audit_entry where "later_entry = demo_entry\<lparr>timestamp := ''u''\<rparr>"

definition later_text :: string where "later_text = text_of audit_demo [later_entry]"

lemma later_entry_follows: "follows audit_demo ''genesis'' later_entry"
  using demo_entry_follows by (auto simp: follows_def later_entry_def entry_hashed_def signature_ok_def split: option.splits)

lemma line_texts: "entry_texts audit_demo (text_of audit_demo [e]) = [enc (entry_hashed e)]"
  using json_lawsD(1) [OF demo_laws, of e] strip_cr_line [OF demo_laws, of e True]
  unfolding entry_texts_def stream_values_def raw_lines_text [OF demo_laws] by (simp add: hashed_fields_entry_json)

lemma demo_texts: "entry_texts audit_demo demo_text = [enc (entry_hashed demo_entry)]" "entry_texts audit_demo later_text = [enc (entry_hashed demo_entry)]"
  unfolding demo_text_def later_text_def line_texts by (simp_all add: later_entry_def entry_hashed_def)

lemma verified_alone:
  assumes "follows audit_demo ''genesis'' e"
  shows "verify_snapshot audit_demo demo_checkpoints [] (Some (demo_view (text_of audit_demo [e]))) True 0 = Valid (apply_entry e genesis)"
proof -
  have rep: "represents audit_demo \<lparr>active = Some (text_of audit_demo [e]), sealed_segments = []\<rparr> [] (Some [e])"
    using assms by (simp add: represents_def)
  show ?thesis by (subst verify_represents [OF demo_laws rep]) (simp_all add: snapshot_of_def reads_def demo_view_def)
qed

theorem chain_head_binds_entries_witness:
  "trail_texts audit_demo [] (Some (demo_view demo_text)) = trail_texts audit_demo [] (Some (demo_view later_text)) \<and> demo_text \<noteq> later_text"
proof
  have files: "trail_texts audit_demo [] (Some (demo_view b)) = entry_texts audit_demo b" for b
    by (simp add: trail_texts_def trail_files_def List.map_filter_simps demo_view_def)
  note first = verified_alone [OF demo_entry_follows, folded demo_text_def]
    and second = verified_alone [OF later_entry_follows, folded later_text_def]
  show "trail_texts audit_demo [] (Some (demo_view demo_text)) = trail_texts audit_demo [] (Some (demo_view later_text))"
    by (rule chain_head_binds_entries [OF first second]) (simp_all add: files demo_texts length_demo_sha later_entry_def)
  have "raw_lines demo_text \<noteq> raw_lines later_text"
    unfolding demo_text_def later_text_def raw_lines_text [OF demo_laws] by (simp add: entry_json_def later_entry_def demo_entry_def hex_encode_def hex_lower_def byte_def)
  then show "demo_text \<noteq> later_text" by auto
qed

section \<open>Drift\<close>

text \<open>An observation of drift that nothing acknowledges, signed as it must be.\<close>

definition drift_entry :: audit_entry where
  "drift_entry = \<lparr>timestamp = ''t'', agent_id = ''a'', tool = ''registry'', action = Some ''x'', input_hash = [], output_tokens = 0,
     role = ''system'', event_type = AgentDriftDetected, prev_hash = ''genesis'',
     entry_hash = compute_entry_hash audit_demo ''genesis'' (enc (hashed_object (JString ''a'') (JString ''registry'') (JString ''x'') (JString [])
       (JNumber (show_nat 0)) (JString ''system'') (JString ''agent_drift_detected''))),
     signature = Some (hex_encode (replicate 64 (CHR ''s'')))\<rparr>"

lemma drift_entry_follows: "follows audit_demo ''genesis'' drift_entry"
  by (simp add: follows_def drift_entry_def entry_hashed_def writable_def signature_ok_def is_seal_def u32_max_def hex_encode_props(3))

lemma drift_verifies:
  "advance_all audit_demo (map (\<lambda>e. Ok (entry_json e)) [drift_entry]) genesis = Ok (fold apply_entry [drift_entry] genesis)"
  using advance_entry [of audit_demo genesis drift_entry] drift_entry_follows by (simp add: genesis_def)

theorem drift_pending_until_named_witness:
  "latest_unacknowledged_drift (Valid (fold apply_entry [drift_entry] genesis)) ''a''
     = Ok (Some (''t'', ''x observation='' @ entry_hash drift_entry))"
proof -
  have "drift_evidence ''a'' drift_entry = Some (''x observation='' @ entry_hash drift_entry)"
    by (simp add: drift_evidence_def drift_entry_def)
  moreover have "output_tokens drift_entry \<le> u32_max \<and> writable (event_type drift_entry)" "timestamp drift_entry = ''t''"
    by (simp_all add: drift_entry_def writable_def u32_max_def)
  ultimately show ?thesis
    using drift_pending_until_named [OF drift_verifies, of "''a''" "''t''" "''x observation='' @ entry_hash drift_entry"] by fastforce
qed

section \<open>The window over the tail\<close>

text \<open>A file whose last 64 KiB begin in the middle of a two-byte character.\<close>

definition cut_file :: string where
  "cut_file = CHR 0xC3 # CHR 0xA9 # replicate (TAIL - 1) (CHR ''a'')"

theorem tail_window_stops_trail_witness:
  "\<exists>e. try_record audit_demo demo_env \<lparr>active = Some cut_file, sealed_segments = []\<rparr> demo_data
     = (Err e, \<lparr>active = Some cut_file, sealed_segments = []\<rparr>)"
proof (rule tail_window_stops_trail)
  show "active \<lparr>active = Some cut_file, sealed_segments = []\<rparr> = Some cut_file" by simp
  have "length cut_file = TAIL + 1" by (simp add: cut_file_def TAIL_def)
  then show "TAIL < length cut_file" "cont (cut_file ! (length cut_file - TAIL))" by (simp_all add: cut_file_def byte_def)
qed

end
