(* ===== verification/Bundle_Witnesses.thy ===== *)
theory Bundle_Witnesses
  imports Bundle_Props Audit_Witnesses
begin

text \<open>Evidence bundles at a concrete input: the bundle of a trail with one entry.\<close>

fun stored_entry :: "string \<times> json \<Rightarrow> zip_entry" where
  "stored_entry (p, JString s) = ZipEntry (Ok p) (length s) (Some s)"
| "stored_entry (p, _) = Unreadable ''no file''"

definition demo_zip :: "(string \<times> string) list \<Rightarrow> string" where
  "demo_zip files = enc (JObject (map (\<lambda>f. (fst f, JString (snd f))) files))"

definition bundle_demo :: bundle_codec where
  "bundle_demo = \<lparr>rfc3339_instant = (\<lambda>_. Ok 0),
     parse_json = (\<lambda>l. case demo_parse l of Some v \<Rightarrow> Ok (sort_json v) | None \<Rightarrow> Err ''expected value''), lossy = id,
     base64 = (\<lambda>_. replicate 87 (CHR ''A'') @ ''=''),
     zip_write = (\<lambda>files. if distinct (map fst files) then Ok (demo_zip files) else Err ''Duplicate filename''),
     unzip_entries = (\<lambda>raw. case demo_parse raw of Some (JObject fs) \<Rightarrow> Ok (map stored_entry fs) | _ \<Rightarrow> Err ''invalid archive''),
     key_ok = (\<lambda>_. True), ed25519 = (\<lambda>_ _ s. length s = 64)\<rparr>"

lemma bundle_demo_sel [simp]:
  "rfc3339_instant bundle_demo s = Ok 0" "lossy bundle_demo s = s" "base64 bundle_demo s = replicate 87 (CHR ''A'') @ ''=''"
  "zip_write bundle_demo files = (if distinct (map fst files) then Ok (demo_zip files) else Err ''Duplicate filename'')"
  "key_ok bundle_demo k" "ed25519 bundle_demo k h g \<longleftrightarrow> length g = 64"
  "parse_json bundle_demo (enc v) = Ok (sort_json v)"
  by (simp_all add: bundle_demo_def demo_parse_enc)

lemma unzip_demo: "unzip_entries bundle_demo (demo_zip files) = Ok (map (\<lambda>(p, s). ZipEntry (Ok p) (length s) (Some s)) files)"
  by (simp add: bundle_demo_def demo_zip_def demo_parse_enc case_prod_unfold o_def del: enc.simps)

lemma bundle_demo_laws: "bundle_laws audit_demo bundle_demo"
  unfolding bundle_laws_def Let_def by (simp add: unzip_demo byte_def list_all_iff split: if_splits)

lemma key_demo_laws: "key_laws audit_demo bundle_demo demo_key"
  by (simp add: key_laws_def demo_key_def)

definition demo_spec :: bundle_spec where
  "demo_spec = \<lparr>spec_from = ''2026-05-01T00:00:00Z'', spec_to = ''2026-06-01T00:00:00Z'', spec_out = None\<rparr>"

definition demo_bundle_env :: bundle_env where
  "demo_bundle_env = \<lparr>policy_files = Ok [(''policies/p.json'', ''{}'')], framework_report = None, project_name = ''p'',
     keypair = Ok (demo_key, \<lambda>_. replicate 64 (CHR ''s'')), out_error = None\<rparr>"

definition demo_payload_files :: "(string \<times> string) list" where
  "demo_payload_files = [(''audit/trail.jsonl'', demo_text), (''policies/p.json'', ''{}'')]"

definition demo_manifest :: json where
  "demo_manifest = sealed_manifest audit_demo demo_bundle_env demo_spec demo_payload_files (1, ''genesis'', entry_hash demo_entry) demo_key
     (replicate 87 (CHR ''A'') @ ''='')"

definition demo_files :: "(string \<times> string) list" where
  "demo_files = [(''audit/trail.jsonl'', demo_text), (''manifest.json'', enc demo_manifest), (''policies/p.json'', ''{}'')]"

lemma demo_sorted:
  "sort_key fst ((''audit/trail.jsonl'', demo_text) # [(''policies/p.json'', ''{}'')] @ []) = demo_payload_files"
  "sort_key fst ((''manifest.json'', enc demo_manifest) # demo_payload_files) = demo_files"
  by (simp_all add: demo_payload_files_def demo_files_def)

lemma demo_dated: "dated bundle_demo (\<lambda>_. 0) [demo_entry]"
  by (simp add: dated_def demo_entry_def u32_max_def writable_def)

lemma demo_represents: "represents audit_demo demo_trail [] (Some [demo_entry])"
  using demo_entry_follows by (simp add: represents_def demo_trail_def)

lemma demo_exported: "export_segment audit_demo bundle_demo 0 0 demo_text = Ok (demo_text, 1, ''genesis'', entry_hash demo_entry)"
proof -
  have "str_lines demo_text = [enc (entry_json demo_entry)]"
    using str_lines_text [OF demo_laws, of "[demo_entry]"] by (simp add: demo_text_def)
  moreover have "prev_hash demo_entry = ''genesis''" by (simp add: demo_entry_def)
  moreover have "demo_text = enc (entry_json demo_entry) @ [CHR 0x0A]" by (simp add: demo_text_def line_of_def)
  ultimately show ?thesis
    using export_lines_entries [OF demo_laws demo_dated, of 0 0 1]
    by (simp add: export_segment_def in_period_def take_entry_def del: export_lines.simps)
qed

lemma demo_bundle_read: "read_trail_since audit_demo bundle_demo demo_trail (Some 0) = Ok (Some demo_text)"
  using join_files_texts [OF demo_laws, of "[[demo_entry]]" "[]"]
  by (simp add: read_trail_since_def trail_files_since_def demo_trail_def demo_text_def Let_def del: join_files.simps)

lemma demo_signed:
  "signed_manifest audit_demo bundle_demo (manifest_json audit_demo demo_spec (project_name demo_bundle_env)
     (map_option fst (framework_report demo_bundle_env)) demo_payload_files (1, ''genesis'', entry_hash demo_entry))
     (demo_key, \<lambda>_. replicate 64 (CHR ''s'')) = Ok demo_manifest"
proof -
  have ex: "\<exists>x. manifest_without_signature (manifest_json c spec project framework files chain (signing_json key digest [])) = Inr x"
    for c spec project framework files chain key digest
    by (simp add: manifest_without_signature_def manifest_json_def signing_json_def jobj_def text_signature_def)
  let ?M = "\<lambda>digest. manifest_json audit_demo demo_spec (project_name demo_bundle_env)
     (map_option fst (framework_report demo_bundle_env)) demo_payload_files (1, ''genesis'', entry_hash demo_entry)
     (signing_json (hex_encode demo_key) digest [])"
  obtain x y where "manifest_without_signature (?M (bundle_sha256_hex audit_demo (enc (?M [])))) = Inr (x, y)"
    using ex by (metis surj_pair)
  then show ?thesis
    by (simp add: signed_manifest_def Let_def sign_manifest_def demo_manifest_def sealed_manifest_def canonical_serialize_def del: One_nat_def)
qed

lemma demo_assembled:
  "\<exists>res. assemble_bundle audit_demo bundle_demo demo_bundle_env demo_spec (demo_text, 1, ''genesis'', entry_hash demo_entry)
     = Ok (res, demo_zip demo_files)"
proof -
  have "payload_files audit_demo demo_bundle_env demo_text = Ok demo_payload_files"
    using demo_sorted(1) by (simp add: payload_files_def demo_bundle_env_def coverage_files_def)
  moreover have "bundle_manifest audit_demo bundle_demo demo_bundle_env demo_spec demo_payload_files (1, ''genesis'', entry_hash demo_entry)
      = Ok demo_manifest"
    using demo_signed by (simp add: bundle_manifest_def demo_bundle_env_def)
  moreover have "canonical_serialize audit_demo demo_manifest = enc demo_manifest"
    by (simp add: demo_manifest_def sealed_manifest_def Let_def canonical_serialize_def)
  moreover have "distinct (map fst demo_files)" by (simp add: demo_files_def)
  ultimately show ?thesis using demo_sorted(2)
    by (simp add: assemble_bundle_def write_bundle_def demo_bundle_env_def del: sort_key_simps)
qed

lemma demo_generated:
  "\<exists>res. generate_with audit_demo bundle_demo demo_bundle_env demo_trail demo_spec = Ok (res, demo_zip demo_files)"
  using demo_assembled by (simp add: generate_with_def demo_bundle_read demo_exported)

section \<open>The archive is small\<close>

lemma demo_lengths: "length demo_text \<le> 10000" "length (enc demo_manifest) \<le> 10000"
proof -
  have show_nat: "length (show_nat 7) = 1" "length (show_nat 1) = 1" by ((subst show_nat.simps)?, simp)+
  note hex = hex_encode_props(1) length_demo_sha
  have "length (entry_hash demo_entry) = 64" by (simp add: demo_entry_def length_entry_hash length_demo_sha)
  then show "length demo_text \<le> 10000"
    by (simp add: demo_text_def line_of_def entry_json_def hex) (simp add: demo_entry_def show_nat)
  have "length (bundle_sha256_hex audit_demo s) = 64" for s by (simp add: bundle_sha256_hex_def hex)
  then show "length (enc demo_manifest) \<le> 10000"
    using \<open>length (entry_hash demo_entry) = 64\<close>
    by (simp add: demo_manifest_def sealed_manifest_def Let_def manifest_json_def signing_json_def manifest_files_def jobj_def hex
        demo_payload_files_def demo_bundle_env_def demo_spec_def demo_key_def show_nat del: One_nat_def)
qed

lemma demo_zip_inject: "demo_zip files = demo_zip files' \<Longrightarrow> files = files'"
proof -
  assume "demo_zip files = demo_zip files'"
  then have "demo_parse (demo_zip files) = demo_parse (demo_zip files')" by simp
  then have "map (\<lambda>f. (fst f, JString (snd f))) files = map (\<lambda>f. (fst f, JString (snd f))) files'"
    unfolding demo_zip_def demo_parse_enc by simp
  then show ?thesis by (rule map_injective) (auto intro: injI prod_eqI)
qed

lemma demo_fits: "zip_write bundle_demo files = Ok (demo_zip demo_files) \<Longrightarrow> fits DEFAULT_ARCHIVE_LIMITS files"
  using demo_lengths by (auto simp: fits_def demo_files_def DEFAULT_ARCHIVE_LIMITS_def split: if_splits dest!: demo_zip_inject)

lemma demo_archive_size: "length (demo_zip demo_files) \<le> raw_bytes DEFAULT_ARCHIVE_LIMITS"
  using demo_lengths by (simp add: demo_zip_def demo_files_def hex_encode_props(1) DEFAULT_ARCHIVE_LIMITS_def)

lemma demo_signature: "\<forall>key sign m. keypair demo_bundle_env = Ok (key, sign) \<longrightarrow> length (sign m) = 64"
  by (auto simp: demo_bundle_env_def)

lemma demo_report: "\<exists>r. verify_bundle audit_demo bundle_demo (demo_zip demo_files) None = Some r"
proof -
  have prev: "prev_hash demo_entry = ''genesis''" by (simp add: demo_entry_def)
  obtain res where "assemble_bundle audit_demo bundle_demo demo_bundle_env demo_spec
      (text_of audit_demo [demo_entry], length [demo_entry], prev_hash (hd [demo_entry]), entry_hash (last [demo_entry])) = Ok (res, demo_zip demo_files)"
    using demo_assembled by (auto simp: demo_text_def prev)
  from generated_report(3) [OF demo_laws bundle_demo_laws _ _ this _ key_demo_laws]
  show ?thesis using demo_entry_follows demo_fits demo_archive_size by (fastforce simp: prev demo_bundle_env_def)
qed

theorem generated_bundle_refused_witness:
  "\<exists>r. verify_bundle audit_demo bundle_demo (demo_zip demo_files) None = Some r \<and> \<not> report_valid r"
proof -
  obtain r where r: "verify_bundle audit_demo bundle_demo (demo_zip demo_files) None = Some r" using demo_report by blast
  obtain res where "generate_with audit_demo bundle_demo demo_bundle_env demo_trail demo_spec = Ok (res, demo_zip demo_files)"
    using demo_generated by blast
  from generated_bundle_refused [OF bundle_demo_laws this demo_signature r] r show ?thesis by blast
qed

theorem generated_bundle_replays_witness:
  "(\<exists>files. bundle_contents bundle_demo (demo_zip demo_files) = Some files
       \<and> bget files ''audit/trail.jsonl'' = Some (text_of audit_demo [demo_entry]))
   \<and> (\<exists>r. verify_bundle audit_demo bundle_demo (demo_zip demo_files) None = Some r \<and> map status (steps r) = [Pass, Pass, Pass, Fail, Pass])"
proof -
  obtain res where gen: "generate_with audit_demo bundle_demo demo_bundle_env demo_trail demo_spec = Ok (res, demo_zip demo_files)"
    using demo_generated by blast
  have key: "keypair demo_bundle_env = Ok (demo_key, \<lambda>_. replicate 64 (CHR ''s''))" by (simp add: demo_bundle_env_def)
  show ?thesis
    using generated_bundle_replays [OF demo_laws bundle_demo_laws demo_represents, of "\<lambda>_. 0", OF _ _ _ _ gen key key_demo_laws, of 0 0]
      demo_fits demo_archive_size by (auto simp: in_period_def simp del: bundle_demo_sel(4))
qed

section \<open>Two archives under one digest\<close>

text \<open>A digest that cannot collide, and a manifest signed the way the verifier reads it.\<close>

definition plain_demo :: audit_codec where
  "plain_demo = audit_demo\<lparr>au_sha := id\<rparr>"

lemma plain_demo_sel [simp]:
  "au_sha plain_demo = id" "json_text plain_demo = enc" "json_values plain_demo = demo_values"
  "public_key plain_demo = Some demo_key" "verify_signature plain_demo key h s \<longleftrightarrow> length s = 64"
  by (simp_all add: plain_demo_def)

lemma plain_laws: "json_laws plain_demo" "bundle_laws plain_demo bundle_demo" "key_laws plain_demo bundle_demo demo_key"
proof -
  show "json_laws plain_demo" using demo_laws unfolding json_laws_def by simp
  show "bundle_laws plain_demo bundle_demo"
    unfolding bundle_laws_def Let_def by (simp add: unzip_demo byte_def list_all_iff split: if_splits)
  show "key_laws plain_demo bundle_demo demo_key" by (simp add: key_laws_def demo_key_def)
qed

definition plain_entry :: audit_entry where
  "plain_entry = demo_entry\<lparr>entry_hash := compute_entry_hash plain_demo ''genesis'' (enc demo_hashed)\<rparr>"

lemma plain_entry_linked: "linked plain_demo (prev_hash (hd [plain_entry])) [plain_entry]"
  by (simp add: follows_def plain_entry_def demo_entry_def entry_hashed_def demo_hashed_def writable_def signature_ok_def signature_required_def
      is_seal_def u32_max_def)

definition plain_files :: "(string \<times> string) list" where
  "plain_files = [(''audit/trail.jsonl'', text_of plain_demo [plain_entry])]"

definition plain_manifest :: json where
  "plain_manifest = sealed_manifest plain_demo demo_bundle_env demo_spec plain_files (1, ''genesis'', entry_hash plain_entry) demo_key
     (hex_encode (replicate 64 (CHR ''s'')))"

definition plain_archive :: "(string \<times> string) list" where
  "plain_archive = (''manifest.json'', enc plain_manifest) # plain_files"

lemma plain_signature:
  "\<exists>s. verify_manifest_signature plain_demo bundle_demo plain_manifest (hex_encode demo_key) (hex_encode demo_key) = Some s \<and> status s = Pass"
  by (simp add: plain_manifest_def sealed_manifest_def verify_manifest_signature_def Let_def unsigned_manifest_json manifest_fields mk_step_def
      bundle_hex_decode_engine [OF hex_encode_props(3)] sha256_hex_def bundle_sha256_hex_def)

lemma plain_lengths: "length (text_of plain_demo [plain_entry]) \<le> 100000" "length (enc plain_manifest) \<le> 1000000"
proof -
  have show_nat: "length (show_nat 7) = 1" "length (show_nat 1) = 1" by ((subst show_nat.simps)?, simp)+
  note hex = hex_encode_props(1)
  have h: "length (entry_hash plain_entry) \<le> 2000"
    by (simp add: plain_entry_def compute_entry_hash_def hex demo_hashed_def hashed_object_def jobj_def show_nat)
  then show t: "length (text_of plain_demo [plain_entry]) \<le> 100000"
    by (simp add: line_of_def entry_json_def hex) (simp add: plain_entry_def demo_entry_def show_nat)
  have "length (text_of plain_demo [plain_entry]) \<le> 6000"
    using h by (simp add: line_of_def entry_json_def hex) (simp add: plain_entry_def demo_entry_def show_nat)
  then show "length (enc plain_manifest) \<le> 1000000"
    using h by (simp add: plain_manifest_def sealed_manifest_def Let_def manifest_json_def signing_json_def manifest_files_def jobj_def hex
        bundle_sha256_hex_def plain_files_def demo_bundle_env_def demo_spec_def demo_key_def show_nat del: One_nat_def)
qed

lemma plain_fits:
  assumes "extra \<in> {[], [(''slo/x'', ''1'')]}"
  shows "distinct (map fst (plain_archive @ extra))" "fits DEFAULT_ARCHIVE_LIMITS (plain_archive @ extra)"
    "length (demo_zip (plain_archive @ extra)) \<le> raw_bytes DEFAULT_ARCHIVE_LIMITS"
    "\<forall>f\<in>set (plain_archive @ extra). f \<in> set plain_files \<or> outside_inventory (fst f)"
proof -
  from assms consider "extra = []" | "extra = [(''slo/x'', ''1'')]" by blast
  note extra = this
  show "distinct (map fst (plain_archive @ extra))" by (rule extra) (simp_all add: plain_archive_def plain_files_def)
  show "fits DEFAULT_ARCHIVE_LIMITS (plain_archive @ extra)"
    by (rule extra) (use plain_lengths in \<open>simp_all add: plain_archive_def plain_files_def fits_def DEFAULT_ARCHIVE_LIMITS_def\<close>)
  show "length (demo_zip (plain_archive @ extra)) \<le> raw_bytes DEFAULT_ARCHIVE_LIMITS"
    by (rule extra)
      (use plain_lengths in \<open>simp_all add: plain_archive_def plain_files_def demo_zip_def hex_encode_props(1) DEFAULT_ARCHIVE_LIMITS_def\<close>)
  show "\<forall>f\<in>set (plain_archive @ extra). f \<in> set plain_files \<or> outside_inventory (fst f)"
    by (rule extra) (simp_all add: plain_archive_def outside_inventory_def RESERVED_DIRS_def starts_with_def)
qed

lemma plain_report:
  assumes "extra \<in> {[], [(''slo/x'', ''1'')]}"
  defines "all \<equiv> plain_archive @ extra"
  shows "\<exists>r. verify_bundle plain_demo bundle_demo (demo_zip all) None = Some r \<and> report_valid r"
    and "bundle_contents bundle_demo (demo_zip all) = Some (fold (\<lambda>(p, s). binsert p s) all bempty)"
    and "bundle_root bundle_demo (demo_zip all) = Some plain_manifest"
proof -
  note fit = plain_fits [OF assms(1), folded all_def]
  have zip: "zip_write bundle_demo all = Inr (demo_zip all)" using fit(1) by simp
  obtain s where s: "verify_manifest_signature plain_demo bundle_demo plain_manifest (hex_encode demo_key) (hex_encode demo_key) = Some s"
    "status s = Pass" using plain_signature by blast
  have m: "plain_manifest = sealed_manifest plain_demo demo_bundle_env demo_spec plain_files
      (length [plain_entry], prev_hash (hd [plain_entry]), entry_hash (last [plain_entry])) demo_key (hex_encode (replicate 64 (CHR ''s'')))"
    by (simp add: plain_manifest_def plain_entry_def demo_entry_def)
  have files: "(''audit/trail.jsonl'', text_of plain_demo [plain_entry]) \<in> set plain_files" "set plain_files \<subseteq> set all"
    "(''manifest.json'', json_text plain_demo plain_manifest) \<in> set all"
    by (auto simp: plain_files_def all_def plain_archive_def)
  from packed_report [OF plain_laws(1,2) plain_entry_linked _ plain_laws(3) m files fit(4) zip fit(2,3) s(1)] s(2)
  show "\<exists>r. verify_bundle plain_demo bundle_demo (demo_zip all) None = Some r \<and> report_valid r" by auto
  have "read_entries DEFAULT_ARCHIVE_LIMITS 0 0 (map (\<lambda>(p, s). ZipEntry (Ok p) (length s) (Some s)) all) bempty
      = Inr (fold (\<lambda>(p, s). binsert p s) all bempty)"
    using fit(2) by (intro read_stored) (auto simp: fits_def DEFAULT_ARCHIVE_LIMITS_def u64_max_def)
  then show contents: "bundle_contents bundle_demo (demo_zip all) = Some (fold (\<lambda>(p, s). binsert p s) all bempty)"
    by (simp add: bundle_contents_def unzip_demo)
  have "bget (fold (\<lambda>(p, s). binsert p s) all bempty) ''manifest.json'' = Some (enc plain_manifest)"
    using fit(1) files(3) by (simp add: bget_fold_binsert)
  then show "bundle_root bundle_demo (demo_zip all) = Some plain_manifest"
    using contents by (simp add: bundle_root_def plain_manifest_def sealed_manifest_def Let_def)
qed

text \<open>The archive with and without a file in a reserved directory.\<close>

theorem valid_bundles_agree_witness:
  "bget (fold (\<lambda>(p, s). binsert p s) (plain_archive @ [(''slo/x'', ''1'')]) bempty) ''audit/trail.jsonl''
     = bget (fold (\<lambda>(p, s). binsert p s) (plain_archive @ []) bempty) ''audit/trail.jsonl''"
proof -
  let ?x = "[(''slo/x'', ''1'')] :: (string \<times> string) list"
  have x: "?x \<in> {[], ?x}" "[] \<in> {[], ?x}" by simp_all
  obtain r where r: "verify_bundle plain_demo bundle_demo (demo_zip (plain_archive @ ?x)) None = Some r" "report_valid r"
    using plain_report(1) [OF x(1)] by blast
  obtain r' where r': "verify_bundle plain_demo bundle_demo (demo_zip (plain_archive @ [])) None = Some r'" "report_valid r'"
    using plain_report(1) [OF x(2)] by blast
  have "inj_on enc A" for A by (rule inj_onI) (metis demo_parse_enc option.inject)
  then show ?thesis
    by (intro valid_bundles_agree [OF r r' plain_report(2) [OF x(1)] plain_report(2) [OF x(2)] plain_report(3) [OF x(1)] plain_report(3) [OF x(2)]])
      (simp_all add: outside_inventory_def RESERVED_DIRS_def starts_with_def)
qed

end
