(* ===== verification/Spec2Isabelle.thy ===== *)
theory Spec2Isabelle
  imports Graph_Witnesses Lease_Witnesses Breaker_Laws Workflow Delegation_Witnesses Capsule_Witnesses
    Replay_Witnesses Link_Witnesses Via_Witnesses Bundle_Witnesses
begin

text \<open>
  A verification library for the agent-coordination core of lean-ctx, the part of the program
  that decides what several agents may do at once: who may delegate to whom and with which
  budget, which agent holds which path, whose signed request is carried out, which provider a
  request is routed to, and which tools a workflow state opens; with the two parts that keep this
  accountable, the audit trail and the evidence bundles made from it, and the protocol between
  the local Edge and the optimizer Via. Paths below are relative to \<open>src/rust/\<close>.

  \<^bold>\<open>The parts and how they interact.\<close> The work graph
  (\<open>crates/lean-ctx-workgraph/src/work_graph.rs\<close>, \<open>work_graph/graph_ops.rs\<close>,
  \<open>work_graph/control_ops.rs\<close>) is a bounded forest of nodes, one per delegated task, with token
  and cost budgets, execution fences, receipts and an accepted path; \<open>budget_cascade.rs\<close> computes
  what a parent hands to a child. The work graph store (\<open>src/core/work_graph_store.rs\<close>) keeps up
  to 32 graphs of one project in a file, re-validates all of them after every mutation, and
  refuses an execution whose path claims overlap those of a live execution of any graph. The
  lease registry (\<open>src/core/agent_lease.rs\<close>) is the machine-wide exclusion on paths, symbols and
  work graph nodes, with bounded waiting; it shares \<open>path_claims_overlap\<close> with the work graph.
  A node is started through the delegation layer (\<open>src/core/work_graph_delegation.rs\<close>,
  \<open>crates/lean-ctx-server/src/tools/ctx_work_graph.rs\<close>), which takes the leases of the node and
  of its path claims and checks the signed context capsule (\<open>src/core/context_capsule.rs\<close>) that the
  root agent handed over. Remote agents act through A2A (\<open>src/core/a2a/task/\<close>): one authority
  decision over a trust policy (\<open>authority.rs\<close>), tasks with a state machine and an idempotent
  store (\<open>model.rs\<close>, \<open>store.rs\<close>), and delegated delivery (\<open>delivery_delegation.rs\<close>,
  \<open>delivery_authority.rs\<close>), whose certificates are valid only for a live execution of the work
  graph store and are checked by the HTTP route
  \<open>crates/lean-ctx/src/http_server/scoped_delivery.rs\<close>. Servers pass payloads on to each other in
  signed envelopes (\<open>src/core/a2a_transport.rs\<close>) that carry a relay record
  (\<open>src/core/a2a/relay.rs\<close>): signed once by its origin, sealed again for each hop, with a chain of
  the peers it passed. The sending side (\<open>src/core/a2a/remote_transport.rs\<close>) posts an envelope with
  bounded attempts and keeps what was not acknowledged as a dead letter
  (\<open>src/core/a2a/dlq.rs\<close>), from where it can be retried. The receiving side
  (\<open>http_server/handlers.rs\<close>) admits a record, charges the quotas of peer, origin, tenant and
  project (\<open>http_server/relay_rate.rs\<close>), spends its proof in a durable ledger
  (\<open>http_server/relay_replay.rs\<close>, reached through \<open>relay_replay_async.rs\<close>), which the delegated route
  shares, and hands it off or passes it on. Direct deliveries without a record have a second
  ledger (\<open>http_server/remote_replay.rs\<close>).
  The circuit breaker (\<open>crates/lean-ctx-protocol/src/circuit_breaker.rs\<close>) routes requests away
  from failing providers. The workflow engine (\<open>src/core/workflow/\<close>) validates state machines
  of a task and gates the tools of each state on evidence.
  What agents do is recorded in the audit trail (\<open>src/core/audit_trail.rs\<close>), a file of hash-chained,
  signed entries that is sealed and moved aside at 64 MiB (\<open>audit_trail/segments.rs\<close>) and verified
  again from a signed checkpoint (\<open>audit_trail/checkpoint.rs\<close>); drift of an agent stays pending in it
  until acknowledged (\<open>src/core/security_events.rs\<close> tallies the rest). A period of the trail is exported as a
  signed archive (\<open>src/core/evidence_bundle.rs\<close>, \<open>src/core/canonical.rs\<close>) that a separate package,
  \<open>packages/leanctx-verify/src/verify.rs\<close> beside \<open>rust/\<close>, verifies without the program. Edge
  describes content and requests to Via and receives plans over
  \<open>crates/lean-ctx-protocol/src/edge_via.rs\<close>, with the identifiers of \<open>identity.rs\<close> and \<open>common.rs\<close>.

  \<^bold>\<open>Theories.\<close>
  \<^item> \<open>Prelude\<close>: results (\<open>Result\<close> is a sum, \<open>ebind\<close> is \<open>?\<close>, \<open>efold\<close>/\<open>efor\<close> are loops that may
    return early), checked and saturating \<open>u64\<close>/\<open>u16\<close> arithmetic on naturals with the bound
    written out, byte strings, reachability, and the interface locales \<open>invariant_machine\<close>
    (a step relation that keeps an invariant) and \<open>overlap_relation\<close> (a symmetric, reflexive
    conflict relation). \<open>Btree_Map\<close>: \<open>BTreeMap\<close> as a type of maps with sorted, duplicate-free
    entries, and the locale \<open>ordered_map\<close> it interprets.
  \<^item> \<open>Budget_Cascade\<close>: \<open>budget_cascade.rs\<close>, including the exact double arithmetic of the
    fraction (a sign, a natural significand and an exponent, rounded to 53 bits, ties to even).
  \<^item> \<open>Work_Graph\<close>: the data of \<open>work_graph.rs\<close>, the validators and \<open>path_claims_overlap\<close>.
    \<open>Control_Ops\<close>: lineage, reservation, stop, consumption and the queries of
    \<open>control_ops.rs\<close>. \<open>Validate_Invariants\<close>: \<open>validate_invariants\<close>, one definition per loop.
    \<open>Graph_Ops\<close>: every operation of \<open>graph_ops.rs\<close> that changes a graph, and the reports.
  \<^item> \<open>Lineage\<close>, \<open>Reserved\<close>, \<open>Invariants\<close>: the declarative reading of a valid graph. Lineages are
    an inductive relation; \<open>reserved_amount\<close> is the sum the worklist of
    \<open>reserved_child_budget\<close> computes; \<open>wf_graph\<close> is the specification that
    \<open>validate_invariants\<close> decides (\<open>validate_invariants_iff\<close>).
  \<^item> \<open>Evolution\<close>: \<open>graph_step\<close>, the step relation of the operations other than the claim of an
    execution, \<open>graph_operation\<close>, which adds that claim, and what none of them ever undoes. \<open>Stop_Cascade\<close>: the recursion of \<open>stop\<close> reaches every descendant.
    \<open>Reports\<close>: what the attribution, the value report and the fused results say.
  \<^item> \<open>Work_Graph_Store\<close>, \<open>Store_Laws\<close>: the store, its step relation, the persistence round
    trip, and mutual exclusion of running executions on overlapping paths.
    \<open>Graph_Witnesses\<close>: concrete graphs and stores on which the properties are applied.
  \<^item> \<open>Agent_Lease\<close>, \<open>Lease_Laws\<close>, \<open>Lease_Props\<close>, \<open>Lease_Paths\<close>, \<open>Lease_Witnesses\<close>: the registry
    with its fairness state, its invariant, the shared registry on disk, and the encoding of
    project paths as lease resources.
  \<^item> \<open>Task_Authority\<close>, \<open>Authority_Laws\<close>: the trust policy, the signed descriptors and \<open>authorize\<close>,
    with the condition it decides. \<open>Task_Model\<close>, \<open>Task_Store\<close>, \<open>Task_Laws\<close>, \<open>Task_Witnesses\<close>: the
    task, its history, the store with its idempotency records, and a late replay that creates a
    second task.
  \<^item> \<open>Context_Capsule\<close>, \<open>Capsule_Laws\<close>, \<open>Capsule_Witnesses\<close>: the capsule manifest, its canonical form
    and identifier, its envelope and its signature.
  \<^item> \<open>Delivery\<close>, \<open>Delivery_Laws\<close>: certificates, signed operations, the authority of a stored
    execution and the decision of the route. \<open>Work_Graph_Delegation\<close>, \<open>Delegation_Laws\<close>,
    \<open>Delegation_Witnesses\<close>: the start of a node and the leases of an incarnation.
  \<^item> \<open>Replay_Interface\<close>: the locale \<open>replay_guard\<close>, what a client of a replay ledger relies on, with
    its consequence that an accepted proof is not accepted again through any sequence of
    operations. \<open>Replay_Ledger\<close>, \<open>Replay_Laws\<close>: the relay ledger and the delivery route that spends a
    nonce before it acts. \<open>Remote_Replay\<close>, \<open>Remote_Laws\<close>: the ledger of direct deliveries and their
    handler. Both ledgers interpret \<open>replay_guard\<close>. \<open>Replay_Witnesses\<close>: concrete deliveries, and a
    clock jump that lets the second ledger accept an envelope twice.
  \<^item> \<open>Relay_Record\<close>, \<open>Relay_Laws\<close>: \<open>relay.rs\<close>, records, chains, peers and their table, and what forwarding
    keeps. \<open>Relay_Rate\<close>: the quotas as token buckets, with the bound and the exact retry hint.
    \<open>Transport\<close>, \<open>Transport_Laws\<close>: the envelope and its signing transcript; the locale
    \<open>self_delimiting\<close> is what makes a field list injective, and every field encoder interprets it.
  \<^item> \<open>Dlq\<close>, \<open>Dlq_Laws\<close>: the dead-letter queue with its three backends, as a step relation over its
    operations. \<open>Remote_Transport\<close>: both modes of sending, the attempts and the retry of a letter.
  \<^item> \<open>A2a_Handlers\<close>, \<open>A2a_Laws\<close>: the relay receiver and the direct route over the two ledgers, with the
    condition admission decides. \<open>Link_Laws\<close>: sender and receiver together. \<open>Relay_Witnesses\<close>,
    \<open>Link_Witnesses\<close>: a record, a link of two servers and their dead letters.
  \<^item> \<open>Circuit_Breaker\<close>, \<open>Breaker_Laws\<close>: the breaker as a state machine over clock readings.
  \<^item> \<open>Workflow\<close>: \<open>types.rs\<close>, \<open>engine.rs\<close>, \<open>gate.rs\<close> and the staleness and stand-in rules of
    \<open>store.rs\<close>.
  \<^item> \<open>Json\<close>: JSON values and the operations of \<open>serde_json\<close> on them; \<open>Json_Codec\<close>: a concrete writer
    and reader with their round trip, on which the witnesses instantiate the JSON parameters;
    \<open>Hex_Laws\<close>: hexadecimal digits.
  \<^item> \<open>Audit_Trail\<close>: entries, appending, sealing and rotation, each write with its outcome.
    \<open>Audit_Verify\<close>: lines, chain state, checkpoints, files, segments and the queries on a verified
    chain. \<open>Audit_Laws\<close>: the laws of the JSON parameters and what one append does. \<open>Audit_Props\<close>:
    the step relation of recording, the entries a trail represents, and its verification.
    \<open>Audit_Resume\<close>: checkpoints, the binding of the head, drift, and the window over the tail.
    \<open>Audit_Witnesses\<close>: a trail that is recorded and verified.
  \<^item> \<open>Evidence_Bundle\<close>: the generator, the canonical manifest and the independent verifier.
    \<open>Bundle_Laws\<close>, \<open>Bundle_Props\<close>: the export of a period, the report on what was generated, and what a
    valid report attests. \<open>Bundle_Witnesses\<close>: an archive that is generated and one that verifies.
  \<^item> \<open>Via_Ids\<close>, \<open>Via_Types\<close>: the identifiers and every message of \<open>edge_via.rs\<close>. \<open>Via_Content\<close>: scopes,
    manifests, accounting, chunks. \<open>Via_Plan\<close>: frames, cursors, candidates, guards, plans, and both
    directions of the wire. \<open>Via_Laws\<close>: the loops over chunks and transitions, with the locale that the
    loops of candidates and of plans both interpret, and the guard transcript as self-delimiting
    fields. \<open>Via_Props\<close>, \<open>Via_Witnesses\<close>: the properties and concrete messages.

  \<^bold>\<open>State and operations.\<close> A struct is a record with the source's fields (prefixed where two
  structs share a name), an enum a datatype with its constructors. A method on \<open>&mut self\<close> takes
  the record and returns the changed one; a \<open>Result\<close> is a sum whose left part is the error, and
  for work graphs also the panics (\<open>expect\<close>, map indexing) and divergence, as values
  \<open>Panic\<close> and \<open>Diverges\<close>. Strings are byte lists, so that \<open>len\<close> is \<open>length\<close>; unsigned integers are
  naturals with each checked, saturating or plain operation of the source written out. Instants
  of the A2A code are integers in nanoseconds, as \<open>chrono\<close> keeps them, and every reading of a
  clock is an argument. A \<open>HashMap\<close> whose order no result depends on is a \<open>btree_map\<close>.

  \<^bold>\<open>Loops and fuel.\<close> \<open>checked_lineage\<close> and \<open>reserved_child_budget\<close> end because each round adds an
  unvisited key (\<open>function\<close> with a measure). \<open>chain_id_for_node\<close> and \<open>node_lineage\<close> follow parent
  links without a visited set and are \<open>partial_function (option)\<close>: \<^const>\<open>None\<close> means the loop does
  not end; they return exactly where \<open>checked_lineage\<close> finds no cycle (\<open>walks_end_iff\<close>). \<open>stop_recursive\<close> has fuel: on a forest every
  call descends to a fresh key of the child index, so one more than the number of keys is
  enough, and \<open>stop_cascades\<close> proves that the whole subtree is stopped, not only that a result,
  if any, is right.

  \<^bold>\<open>Parameters.\<close> BLAKE3 (\<open>hash_hex\<close>, \<open>digest\<close>, \<open>scoped_digest\<close>), JSON encoding and decoding,
  the project hash and case folding are arguments of the definitions that use them, and so are
  canonical JSON, SHA-256, Ed25519 (\<open>ed25519\<close>, \<open>signer\<close>, \<open>key_ok\<close>), the context gateway that admits or
  masks text (\<open>gateway\<close>) and the file system questions of the delivery route. The relay takes HMAC,
  base64, URL parsing, RFC 3339, the answer of the network to each attempt and the answer of the
  handoff worker as arguments (\<open>relay_crypto\<close>, \<open>relay_codec\<close>, \<open>dlq_env\<close>, \<open>transport_env\<close>,
  \<open>handler_env\<close>). Round trips
  assume of the JSON pair only that decoding inverts encoding on the value that is stored. The
  audit trail, the bundles and the protocol take theirs as records (\<open>audit_codec\<close>,
  \<open>checkpoint_codec\<close>, \<open>bundle_codec\<close>, \<open>via_codec\<close>); \<open>json_laws\<close>, \<open>bundle_laws\<close>, \<open>checkpoint_laws\<close>
  and \<open>key_laws\<close> say what is relied on. Where a theorem depends on SHA-256 not colliding, it says on
  which texts.

  \<^bold>\<open>Writes that fail.\<close> What becomes of a write is an argument too. The files of the store and of the
  direct ledger are replaced by a rename (\<open>file_write\<close>): an error may come before it, with the old
  content kept, or from the synchronisation of the directory after it, with the new content in place. The two
  files of the lease registry are written one after the other, each in a way that may fail or,
  overwritten in place, be torn (\<open>lease_write\<close>). The appends of the audit trail fail undone or torn
  (\<open>write_outcome\<close>). The writes of the dead-letter queue and of the task store are taken to succeed; they
  go through a renamed file as well, so that one that fails leaves the old file or the new one.

  \<^bold>\<open>What the lemmas show.\<close> The validator decides the declarative invariant, and reserved budgets
  are exact; no operation moves a node backwards in its life cycle, loses consumption or a
  receipt; stopping reaches every descendant; the store file only ever holds validated graphs,
  whichever write fails, is read back as it was written, and no two live executions of one project hold overlapping
  paths at any reachable state. Two live leases never overlap; waiting is fair; release, renewal
  and fence release touch only their own leases; the shared registry refines the one in memory,
  and a failed write leaves no leases that neither the old nor the new registry has.
  The authority check decides a condition that names no order of checks; a task's history is
  a run of its state machine, an open task can always be ended, and a descriptor creates one task
  while it is valid. Authority derived from a delegation certificate belongs to one live
  execution, is narrower than the host's and ends when the node or an ancestor is stopped. The
  leases of a start are exclusive, agree with the path claims of the graph, and are gone after an
  abort. A relay proof is accepted once whatever the clock reads, so that the delivery route executes
  a signed authority once; an envelope of a direct delivery is reserved and handed off once while no
  request reads a clock beyond the retention, and afterwards only a completed task control request reaches the worker
  again; the tables of the relay ledger stay within their limits, a
  stored response reaches only the delivery it answers, and a replaced database is refused. A
  relayed payload is acted on only with the authority of its peer and its origin and only once, a
  duplicate of a task gets the answer of the first, and what a sender that shares
  bearer and channel key posts is admitted exactly under conditions on limits, scope, origin and deadline.
  Forwarding visits distinct peers within the signed limit and keeps the origin's signature
  verifiable; an envelope signature binds every authenticated field; no requests exceed the quotas.
  A dead letter is written exactly for an unacknowledged delivery, its scope stays isolated and
  readable while recorded instants do not run backwards (and locks up when they do), and a
  retried letter, of the single recipient or of a peer, is recognised as the delivery it was. A
  capsule identifier stands for the manifest, and a signed capsule verifies.
  A breaker opens exactly at its threshold, denies while open, bounds its probes and keeps
  circuits apart. The workflow validator decides a declarative specification, a transition needs
  its evidence, and the tool gate decides as documented apart from the recorded divergences.
  Whatever was recorded in the audit trail under one key, with failed appends rolled back, verifies, its
  head hash binds the hashed part of every entry of all its files (not timestamps and signatures), a resumed
  verification gives the verdict of a full one, and drift is reported until its evidence is
  named; but a tail window that begins inside a character stops the trail for good. An exported
  bundle holds exactly the entries of its period, where their timestamps are in order, and replays in the independent verifier up to the manifest
  signature, on which generator and verifier disagree, so that none is accepted; two archives
  that are accepted under one signed digest agree. Content fetched from Edge is the content its
  manifest describes, a plan runs on the state it was made for, every selection of admitted
  candidates is a plan that shortens the request, a stream has no gaps, messages survive the
  wire, and the strict decoder admits no repeated key.

  \<^bold>\<open>Not modelled.\<close> File system calls (locks, symbolic link checks, permissions, temporary files), a segment list that
  changes while \<open>read_trail_since\<close> reads, the
  JSON observation of a graph, \<open>utilization_pct\<close> and \<open>over_budget_chains\<close> (double division), the
  production of signatures other than a capsule's, \<open>reject_shared_secret\<close>, the issuer of child
  profiles (it reads keys and files), the registry behind the delivery route, the handoff worker
  and the resend on the local agent bus (arguments), the schema text, migration and page accounting of
  the relay ledger, the migration of the single-file dead-letter store, HTTP clients, the listings
  of audit entries for display, the bundle of single artifacts, policy and framework assessments
  (their texts are arguments), receipts of version 2, and
  the rest of lean-ctx: the MCP server and its other tools, the proxy, the CLI, the compression and
  syntax layers, knowledge and memory stores, the dashboard and the SDK bindings.

  \<^bold>\<open>Plan.\<close> Next: preservation of \<open>wf_graph\<close> by each graph operation, the other actions of
  \<open>ctx_work_graph\<close>, the handoff worker, loop detection, receipts of version 2, the context gateway, the rate limiter of the HTTP server and the
  token-budget policies.
\<close>

end
